(* ===== verification/Prelude.thy ===== *)
theory Prelude
  imports Complex_Main "HOL-Library.AList" "HOL-Library.List_Lexorder" "HOL-Library.Char_ord"
begin

text \<open>
  Shared vocabulary of the development.

  \<^item> Python dictionaries are association lists with \<open>map_of\<close> for \<open>d.get(k)\<close> and
    \<open>AList.update\<close> for \<open>d[k] = v\<close>, which keeps the position of an existing key and appends a
    new one, as a Python dictionary does.
  \<^item> A method that reads and writes an object and may raise is a program of type
    \<open>('s, 'e, 'a) prog\<close>: it maps the state to an outcome (\<open>Inl\<close> the exception, \<open>Inr\<close> the
    result) together with the state left behind. An exception keeps the state reached so far;
    only a database transaction undoes it.
  \<^item> \<open>wp\<close> is the weakest precondition of such a program, with one postcondition for a normal
    return and one for an exception; its equations for the combinators are collected in
    \<open>wp_simps\<close>.
\<close>

named_theorems wp_simps
named_theorems dict_simps
named_theorems keeps_intros

subsection \<open>Programs with state and exceptions\<close>

type_synonym ('s, 'e, 'a) prog = "'s \<Rightarrow> ('e + 'a) \<times> 's"

definition returnE :: "'a \<Rightarrow> ('s, 'e, 'a) prog" where
  "returnE a = (\<lambda>s. (Inr a, s))"

definition raiseE :: "'e \<Rightarrow> ('s, 'e, 'a) prog" where
  "raiseE e = (\<lambda>s. (Inl e, s))"

definition bindE :: "('s, 'e, 'a) prog \<Rightarrow> ('a \<Rightarrow> ('s, 'e, 'b) prog) \<Rightarrow> ('s, 'e, 'b) prog" where
  "bindE m f = (\<lambda>s. case m s of (Inl e, s') \<Rightarrow> (Inl e, s') | (Inr a, s') \<Rightarrow> f a s')"

definition thenE :: "('s, 'e, 'a) prog \<Rightarrow> ('s, 'e, 'b) prog \<Rightarrow> ('s, 'e, 'b) prog" where
  "thenE m n = bindE m (\<lambda>_. n)"

definition getsE :: "('s \<Rightarrow> 'a) \<Rightarrow> ('s, 'e, 'a) prog" where
  "getsE f = (\<lambda>s. (Inr (f s), s))"

definition modifyE :: "('s \<Rightarrow> 's) \<Rightarrow> ('s, 'e, unit) prog" where
  "modifyE f = (\<lambda>s. (Inr (), f s))"

text \<open>\<open>raise_if b e\<close> is the source's \<open>if b: raise e\<close>.\<close>

definition raise_if :: "bool \<Rightarrow> 'e \<Rightarrow> ('s, 'e, unit) prog" where
  "raise_if b e = (if b then raiseE e else returnE ())"

text \<open>\<open>liftE r\<close> runs a pure computation that may raise.\<close>

definition liftE :: "'e + 'a \<Rightarrow> ('s, 'e, 'a) prog" where
  "liftE r = (\<lambda>s. (r, s))"

text \<open>\<open>catchE m h\<close> is \<open>try: m except Exception as e: h(e)\<close>.\<close>

definition catchE :: "('s, 'e, 'a) prog \<Rightarrow> ('e \<Rightarrow> ('s, 'e, 'a) prog) \<Rightarrow> ('s, 'e, 'a) prog" where
  "catchE m h = (\<lambda>s. case m s of (Inl e, s') \<Rightarrow> h e s' | (Inr a, s') \<Rightarrow> (Inr a, s'))"

text \<open>\<open>forE xs f\<close> is \<open>for x in xs: f(x)\<close>; the first exception ends it.\<close>

fun forE :: "'a list \<Rightarrow> ('a \<Rightarrow> ('s, 'e, unit) prog) \<Rightarrow> ('s, 'e, unit) prog" where
  "forE [] f = returnE ()"
| "forE (x # xs) f = thenE (f x) (forE xs f)"

definition wp :: "('s, 'e, 'a) prog \<Rightarrow> ('a \<Rightarrow> 's \<Rightarrow> bool) \<Rightarrow> ('e \<Rightarrow> 's \<Rightarrow> bool) \<Rightarrow> 's \<Rightarrow> bool" where
  "wp m Q E s = (case m s of (Inl e, s') \<Rightarrow> E e s' | (Inr a, s') \<Rightarrow> Q a s')"

lemma wp_return [wp_simps]: "wp (returnE a) Q E s = Q a s"
  by (simp add: wp_def returnE_def)

lemma wp_raise [wp_simps]: "wp (raiseE e) Q E s = E e s"
  by (simp add: wp_def raiseE_def)

lemma wp_bind [wp_simps]: "wp (bindE m f) Q E s = wp m (\<lambda>a. wp (f a) Q E) E s"
  by (simp add: wp_def bindE_def split: prod.splits sum.splits)

lemma wp_then [wp_simps]: "wp (thenE m n) Q E s = wp m (\<lambda>_. wp n Q E) E s"
  by (simp add: thenE_def wp_bind)

lemma wp_gets [wp_simps]: "wp (getsE f) Q E s = Q (f s) s"
  by (simp add: wp_def getsE_def)

lemma wp_modify [wp_simps]: "wp (modifyE f) Q E s = Q () (f s)"
  by (simp add: wp_def modifyE_def)

lemma wp_raise_if [wp_simps]: "wp (raise_if b e) Q E s = (if b then E e s else Q () s)"
  by (simp add: raise_if_def wp_simps)

lemma wp_lift [wp_simps]: "wp (liftE r) Q E s = (case r of Inl e \<Rightarrow> E e s | Inr a \<Rightarrow> Q a s)"
  by (simp add: wp_def liftE_def split: sum.splits)

lemma wp_catch [wp_simps]: "wp (catchE m h) Q E s = wp m Q (\<lambda>e. wp (h e) Q E) s"
  by (simp add: wp_def catchE_def split: prod.splits sum.splits)

lemma wp_if [wp_simps]: "wp (if b then m else n) Q E s = (if b then wp m Q E s else wp n Q E s)"
  by simp

lemma wp_case_option [wp_simps]:
  "wp (case x of None \<Rightarrow> m | Some a \<Rightarrow> f a) Q E s =
     (case x of None \<Rightarrow> wp m Q E s | Some a \<Rightarrow> wp (f a) Q E s)"
  by (simp split: option.splits)

lemma wp_case_sum [wp_simps]:
  "wp (case x of Inl e \<Rightarrow> m e | Inr a \<Rightarrow> f a) Q E s =
     (case x of Inl e \<Rightarrow> wp (m e) Q E s | Inr a \<Rightarrow> wp (f a) Q E s)"
  by (simp split: sum.splits)

lemma wp_case_prod [wp_simps]:
  "wp (case x of (a, b) \<Rightarrow> f a b) Q E s = (case x of (a, b) \<Rightarrow> wp (f a b) Q E s)"
  by (simp split: prod.splits)

lemma wp_mono:
  assumes "wp m Q E s"
    and "\<And>a s'. Q a s' \<Longrightarrow> Q' a s'" and "\<And>e s'. E e s' \<Longrightarrow> E' e s'"
  shows "wp m Q' E' s"
  using assms by (auto simp: wp_def split: prod.splits sum.splits)

lemma wp_result: "wp m Q E s \<Longrightarrow> m s = (Inr a, s') \<Longrightarrow> Q a s'"
  by (simp add: wp_def)

lemma wp_error: "wp m Q E s \<Longrightarrow> m s = (Inl e, s') \<Longrightarrow> E e s'"
  by (simp add: wp_def)

lemma wpI:
  assumes "\<And>a s'. m s = (Inr a, s') \<Longrightarrow> Q a s'" and "\<And>e s'. m s = (Inl e, s') \<Longrightarrow> E e s'"
  shows "wp m Q E s"
  using assms by (auto simp: wp_def split: prod.splits sum.splits)

lemma wp_conj:
  "wp m Q E s \<Longrightarrow> wp m Q' E' s \<Longrightarrow> wp m (\<lambda>a s'. Q a s' \<and> Q' a s') (\<lambda>e s'. E e s' \<and> E' e s') s"
  by (simp add: wp_def split: prod.splits sum.splits)

text \<open>A loop keeps what its body keeps.\<close>

lemma wp_for_invariant:
  assumes body: "\<And>x s. x \<in> set xs \<Longrightarrow> I s \<Longrightarrow> wp (f x) (\<lambda>_. I) (\<lambda>_. I) s" and start: "I s"
  shows "wp (forE xs f) (\<lambda>_. I) (\<lambda>_. I) s"
  using assms
proof (induction xs arbitrary: s)
  case Nil
  then show ?case by (simp add: wp_simps)
next
  case (Cons x xs)
  from Cons.prems have "wp (f x) (\<lambda>_. I) (\<lambda>_. I) s" by simp
  then have "wp (f x) (\<lambda>_. wp (forE xs f) (\<lambda>_. I) (\<lambda>_. I)) (\<lambda>_. I) s"
    by (rule wp_mono) (use Cons in auto)
  then show ?case by (simp add: wp_simps)
qed

text \<open>A program keeps a property of the state, whatever its outcome.\<close>

definition keeps :: "('s \<Rightarrow> bool) \<Rightarrow> ('s, 'e, 'a) prog \<Rightarrow> bool" where
  "keeps I m \<longleftrightarrow> (\<forall>s. I s \<longrightarrow> wp m (\<lambda>_. I) (\<lambda>_. I) s)"

lemma keepsI: "(\<And>s. I s \<Longrightarrow> wp m (\<lambda>_. I) (\<lambda>_. I) s) \<Longrightarrow> keeps I m"
  by (simp add: keeps_def)

lemma keepsD: "keeps I m \<Longrightarrow> I s \<Longrightarrow> wp m (\<lambda>_. I) (\<lambda>_. I) s"
  by (simp add: keeps_def)

lemma keeps_snd: "keeps I m \<Longrightarrow> I s \<Longrightarrow> I (snd (m s))"
  by (cases "m s"; cases "fst (m s)") (auto simp: keeps_def wp_def)

lemma keeps_return [keeps_intros]: "keeps I (returnE a)"
  by (simp add: keeps_def wp_simps)

lemma keeps_raise [keeps_intros]: "keeps I (raiseE e)"
  by (simp add: keeps_def wp_simps)

lemma keeps_gets [keeps_intros]: "keeps I (getsE f)"
  by (simp add: keeps_def wp_simps)

lemma keeps_raise_if [keeps_intros]: "keeps I (raise_if b e)"
  by (simp add: keeps_def wp_simps)

lemma keeps_lift [keeps_intros]: "keeps I (liftE r)"
  by (simp add: keeps_def wp_simps split: sum.splits)

lemma keeps_bind [keeps_intros]: "keeps I m \<Longrightarrow> (\<And>a. keeps I (f a)) \<Longrightarrow> keeps I (bindE m f)"
  by (auto simp: keeps_def wp_bind elim!: wp_mono)

lemma keeps_then [keeps_intros]: "keeps I m \<Longrightarrow> keeps I n \<Longrightarrow> keeps I (thenE m n)"
  unfolding thenE_def by (rule keeps_bind)

lemma keeps_catch [keeps_intros]: "keeps I m \<Longrightarrow> (\<And>e. keeps I (h e)) \<Longrightarrow> keeps I (catchE m h)"
  by (auto simp: keeps_def wp_catch elim!: wp_mono)

lemma keeps_if [keeps_intros]: "(b \<Longrightarrow> keeps I m) \<Longrightarrow> (\<not> b \<Longrightarrow> keeps I n) \<Longrightarrow> keeps I (if b then m else n)"
  by simp

lemma keeps_case_option [keeps_intros]:
  "(x = None \<Longrightarrow> keeps I m) \<Longrightarrow> (\<And>a. x = Some a \<Longrightarrow> keeps I (f a)) \<Longrightarrow>
     keeps I (case x of None \<Rightarrow> m | Some a \<Rightarrow> f a)"
  by (cases x) simp_all

lemma keeps_case_sum [keeps_intros]:
  "(\<And>e. x = Inl e \<Longrightarrow> keeps I (m e)) \<Longrightarrow> (\<And>a. x = Inr a \<Longrightarrow> keeps I (f a)) \<Longrightarrow>
     keeps I (case x of Inl e \<Rightarrow> m e | Inr a \<Rightarrow> f a)"
  by (cases x) simp_all

lemma keeps_case_prod [keeps_intros]:
  "(\<And>a b. x = (a, b) \<Longrightarrow> keeps I (f a b)) \<Longrightarrow> keeps I (case x of (a, b) \<Rightarrow> f a b)"
  by (cases x) simp

lemma keeps_for [keeps_intros]: "(\<And>x. x \<in> set xs \<Longrightarrow> keeps I (f x)) \<Longrightarrow> keeps I (forE xs f)"
  by (induction xs) (auto intro!: keeps_intros)

subsection \<open>Pure checks that may raise\<close>

text \<open>A chain of \<open>if ...: raise\<close> statements: the first true guard decides the error.\<close>

fun first_error :: "(bool \<times> 'e) list \<Rightarrow> 'e option" where
  "first_error [] = None"
| "first_error ((b, e) # gs) = (if b then Some e else first_error gs)"

lemma first_error_None: "first_error gs = None \<longleftrightarrow> (\<forall>(b, e) \<in> set gs. \<not> b)"
  by (induction gs rule: first_error.induct) auto

definition checked :: "(bool \<times> 'e) list \<Rightarrow> 'a \<Rightarrow> 'e + 'a" where
  "checked gs a = (case first_error gs of Some e \<Rightarrow> Inl e | None \<Rightarrow> Inr a)"

lemma checked_Inr [simp]: "checked gs a = Inr b \<longleftrightarrow> (\<forall>(g, e) \<in> set gs. \<not> g) \<and> b = a"
proof (cases "first_error gs")
  case None
  then have "\<forall>(g, e) \<in> set gs. \<not> g" by (simp add: first_error_None)
  with None show ?thesis by (auto simp: checked_def)
next
  case (Some e)
  then have "\<not> (\<forall>(g, e) \<in> set gs. \<not> g)" by (simp flip: first_error_None)
  with Some show ?thesis by (simp add: checked_def)
qed

text \<open>Sequencing of results without a state.\<close>

definition bindR :: "'e + 'a \<Rightarrow> ('a \<Rightarrow> 'e + 'b) \<Rightarrow> 'e + 'b" where
  "bindR r f = (case r of Inl e \<Rightarrow> Inl e | Inr a \<Rightarrow> f a)"

lemma bindR_Inr [simp]: "bindR r f = Inr b \<longleftrightarrow> (\<exists>a. r = Inr a \<and> f a = Inr b)"
  by (cases r) (simp_all add: bindR_def)

lemma bindR_return [simp]: "bindR (Inr a) f = f a" "bindR (Inl e) f = Inl e"
  by (simp_all add: bindR_def)

subsection \<open>Dictionaries\<close>

abbreviation dict_get :: "('k \<times> 'v) list \<Rightarrow> 'k \<Rightarrow> 'v option" where
  "dict_get d k \<equiv> map_of d k"

abbreviation dict_set :: "'k \<Rightarrow> 'v \<Rightarrow> ('k \<times> 'v) list \<Rightarrow> ('k \<times> 'v) list" where
  "dict_set k v d \<equiv> AList.update k v d"

abbreviation keys :: "('k \<times> 'v) list \<Rightarrow> 'k list" where
  "keys d \<equiv> map fst d"

text \<open>\<open>{key(x): x for x in xs}\<close>.\<close>

definition dict_of :: "('a \<Rightarrow> 'k) \<Rightarrow> 'a list \<Rightarrow> ('k \<times> 'a) list" where
  "dict_of key xs = fold (\<lambda>x d. dict_set (key x) x d) xs []"

lemma dict_get_set [dict_simps]:
  "dict_get (dict_set k v d) k' = (if k' = k then Some v else dict_get d k')"
  by (simp add: update_conv)

lemma dict_set_new [dict_simps]: "k \<notin> set (keys d) \<Longrightarrow> dict_set k v d = d @ [(k, v)]"
  by (induction d) auto

lemma keys_dict_set_old [dict_simps]: "k \<in> set (keys d) \<Longrightarrow> keys (dict_set k v d) = keys d"
  by (induction d) auto

lemma set_keys_dict_set [dict_simps]: "set (keys (dict_set k v d)) = insert k (set (keys d))"
  by (induction d) auto

lemma distinct_keys_dict_set: "distinct (keys d) \<Longrightarrow> distinct (keys (dict_set k v d))"
  by (rule distinct_update)

lemma dict_get_keys: "dict_get d k = Some v \<Longrightarrow> k \<in> set (keys d)"
  by (metis domI dom_map_of_conv_image_fst list.set_map)

lemma dict_get_None: "dict_get d k = None \<longleftrightarrow> k \<notin> set (keys d)"
  by (simp add: map_of_eq_None_iff)

lemma set_dict_set: "set (dict_set k v d) \<subseteq> insert (k, v) (set d)"
  by (induction d) auto

text \<open>
  Replacing the value of a key changes a sum over the values by the difference of the two;
  a key that is new adds its value.
\<close>

lemma sum_list_dict_set_new:
  "k \<notin> set (keys d) \<Longrightarrow> sum_list (map (f \<circ> snd) (dict_set k v d)) = sum_list (map (f \<circ> snd) d) + f v"
  for f :: "'v \<Rightarrow> int"
  by (simp add: dict_set_new)

lemma sum_list_dict_set_same:
  "dict_get d k = Some u \<Longrightarrow> f u = f v \<Longrightarrow>
     sum_list (map (f \<circ> snd) (dict_set k v d)) = sum_list (map (f \<circ> snd) d)"
  for f :: "'v \<Rightarrow> int"
  by (induction d) (auto split: if_splits)

lemma length_dict_set_old: "k \<in> set (keys d) \<Longrightarrow> length (dict_set k v d) = length d"
  by (metis keys_dict_set_old length_map)

lemma length_dict_set_same: "dict_get d k = Some u \<Longrightarrow> length (dict_set k v d) = length d"
  by (metis dict_get_keys length_dict_set_old)

lemma length_dict_set_new: "k \<notin> set (keys d) \<Longrightarrow> length (dict_set k v d) = Suc (length d)"
  by (simp add: dict_set_new)

lemma dict_get_set_fun: "dict_get (dict_set k v d) = (dict_get d)(k \<mapsto> v)"
  by (rule update_conv')

lemma image_ran_upd_same: "m k = Some u \<Longrightarrow> f v = f u \<Longrightarrow> f ` ran (m(k \<mapsto> v)) = f ` ran m"
proof -
  assume k: "m k = Some u" and f: "f v = f u"
  have "f y \<in> f ` ran m" if "y \<in> ran (m(k \<mapsto> v))" for y
  proof -
    from that obtain a where "(m(k \<mapsto> v)) a = Some y" by (auto simp: ran_def)
    with k f show ?thesis by (cases "a = k") (auto simp: ran_def image_iff)
  qed
  moreover have "f y \<in> f ` ran (m(k \<mapsto> v))" if "y \<in> ran m" for y
  proof -
    from that obtain a where a: "m a = Some y" by (auto simp: ran_def)
    show ?thesis
    proof (cases "a = k")
      case True
      with a k f have "f y = f v" by simp
      moreover have "v \<in> ran (m(k \<mapsto> v))" by (rule ranI [of _ k]) simp
      ultimately show ?thesis by simp
    next
      case False
      with a have "y \<in> ran (m(k \<mapsto> v))" by (intro ranI [of _ a]) simp
      then show ?thesis by simp
    qed
  qed
  ultimately show ?thesis by blast
qed

subsection \<open>Lists\<close>

lemma distinct_map_snoc [simp]:
  "distinct (map f (xs @ [x])) \<longleftrightarrow> distinct (map f xs) \<and> f x \<notin> f ` set xs"
  by auto

end
