(* ===== verification/Canonical.thy ===== *)
theory Canonical
  imports Prelude
begin

text \<open>
  Canonical JSON and domain-separated digests: \<open>benchmarks/secure_memory/canonical.py\<close> and
  \<open>apps/api/provenance.py\<close>.

  A Python \<open>str\<close> is the list of its UTF-8 bytes, so \<open>.encode("utf-8")\<close> is the identity and
  the order of code points used by \<open>sort_keys\<close> is the lexicographic order of bytes. A finite
  float is the rational number it denotes; how \<open>repr\<close> spells it is the parameter
  \<open>repr_float\<close>, and \<open>read_float\<close> is \<open>float(token)\<close>, \<open>None\<close> where that is not finite. SHA-256 and HMAC-SHA-256 (C code behind \<open>hashlib\<close> and \<open>hmac\<close>) are the
  parameters \<open>sha256\<close> (the hex digest of some bytes) and \<open>hmac256\<close> of the record \<open>crypto\<close>;
  nothing is assumed of them unless a theorem says so.
\<close>

datatype json =
    JNull
  | JBool bool
  | JInt int
  | JFloat rat
  | JStr string
  | JList "json list"
  | JObj "(string \<times> json) list"

record crypto =
  sha256 :: "string \<Rightarrow> string"
  hmac256 :: "string \<Rightarrow> string \<Rightarrow> string"
  repr_float :: "rat \<Rightarrow> string"
  read_float :: "string \<Rightarrow> rat option"

subsection \<open>Rendering\<close>

definition digit_char :: "nat \<Rightarrow> char" where
  "digit_char d = char_of (48 + d)"

fun dec :: "nat \<Rightarrow> string" where
  "dec n = (if n < 10 then [digit_char n] else dec (n div 10) @ [digit_char (n mod 10)])"

declare dec.simps [simp del]

definition dec_int :: "int \<Rightarrow> string" where
  "dec_int i = (if i < 0 then CHR ''-'' # dec (nat (- i)) else dec (nat i))"

definition hex_char :: "nat \<Rightarrow> char" where
  "hex_char d = (if d < 10 then char_of (48 + d) else char_of (87 + d))"

text \<open>
  The escapes of \<open>json.dumps(..., ensure_ascii=False)\<close>: quote, backslash, the five short
  escapes and \<open>\u00XX\<close> for the other control characters; every other byte stands for itself.
\<close>

definition escape_char :: "char \<Rightarrow> string" where
  "escape_char c =
     (let n = of_char c :: nat in
      if n = 34 then [char_of (92 :: nat), char_of (34 :: nat)]
      else if n = 92 then [char_of (92 :: nat), char_of (92 :: nat)]
      else if n = 10 then char_of (92 :: nat) # ''n''
      else if n = 13 then char_of (92 :: nat) # ''r''
      else if n = 9 then char_of (92 :: nat) # ''t''
      else if n = 12 then char_of (92 :: nat) # ''f''
      else if n = 8 then char_of (92 :: nat) # ''b''
      else if n < 32 then char_of (92 :: nat) # ''u00'' @ [hex_char (n div 16), hex_char (n mod 16)]
      else [c])"

definition quote_str :: "string \<Rightarrow> string" where
  "quote_str s = char_of (34 :: nat) # concat (map escape_char s) @ [char_of (34 :: nat)]"

fun join :: "string \<Rightarrow> string list \<Rightarrow> string" where
  "join sep [] = []"
| "join sep [x] = x"
| "join sep (x # y # xs) = x @ sep @ join sep (y # xs)"

definition field_str :: "string \<times> string \<Rightarrow> string" where
  "field_str kv = quote_str (fst kv) @ '':'' @ snd kv"

primrec canonical_bytes :: "crypto \<Rightarrow> json \<Rightarrow> string" where
  "canonical_bytes C JNull = ''null''"
| "canonical_bytes C (JBool b) = (if b then ''true'' else ''false'')"
| "canonical_bytes C (JInt i) = dec_int i"
| "canonical_bytes C (JFloat r) = repr_float C r"
| "canonical_bytes C (JStr s) = quote_str s"
| "canonical_bytes C (JList xs) = ''['' @ join '','' (map (canonical_bytes C) xs) @ '']''"
| "canonical_bytes C (JObj kvs) =
     ''{'' @ join '','' (map field_str (sort_key fst (map (map_prod id (canonical_bytes C)) kvs))) @ ''}''"

subsection \<open>Digests\<close>

definition valid_domain :: "string \<Rightarrow> bool" where
  "valid_domain d \<longleftrightarrow> d \<noteq> [] \<and> (\<forall>c \<in> set d. (of_char c :: nat) < 128 \<and> (of_char c :: nat) \<noteq> 0)"

definition domain_digest :: "crypto \<Rightarrow> string \<Rightarrow> json \<Rightarrow> string" where
  "domain_digest C d v =
     sha256 C (''egoagentos:'' @ d @ '':v1'' @ [char_of (0 :: nat)] @ canonical_bytes C v)"

text \<open>
  The checked entry point. Every caller passes a literal domain, so the callers modelled here
  use \<open>domain_digest\<close>, which is what \<open>canonical_sha256\<close> returns for a valid domain.
\<close>

definition canonical_sha256 :: "crypto \<Rightarrow> string \<Rightarrow> json \<Rightarrow> string option" where
  "canonical_sha256 C d v = (if \<not> valid_domain d then None else Some (domain_digest C d v))"

text \<open>The control plane's own digest (\<open>apps/api/provenance.py\<close>) has no domain prefix.\<close>

definition plain_sha256 :: "crypto \<Rightarrow> json \<Rightarrow> string" where
  "plain_sha256 C v = sha256 C (canonical_bytes C v)"

definition text_sha256 :: "crypto \<Rightarrow> string \<Rightarrow> string" where
  "text_sha256 C s = sha256 C s"

definition is_lower_hex :: "char \<Rightarrow> bool" where
  "is_lower_hex c = (let n = of_char c :: nat in (48 \<le> n \<and> n \<le> 57) \<or> (97 \<le> n \<and> n \<le> 102))"

definition is_sha256_digest :: "string \<Rightarrow> bool" where
  "is_sha256_digest s \<longleftrightarrow> length s = 64 \<and> list_all is_lower_hex s"

text \<open>Optional values as JSON.\<close>

definition opt_json :: "('a \<Rightarrow> json) \<Rightarrow> 'a option \<Rightarrow> json" where
  "opt_json f x = (case x of None \<Rightarrow> JNull | Some a \<Rightarrow> f a)"

definition zero_digest :: string where
  "zero_digest = replicate 64 (CHR ''0'')"

end
