(* ===== verification/SecureModels.thy ===== *)
theory SecureModels
  imports Canonical
begin

text \<open>
  The frozen value types of the secure-memory benchmark that the budget ledger and the provider
  broker read (\<open>benchmarks/secure_memory/models.py\<close>): measured configurations, execution phase
  owners, request classes with their token ceilings, ticket templates, issued budget tickets and
  signed task leases. The model validators are predicates \<open>..._valid\<close>; a value that fails its
  predicate cannot be built in the source. The constant \<open>schema_version\<close> fields are literals and
  appear only in the JSON images.
\<close>

subsection \<open>Enumerations\<close>

datatype config_id = Cfg_A | Cfg_B | Cfg_C | Cfg_D | Cfg_E | Cfg_F

datatype phase_owner = Own_A | Own_B | Own_C | Own_D | Own_E | Own_F
  | QUALIFICATION | OPTIMIZER | WINNER_SEALED | F_SEALED | GPU_DEMO

datatype request_class = Req_main | Req_auxiliary | Req_review

fun config_value :: "config_id \<Rightarrow> string" where
  "config_value Cfg_A = ''A''"
| "config_value Cfg_B = ''B''"
| "config_value Cfg_C = ''C''"
| "config_value Cfg_D = ''D''"
| "config_value Cfg_E = ''E''"
| "config_value Cfg_F = ''F''"

fun owner_value :: "phase_owner \<Rightarrow> string" where
  "owner_value Own_A = ''A''"
| "owner_value Own_B = ''B''"
| "owner_value Own_C = ''C''"
| "owner_value Own_D = ''D''"
| "owner_value Own_E = ''E''"
| "owner_value Own_F = ''F''"
| "owner_value QUALIFICATION = ''QUALIFICATION''"
| "owner_value OPTIMIZER = ''OPTIMIZER''"
| "owner_value WINNER_SEALED = ''WINNER_SEALED''"
| "owner_value F_SEALED = ''F_SEALED''"
| "owner_value GPU_DEMO = ''GPU_DEMO''"

fun class_value :: "request_class \<Rightarrow> string" where
  "class_value Req_main = ''main''"
| "class_value Req_auxiliary = ''auxiliary''"
| "class_value Req_review = ''review''"

text \<open>\<open>REQUEST_CLASS_TOKEN_CEILINGS\<close>: input and output ceiling of a request class.\<close>

fun class_ceiling :: "request_class \<Rightarrow> int \<times> int" where
  "class_ceiling Req_main = (10000, 1500)"
| "class_ceiling Req_auxiliary = (6000, 750)"
| "class_ceiling Req_review = (8000, 1000)"

definition within_class_ceiling :: "request_class \<Rightarrow> int \<Rightarrow> int \<Rightarrow> bool" where
  "within_class_ceiling c max_input max_output \<longleftrightarrow>
     \<not> (max_input > fst (class_ceiling c) \<or> max_output > snd (class_ceiling c))"

subsection \<open>Ticket templates\<close>

record ticket_template =
  tp_template_id :: string
  tp_purpose :: string
  tp_owner :: phase_owner
  tp_config :: "config_id option"
  tp_problem_id :: "string option"
  tp_turn :: "int option"
  tp_allowed_role :: string
  tp_class :: request_class
  tp_usage_phase :: string
  tp_slot_id :: string
  tp_attempt_group :: string
  tp_retry_owner :: "phase_owner option"
  tp_max_input :: int
  tp_max_output :: int

definition template_valid :: "ticket_template \<Rightarrow> bool" where
  "template_valid t \<longleftrightarrow>
     tp_template_id t \<noteq> [] \<and> tp_purpose t \<noteq> [] \<and> tp_allowed_role t \<noteq> [] \<and>
     tp_usage_phase t \<in> {''qualification'', ''architecture'', ''evaluation'', ''optimizer'', ''sealed'', ''gpu_demo''} \<and>
     tp_slot_id t \<noteq> [] \<and> tp_attempt_group t \<noteq> [] \<and>
     (case tp_turn t of None \<Rightarrow> True | Some n \<Rightarrow> 1 \<le> n \<and> n \<le> 5) \<and>
     1 \<le> tp_max_input t \<and> tp_max_input t \<le> 10000 \<and>
     1 \<le> tp_max_output t \<and> tp_max_output t \<le> 1500 \<and>
     (if tp_owner t \<in> {Own_A, Own_B, Own_C, Own_D, Own_E, Own_F}
      then (case tp_config t of None \<Rightarrow> False | Some c \<Rightarrow> config_value c = owner_value (tp_owner t))
      else if tp_owner t \<in> {QUALIFICATION, OPTIMIZER} then tp_config t = None else True) \<and>
     within_class_ceiling (tp_class t) (tp_max_input t) (tp_max_output t)"

subsection \<open>Issued budget tickets\<close>

record issued_ticket =
  tk_ticket_id :: string
  tk_template_id :: string
  tk_campaign_id :: string
  tk_manifest_sha256 :: string
  tk_owner :: phase_owner
  tk_config :: "config_id option"
  tk_project_id :: string
  tk_task_id :: string
  tk_worker :: string
  tk_matrix_user_id :: string
  tk_allowed_role :: string
  tk_class :: request_class
  tk_usage_phase :: string
  tk_max_input :: int
  tk_max_output :: int
  tk_expires_at :: int
  tk_issuer_id :: string
  tk_key_id :: string
  tk_issue_sequence :: int
  tk_ticket_sha256 :: string
  tk_signature :: string

definition ticket_valid :: "issued_ticket \<Rightarrow> bool" where
  "ticket_valid t \<longleftrightarrow>
     list_all (\<lambda>s. s \<noteq> []) [tk_ticket_id t, tk_template_id t, tk_campaign_id t, tk_project_id t,
       tk_task_id t, tk_worker t, tk_matrix_user_id t, tk_allowed_role t, tk_usage_phase t,
       tk_issuer_id t, tk_key_id t, tk_signature t] \<and>
     is_sha256_digest (tk_manifest_sha256 t) \<and> is_sha256_digest (tk_ticket_sha256 t) \<and>
     1 \<le> tk_max_input t \<and> tk_max_input t \<le> 10000 \<and>
     1 \<le> tk_max_output t \<and> tk_max_output t \<le> 1500 \<and>
     0 \<le> tk_expires_at t \<and> 0 \<le> tk_issue_sequence t \<and>
     within_class_ceiling (tk_class t) (tk_max_input t) (tk_max_output t)"

text \<open>\<open>model_dump\<close> of a ticket without \<open>ticket_sha256\<close> and \<open>signature_base64\<close>: the signed core.\<close>

definition ticket_core_json :: "issued_ticket \<Rightarrow> json" where
  "ticket_core_json t = JObj
    [(''schema_version'', JStr ''secure-memory-issued-budget-ticket/v1''),
     (''ticket_id'', JStr (tk_ticket_id t)),
     (''template_id'', JStr (tk_template_id t)),
     (''campaign_id'', JStr (tk_campaign_id t)),
     (''manifest_sha256'', JStr (tk_manifest_sha256 t)),
     (''execution_phase_owner'', JStr (owner_value (tk_owner t))),
     (''configuration_id'', opt_json (\<lambda>c. JStr (config_value c)) (tk_config t)),
     (''project_id'', JStr (tk_project_id t)),
     (''task_id'', JStr (tk_task_id t)),
     (''worker'', JStr (tk_worker t)),
     (''matrix_user_id'', JStr (tk_matrix_user_id t)),
     (''allowed_role'', JStr (tk_allowed_role t)),
     (''effective_request_class'', JStr (class_value (tk_class t))),
     (''usage_phase'', JStr (tk_usage_phase t)),
     (''max_input_tokens'', JInt (tk_max_input t)),
     (''max_output_tokens'', JInt (tk_max_output t)),
     (''expires_at_sequence'', JInt (tk_expires_at t)),
     (''issuer_id'', JStr (tk_issuer_id t)),
     (''key_id'', JStr (tk_key_id t)),
     (''issue_sequence'', JInt (tk_issue_sequence t))]"

subsection \<open>Signed task leases\<close>

record lease_core =
  lc_campaign_id :: string
  lc_config :: "config_id option"
  lc_owner :: phase_owner
  lc_problem_id :: string
  lc_turn :: int
  lc_generation :: int
  lc_manifest_sha256 :: string
  lc_extension_sha256 :: "string option"
  lc_policy_sha256 :: string
  lc_requirement_ledger_sha256 :: string
  lc_workspace_checkpoint_sha256 :: string
  lc_memory_watermark :: int
  lc_project_id :: string
  lc_task_id :: string
  lc_worker :: string
  lc_matrix_user_id :: string
  lc_role :: string
  lc_stage :: string
  lc_allowed_skills :: "string list"
  lc_allowed_tools :: "string list"
  lc_class :: request_class
  lc_ticket_ids :: "string list"
  lc_expires_at :: int
  lc_issuer_id :: string
  lc_key_id :: string
  lc_issue_sequence :: int

record signed_lease =
  sl_core :: lease_core
  sl_core_sha256 :: string
  sl_signature :: string

text \<open>What a signature verifier is asked about.\<close>

datatype signed_object = SignedTicket issued_ticket | SignedLease signed_lease

end
