(* ===== verification/Budget.thy ===== *)
theory Budget
  imports SecureModels
begin

text \<open>
  The provider budget ledger, \<open>benchmarks/secure_memory/substrate/budget.py\<close>: reservations for
  provider calls, an append-only hash-chained event log, and its replay against a trusted
  checkpoint digest. Every operation runs under one lock in the source, so it is one atomic
  program here. \<open>current_sequence()\<close>, a callable of the trust context, is the argument \<open>now\<close>.
\<close>

subsection \<open>State\<close>

datatype budget_error = BudgetDenied string | BudgetKeyError

record budget_triple =
  bt_requests :: int
  bt_input :: int
  bt_output :: int

definition triple_add :: "budget_triple \<Rightarrow> int \<Rightarrow> int \<Rightarrow> int \<Rightarrow> budget_triple" where
  "triple_add t r i out =
     \<lparr>bt_requests = bt_requests t + r, bt_input = bt_input t + i, bt_output = bt_output t + out\<rparr>"

text \<open>\<open>REQUEST_LIMITS\<close>.\<close>

fun limit_max_input :: "request_class \<Rightarrow> int" where
  "limit_max_input Req_main = 10000"
| "limit_max_input Req_auxiliary = 6000"
| "limit_max_input Req_review = 8000"

fun limit_max_output :: "request_class \<Rightarrow> int" where
  "limit_max_output Req_main = 1500"
| "limit_max_output Req_auxiliary = 750"
| "limit_max_output Req_review = 1000"

definition campaign_reservation :: budget_triple where
  "campaign_reservation = \<lparr>bt_requests = 356, bt_input = 3306000, bt_output = 485500\<rparr>"

definition campaign_absolute :: budget_triple where
  "campaign_absolute = \<lparr>bt_requests = 360, bt_input = 4000000, bt_output = 600000\<rparr>"

definition allowed_retain_reasons :: "string list" where
  "allowed_retain_reasons = [''provider_failure'', ''429'', ''5xx'', ''timeout'', ''4xx'',
     ''unknown_usage'', ''contradictory_usage'']"

datatype reservation_state = RESERVED | DISPATCHED | SETTLED | RETAINED

fun state_value :: "reservation_state \<Rightarrow> string" where
  "state_value RESERVED = ''RESERVED''"
| "state_value DISPATCHED = ''DISPATCHED''"
| "state_value SETTLED = ''SETTLED''"
| "state_value RETAINED = ''RETAINED''"

record raw_usage =
  ru_input :: int
  ru_output :: int
  ru_cache_read :: "int option"
  ru_cache_write :: "int option"
  ru_reasoning :: "int option"

text \<open>The field bounds and the subset validator of \<open>RawUsage\<close>.\<close>

definition raw_usage_valid :: "raw_usage \<Rightarrow> bool" where
  "raw_usage_valid u \<longleftrightarrow>
     0 \<le> ru_input u \<and> 0 \<le> ru_output u \<and>
     (\<forall>v \<in> set [ru_cache_read u, ru_cache_write u, ru_reasoning u].
        case v of None \<Rightarrow> True | Some n \<Rightarrow> 0 \<le> n) \<and>
     (case ru_reasoning u of None \<Rightarrow> True | Some n \<Rightarrow> n \<le> ru_output u) \<and>
     (\<forall>v \<in> set [ru_cache_read u, ru_cache_write u].
        case v of None \<Rightarrow> True | Some n \<Rightarrow> n \<le> ru_input u)"

record settled_usage =
  su_raw :: raw_usage
  su_budget_input :: int
  su_budget_output :: int
  su_comparable_input :: int
  su_comparable_output :: int

record reservation =
  rv_ticket_id :: string
  rv_template_id :: string
  rv_input :: int
  rv_output :: int
  rv_estimate :: int
  rv_error :: int
  rv_bytes :: int
  rv_state :: reservation_state
  rv_sequence :: int
  rv_settled :: "settled_usage option"
  rv_reason :: "string option"

record budget_event =
  ev_sequence :: int
  ev_ticket_id :: string
  ev_state :: reservation_state
  ev_input :: int
  ev_output :: int
  ev_estimate :: int
  ev_error :: int
  ev_bytes :: int
  ev_template_id :: string
  ev_previous_state :: "reservation_state option"
  ev_settled :: "settled_usage option"
  ev_reason :: "string option"
  ev_previous_sha :: string
  ev_sha :: string

record trust_context =
  tc_issuer_id :: string
  tc_key_id :: string
  tc_verify :: "signed_object \<Rightarrow> bool"
  tc_error :: int

record ledger =
  lg_templates :: "(string \<times> ticket_template) list"
  lg_tickets :: "(string \<times> issued_ticket) list"
  lg_manifest :: string
  lg_trust :: trust_context
  lg_reservations :: "(string \<times> reservation) list"
  lg_used :: "string set"
  lg_events :: "budget_event list"

subsection \<open>Construction\<close>

definition in_window :: "int \<Rightarrow> int \<Rightarrow> int \<Rightarrow> bool" where
  "in_window issue expires now \<longleftrightarrow> \<not> (issue > now \<or> now > expires)"

definition ticket_load_guards ::
  "crypto \<Rightarrow> trust_context \<Rightarrow> int \<Rightarrow> ticket_template \<Rightarrow> issued_ticket \<Rightarrow> (bool \<times> budget_error) list" where
  "ticket_load_guards C trust now tp tk =
    (let retry = tp_retry_owner tp \<noteq> None in
     [(tk_ticket_sha256 tk \<noteq> domain_digest C ''issued-budget-ticket'' (ticket_core_json tk)
        \<or> \<not> tc_verify trust (SignedTicket tk)
        \<or> tk_issuer_id tk \<noteq> tc_issuer_id trust
        \<or> tk_key_id tk \<noteq> tc_key_id trust
        \<or> \<not> in_window (tk_issue_sequence tk) (tk_expires_at tk) now,
       BudgetDenied ''ticket_sequence''),
      (retry \<and> (tp_retry_owner tp \<noteq> Some (tp_owner tp)
        \<or> tp_owner tp \<in> {QUALIFICATION, OPTIMIZER}
        \<or> tp_class tp \<noteq> Req_main),
       BudgetDenied ''retry_template''),
      (tk_owner tk \<noteq> tp_owner tp
        \<or> tk_config tk \<noteq> tp_config tp
        \<or> tk_allowed_role tk \<noteq> tp_allowed_role tp
        \<or> (\<not> retry \<and> tk_class tk \<noteq> tp_class tp)
        \<or> (\<not> retry \<and> tk_usage_phase tk \<noteq> tp_usage_phase tp)
        \<or> (\<not> retry \<and> (tk_max_input tk \<noteq> tp_max_input tp \<or> tk_max_output tk \<noteq> tp_max_output tp))
        \<or> (retry \<and> (tk_max_input tk > limit_max_input (tk_class tk)
                     \<or> tk_max_output tk > limit_max_output (tk_class tk))),
       BudgetDenied ''template_binding'')])"

fun load_tickets ::
  "crypto \<Rightarrow> trust_context \<Rightarrow> int \<Rightarrow> (string \<times> ticket_template) list \<Rightarrow> issued_ticket list \<Rightarrow> budget_error option" where
  "load_tickets C trust now tpls [] = None"
| "load_tickets C trust now tpls (tk # tks) =
     (case dict_get tpls (tk_template_id tk) of
        None \<Rightarrow> Some BudgetKeyError
      | Some tp \<Rightarrow>
          (case first_error (ticket_load_guards C trust now tp tk) of
             Some e \<Rightarrow> Some e
           | None \<Rightarrow> load_tickets C trust now tpls tks))"

definition new_ledger :: "ticket_template list \<Rightarrow> issued_ticket list \<Rightarrow> string \<Rightarrow> trust_context \<Rightarrow> ledger" where
  "new_ledger templates tickets manifest trust =
     \<lparr>lg_templates = dict_of tp_template_id templates, lg_tickets = dict_of tk_ticket_id tickets,
      lg_manifest = manifest, lg_trust = trust, lg_reservations = [], lg_used = {}, lg_events = []\<rparr>"

definition init_ledger ::
  "crypto \<Rightarrow> int \<Rightarrow> ticket_template list \<Rightarrow> issued_ticket list \<Rightarrow> string \<Rightarrow> trust_context \<Rightarrow> budget_error + ledger" where
  "init_ledger C now templates tickets manifest trust =
    (let L = new_ledger templates tickets manifest trust in
     case first_error
       [(templates = [], BudgetDenied ''templates_required''),
        (length (lg_templates L) \<noteq> length templates, BudgetDenied ''duplicate_template''),
        (length (lg_tickets L) \<noteq> length tickets, BudgetDenied ''duplicate_ticket''),
        (\<not> distinct (map tk_issue_sequence tickets), BudgetDenied ''duplicate_issue_sequence''),
        (\<not> distinct (map tk_template_id tickets), BudgetDenied ''template_ticket''),
        (list_ex (\<lambda>tk. dict_get (lg_templates L) (tk_template_id tk) = None) (map snd (lg_tickets L)),
           BudgetDenied ''unknown_template''),
        (list_ex (\<lambda>tk. tk_manifest_sha256 tk \<noteq> manifest) (map snd (lg_tickets L)),
           BudgetDenied ''manifest''),
        (tc_issuer_id trust = [] \<or> tc_key_id trust = [] \<or> tc_error trust < 0,
           BudgetDenied ''trust_identity'')] of
       Some e \<Rightarrow> Inl e
     | None \<Rightarrow>
         (case load_tickets C trust now (lg_templates L) tickets of
            Some e \<Rightarrow> Inl e
          | None \<Rightarrow> Inr L))"

subsection \<open>Views\<close>

definition absolute_allows :: "budget_triple \<Rightarrow> bool" where
  "absolute_allows t \<longleftrightarrow>
     bt_requests t \<le> bt_requests campaign_absolute \<and> bt_input t \<le> bt_input campaign_absolute \<and>
     bt_output t \<le> bt_output campaign_absolute"

definition totals :: "ledger \<Rightarrow> budget_triple" where
  "totals L =
     \<lparr>bt_requests = int (length (lg_reservations L)),
      bt_input = sum_list (map (rv_input \<circ> snd) (lg_reservations L)),
      bt_output = sum_list (map (rv_output \<circ> snd) (lg_reservations L))\<rparr>"

definition state_digest :: "crypto \<Rightarrow> ledger \<Rightarrow> string" where
  "state_digest C L =
     domain_digest C ''budget-ledger-state'' (JList (map (JStr \<circ> ev_sha) (lg_events L)))"

definition trusted_ticket :: "ledger \<Rightarrow> string \<Rightarrow> issued_ticket option" where
  "trusted_ticket L tid = dict_get (lg_tickets L) tid"

definition reservation_for :: "ledger \<Rightarrow> string \<Rightarrow> reservation option" where
  "reservation_for L tid = dict_get (lg_reservations L) tid"

subsection \<open>Appending an event\<close>

definition raw_usage_json :: "raw_usage \<Rightarrow> json" where
  "raw_usage_json u = JObj
    [(''input_tokens'', JInt (ru_input u)), (''output_tokens'', JInt (ru_output u)),
     (''cache_read_tokens'', opt_json JInt (ru_cache_read u)),
     (''cache_write_tokens'', opt_json JInt (ru_cache_write u)),
     (''reasoning_tokens'', opt_json JInt (ru_reasoning u))]"

definition settled_json :: "settled_usage \<Rightarrow> json" where
  "settled_json u = JObj
    [(''raw_usage'', raw_usage_json (su_raw u)),
     (''budget_input'', JInt (su_budget_input u)), (''budget_output'', JInt (su_budget_output u)),
     (''comparable_input'', JInt (su_comparable_input u)),
     (''comparable_output'', JInt (su_comparable_output u))]"

text \<open>The hashed core of an event; \<open>event_sha256\<close> is not part of it.\<close>

definition event_core_json :: "budget_event \<Rightarrow> json" where
  "event_core_json e = JObj
    [(''sequence'', JInt (ev_sequence e)), (''ticket_id'', JStr (ev_ticket_id e)),
     (''template_id'', JStr (ev_template_id e)),
     (''previous_state'', opt_json (\<lambda>s. JStr (state_value s)) (ev_previous_state e)),
     (''new_state'', JStr (state_value (ev_state e))),
     (''reserved_input'', JInt (ev_input e)), (''reserved_output'', JInt (ev_output e)),
     (''tokenizer_estimate'', JInt (ev_estimate e)),
     (''calibrated_positive_error'', JInt (ev_error e)),
     (''model_visible_byte_length'', JInt (ev_bytes e)),
     (''settled_usage'', opt_json settled_json (ev_settled e)),
     (''retained_reason'', opt_json JStr (ev_reason e)),
     (''previous_event_sha256'', JStr (ev_previous_sha e))]"

definition event_digest :: "crypto \<Rightarrow> budget_event \<Rightarrow> string" where
  "event_digest C e = domain_digest C ''budget-ledger-event'' (event_core_json e)"

definition last_sha :: "budget_event list \<Rightarrow> string" where
  "last_sha es = (if es = [] then [] else ev_sha (last es))"

definition make_event :: "crypto \<Rightarrow> ledger \<Rightarrow> reservation \<Rightarrow> budget_event" where
  "make_event C L r =
    (let e = \<lparr>ev_sequence = int (length (lg_events L)) + 1, ev_ticket_id = rv_ticket_id r,
              ev_state = rv_state r, ev_input = rv_input r, ev_output = rv_output r,
              ev_estimate = rv_estimate r, ev_error = rv_error r, ev_bytes = rv_bytes r,
              ev_template_id = rv_template_id r,
              ev_previous_state = map_option rv_state (dict_get (lg_reservations L) (rv_ticket_id r)),
              ev_settled = rv_settled r, ev_reason = rv_reason r,
              ev_previous_sha = last_sha (lg_events L), ev_sha = []\<rparr>
     in e\<lparr>ev_sha := event_digest C e\<rparr>)"

definition append_event :: "crypto \<Rightarrow> reservation \<Rightarrow> ledger \<Rightarrow> reservation \<times> ledger" where
  "append_event C r L =
    (let e = make_event C L r; updated = r\<lparr>rv_sequence := ev_sequence e\<rparr> in
     (updated, L\<lparr>lg_events := lg_events L @ [e],
                 lg_reservations := dict_set (rv_ticket_id updated) updated (lg_reservations L)\<rparr>))"

subsection \<open>Operations\<close>

definition reserved_input_for :: "int \<Rightarrow> int \<Rightarrow> int \<Rightarrow> int" where
  "reserved_input_for estimate err bytes = max (estimate + err + 512) (bytes + 1024)"

definition lease_bound_to :: "lease_core \<Rightarrow> issued_ticket \<Rightarrow> bool" where
  "lease_bound_to lc tk \<longleftrightarrow>
     lc_campaign_id lc = tk_campaign_id tk \<and> lc_config lc = tk_config tk \<and>
     lc_owner lc = tk_owner tk \<and> lc_project_id lc = tk_project_id tk \<and>
     lc_task_id lc = tk_task_id tk \<and> lc_worker lc = tk_worker tk \<and>
     lc_matrix_user_id lc = tk_matrix_user_id tk \<and> lc_class lc = tk_class tk"

definition reserve_binding_guards ::
  "ledger \<Rightarrow> int \<Rightarrow> string \<Rightarrow> issued_ticket \<Rightarrow> ticket_template \<Rightarrow> signed_lease \<Rightarrow> string \<Rightarrow> (bool \<times> budget_error) list" where
  "reserve_binding_guards L now tid tk tp lease role =
    (let lc = sl_core lease; trust = lg_trust L in
     [(\<not> in_window (tk_issue_sequence tk) (tk_expires_at tk) now, BudgetDenied ''ticket_sequence''),
      (tk_template_id tk \<in> lg_used L \<or> dict_get (lg_reservations L) tid \<noteq> None,
         BudgetDenied ''ticket_consumed''),
      (\<not> tc_verify trust (SignedLease lease) \<or> lc_issuer_id lc \<noteq> tc_issuer_id trust
         \<or> lc_key_id lc \<noteq> tc_key_id trust
         \<or> \<not> in_window (lc_issue_sequence lc) (lc_expires_at lc) now, BudgetDenied ''lease_sequence''),
      (tid \<notin> set (lc_ticket_ids lc), BudgetDenied ''lease_ticket''),
      (lc_manifest_sha256 lc \<noteq> lg_manifest L \<or> tk_manifest_sha256 tk \<noteq> lg_manifest L,
         BudgetDenied ''manifest''),
      (role \<noteq> tk_allowed_role tk \<or> lc_role lc \<noteq> tk_allowed_role tk, BudgetDenied ''role''),
      (\<not> lease_bound_to lc tk, BudgetDenied ''lease_binding''),
      (tp_allowed_role tp \<noteq> tk_allowed_role tk
         \<or> (tp_retry_owner tp = None \<and> tp_class tp \<noteq> tk_class tk), BudgetDenied ''template_binding''),
      ((tp_problem_id tp \<noteq> None \<and> tp_problem_id tp \<noteq> Some (lc_problem_id lc))
         \<or> (tp_turn tp \<noteq> None \<and> tp_turn tp \<noteq> Some (lc_turn lc)), BudgetDenied ''template_row'')])"

definition reserve_ceiling_guards ::
  "ledger \<Rightarrow> issued_ticket \<Rightarrow> int \<Rightarrow> (bool \<times> budget_error) list" where
  "reserve_ceiling_guards L tk reserved_input =
    (let reserved_output = tk_max_output tk;
         next_total = triple_add (totals L) 1 reserved_input reserved_output in
     [(reserved_input > limit_max_input (tk_class tk) \<or> reserved_input > tk_max_input tk,
         BudgetDenied ''input_ceiling''),
      (reserved_output > limit_max_output (tk_class tk), BudgetDenied ''output_ceiling''),
      (bt_requests next_total > bt_requests campaign_reservation
         \<or> bt_input next_total > bt_input campaign_reservation
         \<or> bt_output next_total > bt_output campaign_reservation
         \<or> bt_requests next_total > bt_requests campaign_absolute
         \<or> bt_input next_total > bt_input campaign_absolute
         \<or> bt_output next_total > bt_output campaign_absolute,
         BudgetDenied ''campaign_reservation'')])"

definition new_reservation :: "string \<Rightarrow> issued_ticket \<Rightarrow> int \<Rightarrow> int \<Rightarrow> string \<Rightarrow> reservation" where
  "new_reservation tid tk estimate err bytes =
     \<lparr>rv_ticket_id = tid, rv_template_id = tk_template_id tk,
      rv_input = reserved_input_for estimate err (int (length bytes)), rv_output = tk_max_output tk,
      rv_estimate = estimate, rv_error = err, rv_bytes = int (length bytes),
      rv_state = RESERVED, rv_sequence = 0, rv_settled = None, rv_reason = None\<rparr>"

definition reserve ::
  "crypto \<Rightarrow> int \<Rightarrow> string \<Rightarrow> signed_lease \<Rightarrow> string \<Rightarrow> int \<Rightarrow> int \<Rightarrow> string
     \<Rightarrow> (ledger, budget_error, reservation) prog" where
  "reserve C now tid lease role estimate err bytes = (\<lambda>L.
     if min estimate err < 0 then (Inl (BudgetDenied ''negative_estimate''), L)
     else if err \<noteq> tc_error (lg_trust L) then (Inl (BudgetDenied ''calibration_binding''), L)
     else (case dict_get (lg_tickets L) tid of
        None \<Rightarrow> (Inl (BudgetDenied ''untrusted_ticket''), L)
      | Some tk \<Rightarrow>
         (case dict_get (lg_templates L) (tk_template_id tk) of
            None \<Rightarrow> (Inl BudgetKeyError, L)
          | Some tp \<Rightarrow>
             (case first_error
                 (reserve_binding_guards L now tid tk tp lease role
                  @ reserve_ceiling_guards L tk (reserved_input_for estimate err (int (length bytes)))) of
                Some e \<Rightarrow> (Inl e, L)
              | None \<Rightarrow>
                 (let (r, L') = append_event C (new_reservation tid tk estimate err bytes)
                                  (L\<lparr>lg_used := insert (tk_template_id tk) (lg_used L)\<rparr>)
                  in (Inr r, L'))))))"

text \<open>\<open>_require\<close>: the reservation of a ticket, if it is in an allowed state.\<close>

definition require :: "string \<Rightarrow> reservation_state \<Rightarrow> ledger \<Rightarrow> budget_error + reservation" where
  "require tid allowed L =
     (case dict_get (lg_reservations L) tid of
        None \<Rightarrow> Inl (BudgetDenied ''unreserved_ticket'')
      | Some r \<Rightarrow> if rv_state r \<noteq> allowed then Inl (BudgetDenied ''already_terminal'') else Inr r)"

definition mark_dispatched :: "crypto \<Rightarrow> string \<Rightarrow> (ledger, budget_error, reservation) prog" where
  "mark_dispatched C tid = (\<lambda>L. case require tid RESERVED L of
       Inl e \<Rightarrow> (Inl e, L)
     | Inr r \<Rightarrow> (let (u, L') = append_event C (r\<lparr>rv_state := DISPATCHED\<rparr>) L in (Inr u, L')))"

definition retain :: "crypto \<Rightarrow> string \<Rightarrow> string \<Rightarrow> (ledger, budget_error, reservation) prog" where
  "retain C tid reason = (\<lambda>L.
     if reason \<notin> set allowed_retain_reasons then (Inl (BudgetDenied ''retain_reason''), L)
     else (case require tid DISPATCHED L of
         Inl e \<Rightarrow> (Inl e, L)
       | Inr r \<Rightarrow>
          (let (u, L') = append_event C (r\<lparr>rv_state := RETAINED, rv_reason := Some reason\<rparr>) L
           in (Inr u, L'))))"

definition settled_of :: "raw_usage \<Rightarrow> settled_usage" where
  "settled_of u = \<lparr>su_raw = u, su_budget_input = ru_input u, su_budget_output = ru_output u,
     su_comparable_input = ru_input u, su_comparable_output = ru_output u\<rparr>"

definition settle :: "crypto \<Rightarrow> string \<Rightarrow> raw_usage \<Rightarrow> (ledger, budget_error, settled_usage) prog" where
  "settle C tid usage = (\<lambda>L. case require tid DISPATCHED L of
       Inl e \<Rightarrow> (Inl e, L)
     | Inr r \<Rightarrow>
        if ru_input usage > rv_input r \<or> ru_output usage > rv_output r
        then (Inl (BudgetDenied ''contradictory_usage''), L)
        else (let (u, L') = append_event C
                    (r\<lparr>rv_state := SETTLED, rv_settled := Some (settled_of usage)\<rparr>) L
              in (Inr (settled_of usage), L')))"

definition transient_reasons :: "string list" where
  "transient_reasons = [''429'', ''5xx'', ''timeout'']"

definition retry_bound_to :: "ticket_template \<Rightarrow> issued_ticket \<Rightarrow> issued_ticket \<Rightarrow> bool" where
  "retry_bound_to tp retry original \<longleftrightarrow>
     tp_retry_owner tp = Some (tk_owner original) \<and>
     tk_campaign_id retry = tk_campaign_id original \<and> tk_config retry = tk_config original \<and>
     tk_project_id retry = tk_project_id original \<and> tk_task_id retry = tk_task_id original \<and>
     tk_worker retry = tk_worker original \<and> tk_matrix_user_id retry = tk_matrix_user_id original \<and>
     tk_allowed_role retry = tk_allowed_role original \<and> tk_class retry = tk_class original \<and>
     tk_usage_phase retry = tk_usage_phase original \<and>
     tk_max_input retry = tk_max_input original \<and> tk_max_output retry = tk_max_output original"

definition reserve_retry ::
  "crypto \<Rightarrow> int \<Rightarrow> string \<Rightarrow> string \<Rightarrow> signed_lease \<Rightarrow> string \<Rightarrow> int \<Rightarrow> int \<Rightarrow> string
     \<Rightarrow> (ledger, budget_error, reservation) prog" where
  "reserve_retry C now retry_id original_id lease role estimate err bytes = (\<lambda>L.
     case dict_get (lg_reservations L) original_id of
       None \<Rightarrow> (Inl (BudgetDenied ''retry_original''), L)
     | Some original \<Rightarrow>
        if rv_state original \<noteq> RETAINED then (Inl (BudgetDenied ''retry_original''), L)
        else if rv_reason original \<notin> set (map Some transient_reasons)
        then (Inl (BudgetDenied ''retry_reason''), L)
        else (case dict_get (lg_tickets L) retry_id of
           None \<Rightarrow> (Inl (BudgetDenied ''retry_ticket''), L)
         | Some retry \<Rightarrow>
            if retry_id \<notin> set (lc_ticket_ids (sl_core lease))
            then (Inl (BudgetDenied ''retry_ticket''), L)
            else (case (dict_get (lg_templates L) (tk_template_id retry),
                        dict_get (lg_tickets L) original_id) of
               (Some tp, Some original_ticket) \<Rightarrow>
                 if \<not> retry_bound_to tp retry original_ticket
                 then (Inl (BudgetDenied ''retry_binding''), L)
                 else reserve C now retry_id lease role estimate err bytes L
             | _ \<Rightarrow> (Inl BudgetKeyError, L))))"

end
