(* ===== verification/BudgetReplay.thy ===== *)
theory BudgetReplay
  imports Budget
begin

text \<open>
  \<open>BudgetLedger.replay\<close>: rebuilding a ledger from its events against a trusted state digest.
  The checks of one event are the guard lists below, in the order of the source.
\<close>

definition replay_link_guards :: "ledger \<Rightarrow> budget_event \<Rightarrow> (bool \<times> budget_error) list" where
  "replay_link_guards L e =
     [(ev_sequence e \<noteq> int (length (lg_events L)) + 1, BudgetDenied ''event_sequence''),
      (ev_previous_sha e \<noteq> last_sha (lg_events L), BudgetDenied ''event_chain'')]"

definition replay_transition_guards :: "ledger \<Rightarrow> budget_event \<Rightarrow> (bool \<times> budget_error) list" where
  "replay_transition_guards L e =
    (case dict_get (lg_reservations L) (ev_ticket_id e) of
       None \<Rightarrow>
         (let next_total = triple_add (totals L) 1 (ev_input e) (ev_output e) in
          [(ev_previous_state e \<noteq> None \<or> ev_state e \<noteq> RESERVED, BudgetDenied ''event_transition''),
           (ev_template_id e \<in> lg_used L, BudgetDenied ''event_template''),
           (bt_requests next_total > bt_requests campaign_reservation
              \<or> bt_input next_total > bt_input campaign_reservation
              \<or> bt_output next_total > bt_output campaign_reservation
              \<or> \<not> absolute_allows next_total, BudgetDenied ''event_cap'')])
     | Some prior \<Rightarrow>
         [(ev_previous_state e \<noteq> Some (rv_state prior)
            \<or> ev_input e \<noteq> rv_input prior \<or> ev_output e \<noteq> rv_output prior
            \<or> ev_estimate e \<noteq> rv_estimate prior \<or> ev_error e \<noteq> rv_error prior
            \<or> ev_bytes e \<noteq> rv_bytes prior
            \<or> (rv_state prior = RESERVED \<and> ev_state e \<noteq> DISPATCHED)
            \<or> (rv_state prior = DISPATCHED \<and> ev_state e \<notin> {SETTLED, RETAINED})
            \<or> rv_state prior \<in> {SETTLED, RETAINED}, BudgetDenied ''event_transition'')])"

definition usage_consistent :: "budget_event \<Rightarrow> settled_usage \<Rightarrow> bool" where
  "usage_consistent e u \<longleftrightarrow>
     \<not> (ru_input (su_raw u) > ev_input e \<or> ru_output (su_raw u) > ev_output e
        \<or> su_budget_input u \<noteq> ru_input (su_raw u) \<or> su_budget_output u \<noteq> ru_output (su_raw u)
        \<or> su_comparable_input u \<noteq> ru_input (su_raw u) \<or> su_comparable_output u \<noteq> ru_output (su_raw u))"

definition replay_content_guards ::
  "crypto \<Rightarrow> ledger \<Rightarrow> issued_ticket \<Rightarrow> budget_event \<Rightarrow> (bool \<times> budget_error) list" where
  "replay_content_guards C L tk e =
     [(ev_sha e \<noteq> event_digest C e, BudgetDenied ''event_hash''),
      (min (ev_estimate e) (min (ev_error e) (ev_bytes e)) < 0, BudgetDenied ''event_reservation''),
      (ev_error e \<noteq> tc_error (lg_trust L)
         \<or> ev_input e \<noteq> reserved_input_for (ev_estimate e) (ev_error e) (ev_bytes e)
         \<or> ev_output e \<noteq> tk_max_output tk, BudgetDenied ''event_reservation''),
      (ev_input e > tk_max_input tk \<or> ev_output e > tk_max_output tk
         \<or> ev_input e > limit_max_input (tk_class tk) \<or> ev_output e > limit_max_output (tk_class tk),
         BudgetDenied ''event_ceiling''),
      (ev_state e \<in> {RESERVED, DISPATCHED} \<and> (ev_settled e \<noteq> None \<or> ev_reason e \<noteq> None),
         BudgetDenied ''event_terminal''),
      (ev_state e = SETTLED \<and> (ev_settled e = None \<or> ev_reason e \<noteq> None), BudgetDenied ''event_terminal''),
      (ev_state e = SETTLED \<and>
         (case ev_settled e of None \<Rightarrow> False | Some u \<Rightarrow> \<not> usage_consistent e u), BudgetDenied ''event_usage''),
      (ev_state e = RETAINED \<and>
         (ev_settled e \<noteq> None \<or> ev_reason e \<notin> set (map Some allowed_retain_reasons)),
         BudgetDenied ''event_terminal'')]"

definition event_reservation :: "budget_event \<Rightarrow> reservation" where
  "event_reservation e =
     \<lparr>rv_ticket_id = ev_ticket_id e, rv_template_id = ev_template_id e, rv_input = ev_input e,
      rv_output = ev_output e, rv_estimate = ev_estimate e, rv_error = ev_error e,
      rv_bytes = ev_bytes e, rv_state = ev_state e, rv_sequence = ev_sequence e,
      rv_settled = ev_settled e, rv_reason = ev_reason e\<rparr>"

definition replay_event :: "crypto \<Rightarrow> ledger \<Rightarrow> budget_event \<Rightarrow> budget_error + ledger" where
  "replay_event C L e =
    (case first_error (replay_link_guards L e) of
       Some err \<Rightarrow> Inl err
     | None \<Rightarrow>
        (case dict_get (lg_tickets L) (ev_ticket_id e) of
           None \<Rightarrow> Inl (BudgetDenied ''event_ticket'')
         | Some tk \<Rightarrow>
            if tk_template_id tk \<noteq> ev_template_id e then Inl (BudgetDenied ''event_ticket'')
            else (case first_error (replay_transition_guards L e @ replay_content_guards C L tk e) of
               Some err \<Rightarrow> Inl err
             | None \<Rightarrow>
                Inr (L\<lparr>lg_used := (if dict_get (lg_reservations L) (ev_ticket_id e) = None
                                    then insert (ev_template_id e) (lg_used L) else lg_used L),
                       lg_events := lg_events L @ [e],
                       lg_reservations :=
                         dict_set (ev_ticket_id e) (event_reservation e) (lg_reservations L)\<rparr>))))"

fun replay_events :: "crypto \<Rightarrow> ledger \<Rightarrow> budget_event list \<Rightarrow> budget_error + ledger" where
  "replay_events C L [] = Inr L"
| "replay_events C L (e # es) =
     (case replay_event C L e of Inl err \<Rightarrow> Inl err | Inr L' \<Rightarrow> replay_events C L' es)"

definition replay ::
  "crypto \<Rightarrow> int \<Rightarrow> ticket_template list \<Rightarrow> issued_ticket list \<Rightarrow> string \<Rightarrow> trust_context
     \<Rightarrow> budget_event list \<Rightarrow> string \<Rightarrow> budget_error + ledger" where
  "replay C now templates tickets manifest trust events expected =
     (if \<not> is_sha256_digest expected then Inl (BudgetDenied ''state_anchor_invalid'')
      else (case init_ledger C now templates tickets manifest trust of
         Inl e \<Rightarrow> Inl e
       | Inr L0 \<Rightarrow>
          (case replay_events C L0 events of
             Inl e \<Rightarrow> Inl e
           | Inr L \<Rightarrow>
              if state_digest C L \<noteq> expected then Inl (BudgetDenied ''state_anchor_mismatch'')
              else Inr L)))"

end
