(* ===== verification/BudgetInv.thy ===== *)
theory BudgetInv
  imports BudgetReplay
begin

text \<open>
  The ledger's invariant and the simulation that carries the budget proofs: every successful
  operation is the replay of the one event it appends, so an invariant of \<open>replay_event\<close> is an
  invariant of the whole ledger.
\<close>

subsection \<open>The invariant\<close>

definition terminal_ok :: "reservation \<Rightarrow> bool" where
  "terminal_ok r \<longleftrightarrow>
     (case rv_state r of
        RESERVED \<Rightarrow> rv_settled r = None \<and> rv_reason r = None
      | DISPATCHED \<Rightarrow> rv_settled r = None \<and> rv_reason r = None
      | SETTLED \<Rightarrow> rv_reason r = None \<and>
          (\<exists>u. rv_settled r = Some (settled_of u) \<and> ru_input u \<le> rv_input r \<and> ru_output u \<le> rv_output r)
      | RETAINED \<Rightarrow> rv_settled r = None \<and> (\<exists>x \<in> set allowed_retain_reasons. rv_reason r = Some x))"

definition reservation_ok :: "ledger \<Rightarrow> string \<Rightarrow> reservation \<Rightarrow> bool" where
  "reservation_ok L tid r \<longleftrightarrow>
     rv_ticket_id r = tid \<and>
     (\<exists>tk. dict_get (lg_tickets L) tid = Some tk \<and> rv_template_id r = tk_template_id tk \<and>
           rv_output r = tk_max_output tk \<and> rv_input r \<le> tk_max_input tk \<and>
           rv_input r \<le> limit_max_input (tk_class tk) \<and> rv_output r \<le> limit_max_output (tk_class tk)) \<and>
     rv_error r = tc_error (lg_trust L) \<and>
     0 \<le> rv_estimate r \<and> 0 \<le> rv_error r \<and> 0 \<le> rv_bytes r \<and>
     rv_input r = reserved_input_for (rv_estimate r) (rv_error r) (rv_bytes r) \<and>
     terminal_ok r"

definition within_cap :: "budget_triple \<Rightarrow> budget_triple \<Rightarrow> bool" where
  "within_cap t cap \<longleftrightarrow> bt_requests t \<le> bt_requests cap \<and> bt_input t \<le> bt_input cap \<and> bt_output t \<le> bt_output cap"

definition ledger_inv :: "ledger \<Rightarrow> bool" where
  "ledger_inv L \<longleftrightarrow>
     distinct (keys (lg_reservations L)) \<and>
     (\<forall>tid r. dict_get (lg_reservations L) tid = Some r \<longrightarrow> reservation_ok L tid r) \<and>
     lg_used L = rv_template_id ` ran (dict_get (lg_reservations L)) \<and>
     within_cap (totals L) campaign_reservation"

text \<open>Sequence numbers, back links and digests of an event log that starts after \<open>prev\<close>.\<close>

fun event_chain :: "crypto \<Rightarrow> string \<Rightarrow> int \<Rightarrow> budget_event list \<Rightarrow> bool" where
  "event_chain C prev n [] = True"
| "event_chain C prev n (e # es) \<longleftrightarrow>
     ev_sequence e = n \<and> ev_previous_sha e = prev \<and> ev_sha e = event_digest C e \<and>
     event_chain C (ev_sha e) (n + 1) es"

lemma event_chain_snoc:
  "event_chain C prev n (es @ [e]) \<longleftrightarrow>
     event_chain C prev n es \<and> ev_sequence e = n + int (length es) \<and>
     ev_previous_sha e = (if es = [] then prev else ev_sha (last es)) \<and> ev_sha e = event_digest C e"
  by (induction es arbitrary: prev n) auto

lemma within_absolute: "within_cap t campaign_reservation \<Longrightarrow> absolute_allows t"
  by (simp add: within_cap_def absolute_allows_def campaign_reservation_def campaign_absolute_def)

subsection \<open>The static part of a ledger never changes\<close>

definition same_static :: "ledger \<Rightarrow> ledger \<Rightarrow> bool" where
  "same_static L L' \<longleftrightarrow> lg_templates L' = lg_templates L \<and> lg_tickets L' = lg_tickets L \<and>
     lg_manifest L' = lg_manifest L \<and> lg_trust L' = lg_trust L"

lemma reservation_ok_static: "same_static L L' \<Longrightarrow> reservation_ok L' tid r = reservation_ok L tid r"
  by (simp add: same_static_def reservation_ok_def)

text \<open>What a successful replay step did.\<close>

lemma replay_eventE:
  assumes "replay_event C L e = Inr L'"
  obtains tk where
    "dict_get (lg_tickets L) (ev_ticket_id e) = Some tk" and "tk_template_id tk = ev_template_id e"
    and "\<forall>(g, x) \<in> set (replay_link_guards L e). \<not> g"
    and "\<forall>(g, x) \<in> set (replay_transition_guards L e). \<not> g"
    and "\<forall>(g, x) \<in> set (replay_content_guards C L tk e). \<not> g"
    and "L' = L\<lparr>lg_used := (if dict_get (lg_reservations L) (ev_ticket_id e) = None
                 then insert (ev_template_id e) (lg_used L) else lg_used L),
               lg_events := lg_events L @ [e],
               lg_reservations := dict_set (ev_ticket_id e) (event_reservation e) (lg_reservations L)\<rparr>"
  using assms
  by (auto simp: replay_event_def first_error_None split: option.splits if_splits)

lemma replay_event_static: "replay_event C L e = Inr L' \<Longrightarrow> same_static L L'"
  by (erule replay_eventE) (simp add: same_static_def)

lemma settled_ofI:
  "usage_consistent e u \<Longrightarrow>
     u = settled_of (su_raw u) \<and> ru_input (su_raw u) \<le> ev_input e \<and> ru_output (su_raw u) \<le> ev_output e"
  by (auto simp: usage_consistent_def settled_of_def)

lemma content_terminal_ok:
  assumes "\<forall>(g, x) \<in> set (replay_content_guards C L tk e). \<not> g"
  shows "terminal_ok (event_reservation e)"
proof (cases "ev_state e")
  case SETTLED
  with assms obtain u where u: "ev_settled e = Some u" "usage_consistent e u" and "ev_reason e = None"
    by (auto simp: replay_content_guards_def split: option.splits)
  with SETTLED settled_ofI [OF u(2)] show ?thesis
    by (auto simp: terminal_ok_def event_reservation_def)
qed (use assms in \<open>auto simp: replay_content_guards_def terminal_ok_def event_reservation_def\<close>)

lemma replay_event_reservation_ok:
  assumes "replay_event C L e = Inr L'"
  shows "reservation_ok L (ev_ticket_id e) (event_reservation e)"
proof -
  from assms obtain tk where tk: "dict_get (lg_tickets L) (ev_ticket_id e) = Some tk"
      "tk_template_id tk = ev_template_id e"
    and g: "\<forall>(g, x) \<in> set (replay_content_guards C L tk e). \<not> g"
    by (rule replay_eventE)
  from content_terminal_ok [OF g] g tk show ?thesis
    by (auto simp: reservation_ok_def replay_content_guards_def event_reservation_def)
qed

lemma totals_new:
  "lg_reservations L' = dict_set tid r (lg_reservations L) \<Longrightarrow>
     dict_get (lg_reservations L) tid = None \<Longrightarrow>
     totals L' = triple_add (totals L) 1 (rv_input r) (rv_output r)"
  by (simp add: totals_def triple_add_def dict_get_None length_dict_set_new sum_list_dict_set_new)

lemma totals_same:
  "lg_reservations L' = dict_set tid r (lg_reservations L) \<Longrightarrow>
     dict_get (lg_reservations L) tid = Some p \<Longrightarrow> rv_input r = rv_input p \<Longrightarrow> rv_output r = rv_output p \<Longrightarrow>
     totals L' = totals L"
  by (simp add: totals_def length_dict_set_same
      sum_list_dict_set_same [where f = rv_input] sum_list_dict_set_same [where f = rv_output])

lemma replay_event_inv:
  assumes inv: "ledger_inv L" and step: "replay_event C L e = Inr L'"
  shows "ledger_inv L'"
proof -
  let ?r = "event_reservation e" and ?t = "ev_ticket_id e"
  from step obtain tk where tk: "dict_get (lg_tickets L) ?t = Some tk" "tk_template_id tk = ev_template_id e"
    and tg: "\<forall>(g, x) \<in> set (replay_transition_guards L e). \<not> g"
    and L': "L' = L\<lparr>lg_used := (if dict_get (lg_reservations L) ?t = None
                 then insert (ev_template_id e) (lg_used L) else lg_used L),
               lg_events := lg_events L @ [e],
               lg_reservations := dict_set ?t ?r (lg_reservations L)\<rparr>"
    by (rule replay_eventE)
  have io: "rv_input ?r = ev_input e" "rv_output ?r = ev_output e" "rv_template_id ?r = ev_template_id e"
    by (simp_all add: event_reservation_def)
  have lookup: "dict_get (lg_reservations L') = (dict_get (lg_reservations L))(?t \<mapsto> ?r)"
    by (rule ext) (simp add: L' dict_get_set)
  have ok: "\<forall>tid r. dict_get (lg_reservations L') tid = Some r \<longrightarrow> reservation_ok L' tid r"
    using inv replay_event_reservation_ok [OF step]
    by (auto simp: lookup reservation_ok_static [OF replay_event_static [OF step]] ledger_inv_def)
  have dist: "distinct (keys (lg_reservations L'))"
    using inv by (simp add: L' ledger_inv_def distinct_keys_dict_set)
  have rest: "lg_used L' = rv_template_id ` ran (dict_get (lg_reservations L')) \<and>
      within_cap (totals L') campaign_reservation"
  proof (cases "dict_get (lg_reservations L) ?t")
    case None
    with tg have "within_cap (triple_add (totals L) 1 (ev_input e) (ev_output e)) campaign_reservation"
      by (auto simp: replay_transition_guards_def within_cap_def Let_def)
    moreover have "totals L' = triple_add (totals L) 1 (ev_input e) (ev_output e)"
      using None by (subst totals_new [of L' ?t ?r L]) (simp_all add: L' io)
    moreover have "rv_template_id ` ran (dict_get (lg_reservations L')) =
        insert (ev_template_id e) (rv_template_id ` ran (dict_get (lg_reservations L)))"
      using None by (simp only: lookup ran_map_upd image_insert io)
    moreover have "lg_used L' = insert (ev_template_id e) (lg_used L)"
      using None by (simp add: L')
    ultimately show ?thesis using inv by (simp only: ledger_inv_def)
  next
    case (Some p)
    with inv have "reservation_ok L ?t p" by (auto simp: ledger_inv_def)
    with tk have "rv_template_id p = ev_template_id e" by (auto simp: reservation_ok_def)
    moreover from Some tg have "ev_input e = rv_input p" "ev_output e = rv_output p"
      by (auto simp: replay_transition_guards_def)
    moreover from calculation have "totals L' = totals L"
      using Some by (intro totals_same [of L' ?t ?r L p]) (simp_all add: L' io)
    moreover have "rv_template_id ` ran (dict_get (lg_reservations L')) =
        rv_template_id ` ran (dict_get (lg_reservations L))"
      unfolding lookup by (rule image_ran_upd_same [where u = p]) (simp_all add: Some calculation io)
    moreover have "lg_used L' = lg_used L"
      using Some by (simp add: L')
    ultimately show ?thesis using inv by (simp only: ledger_inv_def)
  qed
  from ok dist rest show ?thesis by (simp add: ledger_inv_def)
qed

subsection \<open>Operations are replays of their event\<close>

lemma append_event_simps:
  "fst (append_event C r L) = r\<lparr>rv_sequence := int (length (lg_events L)) + 1\<rparr>"
  "snd (append_event C r L) =
     L\<lparr>lg_events := lg_events L @ [make_event C L r],
       lg_reservations := dict_set (rv_ticket_id r) (r\<lparr>rv_sequence := int (length (lg_events L)) + 1\<rparr>)
         (lg_reservations L)\<rparr>"
  by (simp_all add: append_event_def make_event_def Let_def)

lemma make_event_simps [simp]:
  "ev_sequence (make_event C L r) = int (length (lg_events L)) + 1"
  "ev_ticket_id (make_event C L r) = rv_ticket_id r"
  "ev_state (make_event C L r) = rv_state r"
  "ev_input (make_event C L r) = rv_input r"
  "ev_output (make_event C L r) = rv_output r"
  "ev_estimate (make_event C L r) = rv_estimate r"
  "ev_error (make_event C L r) = rv_error r"
  "ev_bytes (make_event C L r) = rv_bytes r"
  "ev_template_id (make_event C L r) = rv_template_id r"
  "ev_previous_state (make_event C L r) = map_option rv_state (dict_get (lg_reservations L) (rv_ticket_id r))"
  "ev_settled (make_event C L r) = rv_settled r"
  "ev_reason (make_event C L r) = rv_reason r"
  "ev_previous_sha (make_event C L r) = last_sha (lg_events L)"
  by (simp_all add: make_event_def Let_def)

lemma make_event_sha: "ev_sha (make_event C L r) = event_digest C (make_event C L r)"
  by (simp add: make_event_def Let_def event_digest_def event_core_json_def)

lemma event_reservation_make:
  "event_reservation (make_event C L r) = r\<lparr>rv_sequence := int (length (lg_events L)) + 1\<rparr>"
  by (simp add: event_reservation_def)

lemma make_event_content:
  assumes "reservation_ok L (rv_ticket_id r) r"
    and "dict_get (lg_tickets L) (rv_ticket_id r) = Some tk"
  shows "\<forall>(g, x) \<in> set (replay_content_guards C L tk (make_event C M r)). \<not> g"
proof (cases "rv_state r")
  case SETTLED
  with assms show ?thesis
    by (auto simp: replay_content_guards_def reservation_ok_def terminal_ok_def usage_consistent_def
        settled_of_def make_event_sha)
qed (use assms in \<open>auto simp: replay_content_guards_def reservation_ok_def terminal_ok_def make_event_sha\<close>)

text \<open>A later event of a ticket, which only changes state, settlement and reason.\<close>

definition may_follow :: "reservation_state \<Rightarrow> reservation_state \<Rightarrow> bool" where
  "may_follow s s' \<longleftrightarrow> (s = RESERVED \<and> s' = DISPATCHED) \<or> (s = DISPATCHED \<and> s' \<in> {SETTLED, RETAINED})"

lemma later_event_replays:
  assumes inv: "ledger_inv L" and r: "dict_get (lg_reservations L) tid = Some r"
    and r': "r' = r\<lparr>rv_state := s, rv_settled := su, rv_reason := rs\<rparr>"
    and follow: "may_follow (rv_state r) s" and fin: "terminal_ok r'"
  shows "replay_event C L (make_event C L r') = Inr (snd (append_event C r' L))"
proof -
  from inv r have ok: "reservation_ok L tid r" by (auto simp: ledger_inv_def)
  then obtain tk where tk: "dict_get (lg_tickets L) tid = Some tk" "rv_template_id r = tk_template_id tk"
    by (auto simp: reservation_ok_def)
  have id: "rv_ticket_id r' = tid" "rv_ticket_id r = tid" using ok r' by (auto simp: reservation_ok_def)
  have ok': "reservation_ok L (rv_ticket_id r') r'" using ok fin r' by (auto simp: reservation_ok_def)
  have link: "\<forall>(g, x) \<in> set (replay_link_guards L (make_event C L r')). \<not> g"
    by (simp add: replay_link_guards_def)
  have trans: "\<forall>(g, x) \<in> set (replay_transition_guards L (make_event C L r')). \<not> g"
    using r follow by (auto simp: replay_transition_guards_def id r' may_follow_def)
  have content: "\<forall>(g, x) \<in> set (replay_content_guards C L tk (make_event C L r')). \<not> g"
    using ok' tk by (intro make_event_content) (auto simp: id)
  have "first_error (replay_link_guards L (make_event C L r')) = None"
      "first_error (replay_transition_guards L (make_event C L r')
         @ replay_content_guards C L tk (make_event C L r')) = None"
    using link trans content by (simp_all add: first_error_None ball_Un)
  with tk r show ?thesis
    by (simp add: replay_event_def append_event_simps event_reservation_make id) (simp add: r' id)
qed

lemma mark_dispatched_replays:
  assumes inv: "ledger_inv L" and step: "mark_dispatched C tid L = (Inr r, L')"
  shows "\<exists>e. replay_event C L e = Inr L'"
proof -
  from step obtain p where p: "dict_get (lg_reservations L) tid = Some p" "rv_state p = RESERVED"
    and L': "L' = snd (append_event C (p\<lparr>rv_state := DISPATCHED\<rparr>) L)"
    by (auto simp: mark_dispatched_def require_def split: option.splits if_splits prod.splits)
  let ?q = "p\<lparr>rv_state := DISPATCHED, rv_settled := rv_settled p, rv_reason := rv_reason p\<rparr>"
  from inv p have "terminal_ok p" by (auto simp: ledger_inv_def reservation_ok_def)
  with p have "terminal_ok ?q" by (simp add: terminal_ok_def)
  with inv p have "replay_event C L (make_event C L ?q) = Inr (snd (append_event C ?q L))"
    by (intro later_event_replays [OF inv p(1) refl]) (simp_all add: may_follow_def)
  then show ?thesis by (auto simp: L')
qed

lemma retain_replays:
  assumes inv: "ledger_inv L" and step: "retain C tid reason L = (Inr r, L')"
  shows "\<exists>e. replay_event C L e = Inr L'"
proof -
  from step obtain p where p: "dict_get (lg_reservations L) tid = Some p" "rv_state p = DISPATCHED"
    and reason: "reason \<in> set allowed_retain_reasons"
    and L': "L' = snd (append_event C (p\<lparr>rv_state := RETAINED, rv_reason := Some reason\<rparr>) L)"
    by (auto simp: retain_def require_def split: option.splits if_splits prod.splits)
  let ?q = "p\<lparr>rv_state := RETAINED, rv_settled := rv_settled p, rv_reason := Some reason\<rparr>"
  from inv p have "terminal_ok p" by (auto simp: ledger_inv_def reservation_ok_def)
  with p reason have "terminal_ok ?q" by (simp add: terminal_ok_def)
  with inv p have "replay_event C L (make_event C L ?q) = Inr (snd (append_event C ?q L))"
    by (intro later_event_replays [OF inv p(1) refl]) (simp_all add: may_follow_def)
  then show ?thesis by (auto simp: L')
qed

lemma settle_replays:
  assumes inv: "ledger_inv L" and step: "settle C tid usage L = (Inr u, L')"
  shows "\<exists>e. replay_event C L e = Inr L'"
proof -
  from step obtain p where p: "dict_get (lg_reservations L) tid = Some p" "rv_state p = DISPATCHED"
    and bound: "ru_input usage \<le> rv_input p" "ru_output usage \<le> rv_output p"
    and L': "L' = snd (append_event C (p\<lparr>rv_state := SETTLED, rv_settled := Some (settled_of usage)\<rparr>) L)"
    by (auto simp: settle_def require_def split: option.splits if_splits prod.splits)
  let ?q = "p\<lparr>rv_state := SETTLED, rv_settled := Some (settled_of usage), rv_reason := rv_reason p\<rparr>"
  from inv p have "terminal_ok p" by (auto simp: ledger_inv_def reservation_ok_def)
  with p bound have "terminal_ok ?q" by (auto simp: terminal_ok_def)
  with inv p have "replay_event C L (make_event C L ?q) = Inr (snd (append_event C ?q L))"
    by (intro later_event_replays [OF inv p(1) refl]) (simp_all add: may_follow_def)
  then show ?thesis by (auto simp: L')
qed

text \<open>What a successful reservation has checked.\<close>

lemma reserveE:
  assumes "reserve C now tid lease role estimate err bytes L = (Inr r, L')"
  obtains tk tp where
    "0 \<le> estimate" and "0 \<le> err" and "err = tc_error (lg_trust L)"
    and "dict_get (lg_tickets L) tid = Some tk"
    and "dict_get (lg_templates L) (tk_template_id tk) = Some tp"
    and "\<forall>(g, x) \<in> set (reserve_binding_guards L now tid tk tp lease role). \<not> g"
    and "\<forall>(g, x) \<in> set (reserve_ceiling_guards L tk (reserved_input_for estimate err (int (length bytes)))). \<not> g"
    and "append_event C (new_reservation tid tk estimate err bytes)
           (L\<lparr>lg_used := insert (tk_template_id tk) (lg_used L)\<rparr>) = (r, L')"
proof -
  from assms obtain tk tp where "\<not> min estimate err < 0" "err = tc_error (lg_trust L)"
    "dict_get (lg_tickets L) tid = Some tk" "dict_get (lg_templates L) (tk_template_id tk) = Some tp"
    "first_error (reserve_binding_guards L now tid tk tp lease role
       @ reserve_ceiling_guards L tk (reserved_input_for estimate err (int (length bytes)))) = None"
    "append_event C (new_reservation tid tk estimate err bytes)
       (L\<lparr>lg_used := insert (tk_template_id tk) (lg_used L)\<rparr>) = (r, L')"
    by (auto simp: reserve_def split: option.splits if_splits prod.splits)
  with that [of tk tp] show thesis
    by (simp add: first_error_None ball_Un min_def split: if_splits)
qed

lemma reserve_replays:
  assumes inv: "ledger_inv L"
    and step: "reserve C now tid lease role estimate err bytes L = (Inr r, L')"
  shows "\<exists>e. replay_event C L e = Inr L'"
proof -
  from step obtain tk tp where nn: "0 \<le> estimate" "0 \<le> err" "err = tc_error (lg_trust L)"
    and tk: "dict_get (lg_tickets L) tid = Some tk"
    and bg: "\<forall>(g, x) \<in> set (reserve_binding_guards L now tid tk tp lease role). \<not> g"
    and cg: "\<forall>(g, x) \<in> set (reserve_ceiling_guards L tk (reserved_input_for estimate err (int (length bytes)))). \<not> g"
    and app: "append_event C (new_reservation tid tk estimate err bytes)
           (L\<lparr>lg_used := insert (tk_template_id tk) (lg_used L)\<rparr>) = (r, L')"
    by (rule reserveE)
  define M where "M = L\<lparr>lg_used := insert (tk_template_id tk) (lg_used L)\<rparr>"
  define q where "q = new_reservation tid tk estimate err bytes"
  have q: "rv_ticket_id q = tid" "rv_template_id q = tk_template_id tk" "rv_state q = RESERVED"
    by (simp_all add: q_def new_reservation_def)
  have fresh: "dict_get (lg_reservations L) tid = None" "tk_template_id tk \<notin> lg_used L"
    using bg by (auto simp: reserve_binding_guards_def Let_def)
  have same: "make_event C M q = make_event C L q"
    by (simp add: make_event_def M_def)
  have ok: "reservation_ok L (rv_ticket_id q) q"
    using nn tk cg
    by (auto simp: reservation_ok_def q_def new_reservation_def reserve_ceiling_guards_def Let_def
        terminal_ok_def)
  have link: "first_error (replay_link_guards L (make_event C L q)) = None"
    by (simp add: first_error_None replay_link_guards_def)
  have "\<forall>(g, x) \<in> set (replay_transition_guards L (make_event C L q)). \<not> g"
    using fresh cg
    by (auto simp: replay_transition_guards_def q Let_def reserve_ceiling_guards_def absolute_allows_def)
      (auto simp: q_def new_reservation_def)
  moreover have "\<forall>(g, x) \<in> set (replay_content_guards C L tk (make_event C L q)). \<not> g"
    using ok tk by (intro make_event_content) (auto simp: q)
  ultimately have "first_error (replay_transition_guards L (make_event C L q)
       @ replay_content_guards C L tk (make_event C L q)) = None"
    by (simp add: first_error_None ball_Un)
  with link have "replay_event C L (make_event C L q) =
      Inr (L\<lparr>lg_used := insert (tk_template_id tk) (lg_used L),
             lg_events := lg_events L @ [make_event C L q],
             lg_reservations := dict_set tid (q\<lparr>rv_sequence := int (length (lg_events L)) + 1\<rparr>)
               (lg_reservations L)\<rparr>)"
    using tk fresh by (simp add: replay_event_def q event_reservation_make)
  moreover have "L' = snd (append_event C q M)"
    using app by (simp add: q_def M_def)
  then have "L' = L\<lparr>lg_used := insert (tk_template_id tk) (lg_used L),
             lg_events := lg_events L @ [make_event C L q],
             lg_reservations := dict_set tid (q\<lparr>rv_sequence := int (length (lg_events L)) + 1\<rparr>)
               (lg_reservations L)\<rparr>"
    by (simp add: append_event_simps same q) (simp add: M_def)
  ultimately show ?thesis by auto
qed

end
