(* ===== verification/Interfaces.thy ===== *)
theory Interfaces
  imports Prelude
begin

text \<open>
  The interfaces shared by several components, stated once as locales.

  \<^item> \<open>event_sourced\<close>: an object whose every change is the application of one event that it
    appends to its log. Replaying the log rebuilds the object, and an invariant of one
    application is an invariant of every state.
  \<^item> \<open>hash_chain\<close>: a log whose entries carry the digest of their own content and of their
    predecessor. Two verified chains of the same length that end in the same digest are equal,
    unless two different contents among them have the same digest.
  \<^item> \<open>numbered_hash_chain\<close>: the content also fixes the position, so the lengths need not be
    compared.
\<close>

subsection \<open>Event-sourced objects\<close>

locale event_sourced =
  fixes apply_event :: "'s \<Rightarrow> 'ev \<Rightarrow> 'err + 's"
    and log :: "'s \<Rightarrow> 'ev list"
    and run :: "'s \<Rightarrow> 'ev list \<Rightarrow> 'err + 's"
  assumes apply_log: "apply_event s e = Inr s' \<Longrightarrow> log s' = log s @ [e]"
    and run_Nil: "run s [] = Inr s"
    and run_Cons: "run s (e # es) = (case apply_event s e of Inl x \<Rightarrow> Inl x | Inr s' \<Rightarrow> run s' es)"
begin

lemma run_append:
  "run s (es @ fs) = (case run s es of Inl x \<Rightarrow> Inl x | Inr s' \<Rightarrow> run s' fs)"
  by (induction es arbitrary: s) (auto simp: run_Nil run_Cons split: sum.splits)

lemma run_log: "run s es = Inr s' \<Longrightarrow> log s' = log s @ es"
  by (induction es arbitrary: s) (auto simp: run_Nil run_Cons apply_log split: sum.splits)

lemma run_invariant:
  assumes "\<And>s e s'. I s \<Longrightarrow> apply_event s e = Inr s' \<Longrightarrow> I s'"
  shows "run s es = Inr s' \<Longrightarrow> I s \<Longrightarrow> I s'"
  using assms by (induction es arbitrary: s) (auto simp: run_Nil run_Cons split: sum.splits)

text \<open>States reached by applying events, whatever operation chose them.\<close>

definition steps_to :: "'s \<Rightarrow> 's \<Rightarrow> bool" where
  "steps_to = (\<lambda>s s'. \<exists>e. apply_event s e = Inr s')\<^sup>*\<^sup>*"

lemma steps_run:
  assumes "steps_to s s'"
  shows "\<exists>es. run s es = Inr s' \<and> log s' = log s @ es"
  using assms unfolding steps_to_def
proof (induction rule: rtranclp_induct)
  case base
  then show ?case by (intro exI [of _ "[]"]) (simp add: run_Nil)
next
  case (step y z)
  from step.IH obtain es where es: "run s es = Inr y" "log y = log s @ es" by blast
  from step.hyps obtain e where e: "apply_event y e = Inr z" by blast
  have "run s (es @ [e]) = Inr z" using es e by (simp add: run_append run_Cons run_Nil)
  moreover have "log z = log s @ es @ [e]" using apply_log [OF e] es by simp
  ultimately show ?case by blast
qed

lemma replay_of_log:
  assumes "log s = []" and "steps_to s s'"
  shows "run s (log s') = Inr s'"
  using steps_run [OF assms(2)] assms(1) by auto

lemma steps_invariant:
  assumes pres: "\<And>s e s'. I s \<Longrightarrow> apply_event s e = Inr s' \<Longrightarrow> I s'"
    and "steps_to s s'" and "I s"
  shows "I s'"
proof -
  from steps_run [OF assms(2)] obtain es where "run s es = Inr s'" by blast
  from run_invariant [of I, OF pres this \<open>I s\<close>] show ?thesis .
qed

end

subsection \<open>Hash chains\<close>

locale hash_chain =
  fixes prev :: "'e \<Rightarrow> 'h" and own :: "'e \<Rightarrow> 'h" and body :: "'e \<Rightarrow> 'b" and digest :: "'b \<Rightarrow> 'h"
  assumes body_own_inj: "body e = body f \<Longrightarrow> own e = own f \<Longrightarrow> e = f"
begin

fun chain :: "'h \<Rightarrow> 'e list \<Rightarrow> bool" where
  "chain p [] \<longleftrightarrow> True"
| "chain p (e # es) \<longleftrightarrow> prev e = p \<and> own e = digest (body e) \<and> chain (own e) es"

definition head :: "'h \<Rightarrow> 'e list \<Rightarrow> 'h" where
  "head p es = (if es = [] then p else own (last es))"

definition collision :: "'e list \<Rightarrow> 'e list \<Rightarrow> bool" where
  "collision es fs \<longleftrightarrow> (\<exists>e \<in> set es. \<exists>f \<in> set fs. body e \<noteq> body f \<and> digest (body e) = digest (body f))"

lemma chain_snoc: "chain p (es @ [e]) \<longleftrightarrow> chain p es \<and> prev e = head p es \<and> own e = digest (body e)"
  by (induction es arbitrary: p) (auto simp: head_def)

lemma head_snoc [simp]: "head p (es @ [e]) = own e"
  by (simp add: head_def)

lemma same_entry:
  assumes "own e = digest (body e)" and "own f = digest (body f)" and "own e = own f"
    and "\<not> collision (es @ [e]) (fs @ [f])"
  shows "e = f"
proof -
  have "digest (body e) = digest (body f)" using assms(1-3) by (simp only:)
  moreover have "e \<in> set (es @ [e])" "f \<in> set (fs @ [f])" by simp_all
  ultimately have "body e = body f" using assms(4) unfolding collision_def by blast
  then show ?thesis using assms(3) by (rule body_own_inj)
qed

lemma collision_mono: "collision es fs \<Longrightarrow> set es \<subseteq> set es' \<Longrightarrow> set fs \<subseteq> set fs' \<Longrightarrow> collision es' fs'"
  by (auto simp: collision_def)

theorem same_head_same_chain:
  assumes "chain p es" and "chain p fs" and "length es = length fs" and "head p es = head p fs"
  shows "es = fs \<or> collision es fs"
  using assms
proof (induction es arbitrary: fs rule: rev_induct)
  case Nil
  then show ?case by simp
next
  case (snoc e es)
  from snoc.prems(3) obtain f fs' where fs: "fs = fs' @ [f]"
    by (cases fs rule: rev_cases) auto
  show ?case
  proof (cases "collision (es @ [e]) (fs' @ [f])")
    case True
    then show ?thesis by (simp add: fs)
  next
    case False
    have ce: "chain p es" "prev e = head p es" "own e = digest (body e)"
      using snoc.prems(1) by (simp_all only: chain_snoc)
    have cf: "chain p fs'" "prev f = head p fs'" "own f = digest (body f)"
      using snoc.prems(2) unfolding fs by (simp_all only: chain_snoc)
    have "own e = own f" using snoc.prems(4) by (simp only: fs head_snoc)
    then have "e = f" by (rule same_entry [OF ce(3) cf(3) _ False])
    then have "head p es = head p fs'" using ce(2) cf(2) by (simp only:)
    moreover have "length es = length fs'" using snoc.prems(3) fs by simp
    ultimately have "es = fs' \<or> collision es fs'" using snoc.IH ce(1) cf(1) by blast
    moreover have "\<not> collision es fs'" using False collision_mono [of es fs' "es @ [e]" "fs' @ [f]"] by auto
    ultimately have "es = fs'" by blast
    then have "es @ [e] = fs" using \<open>e = f\<close> by (simp only: fs)
    then show ?thesis by (rule disjI1)
  qed
qed

end

locale numbered_hash_chain = hash_chain prev own body digest
  for prev :: "'e \<Rightarrow> 'h" and own :: "'e \<Rightarrow> 'h" and body :: "'e \<Rightarrow> 'b" and digest :: "'b \<Rightarrow> 'h" +
  fixes pos :: "'e \<Rightarrow> int"
  assumes body_pos: "body e = body f \<Longrightarrow> pos e = pos f"
begin

definition numbered :: "'e list \<Rightarrow> bool" where
  "numbered es \<longleftrightarrow> (\<forall>i < length es. pos (es ! i) = int i + 1)"

lemma numbered_last: "numbered es \<Longrightarrow> es \<noteq> [] \<Longrightarrow> pos (last es) = int (length es)"
  by (cases "length es") (auto simp: numbered_def last_conv_nth)

theorem same_last_same_chain:
  assumes "chain p es" and "chain p fs" and "numbered es" and "numbered fs"
    and "es \<noteq> []" and "fs \<noteq> []" and "own (last es) = own (last fs)"
  shows "es = fs \<or> collision es fs"
proof (rule disjCI)
  assume no: "\<not> collision es fs"
  from assms obtain e es' f fs' where snoc: "es = es' @ [e]" "fs = fs' @ [f]"
    by (metis append_butlast_last_id)
  have "own e = digest (body e)" "own f = digest (body f)"
    using assms(1,2) unfolding snoc by (simp_all only: chain_snoc)
  moreover have "own e = own f" using assms(7) by (simp only: snoc last_snoc)
  ultimately have "e = f" using no unfolding snoc by (rule same_entry)
  then have "int (length es) = int (length fs)"
    using assms numbered_last [of es] numbered_last [of fs] by (simp add: snoc)
  then have "length es = length fs" by simp
  moreover have "head p es = head p fs" using assms(5-7) by (simp only: head_def if_False)
  ultimately show "es = fs" using same_head_same_chain [OF assms(1,2)] no by blast
qed

end

end
