(* ===== verification/BudgetSpec.thy ===== *)
theory BudgetSpec
  imports BudgetInv Interfaces
begin

text \<open>
  What the budget ledger promises: campaign caps in every reachable state, one life cycle per
  ticket, exact replay of the event log, tamper evidence of the log against its checkpoint digest,
  and retries only after a retained transient failure.
\<close>

subsection \<open>Interpretations\<close>

interpretation budget_log: event_sourced "replay_event C" lg_events "replay_events C" for C
proof unfold_locales
  fix s s' e
  assume "replay_event C s e = Inr s'"
  then show "lg_events s' = lg_events s @ [e]" by (rule replay_eventE) simp
qed simp_all

lemma inj_state_value: "state_value s = state_value t \<Longrightarrow> s = t"
  by (cases s; cases t) simp_all

lemma opt_json_inj:
  assumes "opt_json f x = opt_json f y" and "\<And>a b. f a = f b \<Longrightarrow> a = b" and "\<And>a. f a \<noteq> JNull"
  shows "x = y"
proof (cases x)
  case None
  with assms(1) assms(3) [symmetric] show ?thesis by (cases y) (simp_all add: opt_json_def)
next
  case (Some a)
  with assms show ?thesis by (cases y) (simp_all add: opt_json_def)
qed

lemma settled_json_inj: "settled_json u = settled_json v \<Longrightarrow> u = v"
  by (cases u; cases v)
    (auto simp: settled_json_def raw_usage_json_def intro!: raw_usage.equality dest!: opt_json_inj)

lemma event_core_json_inj:
  assumes "event_core_json e = event_core_json f" and "ev_sha e = ev_sha f"
  shows "e = f"
proof -
  have "ev_previous_state e = ev_previous_state f"
    using assms by (intro opt_json_inj [of "\<lambda>s. JStr (state_value s)"])
      (auto simp: event_core_json_def dest: inj_state_value)
  moreover have "ev_settled e = ev_settled f"
    using assms by (intro opt_json_inj [of settled_json])
      (auto simp: event_core_json_def dest: settled_json_inj, simp add: settled_json_def)
  moreover have "ev_reason e = ev_reason f"
    using assms by (intro opt_json_inj [of JStr]) (auto simp: event_core_json_def)
  moreover have "ev_state e = ev_state f"
    using assms by (auto simp: event_core_json_def dest: inj_state_value)
  ultimately show ?thesis
    using assms by (intro budget_event.equality) (simp_all add: event_core_json_def)
qed

interpretation budget_chain: numbered_hash_chain ev_previous_sha ev_sha event_core_json
    "domain_digest C ''budget-ledger-event''" ev_sequence for C
  by unfold_locales (auto intro: event_core_json_inj simp: event_core_json_def)

lemma event_chain_iff:
  "event_chain C prev n es \<longleftrightarrow> budget_chain.chain C prev es \<and> (\<forall>i < length es. ev_sequence (es ! i) = n + int i)"
proof (induction es arbitrary: prev n)
  case Nil
  then show ?case by simp
next
  case (Cons e es)
  have "(\<forall>i < length (e # es). ev_sequence ((e # es) ! i) = n + int i) \<longleftrightarrow>
      ev_sequence e = n \<and> (\<forall>i < length es. ev_sequence (es ! i) = n + 1 + int i)"
    by (auto simp: less_Suc_eq_0_disj nth_Cons split: nat.splits)
  then show ?case by (auto simp: Cons.IH event_digest_def)
qed

subsection \<open>Reachable ledgers\<close>

inductive ledger_step :: "crypto \<Rightarrow> ledger \<Rightarrow> ledger \<Rightarrow> bool" for C where
  step_reserve: "reserve C now tid lease role estimate err bytes L = (Inr r, L') \<Longrightarrow> ledger_step C L L'"
| step_retry: "reserve_retry C now tid orig lease role estimate err bytes L = (Inr r, L') \<Longrightarrow> ledger_step C L L'"
| step_dispatch: "mark_dispatched C tid L = (Inr r, L') \<Longrightarrow> ledger_step C L L'"
| step_retain: "retain C tid reason L = (Inr r, L') \<Longrightarrow> ledger_step C L L'"
| step_settle: "settle C tid usage L = (Inr u, L') \<Longrightarrow> ledger_step C L L'"

inductive ledger_reachable ::
  "crypto \<Rightarrow> ticket_template list \<Rightarrow> issued_ticket list \<Rightarrow> string \<Rightarrow> trust_context \<Rightarrow> ledger \<Rightarrow> bool"
  for C templates tickets manifest trust where
  reach_init: "init_ledger C now templates tickets manifest trust = Inr L \<Longrightarrow>
     ledger_reachable C templates tickets manifest trust L"
| reach_step: "ledger_reachable C templates tickets manifest trust L \<Longrightarrow> ledger_step C L L' \<Longrightarrow>
     ledger_reachable C templates tickets manifest trust L'"

lemma reserve_retry_reserves:
  "reserve_retry C now tid orig lease role estimate err bytes L = (Inr r, L') \<Longrightarrow>
     reserve C now tid lease role estimate err bytes L = (Inr r, L')"
  by (auto simp: reserve_retry_def split: option.splits if_splits)

lemma ledger_step_replays: "ledger_inv L \<Longrightarrow> ledger_step C L L' \<Longrightarrow> \<exists>e. replay_event C L e = Inr L'"
  by (erule ledger_step.cases)
    (auto intro: reserve_replays mark_dispatched_replays retain_replays settle_replays
      dest: reserve_retry_reserves)

lemma init_ledger_new: "init_ledger C now templates tickets manifest trust = Inr L \<Longrightarrow>
    L = new_ledger templates tickets manifest trust"
  by (simp add: init_ledger_def Let_def split: option.splits)

lemma new_ledger_inv: "ledger_inv (new_ledger templates tickets manifest trust)"
  by (simp add: ledger_inv_def new_ledger_def totals_def within_cap_def campaign_reservation_def)

lemma ledger_reachable_replayed:
  assumes "ledger_reachable C templates tickets manifest trust L"
  shows "ledger_inv L \<and> budget_log.steps_to C (new_ledger templates tickets manifest trust) L"
  using assms
proof (induction rule: ledger_reachable.induct)
  case (reach_init now L)
  then show ?case
    by (auto dest: init_ledger_new simp: new_ledger_inv budget_log.steps_to_def)
next
  case (reach_step L L')
  then obtain e where "replay_event C L e = Inr L'" using ledger_step_replays by blast
  with reach_step.IH show ?case
    by (auto simp: budget_log.steps_to_def intro: replay_event_inv rtranclp.rtrancl_into_rtrancl)
qed

lemmas ledger_reachable_inv = ledger_reachable_replayed [THEN conjunct1]

text \<open>The log of a replayed ledger is chained and numbered.\<close>

lemma replay_event_chain:
  assumes "event_chain C [] 1 (lg_events L)" and "replay_event C L e = Inr L'"
  shows "event_chain C [] 1 (lg_events L')"
  using assms(2)
proof (rule replay_eventE)
  fix tk
  assume "\<forall>(g, x) \<in> set (replay_link_guards L e). \<not> g"
    and "\<forall>(g, x) \<in> set (replay_content_guards C L tk e). \<not> g"
    and "L' = L\<lparr>lg_used := (if dict_get (lg_reservations L) (ev_ticket_id e) = None
                 then insert (ev_template_id e) (lg_used L) else lg_used L),
               lg_events := lg_events L @ [e],
               lg_reservations := dict_set (ev_ticket_id e) (event_reservation e) (lg_reservations L)\<rparr>"
  with assms(1) show ?thesis
    by (auto simp: event_chain_snoc replay_link_guards_def replay_content_guards_def last_sha_def)
qed

subsection \<open>The life cycle of a ticket\<close>

fun life_cycle :: "reservation_state \<Rightarrow> reservation_state list" where
  "life_cycle RESERVED = [RESERVED]"
| "life_cycle DISPATCHED = [RESERVED, DISPATCHED]"
| "life_cycle SETTLED = [RESERVED, DISPATCHED, SETTLED]"
| "life_cycle RETAINED = [RESERVED, DISPATCHED, RETAINED]"

definition ticket_history :: "string \<Rightarrow> budget_event list \<Rightarrow> reservation_state list" where
  "ticket_history tid es = map ev_state (filter (\<lambda>e. ev_ticket_id e = tid) es)"

definition history_ok :: "ledger \<Rightarrow> bool" where
  "history_ok L \<longleftrightarrow> (\<forall>tid. ticket_history tid (lg_events L) =
     (case dict_get (lg_reservations L) tid of None \<Rightarrow> [] | Some r \<Rightarrow> life_cycle (rv_state r)))"

lemma life_cycle_snoc: "may_follow s s' \<Longrightarrow> life_cycle s @ [s'] = life_cycle s'"
  by (auto simp: may_follow_def)

lemma replay_transition_follow:
  assumes "\<forall>(g, x) \<in> set (replay_transition_guards L e). \<not> g"
  shows "(case dict_get (lg_reservations L) (ev_ticket_id e) of
            None \<Rightarrow> ev_state e = RESERVED | Some p \<Rightarrow> may_follow (rv_state p) (ev_state e))"
proof (cases "dict_get (lg_reservations L) (ev_ticket_id e)")
  case (Some p)
  with assms show ?thesis
    by (cases "rv_state p") (auto simp: replay_transition_guards_def may_follow_def)
qed (use assms in \<open>auto simp: replay_transition_guards_def Let_def\<close>)

lemma replay_event_history:
  assumes "history_ok L" and "replay_event C L e = Inr L'"
  shows "history_ok L'"
  using assms(2)
proof (rule replay_eventE)
  fix tk
  assume tg: "\<forall>(g, x) \<in> set (replay_transition_guards L e). \<not> g"
    and L': "L' = L\<lparr>lg_used := (if dict_get (lg_reservations L) (ev_ticket_id e) = None
                 then insert (ev_template_id e) (lg_used L) else lg_used L),
               lg_events := lg_events L @ [e],
               lg_reservations := dict_set (ev_ticket_id e) (event_reservation e) (lg_reservations L)\<rparr>"
  have "ticket_history tid (lg_events L') =
      (case dict_get (lg_reservations L') tid of None \<Rightarrow> [] | Some r \<Rightarrow> life_cycle (rv_state r))" for tid
  proof (cases "tid = ev_ticket_id e")
    case True
    have "ticket_history tid (lg_events L') = ticket_history tid (lg_events L) @ [ev_state e]"
      using True by (simp add: L' ticket_history_def)
    also have "\<dots> = life_cycle (ev_state e)"
      using replay_transition_follow [OF tg] assms(1) True
      by (cases "dict_get (lg_reservations L) (ev_ticket_id e)")
        (auto simp: history_ok_def life_cycle_snoc)
    finally show ?thesis using True by (simp add: L' dict_get_set event_reservation_def)
  next
    case False
    with assms(1) show ?thesis by (simp add: L' dict_get_set history_ok_def ticket_history_def)
  qed
  then show ?thesis by (simp add: history_ok_def)
qed

lemma new_ledger_history: "history_ok (new_ledger templates tickets manifest trust)"
  by (simp add: history_ok_def new_ledger_def ticket_history_def)

subsection \<open>A concrete campaign for the witnesses\<close>

definition demo_crypto :: crypto where
  "demo_crypto = \<lparr>sha256 = (\<lambda>s. zero_digest), hmac256 = (\<lambda>k m. zero_digest), repr_float = (\<lambda>r. ''0.0''),
     read_float = (\<lambda>s. None)\<rparr>"

definition demo_template :: ticket_template where
  "demo_template = \<lparr>tp_template_id = ''tpl'', tp_purpose = ''p'', tp_owner = Own_C,
     tp_config = Some Cfg_C, tp_problem_id = None, tp_turn = None, tp_allowed_role = ''planner'',
     tp_class = Req_main, tp_usage_phase = ''evaluation'', tp_slot_id = ''s'',
     tp_attempt_group = ''g'', tp_retry_owner = None, tp_max_input = 9000, tp_max_output = 1000\<rparr>"

definition demo_retry_template :: ticket_template where
  "demo_retry_template = demo_template\<lparr>tp_template_id := ''tpl-retry'', tp_retry_owner := Some Own_C\<rparr>"

definition demo_ticket :: issued_ticket where
  "demo_ticket = \<lparr>tk_ticket_id = ''t1'', tk_template_id = ''tpl'', tk_campaign_id = ''c'',
     tk_manifest_sha256 = zero_digest, tk_owner = Own_C, tk_config = Some Cfg_C,
     tk_project_id = ''p'', tk_task_id = ''t'', tk_worker = ''w'', tk_matrix_user_id = ''m'',
     tk_allowed_role = ''planner'', tk_class = Req_main, tk_usage_phase = ''evaluation'',
     tk_max_input = 9000, tk_max_output = 1000, tk_expires_at = 100, tk_issuer_id = ''i'',
     tk_key_id = ''k'', tk_issue_sequence = 1, tk_ticket_sha256 = zero_digest, tk_signature = ''sig''\<rparr>"

definition demo_retry_ticket :: issued_ticket where
  "demo_retry_ticket = demo_ticket\<lparr>tk_ticket_id := ''t2'', tk_template_id := ''tpl-retry'', tk_issue_sequence := 2\<rparr>"

definition demo_lease :: signed_lease where
  "demo_lease = \<lparr>sl_core = \<lparr>lc_campaign_id = ''c'', lc_config = Some Cfg_C, lc_owner = Own_C,
     lc_problem_id = ''prob'', lc_turn = 1, lc_generation = 1, lc_manifest_sha256 = zero_digest,
     lc_extension_sha256 = None, lc_policy_sha256 = zero_digest,
     lc_requirement_ledger_sha256 = zero_digest, lc_workspace_checkpoint_sha256 = zero_digest,
     lc_memory_watermark = 0, lc_project_id = ''p'', lc_task_id = ''t'', lc_worker = ''w'',
     lc_matrix_user_id = ''m'', lc_role = ''planner'', lc_stage = ''s'', lc_allowed_skills = [],
     lc_allowed_tools = [], lc_class = Req_main, lc_ticket_ids = [''t1'', ''t2''], lc_expires_at = 100,
     lc_issuer_id = ''i'', lc_key_id = ''k'', lc_issue_sequence = 1\<rparr>,
     sl_core_sha256 = zero_digest, sl_signature = ''sig''\<rparr>"

definition demo_trust :: trust_context where
  "demo_trust = \<lparr>tc_issuer_id = ''i'', tc_key_id = ''k'', tc_verify = (\<lambda>_. True), tc_error = 10\<rparr>"

lemmas demo_simps = demo_crypto_def demo_template_def demo_retry_template_def demo_ticket_def
  demo_retry_ticket_def demo_lease_def demo_trust_def

definition demo_ledger :: ledger where
  "demo_ledger = new_ledger [demo_template, demo_retry_template] [demo_ticket, demo_retry_ticket]
     zero_digest demo_trust"

lemma demo_ledger_dicts:
  "lg_templates demo_ledger = [(''tpl'', demo_template), (''tpl-retry'', demo_retry_template)]"
  "lg_tickets demo_ledger = [(''t1'', demo_ticket), (''t2'', demo_retry_ticket)]"
  "lg_manifest demo_ledger = zero_digest" "lg_trust demo_ledger = demo_trust"
  "lg_reservations demo_ledger = []" "lg_used demo_ledger = {}" "lg_events demo_ledger = []"
  by (simp_all add: demo_ledger_def new_ledger_def dict_of_def demo_simps)

lemma demo_init:
  "init_ledger demo_crypto 5 [demo_template, demo_retry_template] [demo_ticket, demo_retry_ticket]
     zero_digest demo_trust = Inr demo_ledger"
  unfolding init_ledger_def Let_def demo_ledger_def [symmetric] demo_ledger_dicts
  by (simp add: demo_simps ticket_load_guards_def in_window_def domain_digest_def)

definition demo_reserved_at :: "int \<Rightarrow> ledger" where
  "demo_reserved_at n = snd (append_event demo_crypto (new_reservation ''t1'' demo_ticket n 10 ''body'')
     (demo_ledger\<lparr>lg_used := {''tpl''}\<rparr>))"

abbreviation demo_reserved :: ledger where
  "demo_reserved \<equiv> demo_reserved_at 100"

lemma demo_binding:
  "first_error (reserve_binding_guards demo_ledger 5 ''t1'' demo_ticket demo_template demo_lease ''planner'') = None"
  by (simp add: reserve_binding_guards_def demo_ledger_dicts)
    (simp add: demo_simps in_window_def lease_bound_to_def)

lemma demo_ceiling:
  assumes "0 \<le> n" and "n \<le> 8000"
  shows "first_error (reserve_ceiling_guards demo_ledger demo_ticket (reserved_input_for n 10 4)) = None"
  using assms
  by (simp add: reserve_ceiling_guards_def totals_def demo_ledger_dicts triple_add_def
      campaign_reservation_def campaign_absolute_def)
    (auto simp: demo_simps reserved_input_for_def)

lemma demo_reserve_eq:
  assumes "0 \<le> n" and "n \<le> 8000"
  shows "reserve demo_crypto 5 ''t1'' demo_lease ''planner'' n 10 ''body'' demo_ledger =
    (Inr (fst (append_event demo_crypto (new_reservation ''t1'' demo_ticket n 10 ''body'')
                (demo_ledger\<lparr>lg_used := {''tpl''}\<rparr>))), demo_reserved_at n)"
proof -
  have "first_error (reserve_binding_guards demo_ledger 5 ''t1'' demo_ticket demo_template demo_lease ''planner''
      @ reserve_ceiling_guards demo_ledger demo_ticket (reserved_input_for n 10 4)) = None"
    using demo_binding demo_ceiling [OF assms] by (simp add: first_error_None ball_Un)
  moreover have "tk_template_id demo_ticket = ''tpl''" "tc_error demo_trust = 10"
    by (simp_all add: demo_simps)
  ultimately show ?thesis
    using assms by (simp add: demo_reserved_at_def reserve_def demo_ledger_dicts split: prod.splits)
qed

lemma demo_reachable_at:
  assumes "0 \<le> n" and "n \<le> 8000"
  shows "ledger_reachable demo_crypto [demo_template, demo_retry_template] [demo_ticket, demo_retry_ticket]
     zero_digest demo_trust (demo_reserved_at n)"
  using demo_reserve_eq [OF assms] by (auto intro: reach_init [OF demo_init] reach_step step_reserve)

lemma demo_reachable:
  "ledger_reachable demo_crypto [demo_template, demo_retry_template] [demo_ticket, demo_retry_ticket]
     zero_digest demo_trust demo_reserved"
  by (rule demo_reachable_at) simp_all

lemma demo_reserved_simps:
  "lg_reservations (demo_reserved_at n) =
    [(''t1'', (new_reservation ''t1'' demo_ticket n 10 ''body'')\<lparr>rv_sequence := 1\<rparr>)]"
  "lg_events (demo_reserved_at n) =
    [make_event demo_crypto (demo_ledger\<lparr>lg_used := {''tpl''}\<rparr>) (new_reservation ''t1'' demo_ticket n 10 ''body'')]"
  by (simp_all add: demo_reserved_at_def append_event_simps demo_ledger_dicts)
    (simp add: new_reservation_def)

lemma demo_event_sha [simp]: "ev_sha (make_event demo_crypto L r) = zero_digest"
  by (simp add: make_event_sha event_digest_def domain_digest_def demo_crypto_def)

subsection \<open>Properties\<close>

text \<open>C1. Campaign caps: in every ledger that operations can reach, the reserved totals are
  within the campaign reservation (356 requests, 3306000 input and 485500 output tokens) and hence
  within the absolute campaign caps.\<close>

theorem budget_caps:
  assumes "ledger_reachable C templates tickets manifest trust L"
  shows "bt_requests (totals L) \<le> 356 \<and> bt_input (totals L) \<le> 3306000 \<and>
    bt_output (totals L) \<le> 485500 \<and> absolute_allows (totals L)"
proof -
  have "within_cap (totals L) campaign_reservation"
    using ledger_reachable_inv [OF assms] by (simp add: ledger_inv_def)
  then show ?thesis
    using within_absolute [of "totals L"] by (simp add: within_cap_def campaign_reservation_def)
qed

theorem budget_caps_witness:
  "bt_requests (totals demo_reserved) \<le> 356 \<and> absolute_allows (totals demo_reserved)"
  using budget_caps [OF demo_reachable] by blast

text \<open>C2. Replay round trip: replaying the event log of a reachable ledger, at any sequence at
  which the tickets still load and against that ledger's own state digest, rebuilds exactly that
  ledger, reservations, used templates and events included.\<close>

theorem budget_replay_roundtrip:
  assumes reach: "ledger_reachable C templates tickets manifest trust L"
    and load: "init_ledger C now templates tickets manifest trust = Inr L0"
    and anchor: "is_sha256_digest (state_digest C L)"
  shows "replay C now templates tickets manifest trust (lg_events L) (state_digest C L) = Inr L"
proof -
  have "L0 = new_ledger templates tickets manifest trust" using load by (rule init_ledger_new)
  moreover have "replay_events C (new_ledger templates tickets manifest trust) (lg_events L) = Inr L"
    using ledger_reachable_replayed [OF reach]
    by (intro budget_log.replay_of_log) (simp_all add: new_ledger_def)
  ultimately show ?thesis using load anchor by (simp add: replay_def)
qed

lemma demo_digest: "is_sha256_digest (state_digest demo_crypto L)"
  by (simp add: state_digest_def domain_digest_def demo_crypto_def zero_digest_def
      is_sha256_digest_def is_lower_hex_def list_all_iff)

theorem budget_replay_roundtrip_witness:
  "replay demo_crypto 7 [demo_template, demo_retry_template] [demo_ticket, demo_retry_ticket] zero_digest
     demo_trust (lg_events demo_reserved) (state_digest demo_crypto demo_reserved) = Inr demo_reserved"
proof -
  have "init_ledger demo_crypto 7 [demo_template, demo_retry_template] [demo_ticket, demo_retry_ticket]
     zero_digest demo_trust = Inr demo_ledger"
    unfolding init_ledger_def Let_def demo_ledger_def [symmetric] demo_ledger_dicts
    by (simp add: demo_simps ticket_load_guards_def in_window_def domain_digest_def)
  from budget_replay_roundtrip [OF demo_reachable this demo_digest] show ?thesis .
qed

text \<open>C3. Replay soundness: a ledger that replay accepts satisfies the full ledger invariant
  (caps, ticket ceilings, single use of templates, consistent terminal records), its log is the
  given one, numbered and hash-chained, and its digest is the trusted anchor. So a forged or
  truncated log cannot smuggle in an over-budget or doubly used reservation.\<close>

theorem budget_replay_sound:
  assumes "replay C now templates tickets manifest trust events expected = Inr L"
  shows "ledger_inv L \<and> history_ok L \<and> lg_events L = events \<and> event_chain C [] 1 events \<and>
    state_digest C L = expected"
proof -
  let ?L0 = "new_ledger templates tickets manifest trust"
  from assms have run: "replay_events C ?L0 events = Inr L" and digest: "state_digest C L = expected"
    by (auto simp: replay_def split: sum.splits if_splits dest!: init_ledger_new)
  have "ledger_inv L"
    using budget_log.run_invariant [of ledger_inv, OF _ run new_ledger_inv] replay_event_inv by blast
  moreover have "history_ok L"
    using budget_log.run_invariant [of history_ok, OF _ run new_ledger_history] replay_event_history by blast
  moreover have log: "lg_events L = events"
    using budget_log.run_log [OF run] by (simp add: new_ledger_def)
  moreover have "event_chain C [] 1 (lg_events L)"
    by (rule budget_log.run_invariant [of "\<lambda>L. event_chain C [] 1 (lg_events L)", OF _ run])
      (auto intro: replay_event_chain simp: new_ledger_def)
  ultimately show ?thesis using digest by simp
qed

theorem budget_replay_sound_witness:
  "ledger_inv demo_reserved \<and> event_chain demo_crypto [] 1 (lg_events demo_reserved)"
proof -
  have "init_ledger demo_crypto 5 [demo_template, demo_retry_template] [demo_ticket, demo_retry_ticket]
     zero_digest demo_trust = Inr demo_ledger" by (rule demo_init)
  moreover have "replay_events demo_crypto demo_ledger (lg_events demo_reserved) = Inr demo_reserved"
    using ledger_reachable_replayed [OF demo_reachable] unfolding demo_ledger_def
    by (intro budget_log.replay_of_log) (simp_all add: new_ledger_def)
  ultimately have "replay demo_crypto 5 [demo_template, demo_retry_template] [demo_ticket, demo_retry_ticket]
     zero_digest demo_trust (lg_events demo_reserved) (state_digest demo_crypto demo_reserved) = Inr demo_reserved"
    using demo_digest by (simp add: replay_def)
  from budget_replay_sound [OF this] show ?thesis by blast
qed

text \<open>C4. Tamper evidence: two logs that replay accepts and that end in the same event digest are
  the same log, unless two different event contents among them have the same digest. One trusted
  head digest therefore fixes the whole history, its length included.\<close>

theorem budget_log_tamper_evident:
  assumes "replay C now templates tickets manifest trust es a = Inr L"
    and "replay C now' templates tickets manifest trust fs b = Inr M"
    and "es \<noteq> []" and "fs \<noteq> []" and "ev_sha (last es) = ev_sha (last fs)"
  shows "es = fs \<or>
    (\<exists>e \<in> set es. \<exists>f \<in> set fs. event_core_json e \<noteq> event_core_json f \<and> event_digest C e = event_digest C f)"
proof -
  have chain: "event_chain C [] 1 es" "event_chain C [] 1 fs"
    using budget_replay_sound [OF assms(1)] budget_replay_sound [OF assms(2)] by blast+
  then have "budget_chain.chain C [] es" "budget_chain.chain C [] fs"
      "budget_chain.numbered es" "budget_chain.numbered fs"
    by (auto simp: event_chain_iff budget_chain.numbered_def)
  from budget_chain.same_last_same_chain [OF this assms(3-5)] show ?thesis
    unfolding budget_chain.collision_def event_digest_def .
qed

theorem budget_log_tamper_evident_witness:
  "lg_events (demo_reserved_at 100) \<noteq> lg_events (demo_reserved_at 200) \<and>
   (\<exists>e \<in> set (lg_events (demo_reserved_at 100)). \<exists>f \<in> set (lg_events (demo_reserved_at 200)).
      event_core_json e \<noteq> event_core_json f \<and> event_digest demo_crypto e = event_digest demo_crypto f)"
proof -
  have replayed: "replay demo_crypto 5 [demo_template, demo_retry_template] [demo_ticket, demo_retry_ticket] zero_digest
     demo_trust (lg_events (demo_reserved_at n)) (state_digest demo_crypto (demo_reserved_at n)) = Inr (demo_reserved_at n)"
    if "0 \<le> n" "n \<le> 8000" for n
    using budget_log.replay_of_log [of demo_ledger demo_crypto "demo_reserved_at n"]
      ledger_reachable_replayed [OF demo_reachable_at [OF that]]
    by (simp add: replay_def demo_init demo_digest demo_ledger_dicts) (simp add: demo_ledger_def)
  have ne: "lg_events (demo_reserved_at 100) \<noteq> lg_events (demo_reserved_at 200)"
    by (auto simp: demo_reserved_simps dest!: arg_cong [where f = ev_estimate]) (simp add: new_reservation_def)
  have "lg_events (demo_reserved_at 100) = lg_events (demo_reserved_at 200) \<or>
   (\<exists>e \<in> set (lg_events (demo_reserved_at 100)). \<exists>f \<in> set (lg_events (demo_reserved_at 200)).
      event_core_json e \<noteq> event_core_json f \<and> event_digest demo_crypto e = event_digest demo_crypto f)"
    by (rule budget_log_tamper_evident [OF replayed replayed]) (simp_all add: demo_reserved_simps)
  with ne show ?thesis by blast
qed

text \<open>Life cycle: in a reachable ledger the events of one ticket are exactly the prefix of
  RESERVED, DISPATCHED, SETTLED (or RETAINED) that ends in the state its reservation shows, and a
  ticket without a reservation has no event. A ticket is dispatched at most once, and never after
  it settled or was retained.\<close>

theorem budget_ticket_lifecycle:
  assumes "ledger_reachable C templates tickets manifest trust L"
  shows "ticket_history tid (lg_events L) =
    (case dict_get (lg_reservations L) tid of None \<Rightarrow> [] | Some r \<Rightarrow> life_cycle (rv_state r))"
proof -
  have "history_ok L"
    by (rule budget_log.steps_invariant [of history_ok C, OF replay_event_history
        conjunct2 [OF ledger_reachable_replayed [OF assms]] new_ledger_history])
  then show ?thesis by (simp add: history_ok_def)
qed

theorem budget_ticket_lifecycle_witness:
  "ticket_history ''t1'' (lg_events demo_reserved) = [RESERVED]"
  using budget_ticket_lifecycle [OF demo_reachable, of "''t1''"]
  by (simp add: demo_reserved_simps) (simp add: new_reservation_def)

lemma replay_event_keeps: "replay_event C L e = Inr L' \<Longrightarrow> dict_get (lg_reservations L) tid \<noteq> None \<Longrightarrow>
    dict_get (lg_reservations L') tid \<noteq> None"
  by (erule replay_eventE) (simp add: dict_get_set)

lemma trace_keeps_history:
  assumes "(ledger_step C)\<^sup>*\<^sup>* L L'" and "ledger_inv L" and "dict_get (lg_reservations L) tid \<noteq> None"
  shows "ledger_inv L' \<and> dict_get (lg_reservations L') tid \<noteq> None"
  using assms
proof (induction rule: rtranclp_induct)
  case (step y z)
  then have y: "ledger_inv y" "dict_get (lg_reservations y) tid \<noteq> None" by simp_all
  from ledger_step_replays [OF y(1) step.hyps(2)] obtain e where e: "replay_event C y e = Inr z" by blast
  from replay_event_inv [OF y(1) e] replay_event_keeps [OF e y(2)] show ?case by simp
qed simp

text \<open>Single use: once a ticket of a reachable ledger holds a reservation, no later reservation
  of it succeeds, whatever operations run in between, at whatever sequence and with whatever lease
  or estimate, and the refused attempt leaves the ledger as it was.\<close>

theorem budget_ticket_single_use:
  assumes "ledger_reachable C templates tickets manifest trust L"
    and "reservation_for L tid = Some r" and "(ledger_step C)\<^sup>*\<^sup>* L L'"
  shows "\<exists>e. reserve C now tid lease role estimate err bytes L' = (Inl e, L')"
proof (cases "reserve C now tid lease role estimate err bytes L'")
  case (Pair res L'')
  have used: "dict_get (lg_reservations L') tid \<noteq> None"
    using trace_keeps_history [OF assms(3) ledger_reachable_inv [OF assms(1)]] assms(2)
    by (simp add: reservation_for_def)
  show ?thesis
  proof (cases res)
    case (Inr q)
    with Pair have "reserve C now tid lease role estimate err bytes L' = (Inr q, L'')" by simp
    then obtain tk tp where "\<forall>(g, x) \<in> set (reserve_binding_guards L' now tid tk tp lease role). \<not> g"
      by (rule reserveE)
    with used show ?thesis by (simp add: reserve_binding_guards_def Let_def)
  next
    case (Inl e)
    with Pair show ?thesis
      by (auto simp: reserve_def split: option.splits if_splits prod.splits)
  qed
qed

theorem budget_ticket_single_use_witness:
  "\<exists>e. reserve demo_crypto 6 ''t1'' demo_lease ''planner'' 50 10 ''other'' demo_reserved = (Inl e, demo_reserved)"
  by (rule budget_ticket_single_use [OF demo_reachable _ rtranclp.rtrancl_refl])
    (simp add: reservation_for_def demo_reserved_simps)

text \<open>Failed operations are atomic: whatever error an operation of the ledger raises, the
  ledger is left exactly as it was.\<close>

theorem budget_failure_atomic:
  "(reserve C now tid lease role estimate err bytes L = (Inl e, L') \<longrightarrow> L' = L) \<and>
   (reserve_retry C now tid orig lease role estimate err bytes L = (Inl e, L') \<longrightarrow> L' = L) \<and>
   (mark_dispatched C tid L = (Inl e, L') \<longrightarrow> L' = L) \<and>
   (retain C tid reason L = (Inl e, L') \<longrightarrow> L' = L) \<and>
   (settle C tid usage L = (Inl e, L') \<longrightarrow> L' = L)"
proof (intro conjI impI)
  show reserve: "L' = L" if "reserve C now tid lease role estimate err bytes L = (Inl e, L')"
    using that by (auto simp: reserve_def split: option.splits if_splits prod.splits)
  show "L' = L" if "reserve_retry C now tid orig lease role estimate err bytes L = (Inl e, L')"
    using that reserve by (auto simp: reserve_retry_def split: option.splits if_splits)
  show "L' = L" if "mark_dispatched C tid L = (Inl e, L')"
    using that by (auto simp: mark_dispatched_def split: sum.splits prod.splits)
  show "L' = L" if "retain C tid reason L = (Inl e, L')"
    using that by (auto simp: retain_def split: sum.splits prod.splits if_splits)
  show "L' = L" if "settle C tid usage L = (Inl e, L')"
    using that by (auto simp: settle_def split: sum.splits prod.splits if_splits)
qed

theorem budget_failure_atomic_witness:
  "settle demo_crypto ''t1'' \<lparr>ru_input = 1, ru_output = 1, ru_cache_read = None, ru_cache_write = None,
     ru_reasoning = None\<rparr> demo_ledger = (Inl (BudgetDenied ''unreserved_ticket''), demo_ledger)"
proof -
  let ?u = "\<lparr>ru_input = 1, ru_output = 1, ru_cache_read = None, ru_cache_write = None, ru_reasoning = None\<rparr>"
  have "fst (settle demo_crypto ''t1'' ?u demo_ledger) = Inl (BudgetDenied ''unreserved_ticket'')"
    by (simp add: settle_def require_def demo_ledger_dicts)
  then obtain L' where step: "settle demo_crypto ''t1'' ?u demo_ledger = (Inl (BudgetDenied ''unreserved_ticket''), L')"
    by (cases "settle demo_crypto ''t1'' ?u demo_ledger") simp
  with budget_failure_atomic [of _ _ _ _ _ _ _ _ demo_ledger "BudgetDenied ''unreserved_ticket''" L'] show ?thesis
    by blast
qed

lemma later_op_totals:
  assumes "ledger_inv L" and "dict_get (lg_reservations L) tid = Some p"
    and "rv_ticket_id q = rv_ticket_id p" "rv_input q = rv_input p" "rv_output q = rv_output p"
  shows "totals (snd (append_event C q L)) = totals L"
proof -
  have "rv_ticket_id p = tid" using assms(1,2) by (auto simp: ledger_inv_def reservation_ok_def)
  with assms(2-5) show ?thesis
    by (intro totals_same [of _ tid "q\<lparr>rv_sequence := int (length (lg_events L)) + 1\<rparr>" L p])
      (simp_all add: append_event_simps)
qed

text \<open>Accounting: a reservation adds exactly one request, the reserved input (the larger of the
  tokenizer bound and the byte bound) and the ticket's output ceiling to the totals; dispatching,
  retaining and settling leave the totals alone, so a settled or failed call is never refunded, and
  what settles never exceeds what was reserved.\<close>

theorem budget_accounting:
  assumes "ledger_reachable C templates tickets manifest trust L"
  shows "(reserve C now tid lease role estimate err bytes L = (Inr r, L') \<longrightarrow>
            totals L' = triple_add (totals L) 1 (rv_input r) (rv_output r) \<and>
            rv_input r = max (estimate + err + 512) (int (length bytes) + 1024)) \<and>
         (mark_dispatched C tid L = (Inr r, L') \<longrightarrow> totals L' = totals L) \<and>
         (retain C tid reason L = (Inr r, L') \<longrightarrow> totals L' = totals L) \<and>
         (settle C tid usage L = (Inr u, L') \<longrightarrow> totals L' = totals L \<and>
            (\<exists>q. reservation_for L tid = Some q \<and> su_budget_input u \<le> rv_input q \<and> su_budget_output u \<le> rv_output q))"
proof (intro conjI impI)
  have inv: "ledger_inv L" by (rule ledger_reachable_inv [OF assms])
  assume "reserve C now tid lease role estimate err bytes L = (Inr r, L')"
  then obtain tk tp where bg: "\<forall>(g, x) \<in> set (reserve_binding_guards L now tid tk tp lease role). \<not> g"
    and app: "append_event C (new_reservation tid tk estimate err bytes)
           (L\<lparr>lg_used := insert (tk_template_id tk) (lg_used L)\<rparr>) = (r, L')"
    by (rule reserveE)
  let ?q = "new_reservation tid tk estimate err bytes" and ?M = "L\<lparr>lg_used := insert (tk_template_id tk) (lg_used L)\<rparr>"
  have fresh: "dict_get (lg_reservations L) tid = None"
    using bg by (auto simp: reserve_binding_guards_def Let_def)
  have r: "r = ?q\<lparr>rv_sequence := int (length (lg_events L)) + 1\<rparr>"
    using append_event_simps(1) [of C ?q ?M] app by simp
  have L': "lg_reservations L' = dict_set tid r (lg_reservations L)"
    using append_event_simps(2) [of C ?q ?M] app r by (simp add: new_reservation_def)
  show "totals L' = triple_add (totals L) 1 (rv_input r) (rv_output r)"
    using L' fresh by (rule totals_new)
  show "rv_input r = max (estimate + err + 512) (int (length bytes) + 1024)"
    by (simp add: r new_reservation_def reserved_input_for_def)
next
  have inv: "ledger_inv L" by (rule ledger_reachable_inv [OF assms])
  show "totals L' = totals L" if "mark_dispatched C tid L = (Inr r, L')"
    using that
    by (auto simp: mark_dispatched_def require_def split: option.splits if_splits prod.splits 
        dest!: arg_cong [where f = snd] intro!: later_op_totals [OF inv])
  show "totals L' = totals L" if "retain C tid reason L = (Inr r, L')"
    using that
    by (auto simp: retain_def require_def split: option.splits if_splits prod.splits 
        dest!: arg_cong [where f = snd] intro!: later_op_totals [OF inv])
  show "totals L' = totals L" if "settle C tid usage L = (Inr u, L')"
    using that
    by (auto simp: settle_def require_def split: option.splits if_splits prod.splits 
        dest!: arg_cong [where f = snd] intro!: later_op_totals [OF inv])
  show "\<exists>q. reservation_for L tid = Some q \<and> su_budget_input u \<le> rv_input q \<and> su_budget_output u \<le> rv_output q"
    if "settle C tid usage L = (Inr u, L')"
    using that by (auto simp: settle_def require_def reservation_for_def settled_of_def
        split: option.splits if_splits prod.splits)
qed

theorem budget_accounting_witness:
  "totals (demo_reserved_at 600) = \<lparr>bt_requests = 1, bt_input = 1122, bt_output = 1000\<rparr>"
proof -
  have "ledger_reachable demo_crypto [demo_template, demo_retry_template] [demo_ticket, demo_retry_ticket]
     zero_digest demo_trust demo_ledger"
    by (rule reach_init [OF demo_init])
  from budget_accounting [OF this, of 5 "''t1''" demo_lease "''planner''" 600 10 "''body''"] demo_reserve_eq [of 600]
  show ?thesis
    by (simp add: append_event_simps) (simp add: new_reservation_def reserved_input_for_def triple_add_def
        totals_def demo_ledger_dicts demo_ticket_def)
qed

text \<open>Retry gating: a retry reservation succeeds only after the original ticket was retained for
  a transient reason (429, 5xx, timeout), for a preloaded retry ticket that the lease names, whose
  template is owned by the original's phase owner and that agrees with the original on campaign,
  configuration, project, task, worker, identity, role, class, phase and token limits; and the
  original reservation is kept.\<close>

theorem budget_retry_gated:
  assumes reach: "ledger_reachable C templates tickets manifest trust L"
    and step: "reserve_retry C now retry_id orig lease role estimate err bytes L = (Inr r, L')"
  shows "\<exists>original tk otk tp reason. reservation_for L orig = Some original \<and>
    rv_state original = RETAINED \<and> rv_reason original = Some reason \<and> reason \<in> {''429'', ''5xx'', ''timeout''} \<and>
    trusted_ticket L retry_id = Some tk \<and> trusted_ticket L orig = Some otk \<and>
    dict_get (lg_templates L) (tk_template_id tk) = Some tp \<and> retry_bound_to tp tk otk \<and>
    retry_id \<in> set (lc_ticket_ids (sl_core lease)) \<and> retry_id \<noteq> orig \<and>
    reservation_for L' orig = Some original \<and> reservation_for L' retry_id = Some r \<and> rv_state r = RESERVED"
proof -
  from step obtain original tk otk tp where
    o: "dict_get (lg_reservations L) orig = Some original" "rv_state original = RETAINED"
      "rv_reason original \<in> set (map Some transient_reasons)"
    and t: "dict_get (lg_tickets L) retry_id = Some tk" "retry_id \<in> set (lc_ticket_ids (sl_core lease))"
      "dict_get (lg_templates L) (tk_template_id tk) = Some tp" "dict_get (lg_tickets L) orig = Some otk"
      "retry_bound_to tp tk otk"
    by (auto simp: reserve_retry_def split: option.splits if_splits)
  from reserve_retry_reserves [OF step] obtain tk' tp'
    where bg: "\<forall>(g, x) \<in> set (reserve_binding_guards L now retry_id tk' tp' lease role). \<not> g"
      and app: "append_event C (new_reservation retry_id tk' estimate err bytes)
           (L\<lparr>lg_used := insert (tk_template_id tk') (lg_used L)\<rparr>) = (r, L')"
    by (rule reserveE)
  have fresh: "dict_get (lg_reservations L) retry_id = None"
    using bg by (auto simp: reserve_binding_guards_def Let_def)
  have r: "r = (new_reservation retry_id tk' estimate err bytes)\<lparr>rv_sequence := int (length (lg_events L)) + 1\<rparr>"
    using app append_event_simps(1) [of C "new_reservation retry_id tk' estimate err bytes"
        "L\<lparr>lg_used := insert (tk_template_id tk') (lg_used L)\<rparr>"] by simp
  have L': "lg_reservations L' = dict_set retry_id r (lg_reservations L)"
    using app append_event_simps(2) [of C "new_reservation retry_id tk' estimate err bytes"
        "L\<lparr>lg_used := insert (tk_template_id tk') (lg_used L)\<rparr>"] r by (simp add: new_reservation_def)
  have "retry_id \<noteq> orig" using fresh o(1) by auto
  with o t fresh show ?thesis
    by (auto simp: reservation_for_def trusted_ticket_def L' dict_get_set transient_reasons_def r new_reservation_def)
qed

lemma demo_retry_gates:
  assumes "lg_tickets L = lg_tickets demo_ledger" and "lg_templates L = lg_templates demo_ledger"
    and "lg_manifest L = zero_digest" and "lg_trust L = demo_trust" and "lg_used L = {''tpl''}"
    and "lg_reservations L = [(''t1'', p)]" and "rv_state p = RETAINED" and "rv_reason p = Some ''429''"
    and "rv_input p = 1028" and "rv_output p = 1000"
  shows "\<exists>r L'. reserve_retry demo_crypto 6 ''t2'' ''t1'' demo_lease ''planner'' 100 10 ''body'' L = (Inr r, L')"
proof -
  have "first_error (reserve_binding_guards L 6 ''t2'' demo_retry_ticket demo_retry_template demo_lease ''planner'') = None"
    using assms by (simp add: reserve_binding_guards_def)
      (simp add: demo_simps in_window_def lease_bound_to_def)
  moreover have "first_error (reserve_ceiling_guards L demo_retry_ticket (reserved_input_for 100 10 4)) = None"
    using assms by (simp add: reserve_ceiling_guards_def totals_def triple_add_def
        campaign_reservation_def campaign_absolute_def)
      (simp add: demo_simps reserved_input_for_def)
  ultimately have "first_error (reserve_binding_guards L 6 ''t2'' demo_retry_ticket demo_retry_template demo_lease ''planner''
      @ reserve_ceiling_guards L demo_retry_ticket (reserved_input_for 100 10 4)) = None"
    by (simp add: first_error_None ball_Un)
  moreover have "tk_template_id demo_retry_ticket = ''tpl-retry''" "tc_error demo_trust = 10"
      "''t2'' \<in> set (lc_ticket_ids (sl_core demo_lease))"
      "retry_bound_to demo_retry_template demo_retry_ticket demo_ticket"
    by (simp_all add: demo_simps retry_bound_to_def)
  ultimately show ?thesis
    using assms by (simp add: reserve_retry_def reserve_def demo_ledger_dicts transient_reasons_def split: prod.splits)
qed

definition demo_retained :: ledger where
  "demo_retained = snd (retain demo_crypto ''t1'' ''429'' (snd (mark_dispatched demo_crypto ''t1'' demo_reserved)))"

lemma demo_static: "lg_tickets demo_reserved = lg_tickets demo_ledger" "lg_templates demo_reserved = lg_templates demo_ledger"
   "lg_manifest demo_reserved = zero_digest" "lg_trust demo_reserved = demo_trust" "lg_used demo_reserved = {''tpl''}"
  by (simp_all add: demo_reserved_at_def append_event_simps demo_ledger_dicts)

lemma demo_retained_reachable:
  "ledger_reachable demo_crypto [demo_template, demo_retry_template] [demo_ticket, demo_retry_ticket]
     zero_digest demo_trust demo_retained"
proof -
  let ?D = "snd (mark_dispatched demo_crypto ''t1'' demo_reserved)"
  have d: "\<exists>r. mark_dispatched demo_crypto ''t1'' demo_reserved = (Inr r, ?D)"
    by (simp add: mark_dispatched_def require_def demo_reserved_simps split: prod.splits)
      (simp add: new_reservation_def)
  have "dict_get (lg_reservations ?D) ''t1'' \<noteq> None \<and> rv_state (the (dict_get (lg_reservations ?D) ''t1'')) = DISPATCHED"
    by (simp add: mark_dispatched_def require_def demo_reserved_simps append_event_simps new_reservation_def
        dict_get_set split: prod.splits) (simp add: append_event_def Let_def dict_get_set)
  then have "\<exists>r. retain demo_crypto ''t1'' ''429'' ?D = (Inr r, demo_retained)"
    by (auto simp: demo_retained_def retain_def require_def allowed_retain_reasons_def split: prod.splits)
  with d show ?thesis by (auto intro: reach_step [OF reach_step [OF demo_reachable]] step_dispatch step_retain)
qed

theorem budget_retry_gated_witness:
  "\<exists>original. reservation_for demo_retained ''t1'' = Some original \<and> rv_state original = RETAINED \<and>
     (\<exists>reason. rv_reason original = Some reason \<and> reason \<in> {''429'', ''5xx'', ''timeout''})"
proof -
  have "\<exists>r L'. reserve_retry demo_crypto 6 ''t2'' ''t1'' demo_lease ''planner'' 100 10 ''body'' demo_retained = (Inr r, L')"
    by (rule demo_retry_gates [of _ "the (dict_get (lg_reservations demo_retained) ''t1'')"])
      (simp_all add: demo_retained_def retain_def mark_dispatched_def require_def demo_reserved_simps demo_static
        append_event_def Let_def new_reservation_def allowed_retain_reasons_def reserved_input_for_def demo_ticket_def)
  then obtain r L' where "reserve_retry demo_crypto 6 ''t2'' ''t1'' demo_lease ''planner'' 100 10 ''body'' demo_retained = (Inr r, L')"
    by blast
  from budget_retry_gated [OF demo_retained_reachable this] show ?thesis by blast
qed

end
