(* ===== verification/Broker.thy ===== *)
theory Broker
  imports BudgetSpec
begin

text \<open>
  The provider broker, \<open>benchmarks/secure_memory/substrate/broker.py\<close>: the campaign capability,
  which freezes for good, and \<open>ProviderBroker.dispatch\<close>, the only path to the provider.

  The parts the broker is given from outside are the record \<open>broker_env\<close>: the two sequence
  callables (the capability's may raise, written \<open>None\<close>), the signature verifier, tokenizer,
  scanner and transport. The n-th reading of a sequence is the callable applied to n; the
  transport may depend on every call sent before. The backoff observer is modelled by the list of
  kinds it was told. Descriptor handling (\<open>provision_secret_descriptor\<close>,
  \<open>read_authorized_secret_fd\<close>) is operating-system work and is not modelled: the key is \<open>be_api_key\<close>.
\<close>

subsection \<open>State\<close>

datatype capability_state = LOCKED | QUALIFIED | FROZEN

record capability_record =
  cp_state :: capability_state
  cp_campaign_id :: string
  cp_project_id :: string
  cp_base_url :: string
  cp_endpoint :: string
  cp_method :: string
  cp_body_shape :: string
  cp_model :: string
  cp_hard_output_limit :: bool
  cp_role_attribution :: bool
  cp_authoritative_usage :: bool
  cp_streaming_semantics :: bool
  cp_zero_background_calls :: bool
  cp_positive_error :: int
  cp_temperature_present :: bool
  cp_top_p_present :: bool
  cp_matrix_cases :: "string list"
  cp_matrix_digest :: string
  cp_issuer_id :: string
  cp_key_id :: string
  cp_issue_sequence :: int
  cp_expires_at :: int
  cp_record_sha256 :: string
  cp_signature :: string

definition qualification_cases :: "string list" where
  "qualification_cases = [''basic_nonstream_body'', ''stream_first_content'', ''tool_call_id'',
     ''tool_result_continuation'', ''hard_output_boundary'', ''context_overlimit_refusal'',
     ''authoritative_total_usage'', ''cached_input_subset'', ''reasoning_output_subset'', ''429_retry'',
     ''5xx_retry'', ''timeout'', ''redirect'', ''tls'', ''multi_role_attribution'',
     ''idle_window_zero_background_call'']"

definition capability_usable :: "capability_record \<Rightarrow> bool" where
  "capability_usable c \<longleftrightarrow>
     cp_state c = QUALIFIED \<and> cp_endpoint c = ''/chat/completions'' \<and> cp_method c = ''POST'' \<and>
     cp_body_shape c = ''chat_completions/v1'' \<and> cp_model c = ''agnes-2.5-pro'' \<and>
     cp_hard_output_limit c \<and> cp_role_attribution c \<and> cp_authoritative_usage c \<and>
     cp_streaming_semantics c \<and> cp_zero_background_calls c"

record model_request =
  rq_request_id :: string
  rq_campaign_id :: string
  rq_lease_sha256 :: string
  rq_ticket_id :: string
  rq_class :: request_class
  rq_base_url :: string
  rq_model :: string
  rq_messages :: "json list"
  rq_max_input :: int
  rq_max_output :: int
  rq_temperature :: "int option"
  rq_top_p :: "int option"
  rq_stream :: bool
  rq_tools :: "json list"

record provider_reply =
  rp_raw_usage :: "(string \<times> int) list option"
  rp_output_text :: string
  rp_first_stream_ns :: "int option"
  rp_first_content_ns :: "int option"

text \<open>What one call of the transport does: answer, a typed transport failure, or another exception.\<close>

datatype transport_result = Reply provider_reply | TransportFailure string | TransportError

record sent_call =
  sc_base_url :: string
  sc_method :: string
  sc_endpoint :: string
  sc_body :: json
  sc_api_key :: "string option"
  sc_allow_redirects :: bool
  sc_tls_verified :: bool

record broker_env =
  be_crypto :: crypto
  be_capability_sequence :: "nat \<Rightarrow> int option"
  be_ledger_sequence :: "nat \<Rightarrow> int"
  be_verify :: "signed_object \<Rightarrow> bool"
  be_tokenizer :: "string \<Rightarrow> int"
  be_scanner :: "string \<Rightarrow> bool"
  be_transport :: "sent_call list \<Rightarrow> sent_call \<Rightarrow> transport_result"
  be_api_key :: "string option"

record broker =
  br_ledger :: ledger
  br_capability :: capability_record
  br_tick :: nat
  br_sent :: "sent_call list"
  br_backoff :: "string list"

datatype broker_error = BrokerDenied string | BrokerBudget budget_error

record broker_response =
  bp_output_text :: string
  bp_usage :: settled_usage
  bp_first_stream_ns :: "int option"
  bp_first_content_ns :: "int option"

subsection \<open>The transport failure classes and the capability\<close>

text \<open>\<open>ProviderTransportFailure.status\<close>; \<open>None\<close> is its \<open>ValueError\<close>.\<close>

definition status_failure :: "int \<Rightarrow> string option" where
  "status_failure code =
     (if code = 429 \<or> (500 \<le> code \<and> code \<le> 599) \<or> (400 \<le> code \<and> code \<le> 499)
      then Some (if code = 429 then ''429'' else if code \<ge> 500 then ''5xx'' else ''4xx'') else None)"

definition capability_core_json :: "capability_record \<Rightarrow> json" where
  "capability_core_json c = JObj
    [(''state'', JStr (case cp_state c of LOCKED \<Rightarrow> ''LOCKED'' | QUALIFIED \<Rightarrow> ''QUALIFIED'' | FROZEN \<Rightarrow> ''FROZEN'')),
     (''campaign_id'', JStr (cp_campaign_id c)), (''project_id'', JStr (cp_project_id c)),
     (''base_url'', JStr (cp_base_url c)), (''endpoint'', JStr (cp_endpoint c)),
     (''method'', JStr (cp_method c)), (''body_shape'', JStr (cp_body_shape c)),
     (''model'', JStr (cp_model c)), (''hard_output_limit'', JBool (cp_hard_output_limit c)),
     (''role_attribution'', JBool (cp_role_attribution c)),
     (''authoritative_usage'', JBool (cp_authoritative_usage c)),
     (''streaming_semantics'', JBool (cp_streaming_semantics c)),
     (''zero_background_calls'', JBool (cp_zero_background_calls c)),
     (''calibrated_positive_error'', JInt (cp_positive_error c)),
     (''temperature_present'', JBool (cp_temperature_present c)),
     (''top_p_present'', JBool (cp_top_p_present c)),
     (''matrix_cases'', JList (map JStr (cp_matrix_cases c))),
     (''matrix_digest'', JStr (cp_matrix_digest c)), (''issuer_id'', JStr (cp_issuer_id c)),
     (''key_id'', JStr (cp_key_id c)), (''issue_sequence'', JInt (cp_issue_sequence c)),
     (''expires_at_sequence'', JInt (cp_expires_at c))]"

text \<open>The constructor of \<open>CampaignCapabilityAuthority\<close>: it accepts a record or raises.\<close>

definition authority_accepts ::
  "crypto \<Rightarrow> (capability_record \<Rightarrow> bool) \<Rightarrow> int \<Rightarrow> string \<Rightarrow> string \<Rightarrow> string \<Rightarrow> string \<Rightarrow> capability_record \<Rightarrow> bool" where
  "authority_accepts C verify sequence campaign project issuer key c \<longleftrightarrow>
     \<not> (\<not> verify c
        \<or> cp_record_sha256 c \<noteq> domain_digest C ''provider-capability-record'' (capability_core_json c)
        \<or> cp_matrix_cases c \<noteq> qualification_cases
        \<or> cp_matrix_digest c \<noteq>
            domain_digest C ''agentteams-capability-matrix'' (JList (map JStr (cp_matrix_cases c)))
        \<or> cp_campaign_id c \<noteq> campaign \<or> cp_project_id c \<noteq> project
        \<or> cp_issuer_id c \<noteq> issuer \<or> cp_key_id c \<noteq> key
        \<or> cp_state c \<noteq> QUALIFIED \<or> cp_positive_error c < 0
        \<or> cp_issue_sequence c > sequence \<or> sequence > cp_expires_at c)"

definition freeze :: "(broker, broker_error, unit) prog" where
  "freeze = modifyE (\<lambda>b. b\<lparr>br_capability := (br_capability b)\<lparr>cp_state := FROZEN\<rparr>\<rparr>)"

definition deny :: "string \<Rightarrow> (broker, broker_error, 'a) prog" where
  "deny code = raiseE (BrokerDenied code)"

definition freeze_and_deny :: "string \<Rightarrow> (broker, broker_error, 'a) prog" where
  "freeze_and_deny code = thenE freeze (deny code)"

text \<open>\<open>CampaignCapabilityAuthority.record\<close>.\<close>

definition authority_record :: "broker_env \<Rightarrow> (broker, broker_error, capability_record) prog" where
  "authority_record E =
    bindE (getsE br_tick) (\<lambda>n.
    thenE (modifyE (\<lambda>b. b\<lparr>br_tick := Suc n\<rparr>))
    (bindE (getsE br_capability) (\<lambda>c.
     case be_capability_sequence E n of
       None \<Rightarrow> freeze_and_deny ''capability_sequence''
     | Some sequence \<Rightarrow>
         if cp_issue_sequence c > sequence then freeze_and_deny ''capability_not_yet_valid''
         else if sequence > cp_expires_at c then freeze_and_deny ''capability_expired''
         else returnE c)))"

subsection \<open>Dispatch\<close>

definition on_ledger :: "(ledger, budget_error, 'a) prog \<Rightarrow> (broker, broker_error, 'a) prog" where
  "on_ledger m = (\<lambda>b. case m (br_ledger b) of
      (Inl e, L) \<Rightarrow> (Inl (BrokerBudget e), b\<lparr>br_ledger := L\<rparr>)
    | (Inr a, L) \<Rightarrow> (Inr a, b\<lparr>br_ledger := L\<rparr>))"

text \<open>The next reading of the ledger's sequence callable.\<close>

definition ledger_now :: "broker_env \<Rightarrow> (broker, broker_error, int) prog" where
  "ledger_now E = bindE (getsE br_tick) (\<lambda>n.
     thenE (modifyE (\<lambda>b. b\<lparr>br_tick := Suc n\<rparr>)) (returnE (be_ledger_sequence E n)))"

text \<open>\<open>except BudgetDenied as exc: raise BrokerDenied(str(exc))\<close>; another error passes through.\<close>

definition wrap_budget :: "broker_error \<Rightarrow> broker_error" where
  "wrap_budget e = (case e of BrokerBudget (BudgetDenied c) \<Rightarrow> BrokerDenied c | _ \<Rightarrow> e)"

definition raw_usage_keys :: "string list" where
  "raw_usage_keys = [''input_tokens'', ''output_tokens'', ''cache_read_tokens'', ''cache_write_tokens'',
     ''reasoning_tokens'']"

text \<open>\<open>RawUsage(**raw_usage)\<close>: unknown or missing fields and failed validators give \<open>None\<close>.\<close>

definition mk_raw_usage :: "(string \<times> int) list \<Rightarrow> raw_usage option" where
  "mk_raw_usage d =
    (if \<not> set (keys d) \<subseteq> set raw_usage_keys then None
     else case (dict_get d ''input_tokens'', dict_get d ''output_tokens'') of
       (Some i, Some out) \<Rightarrow>
         (let u = \<lparr>ru_input = i, ru_output = out, ru_cache_read = dict_get d ''cache_read_tokens'',
                   ru_cache_write = dict_get d ''cache_write_tokens'',
                   ru_reasoning = dict_get d ''reasoning_tokens''\<rparr>
          in if raw_usage_valid u then Some u else None)
     | _ \<Rightarrow> None)"

text \<open>The request body; \<open>temperature\<close> and \<open>top_p\<close> are present only where the capability has them.\<close>

definition request_body :: "capability_record \<Rightarrow> model_request \<Rightarrow> json" where
  "request_body c q = JObj
    ([(''model'', JStr (rq_model q)), (''messages'', JList (rq_messages q)),
      (''max_tokens'', JInt (rq_max_output q))] @
     (if cp_temperature_present c then [(''temperature'', opt_json JInt (rq_temperature q))] else []) @
     (if cp_top_p_present c then [(''top_p'', opt_json JInt (rq_top_p q))] else []) @
     [(''stream'', JBool (rq_stream q)), (''tools'', JList (rq_tools q))])"

definition make_call :: "broker_env \<Rightarrow> capability_record \<Rightarrow> model_request \<Rightarrow> json \<Rightarrow> sent_call" where
  "make_call E c q body = \<lparr>sc_base_url = rq_base_url q, sc_method = cp_method c,
     sc_endpoint = cp_endpoint c, sc_body = body, sc_api_key = be_api_key E,
     sc_allow_redirects = False, sc_tls_verified = True\<rparr>"

text \<open>One provider call: it is logged whatever its outcome.\<close>

definition send :: "broker_env \<Rightarrow> sent_call \<Rightarrow> (broker, broker_error, transport_result) prog" where
  "send E call = bindE (getsE br_sent) (\<lambda>sent.
     thenE (modifyE (\<lambda>b. b\<lparr>br_sent := sent @ [call]\<rparr>)) (returnE (be_transport E sent call)))"

definition reply_response :: "provider_reply \<Rightarrow> settled_usage \<Rightarrow> broker_response" where
  "reply_response r u = \<lparr>bp_output_text = rp_output_text r, bp_usage = u,
     bp_first_stream_ns = rp_first_stream_ns r, bp_first_content_ns = rp_first_content_ns r\<rparr>"

text \<open>
  The refusal of missing or contradictory usage: the reservation is retained and the capability
  frozen. \<open>quiet\<close> is the \<open>try: ... except BudgetDenied: pass\<close> that the first attempt has around
  the retention and the retry has not.
\<close>

definition refuse_usage :: "broker_env \<Rightarrow> bool \<Rightarrow> string \<Rightarrow> (broker, broker_error, broker_response) prog" where
  "refuse_usage E quiet tid =
    (let m = on_ledger (retain (be_crypto E) tid ''contradictory_usage'') in
     thenE
       (if quiet
        then catchE (thenE m (returnE ()))
               (\<lambda>e. case e of BrokerBudget (BudgetDenied _) \<Rightarrow> returnE () | _ \<Rightarrow> raiseE e)
        else thenE m (returnE ()))
       (freeze_and_deny ''authoritative_usage_invalid''))"

text \<open>What follows a reply for the ticket \<open>tid\<close>: settlement with the authoritative usage, or refusal.\<close>

definition settle_reply ::
  "broker_env \<Rightarrow> bool \<Rightarrow> string \<Rightarrow> provider_reply \<Rightarrow> (broker, broker_error, broker_response) prog" where
  "settle_reply E quiet tid r =
    (case rp_raw_usage r of
       None \<Rightarrow> thenE (on_ledger (retain (be_crypto E) tid ''unknown_usage''))
                 (freeze_and_deny ''authoritative_usage_missing'')
     | Some d \<Rightarrow>
         (case mk_raw_usage d of
            None \<Rightarrow> refuse_usage E quiet tid
          | Some u \<Rightarrow>
              catchE (bindE (on_ledger (settle (be_crypto E) tid u)) (\<lambda>s. returnE (reply_response r s)))
                (\<lambda>e. case e of BrokerBudget (BudgetDenied _) \<Rightarrow> refuse_usage E quiet tid | _ \<Rightarrow> raiseE e)))"

text \<open>The retry after a transient failure of the first attempt.\<close>

definition retry_dispatch ::
  "broker_env \<Rightarrow> model_request \<Rightarrow> signed_lease \<Rightarrow> string \<Rightarrow> string \<Rightarrow> string \<Rightarrow> json \<Rightarrow> string
     \<Rightarrow> (broker, broker_error, broker_response) prog" where
  "retry_dispatch E q lease role retry_id kind body visible =
    thenE (modifyE (\<lambda>b. b\<lparr>br_backoff := br_backoff b @ [kind]\<rparr>))
    (bindE (authority_record E) (\<lambda>c.
     if cp_state c = FROZEN then deny ''capability_frozen''
     else if \<not> capability_usable c then freeze_and_deny ''capability''
     else bindE (getsE (\<lambda>b. tc_error (lg_trust (br_ledger b)))) (\<lambda>calibrated.
      if cp_positive_error c \<noteq> calibrated then freeze_and_deny ''capability_calibration''
      else bindE (ledger_now E) (\<lambda>now.
       thenE (on_ledger (reserve_retry (be_crypto E) now retry_id (rq_ticket_id q) lease role
                (be_tokenizer E visible) (cp_positive_error c) visible))
       (thenE (on_ledger (mark_dispatched (be_crypto E) retry_id))
       (bindE (send E (make_call E c q body)) (\<lambda>res. case res of
          Reply r \<Rightarrow> settle_reply E False retry_id r
        | _ \<Rightarrow> thenE (on_ledger (retain (be_crypto E) retry_id ''provider_failure''))
                 (deny ''provider_failure''))))))))"

text \<open>The checks between the capability and the reservation, in the order of the source.\<close>

definition request_guards ::
  "broker_env \<Rightarrow> capability_record \<Rightarrow> model_request \<Rightarrow> signed_lease \<Rightarrow> issued_ticket \<Rightarrow> (bool \<times> broker_error) list" where
  "request_guards E c q lease tk =
     [(\<not> be_verify E (SignedLease lease) \<or> \<not> be_verify E (SignedTicket tk), BrokerDenied ''signature''),
      (rq_lease_sha256 q \<noteq> sl_core_sha256 lease, BrokerDenied ''lease_digest''),
      (rq_model q \<noteq> cp_model c \<or> rq_max_input q \<noteq> tk_max_input tk \<or> rq_max_output q \<noteq> tk_max_output tk,
         BrokerDenied ''qualified_request''),
      (rq_class q \<noteq> tk_class tk \<or> rq_campaign_id q \<noteq> tk_campaign_id tk, BrokerDenied ''trusted_binding''),
      (rq_base_url q \<noteq> cp_base_url c, BrokerDenied ''qualified_request''),
      (cp_temperature_present c \<noteq> (rq_temperature q \<noteq> None), BrokerDenied ''qualified_request''),
      (cp_top_p_present c \<noteq> (rq_top_p q \<noteq> None), BrokerDenied ''qualified_request''),
      (\<not> be_scanner E (canonical_bytes (be_crypto E) (request_body c q)), BrokerDenied ''model_bytes_rejected'')]"

text \<open>Everything after the checks: reserve, mark dispatched, send, then settle, retain or retry.\<close>

definition dispatch_reserved ::
  "broker_env \<Rightarrow> capability_record \<Rightarrow> model_request \<Rightarrow> signed_lease \<Rightarrow> string \<Rightarrow> string option
     \<Rightarrow> (broker, broker_error, broker_response) prog" where
  "dispatch_reserved E c q lease role retry_id =
    (let body = request_body c q; visible = canonical_bytes (be_crypto E) body; tid = rq_ticket_id q in
     bindE (ledger_now E) (\<lambda>now.
     thenE (catchE
       (thenE (on_ledger (reserve (be_crypto E) now tid lease role (be_tokenizer E visible)
                 (cp_positive_error c) visible))
              (thenE (on_ledger (mark_dispatched (be_crypto E) tid)) (returnE ())))
       (\<lambda>e. raiseE (wrap_budget e)))
     (bindE (send E (make_call E c q body)) (\<lambda>res. case res of
        Reply r \<Rightarrow> settle_reply E True tid r
      | TransportFailure kind \<Rightarrow>
          thenE (on_ledger (retain (be_crypto E) tid kind))
            (case retry_id of
               None \<Rightarrow> deny ''provider_failure''
             | Some rid \<Rightarrow>
                 if kind \<in> set transient_reasons
                 then retry_dispatch E q lease role rid kind body visible
                 else deny ''provider_failure'')
      | TransportError \<Rightarrow>
          thenE (on_ledger (retain (be_crypto E) tid ''provider_failure'')) (deny ''provider_failure'')))))"

definition dispatch ::
  "broker_env \<Rightarrow> model_request \<Rightarrow> signed_lease \<Rightarrow> string \<Rightarrow> string option
     \<Rightarrow> (broker, broker_error, broker_response) prog" where
  "dispatch E q lease role retry_id =
    bindE (authority_record E) (\<lambda>c.
     if cp_state c = FROZEN then deny ''capability_frozen''
     else if cp_state c = LOCKED then deny ''capability_locked''
     else if \<not> capability_usable c then freeze_and_deny ''capability''
     else bindE (getsE (\<lambda>b. tc_error (lg_trust (br_ledger b)))) (\<lambda>calibrated.
      if cp_positive_error c \<noteq> calibrated then freeze_and_deny ''capability_calibration''
      else bindE (getsE (\<lambda>b. trusted_ticket (br_ledger b) (rq_ticket_id q))) (\<lambda>t. case t of
         None \<Rightarrow> deny ''signature''
       | Some tk \<Rightarrow>
           (case first_error (request_guards E c q lease tk) of
              Some e \<Rightarrow> raiseE e
            | None \<Rightarrow> dispatch_reserved E c q lease role retry_id))))"

end
