(* ===== verification/BrokerSpec.thy ===== *)
theory BrokerSpec
  imports Broker
begin

text \<open>
  What the broker promises: every provider call is paid for by one dispatched reservation, a reservation
  is left open only by a transport failure of a kind the ledger does not know, a frozen capability stops
  everything, and a response is only handed out with settled authoritative usage.
\<close>

subsection \<open>The ledger as the broker sees it\<close>

definition phase :: "ledger \<Rightarrow> string \<Rightarrow> reservation_state option" where
  "phase L tid = map_option rv_state (dict_get (lg_reservations L) tid)"

definition dispatch_count :: "ledger \<Rightarrow> nat" where
  "dispatch_count L = length (filter (\<lambda>e. ev_state e = DISPATCHED) (lg_events L))"

definition ledger_good :: "ledger \<Rightarrow> bool" where
  "ledger_good L \<longleftrightarrow> ledger_inv L \<and> history_ok L"

lemma replay_event_good: "ledger_good L \<Longrightarrow> replay_event C L e = Inr L' \<Longrightarrow> ledger_good L'"
  unfolding ledger_good_def using replay_event_inv replay_event_history by blast

lemma phase_append:
  "phase (snd (append_event C r L)) = (phase L)(rv_ticket_id r \<mapsto> rv_state r)"
  by (rule ext) (simp add: phase_def append_event_simps dict_get_set)

lemma dispatch_count_append:
  "dispatch_count (snd (append_event C r L)) = dispatch_count L + (if rv_state r = DISPATCHED then 1 else 0)"
  by (simp add: dispatch_count_def append_event_simps)

text \<open>One rule per ledger operation: what it leaves when it returns and when it raises.\<close>

lemma wp_reserve:
  assumes good: "ledger_good L"
    and ok: "\<And>r L'. \<lbrakk>ledger_good L'; phase L tid = None; phase L' = (phase L)(tid \<mapsto> RESERVED);
               dispatch_count L' = dispatch_count L; lg_trust L' = lg_trust L\<rbrakk> \<Longrightarrow> Q r L'"
    and err: "\<And>e. E e L"
  shows "wp (reserve C now tid lease role est er bytes) Q E L"
proof (rule wpI)
  fix r L' assume step: "reserve C now tid lease role est er bytes L = (Inr r, L')"
  obtain e where "replay_event C L e = Inr L'"
    using reserve_replays [OF _ step] good by (auto simp: ledger_good_def)
  then have g: "ledger_good L'" "same_static L L'"
    using good replay_event_good replay_event_static by blast+
  from step obtain tk tp where bg: "\<forall>(g, x) \<in> set (reserve_binding_guards L now tid tk tp lease role). \<not> g"
    and app: "append_event C (new_reservation tid tk est er bytes)
           (L\<lparr>lg_used := insert (tk_template_id tk) (lg_used L)\<rparr>) = (r, L')"
    by (rule reserveE)
  have L': "L' = snd (append_event C (new_reservation tid tk est er bytes)
           (L\<lparr>lg_used := insert (tk_template_id tk) (lg_used L)\<rparr>))"
    by (simp add: app)
  have nr: "rv_ticket_id (new_reservation tid tk est er bytes) = tid"
      "rv_state (new_reservation tid tk est er bytes) = RESERVED"
    by (simp_all add: new_reservation_def)
  have "phase L' = (phase L)(tid \<mapsto> RESERVED)"
    unfolding L' phase_append nr by (simp add: phase_def fun_eq_iff)
  moreover have "dispatch_count L' = dispatch_count L"
    unfolding L' dispatch_count_append nr by (simp add: dispatch_count_def)
  moreover have "phase L tid = None"
    using bg by (auto simp: reserve_binding_guards_def Let_def phase_def)
  ultimately show "Q r L'" using g by (intro ok) (simp_all add: same_static_def)
next
  fix e L' assume step: "reserve C now tid lease role est er bytes L = (Inl e, L')"
  then have "L' = L" by (auto simp: reserve_def split: option.splits if_splits prod.splits)
  then show "E e L'" using err by simp
qed

lemma wp_reserve_retry:
  assumes good: "ledger_good L"
    and ok: "\<And>r L'. \<lbrakk>ledger_good L'; phase L tid = None; phase L' = (phase L)(tid \<mapsto> RESERVED);
               dispatch_count L' = dispatch_count L; lg_trust L' = lg_trust L\<rbrakk> \<Longrightarrow> Q r L'"
    and err: "\<And>e. E e L"
  shows "wp (reserve_retry C now tid orig lease role est er bytes) Q E L"
proof (rule wpI)
  have w: "wp (reserve C now tid lease role est er bytes) Q E L"
    by (rule wp_reserve [OF good]) (auto intro: ok err)
  fix r L' assume "reserve_retry C now tid orig lease role est er bytes L = (Inr r, L')"
  then show "Q r L'" using wp_result [OF w reserve_retry_reserves] by blast
next
  have w: "wp (reserve C now tid lease role est er bytes) Q E L"
    by (rule wp_reserve [OF good]) (auto intro: ok err)
  fix e L' assume "reserve_retry C now tid orig lease role est er bytes L = (Inl e, L')"
  then show "E e L'" using wp_error [OF w] err
    by (auto simp: reserve_retry_def split: option.splits if_splits)
qed

lemma later_good:
  assumes good: "ledger_good L" and p: "dict_get (lg_reservations L) tid = Some p"
    and step: "replay_event C L e = Inr L'" and L': "L' = snd (append_event C q L)"
    and q: "rv_ticket_id q = rv_ticket_id p"
  shows "ledger_good L' \<and> phase L' = (phase L)(tid \<mapsto> rv_state q) \<and>
    dispatch_count L' = dispatch_count L + (if rv_state q = DISPATCHED then 1 else 0) \<and> lg_trust L' = lg_trust L"
proof -
  have "rv_ticket_id p = tid" using good p by (auto simp: ledger_good_def ledger_inv_def reservation_ok_def)
  then show ?thesis
    using replay_event_good [OF good step] replay_event_static [OF step]
    by (simp add: L' phase_append dispatch_count_append q same_static_def)
qed

lemma wp_mark_dispatched:
  assumes good: "ledger_good L" and st: "phase L tid = Some RESERVED"
    and ok: "\<And>r L'. \<lbrakk>ledger_good L'; phase L' = (phase L)(tid \<mapsto> DISPATCHED);
               dispatch_count L' = Suc (dispatch_count L); lg_trust L' = lg_trust L\<rbrakk> \<Longrightarrow> Q r L'"
  shows "wp (mark_dispatched C tid) Q E L"
proof (rule wpI)
  fix r L' assume step: "mark_dispatched C tid L = (Inr r, L')"
  then obtain p where p: "dict_get (lg_reservations L) tid = Some p"
    and L': "L' = snd (append_event C (p\<lparr>rv_state := DISPATCHED\<rparr>) L)"
    by (auto simp: mark_dispatched_def require_def split: option.splits if_splits prod.splits)
  obtain e where "replay_event C L e = Inr L'"
    using mark_dispatched_replays [OF _ step] good by (auto simp: ledger_good_def)
  from later_good [OF good p this L'] show "Q r L'" by (auto intro: ok)
next
  fix e L' assume "mark_dispatched C tid L = (Inl e, L')"
  with st show "E e L'"
    by (auto simp: mark_dispatched_def require_def phase_def split: option.splits if_splits prod.splits)
qed

lemma wp_retain:
  assumes good: "ledger_good L" and st: "phase L tid = Some DISPATCHED" and reason: "reason \<in> set allowed_retain_reasons"
    and ok: "\<And>r L'. \<lbrakk>ledger_good L'; phase L' = (phase L)(tid \<mapsto> RETAINED);
               dispatch_count L' = dispatch_count L; lg_trust L' = lg_trust L\<rbrakk> \<Longrightarrow> Q r L'"
  shows "wp (retain C tid reason) Q E L"
proof (rule wpI)
  fix r L' assume step: "retain C tid reason L = (Inr r, L')"
  then obtain p where p: "dict_get (lg_reservations L) tid = Some p"
    and L': "L' = snd (append_event C (p\<lparr>rv_state := RETAINED, rv_reason := Some reason\<rparr>) L)"
    by (auto simp: retain_def require_def split: option.splits if_splits prod.splits)
  obtain e where "replay_event C L e = Inr L'"
    using retain_replays [OF _ step] good by (auto simp: ledger_good_def)
  from later_good [OF good p this L'] show "Q r L'" by (auto intro: ok)
next
  fix e L' assume "retain C tid reason L = (Inl e, L')"
  with st reason show "E e L'"
    by (auto simp: retain_def require_def phase_def split: option.splits if_splits prod.splits)
qed

lemma wp_settle:
  assumes good: "ledger_good L" and st: "phase L tid = Some DISPATCHED"
    and ok: "\<And>u L'. \<lbrakk>ledger_good L'; phase L' = (phase L)(tid \<mapsto> SETTLED);
               dispatch_count L' = dispatch_count L; lg_trust L' = lg_trust L;
               \<exists>q. dict_get (lg_reservations L') tid = Some q \<and> rv_settled q = Some u \<and>
                   ru_input (su_raw u) \<le> rv_input q \<and> ru_output (su_raw u) \<le> rv_output q\<rbrakk> \<Longrightarrow> Q u L'"
    and err: "E (BudgetDenied ''contradictory_usage'') L"
  shows "wp (settle C tid usage) Q E L"
proof (rule wpI)
  fix u L' assume step: "settle C tid usage L = (Inr u, L')"
  then obtain p where p: "dict_get (lg_reservations L) tid = Some p" and u: "u = settled_of usage"
    and bound: "ru_input usage \<le> rv_input p" "ru_output usage \<le> rv_output p"
    and L': "L' = snd (append_event C (p\<lparr>rv_state := SETTLED, rv_settled := Some (settled_of usage)\<rparr>) L)"
    by (auto simp: settle_def require_def split: option.splits if_splits prod.splits)
  obtain e where e: "replay_event C L e = Inr L'"
    using settle_replays [OF _ step] good by (auto simp: ledger_good_def)
  have "rv_ticket_id p = tid" using good p by (auto simp: ledger_good_def ledger_inv_def reservation_ok_def)
  with bound have "\<exists>q. dict_get (lg_reservations L') tid = Some q \<and> rv_settled q = Some u \<and>
                   ru_input (su_raw u) \<le> rv_input q \<and> ru_output (su_raw u) \<le> rv_output q"
    by (simp add: L' append_event_simps dict_get_set u settled_of_def)
  with later_good [OF good p e L'] show "Q u L'" by (intro ok) simp_all
next
  fix e L' assume "settle C tid usage L = (Inl e, L')"
  with st err show "E e L'"
    by (auto simp: settle_def require_def phase_def split: option.splits if_splits prod.splits)
qed

subsection \<open>Broker combinators\<close>

lemma wp_on_ledger [wp_simps]:
  "wp (on_ledger m) Q E b = wp m (\<lambda>a L. Q a (b\<lparr>br_ledger := L\<rparr>)) (\<lambda>e L. E (BrokerBudget e) (b\<lparr>br_ledger := L\<rparr>)) (br_ledger b)"
  by (simp add: wp_def on_ledger_def split: prod.splits sum.splits)

lemma wp_deny [wp_simps]: "wp (deny c) Q E b = E (BrokerDenied c) b"
  by (simp add: deny_def wp_simps)

lemma wp_freeze [wp_simps]: "wp freeze Q E b = Q () (b\<lparr>br_capability := (br_capability b)\<lparr>cp_state := FROZEN\<rparr>\<rparr>)"
  by (simp add: freeze_def wp_simps)

lemma wp_freeze_and_deny [wp_simps]:
  "wp (freeze_and_deny c) Q E b = E (BrokerDenied c) (b\<lparr>br_capability := (br_capability b)\<lparr>cp_state := FROZEN\<rparr>\<rparr>)"
  by (simp add: freeze_and_deny_def wp_simps)

lemma wp_send [wp_simps]:
  "wp (send E call) Q X b = Q (be_transport E (br_sent b) call) (b\<lparr>br_sent := br_sent b @ [call]\<rparr>)"
  by (simp add: send_def wp_simps)

lemma wp_ledger_now [wp_simps]:
  "wp (ledger_now E) Q X b = Q (be_ledger_sequence E (br_tick b)) (b\<lparr>br_tick := Suc (br_tick b)\<rparr>)"
  by (simp add: ledger_now_def wp_simps)

subsection \<open>The broker's invariant\<close>

text \<open>
  \<open>ProviderTransportFailure\<close> takes any string as its kind, and the ledger's \<open>retain\<close> refuses a kind
  outside \<open>ALLOWED_RETAIN_REASONS\<close>: such an answer leaves the reservation dispatched. The calls that
  were answered so, and the reservations that are open, are counted.
\<close>

definition unknown_failure :: "broker_env \<Rightarrow> sent_call list \<Rightarrow> sent_call \<Rightarrow> bool" where
  "unknown_failure E sent call \<longleftrightarrow>
     (case be_transport E sent call of TransportFailure k \<Rightarrow> k \<notin> set allowed_retain_reasons | _ \<Rightarrow> False)"

definition unknown_failures :: "broker_env \<Rightarrow> sent_call list \<Rightarrow> nat" where
  "unknown_failures E sent =
     length (filter (\<lambda>i. unknown_failure E (take i sent) (sent ! i)) [0..<length sent])"

definition open_tickets :: "ledger \<Rightarrow> string set" where
  "open_tickets L = {tid. phase L tid = Some DISPATCHED}"

lemma unknown_failures_Nil [simp]: "unknown_failures E [] = 0"
  by (simp add: unknown_failures_def)

lemma unknown_failures_snoc [simp]:
  "unknown_failures E (sent @ [call]) = unknown_failures E sent + (if unknown_failure E sent call then 1 else 0)"
proof -
  have "filter (\<lambda>i. unknown_failure E (take i (sent @ [call])) ((sent @ [call]) ! i)) [0..<length sent] =
      filter (\<lambda>i. unknown_failure E (take i sent) (sent ! i)) [0..<length sent]"
    by (rule filter_cong) (simp_all add: nth_append)
  then show ?thesis by (simp add: unknown_failures_def)
qed

lemma unknown_failures_butlast: "unknown_failures E (butlast sent) \<le> unknown_failures E sent"
  by (cases sent rule: rev_cases) simp_all

lemma finite_open_tickets [simp]: "finite (open_tickets L)"
proof (rule finite_subset)
  show "open_tickets L \<subseteq> set (keys (lg_reservations L))"
    by (auto simp: open_tickets_def phase_def dest: dict_get_keys [unfolded list.set_map])
qed simp

definition broker_inv :: "broker_env \<Rightarrow> broker \<Rightarrow> bool" where
  "broker_inv E b \<longleftrightarrow> ledger_good (br_ledger b) \<and> (\<forall>tid. phase (br_ledger b) tid \<noteq> Some RESERVED) \<and>
     length (br_sent b) = dispatch_count (br_ledger b) \<and>
     card (open_tickets (br_ledger b)) \<le> unknown_failures E (br_sent b)"

text \<open>In the middle of an attempt: the ticket \<open>tid\<close> is dispatched, its call is the last one sent.\<close>

definition in_flight :: "broker_env \<Rightarrow> string \<Rightarrow> broker \<Rightarrow> bool" where
  "in_flight E tid b \<longleftrightarrow> ledger_good (br_ledger b) \<and> phase (br_ledger b) tid = Some DISPATCHED \<and>
     (\<forall>t. phase (br_ledger b) t \<noteq> Some RESERVED) \<and>
     length (br_sent b) = dispatch_count (br_ledger b) \<and> br_sent b \<noteq> [] \<and>
     card (open_tickets (br_ledger b) - {tid}) \<le> unknown_failures E (butlast (br_sent b))"

lemma broker_inv_frame [simp]:
  "broker_inv E (b\<lparr>br_capability := c\<rparr>) = broker_inv E b"
  "broker_inv E (b\<lparr>br_tick := n\<rparr>) = broker_inv E b"
  "broker_inv E (b\<lparr>br_backoff := xs\<rparr>) = broker_inv E b"
  by (simp_all add: broker_inv_def)

lemma in_flight_done:
  assumes fl: "in_flight E tid b" and good: "ledger_good L'" and ph: "phase L' = (phase (br_ledger b))(tid \<mapsto> s)"
    and s: "s = SETTLED \<or> s = RETAINED" and n: "dispatch_count L' = dispatch_count (br_ledger b)"
  shows "broker_inv E (b\<lparr>br_ledger := L'\<rparr>)"
proof -
  have "s \<noteq> DISPATCHED" using s by auto
  then have eq: "open_tickets L' = open_tickets (br_ledger b) - {tid}" by (auto simp: open_tickets_def ph)
  have "phase (br_ledger b) t \<noteq> Some RESERVED" for t using fl unfolding in_flight_def by blast
  then have quiet: "\<forall>t. phase L' t \<noteq> Some RESERVED" using s by (auto simp: ph)
  have "card (open_tickets L') \<le> unknown_failures E (br_sent b)"
    using fl unknown_failures_butlast [of E "br_sent b"] unfolding in_flight_def eq by linarith
  moreover have "length (br_sent b) = dispatch_count L'" using fl n unfolding in_flight_def by simp
  ultimately show ?thesis using good quiet by (simp add: broker_inv_def)
qed

text \<open>A failure of an unknown kind leaves the ticket open, and is the one more that is counted.\<close>

lemma in_flight_unknown:
  assumes fl: "in_flight E tid (b\<lparr>br_sent := br_sent b @ [call]\<rparr>)" and "unknown_failure E (br_sent b) call"
  shows "broker_inv E (b\<lparr>br_sent := br_sent b @ [call]\<rparr>)"
proof -
  have "tid \<in> open_tickets (br_ledger b)" using fl by (simp add: in_flight_def open_tickets_def)
  then have "card (open_tickets (br_ledger b)) = Suc (card (open_tickets (br_ledger b) - {tid}))"
    by (intro card.remove finite_open_tickets)
  with assms show ?thesis by (simp add: in_flight_def broker_inv_def)
qed

text \<open>The outcome of one answered attempt.\<close>

definition settled_with :: "string \<Rightarrow> broker_response \<Rightarrow> broker \<Rightarrow> bool" where
  "settled_with tid resp b \<longleftrightarrow> (\<exists>q. dict_get (lg_reservations (br_ledger b)) tid = Some q \<and>
     rv_state q = SETTLED \<and> rv_settled q = Some (bp_usage resp) \<and>
     ru_input (su_raw (bp_usage resp)) \<le> rv_input q \<and> ru_output (su_raw (bp_usage resp)) \<le> rv_output q)"

lemma retain_in_flight:
  assumes "in_flight E tid b" and "reason \<in> set allowed_retain_reasons"
    and "\<And>r L'. broker_inv E (b\<lparr>br_ledger := L'\<rparr>) \<Longrightarrow> phase L' tid = Some RETAINED \<Longrightarrow> lg_trust L' = lg_trust (br_ledger b) \<Longrightarrow>
           Q r L'"
  shows "wp (retain C tid reason) Q X (br_ledger b)"
proof -
  have "ledger_good (br_ledger b)" "phase (br_ledger b) tid = Some DISPATCHED"
    using assms(1) by (simp_all add: in_flight_def)
  then show ?thesis
    using assms(2)
  proof (rule wp_retain)
    fix r L'
    assume a: "ledger_good L'" "phase L' = (phase (br_ledger b))(tid \<mapsto> RETAINED)"
      "dispatch_count L' = dispatch_count (br_ledger b)" "lg_trust L' = lg_trust (br_ledger b)"
    then have "broker_inv E (b\<lparr>br_ledger := L'\<rparr>)" using assms(1) by (intro in_flight_done) auto
    then show "Q r L'" using a assms(3) by simp
  qed
qed

lemma retain_reasons [simp]:
  "''contradictory_usage'' \<in> set allowed_retain_reasons" "''unknown_usage'' \<in> set allowed_retain_reasons"
  "''provider_failure'' \<in> set allowed_retain_reasons"
  by (simp_all add: allowed_retain_reasons_def)

lemma settle_reply_outcome:
  assumes "in_flight E tid b"
  shows "wp (settle_reply E quiet tid r)
    (\<lambda>resp b'. broker_inv E b' \<and> settled_with tid resp b' \<and> br_capability b' = br_capability b)
    (\<lambda>e b'. broker_inv E b' \<and> phase (br_ledger b') tid = Some RETAINED \<and> cp_state (br_capability b') = FROZEN) b"
    (is "wp _ ?Q ?X b")
proof -
  let ?C = "be_crypto E" and ?invalid = "refuse_usage E quiet tid"
  have inv: "wp ?invalid ?Q ?X b"
    unfolding refuse_usage_def Let_def
    by (cases quiet) (simp_all add: wp_simps retain_in_flight [OF assms])
  show ?thesis
  proof (cases "rp_raw_usage r")
    case None
    then show ?thesis by (simp add: settle_reply_def wp_simps retain_in_flight [OF assms])
  next
    case (Some d)
    show ?thesis
    proof (cases "mk_raw_usage d")
      case None
      with Some inv show ?thesis by (simp add: settle_reply_def)
    next
      case u: (Some u)
      have eq: "settle_reply E quiet tid r =
          catchE (bindE (on_ledger (settle ?C tid u)) (\<lambda>s. returnE (reply_response r s)))
            (\<lambda>e. case e of BrokerBudget (BudgetDenied _) \<Rightarrow> ?invalid | _ \<Rightarrow> raiseE e)"
        using Some u by (simp add: settle_reply_def)
      have "wp (settle ?C tid u) (\<lambda>s L. ?Q (reply_response r s) (b\<lparr>br_ledger := L\<rparr>))
          (\<lambda>e L. wp (case BrokerBudget e of BrokerBudget (BudgetDenied _) \<Rightarrow> ?invalid | _ \<Rightarrow> raiseE (BrokerBudget e)) ?Q ?X
             (b\<lparr>br_ledger := L\<rparr>)) (br_ledger b)"
      proof (rule wp_settle)
        show "ledger_good (br_ledger b)" "phase (br_ledger b) tid = Some DISPATCHED"
          using assms by (simp_all add: in_flight_def)
      next
        fix s L'
        assume a: "ledger_good L'" "phase L' = (phase (br_ledger b))(tid \<mapsto> SETTLED)"
          "dispatch_count L' = dispatch_count (br_ledger b)"
          "\<exists>q. dict_get (lg_reservations L') tid = Some q \<and> rv_settled q = Some s \<and>
                   ru_input (su_raw s) \<le> rv_input q \<and> ru_output (su_raw s) \<le> rv_output q"
        then have "broker_inv E (b\<lparr>br_ledger := L'\<rparr>)" using assms by (intro in_flight_done) auto
        moreover from a(2) have "map_option rv_state (dict_get (lg_reservations L') tid) = Some SETTLED"
          by (metis fun_upd_same phase_def)
        ultimately show "?Q (reply_response r s) (b\<lparr>br_ledger := L'\<rparr>)"
          using a(4) by (auto simp: settled_with_def reply_response_def)
      next
        show "wp (case BrokerBudget (BudgetDenied ''contradictory_usage'') of BrokerBudget (BudgetDenied _) \<Rightarrow> ?invalid
            | _ \<Rightarrow> raiseE (BrokerBudget (BudgetDenied ''contradictory_usage''))) ?Q ?X (b\<lparr>br_ledger := br_ledger b\<rparr>)"
          using inv by simp
      qed
      then show ?thesis unfolding eq by (simp add: wp_simps)
    qed
  qed
qed

subsection \<open>Whole attempts\<close>

lemma wp_authority_record:
  assumes "broker_inv E b"
    and "\<And>b'. broker_inv E b' \<Longrightarrow> br_ledger b' = br_ledger b \<Longrightarrow> br_sent b' = br_sent b \<Longrightarrow> Q (br_capability b') b'"
    and "\<And>e b'. broker_inv E b' \<Longrightarrow> X e b'"
  shows "wp (authority_record E) Q X b"
  using assms(1,3) assms(2) [of "b\<lparr>br_tick := Suc (br_tick b)\<rparr>"]
  by (auto simp: authority_record_def wp_simps split: option.splits)

text \<open>From a quiet broker: reserve, mark dispatched and send leave one ticket in flight.\<close>

lemma in_flight_sent:
  assumes "broker_inv E b" and "ledger_good L2" and "phase L1 = (phase (br_ledger b))(tid \<mapsto> RESERVED)"
    and "phase L2 = (phase L1)(tid \<mapsto> DISPATCHED)" and "dispatch_count L1 = dispatch_count (br_ledger b)"
    and "dispatch_count L2 = Suc (dispatch_count L1)"
  shows "in_flight E tid (b\<lparr>br_ledger := L2, br_sent := br_sent b @ [call]\<rparr>)"
proof -
  have "open_tickets L2 - {tid} \<subseteq> open_tickets (br_ledger b)"
    using assms(3,4) by (auto simp: open_tickets_def)
  then have "card (open_tickets L2 - {tid}) \<le> card (open_tickets (br_ledger b))"
    by (simp add: card_mono)
  with assms show ?thesis by (auto simp: in_flight_def broker_inv_def)
qed

lemma broker_inv_ledger [simp]: "b\<lparr>br_ledger := br_ledger b\<rparr> = b" for b :: broker
  by simp

lemma settle_reply_ok:
  assumes "in_flight E tid b" and "\<And>resp b'. broker_inv E b' \<Longrightarrow> settled_with tid resp b' \<Longrightarrow> Q resp b'"
    and "\<And>e b'. broker_inv E b' \<Longrightarrow> X e b'"
  shows "wp (settle_reply E quiet tid r) Q X b"
  by (rule wp_mono [OF settle_reply_outcome [OF assms(1)]]) (use assms in auto)

lemma retain_then_deny:
  assumes "in_flight E tid b" and "reason \<in> set allowed_retain_reasons" and "\<And>e b'. broker_inv E b' \<Longrightarrow> X e b'"
  shows "wp (thenE (on_ledger (retain C tid reason)) (deny c)) Q X b"
  using assms by (auto simp: wp_simps intro!: retain_in_flight)

lemma retry_dispatch_outcome:
  assumes inv: "broker_inv E b"
    and Q: "\<And>resp b'. broker_inv E b' \<Longrightarrow> settled_with rid resp b' \<Longrightarrow> Q resp b'"
    and X: "\<And>e b'. broker_inv E b' \<Longrightarrow> X e b'"
  shows "wp (retry_dispatch E q lease role rid kind body visible) Q X b"
proof -
  have attempt: "wp (thenE (on_ledger (reserve_retry (be_crypto E) now rid (rq_ticket_id q) lease role est er visible))
       (thenE (on_ledger (mark_dispatched (be_crypto E) rid))
       (bindE (send E (make_call E c q body)) (\<lambda>res. case res of
          Reply r \<Rightarrow> settle_reply E False rid r
        | _ \<Rightarrow> thenE (on_ledger (retain (be_crypto E) rid ''provider_failure''))
                 (deny ''provider_failure''))))) Q X b1"
    if b1: "broker_inv E b1" for now est er c b1
  proof -
    have good: "ledger_good (br_ledger b1)" using b1 by (simp add: broker_inv_def)
    have "wp (on_ledger (reserve_retry (be_crypto E) now rid (rq_ticket_id q) lease role est er visible))
       (\<lambda>_ b2. \<exists>L1. b2 = b1\<lparr>br_ledger := L1\<rparr> \<and> ledger_good L1 \<and> phase L1 = (phase (br_ledger b1))(rid \<mapsto> RESERVED) \<and>
          dispatch_count L1 = dispatch_count (br_ledger b1)) X b1"
      by (simp add: wp_on_ledger) (rule wp_reserve_retry [OF good], use b1 X in auto)
    moreover have "wp (thenE (on_ledger (mark_dispatched (be_crypto E) rid))
       (bindE (send E (make_call E c q body)) (\<lambda>res. case res of
          Reply r \<Rightarrow> settle_reply E False rid r
        | _ \<Rightarrow> thenE (on_ledger (retain (be_crypto E) rid ''provider_failure''))
                 (deny ''provider_failure'')))) Q X (b1\<lparr>br_ledger := L1\<rparr>)"
      if L1: "ledger_good L1" "phase L1 = (phase (br_ledger b1))(rid \<mapsto> RESERVED)"
          "dispatch_count L1 = dispatch_count (br_ledger b1)" for L1
    proof -
      have "wp (mark_dispatched (be_crypto E) rid) (\<lambda>_ L2. \<forall>call. in_flight E rid (b1\<lparr>br_ledger := L2, br_sent := br_sent b1 @ [call]\<rparr>))
          (\<lambda>e L. X (BrokerBudget e) (b1\<lparr>br_ledger := L\<rparr>)) L1"
        by (rule wp_mark_dispatched [OF L1(1)]) (use L1 b1 in_flight_sent in auto)
      moreover have "wp (bindE (send E (make_call E c q body)) (\<lambda>res. case res of
          Reply r \<Rightarrow> settle_reply E False rid r
        | _ \<Rightarrow> thenE (on_ledger (retain (be_crypto E) rid ''provider_failure''))
                 (deny ''provider_failure''))) Q X (b1\<lparr>br_ledger := L2\<rparr>)"
        if fl: "\<forall>call. in_flight E rid (b1\<lparr>br_ledger := L2, br_sent := br_sent b1 @ [call]\<rparr>)" for L2
      proof -
        have f: "in_flight E rid (b1\<lparr>br_ledger := L2, br_sent := br_sent b1 @ [make_call E c q body]\<rparr>)"
          using fl by simp
        show ?thesis
          by (cases "be_transport E (br_sent b1) (make_call E c q body)")
            (simp_all add: wp_bind wp_send settle_reply_ok [OF f Q X] retain_then_deny [OF f _ X])
      qed
      ultimately show ?thesis
        by (simp add: wp_then wp_on_ledger) (erule wp_mono, auto)
    qed
    ultimately show ?thesis by (subst wp_then) (erule wp_mono, auto)
  qed
  show ?thesis
    unfolding retry_dispatch_def wp_then wp_bind wp_modify
    by (rule wp_authority_record) (use inv X attempt in \<open>auto simp: wp_if wp_deny wp_freeze_and_deny wp_bind wp_gets wp_ledger_now\<close>)
qed

lemma dispatch_reserved_outcome:
  assumes inv: "broker_inv E b"
    and Q: "\<And>resp b' tid. broker_inv E b' \<Longrightarrow> tid = rq_ticket_id q \<or> rid = Some tid \<Longrightarrow> settled_with tid resp b' \<Longrightarrow> Q resp b'"
    and X: "\<And>e b'. broker_inv E b' \<Longrightarrow> X e b'"
  shows "wp (dispatch_reserved E c q lease role rid) Q X b"
proof -
  let ?tid = "rq_ticket_id q"
  let ?vis = "canonical_bytes (be_crypto E) (request_body c q)"
  define b1 where "b1 = b\<lparr>br_tick := Suc (br_tick b)\<rparr>"
  have b1: "broker_inv E b1" using inv by (simp add: b1_def)
  have good: "ledger_good (br_ledger b1)" using b1 by (simp add: broker_inv_def)
  have reserved: "wp (catchE
       (thenE (on_ledger (reserve (be_crypto E) now ?tid lease role est er ?vis))
              (thenE (on_ledger (mark_dispatched (be_crypto E) ?tid)) (returnE ())))
       (\<lambda>e. raiseE (wrap_budget e)))
     (\<lambda>_ b2. \<forall>call. in_flight E ?tid (b2\<lparr>br_sent := br_sent b2 @ [call]\<rparr>)) X b1" for now est er
  proof -
    have "wp (reserve (be_crypto E) now ?tid lease role est er ?vis)
       (\<lambda>_ L1. wp (mark_dispatched (be_crypto E) ?tid)
           (\<lambda>_ L2. \<forall>call. in_flight E ?tid (b1\<lparr>br_ledger := L2, br_sent := br_sent b1 @ [call]\<rparr>))
           (\<lambda>e L. X (wrap_budget (BrokerBudget e)) (b1\<lparr>br_ledger := L\<rparr>)) L1)
       (\<lambda>e L. X (wrap_budget (BrokerBudget e)) (b1\<lparr>br_ledger := L\<rparr>)) (br_ledger b1)"
    proof (rule wp_reserve [OF good])
      fix r L1
      assume L1: "ledger_good L1" "phase L1 = (phase (br_ledger b1))(?tid \<mapsto> RESERVED)"
        "dispatch_count L1 = dispatch_count (br_ledger b1)"
      show "wp (mark_dispatched (be_crypto E) ?tid)
           (\<lambda>_ L2. \<forall>call. in_flight E ?tid (b1\<lparr>br_ledger := L2, br_sent := br_sent b1 @ [call]\<rparr>))
           (\<lambda>e L. X (wrap_budget (BrokerBudget e)) (b1\<lparr>br_ledger := L\<rparr>)) L1"
        by (rule wp_mark_dispatched [OF L1(1)]) (use L1 b1 in_flight_sent in auto)
    qed (use b1 X in auto)
    then show ?thesis by (simp add: wp_simps)
  qed
  have retained: "wp (retain (be_crypto E) ?tid k) (\<lambda>_ L. wp (case rid of
               None \<Rightarrow> deny ''provider_failure''
             | Some rid \<Rightarrow>
                 if k \<in> set transient_reasons
                 then retry_dispatch E q lease role rid k (request_body c q) ?vis
                 else deny ''provider_failure'') Q X (b2\<lparr>br_ledger := L\<rparr>)) Z (br_ledger b2)"
    if "in_flight E ?tid b2" and "k \<in> set allowed_retain_reasons" for b2 k Z
    by (rule retain_in_flight [OF that])
      (auto simp: wp_deny X split: option.splits intro!: retry_dispatch_outcome Q)
  have after: "wp (bindE (send E (make_call E c q (request_body c q))) (\<lambda>res. case res of
        Reply r \<Rightarrow> settle_reply E True ?tid r
      | TransportFailure kind \<Rightarrow>
          thenE (on_ledger (retain (be_crypto E) ?tid kind))
            (case rid of
               None \<Rightarrow> deny ''provider_failure''
             | Some rid \<Rightarrow>
                 if kind \<in> set transient_reasons
                 then retry_dispatch E q lease role rid kind (request_body c q) ?vis
                 else deny ''provider_failure'')
      | TransportError \<Rightarrow>
          thenE (on_ledger (retain (be_crypto E) ?tid ''provider_failure'')) (deny ''provider_failure''))) Q X b2"
    if fl: "\<forall>call. in_flight E ?tid (b2\<lparr>br_sent := br_sent b2 @ [call]\<rparr>)" for b2
  proof -
    let ?call = "make_call E c q (request_body c q)"
    define b3 where "b3 = b2\<lparr>br_sent := br_sent b2 @ [?call]\<rparr>"
    have f: "in_flight E ?tid b3" using fl by (simp add: b3_def)
    show ?thesis
    proof (cases "be_transport E (br_sent b2) ?call")
      case (Reply r)
      then show ?thesis
        by (simp add: wp_bind wp_send flip: b3_def) (rule settle_reply_ok [OF f], auto intro: Q X)
    next
      case failure: (TransportFailure k)
      show ?thesis
      proof (cases "k \<in> set allowed_retain_reasons")
        case True
        with retained [OF f True] failure show ?thesis
          by (simp add: wp_bind wp_send wp_then wp_on_ledger flip: b3_def)
      next
        case False
        then have "unknown_failure E (br_sent b2) ?call" using failure by (simp add: unknown_failure_def)
        then have "broker_inv E b3" using in_flight_unknown f by (simp add: b3_def)
        then have "wp (retain (be_crypto E) ?tid k) R (\<lambda>e L. X (BrokerBudget e) (b3\<lparr>br_ledger := L\<rparr>)) (br_ledger b3)" for R
          using False X by (simp add: wp_def retain_def)
        with failure show ?thesis
          by (simp add: wp_bind wp_send wp_then wp_on_ledger flip: b3_def)
      qed
    next
      case TransportError
      then show ?thesis
        by (simp add: wp_bind wp_send flip: b3_def) (rule retain_then_deny [OF f], auto intro: X)
    qed
  qed
  show ?thesis
    unfolding dispatch_reserved_def Let_def
    by (simp only: wp_bind [of "ledger_now E"] wp_ledger_now wp_then [of "catchE _ _"] flip: b1_def)
      (rule wp_mono [OF reserved], use after X in auto)
qed

lemma dispatch_outcome:
  assumes inv: "broker_inv E b"
  shows "wp (dispatch E q lease role rid)
    (\<lambda>resp b'. broker_inv E b' \<and> (\<exists>tid. (tid = rq_ticket_id q \<or> rid = Some tid) \<and> settled_with tid resp b'))
    (\<lambda>e b'. broker_inv E b') b"
  unfolding dispatch_def wp_bind
proof (rule wp_authority_record [OF inv])
  fix b1 assume b1: "broker_inv E b1"
  have run: "wp (dispatch_reserved E c q lease role rid)
    (\<lambda>resp b'. broker_inv E b' \<and> (\<exists>tid. (tid = rq_ticket_id q \<or> rid = Some tid) \<and> settled_with tid resp b'))
    (\<lambda>e b'. broker_inv E b') b1" for c
    by (rule dispatch_reserved_outcome [OF b1]) auto
  show "wp (if cp_state (br_capability b1) = FROZEN then deny ''capability_frozen''
     else if cp_state (br_capability b1) = LOCKED then deny ''capability_locked''
     else if \<not> capability_usable (br_capability b1) then freeze_and_deny ''capability''
     else bindE (getsE (\<lambda>b. tc_error (lg_trust (br_ledger b)))) (\<lambda>calibrated.
      if cp_positive_error (br_capability b1) \<noteq> calibrated then freeze_and_deny ''capability_calibration''
      else bindE (getsE (\<lambda>b. trusted_ticket (br_ledger b) (rq_ticket_id q))) (\<lambda>t. case t of
         None \<Rightarrow> deny ''signature''
       | Some tk \<Rightarrow>
           (case first_error (request_guards E (br_capability b1) q lease tk) of
              Some e \<Rightarrow> raiseE e
            | None \<Rightarrow> dispatch_reserved E (br_capability b1) q lease role rid))))
    (\<lambda>resp b'. broker_inv E b' \<and> (\<exists>tid. (tid = rq_ticket_id q \<or> rid = Some tid) \<and> settled_with tid resp b'))
    (\<lambda>e b'. broker_inv E b') b1"
    using b1 run by (auto simp: wp_simps split: option.splits)
qed auto

subsection \<open>Calls that leave the broker\<close>

text \<open>What every provider call of the broker satisfies.\<close>

definition call_ok :: "broker_env \<Rightarrow> sent_call \<Rightarrow> bool" where
  "call_ok E call \<longleftrightarrow> be_scanner E (canonical_bytes (be_crypto E) (sc_body call)) \<and>
     sc_method call = ''POST'' \<and> sc_endpoint call = ''/chat/completions'' \<and>
     \<not> sc_allow_redirects call \<and> sc_tls_verified call \<and> sc_api_key call = be_api_key E"

definition sent_ok :: "broker_env \<Rightarrow> broker \<Rightarrow> bool" where
  "sent_ok E b \<longleftrightarrow> list_all (call_ok E) (br_sent b)"

lemma sent_ok_frame [simp]:
  "sent_ok E (b\<lparr>br_capability := c\<rparr>) = sent_ok E b" "sent_ok E (b\<lparr>br_tick := n\<rparr>) = sent_ok E b"
  "sent_ok E (b\<lparr>br_backoff := xs\<rparr>) = sent_ok E b" "sent_ok E (b\<lparr>br_ledger := L\<rparr>) = sent_ok E b"
  by (simp_all add: sent_ok_def)

lemma sent_ok_send [simp]:
  "sent_ok E (b\<lparr>br_sent := br_sent b @ [call]\<rparr>) \<longleftrightarrow> sent_ok E b \<and> call_ok E call"
  by (simp add: sent_ok_def)

lemma sent_ok_ledger [keeps_intros]: "keeps (sent_ok E) (on_ledger m)"
  by (auto intro!: keepsI simp: wp_def on_ledger_def split: prod.splits sum.splits)

lemma sent_ok_deny [keeps_intros]: "keeps (sent_ok E) (deny c)" "keeps (sent_ok E) (freeze_and_deny c)"
  "keeps (sent_ok E) (ledger_now E')" "keeps (sent_ok E) (authority_record E')"
  by (auto intro!: keepsI simp: wp_simps authority_record_def split: option.splits)

lemma sent_ok_refuse [keeps_intros]: "keeps (sent_ok E) (refuse_usage E' quiet tid)"
  unfolding refuse_usage_def Let_def
  by (auto intro!: keeps_intros split: broker_error.splits budget_error.splits)

lemma sent_ok_settle [keeps_intros]: "keeps (sent_ok E) (settle_reply E' quiet tid r)"
  unfolding settle_reply_def
  by (auto intro!: keeps_intros split: broker_error.splits budget_error.splits)

lemma sent_ok_make_call:
  assumes "capability_usable c" and "be_scanner E (canonical_bytes (be_crypto E) body)"
  shows "keeps (sent_ok E) (send E (make_call E c q body))"
  using assms
  by (auto intro!: keepsI simp: wp_simps call_ok_def make_call_def capability_usable_def)

lemma sent_ok_retry:
  assumes "be_scanner E (canonical_bytes (be_crypto E) body)"
  shows "keeps (sent_ok E) (retry_dispatch E q lease role rid kind body visible)"
  unfolding retry_dispatch_def
  by (auto intro!: keeps_intros sent_ok_make_call assms keepsI [of _ "modifyE _"] simp: wp_modify
      split: transport_result.splits)

lemma sent_ok_dispatch [keeps_intros]: "keeps (sent_ok E) (dispatch E q lease role rid)"
proof -
  have "keeps (sent_ok E) (dispatch_reserved E c q lease role rid)"
    if "capability_usable c" and "first_error (request_guards E c q lease tk) = None" for c tk
  proof -
    have "be_scanner E (canonical_bytes (be_crypto E) (request_body c q))"
      using that(2) unfolding first_error_None request_guards_def by simp
    with that(1) show ?thesis
      unfolding dispatch_reserved_def Let_def
      by (auto intro!: keeps_intros sent_ok_make_call sent_ok_retry split: transport_result.splits)
  qed
  then show ?thesis
    unfolding dispatch_def by (auto intro!: keeps_intros)
qed

subsection \<open>Runs of a broker\<close>

text \<open>Any number of attempts, whatever each of them is asked and however it ends.\<close>

inductive broker_run :: "broker_env \<Rightarrow> broker \<Rightarrow> broker \<Rightarrow> bool" for E where
  run_start: "broker_run E b b"
| run_dispatch: "broker_run E b b' \<Longrightarrow> broker_run E b (snd (dispatch E q lease role rid b'))"

text \<open>A fresh broker over a fresh ledger.\<close>

definition fresh_broker :: "ledger \<Rightarrow> capability_record \<Rightarrow> broker" where
  "fresh_broker L c = \<lparr>br_ledger = L, br_capability = c, br_tick = 0, br_sent = [], br_backoff = []\<rparr>"

lemma broker_inv_dispatch: "keeps (broker_inv E) (dispatch E q lease role rid)"
  by (rule keepsI, rule wp_mono [OF dispatch_outcome]) auto

lemma broker_inv_run:
  assumes "broker_run E b b'" and "broker_inv E b"
  shows "broker_inv E b'"
  using assms by induction (auto intro: keeps_snd [OF broker_inv_dispatch])

lemma broker_inv_fresh:
  assumes "init_ledger C now templates tickets manifest trust = Inr L"
  shows "broker_inv E (fresh_broker L c)"
  using init_ledger_new [OF assms] new_ledger_inv new_ledger_history
  by (simp add: broker_inv_def fresh_broker_def ledger_good_def)
    (simp add: open_tickets_def phase_def new_ledger_def dispatch_count_def)

text \<open>Each reservation is dispatched at most once, so the calls are bounded by the reservations.\<close>

lemma life_cycle_dispatched: "length (filter (\<lambda>s. s = DISPATCHED) (life_cycle s)) \<le> 1"
  by (cases s) simp_all

lemma count_dispatched:
  assumes "\<And>t. length (filter (\<lambda>s. s = DISPATCHED) (ticket_history t es)) \<le> 1"
  shows "distinct (map ev_ticket_id (filter (\<lambda>e. ev_state e = DISPATCHED) es))"
  using assms
proof (induction es)
  case Nil
  then show ?case by simp
next
  case (Cons e es)
  have tail: "length (filter (\<lambda>s. s = DISPATCHED) (ticket_history t es)) \<le> 1" for t
    using Cons.prems [of t] by (auto simp: ticket_history_def split: if_splits)
  show ?case
  proof (cases "ev_state e = DISPATCHED")
    case True
    from Cons.prems [of "ev_ticket_id e"] True
    have none: "filter (\<lambda>f. ev_ticket_id f = ev_ticket_id e \<and> ev_state f = DISPATCHED) es = []"
      by (simp add: ticket_history_def filter_map o_def conj_commute)
    have "f \<notin> set es" if "ev_ticket_id f = ev_ticket_id e" and "ev_state f = DISPATCHED" for f
      using none that by (auto simp: filter_empty_conv)
    with True Cons.IH [OF tail] show ?thesis by auto
  qed (use Cons.IH [OF tail] in simp)
qed

lemma dispatch_count_le:
  assumes "ledger_good L"
  shows "dispatch_count L \<le> length (lg_reservations L)"
proof -
  let ?ids = "map ev_ticket_id (filter (\<lambda>e. ev_state e = DISPATCHED) (lg_events L))"
  have hist: "ticket_history t (lg_events L) =
      (case dict_get (lg_reservations L) t of None \<Rightarrow> [] | Some r \<Rightarrow> life_cycle (rv_state r))" for t
    using assms by (simp add: ledger_good_def history_ok_def)
  have "distinct ?ids"
    by (rule count_dispatched) (use life_cycle_dispatched in \<open>auto simp: hist split: option.splits\<close>)
  then have "dispatch_count L = card (set ?ids)"
    by (metis distinct_card dispatch_count_def length_map)
  moreover have "set ?ids \<subseteq> set (keys (lg_reservations L))"
  proof
    fix t assume "t \<in> set ?ids"
    then have "ticket_history t (lg_events L) \<noteq> []"
      by (auto simp: ticket_history_def filter_empty_conv)
    then show "t \<in> set (keys (lg_reservations L))"
      by (auto simp: hist dest: dict_get_keys [unfolded list.set_map] split: option.splits)
  qed
  ultimately show ?thesis
    by (metis card_length card_mono finite_set le_trans length_map)
qed

lemma broker_inv_calls:
  assumes "broker_inv E b"
  shows "int (length (br_sent b)) \<le> 356"
proof -
  have "ledger_good (br_ledger b)" and "length (br_sent b) = dispatch_count (br_ledger b)"
    using assms by (simp_all add: broker_inv_def)
  moreover have "int (length (lg_reservations (br_ledger b))) \<le> 356"
    using \<open>ledger_good (br_ledger b)\<close>
    by (simp add: ledger_good_def ledger_inv_def within_cap_def totals_def campaign_reservation_def)
  ultimately show ?thesis using dispatch_count_le [of "br_ledger b"] by linarith
qed

lemma reserved_or_open:
  assumes "broker_inv E b" and "reservation_for (br_ledger b) tid = Some r"
  shows "rv_state r = SETTLED \<or> rv_state r = RETAINED \<or> tid \<in> open_tickets (br_ledger b)"
proof -
  have "phase (br_ledger b) tid \<noteq> Some RESERVED" using assms(1) by (simp add: broker_inv_def)
  with assms(2) show ?thesis
    by (cases "rv_state r") (simp_all add: open_tickets_def phase_def reservation_for_def)
qed

text \<open>C5. Every call is accounted for: a broker started on a freshly initialised ledger, after any
  number of attempts with any requests, leases and retry tickets, and whatever the transport does
  (it answers, raises a \<open>ProviderTransportFailure\<close> of any kind, or raises another exception), has
  sent exactly one call per dispatched event of the ledger, and at most 356 calls altogether. Every
  reservation is settled or retained, except those left dispatched by a failure whose kind the
  ledger does not accept as a reason: there are at most as many of these as there are sent calls that the
  transport answered with such a kind, so none at all when it only raises the kinds of
  \<open>ALLOWED_RETAIN_REASONS\<close>. No reservation is ever left merely reserved.\<close>

theorem broker_calls_accounted:
  assumes init: "init_ledger C now templates tickets manifest trust = Inr L"
    and run: "broker_run E (fresh_broker L c) b"
  shows "(\<forall>tid r. reservation_for (br_ledger b) tid = Some r \<longrightarrow>
        rv_state r = SETTLED \<or> rv_state r = RETAINED \<or> (rv_state r = DISPATCHED \<and> 0 < unknown_failures E (br_sent b))) \<and>
    card {tid. \<exists>r. reservation_for (br_ledger b) tid = Some r \<and> rv_state r = DISPATCHED}
      \<le> unknown_failures E (br_sent b) \<and>
    length (br_sent b) = length (filter (\<lambda>e. ev_state e = DISPATCHED) (lg_events (br_ledger b))) \<and>
    length (br_sent b) \<le> 356"
proof -
  have inv: "broker_inv E b"
    using broker_inv_run [OF run broker_inv_fresh [OF init]] .
  have eq: "{tid. \<exists>r. reservation_for (br_ledger b) tid = Some r \<and> rv_state r = DISPATCHED} = open_tickets (br_ledger b)"
    by (auto simp: open_tickets_def phase_def reservation_for_def)
  have few: "card (open_tickets (br_ledger b)) \<le> unknown_failures E (br_sent b)"
    using inv by (simp add: broker_inv_def)
  have "rv_state r = DISPATCHED \<and> 0 < unknown_failures E (br_sent b)"
    if "reservation_for (br_ledger b) tid = Some r" "rv_state r \<noteq> SETTLED" "rv_state r \<noteq> RETAINED" for tid r
  proof -
    have o: "tid \<in> open_tickets (br_ledger b)" using reserved_or_open [OF inv that(1)] that(2,3) by simp
    then have "0 < card (open_tickets (br_ledger b))" by (auto simp: card_gt_0_iff)
    with few have "0 < unknown_failures E (br_sent b)" by linarith
    with o that(1) show ?thesis by (simp add: open_tickets_def phase_def reservation_for_def)
  qed
  with few inv show ?thesis
    using broker_inv_calls [OF inv] by (auto simp: eq broker_inv_def dispatch_count_def)
qed

subsection \<open>A concrete broker for the witnesses\<close>

definition demo_capability :: capability_record where
  "demo_capability = \<lparr>cp_state = QUALIFIED, cp_campaign_id = ''c'', cp_project_id = ''p'',
     cp_base_url = ''https://provider'', cp_endpoint = ''/chat/completions'', cp_method = ''POST'',
     cp_body_shape = ''chat_completions/v1'', cp_model = ''agnes-2.5-pro'', cp_hard_output_limit = True,
     cp_role_attribution = True, cp_authoritative_usage = True, cp_streaming_semantics = True,
     cp_zero_background_calls = True, cp_positive_error = 10, cp_temperature_present = False,
     cp_top_p_present = False, cp_matrix_cases = qualification_cases, cp_matrix_digest = zero_digest,
     cp_issuer_id = ''i'', cp_key_id = ''k'', cp_issue_sequence = 1, cp_expires_at = 100,
     cp_record_sha256 = zero_digest, cp_signature = ''sig''\<rparr>"

definition demo_request :: model_request where
  "demo_request = \<lparr>rq_request_id = ''r'', rq_campaign_id = ''c'', rq_lease_sha256 = zero_digest,
     rq_ticket_id = ''t1'', rq_class = Req_main, rq_base_url = ''https://provider'',
     rq_model = ''agnes-2.5-pro'', rq_messages = [], rq_max_input = 9000, rq_max_output = 1000,
     rq_temperature = None, rq_top_p = None, rq_stream = False, rq_tools = []\<rparr>"

text \<open>The provider answers every call with 700 input and 20 output tokens.\<close>

definition demo_reply :: provider_reply where
  "demo_reply = \<lparr>rp_raw_usage = Some [(''input_tokens'', 700), (''output_tokens'', 20)],
     rp_output_text = ''ok'', rp_first_stream_ns = None, rp_first_content_ns = None\<rparr>"

definition demo_env :: "transport_result \<Rightarrow> broker_env" where
  "demo_env answer = \<lparr>be_crypto = demo_crypto, be_capability_sequence = (\<lambda>_. Some 5),
     be_ledger_sequence = (\<lambda>_. 5), be_verify = (\<lambda>_. True), be_tokenizer = (\<lambda>_. 100),
     be_scanner = (\<lambda>_. True), be_transport = (\<lambda>_ _. answer), be_api_key = None\<rparr>"

lemmas demo_broker_simps = demo_capability_def demo_request_def demo_reply_def demo_env_def

definition demo_visible :: string where
  "demo_visible = canonical_bytes demo_crypto (request_body demo_capability demo_request)"

lemma demo_visible_length: "length demo_visible < 200"
  by (simp add: demo_visible_def request_body_def demo_broker_simps field_str_def quote_str_def
      escape_char_def dec_int_def dec.simps)

lemma reserve_demo_ok:
  assumes "length bytes < 200"
  shows "\<exists>r L p. reserve demo_crypto 5 ''t1'' demo_lease ''planner'' 100 10 bytes demo_ledger = (Inr r, L) \<and>
    dict_get (lg_reservations L) ''t1'' = Some p \<and> rv_state p = RESERVED \<and> rv_ticket_id p = ''t1'' \<and>
    rv_input p \<ge> 1024 \<and> rv_output p = 1000"
proof -
  have "first_error (reserve_ceiling_guards demo_ledger demo_ticket (reserved_input_for 100 10 (int (length bytes)))) = None"
    using assms
    by (simp add: reserve_ceiling_guards_def totals_def demo_ledger_dicts triple_add_def
        campaign_reservation_def campaign_absolute_def)
      (auto simp: demo_simps reserved_input_for_def)
  with demo_binding have "first_error (reserve_binding_guards demo_ledger 5 ''t1'' demo_ticket demo_template demo_lease ''planner''
      @ reserve_ceiling_guards demo_ledger demo_ticket (reserved_input_for 100 10 (int (length bytes)))) = None"
    by (simp add: first_error_None ball_Un)
  moreover have "tk_template_id demo_ticket = ''tpl''" "tc_error demo_trust = 10" by (simp_all add: demo_simps)
  ultimately show ?thesis
    by (simp add: reserve_def demo_ledger_dicts append_event_def Let_def dict_get_set)
      (simp add: new_reservation_def reserved_input_for_def demo_simps)
qed

lemma mark_dispatched_ok:
  assumes "dict_get (lg_reservations L) tid = Some p" and "rv_state p = RESERVED" and "rv_ticket_id p = tid"
  shows "\<exists>r L' p'. mark_dispatched C tid L = (Inr r, L') \<and> dict_get (lg_reservations L') tid = Some p' \<and>
    rv_state p' = DISPATCHED \<and> rv_ticket_id p' = tid \<and> rv_input p' = rv_input p \<and> rv_output p' = rv_output p"
  using assms by (simp add: mark_dispatched_def require_def append_event_def Let_def dict_get_set)

lemma settle_ok:
  assumes "dict_get (lg_reservations L) tid = Some p" and "rv_state p = DISPATCHED"
    and "ru_input u \<le> rv_input p" and "ru_output u \<le> rv_output p"
  shows "\<exists>L'. settle C tid u L = (Inr (settled_of u), L')"
  using assms by (simp add: settle_def require_def append_event_def Let_def)

abbreviation demo_broker :: broker where
  "demo_broker \<equiv> fresh_broker demo_ledger demo_capability"

lemma demo_guards:
  "first_error (request_guards (demo_env a) demo_capability demo_request demo_lease demo_ticket) = None"
  by (simp add: request_guards_def demo_broker_simps) (simp add: demo_simps)

lemma demo_dispatch_start:
  "\<exists>b'. br_ledger b' = demo_ledger \<and> br_sent b' = [] \<and>
    dispatch (demo_env a) demo_request demo_lease ''planner'' rid demo_broker =
      dispatch_reserved (demo_env a) demo_capability demo_request demo_lease ''planner'' rid b'"
proof -
  have a: "authority_record (demo_env a) demo_broker = (Inr demo_capability, demo_broker\<lparr>br_tick := 1\<rparr>)"
    by (simp add: authority_record_def bindE_def thenE_def getsE_def modifyE_def returnE_def fresh_broker_def)
      (simp add: demo_broker_simps returnE_def)
  have c: "cp_state demo_capability = QUALIFIED" "capability_usable demo_capability"
      "cp_positive_error demo_capability = tc_error demo_trust" "rq_ticket_id demo_request = ''t1''"
    by (simp_all add: capability_usable_def demo_broker_simps demo_simps)
  show ?thesis
    by (rule exI [of _ "demo_broker\<lparr>br_tick := 1\<rparr>"])
      (simp add: dispatch_def bindE_def a c getsE_def,
        simp add: fresh_broker_def demo_ledger_dicts c trusted_ticket_def demo_guards)
qed

lemma demo_dispatch:
  "\<exists>resp b'. dispatch (demo_env (Reply demo_reply)) demo_request demo_lease ''planner'' None demo_broker = (Inr resp, b') \<and>
     length (br_sent b') = 1"
proof -
  let ?E = "demo_env (Reply demo_reply)" and ?vis = demo_visible
  obtain b where b: "br_ledger b = demo_ledger" "br_sent b = []"
    and eq: "dispatch ?E demo_request demo_lease ''planner'' None demo_broker =
      dispatch_reserved ?E demo_capability demo_request demo_lease ''planner'' None b"
    using demo_dispatch_start [of "Reply demo_reply" None] by blast
  obtain r L p where 1: "reserve demo_crypto 5 ''t1'' demo_lease ''planner'' 100 10 ?vis demo_ledger = (Inr r, L)"
      "dict_get (lg_reservations L) ''t1'' = Some p" "rv_state p = RESERVED" "rv_ticket_id p = ''t1''"
      "rv_input p \<ge> 1024" "rv_output p = 1000"
    using reserve_demo_ok [OF demo_visible_length] by blast
  obtain r' L' p' where 2: "mark_dispatched demo_crypto ''t1'' L = (Inr r', L')" "dict_get (lg_reservations L') ''t1'' = Some p'"
      "rv_state p' = DISPATCHED" "rv_input p' \<ge> 1024" "rv_output p' = 1000"
    using mark_dispatched_ok [OF 1(2-4), of demo_crypto] 1(5,6) by force
  define u where "u = \<lparr>ru_input = 700, ru_output = 20, ru_cache_read = None, ru_cache_write = None, ru_reasoning = None\<rparr>"
  have "mk_raw_usage [(''input_tokens'', 700), (''output_tokens'', 20)] = Some u"
    by (simp add: mk_raw_usage_def raw_usage_keys_def Let_def raw_usage_valid_def u_def)
  moreover obtain L'' where "settle demo_crypto ''t1'' u L' = (Inr (settled_of u), L'')"
    using settle_ok [OF 2(2,3), of u] 2(4,5) by (auto simp: u_def)
  moreover have "be_tokenizer ?E = (\<lambda>_. 100)" "cp_positive_error demo_capability = 10" "be_ledger_sequence ?E = (\<lambda>_. 5)"
      "be_crypto ?E = demo_crypto" "rq_ticket_id demo_request = ''t1''" "be_transport ?E = (\<lambda>_ _. Reply demo_reply)"
      "rp_raw_usage demo_reply = Some [(''input_tokens'', 700), (''output_tokens'', 20)]"
    by (simp_all add: demo_broker_simps)
  moreover have "canonical_bytes demo_crypto (request_body demo_capability demo_request) = ?vis"
    by (simp add: demo_visible_def)
  ultimately show ?thesis
    unfolding eq
    by (simp add: dispatch_reserved_def Let_def ledger_now_def bindE_def thenE_def getsE_def modifyE_def returnE_def
        catchE_def on_ledger_def b 1(1) 2(1) send_def settle_reply_def)
qed

lemma demo_no_unknown: "unknown_failures (demo_env (Reply demo_reply)) sent = 0"
  by (simp add: unknown_failures_def unknown_failure_def demo_env_def)

theorem broker_calls_accounted_witness:
  "card {tid. \<exists>r. reservation_for (br_ledger (snd (dispatch (demo_env (Reply demo_reply)) demo_request demo_lease ''planner'' None
        demo_broker))) tid = Some r \<and> rv_state r = DISPATCHED} = 0"
  using broker_calls_accounted [OF demo_init run_dispatch [OF run_start], where E = "demo_env (Reply demo_reply)"]
  unfolding demo_no_unknown le_zero_eq by blast

text \<open>The bound is reached: a failure of kind \<open>dns\<close> escapes \<open>dispatch\<close> as the ledger's refusal, and the
  reservation stays dispatched.\<close>

lemma unknown_kind_stays_open:
  "\<exists>b'. dispatch (demo_env (TransportFailure ''dns'')) demo_request demo_lease ''planner'' None demo_broker =
       (Inl (BrokerBudget (BudgetDenied ''retain_reason'')), b') \<and>
     phase (br_ledger b') ''t1'' = Some DISPATCHED \<and>
     unknown_failures (demo_env (TransportFailure ''dns'')) (br_sent b') = 1"
proof -
  let ?E = "demo_env (TransportFailure ''dns'')" and ?vis = demo_visible
  obtain b where b: "br_ledger b = demo_ledger" "br_sent b = []"
    and eq: "dispatch ?E demo_request demo_lease ''planner'' None demo_broker =
      dispatch_reserved ?E demo_capability demo_request demo_lease ''planner'' None b"
    using demo_dispatch_start [of "TransportFailure ''dns''" None] by blast
  obtain r L p where 1: "reserve demo_crypto 5 ''t1'' demo_lease ''planner'' 100 10 ?vis demo_ledger = (Inr r, L)"
      "dict_get (lg_reservations L) ''t1'' = Some p" "rv_state p = RESERVED" "rv_ticket_id p = ''t1''"
    using reserve_demo_ok [OF demo_visible_length] by blast
  obtain r' L' p' where 2: "mark_dispatched demo_crypto ''t1'' L = (Inr r', L')" "dict_get (lg_reservations L') ''t1'' = Some p'"
      "rv_state p' = DISPATCHED"
    using mark_dispatched_ok [OF 1(2-4), of demo_crypto] by force
  have kind: "''dns'' \<notin> set allowed_retain_reasons" by (simp add: allowed_retain_reasons_def)
  have "unknown_failure ?E [] call" for call using kind by (simp add: unknown_failure_def demo_env_def)
  then have one: "unknown_failures ?E [call] = 1" for call
    using unknown_failures_snoc [of ?E "[]" call] by simp
  have "retain demo_crypto ''t1'' ''dns'' L' = (Inl (BudgetDenied ''retain_reason''), L')"
    using kind by (simp add: retain_def)
  moreover have "be_tokenizer ?E = (\<lambda>_. 100)" "cp_positive_error demo_capability = 10" "be_ledger_sequence ?E = (\<lambda>_. 5)"
      "be_crypto ?E = demo_crypto" "rq_ticket_id demo_request = ''t1''" "be_transport ?E = (\<lambda>_ _. TransportFailure ''dns'')"
    by (simp_all add: demo_broker_simps)
  moreover have "canonical_bytes demo_crypto (request_body demo_capability demo_request) = ?vis"
    by (simp add: demo_visible_def)
  moreover have "phase L' ''t1'' = Some DISPATCHED" using 2 by (simp add: phase_def)
  ultimately show ?thesis
    unfolding eq
    by (simp add: dispatch_reserved_def Let_def ledger_now_def bindE_def thenE_def getsE_def modifyE_def returnE_def
        catchE_def on_ledger_def b 1(1) 2(1) send_def one)
qed

text \<open>C6. A response is only handed out with settled usage: if an attempt returns, the reservation of
  the request's ticket, or of the retry ticket, is settled with exactly the usage in the response,
  which stays within what was reserved for it.\<close>

theorem broker_response_settled:
  assumes init: "init_ledger C now templates tickets manifest trust = Inr L"
    and run: "broker_run E (fresh_broker L c) b"
    and answered: "dispatch E q lease role rid b = (Inr resp, b')"
  shows "\<exists>tid r. (tid = rq_ticket_id q \<or> rid = Some tid) \<and> reservation_for (br_ledger b') tid = Some r \<and>
    rv_state r = SETTLED \<and> rv_settled r = Some (bp_usage resp) \<and>
    ru_input (su_raw (bp_usage resp)) \<le> rv_input r \<and> ru_output (su_raw (bp_usage resp)) \<le> rv_output r"
proof -
  have "broker_inv E b"
    using broker_inv_run [OF run broker_inv_fresh [OF init]] .
  from wp_result [OF dispatch_outcome [OF this] answered] show ?thesis
    by (force simp: settled_with_def reservation_for_def)
qed

theorem broker_response_settled_witness:
  "\<exists>resp b' r. dispatch (demo_env (Reply demo_reply)) demo_request demo_lease ''planner'' None demo_broker = (Inr resp, b') \<and>
     reservation_for (br_ledger b') ''t1'' = Some r \<and> rv_state r = SETTLED \<and> rv_settled r = Some (bp_usage resp)"
proof -
  obtain resp b' where d: "dispatch (demo_env (Reply demo_reply)) demo_request demo_lease ''planner'' None demo_broker = (Inr resp, b')"
    using demo_dispatch by blast
  have "rq_ticket_id demo_request = ''t1''" by (simp add: demo_request_def)
  with broker_response_settled [OF demo_init run_start d] d show ?thesis by auto
qed

text \<open>C7. What leaves the broker: every call ever sent carries a body that the scanner accepted, goes
  to the chat completions endpoint by POST without redirects and over verified TLS, with the broker's
  own key. This holds for retries too, and even after the capability was frozen or replaced.\<close>

theorem broker_sends_only_scanned:
  assumes "broker_run E (fresh_broker L c) b" and "call \<in> set (br_sent b)"
  shows "be_scanner E (canonical_bytes (be_crypto E) (sc_body call)) \<and>
    sc_method call = ''POST'' \<and> sc_endpoint call = ''/chat/completions'' \<and>
    \<not> sc_allow_redirects call \<and> sc_tls_verified call \<and> sc_api_key call = be_api_key E"
proof -
  have "sent_ok E b" using assms(1)
  proof (induction "fresh_broker L c" b)
    case run_start
    then show ?case by (simp add: sent_ok_def fresh_broker_def)
  next
    case (run_dispatch b' q lease role rid)
    then show ?case by (intro keeps_snd [OF sent_ok_dispatch])
  qed
  with assms(2) show ?thesis by (auto simp: sent_ok_def list_all_iff call_ok_def)
qed

theorem broker_sends_only_scanned_witness:
  "\<exists>call. br_sent (snd (dispatch (demo_env (Reply demo_reply)) demo_request demo_lease ''planner'' None demo_broker)) = [call] \<and>
     sc_method call = ''POST'' \<and> sc_endpoint call = ''/chat/completions'' \<and> sc_tls_verified call"
proof -
  let ?b = "snd (dispatch (demo_env (Reply demo_reply)) demo_request demo_lease ''planner'' None demo_broker)"
  obtain call where call: "br_sent ?b = [call]"
    using demo_dispatch by (auto simp: length_Suc_conv)
  then have "call \<in> set (br_sent ?b)" by simp
  from broker_sends_only_scanned [OF run_dispatch [OF run_start] this] call show ?thesis by simp
qed

text \<open>Freezing is final: once the capability is frozen, no later attempt can succeed, send a call,
  or touch the ledger, and the capability stays frozen.\<close>

theorem broker_frozen_is_final:
  assumes "cp_state (br_capability b) = FROZEN" and "broker_run E b b'"
  shows "cp_state (br_capability b') = FROZEN \<and> br_ledger b' = br_ledger b \<and> br_sent b' = br_sent b \<and>
    (\<exists>code. fst (dispatch E q lease role rid b') = Inl (BrokerDenied code))"
proof -
  have step: "wp (dispatch E q lease role rid) (\<lambda>_ _. False)
      (\<lambda>e d. (\<exists>code. e = BrokerDenied code) \<and> cp_state (br_capability d) = FROZEN \<and> br_ledger d = br_ledger c \<and>
        br_sent d = br_sent c) c" if "cp_state (br_capability c) = FROZEN" for c q lease role rid
    using that by (auto simp: dispatch_def authority_record_def wp_simps split: option.splits)
  have kept: "cp_state (br_capability b') = FROZEN \<and> br_ledger b' = br_ledger b \<and> br_sent b' = br_sent b"
    using assms(2,1)
  proof induction
    case (run_dispatch b b' q lease role rid)
    with step [of b' q lease role rid] show ?case
      by (cases "dispatch E q lease role rid b'"; cases "fst (dispatch E q lease role rid b')") (auto simp: wp_def)
  qed simp
  with step [of b' q lease role rid] show ?thesis
    by (cases "dispatch E q lease role rid b'"; cases "fst (dispatch E q lease role rid b')") (auto simp: wp_def)
qed

theorem broker_frozen_is_final_witness:
  "\<exists>code. fst (dispatch (demo_env (Reply demo_reply)) demo_request demo_lease ''planner'' None
       (fresh_broker demo_ledger (demo_capability\<lparr>cp_state := FROZEN\<rparr>))) = Inl (BrokerDenied code)"
  using broker_frozen_is_final [of "fresh_broker demo_ledger (demo_capability\<lparr>cp_state := FROZEN\<rparr>)", OF _ run_start]
  by (simp add: fresh_broker_def)

text \<open>What one reply does: with the request in flight, a reply either settles the ticket and is
  returned, or the ticket is retained and the capability frozen; nothing is left open and no
  exception escapes with the reservation still dispatched.\<close>

theorem broker_reply_settles_or_freezes:
  assumes "in_flight E tid b"
  shows "case settle_reply E quiet tid r b of
      (Inr resp, b') \<Rightarrow> phase (br_ledger b') tid = Some SETTLED \<and> cp_state (br_capability b') = cp_state (br_capability b)
    | (Inl e, b') \<Rightarrow> phase (br_ledger b') tid = Some RETAINED \<and> cp_state (br_capability b') = FROZEN"
  using settle_reply_outcome [OF assms, of quiet r]
  by (auto simp: wp_def settled_with_def phase_def split: prod.splits sum.splits)

lemma demo_in_flight: "\<exists>b. in_flight E ''t1'' b" for E
proof -
  have good: "ledger_good demo_ledger"
    using new_ledger_inv new_ledger_history by (simp add: ledger_good_def demo_ledger_def)
  obtain r L where 1: "reserve demo_crypto 5 ''t1'' demo_lease ''planner'' 100 10 ''body'' demo_ledger = (Inr r, L)"
    using reserve_demo_ok [of "''body''"] by auto
  have L: "ledger_good L \<and> phase L = (phase demo_ledger)(''t1'' \<mapsto> RESERVED) \<and> dispatch_count L = dispatch_count demo_ledger"
    by (rule wp_result [OF wp_reserve [OF good, where E = "\<lambda>_ _. True"] 1]) simp_all
  have st: "phase L ''t1'' = Some RESERVED" using L by simp
  then obtain p where p: "dict_get (lg_reservations L) ''t1'' = Some p" "rv_state p = RESERVED"
    by (auto simp: phase_def)
  have "rv_ticket_id p = ''t1''"
    using L p(1) by (auto simp: ledger_good_def ledger_inv_def reservation_ok_def)
  then obtain r' L' where 2: "mark_dispatched demo_crypto ''t1'' L = (Inr r', L')"
    using mark_dispatched_ok [OF p] by blast
  have gL: "ledger_good L" using L by blast
  have "wp (mark_dispatched demo_crypto ''t1'') (\<lambda>_ M. ledger_good M \<and> phase M = (phase L)(''t1'' \<mapsto> DISPATCHED) \<and>
      dispatch_count M = Suc (dispatch_count L)) (\<lambda>_ _. True) L"
    by (rule wp_mark_dispatched [OF gL st]) blast
  from wp_result [OF this 2]
  have L': "ledger_good L'" "phase L' = (phase L)(''t1'' \<mapsto> DISPATCHED)" "dispatch_count L' = Suc (dispatch_count L)"
    by blast+
  let ?b = "demo_broker" and ?call = "make_call (demo_env TransportError) demo_capability demo_request JNull"
  have "in_flight E ''t1'' (?b\<lparr>br_ledger := L', br_sent := br_sent ?b @ [?call]\<rparr>)"
    by (rule in_flight_sent [OF broker_inv_fresh [OF demo_init] L'(1) _ L'(2) _ L'(3)])
      (use L in \<open>simp_all add: fresh_broker_def\<close>)
  then show ?thesis by blast
qed

theorem broker_reply_settles_or_freezes_witness:
  "\<exists>b. in_flight (demo_env (Reply demo_reply)) ''t1'' b \<and> (case settle_reply (demo_env (Reply demo_reply)) True ''t1'' (demo_reply\<lparr>rp_raw_usage := None\<rparr>) b of
      (Inr resp, b') \<Rightarrow> phase (br_ledger b') ''t1'' = Some SETTLED \<and> cp_state (br_capability b') = cp_state (br_capability b)
    | (Inl e, b') \<Rightarrow> phase (br_ledger b') ''t1'' = Some RETAINED \<and> cp_state (br_capability b') = FROZEN)"
proof -
  obtain b where "in_flight (demo_env (Reply demo_reply)) ''t1'' b" using demo_in_flight by blast
  from this broker_reply_settles_or_freezes [OF this] show ?thesis by (intro exI conjI)
qed

end
