(* ===== verification/JsonParse.thy ===== *)
theory JsonParse
  imports Canonical
begin

text \<open>
  \<open>parse_json_bytes\<close> of \<open>benchmarks/secure_memory/canonical.py\<close>: strict UTF-8, \<open>json.loads\<close> with
  its scanner written out, duplicate keys and non-finite numbers refused. Every exception it raises
  is a \<open>ValueError\<close>, so the outcome is an option.

  Floats: \<open>float(token)\<close> followed by the finiteness check is the parameter \<open>read_float\<close>. An escape
  that denotes a lone surrogate has no UTF-8 form; it is refused here, and in the source when the
  text is encoded again. The interpreter's limits on nesting depth and on the digits of an integer
  are not modelled. Recursion is bounded by fuel; the length of the input is enough, since each
  nested call has read a character before.
\<close>

subsection \<open>UTF-8\<close>

abbreviation byte :: "char \<Rightarrow> nat" where
  "byte c \<equiv> of_char c"

definition cont_byte :: "char \<Rightarrow> bool" where
  "cont_byte c \<longleftrightarrow> 128 \<le> byte c \<and> byte c < 192"

text \<open>Strict UTF-8: no overlong form, no surrogate, nothing above U+10FFFF.\<close>

fun utf8_valid :: "string \<Rightarrow> bool" where
  "utf8_valid [] = True"
| "utf8_valid (a # s) =
    (if byte a < 128 then utf8_valid s
     else if 194 \<le> byte a \<and> byte a < 224 then
       (case s of b # s' \<Rightarrow> cont_byte b \<and> utf8_valid s' | _ \<Rightarrow> False)
     else if 224 \<le> byte a \<and> byte a < 240 then
       (case s of b # c # s' \<Rightarrow> cont_byte b \<and> cont_byte c \<and> (byte a = 224 \<longrightarrow> 160 \<le> byte b) \<and>
          (byte a = 237 \<longrightarrow> byte b < 160) \<and> utf8_valid s' | _ \<Rightarrow> False)
     else if 240 \<le> byte a \<and> byte a < 245 then
       (case s of b # c # d # s' \<Rightarrow> cont_byte b \<and> cont_byte c \<and> cont_byte d \<and>
          (byte a = 240 \<longrightarrow> 144 \<le> byte b) \<and> (byte a = 244 \<longrightarrow> byte b < 144) \<and> utf8_valid s' | _ \<Rightarrow> False)
     else False)"

definition utf8_encode :: "nat \<Rightarrow> string" where
  "utf8_encode u =
    (if u < 128 then [char_of u]
     else if u < 2048 then [char_of (192 + u div 64), char_of (128 + u mod 64)]
     else if u < 65536 then
       [char_of (224 + u div 4096), char_of (128 + u div 64 mod 64), char_of (128 + u mod 64)]
     else [char_of (240 + u div 262144), char_of (128 + u div 4096 mod 64),
           char_of (128 + u div 64 mod 64), char_of (128 + u mod 64)])"

subsection \<open>Tokens\<close>

definition is_ws :: "char \<Rightarrow> bool" where
  "is_ws c \<longleftrightarrow> byte c \<in> {32, 9, 10, 13}"

definition skip_ws :: "string \<Rightarrow> string" where
  "skip_ws s = dropWhile is_ws s"

definition is_digit :: "char \<Rightarrow> bool" where
  "is_digit c \<longleftrightarrow> 48 \<le> byte c \<and> byte c \<le> 57"

definition hex_value :: "char \<Rightarrow> nat option" where
  "hex_value c =
    (let n = byte c in
     if 48 \<le> n \<and> n \<le> 57 then Some (n - 48)
     else if 97 \<le> n \<and> n \<le> 102 then Some (n - 87)
     else if 65 \<le> n \<and> n \<le> 70 then Some (n - 55) else None)"

fun read_u4 :: "string \<Rightarrow> (nat \<times> string) option" where
  "read_u4 (a # b # c # d # s) =
    (case (hex_value a, hex_value b, hex_value c, hex_value d) of
       (Some w, Some x, Some y, Some z) \<Rightarrow> Some (((w * 16 + x) * 16 + y) * 16 + z, s)
     | _ \<Rightarrow> None)"
| "read_u4 _ = None"

text \<open>The code point of a \<open>\u\<close> escape, with its low surrogate where it needs one.\<close>

definition read_code_point :: "string \<Rightarrow> (nat \<times> string) option" where
  "read_code_point s =
    (case read_u4 s of
       None \<Rightarrow> None
     | Some (u, s') \<Rightarrow>
         if u < 55296 \<or> 57344 \<le> u then Some (u, s')
         else if 56320 \<le> u then None
         else (case s' of
             b # x # s'' \<Rightarrow>
               if byte b = 92 \<and> x = CHR ''u'' then
                 (case read_u4 s'' of
                    Some (v, s''') \<Rightarrow>
                      if 56320 \<le> v \<and> v \<le> 57343
                      then Some (65536 + (u - 55296) * 1024 + (v - 56320), s''') else None
                  | None \<Rightarrow> None)
               else None
           | _ \<Rightarrow> None))"

definition short_escape :: "char \<Rightarrow> char option" where
  "short_escape c =
    (let n = byte c in
     if n = 34 \<or> n = 92 \<or> n = 47 then Some c
     else if c = CHR ''b'' then Some (char_of (8 :: nat))
     else if c = CHR ''f'' then Some (char_of (12 :: nat))
     else if c = CHR ''n'' then Some (char_of (10 :: nat))
     else if c = CHR ''r'' then Some (char_of (13 :: nat))
     else if c = CHR ''t'' then Some (char_of (9 :: nat)) else None)"

text \<open>The rest of a string literal, after its opening quote.\<close>

fun read_string :: "nat \<Rightarrow> string \<Rightarrow> (string \<times> string) option" where
  "read_string 0 s = None"
| "read_string (Suc n) [] = None"
| "read_string (Suc n) (c # s) =
    (if byte c = 34 then Some ([], s)
     else if byte c < 32 then None
     else if byte c = 92 then
       (case s of
          [] \<Rightarrow> None
        | e # s' \<Rightarrow>
           if e = CHR ''u'' then
             (case read_code_point s' of
                None \<Rightarrow> None
              | Some (u, s'') \<Rightarrow> map_option (map_prod ((@) (utf8_encode u)) id) (read_string n s''))
           else
             (case short_escape e of
                None \<Rightarrow> None
              | Some x \<Rightarrow> map_option (map_prod ((#) x) id) (read_string n s')))
     else map_option (map_prod ((#) c) id) (read_string n s))"

definition digit_value :: "char \<Rightarrow> nat" where
  "digit_value c = byte c - 48"

definition nat_of_digits :: "string \<Rightarrow> nat" where
  "nat_of_digits s = fold (\<lambda>c n. 10 * n + digit_value c) s 0"

text \<open>\<open>(\.[0-9]+)?\<close> and \<open>([eE][-+]?[0-9]+)?\<close>: the part read and the rest.\<close>

definition read_fraction :: "string \<Rightarrow> string \<times> string" where
  "read_fraction s =
    (case s of
       CHR ''.'' # t \<Rightarrow> if takeWhile is_digit t = [] then ([], s)
                      else (CHR ''.'' # takeWhile is_digit t, dropWhile is_digit t)
     | _ \<Rightarrow> ([], s))"

definition read_exponent :: "string \<Rightarrow> string \<times> string" where
  "read_exponent s =
    (case s of
       [] \<Rightarrow> ([], s)
     | e # t \<Rightarrow>
        if e \<noteq> CHR ''e'' \<and> e \<noteq> CHR ''E'' then ([], s)
        else (let (sign, d) = (case t of
                  x # t' \<Rightarrow> if x = CHR ''-'' \<or> x = CHR ''+'' then ([x], t') else ([], t)
                | [] \<Rightarrow> ([], t))
              in if takeWhile is_digit d = [] then ([], s)
                 else (e # sign @ takeWhile is_digit d, dropWhile is_digit d)))"

text \<open>The scanner's number: an integer unless a fraction or an exponent follows.\<close>

definition read_number :: "crypto \<Rightarrow> string \<Rightarrow> (json \<times> string) option" where
  "read_number C s =
    (let neg = (s \<noteq> [] \<and> hd s = CHR ''-''); t = (if neg then tl s else s) in
     if t = [] \<or> \<not> is_digit (hd t) then None
     else
       (let ds = (if hd t = CHR ''0'' then ''0'' else takeWhile is_digit t);
            r = drop (length ds) t;
            (frac, r1) = read_fraction r;
            (ex, r2) = read_exponent r1
        in if frac = [] \<and> ex = []
           then Some (JInt (if neg then - int (nat_of_digits ds) else int (nat_of_digits ds)), r)
           else map_option (\<lambda>q. (JFloat q, r2))
                  (read_float C ((if neg then ''-'' else []) @ ds @ frac @ ex))))"

definition expect :: "string \<Rightarrow> string \<Rightarrow> string option" where
  "expect tok s = (if take (length tok) s = tok then Some (drop (length tok) s) else None)"

subsection \<open>Values\<close>

text \<open>\<open>read_elems\<close> and \<open>read_members\<close> read what follows the first element or the comma before one.\<close>

fun read_value :: "nat \<Rightarrow> crypto \<Rightarrow> string \<Rightarrow> (json \<times> string) option"
and read_elems :: "nat \<Rightarrow> crypto \<Rightarrow> string \<Rightarrow> (json list \<times> string) option"
and read_members :: "nat \<Rightarrow> crypto \<Rightarrow> string \<Rightarrow> ((string \<times> json) list \<times> string) option" where
  "read_value 0 C s = None"
| "read_value (Suc n) C [] = None"
| "read_value (Suc n) C (c # s) =
    (if byte c = 34 then map_option (map_prod JStr id) (read_string (Suc (length s)) s)
     else if c = CHR ''{'' then
       (case skip_ws s of
          [] \<Rightarrow> None
        | d # s' \<Rightarrow>
           if d = CHR ''}'' then Some (JObj [], s')
           else (case read_members n C (d # s') of
               None \<Rightarrow> None
             | Some (kvs, r) \<Rightarrow> if distinct (map fst kvs) then Some (JObj kvs, r) else None))
     else if c = CHR ''['' then
       (case skip_ws s of
          [] \<Rightarrow> None
        | d # s' \<Rightarrow>
           if d = CHR '']'' then Some (JList [], s')
           else map_option (map_prod JList id) (read_elems n C (d # s')))
     else if c = CHR ''n'' then map_option (Pair JNull) (expect ''ull'' s)
     else if c = CHR ''t'' then map_option (Pair (JBool True)) (expect ''rue'' s)
     else if c = CHR ''f'' then map_option (Pair (JBool False)) (expect ''alse'' s)
     else read_number C (c # s))"
| "read_elems 0 C s = None"
| "read_elems (Suc n) C s =
    (case read_value n C s of
       None \<Rightarrow> None
     | Some (v, r) \<Rightarrow>
        (case skip_ws r of
           [] \<Rightarrow> None
         | d # r' \<Rightarrow>
            if d = CHR '']'' then Some ([v], r')
            else if d = CHR '','' then map_option (map_prod ((#) v) id) (read_elems n C (skip_ws r'))
            else None))"
| "read_members 0 C s = None"
| "read_members (Suc n) C s =
    (case s of
       [] \<Rightarrow> None
     | q # s1 \<Rightarrow>
        if byte q \<noteq> 34 then None
        else (case read_string (Suc (length s1)) s1 of
            None \<Rightarrow> None
          | Some (k, s2) \<Rightarrow>
             (case skip_ws s2 of
                [] \<Rightarrow> None
              | colon # s3 \<Rightarrow>
                 if colon \<noteq> CHR '':'' then None
                 else (case read_value n C (skip_ws s3) of
                     None \<Rightarrow> None
                   | Some (v, r) \<Rightarrow>
                      (case skip_ws r of
                         [] \<Rightarrow> None
                       | d # r' \<Rightarrow>
                          if d = CHR ''}'' then Some ([(k, v)], r')
                          else if d = CHR '',''
                          then map_option (map_prod ((#) (k, v)) id) (read_members n C (skip_ws r'))
                          else None)))))"

definition parse_json_bytes :: "crypto \<Rightarrow> string \<Rightarrow> json option" where
  "parse_json_bytes C raw =
    (if \<not> utf8_valid raw then None
     else (case read_value (Suc (2 * length raw)) C (skip_ws raw) of
         None \<Rightarrow> None
       | Some (v, r) \<Rightarrow> if skip_ws r = [] then Some v else None))"

end
