(* ===== verification/JsonRoundtrip.thy ===== *)
theory JsonRoundtrip
  imports JsonParse "HOL-Library.Multiset"
begin

text \<open>
  Canonical JSON is read back: for a value without floats whose strings are valid UTF-8 and whose
  objects have distinct keys, \<open>parse_json_bytes\<close> of its canonical bytes is that value with the keys
  sorted. So canonical bytes determine the value, which is what the digests rely on.
\<close>

subsection \<open>Values that have a canonical form\<close>

primrec float_free :: "json \<Rightarrow> bool" where
  "float_free JNull = True"
| "float_free (JBool b) = True"
| "float_free (JInt i) = True"
| "float_free (JFloat r) = False"
| "float_free (JStr s) = utf8_valid s"
| "float_free (JList xs) = list_all id (map float_free xs)"
| "float_free (JObj kvs) = (distinct (map fst kvs) \<and> list_all (\<lambda>kv. utf8_valid (fst kv)) kvs \<and>
     list_all snd (map (map_prod id float_free) kvs))"

text \<open>The value that is read back: the same with sorted keys.\<close>

primrec sorted_json :: "json \<Rightarrow> json" where
  "sorted_json JNull = JNull"
| "sorted_json (JBool b) = JBool b"
| "sorted_json (JInt i) = JInt i"
| "sorted_json (JFloat r) = JFloat r"
| "sorted_json (JStr s) = JStr s"
| "sorted_json (JList xs) = JList (map sorted_json xs)"
| "sorted_json (JObj kvs) = JObj (sort_key fst (map (map_prod id sorted_json) kvs))"

lemma insort_map_values:
  "insort_key fst (map_prod id f x) (map (map_prod id f) xs) = map (map_prod id f) (insort_key fst x xs)"
  by (induction xs) auto

lemma sort_map_values: "sort_key fst (map (map_prod id f) xs) = map (map_prod id f) (sort_key fst xs)"
  by (induction xs) (simp_all add: insort_map_values insort_map_values [unfolded id_def])

subsection \<open>UTF-8 is closed under concatenation and escaping\<close>

lemma utf8_append: "utf8_valid a \<Longrightarrow> utf8_valid b \<Longrightarrow> utf8_valid (a @ b)"
  by (induction a rule: utf8_valid.induct) (auto split: if_splits list.splits)
lemma utf8_ascii: "list_all (\<lambda>c. byte c < 128) s \<Longrightarrow> utf8_valid s"
  by (induction s) auto

lemma escape_high: "128 \<le> byte c \<Longrightarrow> escape_char c = [c]"
  by (simp add: escape_char_def Let_def)

lemma escape_low: assumes "byte c < 128" shows "list_all (\<lambda>d. byte d < 128) (escape_char c)"
proof -
  have h: "byte (hex_char n) < 128" if "n < 16" for n
    using that by (simp add: hex_char_def)
  show ?thesis using assms h by (auto simp: escape_char_def Let_def)
qed

lemma utf8_escape: "utf8_valid s \<Longrightarrow> utf8_valid (concat (map escape_char s))"
proof (induction s rule: utf8_valid.induct)
  case (2 a s)
  show ?case
  proof (cases "byte a < 128")
    case True
    with 2 show ?thesis by (auto intro: utf8_append utf8_ascii escape_low)
  next
    case False
    with 2 show ?thesis
      by (auto simp: escape_high cont_byte_def split: if_splits list.splits)
  qed
qed simp

subsection \<open>Strings\<close>

lemma hex_roundtrip: "n < 16 \<Longrightarrow> hex_value (hex_char n) = Some n"
  by (simp add: hex_value_def hex_char_def)

lemma control_escape:
  assumes "byte c < 32"
  shows "read_u4 (''00'' @ [hex_char (byte c div 16), hex_char (byte c mod 16)] @ s) = Some (byte c, s)"
proof -
  have "hex_value (hex_char (byte c div 16)) = Some (byte c div 16)" "hex_value (hex_char (byte c mod 16)) = Some (byte c mod 16)"
    using assms by (simp_all add: hex_roundtrip)
  then show ?thesis by (simp add: hex_value_def)
qed

lemma utf8_encode_ascii: "byte c < 128 \<Longrightarrow> utf8_encode (byte c) = [c]"
  by (simp add: utf8_encode_def)

lemma byte_eqI: "byte a = byte b \<Longrightarrow> a = b"
  by (simp only: of_char_eq_iff)

lemma special_chars:
  "byte c = 34 \<Longrightarrow> c = CHR 0x22" "byte c = 92 \<Longrightarrow> c = CHR 0x5C" "byte c = 10 \<Longrightarrow> c = CHR 0x0A"
  "byte c = 13 \<Longrightarrow> c = CHR 0x0D" "byte c = 9 \<Longrightarrow> c = CHR 0x09" "byte c = 12 \<Longrightarrow> c = CHR 0x0C"
  "byte c = 8 \<Longrightarrow> c = CHR 0x08"
  "char_of (34 :: nat) = CHR 0x22" "char_of (92 :: nat) = CHR 0x5C" "char_of (10 :: nat) = CHR 0x0A"
  "char_of (13 :: nat) = CHR 0x0D" "char_of (9 :: nat) = CHR 0x09" "char_of (12 :: nat) = CHR 0x0C"
  "char_of (8 :: nat) = CHR 0x08"
  by (auto intro!: byte_eqI)

lemma read_escaped:
  "read_string (Suc n) (escape_char c @ s) = map_option (map_prod ((#) c) id) (read_string n s)"
proof (cases "byte c < 32 \<or> byte c = 34 \<or> byte c = 92")
  case False
  then have "escape_char c = [c]" by (simp add: escape_char_def Let_def)
  with False show ?thesis by simp
next
  case True
  consider "byte c = 34" | "byte c = 92" | "byte c = 10" | "byte c = 13" | "byte c = 9" | "byte c = 12" | "byte c = 8"
    | "byte c < 32" "byte c \<notin> {8, 9, 10, 12, 13}" using True by auto
  then show ?thesis
  proof cases
    case 8
    then have e: "escape_char c = char_of (92 :: nat) # ''u00'' @ [hex_char (byte c div 16), hex_char (byte c mod 16)]"
      by (auto simp: escape_char_def Let_def)
    have "read_code_point (''00'' @ [hex_char (byte c div 16), hex_char (byte c mod 16)] @ s) = Some (byte c, s)"
      using 8(1) control_escape [OF 8(1), of s] by (simp add: read_code_point_def)
    moreover have "(@) [c] = (#) c" by (rule ext) simp
    ultimately show ?thesis using 8(1) by (simp add: e utf8_encode_ascii)
  qed (auto dest!: special_chars(1-7) simp: escape_char_def Let_def short_escape_def special_chars(8-14))
qed

lemma read_string_quote:
  "length s < n \<Longrightarrow> read_string n (concat (map escape_char s) @ char_of (34 :: nat) # rest) = Some (s, rest)"
proof (induction s arbitrary: n)
  case Nil
  then show ?case by (cases n) simp_all
next
  case (Cons c s)
  then obtain m where n: "n = Suc m" "length s < m" by (cases n) auto
  with Cons.IH [OF n(2)] show ?case by (simp add: read_escaped)
qed

lemma escape_length: "length s \<le> length (concat (map escape_char s))"
proof (induction s)
  case (Cons c s)
  have "1 \<le> length (escape_char c)" by (simp add: escape_char_def Let_def)
  with Cons show ?case by simp
qed simp

lemma quote_str_read:
  "read_string (Suc (length (tl (quote_str s @ rest)))) (tl (quote_str s @ rest)) = Some (s, rest)"
  using escape_length [of s] by (simp add: quote_str_def read_string_quote)

subsection \<open>Integers\<close>

lemma digit_char_props: "d < 10 \<Longrightarrow> is_digit (digit_char d) \<and> digit_value (digit_char d) = d \<and> byte (digit_char d) = 48 + d"
  by (simp add: is_digit_def digit_char_def digit_value_def)

lemma dec_digits: "list_all is_digit (dec n)"
  by (induction n rule: dec.induct) (subst dec.simps, simp add: digit_char_props)

lemma dec_nonempty: "dec n \<noteq> []"
  by (subst dec.simps) simp

lemma nat_of_digits_snoc: "nat_of_digits (s @ [c]) = 10 * nat_of_digits s + digit_value c"
  by (simp add: nat_of_digits_def)

lemma nat_of_dec: "nat_of_digits (dec n) = n"
proof (induction n rule: dec.induct)
  case (1 n)
  show ?case
  proof (cases "n < 10")
    case True
    then show ?thesis by (subst dec.simps) (simp add: nat_of_digits_def digit_char_props)
  next
    case False
    with 1 show ?thesis by (subst dec.simps) (simp add: nat_of_digits_snoc digit_char_props)
  qed
qed

lemma dec_head: "0 < n \<Longrightarrow> byte (hd (dec n)) \<noteq> 48"
proof (induction n rule: dec.induct)
  case (1 n)
  show ?case
  proof (cases "n < 10")
    case True
    with 1 show ?thesis by (subst dec.simps) (simp add: digit_char_props)
  next
    case False
    with 1 show ?thesis by (subst dec.simps) (simp add: dec_nonempty)
  qed
qed

lemma dec_zero: "dec 0 = ''0''"
  by (subst dec.simps) (simp add: digit_char_def, rule byte_eqI, simp)

text \<open>What may follow a value in canonical JSON: nothing, a comma, or a closing bracket.\<close>

definition follows :: "string \<Rightarrow> bool" where
  "follows rest \<longleftrightarrow> rest = [] \<or> hd rest \<in> {CHR '','', CHR '']'', CHR ''}''}"

lemma follows_no_number:
  assumes "follows rest"
  shows "takeWhile is_digit rest = []" "read_fraction rest = ([], rest)" "read_exponent rest = ([], rest)"
  using assms by (cases rest; auto simp: follows_def is_digit_def read_fraction_def read_exponent_def)+

lemma takeWhile_digits: "list_all is_digit ds \<Longrightarrow> follows rest \<Longrightarrow> takeWhile is_digit (ds @ rest) = ds"
  using follows_no_number(1) [of rest] by (simp add: takeWhile_append2 list_all_iff)

lemma read_number_dec:
  assumes "follows rest" and "0 < n"
  shows "hd (dec n) \<noteq> CHR ''0''" "takeWhile is_digit (dec n @ rest) = dec n" "hd (dec n @ rest) = hd (dec n)"
    "is_digit (hd (dec n))" "dec n @ rest \<noteq> []" "hd (dec n) \<noteq> CHR ''-''"
proof -
  show "hd (dec n) \<noteq> CHR ''0''" using dec_head [OF assms(2)] by auto
  show "takeWhile is_digit (dec n @ rest) = dec n" by (rule takeWhile_digits [OF dec_digits assms(1)])
  show "hd (dec n @ rest) = hd (dec n)" "is_digit (hd (dec n))" "dec n @ rest \<noteq> []" "hd (dec n) \<noteq> CHR ''-''"
    using dec_digits [of n] dec_nonempty [of n] by (cases "dec n"; auto simp: is_digit_def)+
qed

lemma read_number_dec_int:
  assumes "follows rest"
  shows "read_number C (dec_int i @ rest) = Some (JInt i, rest)"
proof -
  consider "i = 0" | "0 < i" | "i < 0" by linarith
  then show ?thesis
  proof cases
    case 1
    then show ?thesis
      using follows_no_number [OF assms]
      by (simp add: read_number_def dec_int_def dec_zero is_digit_def Let_def nat_of_digits_def digit_value_def)
  next
    case 2
    note facts = read_number_dec [OF assms, of "nat i"]
    from 2 show ?thesis
      by (simp add: read_number_def dec_int_def Let_def nat_of_dec facts follows_no_number [OF assms] dec_nonempty)
  next
    case 3
    note facts = read_number_dec [OF assms, of "nat (- i)"]
    from 3 show ?thesis
      by (simp add: read_number_def dec_int_def Let_def nat_of_dec facts follows_no_number [OF assms] dec_nonempty)
  qed
qed

subsection \<open>Values\<close>

primrec json_fuel :: "json \<Rightarrow> nat" where
  "json_fuel JNull = 1"
| "json_fuel (JBool b) = 1"
| "json_fuel (JInt i) = 1"
| "json_fuel (JFloat r) = 1"
| "json_fuel (JStr s) = 1"
| "json_fuel (JList xs) = Suc (sum_list (map Suc (map json_fuel xs)))"
| "json_fuel (JObj kvs) = Suc (sum_list (map (Suc \<circ> snd) (map (map_prod id json_fuel) kvs)))"

lemma json_fuel_pos: "0 < json_fuel v"
  by (cases v) simp_all

definition starts_value :: "string \<Rightarrow> bool" where
  "starts_value s \<longleftrightarrow> s \<noteq> [] \<and> \<not> is_ws (hd s) \<and> hd s \<noteq> CHR '']'' \<and> hd s \<noteq> CHR ''}''"

lemma dec_head_digit: "is_digit (hd (dec n))" "dec n \<noteq> []"
  using dec_digits [of n] dec_nonempty [of n] by (cases "dec n"; simp)+

lemma digit_starts: "is_digit c \<Longrightarrow> \<not> is_ws c \<and> c \<noteq> CHR '']'' \<and> c \<noteq> CHR ''}'' \<and> c \<noteq> CHR ''{'' \<and>
    c \<noteq> CHR ''['' \<and> c \<noteq> CHR ''n'' \<and> c \<noteq> CHR ''t'' \<and> c \<noteq> CHR ''f'' \<and> byte c \<noteq> 34"
  by (auto simp: is_digit_def is_ws_def)

lemma snds_snd: "y \<in> Basic_BNFs.snds x \<longleftrightarrow> y = snd x"
  by (cases x) simp

lemma starts_skip: "starts_value s \<Longrightarrow> skip_ws s = s"
  by (cases s) (simp_all add: starts_value_def skip_ws_def)

lemma follows_simps [simp]: "follows []" "follows (CHR '','' # s)" "follows (CHR '']'' # s)" "follows (CHR ''}'' # s)"
  by (simp_all add: follows_def)

lemma skip_ws_simps [simp]: "skip_ws (CHR '','' # s) = CHR '','' # s" "skip_ws (CHR '']'' # s) = CHR '']'' # s"
  "skip_ws (CHR ''}'' # s) = CHR ''}'' # s" "skip_ws (CHR '':'' # s) = CHR '':'' # s" "skip_ws [] = []"
  by (simp_all add: skip_ws_def is_ws_def)

lemma join_cons: "join sep (x # xs) = x @ (if xs = [] then [] else sep @ join sep xs)"
  by (cases xs) simp_all

lemma quote_starts: "quote_str k @ s = CHR 0x22 # tl (quote_str k @ s)"
  by (simp add: quote_str_def special_chars)

lemma utf8_quote: "utf8_valid s \<Longrightarrow> utf8_valid (quote_str s)"
  by (simp add: quote_str_def utf8_append utf8_escape)

lemma utf8_join: "utf8_valid sep \<Longrightarrow> \<forall>x \<in> set xs. utf8_valid x \<Longrightarrow> utf8_valid (join sep xs)"
  by (induction xs) (auto simp: join_cons intro!: utf8_append)

lemma utf8_dec: "utf8_valid (dec n)"
proof (rule utf8_ascii)
  show "list_all (\<lambda>c. byte c < 128) (dec n)"
    using dec_digits [of n] by (auto simp: list_all_iff is_digit_def)
qed

lemma double_sum: "sum_list (map (\<lambda>x. 2 * (f x + 1)) xs) = 2 * sum_list (map (\<lambda>x. f x + 1) xs)"
  for f :: "'a \<Rightarrow> nat"
  by (induction xs) simp_all

lemma sum_list_sort: "sum_list (map g (sort_key k xs)) = sum_list (map g xs)"
  for g :: "'a \<Rightarrow> nat"
  by (metis mset_map mset_sort sum_mset_sum_list)

text \<open>
  \<open>json.dumps(value, ensure_ascii=False, sort_keys=True)\<close> puts \<open>gap\<close> behind its separators: nothing in canonical JSON,
  a blank with the default separators. Whatever blank the layout has, the text reads back.
\<close>

definition gap_field :: "string \<Rightarrow> string \<times> string \<Rightarrow> string" where
  "gap_field gap kv = quote_str (fst kv) @ '':'' @ gap @ snd kv"

primrec json_text :: "string \<Rightarrow> crypto \<Rightarrow> json \<Rightarrow> string" where
  "json_text gap C JNull = ''null''"
| "json_text gap C (JBool b) = (if b then ''true'' else ''false'')"
| "json_text gap C (JInt i) = dec_int i"
| "json_text gap C (JFloat r) = repr_float C r"
| "json_text gap C (JStr s) = quote_str s"
| "json_text gap C (JList xs) = ''['' @ join ('','' @ gap) (map (json_text gap C) xs) @ '']''"
| "json_text gap C (JObj kvs) =
     ''{'' @ join ('','' @ gap) (map (gap_field gap) (sort_key fst (map (map_prod id (json_text gap C)) kvs))) @ ''}''"

lemma json_text_canonical: "json_text [] C v = canonical_bytes C v"
proof (induction v)
  case (JList xs)
  then have "map (json_text [] C) xs = map (canonical_bytes C) xs" by simp
  then show ?case by (simp only: json_text.simps canonical_bytes.simps append_Nil2)
next
  case (JObj kvs)
  then have "map (map_prod id (json_text [] C)) kvs = map (map_prod id (canonical_bytes C)) kvs"
    by (force simp: snds_snd)
  moreover have "gap_field [] = field_str" by (rule ext) (simp add: gap_field_def field_str_def)
  ultimately show ?case by (simp only: json_text.simps canonical_bytes.simps append_Nil2)
qed simp_all

definition reads_back :: "string \<Rightarrow> crypto \<Rightarrow> json \<Rightarrow> bool" where
  "reads_back gap C v \<longleftrightarrow> (\<forall>n rest. json_fuel v \<le> n \<longrightarrow> follows rest \<longrightarrow>
     read_value n C (json_text gap C v @ rest) = Some (sorted_json v, rest))"

locale json_layout =
  fixes gap :: string
  assumes blank: "list_all is_ws gap"
begin

lemma gap_skip [simp]: "skip_ws (gap @ s) = skip_ws s"
  using blank by (simp add: skip_ws_def dropWhile_append list_all_iff)

lemma canonical_starts: "float_free v \<Longrightarrow> starts_value (json_text gap C v @ s)"
  using dec_head_digit digit_starts
  by (cases v) (auto simp: starts_value_def is_ws_def quote_str_def dec_int_def hd_append special_chars)

lemma reads_backD: "reads_back gap C v \<Longrightarrow> json_fuel v \<le> n \<Longrightarrow> follows rest \<Longrightarrow>
    read_value n C (json_text gap C v @ rest) = Some (sorted_json v, rest)"
  by (simp add: reads_back_def)

lemma read_elems_canonical:
  assumes "\<forall>x \<in> set xs. float_free x \<and> reads_back gap C x" and "xs \<noteq> []"
    and "sum_list (map Suc (map json_fuel xs)) \<le> n"
  shows "read_elems n C (join ('','' @ gap) (map (json_text gap C) xs) @ CHR '']'' # rest) = Some (map sorted_json xs, rest)"
  using assms
proof (induction xs arbitrary: n)
  case (Cons x xs)
  from Cons.prems(3) obtain m where n: "n = Suc m" "json_fuel x \<le> m" "sum_list (map Suc (map json_fuel xs)) \<le> m"
    by (cases n) auto
  have x: "reads_back gap C x" using Cons.prems(1) by simp
  show ?case
  proof (cases "xs = []")
    case True
    with reads_backD [OF x n(2), of "CHR '']'' # rest"] show ?thesis by (simp add: n(1))
  next
    case False
    then obtain y ys where xs: "xs = y # ys" by (cases xs) auto
    have IH: "read_elems m C (join ('','' @ gap) (map (json_text gap C) xs) @ CHR '']'' # rest) = Some (map sorted_json xs, rest)"
      by (rule Cons.IH) (use Cons.prems False n(3) in simp_all)
    have "starts_value (join ('','' @ gap) (map (json_text gap C) xs) @ CHR '']'' # rest)"
      using canonical_starts [of y C] Cons.prems(1) by (simp add: xs join_cons)
    with reads_backD [OF x n(2), of "CHR '','' # gap @ join ('','' @ gap) (map (json_text gap C) xs) @ CHR '']'' # rest"] IH False
    show ?thesis by (simp add: n(1) join_cons starts_skip)
  qed
qed simp

lemma read_members_canonical:
  assumes "\<forall>kv \<in> set kvs. float_free (snd kv) \<and> reads_back gap C (snd kv)" and "kvs \<noteq> []"
    and "sum_list (map (Suc \<circ> (json_fuel \<circ> snd)) kvs) \<le> n"
  shows "read_members n C (join ('','' @ gap) (map (gap_field gap) (map (map_prod id (json_text gap C)) kvs)) @ CHR ''}'' # rest) =
    Some (map (map_prod id sorted_json) kvs, rest)"
  using assms
proof (induction kvs arbitrary: n)
  case (Cons kv kvs)
  obtain k v where kv: "kv = (k, v)" by (cases kv)
  from Cons.prems(3) obtain m where n: "n = Suc m" "json_fuel v \<le> m" "sum_list (map (Suc \<circ> (json_fuel \<circ> snd)) kvs) \<le> m"
    by (cases n) (auto simp: kv o_def)
  have v: "float_free v" "reads_back gap C v" using Cons.prems(1) by (simp_all add: kv)
  let ?members = "\<lambda>xs. join ('','' @ gap) (map (gap_field gap) (map (map_prod id (json_text gap C)) xs)) @ CHR ''}'' # rest"
  let ?rest = "(if kvs = [] then [] else CHR '','' # gap @ join ('','' @ gap) (map (gap_field gap) (map (map_prod id (json_text gap C)) kvs))) @ CHR ''}'' # rest"
  have split: "?members (kv # kvs) = quote_str k @ CHR '':'' # gap @ json_text gap C v @ ?rest"
    by (simp add: join_cons gap_field_def kv)
  have follows: "follows ?rest" by simp
  have tail: "kvs \<noteq> [] \<Longrightarrow> read_members m C (skip_ws (?members kvs)) = Some (map (map_prod id sorted_json) kvs, rest)"
  proof -
    assume ne: "kvs \<noteq> []"
    then obtain k' v' ys where kvs: "kvs = (k', v') # ys" by (cases kvs) auto
    have "skip_ws (?members kvs) = ?members kvs"
      by (rule starts_skip) (simp add: kvs join_cons gap_field_def quote_str_def special_chars starts_value_def is_ws_def)
    moreover have "read_members m C (?members kvs) = Some (map (map_prod id sorted_json) kvs, rest)"
      by (rule Cons.IH) (use Cons.prems ne n(3) in \<open>simp_all add: o_def\<close>)
    ultimately show ?thesis by simp
  qed
  have "read_members n C (quote_str k @ CHR '':'' # gap @ json_text gap C v @ ?rest) =
      (case skip_ws ?rest of
         [] \<Rightarrow> None
       | d # r' \<Rightarrow>
          if d = CHR ''}'' then Some ([(k, sorted_json v)], r')
          else if d = CHR '',''
          then map_option (map_prod ((#) (k, sorted_json v)) id) (read_members m C (skip_ws r')) else None)"
    using quote_str_read [of k "CHR '':'' # gap @ json_text gap C v @ ?rest"] starts_skip [OF canonical_starts [OF v(1)], of C ?rest]
      reads_backD [OF v(2) n(2) follows]
    by (subst quote_starts) (simp add: n(1))
  then show ?case
    unfolding split using tail by (cases "kvs = []") (simp_all add: kv id_def)
qed simp

lemma reads_back_canonical: "float_free v \<Longrightarrow> reads_back gap C v"
proof (induction v)
  case (JInt i)
  obtain c s where c: "dec_int i = c # s" "is_digit c \<or> c = CHR ''-''"
  proof (cases "i < 0")
    case True
    then have "dec_int i = CHR ''-'' # dec (nat (- i))" by (simp add: dec_int_def)
    then show thesis by (rule that) simp
  next
    case False
    obtain c s where cs: "dec (nat i) = c # s" using dec_head_digit(2) [of "nat i"] by (cases "dec (nat i)") simp_all
    then have "is_digit c" using dec_head_digit(1) [of "nat i"] by simp
    moreover have "dec_int i = c # s" using False cs by (simp add: dec_int_def)
    ultimately show thesis by (blast intro: that)
  qed
  have "byte c \<noteq> 34 \<and> c \<noteq> CHR ''{'' \<and> c \<noteq> CHR ''['' \<and> c \<noteq> CHR ''n'' \<and> c \<noteq> CHR ''t'' \<and> c \<noteq> CHR ''f''"
    using c(2)
  proof
    assume "is_digit c"
    then show ?thesis using digit_starts [of c] by blast
  qed simp
  then have "read_value (Suc m) C (c # t) = read_number C (c # t)" for m t
    by simp
  then have "read_value (Suc m) C (dec_int i @ rest) = read_number C (dec_int i @ rest)" for m rest
    by (simp only: c(1) append_Cons)
  then show ?case
    unfolding reads_back_def using read_number_dec_int
    by (simp del: read_value.simps) (metis Suc_le_D)
next
  case (JStr s)
  show ?case
    unfolding reads_back_def
  proof (intro allI impI)
    fix n rest assume "json_fuel (JStr s) \<le> n"
    then obtain m where n: "n = Suc m" by (cases n) auto
    show "read_value n C (json_text gap C (JStr s) @ rest) = Some (sorted_json (JStr s), rest)"
      using quote_str_read [of s rest] by (simp add: n, subst quote_starts) simp
  qed
next
  case (JList xs)
  show ?case
    unfolding reads_back_def
  proof (intro allI impI)
    fix n rest assume fuel: "json_fuel (JList xs) \<le> n"
    then obtain m where n: "n = Suc m" by (cases n) auto
    show "read_value n C (json_text gap C (JList xs) @ rest) = Some (sorted_json (JList xs), rest)"
    proof (cases "xs = []")
      case False
      then obtain y ys where xs: "xs = y # ys" by (cases xs) auto
      have all: "\<forall>x \<in> set xs. float_free x \<and> reads_back gap C x" using JList by (auto simp: list_all_iff)
      let ?s = "join ('','' @ gap) (map (json_text gap C) xs) @ CHR '']'' # rest"
      have st: "starts_value ?s" using canonical_starts [of y C] all by (simp add: xs join_cons)
      have "read_elems m C ?s = Some (map sorted_json xs, rest)"
        by (rule read_elems_canonical [OF all False]) (use fuel n in simp)
      with starts_skip [OF st] st show ?thesis
        by (cases ?s) (simp_all add: n starts_value_def)
    qed (simp add: n)
  qed
next
  case (JObj kvs)
  let ?kvs = "sort_key fst kvs"
  show ?case
    unfolding reads_back_def
  proof (intro allI impI)
    fix n rest assume fuel: "json_fuel (JObj kvs) \<le> n"
    then obtain m where n: "n = Suc m" by (cases n) auto
    show "read_value n C (json_text gap C (JObj kvs) @ rest) = Some (sorted_json (JObj kvs), rest)"
    proof (cases "kvs = []")
      case False
      have all: "\<forall>kv \<in> set ?kvs. float_free (snd kv) \<and> reads_back gap C (snd kv)"
        using JObj by (auto simp: list_all_iff snds_snd)
      let ?s = "join ('','' @ gap) (map (gap_field gap) (map (map_prod id (json_text gap C)) ?kvs)) @ CHR ''}'' # rest"
      have ne: "?kvs \<noteq> []" using False by (metis length_0_conv length_sort)
      then obtain k v ys where kvs: "?kvs = (k, v) # ys" by (cases ?kvs) auto
      have s: "?s = CHR 0x22 # tl ?s"
        by (simp add: kvs join_cons gap_field_def quote_str_def special_chars)
      have sum: "sum_list (map (Suc \<circ> (json_fuel \<circ> snd)) ?kvs) = sum_list (map (Suc \<circ> (json_fuel \<circ> snd)) kvs)"
        by (metis mset_map mset_sort sum_mset_sum_list)
      have "read_members m C ?s = Some (map (map_prod id sorted_json) ?kvs, rest)"
        by (rule read_members_canonical [OF all ne]) (use fuel n sum in \<open>simp add: o_def\<close>)
      moreover have "distinct (map fst (map (map_prod id sorted_json) ?kvs))"
      proof -
        have "mset (map fst ?kvs) = mset (map fst kvs)" by simp
        moreover have "distinct (map fst kvs)" using JObj.prems by simp
        ultimately have "distinct (map fst ?kvs)" using mset_eq_imp_distinct_iff by blast
        then show ?thesis by simp
      qed
      moreover obtain t where t: "?s = CHR 0x22 # t" using s by blast
      moreover have "skip_ws (CHR 0x22 # t) = CHR 0x22 # t" by (simp add: skip_ws_def is_ws_def)
      moreover have "json_text gap C (JObj kvs) @ rest = CHR ''{'' # CHR 0x22 # t"
        using t by (simp add: sort_map_values)
      moreover have "sorted_json (JObj kvs) = JObj (map (map_prod id sorted_json) ?kvs)"
        by (simp add: sort_map_values)
      ultimately show ?thesis by (simp add: n del: json_text.simps sorted_json.simps)
    qed (simp add: n)
  qed
qed (auto simp: reads_back_def expect_def dest!: Suc_le_D)

subsection \<open>Canonical bytes are valid UTF-8 and long enough for the fuel\<close>

lemma utf8_gap: "utf8_valid gap"
  by (rule utf8_ascii) (use blank in \<open>auto simp: list_all_iff is_ws_def\<close>)

lemma utf8_canonical: "float_free v \<Longrightarrow> utf8_valid (json_text gap C v)"
proof (induction v)
  case (JList xs)
  then show ?case by (auto simp: list_all_iff utf8_gap intro!: utf8_append utf8_join)
next
  case (JObj kvs)
  have "utf8_valid (join ('','' @ gap) (map (gap_field gap) (map (map_prod id (json_text gap C)) (sort_key fst kvs))))"
    by (rule utf8_join) (use JObj in \<open>auto simp: list_all_iff snds_snd gap_field_def utf8_gap intro!: utf8_append utf8_quote\<close>)
  then show ?case by (simp add: sort_map_values utf8_append)
qed (simp_all add: utf8_quote dec_int_def utf8_dec)

lemma join_length: "xs \<noteq> [] \<Longrightarrow> sum_list (map (\<lambda>x. length x + 1) xs) \<le> length (join ('','' @ gap) xs) + 1"
proof (induction xs)
  case (Cons x xs)
  then show ?case by (cases xs) (simp_all add: join_cons)
qed simp

lemma json_fuel_length: "float_free v \<Longrightarrow> json_fuel v \<le> 2 * length (json_text gap C v)"
proof (induction v)
  case (JList xs)
  show ?case
  proof (cases "xs = []")
    case False
    have "sum_list (map Suc (map json_fuel xs)) \<le> sum_list (map (\<lambda>x. 2 * (length (json_text gap C x) + 1)) xs)"
      unfolding map_map by (rule sum_list_mono) (use JList in \<open>fastforce simp: list_all_iff\<close>)
    also have "\<dots> = 2 * sum_list (map (\<lambda>x. length x + 1) (map (json_text gap C) xs))"
      unfolding map_map o_def by (rule double_sum)
    also have "\<dots> \<le> 2 * (length (join ('','' @ gap) (map (json_text gap C) xs)) + 1)"
      using False join_length [of "map (json_text gap C) xs"] by simp
    finally show ?thesis by simp
  qed simp
next
  case (JObj kvs)
  let ?f = "gap_field gap \<circ> map_prod id (json_text gap C)"
  show ?case
  proof (cases "kvs = []")
    case False
    have "sum_list (map (Suc \<circ> snd) (map (map_prod id json_fuel) kvs)) \<le> sum_list (map (\<lambda>x. 2 * (length (?f x) + 1)) kvs)"
      unfolding map_map
    proof (rule sum_list_mono)
      fix x assume "x \<in> set kvs"
      with JObj have "json_fuel (snd x) \<le> 2 * length (json_text gap C (snd x))"
        by (auto simp: list_all_iff snds_snd)
      then show "((Suc \<circ> snd) \<circ> map_prod id json_fuel) x \<le> 2 * (length (?f x) + 1)"
        by (cases x) (simp add: gap_field_def)
    qed
    also have "\<dots> = sum_list (map (\<lambda>x. 2 * (length (?f x) + 1)) (sort_key fst kvs))"
      by (simp only: sum_list_sort)
    also have "\<dots> = 2 * sum_list (map (\<lambda>x. length x + 1) (map ?f (sort_key fst kvs)))"
      unfolding map_map o_def by (rule double_sum)
    also have "\<dots> \<le> 2 * (length (join ('','' @ gap) (map ?f (sort_key fst kvs))) + 1)"
    proof -
      have "map ?f (sort_key fst kvs) \<noteq> []" using False by (metis Nil_is_map_conv length_0_conv length_sort)
      then show ?thesis using join_length [of "map ?f (sort_key fst kvs)"] by simp
    qed
    finally show ?thesis by (simp add: sort_map_values)
  qed simp
qed (simp_all add: dec_int_def dec_nonempty quote_str_def Suc_le_eq)

lemma parse_text:
  assumes "float_free v"
  shows "parse_json_bytes C (json_text gap C v) = Some (sorted_json v)"
proof -
  have "skip_ws (json_text gap C v) = json_text gap C v"
    using starts_skip [OF canonical_starts [OF assms, of C "[]"]] by simp
  moreover have "json_fuel v \<le> Suc (2 * length (json_text gap C v))"
    using json_fuel_length [OF assms, of C] by simp
  then have "read_value (Suc (2 * length (json_text gap C v))) C (json_text gap C v @ []) = Some (sorted_json v, [])"
    by (rule reads_backD [OF reads_back_canonical [OF assms]]) simp
  ultimately show ?thesis
    using utf8_canonical [OF assms] by (simp add: parse_json_bytes_def del: read_value.simps)
qed

end

interpretation compact: json_layout "[]"
  by unfold_locales simp

interpretation spaced: json_layout "'' ''"
  by unfold_locales (simp add: is_ws_def)

lemma parse_canonical: "float_free v \<Longrightarrow> parse_json_bytes C (canonical_bytes C v) = Some (sorted_json v)"
  using compact.parse_text [of v C] by (simp add: json_text_canonical)

subsection \<open>Properties\<close>

lemma sort_key_twice: "sort_key f (sort_key f xs) = sort_key f xs"
  by (rule sort_key_id_if_sorted) simp

lemma canonical_sorted: "canonical_bytes C (sorted_json v) = canonical_bytes C v"
proof (induction v)
  case (JList xs)
  then have "map (canonical_bytes C) (map sorted_json xs) = map (canonical_bytes C) xs" by simp
  then show ?case by (simp only: canonical_bytes.simps sorted_json.simps)
next
  case (JObj kvs)
  have "map (map_prod id (canonical_bytes C)) (map (map_prod id sorted_json) (sort_key fst kvs)) =
      map (map_prod id (canonical_bytes C)) (sort_key fst kvs)"
    using JObj by (auto simp: snds_snd)
  then show ?case by (simp only: canonical_bytes.simps sorted_json.simps sort_map_values sort_key_twice)
qed simp_all

text \<open>C12. Canonical JSON reads back: for every value without floats, whose strings are valid UTF-8 and
  whose objects have no duplicate key, parsing its canonical bytes succeeds and gives the value with
  its keys sorted, whose canonical bytes are the same again.\<close>

theorem canonical_roundtrip:
  assumes "float_free v"
  shows "parse_json_bytes C (canonical_bytes C v) = Some (sorted_json v) \<and>
    canonical_bytes C (sorted_json v) = canonical_bytes C v"
  using parse_canonical [OF assms] canonical_sorted by simp

definition demo_json :: json where
  "demo_json = JObj [(''b'', JList [JInt (- 12), JNull, JStr [char_of (10 :: nat)]]), (''a'', JBool True)]"

text \<open>A hash that maps everything to one digest: every statement about collisions is put to the test.\<close>

definition constant_hash :: crypto where
  "constant_hash = \<lparr>sha256 = (\<lambda>s. zero_digest), hmac256 = (\<lambda>k m. zero_digest), repr_float = (\<lambda>r. ''0.0''),
     read_float = (\<lambda>s. None)\<rparr>"

lemma zero_hex: "is_sha256_digest zero_digest"
  by (simp add: is_sha256_digest_def zero_digest_def is_lower_hex_def list_all_iff)

lemma constant_hash_digests [simp]:
  "sha256 constant_hash s = zero_digest" "domain_digest constant_hash d v = zero_digest"
  by (simp_all add: constant_hash_def domain_digest_def)

theorem canonical_roundtrip_witness:
  "parse_json_bytes constant_hash (canonical_bytes constant_hash demo_json) =
     Some (JObj [(''a'', JBool True), (''b'', JList [JInt (- 12), JNull, JStr [char_of (10 :: nat)]])])"
proof -
  have "float_free demo_json" by (simp add: demo_json_def)
  from canonical_roundtrip [OF this, of constant_hash] show ?thesis by (simp add: demo_json_def)
qed

lemma canonical_injective:
  assumes "float_free u" and "float_free v" and "canonical_bytes C u = canonical_bytes C v"
  shows "sorted_json u = sorted_json v"
  using parse_canonical [OF assms(1), of C] parse_canonical [OF assms(2), of C] assms(3) by simp

text \<open>The bytes that are hashed.\<close>

definition digest_input :: "crypto \<Rightarrow> string \<Rightarrow> json \<Rightarrow> string" where
  "digest_input C d v = ''egoagentos:'' @ d @ '':v1'' @ [char_of (0 :: nat)] @ canonical_bytes C v"

lemma nul_not_in_domain: "valid_domain d \<Longrightarrow> char_of (0 :: nat) \<notin> set (d @ '':v1'')"
proof -
  have nul: "char_of (0 :: nat) = CHR 0x00" by (rule byte_eqI) simp
  show "valid_domain d \<Longrightarrow> ?thesis" by (auto simp: valid_domain_def nul)
qed

lemma split_at_nul:
  assumes "a @ z # x = b @ z # y" and "z \<notin> set a" and "z \<notin> set b"
  shows "a = b \<and> x = y"
  using assms by (induction a arbitrary: b) (case_tac b, auto)+

text \<open>C13. Digests bind domain and value: where \<open>canonical_sha256\<close> gives two float-free values (valid UTF-8,
  distinct keys) the same digest, both come from the same domain and the same value (up to the order of
  keys), or they exhibit two different byte strings with the same SHA-256.\<close>

theorem digest_binds_value:
  assumes "canonical_sha256 C d u = Some h" and "canonical_sha256 C d' v = Some h"
    and "float_free u" and "float_free v"
  shows "d = d' \<and> sorted_json u = sorted_json v \<or>
    digest_input C d u \<noteq> digest_input C d' v \<and> sha256 C (digest_input C d u) = sha256 C (digest_input C d' v)"
proof (cases "digest_input C d u = digest_input C d' v")
  case True
  have dom: "valid_domain d" "valid_domain d'"
    using assms(1,2) by (auto simp: canonical_sha256_def split: if_splits)
  have "(d @ '':v1'') @ char_of (0 :: nat) # canonical_bytes C u = (d' @ '':v1'') @ char_of (0 :: nat) # canonical_bytes C v"
    using True by (simp add: digest_input_def)
  then have "d @ '':v1'' = d' @ '':v1'' \<and> canonical_bytes C u = canonical_bytes C v"
    by (rule split_at_nul) (use dom nul_not_in_domain in blast)+
  with canonical_injective [OF assms(3,4), of C] show ?thesis by auto
next
  case False
  with assms(1,2) show ?thesis
    by (auto simp: canonical_sha256_def domain_digest_def digest_input_def split: if_splits)
qed

theorem digest_binds_value_witness:
  "digest_input constant_hash ''task'' (JInt 1) \<noteq> digest_input constant_hash ''task'' (JInt 2) \<and>
     sha256 constant_hash (digest_input constant_hash ''task'' (JInt 1)) =
       sha256 constant_hash (digest_input constant_hash ''task'' (JInt 2))"
proof -
  have "canonical_sha256 constant_hash ''task'' v = Some zero_digest" for v
    by (simp add: canonical_sha256_def valid_domain_def domain_digest_def constant_hash_def)
  from digest_binds_value [OF this this, of "JInt 1" "JInt 2"] show ?thesis by simp
qed

end
