(* ===== verification/Channel.thy ===== *)
theory Channel
  imports JsonParse
begin

text \<open>
  Authenticated channel framing and durable receipts,
  \<open>benchmarks/secure_memory/substrate/channel.py\<close>: the frame grammar, the checks on an envelope,
  the receipt store with its claims, heads and records, and \<open>ChannelCodec.receive\<close>.

  A store method runs under one lock, so it is one atomic step; \<open>claim\<close> may instead have to wait
  for a claim in progress, which is its outcome \<open>Wait\<close>. The route is the argument \<open>route\<close>: it may
  depend on every envelope routed before. What pydantic accepts for an \<open>int\<close> field (its lax mode)
  is the parameter \<open>as_int\<close>.
\<close>

subsection \<open>Data\<close>

datatype channel_kind = MODEL | CANDIDATE | AGENTTEAMS_CONTROL | WORKSPACE_EFFECT | CONTROL_RESULT | EVALUATOR

fun channel_value :: "channel_kind \<Rightarrow> string" where
  "channel_value MODEL = ''model''"
| "channel_value CANDIDATE = ''candidate''"
| "channel_value AGENTTEAMS_CONTROL = ''agentteams-control''"
| "channel_value WORKSPACE_EFFECT = ''workspace-effect''"
| "channel_value CONTROL_RESULT = ''control-result''"
| "channel_value EVALUATOR = ''evaluator''"

definition channel_kinds :: "channel_kind list" where
  "channel_kinds = [MODEL, CANDIDATE, AGENTTEAMS_CONTROL, WORKSPACE_EFFECT, CONTROL_RESULT, EVALUATOR]"

definition roles :: "string list" where
  "roles = [''agentteams'', ''workspace'', ''control'', ''evaluator'', ''broker'', ''controller'']"

definition directions :: "string list" where
  "directions = [''request'', ''response'', ''receipt'']"

definition configuration_ids :: "string list" where
  "configuration_ids = [''A'', ''B'', ''C'', ''D'', ''E'', ''F'']"

record channel_envelope =
  ce_channel :: channel_kind
  ce_configuration_id :: string
  ce_sender :: string
  ce_recipient :: string
  ce_direction :: string
  ce_key_id :: string
  ce_nonce :: string
  ce_epoch :: int
  ce_sequence :: int
  ce_method :: string
  ce_idempotency_key :: string
  ce_payload_sha256 :: string
  ce_payload :: "(string \<times> json) list"

record channel_key =
  ck_nonce :: string
  ck_channel :: channel_kind
  ck_configuration_id :: string
  ck_sender :: string
  ck_recipient :: string
  ck_direction :: string
  ck_epoch :: int
  ck_key_id :: string
  ck_secret :: string

type_synonym window = "channel_kind \<times> string \<times> string \<times> string \<times> string \<times> string \<times> int"
type_synonym identity = "window \<times> int"

record installed_receipt =
  ir_request_sha :: string
  ir_id :: string
  ir_frame :: string
  ir_identity :: identity

record receipt_store =
  rs_records :: "identity \<rightharpoonup> installed_receipt"
  rs_heads :: "window \<rightharpoonup> int \<times> string \<times> installed_receipt"
  rs_claims :: "identity \<rightharpoonup> string"

datatype channel_error = ChannelRejected string | ChannelValueError | RouteError string

text \<open>What a route returns: a \<open>PendingReceipt\<close> with a mapping, another object, or an exception.\<close>

datatype route_result = Pending "(string \<times> json) list" | NotPending | RouteRaises string

record channel_codec =
  cc_crypto :: crypto
  cc_as_int :: "json \<Rightarrow> int option"
  cc_material :: channel_key
  cc_methods :: "(channel_kind \<times> string list) list"

record channel_state =
  ch_store :: receipt_store
  ch_routed :: "channel_envelope list"

definition max_frame_bytes :: nat where
  "max_frame_bytes = 1024 * 1024"

definition empty_store :: receipt_store where
  "empty_store = \<lparr>rs_records = Map.empty, rs_heads = Map.empty, rs_claims = Map.empty\<rparr>"

subsection \<open>Key provisioning\<close>

text \<open>\<open>hmac256\<close> gives the digest bytes as they are used for the secret.\<close>

definition key_context :: "string \<Rightarrow> channel_kind \<Rightarrow> string \<Rightarrow> string \<Rightarrow> string \<Rightarrow> string \<Rightarrow> int \<Rightarrow> json" where
  "key_context nonce channel cfg sender recipient direction epoch = JObj
     [(''campaign_nonce'', JStr nonce), (''channel'', JStr (channel_value channel)),
      (''configuration_id'', JStr cfg), (''sender_role'', JStr sender), (''recipient_role'', JStr recipient),
      (''direction'', JStr direction), (''epoch'', JInt epoch)]"

definition provision ::
  "crypto \<Rightarrow> string \<Rightarrow> string \<Rightarrow> channel_kind \<Rightarrow> string \<Rightarrow> string \<Rightarrow> string \<Rightarrow> string \<Rightarrow> int \<Rightarrow> channel_key option" where
  "provision C seed nonce channel cfg sender recipient direction epoch =
    (if cfg \<notin> set configuration_ids then None
     else (let secret = hmac256 C seed (''secure-memory-key/v3'' @ [char_of (0 :: nat)] @
                          canonical_bytes C (key_context nonce channel cfg sender recipient direction epoch));
               key_id = sha256 C (''secure-memory-key-id/v3'' @ [char_of (0 :: nat)] @ secret)
           in Some \<lparr>ck_nonce = nonce, ck_channel = channel, ck_configuration_id = cfg, ck_sender = sender,
                ck_recipient = recipient, ck_direction = direction, ck_epoch = epoch, ck_key_id = key_id,
                ck_secret = secret\<rparr>))"

subsection \<open>Frames\<close>

text \<open>\<open>env.model_dump(mode="json")\<close>.\<close>

definition envelope_json :: "channel_envelope \<Rightarrow> (string \<times> json) list" where
  "envelope_json e =
     [(''schema_version'', JStr ''secure-memory-channel/v2''), (''channel'', JStr (channel_value (ce_channel e))),
      (''configuration_id'', JStr (ce_configuration_id e)), (''sender_role'', JStr (ce_sender e)),
      (''recipient_role'', JStr (ce_recipient e)), (''direction'', JStr (ce_direction e)),
      (''key_id'', JStr (ce_key_id e)), (''campaign_nonce'', JStr (ce_nonce e)), (''epoch'', JInt (ce_epoch e)),
      (''sequence'', JInt (ce_sequence e)), (''method'', JStr (ce_method e)),
      (''idempotency_key'', JStr (ce_idempotency_key e)), (''payload_sha256'', JStr (ce_payload_sha256 e)),
      (''payload'', JObj (ce_payload e))]"

definition payload_digest :: "crypto \<Rightarrow> (string \<times> json) list \<Rightarrow> string" where
  "payload_digest C payload = domain_digest C ''channel-payload'' (JObj payload)"

text \<open>The MAC covers the whole envelope but the payload digest.\<close>

definition envelope_mac :: "channel_codec \<Rightarrow> channel_envelope \<Rightarrow> string" where
  "envelope_mac K e = hmac256 (cc_crypto K) (ck_secret (cc_material K))
     (canonical_bytes (cc_crypto K) (JObj (filter (\<lambda>kv. fst kv \<noteq> ''payload_sha256'') (envelope_json e))))"

text \<open>The field constraints of \<open>ChannelEnvelope\<close>.\<close>

definition envelope_valid :: "channel_envelope \<Rightarrow> bool" where
  "envelope_valid e \<longleftrightarrow>
     ce_configuration_id e \<in> set configuration_ids \<and> ce_sender e \<in> set roles \<and> ce_recipient e \<in> set roles \<and>
     ce_direction e \<in> set directions \<and> ce_key_id e \<noteq> [] \<and> ce_nonce e \<noteq> [] \<and> 1 \<le> ce_epoch e \<and>
     1 \<le> ce_sequence e \<and> ce_method e \<noteq> [] \<and> ce_idempotency_key e \<noteq> [] \<and> is_sha256_digest (ce_payload_sha256 e)"

definition frame_of :: "channel_codec \<Rightarrow> channel_envelope \<Rightarrow> string" where
  "frame_of K e =
    (let C = cc_crypto K; body = JObj (envelope_json e) in
     canonical_bytes C (JObj
       [(''declared_length'', JInt (int (length (canonical_bytes C body)))), (''envelope'', body),
        (''mac'', JStr (envelope_mac K e))]))"

text \<open>\<open>ChannelCodec.encode\<close>; \<open>None\<close> is the validation error of the envelope.\<close>

definition encode ::
  "channel_codec \<Rightarrow> channel_kind \<Rightarrow> string \<Rightarrow> string \<Rightarrow> string \<Rightarrow> string option \<Rightarrow> int option \<Rightarrow> int \<Rightarrow> string
     \<Rightarrow> string \<Rightarrow> (string \<times> json) list \<Rightarrow> string option" where
  "encode K channel sender recipient direction key_id epoch sequence mth idem payload =
    (let m = cc_material K;
         e = \<lparr>ce_channel = channel, ce_configuration_id = ck_configuration_id m, ce_sender = sender,
              ce_recipient = recipient, ce_direction = direction,
              ce_key_id = (case key_id of Some k \<Rightarrow> if k = [] then ck_key_id m else k | None \<Rightarrow> ck_key_id m),
              ce_nonce = ck_nonce m,
              ce_epoch = (case epoch of Some n \<Rightarrow> if n = 0 then ck_epoch m else n | None \<Rightarrow> ck_epoch m),
              ce_sequence = sequence, ce_method = mth, ce_idempotency_key = idem,
              ce_payload_sha256 = payload_digest (cc_crypto K) payload, ce_payload = payload\<rparr>
     in if envelope_valid e then Some (frame_of K e) else None)"

definition json_str :: "json option \<Rightarrow> string option" where
  "json_str v = (case v of Some (JStr s) \<Rightarrow> Some s | _ \<Rightarrow> None)"

definition envelope_keys :: "string list" where
  "envelope_keys = [''schema_version'', ''channel'', ''configuration_id'', ''sender_role'', ''recipient_role'',
     ''direction'', ''key_id'', ''campaign_nonce'', ''epoch'', ''sequence'', ''method'', ''idempotency_key'',
     ''payload_sha256'', ''payload'']"

text \<open>\<open>ChannelEnvelope.model_validate\<close> of a JSON object.\<close>

definition read_envelope :: "(json \<Rightarrow> int option) \<Rightarrow> (string \<times> json) list \<Rightarrow> channel_envelope option" where
  "read_envelope as_int d =
    (if set (keys d) \<noteq> set envelope_keys \<or> json_str (dict_get d ''schema_version'') \<noteq> Some ''secure-memory-channel/v2''
     then None
     else
      (case (find (\<lambda>k. json_str (dict_get d ''channel'') = Some (channel_value k)) channel_kinds,
             json_str (dict_get d ''configuration_id''), json_str (dict_get d ''sender_role''),
             json_str (dict_get d ''recipient_role''), json_str (dict_get d ''direction''),
             json_str (dict_get d ''key_id''), json_str (dict_get d ''campaign_nonce'')) of
        (Some channel, Some cfg, Some sender, Some recipient, Some direction, Some key_id, Some nonce) \<Rightarrow>
         (case (Option.bind (dict_get d ''epoch'') as_int, Option.bind (dict_get d ''sequence'') as_int,
                json_str (dict_get d ''method''), json_str (dict_get d ''idempotency_key''),
                json_str (dict_get d ''payload_sha256''), dict_get d ''payload'') of
           (Some epoch, Some sequence, Some mth, Some idem, Some sha, Some (JObj payload)) \<Rightarrow>
             (let e = \<lparr>ce_channel = channel, ce_configuration_id = cfg, ce_sender = sender,
                       ce_recipient = recipient, ce_direction = direction, ce_key_id = key_id,
                       ce_nonce = nonce, ce_epoch = epoch, ce_sequence = sequence, ce_method = mth,
                       ce_idempotency_key = idem, ce_payload_sha256 = sha, ce_payload = payload\<rparr>
              in if envelope_valid e then Some e else None)
         | _ \<Rightarrow> None)
      | _ \<Rightarrow> None))"

text \<open>Python's \<open>==\<close> between a JSON value and an integer.\<close>

definition json_is_int :: "json option \<Rightarrow> int \<Rightarrow> bool" where
  "json_is_int v n = (case v of
      Some (JInt i) \<Rightarrow> i = n
    | Some (JFloat q) \<Rightarrow> q = of_int n
    | Some (JBool b) \<Rightarrow> of_bool b = n
    | _ \<Rightarrow> False)"

definition decode :: "channel_codec \<Rightarrow> string \<Rightarrow> channel_error + channel_envelope \<times> string" where
  "decode K frame =
    (let C = cc_crypto K in
     if length frame > max_frame_bytes then Inl (ChannelRejected ''frame_too_large'')
     else case parse_json_bytes C frame of
       None \<Rightarrow> Inl (ChannelRejected ''invalid_frame'')
     | Some doc \<Rightarrow>
        if canonical_bytes C doc \<noteq> frame then Inl (ChannelRejected ''noncanonical_frame'')
        else (case doc of
          JObj d \<Rightarrow>
            if set (keys d) \<noteq> {''declared_length'', ''envelope'', ''mac''}
            then Inl (ChannelRejected ''invalid_frame'')
            else (case dict_get d ''envelope'' of
               Some (JObj raw) \<Rightarrow>
                 if \<not> json_is_int (dict_get d ''declared_length'') (int (length (canonical_bytes C (JObj raw))))
                 then Inl (ChannelRejected ''declared_length_mismatch'')
                 else (case (json_str (dict_get d ''mac''), read_envelope (cc_as_int K) raw) of
                    (Some mac, Some e) \<Rightarrow>
                      if is_sha256_digest mac then Inr (e, mac) else Inl (ChannelRejected ''invalid_envelope'')
                  | _ \<Rightarrow> Inl (ChannelRejected ''invalid_envelope''))
             | _ \<Rightarrow> Inl (ChannelRejected ''declared_length_mismatch''))
        | _ \<Rightarrow> Inl (ChannelRejected ''invalid_frame'')))"

definition verify_guards :: "channel_codec \<Rightarrow> channel_envelope \<Rightarrow> (bool \<times> channel_error) list" where
  "verify_guards K e =
    (let m = cc_material K in
     [(ce_channel e \<noteq> ck_channel m \<or> ce_configuration_id e \<noteq> ck_configuration_id m,
         ChannelRejected ''configuration_mismatch''),
      (ce_epoch e \<noteq> ck_epoch m, ChannelRejected ''epoch_mismatch''),
      ((ce_sender e, ce_recipient e, ce_direction e, ce_key_id e) \<noteq>
         (ck_sender m, ck_recipient m, ck_direction m, ck_key_id m), ChannelRejected ''identity_mismatch''),
      (ce_nonce e \<noteq> ck_nonce m, ChannelRejected ''campaign_nonce_mismatch''),
      (ce_method e \<notin> set (case dict_get (cc_methods K) (ce_channel e) of None \<Rightarrow> [] | Some ms \<Rightarrow> ms),
         ChannelRejected ''unknown_method''),
      (ce_payload_sha256 e \<noteq> payload_digest (cc_crypto K) (ce_payload e),
         ChannelRejected ''payload_digest_mismatch'')])"

definition window_of :: "channel_envelope \<Rightarrow> window" where
  "window_of e = (ce_channel e, ce_configuration_id e, ce_sender e, ce_recipient e, ce_direction e,
     ce_key_id e, ce_epoch e)"

definition frame_digest :: "crypto \<Rightarrow> string \<Rightarrow> string" where
  "frame_digest C frame = sha256 C (''channel-frame/v3'' @ [char_of (0 :: nat)] @ frame)"

subsection \<open>The receipt store\<close>

definition identity_json :: "identity \<Rightarrow> json" where
  "identity_json i =
    (case i of ((channel, cfg, sender, recipient, direction, key_id, epoch), sequence) \<Rightarrow>
       JList [JStr (channel_value channel), JStr cfg, JStr sender, JStr recipient, JStr direction, JStr key_id,
              JInt epoch, JInt sequence])"

definition receipt_id :: "crypto \<Rightarrow> identity \<Rightarrow> string \<Rightarrow> string" where
  "receipt_id C i digest =
     sha256 C (''receipt/v1'' @ [char_of (0 :: nat)] @ canonical_bytes C (identity_json i) @ digest)"

definition valid_record :: "crypto \<Rightarrow> installed_receipt \<Rightarrow> identity \<Rightarrow> bool" where
  "valid_record C r i \<longleftrightarrow>
     ir_identity r = i \<and> ir_request_sha r \<noteq> [] \<and> ir_id r = receipt_id C i (ir_request_sha r) \<and>
     ir_frame r \<noteq> [] \<and>
     (case parse_json_bytes C (ir_frame r) of
        Some (JObj d) \<Rightarrow> d \<noteq> [] \<and> canonical_bytes C (JObj d) = ir_frame r
      | _ \<Rightarrow> False)"

datatype claim_result = Owner | Replay installed_receipt | Conflict | Inconsistent | Mismatch | Wait

text \<open>
  \<open>claim\<close>: one pass of its \<open>while\<close> loop. \<open>Wait\<close> means that the same bytes are being routed by
  another caller; the source then sleeps on the condition variable and starts again.
\<close>

definition claim :: "crypto \<Rightarrow> window \<Rightarrow> int \<Rightarrow> string \<Rightarrow> receipt_store \<Rightarrow> claim_result \<times> receipt_store" where
  "claim C w n digest S =
    (case rs_claims S (w, n) of
       Some d \<Rightarrow> (if d \<noteq> digest then Conflict else Wait, S)
     | None \<Rightarrow>
        (case rs_heads S w of
           Some (reached, _, _) \<Rightarrow>
             if n \<le> reached then
               (case rs_records S (w, n) of
                  None \<Rightarrow> (Inconsistent, S)
                | Some r \<Rightarrow>
                    if \<not> valid_record C r (w, n) then (Inconsistent, S)
                    else (if ir_request_sha r = digest then Replay r else Conflict, S))
             else if n \<noteq> reached + 1 then (Mismatch, S)
             else (Owner, S\<lparr>rs_claims := (rs_claims S)((w, n) \<mapsto> digest)\<rparr>)
         | None \<Rightarrow>
             if n \<noteq> 1 then (Mismatch, S)
             else (Owner, S\<lparr>rs_claims := (rs_claims S)((w, n) \<mapsto> digest)\<rparr>)))"

definition abort :: "window \<Rightarrow> int \<Rightarrow> string \<Rightarrow> receipt_store \<Rightarrow> receipt_store" where
  "abort w n digest S =
    (if rs_claims S (w, n) = Some digest then S\<lparr>rs_claims := (rs_claims S)((w, n) := None)\<rparr> else S)"

definition install_or_get ::
  "crypto \<Rightarrow> identity \<Rightarrow> string \<Rightarrow> route_result \<Rightarrow> receipt_store \<Rightarrow> (channel_error + installed_receipt) \<times> receipt_store" where
  "install_or_get C i digest result S =
    (case result of
       Pending payload \<Rightarrow>
         if payload = [] then (Inl (ChannelRejected ''invalid_pending_receipt''), S)
         else (let frame = canonical_bytes C (JObj payload) in
           case parse_json_bytes C frame of
             None \<Rightarrow> (Inl ChannelValueError, S)
           | Some (JObj _) \<Rightarrow>
              (case rs_records S i of
                 Some current \<Rightarrow>
                   if \<not> valid_record C current i \<or> ir_request_sha current \<noteq> digest
                   then (Inl (ChannelRejected ''receipt_store_mismatch''), S) else (Inr current, S)
               | None \<Rightarrow>
                   (let r = \<lparr>ir_request_sha = digest, ir_id = receipt_id C i digest, ir_frame = frame,
                             ir_identity = i\<rparr>
                    in if \<not> valid_record C r i \<or> ir_request_sha r \<noteq> digest
                       then (Inl (ChannelRejected ''invalid_durable_receipt''), S)
                       else (Inr r, S\<lparr>rs_records := (rs_records S)(i \<mapsto> r)\<rparr>)))
           | Some _ \<Rightarrow> (Inl (ChannelRejected ''invalid_pending_receipt''), S))
     | _ \<Rightarrow> (Inl (ChannelRejected ''invalid_pending_receipt''), S))"

definition commit ::
  "window \<Rightarrow> int \<Rightarrow> string \<Rightarrow> installed_receipt \<Rightarrow> receipt_store \<Rightarrow> (channel_error + unit) \<times> receipt_store" where
  "commit w n digest r S =
    (if rs_claims S (w, n) \<noteq> Some digest then (Inl (ChannelRejected ''sequence_commit_conflict''), S)
     else (Inr (), S\<lparr>rs_heads := (rs_heads S)(w \<mapsto> (n, digest, r)),
                     rs_claims := (rs_claims S)((w, n) := None)\<rparr>))"

definition lookup :: "identity \<Rightarrow> string \<Rightarrow> receipt_store \<Rightarrow> installed_receipt option" where
  "lookup i digest S =
    (case rs_records S i of Some r \<Rightarrow> if ir_request_sha r = digest then Some r else None | None \<Rightarrow> None)"

subsection \<open>Receiving a frame\<close>

text \<open>Decoding, the envelope checks and the MAC, before the store is touched.\<close>

definition admit :: "channel_codec \<Rightarrow> string \<Rightarrow> channel_error + channel_envelope" where
  "admit K frame =
    (case decode K frame of
       Inl e \<Rightarrow> Inl e
     | Inr (e, mac) \<Rightarrow>
        (case first_error (verify_guards K e) of
           Some err \<Rightarrow> Inl err
         | None \<Rightarrow> if mac \<noteq> envelope_mac K e then Inl (ChannelRejected ''invalid_mac'') else Inr e))"

text \<open>
  The owner's part: route, install, and check the installed record again. \<open>route\<close> sees every
  envelope routed before.
\<close>

definition route_and_install ::
  "channel_codec \<Rightarrow> (channel_envelope list \<Rightarrow> channel_envelope \<Rightarrow> route_result) \<Rightarrow> channel_envelope \<Rightarrow> string
     \<Rightarrow> (channel_state, channel_error, installed_receipt) prog" where
  "route_and_install K route e digest =
    (let C = cc_crypto K; i = (window_of e, ce_sequence e) in
     bindE (getsE ch_routed) (\<lambda>log.
     thenE (modifyE (\<lambda>s. s\<lparr>ch_routed := log @ [e]\<rparr>))
     (case route log e of
        RouteRaises x \<Rightarrow> raiseE (RouteError x)
      | result \<Rightarrow>
         bindE (\<lambda>s. let (r, S) = install_or_get C i digest result (ch_store s) in (r, s\<lparr>ch_store := S\<rparr>)) (\<lambda>r.
         if \<not> valid_record C r i \<or> ir_request_sha r \<noteq> digest
         then raiseE (ChannelRejected ''invalid_durable_receipt'') else returnE r))))"

definition own_frame ::
  "channel_codec \<Rightarrow> (channel_envelope list \<Rightarrow> channel_envelope \<Rightarrow> route_result) \<Rightarrow> channel_envelope \<Rightarrow> string
     \<Rightarrow> (channel_state, channel_error, string) prog" where
  "own_frame K route e digest =
    (let w = window_of e; n = ce_sequence e in
     bindE (catchE (route_and_install K route e digest)
       (\<lambda>x. thenE (modifyE (\<lambda>s. s\<lparr>ch_store := abort w n digest (ch_store s)\<rparr>)) (raiseE x))) (\<lambda>r.
     thenE (\<lambda>s. let (res, S) = commit w n digest r (ch_store s) in (res, s\<lparr>ch_store := S\<rparr>))
       (returnE (ir_frame r))))"

text \<open>\<open>receive\<close> for one caller at a time; a claim it would have to wait for does not exist then.\<close>

definition receive ::
  "channel_codec \<Rightarrow> (channel_envelope list \<Rightarrow> channel_envelope \<Rightarrow> route_result) \<Rightarrow> string
     \<Rightarrow> (channel_state, channel_error, string) prog" where
  "receive K route frame =
    bindE (liftE (admit K frame)) (\<lambda>e.
     let digest = frame_digest (cc_crypto K) frame in
     bindE (\<lambda>s. let (res, S) = claim (cc_crypto K) (window_of e) (ce_sequence e) digest (ch_store s)
                 in (Inr res, s\<lparr>ch_store := S\<rparr>)) (\<lambda>res. case res of
        Replay r \<Rightarrow> returnE (ir_frame r)
      | Conflict \<Rightarrow> raiseE (ChannelRejected ''sequence_reuse_with_different_bytes'')
      | Inconsistent \<Rightarrow> raiseE (ChannelRejected ''historical_receipt_inconsistent'')
      | Mismatch \<Rightarrow> raiseE (ChannelRejected ''sequence_mismatch'')
      | Wait \<Rightarrow> raiseE (ChannelRejected ''waiting'')
      | Owner \<Rightarrow> own_frame K route e digest))"

subsection \<open>Concurrent receivers\<close>

text \<open>
  Where each caller of \<open>receive\<close> stands: waiting on the condition variable, about to route, holding
  an installed receipt it has still to commit, or finished.
\<close>

datatype receiver =
    Waiting channel_envelope string
  | Routing channel_envelope string
  | Installed channel_envelope string installed_receipt
  | Finished "channel_error + string"

record channel_world =
  cw_state :: channel_state
  cw_receivers :: "nat \<rightharpoonup> receiver"

definition after_claim :: "channel_envelope \<Rightarrow> string \<Rightarrow> claim_result \<Rightarrow> receiver" where
  "after_claim e digest res = (case res of
      Owner \<Rightarrow> Routing e digest
    | Wait \<Rightarrow> Waiting e digest
    | Replay r \<Rightarrow> Finished (Inr (ir_frame r))
    | Conflict \<Rightarrow> Finished (Inl (ChannelRejected ''sequence_reuse_with_different_bytes''))
    | Inconsistent \<Rightarrow> Finished (Inl (ChannelRejected ''historical_receipt_inconsistent''))
    | Mismatch \<Rightarrow> Finished (Inl (ChannelRejected ''sequence_mismatch'')))"

definition claim_world :: "channel_codec \<Rightarrow> nat \<Rightarrow> channel_envelope \<Rightarrow> string \<Rightarrow> channel_world \<Rightarrow> channel_world" where
  "claim_world K t e digest W =
    (let (res, S) = claim (cc_crypto K) (window_of e) (ce_sequence e) digest (ch_store (cw_state W)) in
     \<lparr>cw_state = (cw_state W)\<lparr>ch_store := S\<rparr>,
      cw_receivers = (cw_receivers W)(t \<mapsto> after_claim e digest res)\<rparr>)"

text \<open>
  One step of one caller: arrive with a frame, wake up and claim again, route and install (or abort
  on an exception), commit. The route's answer is free in every step.
\<close>

inductive channel_step :: "channel_codec \<Rightarrow> channel_world \<Rightarrow> channel_world \<Rightarrow> bool" for K where
  step_refused: "admit K frame = Inl x \<Longrightarrow> t \<notin> dom (cw_receivers W) \<Longrightarrow>
     channel_step K W (W\<lparr>cw_receivers := (cw_receivers W)(t \<mapsto> Finished (Inl x))\<rparr>)"
| step_arrive: "admit K frame = Inr e \<Longrightarrow> t \<notin> dom (cw_receivers W) \<Longrightarrow>
     channel_step K W (claim_world K t e (frame_digest (cc_crypto K) frame) W)"
| step_wake: "cw_receivers W t = Some (Waiting e digest) \<Longrightarrow> channel_step K W (claim_world K t e digest W)"
| step_installed: "cw_receivers W t = Some (Routing e digest) \<Longrightarrow>
     route_and_install K route e digest (cw_state W) = (Inr r, s) \<Longrightarrow>
     channel_step K W \<lparr>cw_state = s, cw_receivers = (cw_receivers W)(t \<mapsto> Installed e digest r)\<rparr>"
| step_aborted: "cw_receivers W t = Some (Routing e digest) \<Longrightarrow>
     route_and_install K route e digest (cw_state W) = (Inl x, s) \<Longrightarrow>
     channel_step K W \<lparr>cw_state = s\<lparr>ch_store := abort (window_of e) (ce_sequence e) digest (ch_store s)\<rparr>,
       cw_receivers = (cw_receivers W)(t \<mapsto> Finished (Inl x))\<rparr>"
| step_commit: "cw_receivers W t = Some (Installed e digest r) \<Longrightarrow>
     commit (window_of e) (ce_sequence e) digest r (ch_store (cw_state W)) = (res, S) \<Longrightarrow>
     channel_step K W \<lparr>cw_state = (cw_state W)\<lparr>ch_store := S\<rparr>,
       cw_receivers = (cw_receivers W)(t \<mapsto> Finished (map_sum id (\<lambda>_. ir_frame r) res))\<rparr>"

definition empty_world :: channel_world where
  "empty_world = \<lparr>cw_state = \<lparr>ch_store = empty_store, ch_routed = []\<rparr>, cw_receivers = Map.empty\<rparr>"

end
