(* ===== verification/ChannelSpec.thy ===== *)
theory ChannelSpec
  imports Channel JsonRoundtrip
begin

text \<open>
  What the channel promises: receipts are numbered without gaps, written once and never changed;
  at most one caller routes a given sequence number at a time and none after its receipt is
  installed; a repeated frame gets the recorded receipt back.
\<close>

declare split_paired_Ex [simp del] split_paired_All [simp del]

subsection \<open>The store's invariant\<close>

definition reached :: "receipt_store \<Rightarrow> window \<Rightarrow> int" where
  "reached S w = (case rs_heads S w of None \<Rightarrow> 0 | Some (n, _, _) \<Rightarrow> n)"

definition store_inv :: "crypto \<Rightarrow> receipt_store \<Rightarrow> bool" where
  "store_inv C S \<longleftrightarrow>
     (\<forall>w. 0 \<le> reached S w) \<and> (\<forall>w. rs_heads S w \<noteq> None \<longrightarrow> 1 \<le> reached S w) \<and>
     (\<forall>w n. 1 \<le> n \<and> n \<le> reached S w \<longrightarrow> rs_records S (w, n) \<noteq> None) \<and>
     (\<forall>w n r. rs_records S (w, n) = Some r \<longrightarrow> valid_record C r (w, n) \<and> 1 \<le> n \<and>
        (n \<le> reached S w \<or> n = reached S w + 1 \<and> rs_claims S (w, n) = Some (ir_request_sha r))) \<and>
     (\<forall>w n d. rs_claims S (w, n) = Some d \<longrightarrow> n = reached S w + 1)"

lemma store_invD:
  assumes "store_inv C S"
  shows "0 \<le> reached S w"
    and "1 \<le> n \<Longrightarrow> n \<le> reached S w \<Longrightarrow> \<exists>r. rs_records S (w, n) = Some r"
    and "rs_records S (w, n) = Some r \<Longrightarrow> valid_record C r (w, n)"
    and "rs_records S (w, n) = Some r \<Longrightarrow> 1 \<le> n"
    and "rs_records S (w, n) = Some r \<Longrightarrow> n \<le> reached S w \<or>
           n = reached S w + 1 \<and> rs_claims S (w, n) = Some (ir_request_sha r)"
    and "rs_claims S (w, n) = Some d \<Longrightarrow> n = reached S w + 1"
    and "rs_heads S w \<noteq> None \<Longrightarrow> 1 \<le> reached S w"
  using assms unfolding store_inv_def by blast+

lemma reached_simps [simp]:
  "reached (S\<lparr>rs_claims := c\<rparr>) w = reached S w" "reached (S\<lparr>rs_records := d\<rparr>) w = reached S w"
  "reached (S\<lparr>rs_heads := (rs_heads S)(v \<mapsto> (n, x, r))\<rparr>) w = (if w = v then n else reached S w)"
  by (simp_all add: reached_def)

lemma empty_store_inv: "store_inv C empty_store"
  by (simp add: store_inv_def empty_store_def reached_def)

lemma claim_cases:
  assumes "store_inv C S" and "claim C w n digest S = (res, S')"
  obtains
    (own) "res = Owner" "rs_claims S (w, n) = None" "rs_records S (w, n) = None" "n = reached S w + 1"
      "S' = S\<lparr>rs_claims := (rs_claims S)((w, n) \<mapsto> digest)\<rparr>"
  | (replay) r where "res = Replay r" "S' = S" "rs_records S (w, n) = Some r" "ir_request_sha r = digest" "n \<le> reached S w"
  | (conflict) "res = Conflict" "S' = S"
  | (mismatch) "res = Mismatch" "S' = S" "n \<notin> {1..reached S w}"
  | (low) "res = Inconsistent" "S' = S" "n < 1"
  | (wait) "res = Wait" "S' = S" "rs_claims S (w, n) = Some digest"
proof -
  have fresh: "rs_records S (w, reached S w + 1) = None" if "rs_claims S (w, reached S w + 1) = None"
    using store_invD(5) [OF assms(1), of w "reached S w + 1"] that
    by (cases "rs_records S (w, reached S w + 1)") auto
  show thesis
  proof (cases "rs_claims S (w, n)")
    case (Some d)
    with assms(2) show thesis by (auto simp: claim_def split: if_splits intro: conflict wait)
  next
    case None
    show thesis
    proof (cases "rs_heads S w")
      case h: None
      with None assms(2) fresh show thesis
        by (cases "n = 1") (auto simp: claim_def reached_def intro: own mismatch)
    next
      case h: (Some x)
      obtain m d q where x: "x = (m, d, q)" by (cases x)
      have m: "m = reached S w" using h x by (simp add: reached_def)
      show thesis
      proof (cases "n \<le> m")
        case True
        show thesis
        proof (cases "1 \<le> n")
          case pos: True
          then obtain r where r: "rs_records S (w, n) = Some r"
            using store_invD(2) [OF assms(1)] True m by blast
          with store_invD(3) [OF assms(1)] have "valid_record C r (w, n)" by blast
          with r True None h x m assms(2) show thesis
            by (auto simp: claim_def split: if_splits intro: replay conflict)
        next
          case neg: False
          then have "rs_records S (w, n) = None"
            using store_invD(4) [OF assms(1), of w n] by (cases "rs_records S (w, n)") auto
          with True neg None h x m assms(2) show thesis
            by (auto simp: claim_def intro: low)
        qed
      next
        case False
        with None h x m assms(2) fresh show thesis
          by (cases "n = m + 1") (auto simp: claim_def intro: own mismatch)
      qed
    qed
  qed
qed

lemma claim_inv:
  assumes "store_inv C S" and "claim C w n digest S = (res, S')"
  shows "store_inv C S'"
  using assms
proof (cases rule: claim_cases)
  case own
  with assms(1) show ?thesis unfolding store_inv_def by (auto split: if_splits)
qed (use assms in simp_all)

text \<open>Installing while holding the claim, aborting before, committing after.\<close>

lemma install_cases:
  assumes "install_or_get C i digest result S = (res, S')" and "rs_records S i = None"
  shows "(\<exists>x. res = Inl x \<and> S' = S) \<or>
    (\<exists>r. res = Inr r \<and> valid_record C r i \<and> ir_request_sha r = digest \<and> S' = S\<lparr>rs_records := (rs_records S)(i \<mapsto> r)\<rparr>)"
proof (cases result)
  case (Pending payload)
  show ?thesis
  proof (cases "payload = []")
    case False
    show ?thesis
    proof (cases "parse_json_bytes C (canonical_bytes C (JObj payload))")
      case (Some doc)
      with assms Pending False show ?thesis
        by (cases doc) (auto simp: install_or_get_def Let_def split: if_splits)
    qed (use assms Pending False in \<open>auto simp: install_or_get_def Let_def\<close>)
  qed (use assms Pending in \<open>auto simp: install_or_get_def\<close>)
qed (use assms in \<open>auto simp: install_or_get_def\<close>)

lemma install_inv:
  assumes "store_inv C S" and "rs_claims S (w, n) = Some (ir_request_sha r)" and "valid_record C r (w, n)"
  shows "store_inv C (S\<lparr>rs_records := (rs_records S)((w, n) \<mapsto> r)\<rparr>)"
  using assms store_invD(6) [OF assms(1,2)] store_invD(1) [OF assms(1), of w]
  unfolding store_inv_def by (auto split: if_splits)

lemma abort_inv:
  assumes "store_inv C S" and "rs_records S (w, n) = None"
  shows "store_inv C (abort w n digest S)"
  using assms unfolding store_inv_def abort_def by (auto split: if_splits)

definition committed :: "window \<Rightarrow> int \<Rightarrow> string \<Rightarrow> installed_receipt \<Rightarrow> receipt_store \<Rightarrow> receipt_store" where
  "committed w n digest r S = S\<lparr>rs_heads := (rs_heads S)(w \<mapsto> (n, digest, r)),
     rs_claims := (rs_claims S)((w, n) := None)\<rparr>"

lemma committed_simps [simp]:
  "rs_records (committed w n digest r S) = rs_records S"
  "rs_claims (committed w n digest r S) = (rs_claims S)((w, n) := None)"
  "rs_heads (committed w n digest r S) = (rs_heads S)(w \<mapsto> (n, digest, r))"
  "reached (committed w n digest r S) v = (if v = w then n else reached S v)"
  by (simp_all add: committed_def reached_def)

lemma commit_ok:
  "rs_claims S (w, n) = Some digest \<Longrightarrow> commit w n digest r S = (Inr (), committed w n digest r S)"
  by (simp add: commit_def committed_def)

lemma commit_inv:
  assumes inv: "store_inv C S" and cl: "rs_claims S (w, n) = Some digest" and rec: "rs_records S (w, n) = Some r"
  shows "store_inv C (committed w n digest r S)" (is "store_inv C ?S")
proof -
  have n: "n = reached S w + 1" using store_invD(6) [OF inv cl] .
  have r': "reached ?S v = (if v = w then n else reached S v)" for v
    by simp
  show ?thesis
    unfolding store_inv_def r'
  proof (intro conjI allI impI)
    fix v m d
    show "0 \<le> (if v = w then n else reached S v)" using n store_invD(1) [OF inv] by (simp add: add_nonneg_nonneg)
    show "1 \<le> (if v = w then n else reached S v)" if "rs_heads ?S v \<noteq> None"
      using that n store_invD(1) [OF inv, of w] store_invD(7) [OF inv, of v] by (cases "v = w") (simp_all add: committed_def)
    show "rs_records ?S (v, m) \<noteq> None" if "1 \<le> m \<and> m \<le> (if v = w then n else reached S v)"
      using that n rec store_invD(2) [OF inv, of m v] by (cases "v = w \<and> m = n") (auto split: if_splits)
    show "m = (if v = w then n else reached S v) + 1" if "rs_claims ?S (v, m) = Some d"
      using that n store_invD(6) [OF inv, of v m d] by (auto split: if_splits)
  next
    fix v m r'
    assume a: "rs_records ?S (v, m) = Some r'"
    then show "valid_record C r' (v, m)" "1 \<le> m" using store_invD(3,4) [OF inv, of v m r'] by simp_all
    show "m \<le> (if v = w then n else reached S v) \<or> m = (if v = w then n else reached S v) + 1 \<and>
        rs_claims ?S (v, m) = Some (ir_request_sha r')"
      using a n store_invD(5) [OF inv, of v m r'] by (auto split: if_splits)
  qed
qed

subsection \<open>Routing\<close>

text \<open>What \<open>route_and_install\<close> does while its caller holds the claim and no receipt is recorded.\<close>

definition identity_of :: "channel_envelope \<Rightarrow> identity" where
  "identity_of e = (window_of e, ce_sequence e)"

lemma route_and_install_cases:
  assumes "route_and_install K route e digest s = (res, s')"
    and "rs_records (ch_store s) (identity_of e) = None"
  shows "ch_routed s' = ch_routed s @ [e] \<and>
    ((\<exists>x. res = Inl x) \<and> ch_store s' = ch_store s \<or>
     (\<exists>r. res = Inr r \<and> valid_record (cc_crypto K) r (identity_of e) \<and> ir_request_sha r = digest \<and>
        ch_store s' = (ch_store s)\<lparr>rs_records := (rs_records (ch_store s))(identity_of e \<mapsto> r)\<rparr>))"
proof -
  have step: "?thesis" if eq: "route (ch_routed s) e = result" and nr: "\<And>x. result \<noteq> RouteRaises x" for result
  proof -
    obtain r S where i: "install_or_get (cc_crypto K) (identity_of e) digest result (ch_store s) = (r, S)"
      by (cases "install_or_get (cc_crypto K) (identity_of e) digest result (ch_store s)")
    have "route_and_install K route e digest s =
        (case r of Inl x \<Rightarrow> (Inl x, s\<lparr>ch_routed := ch_routed s @ [e], ch_store := S\<rparr>)
         | Inr q \<Rightarrow> (if \<not> valid_record (cc_crypto K) q (identity_of e) \<or> ir_request_sha q \<noteq> digest
                   then Inl (ChannelRejected ''invalid_durable_receipt'') else Inr q,
                   s\<lparr>ch_routed := ch_routed s @ [e], ch_store := S\<rparr>))"
    proof (cases result)
      case (RouteRaises x)
      with nr show ?thesis by blast
    qed (use i eq in \<open>simp_all add: identity_of_def route_and_install_def Let_def bindE_def getsE_def
          thenE_def modifyE_def returnE_def raiseE_def split: sum.splits\<close>)
    with assms(1) have s': "ch_routed s' = ch_routed s @ [e]" "ch_store s' = S"
      "res = (case r of Inl x \<Rightarrow> Inl x | Inr q \<Rightarrow> if \<not> valid_record (cc_crypto K) q (identity_of e) \<or> ir_request_sha q \<noteq> digest
                   then Inl (ChannelRejected ''invalid_durable_receipt'') else Inr q)"
      by (auto split: sum.splits)
    from install_cases [OF i assms(2)] show ?thesis
      by (elim disjE exE conjE) (simp_all add: s')
  qed
  show ?thesis
  proof (cases "route (ch_routed s) e")
    case (RouteRaises x)
    with assms(1) show ?thesis
      by (auto simp: route_and_install_def Let_def bindE_def getsE_def thenE_def modifyE_def raiseE_def)
  qed (use step in \<open>simp_all\<close>)
qed

subsection \<open>Concurrent receivers\<close>

text \<open>Which identity and digest a caller holds the claim for.\<close>

fun holds :: "receiver \<Rightarrow> (identity \<times> string) option" where
  "holds (Routing e d) = Some (identity_of e, d)"
| "holds (Installed e d r) = Some (identity_of e, d)"
| "holds _ = None"

definition receivers_inv :: "crypto \<Rightarrow> receipt_store \<Rightarrow> (nat \<rightharpoonup> receiver) \<Rightarrow> bool" where
  "receivers_inv C S R \<longleftrightarrow>
     store_inv C S \<and>
     (\<forall>t x i d. R t = Some x \<longrightarrow> holds x = Some (i, d) \<longrightarrow> rs_claims S i = Some d) \<and>
     (\<forall>t u x y i d d'. R t = Some x \<longrightarrow> R u = Some y \<longrightarrow> holds x = Some (i, d) \<longrightarrow> holds y = Some (i, d') \<longrightarrow> t = u) \<and>
     (\<forall>i d. rs_claims S i = Some d \<longrightarrow> (\<exists>t x. R t = Some x \<and> holds x = Some (i, d))) \<and>
     (\<forall>t e d. R t = Some (Routing e d) \<longrightarrow> rs_records S (identity_of e) = None) \<and>
     (\<forall>t e d r. R t = Some (Installed e d r) \<longrightarrow> rs_records S (identity_of e) = Some r \<and> ir_request_sha r = d) \<and>
     (\<forall>t out. R t = Some (Finished (Inr out)) \<longrightarrow> (\<exists>i r. rs_records S i = Some r \<and> ir_frame r = out))"

lemma receivers_invD:
  assumes "receivers_inv C S R"
  shows "store_inv C S"
    and "R t = Some x \<Longrightarrow> holds x = Some (i, d) \<Longrightarrow> rs_claims S i = Some d"
    and "R t = Some x \<Longrightarrow> R u = Some y \<Longrightarrow> holds x = Some (i, d) \<Longrightarrow> holds y = Some (i, d') \<Longrightarrow> t = u"
    and "rs_claims S i = Some d \<Longrightarrow> \<exists>t x. R t = Some x \<and> holds x = Some (i, d)"
    and "R t = Some (Routing e d) \<Longrightarrow> rs_records S (identity_of e) = None"
    and "R t = Some (Installed e d r) \<Longrightarrow> rs_records S (identity_of e) = Some r \<and> ir_request_sha r = d"
    and "R t = Some (Finished (Inr out)) \<Longrightarrow> \<exists>i r. rs_records S i = Some r \<and> ir_frame r = out"
proof -
  note A = assms [unfolded receivers_inv_def]
  show "store_inv C S"
    by (rule A [THEN conjunct1, rule_format])
  show "R t = Some x \<Longrightarrow> holds x = Some (i, d) \<Longrightarrow> rs_claims S i = Some d"
    by (rule A [THEN conjunct2, THEN conjunct1, rule_format])
  show "R t = Some x \<Longrightarrow> R u = Some y \<Longrightarrow> holds x = Some (i, d) \<Longrightarrow> holds y = Some (i, d') \<Longrightarrow> t = u"
    by (rule A [THEN conjunct2, THEN conjunct2, THEN conjunct1, rule_format])
  show "rs_claims S i = Some d \<Longrightarrow> \<exists>t x. R t = Some x \<and> holds x = Some (i, d)"
    by (rule A [THEN conjunct2, THEN conjunct2, THEN conjunct2, THEN conjunct1, rule_format])
  show "R t = Some (Routing e d) \<Longrightarrow> rs_records S (identity_of e) = None"
    by (rule A [THEN conjunct2, THEN conjunct2, THEN conjunct2, THEN conjunct2, THEN conjunct1, rule_format])
  show "R t = Some (Installed e d r) \<Longrightarrow> rs_records S (identity_of e) = Some r \<and> ir_request_sha r = d"
    by (rule A [THEN conjunct2, THEN conjunct2, THEN conjunct2, THEN conjunct2, THEN conjunct2, THEN conjunct1, rule_format])
  show "R t = Some (Finished (Inr out)) \<Longrightarrow> \<exists>i r. rs_records S i = Some r \<and> ir_frame r = out"
    by (rule A [THEN conjunct2, THEN conjunct2, THEN conjunct2, THEN conjunct2, THEN conjunct2, THEN conjunct2, rule_format])
qed

lemma receivers_invI:
  assumes "store_inv C S"
    and "\<And>t x i d. R t = Some x \<Longrightarrow> holds x = Some (i, d) \<Longrightarrow> rs_claims S i = Some d"
    and "\<And>t u x y i d d'. R t = Some x \<Longrightarrow> R u = Some y \<Longrightarrow> holds x = Some (i, d) \<Longrightarrow> holds y = Some (i, d') \<Longrightarrow> t = u"
    and "\<And>i d. rs_claims S i = Some d \<Longrightarrow> \<exists>t x. R t = Some x \<and> holds x = Some (i, d)"
    and "\<And>t e d. R t = Some (Routing e d) \<Longrightarrow> rs_records S (identity_of e) = None"
    and "\<And>t e d r. R t = Some (Installed e d r) \<Longrightarrow> rs_records S (identity_of e) = Some r \<and> ir_request_sha r = d"
    and "\<And>t out. R t = Some (Finished (Inr out)) \<Longrightarrow> \<exists>i r. rs_records S i = Some r \<and> ir_frame r = out"
  shows "receivers_inv C S R"
  using assms unfolding receivers_inv_def by (intro conjI allI impI) blast+

definition world_inv :: "channel_codec \<Rightarrow> channel_world \<Rightarrow> bool" where
  "world_inv K W \<longleftrightarrow> receivers_inv (cc_crypto K) (ch_store (cw_state W)) (cw_receivers W)"

text \<open>A caller that holds nothing finishes or starts to wait.\<close>

lemma receivers_inv_idle:
  assumes inv: "receivers_inv C S R" and old: "\<And>x. R t = Some x \<Longrightarrow> holds x = None"
    and new: "holds y = None" "\<And>out. y = Finished (Inr out) \<Longrightarrow> \<exists>i r. rs_records S i = Some r \<and> ir_frame r = out"
  shows "receivers_inv C S (R(t \<mapsto> y))"
proof (rule receivers_invI)
  note D = receivers_invD [OF inv]
  show "store_inv C S" by (rule D(1))
  show "rs_claims S i = Some d" if "(R(t \<mapsto> y)) u = Some x" "holds x = Some (i, d)" for u x i d
    using that new(1) D(2) by (auto split: if_splits)
  show "u = v" if "(R(t \<mapsto> y)) u = Some x" "(R(t \<mapsto> y)) v = Some z" "holds x = Some (i, d)"
     "holds z = Some (i, d')" for u v x z i d d'
    using that new(1) D(3) by (auto split: if_splits)
  show "\<exists>u x. (R(t \<mapsto> y)) u = Some x \<and> holds x = Some (i, d)" if c: "rs_claims S i = Some d" for i d
  proof -
    obtain u x where u: "R u = Some x" "holds x = Some (i, d)" using D(4) [OF c] by blast
    then have "u \<noteq> t" using old by auto
    with u show ?thesis by (intro exI [of _ u] exI [of _ x]) simp
  qed
  show "rs_records S (identity_of e) = None" if "(R(t \<mapsto> y)) u = Some (Routing e d)" for u e d
    using that new(1) D(5) by (auto split: if_splits)
  show "rs_records S (identity_of e) = Some r \<and> ir_request_sha r = d" if "(R(t \<mapsto> y)) u = Some (Installed e d r)" for u e d r
    using that new(1) D(6) by (auto split: if_splits)
  show "\<exists>i r. rs_records S i = Some r \<and> ir_frame r = out" if "(R(t \<mapsto> y)) u = Some (Finished (Inr out))" for u out
    using that new(2) D(7) by (auto split: if_splits)
qed

text \<open>A caller takes a free claim.\<close>

lemma receivers_inv_own:
  assumes inv: "receivers_inv C S R" and old: "\<And>x. R t = Some x \<Longrightarrow> holds x = None"
    and free: "rs_claims S (identity_of e) = None" "rs_records S (identity_of e) = None"
    and store: "store_inv C (S\<lparr>rs_claims := (rs_claims S)(identity_of e \<mapsto> d)\<rparr>)"
  shows "receivers_inv C (S\<lparr>rs_claims := (rs_claims S)(identity_of e \<mapsto> d)\<rparr>) (R(t \<mapsto> Routing e d))"
    (is "receivers_inv C ?S ?R")
proof (rule receivers_invI)
  note D = receivers_invD [OF inv]
  have other: "i \<noteq> identity_of e" if "R u = Some x" "holds x = Some (i, d')" for u x i d'
    using D(2) [OF that] free(1) by auto
  show "store_inv C ?S" by (rule store)
  show "rs_claims ?S i = Some d'" if "?R u = Some x" "holds x = Some (i, d')" for u x i d'
  proof (cases "u = t")
    case True
    with that show ?thesis by auto
  next
    case False
    then have "R u = Some x" using that(1) by simp
    with D(2) [OF this that(2)] other [OF this that(2)] show ?thesis by simp
  qed
  show "u = v" if "?R u = Some x" "?R v = Some z" "holds x = Some (i, d1)" "holds z = Some (i, d2)" for u v x z i d1 d2
    using that D(3) [of u x v z i d1 d2] other [of u x i d1] other [of v z i d2]
    by (cases "u = t"; cases "v = t") auto
  show "\<exists>u x. ?R u = Some x \<and> holds x = Some (i, d')" if c: "rs_claims ?S i = Some d'" for i d'
  proof (cases "i = identity_of e")
    case True
    with c show ?thesis by (intro exI [of _ t] exI [of _ "Routing e d"]) simp
  next
    case False
    with c have "rs_claims S i = Some d'" by simp
    then obtain u x where u: "R u = Some x" "holds x = Some (i, d')" using D(4) by blast
    then have "u \<noteq> t" using old by auto
    with u show ?thesis by (intro exI [of _ u] exI [of _ x]) simp
  qed
  show "rs_records ?S (identity_of e') = None" if "?R u = Some (Routing e' d')" for u e' d'
    using that free(2) D(5) by (auto split: if_splits)
  show "rs_records ?S (identity_of e') = Some r \<and> ir_request_sha r = d'" if "?R u = Some (Installed e' d' r)" for u e' d' r
    using that D(6) by (auto split: if_splits)
  show "\<exists>i r. rs_records ?S i = Some r \<and> ir_frame r = out" if "?R u = Some (Finished (Inr out))" for u out
    using that D(7) by (auto split: if_splits)
qed

text \<open>The owner installs its receipt, gives up, or commits.\<close>

lemma receivers_inv_install:
  assumes inv: "receivers_inv C S R" and own: "R t = Some (Routing e d)"
    and r: "valid_record C r (identity_of e)" "ir_request_sha r = d"
  shows "receivers_inv C (S\<lparr>rs_records := (rs_records S)(identity_of e \<mapsto> r)\<rparr>) (R(t \<mapsto> Installed e d r))"
    (is "receivers_inv C ?S ?R")
proof (rule receivers_invI)
  note D = receivers_invD [OF inv]
  have cl: "rs_claims S (identity_of e) = Some d" using D(2) [OF own] by simp
  have nr: "rs_records S (identity_of e) = None" by (rule D(5) [OF own])
  have mine: "u = t" if "R u = Some x" "holds x = Some (identity_of e, d')" for u x d'
    using D(3) [OF that(1) own that(2)] by simp
  show "store_inv C ?S"
    using install_inv [OF D(1)] cl r by (cases "identity_of e") simp
  have holds_same: "holds y = holds (Routing e d)" if "?R u = Some y" "u = t" for u y
    using that by auto
  have prior: "\<exists>y'. R u = Some y' \<and> holds y' = holds y" if "?R u = Some y" for u y
    using that own by (cases "u = t") auto
  show "rs_claims ?S i = Some d'" if a: "?R u = Some x" "holds x = Some (i, d')" for u x i d'
  proof -
    obtain y where "R u = Some y" "holds y = Some (i, d')" using prior [OF a(1)] a(2) by auto
    from D(2) [OF this] show ?thesis by simp
  qed
  show "u = v" if a: "?R u = Some x" "?R v = Some z" "holds x = Some (i, d1)" "holds z = Some (i, d2)" for u v x z i d1 d2
  proof -
    obtain y where y: "R u = Some y" "holds y = Some (i, d1)" using prior [OF a(1)] a(3) by auto
    obtain y' where y': "R v = Some y'" "holds y' = Some (i, d2)" using prior [OF a(2)] a(4) by auto
    show ?thesis by (rule D(3) [OF y(1) y'(1) y(2) y'(2)])
  qed
  show "\<exists>u x. ?R u = Some x \<and> holds x = Some (i, d')" if c: "rs_claims ?S i = Some d'" for i d'
  proof -
    from c obtain u x where u: "R u = Some x" "holds x = Some (i, d')" using D(4) [of i d'] by auto
    then show ?thesis using own
      by (cases "u = t") (auto intro!: exI [of _ u])
  qed
  show "rs_records ?S (identity_of e') = None" if q: "?R u = Some (Routing e' d')" for u e' d'
  proof -
    have u: "u \<noteq> t" "R u = Some (Routing e' d')" using q by (auto split: if_splits)
    have "identity_of e' \<noteq> identity_of e" using mine [OF u(2)] u(1) by auto
    then show ?thesis using D(5) [OF u(2)] by simp
  qed
  show "rs_records ?S (identity_of e') = Some r' \<and> ir_request_sha r' = d'" if q: "?R u = Some (Installed e' d' r')" for u e' d' r'
  proof (cases "u = t")
    case True
    with q r show ?thesis by auto
  next
    case False
    then have u: "R u = Some (Installed e' d' r')" using q by simp
    have "identity_of e' \<noteq> identity_of e" using mine [OF u] False by auto
    then show ?thesis using D(6) [OF u] by simp
  qed
  show "\<exists>i r'. rs_records ?S i = Some r' \<and> ir_frame r' = out" if q: "?R u = Some (Finished (Inr out))" for u out
  proof -
    have "R u = Some (Finished (Inr out))" using q by (auto split: if_splits)
    then obtain i r' where "rs_records S i = Some r'" "ir_frame r' = out" using D(7) by blast
    then show ?thesis using nr by (intro exI [of _ i] exI [of _ r']) auto
  qed
qed

text \<open>The two ways an owner ends: it releases its claim and finishes.\<close>

lemma receivers_inv_release:
  assumes inv: "receivers_inv C S R" and own: "R t = Some x" "holds x = Some (i, d)"
    and S': "store_inv C S'" "rs_claims S' = (rs_claims S)(i := None)" "rs_records S' = rs_records S"
    and out: "\<And>f. y = Inr f \<Longrightarrow> \<exists>i r. rs_records S i = Some r \<and> ir_frame r = f"
  shows "receivers_inv C S' (R(t \<mapsto> Finished y))" (is "receivers_inv C S' ?R")
proof (rule receivers_invI)
  note D = receivers_invD [OF inv]
  show "store_inv C S'" by (rule S'(1))
  have old: "u \<noteq> t \<and> R u = Some z" if "?R u = Some z" "holds z = Some k" for u z k
    using that by (auto split: if_splits)
  show "rs_claims S' j = Some d'" if "?R u = Some z" "holds z = Some (j, d')" for u z j d'
  proof -
    note u = old [OF that]
    have "j \<noteq> i" using D(3) [of u z t x j d' d] u own that(2) by auto
    then show ?thesis using D(2) [of u z j d'] u that(2) by (simp add: S'(2))
  qed
  show "u = v" if "?R u = Some z" "?R v = Some z'" "holds z = Some (j, d1)" "holds z' = Some (j, d2)" for u v z z' j d1 d2
    using old [OF that(1,3)] old [OF that(2,4)] D(3) [of u z v z' j d1 d2] that(3,4) by simp
  show "\<exists>u z. ?R u = Some z \<and> holds z = Some (j, d')" if c: "rs_claims S' j = Some d'" for j d'
  proof -
    have j: "j \<noteq> i" "rs_claims S j = Some d'" using c by (auto simp: S'(2) split: if_splits)
    then obtain u z where u: "R u = Some z" "holds z = Some (j, d')" using D(4) by blast
    then have "u \<noteq> t" using own j(1) by auto
    with u show ?thesis by (intro exI [of _ u] exI [of _ z]) simp
  qed
  show "rs_records S' (identity_of e) = None" if "?R u = Some (Routing e d')" for u e d'
    using that D(5) by (auto simp: S'(3) split: if_splits)
  show "rs_records S' (identity_of e) = Some r \<and> ir_request_sha r = d'" if "?R u = Some (Installed e d' r)" for u e d' r
    using that D(6) by (auto simp: S'(3) split: if_splits)
  show "\<exists>j r. rs_records S' j = Some r \<and> ir_frame r = f" if "?R u = Some (Finished (Inr f))" for u f
    using that D(7) out by (auto simp: S'(3) split: if_splits)
qed

lemma claim_world_inv:
  assumes inv: "world_inv K W" and old: "\<And>x. cw_receivers W t = Some x \<Longrightarrow> holds x = None"
  shows "world_inv K (claim_world K t e d W)"
proof -
  let ?S = "ch_store (cw_state W)" and ?R = "cw_receivers W"
  have I: "receivers_inv (cc_crypto K) ?S ?R" using inv by (simp add: world_inv_def)
  obtain res S' where c: "claim (cc_crypto K) (window_of e) (ce_sequence e) d ?S = (res, S')"
    by (cases "claim (cc_crypto K) (window_of e) (ce_sequence e) d ?S")
  have goal: "receivers_inv (cc_crypto K) S' (?R(t \<mapsto> after_claim e d res))"
    using receivers_invD(1) [OF I] c
  proof (cases rule: claim_cases)
    case own
    have id: "identity_of e = (window_of e, ce_sequence e)" by (simp add: identity_of_def)
    from receivers_inv_own [OF I old, where e = e and d = d] own claim_inv [OF receivers_invD(1) [OF I] c]
    show ?thesis by (simp add: after_claim_def id)
  next
    case (replay r)
    then show ?thesis by (auto simp: after_claim_def intro!: receivers_inv_idle [OF I old])
  qed (auto simp: after_claim_def intro!: receivers_inv_idle [OF I old])
  then show ?thesis by (simp add: world_inv_def claim_world_def c)
qed

lemma channel_step_inv:
  assumes "channel_step K W W'" and inv: "world_inv K W"
  shows "world_inv K W'"
  using assms
proof cases
  case (step_refused frame x t)
  have "receivers_inv (cc_crypto K) (ch_store (cw_state W)) ((cw_receivers W)(t \<mapsto> Finished (Inl x)))"
    by (rule receivers_inv_idle) (use inv step_refused in \<open>auto simp: world_inv_def\<close>)
  then show ?thesis by (simp add: step_refused world_inv_def)
next
  case (step_arrive frame e t)
  have "world_inv K (claim_world K t e (frame_digest (cc_crypto K) frame) W)"
    by (rule claim_world_inv [OF inv]) (use step_arrive in auto)
  then show ?thesis by (simp add: step_arrive)
next
  case (step_wake t e d)
  have "world_inv K (claim_world K t e d W)" by (rule claim_world_inv [OF inv]) (use step_wake in auto)
  then show ?thesis by (simp add: step_wake)
next
  case (step_installed t e d route r s)
  have I: "receivers_inv (cc_crypto K) (ch_store (cw_state W)) (cw_receivers W)" using inv by (simp add: world_inv_def)
  from route_and_install_cases [OF step_installed(3) receivers_invD(5) [OF I step_installed(2)]]
  have "valid_record (cc_crypto K) r (identity_of e)" "ir_request_sha r = d"
    "ch_store s = (ch_store (cw_state W))\<lparr>rs_records := (rs_records (ch_store (cw_state W)))(identity_of e \<mapsto> r)\<rparr>"
    by auto
  with receivers_inv_install [OF I step_installed(2)] show ?thesis by (simp add: step_installed world_inv_def)
next
  case (step_aborted t e d route x s)
  have I: "receivers_inv (cc_crypto K) (ch_store (cw_state W)) (cw_receivers W)" using inv by (simp add: world_inv_def)
  have nr: "rs_records (ch_store (cw_state W)) (identity_of e) = None" by (rule receivers_invD(5) [OF I step_aborted(2)])
  have cl: "rs_claims (ch_store (cw_state W)) (identity_of e) = Some d"
    using receivers_invD(2) [OF I step_aborted(2)] by simp
  from route_and_install_cases [OF step_aborted(3) nr] have s: "ch_store s = ch_store (cw_state W)" by auto
  have "receivers_inv (cc_crypto K) (abort (window_of e) (ce_sequence e) d (ch_store s))
     ((cw_receivers W)(t \<mapsto> Finished (Inl x)))"
  proof (rule receivers_inv_release [OF I step_aborted(2)])
    show "store_inv (cc_crypto K) (abort (window_of e) (ce_sequence e) d (ch_store s))"
      using abort_inv [OF receivers_invD(1) [OF I]] nr by (simp add: s identity_of_def)
  qed (use cl in \<open>simp_all add: s abort_def identity_of_def\<close>)
  then show ?thesis by (simp add: step_aborted world_inv_def)
next
  case (step_commit t e d r res S)
  have I: "receivers_inv (cc_crypto K) (ch_store (cw_state W)) (cw_receivers W)" using inv by (simp add: world_inv_def)
  have cl: "rs_claims (ch_store (cw_state W)) (window_of e, ce_sequence e) = Some d"
    using receivers_invD(2) [OF I step_commit(2)] by (simp add: identity_of_def)
  have rec: "rs_records (ch_store (cw_state W)) (window_of e, ce_sequence e) = Some r" "ir_request_sha r = d"
    using receivers_invD(6) [OF I step_commit(2)] by (simp_all add: identity_of_def)
  have S: "res = Inr ()" "S = committed (window_of e) (ce_sequence e) d r (ch_store (cw_state W))"
    using step_commit(3) commit_ok [OF cl, of r] by auto
  have "receivers_inv (cc_crypto K) S ((cw_receivers W)(t \<mapsto> Finished (Inr (ir_frame r))))"
  proof (rule receivers_inv_release [OF I step_commit(2)])
    show "store_inv (cc_crypto K) S"
      using commit_inv [OF receivers_invD(1) [OF I] cl rec(1)] S(2) by simp
  qed (use rec in \<open>auto simp: S identity_of_def\<close>)
  then show ?thesis by (simp add: step_commit world_inv_def S)
qed

lemma empty_world_inv: "world_inv K empty_world"
  by (simp add: world_inv_def receivers_inv_def empty_world_def empty_store_inv)
    (simp add: empty_store_def)

lemma channel_run_inv: "(channel_step K)\<^sup>*\<^sup>* W W' \<Longrightarrow> world_inv K W \<Longrightarrow> world_inv K W'"
  by (induction rule: rtranclp_induct) (auto intro: channel_step_inv)

subsection \<open>Receipts are never rewritten, and nothing is routed after its receipt\<close>

definition routed_count :: "identity \<Rightarrow> channel_world \<Rightarrow> nat" where
  "routed_count i W = length (filter (\<lambda>e. identity_of e = i) (ch_routed (cw_state W)))"

lemma claim_frame:
  "rs_records (snd (claim C w n d S)) = rs_records S"
  by (auto simp: claim_def split: option.splits)

lemma channel_step_recorded:
  assumes "channel_step K W W'" and inv: "world_inv K W"
    and rec: "rs_records (ch_store (cw_state W)) i = Some r"
  shows "rs_records (ch_store (cw_state W')) i = Some r \<and> routed_count i W' = routed_count i W"
  using assms(1)
proof cases
  case (step_arrive frame e t)
  then show ?thesis
    using claim_frame [of "cc_crypto K" "window_of e" "ce_sequence e" "frame_digest (cc_crypto K) frame" "ch_store (cw_state W)"] rec
    by (simp add: claim_world_def routed_count_def split: prod.splits)
next
  case (step_wake t e d)
  then show ?thesis
    using claim_frame [of "cc_crypto K" "window_of e" "ce_sequence e" d "ch_store (cw_state W)"] rec
    by (simp add: claim_world_def routed_count_def split: prod.splits)
next
  case (step_installed t e d route q s)
  have nr: "rs_records (ch_store (cw_state W)) (identity_of e) = None"
    using receivers_invD(5) inv step_installed(2) unfolding world_inv_def by blast
  then have "identity_of e \<noteq> i" using rec by auto
  with route_and_install_cases [OF step_installed(3) nr] rec show ?thesis
    by (auto simp: step_installed(1) routed_count_def)
next
  case (step_aborted t e d route x s)
  have nr: "rs_records (ch_store (cw_state W)) (identity_of e) = None"
    using receivers_invD(5) inv step_aborted(2) unfolding world_inv_def by blast
  then have "identity_of e \<noteq> i" using rec by auto
  with route_and_install_cases [OF step_aborted(3) nr] rec show ?thesis
    by (auto simp: step_aborted(1) routed_count_def abort_def)
qed (use rec in \<open>auto simp: routed_count_def commit_def split: if_splits\<close>)

subsection \<open>Honest frames\<close>

lemma map_of_sort_key: "distinct (map fst kvs) \<Longrightarrow> map_of (sort_key fst kvs) = map_of kvs"
proof -
  assume d: "distinct (map fst kvs)"
  have "mset (map fst (sort_key fst kvs)) = mset (map fst kvs)" by simp
  with d have "distinct (map fst (sort_key fst kvs))" using mset_eq_imp_distinct_iff by blast
  with d show ?thesis by (metis map_of_inject_set set_sort)
qed

definition sorted_fields :: "(string \<times> json) list \<Rightarrow> (string \<times> json) list" where
  "sorted_fields kvs = sort_key fst (map (map_prod id sorted_json) kvs)"

lemma sorted_fields_json: "sorted_json (JObj kvs) = JObj (sorted_fields kvs)"
  by (simp add: sorted_fields_def)

lemma dict_get_sorted_fields:
  assumes "distinct (keys kvs)"
  shows "dict_get (sorted_fields kvs) k = map_option sorted_json (dict_get kvs k)"
proof -
  have "dict_get (sorted_fields kvs) = dict_get (map (map_prod id sorted_json) kvs)"
    unfolding sorted_fields_def by (rule map_of_sort_key) (use assms in simp)
  moreover have "map_of (map (map_prod id sorted_json) kvs) k = map_option sorted_json (map_of kvs k)"
    by (induction kvs) auto
  ultimately show ?thesis by simp
qed

lemma keys_sorted_fields: "set (keys (sorted_fields kvs)) = set (keys kvs)"
  by (force simp: sorted_fields_def)

text \<open>An envelope whose texts are UTF-8 and whose payload has no floats and no duplicate keys.\<close>

definition envelope_texts_ok :: "channel_envelope \<Rightarrow> bool" where
  "envelope_texts_ok e \<longleftrightarrow> float_free (JObj (envelope_json e))"

lemma channel_value_inj: "channel_value a = channel_value b \<longleftrightarrow> a = b"
  by (cases a; cases b) simp_all

lemma find_channel: "find (\<lambda>k. Some (channel_value c) = Some (channel_value k)) channel_kinds = Some c"
  by (cases c) (simp_all add: channel_kinds_def)

lemma read_envelope_json:
  assumes "envelope_valid e" and "\<And>n. as_int (JInt n) = Some n"
  shows "read_envelope as_int (sorted_fields (envelope_json e)) = Some (e\<lparr>ce_payload := sorted_fields (ce_payload e)\<rparr>)"
proof -
  have d: "distinct (keys (envelope_json e))" by (simp add: envelope_json_def)
  have keys: "set (keys (envelope_json e)) = set envelope_keys" by (simp add: envelope_json_def envelope_keys_def)
  have v: "envelope_valid (e\<lparr>ce_payload := sorted_fields (ce_payload e)\<rparr>)"
    using assms(1) by (simp add: envelope_valid_def)
  have gets: "dict_get (envelope_json e) ''schema_version'' = Some (JStr ''secure-memory-channel/v2'')"
    "dict_get (envelope_json e) ''channel'' = Some (JStr (channel_value (ce_channel e)))"
    "dict_get (envelope_json e) ''configuration_id'' = Some (JStr (ce_configuration_id e))"
    "dict_get (envelope_json e) ''sender_role'' = Some (JStr (ce_sender e))"
    "dict_get (envelope_json e) ''recipient_role'' = Some (JStr (ce_recipient e))"
    "dict_get (envelope_json e) ''direction'' = Some (JStr (ce_direction e))"
    "dict_get (envelope_json e) ''key_id'' = Some (JStr (ce_key_id e))"
    "dict_get (envelope_json e) ''campaign_nonce'' = Some (JStr (ce_nonce e))"
    "dict_get (envelope_json e) ''epoch'' = Some (JInt (ce_epoch e))"
    "dict_get (envelope_json e) ''sequence'' = Some (JInt (ce_sequence e))"
    "dict_get (envelope_json e) ''method'' = Some (JStr (ce_method e))"
    "dict_get (envelope_json e) ''idempotency_key'' = Some (JStr (ce_idempotency_key e))"
    "dict_get (envelope_json e) ''payload_sha256'' = Some (JStr (ce_payload_sha256 e))"
    "dict_get (envelope_json e) ''payload'' = Some (JObj (ce_payload e))"
    by (simp_all add: envelope_json_def)
  have rec: "\<lparr>ce_channel = ce_channel e, ce_configuration_id = ce_configuration_id e, ce_sender = ce_sender e,
      ce_recipient = ce_recipient e, ce_direction = ce_direction e, ce_key_id = ce_key_id e, ce_nonce = ce_nonce e,
      ce_epoch = ce_epoch e, ce_sequence = ce_sequence e, ce_method = ce_method e,
      ce_idempotency_key = ce_idempotency_key e, ce_payload_sha256 = ce_payload_sha256 e,
      ce_payload = sorted_fields (ce_payload e)\<rparr> = e\<lparr>ce_payload := sorted_fields (ce_payload e)\<rparr>"
    by (cases e) simp
  show ?thesis
    using v unfolding read_envelope_def
    by (simp add: keys_sorted_fields [simplified] keys [simplified] Let_def rec dict_get_sorted_fields [OF d] gets json_str_def assms(2) find_channel
        find_channel [simplified] sorted_fields_json del: sorted_json.simps(7))
qed

lemma canonical_sorted_fields: "canonical_bytes C (JObj (sorted_fields kvs)) = canonical_bytes C (JObj kvs)"
  by (metis canonical_sorted sorted_fields_json)

lemma canonical_values: "map (map_prod id (canonical_bytes C)) kvs = map (map_prod id (canonical_bytes C)) kvs' \<Longrightarrow>
    canonical_bytes C (JObj kvs) = canonical_bytes C (JObj kvs')"
  by simp

lemma sorted_payload_same:
  "payload_digest C (sorted_fields p) = payload_digest C p"
  "envelope_mac K (e\<lparr>ce_payload := sorted_fields p\<rparr>) = envelope_mac K (e\<lparr>ce_payload := p\<rparr>)"
proof -
  show "payload_digest C (sorted_fields p) = payload_digest C p"
    by (simp add: payload_digest_def domain_digest_def canonical_sorted_fields del: canonical_bytes.simps)
  show "envelope_mac K (e\<lparr>ce_payload := sorted_fields p\<rparr>) = envelope_mac K (e\<lparr>ce_payload := p\<rparr>)"
    unfolding envelope_mac_def
    by (rule arg_cong [where f = "hmac256 (cc_crypto K) (ck_secret (cc_material K))"], rule canonical_values)
      (simp add: envelope_json_def canonical_sorted_fields del: canonical_bytes.simps(7))
qed

lemma hex_utf8: "is_sha256_digest s \<Longrightarrow> utf8_valid s"
  by (rule utf8_ascii) (auto simp: is_sha256_digest_def list_all_iff is_lower_hex_def Let_def)

lemma decode_frame_of:
  assumes "envelope_valid e" and "envelope_texts_ok e" and "length (frame_of K e) \<le> max_frame_bytes"
    and "\<And>n. cc_as_int K (JInt n) = Some n" and mac: "is_sha256_digest (envelope_mac K e)"
  shows "decode K (frame_of K e) = Inr (e\<lparr>ce_payload := sorted_fields (ce_payload e)\<rparr>, envelope_mac K e)"
proof -
  let ?C = "cc_crypto K" and ?body = "envelope_json e"
  define n where "n = int (length (canonical_bytes ?C (JObj ?body)))"
  define doc where "doc = JObj [(''declared_length'', JInt n), (''envelope'', JObj ?body), (''mac'', JStr (envelope_mac K e))]"
  define out where "out = [(''declared_length'', JInt n), (''envelope'', JObj (sorted_fields ?body)), (''mac'', JStr (envelope_mac K e))]"
  have frame: "frame_of K e = canonical_bytes ?C doc"
    by (simp add: frame_of_def doc_def n_def Let_def)
  have "float_free doc"
    using assms(2) hex_utf8 [OF mac] by (simp add: doc_def envelope_texts_ok_def)
  then have parse: "parse_json_bytes ?C (frame_of K e) = Some (sorted_json doc)"
    unfolding frame by (rule parse_canonical)
  have out: "sorted_json doc = JObj out"
    by (simp add: doc_def out_def sorted_fields_def)
  have same: "canonical_bytes ?C (JObj out) = frame_of K e"
    using canonical_sorted [of ?C doc] by (simp add: out frame del: canonical_bytes.simps)
  have gets: "dict_get out ''envelope'' = Some (JObj (sorted_fields ?body))" "dict_get out ''declared_length'' = Some (JInt n)"
    "dict_get out ''mac'' = Some (JStr (envelope_mac K e))" "set (keys out) = {''declared_length'', ''envelope'', ''mac''}"
    by (auto simp: out_def)
  have len: "n = int (length (canonical_bytes ?C (JObj (sorted_fields ?body))))"
    by (simp add: n_def canonical_sorted_fields del: canonical_bytes.simps)
  show ?thesis
    using assms(3) mac parse same gets len [symmetric] read_envelope_json [OF assms(1,4)]
    unfolding decode_def Let_def out
    by (simp add: json_str_def json_is_int_def del: canonical_bytes.simps)
qed

lemma envelope_texts:
  assumes "envelope_valid e" and "float_free (JObj (ce_payload e))" and "utf8_valid (ce_method e)"
    "utf8_valid (ce_idempotency_key e)" "utf8_valid (ce_key_id e)" "utf8_valid (ce_nonce e)"
  shows "envelope_texts_ok e"
proof -
  have lits: "list_all utf8_valid (configuration_ids @ roles @ directions @ map channel_value channel_kinds)"
    by (simp add: configuration_ids_def roles_def directions_def channel_kinds_def)
  have "utf8_valid (ce_configuration_id e)" "utf8_valid (ce_sender e)" "utf8_valid (ce_recipient e)" "utf8_valid (ce_direction e)"
    using assms(1) lits unfolding envelope_valid_def list_all_iff by auto
  moreover have "utf8_valid (channel_value (ce_channel e))" by (cases "ce_channel e") simp_all
  moreover have "utf8_valid (ce_payload_sha256 e)" using assms(1) hex_utf8 unfolding envelope_valid_def by blast
  ultimately show ?thesis
    using assms(2-) by (simp add: envelope_texts_ok_def envelope_json_def)
qed

text \<open>C10. What becomes of a frame built by \<open>encode\<close> for an envelope with valid fields that agrees with
  the codec's material and methods: \<open>encode\<close> does not look at the size of what it builds, so a frame
  of more than \<open>max_frame_bytes\<close> (one mebibyte) is refused by its own receiver as \<open>frame_too_large\<close>;
  any other decodes, verifies and passes the MAC check, and what the receiver sees is the envelope that
  was sent (with the payload's keys sorted). Conditions: the payload holds no floats, valid UTF-8 and
  distinct keys, the texts of the envelope are valid UTF-8, the validator reads JSON integers as they
  are, and the HMAC is rendered as a lower-case hex digest.\<close>

theorem channel_honest_frame_admitted:
  assumes frame: "encode K channel sender recipient direction key_id epoch n mth idem payload = Some frame"
    and material: "channel = ck_channel (cc_material K)" "sender = ck_sender (cc_material K)"
      "recipient = ck_recipient (cc_material K)" "direction = ck_direction (cc_material K)"
      "key_id = None" "epoch = None" "mth \<in> set (case dict_get (cc_methods K) channel of None \<Rightarrow> [] | Some ms \<Rightarrow> ms)"
    and texts: "float_free (JObj payload)" "utf8_valid mth" "utf8_valid idem"
      "utf8_valid (ck_key_id (cc_material K))" "utf8_valid (ck_nonce (cc_material K))"
    and ints: "\<And>i. cc_as_int K (JInt i) = Some i"
    and hmac: "\<And>key m. is_sha256_digest (hmac256 (cc_crypto K) key m)"
  shows "if max_frame_bytes < length frame then admit K frame = Inl (ChannelRejected ''frame_too_large'')
    else \<exists>e. admit K frame = Inr e \<and> ce_sequence e = n \<and> ce_method e = mth \<and> ce_idempotency_key e = idem \<and>
      JObj (ce_payload e) = sorted_json (JObj payload) \<and> window_of e = (channel, ck_configuration_id (cc_material K),
        sender, recipient, direction, ck_key_id (cc_material K), ck_epoch (cc_material K))"
proof (cases "max_frame_bytes < length frame")
  case True
  then show ?thesis by (simp add: admit_def decode_def)
next
  case False
  then have short: "length frame \<le> max_frame_bytes" by simp
  let ?m = "cc_material K"
  define e where "e = \<lparr>ce_channel = channel, ce_configuration_id = ck_configuration_id ?m, ce_sender = sender,
     ce_recipient = recipient, ce_direction = direction, ce_key_id = ck_key_id ?m, ce_nonce = ck_nonce ?m,
     ce_epoch = ck_epoch ?m, ce_sequence = n, ce_method = mth, ce_idempotency_key = idem,
     ce_payload_sha256 = payload_digest (cc_crypto K) payload, ce_payload = payload\<rparr>"
  have e: "envelope_valid e" "frame = frame_of K e"
    using frame material(5,6) by (auto simp: encode_def Let_def e_def split: if_splits)
  have mac: "is_sha256_digest (envelope_mac K e)" by (simp add: envelope_mac_def hmac)
  have dec: "decode K frame = Inr (e\<lparr>ce_payload := sorted_fields (ce_payload e)\<rparr>, envelope_mac K e)"
    unfolding e(2)
  proof (rule decode_frame_of)
    show "envelope_texts_ok e"
      using texts by (intro envelope_texts [OF e(1)]) (simp_all add: e_def)
  qed (use e short ints mac in auto)
  have "first_error (verify_guards K (e\<lparr>ce_payload := sorted_fields (ce_payload e)\<rparr>)) = None"
    using material by (simp add: verify_guards_def e_def Let_def sorted_payload_same)
  moreover have "envelope_mac K (e\<lparr>ce_payload := sorted_fields (ce_payload e)\<rparr>) = envelope_mac K e"
    using sorted_payload_same(2) [where K = K and e = e and p = "ce_payload e"] by simp
  ultimately have "admit K frame = Inr (e\<lparr>ce_payload := sorted_fields (ce_payload e)\<rparr>)"
    by (simp add: admit_def dec)
  with short show ?thesis by (simp add: e_def window_of_def sorted_fields_json del: sorted_json.simps)
qed

subsection \<open>One caller after the other\<close>

definition quiet :: "crypto \<Rightarrow> receipt_store \<Rightarrow> bool" where
  "quiet C S \<longleftrightarrow> store_inv C S \<and> rs_claims S = Map.empty"

lemma quiet_record: "quiet C S \<Longrightarrow> rs_records S (w, n) = Some r \<Longrightarrow> valid_record C r (w, n) \<and> 1 \<le> n \<and> n \<le> reached S w"
  using store_invD(3-5) [of C S w n r] by (auto simp: quiet_def)

text \<open>The outcome of one call: refused or answered from the record without a trace, or routed.\<close>

lemma own_frame_outcome:
  assumes q: "quiet C (ch_store s)" and C: "C = cc_crypto K"
    and n: "ce_sequence e = reached (ch_store s) (window_of e) + 1"
    and fresh: "rs_records (ch_store s) (identity_of e) = None"
    and run: "own_frame K route e d (s\<lparr>ch_store := (ch_store s)\<lparr>rs_claims := [identity_of e \<mapsto> d]\<rparr>\<rparr>) = (res, s')"
  shows "quiet C (ch_store s') \<and> ch_routed s' = ch_routed s @ [e] \<and>
    ((\<exists>x. res = Inl x) \<and> ch_store s' = ch_store s \<or>
     (\<exists>r. res = Inr (ir_frame r) \<and> ir_request_sha r = d \<and> valid_record C r (identity_of e) \<and>
        rs_records (ch_store s') = (rs_records (ch_store s))(identity_of e \<mapsto> r)))"
proof -
  let ?S = "ch_store s" and ?i = "identity_of e"
  let ?S1 = "?S\<lparr>rs_claims := [?i \<mapsto> d]\<rparr>"
  let ?s1 = "s\<lparr>ch_store := ?S1\<rparr>"
  have i: "?i = (window_of e, ce_sequence e)" by (simp add: identity_of_def)
  have inv: "store_inv C ?S" and none: "rs_claims ?S = Map.empty" using q by (simp_all add: quiet_def)
  have inv1: "store_inv C ?S1"
    using inv none n unfolding store_inv_def i by (auto split: if_splits)
  obtain out s2 where ri: "route_and_install K route e d ?s1 = (out, s2)"
    by (cases "route_and_install K route e d ?s1")
  have "rs_records (ch_store ?s1) ?i = None" using fresh by simp
  note cases = route_and_install_cases [OF ri this]
  show ?thesis
  proof (cases out)
    case (Inl x)
    have s2: "ch_store s2 = ?S1" "ch_routed s2 = ch_routed s @ [e]" using cases Inl by auto
    have ab: "abort (window_of e) (ce_sequence e) d (ch_store s2) = ?S"
      using none by (simp add: s2 abort_def i)
    have "res = Inl x \<and> s' = s2\<lparr>ch_store := ?S\<rparr>"
      using run ri Inl by (simp add: own_frame_def Let_def bindE_def catchE_def thenE_def modifyE_def raiseE_def ab)
    with q s2 show ?thesis by simp
  next
    case (Inr r)
    have r: "valid_record C r ?i" "ir_request_sha r = d" "ch_routed s2 = ch_routed s @ [e]"
      "ch_store s2 = ?S1\<lparr>rs_records := (rs_records ?S)(?i \<mapsto> r)\<rparr>"
      using cases Inr C by auto
    have cl: "rs_claims (ch_store s2) (window_of e, ce_sequence e) = Some d" by (simp add: r i)
    have eq: "res = Inr (ir_frame r) \<and> s' = s2\<lparr>ch_store := committed (window_of e) (ce_sequence e) d r (ch_store s2)\<rparr>"
      using run ri Inr commit_ok [OF cl]
      by (simp add: own_frame_def Let_def bindE_def catchE_def thenE_def returnE_def)
    have "store_inv C (ch_store s2)"
      using install_inv [OF inv1, of "window_of e" "ce_sequence e" r] r(1,2) by (simp add: r(4) i)
    then have "store_inv C (ch_store s')"
      using commit_inv [OF _ cl, of C r] eq by (simp add: r(4) i)
    moreover have "rs_claims (ch_store s') = Map.empty" using eq by (simp add: r(4) i fun_eq_iff)
    ultimately show ?thesis using r eq by (auto simp: quiet_def)
  qed
qed

lemma receive_outcome:
  assumes q: "quiet (cc_crypto K) (ch_store s)" and run: "receive K route frame s = (res, s')"
  obtains (same) x where "s' = s" "res = Inl x"
  | (replay) e r where "s' = s" "admit K frame = Inr e" "rs_records (ch_store s) (identity_of e) = Some r"
      "ir_request_sha r = frame_digest (cc_crypto K) frame" "res = Inr (ir_frame r)"
  | (failed) e x where "admit K frame = Inr e" "res = Inl x" "ch_store s' = ch_store s" "ch_routed s' = ch_routed s @ [e]"
  | (routed) e r where "admit K frame = Inr e" "res = Inr (ir_frame r)" "ir_request_sha r = frame_digest (cc_crypto K) frame"
      "rs_records (ch_store s) (identity_of e) = None" "rs_records (ch_store s') = (rs_records (ch_store s))(identity_of e \<mapsto> r)"
      "ch_routed s' = ch_routed s @ [e]" "quiet (cc_crypto K) (ch_store s')"
proof (cases "admit K frame")
  case (Inl x)
  with run have "s' = s" "res = Inl x" by (simp_all add: receive_def bindE_def liftE_def)
  then show thesis by (rule same)
next
  case (Inr e)
  let ?C = "cc_crypto K" and ?d = "frame_digest (cc_crypto K) frame"
  obtain c S where c: "claim ?C (window_of e) (ce_sequence e) ?d (ch_store s) = (c, S)"
    by (cases "claim ?C (window_of e) (ce_sequence e) ?d (ch_store s)")
  have inv: "store_inv ?C (ch_store s)" and none: "rs_claims (ch_store s) = Map.empty"
    using q by (simp_all add: quiet_def)
  have i: "identity_of e = (window_of e, ce_sequence e)" by (simp add: identity_of_def)
  have run': "(case c of Replay r \<Rightarrow> returnE (ir_frame r)
      | Conflict \<Rightarrow> raiseE (ChannelRejected ''sequence_reuse_with_different_bytes'')
      | Inconsistent \<Rightarrow> raiseE (ChannelRejected ''historical_receipt_inconsistent'')
      | Mismatch \<Rightarrow> raiseE (ChannelRejected ''sequence_mismatch'')
      | Wait \<Rightarrow> raiseE (ChannelRejected ''waiting'')
      | Owner \<Rightarrow> own_frame K route e ?d) (s\<lparr>ch_store := S\<rparr>) = (res, s')"
    using run c by (simp add: receive_def Inr liftE_def bindE_def Let_def)
  from inv c show thesis
  proof (cases rule: claim_cases)
    case own
    have "own_frame K route e ?d (s\<lparr>ch_store := (ch_store s)\<lparr>rs_claims := [identity_of e \<mapsto> ?d]\<rparr>\<rparr>) = (res, s')"
      using run' own none by (simp add: i Let_def)
    from own_frame_outcome [OF q refl own(4) _ this] own(3) Inr show thesis
      by (auto simp: i intro: failed routed)
  next
    case (replay r)
    with run' Inr show thesis by (intro that(2) [of e r]) (simp_all add: i returnE_def Let_def)
  next
    case conflict
    with run' show thesis by (auto simp: raiseE_def intro: same)
  next
    case mismatch
    with run' show thesis by (auto simp: raiseE_def intro: same)
  next
    case low
    with run' show thesis by (auto simp: raiseE_def intro: same)
  next
    case wait
    with run' show thesis by (auto simp: raiseE_def intro: same)
  qed
qed

text \<open>Any number of calls after each other, with any frames and any routes.\<close>

inductive receive_run :: "channel_codec \<Rightarrow> channel_state \<Rightarrow> channel_state \<Rightarrow> bool" for K where
  receive_start: "receive_run K s s"
| receive_next: "receive_run K s s' \<Longrightarrow> receive_run K s (snd (receive K route frame s'))"

definition empty_channel :: channel_state where
  "empty_channel = \<lparr>ch_store = empty_store, ch_routed = []\<rparr>"

lemma quiet_empty: "quiet C (ch_store empty_channel)"
  by (simp add: quiet_def empty_channel_def empty_store_inv) (simp add: empty_store_def)

lemma receive_quiet:
  assumes "quiet (cc_crypto K) (ch_store s)"
  shows "quiet (cc_crypto K) (ch_store (snd (receive K route frame s)))"
    and "rs_records (ch_store s) i = Some r \<Longrightarrow> rs_records (ch_store (snd (receive K route frame s))) i = Some r"
proof -
  obtain res s' where run: "receive K route frame s = (res, s')" by (cases "receive K route frame s")
  show "quiet (cc_crypto K) (ch_store (snd (receive K route frame s)))"
    by (rule receive_outcome [OF assms run]) (use assms run in simp_all)
  show "rs_records (ch_store (snd (receive K route frame s))) i = Some r" if "rs_records (ch_store s) i = Some r"
    by (rule receive_outcome [OF assms run]) (use that run in auto)
qed

lemma receive_run_quiet:
  "receive_run K s s' \<Longrightarrow> quiet (cc_crypto K) (ch_store s) \<Longrightarrow> quiet (cc_crypto K) (ch_store s')"
  by (induction rule: receive_run.induct) (auto intro: receive_quiet)

lemma receive_run_records:
  "receive_run K s s' \<Longrightarrow> quiet (cc_crypto K) (ch_store s) \<Longrightarrow> rs_records (ch_store s) i = Some r \<Longrightarrow>
     rs_records (ch_store s') i = Some r"
  by (induction rule: receive_run.induct) (auto intro: receive_quiet receive_run_quiet)

text \<open>A recorded frame is answered from its record.\<close>

lemma receive_recorded:
  assumes q: "quiet (cc_crypto K) (ch_store s)" and "admit K frame = Inr e"
    and rec: "rs_records (ch_store s) (identity_of e) = Some r" "ir_request_sha r = frame_digest (cc_crypto K) frame"
  shows "receive K route frame s = (Inr (ir_frame r), s)"
proof -
  have i: "identity_of e = (window_of e, ce_sequence e)" by (simp add: identity_of_def)
  have r: "valid_record (cc_crypto K) r (identity_of e)" "ce_sequence e \<le> reached (ch_store s) (window_of e)" "1 \<le> ce_sequence e"
    using quiet_record [OF q] rec(1) by (auto simp: i)
  have "rs_claims (ch_store s) (identity_of e) = None" using q by (simp add: quiet_def)
  then have "claim (cc_crypto K) (window_of e) (ce_sequence e) (frame_digest (cc_crypto K) frame) (ch_store s) = (Replay r, ch_store s)"
    using r rec by (auto simp: claim_def i reached_def split: option.splits prod.splits)
  then show ?thesis
    using assms(2) by (simp add: receive_def liftE_def bindE_def returnE_def Let_def)
qed

text \<open>C9. Exactly once: once a frame has been answered, every later delivery of the same bytes, after any
  other deliveries and whatever the route would do, gets the same receipt back, routes nothing and
  leaves the channel as it is.\<close>

theorem channel_replay_idempotent:
  assumes "receive_run K empty_channel s" and answered: "receive K route frame s = (Inr out, s1)"
    and "receive_run K s1 s2"
  shows "receive K route' frame s2 = (Inr out, s2)"
proof -
  let ?C = "cc_crypto K"
  have q: "quiet ?C (ch_store s)" using receive_run_quiet [OF assms(1) quiet_empty] .
  have q1: "quiet ?C (ch_store s1)" using receive_quiet(1) [OF q, of route frame] answered by simp
  have "\<exists>e r. admit K frame = Inr e \<and> rs_records (ch_store s1) (identity_of e) = Some r \<and>
      ir_request_sha r = frame_digest ?C frame \<and> out = ir_frame r"
    by (rule receive_outcome [OF q answered]) auto
  then obtain e r where e: "admit K frame = Inr e" "rs_records (ch_store s1) (identity_of e) = Some r"
      "ir_request_sha r = frame_digest ?C frame" "out = ir_frame r"
    by blast
  have "rs_records (ch_store s2) (identity_of e) = Some r" by (rule receive_run_records [OF assms(3) q1 e(2)])
  from receive_recorded [OF receive_run_quiet [OF assms(3) q1] e(1) this e(3)] e(4) show ?thesis by simp
qed

text \<open>A failed delivery can be repeated: whatever a call raises (a refused frame, a sequence
  mismatch, an exception of the route, an invalid receipt), the receipt store is exactly as before.\<close>

theorem channel_failure_atomic:
  assumes "receive_run K empty_channel s" and "receive K route frame s = (Inl x, s')"
  shows "ch_store s' = ch_store s"
proof -
  have "quiet (cc_crypto K) (ch_store s)" using receive_run_quiet [OF assms(1) quiet_empty] .
  then show ?thesis by (rule receive_outcome [OF _ assms(2)]) simp_all
qed

lemma install_ok:
  fixes C :: crypto
  assumes "p \<noteq> []" and "float_free (JObj p)" and "digest \<noteq> []" and "rs_records S i = None"
  defines "r \<equiv> \<lparr>ir_request_sha = digest, ir_id = receipt_id C i digest, ir_frame = canonical_bytes C (JObj p), ir_identity = i\<rparr>"
  shows "install_or_get C i digest (Pending p) S = (Inr r, S\<lparr>rs_records := (rs_records S)(i \<mapsto> r)\<rparr>) \<and> valid_record C r i"
proof -
  have parse: "parse_json_bytes C (canonical_bytes C (JObj p)) = Some (JObj (sorted_fields p))"
    using parse_canonical [OF assms(2), of C] by (simp add: sorted_fields_json del: canonical_bytes.simps sorted_json.simps)
  have "sorted_fields p \<noteq> []" using assms(1) keys_sorted_fields [of p] by auto
  moreover have "canonical_bytes C (JObj p) \<noteq> []" by simp
  ultimately have "valid_record C r i"
    using assms(3) parse canonical_sorted_fields [of C p] by (simp add: valid_record_def r_def del: canonical_bytes.simps)
  then show ?thesis
    using assms(1,4) parse by (simp add: install_or_get_def Let_def r_def del: canonical_bytes.simps)
qed

lemma receive_delivers:
  assumes run: "receive_run K empty_channel s" and adm: "admit K frame = Inr e"
    and pred: "\<forall>m. 1 \<le> m \<and> m < ce_sequence e \<longrightarrow> rs_records (ch_store s) (window_of e, m) \<noteq> None"
    and fresh: "rs_records (ch_store s) (window_of e, ce_sequence e) = None" and pos: "1 \<le> ce_sequence e"
    and route: "route (ch_routed s) e = Pending p" "p \<noteq> []" "float_free (JObj p)"
    and digest: "frame_digest (cc_crypto K) frame \<noteq> []"
  shows "\<exists>s' r. receive K route frame s = (Inr (canonical_bytes (cc_crypto K) (JObj p)), s') \<and>
    ch_routed s' = ch_routed s @ [e] \<and>
    lookup (window_of e, ce_sequence e) (frame_digest (cc_crypto K) frame) (ch_store s') = Some r \<and>
    ir_frame r = canonical_bytes (cc_crypto K) (JObj p)"
proof -
  let ?C = "cc_crypto K" and ?d = "frame_digest (cc_crypto K) frame" and ?S = "ch_store s" and ?i = "identity_of e"
  have i: "?i = (window_of e, ce_sequence e)" by (simp add: identity_of_def)
  have q: "quiet ?C ?S" using receive_run_quiet [OF run quiet_empty] .
  have inv: "store_inv ?C ?S" and none: "rs_claims ?S = Map.empty" using q by (simp_all add: quiet_def)
  have n: "ce_sequence e = reached ?S (window_of e) + 1"
  proof (rule antisym)
    show "ce_sequence e \<le> reached ?S (window_of e) + 1"
    proof (rule ccontr)
      assume "\<not> ?thesis"
      with pred have "rs_records ?S (window_of e, reached ?S (window_of e) + 1) \<noteq> None"
        using store_invD(1) [OF inv, of "window_of e"] by auto
      then obtain r where "rs_records ?S (window_of e, reached ?S (window_of e) + 1) = Some r" by blast
      from quiet_record [OF q this] show False by simp
    qed
    show "reached ?S (window_of e) + 1 \<le> ce_sequence e"
      using store_invD(2) [OF inv pos, of "window_of e"] fresh by force
  qed
  define s1 where "s1 = s\<lparr>ch_store := ?S\<lparr>rs_claims := [?i \<mapsto> ?d]\<rparr>\<rparr>"
  have c: "claim ?C (window_of e) (ce_sequence e) ?d ?S = (Owner, ?S\<lparr>rs_claims := [?i \<mapsto> ?d]\<rparr>)"
    using n none store_invD(1) [OF inv, of "window_of e"]
    by (auto simp: claim_def reached_def i split: option.splits prod.splits)
  define r where "r = \<lparr>ir_request_sha = ?d, ir_id = receipt_id ?C ?i ?d, ir_frame = canonical_bytes ?C (JObj p), ir_identity = ?i\<rparr>"
  let ?S2 = "?S\<lparr>rs_claims := [?i \<mapsto> ?d], rs_records := (rs_records ?S)(?i \<mapsto> r)\<rparr>"
  have inst: "install_or_get ?C ?i ?d (Pending p) (ch_store s1) = (Inr r, ?S2)" "valid_record ?C r ?i"
    using install_ok [OF route(2,3) digest, of "ch_store s1" ?i ?C] fresh by (simp_all add: r_def s1_def i)
  have "route_and_install K route e ?d s1 = (Inr r, s1\<lparr>ch_routed := ch_routed s @ [e], ch_store := ?S2\<rparr>)"
    using inst route(1) unfolding i
    by (simp add: route_and_install_def Let_def bindE_def getsE_def thenE_def modifyE_def returnE_def s1_def r_def)
  moreover have "commit (window_of e) (ce_sequence e) ?d r ?S2 = (Inr (), committed (window_of e) (ce_sequence e) ?d r ?S2)"
    by (rule commit_ok) (simp add: i)
  ultimately have "own_frame K route e ?d s1 = (Inr (ir_frame r),
      s1\<lparr>ch_routed := ch_routed s @ [e], ch_store := committed (window_of e) (ce_sequence e) ?d r ?S2\<rparr>)"
    by (simp add: own_frame_def Let_def bindE_def catchE_def thenE_def returnE_def)
  then have "receive K route frame s = (Inr (ir_frame r),
      s1\<lparr>ch_routed := ch_routed s @ [e], ch_store := committed (window_of e) (ce_sequence e) ?d r ?S2\<rparr>)"
    using adm c by (simp add: receive_def liftE_def bindE_def Let_def s1_def)
  then show ?thesis
    by (simp add: lookup_def i r_def)
qed

text \<open>C11. Delivery succeeds: an admitted frame that is the next of its window, when its route returns
  a non-empty receipt that has a canonical form, is routed once and answered with exactly the
  canonical bytes of that receipt, which the store can look up from then on.\<close>

theorem channel_delivers:
  assumes run: "receive_run K empty_channel s" and adm: "admit K frame = Inr e"
    and pred: "\<forall>m. 1 \<le> m \<and> m < ce_sequence e \<longrightarrow> rs_records (ch_store s) (window_of e, m) \<noteq> None"
    and fresh: "rs_records (ch_store s) (window_of e, ce_sequence e) = None" and pos: "1 \<le> ce_sequence e"
    and route: "route (ch_routed s) e = Pending p" "p \<noteq> []" "float_free (JObj p)"
    and digest: "frame_digest (cc_crypto K) frame \<noteq> []"
  shows "\<exists>s' r. receive K route frame s = (Inr (canonical_bytes (cc_crypto K) (JObj p)), s') \<and>
    ch_routed s' = ch_routed s @ [e] \<and>
    lookup (window_of e, ce_sequence e) (frame_digest (cc_crypto K) frame) (ch_store s') = Some r \<and>
    ir_frame r = canonical_bytes (cc_crypto K) (JObj p)"
  using assms by (rule receive_delivers)

end
