(* ===== verification/ChannelProps.thy ===== *)
theory ChannelProps
  imports ChannelSpec
begin

text \<open>
  The channel under concurrent callers, and a concrete codec on which the properties of the channel
  are applied: its frame is built by \<open>encode\<close>, admitted, routed, installed and replayed.
\<close>

subsection \<open>Concurrency\<close>

abbreviation channel_reachable :: "channel_codec \<Rightarrow> channel_world \<Rightarrow> bool" where
  "channel_reachable K W \<equiv> (channel_step K)\<^sup>*\<^sup>* empty_world W"

lemma reachable_receivers:
  "channel_reachable K W \<Longrightarrow> receivers_inv (cc_crypto K) (ch_store (cw_state W)) (cw_receivers W)"
  using channel_run_inv [of K empty_world W] empty_world_inv by (simp add: world_inv_def)

text \<open>C8. Concurrent deliveries: in every reachable state of any number of concurrent callers, each
  window's receipts are valid and numbered from 1 without a gap; at most one caller holds a claim in a
  window; a caller with an installed receipt can always commit it; and whoever finished with an answer
  was given the frame of a recorded receipt.\<close>

theorem channel_concurrent_safety:
  assumes reach: "channel_reachable K W"
  shows "(\<forall>w n r m. rs_records (ch_store (cw_state W)) (w, n) = Some r \<longrightarrow> valid_record (cc_crypto K) r (w, n) \<and>
            (1 \<le> m \<and> m \<le> n \<longrightarrow> rs_records (ch_store (cw_state W)) (w, m) \<noteq> None)) \<and>
    (\<forall>t u x y i j d d'. cw_receivers W t = Some x \<and> cw_receivers W u = Some y \<and> holds x = Some (i, d) \<and>
            holds y = Some (j, d') \<and> fst i = fst j \<longrightarrow> t = u) \<and>
    (\<forall>t e d r. cw_receivers W t = Some (Installed e d r) \<longrightarrow>
            fst (commit (window_of e) (ce_sequence e) d r (ch_store (cw_state W))) = Inr ()) \<and>
    (\<forall>t out. cw_receivers W t = Some (Finished (Inr out)) \<longrightarrow>
            (\<exists>i r. rs_records (ch_store (cw_state W)) i = Some r \<and> ir_frame r = out))"
proof (intro conjI allI impI)
  note I = reachable_receivers [OF reach]
  note D = receivers_invD [OF I] and S = store_invD [OF receivers_invD(1) [OF I]]
  fix w n r m assume a: "rs_records (ch_store (cw_state W)) (w, n) = Some r"
  show "valid_record (cc_crypto K) r (w, n)" by (rule S(3) [OF a])
  assume m: "1 \<le> m \<and> m \<le> n"
  show "rs_records (ch_store (cw_state W)) (w, m) \<noteq> None"
  proof (cases "m = n")
    case False
    then have "m \<le> reached (ch_store (cw_state W)) w" using S(5) [OF a] m by linarith
    then show ?thesis using S(2) m by blast
  qed (use a in simp)
next
  note I = reachable_receivers [OF reach]
  note D = receivers_invD [OF I] and S = store_invD [OF receivers_invD(1) [OF I]]
  fix t u x y i j d d'
  assume a: "cw_receivers W t = Some x \<and> cw_receivers W u = Some y \<and> holds x = Some (i, d) \<and> holds y = Some (j, d') \<and> fst i = fst j"
  obtain w n where i: "i = (w, n)" by (cases i)
  obtain k where j: "j = (w, k)" using a i by (cases j) auto
  have "rs_claims (ch_store (cw_state W)) (w, n) = Some d" "rs_claims (ch_store (cw_state W)) (w, k) = Some d'"
    using D(2) [of t x i d] D(2) [of u y j d'] a i j by blast+
  then have "n = k" using S(6) by metis
  then show "t = u" using D(3) [of t x u y i d d'] a i j by blast
next
  note I = reachable_receivers [OF reach]
  fix t e d r assume "cw_receivers W t = Some (Installed e d r)"
  from receivers_invD(2) [OF I this, of "identity_of e" d]
  show "fst (commit (window_of e) (ce_sequence e) d r (ch_store (cw_state W))) = Inr ()"
    by (simp add: identity_of_def commit_def)
next
  fix t out assume "cw_receivers W t = Some (Finished (Inr out))"
  then show "\<exists>i r. rs_records (ch_store (cw_state W)) i = Some r \<and> ir_frame r = out"
    by (rule receivers_invD(7) [OF reachable_receivers [OF reach]])
qed

text \<open>Once a receipt is installed it is never rewritten, and its sequence number is never routed
  again, whatever frames arrive and in whatever order the callers take their steps.\<close>

theorem channel_receipt_final:
  assumes reach: "channel_reachable K W" and rec: "rs_records (ch_store (cw_state W)) i = Some r"
    and later: "(channel_step K)\<^sup>*\<^sup>* W W'"
  shows "rs_records (ch_store (cw_state W')) i = Some r \<and> routed_count i W' = routed_count i W"
  using later
proof (induction rule: rtranclp_induct)
  case base
  then show ?case using rec by simp
next
  case (step V V')
  have "world_inv K V"
    using channel_run_inv [of K empty_world V] empty_world_inv reach step.hyps(1) by (meson rtranclp_trans)
  with channel_step_recorded [OF step.hyps(2)] step.IH show ?case by auto
qed

subsection \<open>A concrete channel for the witnesses\<close>

definition demo_hash :: crypto where
  "demo_hash = \<lparr>sha256 = (\<lambda>s. zero_digest), hmac256 = (\<lambda>k m. zero_digest), repr_float = (\<lambda>r. ''0.0''), read_float = (\<lambda>s. None)\<rparr>"

definition demo_codec :: channel_codec where
  "demo_codec = \<lparr>cc_crypto = demo_hash, cc_as_int = (\<lambda>v. case v of JInt i \<Rightarrow> Some i | _ \<Rightarrow> None),
     cc_material = \<lparr>ck_nonce = ''nonce'', ck_channel = CANDIDATE, ck_configuration_id = ''A'', ck_sender = ''agentteams'',
       ck_recipient = ''broker'', ck_direction = ''request'', ck_epoch = 1, ck_key_id = ''key'', ck_secret = ''secret''\<rparr>,
     cc_methods = [(CANDIDATE, [''candidate.propose''])]\<rparr>"

definition demo_payload :: "(string \<times> json) list" where
  "demo_payload = [(''proposal_id'', JStr ''p'')]"

definition demo_encoded :: "string option" where
  "demo_encoded = encode demo_codec CANDIDATE ''agentteams'' ''broker'' ''request'' None None 1 ''candidate.propose''
     ''idem'' demo_payload"

definition demo_frame :: string where
  "demo_frame = the demo_encoded"

lemma demo_encoded: "demo_encoded = Some demo_frame"
proof -
  have "demo_encoded \<noteq> None"
    using zero_hex
    by (simp add: demo_encoded_def encode_def Let_def envelope_valid_def demo_codec_def configuration_ids_def roles_def
        directions_def payload_digest_def domain_digest_def demo_hash_def)
  then show ?thesis by (auto simp: demo_frame_def)
qed

lemma zero_escaped_length: "length (concat (map escape_char zero_digest)) = 64"
proof -
  have "escape_char (CHR ''0'') = [CHR ''0'']" by (simp add: escape_char_def)
  then show ?thesis by (simp add: zero_digest_def)
qed

definition demo_envelope :: channel_envelope where
  "demo_envelope = \<lparr>ce_channel = CANDIDATE, ce_configuration_id = ''A'', ce_sender = ''agentteams'', ce_recipient = ''broker'',
     ce_direction = ''request'', ce_key_id = ''key'', ce_nonce = ''nonce'', ce_epoch = 1, ce_sequence = 1,
     ce_method = ''candidate.propose'', ce_idempotency_key = ''idem'', ce_payload_sha256 = zero_digest, ce_payload = demo_payload\<rparr>"

lemma demo_frame_of: "demo_frame = frame_of demo_codec demo_envelope"
  using demo_encoded
  by (simp add: demo_encoded_def encode_def Let_def demo_codec_def demo_envelope_def payload_digest_def domain_digest_def
      demo_hash_def split: if_splits)

lemma demo_frame_length: "length demo_frame \<le> max_frame_bytes"
proof -
  have "length (frame_of demo_codec demo_envelope) \<le> 2000"
    by (simp add: Let_def demo_codec_def frame_of_def envelope_json_def envelope_mac_def demo_envelope_def
        demo_hash_def demo_payload_def field_str_def quote_str_def zero_escaped_length)
      (simp add: escape_char_def dec_int_def dec.simps)
  then show ?thesis by (simp add: max_frame_bytes_def demo_frame_of)
qed

theorem channel_honest_frame_admitted_witness:
  "\<exists>e. admit demo_codec demo_frame = Inr e \<and> ce_sequence e = 1 \<and> ce_method e = ''candidate.propose''"
proof -
  have "if max_frame_bytes < length demo_frame then admit demo_codec demo_frame = Inl (ChannelRejected ''frame_too_large'')
    else \<exists>e. admit demo_codec demo_frame = Inr e \<and> ce_sequence e = 1 \<and> ce_method e = ''candidate.propose'' \<and>
    ce_idempotency_key e = ''idem'' \<and> JObj (ce_payload e) = sorted_json (JObj demo_payload) \<and>
    window_of e = (CANDIDATE, ck_configuration_id (cc_material demo_codec), ''agentteams'', ''broker'', ''request'',
      ck_key_id (cc_material demo_codec), ck_epoch (cc_material demo_codec))"
    by (rule channel_honest_frame_admitted [OF demo_encoded [unfolded demo_encoded_def]])
      (simp_all add: demo_codec_def demo_payload_def demo_hash_def zero_hex)
  with demo_frame_length show ?thesis by (auto simp: not_less [symmetric])
qed

lemma demo_admitted: "\<exists>e. admit demo_codec demo_frame = Inr e \<and> ce_sequence e = 1"
proof -
  have "decode demo_codec demo_frame = Inr (demo_envelope\<lparr>ce_payload := sorted_fields (ce_payload demo_envelope)\<rparr>,
      envelope_mac demo_codec demo_envelope)"
    unfolding demo_frame_of
  proof (rule decode_frame_of)
    show "envelope_valid demo_envelope"
      using zero_hex by (simp add: envelope_valid_def demo_envelope_def configuration_ids_def roles_def directions_def)
    then show "envelope_texts_ok demo_envelope"
      by (rule envelope_texts) (simp_all add: demo_envelope_def demo_payload_def)
    show "length (frame_of demo_codec demo_envelope) \<le> max_frame_bytes"
      using demo_frame_length by (simp add: demo_frame_of)
  qed (simp_all add: demo_codec_def envelope_mac_def demo_hash_def zero_hex)
  then have "admit demo_codec demo_frame = Inr (demo_envelope\<lparr>ce_payload := sorted_fields (ce_payload demo_envelope)\<rparr>)"
    by (simp add: admit_def verify_guards_def Let_def)
      (simp add: demo_codec_def demo_envelope_def payload_digest_def domain_digest_def demo_hash_def envelope_mac_def)
  then show ?thesis by (simp add: demo_envelope_def)
qed

definition demo_route :: "channel_envelope list \<Rightarrow> channel_envelope \<Rightarrow> route_result" where
  "demo_route sent e = Pending [(''receipt'', JStr ''ok'')]"

lemma demo_frame_digest: "frame_digest (cc_crypto demo_codec) frame = zero_digest" "zero_digest \<noteq> []"
  by (simp_all add: frame_digest_def demo_codec_def demo_hash_def zero_digest_def)

theorem channel_delivers_witness:
  "\<exists>s'. receive demo_codec demo_route demo_frame empty_channel =
     (Inr (canonical_bytes demo_hash (JObj [(''receipt'', JStr ''ok'')])), s') \<and> length (ch_routed s') = 1"
proof -
  obtain e where e: "admit demo_codec demo_frame = Inr e" "ce_sequence e = 1" using demo_admitted by blast
  have "\<exists>s' r. receive demo_codec demo_route demo_frame empty_channel =
      (Inr (canonical_bytes (cc_crypto demo_codec) (JObj [(''receipt'', JStr ''ok'')])), s') \<and>
    ch_routed s' = ch_routed empty_channel @ [e] \<and>
    lookup (window_of e, ce_sequence e) (frame_digest (cc_crypto demo_codec) demo_frame) (ch_store s') = Some r \<and>
    ir_frame r = canonical_bytes (cc_crypto demo_codec) (JObj [(''receipt'', JStr ''ok'')])"
    by (rule channel_delivers [OF receive_start e(1)])
      (use e(2) demo_frame_digest in \<open>simp_all add: empty_channel_def empty_store_def demo_route_def\<close>)
  then show ?thesis by (auto simp: demo_codec_def empty_channel_def)
qed

lemma demo_received: "\<exists>out s'. receive demo_codec demo_route demo_frame empty_channel = (Inr out, s')"
proof -
  obtain e where e: "admit demo_codec demo_frame = Inr e" "ce_sequence e = 1" using demo_admitted by blast
  have "\<exists>s' r. receive demo_codec demo_route demo_frame empty_channel =
      (Inr (canonical_bytes (cc_crypto demo_codec) (JObj [(''receipt'', JStr ''ok'')])), s') \<and>
    ch_routed s' = ch_routed empty_channel @ [e] \<and>
    lookup (window_of e, ce_sequence e) (frame_digest (cc_crypto demo_codec) demo_frame) (ch_store s') = Some r \<and>
    ir_frame r = canonical_bytes (cc_crypto demo_codec) (JObj [(''receipt'', JStr ''ok'')])"
    by (rule receive_delivers [OF receive_start e(1)])
      (use e(2) demo_frame_digest in \<open>simp_all add: empty_channel_def empty_store_def demo_route_def\<close>)
  then show ?thesis by blast
qed

theorem channel_replay_idempotent_witness:
  "\<exists>out s'. receive demo_codec demo_route demo_frame empty_channel = (Inr out, s') \<and>
     receive demo_codec (\<lambda>_ _. NotPending) demo_frame s' = (Inr out, s')"
proof -
  obtain out s' where "receive demo_codec demo_route demo_frame empty_channel = (Inr out, s')"
    using demo_received by blast
  from this channel_replay_idempotent [OF receive_start this receive_start] show ?thesis by blast
qed

theorem channel_failure_atomic_witness:
  "\<exists>x s'. receive demo_codec (\<lambda>_ _. RouteRaises ''boom'') demo_frame empty_channel = (Inl x, s') \<and>
     ch_store s' = empty_store \<and> length (ch_routed s') = 1"
proof -
  obtain e where e: "admit demo_codec demo_frame = Inr e" "ce_sequence e = 1" using demo_admitted by blast
  then have "claim (cc_crypto demo_codec) (window_of e) (ce_sequence e) d empty_store =
      (Owner, empty_store\<lparr>rs_claims := [identity_of e \<mapsto> d]\<rparr>)" for d
    by (simp add: claim_def empty_store_def identity_of_def)
  then have "\<exists>s'. receive demo_codec (\<lambda>_ _. RouteRaises ''boom'') demo_frame empty_channel = (Inl (RouteError ''boom''), s') \<and>
      length (ch_routed s') = 1"
    by (simp add: receive_def e bindE_def liftE_def Let_def empty_channel_def own_frame_def route_and_install_def getsE_def
        thenE_def modifyE_def raiseE_def catchE_def)
  then obtain s' where s': "receive demo_codec (\<lambda>_ _. RouteRaises ''boom'') demo_frame empty_channel = (Inl (RouteError ''boom''), s')"
    "length (ch_routed s') = 1" by blast
  have "ch_store s' = ch_store empty_channel"
    by (rule channel_failure_atomic [OF receive_start s'(1)])
  with s' show ?thesis by (auto simp: empty_channel_def)
qed

text \<open>Two callers deliver the same frame: the first routes, the second waits.\<close>

lemma demo_world:
  "\<exists>W e. channel_reachable demo_codec W \<and> cw_receivers W 0 = Some (Routing e zero_digest) \<and>
     cw_receivers W 2 = Some (Waiting e zero_digest) \<and>
     ch_store (cw_state W) = empty_store\<lparr>rs_claims := [identity_of e \<mapsto> zero_digest]\<rparr> \<and> ch_routed (cw_state W) = []"
proof -
  obtain e where e: "admit demo_codec demo_frame = Inr e" "ce_sequence e = 1" using demo_admitted by blast
  define W1 where "W1 = claim_world demo_codec 0 e zero_digest empty_world"
  define W2 where "W2 = claim_world demo_codec 2 e zero_digest W1"
  have W1: "W1 = \<lparr>cw_state = \<lparr>ch_store = empty_store\<lparr>rs_claims := [identity_of e \<mapsto> zero_digest]\<rparr>, ch_routed = []\<rparr>,
     cw_receivers = [0 \<mapsto> Routing e zero_digest]\<rparr>"
    using e(2) by (simp add: W1_def claim_world_def empty_world_def claim_def empty_store_def after_claim_def identity_of_def)
  have W2: "W2 = W1\<lparr>cw_receivers := [0 \<mapsto> Routing e zero_digest, 2 \<mapsto> Waiting e zero_digest]\<rparr>"
    unfolding W2_def W1 by (simp add: claim_world_def claim_def after_claim_def identity_of_def)
  have "channel_step demo_codec empty_world W1"
    using step_arrive [OF e(1), of 0 empty_world] by (simp add: empty_world_def W1_def demo_frame_digest)
  moreover have "channel_step demo_codec W1 W2"
    using step_arrive [OF e(1), of 2 W1] by (simp add: W2_def demo_frame_digest) (simp add: W1)
  ultimately have "channel_reachable demo_codec W2" by (meson converse_rtranclp_into_rtranclp r_into_rtranclp)
  then show ?thesis by (intro exI [of _ W2] exI [of _ e]) (simp add: W2 W1)
qed

theorem channel_concurrent_safety_witness:
  "\<exists>(W :: channel_world) e d. cw_receivers W 0 = Some (Routing e d) \<and> cw_receivers W 2 = Some (Waiting e d) \<and>
     (\<forall>u d'. cw_receivers W u = Some (Routing e d') \<longrightarrow> 0 = u)"
proof -
  obtain W e where W: "channel_reachable demo_codec W" "cw_receivers W 0 = Some (Routing e zero_digest)"
    "cw_receivers W 2 = Some (Waiting e zero_digest)"
    using demo_world by blast
  have h: "holds (Routing e d') = Some (identity_of e, d')" for d' by simp
  have "\<forall>u d'. cw_receivers W u = Some (Routing e d') \<longrightarrow> 0 = u"
    using channel_concurrent_safety [OF W(1), THEN conjunct2, THEN conjunct1] W(2) h by blast
  with W(2,3) show ?thesis by (intro exI [of _ W] exI [of _ e] exI [of _ zero_digest]) simp
qed

lemma demo_installed:
  "\<exists>W i r. channel_reachable demo_codec W \<and> rs_records (ch_store (cw_state W)) i = Some r \<and> routed_count i W = 1"
proof -
  obtain W e where W: "channel_reachable demo_codec W" "cw_receivers W 0 = Some (Routing e zero_digest)"
    "ch_store (cw_state W) = empty_store\<lparr>rs_claims := [identity_of e \<mapsto> zero_digest]\<rparr>" "ch_routed (cw_state W) = []"
    using demo_world by blast
  obtain res s where ri: "route_and_install demo_codec demo_route e zero_digest (cw_state W) = (res, s)"
    by (cases "route_and_install demo_codec demo_route e zero_digest (cw_state W)")
  have nr: "rs_records (ch_store (cw_state W)) (identity_of e) = None" by (simp add: W(3) empty_store_def)
  let ?r = "\<lparr>ir_request_sha = zero_digest, ir_id = receipt_id (cc_crypto demo_codec) (identity_of e) zero_digest,
     ir_frame = canonical_bytes (cc_crypto demo_codec) (JObj [(''receipt'', JStr ''ok'')]), ir_identity = identity_of e\<rparr>"
  have "install_or_get (cc_crypto demo_codec) (identity_of e) zero_digest (Pending [(''receipt'', JStr ''ok'')]) (ch_store (cw_state W)) =
      (Inr ?r, (ch_store (cw_state W))\<lparr>rs_records := (rs_records (ch_store (cw_state W)))(identity_of e \<mapsto> ?r)\<rparr>) \<and>
      valid_record (cc_crypto demo_codec) ?r (identity_of e)"
    by (rule install_ok) (use nr in \<open>simp_all add: zero_digest_def\<close>)
  then have "res = Inr ?r"
    using ri by (auto simp: route_and_install_def Let_def bindE_def getsE_def thenE_def modifyE_def returnE_def
        demo_route_def identity_of_def)
  define V where "V = \<lparr>cw_state = s, cw_receivers = (cw_receivers W)(0 \<mapsto> Installed e zero_digest ?r)\<rparr>"
  have step: "channel_step demo_codec W V"
    unfolding V_def by (rule step_installed [OF W(2)]) (use ri \<open>res = Inr ?r\<close> in simp)
  have reach: "channel_reachable demo_codec V"
    using W(1) step by (rule rtranclp.rtrancl_into_rtrancl)
  from route_and_install_cases [OF ri nr] \<open>res = Inr ?r\<close>
  have "rs_records (ch_store (cw_state V)) (identity_of e) = Some ?r" "routed_count (identity_of e) V = 1"
    using W(4) by (auto simp: V_def routed_count_def)
  with reach show ?thesis by blast
qed

theorem channel_receipt_final_witness:
  "\<exists>W i r. rs_records (ch_store (cw_state W)) i = Some r \<and> routed_count i W = 1 \<and>
     (\<forall>W'. (channel_step demo_codec)\<^sup>*\<^sup>* W W' \<longrightarrow> rs_records (ch_store (cw_state W')) i = Some r)"
proof -
  obtain W i r where W: "channel_reachable demo_codec W" "rs_records (ch_store (cw_state W)) i = Some r" "routed_count i W = 1"
    using demo_installed by blast
  with channel_receipt_final [OF W(1,2)] show ?thesis
    by (intro exI [of _ W] exI [of _ i] exI [of _ r]) simp
qed

end
