(* ===== verification/JsonRead.thy ===== *)
theory JsonRead
  imports Canonical "HOL-Library.Monad_Syntax"
begin

text \<open>
  Reading a model from a JSON value, as Pydantic's \<open>model_validate\<close> does: one combinator per kind of
  field, shared by the models of the control plane and of the RXP protocol.
\<close>

text \<open>\<open>len(s)\<close> counts code points: the bytes that do not continue a UTF-8 sequence.\<close>

definition str_len :: "string \<Rightarrow> nat" where
  "str_len s = length (filter (\<lambda>c. let n = of_char c :: nat in n < 128 \<or> 192 \<le> n) s)"

definition as_obj :: "string list \<Rightarrow> json \<Rightarrow> (string \<times> json) list option" where
  "as_obj ks j = (case j of JObj kvs \<Rightarrow> if set (keys kvs) \<subseteq> set ks then Some kvs else None | _ \<Rightarrow> None)"

definition as_str :: "json \<Rightarrow> string option" where
  "as_str j = (case j of JStr s \<Rightarrow> Some s | _ \<Rightarrow> None)"

definition as_int :: "json \<Rightarrow> int option" where
  "as_int j = (case j of JInt i \<Rightarrow> Some i | _ \<Rightarrow> None)"

definition as_rat :: "json \<Rightarrow> rat option" where
  "as_rat j = (case j of JFloat r \<Rightarrow> Some r | JInt i \<Rightarrow> Some (of_int i) | _ \<Rightarrow> None)"

definition as_dict :: "json \<Rightarrow> (string \<times> json) list option" where
  "as_dict j = (case j of JObj kvs \<Rightarrow> Some kvs | _ \<Rightarrow> None)"

fun all_some :: "('a \<Rightarrow> 'b option) \<Rightarrow> 'a list \<Rightarrow> 'b list option" where
  "all_some f [] = Some []"
| "all_some f (x # xs) = do { y \<leftarrow> f x; ys \<leftarrow> all_some f xs; Some (y # ys) }"

definition as_list :: "(json \<Rightarrow> 'a option) \<Rightarrow> json \<Rightarrow> 'a list option" where
  "as_list f j = (case j of JList xs \<Rightarrow> all_some f xs | _ \<Rightarrow> None)"

definition need :: "bool \<Rightarrow> unit option" where
  "need b = (if b then Some () else None)"

definition field :: "(string \<times> json) list \<Rightarrow> string \<Rightarrow> (json \<Rightarrow> 'a option) \<Rightarrow> 'a option" where
  "field kvs k f = Option.bind (dict_get kvs k) f"

definition as_opt_str :: "json \<Rightarrow> string option option" where
  "as_opt_str j = (case j of JNull \<Rightarrow> Some None | JStr s \<Rightarrow> Some (Some s) | _ \<Rightarrow> None)"

definition default_dict :: "(string \<times> json) list \<Rightarrow> string \<Rightarrow> (string \<times> json) list option" where
  "default_dict kvs k = (case dict_get kvs k of None \<Rightarrow> Some [] | Some j \<Rightarrow> as_dict j)"

end
