(* ===== verification/Domain.thy ===== *)
theory Domain
  imports JsonRead
begin

text \<open>
  The data of the control plane (\<open>apps/api/models.py\<close>) and its errors
  (\<open>apps/api/errors.py\<close>).

  Each Pydantic model is a record, each string enumeration a datatype with the function that
  gives its \<open>value\<close>, and \<open>model_dump(mode="json")\<close> a function to \<open>json\<close>. A field validator is
  part of the predicate \<open>..._ok\<close> of its model; the service builds and reads records that
  satisfy it. A \<open>datetime\<close> is the number of microseconds since the epoch; how
  \<open>isoformat\<close> and Pydantic spell it are parameters of \<open>api_env\<close>, as are the clock, the
  random identifiers and the binary floating-point rounding that the evaluator uses.
\<close>

subsection \<open>Errors\<close>

text \<open>The code of a control-plane error, without its message and details.\<close>

datatype api_error =
    ConflictError string
  | is_PolicyError: PolicyError string
  | NotFoundError string string
  | ControlPlaneError string
  | ValueError string
  | TypeError string
  | IntegrityError string
  | RuntimeError string

definition error_code :: "api_error \<Rightarrow> string option" where
  "error_code e = (case e of ConflictError c \<Rightarrow> Some c | PolicyError c \<Rightarrow> Some c
     | NotFoundError r i \<Rightarrow> Some ''not_found'' | ControlPlaneError c \<Rightarrow> Some c | _ \<Rightarrow> None)"

definition status_code :: "api_error \<Rightarrow> int option" where
  "status_code e = (case e of ConflictError c \<Rightarrow> Some 409 | PolicyError c \<Rightarrow> Some 403
     | NotFoundError r i \<Rightarrow> Some 404 | ControlPlaneError c \<Rightarrow> Some 400 | _ \<Rightarrow> None)"

subsection \<open>The environment\<close>

record api_env = crypto +
  iso_time :: "int \<Rightarrow> string"
  dump_time :: "int \<Rightarrow> string"
  clock :: "nat \<Rightarrow> int"
  uuid_hex :: "nat \<Rightarrow> string"
  token_urlsafe :: "nat \<Rightarrow> string"
  fl :: "rat \<Rightarrow> rat"
  round6 :: "rat \<Rightarrow> rat"
  randrange :: "int \<Rightarrow> nat \<Rightarrow> nat \<Rightarrow> nat"
  hmac_secret :: "string option"
  gpu_config_bytes :: string

subsection \<open>Enumerations\<close>

datatype stage = INTAKE | CONTEXT | PLAN | PLAN_REVIEW | APPROVAL | EXECUTE | OBSERVE
  | EVALUATE | VERIFY | DECIDE | ARCHIVE | MEMORY_SKILL | COMPLETED

fun stage_value :: "stage \<Rightarrow> string" where
  "stage_value INTAKE = ''INTAKE''"
| "stage_value CONTEXT = ''CONTEXT''"
| "stage_value PLAN = ''PLAN''"
| "stage_value PLAN_REVIEW = ''PLAN_REVIEW''"
| "stage_value APPROVAL = ''APPROVAL''"
| "stage_value EXECUTE = ''EXECUTE''"
| "stage_value OBSERVE = ''OBSERVE''"
| "stage_value EVALUATE = ''EVALUATE''"
| "stage_value VERIFY = ''VERIFY''"
| "stage_value DECIDE = ''DECIDE''"
| "stage_value ARCHIVE = ''ARCHIVE''"
| "stage_value MEMORY_SKILL = ''MEMORY_SKILL''"
| "stage_value COMPLETED = ''COMPLETED''"

definition all_stages :: "stage list" where
  "all_stages = [INTAKE, CONTEXT, PLAN, PLAN_REVIEW, APPROVAL, EXECUTE, OBSERVE, EVALUATE,
     VERIFY, DECIDE, ARCHIVE, MEMORY_SKILL, COMPLETED]"

text \<open>\<open>Stage(s)\<close>.\<close>

definition stage_of :: "string \<Rightarrow> stage option" where
  "stage_of s = List.find (\<lambda>x. stage_value x = s) all_stages"

lemma stage_of_value [simp]: "stage_of (stage_value x) = Some x"
  by (cases x) (simp_all add: stage_of_def all_stages_def)

datatype risk_level = R0 | R1 | R2 | R3

fun risk_value :: "risk_level \<Rightarrow> string" where
  "risk_value R0 = ''R0''" | "risk_value R1 = ''R1''"
| "risk_value R2 = ''R2''" | "risk_value R3 = ''R3''"

datatype approval_status = PENDING | APPROVED | DENIED | EXPIRED | CONSUMED

fun approval_value :: "approval_status \<Rightarrow> string" where
  "approval_value PENDING = ''pending''" | "approval_value APPROVED = ''approved''"
| "approval_value DENIED = ''denied''" | "approval_value EXPIRED = ''expired''"
| "approval_value CONSUMED = ''consumed''"

datatype evidence_kind = CODE | CONFIG | DATASET_MANIFEST | LOG | METRIC | TRACE | REVIEW

fun kind_value :: "evidence_kind \<Rightarrow> string" where
  "kind_value CODE = ''code''" | "kind_value CONFIG = ''config''"
| "kind_value DATASET_MANIFEST = ''dataset_manifest''" | "kind_value LOG = ''log''"
| "kind_value METRIC = ''metric''" | "kind_value TRACE = ''trace''"
| "kind_value REVIEW = ''review''"

datatype gate_status = NOT_RUN | PASS | FAIL

fun gate_value :: "gate_status \<Rightarrow> string" where
  "gate_value NOT_RUN = ''not_run''" | "gate_value PASS = ''pass''" | "gate_value FAIL = ''fail''"

datatype verdict = V_PASS | V_FAIL | V_INCONCLUSIVE

fun verdict_value :: "verdict \<Rightarrow> string" where
  "verdict_value V_PASS = ''PASS''" | "verdict_value V_FAIL = ''FAIL''"
| "verdict_value V_INCONCLUSIVE = ''INCONCLUSIVE''"

datatype direction = Higher_Better | Lower_Better

fun direction_value :: "direction \<Rightarrow> string" where
  "direction_value Higher_Better = ''higher_better''"
| "direction_value Lower_Better = ''lower_better''"

datatype scenario = Happy_Path | Insufficient_Evidence | External_Live

fun scenario_value :: "scenario \<Rightarrow> string" where
  "scenario_value Happy_Path = ''happy_path''"
| "scenario_value Insufficient_Evidence = ''insufficient_evidence''"
| "scenario_value External_Live = ''external_live''"

text \<open>Risk levels are ordered by severity; evidence kinds by their value, as \<open>sorted\<close> does.\<close>

fun risk_rank :: "risk_level \<Rightarrow> nat" where
  "risk_rank R0 = 0" | "risk_rank R1 = 1" | "risk_rank R2 = 2" | "risk_rank R3 = 3"

lemma risk_rank_inject [simp]: "risk_rank a = risk_rank b \<longleftrightarrow> a = b"
  by (cases a; cases b) simp_all

instantiation risk_level :: linorder
begin

definition less_eq_risk_level :: "risk_level \<Rightarrow> risk_level \<Rightarrow> bool" where
  "less_eq_risk_level a b \<longleftrightarrow> risk_rank a \<le> risk_rank b"

definition less_risk_level :: "risk_level \<Rightarrow> risk_level \<Rightarrow> bool" where
  "less_risk_level a b \<longleftrightarrow> risk_rank a < risk_rank b"

instance
proof
  fix x y :: risk_level
  assume "x \<le> y" and "y \<le> x"
  then have "risk_rank x = risk_rank y" by (simp add: less_eq_risk_level_def)
  then show "x = y" by simp
qed (auto simp: less_eq_risk_level_def less_risk_level_def)

end

definition all_kinds :: "evidence_kind list" where
  "all_kinds = [CODE, CONFIG, DATASET_MANIFEST, LOG, METRIC, REVIEW, TRACE]"

lemma all_kinds_complete [simp]: "k \<in> set all_kinds"
  by (cases k) (simp_all add: all_kinds_def)

text \<open>\<open>sorted(kinds, key=lambda kind: kind.value)\<close> of a set of kinds.\<close>

definition sorted_kinds :: "evidence_kind list \<Rightarrow> evidence_kind list" where
  "sorted_kinds ks = filter (\<lambda>k. k \<in> set ks) all_kinds"

lemma set_sorted_kinds [simp]: "set (sorted_kinds ks) = set ks"
  by (auto simp: sorted_kinds_def)

lemma all_kinds_sorted: "sorted_wrt (\<lambda>a b. kind_value a < kind_value b) all_kinds"
  by (simp add: all_kinds_def less_char_def of_char_def)

subsection \<open>Goals, manifests and contracts\<close>

text \<open>\<open>value.lower()\<close> and the check that what is left is a SHA-256 digest.\<close>

definition lower_char :: "char \<Rightarrow> char" where
  "lower_char c = (let n = of_char c :: nat in if 65 \<le> n \<and> n \<le> 90 then char_of (n + 32) else c)"

definition norm_digest :: "string \<Rightarrow> string option" where
  "norm_digest s = (let v = map lower_char s in if is_sha256_digest v then Some v else None)"

record candidate_arm =
  arm_id :: string
  arm_name :: string
  arm_description :: string

record acceptance_metric =
  am_name :: string
  am_direction :: direction
  am_threshold :: rat
  am_unit :: string
  am_rule :: string

record research_goal =
  g_objective :: string
  g_frozen :: bool
  g_hardware :: string
  g_constraints :: "(string \<times> json) list"
  g_acceptance_metrics :: "acceptance_metric list"
  g_candidate_arms :: "candidate_arm list"

definition arm_json :: "candidate_arm \<Rightarrow> json" where
  "arm_json a = JObj [(''id'', JStr (arm_id a)), (''name'', JStr (arm_name a)),
     (''description'', JStr (arm_description a))]"

definition acceptance_json :: "acceptance_metric \<Rightarrow> json" where
  "acceptance_json m = JObj [(''name'', JStr (am_name m)),
     (''direction'', JStr (direction_value (am_direction m))), (''threshold'', JFloat (am_threshold m)),
     (''unit'', JStr (am_unit m)), (''rule'', JStr (am_rule m))]"

definition goal_json :: "research_goal \<Rightarrow> json" where
  "goal_json g = JObj [(''objective'', JStr (g_objective g)), (''frozen'', JBool (g_frozen g)),
     (''hardware'', JStr (g_hardware g)), (''constraints'', JObj (g_constraints g)),
     (''acceptance_metrics'', JList (map acceptance_json (g_acceptance_metrics g))),
     (''candidate_arms'', JList (map arm_json (g_candidate_arms g)))]"

record run_manifest =
  rm_git_commit :: string
  rm_config_sha256 :: string
  rm_dataset_manifest_sha256 :: string
  rm_environment_lock_sha256 :: string
  rm_base_model_sha256 :: string
  rm_seed :: int

definition run_manifest_ok :: "run_manifest \<Rightarrow> bool" where
  "run_manifest_ok m \<longleftrightarrow> is_sha256_digest (rm_config_sha256 m)
     \<and> is_sha256_digest (rm_dataset_manifest_sha256 m)
     \<and> is_sha256_digest (rm_environment_lock_sha256 m) \<and> is_sha256_digest (rm_base_model_sha256 m)"

definition run_manifest_json :: "run_manifest \<Rightarrow> json" where
  "run_manifest_json m = JObj [(''git_commit'', JStr (rm_git_commit m)),
     (''config_sha256'', JStr (rm_config_sha256 m)),
     (''dataset_manifest_sha256'', JStr (rm_dataset_manifest_sha256 m)),
     (''environment_lock_sha256'', JStr (rm_environment_lock_sha256 m)),
     (''base_model_sha256'', JStr (rm_base_model_sha256 m)), (''seed'', JInt (rm_seed m))]"

record live_source =
  ls_source :: string
  ls_team :: string
  ls_trace_id :: string
  ls_correlation_id :: string
  ls_context_version :: int
  ls_origin_authentication :: string

definition live_source_ok :: "live_source \<Rightarrow> bool" where
  "live_source_ok l \<longleftrightarrow> ls_source l = ''agentteams''
     \<and> 1 \<le> str_len (ls_team l) \<and> str_len (ls_team l) \<le> 160
     \<and> 8 \<le> str_len (ls_trace_id l) \<and> str_len (ls_trace_id l) \<le> 200
     \<and> 8 \<le> str_len (ls_correlation_id l) \<and> str_len (ls_correlation_id l) \<le> 200
     \<and> 1 \<le> ls_context_version l
     \<and> ls_origin_authentication l = ''UNVERIFIED_OPERATOR_ASSERTION''"

definition live_source_json :: "live_source \<Rightarrow> json" where
  "live_source_json l = JObj [(''source'', JStr (ls_source l)), (''team'', JStr (ls_team l)),
     (''trace_id'', JStr (ls_trace_id l)), (''correlation_id'', JStr (ls_correlation_id l)),
     (''context_version'', JInt (ls_context_version l)),
     (''origin_authentication'', JStr (ls_origin_authentication l))]"

record execution_contract =
  x_action :: string
  x_config_sha256 :: string
  x_action_payload :: "(string \<times> json) list"
  x_rollback_point :: "string option"
  x_approval_ttl_seconds :: int

definition execution_contract_ok :: "execution_contract \<Rightarrow> bool" where
  "execution_contract_ok x \<longleftrightarrow> 3 \<le> str_len (x_action x) \<and> str_len (x_action x) \<le> 200
     \<and> is_sha256_digest (x_config_sha256 x)
     \<and> (case x_rollback_point x of None \<Rightarrow> True | Some r \<Rightarrow> 8 \<le> str_len r \<and> str_len r \<le> 2000)
     \<and> 1 \<le> x_approval_ttl_seconds x \<and> x_approval_ttl_seconds x \<le> 900
     \<and> dict_get (x_action_payload x) ''config_sha256'' = Some (JStr (x_config_sha256 x))
     \<and> dict_get (x_action_payload x) ''synthetic'' = Some (JBool False)"

definition execution_contract_json :: "execution_contract \<Rightarrow> json" where
  "execution_contract_json x = JObj [(''action'', JStr (x_action x)),
     (''config_sha256'', JStr (x_config_sha256 x)), (''action_payload'', JObj (x_action_payload x)),
     (''rollback_point'', opt_json JStr (x_rollback_point x)),
     (''approval_ttl_seconds'', JInt (x_approval_ttl_seconds x))]"

subsection \<open>Evaluations and receipts\<close>

record evaluation =
  ev_metric :: string
  ev_direction :: direction
  ev_baseline_mean :: rat
  ev_candidate_mean :: rat
  ev_mean_delta :: rat
  ev_relative_delta :: rat
  ev_ci95 :: "rat list"
  ev_threshold :: rat
  ev_verdict :: verdict
  ev_bootstrap_seed :: int
  ev_bootstrap_samples :: int
  ev_sample_count :: int
  ev_data_classification :: string

definition evaluation_ok :: "evaluation \<Rightarrow> bool" where
  "evaluation_ok r \<longleftrightarrow> length (ev_ci95 r) = 2 \<and> 100 \<le> ev_bootstrap_samples r \<and> 1 \<le> ev_sample_count r"

definition evaluation_json :: "evaluation \<Rightarrow> json" where
  "evaluation_json r = JObj [(''metric'', JStr (ev_metric r)),
     (''direction'', JStr (direction_value (ev_direction r))),
     (''baseline_mean'', JFloat (ev_baseline_mean r)), (''candidate_mean'', JFloat (ev_candidate_mean r)),
     (''mean_delta'', JFloat (ev_mean_delta r)), (''relative_delta'', JFloat (ev_relative_delta r)),
     (''ci95'', JList (map JFloat (ev_ci95 r))), (''threshold'', JFloat (ev_threshold r)),
     (''verdict'', JStr (verdict_value (ev_verdict r))), (''bootstrap_seed'', JInt (ev_bootstrap_seed r)),
     (''bootstrap_samples'', JInt (ev_bootstrap_samples r)), (''sample_count'', JInt (ev_sample_count r)),
     (''data_classification'', JStr (ev_data_classification r))]"

record receipt =
  rc_source :: string
  rc_operation :: string
  rc_method :: string
  rc_endpoint :: string
  rc_http_status :: int
  rc_request_sha256 :: string
  rc_response_sha256 :: string
  rc_response_identifier :: "string option"

definition receipt_ok :: "receipt \<Rightarrow> bool" where
  "receipt_ok r \<longleftrightarrow> rc_source r \<in> {''agentteams'', ''matrix'', ''gpu'', ''egoagentos''}
     \<and> 2 \<le> str_len (rc_operation r) \<and> str_len (rc_operation r) \<le> 200
     \<and> rc_method r \<in> {''GET'', ''POST'', ''PUT'', ''PATCH'', ''DELETE''}
     \<and> 1 \<le> str_len (rc_endpoint r) \<and> str_len (rc_endpoint r) \<le> 2000
     \<and> 100 \<le> rc_http_status r \<and> rc_http_status r \<le> 599
     \<and> is_sha256_digest (rc_request_sha256 r) \<and> is_sha256_digest (rc_response_sha256 r)
     \<and> (case rc_response_identifier r of None \<Rightarrow> True | Some i \<Rightarrow> str_len i \<le> 1000)"

definition receipt_json :: "receipt \<Rightarrow> json" where
  "receipt_json r = JObj [(''source'', JStr (rc_source r)), (''operation'', JStr (rc_operation r)),
     (''method'', JStr (rc_method r)), (''endpoint'', JStr (rc_endpoint r)),
     (''http_status'', JInt (rc_http_status r)), (''request_sha256'', JStr (rc_request_sha256 r)),
     (''response_sha256'', JStr (rc_response_sha256 r)),
     (''response_identifier'', opt_json JStr (rc_response_identifier r))]"

record artifact_ref =
  ar_uri :: string
  ar_media_type :: string
  ar_content_sha256 :: string
  ar_size_bytes :: int

definition artifact_ref_ok :: "artifact_ref \<Rightarrow> bool" where
  "artifact_ref_ok a \<longleftrightarrow> 1 \<le> str_len (ar_uri a) \<and> str_len (ar_uri a) \<le> 4000
     \<and> 1 \<le> str_len (ar_media_type a) \<and> str_len (ar_media_type a) \<le> 200
     \<and> is_sha256_digest (ar_content_sha256 a) \<and> 0 \<le> ar_size_bytes a"

definition artifact_ref_json :: "artifact_ref \<Rightarrow> json" where
  "artifact_ref_json a = JObj [(''uri'', JStr (ar_uri a)), (''media_type'', JStr (ar_media_type a)),
     (''content_sha256'', JStr (ar_content_sha256 a)), (''size_bytes'', JInt (ar_size_bytes a))]"

subsection \<open>Evidence payloads\<close>

record artifact_payload =
  ap_stage :: stage
  ap_artifact :: artifact_ref
  ap_receipts :: "receipt list"
  ap_attributes :: "(string \<times> json) list"

record raw_series =
  rs_baseline :: "rat list"
  rs_candidate :: "rat list"

record metric_payload =
  mp_artifact :: artifact_ref
  mp_receipts :: "receipt list"
  mp_evaluator :: string
  mp_evaluator_sha256 :: string
  mp_raw_samples :: "(string \<times> raw_series) list"
  mp_raw_metric_digest :: string
  mp_results :: "evaluation list"
  mp_attributes :: "(string \<times> json) list"

record review_payload =
  rv_artifact :: artifact_ref
  rv_receipts :: "receipt list"
  rv_reviewer_id :: string
  rv_reviewed_producers :: "string list"
  rv_passed :: bool
  rv_reviewed_evidence_digests :: "string list"
  rv_findings :: "(string \<times> json) list list"
  rv_attributes :: "(string \<times> json) list"

text \<open>
  The fields whose type is a single literal (\<open>schema\<close>, \<open>deterministic\<close>, \<open>summary_only\<close>,
  \<open>independent\<close>, \<open>synthetic\<close>, the stage of a metric or a review) carry no information and appear
  in the JSON only.
\<close>

datatype ext_payload =
    ArtifactPayload artifact_payload
  | MetricPayload metric_payload
  | ReviewPayload review_payload

definition raw_series_ok :: "raw_series \<Rightarrow> bool" where
  "raw_series_ok r \<longleftrightarrow> rs_baseline r \<noteq> [] \<and> rs_candidate r \<noteq> []
     \<and> length (rs_baseline r) = length (rs_candidate r)"

definition raw_series_json :: "raw_series \<Rightarrow> json" where
  "raw_series_json r = JObj [(''baseline'', JList (map JFloat (rs_baseline r))),
     (''candidate'', JList (map JFloat (rs_candidate r)))]"

definition raw_samples_json :: "(string \<times> raw_series) list \<Rightarrow> json" where
  "raw_samples_json rs = JObj (map (\<lambda>(k, r). (k, raw_series_json r)) rs)"

definition artifact_payload_fields :: "artifact_payload \<Rightarrow> (string \<times> json) list" where
  "artifact_payload_fields p = [(''schema'', JStr ''egoagentos.external-artifact-evidence/v1''),
     (''stage'', JStr (stage_value (ap_stage p))), (''artifact'', artifact_ref_json (ap_artifact p)),
     (''receipts'', JList (map receipt_json (ap_receipts p))), (''attributes'', JObj (ap_attributes p)),
     (''synthetic'', JBool False)]"

definition metric_payload_fields :: "metric_payload \<Rightarrow> (string \<times> json) list" where
  "metric_payload_fields p = [(''schema'', JStr ''egoagentos.external-metric-evidence/v1''),
     (''stage'', JStr ''EVALUATE''), (''artifact'', artifact_ref_json (mp_artifact p)),
     (''receipts'', JList (map receipt_json (mp_receipts p))), (''evaluator'', JStr (mp_evaluator p)),
     (''evaluator_sha256'', JStr (mp_evaluator_sha256 p)), (''deterministic'', JBool True),
     (''summary_only'', JBool False), (''raw_samples'', raw_samples_json (mp_raw_samples p)),
     (''raw_metric_digest'', JStr (mp_raw_metric_digest p)),
     (''results'', JList (map evaluation_json (mp_results p))), (''attributes'', JObj (mp_attributes p)),
     (''synthetic'', JBool False)]"

definition review_payload_fields :: "review_payload \<Rightarrow> (string \<times> json) list" where
  "review_payload_fields p = [(''schema'', JStr ''egoagentos.external-review-evidence/v1''),
     (''stage'', JStr ''VERIFY''), (''artifact'', artifact_ref_json (rv_artifact p)),
     (''receipts'', JList (map receipt_json (rv_receipts p))), (''reviewer_id'', JStr (rv_reviewer_id p)),
     (''reviewed_producers'', JList (map JStr (rv_reviewed_producers p))), (''independent'', JBool True),
     (''verdict'', JStr (if rv_passed p then ''PASS'' else ''FAIL'')),
     (''reviewed_evidence_digests'', JList (map JStr (rv_reviewed_evidence_digests p))),
     (''findings'', JList (map JObj (rv_findings p))), (''attributes'', JObj (rv_attributes p)),
     (''synthetic'', JBool False)]"

text \<open>\<open>item.payload.model_dump(mode="json", by_alias=True)\<close>.\<close>

fun payload_fields :: "ext_payload \<Rightarrow> (string \<times> json) list" where
  "payload_fields (ArtifactPayload p) = artifact_payload_fields p"
| "payload_fields (MetricPayload p) = metric_payload_fields p"
| "payload_fields (ReviewPayload p) = review_payload_fields p"

fun payload_receipts :: "ext_payload \<Rightarrow> receipt list" where
  "payload_receipts (ArtifactPayload p) = ap_receipts p"
| "payload_receipts (MetricPayload p) = mp_receipts p"
| "payload_receipts (ReviewPayload p) = rv_receipts p"

fun payload_stage :: "ext_payload \<Rightarrow> stage" where
  "payload_stage (ArtifactPayload p) = ap_stage p"
| "payload_stage (MetricPayload p) = EVALUATE"
| "payload_stage (ReviewPayload p) = VERIFY"

fun payload_ok :: "ext_payload \<Rightarrow> bool" where
  "payload_ok (ArtifactPayload p) \<longleftrightarrow> ap_stage p \<in> {CONTEXT, PLAN, EXECUTE, OBSERVE}
     \<and> artifact_ref_ok (ap_artifact p) \<and> ap_receipts p \<noteq> [] \<and> list_all receipt_ok (ap_receipts p)"
| "payload_ok (MetricPayload p) \<longleftrightarrow> artifact_ref_ok (mp_artifact p) \<and> mp_receipts p \<noteq> []
     \<and> list_all receipt_ok (mp_receipts p) \<and> 2 \<le> str_len (mp_evaluator p) \<and> str_len (mp_evaluator p) \<le> 200
     \<and> is_sha256_digest (mp_evaluator_sha256 p) \<and> mp_raw_samples p \<noteq> []
     \<and> distinct (keys (mp_raw_samples p)) \<and> list_all (raw_series_ok \<circ> snd) (mp_raw_samples p)
     \<and> is_sha256_digest (mp_raw_metric_digest p) \<and> mp_results p \<noteq> [] \<and> list_all evaluation_ok (mp_results p)"
| "payload_ok (ReviewPayload p) \<longleftrightarrow> artifact_ref_ok (rv_artifact p) \<and> rv_receipts p \<noteq> []
     \<and> list_all receipt_ok (rv_receipts p) \<and> 2 \<le> str_len (rv_reviewer_id p)
     \<and> str_len (rv_reviewer_id p) \<le> 200 \<and> rv_reviewed_producers p \<noteq> []
     \<and> rv_reviewed_evidence_digests p \<noteq> [] \<and> list_all is_sha256_digest (rv_reviewed_evidence_digests p)"

subsection \<open>Reading payloads back\<close>

text \<open>
  \<open>model_validate\<close> on a stored payload: unknown keys are forbidden, required keys must be there,
  every value must have its type and pass its validators. A number written without a fraction is
  accepted for a float. The other coercions of Pydantic's lax mode (a numeric string for a number)
  do not apply to a payload that was itself dumped from a model, and are rejected here.
\<close>

definition as_digest :: "json \<Rightarrow> string option" where
  "as_digest j = Option.bind (as_str j) norm_digest"

definition read_artifact_ref :: "json \<Rightarrow> artifact_ref option" where
  "read_artifact_ref j = do {
     kvs \<leftarrow> as_obj [''uri'', ''media_type'', ''content_sha256'', ''size_bytes''] j;
     uri \<leftarrow> field kvs ''uri'' as_str;
     media \<leftarrow> field kvs ''media_type'' as_str;
     sha \<leftarrow> field kvs ''content_sha256'' as_digest;
     size \<leftarrow> field kvs ''size_bytes'' as_int;
     let a = \<lparr>ar_uri = uri, ar_media_type = media, ar_content_sha256 = sha, ar_size_bytes = size\<rparr>;
     need (artifact_ref_ok a);
     Some a }"

definition read_receipt :: "json \<Rightarrow> receipt option" where
  "read_receipt j = do {
     kvs \<leftarrow> as_obj [''source'', ''operation'', ''method'', ''endpoint'', ''http_status'',
       ''request_sha256'', ''response_sha256'', ''response_identifier''] j;
     source \<leftarrow> field kvs ''source'' as_str;
     operation \<leftarrow> field kvs ''operation'' as_str;
     method \<leftarrow> field kvs ''method'' as_str;
     endpoint \<leftarrow> field kvs ''endpoint'' as_str;
     status \<leftarrow> field kvs ''http_status'' as_int;
     request \<leftarrow> field kvs ''request_sha256'' as_digest;
     response \<leftarrow> field kvs ''response_sha256'' as_digest;
     identifier \<leftarrow> (case dict_get kvs ''response_identifier'' of None \<Rightarrow> Some None | Some v \<Rightarrow> as_opt_str v);
     let r = \<lparr>rc_source = source, rc_operation = operation, rc_method = method, rc_endpoint = endpoint,
       rc_http_status = status, rc_request_sha256 = request, rc_response_sha256 = response,
       rc_response_identifier = identifier\<rparr>;
     need (receipt_ok r);
     Some r }"

definition direction_of :: "string \<Rightarrow> direction option" where
  "direction_of s = (if s = ''higher_better'' then Some Higher_Better
     else if s = ''lower_better'' then Some Lower_Better else None)"

definition verdict_of :: "string \<Rightarrow> verdict option" where
  "verdict_of s = (if s = ''PASS'' then Some V_PASS else if s = ''FAIL'' then Some V_FAIL
     else if s = ''INCONCLUSIVE'' then Some V_INCONCLUSIVE else None)"

definition read_evaluation :: "json \<Rightarrow> evaluation option" where
  "read_evaluation j = do {
     kvs \<leftarrow> as_obj [''metric'', ''direction'', ''baseline_mean'', ''candidate_mean'', ''mean_delta'',
       ''relative_delta'', ''ci95'', ''threshold'', ''verdict'', ''bootstrap_seed'', ''bootstrap_samples'',
       ''sample_count'', ''data_classification''] j;
     metric \<leftarrow> field kvs ''metric'' as_str;
     dir \<leftarrow> field kvs ''direction'' (\<lambda>v. Option.bind (as_str v) direction_of);
     baseline \<leftarrow> field kvs ''baseline_mean'' as_rat;
     candidate \<leftarrow> field kvs ''candidate_mean'' as_rat;
     delta \<leftarrow> field kvs ''mean_delta'' as_rat;
     relative \<leftarrow> field kvs ''relative_delta'' as_rat;
     ci \<leftarrow> field kvs ''ci95'' (as_list as_rat);
     threshold \<leftarrow> field kvs ''threshold'' as_rat;
     verd \<leftarrow> field kvs ''verdict'' (\<lambda>v. Option.bind (as_str v) verdict_of);
     seed \<leftarrow> field kvs ''bootstrap_seed'' as_int;
     samples \<leftarrow> field kvs ''bootstrap_samples'' as_int;
     count \<leftarrow> field kvs ''sample_count'' as_int;
     classification \<leftarrow> field kvs ''data_classification'' as_str;
     let r = \<lparr>ev_metric = metric, ev_direction = dir, ev_baseline_mean = baseline,
       ev_candidate_mean = candidate, ev_mean_delta = delta, ev_relative_delta = relative, ev_ci95 = ci,
       ev_threshold = threshold, ev_verdict = verd, ev_bootstrap_seed = seed,
       ev_bootstrap_samples = samples, ev_sample_count = count,
       ev_data_classification = classification\<rparr>;
     need (evaluation_ok r);
     Some r }"

definition read_raw_series :: "json \<Rightarrow> raw_series option" where
  "read_raw_series j = do {
     kvs \<leftarrow> as_obj [''baseline'', ''candidate''] j;
     baseline \<leftarrow> field kvs ''baseline'' (as_list as_rat);
     candidate \<leftarrow> field kvs ''candidate'' (as_list as_rat);
     let r = \<lparr>rs_baseline = baseline, rs_candidate = candidate\<rparr>;
     need (raw_series_ok r);
     Some r }"

text \<open>The \<open>schema\<close> field may come under its alias or its name, or be absent.\<close>

definition schema_ok :: "string \<Rightarrow> (string \<times> json) list \<Rightarrow> bool" where
  "schema_ok v kvs = (case dict_get kvs ''schema'' of
       Some j \<Rightarrow> j = JStr v
     | None \<Rightarrow> (case dict_get kvs ''schema_name'' of Some j \<Rightarrow> j = JStr v | None \<Rightarrow> True))"

definition read_metric_payload :: "json \<Rightarrow> metric_payload option" where
  "read_metric_payload j = do {
     kvs \<leftarrow> as_obj [''schema'', ''schema_name'', ''stage'', ''artifact'', ''receipts'', ''evaluator'',
       ''evaluator_sha256'', ''deterministic'', ''summary_only'', ''raw_samples'', ''raw_metric_digest'',
       ''results'', ''attributes'', ''synthetic''] j;
     need (schema_ok ''egoagentos.external-metric-evidence/v1'' kvs
       \<and> dict_get kvs ''stage'' = Some (JStr ''EVALUATE'')
       \<and> dict_get kvs ''deterministic'' = Some (JBool True)
       \<and> dict_get kvs ''summary_only'' = Some (JBool False)
       \<and> dict_get kvs ''synthetic'' = Some (JBool False));
     artifact \<leftarrow> field kvs ''artifact'' read_artifact_ref;
     receipts \<leftarrow> field kvs ''receipts'' (as_list read_receipt);
     evaluator \<leftarrow> field kvs ''evaluator'' as_str;
     evaluator_sha \<leftarrow> field kvs ''evaluator_sha256'' as_digest;
     raw \<leftarrow> field kvs ''raw_samples'' (\<lambda>v. do {
       d \<leftarrow> as_dict v;
       all_some (\<lambda>kv. do { r \<leftarrow> read_raw_series (snd kv); Some (fst kv, r) }) d });
     raw_digest \<leftarrow> field kvs ''raw_metric_digest'' as_digest;
     results \<leftarrow> field kvs ''results'' (as_list read_evaluation);
     attributes \<leftarrow> default_dict kvs ''attributes'';
     let p = \<lparr>mp_artifact = artifact, mp_receipts = receipts, mp_evaluator = evaluator,
       mp_evaluator_sha256 = evaluator_sha, mp_raw_samples = raw, mp_raw_metric_digest = raw_digest,
       mp_results = results, mp_attributes = attributes\<rparr>;
     need (payload_ok (MetricPayload p));
     Some p }"

definition read_review_payload :: "json \<Rightarrow> review_payload option" where
  "read_review_payload j = do {
     kvs \<leftarrow> as_obj [''schema'', ''schema_name'', ''stage'', ''artifact'', ''receipts'', ''reviewer_id'',
       ''reviewed_producers'', ''independent'', ''verdict'', ''reviewed_evidence_digests'', ''findings'',
       ''attributes'', ''synthetic''] j;
     need (schema_ok ''egoagentos.external-review-evidence/v1'' kvs
       \<and> dict_get kvs ''stage'' = Some (JStr ''VERIFY'')
       \<and> dict_get kvs ''independent'' = Some (JBool True)
       \<and> dict_get kvs ''synthetic'' = Some (JBool False));
     artifact \<leftarrow> field kvs ''artifact'' read_artifact_ref;
     receipts \<leftarrow> field kvs ''receipts'' (as_list read_receipt);
     reviewer \<leftarrow> field kvs ''reviewer_id'' as_str;
     producers \<leftarrow> field kvs ''reviewed_producers'' (as_list as_str);
     verd \<leftarrow> field kvs ''verdict'' as_str;
     need (verd = ''PASS'' \<or> verd = ''FAIL'');
     digests \<leftarrow> field kvs ''reviewed_evidence_digests'' (as_list as_digest);
     findings \<leftarrow> (case dict_get kvs ''findings'' of None \<Rightarrow> Some [] | Some v \<Rightarrow> as_list as_dict v);
     attributes \<leftarrow> default_dict kvs ''attributes'';
     let p = \<lparr>rv_artifact = artifact, rv_receipts = receipts, rv_reviewer_id = reviewer,
       rv_reviewed_producers = producers, rv_passed = (verd = ''PASS''),
       rv_reviewed_evidence_digests = digests, rv_findings = findings, rv_attributes = attributes\<rparr>;
     need (payload_ok (ReviewPayload p));
     Some p }"

subsection \<open>Records of the control plane\<close>

record gate_result =
  gr_status :: gate_status
  gr_present :: "evidence_kind list"
  gr_missing :: "evidence_kind list"
  gr_reasons :: "string list"
  gr_independent_reviewer :: "string option"
  gr_checked_at :: int

definition gate_json :: "api_env \<Rightarrow> gate_result \<Rightarrow> json" where
  "gate_json E g = JObj [(''status'', JStr (gate_value (gr_status g))),
     (''present'', JList (map (JStr \<circ> kind_value) (gr_present g))),
     (''missing'', JList (map (JStr \<circ> kind_value) (gr_missing g))),
     (''reasons'', JList (map JStr (gr_reasons g))),
     (''independent_reviewer'', opt_json JStr (gr_independent_reviewer g)),
     (''checked_at'', JStr (dump_time E (gr_checked_at g)))]"

definition initial_gate :: "int \<Rightarrow> gate_result" where
  "initial_gate now = \<lparr>gr_status = NOT_RUN, gr_present = [], gr_missing = [], gr_reasons = [],
     gr_independent_reviewer = None, gr_checked_at = now\<rparr>"

record evidence_record =
  e_id :: string
  e_task_id :: string
  e_generation :: string
  e_kind :: evidence_kind
  e_producer_id :: string
  e_artifact_digest :: string
  e_payload :: "(string \<times> json) list"
  e_synthetic :: bool
  e_created_at :: int

definition evidence_json :: "api_env \<Rightarrow> evidence_record \<Rightarrow> json" where
  "evidence_json E r = JObj [(''id'', JStr (e_id r)), (''task_id'', JStr (e_task_id r)),
     (''generation'', JStr (e_generation r)), (''kind'', JStr (kind_value (e_kind r))),
     (''producer_id'', JStr (e_producer_id r)), (''artifact_digest'', JStr (e_artifact_digest r)),
     (''payload'', JObj (e_payload r)), (''synthetic'', JBool (e_synthetic r)),
     (''created_at'', JStr (dump_time E (e_created_at r)))]"

record approval_record =
  a_id :: string
  a_task_id :: string
  a_generation :: string
  a_status :: approval_status
  a_risk_level :: risk_level
  a_scope :: string
  a_action :: string
  a_action_digest :: string
  a_config_sha256 :: "string option"
  a_action_payload :: "(string \<times> json) list"
  a_rollback_point :: "string option"
  a_requested_at :: int
  a_expires_at :: int
  a_decided_at :: "int option"
  a_approver :: "string option"
  a_used_at :: "int option"
  a_token_hash :: "string option"

text \<open>The public view: every field but the token hash.\<close>

definition approval_public_json :: "api_env \<Rightarrow> approval_record \<Rightarrow> json" where
  "approval_public_json E a = JObj [(''id'', JStr (a_id a)), (''task_id'', JStr (a_task_id a)),
     (''generation'', JStr (a_generation a)), (''status'', JStr (approval_value (a_status a))),
     (''risk_level'', JStr (risk_value (a_risk_level a))), (''scope'', JStr (a_scope a)),
     (''action'', JStr (a_action a)), (''action_digest'', JStr (a_action_digest a)),
     (''config_sha256'', opt_json JStr (a_config_sha256 a)),
     (''action_payload'', JObj (a_action_payload a)),
     (''rollback_point'', opt_json JStr (a_rollback_point a)),
     (''requested_at'', JStr (dump_time E (a_requested_at a))),
     (''expires_at'', JStr (dump_time E (a_expires_at a))),
     (''decided_at'', opt_json (JStr \<circ> dump_time E) (a_decided_at a)),
     (''approver'', opt_json JStr (a_approver a)),
     (''used_at'', opt_json (JStr \<circ> dump_time E) (a_used_at a))]"

record task_record =
  t_id :: string
  t_generation :: string
  t_title :: string
  t_objective :: string
  t_stage :: stage
  t_risk_level :: risk_level
  t_goal :: research_goal
  t_scenario :: scenario
  t_synthetic_demo :: bool
  t_data_notice :: string
  t_owner_agent :: string
  t_current_agent :: string
  t_live_source :: "live_source option"
  t_execution_contract :: "execution_contract option"
  t_version :: int
  t_run_manifest_digest :: "string option"
  t_latest_evaluation :: "evaluation list"
  t_gate_result :: gate_result
  t_decision :: "string option"
  t_created_at :: int
  t_updated_at :: int

text \<open>The validator \<open>live_task_contract_is_explicit\<close>.\<close>

definition task_ok :: "task_record \<Rightarrow> bool" where
  "task_ok t \<longleftrightarrow> (\<not> t_synthetic_demo t \<longrightarrow>
     t_scenario t = External_Live \<and> t_live_source t \<noteq> None \<and> t_execution_contract t \<noteq> None)"

definition task_fields :: "api_env \<Rightarrow> task_record \<Rightarrow> (string \<times> json) list" where
  "task_fields E t = [(''id'', JStr (t_id t)), (''generation'', JStr (t_generation t)),
     (''title'', JStr (t_title t)), (''objective'', JStr (t_objective t)),
     (''stage'', JStr (stage_value (t_stage t))), (''risk_level'', JStr (risk_value (t_risk_level t))),
     (''goal'', goal_json (t_goal t)), (''scenario'', JStr (scenario_value (t_scenario t))),
     (''synthetic_demo'', JBool (t_synthetic_demo t)), (''data_notice'', JStr (t_data_notice t)),
     (''owner_agent'', JStr (t_owner_agent t)), (''current_agent'', JStr (t_current_agent t)),
     (''live_source'', opt_json live_source_json (t_live_source t)),
     (''execution_contract'', opt_json execution_contract_json (t_execution_contract t)),
     (''version'', JInt (t_version t)),
     (''run_manifest_digest'', opt_json JStr (t_run_manifest_digest t)),
     (''latest_evaluation'', JList (map evaluation_json (t_latest_evaluation t))),
     (''gate_result'', gate_json E (t_gate_result t)), (''decision'', opt_json JStr (t_decision t)),
     (''created_at'', JStr (dump_time E (t_created_at t))),
     (''updated_at'', JStr (dump_time E (t_updated_at t)))]"

record audit_event =
  v_sequence :: int
  v_id :: string
  v_task_id :: string
  v_generation :: string
  v_event_type :: string
  v_actor :: string
  v_stage :: "stage option"
  v_payload :: "(string \<times> json) list"
  v_previous_hash :: string
  v_event_hash :: string
  v_created_at :: int

definition event_json :: "api_env \<Rightarrow> audit_event \<Rightarrow> json" where
  "event_json E v = JObj [(''sequence'', JInt (v_sequence v)), (''id'', JStr (v_id v)),
     (''task_id'', JStr (v_task_id v)), (''generation'', JStr (v_generation v)),
     (''event_type'', JStr (v_event_type v)), (''actor'', JStr (v_actor v)),
     (''stage'', opt_json (JStr \<circ> stage_value) (v_stage v)), (''payload'', JObj (v_payload v)),
     (''previous_hash'', JStr (v_previous_hash v)), (''event_hash'', JStr (v_event_hash v)),
     (''created_at'', JStr (dump_time E (v_created_at v)))]"

record memory_signals =
  ms_semantic :: rat
  ms_component :: rat
  ms_evidence :: rat
  ms_recency :: rat
  ms_failure :: rat

definition signals_ok :: "memory_signals \<Rightarrow> bool" where
  "signals_ok m \<longleftrightarrow> (\<forall>x \<in> {ms_semantic m, ms_component m, ms_evidence m, ms_recency m, ms_failure m}.
     0 \<le> x \<and> x \<le> 1)"

datatype memory_type = Semantic | Episodic | Procedural

fun memory_type_value :: "memory_type \<Rightarrow> string" where
  "memory_type_value Semantic = ''semantic''"
| "memory_type_value Episodic = ''episodic''"
| "memory_type_value Procedural = ''procedural''"

record memory_candidate =
  mc_id :: string
  mc_task_id :: string
  mc_generation :: string
  mc_memory_type :: memory_type
  mc_statement :: string
  mc_component :: string
  mc_evidence_digest :: string
  mc_review_id :: string
  mc_proposed_by :: string
  mc_created_at :: int

definition candidate_json :: "api_env \<Rightarrow> memory_candidate \<Rightarrow> json" where
  "candidate_json E c = JObj [(''id'', JStr (mc_id c)), (''task_id'', JStr (mc_task_id c)),
     (''generation'', JStr (mc_generation c)),
     (''memory_type'', JStr (memory_type_value (mc_memory_type c))),
     (''statement'', JStr (mc_statement c)), (''component'', JStr (mc_component c)),
     (''evidence_digest'', JStr (mc_evidence_digest c)), (''review_id'', JStr (mc_review_id c)),
     (''proposed_by'', JStr (mc_proposed_by c)), (''status'', JStr ''candidate''),
     (''created_at'', JStr (dump_time E (mc_created_at c)))]"

record memory_record =
  mr_id :: string
  mr_task_id :: string
  mr_generation :: string
  mr_memory_type :: memory_type
  mr_statement :: string
  mr_component :: string
  mr_evidence_digest :: string
  mr_review_id :: string
  mr_validated :: bool
  mr_candidate_id :: "string option"
  mr_validated_by :: "string option"
  mr_created_at :: int

definition memory_json :: "api_env \<Rightarrow> memory_record \<Rightarrow> json" where
  "memory_json E m = JObj [(''id'', JStr (mr_id m)), (''task_id'', JStr (mr_task_id m)),
     (''generation'', JStr (mr_generation m)),
     (''memory_type'', JStr (memory_type_value (mr_memory_type m))),
     (''statement'', JStr (mr_statement m)), (''component'', JStr (mr_component m)),
     (''evidence_digest'', JStr (mr_evidence_digest m)), (''review_id'', JStr (mr_review_id m)),
     (''validated'', JBool (mr_validated m)), (''candidate_id'', opt_json JStr (mr_candidate_id m)),
     (''validated_by'', opt_json JStr (mr_validated_by m)),
     (''created_at'', JStr (dump_time E (mr_created_at m)))]"

subsection \<open>Requests\<close>

record create_request =
  cr_task_id :: string
  cr_title :: string
  cr_objective :: string
  cr_risk_level :: risk_level
  cr_goal :: research_goal
  cr_live_source :: live_source
  cr_execution_contract :: execution_contract
  cr_owner_agent :: string

definition task_id_char :: "char \<Rightarrow> bool" where
  "task_id_char c = (let n = of_char c :: nat in (48 \<le> n \<and> n \<le> 57) \<or> (65 \<le> n \<and> n \<le> 90) \<or> (97 \<le> n \<and> n \<le> 122))"

text \<open>The validators of \<open>CreateTaskRequest\<close>, with the pattern of \<open>task_id\<close> written out.\<close>

definition create_request_ok :: "create_request \<Rightarrow> bool" where
  "create_request_ok r \<longleftrightarrow> 3 \<le> str_len (cr_task_id r) \<and> str_len (cr_task_id r) \<le> 160
     \<and> task_id_char (hd (cr_task_id r))
     \<and> list_all (\<lambda>c. task_id_char c \<or> c \<in> {CHR ''.'', CHR ''_'', CHR ''-''}) (tl (cr_task_id r))
     \<and> 3 \<le> str_len (cr_title r) \<and> str_len (cr_title r) \<le> 300
     \<and> 8 \<le> str_len (cr_objective r) \<and> str_len (cr_objective r) \<le> 4000
     \<and> 2 \<le> str_len (cr_owner_agent r) \<and> str_len (cr_owner_agent r) \<le> 200
     \<and> live_source_ok (cr_live_source r) \<and> execution_contract_ok (cr_execution_contract r)
     \<and> cr_risk_level r \<in> {R2, R3}
     \<and> (cr_risk_level r = R3 \<longrightarrow> x_rollback_point (cr_execution_contract r) \<noteq> None)"

record ingest_item =
  it_generation :: string
  it_kind :: evidence_kind
  it_producer_id :: string
  it_artifact_digest :: string
  it_payload :: ext_payload

definition ingest_item_ok :: "ingest_item \<Rightarrow> bool" where
  "ingest_item_ok i \<longleftrightarrow> 4 \<le> str_len (it_generation i) \<and> str_len (it_generation i) \<le> 200
     \<and> 2 \<le> str_len (it_producer_id i) \<and> str_len (it_producer_id i) \<le> 200
     \<and> is_sha256_digest (it_artifact_digest i) \<and> payload_ok (it_payload i)"

record finalize_request =
  fr_generation :: string
  fr_expected_task_version :: int
  fr_evidence :: "ingest_item list"
  fr_terminal_actor :: string

definition finalize_request_ok :: "finalize_request \<Rightarrow> bool" where
  "finalize_request_ok r \<longleftrightarrow> 4 \<le> str_len (fr_generation r) \<and> str_len (fr_generation r) \<le> 200
     \<and> 1 \<le> fr_expected_task_version r \<and> fr_evidence r \<noteq> [] \<and> length (fr_evidence r) \<le> 32
     \<and> list_all ingest_item_ok (fr_evidence r)
     \<and> 2 \<le> str_len (fr_terminal_actor r) \<and> str_len (fr_terminal_actor r) \<le> 200
     \<and> list_all (\<lambda>i. it_generation i = fr_generation r) (fr_evidence r)"

end
