(* ===== verification/StateMachine.thy ===== *)
theory StateMachine
  imports Domain
begin

text \<open>
  The research lifecycle (\<open>apps/api/state_machine.py\<close>): the transition relation, the forward
  path, and what both imply about the routes a task can take.
\<close>

fun allowed_transitions :: "stage \<Rightarrow> stage list" where
  "allowed_transitions INTAKE = [CONTEXT]"
| "allowed_transitions CONTEXT = [PLAN]"
| "allowed_transitions PLAN = [PLAN_REVIEW]"
| "allowed_transitions PLAN_REVIEW = [PLAN, APPROVAL]"
| "allowed_transitions APPROVAL = [EXECUTE, PLAN]"
| "allowed_transitions EXECUTE = [OBSERVE]"
| "allowed_transitions OBSERVE = [EVALUATE]"
| "allowed_transitions EVALUATE = [VERIFY]"
| "allowed_transitions VERIFY = [PLAN, DECIDE]"
| "allowed_transitions DECIDE = [ARCHIVE]"
| "allowed_transitions ARCHIVE = [MEMORY_SKILL]"
| "allowed_transitions MEMORY_SKILL = [COMPLETED]"
| "allowed_transitions COMPLETED = []"

definition forward_path :: "stage list" where
  "forward_path = [INTAKE, CONTEXT, PLAN, PLAN_REVIEW, APPROVAL, EXECUTE, OBSERVE, EVALUATE,
     VERIFY, DECIDE, ARCHIVE, MEMORY_SKILL, COMPLETED]"

text \<open>\<open>FORWARD_PATH.index(x)\<close>; \<open>None\<close> stands for \<open>ValueError\<close>.\<close>

fun index_of :: "'a \<Rightarrow> 'a list \<Rightarrow> nat option" where
  "index_of x [] = None"
| "index_of x (y # ys) = (if x = y then Some 0 else map_option Suc (index_of x ys))"

definition next_forward_stage :: "stage \<Rightarrow> stage option" where
  "next_forward_stage current = (case index_of current forward_path of
       None \<Rightarrow> None
     | Some i \<Rightarrow> if i = length forward_path - 1 then None else Some (forward_path ! (i + 1)))"

definition validate_transition :: "stage \<Rightarrow> stage \<Rightarrow> api_error + stage" where
  "validate_transition current target =
     (if target \<notin> set (allowed_transitions current) then Inl (ConflictError ''illegal_transition'')
      else Inr target)"

text \<open>\<open>round(index * 100 / 12)\<close>; no index gives a tie.\<close>

definition progress_for :: "stage \<Rightarrow> (string \<times> json) list" where
  "progress_for s =
     (let i = the (index_of s forward_path); d = length forward_path - 1 in
      [(''step'', JInt (int (i + 1))), (''total'', JInt (int (length forward_path))),
       (''percent'', JInt (int ((2 * i * 100 + d) div (2 * d))))])"

subsection \<open>Routes\<close>

definition moves :: "stage \<Rightarrow> stage \<Rightarrow> bool" where
  "moves a b \<longleftrightarrow> b \<in> set (allowed_transitions a)"

lemma validate_transition_Inr [simp]: "validate_transition a b = Inr c \<longleftrightarrow> moves a b \<and> c = b"
  by (auto simp: validate_transition_def moves_def)

lemma validate_transition_Inl [simp]:
  "validate_transition a b = Inl e \<longleftrightarrow> \<not> moves a b \<and> e = ConflictError ''illegal_transition''"
  by (auto simp: validate_transition_def moves_def)

lemma moves_into_EXECUTE: "moves a EXECUTE \<longleftrightarrow> a = APPROVAL"
  by (cases a) (simp_all add: moves_def)

lemma moves_into_DECIDE: "moves a DECIDE \<longleftrightarrow> a = VERIFY"
  by (cases a) (simp_all add: moves_def)

text \<open>Stages that lie after the approval, and after the decision.\<close>

definition executed :: "stage \<Rightarrow> bool" where
  "executed s \<longleftrightarrow> s \<in> {EXECUTE, OBSERVE, EVALUATE, VERIFY, DECIDE, ARCHIVE, MEMORY_SKILL, COMPLETED}"

definition decided :: "stage \<Rightarrow> bool" where
  "decided s \<longleftrightarrow> s \<in> {DECIDE, ARCHIVE, MEMORY_SKILL, COMPLETED}"

lemma moves_executed: "moves a b \<Longrightarrow> executed b \<Longrightarrow> executed a \<or> a = APPROVAL \<and> b = EXECUTE"
  by (cases a) (auto simp: moves_def executed_def)

lemma moves_decided: "moves a b \<Longrightarrow> decided b \<Longrightarrow> decided a \<or> a = VERIFY \<and> b = DECIDE"
  by (cases a) (auto simp: moves_def decided_def)

lemma decided_executed: "decided s \<Longrightarrow> executed s"
  by (auto simp: decided_def executed_def)

lemma moves_from_decided: "moves a b \<Longrightarrow> decided a \<Longrightarrow> decided b"
  by (cases a) (auto simp: moves_def decided_def)

text \<open>
  On every route that reaches a decided stage from a stage before approval, the last three
  crossings of the gates come in order: approval to execution, then verification to decision.
\<close>

fun route :: "stage list \<Rightarrow> bool" where
  "route [] \<longleftrightarrow> True"
| "route [a] \<longleftrightarrow> True"
| "route (a # b # r) \<longleftrightarrow> moves a b \<and> route (b # r)"

lemma route_Cons: "route (a # r) \<longleftrightarrow> (r = [] \<or> moves a (hd r) \<and> route r)"
  by (cases r) simp_all

lemma route_executed:
  "route (a # r) \<Longrightarrow> executed (last (a # r)) \<Longrightarrow>
     executed a \<or> (\<exists>p q. a # r = p @ [APPROVAL, EXECUTE] @ q)"
proof (induction r arbitrary: a)
  case Nil
  then show ?case by simp
next
  case (Cons b r)
  from Cons.prems have m: "moves a b" and rt: "route (b # r)" by simp_all
  from Cons.prems(2) have "executed (last (b # r))" by simp
  from Cons.IH [OF rt this] show ?case
  proof
    assume "executed b"
    with moves_executed [OF m] consider "executed a" | "a = APPROVAL" "b = EXECUTE" by blast
    then show ?thesis
    proof cases
      case 2
      then have "a # b # r = [] @ [APPROVAL, EXECUTE] @ r" by simp
      then show ?thesis by blast
    qed simp
  next
    assume "\<exists>p q. b # r = p @ [APPROVAL, EXECUTE] @ q"
    then obtain p q where "b # r = p @ [APPROVAL, EXECUTE] @ q" by blast
    then have "a # b # r = (a # p) @ [APPROVAL, EXECUTE] @ q" by simp
    then show ?thesis by blast
  qed
qed

lemma route_decided:
  "route (a # r) \<Longrightarrow> decided (last (a # r)) \<Longrightarrow>
     decided a \<or> (\<exists>p q. a # r = p @ [VERIFY, DECIDE] @ q)"
proof (induction r arbitrary: a)
  case Nil
  then show ?case by simp
next
  case (Cons b r)
  from Cons.prems have m: "moves a b" and rt: "route (b # r)" by simp_all
  from Cons.prems(2) have "decided (last (b # r))" by simp
  from Cons.IH [OF rt this] show ?case
  proof
    assume "decided b"
    with moves_decided [OF m] consider "decided a" | "a = VERIFY" "b = DECIDE" by blast
    then show ?thesis
    proof cases
      case 2
      then have "a # b # r = [] @ [VERIFY, DECIDE] @ r" by simp
      then show ?thesis by blast
    qed simp
  next
    assume "\<exists>p q. b # r = p @ [VERIFY, DECIDE] @ q"
    then obtain p q where "b # r = p @ [VERIFY, DECIDE] @ q" by blast
    then have "a # b # r = (a # p) @ [VERIFY, DECIDE] @ q" by simp
    then show ?thesis by blast
  qed
qed

text \<open>The forward path is a route, and following it from any stage ends in \<open>COMPLETED\<close>.\<close>

lemma next_forward_moves: "next_forward_stage a = Some b \<Longrightarrow> moves a b"
  by (cases a) (simp_all add: next_forward_stage_def forward_path_def moves_def)

lemma next_forward_None: "next_forward_stage a = None \<longleftrightarrow> a = COMPLETED"
  by (cases a) (simp_all add: next_forward_stage_def forward_path_def)

lemma forward_path_rank:
  "next_forward_stage a = Some b \<Longrightarrow> index_of b forward_path = map_option Suc (index_of a forward_path)"
  by (cases a) (auto simp: next_forward_stage_def forward_path_def)

end
