(* ===== verification/Policy.thy ===== *)
theory Policy
  imports StateMachine
begin

text \<open>
  Risk classification and the scoped, single-use approval token (\<open>apps/api/policy.py\<close>). The
  operations mutate an approval record in place; here they return the new record, and where an
  exception leaves a mutated record that the caller looks at (\<open>decide_approval\<close>), the exception
  carries it.
\<close>

subsection \<open>Classification\<close>

record action_intent =
  ai_name :: string
  ai_read_only :: bool
  ai_mutates_sandbox :: bool
  ai_gpu_count :: int
  ai_expected_gpu_hours :: rat
  ai_changes_dataset :: bool
  ai_publishes_external :: bool
  ai_changes_main :: bool
  ai_destructive :: bool
  ai_rollback_point :: "string option"

definition intent_ok :: "action_intent \<Rightarrow> bool" where
  "intent_ok i \<longleftrightarrow> 0 \<le> ai_gpu_count i \<and> 0 \<le> ai_expected_gpu_hours i"

record policy_decision =
  pd_risk_level :: risk_level
  pd_requires_approval :: bool
  pd_requires_rollback :: bool
  pd_reasons :: "string list"

text \<open>\<open>collect [(b1, r1), ...]\<close>: a reason is appended for each condition that holds.\<close>

definition collect :: "(bool \<times> string) list \<Rightarrow> string list" where
  "collect rs = map snd (filter fst rs)"

definition classify_action :: "action_intent \<Rightarrow> policy_decision" where
  "classify_action i =
     (if ai_destructive i \<or> ai_publishes_external i \<or> ai_changes_main i then
        \<lparr>pd_risk_level = R3, pd_requires_approval = True, pd_requires_rollback = True,
         pd_reasons = collect [(ai_destructive i, ''destructive action''),
           (ai_publishes_external i, ''external publication''),
           (ai_changes_main i, ''protected branch mutation'')]\<rparr>
      else if ai_changes_dataset i \<or> 1 < ai_gpu_count i \<or> 2 < ai_expected_gpu_hours i then
        \<lparr>pd_risk_level = R2, pd_requires_approval = True, pd_requires_rollback = False,
         pd_reasons = collect [(ai_changes_dataset i, ''dataset mutation''),
           (1 < ai_gpu_count i, ''multi-GPU execution''),
           (2 < ai_expected_gpu_hours i, ''compute budget exceeds 2 GPU-hours'')]\<rparr>
      else if ai_read_only i \<and> \<not> ai_mutates_sandbox i then
        \<lparr>pd_risk_level = R0, pd_requires_approval = False, pd_requires_rollback = False,
         pd_reasons = [''read-only action'']\<rparr>
      else
        \<lparr>pd_risk_level = R1, pd_requires_approval = False, pd_requires_rollback = False,
         pd_reasons = [''bounded sandbox mutation'']\<rparr>)"

text \<open>An intent that does at least as much as another.\<close>

definition does_more :: "action_intent \<Rightarrow> action_intent \<Rightarrow> bool" where
  "does_more i j \<longleftrightarrow> (ai_destructive i \<longrightarrow> ai_destructive j)
     \<and> (ai_publishes_external i \<longrightarrow> ai_publishes_external j) \<and> (ai_changes_main i \<longrightarrow> ai_changes_main j)
     \<and> (ai_changes_dataset i \<longrightarrow> ai_changes_dataset j) \<and> ai_gpu_count i \<le> ai_gpu_count j
     \<and> ai_expected_gpu_hours i \<le> ai_expected_gpu_hours j
     \<and> (ai_mutates_sandbox i \<longrightarrow> ai_mutates_sandbox j) \<and> (ai_read_only j \<longrightarrow> ai_read_only i)"

lemma classify_approval_iff:
  "pd_requires_approval (classify_action i) \<longleftrightarrow> R2 \<le> pd_risk_level (classify_action i)"
  by (simp add: classify_action_def less_eq_risk_level_def)

lemma classify_rollback_iff:
  "pd_requires_rollback (classify_action i) \<longleftrightarrow> pd_risk_level (classify_action i) = R3"
  by (simp add: classify_action_def)

lemma classify_reasons: "pd_reasons (classify_action i) \<noteq> []"
  by (simp add: classify_action_def collect_def)

lemma classify_mono:
  "does_more i j \<Longrightarrow> pd_risk_level (classify_action i) \<le> pd_risk_level (classify_action j)"
  by (auto simp: classify_action_def does_more_def less_eq_risk_level_def)

subsection \<open>Tokens\<close>

definition token_prefix :: string where
  "token_prefix = ''egoap1''"

definition max_token_ttl :: int where
  "max_token_ttl = 900"

definition b64_alphabet :: string where
  "b64_alphabet = ''ABCDEFGHIJKLMNOPQRSTUVWXYZabcdefghijklmnopqrstuvwxyz0123456789-_''"

definition b64_char :: "nat \<Rightarrow> char" where
  "b64_char n = b64_alphabet ! (n mod 64)"

text \<open>\<open>urlsafe_b64encode(value).rstrip(b"=")\<close>: three bytes give four characters, the rest no padding.\<close>

fun b64_bytes :: "nat list \<Rightarrow> string" where
  "b64_bytes (a # b # c # r) = [b64_char (a div 4), b64_char ((a mod 4) * 16 + b div 16),
     b64_char ((b mod 16) * 4 + c div 64), b64_char (c mod 64)] @ b64_bytes r"
| "b64_bytes [a, b] = [b64_char (a div 4), b64_char ((a mod 4) * 16 + b div 16), b64_char ((b mod 16) * 4)]"
| "b64_bytes [a] = [b64_char (a div 4), b64_char ((a mod 4) * 16)]"
| "b64_bytes [] = []"

definition b64encode :: "string \<Rightarrow> string" where
  "b64encode s = b64_bytes (map of_char s)"

text \<open>The bytes of a hex digest: \<open>hmac.new(...).digest()\<close>.\<close>

definition nibble_value :: "char \<Rightarrow> nat" where
  "nibble_value c = (let n = of_char c :: nat in if n < 58 then n - 48 else n - 87)"

fun unhex :: "string \<Rightarrow> string" where
  "unhex (a # b # r) = char_of (nibble_value a * 16 + nibble_value b) # unhex r"
| "unhex r = []"

text \<open>\<open>int(t.timestamp())\<close>: whole seconds, truncated towards zero.\<close>

definition seconds :: "int \<Rightarrow> int" where
  "seconds t = (if 0 \<le> t then t div 1000000 else - ((- t) div 1000000))"

definition token_claims :: "approval_record \<Rightarrow> int \<Rightarrow> int \<Rightarrow> json" where
  "token_claims a issued expires = JObj [(''version'', JInt 1), (''jti'', JStr (a_id a)),
     (''action'', JStr (a_action a)), (''scope'', JStr (a_scope a)),
     (''action_digest'', JStr (a_action_digest a)), (''config_sha256'', opt_json JStr (a_config_sha256 a)),
     (''issued_at'', JInt issued), (''expires_at'', JInt expires)]"

definition issue_hmac_approval_token :: "api_env \<Rightarrow> approval_record \<Rightarrow> string \<Rightarrow> int \<Rightarrow> api_error + string" where
  "issue_hmac_approval_token E a secret now =
     (let issued = seconds now; expires = seconds (a_expires_at a) in
      if length secret < 32 then Inl (PolicyError ''approval_secret_too_short'')
      else if a_config_sha256 a = None \<or> a_config_sha256 a = Some [] then
        Inl (PolicyError ''approval_contract_legacy'')
      else if expires \<le> issued \<or> max_token_ttl < expires - issued then
        Inl (PolicyError ''approval_ttl_invalid'')
      else
        (let payload = canonical_bytes (crypto.truncate E) (token_claims a issued expires) in
         Inr (token_prefix @ ''.'' @ b64encode payload @ ''.''
                @ b64encode (unhex (hmac256 E secret payload)))))"

subsection \<open>Approvals\<close>

definition micros :: "int \<Rightarrow> int" where
  "micros secs = secs * 1000000"

definition build_approval ::
  "string \<Rightarrow> string \<Rightarrow> string \<Rightarrow> risk_level \<Rightarrow> string \<Rightarrow> string \<Rightarrow> string \<Rightarrow> string
     \<Rightarrow> (string \<times> json) list \<Rightarrow> string option \<Rightarrow> int \<Rightarrow> int \<Rightarrow> api_error + approval_record" where
  "build_approval aid task_id generation risk scope action digest config payload rollback now ttl =
     (if risk = R3 \<and> (rollback = None \<or> rollback = Some []) then Inl (PolicyError ''rollback_required'')
      else Inr \<lparr>a_id = aid, a_task_id = task_id, a_generation = generation, a_status = PENDING,
        a_risk_level = risk, a_scope = scope, a_action = action, a_action_digest = digest,
        a_config_sha256 = Some config, a_action_payload = payload, a_rollback_point = rollback,
        a_requested_at = now, a_expires_at = now + micros ttl, a_decided_at = None,
        a_approver = None, a_used_at = None, a_token_hash = None\<rparr>)"

text \<open>
  \<open>decide_approval\<close>; \<open>random\<close> is the value of \<open>secrets.token_urlsafe(32)\<close>, used when no secret is
  configured. The exception carries the record as it is then: expired, or already stamped with
  the approver.
\<close>

definition decide_approval ::
  "api_env \<Rightarrow> approval_record \<Rightarrow> string \<Rightarrow> string \<Rightarrow> string \<Rightarrow> int \<Rightarrow> string
     \<Rightarrow> (api_error \<times> approval_record) + (approval_record \<times> string option)" where
  "decide_approval E a decision approver expected_digest now random =
     (if a_status a \<noteq> PENDING then Inl (ConflictError ''approval_already_decided'', a)
      else if a_expires_at a \<le> now then
        Inl (PolicyError ''approval_expired'', a\<lparr>a_status := EXPIRED\<rparr>)
      else if a_action_digest a \<noteq> expected_digest then
        Inl (PolicyError ''approval_digest_mismatch'', a)
      else
        (let a' = a\<lparr>a_approver := Some approver, a_decided_at := Some now\<rparr> in
         if decision = ''denied'' then Inr (a'\<lparr>a_status := DENIED\<rparr>, None)
         else if decision \<noteq> ''approved'' then
           Inl (ValueError ''decision must be approved or denied'', a')
         else
           (case (case hmac_secret E of
                    Some secret \<Rightarrow>
                      if secret \<noteq> [] then issue_hmac_approval_token E a' secret now
                      else Inr (''egoap_'' @ a_id a @ ''_'' @ random)
                  | None \<Rightarrow> Inr (''egoap_'' @ a_id a @ ''_'' @ random)) of
              Inl e \<Rightarrow> Inl (e, a')
            | Inr token \<Rightarrow>
                Inr (a'\<lparr>a_status := APPROVED, a_token_hash := Some (text_sha256 (crypto.truncate E) token)\<rparr>,
                     Some token))))"

definition scope_matches :: "approval_record \<Rightarrow> string \<Rightarrow> string \<Rightarrow> string \<Rightarrow> string \<Rightarrow> string \<Rightarrow> bool" where
  "scope_matches a task_id generation scope action digest \<longleftrightarrow>
     a_task_id a = task_id \<and> a_generation a = generation \<and> a_scope a = scope
     \<and> a_action a = action \<and> a_action_digest a = digest"

definition validate_approval_token ::
  "api_env \<Rightarrow> approval_record \<Rightarrow> string option \<Rightarrow> string \<Rightarrow> string \<Rightarrow> string \<Rightarrow> string \<Rightarrow> string
     \<Rightarrow> int \<Rightarrow> api_error + unit" where
  "validate_approval_token E a raw task_id generation scope action digest now =
     checked
       [(raw = None \<or> raw = Some [], PolicyError ''approval_required''),
        (a_status a = CONSUMED \<or> a_used_at a \<noteq> None, PolicyError ''approval_token_replayed''),
        (a_status a \<noteq> APPROVED, PolicyError ''approval_not_granted''),
        (a_expires_at a \<le> now, PolicyError ''approval_token_expired''),
        (\<not> scope_matches a task_id generation scope action digest, PolicyError ''approval_scope_mismatch''),
        (a_token_hash a = None \<or> a_token_hash a = Some []
          \<or> a_token_hash a \<noteq> map_option (text_sha256 (crypto.truncate E)) raw,
         PolicyError ''approval_token_invalid'')] ()"

definition consume_approval :: "approval_record \<Rightarrow> int \<Rightarrow> approval_record" where
  "consume_approval a now = a\<lparr>a_status := CONSUMED, a_used_at := Some now\<rparr>"

subsection \<open>What a valid token means\<close>

lemma validate_tokenD:
  assumes "validate_approval_token E a raw task_id generation scope action digest now = Inr u"
  shows "\<exists>token. raw = Some token \<and> token \<noteq> [] \<and> a_status a = APPROVED \<and> a_used_at a = None
           \<and> now < a_expires_at a \<and> scope_matches a task_id generation scope action digest
           \<and> a_token_hash a = Some (text_sha256 (crypto.truncate E) token)"
  using assms by (cases raw) (auto simp: validate_approval_token_def)

lemma consume_simps [simp]:
  "a_id (consume_approval a now) = a_id a" "a_task_id (consume_approval a now) = a_task_id a"
  "a_generation (consume_approval a now) = a_generation a" "a_status (consume_approval a now) = CONSUMED"
  "a_approver (consume_approval a now) = a_approver a" "a_token_hash (consume_approval a now) = a_token_hash a"
  "a_action_digest (consume_approval a now) = a_action_digest a"
  "a_requested_at (consume_approval a now) = a_requested_at a"
  "a_decided_at (consume_approval a now) = a_decided_at a"
  "a_used_at (consume_approval a now) = Some now" "a_expires_at (consume_approval a now) = a_expires_at a"
  "a_risk_level (consume_approval a now) = a_risk_level a"
  "a_rollback_point (consume_approval a now) = a_rollback_point a"
  by (simp_all add: consume_approval_def)

lemma consumed_token_replayed:
  assumes "raw = Some token" "token \<noteq> []"
  shows "validate_approval_token E (consume_approval a used) raw task_id generation scope action digest now
           = Inl (PolicyError ''approval_token_replayed'')"
  using assms by (simp add: validate_approval_token_def checked_def)

text \<open>The branches of a decision.\<close>

lemma decide_Inr_cases:
  assumes "decide_approval E a decision approver expected now random = Inr (a', token)"
  obtains
    (denied) "decision = ''denied''" "token = None" "a_status a' = DENIED" "a_token_hash a' = a_token_hash a"
  | (approved) tok where "decision = ''approved''" "token = Some tok" "a_status a' = APPROVED"
      "a_token_hash a' = Some (text_sha256 (crypto.truncate E) tok)"
  using assms
  by (auto simp: decide_approval_def Let_def split: if_splits sum.splits option.splits)

lemma decide_Inr_same:
  assumes "decide_approval E a decision approver expected now random = Inr (a', token)"
  shows "a_status a = PENDING" "now < a_expires_at a" "expected = a_action_digest a"
    "a_id a' = a_id a" "a_task_id a' = a_task_id a" "a_generation a' = a_generation a"
    "a_approver a' = Some approver" "a_decided_at a' = Some now" "a_used_at a' = a_used_at a"
    "a_requested_at a' = a_requested_at a" "a_expires_at a' = a_expires_at a"
    "a_action_digest a' = a_action_digest a" "a_risk_level a' = a_risk_level a"
    "a_rollback_point a' = a_rollback_point a"
  using assms
  by (auto simp: decide_approval_def Let_def split: if_splits sum.splits option.splits)

lemma decide_Inl_status:
  assumes "decide_approval E a decision approver expected now random = Inl (e, a')"
  shows "a_status a' = EXPIRED \<Longrightarrow> a_status a = PENDING \<Longrightarrow>
           e = PolicyError ''approval_expired'' \<and> a_expires_at a \<le> now"
  using assms
  by (auto simp: decide_approval_def Let_def split: if_splits sum.splits option.splits)

end
