(* ===== verification/Evidence.thy ===== *)
theory Evidence
  imports Policy
begin

text \<open>
  The evidence gate (\<open>apps/api/evidence.py\<close>), the eligibility of research memory
  (\<open>apps/api/memory.py\<close>) and the numerical evaluation (\<open>apps/api/evaluator.py\<close>).
\<close>

subsection \<open>Python values\<close>

text \<open>\<open>bool(value)\<close>.\<close>

fun truthy :: "json \<Rightarrow> bool" where
  "truthy JNull = False"
| "truthy (JBool b) = b"
| "truthy (JInt i) = (i \<noteq> 0)"
| "truthy (JFloat r) = (r \<noteq> 0)"
| "truthy (JStr s) = (s \<noteq> [])"
| "truthy (JList xs) = (xs \<noteq> [])"
| "truthy (JObj kvs) = (kvs \<noteq> [])"

fun hashable :: "json \<Rightarrow> bool" where
  "hashable (JList xs) = False"
| "hashable (JObj kvs) = False"
| "hashable _ = True"

text \<open>\<open>set(value)\<close>: a list of hashable values, the characters of a string, the keys of a dict.\<close>

fun py_set :: "json \<Rightarrow> api_error + json list" where
  "py_set (JList xs) = (if list_all hashable xs then Inr xs else Inl (TypeError ''unhashable''))"
| "py_set (JStr s) = Inr (map (\<lambda>c. JStr [c]) s)"
| "py_set (JObj kvs) = Inr (map (JStr \<circ> fst) kvs)"
| "py_set _ = Inl (TypeError ''not iterable'')"

subsection \<open>The gate\<close>

definition required_for_decision :: "evidence_kind list" where
  "required_for_decision = [CODE, CONFIG, DATASET_MANIFEST, LOG, METRIC, TRACE, REVIEW]"

definition missing_kinds :: "evidence_record list \<Rightarrow> evidence_kind list" where
  "missing_kinds rs = filter (\<lambda>k. k \<notin> e_kind ` set rs) required_for_decision"

definition digest_ok :: "api_env \<Rightarrow> evidence_record \<Rightarrow> bool" where
  "digest_ok E r \<longleftrightarrow> plain_sha256 (crypto.truncate E) (JObj (e_payload r)) = e_artifact_digest r"

definition get_truthy :: "(string \<times> json) list \<Rightarrow> string \<Rightarrow> bool" where
  "get_truthy d k = (case dict_get d k of Some j \<Rightarrow> truthy j | None \<Rightarrow> False)"

definition raw_metric :: "evidence_record \<Rightarrow> bool" where
  "raw_metric r \<longleftrightarrow> dict_get (e_payload r) ''deterministic'' = Some (JBool True)
     \<and> dict_get (e_payload r) ''summary_only'' \<noteq> Some (JBool True)
     \<and> (get_truthy (e_payload r) ''raw_samples'' \<or> get_truthy (e_payload r) ''raw_metric_digest'')"

text \<open>Who produced the evidence that a review has to cover.\<close>

definition producers :: "evidence_record list \<Rightarrow> string list" where
  "producers rs = map e_producer_id (filter (\<lambda>r. e_kind r \<noteq> REVIEW) rs)"

definition reviewed_producers :: "evidence_record \<Rightarrow> api_error + json list" where
  "reviewed_producers r =
     (case dict_get (e_payload r) ''reviewed_producers'' of None \<Rightarrow> Inr [] | Some j \<Rightarrow> py_set j)"

definition independent_review :: "string list \<Rightarrow> evidence_record \<Rightarrow> json list \<Rightarrow> bool" where
  "independent_review ps r covered \<longleftrightarrow>
     dict_get (e_payload r) ''reviewer_id'' = Some (JStr (e_producer_id r))
     \<and> dict_get (e_payload r) ''independent'' = Some (JBool True)
     \<and> dict_get (e_payload r) ''verdict'' = Some (JStr ''PASS'')
     \<and> e_producer_id r \<notin> set ps \<and> covered \<noteq> [] \<and> JStr ` set ps \<subseteq> set covered"

text \<open>The reviewers of the valid reviews, in order; the last one is reported.\<close>

fun review_scan :: "string list \<Rightarrow> evidence_record list \<Rightarrow> api_error + string list" where
  "review_scan ps [] = Inr []"
| "review_scan ps (r # rs) = (case reviewed_producers r of
       Inl e \<Rightarrow> Inl e
     | Inr covered \<Rightarrow> (case review_scan ps rs of
           Inl e \<Rightarrow> Inl e
         | Inr ids \<Rightarrow> Inr (if independent_review ps r covered then e_producer_id r # ids else ids)))"

definition evidence_gate :: "api_env \<Rightarrow> int \<Rightarrow> evidence_record list \<Rightarrow> api_error + gate_result" where
  "evidence_gate E now rs =
     (let missing = missing_kinds rs;
          corrupt = map e_id (filter (\<lambda>r. \<not> digest_ok E r) rs);
          metrics = filter (\<lambda>r. e_kind r = METRIC) rs;
          reviews = filter (\<lambda>r. e_kind r = REVIEW) rs in
      case review_scan (producers rs) reviews of
        Inl e \<Rightarrow> Inl e
      | Inr valid \<Rightarrow>
         (let reasons =
            (if missing \<noteq> [] then
               [''missing required evidence: '' @ join '', '' (map kind_value (sorted_kinds missing))] else [])
            @ (if corrupt \<noteq> [] then
               [''artifact digest mismatch: '' @ join '', '' (sort corrupt)] else [])
            @ (if metrics \<noteq> [] \<and> \<not> list_ex raw_metric metrics then
               [''metric evidence must reference raw values and deterministic evaluation''] else [])
            @ (if reviews \<noteq> [] \<and> valid = [] then
               [''an independent PASS review by a non-producing agent is required''] else []) in
          Inr \<lparr>gr_status = (if reasons \<noteq> [] then FAIL else PASS),
            gr_present = sorted_kinds (map e_kind rs), gr_missing = sorted_kinds missing,
            gr_reasons = reasons,
            gr_independent_reviewer = (if valid = [] then None else Some (last valid)),
            gr_checked_at = now\<rparr>))"

text \<open>What the gate promises.\<close>

definition complete_evidence :: "api_env \<Rightarrow> evidence_record list \<Rightarrow> string \<Rightarrow> bool" where
  "complete_evidence E rs reviewer \<longleftrightarrow>
     (\<forall>k. \<exists>r \<in> set rs. e_kind r = k)
     \<and> (\<forall>r \<in> set rs. digest_ok E r)
     \<and> (\<exists>r \<in> set rs. e_kind r = METRIC \<and> raw_metric r)
     \<and> (\<exists>r \<in> set rs. e_kind r = REVIEW \<and> e_producer_id r = reviewer
          \<and> dict_get (e_payload r) ''reviewer_id'' = Some (JStr reviewer)
          \<and> dict_get (e_payload r) ''verdict'' = Some (JStr ''PASS'')
          \<and> dict_get (e_payload r) ''independent'' = Some (JBool True)
          \<and> (\<exists>covered. reviewed_producers r = Inr covered
               \<and> (\<forall>q \<in> set rs. e_kind q \<noteq> REVIEW \<longrightarrow> JStr (e_producer_id q) \<in> set covered)))
     \<and> (\<forall>r \<in> set rs. e_kind r \<noteq> REVIEW \<longrightarrow> e_producer_id r \<noteq> reviewer)"

lemma review_scan_mem:
  "review_scan ps rs = Inr ids \<Longrightarrow> x \<in> set ids \<longleftrightarrow>
     (\<exists>r \<in> set rs. \<exists>covered. reviewed_producers r = Inr covered
        \<and> independent_review ps r covered \<and> e_producer_id r = x)"
  by (induction rs arbitrary: ids) (auto split: sum.splits if_splits)

lemma required_complete [simp]: "k \<in> set required_for_decision"
  by (cases k) (simp_all add: required_for_decision_def)

lemma missing_none: "missing_kinds rs = [] \<longleftrightarrow> (\<forall>k. \<exists>r \<in> set rs. e_kind r = k)"
  by (simp add: missing_kinds_def filter_empty_conv) (metis image_iff required_complete)

lemma gate_status_iff:
  assumes "evidence_gate E now rs = Inr g"
  shows "gr_status g = PASS \<longleftrightarrow>
    missing_kinds rs = [] \<and> (\<forall>r \<in> set rs. digest_ok E r)
    \<and> ((\<exists>r \<in> set rs. e_kind r = METRIC) \<longrightarrow> (\<exists>r \<in> set rs. e_kind r = METRIC \<and> raw_metric r))
    \<and> ((\<exists>r \<in> set rs. e_kind r = REVIEW) \<longrightarrow> gr_independent_reviewer g \<noteq> None)"
  using assms
  by (auto simp: evidence_gate_def Let_def filter_empty_conv list_ex_iff split: sum.splits if_splits)

lemma gate_reviewer:
  assumes "evidence_gate E now rs = Inr g" and "gr_independent_reviewer g = Some x"
  shows "\<exists>r \<in> set rs. e_kind r = REVIEW \<and> e_producer_id r = x \<and>
    (\<exists>covered. reviewed_producers r = Inr covered \<and> independent_review (producers rs) r covered)"
proof -
  from assms(1) obtain ids where scan: "review_scan (producers rs) (filter (\<lambda>r. e_kind r = REVIEW) rs) = Inr ids"
    and g: "gr_independent_reviewer g = (if ids = [] then None else Some (last ids))"
    by (auto simp: evidence_gate_def Let_def split: sum.splits)
  from g assms(2) have "x \<in> set ids" by (auto split: if_splits)
  with review_scan_mem [OF scan] show ?thesis by auto
qed

lemma gate_complete:
  assumes g: "evidence_gate E now rs = Inr g" and pass: "gr_status g = PASS"
  shows "\<exists>reviewer. gr_independent_reviewer g = Some reviewer \<and> complete_evidence E rs reviewer"
proof -
  note iff = gate_status_iff [OF g, THEN iffD1, OF pass]
  then have kinds: "\<forall>k. \<exists>r \<in> set rs. e_kind r = k" by (simp add: missing_none)
  with iff obtain x where x: "gr_independent_reviewer g = Some x" by auto
  from gate_reviewer [OF g x] obtain r covered where r: "r \<in> set rs" "e_kind r = REVIEW"
    "e_producer_id r = x" "reviewed_producers r = Inr covered" "independent_review (producers rs) r covered"
    by blast
  have cover: "JStr (e_producer_id q) \<in> set covered \<and> e_producer_id q \<noteq> x"
    if "q \<in> set rs" "e_kind q \<noteq> REVIEW" for q
  proof -
    have "e_producer_id q \<in> set (producers rs)" using that by (auto simp: producers_def)
    then show ?thesis using r by (auto simp: independent_review_def)
  qed
  have "complete_evidence E rs x"
    unfolding complete_evidence_def
  proof (intro conjI)
    show "\<exists>r \<in> set rs. e_kind r = METRIC \<and> raw_metric r" using iff kinds by blast
    show "\<exists>r \<in> set rs. e_kind r = REVIEW \<and> e_producer_id r = x
        \<and> dict_get (e_payload r) ''reviewer_id'' = Some (JStr x)
        \<and> dict_get (e_payload r) ''verdict'' = Some (JStr ''PASS'')
        \<and> dict_get (e_payload r) ''independent'' = Some (JBool True)
        \<and> (\<exists>covered. reviewed_producers r = Inr covered
             \<and> (\<forall>q \<in> set rs. e_kind q \<noteq> REVIEW \<longrightarrow> JStr (e_producer_id q) \<in> set covered))"
      using r cover by (auto simp: independent_review_def)
  qed (use iff kinds cover in auto)
  with x show ?thesis by blast
qed

lemma complete_gate:
  assumes g: "evidence_gate E now rs = Inr g" and c: "complete_evidence E rs reviewer"
  shows "gr_status g = PASS"
proof -
  from g obtain ids where scan: "review_scan (producers rs) (filter (\<lambda>r. e_kind r = REVIEW) rs) = Inr ids"
    and id: "gr_independent_reviewer g = (if ids = [] then None else Some (last ids))"
    by (auto simp: evidence_gate_def Let_def split: sum.splits)
  from c have "\<exists>r \<in> set rs. e_kind r = REVIEW \<and> e_producer_id r = reviewer
          \<and> dict_get (e_payload r) ''reviewer_id'' = Some (JStr reviewer)
          \<and> dict_get (e_payload r) ''verdict'' = Some (JStr ''PASS'')
          \<and> dict_get (e_payload r) ''independent'' = Some (JBool True)
          \<and> (\<exists>covered. reviewed_producers r = Inr covered
               \<and> (\<forall>q \<in> set rs. e_kind q \<noteq> REVIEW \<longrightarrow> JStr (e_producer_id q) \<in> set covered))"
    by (simp add: complete_evidence_def)
  then obtain r covered where r: "r \<in> set rs" "e_kind r = REVIEW" "e_producer_id r = reviewer"
    "dict_get (e_payload r) ''reviewer_id'' = Some (JStr reviewer)"
    "dict_get (e_payload r) ''verdict'' = Some (JStr ''PASS'')"
    "dict_get (e_payload r) ''independent'' = Some (JBool True)" "reviewed_producers r = Inr covered"
    "\<forall>q \<in> set rs. e_kind q \<noteq> REVIEW \<longrightarrow> JStr (e_producer_id q) \<in> set covered"
    by (elim bexE conjE exE)
  from c have "\<exists>q \<in> set rs. e_kind q = CODE" by (simp add: complete_evidence_def)
  then obtain q where q: "q \<in> set rs" "e_kind q = CODE" by blast
  with r(8) have "JStr (e_producer_id q) \<in> set covered" by simp
  then have "covered \<noteq> []" by auto
  moreover have "e_producer_id r \<notin> set (producers rs)" "JStr ` set (producers rs) \<subseteq> set covered"
    using c r by (auto simp: complete_evidence_def producers_def)
  ultimately have "independent_review (producers rs) r covered"
    using r by (simp add: independent_review_def)
  with review_scan_mem [OF scan, of reviewer] r have "reviewer \<in> set ids" by auto
  then have "gr_independent_reviewer g \<noteq> None" using id by auto
  with c show ?thesis
    by (simp add: gate_status_iff [OF g] missing_none complete_evidence_def)
qed

lemma gate_time: "evidence_gate E now rs = Inr g \<Longrightarrow> evidence_gate E now' rs = Inr (g\<lparr>gr_checked_at := now'\<rparr>)"
  by (auto simp: evidence_gate_def Let_def split: sum.splits)

subsection \<open>Research memory\<close>

text \<open>Floating-point operations round their exact result.\<close>

definition fadd :: "api_env \<Rightarrow> rat \<Rightarrow> rat \<Rightarrow> rat" where "fadd E a b = fl E (a + b)"
definition fsub :: "api_env \<Rightarrow> rat \<Rightarrow> rat \<Rightarrow> rat" where "fsub E a b = fl E (a - b)"
definition fmul :: "api_env \<Rightarrow> rat \<Rightarrow> rat \<Rightarrow> rat" where "fmul E a b = fl E (a * b)"
definition fdiv :: "api_env \<Rightarrow> rat \<Rightarrow> rat \<Rightarrow> rat" where "fdiv E a b = fl E (a / b)"

definition memory_weights :: "(string \<times> rat) list" where
  "memory_weights = [(''semantic'', 45 / 100), (''component'', 20 / 100), (''evidence'', 15 / 100),
     (''recency'', 10 / 100), (''failure'', 10 / 100)]"

definition signal :: "memory_signals \<Rightarrow> string \<Rightarrow> rat" where
  "signal m s = (if s = ''semantic'' then ms_semantic m else if s = ''component'' then ms_component m
     else if s = ''evidence'' then ms_evidence m else if s = ''recency'' then ms_recency m else ms_failure m)"

text \<open>\<open>sum\<close> starts at zero and adds from the left; a literal is the double nearest to it.\<close>

definition score_memory :: "api_env \<Rightarrow> memory_signals \<Rightarrow> rat" where
  "score_memory E m = round6 E (foldl (fadd E) 0 (map (\<lambda>(s, w). fmul E (signal m s) (fl E w)) memory_weights))"

definition require_validated_memory :: "gate_result \<Rightarrow> string \<Rightarrow> api_error + unit" where
  "require_validated_memory g review_id =
     checked [(gr_status g \<noteq> PASS, PolicyError ''memory_not_validated''),
       (review_id = [] \<or> gr_independent_reviewer g \<noteq> Some review_id,
        PolicyError ''memory_review_mismatch'')] ()"

subsection \<open>Evaluation\<close>

definition validate_samples :: "rat list \<Rightarrow> rat list \<Rightarrow> api_error + unit" where
  "validate_samples baseline candidate =
     (if baseline = [] \<or> length baseline \<noteq> length candidate
      then Inl (ValueError ''paired samples must be non-empty and have equal length'') else Inr ())"

text \<open>\<open>statistics.mean\<close> sums exactly and rounds the quotient once.\<close>

definition fmean :: "api_env \<Rightarrow> rat list \<Rightarrow> rat" where
  "fmean E xs = fl E (sum_list xs / of_nat (length xs))"

definition percentile :: "api_env \<Rightarrow> rat list \<Rightarrow> rat \<Rightarrow> api_error + rat" where
  "percentile E xs p =
     (if xs = [] then Inl (ValueError ''cannot compute a percentile of an empty sequence'')
      else
        (let position = fmul E (of_nat (length xs - 1)) p;
             lower = nat \<lfloor>position\<rfloor>; upper = nat \<lceil>position\<rceil> in
         if lower = upper then Inr (xs ! lower)
         else
           (let fraction = fsub E position (of_nat lower) in
            Inr (fadd E (fmul E (xs ! lower) (fsub E 1 fraction)) (fmul E (xs ! upper) fraction)))))"

text \<open>The draws of the seeded generator are numbered in the order in which they are made.\<close>

definition paired_bootstrap_delta ::
  "api_env \<Rightarrow> rat list \<Rightarrow> rat list \<Rightarrow> int \<Rightarrow> int \<Rightarrow> api_error + rat list" where
  "paired_bootstrap_delta E baseline candidate seed iterations =
     (case validate_samples baseline candidate of
        Inl e \<Rightarrow> Inl e
      | Inr _ \<Rightarrow>
         (if iterations < 100 then Inl (ValueError ''iterations must be at least 100'')
          else
            (let deltas = map (\<lambda>(b, c). fsub E c b) (zip baseline candidate); n = length deltas in
             Inr (map (\<lambda>i. fmean E (map (\<lambda>j. deltas ! randrange E seed (i * n + j) n) [0 ..< n]))
                    [0 ..< nat iterations]))))"

definition evaluate_paired_metric ::
  "api_env \<Rightarrow> string \<Rightarrow> rat list \<Rightarrow> rat list \<Rightarrow> direction \<Rightarrow> rat \<Rightarrow> int \<Rightarrow> int \<Rightarrow> string
     \<Rightarrow> api_error + evaluation" where
  "evaluate_paired_metric E metric baseline candidate dir threshold seed iterations classification =
     (case paired_bootstrap_delta E baseline candidate seed iterations of
        Inl e \<Rightarrow> Inl e
      | Inr deltas \<Rightarrow>
         (let baseline_mean = fmean E baseline; candidate_mean = fmean E candidate;
              mean_delta = fsub E candidate_mean baseline_mean;
              relative_delta = (if baseline_mean \<noteq> 0 then fdiv E mean_delta \<bar>baseline_mean\<bar> else 0);
              samples = sort deltas;
              verd = (case dir of
                  Higher_Better \<Rightarrow> if threshold \<le> candidate_mean then V_PASS else V_FAIL
                | Lower_Better \<Rightarrow> if relative_delta \<le> threshold then V_PASS else V_FAIL) in
          case (percentile E samples (fl E (25 / 1000)), percentile E samples (fl E (975 / 1000))) of
            (Inr lo, Inr hi) \<Rightarrow>
              Inr \<lparr>ev_metric = metric, ev_direction = dir, ev_baseline_mean = round6 E baseline_mean,
                ev_candidate_mean = round6 E candidate_mean, ev_mean_delta = round6 E mean_delta,
                ev_relative_delta = round6 E relative_delta, ev_ci95 = [round6 E lo, round6 E hi],
                ev_threshold = threshold, ev_verdict = verd, ev_bootstrap_seed = seed,
                ev_bootstrap_samples = iterations, ev_sample_count = int (length baseline),
                ev_data_classification = classification\<rparr>
          | (Inl e, _) \<Rightarrow> Inl e
          | (_, Inl e) \<Rightarrow> Inl e))"

lemma evaluate_ok:
  "evaluate_paired_metric E metric b c dir th seed n cl = Inr r \<Longrightarrow> evaluation_ok r"
  by (auto simp: evaluate_paired_metric_def paired_bootstrap_delta_def validate_samples_def
      evaluation_ok_def Let_def Suc_le_eq split: sum.splits if_splits prod.splits)

end
