(* ===== verification/Store.thy ===== *)
theory Store
  imports Evidence JsonParse
begin

text \<open>
  The SQLite store of the control plane (\<open>apps/api/store.py\<close>): its tables, the operations on
  them, and \<open>transaction()\<close> with its nesting.

  A row is the record it was written from (the JSON column is written by \<open>model_dump_json\<close> and
  read by \<open>model_validate_json\<close>, and the scalar columns are copies of its fields). Tables with a
  primary key that the code updates are dictionaries in row order; append-only tables are lists,
  on which the triggers \<open>..._no_update\<close> and \<open>..._no_delete\<close> leave appending as the only change.
  Unique constraints and primary keys raise \<open>IntegrityError\<close>. The connection serialises writers
  (\<open>mutation_lock\<close> and \<open>BEGIN IMMEDIATE\<close>), so operations of several processes interleave only
  as whole transactions.
\<close>

subsection \<open>State\<close>

record closure_row =
  dc_tenant_id :: string
  dc_project_id :: string
  dc_closure_digest :: string
  dc_closure_bytes :: string
  dc_closure_bytes_sha256 :: string
  dc_idempotency_key :: string

type_synonym idem_key = "string \<times> string \<times> string"

record control_db =
  tasks :: "(string \<times> task_record) list"
  approvals :: "(string \<times> approval_record) list"
  evidence :: "evidence_record list"
  candidates :: "memory_candidate list"
  memories :: "memory_record list"
  events :: "audit_event list"
  idempotency :: "(idem_key \<times> (string \<times> (string \<times> json) list \<times> int)) list"
  closures :: "closure_row list"

definition empty_db :: control_db where
  "empty_db = \<lparr>tasks = [], approvals = [], evidence = [], candidates = [], memories = [],
     events = [], idempotency = [], closures = []\<rparr>"

text \<open>
  A session: the database as the connection sees it, the thread-local transaction state, and how
  often the clock and the random source have been read.
\<close>

record session =
  db :: control_db
  depth :: nat
  rollback_only :: bool
  ticks :: nat
  draws :: nat

type_synonym 'a op = "(session, api_error, 'a) prog"

definition fresh_session :: session where
  "fresh_session = \<lparr>db = empty_db, depth = 0, rollback_only = False, ticks = 0, draws = 0\<rparr>"

definition utc_now :: "api_env \<Rightarrow> int op" where
  "utc_now E = (\<lambda>s. (Inr (clock E (ticks s)), s\<lparr>ticks := ticks s + 1\<rparr>))"

definition uuid4_hex :: "api_env \<Rightarrow> string op" where
  "uuid4_hex E = (\<lambda>s. (Inr (uuid_hex E (draws s)), s\<lparr>draws := draws s + 1\<rparr>))"

definition random_token :: "api_env \<Rightarrow> string op" where
  "random_token E = (\<lambda>s. (Inr (token_urlsafe E (draws s)), s\<lparr>draws := draws s + 1\<rparr>))"

definition query :: "(control_db \<Rightarrow> 'a) \<Rightarrow> 'a op" where
  "query f = getsE (\<lambda>s. f (db s))"

definition update_db :: "(control_db \<Rightarrow> control_db) \<Rightarrow> unit op" where
  "update_db f = modifyE (\<lambda>s. s\<lparr>db := f (db s)\<rparr>)"

subsection \<open>Transactions\<close>

text \<open>
  The outermost scope commits on a normal exit and rolls the database back on an exception, or
  when a nested scope has failed. A nested scope shares the connection; its failure marks the
  whole transaction. The clock and the random source are not part of the database.
\<close>

definition transaction :: "'a op \<Rightarrow> 'a op" where
  "transaction body = (\<lambda>s.
     if 0 < depth s then
       (case body (s\<lparr>depth := depth s + 1\<rparr>) of
          (Inl e, s') \<Rightarrow> (Inl e, s'\<lparr>depth := depth s, rollback_only := True\<rparr>)
        | (Inr a, s') \<Rightarrow> (Inr a, s'\<lparr>depth := depth s\<rparr>))
     else
       (case body (s\<lparr>depth := 1, rollback_only := False\<rparr>) of
          (Inl e, s') \<Rightarrow> (Inl e, s'\<lparr>db := db s, depth := 0, rollback_only := False\<rparr>)
        | (Inr a, s') \<Rightarrow>
            (if rollback_only s' then
               (Inl (RuntimeError ''nested database mutation failed; transaction rolled back''),
                s'\<lparr>db := db s, depth := 0, rollback_only := False\<rparr>)
             else (Inr a, s'\<lparr>depth := 0\<rparr>))))"

subsection \<open>Tasks\<close>

definition upsert_seed_task :: "task_record \<Rightarrow> unit op" where
  "upsert_seed_task t = update_db (\<lambda>d. d\<lparr>tasks := dict_set (t_id t) t (tasks d)\<rparr>)"

definition create_task :: "task_record \<Rightarrow> unit op" where
  "create_task t = bindE (query (\<lambda>d. dict_get (tasks d) (t_id t))) (\<lambda>row. case row of
       Some _ \<Rightarrow> raiseE (ConflictError ''task_already_exists'')
     | None \<Rightarrow> update_db (\<lambda>d. d\<lparr>tasks := tasks d @ [(t_id t, t)]\<rparr>))"

text \<open>Compare-and-swap on the version, within the generation of the record.\<close>

definition save_task :: "task_record \<Rightarrow> int \<Rightarrow> unit op" where
  "save_task t expected = bindE (query (\<lambda>d. dict_get (tasks d) (t_id t))) (\<lambda>row. case row of
       None \<Rightarrow> raiseE (ConflictError ''task_version_conflict'')
     | Some r \<Rightarrow>
         if t_generation r = t_generation t \<and> t_version r = expected
         then update_db (\<lambda>d. d\<lparr>tasks := dict_set (t_id t) t (tasks d)\<rparr>)
         else raiseE (ConflictError ''task_version_conflict''))"

definition get_task :: "string \<Rightarrow> task_record op" where
  "get_task tid = bindE (query (\<lambda>d. dict_get (tasks d) tid)) (\<lambda>row. case row of
       None \<Rightarrow> raiseE (NotFoundError ''task'' tid)
     | Some t \<Rightarrow> returnE t)"

text \<open>\<open>ORDER BY updated_at DESC, id\<close>.\<close>

definition list_tasks :: "api_env \<Rightarrow> task_record list op" where
  "list_tasks E = query (\<lambda>d.
     rev (sort_key (\<lambda>t. iso_time E (t_updated_at t)) (rev (sort_key t_id (map snd (tasks d))))))"

subsection \<open>Approvals\<close>

definition token_hash_taken :: "control_db \<Rightarrow> approval_record \<Rightarrow> bool" where
  "token_hash_taken d a \<longleftrightarrow> a_token_hash a \<noteq> None
     \<and> list_ex (\<lambda>(i, b). i \<noteq> a_id a \<and> a_token_hash b = a_token_hash a) (approvals d)"

definition add_approval :: "approval_record \<Rightarrow> unit op" where
  "add_approval a = bindE (query (\<lambda>d. dict_get (approvals d) (a_id a) \<noteq> None \<or> token_hash_taken d a)) (\<lambda>bad.
     if bad then raiseE (IntegrityError ''approvals'')
     else update_db (\<lambda>d. d\<lparr>approvals := approvals d @ [(a_id a, a)]\<rparr>))"

definition save_approval :: "approval_record \<Rightarrow> unit op" where
  "save_approval a = bindE (query (\<lambda>d. (dict_get (approvals d) (a_id a), token_hash_taken d a))) (\<lambda>(row, taken).
     case row of
       None \<Rightarrow> raiseE (NotFoundError ''approval'' (a_id a))
     | Some _ \<Rightarrow>
         if taken then raiseE (IntegrityError ''approvals.token_hash'')
         else update_db (\<lambda>d. d\<lparr>approvals := dict_set (a_id a) a (approvals d)\<rparr>))"

definition get_approval :: "string \<Rightarrow> approval_record op" where
  "get_approval aid = bindE (query (\<lambda>d. dict_get (approvals d) aid)) (\<lambda>row. case row of
       None \<Rightarrow> raiseE (NotFoundError ''approval'' aid)
     | Some a \<Rightarrow> returnE a)"

text \<open>
  \<open>ORDER BY created_at DESC LIMIT 1\<close>: the greatest time; among equal times the index holds the
  rows in insertion order.
\<close>

fun latest_by :: "('a \<Rightarrow> 'k::linorder) \<Rightarrow> 'a list \<Rightarrow> 'a option" where
  "latest_by key [] = None"
| "latest_by key (x # xs) = (case latest_by key xs of
       None \<Rightarrow> Some x
     | Some y \<Rightarrow> if key x < key y then Some y else Some x)"

definition approvals_of :: "control_db \<Rightarrow> string \<Rightarrow> string \<Rightarrow> approval_record list" where
  "approvals_of d tid gen =
     filter (\<lambda>a. a_task_id a = tid \<and> a_generation a = gen) (map snd (approvals d))"

definition latest_approval :: "api_env \<Rightarrow> string \<Rightarrow> string \<Rightarrow> approval_record option op" where
  "latest_approval E tid gen =
     query (\<lambda>d. latest_by (\<lambda>a. iso_time E (a_requested_at a)) (approvals_of d tid gen))"

definition approval_by_token_hash :: "string \<Rightarrow> approval_record option op" where
  "approval_by_token_hash h =
     query (\<lambda>d. List.find (\<lambda>a. a_token_hash a = Some h) (map snd (approvals d)))"

subsection \<open>Evidence, candidates and memories\<close>

definition add_evidence :: "evidence_record \<Rightarrow> unit op" where
  "add_evidence r = bindE (query (\<lambda>d. e_id r \<in> e_id ` set (evidence d))) (\<lambda>dup.
     if dup then raiseE (IntegrityError ''evidence'')
     else update_db (\<lambda>d. d\<lparr>evidence := evidence d @ [r]\<rparr>))"

definition evidence_of :: "api_env \<Rightarrow> control_db \<Rightarrow> string \<Rightarrow> string \<Rightarrow> evidence_record list" where
  "evidence_of E d tid gen = sort_key (\<lambda>r. iso_time E (e_created_at r))
     (sort_key e_id (filter (\<lambda>r. e_task_id r = tid \<and> e_generation r = gen) (evidence d)))"

definition list_evidence :: "api_env \<Rightarrow> string \<Rightarrow> string \<Rightarrow> evidence_record list op" where
  "list_evidence E tid gen = query (\<lambda>d. evidence_of E d tid gen)"

definition add_memory_candidate :: "memory_candidate \<Rightarrow> unit op" where
  "add_memory_candidate c = bindE (query (\<lambda>d. mc_id c \<in> mc_id ` set (candidates d))) (\<lambda>dup.
     if dup then raiseE (IntegrityError ''memory_candidates'')
     else update_db (\<lambda>d. d\<lparr>candidates := candidates d @ [c]\<rparr>))"

definition list_memory_candidates :: "api_env \<Rightarrow> string \<Rightarrow> string \<Rightarrow> memory_candidate list op" where
  "list_memory_candidates E tid gen = query (\<lambda>d. sort_key (\<lambda>c. iso_time E (mc_created_at c))
     (sort_key mc_id (filter (\<lambda>c. mc_task_id c = tid \<and> mc_generation c = gen) (candidates d))))"

definition add_memory :: "memory_record \<Rightarrow> unit op" where
  "add_memory m = bindE (query (\<lambda>d. mr_id m \<in> mr_id ` set (memories d))) (\<lambda>dup.
     if dup then raiseE (IntegrityError ''memories'')
     else update_db (\<lambda>d. d\<lparr>memories := memories d @ [m]\<rparr>))"

definition list_memories :: "api_env \<Rightarrow> string \<Rightarrow> string \<Rightarrow> memory_record list op" where
  "list_memories E tid gen = query (\<lambda>d. sort_key (\<lambda>m. iso_time E (mr_created_at m))
     (sort_key mr_id (filter (\<lambda>m. mr_task_id m = tid \<and> mr_generation m = gen) (memories d))))"

subsection \<open>The audit log\<close>

definition stream :: "control_db \<Rightarrow> string \<Rightarrow> string \<Rightarrow> audit_event list" where
  "stream d tid gen = filter (\<lambda>v. v_task_id v = tid \<and> v_generation v = gen) (events d)"

text \<open>The dictionary that an event's hash covers: every field but \<open>sequence\<close> and the hash itself.\<close>

definition hash_payload :: "api_env \<Rightarrow> audit_event \<Rightarrow> json" where
  "hash_payload E v = JObj [(''id'', JStr (v_id v)), (''task_id'', JStr (v_task_id v)),
     (''generation'', JStr (v_generation v)), (''event_type'', JStr (v_event_type v)),
     (''actor'', JStr (v_actor v)), (''stage'', opt_json (JStr \<circ> stage_value) (v_stage v)),
     (''payload'', JObj (v_payload v)), (''previous_hash'', JStr (v_previous_hash v)),
     (''created_at'', JStr (iso_time E (v_created_at v)))]"

definition audit_event_digest :: "api_env \<Rightarrow> audit_event \<Rightarrow> string" where
  "audit_event_digest E v = plain_sha256 (crypto.truncate E) (hash_payload E v)"

definition stream_head :: "control_db \<Rightarrow> string \<Rightarrow> string \<Rightarrow> string" where
  "stream_head d tid gen =
     (let vs = stream d tid gen in if vs = [] then zero_digest else v_event_hash (last vs))"

definition next_sequence :: "control_db \<Rightarrow> int" where
  "next_sequence d = (if events d = [] then 1 else v_sequence (last (events d)) + 1)"

definition append_audit_event ::
  "api_env \<Rightarrow> string \<Rightarrow> string \<Rightarrow> string \<Rightarrow> string \<Rightarrow> stage option \<Rightarrow> (string \<times> json) list \<Rightarrow> audit_event op" where
  "append_audit_event E tid gen event_type actor stage payload =
     bindE (utc_now E) (\<lambda>now. bindE (uuid4_hex E) (\<lambda>u. bindE (query (\<lambda>d. d)) (\<lambda>d.
       let v = \<lparr>v_sequence = next_sequence d, v_id = ''evt_'' @ u, v_task_id = tid, v_generation = gen,
             v_event_type = event_type, v_actor = actor, v_stage = stage, v_payload = payload,
             v_previous_hash = stream_head d tid gen, v_event_hash = [], v_created_at = now\<rparr>;
           v' = v\<lparr>v_event_hash := audit_event_digest E v\<rparr> in
       if v_id v' \<in> v_id ` set (events d) \<or> v_event_hash v' \<in> v_event_hash ` set (events d)
       then raiseE (IntegrityError ''audit_events'')
       else thenE (update_db (\<lambda>d. d\<lparr>events := events d @ [v']\<rparr>)) (returnE v'))))"

definition list_events :: "string \<Rightarrow> string \<Rightarrow> int \<Rightarrow> nat \<Rightarrow> control_db \<Rightarrow> audit_event list" where
  "list_events tid gen after limit d = take limit (filter (\<lambda>v. after < v_sequence v) (stream d tid gen))"

fun verify_from :: "api_env \<Rightarrow> string \<Rightarrow> audit_event list \<Rightarrow> bool" where
  "verify_from E previous [] = True"
| "verify_from E previous (v # vs) =
     (if v_previous_hash v \<noteq> previous \<or> v_event_hash v \<noteq> audit_event_digest E (v\<lparr>v_previous_hash := previous\<rparr>)
      then False else verify_from E (v_event_hash v) vs)"

definition verify_event_chain :: "api_env \<Rightarrow> string \<Rightarrow> string \<Rightarrow> control_db \<Rightarrow> bool" where
  "verify_event_chain E tid gen d = verify_from E zero_digest (list_events tid gen 0 1000 d)"

definition recent_events :: "nat \<Rightarrow> (string \<times> string) option \<Rightarrow> control_db \<Rightarrow> audit_event list" where
  "recent_events limit scope d = rev (take limit (rev (case scope of
       Some (tid, gen) \<Rightarrow> stream d tid gen | None \<Rightarrow> events d)))"

subsection \<open>Idempotency records\<close>

definition get_idempotent :: "string \<Rightarrow> string \<Rightarrow> string \<Rightarrow> string \<Rightarrow> (int \<times> (string \<times> json) list) option op" where
  "get_idempotent meth path key request_hash =
     bindE (query (\<lambda>d. dict_get (idempotency d) (meth, path, key))) (\<lambda>row. case row of
       None \<Rightarrow> returnE None
     | Some (h, response, status) \<Rightarrow>
         if h \<noteq> request_hash then raiseE (ConflictError ''idempotency_key_conflict'')
         else returnE (Some (status, response)))"

definition put_idempotent ::
  "api_env \<Rightarrow> string \<Rightarrow> string \<Rightarrow> string \<Rightarrow> string \<Rightarrow> int \<Rightarrow> (string \<times> json) list \<Rightarrow> unit op" where
  "put_idempotent E meth path key request_hash status response =
     thenE (bindE (utc_now E) (\<lambda>_. returnE ()))
       (bindE (query (\<lambda>d. dict_get (idempotency d) (meth, path, key))) (\<lambda>row. case row of
          None \<Rightarrow> update_db (\<lambda>d. d\<lparr>idempotency :=
            idempotency d @ [((meth, path, key), (request_hash, response, status))]\<rparr>)
        | Some _ \<Rightarrow> bindE (get_idempotent meth path key request_hash) (\<lambda>_. returnE ())))"

definition counts :: "control_db \<Rightarrow> (string \<times> json) list" where
  "counts d = [(''tasks'', JInt (int (length (tasks d)))), (''approvals'', JInt (int (length (approvals d)))),
     (''evidence'', JInt (int (length (evidence d)))),
     (''memory_candidates'', JInt (int (length (candidates d)))),
     (''events'', JInt (int (length (events d)))),
     (''validated_memories'', JInt (int (length (filter mr_validated (memories d)))))]"

subsection \<open>Decision closures\<close>

text \<open>
  The checks on the bytes of a closure: they are canonical JSON of an object whose
  \<open>closure_digest\<close> is the one given and is the digest of its \<open>core\<close>.
\<close>

definition closure_check :: "api_env \<Rightarrow> string \<Rightarrow> string \<Rightarrow> api_error option" where
  "closure_check E digest bytes = (let C = crypto.truncate E in
     case parse_json_bytes C bytes of
       None \<Rightarrow> Some (ValueError ''decision closure bytes must be canonical JSON'')
     | Some j \<Rightarrow>
        (case j of
           JObj kvs \<Rightarrow>
             (if canonical_bytes C j \<noteq> bytes then
                Some (ValueError ''decision closure bytes must be one canonical JSON object'')
              else if dict_get kvs ''closure_digest'' \<noteq> Some (JStr digest)
                \<or> (case dict_get kvs ''core'' of
                     Some (JObj core) \<Rightarrow> domain_digest C ''trusted-memory-decision-closure'' (JObj core) \<noteq> digest
                   | _ \<Rightarrow> True)
              then Some (ValueError ''decision closure digest does not match canonical bytes'')
              else None)
         | _ \<Rightarrow> Some (ValueError ''decision closure bytes must be one canonical JSON object'')))"

definition same_closure_scope :: "string \<Rightarrow> string \<Rightarrow> closure_row \<Rightarrow> bool" where
  "same_closure_scope tenant project r \<longleftrightarrow> dc_tenant_id r = tenant \<and> dc_project_id r = project"

text \<open>
  The body of the transaction: a key that was used returns its row or conflicts, a digest that is
  already stored returns its row or conflicts, and anything else is inserted.
\<close>

definition store_closure :: "api_env \<Rightarrow> closure_row \<Rightarrow> closure_row op" where
  "store_closure E row =
     bindE (query (\<lambda>d. List.find (\<lambda>r. same_closure_scope (dc_tenant_id row) (dc_project_id row) r
          \<and> dc_idempotency_key r = dc_idempotency_key row) (closures d))) (\<lambda>existing_key. case existing_key of
        Some r \<Rightarrow>
          if dc_closure_digest r \<noteq> dc_closure_digest row \<or> dc_closure_bytes r \<noteq> dc_closure_bytes row
          then raiseE (ConflictError ''decision_closure_idempotency_conflict'')
          else returnE r
      | None \<Rightarrow>
          bindE (query (\<lambda>d. List.find (\<lambda>r. same_closure_scope (dc_tenant_id row) (dc_project_id row) r
             \<and> dc_closure_digest r = dc_closure_digest row) (closures d))) (\<lambda>existing_digest. case existing_digest of
           Some r \<Rightarrow>
             if dc_closure_bytes r \<noteq> dc_closure_bytes row
             then raiseE (ConflictError ''decision_closure_bytes_conflict'')
             else returnE r
         | None \<Rightarrow> thenE (update_db (\<lambda>d. d\<lparr>closures := closures d @ [row]\<rparr>)) (returnE row)))"

definition append_decision_closure ::
  "api_env \<Rightarrow> string \<Rightarrow> string \<Rightarrow> string \<Rightarrow> string \<Rightarrow> string \<Rightarrow> closure_row op" where
  "append_decision_closure E tenant project digest bytes key =
     thenE (liftE (checked
       [(\<not> is_sha256_digest digest, ValueError ''invalid SHA-256 digest''),
        (tenant = [] \<or> project = [] \<or> key = [],
         ValueError ''decision closure scope and idempotency key must be non-empty''),
        (bytes = [], TypeError ''decision closure bytes must be non-empty bytes'')] ()))
     (thenE (case closure_check E digest bytes of Some e \<Rightarrow> raiseE e | None \<Rightarrow> returnE ())
     (transaction (store_closure E
        \<lparr>dc_tenant_id = tenant, dc_project_id = project, dc_closure_digest = digest,
         dc_closure_bytes = bytes, dc_closure_bytes_sha256 = sha256 E bytes,
         dc_idempotency_key = key\<rparr>)))"

definition get_decision_closure :: "api_env \<Rightarrow> string \<Rightarrow> string \<Rightarrow> string \<Rightarrow> closure_row op" where
  "get_decision_closure E tenant project digest =
     thenE (raise_if (\<not> is_sha256_digest digest) (ValueError ''invalid SHA-256 digest''))
     (bindE (query (\<lambda>d. List.find (\<lambda>r. same_closure_scope tenant project r
          \<and> dc_closure_digest r = digest) (closures d))) (\<lambda>row. case row of
        None \<Rightarrow> raiseE (NotFoundError ''decision_closure'' digest)
      | Some r \<Rightarrow>
          if sha256 E (dc_closure_bytes r) \<noteq> dc_closure_bytes_sha256 r
          then raiseE (ValueError ''stored decision closure bytes digest mismatch'')
          else returnE r))"

end
