(* ===== verification/Service.thy ===== *)
theory Service
  imports Store
begin

text \<open>
  The workflow service (\<open>apps/api/service.py\<close>) and the idempotency wrapper of the HTTP layer
  (\<open>_run_idempotent\<close> in \<open>apps/api/main.py\<close>).

  A method is an operation on the session. Where a method changes the task object it was given,
  the operation returns the new task; an exception discards the object, as every caller does. A
  response is the dictionary the method returns. Digests that the code has just computed with
  SHA-256 pass the digest validators of the models and are not checked again. \<open>gpu_config_bytes\<close>
  is the content of the fixture \<open>egolite-mcp-launch.yaml\<close>.
\<close>

subsection \<open>Constants\<close>

definition demo_task_id :: string where
  "demo_task_id = ''ego-lite-001''"

definition em_dash :: string where
  "em_dash = [char_of (226 :: nat), char_of (128 :: nat), char_of (148 :: nat)]"

definition synthetic_notice :: string where
  "synthetic_notice = ''SYNTHETIC DEMO DATA '' @ em_dash @ '' metrics and artifacts exercise the control plane; they are not claims from a physical GPU run.''"

definition live_notice :: string where
  "live_notice = ''EXTERNAL EVIDENCE TASK '' @ em_dash @ '' no synthetic evidence is generated by the control plane, but local hashes do not authenticate the external byte source. Terminal contract decisions require digest-bound upstream receipts, raw metrics, and independent review.''"

definition gpu_approval_action :: string where
  "gpu_approval_action = ''gpu.launch_experiment''"

definition gpu_config_path :: string where
  "gpu_config_path = ''apps/api/fixtures/egolite-mcp-launch.yaml''"

definition gpu_rollback_point :: string where
  "gpu_rollback_point = ''Restore the baseline-ltx configuration pointer and preserve all failed-run evidence.''"

fun stage_agent :: "stage \<Rightarrow> string" where
  "stage_agent INTAKE = ''research-pi''"
| "stage_agent CONTEXT = ''scout-agent''"
| "stage_agent PLAN = ''architect-agent''"
| "stage_agent PLAN_REVIEW = ''reviewer-agent''"
| "stage_agent APPROVAL = ''human''"
| "stage_agent EXECUTE = ''runtime-agent''"
| "stage_agent OBSERVE = ''runtime-agent''"
| "stage_agent EVALUATE = ''evaluation-agent''"
| "stage_agent VERIFY = ''reviewer-agent''"
| "stage_agent DECIDE = ''research-pi''"
| "stage_agent ARCHIVE = ''research-pi''"
| "stage_agent MEMORY_SKILL = ''memory-agent''"
| "stage_agent COMPLETED = ''research-pi''"

fun live_evidence_stage :: "evidence_kind \<Rightarrow> stage" where
  "live_evidence_stage DATASET_MANIFEST = CONTEXT"
| "live_evidence_stage CONFIG = PLAN"
| "live_evidence_stage CODE = EXECUTE"
| "live_evidence_stage LOG = OBSERVE"
| "live_evidence_stage TRACE = OBSERVE"
| "live_evidence_stage METRIC = EVALUATE"
| "live_evidence_stage REVIEW = VERIFY"

definition live_before_observe :: "evidence_kind list" where
  "live_before_observe = [DATASET_MANIFEST, CONFIG, CODE, LOG, TRACE]"

fun ingest_stage :: "evidence_kind \<Rightarrow> stage" where
  "ingest_stage METRIC = OBSERVE"
| "ingest_stage REVIEW = EVALUATE"
| "ingest_stage k = EXECUTE"

text \<open>A float literal denotes the double nearest to it.\<close>

definition lit :: "api_env \<Rightarrow> rat \<Rightarrow> rat" where
  "lit E r = fl E r"

definition floats :: "api_env \<Rightarrow> rat list \<Rightarrow> rat list" where
  "floats E xs = map (\<lambda>x. lit E (x / 10)) xs"

definition arm :: "string \<Rightarrow> string \<Rightarrow> string \<Rightarrow> candidate_arm" where
  "arm i n d = \<lparr>arm_id = i, arm_name = n, arm_description = d\<rparr>"

definition demo_goal :: "api_env \<Rightarrow> research_goal" where
  "demo_goal E = \<lparr>
     g_objective = ''Replace EgoLite-PWM's heavy video representation with streaming perception while reaching at least 10 FPS and limiting MPJPE degradation to 5%.'',
     g_frozen = True,
     g_hardware = ''8x RTX 4090 (declared target; no live GPU attached in local demo)'',
     g_constraints = [(''fps_target'', JFloat (lit E 10)),
       (''max_mpjpe_relative_degradation'', JFloat (lit E (5 / 100))),
       (''fixed_split'', JStr ''egolite-demo-v1''), (''seeds'', JList [JInt 17, JInt 23, JInt 42]),
       (''compute_budget_gpu_hours'', JInt 24),
       (''execution_boundary'', JStr ''allowlisted entrypoints only'')],
     g_acceptance_metrics =
       [\<lparr>am_name = ''FPS'', am_direction = Higher_Better, am_threshold = lit E 10,
          am_unit = ''frames/second'', am_rule = ''candidate mean >= 10 FPS''\<rparr>,
        \<lparr>am_name = ''MPJPE'', am_direction = Lower_Better, am_threshold = lit E (5 / 100),
          am_unit = ''millimetres'', am_rule = ''relative candidate degradation <= 5%''\<rparr>],
     g_candidate_arms =
       [arm ''baseline-ltx'' ''LTX2B baseline'' ''Frozen baseline; included for comparison only'',
        arm ''mobilenetv4-tsm-gru'' ''MobileNetV4 + causal TSM + GRU'' ''Primary streaming candidate'',
        arm ''movinet-a0'' ''MoViNet A0 Stream'' ''Native streaming comparison arm'',
        arm ''repvit-tsm-gru'' ''RepViT + causal TSM + GRU'' ''Efficient transformer comparison arm'']\<rparr>"

subsection \<open>Views\<close>

definition json_sha :: "api_env \<Rightarrow> json \<Rightarrow> string" where
  "json_sha E j = plain_sha256 (crypto.truncate E) j"

definition task_status :: "task_record \<Rightarrow> approval_record option \<Rightarrow> string" where
  "task_status t a =
     (if t_stage t = COMPLETED then ''completed''
      else if t_stage t = APPROVAL then
        (if map_option a_status a = Some DENIED then ''blocked'' else ''waiting_approval'')
      else if t_stage t = VERIFY \<and> gr_status (t_gate_result t) = FAIL then ''blocked''
      else ''running'')"

definition kind_values :: "evidence_kind list \<Rightarrow> json" where
  "kind_values ks = JList (map (JStr \<circ> kind_value) (sorted_kinds ks))"

definition verification_view :: "task_record \<Rightarrow> json" where
  "verification_view t =
     (if \<not> t_synthetic_demo t then
        JObj [(''status'', JStr (if t_stage t = COMPLETED then ''CONTRACT_PASS_ORIGIN_UNVERIFIED''
                                 else ''ORIGIN_UNVERIFIED'')),
          (''external_origin_status'', JStr ''UNVERIFIED''), (''live_claim_allowed'', JBool False)]
      else
        JObj [(''status'', JStr ''SYNTHETIC_DEMO''),
          (''external_origin_status'', JStr ''NOT_APPLICABLE''), (''live_claim_allowed'', JBool False)])"

definition task_view :: "api_env \<Rightarrow> bool \<Rightarrow> task_record \<Rightarrow> json op" where
  "task_view E full t =
     bindE (latest_approval E (t_id t) (t_generation t)) (\<lambda>a.
     bindE (list_evidence E (t_id t) (t_generation t)) (\<lambda>rs.
     bindE (if full then list_memory_candidates E (t_id t) (t_generation t) else returnE []) (\<lambda>cs.
     bindE (if full then list_memories E (t_id t) (t_generation t) else returnE []) (\<lambda>ms.
     let view = opt_json (approval_public_json E) a in
     returnE (JObj (task_fields E t @
       [(''status'', JStr (task_status t a)), (''progress'', JObj (progress_for (t_stage t))),
        (''pending_approval'', if t_stage t = APPROVAL then view else JNull), (''approval'', view),
        (''evidence_summary'', JObj [
           (''required'', kind_values required_for_decision),
           (''present'', kind_values (map e_kind rs)),
           (''missing'', kind_values (missing_kinds rs)),
           (''gate_status'', JStr (gate_value (gr_status (t_gate_result t)))),
           (''independent_reviewer'', opt_json JStr (gr_independent_reviewer (t_gate_result t)))]),
        (''evidence'', JList (if full then map (evidence_json E) rs else [])),
        (''memory_candidates'', JList (map (candidate_json E) cs)),
        (''memories'', JList (map (memory_json E) ms)),
        (''verification'', verification_view t)]))))))"

subsection \<open>Creating tasks\<close>

definition take_str :: "nat \<Rightarrow> string \<Rightarrow> string" where
  "take_str n s = take n s"

definition new_generation :: "api_env \<Rightarrow> string op" where
  "new_generation E = bindE (uuid4_hex E) (\<lambda>u. returnE (''gen_'' @ take_str 12 u))"

definition goal_frozen :: "api_env \<Rightarrow> task_record \<Rightarrow> (string \<times> json) list" where
  "goal_frozen E t = [(''goal_digest'', JStr (json_sha E (goal_json (t_goal t)))),
     (''objective'', JStr (t_objective t))]"

definition reset_demo :: "api_env \<Rightarrow> scenario \<Rightarrow> (string \<times> json) list op" where
  "reset_demo E sc = transaction
     (bindE (utc_now E) (\<lambda>now. bindE (new_generation E) (\<lambda>gen. bindE (utc_now E) (\<lambda>checked_at.
      let t = \<lparr>t_id = demo_task_id, t_generation = gen, t_title = ''EgoLite Streaming Perception'',
            t_objective = g_objective (demo_goal E), t_stage = INTAKE, t_risk_level = R2,
            t_goal = demo_goal E, t_scenario = sc, t_synthetic_demo = True,
            t_data_notice = synthetic_notice, t_owner_agent = ''research-pi'',
            t_current_agent = ''research-pi'', t_live_source = None, t_execution_contract = None,
            t_version = 1, t_run_manifest_digest = None, t_latest_evaluation = [],
            t_gate_result = initial_gate checked_at, t_decision = None, t_created_at = now,
            t_updated_at = now\<rparr> in
      thenE (upsert_seed_task t)
      (thenE (append_audit_event E (t_id t) gen ''demo.reset'' ''system'' (Some INTAKE)
         [(''scenario'', JStr (scenario_value sc)), (''synthetic'', JBool True),
          (''notice'', JStr synthetic_notice),
          (''audit_history_policy'', JStr ''prior generations remain append-only'')])
      (thenE (append_audit_event E (t_id t) gen ''research.goal.frozen'' ''research-pi'' (Some INTAKE)
         (goal_frozen E t))
      (bindE (task_view E True t) (\<lambda>v. returnE [(''reset'', JBool True), (''task'', v)]))))))))"

definition ensure_demo :: "api_env \<Rightarrow> unit op" where
  "ensure_demo E = transaction (bindE (list_tasks E) (\<lambda>ts.
     if ts = [] then thenE (reset_demo E Happy_Path) (returnE ()) else returnE ()))"

definition create_live_task :: "api_env \<Rightarrow> create_request \<Rightarrow> (string \<times> json) list op" where
  "create_live_task E r = transaction
     (bindE (utc_now E) (\<lambda>now. bindE (new_generation E) (\<lambda>gen. bindE (utc_now E) (\<lambda>checked_at.
      let t = \<lparr>t_id = cr_task_id r, t_generation = gen, t_title = cr_title r,
            t_objective = cr_objective r, t_stage = INTAKE, t_risk_level = cr_risk_level r,
            t_goal = cr_goal r, t_scenario = External_Live, t_synthetic_demo = False,
            t_data_notice = live_notice, t_owner_agent = cr_owner_agent r,
            t_current_agent = cr_owner_agent r, t_live_source = Some (cr_live_source r),
            t_execution_contract = Some (cr_execution_contract r),
            t_version = 1, t_run_manifest_digest = None, t_latest_evaluation = [],
            t_gate_result = initial_gate checked_at, t_decision = None, t_created_at = now,
            t_updated_at = now\<rparr>;
          source = live_source_json (cr_live_source r);
          contract = execution_contract_json (cr_execution_contract r) in
      thenE (create_task t)
      (thenE (append_audit_event E (t_id t) gen ''task.created'' (cr_owner_agent r) (Some INTAKE)
         [(''synthetic'', JBool False), (''live_source'', source),
          (''live_source_digest'', JStr (json_sha E source)),
          (''execution_contract_digest'', JStr (json_sha E contract)),
          (''truth_boundary'', JStr live_notice)])
      (thenE (append_audit_event E (t_id t) gen ''research.goal.frozen'' (cr_owner_agent r) (Some INTAKE)
         (goal_frozen E t))
      (bindE (task_view E True t) (\<lambda>v. returnE
         [(''created'', JBool True), (''truth'', JStr ''EXTERNAL_LIVE_EVIDENCE_REQUIRED''),
          (''task'', v)]))))))))"

subsection \<open>Entering a stage of the demo\<close>

definition record_evidence ::
  "api_env \<Rightarrow> task_record \<Rightarrow> evidence_kind \<Rightarrow> string \<Rightarrow> (string \<times> json) list \<Rightarrow> evidence_record op" where
  "record_evidence E t kind producer payload =
     bindE (uuid4_hex E) (\<lambda>u. bindE (utc_now E) (\<lambda>now.
     let r = \<lparr>e_id = ''evd_'' @ u, e_task_id = t_id t, e_generation = t_generation t, e_kind = kind,
           e_producer_id = producer, e_artifact_digest = json_sha E (JObj payload), e_payload = payload,
           e_synthetic = t_synthetic_demo t, e_created_at = now\<rparr> in
     thenE (add_evidence r)
     (thenE (append_audit_event E (t_id t) (t_generation t) ''evidence.recorded'' producer (Some (t_stage t))
        [(''evidence_id'', JStr (e_id r)), (''kind'', JStr (kind_value kind)),
         (''artifact_digest'', JStr (e_artifact_digest r)), (''synthetic'', JBool (t_synthetic_demo t))])
     (returnE r))))"

definition enter_context :: "api_env \<Rightarrow> task_record \<Rightarrow> unit op" where
  "enter_context E t = thenE (record_evidence E t DATASET_MANIFEST ''scout-agent''
     [(''dataset_id'', JStr ''egolite-demo-v1''), (''split'', JStr ''frozen-demo-split''),
      (''records'', JInt 24),
      (''content_hash_policy'', JStr ''publish-time full hash; runtime manifest verification''),
      (''immutable'', JBool True), (''synthetic'', JBool True), (''notice'', JStr synthetic_notice)])
     (returnE ())"

definition gpu_ids :: json where
  "gpu_ids = JList (map (JInt \<circ> int) [0 ..< 8])"

definition enter_plan :: "api_env \<Rightarrow> task_record \<Rightarrow> unit op" where
  "enter_plan E t = thenE (record_evidence E t CONFIG ''architect-agent''
     [(''schema'', JStr ''experiment-plan/v1''), (''candidate'', JStr ''mobilenetv4-tsm-gru''),
      (''baseline'', JStr ''baseline-ltx''), (''seeds'', JList [JInt 17, JInt 23, JInt 42]),
      (''gpu_ids'', gpu_ids), (''expected_gpu_hours'', JInt 24),
      (''metrics'', JList [JStr ''FPS'', JStr ''MPJPE'', JStr ''latency'', JStr ''VRAM'']),
      (''arbitrary_shell'', JBool False), (''synthetic'', JBool True)])
     (returnE ())"

definition enter_plan_review :: "api_env \<Rightarrow> task_record \<Rightarrow> unit op" where
  "enter_plan_review E t = bindE (list_evidence E (t_id t) (t_generation t)) (\<lambda>rs.
     let configs = filter (\<lambda>r. e_kind r = CONFIG) rs in
     if configs = [] then raiseE (ConflictError ''plan_evidence_missing'')
     else
       (let plan = last configs in
        thenE (append_audit_event E (t_id t) (t_generation t) ''plan.review.passed'' ''reviewer-agent''
          (Some PLAN_REVIEW)
          [(''phase'', JStr ''plan''), (''independent'', JBool True),
           (''reviewed_producer'', JStr (e_producer_id plan)),
           (''config_evidence_id'', JStr (e_id plan)), (''config_digest'', JStr (e_artifact_digest plan)),
           (''verdict'', JStr ''PASS''),
           (''findings'', JList [JObj [(''severity'', JStr ''WARN''),
              (''code'', JStr ''modeled_compute_requires_human_approval'')]]),
           (''synthetic'', JBool (t_synthetic_demo t))])
        (returnE ())))"

subsection \<open>Approval\<close>

record approval_contract =
  k_scope :: string
  k_action :: string
  k_digest :: string
  k_config_sha256 :: string
  k_action_payload :: "(string \<times> json) list"
  k_rollback_point :: "string option"
  k_ttl_seconds :: int

definition action_digest :: "api_env \<Rightarrow> string \<Rightarrow> (string \<times> json) list \<Rightarrow> string" where
  "action_digest E action payload =
     json_sha E (JObj [(''action'', JStr action), (''payload'', JObj payload)])"

definition live_contract :: "api_env \<Rightarrow> task_record \<Rightarrow> execution_contract \<Rightarrow> approval_contract" where
  "live_contract E t x = \<lparr>
     k_scope = x_action x @ '':'' @ t_id t @ '':'' @ t_generation t @ '':''
       @ take_str 16 (json_sha E (JObj (x_action_payload x))),
     k_action = x_action x, k_digest = action_digest E (x_action x) (x_action_payload x),
     k_config_sha256 = x_config_sha256 x, k_action_payload = x_action_payload x,
     k_rollback_point = x_rollback_point x, k_ttl_seconds = x_approval_ttl_seconds x\<rparr>"

definition demo_contract :: "api_env \<Rightarrow> task_record \<Rightarrow> approval_contract" where
  "demo_contract E t =
     (let config = sha256 E (gpu_config_bytes E);
          experiment = t_id t @ ''-'' @ t_generation t;
          launch = ''launch-'' @ t_generation t;
          payload = [(''experiment_id'', JStr experiment), (''idempotency_key'', JStr launch),
            (''entrypoint'', JStr ''benchmark_stream''), (''config_path'', JStr gpu_config_path),
            (''config_sha256'', JStr config), (''gpu_ids'', gpu_ids), (''seed'', JInt 42),
            (''expected_gpu_hours'', JFloat (lit E 24)),
            (''tags'', JList [JStr ''synthetic'', JStr ''ego-lite''])] in
      \<lparr>k_scope = ''gpu.launch:'' @ experiment @ '':'' @ launch, k_action = gpu_approval_action,
       k_digest = action_digest E gpu_approval_action payload, k_config_sha256 = config,
       k_action_payload = payload, k_rollback_point = Some gpu_rollback_point, k_ttl_seconds = 900\<rparr>)"

definition contract_of :: "api_env \<Rightarrow> task_record \<Rightarrow> api_error + approval_contract" where
  "contract_of E t =
     (if \<not> t_synthetic_demo t then
        (case t_execution_contract t of
           None \<Rightarrow> Inl (PolicyError ''live_execution_contract_missing'')
         | Some x \<Rightarrow> Inr (live_contract E t x))
      else Inr (demo_contract E t))"

definition demo_intent :: action_intent where
  "demo_intent = \<lparr>ai_name = gpu_approval_action, ai_read_only = False, ai_mutates_sandbox = True,
     ai_gpu_count = 8, ai_expected_gpu_hours = 24, ai_changes_dataset = False,
     ai_publishes_external = False, ai_changes_main = False, ai_destructive = False,
     ai_rollback_point = None\<rparr>"

definition approval_risk :: "task_record \<Rightarrow> risk_level \<times> string list" where
  "approval_risk t =
     (if t_synthetic_demo t
      then (pd_risk_level (classify_action demo_intent), pd_reasons (classify_action demo_intent))
      else (t_risk_level t, [''explicit external live execution contract'']))"

definition enter_approval :: "api_env \<Rightarrow> task_record \<Rightarrow> unit op" where
  "enter_approval E t =
     bindE (liftE (contract_of E t)) (\<lambda>k. bindE (uuid4_hex E) (\<lambda>u. bindE (utc_now E) (\<lambda>now.
     bindE (liftE (build_approval (''apr_'' @ u) (t_id t) (t_generation t) (fst (approval_risk t))
        (k_scope k) (k_action k) (k_digest k) (k_config_sha256 k) (k_action_payload k)
        (k_rollback_point k) now (k_ttl_seconds k))) (\<lambda>a.
     thenE (add_approval a)
     (thenE (append_audit_event E (t_id t) (t_generation t) ''approval.requested'' ''research-pi''
        (Some APPROVAL)
        [(''approval_id'', JStr (a_id a)), (''risk_level'', JStr (risk_value (fst (approval_risk t)))),
         (''action_digest'', JStr (a_action_digest a)), (''scope'', JStr (a_scope a)),
         (''config_sha256'', opt_json JStr (a_config_sha256 a)),
         (''rollback_point'', opt_json JStr (a_rollback_point a)),
         (''expires_at'', JStr (iso_time E (a_expires_at a))),
         (''reasons'', JList (map JStr (snd (approval_risk t)))),
         (''synthetic'', JBool (t_synthetic_demo t))])
     (returnE ()))))))"

subsection \<open>Execution, observation and evaluation of the demo\<close>

text \<open>\<open>next(r.artifact_digest for r in records if r.kind == k)\<close>; an empty generator raises.\<close>

definition first_digest :: "evidence_kind \<Rightarrow> evidence_record list \<Rightarrow> api_error + string" where
  "first_digest k rs = (case List.find (\<lambda>r. e_kind r = k) rs of
       None \<Rightarrow> Inl (RuntimeError ''StopIteration'') | Some r \<Rightarrow> Inr (e_artifact_digest r))"

definition enter_execute :: "api_env \<Rightarrow> task_record \<Rightarrow> task_record op" where
  "enter_execute E t =
     (let commit = take_str 40 (text_sha256 (crypto.truncate E) (''synthetic-commit:'' @ t_generation t)) in
      bindE (record_evidence E t CODE ''runtime-agent''
        [(''repository'', JStr ''ego-lite-demo''), (''commit'', JStr commit),
         (''entrypoint'', JStr ''benchmark_stream''), (''allowlisted'', JBool True),
         (''patch_summary'', JStr ''Wire MobileNetV4 + causal TSM + GRU candidate arm''),
         (''synthetic'', JBool True), (''notice'', JStr synthetic_notice)]) (\<lambda>code.
      bindE (list_evidence E (t_id t) (t_generation t)) (\<lambda>rs.
      bindE (liftE (first_digest CONFIG rs)) (\<lambda>config.
      bindE (liftE (first_digest DATASET_MANIFEST rs)) (\<lambda>dataset.
      let m = \<lparr>rm_git_commit = commit, rm_config_sha256 = config, rm_dataset_manifest_sha256 = dataset,
            rm_environment_lock_sha256 = text_sha256 (crypto.truncate E) ''python3.9-fastapi-demo-lock'',
            rm_base_model_sha256 = text_sha256 (crypto.truncate E) ''synthetic-ltx2b-baseline'',
            rm_seed = 42\<rparr>;
          t' = t\<lparr>t_run_manifest_digest := Some (json_sha E (run_manifest_json m))\<rparr> in
      thenE (append_audit_event E (t_id t) (t_generation t) ''experiment.submitted'' ''runtime-agent''
         (Some EXECUTE)
         [(''entrypoint'', JStr ''benchmark_stream''), (''run_manifest'', run_manifest_json m),
          (''run_manifest_digest'', opt_json JStr (t_run_manifest_digest t')),
          (''code_evidence_id'', JStr (e_id code)), (''execution'', JStr ''synthetic_demo'')])
      (returnE t'))))))"

definition enter_observe :: "api_env \<Rightarrow> task_record \<Rightarrow> unit op" where
  "enter_observe E t =
     thenE (record_evidence E t LOG ''runtime-agent''
        [(''run_id'', JStr (''run_'' @ t_generation t)), (''exit_code'', JInt 0),
         (''records'', JList [
            JObj [(''step'', JInt 1), (''gpu_util_pct'', JInt 18), (''cpu_util_pct'', JInt 94)],
            JObj [(''step'', JInt 2), (''gpu_util_pct'', JInt 71), (''cpu_util_pct'', JInt 68)]]),
         (''diagnosis'', JStr ''publish-time dataset hash avoids repeated runtime hashing''),
         (''synthetic'', JBool True), (''notice'', JStr synthetic_notice)])
     (if t_scenario t \<noteq> Insufficient_Evidence then
        thenE (record_evidence E t TRACE ''runtime-agent''
          [(''trace_id'', JStr (''trace_'' @ t_generation t)), (''root_span'', JStr ''research.task''),
           (''spans'', JList [JStr ''agent.route'', JStr ''skill.invoke'', JStr ''experiment.submit'',
              JStr ''experiment.monitor'']),
           (''run_manifest_digest'', opt_json JStr (t_run_manifest_digest t)),
           (''synthetic'', JBool True)])
        (returnE ())
      else returnE ())"

definition demo_samples :: "api_env \<Rightarrow> (string \<times> raw_series) list" where
  "demo_samples E =
     [(''FPS'', \<lparr>rs_baseline = floats E [27, 29, 28, 26, 30, 28, 29, 27],
         rs_candidate = floats E [112, 118, 115, 111, 120, 117, 116, 114]\<rparr>),
      (''MPJPE'', \<lparr>rs_baseline = floats E [431, 428, 434, 429, 430, 433, 427, 432],
         rs_candidate = floats E [442, 439, 445, 440, 441, 443, 438, 442]\<rparr>)]"

definition demo_evaluation :: "api_env \<Rightarrow> string \<Rightarrow> direction \<Rightarrow> rat \<Rightarrow> api_error + evaluation" where
  "demo_evaluation E name dir threshold =
     (case dict_get (demo_samples E) name of
        None \<Rightarrow> Inl (ValueError name)
      | Some r \<Rightarrow> evaluate_paired_metric E name (rs_baseline r) (rs_candidate r) dir threshold 2025 2000
          ''synthetic_demo'')"

definition enter_evaluate :: "api_env \<Rightarrow> task_record \<Rightarrow> task_record op" where
  "enter_evaluate E t =
     bindE (liftE (demo_evaluation E ''FPS'' Higher_Better (lit E 10))) (\<lambda>fps.
     bindE (liftE (demo_evaluation E ''MPJPE'' Lower_Better (lit E (5 / 100)))) (\<lambda>mpjpe.
     thenE (record_evidence E t METRIC ''evaluation-agent''
        [(''evaluator'', JStr ''paired_bootstrap/v1''), (''deterministic'', JBool True),
         (''summary_only'', JBool False), (''raw_samples'', raw_samples_json (demo_samples E)),
         (''results'', JList (map evaluation_json [fps, mpjpe])), (''synthetic'', JBool True),
         (''notice'', JStr synthetic_notice)])
     (returnE (t\<lparr>t_latest_evaluation := [fps, mpjpe]\<rparr>))))"

definition enter_verify :: "api_env \<Rightarrow> task_record \<Rightarrow> unit op" where
  "enter_verify E t = thenE (record_evidence E t REVIEW ''reviewer-agent''
     [(''reviewer_id'', JStr ''reviewer-agent''),
      (''reviewed_producers'', JList [JStr ''architect-agent'', JStr ''evaluation-agent'',
         JStr ''runtime-agent'', JStr ''scout-agent'']),
      (''independent'', JBool True), (''verdict'', JStr ''PASS''),
      (''checks'', JObj [(''split_frozen'', JBool True), (''raw_metrics_present'', JBool True),
         (''leakage_detected'', JBool False), (''run_manifest_bound'', JBool True)]),
      (''synthetic'', JBool True)])
     (returnE ())"

subsection \<open>The gate, the decision and the memory\<close>

definition refresh_gate :: "api_env \<Rightarrow> task_record \<Rightarrow> task_record op" where
  "refresh_gate E t =
     bindE (list_evidence E (t_id t) (t_generation t)) (\<lambda>rs. bindE (utc_now E) (\<lambda>now.
     bindE (liftE (evidence_gate E now rs)) (\<lambda>g.
     thenE (append_audit_event E (t_id t) (t_generation t)
        (if gr_status g = PASS then ''evidence.gate.passed'' else ''evidence.gate.failed'')
        ''reviewer-agent'' (Some VERIFY)
        (case gate_json E g of JObj kvs \<Rightarrow> kvs | _ \<Rightarrow> []))
     (returnE (t\<lparr>t_gate_result := g\<rparr>)))))"

definition decision_of :: "evaluation list \<Rightarrow> string" where
  "decision_of rs =
     (if rs \<noteq> [] \<and> (\<forall>r \<in> set rs. ev_verdict r = V_PASS) then ''KEEP''
      else if V_FAIL \<in> ev_verdict ` set rs then ''DROP'' else ''INCONCLUSIVE'')"

definition enter_decide :: "api_env \<Rightarrow> task_record \<Rightarrow> string \<Rightarrow> task_record op" where
  "enter_decide E t actor =
     (let t' = t\<lparr>t_decision := Some (decision_of (t_latest_evaluation t))\<rparr> in
      thenE (append_audit_event E (t_id t) (t_generation t) ''decision.committed''
        (if actor = [] then ''research-pi'' else actor) (Some DECIDE)
        [(''decision'', opt_json JStr (t_decision t')),
         (''gate_status'', JStr (gate_value (gr_status (t_gate_result t)))),
         (''run_manifest_digest'', opt_json JStr (t_run_manifest_digest t)),
         (''synthetic'', JBool (t_synthetic_demo t))])
      (returnE t'))"

definition new_candidate ::
  "api_env \<Rightarrow> task_record \<Rightarrow> string \<Rightarrow> string \<Rightarrow> memory_type \<Rightarrow> string \<Rightarrow> string \<Rightarrow> memory_candidate op" where
  "new_candidate E t digest review_id mtype statement component =
     bindE (uuid4_hex E) (\<lambda>u. bindE (utc_now E) (\<lambda>now.
     returnE \<lparr>mc_id = ''memcand_'' @ u, mc_task_id = t_id t, mc_generation = t_generation t,
       mc_memory_type = mtype, mc_statement = statement, mc_component = component,
       mc_evidence_digest = digest, mc_review_id = review_id, mc_proposed_by = ''memory-agent'',
       mc_created_at = now\<rparr>))"

definition propose_candidate :: "api_env \<Rightarrow> task_record \<Rightarrow> memory_candidate \<Rightarrow> unit op" where
  "propose_candidate E t c =
     thenE (add_memory_candidate c)
     (thenE (append_audit_event E (t_id t) (t_generation t) ''memory.candidate.proposed'' ''memory-agent''
        (Some MEMORY_SKILL)
        [(''candidate_id'', JStr (mc_id c)), (''type'', JStr (memory_type_value (mc_memory_type c))),
         (''evidence_digest'', JStr (mc_evidence_digest c)), (''review_id'', JStr (mc_review_id c)),
         (''status'', JStr ''candidate'')])
     (returnE ()))"

definition validate_candidate :: "api_env \<Rightarrow> task_record \<Rightarrow> memory_candidate \<Rightarrow> unit op" where
  "validate_candidate E t c =
     bindE (uuid4_hex E) (\<lambda>u. bindE (utc_now E) (\<lambda>now.
     let m = \<lparr>mr_id = ''mem_'' @ u, mr_task_id = mc_task_id c, mr_generation = mc_generation c,
           mr_memory_type = mc_memory_type c, mr_statement = mc_statement c,
           mr_component = mc_component c, mr_evidence_digest = mc_evidence_digest c,
           mr_review_id = mc_review_id c, mr_validated = True, mr_candidate_id = Some (mc_id c),
           mr_validated_by = Some ''memory-validator'', mr_created_at = now\<rparr> in
     thenE (add_memory m)
     (thenE (append_audit_event E (t_id t) (t_generation t) ''memory.validated'' ''memory-validator''
        (Some MEMORY_SKILL)
        [(''memory_id'', JStr (mr_id m)), (''candidate_id'', JStr (mc_id c)),
         (''type'', JStr (memory_type_value (mr_memory_type m))),
         (''evidence_digest'', JStr (mc_evidence_digest c)), (''review_id'', JStr (mc_review_id c))])
     (returnE ()))))"

definition evidence_set_digest :: "api_env \<Rightarrow> evidence_record list \<Rightarrow> string" where
  "evidence_set_digest E rs = json_sha E (JList (map JStr (sort (map e_artifact_digest rs))))"

definition enter_memory :: "api_env \<Rightarrow> task_record \<Rightarrow> unit op" where
  "enter_memory E t =
     (let review_id = (case gr_independent_reviewer (t_gate_result t) of None \<Rightarrow> [] | Some r \<Rightarrow> r) in
      bindE (list_evidence E (t_id t) (t_generation t)) (\<lambda>rs.
      let digest = evidence_set_digest E rs in
      bindE (new_candidate E t digest review_id Episodic
        ''Repeated runtime dataset hashing can starve GPU workers; this demo trace is synthetic and must be replaced by physical-run evidence before reuse.''
        ''dataset-loader'') (\<lambda>c1.
      bindE (new_candidate E t digest review_id Procedural
        ''Hash immutable datasets once at publish time and verify the canonical, content-addressed manifest at training startup.''
        ''dataset-manifest'') (\<lambda>c2.
      thenE (forE [c1, c2] (propose_candidate E t))
      (thenE (liftE (require_validated_memory (t_gate_result t) review_id))
      (forE [c1, c2] (validate_candidate E t)))))))"

subsection \<open>Live evidence\<close>

text \<open>Does the kind of the item agree with the type of its payload?\<close>

fun kind_matches :: "evidence_kind \<Rightarrow> ext_payload \<Rightarrow> bool" where
  "kind_matches METRIC p = (case p of MetricPayload _ \<Rightarrow> True | _ \<Rightarrow> False)"
| "kind_matches REVIEW p = (case p of ReviewPayload _ \<Rightarrow> True | _ \<Rightarrow> False)"
| "kind_matches k p = (case p of ArtifactPayload _ \<Rightarrow> True | _ \<Rightarrow> False)"

text \<open>The loop over the receipts: the first bad receipt decides the error.\<close>

fun receipt_guards :: "receipt list \<Rightarrow> (bool \<times> api_error) list" where
  "receipt_guards [] = []"
| "receipt_guards (r # rs) =
     (\<not> (200 \<le> rc_http_status r \<and> rc_http_status r < 300), ConflictError ''upstream_receipt_failed'')
     # (rc_response_identifier r = None \<or> rc_response_identifier r = Some [],
        ConflictError ''upstream_receipt_identifier_missing'')
     # receipt_guards rs"

text \<open>Each submitted result must be what the evaluator computes from the raw samples.\<close>

fun recompute_error :: "api_env \<Rightarrow> (string \<times> raw_series) list \<Rightarrow> evaluation list \<Rightarrow> api_error option" where
  "recompute_error E raw [] = None"
| "recompute_error E raw (r # rs) =
     (case dict_get raw (ev_metric r) of
        None \<Rightarrow> Some (RuntimeError ''KeyError'')
      | Some series \<Rightarrow>
         (case evaluate_paired_metric E (ev_metric r) (rs_baseline series) (rs_candidate series)
             (ev_direction r) (ev_threshold r) (ev_bootstrap_seed r) (ev_bootstrap_samples r)
             ''external_live'' of
            Inl e \<Rightarrow> Some e
          | Inr again \<Rightarrow>
              if again \<noteq> r then Some (ConflictError ''metric_recompute_mismatch'')
              else recompute_error E raw rs))"

definition metric_error :: "api_env \<Rightarrow> metric_payload \<Rightarrow> api_error option" where
  "metric_error E p =
     (let names = map ev_metric (mp_results p) in
      case first_error
        [(\<not> list_ex (\<lambda>r. rc_source r = ''gpu'') (mp_receipts p), ConflictError ''gpu_receipt_missing''),
         (json_sha E (raw_samples_json (mp_raw_samples p)) \<noteq> mp_raw_metric_digest p,
          ConflictError ''raw_metric_digest_mismatch''),
         (\<not> distinct names \<or> set names \<noteq> set (keys (mp_raw_samples p)),
          ConflictError ''metric_result_set_mismatch'')] of
        Some e \<Rightarrow> Some e
      | None \<Rightarrow> recompute_error E (mp_raw_samples p) (mp_results p))"

definition live_item_error :: "api_env \<Rightarrow> task_record \<Rightarrow> ingest_item \<Rightarrow> api_error option" where
  "live_item_error E t i =
     (case first_error
        ([(t_synthetic_demo t, PolicyError ''live_evidence_on_synthetic_task''),
          (it_generation i \<noteq> t_generation t, ConflictError ''stale_evidence_generation''),
          (json_sha E (JObj (payload_fields (it_payload i))) \<noteq> it_artifact_digest i,
           ConflictError ''evidence_digest_mismatch''),
          (\<not> kind_matches (it_kind i) (it_payload i), ConflictError ''evidence_payload_kind_mismatch''),
          (payload_stage (it_payload i) \<noteq> live_evidence_stage (it_kind i),
           ConflictError ''evidence_stage_mismatch'')]
         @ receipt_guards (payload_receipts (it_payload i))
         @ [(\<not> list_ex (\<lambda>r. rc_source r = ''agentteams'') (payload_receipts (it_payload i)),
             ConflictError ''agentteams_receipt_missing'')]) of
        Some e \<Rightarrow> Some e
      | None \<Rightarrow> (case it_payload i of MetricPayload p \<Rightarrow> metric_error E p | _ \<Rightarrow> None))"

definition validate_live_item ::
  "api_env \<Rightarrow> task_record \<Rightarrow> ingest_item \<Rightarrow> api_error + (string \<times> json) list" where
  "validate_live_item E t i =
     (case live_item_error E t i of Some e \<Rightarrow> Inl e | None \<Rightarrow> Inr (payload_fields (it_payload i)))"

text \<open>\<open>_evidence_by_kind\<close>: an index that refuses a second record of a kind.\<close>

fun index_kinds ::
  "(evidence_kind \<times> evidence_record) list \<Rightarrow> evidence_record list
     \<Rightarrow> api_error + (evidence_kind \<times> evidence_record) list" where
  "index_kinds d [] = Inr d"
| "index_kinds d (r # rs) =
     (if e_kind r \<in> set (keys d) then Inl (ConflictError ''duplicate_evidence_kind'')
      else index_kinds (d @ [(e_kind r, r)]) rs)"

definition evidence_by_kind :: "evidence_record list \<Rightarrow> api_error + (evidence_kind \<times> evidence_record) list" where
  "evidence_by_kind rs = index_kinds [] rs"

definition same_evidence :: "evidence_record \<Rightarrow> ingest_item \<Rightarrow> (string \<times> json) list \<Rightarrow> bool" where
  "same_evidence r i payload \<longleftrightarrow> e_artifact_digest r = it_artifact_digest i
     \<and> e_producer_id r = it_producer_id i \<and> e_payload r = payload"

definition ingest_receipt :: "evidence_record \<Rightarrow> bool \<Rightarrow> json" where
  "ingest_receipt r replay = JObj [(''schema'', JStr ''egoagentos.evidence-ingest-receipt/v1''),
     (''evidence_id'', JStr (e_id r)), (''artifact_digest'', JStr (e_artifact_digest r)),
     (''idempotent_replay'', JBool replay)]"

definition bump :: "task_record \<Rightarrow> int \<Rightarrow> task_record" where
  "bump t now = t\<lparr>t_version := t_version t + 1, t_updated_at := now\<rparr>"

definition save_bumped :: "api_env \<Rightarrow> task_record \<Rightarrow> task_record op" where
  "save_bumped E t = bindE (utc_now E) (\<lambda>now.
     thenE (save_task (bump t now) (t_version t)) (returnE (bump t now)))"

definition ingest_live_evidence ::
  "api_env \<Rightarrow> string \<Rightarrow> ingest_item \<Rightarrow> int \<Rightarrow> (string \<times> json) list op" where
  "ingest_live_evidence E tid i expected = transaction
     (bindE (get_task tid) (\<lambda>t.
      thenE (liftE (checked
        [(t_synthetic_demo t, PolicyError ''live_evidence_on_synthetic_task''),
         (t_version t \<noteq> expected, ConflictError ''task_version_conflict''),
         (t_stage t \<noteq> ingest_stage (it_kind i), ConflictError ''evidence_ingest_stage_conflict'')] ()))
      (bindE (liftE (validate_live_item E t i)) (\<lambda>payload.
      bindE (list_evidence E (t_id t) (t_generation t)) (\<lambda>rs.
      bindE (liftE (evidence_by_kind rs)) (\<lambda>indexed.
      case dict_get indexed (it_kind i) of
        Some r \<Rightarrow>
          if same_evidence r i payload then
            bindE (task_view E True t) (\<lambda>v. returnE [(''receipt'', ingest_receipt r True), (''task'', v)])
          else raiseE (ConflictError ''evidence_kind_conflict'')
      | None \<Rightarrow>
          bindE (record_evidence E t (it_kind i) (it_producer_id i) payload) (\<lambda>r.
          bindE (save_bumped E (case it_payload i of
              MetricPayload p \<Rightarrow> t\<lparr>t_latest_evaluation := mp_results p\<rparr> | _ \<Rightarrow> t)) (\<lambda>t'.
          bindE (task_view E True t') (\<lambda>v.
          returnE [(''receipt'', ingest_receipt r False), (''task'', v)])))))))))"

text \<open>What a live task needs before it leaves \<open>EXECUTE\<close>, \<open>OBSERVE\<close> and \<open>EVALUATE\<close>.\<close>

definition stage_requirement :: "stage \<Rightarrow> stage \<Rightarrow> evidence_kind list" where
  "stage_requirement source target =
     (if source = EXECUTE \<and> target = OBSERVE then live_before_observe
      else if source = OBSERVE \<and> target = EVALUATE then [METRIC]
      else if source = EVALUATE \<and> target = VERIFY then [REVIEW] else [])"

definition digests_but_review :: "evidence_record list \<Rightarrow> string list" where
  "digests_but_review rs = map e_artifact_digest (filter (\<lambda>r. e_kind r \<noteq> REVIEW) rs)"

definition review_of :: "(evidence_kind \<times> evidence_record) list \<Rightarrow> api_error + review_payload" where
  "review_of indexed = (case dict_get indexed REVIEW of
       None \<Rightarrow> Inl (RuntimeError ''KeyError'')
     | Some r \<Rightarrow> (case read_review_payload (JObj (e_payload r)) of
           None \<Rightarrow> Inl (ValueError ''ReviewEvidencePayload'') | Some p \<Rightarrow> Inr p))"

definition terminal_error ::
  "api_env \<Rightarrow> evidence_record list \<Rightarrow> (evidence_kind \<times> evidence_record) list \<Rightarrow> int \<Rightarrow> api_error option" where
  "terminal_error E rs indexed now =
     (if \<not> set required_for_decision \<subseteq> set (keys indexed) then
        Some (ConflictError ''terminal_evidence_incomplete'')
      else
        (case review_of indexed of
           Inl e \<Rightarrow> Some e
         | Inr p \<Rightarrow>
             if set (rv_reviewed_evidence_digests p) \<noteq> set (digests_but_review rs) then
               Some (ConflictError ''review_evidence_set_mismatch'')
             else
               (case evidence_gate E now rs of
                  Inl e \<Rightarrow> Some e
                | Inr g \<Rightarrow>
                    if gr_status g \<noteq> PASS then Some (ConflictError ''terminal_evidence_gate_failed'')
                    else None)))"

definition validate_live_transition :: "api_env \<Rightarrow> task_record \<Rightarrow> stage \<Rightarrow> stage \<Rightarrow> unit op" where
  "validate_live_transition E t source target =
     (if t_synthetic_demo t then returnE ()
      else bindE (list_evidence E (t_id t) (t_generation t)) (\<lambda>rs.
        if \<not> set (stage_requirement source target) \<subseteq> e_kind ` set rs then
          raiseE (ConflictError ''live_stage_evidence_missing'')
        else if source = EVALUATE \<and> target = VERIFY then
          bindE (liftE (evidence_by_kind rs)) (\<lambda>indexed.
          bindE (utc_now E) (\<lambda>now.
          case terminal_error E rs indexed now of Some e \<Rightarrow> raiseE e | None \<Rightarrow> returnE ()))
        else returnE ()))"

subsection \<open>Transitions\<close>

text \<open>The use of the approval token on the way from \<open>APPROVAL\<close> to \<open>EXECUTE\<close>.\<close>

definition consume_token :: "api_env \<Rightarrow> task_record \<Rightarrow> string option \<Rightarrow> unit op" where
  "consume_token E t token =
     bindE (latest_approval E (t_id t) (t_generation t)) (\<lambda>latest. case latest of
       None \<Rightarrow> raiseE (PolicyError ''approval_required'')
     | Some a \<Rightarrow>
        bindE (liftE (contract_of E t)) (\<lambda>k.
        bindE (utc_now E) (\<lambda>now.
        thenE (liftE (validate_approval_token E a token (t_id t) (t_generation t) (k_scope k)
           (k_action k) (k_digest k) now))
        (bindE (utc_now E) (\<lambda>used.
        let a' = consume_approval a used in
        thenE (save_approval a')
        (thenE (append_audit_event E (t_id t) (t_generation t) ''approval.token.consumed''
           (case a_approver a' of None \<Rightarrow> ''human'' | Some x \<Rightarrow> if x = [] then ''human'' else x)
           (Some APPROVAL)
           [(''approval_id'', JStr (a_id a')), (''single_use'', JBool True), (''scope'', JStr (a_scope a'))])
        (returnE ())))))))"

text \<open>
  The gate on the way from \<open>VERIFY\<close> to \<open>DECIDE\<close>: a failure saves the task with its gate result
  before it raises.
\<close>

definition gate_or_block :: "api_env \<Rightarrow> task_record \<Rightarrow> task_record op" where
  "gate_or_block E t = bindE (refresh_gate E t) (\<lambda>t'.
     if gr_status (t_gate_result t') \<noteq> PASS then
       thenE (save_bumped E t') (raiseE (ConflictError ''evidence_gate_failed''))
     else returnE t')"

definition transition_actor :: "task_record \<Rightarrow> stage \<Rightarrow> string" where
  "transition_actor t target =
     (if \<not> t_synthetic_demo t \<and> target \<in> {DECIDE, ARCHIVE, COMPLETED} then t_owner_agent t
      else stage_agent target)"

definition keep_task :: "task_record \<Rightarrow> unit op \<Rightarrow> task_record op" where
  "keep_task t m = thenE m (returnE t)"

definition enter_stage :: "api_env \<Rightarrow> task_record \<Rightarrow> stage \<Rightarrow> string \<Rightarrow> task_record op" where
  "enter_stage E t target actor =
     (if target = APPROVAL then keep_task t (enter_approval E t)
      else if t_synthetic_demo t \<and> target = CONTEXT then keep_task t (enter_context E t)
      else if t_synthetic_demo t \<and> target = PLAN then keep_task t (enter_plan E t)
      else if t_synthetic_demo t \<and> target = PLAN_REVIEW then keep_task t (enter_plan_review E t)
      else if t_synthetic_demo t \<and> target = EXECUTE then enter_execute E t
      else if t_synthetic_demo t \<and> target = OBSERVE then keep_task t (enter_observe E t)
      else if t_synthetic_demo t \<and> target = EVALUATE then enter_evaluate E t
      else if t_synthetic_demo t \<and> target = VERIFY then keep_task t (enter_verify E t)
      else if target = DECIDE then enter_decide E t actor
      else if t_synthetic_demo t \<and> target = MEMORY_SKILL then keep_task t (enter_memory E t)
      else returnE t)"

definition transition_json :: "stage \<Rightarrow> stage \<Rightarrow> json" where
  "transition_json source target =
     JObj [(''from'', JStr (stage_value source)), (''to'', JStr (stage_value target))]"

definition transition_step :: "api_env \<Rightarrow> task_record \<Rightarrow> stage \<Rightarrow> string option \<Rightarrow> (task_record \<times> json) op" where
  "transition_step E t target token =
     (let source = t_stage t in
      thenE (liftE (validate_transition source target))
      (thenE (validate_live_transition E t source target)
      (thenE (if source = APPROVAL \<and> target = EXECUTE then consume_token E t token else returnE ())
      (bindE (if source = VERIFY \<and> target = DECIDE then gate_or_block E t else returnE t) (\<lambda>t1.
       let actor = transition_actor t1 target;
           t2 = t1\<lparr>t_stage := target, t_current_agent := actor\<rparr> in
       bindE (enter_stage E t2 target actor) (\<lambda>t3.
       bindE (save_bumped E t3) (\<lambda>t4.
       thenE (append_audit_event E (t_id t4) (t_generation t4) ''state.transitioned'' actor (Some target)
         [(''from'', JStr (stage_value source)), (''to'', JStr (stage_value target)),
          (''task_version'', JInt (t_version t4))])
       (returnE (t4, transition_json source target)))))))))"

definition gate_failed :: api_error where
  "gate_failed = ConflictError ''evidence_gate_failed''"

text \<open>
  \<open>advance\<close>: the error of a failed gate is caught inside the transaction, which commits the gate
  result, and raised again outside it.
\<close>

definition advance :: "api_env \<Rightarrow> string \<Rightarrow> stage option \<Rightarrow> string option \<Rightarrow> (string \<times> json) list op" where
  "advance E tid target token =
     bindE (transaction
       (bindE (get_task tid) (\<lambda>t.
        case (case target of Some s \<Rightarrow> Some s | None \<Rightarrow> next_forward_stage (t_stage t)) of
          None \<Rightarrow> raiseE (ConflictError ''terminal_task'')
        | Some destination \<Rightarrow>
            catchE
              (bindE (transition_step E t destination token) (\<lambda>(t', j).
               bindE (task_view E True t') (\<lambda>v. returnE (Inr [(''transition'', j), (''task'', v)]))))
              (\<lambda>e. if e = gate_failed then returnE (Inl e) else raiseE e))))
       (\<lambda>r. case r of Inl e \<Rightarrow> raiseE e | Inr response \<Rightarrow> returnE response)"

definition autorun_result :: "string \<Rightarrow> json \<Rightarrow> json list \<Rightarrow> (string \<times> json) list \<Rightarrow> json \<Rightarrow> (string \<times> json) list" where
  "autorun_result status reason transitions gate v =
     [(''status'', JStr status), (''paused_reason'', reason), (''transitions'', JList transitions)]
     @ gate @ [(''task'', v)]"

text \<open>The loop \<open>for _ in range(20)\<close>; the first argument counts the iterations left.\<close>

fun autorun_loop :: "nat \<Rightarrow> api_env \<Rightarrow> string \<Rightarrow> string option \<Rightarrow> json list \<Rightarrow> (string \<times> json) list op" where
  "autorun_loop 0 E tid token done = raiseE (ConflictError ''autorun_iteration_limit'')"
| "autorun_loop (Suc n) E tid token done =
     bindE (get_task tid) (\<lambda>t.
     if t_stage t = COMPLETED then
       bindE (task_view E True t) (\<lambda>v. returnE (autorun_result ''completed'' JNull done [] v))
     else if t_stage t = APPROVAL \<and> (token = None \<or> token = Some []) then
       bindE (task_view E True t) (\<lambda>v.
         returnE (autorun_result ''paused'' (JStr ''human_approval_required'') done [] v))
     else
       (case next_forward_stage (t_stage t) of
          None \<Rightarrow> raiseE (ConflictError ''terminal_task'')
        | Some destination \<Rightarrow>
           bindE
             (catchE
               (bindE (transition_step E t destination token) (\<lambda>(t', j). returnE (Inr (t', j))))
               (\<lambda>e. if e = gate_failed then returnE (Inl e) else raiseE e))
             (\<lambda>r. case r of
                Inr (t', j) \<Rightarrow>
                  autorun_loop n E tid (if t_stage t' = EXECUTE then None else token) (done @ [j])
              | Inl e \<Rightarrow>
                  bindE (get_task tid) (\<lambda>blocked.
                  bindE (task_view E True blocked) (\<lambda>v.
                  returnE (autorun_result ''paused'' (JStr ''insufficient_evidence'') done
                    [(''gate'', gate_json E (t_gate_result blocked))] v))))))"

definition autorun :: "api_env \<Rightarrow> string \<Rightarrow> string option \<Rightarrow> (string \<times> json) list op" where
  "autorun E tid token = transaction
     (bindE (get_task tid) (\<lambda>t.
      if \<not> t_synthetic_demo t then raiseE (PolicyError ''live_autorun_forbidden'')
      else autorun_loop 20 E tid token []))"

subsection \<open>Finalising a live task\<close>

definition finalize_guards :: "task_record \<Rightarrow> finalize_request \<Rightarrow> (bool \<times> api_error) list" where
  "finalize_guards t r =
     [(t_synthetic_demo t, PolicyError ''synthetic_task_finalization_forbidden''),
      (t_generation t \<noteq> fr_generation r, ConflictError ''stale_finalization_generation''),
      (t_version t \<noteq> fr_expected_task_version r, ConflictError ''task_version_conflict''),
      (t_stage t \<noteq> EXECUTE, ConflictError ''live_finalization_stage_conflict''),
      (fr_terminal_actor r \<noteq> t_owner_agent t, PolicyError ''terminal_actor_mismatch'')]"

text \<open>The submitted items by kind, each validated; the first error in their order is raised.\<close>

fun incoming_items ::
  "api_env \<Rightarrow> task_record \<Rightarrow> (evidence_kind \<times> ingest_item) list \<Rightarrow> ingest_item list
     \<Rightarrow> api_error + (evidence_kind \<times> ingest_item) list" where
  "incoming_items E t d [] = Inr d"
| "incoming_items E t d (i # is) =
     (if it_kind i \<in> set (keys d) then Inl (ConflictError ''duplicate_evidence_kind'')
      else (case live_item_error E t i of
          Some e \<Rightarrow> Inl e
        | None \<Rightarrow> incoming_items E t (d @ [(it_kind i, i)]) is))"

text \<open>
  The records that the request adds: an item whose kind is already recorded must repeat that
  record exactly.
\<close>

fun new_records ::
  "api_env \<Rightarrow> task_record \<Rightarrow> (evidence_kind \<times> evidence_record) list \<Rightarrow> (evidence_kind \<times> ingest_item) list
     \<Rightarrow> evidence_record list op" where
  "new_records E t existing [] = returnE []"
| "new_records E t existing ((k, i) # is) =
     (case dict_get existing k of
        Some r \<Rightarrow>
          if \<not> same_evidence r i (payload_fields (it_payload i)) then
            raiseE (ConflictError ''evidence_kind_conflict'')
          else new_records E t existing is
      | None \<Rightarrow>
          bindE (uuid4_hex E) (\<lambda>u. bindE (utc_now E) (\<lambda>now.
          bindE (new_records E t existing is) (\<lambda>rs.
          returnE (\<lparr>e_id = ''evd_'' @ u, e_task_id = t_id t, e_generation = t_generation t, e_kind = k,
            e_producer_id = it_producer_id i, e_artifact_digest = it_artifact_digest i,
            e_payload = payload_fields (it_payload i), e_synthetic = False,
            e_created_at = now\<rparr> # rs)))))"

definition store_record :: "api_env \<Rightarrow> task_record \<Rightarrow> evidence_record \<Rightarrow> unit op" where
  "store_record E t r =
     thenE (add_evidence r)
     (thenE (append_audit_event E (t_id t) (t_generation t) ''evidence.recorded'' (e_producer_id r)
        (Some (t_stage t))
        [(''evidence_id'', JStr (e_id r)), (''kind'', JStr (kind_value (e_kind r))),
         (''artifact_digest'', JStr (e_artifact_digest r)), (''synthetic'', JBool False)])
     (returnE ()))"

definition metric_results :: "(evidence_kind \<times> evidence_record) list \<Rightarrow> api_error + evaluation list" where
  "metric_results indexed = (case dict_get indexed METRIC of
       None \<Rightarrow> Inl (RuntimeError ''KeyError'')
     | Some r \<Rightarrow> (case read_metric_payload (JObj (e_payload r)) of
           None \<Rightarrow> Inl (ValueError ''MetricEvidencePayload'') | Some p \<Rightarrow> Inr (mp_results p)))"

definition live_manifest_digest :: "api_env \<Rightarrow> task_record \<Rightarrow> evidence_record list \<Rightarrow> string" where
  "live_manifest_digest E t rs = json_sha E (JObj [(''task_id'', JStr (t_id t)),
     (''generation'', JStr (t_generation t)),
     (''execution_contract'', opt_json execution_contract_json (t_execution_contract t)),
     (''evidence'', JList (map JStr (sort (digests_but_review rs))))])"

text \<open>The loop over the remaining stages, threading the task object.\<close>

fun run_stages :: "api_env \<Rightarrow> task_record \<Rightarrow> stage list \<Rightarrow> json list \<Rightarrow> (task_record \<times> json list) op" where
  "run_stages E t [] done = returnE (t, done)"
| "run_stages E t (s # ss) done =
     bindE (transition_step E t s None) (\<lambda>(t', j). run_stages E t' ss (done @ [j]))"

definition terminal_stages :: "stage list" where
  "terminal_stages = [OBSERVE, EVALUATE, VERIFY, DECIDE, ARCHIVE, MEMORY_SKILL, COMPLETED]"

definition finalization_receipt ::
  "task_record \<Rightarrow> (evidence_kind \<times> evidence_record) list \<Rightarrow> string \<Rightarrow> json" where
  "finalization_receipt t indexed terminal = JObj
     [(''schema'', JStr ''egoagentos.live-finalization-receipt/v1''), (''task_id'', JStr (t_id t)),
      (''generation'', JStr (t_generation t)), (''synthetic'', JBool False),
      (''decision'', opt_json JStr (t_decision t)),
      (''contract_gate_status'', JStr (gate_value (gr_status (t_gate_result t)))),
      (''verification_status'', JStr ''CONTRACT_PASS_ORIGIN_UNVERIFIED''),
      (''external_origin_status'', JStr ''UNVERIFIED''), (''live_claim_allowed'', JBool False),
      (''evidence_digests'', JObj (map (\<lambda>k. (kind_value k,
         opt_json (JStr \<circ> e_artifact_digest) (dict_get indexed k))) (sorted_kinds (keys indexed)))),
      (''run_manifest_digest'', opt_json JStr (t_run_manifest_digest t)),
      (''terminal_event_hash'', JStr terminal), (''task_version'', JInt (t_version t))]"

definition finalize_live_task :: "api_env \<Rightarrow> string \<Rightarrow> finalize_request \<Rightarrow> (string \<times> json) list op" where
  "finalize_live_task E tid r = transaction
     (bindE (get_task tid) (\<lambda>t.
      thenE (liftE (checked (finalize_guards t r) ()))
      (bindE (liftE (incoming_items E t [] (fr_evidence r))) (\<lambda>incoming.
      bindE (list_evidence E (t_id t) (t_generation t)) (\<lambda>rs.
      bindE (liftE (evidence_by_kind rs)) (\<lambda>existing.
      bindE (new_records E t existing incoming) (\<lambda>new.
      let all_records = map snd existing @ new in
      bindE (liftE (evidence_by_kind all_records)) (\<lambda>indexed.
      bindE (utc_now E) (\<lambda>now.
      thenE (case terminal_error E all_records indexed now of Some e \<Rightarrow> raiseE e | None \<Rightarrow> returnE ())
      (thenE (forE new (store_record E t))
      (bindE (liftE (metric_results indexed)) (\<lambda>results.
      let t1 = t\<lparr>t_latest_evaluation := results,
            t_run_manifest_digest := Some (live_manifest_digest E t all_records)\<rparr> in
      bindE (run_stages E t1 terminal_stages []) (\<lambda>(t2, transitions).
      bindE (query (\<lambda>d. list_events (t_id t2) (t_generation t2) 0 1000 d)) (\<lambda>vs.
      bindE (task_view E True t2) (\<lambda>v.
      returnE [(''receipt'', finalization_receipt t2 indexed
                 (if vs = [] then [] else v_event_hash (last vs))),
        (''transitions'', JList transitions), (''task'', v)])))))))))))))))"

subsection \<open>Deciding an approval\<close>

definition decide_approval_op ::
  "api_env \<Rightarrow> string \<Rightarrow> string \<Rightarrow> string \<Rightarrow> string \<Rightarrow> (string \<times> json) list op" where
  "decide_approval_op E aid decision approver expected_digest = transaction
     (bindE (get_approval aid) (\<lambda>a.
      bindE (get_task (a_task_id a)) (\<lambda>t.
      if t_generation t \<noteq> a_generation a then raiseE (PolicyError ''stale_approval'')
      else
        bindE (utc_now E) (\<lambda>now. bindE (random_token E) (\<lambda>random.
        case decide_approval E a decision approver expected_digest now random of
          Inl (e, a') \<Rightarrow>
            thenE (if is_PolicyError e \<and> a_status a' = EXPIRED then save_approval a' else returnE ())
            (raiseE e)
        | Inr (a', token) \<Rightarrow>
            thenE (save_approval a')
            (thenE (append_audit_event E (t_id t) (t_generation t) (''approval.'' @ decision) approver
               (Some APPROVAL)
               [(''approval_id'', JStr (a_id a')), (''action_digest'', JStr (a_action_digest a')),
                (''risk_level'', JStr (risk_value (a_risk_level a'))),
                (''token_issued'', JBool (token \<noteq> None))])
            (returnE [(''approval'', approval_public_json E a'), (''approval_token'', opt_json JStr token),
               (''token_notice'', if token = None \<or> token = Some [] then JNull
                  else JStr ''Returned once for this response; token is scope-bound and single-use.'')])))))))"

subsection \<open>The event view\<close>

definition events_view :: "api_env \<Rightarrow> string \<Rightarrow> int \<Rightarrow> nat \<Rightarrow> (string \<times> json) list op" where
  "events_view E tid after limit =
     bindE (get_task tid) (\<lambda>t.
     bindE (query (\<lambda>d. list_events (t_id t) (t_generation t) after limit d)) (\<lambda>vs.
     bindE (query (\<lambda>d. verify_event_chain E (t_id t) (t_generation t) d)) (\<lambda>valid.
     returnE [(''task_id'', JStr (t_id t)), (''generation'', JStr (t_generation t)),
       (''append_only'', JBool True), (''hash_chained'', JBool True), (''chain_valid'', JBool valid),
       (''events'', JList (map (event_json E) vs)),
       (''next_after_sequence'', JInt (if vs = [] then after else v_sequence (last vs)))])))"

subsection \<open>Idempotent requests\<close>

definition idempotency_key :: "string option \<Rightarrow> string option \<Rightarrow> api_error + string option" where
  "idempotency_key header body =
     (let nonempty = (\<lambda>k. case k of None \<Rightarrow> None | Some s \<Rightarrow> if s = [] then None else Some s);
          key = (case nonempty header of Some h \<Rightarrow> Some h | None \<Rightarrow> body) in
      if nonempty header \<noteq> None \<and> nonempty body \<noteq> None \<and> header \<noteq> body then
        Inl (ControlPlaneError ''idempotency_key_mismatch'')
      else (case nonempty key of
          Some k \<Rightarrow> if 8 \<le> str_len k \<and> str_len k \<le> 128 then Inr key
                    else Inl (ControlPlaneError ''invalid_idempotency_key'')
        | None \<Rightarrow> Inr key))"

definition run_idempotent ::
  "api_env \<Rightarrow> string \<Rightarrow> string \<Rightarrow> string option \<Rightarrow> (string \<times> json) list
     \<Rightarrow> (string \<times> json) list op \<Rightarrow> ((string \<times> json) list \<Rightarrow> (string \<times> json) list) \<Rightarrow> (string \<times> json) list op" where
  "run_idempotent E meth path key body operation cache_response =
     (case key of
        None \<Rightarrow> operation
      | Some k \<Rightarrow>
         if k = [] then operation
         else
          (let request_hash = json_sha E (JObj body) in
           bindE (transaction
             (bindE (get_idempotent meth path k request_hash) (\<lambda>cached. case cached of
                Some (status, response) \<Rightarrow>
                  returnE (Inr (dict_set ''idempotent_replay'' (JBool True) response))
              | None \<Rightarrow>
                  bindE (catchE (bindE operation (\<lambda>response. returnE (Inr response)))
                    (\<lambda>e. if error_code e = Some ''evidence_gate_failed'' then returnE (Inl e) else raiseE e))
                  (\<lambda>r. case r of
                      Inl e \<Rightarrow> returnE (Inl e)
                    | Inr response \<Rightarrow>
                        thenE (put_idempotent E meth path k request_hash 200 (cache_response response))
                        (returnE (Inr response))))))
           (\<lambda>r. case r of Inl e \<Rightarrow> raiseE e | Inr response \<Rightarrow> returnE response)))"

definition redact_approval_replay :: "(string \<times> json) list \<Rightarrow> (string \<times> json) list" where
  "redact_approval_replay response =
     dict_set ''token_notice''
       (JStr ''One-time token omitted from idempotent replay; request a new approval if it was lost.'')
     (dict_set ''approval_token'' JNull response)"

end
