(* ===== verification/Changes.thy ===== *)
theory Changes
  imports Service
begin

text \<open>
  What the service can do to the database. Every operation is a sequence of single-row changes,
  each with the guard that the schema puts on it; a property of the database that survives every
  guarded change survives every call, whatever the call returns, and so holds in every state that
  calls can reach. The locale \<open>change_invariant\<close> states this once; the audit log is its first
  instance.
\<close>

subsection \<open>Single-row changes\<close>

datatype change =
    TaskUpsert task_record
  | TaskCreate task_record
  | TaskSave task_record
  | ApprovalAdd approval_record
  | ApprovalSave approval_record
  | EvidenceAdd evidence_record
  | CandidateAdd memory_candidate
  | MemoryAdd memory_record
  | EventAdd audit_event
  | IdemPut idem_key "string \<times> (string \<times> json) list \<times> int"
  | ClosureAdd closure_row

fun apply_change :: "change \<Rightarrow> control_db \<Rightarrow> control_db" where
  "apply_change (TaskUpsert t) d = d\<lparr>tasks := dict_set (t_id t) t (tasks d)\<rparr>"
| "apply_change (TaskCreate t) d = d\<lparr>tasks := tasks d @ [(t_id t, t)]\<rparr>"
| "apply_change (TaskSave t) d = d\<lparr>tasks := dict_set (t_id t) t (tasks d)\<rparr>"
| "apply_change (ApprovalAdd a) d = d\<lparr>approvals := approvals d @ [(a_id a, a)]\<rparr>"
| "apply_change (ApprovalSave a) d = d\<lparr>approvals := dict_set (a_id a) a (approvals d)\<rparr>"
| "apply_change (EvidenceAdd r) d = d\<lparr>evidence := evidence d @ [r]\<rparr>"
| "apply_change (CandidateAdd c) d = d\<lparr>candidates := candidates d @ [c]\<rparr>"
| "apply_change (MemoryAdd m) d = d\<lparr>memories := memories d @ [m]\<rparr>"
| "apply_change (EventAdd v) d = d\<lparr>events := events d @ [v]\<rparr>"
| "apply_change (IdemPut k x) d = d\<lparr>idempotency := idempotency d @ [(k, x)]\<rparr>"
| "apply_change (ClosureAdd r) d = d\<lparr>closures := closures d @ [r]\<rparr>"

text \<open>An event extends the log when it carries the next number, its predecessor's hash and its own.\<close>

definition event_fits :: "api_env \<Rightarrow> control_db \<Rightarrow> audit_event \<Rightarrow> bool" where
  "event_fits E d v \<longleftrightarrow> v_sequence v = next_sequence d
     \<and> v_previous_hash v = stream_head d (v_task_id v) (v_generation v)
     \<and> v_event_hash v = audit_event_digest E v
     \<and> v_id v \<notin> v_id ` set (events d) \<and> v_event_hash v \<notin> v_event_hash ` set (events d)"

definition closure_fits :: "api_env \<Rightarrow> control_db \<Rightarrow> closure_row \<Rightarrow> bool" where
  "closure_fits E d r \<longleftrightarrow>
     closure_check E (dc_closure_digest r) (dc_closure_bytes r) = None
     \<and> is_sha256_digest (dc_closure_digest r)
     \<and> dc_closure_bytes_sha256 r = sha256 E (dc_closure_bytes r)
     \<and> (\<forall>q \<in> set (closures d). same_closure_scope (dc_tenant_id r) (dc_project_id r) q \<longrightarrow>
          dc_idempotency_key q \<noteq> dc_idempotency_key r \<and> dc_closure_digest q \<noteq> dc_closure_digest r)"

fun change_ok :: "api_env \<Rightarrow> change \<Rightarrow> control_db \<Rightarrow> bool" where
  "change_ok E (TaskUpsert t) d \<longleftrightarrow> True"
| "change_ok E (TaskCreate t) d \<longleftrightarrow> t_id t \<notin> set (keys (tasks d))"
| "change_ok E (TaskSave t) d \<longleftrightarrow>
     (\<exists>r. dict_get (tasks d) (t_id t) = Some r \<and> t_generation r = t_generation t)"
| "change_ok E (ApprovalAdd a) d \<longleftrightarrow> a_id a \<notin> set (keys (approvals d)) \<and> \<not> token_hash_taken d a"
| "change_ok E (ApprovalSave a) d \<longleftrightarrow> a_id a \<in> set (keys (approvals d)) \<and> \<not> token_hash_taken d a"
| "change_ok E (EvidenceAdd r) d \<longleftrightarrow> e_id r \<notin> e_id ` set (evidence d)"
| "change_ok E (CandidateAdd c) d \<longleftrightarrow> mc_id c \<notin> mc_id ` set (candidates d)"
| "change_ok E (MemoryAdd m) d \<longleftrightarrow> mr_id m \<notin> mr_id ` set (memories d)"
| "change_ok E (EventAdd v) d \<longleftrightarrow> event_fits E d v"
| "change_ok E (IdemPut k x) d \<longleftrightarrow> k \<notin> set (keys (idempotency d))"
| "change_ok E (ClosureAdd r) d \<longleftrightarrow> closure_fits E d r"

subsection \<open>Calls\<close>

datatype api_call =
    Reset scenario
  | Create create_request
  | Advance string "stage option" "string option"
  | Autorun string "string option"
  | Ingest string ingest_item int
  | Finalize string finalize_request
  | Decide string string string string
  | AppendClosure string string string string string

fun run_call :: "api_env \<Rightarrow> api_call \<Rightarrow> (string \<times> json) list op" where
  "run_call E (Reset sc) = reset_demo E sc"
| "run_call E (Create r) = create_live_task E r"
| "run_call E (Advance tid target token) = advance E tid target token"
| "run_call E (Autorun tid token) = autorun E tid token"
| "run_call E (Ingest tid i expected) = ingest_live_evidence E tid i expected"
| "run_call E (Finalize tid r) = finalize_live_task E tid r"
| "run_call E (Decide aid decision approver expected) = decide_approval_op E aid decision approver expected"
| "run_call E (AppendClosure tenant project digest bytes key) =
     bindE (append_decision_closure E tenant project digest bytes key) (\<lambda>_. returnE [])"

text \<open>
  One step of the service: a call on its own, the same call behind an idempotency key, or the
  creation of the demo task at start-up. The calls of several clients are serialised by the
  mutation lock, so their interleavings are the sequences of steps.
\<close>

inductive service_step :: "api_env \<Rightarrow> session \<Rightarrow> session \<Rightarrow> bool" for E where
  direct: "service_step E s (snd (run_call E c s))"
| idempotent: "service_step E s (snd (run_idempotent E meth path key body (run_call E c) cache s))"
| startup: "service_step E s (snd (ensure_demo E s))"

inductive_cases service_stepE: "service_step E s s'"

definition service_reachable :: "api_env \<Rightarrow> session \<Rightarrow> bool" where
  "service_reachable E s \<longleftrightarrow> (service_step E)\<^sup>*\<^sup>* fresh_session s"

subsection \<open>Properties that every change keeps\<close>

lemma keeps_transaction [keeps_intros]:
  assumes body: "keeps (\<lambda>s. J (db s)) body"
  shows "keeps (\<lambda>s. J (db s)) (transaction body)"
proof (rule keepsI)
  fix s :: session
  assume J: "J (db s)"
  let ?in = "if 0 < depth s then s\<lparr>depth := depth s + 1\<rparr> else s\<lparr>depth := 1, rollback_only := False\<rparr>"
  have "J (db (snd (body ?in)))" using keeps_snd [OF body, of ?in] J by simp
  then show "wp (transaction body) (\<lambda>_ s. J (db s)) (\<lambda>_ s. J (db s)) s"
    using J by (auto simp: wp_def transaction_def split: prod.splits sum.splits if_splits)
qed

lemma keeps_lift_bind: "(\<And>a. r = Inr a \<Longrightarrow> keeps I (f a)) \<Longrightarrow> keeps I (bindE (liftE r) f)"
  by (auto simp: keeps_def wp_simps split: sum.splits)

lemma keeps_Let [keeps_intros]: "(\<And>x. x = a \<Longrightarrow> keeps I (f x)) \<Longrightarrow> keeps I (let x = a in f x)"
  by simp

lemma keeps_query [keeps_intros]: "keeps I (query f)"
  by (simp add: query_def keeps_intros)

lemma keeps_clock [keeps_intros]:
  "keeps (\<lambda>s. J (db s)) (utc_now E)" "keeps (\<lambda>s. J (db s)) (uuid4_hex E)"
  "keeps (\<lambda>s. J (db s)) (random_token E)"
  by (simp_all add: keeps_def wp_def utc_now_def uuid4_hex_def random_token_def)

lemma wp_update_db [wp_simps]: "wp (update_db f) Q X s = Q () (s\<lparr>db := f (db s)\<rparr>)"
  by (simp add: update_db_def wp_simps)

lemma wp_query [wp_simps]: "wp (query f) Q X s = Q (f (db s)) s"
  by (simp add: query_def wp_simps)

lemma wp_clock [wp_simps]:
  "wp (utc_now E) Q X s = Q (clock E (ticks s)) (s\<lparr>ticks := ticks s + 1\<rparr>)"
  "wp (uuid4_hex E) Q' X s = Q' (uuid_hex E (draws s)) (s\<lparr>draws := draws s + 1\<rparr>)"
  "wp (random_token E) Q' X s = Q' (token_urlsafe E (draws s)) (s\<lparr>draws := draws s + 1\<rparr>)"
  by (simp_all add: wp_def utc_now_def uuid4_hex_def random_token_def)

lemma audit_digest_hash [simp]:
  "audit_event_digest E (v\<lparr>v_event_hash := h\<rparr>) = audit_event_digest E v"
  by (simp add: audit_event_digest_def hash_payload_def)

text \<open>
  The primitives of the store, for a property \<open>J\<close> that survives the guarded changes satisfying
  \<open>G\<close>.
\<close>

locale guarded_changes =
  fixes E :: api_env and J :: "control_db \<Rightarrow> bool" and G :: "change \<Rightarrow> bool"
  assumes change: "J d \<Longrightarrow> change_ok E c d \<Longrightarrow> G c \<Longrightarrow> J (apply_change c d)"
begin

lemmas changes =
  change [where c = "TaskUpsert t" for t, simplified] change [where c = "TaskCreate t" for t, simplified]
  change [where c = "TaskSave t" for t, simplified] change [where c = "ApprovalAdd a" for a, simplified]
  change [where c = "ApprovalSave a" for a, simplified] change [where c = "EvidenceAdd r" for r, simplified]
  change [where c = "CandidateAdd c" for c, simplified] change [where c = "MemoryAdd m" for m, simplified]
  change [where c = "EventAdd v" for v, simplified] change [where c = "IdemPut k x" for k x, simplified]
  change [where c = "ClosureAdd r" for r, simplified]

abbreviation held :: "session \<Rightarrow> bool" where
  "held \<equiv> (\<lambda>s. J (db s))"

lemma read_keeps [keeps_intros]:
  "keeps held (get_task tid)" "keeps held (list_tasks E')" "keeps held (get_approval aid)"
  "keeps held (latest_approval E' tid gen)" "keeps held (list_evidence E' tid gen)"
  "keeps held (list_memory_candidates E' tid gen)" "keeps held (list_memories E' tid gen)"
  "keeps held (get_idempotent meth path key h)"
  unfolding get_task_def list_tasks_def get_approval_def latest_approval_def list_evidence_def
    list_memory_candidates_def list_memories_def get_idempotent_def
  by (intro keeps_intros; clarsimp intro!: keeps_intros)+

lemma view_keeps [keeps_intros]: "keeps held (task_view E' full t)"
  unfolding task_view_def by (intro keeps_intros)

lemma task_keeps:
  "G (TaskUpsert t) \<Longrightarrow> keeps held (upsert_seed_task t)"
  "G (TaskCreate t) \<Longrightarrow> keeps held (create_task t)"
  "G (TaskSave t) \<Longrightarrow> keeps held (save_task t expected)"
  unfolding upsert_seed_task_def create_task_def save_task_def
  by (rule keepsI; auto simp: wp_simps dict_get_None intro: changes split: option.splits)+

lemma approval_keeps:
  "G (ApprovalAdd a) \<Longrightarrow> keeps held (add_approval a)"
  "G (ApprovalSave a) \<Longrightarrow> keeps held (save_approval a)"
  unfolding add_approval_def save_approval_def
  by (rule keepsI; auto simp: wp_simps dict_get_None intro: changes(4) changes(5) [OF _ conjI]
      dest: map_of_SomeD split: option.splits; force dest: map_of_SomeD intro: changes(5))+

lemma record_keeps:
  "G (EvidenceAdd r) \<Longrightarrow> keeps held (add_evidence r)"
  "G (CandidateAdd c) \<Longrightarrow> keeps held (add_memory_candidate c)"
  "G (MemoryAdd m) \<Longrightarrow> keeps held (add_memory m)"
  unfolding add_evidence_def add_memory_candidate_def add_memory_def
  by (rule keepsI; auto simp: wp_simps intro: changes)+

lemma event_keeps:
  assumes "\<And>v. v_task_id v = tid \<Longrightarrow> v_generation v = gen \<Longrightarrow> v_event_type v = event_type \<Longrightarrow>
    v_stage v = stage \<Longrightarrow> G (EventAdd v)"
  shows "keeps held (append_audit_event E tid gen event_type actor stage payload)"
  unfolding append_audit_event_def
  by (rule keepsI) (auto simp: wp_simps Let_def event_fits_def audit_event_digest_def hash_payload_def
      intro!: changes(9) assms)

lemma event_wp:
  assumes "J (db s)" and "\<And>v. v_event_type v = event_type \<Longrightarrow> v_stage v = stage \<Longrightarrow> v_task_id v = tid \<Longrightarrow>
    v_generation v = gen \<Longrightarrow> G (EventAdd v)"
  shows "wp (append_audit_event E tid gen event_type actor stage payload) (\<lambda>_. held) (\<lambda>_. held) s"
  by (rule keepsD [OF event_keeps]) (use assms in auto)

lemma idem_keeps:
  assumes "\<And>k x. G (IdemPut k x)"
  shows "keeps held (put_idempotent E' meth path key h st resp)"
  unfolding get_idempotent_def put_idempotent_def using assms
  by (intro keepsI) (auto simp: wp_simps dict_get_None intro: changes split: option.splits)

lemma store_closure_keeps:
  assumes "is_sha256_digest (dc_closure_digest row)"
    and "closure_check E (dc_closure_digest row) (dc_closure_bytes row) = None"
    and "dc_closure_bytes_sha256 row = sha256 E (dc_closure_bytes row)" and "G (ClosureAdd row)"
  shows "keeps held (store_closure E row)"
  unfolding store_closure_def using assms
  by (intro keepsI) (auto simp: wp_simps closure_fits_def find_None_iff intro!: changes(11) split: option.splits)

lemma closure_keeps:
  assumes G: "\<And>r. G (ClosureAdd r)"
  shows "keeps held (append_decision_closure E tenant project digest bytes key)"
proof (cases "is_sha256_digest digest \<and> closure_check E digest bytes = None")
  case True
  then have "keeps held (store_closure E \<lparr>dc_tenant_id = tenant, dc_project_id = project,
     dc_closure_digest = digest, dc_closure_bytes = bytes, dc_closure_bytes_sha256 = sha256 E bytes,
     dc_idempotency_key = key\<rparr>)"
    by (intro store_closure_keeps G) simp_all
  then show ?thesis
    unfolding append_decision_closure_def by (intro keeps_intros) simp_all
next
  case False
  then show ?thesis
    by (intro keepsI) (auto simp: append_decision_closure_def wp_simps checked_def split: option.splits)
qed

end

text \<open>
  What entering a stage may do: append events other than a transition, record evidence of the
  task, request an approval and propose memory candidates. The task is named by its identifier and
  generation.
\<close>

locale stage_entry = guarded_changes E J G
  for E :: api_env and J :: "control_db \<Rightarrow> bool" and G :: "change \<Rightarrow> bool" +
  fixes tid gen :: string
  assumes event_ok: "v_event_type v \<noteq> ''state.transitioned'' \<Longrightarrow> G (EventAdd v)"
    and record_ok: "e_task_id r = tid \<Longrightarrow> e_generation r = gen \<Longrightarrow> G (EvidenceAdd r)"
    and request_ok: "build_approval aid tid gen risk scope action digest config payload rollback now ttl = Inr a \<Longrightarrow>
           G (ApprovalAdd a)"
    and propose_ok: "G (CandidateAdd c)"
begin

lemma entry_event_keeps:
  "event_type \<noteq> ''state.transitioned'' \<Longrightarrow>
     keeps held (append_audit_event E tid' gen' event_type actor stage payload)"
  by (rule event_keeps) (simp add: event_ok)

lemma record_evidence_keeps:
  "t_id t = tid \<Longrightarrow> t_generation t = gen \<Longrightarrow> keeps held (record_evidence E t kind producer payload)"
  unfolding record_evidence_def
  by (intro keeps_intros record_keeps entry_event_keeps record_ok) simp_all

lemmas entry_intros = keeps_intros record_keeps record_evidence_keeps entry_event_keeps propose_ok

lemma enter_simple_keeps:
  assumes "t_id t = tid" and "t_generation t = gen"
  shows "keeps held (enter_context E t)" "keeps held (enter_plan E t)" "keeps held (enter_plan_review E t)"
    "keeps held (enter_execute E t)" "keeps held (enter_observe E t)"
    "keeps held (enter_evaluate E t)" "keeps held (enter_verify E t)" "keeps held (enter_decide E t actor)"
    "keeps held (refresh_gate E t)"
  unfolding enter_context_def enter_plan_def enter_plan_review_def enter_execute_def
    enter_observe_def enter_evaluate_def enter_verify_def enter_decide_def refresh_gate_def
  by (intro entry_intros assms; simp)+

lemma enter_approval_keeps:
  assumes "t_id t = tid" and "t_generation t = gen"
  shows "keeps held (enter_approval E t)"
    unfolding enter_approval_def assms
    by (rule keeps_bind, rule keeps_lift, rule keeps_bind, rule keeps_clock, rule keeps_bind,
        rule keeps_clock, rule keeps_lift_bind)
      (intro keeps_then approval_keeps entry_event_keeps keeps_return; auto intro: request_ok)+

lemma propose_keeps: "keeps held (propose_candidate E t c)"
  unfolding propose_candidate_def by (intro entry_intros) simp_all

lemma new_candidate_keeps: "keeps held (new_candidate E t digest review mtype st component)"
  unfolding new_candidate_def by (intro entry_intros)

end

text \<open>A property that survives every change but the storing of an answer: the calls themselves keep it.\<close>

fun no_answer :: "change \<Rightarrow> bool" where
  "no_answer (IdemPut k x) \<longleftrightarrow> False"
| "no_answer c \<longleftrightarrow> True"

locale call_invariant = guarded_changes E J no_answer for E :: api_env and J :: "control_db \<Rightarrow> bool"
begin

lemma store_keeps [keeps_intros]:
  "keeps held (upsert_seed_task t)" "keeps held (create_task t)" "keeps held (save_task t expected)"
  "keeps held (add_approval a)" "keeps held (save_approval a)" "keeps held (add_evidence r)"
  "keeps held (add_memory_candidate c)" "keeps held (add_memory m)"
  "keeps held (append_audit_event E tid gen event_type actor stage payload)"
  "keeps held (append_decision_closure E tenant project digest bytes key)"
  by (simp_all add: task_keeps approval_keeps record_keeps event_keeps closure_keeps)

subsubsection \<open>The operations of the service\<close>

lemma create_keeps [keeps_intros]:
  "keeps held (reset_demo E sc)" "keeps held (create_live_task E r)" "keeps held (ensure_demo E)"
  unfolding reset_demo_def create_live_task_def ensure_demo_def new_generation_def
  by (intro keeps_intros)+

lemma record_evidence_keeps [keeps_intros]: "keeps held (record_evidence E t kind producer payload)"
  unfolding record_evidence_def by (intro keeps_intros)

lemma enter_keeps [keeps_intros]:
  "keeps held (enter_context E t)" "keeps held (enter_plan E t)" "keeps held (enter_plan_review E t)"
  "keeps held (enter_approval E t)" "keeps held (enter_execute E t)" "keeps held (enter_observe E t)"
  "keeps held (enter_evaluate E t)" "keeps held (enter_verify E t)" "keeps held (enter_decide E t actor)"
  unfolding enter_context_def enter_plan_def enter_plan_review_def enter_approval_def enter_execute_def
    enter_observe_def enter_evaluate_def enter_verify_def enter_decide_def
  by (intro keeps_intros)+

lemma enter_memory_keeps [keeps_intros]: "keeps held (enter_memory E t)"
  unfolding enter_memory_def new_candidate_def propose_candidate_def validate_candidate_def
  by (intro keeps_intros)

lemma enter_stage_keeps [keeps_intros]: "keeps held (enter_stage E t target actor)"
  unfolding enter_stage_def keep_task_def by (intro keeps_intros)

lemma gate_keeps [keeps_intros]:
  "keeps held (save_bumped E' t)" "keeps held (refresh_gate E t)" "keeps held (gate_or_block E t)"
  "keeps held (consume_token E t token)" "keeps held (validate_live_transition E' t source target)"
  unfolding save_bumped_def refresh_gate_def gate_or_block_def consume_token_def validate_live_transition_def
  by (intro keeps_intros)+

lemma transition_keeps [keeps_intros]: "keeps held (transition_step E t target token)"
  unfolding transition_step_def by (intro keeps_intros)

lemma advance_keeps [keeps_intros]: "keeps held (advance E tid target token)"
  unfolding advance_def by (intro keeps_intros)

lemma autorun_loop_keeps [keeps_intros]: "keeps held (autorun_loop n E tid token done)"
  by (induction n arbitrary: token "done") (simp; intro keeps_intros; assumption?)+

lemma autorun_keeps [keeps_intros]: "keeps held (autorun E tid token)"
  unfolding autorun_def by (intro keeps_intros)

lemma ingest_keeps [keeps_intros]: "keeps held (ingest_live_evidence E tid i expected)"
  unfolding ingest_live_evidence_def by (intro keeps_intros)

lemma new_records_keeps [keeps_intros]: "keeps held (new_records E' t existing is)"
  by (induction "is") (auto intro!: keeps_intros split: option.split)

lemma run_stages_keeps [keeps_intros]: "keeps held (run_stages E t ss done)"
  by (induction ss arbitrary: t "done") (auto intro!: keeps_intros)

lemma store_record_keeps [keeps_intros]: "keeps held (store_record E t r)"
  unfolding store_record_def by (intro keeps_intros)

lemma finalize_keeps [keeps_intros]: "keeps held (finalize_live_task E tid r)"
  unfolding finalize_live_task_def by (intro keeps_intros)

lemma decide_keeps [keeps_intros]: "keeps held (decide_approval_op E aid decision approver expected)"
  unfolding decide_approval_op_def by (intro keeps_intros)

lemma call_keeps [keeps_intros]: "keeps held (run_call E c)"
  by (cases c) (auto intro!: keeps_intros)

end

text \<open>A property that survives every change.\<close>

locale change_invariant =
  fixes E :: api_env and J :: "control_db \<Rightarrow> bool"
  assumes any_change: "J d \<Longrightarrow> change_ok E c d \<Longrightarrow> J (apply_change c d)"

sublocale change_invariant \<subseteq> call_invariant E J
  by unfold_locales (rule any_change)

sublocale change_invariant \<subseteq> every: guarded_changes E J "\<lambda>_. True"
  by unfold_locales (rule any_change)

context change_invariant
begin

lemma idempotent_keeps [keeps_intros]:
  "keeps held m \<Longrightarrow> keeps held (run_idempotent E' meth path key body m cache)"
  unfolding run_idempotent_def Let_def by (intro keeps_intros every.idem_keeps TrueI)

lemma step_keeps: "service_step E s s' \<Longrightarrow> J (db s) \<Longrightarrow> J (db s')"
  by (elim service_stepE) (auto intro!: keeps_snd [of held] keeps_intros)

lemma steps_keep: "(service_step E)\<^sup>*\<^sup>* s s' \<Longrightarrow> J (db s) \<Longrightarrow> J (db s')"
  by (induction rule: rtranclp_induct) (auto intro: step_keeps)

lemma reachable_keeps: "service_reachable E s \<Longrightarrow> J empty_db \<Longrightarrow> J (db s)"
  unfolding service_reachable_def by (drule steps_keep) (simp_all add: fresh_session_def)

end

end
