(* ===== verification/ServiceInv.thy ===== *)
theory ServiceInv
  imports Changes
begin

text \<open>
  The invariant of the control plane: what holds of every task, approval and memory in every state
  the service reaches. A task that has started execution has consumed an approval of exactly its
  action contract; a task that has been decided passed the gate, and its evidence still shows why;
  every entry into \<open>EXECUTE\<close> is paid for by one consumed approval.
\<close>

subsection \<open>Parts of the invariant\<close>

definition paid :: "api_env \<Rightarrow> control_db \<Rightarrow> task_record \<Rightarrow> bool" where
  "paid E d t \<longleftrightarrow> (\<exists>k. contract_of E t = Inr k \<and>
     (\<exists>a. dict_get (approvals d) (a_id a) = Some a \<and> a_task_id a = t_id t \<and> a_generation a = t_generation t
        \<and> a_status a = CONSUMED \<and> a_scope a = k_scope k \<and> a_action a = k_action k
        \<and> a_action_digest a = k_digest k))"

definition proven :: "api_env \<Rightarrow> control_db \<Rightarrow> task_record \<Rightarrow> bool" where
  "proven E d t \<longleftrightarrow> gr_status (t_gate_result t) = PASS
     \<and> (\<exists>reviewer. gr_independent_reviewer (t_gate_result t) = Some reviewer
          \<and> complete_evidence E (evidence_of E d (t_id t) (t_generation t)) reviewer)
     \<and> t_decision t = Some (decision_of (t_latest_evaluation t))"

definition task_inv :: "api_env \<Rightarrow> control_db \<Rightarrow> task_record \<Rightarrow> bool" where
  "task_inv E d t \<longleftrightarrow> task_ok t \<and> 1 \<le> t_version t
     \<and> (executed (t_stage t) \<longrightarrow> paid E d t) \<and> (decided (t_stage t) \<longrightarrow> proven E d t)"

text \<open>The clock is read once to check the token and again, right after, for the time of use.\<close>

definition approval_inv :: "api_env \<Rightarrow> approval_record \<Rightarrow> bool" where
  "approval_inv E a \<longleftrightarrow> a_status a \<noteq> EXPIRED
     \<and> (a_status a = CONSUMED \<longleftrightarrow> a_used_at a \<noteq> None)
     \<and> (a_status a = PENDING \<longleftrightarrow> a_decided_at a = None)
     \<and> (a_decided_at a = None \<longleftrightarrow> a_approver a = None)
     \<and> (a_status a \<in> {APPROVED, CONSUMED} \<longleftrightarrow> a_token_hash a \<noteq> None)
     \<and> (case a_decided_at a of None \<Rightarrow> True | Some x \<Rightarrow> x < a_expires_at a)
     \<and> (case a_used_at a of None \<Rightarrow> True
         | Some used \<Rightarrow> \<exists>n. used = clock E (Suc n) \<and> clock E n < a_expires_at a)
     \<and> (a_risk_level a = R3 \<longrightarrow> a_rollback_point a \<noteq> None)"

definition memory_inv :: "control_db \<Rightarrow> memory_record \<Rightarrow> bool" where
  "memory_inv d m \<longleftrightarrow> mr_validated m \<and> mr_review_id m \<noteq> []
     \<and> (\<exists>c \<in> set (candidates d). mr_candidate_id m = Some (mc_id c) \<and> mc_task_id c = mr_task_id m
          \<and> mc_generation c = mr_generation m \<and> mc_statement c = mr_statement m
          \<and> mc_evidence_digest c = mr_evidence_digest m \<and> mc_review_id c = mr_review_id m)
     \<and> (\<exists>r \<in> set (evidence d). e_task_id r = mr_task_id m \<and> e_generation r = mr_generation m
          \<and> e_kind r = REVIEW \<and> e_producer_id r = mr_review_id m)"

definition core_inv :: "api_env \<Rightarrow> control_db \<Rightarrow> bool" where
  "core_inv E d \<longleftrightarrow> (\<forall>k t. dict_get (tasks d) k = Some t \<longrightarrow> t_id t = k \<and> task_inv E d t)
     \<and> (\<forall>k a. dict_get (approvals d) k = Some a \<longrightarrow> a_id a = k \<and> approval_inv E a)
     \<and> distinct (keys (approvals d))
     \<and> (\<forall>m \<in> set (memories d). memory_inv d m)"

text \<open>How many approvals of a generation were consumed, and how often it entered \<open>EXECUTE\<close>.\<close>

definition consumed :: "control_db \<Rightarrow> string \<Rightarrow> string \<Rightarrow> nat" where
  "consumed d tid gen = length (filter (\<lambda>a. a_status a = CONSUMED) (approvals_of d tid gen))"

definition entry :: "audit_event \<Rightarrow> bool" where
  "entry v \<longleftrightarrow> v_event_type v = ''state.transitioned'' \<and> v_stage v = Some EXECUTE"

definition entries :: "control_db \<Rightarrow> string \<Rightarrow> string \<Rightarrow> nat" where
  "entries d tid gen = length (filter entry (stream d tid gen))"

definition credit :: "control_db \<Rightarrow> string \<Rightarrow> string \<Rightarrow> int" where
  "credit d tid gen = int (consumed d tid gen) - int (entries d tid gen)"

lemma core_taskD: "core_inv E d \<Longrightarrow> dict_get (tasks d) k = Some t \<Longrightarrow> t_id t = k \<and> task_inv E d t"
  by (simp add: core_inv_def)

lemma core_approvalD: "core_inv E d \<Longrightarrow> dict_get (approvals d) k = Some a \<Longrightarrow> a_id a = k \<and> approval_inv E a"
  by (simp add: core_inv_def)

lemma core_distinct: "core_inv E d \<Longrightarrow> distinct (keys (approvals d))"
  by (simp add: core_inv_def)

lemma core_memoryD: "core_inv E d \<Longrightarrow> m \<in> set (memories d) \<Longrightarrow> memory_inv d m"
  by (simp add: core_inv_def)

subsection \<open>Changes that keep it\<close>

text \<open>No decided task may own new evidence.\<close>

definition open_for :: "control_db \<Rightarrow> string \<Rightarrow> string \<Rightarrow> bool" where
  "open_for d tid gen \<longleftrightarrow>
     (\<forall>t. dict_get (tasks d) tid = Some t \<and> t_generation t = gen \<longrightarrow> \<not> decided (t_stage t))"

text \<open>An approval changes status only along its life cycle, and keeps what it was asked for.\<close>

definition approval_step :: "api_env \<Rightarrow> approval_record \<Rightarrow> approval_record \<Rightarrow> bool" where
  "approval_step E a b \<longleftrightarrow> a_id b = a_id a \<and> a_task_id b = a_task_id a \<and> a_generation b = a_generation a
     \<and> a_status a \<noteq> CONSUMED \<and> approval_inv E b"

fun change_safe :: "api_env \<Rightarrow> change \<Rightarrow> control_db \<Rightarrow> bool" where
  "change_safe E (TaskUpsert t) d \<longleftrightarrow> task_inv E d t"
| "change_safe E (TaskCreate t) d \<longleftrightarrow> task_inv E d t"
| "change_safe E (TaskSave t) d \<longleftrightarrow> task_inv E d t"
| "change_safe E (ApprovalAdd a) d \<longleftrightarrow> approval_inv E a"
| "change_safe E (ApprovalSave a) d \<longleftrightarrow> (\<exists>old. dict_get (approvals d) (a_id a) = Some old \<and> approval_step E old a)"
| "change_safe E (EvidenceAdd r) d \<longleftrightarrow> open_for d (e_task_id r) (e_generation r)"
| "change_safe E (MemoryAdd m) d \<longleftrightarrow> memory_inv d m"
| "change_safe E c d \<longleftrightarrow> True"

lemma evidence_of_cong: "evidence d = evidence d' \<Longrightarrow> evidence_of E d tid gen = evidence_of E d' tid gen"
  by (simp add: evidence_of_def)

lemma paid_mono:
  assumes "paid E d t"
    and "\<And>a. dict_get (approvals d) (a_id a) = Some a \<Longrightarrow> a_status a = CONSUMED \<Longrightarrow>
           dict_get (approvals d') (a_id a) = Some a"
  shows "paid E d' t"
  using assms unfolding paid_def by blast

lemma task_inv_cong:
  assumes "task_inv E d t"
    and "\<And>a. dict_get (approvals d) (a_id a) = Some a \<Longrightarrow> a_status a = CONSUMED \<Longrightarrow>
           dict_get (approvals d') (a_id a) = Some a"
    and "decided (t_stage t) \<Longrightarrow> evidence_of E d' (t_id t) (t_generation t) = evidence_of E d (t_id t) (t_generation t)"
  shows "task_inv E d' t"
proof -
  from paid_mono [of E d t d'] assms(1,2) have "executed (t_stage t) \<Longrightarrow> paid E d' t"
    by (simp add: task_inv_def)
  with assms(1,3) show ?thesis by (auto simp: task_inv_def proven_def)
qed

lemma memory_inv_mono:
  "memory_inv d m \<Longrightarrow> set (candidates d) \<subseteq> set (candidates d') \<Longrightarrow> set (evidence d) \<subseteq> set (evidence d') \<Longrightarrow>
     memory_inv d' m"
  unfolding memory_inv_def by blast

text \<open>A part of the invariant that a change does not touch.\<close>

lemma core_inv_frame:
  assumes core: "core_inv E d"
    and tasks: "\<And>k t. dict_get (tasks d') k = Some t \<Longrightarrow> dict_get (tasks d) k = Some t \<or> t_id t = k \<and> task_inv E d' t"
    and kept: "\<And>k a. dict_get (approvals d) k = Some a \<Longrightarrow> a_status a = CONSUMED \<Longrightarrow> dict_get (approvals d') k = Some a"
    and apps: "\<And>k a. dict_get (approvals d') k = Some a \<Longrightarrow> dict_get (approvals d) k = Some a \<or> a_id a = k \<and> approval_inv E a"
    and dist: "distinct (keys (approvals d'))"
    and ev: "\<And>k t. dict_get (tasks d) k = Some t \<Longrightarrow> decided (t_stage t) \<Longrightarrow>
               evidence_of E d' k (t_generation t) = evidence_of E d k (t_generation t)"
    and mems: "\<And>m. m \<in> set (memories d') \<Longrightarrow> m \<in> set (memories d) \<or> memory_inv d' m"
    and sub: "set (candidates d) \<subseteq> set (candidates d')" "set (evidence d) \<subseteq> set (evidence d')"
  shows "core_inv E d'"
proof -
  have "t_id t = k \<and> task_inv E d' t" if t: "dict_get (tasks d') k = Some t" for k t
    using tasks [OF t]
  proof
    assume old: "dict_get (tasks d) k = Some t"
    with core have "t_id t = k" "task_inv E d t" by (auto simp: core_inv_def)
    with ev [OF old] kept show ?thesis by (auto intro: task_inv_cong)
  qed
  moreover have "a_id a = k \<and> approval_inv E a" if "dict_get (approvals d') k = Some a" for k a
    using apps [OF that] core by (auto simp: core_inv_def)
  moreover have "memory_inv d' m" if "m \<in> set (memories d')" for m
    using mems [OF that] core sub memory_inv_mono [of d m d'] by (auto simp: core_inv_def)
  ultimately show ?thesis using dist unfolding core_inv_def by blast
qed

lemma evidence_of_add:
  "\<not> (e_task_id r = tid \<and> e_generation r = gen) \<Longrightarrow>
     evidence_of E (d\<lparr>evidence := evidence d @ [r]\<rparr>) tid gen = evidence_of E d tid gen"
  by (auto simp: evidence_of_def)

lemma dict_get_snoc: "k \<notin> set (keys d) \<Longrightarrow> dict_get (d @ [(k, v)]) k' = (if k' = k then Some v else dict_get d k')"
  by (metis dict_set_new dict_get_set)

lemma core_change:
  assumes core: "core_inv E d" and ok: "change_ok E c d" and safe: "change_safe E c d"
  shows "core_inv E (apply_change c d)"
proof -
  note dist = core_distinct [OF core]
  have same: "task_inv E d' t" if "task_inv E d t" "approvals d' = approvals d" "evidence d' = evidence d" for d' t
    using that by (elim task_inv_cong) (simp_all add: evidence_of_cong [of d' d])
  show ?thesis
  proof (cases c)
    case (TaskUpsert t)
    then show ?thesis using safe dist
      by (intro core_inv_frame [OF core]) (auto simp: dict_get_set evidence_of_def intro: same split: if_splits)
  next
    case (TaskCreate t)
    then have new: "t_id t \<notin> set (keys (tasks d))" using ok by simp
    from TaskCreate show ?thesis using safe dist
      by (intro core_inv_frame [OF core])
        (auto simp: dict_get_snoc [OF new] evidence_of_def intro: same split: if_splits)
  next
    case (TaskSave t)
    then show ?thesis using safe dist
      by (intro core_inv_frame [OF core]) (auto simp: dict_get_set evidence_of_def intro: same split: if_splits)
  next
    case (ApprovalAdd a)
    then have new: "a_id a \<notin> set (keys (approvals d))" using ok by simp
    have "dict_get (approvals d) (a_id a) = None" using new by (simp only: dict_get_None not_False_eq_True)
    then show ?thesis using ApprovalAdd safe dist new
      by (intro core_inv_frame [OF core])
        (auto simp: dict_get_snoc [OF new] evidence_of_def split: if_splits)
  next
    case (ApprovalSave a)
    then obtain old where old: "dict_get (approvals d) (a_id a) = Some old" "approval_step E old a"
      using safe by auto
    show ?thesis
    proof (rule core_inv_frame [OF core])
      show "dict_get (approvals (apply_change c d)) k = Some b"
        if "dict_get (approvals d) k = Some b" "a_status b = CONSUMED" for k b
        using that old ApprovalSave by (auto simp: dict_get_set approval_step_def)
      show "dict_get (approvals d) k = Some b \<or> a_id b = k \<and> approval_inv E b"
        if "dict_get (approvals (apply_change c d)) k = Some b" for k b
        using that old ApprovalSave by (auto simp: dict_get_set approval_step_def split: if_splits)
      show "distinct (keys (approvals (apply_change c d)))"
        using dist ApprovalSave by (simp add: distinct_keys_dict_set del: distinct_map)
    qed (simp_all add: ApprovalSave evidence_of_def)
  next
    case (EvidenceAdd r)
    have "evidence_of E (apply_change c d) k (t_generation t) = evidence_of E d k (t_generation t)"
      if "dict_get (tasks d) k = Some t" "decided (t_stage t)" for k t
      using that safe EvidenceAdd by (auto simp: open_for_def intro!: evidence_of_add)
    then show ?thesis using EvidenceAdd dist
      by (intro core_inv_frame [OF core]) auto
  next
    case (MemoryAdd m)
    then have "memory_inv (apply_change c d) m" using safe memory_inv_mono [of d m] by simp
    then show ?thesis using MemoryAdd dist
      by (intro core_inv_frame [OF core]) (auto simp: evidence_of_def)
  qed (use dist in \<open>auto intro!: core_inv_frame [OF core] simp: evidence_of_def\<close>)
qed

subsection \<open>The credit\<close>

lemma sum_list_dict_set_change:
  fixes f :: "'v \<Rightarrow> int"
  assumes "distinct (keys d)" and "dict_get d k = Some u"
  shows "sum_list (map (f \<circ> snd) (dict_set k v d)) = sum_list (map (f \<circ> snd) d) - f u + f v"
  using assms by (induction d) (auto split: if_splits)

definition counts_for :: "string \<Rightarrow> string \<Rightarrow> approval_record \<Rightarrow> int" where
  "counts_for tid gen a =
     (if a_task_id a = tid \<and> a_generation a = gen \<and> a_status a = CONSUMED then 1 else 0)"

lemma consumed_sum: "int (consumed d tid gen) = sum_list (map (counts_for tid gen \<circ> snd) (approvals d))"
proof -
  have "int (length (filter (\<lambda>a. a_status a = CONSUMED)
      (filter (\<lambda>a. a_task_id a = tid \<and> a_generation a = gen) (map snd xs)))) =
    sum_list (map (counts_for tid gen \<circ> snd) xs)" for xs :: "(string \<times> approval_record) list"
    by (induction xs) (auto simp: counts_for_def)
  then show ?thesis by (simp add: consumed_def approvals_of_def)
qed

lemma entries_add:
  "entries (d\<lparr>events := events d @ [v]\<rparr>) tid gen =
     entries d tid gen + (if entry v \<and> v_task_id v = tid \<and> v_generation v = gen then 1 else 0)"
  by (simp add: entries_def stream_def)

lemma credit_cong: "approvals d' = approvals d \<Longrightarrow> events d' = events d \<Longrightarrow> credit d' = credit d"
  by (simp add: fun_eq_iff credit_def consumed_def approvals_of_def entries_def stream_def)

lemma credit_event:
  "credit (d\<lparr>events := events d @ [v]\<rparr>) tid gen =
     credit d tid gen - (if entry v \<and> v_task_id v = tid \<and> v_generation v = gen then 1 else 0)"
  by (simp add: credit_def entries_add consumed_def approvals_of_def)

lemma entries_cong: "events d' = events d \<Longrightarrow> entries d' = entries d"
  by (simp add: fun_eq_iff entries_def stream_def)

lemma credit_add_approval:
  "credit (d\<lparr>approvals := approvals d @ [(k, a)]\<rparr>) tid gen = credit d tid gen + counts_for tid gen a"
  by (simp add: credit_def consumed_sum entries_cong [of "d\<lparr>approvals := approvals d @ [(k, a)]\<rparr>" d])

lemma credit_save_approval:
  assumes "distinct (keys (approvals d))" and "dict_get (approvals d) k = Some old"
  shows "credit (d\<lparr>approvals := dict_set k a (approvals d)\<rparr>) tid gen =
    credit d tid gen - counts_for tid gen old + counts_for tid gen a"
  using sum_list_dict_set_change [OF assms, of "counts_for tid gen" a]
  by (simp add: credit_def consumed_sum entries_cong [of "d\<lparr>approvals := dict_set k a (approvals d)\<rparr>" d])

subsection \<open>Entering a stage\<close>

text \<open>Consumed approvals stay as they are.\<close>

definition keeps_paid :: "(string \<times> approval_record) list \<Rightarrow> control_db \<Rightarrow> bool" where
  "keeps_paid A d \<longleftrightarrow> (\<forall>k a. dict_get A k = Some a \<longrightarrow> a_status a = CONSUMED \<longrightarrow> dict_get (approvals d) k = Some a)"

definition entering ::
  "api_env \<Rightarrow> (string \<Rightarrow> string \<Rightarrow> int) \<Rightarrow> (string \<times> task_record) list \<Rightarrow> (string \<times> approval_record) list
     \<Rightarrow> string \<Rightarrow> string \<Rightarrow> control_db \<Rightarrow> bool" where
  "entering E b T A tid gen d \<longleftrightarrow> core_inv E d \<and> credit d = b \<and> tasks d = T \<and> keeps_paid A d \<and> open_for d tid gen"

fun entering_ok :: "api_env \<Rightarrow> string \<Rightarrow> string \<Rightarrow> change \<Rightarrow> bool" where
  "entering_ok E tid gen (EvidenceAdd r) \<longleftrightarrow> e_task_id r = tid \<and> e_generation r = gen"
| "entering_ok E tid gen (ApprovalAdd a) \<longleftrightarrow> approval_inv E a \<and> a_status a = PENDING"
| "entering_ok E tid gen (EventAdd v) \<longleftrightarrow> v_event_type v \<noteq> ''state.transitioned''"
| "entering_ok E tid gen (CandidateAdd c) \<longleftrightarrow> True"
| "entering_ok E tid gen c \<longleftrightarrow> False"

lemma build_approval_inv:
  "build_approval aid tid gen risk scope action digest config payload rollback now ttl = Inr a \<Longrightarrow>
     approval_inv E a \<and> a_status a = PENDING"
  by (auto simp: build_approval_def approval_inv_def split: if_splits)

lemma keeps_paid_add:
  "a_id a \<notin> set (keys (approvals d)) \<Longrightarrow> keeps_paid A d \<Longrightarrow> keeps_paid A (d\<lparr>approvals := approvals d @ [(a_id a, a)]\<rparr>)"
  using dict_get_keys [of "approvals d" "a_id a"] by (auto simp: keeps_paid_def dict_get_snoc simp del: set_map)

interpretation entering: stage_entry E "entering E b T A tid gen" "entering_ok E tid gen" tid gen for E b T A tid gen
proof
  fix d c
  assume J: "entering E b T A tid gen d" and ok: "change_ok E c d" and G: "entering_ok E tid gen c"
  then have safe: "change_safe E c d" by (cases c) (auto simp: entering_def)
  have core: "core_inv E (apply_change c d)" using J core_change [OF _ ok safe] by (simp add: entering_def)
  have "credit (apply_change c d) = b \<and> tasks (apply_change c d) = T \<and> keeps_paid A (apply_change c d)"
  proof (cases c)
    case (ApprovalAdd a)
    then have new: "a_id a \<notin> set (keys (approvals d))" using ok by simp
    have "credit (apply_change c d) = credit d"
      using ApprovalAdd G by (simp add: fun_eq_iff credit_add_approval counts_for_def)
    with J ApprovalAdd new show ?thesis by (simp add: entering_def keeps_paid_add)
  next
    case (EventAdd v)
    then have "credit (apply_change c d) = credit d"
      using G by (simp add: fun_eq_iff credit_event entry_def)
    with J EventAdd show ?thesis by (simp add: entering_def keeps_paid_def)
  next
    case (EvidenceAdd r)
    then have "credit (apply_change c d) = credit d" by (intro credit_cong) simp_all
    with J EvidenceAdd show ?thesis by (simp add: entering_def keeps_paid_def)
  next
    case (CandidateAdd x)
    then have "credit (apply_change c d) = credit d" by (intro credit_cong) simp_all
    with J CandidateAdd show ?thesis by (simp add: entering_def keeps_paid_def)
  qed (use G in simp_all)
  then show "entering E b T A tid gen (apply_change c d)"
    using core J by (auto simp: entering_def open_for_def)
qed (auto simp: build_approval_inv)

end
