(* ===== verification/ServiceSteps.thy ===== *)
theory ServiceSteps
  imports ServiceInv
begin

text \<open>
  The parts of a transition and the invariant of \<open>ServiceInv\<close>: the memories written after the
  decision, the use of the approval token, the gate, the entry into a stage, and saving the task.
  An operation that raises may leave a broken database behind, because its transaction rolls it
  back; the exception is the failed gate, whose database is committed.
\<close>

subsection \<open>After the decision\<close>

text \<open>The memories that may be written: those in \<open>X\<close>, which the database already justifies.\<close>

definition quiet ::
  "api_env \<Rightarrow> (string \<Rightarrow> string \<Rightarrow> int) \<Rightarrow> (string \<times> task_record) list \<Rightarrow> (string \<times> approval_record) list
     \<Rightarrow> evidence_record list \<Rightarrow> (memory_record \<Rightarrow> bool) \<Rightarrow> control_db \<Rightarrow> bool" where
  "quiet E b T A ev X d \<longleftrightarrow> core_inv E d \<and> credit d = b \<and> tasks d = T \<and> keeps_paid A d \<and> evidence d = ev
     \<and> (\<forall>m. X m \<longrightarrow> memory_inv d m)"

fun quiet_ok :: "(memory_record \<Rightarrow> bool) \<Rightarrow> change \<Rightarrow> bool" where
  "quiet_ok X (EventAdd v) \<longleftrightarrow> v_event_type v \<noteq> ''state.transitioned''"
| "quiet_ok X (CandidateAdd c) \<longleftrightarrow> True"
| "quiet_ok X (MemoryAdd m) \<longleftrightarrow> X m"
| "quiet_ok X c \<longleftrightarrow> False"

interpretation quiet: guarded_changes E "quiet E b T A ev X" "quiet_ok X" for E b T A ev X
proof
  fix d c
  assume J: "quiet E b T A ev X d" and ok: "change_ok E c d" and G: "quiet_ok X c"
  then have safe: "change_safe E c d" by (cases c) (auto simp: quiet_def)
  have core: "core_inv E (apply_change c d)" using J core_change [OF _ ok safe] by (simp add: quiet_def)
  have "credit (apply_change c d) = b"
  proof (cases c)
    case (EventAdd v)
    then have "credit (apply_change c d) = credit d"
      using G by (simp add: fun_eq_iff credit_event entry_def)
    with J show ?thesis by (simp add: quiet_def)
  qed (use G J in \<open>auto simp: quiet_def intro: trans [OF credit_cong]\<close>)
  moreover have "memory_inv (apply_change c d) m" if "X m" for m
    using J G that by (cases c) (auto simp: quiet_def elim!: memory_inv_mono)
  ultimately show "quiet E b T A ev X (apply_change c d)"
    using core J G by (cases c) (auto simp: quiet_def keeps_paid_def)
qed

text \<open>A memory that promotes the candidate \<open>c\<close>.\<close>

definition promotes :: "memory_candidate \<Rightarrow> memory_record \<Rightarrow> bool" where
  "promotes c m \<longleftrightarrow> mr_validated m \<and> mr_review_id m \<noteq> [] \<and> mr_candidate_id m = Some (mc_id c)
     \<and> mr_task_id m = mc_task_id c \<and> mr_generation m = mc_generation c \<and> mr_statement m = mc_statement c
     \<and> mr_evidence_digest m = mc_evidence_digest c \<and> mr_review_id m = mc_review_id c"

definition reviewed_by :: "evidence_record list \<Rightarrow> string \<Rightarrow> string \<Rightarrow> string \<Rightarrow> bool" where
  "reviewed_by ev tid gen reviewer \<longleftrightarrow>
     (\<exists>r \<in> set ev. e_task_id r = tid \<and> e_generation r = gen \<and> e_kind r = REVIEW \<and> e_producer_id r = reviewer)"

lemma proven_reviewed:
  assumes "proven E d t" and "gr_independent_reviewer (t_gate_result t) = Some reviewer"
  shows "reviewed_by (evidence d) (t_id t) (t_generation t) reviewer"
  using assms by (auto simp: proven_def complete_evidence_def reviewed_by_def evidence_of_def)

lemma wp_propose:
  assumes q: "quiet E b T A ev X (db s)"
    and rev: "mc_review_id c \<noteq> [] \<Longrightarrow> reviewed_by ev (mc_task_id c) (mc_generation c) (mc_review_id c)"
  shows "wp (propose_candidate E t c) (\<lambda>_ s'. quiet E b T A ev (\<lambda>m. X m \<or> promotes c m) (db s')) (\<lambda>_ _. True) s"
proof -
  let ?X = "\<lambda>m. X m \<or> promotes c m"
  have "wp (add_memory_candidate c) (\<lambda>_ s'. quiet E b T A ev X (db s') \<and> c \<in> set (candidates (db s'))) (\<lambda>_ _. True) s"
    using q quiet.change [of E b T A ev X "db s" "CandidateAdd c"]
    by (simp add: add_memory_candidate_def wp_simps)
  then have "wp (add_memory_candidate c) (\<lambda>_ s'. quiet E b T A ev ?X (db s')) (\<lambda>_ _. True) s"
    by (rule wp_mono) (use rev in \<open>auto simp: quiet_def promotes_def memory_inv_def reviewed_by_def\<close>)
  then show ?thesis
    unfolding propose_candidate_def wp_then [of "add_memory_candidate c"]
    by (rule wp_mono) (auto intro!: quiet.event_wp [THEN wp_mono] simp: wp_then wp_return)
qed

lemma validate_candidate_keeps:
  assumes X: "\<And>m. promotes c m \<Longrightarrow> X m" and "mc_review_id c \<noteq> []"
  shows "keeps (\<lambda>s. quiet E b T A ev X (db s)) (validate_candidate E t c)"
  unfolding validate_candidate_def
  by (intro keeps_intros quiet.record_keeps quiet.event_keeps) (use assms in \<open>simp_all add: promotes_def\<close>)

lemma quiet_weaken: "quiet E b T A ev X d \<Longrightarrow> (\<And>m. Y m \<Longrightarrow> X m) \<Longrightarrow> quiet E b T A ev Y d"
  by (simp add: quiet_def)

lemma new_candidate_wp:
  "wp (new_candidate E t digest review mtype st component)
     (\<lambda>c s'. db s' = db s \<and> mc_review_id c = review \<and> mc_task_id c = t_id t \<and> mc_generation c = t_generation t)
     (\<lambda>_ _. False) s"
  by (simp add: new_candidate_def wp_simps)

lemma enter_memory_quiet:
  assumes q: "quiet E b T A ev (\<lambda>_. False) (db s)"
    and rev: "\<And>x. gr_independent_reviewer (t_gate_result t) = Some x \<Longrightarrow>
      reviewed_by ev (t_id t) (t_generation t) x"
  shows "wp (enter_memory E t) (\<lambda>_ s'. quiet E b T A ev (\<lambda>_. False) (db s')) (\<lambda>_ _. True) s"
proof -
  define review where "review = (case gr_independent_reviewer (t_gate_result t) of None \<Rightarrow> [] | Some r \<Rightarrow> r)"
  have rv: "review \<noteq> [] \<Longrightarrow> reviewed_by ev (t_id t) (t_generation t) review"
    using rev by (auto simp: review_def split: option.splits)
  have promote: "wp (thenE (liftE (require_validated_memory (t_gate_result t) review))
      (forE [c1, c2] (validate_candidate E t))) (\<lambda>_ s'. quiet E b T A ev (\<lambda>_. False) (db s')) (\<lambda>_ _. True) s'"
    if X: "quiet E b T A ev X (db s')" "\<And>m. promotes c1 m \<Longrightarrow> X m" "\<And>m. promotes c2 m \<Longrightarrow> X m"
      and c: "mc_review_id c1 = review" "mc_review_id c2 = review" for X c1 c2 s'
  proof (cases "require_validated_memory (t_gate_result t) review")
    case (Inl e)
    then show ?thesis by (simp add: wp_simps)
  next
    case (Inr u)
    then have "review \<noteq> []" by (simp add: require_validated_memory_def)
    then have "keeps (\<lambda>s. quiet E b T A ev X (db s)) (forE [c1, c2] (validate_candidate E t))"
      by (intro keeps_for validate_candidate_keeps) (use X c in auto)
    from keepsD [OF this X(1)]
    have "wp (forE [c1, c2] (validate_candidate E t)) (\<lambda>_ s'. quiet E b T A ev (\<lambda>_. False) (db s')) (\<lambda>_ _. True) s'"
      by (rule wp_mono) (auto elim: quiet_weaken)
    with Inr show ?thesis by (simp add: wp_then wp_lift)
  qed
  have proposals: "wp (forE [c1, c2] (propose_candidate E t))
      (\<lambda>_ s'. \<exists>X. quiet E b T A ev X (db s') \<and> (\<forall>m. promotes c1 m \<longrightarrow> X m) \<and> (\<forall>m. promotes c2 m \<longrightarrow> X m))
      (\<lambda>_ _. True) s'"
    if "quiet E b T A ev (\<lambda>_. False) (db s')" "mc_review_id c1 = review" "mc_review_id c2 = review"
      "mc_task_id c1 = t_id t" "mc_task_id c2 = t_id t" "mc_generation c1 = t_generation t"
      "mc_generation c2 = t_generation t" for c1 c2 s'
  proof -
    have 1: "wp (propose_candidate E t c1) (\<lambda>_ s'. quiet E b T A ev (promotes c1) (db s')) (\<lambda>_ _. True) s'"
      using wp_propose [of E b T A ev "\<lambda>_. False" s' c1 t] that rv by simp
    have 2: "wp (propose_candidate E t c2)
        (\<lambda>_ s'. quiet E b T A ev (\<lambda>m. promotes c1 m \<or> promotes c2 m) (db s')) (\<lambda>_ _. True) s''"
      if "quiet E b T A ev (promotes c1) (db s'')" for s''
      by (rule wp_propose [OF that]) (use \<open>mc_review_id c2 = review\<close> that rv \<open>mc_task_id c2 = t_id t\<close>
        \<open>mc_generation c2 = t_generation t\<close> in simp)
    show ?thesis
      unfolding forE.simps wp_then wp_return by (rule wp_mono [OF 1], rule wp_mono [OF 2]) auto
  qed
  show ?thesis
    unfolding enter_memory_def review_def [symmetric] Let_def list_evidence_def wp_bind wp_query
    apply (rule wp_mono [OF new_candidate_wp])
     apply (rule wp_mono [OF new_candidate_wp])
      apply (simp only: wp_then)
      apply (rule wp_mono [OF proposals])
    using q promote by (auto simp: wp_then)
qed

subsection \<open>Events\<close>

lemma append_wp:
  "wp (append_audit_event E tid gen event_type actor stage payload)
     (\<lambda>v s'. db s' = db s\<lparr>events := events (db s) @ [v]\<rparr> \<and> v_event_type v = event_type \<and> v_stage v = stage
        \<and> v_task_id v = tid \<and> v_generation v = gen)
     (\<lambda>e s'. db s' = db s \<and> e = IntegrityError ''audit_events'') s"
  by (simp add: append_audit_event_def wp_simps Let_def)

lemma core_inv_events: "core_inv E d \<Longrightarrow> core_inv E (d\<lparr>events := vs\<rparr>)"
  by (rule core_inv_frame) (auto simp: core_inv_def evidence_of_def)

lemma inv_events [simp]:
  "task_inv E (d\<lparr>events := vs\<rparr>) = task_inv E d" "paid E (d\<lparr>events := vs\<rparr>) = paid E d"
  by (intro ext; simp add: task_inv_def paid_def proven_def evidence_of_def)+

lemma wp_return_fun: "wp (returnE a) Q X = Q a"
  by (intro ext) (rule wp_return)

lemma wp_raise_fun: "wp (raiseE e) Q X = X e"
  by (intro ext) (rule wp_raise)

lemma credit_no_entry:
  "\<not> entry v \<Longrightarrow> credit (d\<lparr>events := events d @ [v]\<rparr>) = credit d"
  by (simp add: fun_eq_iff credit_event)

lemma plain_event_wp:
  assumes "core_inv E (db s)" and "event_type \<noteq> ''state.transitioned''"
  shows "wp (append_audit_event E tid gen event_type actor stage payload)
     (\<lambda>_ s'. core_inv E (db s') \<and> credit (db s') = credit (db s) \<and> tasks (db s') = tasks (db s)
        \<and> approvals (db s') = approvals (db s) \<and> evidence (db s') = evidence (db s)
        \<and> paid E (db s') = paid E (db s) \<and> task_inv E (db s') = task_inv E (db s))
     (\<lambda>e s'. db s' = db s \<and> e \<noteq> gate_failed) s"
  by (rule wp_mono [OF append_wp])
    (use assms in \<open>auto simp: core_inv_events credit_no_entry entry_def gate_failed_def\<close>)

subsection \<open>Consuming the token\<close>

lemma latest_by_mem: "latest_by key xs = Some x \<Longrightarrow> x \<in> set xs"
  by (induction xs arbitrary: x) (auto split: option.splits if_splits)

lemma approvals_of_core:
  assumes "core_inv E d" and "a \<in> set (approvals_of d tid gen)"
  shows "dict_get (approvals d) (a_id a) = Some a" "a_task_id a = tid" "a_generation a = gen"
proof -
  from assms(2) obtain k where "(k, a) \<in> set (approvals d)" "a_task_id a = tid" "a_generation a = gen"
    by (auto simp: approvals_of_def)
  with core_distinct [OF assms(1)] have "dict_get (approvals d) k = Some a" by (simp del: set_map)
  with core_approvalD [OF assms(1)] show "dict_get (approvals d) (a_id a) = Some a" by metis
qed (use assms(2) in \<open>auto simp: approvals_of_def\<close>)

definition add_credit :: "task_record \<Rightarrow> int \<Rightarrow> (string \<Rightarrow> string \<Rightarrow> int) \<Rightarrow> string \<Rightarrow> string \<Rightarrow> int" where
  "add_credit t n b tid gen = b tid gen + (if tid = t_id t \<and> gen = t_generation t then n else 0)"

lemma add_credit_cancel [simp]: "add_credit t (- n) (add_credit t n b) = b" "add_credit t 0 b = b"
  by (simp_all add: fun_eq_iff add_credit_def)

lemma consume_db:
  assumes core: "core_inv E d" and a: "a \<in> set (approvals_of d (t_id t) (t_generation t))"
    and k: "contract_of E t = Inr k"
    and ok: "validate_approval_token E a token (t_id t) (t_generation t) (k_scope k) (k_action k) (k_digest k) (clock E n) = Inr u"
    and used: "used = clock E (Suc n)" and d': "d' = d\<lparr>approvals := dict_set (a_id a) (consume_approval a used) (approvals d)\<rparr>"
  shows "core_inv E d'" and "credit d' = add_credit t 1 (credit d)" and "paid E d' t"
proof -
  note old = approvals_of_core [OF core a]
  from validate_tokenD [OF ok] have st: "a_status a = APPROVED" "clock E n < a_expires_at a"
    "scope_matches a (t_id t) (t_generation t) (k_scope k) (k_action k) (k_digest k)" by auto
  from core_approvalD [OF core old(1)] have inv: "approval_inv E a" by simp
  have step: "approval_step E a (consume_approval a used)"
    using inv st used by (auto simp: approval_step_def approval_inv_def split: option.splits)
  show "core_inv E d'"
  proof (rule core_inv_frame [OF core])
    show "dict_get (approvals d') k = Some b" if "dict_get (approvals d) k = Some b" "a_status b = CONSUMED" for k b
      using that old st by (auto simp: d' dict_get_set)
    show "dict_get (approvals d) k = Some b \<or> a_id b = k \<and> approval_inv E b"
      if "dict_get (approvals d') k = Some b" for k b
      using that step by (auto simp: d' dict_get_set approval_step_def split: if_splits)
    show "distinct (keys (approvals d'))"
      using core_distinct [OF core] by (simp add: d' distinct_keys_dict_set del: distinct_map)
  qed (simp_all add: d' evidence_of_def)
  show "credit d' = add_credit t 1 (credit d)"
    using credit_save_approval [OF core_distinct [OF core] old(1)] st old
    by (auto simp: fun_eq_iff d' add_credit_def counts_for_def)
  show "paid E d' t"
    unfolding paid_def using k st(3)
    by (intro exI [of _ k] conjI exI [of _ "consume_approval a used"])
      (auto simp: d' dict_get_set scope_matches_def consume_approval_def)
qed

lemma wp_consume:
  assumes core: "core_inv E (db s)"
  shows "wp (consume_token E t token)
     (\<lambda>_ s'. core_inv E (db s') \<and> credit (db s') = add_credit t 1 (credit (db s)) \<and> paid E (db s') t
        \<and> tasks (db s') = tasks (db s) \<and> evidence (db s') = evidence (db s))
     (\<lambda>e s'. db s' = db s \<or> e \<noteq> gate_failed) s"
proof (cases "latest_by (\<lambda>a. iso_time E (a_requested_at a)) (approvals_of (db s) (t_id t) (t_generation t))")
  case None
  then show ?thesis by (simp add: consume_token_def latest_approval_def wp_simps)
next
  case (Some a)
  note mem = latest_by_mem [OF Some]
  show ?thesis
  proof (cases "contract_of E t")
    case (Inl e)
    with Some show ?thesis by (simp add: consume_token_def latest_approval_def wp_simps)
  next
    case (Inr k)
    let ?d = "\<lambda>used. db s\<lparr>approvals := dict_set (a_id a) (consume_approval a used) (approvals (db s))\<rparr>"
    have event: "wp (append_audit_event E (t_id t) (t_generation t) ''approval.token.consumed'' actor stage payload)
        (\<lambda>_ s'. core_inv E (db s') \<and> credit (db s') = add_credit t 1 (credit (db s)) \<and> paid E (db s') t
          \<and> tasks (db s') = tasks (db s) \<and> evidence (db s') = evidence (db s))
        (\<lambda>e s'. db s' = db s \<or> e \<noteq> gate_failed) s'"
      if ok: "validate_approval_token E a token (t_id t) (t_generation t) (k_scope k) (k_action k) (k_digest k) (clock E n) = Inr u"
        and s': "db s' = ?d (clock E (Suc n))" for actor stage payload s' n u
      using consume_db [OF core mem Inr ok refl s'] s'
      by (intro wp_mono [OF plain_event_wp]) auto
    show ?thesis
      using Some Inr approvals_of_core [OF core mem]
      by (auto simp: consume_token_def latest_approval_def save_approval_def wp_simps wp_return_fun Let_def
          intro!: event split: sum.split)
  qed
qed


subsection \<open>Saving a task\<close>

text \<open>The row of the task as the caller loaded it; the object may have changed in other fields.\<close>

definition loaded :: "control_db \<Rightarrow> task_record \<Rightarrow> bool" where
  "loaded d t \<longleftrightarrow> (\<exists>r. dict_get (tasks d) (t_id t) = Some r \<and> t_generation r = t_generation t
     \<and> t_version r = t_version t \<and> t_stage r = t_stage t)"

text \<open>What the approval contract of a task depends on, and the identity of the task.\<close>

definition same_task :: "task_record \<Rightarrow> task_record \<Rightarrow> bool" where
  "same_task t t' \<longleftrightarrow> t_id t' = t_id t \<and> t_generation t' = t_generation t
     \<and> t_synthetic_demo t' = t_synthetic_demo t \<and> t_scenario t' = t_scenario t
     \<and> t_live_source t' = t_live_source t \<and> t_execution_contract t' = t_execution_contract t"

lemma same_task_refl [simp]: "same_task t t"
  by (simp add: same_task_def)

lemma same_task_contract: "same_task t t' \<Longrightarrow> contract_of E t' = contract_of E t"
  by (simp add: same_task_def contract_of_def live_contract_def demo_contract_def Let_def split: option.split)

lemma same_task_paid: "same_task t t' \<Longrightarrow> paid E d t' \<longleftrightarrow> paid E d t"
  using same_task_contract [of t t' E] by (simp add: paid_def) (simp add: same_task_def)

lemma same_task_ok: "same_task t t' \<Longrightarrow> task_ok t' \<longleftrightarrow> task_ok t"
  by (simp add: same_task_def task_ok_def)

lemma task_inv_bump: "task_inv E d t \<Longrightarrow> task_inv E d (bump t now)"
proof -
  assume inv: "task_inv E d t"
  have "same_task t (bump t now)" by (simp add: same_task_def bump_def)
  from same_task_paid [OF this, of E d] have "paid E d (bump t now) \<longleftrightarrow> paid E d t" .
  with inv show ?thesis by (auto simp: task_inv_def task_ok_def proven_def bump_def)
qed

lemma save_bumped_wp:
  assumes core: "core_inv E (db s)" and inv: "task_inv E (db s) t"
  shows "wp (save_bumped E t)
     (\<lambda>t' s'. (\<exists>now. t' = bump t now) \<and> core_inv E (db s') \<and> credit (db s') = credit (db s)
        \<and> task_inv E (db s') t' \<and> dict_get (tasks (db s')) (t_id t) = Some t'
        \<and> approvals (db s') = approvals (db s) \<and> evidence (db s') = evidence (db s))
     (\<lambda>e s'. db s' = db s \<and> e = ConflictError ''task_version_conflict'') s"
proof -
  have *: "core_inv E d \<and> credit d = credit (db s) \<and> task_inv E d (bump t now)"
    if "d = db s\<lparr>tasks := dict_set (t_id t) (bump t now) (tasks (db s))\<rparr>"
      "dict_get (tasks (db s)) (t_id t) = Some r" "t_generation r = t_generation t" for d now r
  proof -
    note new = task_inv_bump [OF inv, of now]
    have "change_ok E (TaskSave (bump t now)) (db s)" using that by (auto simp: bump_def)
    from core_change [OF core this] new have "core_inv E d" by (simp add: that(1) bump_def)
    moreover have "credit d = credit (db s)" by (rule credit_cong) (simp_all add: that(1))
    moreover have "task_inv E d (bump t now)"
      using new that(1) by (simp add: task_inv_def paid_def proven_def evidence_of_def)
    ultimately show ?thesis by blast
  qed
  show ?thesis
    using * by (auto simp: save_bumped_def save_task_def wp_simps dict_get_set bump_def split: option.split)
qed


subsection \<open>The gate\<close>

lemma refresh_gate_wp:
  assumes core: "core_inv E (db s)"
  shows "wp (refresh_gate E t)
     (\<lambda>t' s'. (\<exists>now g. evidence_gate E now (evidence_of E (db s) (t_id t) (t_generation t)) = Inr g
          \<and> t' = t\<lparr>t_gate_result := g\<rparr>)
        \<and> core_inv E (db s') \<and> credit (db s') = credit (db s) \<and> tasks (db s') = tasks (db s)
        \<and> approvals (db s') = approvals (db s) \<and> evidence (db s') = evidence (db s)
        \<and> paid E (db s') = paid E (db s) \<and> task_inv E (db s') = task_inv E (db s))
     (\<lambda>_ s'. db s' = db s) s"
proof (cases "evidence_gate E (clock E (ticks s)) (evidence_of E (db s) (t_id t) (t_generation t))")
  case (Inl e)
  then show ?thesis by (simp add: refresh_gate_def list_evidence_def wp_simps)
next
  case (Inr g)
  have *: "wp (append_audit_event E (t_id t) (t_generation t)
        event_type actor stage payload)
     (\<lambda>_ s'. core_inv E (db s') \<and> credit (db s') = credit (db s) \<and> tasks (db s') = tasks (db s)
        \<and> approvals (db s') = approvals (db s) \<and> evidence (db s') = evidence (db s)
        \<and> paid E (db s') = paid E (db s) \<and> task_inv E (db s') = task_inv E (db s))
     (\<lambda>_ s'. db s' = db s) (s\<lparr>ticks := Suc (ticks s)\<rparr>)"
    if "event_type \<noteq> ''state.transitioned''" for event_type actor stage payload
    by (rule wp_mono [OF plain_event_wp]) (use core that in auto)
  show ?thesis
    using Inr by (simp add: refresh_gate_def list_evidence_def wp_simps wp_return_fun)
      (intro conjI impI; rule wp_mono [OF *]; auto)
qed

text \<open>A gate result does not matter to a task that is not decided.\<close>

lemma task_inv_gate:
  assumes "task_inv E d t" and "\<not> decided (t_stage t)"
  shows "task_inv E d (t\<lparr>t_gate_result := g\<rparr>)"
proof -
  have same: "same_task t (t\<lparr>t_gate_result := g\<rparr>)" by (simp add: same_task_def)
  from same_task_paid [OF same] same_task_ok [OF same] assms show ?thesis by (simp add: task_inv_def)
qed

lemma gate_or_block_wp:
  assumes core: "core_inv E (db s)" and inv: "task_inv E (db s) t" and open_: "\<not> decided (t_stage t)"
  shows "wp (gate_or_block E t)
     (\<lambda>t' s'. (\<exists>g reviewer. t' = t\<lparr>t_gate_result := g\<rparr> \<and> gr_status g = PASS
          \<and> gr_independent_reviewer g = Some reviewer
          \<and> complete_evidence E (evidence_of E (db s) (t_id t) (t_generation t)) reviewer)
        \<and> core_inv E (db s') \<and> credit (db s') = credit (db s) \<and> tasks (db s') = tasks (db s)
        \<and> approvals (db s') = approvals (db s) \<and> evidence (db s') = evidence (db s)
        \<and> paid E (db s') = paid E (db s))
     (\<lambda>_ s'. core_inv E (db s') \<and> credit (db s') = credit (db s)) s"
  unfolding gate_or_block_def wp_bind
proof (rule wp_mono [OF refresh_gate_wp [OF core]], goal_cases)
  case (1 t' s')
  then obtain now g where g: "evidence_gate E now (evidence_of E (db s) (t_id t) (t_generation t)) = Inr g"
    "t' = t\<lparr>t_gate_result := g\<rparr>" by blast
  show ?case
  proof (cases "gr_status g = PASS")
    case True
    with gate_complete [OF g(1)] g 1 show ?thesis by (auto simp: wp_simps)
  next
    case False
    have "task_inv E (db s') t'" using 1 task_inv_gate [OF inv open_] g by simp
    with 1 have "wp (save_bumped E t') (\<lambda>_ s'. core_inv E (db s') \<and> credit (db s') = credit (db s))
        (\<lambda>_ s'. core_inv E (db s') \<and> credit (db s') = credit (db s)) s'"
      by (intro wp_mono [OF save_bumped_wp]) auto
    with False g show ?thesis by (simp add: wp_simps wp_raise_fun)
  qed
qed (use core in auto)

subsection \<open>Entering a stage\<close>

text \<open>Entering changes at most the run manifest, the evaluation and the decision of the task object.\<close>

definition entered :: "task_record \<Rightarrow> task_record \<Rightarrow> bool" where
  "entered t t' \<longleftrightarrow> same_task t t' \<and> t_version t' = t_version t \<and> t_stage t' = t_stage t"

lemma keep_task_wp:
  "keeps I m \<Longrightarrow> I s \<Longrightarrow> wp (keep_task t m) (\<lambda>t' s'. I s' \<and> t' = t) (\<lambda>_. I) s"
  unfolding keep_task_def wp_then wp_return by (drule (1) keepsD) (erule wp_mono, simp_all)

lemma record_evidence_errors:
  "wp (record_evidence E t kind producer payload) (\<lambda>_ _. True) (\<lambda>e _. e \<noteq> gate_failed) s"
  by (simp add: record_evidence_def add_evidence_def append_audit_event_def gate_failed_def wp_simps Let_def)

lemma event_errors:
  "wp (append_audit_event E tid gen event_type actor stage payload) (\<lambda>_ _. True) (\<lambda>e _. e \<noteq> gate_failed) s"
  by (rule wp_mono [OF append_wp]) (simp_all add: gate_failed_def)

lemma enter_execute_result:
  "wp (enter_execute E t) (\<lambda>t' _. entered t t') (\<lambda>e _. e \<noteq> gate_failed) s"
  unfolding enter_execute_def Let_def wp_bind list_evidence_def wp_query wp_lift wp_then wp_return
  by (rule wp_mono [OF record_evidence_errors])
    (auto simp: first_digest_def gate_failed_def entered_def same_task_def
      intro!: wp_mono [OF event_errors] split: sum.splits option.splits)

lemma enter_evaluate_result:
  "wp (enter_evaluate E t) (\<lambda>t' _. entered t t') (\<lambda>_ _. True) s"
  unfolding enter_evaluate_def wp_bind wp_lift wp_then wp_return
  by (auto simp: entered_def same_task_def intro!: wp_mono [OF record_evidence_errors] split: sum.splits)

lemma entered_refl [simp]: "entered t t"
  by (simp add: entered_def)

lemma enter_open_wp:
  assumes J: "entering E b T A (t_id t) (t_generation t) (db s)" and target: "\<not> decided target"
  shows "wp (enter_stage E t target actor)
     (\<lambda>t' s'. entering E b T A (t_id t) (t_generation t) (db s') \<and> entered t t')
     (\<lambda>e s'. entering E b T A (t_id t) (t_generation t) (db s') \<and> (target = EXECUTE \<longrightarrow> e \<noteq> gate_failed)) s"
proof -
  let ?I = "\<lambda>s. entering E b T A (t_id t) (t_generation t) (db s)"
  note simple = entering.enter_simple_keeps [OF refl refl, of E b T A t]
  note approval = entering.enter_approval_keeps [OF refl refl, of E b T A t]
  have keep: "wp (keep_task t m) (\<lambda>t' s'. ?I s' \<and> entered t t') (\<lambda>_. ?I) s" if "keeps ?I m" for m
    by (rule wp_mono [OF keep_task_wp [OF that J]]) simp_all
  have exec: "wp (enter_execute E t) (\<lambda>t' s'. ?I s' \<and> entered t t') (\<lambda>e s'. ?I s' \<and> e \<noteq> gate_failed) s"
    by (rule wp_mono [OF wp_conj [OF keepsD [OF simple(4)] enter_execute_result]]) (use J in simp_all)
  have eval: "wp (enter_evaluate E t) (\<lambda>t' s'. ?I s' \<and> entered t t') (\<lambda>_. ?I) s"
    by (rule wp_mono [OF wp_conj [OF keepsD [OF simple(6)] enter_evaluate_result]]) (use J in simp_all)
  from target show ?thesis
    unfolding enter_stage_def
    by (cases target) (auto simp: wp_return J decided_def intro!: keep exec eval simple approval)
qed

lemma quiet_enter_decide:
  assumes "quiet E b T A ev (\<lambda>_. False) (db s)"
  shows "wp (enter_decide E t actor)
     (\<lambda>t' s'. quiet E b T A ev (\<lambda>_. False) (db s') \<and> t' = t\<lparr>t_decision := Some (decision_of (t_latest_evaluation t))\<rparr>)
     (\<lambda>_ s'. quiet E b T A ev (\<lambda>_. False) (db s')) s"
  unfolding enter_decide_def Let_def wp_then wp_return
  by (rule wp_mono [OF quiet.event_wp]) (use assms in simp_all)

end
