(* ===== verification/ServiceMoves.thy ===== *)
theory ServiceMoves
  imports ServiceSteps
begin

text \<open>
  A transition keeps the invariant: from a settled database and the task as it was loaded, it ends
  in a settled database with the moved task in its row, or raises; when it raises the error of a
  failed gate, the database it leaves is settled too.
\<close>

lemma propose_errors:
  "wp (propose_candidate E t c) (\<lambda>_ _. True) (\<lambda>e _. e \<noteq> gate_failed) s"
  "wp (validate_candidate E t c) (\<lambda>_ _. True) (\<lambda>e _. e \<noteq> gate_failed) s"
  by (auto simp: propose_candidate_def validate_candidate_def add_memory_candidate_def add_memory_def wp_simps
      wp_return_fun Let_def gate_failed_def intro!: wp_mono [OF event_errors])

lemma require_errors: "require_validated_memory g r = Inl e \<Longrightarrow> e \<noteq> gate_failed"
  by (auto simp: require_validated_memory_def checked_def gate_failed_def split: if_splits)

lemma enter_memory_errors:
  "wp (enter_memory E t) (\<lambda>_ _. True) (\<lambda>e _. e \<noteq> gate_failed) s"
proof -
  have for_errors: "wp (forE [c1, c2] f) (\<lambda>_ _. True) (\<lambda>e _. e \<noteq> gate_failed) s"
    if "\<And>c s. wp (f c) (\<lambda>_ _. True) (\<lambda>e _. e \<noteq> gate_failed) s"
    for f :: "memory_candidate \<Rightarrow> unit op" and c1 c2 s
    unfolding forE.simps wp_then wp_return by (rule wp_mono [OF that], rule wp_mono [OF that]) simp_all
  show ?thesis
    unfolding enter_memory_def Let_def list_evidence_def new_candidate_def wp_simps
    by (rule wp_mono [OF for_errors [OF propose_errors(1)]])
      (auto simp del: forE.simps simp: require_errors intro!: for_errors [OF propose_errors(2)] split: sum.splits)
qed

lemma quiet_enter_memory:
  assumes "quiet E b T A ev (\<lambda>_. False) (db s)"
    and "\<And>x. gr_independent_reviewer (t_gate_result t) = Some x \<Longrightarrow> reviewed_by ev (t_id t) (t_generation t) x"
  shows "wp (enter_memory E t) (\<lambda>_ s'. quiet E b T A ev (\<lambda>_. False) (db s')) (\<lambda>e _. e \<noteq> gate_failed) s"
  by (rule wp_mono [OF wp_conj [OF enter_memory_errors enter_memory_quiet [OF assms]]]) simp_all

subsection \<open>A transition\<close>

definition settled :: "api_env \<Rightarrow> control_db \<Rightarrow> bool" where
  "settled E d \<longleftrightarrow> core_inv E d \<and> credit d = (\<lambda>_ _. 0)"

text \<open>A call that only reads leaves the database as it is.\<close>

interpretation reads: guarded_changes E "\<lambda>d. d = d0" "\<lambda>_. False" for E d0
  by unfold_locales simp

lemma validate_live_reads: "keeps (\<lambda>s. db s = d) (validate_live_transition E t source target)"
  unfolding validate_live_transition_def by (intro keeps_intros reads.read_keeps)

text \<open>The task may enter the target: what has to hold once the token is consumed.\<close>

definition may_enter :: "api_env \<Rightarrow> stage \<Rightarrow> task_record \<Rightarrow> control_db \<Rightarrow> bool" where
  "may_enter E target t d \<longleftrightarrow> core_inv E d
     \<and> credit d = add_credit t (if target = EXECUTE then 1 else 0) (\<lambda>_ _. 0)
     \<and> task_ok t \<and> 1 \<le> t_version t \<and> (executed target \<longrightarrow> paid E d t)
     \<and> (\<not> decided target \<longrightarrow> open_for d (t_id t) (t_generation t))"

text \<open>The gate has been passed, and, beyond the decision itself, the decision has been taken.\<close>

definition may_decide :: "api_env \<Rightarrow> stage \<Rightarrow> task_record \<Rightarrow> control_db \<Rightarrow> bool" where
  "may_decide E target t d \<longleftrightarrow> gr_status (t_gate_result t) = PASS
     \<and> (\<exists>reviewer. gr_independent_reviewer (t_gate_result t) = Some reviewer
          \<and> complete_evidence E (evidence_of E d (t_id t) (t_generation t)) reviewer)
     \<and> (target \<noteq> DECIDE \<longrightarrow> t_decision t = Some (decision_of (t_latest_evaluation t)))"

lemma token_wp:
  assumes ok: "settled E (db s)" "task_inv E (db s) t" "loaded (db s) t" and m: "moves (t_stage t) target"
  shows "wp (if t_stage t = APPROVAL \<and> target = EXECUTE then consume_token E t token else returnE ())
     (\<lambda>_ s'. may_enter E target t (db s') \<and> evidence (db s') = evidence (db s) \<and> tasks (db s') = tasks (db s))
     (\<lambda>e s'. e = gate_failed \<longrightarrow> settled E (db s')) s"
proof -
  have open_: "\<not> decided target \<longrightarrow> open_for d (t_id t) (t_generation t)" if "tasks d = tasks (db s)" for d
    using ok(3) that moves_from_decided [OF m] by (auto simp: loaded_def open_for_def)
  show ?thesis
  proof (cases "target = EXECUTE")
    case True
    have "wp (consume_token E t token)
      (\<lambda>_ s'. may_enter E target t (db s') \<and> evidence (db s') = evidence (db s) \<and> tasks (db s') = tasks (db s))
      (\<lambda>e s'. e = gate_failed \<longrightarrow> settled E (db s')) s"
      by (rule wp_mono [OF wp_consume])
        (use ok open_ True in \<open>auto simp: may_enter_def settled_def task_inv_def\<close>)
    with True m show ?thesis by (simp add: moves_into_EXECUTE)
  next
    case False
    then show ?thesis
      using ok open_ [OF refl] moves_executed [OF m]
      by (auto simp: wp_return may_enter_def settled_def task_inv_def)
  qed
qed

lemma paid_gate [simp]: "paid E d (t\<lparr>t_gate_result := g\<rparr>) = paid E d t"
  by (rule same_task_paid) (simp add: same_task_def)

lemma gate_wp:
  assumes may: "may_enter E target t (db s)" and m: "moves (t_stage t) target"
    and inv: "decided (t_stage t) \<Longrightarrow> proven E (db s) t"
  shows "wp (if t_stage t = VERIFY \<and> target = DECIDE then gate_or_block E t else returnE t)
     (\<lambda>t' s'. may_enter E target t' (db s') \<and> entered t t' \<and> (decided target \<longrightarrow> may_decide E target t' (db s')))
     (\<lambda>e s'. e = gate_failed \<longrightarrow> settled E (db s')) s"
proof (cases "target = DECIDE")
  case True
  with m have st: "t_stage t = VERIFY" by (simp add: moves_into_DECIDE)
  have inv': "task_inv E (db s) t"
    using may True st by (simp add: may_enter_def task_inv_def decided_def executed_def)
  have "wp (gate_or_block E t)
     (\<lambda>t' s'. may_enter E target t' (db s') \<and> entered t t' \<and> (decided target \<longrightarrow> may_decide E target t' (db s')))
     (\<lambda>e s'. e = gate_failed \<longrightarrow> settled E (db s')) s"
    by (rule wp_mono [OF gate_or_block_wp [of E s t]])
      (use may inv' st True in \<open>auto simp: may_enter_def may_decide_def settled_def entered_def same_task_def
        decided_def executed_def task_ok_def evidence_of_def paid_gate\<close>)
  with True st show ?thesis by simp
next
  case False
  with inv moves_decided [OF m] may show ?thesis
    by (auto simp: wp_return may_decide_def proven_def)
qed


definition moved :: "task_record \<Rightarrow> stage \<Rightarrow> string \<Rightarrow> task_record" where
  "moved t target actor = t\<lparr>t_stage := target, t_current_agent := actor\<rparr>"

lemma same_moved [simp]: "same_task t (moved t target actor)"
  by (simp add: same_task_def moved_def)

lemma moved_simps [simp]:
  "t_id (moved t target actor) = t_id t" "t_generation (moved t target actor) = t_generation t"
  "t_version (moved t target actor) = t_version t" "t_stage (moved t target actor) = target"
  "t_gate_result (moved t target actor) = t_gate_result t" "t_decision (moved t target actor) = t_decision t"
  "t_latest_evaluation (moved t target actor) = t_latest_evaluation t"
  by (simp_all add: moved_def)

lemma same_task_trans: "same_task a b \<Longrightarrow> same_task b c \<Longrightarrow> same_task a c"
  by (simp add: same_task_def)

text \<open>The state in which the moved task is saved.\<close>

definition may_save :: "api_env \<Rightarrow> stage \<Rightarrow> task_record \<Rightarrow> control_db \<Rightarrow> bool" where
  "may_save E target t d \<longleftrightarrow> core_inv E d
     \<and> credit d = add_credit t (if target = EXECUTE then 1 else 0) (\<lambda>_ _. 0)
     \<and> task_inv E d t \<and> t_stage t = target"

lemma add_credit_same: "same_task t t' \<Longrightarrow> add_credit t' n b = add_credit t n b"
  by (simp add: fun_eq_iff add_credit_def same_task_def)

lemma enter_wp:
  assumes may: "may_enter E target t (db s)" and dec: "decided target \<Longrightarrow> may_decide E target t (db s)"
  shows "wp (enter_stage E (moved t target actor) target actor)
     (\<lambda>t' s'. may_save E target t' (db s') \<and> same_task t t' \<and> t_version t' = t_version t)
     (\<lambda>e s'. e = gate_failed \<longrightarrow> settled E (db s')) s"
proof (cases "decided target")
  case False
  let ?t = "moved t target actor"
  let ?b = "add_credit t (if target = EXECUTE then 1 else 0) (\<lambda>_ _. 0)"
  have J: "entering E ?b (tasks (db s)) (approvals (db s)) (t_id ?t) (t_generation ?t) (db s)"
    using may False by (simp add: may_enter_def entering_def keeps_paid_def)
  have save: "may_save E target t' d \<and> same_task t t' \<and> t_version t' = t_version t"
    if e: "entering E ?b (tasks (db s)) (approvals (db s)) (t_id ?t) (t_generation ?t) d" "entered ?t t'" for t' d
  proof -
    have same: "same_task t t'" using e(2) same_task_trans [OF same_moved, of t target actor t'] by (simp add: entered_def)
    have "paid E d t" if "executed target"
      using may that e(1) by (auto simp: may_enter_def entering_def keeps_paid_def intro: paid_mono [of E "db s"])
    with same_task_paid [OF same] same_task_ok [OF same] add_credit_same [OF same] may e same False
    show ?thesis by (auto simp: may_save_def may_enter_def entering_def entered_def task_inv_def)
  qed
  show ?thesis
    by (rule wp_mono [OF enter_open_wp [OF J False]])
      (auto simp: save entering_def settled_def split: if_splits)
next
  case True
  let ?t = "moved t target actor"
  let ?Q = "quiet E (\<lambda>_ _. 0) (tasks (db s)) (approvals (db s)) (evidence (db s)) (\<lambda>_. False)"
  have ne: "target \<noteq> EXECUTE" using True by (auto simp: decided_def)
  have J: "?Q (db s)"
    using may ne by (simp add: may_enter_def quiet_def keeps_paid_def)
  have ex: "executed target" using True by (rule decided_executed)
  have save: "may_save E target t' d \<and> same_task t t' \<and> t_version t' = t_version t"
    if q: "?Q d" and t': "t' = ?t \<and> target \<noteq> DECIDE
      \<or> t' = ?t\<lparr>t_decision := Some (decision_of (t_latest_evaluation ?t))\<rparr>" for t' d
  proof -
    have same: "same_task t t'" using t' by (auto simp: same_task_def moved_def)
    have "paid E d t"
      using may ex q by (auto simp: may_enter_def quiet_def keeps_paid_def intro: paid_mono [of E "db s"])
    with same_task_paid [OF same] same_task_ok [OF same] may t' q ne dec [OF True] same
    show ?thesis
      by (auto simp: may_save_def may_enter_def may_decide_def quiet_def task_inv_def proven_def evidence_of_def)
  qed
  have quiet_settled: "?Q d \<Longrightarrow> settled E d" for d by (simp add: quiet_def settled_def)
  have rev: "gr_independent_reviewer (t_gate_result ?t) = Some x \<Longrightarrow>
      reviewed_by (evidence (db s)) (t_id ?t) (t_generation ?t) x" for x
    using dec [OF True] by (auto simp: may_decide_def complete_evidence_def reviewed_by_def evidence_of_def)
  have mem: "wp (keep_task ?t (enter_memory E ?t))
      (\<lambda>t' s'. may_save E target t' (db s') \<and> same_task t t' \<and> t_version t' = t_version t)
      (\<lambda>e s'. e = gate_failed \<longrightarrow> settled E (db s')) s" if "target \<noteq> DECIDE"
    unfolding keep_task_def wp_then wp_return
    by (rule wp_mono [OF quiet_enter_memory [OF J rev]]) (use save that in auto)
  have decide: "wp (enter_decide E ?t actor)
      (\<lambda>t' s'. may_save E target t' (db s') \<and> same_task t t' \<and> t_version t' = t_version t)
      (\<lambda>e s'. e = gate_failed \<longrightarrow> settled E (db s')) s"
    by (rule wp_mono [OF quiet_enter_decide [OF J]]) (use save quiet_settled in auto)
  consider (D) "target = DECIDE" | (M) "target = MEMORY_SKILL" | (O) "target = ARCHIVE \<or> target = COMPLETED"
    using True by (auto simp: decided_def)
  then show ?thesis
  proof cases
    case D
    with decide show ?thesis by (simp add: enter_stage_def)
  next
    case M
    with mem save [OF J, of ?t] show ?thesis by (simp add: enter_stage_def wp_return)
  next
    case O
    with save [OF J, of ?t] show ?thesis by (auto simp: enter_stage_def wp_return)
  qed
qed

lemma finish_wp:
  assumes may: "may_save E target t (db s)"
  shows "wp (bindE (save_bumped E t) (\<lambda>t'.
       thenE (append_audit_event E (t_id t') (t_generation t') ''state.transitioned'' actor (Some target) (p t'))
       (returnE (t', j))))
     (\<lambda>(t', _) s'. settled E (db s') \<and> task_inv E (db s') t' \<and> dict_get (tasks (db s')) (t_id t') = Some t'
        \<and> (\<exists>now. t' = bump t now))
     (\<lambda>e _. e \<noteq> gate_failed) s"
proof -
  have core: "core_inv E (db s)" and inv: "task_inv E (db s) t" and
    credit: "credit (db s) = add_credit t (if target = EXECUTE then 1 else 0) (\<lambda>_ _. 0)"
    using may by (simp_all add: may_save_def)
  show ?thesis
    unfolding wp_bind wp_then wp_return
    by (rule wp_mono [OF save_bumped_wp [OF core inv]], rule wp_mono [OF append_wp])
      (use credit in \<open>auto simp: settled_def core_inv_events fun_eq_iff credit_event entry_def add_credit_def
        bump_def gate_failed_def\<close>)
qed

lemma moved_fold: "t\<lparr>t_stage := target, t_current_agent := actor\<rparr> = moved t target actor"
  by (simp add: moved_def)

lemma transition_wp:
  assumes ok: "settled E (db s)" "task_inv E (db s) t" "loaded (db s) t"
  shows "wp (transition_step E t target token)
     (\<lambda>(t', _) s'. settled E (db s') \<and> task_inv E (db s') t' \<and> dict_get (tasks (db s')) (t_id t') = Some t'
        \<and> moves (t_stage t) target \<and> t_stage t' = target \<and> same_task t t')
     (\<lambda>e s'. e = gate_failed \<longrightarrow> settled E (db s')) s"
proof (cases "moves (t_stage t) target")
  case False
  then have v: "validate_transition (t_stage t) target = Inl (ConflictError ''illegal_transition'')" by simp
  show ?thesis
    unfolding transition_step_def Let_def wp_then wp_lift v sum.case by (simp add: gate_failed_def)
next
  case m: True
  then have v: "validate_transition (t_stage t) target = Inr target" by simp
  have dec: "decided (t_stage t) \<Longrightarrow> proven E (db s) t" using ok(2) by (simp add: task_inv_def)
  show ?thesis
    unfolding transition_step_def Let_def wp_then wp_bind wp_lift v sum.case moved_fold
  proof (rule wp_mono [OF keepsD [OF validate_live_reads [of "db s"] refl]], goal_cases)
    case (1 u1 s1)
    show ?case
    proof (rule wp_mono [OF token_wp [OF _ _ _ m]], goal_cases)
      case (4 u2 s2)
      then have dec2: "decided (t_stage t) \<Longrightarrow> proven E (db s2) t"
        using dec 1 by (simp add: proven_def evidence_of_def)
      show ?case
      proof (rule wp_mono [OF gate_wp [OF _ m dec2]], goal_cases)
        case (3 t3 s3)
        show ?case
        proof (rule wp_mono [OF enter_wp], goal_cases)
          case (3 t4 s4)
          show ?case
            by (rule wp_mono [OF finish_wp, unfolded wp_bind wp_then])
              (use 3 m same_task_trans [of t t3 t4] \<open>may_enter E target t3 (db s3) \<and> _\<close> in
                \<open>auto simp: entered_def may_save_def bump_def same_task_def\<close>)
        qed (use 3 in auto)
      qed (use 4 in auto)
    qed (use 1 ok in auto)
  qed (use ok in simp)
qed

end
