(* ===== verification/ServiceCalls.thy ===== *)
theory ServiceCalls
  imports ServiceMoves
begin

text \<open>
  Every call keeps the invariant, and so every state that calls can reach satisfies it. A call
  that raises rolls its transaction back, or, nested inside the transaction of an idempotent
  request, marks that transaction for rollback.
\<close>

subsection \<open>Changes that keep a settled database settled\<close>

fun calm_ok :: "change \<Rightarrow> bool" where
  "calm_ok (TaskUpsert t) \<longleftrightarrow> task_ok t \<and> t_version t = 1 \<and> t_stage t = INTAKE"
| "calm_ok (TaskCreate t) \<longleftrightarrow> task_ok t \<and> t_version t = 1 \<and> t_stage t = INTAKE"
| "calm_ok (EventAdd v) \<longleftrightarrow> v_event_type v \<noteq> ''state.transitioned''"
| "calm_ok (IdemPut k x) \<longleftrightarrow> True"
| "calm_ok (ClosureAdd r) \<longleftrightarrow> True"
| "calm_ok c \<longleftrightarrow> False"

interpretation calm: guarded_changes E "settled E" calm_ok for E
proof
  fix d c
  assume J: "settled E d" and ok: "change_ok E c d" and G: "calm_ok c"
  then have safe: "change_safe E c d"
    by (cases c) (auto simp: task_inv_def executed_def decided_def)
  have "core_inv E (apply_change c d)" using J core_change [OF _ ok safe] by (simp add: settled_def)
  moreover have "credit (apply_change c d) = credit d"
  proof (cases c)
    case (EventAdd v)
    with G show ?thesis by (simp add: credit_no_entry entry_def)
  qed (use G in \<open>auto intro: credit_cong\<close>)
  ultimately show "settled E (apply_change c d)" using J by (simp add: settled_def)
qed

lemma view_settled: "keeps (\<lambda>s. settled E (db s)) (task_view E' full t)"
  by (rule calm.view_keeps)

lemma view_wp: "settled E (db s) \<Longrightarrow> wp (task_view E' full t) (\<lambda>_ s'. settled E (db s')) (\<lambda>_ s'. settled E (db s')) s"
  by (rule keepsD [OF view_settled])

subsection \<open>Calls and transactions\<close>

text \<open>How a call may leave the session: settled, or inside a transaction that will be rolled back.\<close>

definition rests :: "api_env \<Rightarrow> session \<Rightarrow> session \<Rightarrow> bool" where
  "rests E s s' \<longleftrightarrow> depth s' = depth s \<and> (settled E (db s') \<or> 0 < depth s \<and> rollback_only s')"

definition sound_call :: "api_env \<Rightarrow> 'a op \<Rightarrow> bool" where
  "sound_call E m \<longleftrightarrow> (\<forall>s. settled E (db s) \<longrightarrow> wp m (\<lambda>_. rests E s) (\<lambda>_. rests E s) s)"

lemma sound_transaction:
  assumes body: "\<And>s :: session. settled E (db s) \<Longrightarrow>
    wp body (\<lambda>_ s'. settled E (db s') \<or> rollback_only s') (\<lambda>_ _. True) s"
  shows "sound_call E (transaction body)"
  unfolding sound_call_def
proof (intro allI impI)
  fix s :: session
  assume J: "settled E (db s)"
  let ?in = "if 0 < depth s then s\<lparr>depth := depth s + 1\<rparr> else s\<lparr>depth := 1, rollback_only := False\<rparr>"
  from body [of ?in] J have "wp body (\<lambda>_ s'. settled E (db s') \<or> rollback_only s') (\<lambda>_ _. True) ?in" by simp
  then show "wp (transaction body) (\<lambda>_. rests E s) (\<lambda>_. rests E s) s"
    using J by (auto simp: wp_def transaction_def rests_def split: prod.splits sum.splits if_splits)
qed

lemma sound_bind_lift:
  assumes "sound_call E m" and "\<And>a. f a = liftE (r a)"
  shows "sound_call E (bindE m f)"
  unfolding sound_call_def wp_bind assms(2) wp_lift using assms(1)
  by (auto simp: sound_call_def elim!: wp_mono split: sum.split)

lemma sound_keeps: "keeps (\<lambda>s. settled E (db s)) m \<Longrightarrow> sound_call E (transaction m)"
  by (rule sound_transaction) (erule (1) keepsD [THEN wp_mono], simp_all)

lemma fresh_keeps:
  "sound_call E (reset_demo E sc)" "sound_call E (create_live_task E r)"
  unfolding reset_demo_def create_live_task_def new_generation_def
  by (intro sound_keeps keeps_intros calm.task_keeps calm.event_keeps calm.view_keeps; simp add: task_ok_def)+


lemma closure_sound: "sound_call E (append_decision_closure E tenant project digest bytes key)"
proof (cases "is_sha256_digest digest \<and> closure_check E digest bytes = None")
  case True
  then have "keeps (\<lambda>s. settled E (db s)) (store_closure E \<lparr>dc_tenant_id = tenant, dc_project_id = project,
     dc_closure_digest = digest, dc_closure_bytes = bytes, dc_closure_bytes_sha256 = sha256 E bytes,
     dc_idempotency_key = key\<rparr>)"
    by (intro calm.store_closure_keeps) simp_all
  from sound_keeps [OF this] True show ?thesis
    by (auto simp: append_decision_closure_def sound_call_def rests_def wp_then wp_lift wp_return checked_def
        split: option.split)
next
  case False
  then show ?thesis
    by (auto simp: append_decision_closure_def sound_call_def rests_def wp_simps checked_def split: option.split)
qed

lemma ensure_sound: "sound_call E (ensure_demo E)"
proof -
  have reset: "keeps (\<lambda>s. settled E (db s)) (reset_demo E sc)" for sc
    unfolding reset_demo_def new_generation_def
    by (intro keeps_intros calm.task_keeps calm.event_keeps calm.view_keeps; simp add: task_ok_def)
  show ?thesis
    unfolding ensure_demo_def
    by (intro sound_keeps keeps_intros reset calm.read_keeps)
qed

subsection \<open>Loading a task\<close>

lemma get_task_wp:
  assumes "settled E (db s)"
    and "\<And>t. task_inv E (db s) t \<Longrightarrow> dict_get (tasks (db s)) (t_id t) = Some t \<Longrightarrow> t_id t = tid \<Longrightarrow> Q t s"
    and "\<And>e. X e s"
  shows "wp (get_task tid) Q X s"
  using assms core_taskD [of E "db s" tid]
  by (auto simp: get_task_def wp_simps settled_def split: option.split)

lemma loaded_row: "dict_get (tasks d) (t_id t) = Some t \<Longrightarrow> loaded d t"
  by (simp add: loaded_def)

subsection \<open>Advancing\<close>

lemma advance_sound: "sound_call E (advance E tid target token)"
proof -
  have step: "wp (catchE
      (bindE (transition_step E t destination token) (\<lambda>(t', j).
       bindE (task_view E True t') (\<lambda>v. returnE (Inr [(''transition'', j), (''task'', v)]))))
      (\<lambda>e. if e = gate_failed then returnE (Inl e) else raiseE e))
      (\<lambda>_ s'. settled E (db s') \<or> rollback_only s') (\<lambda>_ _. True) s"
    if "settled E (db s)" "task_inv E (db s) t" "dict_get (tasks (db s)) (t_id t) = Some t"
    for t destination s
    unfolding wp_catch wp_bind
    by (rule wp_mono [OF transition_wp [OF that(1,2) loaded_row [OF that(3)]]])
      (auto simp: wp_simps wp_return_fun intro!: wp_mono [OF view_wp])
  show ?thesis
    unfolding advance_def
  proof (intro sound_bind_lift sound_transaction)
    show "(case r of Inl e \<Rightarrow> raiseE e | Inr x \<Rightarrow> returnE x) = liftE r" for r :: "api_error + (string \<times> json) list"
      by (cases r) (simp_all add: raiseE_def returnE_def liftE_def)
  next
    fix s :: session
    assume J: "settled E (db s)"
    show "wp (bindE (get_task tid) (\<lambda>t.
        case (case target of Some s \<Rightarrow> Some s | None \<Rightarrow> next_forward_stage (t_stage t)) of
          None \<Rightarrow> raiseE (ConflictError ''terminal_task'')
        | Some destination \<Rightarrow>
            catchE
              (bindE (transition_step E t destination token) (\<lambda>(t', j).
               bindE (task_view E True t') (\<lambda>v. returnE (Inr [(''transition'', j), (''task'', v)]))))
              (\<lambda>e. if e = gate_failed then returnE (Inl e) else raiseE e)))
        (\<lambda>_ s'. settled E (db s') \<or> rollback_only s') (\<lambda>_ _. True) s"
      unfolding wp_bind
      by (rule get_task_wp [OF J]) (auto simp: wp_case_option wp_raise split: option.split intro!: step J)
  qed
qed

lemma autorun_loop_wp:
  "settled E (db s) \<Longrightarrow> wp (autorun_loop n E tid token done) (\<lambda>_ s'. settled E (db s')) (\<lambda>_ _. True) s"
proof (induction n arbitrary: token "done" s)
  case 0
  then show ?case by (simp add: wp_simps)
next
  case (Suc n)
  have view: "wp (task_view E True t) (\<lambda>_ s'. settled E (db s')) (\<lambda>_ _. True) s'"
    if "settled E (db s')" for t s'
    by (rule wp_mono [OF view_wp [OF that]]) simp_all
  have blocked: "wp (bindE (get_task tid) (\<lambda>blocked.
      bindE (task_view E True blocked) (\<lambda>v. returnE (autorun_result ''paused'' (JStr ''insufficient_evidence'') done
        [(''gate'', gate_json E (t_gate_result blocked))] v))))
      (\<lambda>_ s'. settled E (db s')) (\<lambda>_ _. True) s'" if "settled E (db s')" for s'
    unfolding wp_bind wp_return by (rule get_task_wp [OF that]) (simp_all add: view that)
  show ?case
    unfolding autorun_loop.simps wp_bind
  proof (rule get_task_wp [OF Suc.prems])
    fix t
    assume t: "task_inv E (db s) t" "dict_get (tasks (db s)) (t_id t) = Some t"
    have step: "wp (catchE (bindE (transition_step E t destination token) (\<lambda>(t', j). returnE (Inr (t', j))))
        (\<lambda>e. if e = gate_failed then returnE (Inl e) else raiseE e))
        (\<lambda>_ s'. settled E (db s')) (\<lambda>_ _. True) s" for destination token
      unfolding wp_catch wp_bind
      by (rule wp_mono [OF transition_wp [OF Suc.prems t(1) loaded_row [OF t(2)]]])
        (auto simp: wp_simps)
    show "wp (if t_stage t = COMPLETED then
       bindE (task_view E True t) (\<lambda>v. returnE (autorun_result ''completed'' JNull done [] v))
     else if t_stage t = APPROVAL \<and> (token = None \<or> token = Some []) then
       bindE (task_view E True t) (\<lambda>v.
         returnE (autorun_result ''paused'' (JStr ''human_approval_required'') done [] v))
     else
       (case next_forward_stage (t_stage t) of
          None \<Rightarrow> raiseE (ConflictError ''terminal_task'')
        | Some destination \<Rightarrow>
           bindE
             (catchE
               (bindE (transition_step E t destination token) (\<lambda>(t', j). returnE (Inr (t', j))))
               (\<lambda>e. if e = gate_failed then returnE (Inl e) else raiseE e))
             (\<lambda>r. case r of
                Inr (t', j) \<Rightarrow>
                  autorun_loop n E tid (if t_stage t' = EXECUTE then None else token) (done @ [j])
              | Inl e \<Rightarrow>
                  bindE (get_task tid) (\<lambda>blocked.
                  bindE (task_view E True blocked) (\<lambda>v.
                  returnE (autorun_result ''paused'' (JStr ''insufficient_evidence'') done
                    [(''gate'', gate_json E (t_gate_result blocked))] v))))))
        (\<lambda>_ s'. settled E (db s')) (\<lambda>_ _. True) s"
      unfolding wp_if wp_case_option wp_bind
      by (auto simp: wp_return_fun wp_raise Suc.prems intro!: wp_mono [OF view] wp_mono [OF step]
          Suc.IH blocked split: option.split sum.split)
  qed simp
qed


subsection \<open>Deciding an approval\<close>

lemma decide_step:
  assumes J: "settled E d" and a: "dict_get (approvals d) aid = Some a"
    and dec: "decide_approval E a decision approver expected now random = Inr (a', token)"
    and free: "\<not> token_hash_taken d a'"
  shows "settled E (d\<lparr>approvals := dict_set (a_id a') a' (approvals d)\<rparr>)"
proof -
  have core: "core_inv E d" using J by (simp add: settled_def)
  note same = decide_Inr_same [OF dec]
  from core_approvalD [OF core a] have id: "a_id a = aid" "approval_inv E a" by simp_all
  have "approval_inv E a' \<and> a_status a' \<noteq> CONSUMED"
    using dec by (cases rule: decide_Inr_cases) (use same id in \<open>auto simp: approval_inv_def\<close>)
  then have step: "approval_step E a a'" "a_status a' \<noteq> CONSUMED"
    using same by (simp_all add: approval_step_def)
  have row: "dict_get (approvals d) (a_id a') = Some a" using a id same by simp
  have ok: "change_ok E (ApprovalSave a') d" using dict_get_keys [OF row] free by simp
  have "core_inv E (apply_change (ApprovalSave a') d)"
    by (rule core_change [OF core ok]) (use row step in auto)
  moreover have "credit (d\<lparr>approvals := dict_set (a_id a') a' (approvals d)\<rparr>) = credit d"
    using credit_save_approval [OF core_distinct [OF core] row] step same
    by (simp add: fun_eq_iff counts_for_def)
  ultimately show ?thesis using J by (simp add: settled_def)
qed

lemma event_calm:
  "settled E (db s) \<Longrightarrow> event_type \<noteq> ''state.transitioned'' \<Longrightarrow>
     wp (append_audit_event E tid gen event_type actor stage payload) (\<lambda>_ s'. settled E (db s')) (\<lambda>_ _. True) s"
  by (rule wp_mono [OF calm.event_wp]) simp_all

lemma decide_sound: "sound_call E (decide_approval_op E aid decision approver expected)"
  unfolding decide_approval_op_def
proof (rule sound_transaction, goal_cases)
  case J: (1 s)
  have save: "wp (save_approval a')
      (\<lambda>_. wp (thenE (append_audit_event E tid gen event_type approver st p) (returnE r))
         (\<lambda>_ s'. settled E (db s') \<or> rollback_only s') (\<lambda>_ _. True)) (\<lambda>_ _. True) s'"
    if "db s' = db s" "dict_get (approvals (db s)) aid = Some a" "event_type \<noteq> ''state.transitioned''"
      "decide_approval E a decision approver expected now random = Inr (a', token)"
    for s' a a' now random token tid gen event_type st p and r :: "(string \<times> json) list"
    using decide_step [OF J that(2,4)] that(1,3)
    by (auto simp: save_approval_def wp_simps wp_return_fun intro!: wp_mono [OF event_calm] split: option.split)
  show ?case
    unfolding get_approval_def get_task_def wp_bind wp_query wp_if wp_clock wp_case_option wp_case_sum wp_case_prod
      wp_return wp_raise
    by (auto simp: wp_then wp_raise_fun wp_return intro: wpI save split: option.split sum.split prod.split)
qed


subsection \<open>Live evidence\<close>

lemma row_entering:
  assumes "settled E d" and "dict_get (tasks d) (t_id t) = Some t" and "\<not> decided (t_stage t)"
  shows "entering E (\<lambda>_ _. 0) (tasks d) (approvals d) (t_id t) (t_generation t) d"
  using assms by (simp add: settled_def entering_def keeps_paid_def open_for_def)

lemma entering_task_inv:
  assumes J: "entering E b T (approvals d) tid gen d'" and inv: "task_inv E d t"
    and st: "\<not> decided (t_stage t)" and same: "entered t t'"
  shows "task_inv E d' t'"
proof -
  have same': "same_task t t'" using same by (simp add: entered_def)
  have "executed (t_stage t) \<Longrightarrow> paid E d' t"
    using J inv by (auto simp: entering_def keeps_paid_def task_inv_def intro: paid_mono [of E d])
  with same_task_paid [OF same'] same_task_ok [OF same'] same inv st show ?thesis
    by (simp add: entered_def task_inv_def)
qed

lemma entering_settled: "entering E (\<lambda>_ _. 0) T A tid gen d \<Longrightarrow> settled E d"
  by (simp add: entering_def settled_def)

lemma record_wp:
  assumes "entering E b T A (t_id t) (t_generation t) (db s)"
  shows "wp (record_evidence E t kind producer payload)
    (\<lambda>_ s'. entering E b T A (t_id t) (t_generation t) (db s')) (\<lambda>_ _. True) s"
  by (rule wp_mono [OF keepsD [OF entering.record_evidence_keeps [OF refl refl]]]) (use assms in simp_all)

lemma ingest_stage_open: "\<not> decided (ingest_stage k)"
  by (cases k) (simp_all add: decided_def)

lemma ingest_sound: "sound_call E (ingest_live_evidence E tid i expected)"
  unfolding ingest_live_evidence_def
proof (rule sound_transaction, goal_cases)
  case J: (1 s)
  have store: "wp (bindE (record_evidence E t kind producer payload) (\<lambda>r.
      bindE (save_bumped E t') (\<lambda>t''. bindE (task_view E True t'') (\<lambda>v. returnE (f r v)))))
      (\<lambda>_ s'. settled E (db s') \<or> rollback_only s') (\<lambda>_ _. True) s"
    if t: "task_inv E (db s) t" "dict_get (tasks (db s)) (t_id t) = Some t" "\<not> decided (t_stage t)" "entered t t'"
    for t t' kind producer payload and f :: "evidence_record \<Rightarrow> json \<Rightarrow> (string \<times> json) list"
    unfolding wp_bind
  proof (rule wp_mono [OF record_wp [OF row_entering [OF J t(2,3)]]], goal_cases)
    case (1 r s1)
    then have J1: "settled E (db s1)" by (rule entering_settled)
    show ?case
      by (rule wp_mono [OF save_bumped_wp [OF _ entering_task_inv [OF 1 t(1,3,4)]]])
        (use J1 in \<open>auto simp: settled_def [of E "db s1"] wp_return_fun settled_def intro!: wp_mono [OF view_wp]\<close>)
  qed simp
  show ?case
    unfolding wp_bind
  proof (rule get_task_wp [OF J], goal_cases)
    case (1 t)
    have "entered t (case it_payload i of MetricPayload p \<Rightarrow> t\<lparr>t_latest_evaluation := mp_results p\<rparr> | _ \<Rightarrow> t)"
      by (simp add: entered_def same_task_def split: ext_payload.split)
    note st = store [OF 1(1,2) _ this]
    show ?case
      unfolding wp_then wp_bind wp_lift list_evidence_def wp_query wp_case_option wp_if wp_raise
      by (auto simp: J ingest_stage_open wp_return_fun intro!: st [unfolded wp_bind wp_return_fun] wp_mono [OF view_wp]
          split: sum.split option.split)
  qed simp
qed

subsection \<open>Finalising\<close>

lemma new_records_wp:
  "wp (new_records E t existing is)
     (\<lambda>rs s'. db s' = db s \<and> (\<forall>r \<in> set rs. e_task_id r = t_id t \<and> e_generation r = t_generation t))
     (\<lambda>_ _. True) s"
proof (induction E t existing "is" arbitrary: s rule: new_records.induct)
  case (1 E t existing)
  then show ?case by (simp add: wp_return)
next
  case (2 E t existing k i "is")
  show ?case
  proof (cases "dict_get existing k")
    case None
    then show ?thesis
      by (auto simp: wp_bind wp_clock wp_return intro!: wp_mono [OF 2(1) [OF None]])
  next
    case (Some r)
    with 2(2) show ?thesis by (simp add: wp_if wp_raise)
  qed
qed

lemma store_records_wp:
  assumes "entering E b T A (t_id t) (t_generation t) (db s)"
    and "\<forall>r \<in> set rs. e_task_id r = t_id t \<and> e_generation r = t_generation t"
  shows "wp (forE rs (store_record E t))
    (\<lambda>_ s'. entering E b T A (t_id t) (t_generation t) (db s')) (\<lambda>_ _. True) s"
proof -
  have "keeps (\<lambda>s. entering E b T A (t_id t) (t_generation t) (db s)) (forE rs (store_record E t))"
    unfolding store_record_def
    by (intro keeps_intros entering.record_keeps entering.entry_event_keeps) (use assms(2) in auto)
  from keepsD [OF this assms(1)] show ?thesis by (rule wp_mono) simp_all
qed

lemma run_stages_wp:
  "settled E (db s) \<Longrightarrow> task_inv E (db s) t \<Longrightarrow> loaded (db s) t \<Longrightarrow>
     wp (run_stages E t ss done) (\<lambda>(t', _) s'. settled E (db s')) (\<lambda>_ _. True) s"
proof (induction ss arbitrary: t "done" s)
  case Nil
  then show ?case by (simp add: wp_return)
next
  case (Cons st ss)
  show ?case
    unfolding run_stages.simps wp_bind
    by (rule wp_mono [OF transition_wp [OF Cons.prems]]) (auto intro!: Cons.IH loaded_row)
qed

lemma finalize_sound: "sound_call E (finalize_live_task E tid r)"
  unfolding finalize_live_task_def
proof (rule sound_transaction, goal_cases)
  case J: (1 s)
  show ?case
    unfolding wp_bind
  proof (rule get_task_wp [OF J], goal_cases)
    case (1 t)
    show ?case
    proof (cases "checked (finalize_guards t r) ()")
      case (Inl e)
      then show ?thesis by (simp add: wp_then wp_lift)
    next
      case (Inr u)
      then have st: "\<not> decided (t_stage t)" by (simp add: finalize_guards_def decided_def)
      note J0 = row_entering [OF J 1(2) st]
      have run: "wp (bindE (run_stages E t1 terminal_stages []) f) (\<lambda>_ s'. settled E (db s') \<or> rollback_only s')
          (\<lambda>_ _. True) s1"
        if e: "entering E (\<lambda>_ _. 0) (tasks (db s)) (approvals (db s)) (t_id t) (t_generation t) (db s1)"
          and "entered t t1"
          and f: "\<And>t' js s'. settled E (db s') \<Longrightarrow>
            wp (f (t', js)) (\<lambda>_ s'. settled E (db s') \<or> rollback_only s') (\<lambda>_ _. True) s'"
        for s1 t1 and f :: "task_record \<times> json list \<Rightarrow> (string \<times> json) list op"
      proof -
        have "loaded (db s1) t1"
          using 1(2) e \<open>entered t t1\<close> by (auto simp: loaded_def entering_def entered_def same_task_def)
        from run_stages_wp [OF entering_settled [OF e] entering_task_inv [OF e 1(1) st \<open>entered t t1\<close>] this]
        show ?thesis
          unfolding wp_bind by (rule wp_mono) (auto intro: f)
      qed
      have tail: "wp (bindE (query f) (\<lambda>vs. bindE (task_view E True t') (\<lambda>v. returnE (g vs v))))
          (\<lambda>_ s'. settled E (db s') \<or> rollback_only s') (\<lambda>_ _. True) s'"
        if "settled E (db s')" for s' t' and f :: "control_db \<Rightarrow> audit_event list"
          and g :: "audit_event list \<Rightarrow> json \<Rightarrow> (string \<times> json) list"
        using that by (auto simp: wp_bind wp_query wp_return_fun intro!: wp_mono [OF view_wp])
      show ?thesis
        unfolding wp_then wp_bind wp_lift list_evidence_def wp_query Let_def
        apply (auto simp: Inr split: sum.split)
        apply (rule wp_mono [OF new_records_wp])
         apply (auto simp: wp_clock wp_case_option wp_return wp_raise split: option.split sum.split)
        apply (rule wp_mono [OF store_records_wp])
           apply (use J0 in simp)
          apply simp
         apply (auto simp: entered_def same_task_def intro!: tail run [unfolded wp_bind] split: sum.split)
        done
    qed
  qed simp
qed


subsection \<open>Reachable states\<close>

lemma autorun_sound: "sound_call E (autorun E tid token)"
  unfolding autorun_def
proof (rule sound_transaction, goal_cases)
  case J: (1 s)
  show ?case
    unfolding wp_bind
    by (rule get_task_wp [OF J]) (auto simp: wp_if wp_raise intro!: wp_mono [OF autorun_loop_wp] J)
qed

lemma call_sound: "sound_call E (run_call E c)"
proof (cases c)
  case (AppendClosure tenant project digest bytes key)
  then show ?thesis
    using sound_bind_lift [OF closure_sound, where f = "\<lambda>_. returnE []" and r = "\<lambda>_. Inr []"]
    by (simp add: liftE_def returnE_def)
qed (simp_all add: fresh_keeps advance_sound autorun_sound ingest_sound finalize_sound decide_sound)

lemma idempotent_sound:
  assumes op: "sound_call E m"
  shows "sound_call E (run_idempotent E meth path key body m cache)"
proof -
  have lift: "(case r of Inl e \<Rightarrow> raiseE e | Inr x \<Rightarrow> returnE x) = liftE r"
    for r :: "api_error + (string \<times> json) list"
    by (cases r) (simp_all add: raiseE_def returnE_def liftE_def)
  have put_rollback: "keeps rollback_only (put_idempotent E meth path k h st resp)" for k h st resp
    unfolding put_idempotent_def get_idempotent_def
    by (intro keepsI) (auto simp: wp_simps split: option.split)
  have put: "wp (put_idempotent E meth path k h st resp) (\<lambda>_ s'. settled E (db s') \<or> rollback_only s') (\<lambda>_ _. True) s"
    if "settled E (db s) \<or> rollback_only s" for k h st resp and s :: session
    using that
  proof
    assume "settled E (db s)"
    then show ?thesis by (intro wp_mono [OF keepsD [OF calm.idem_keeps [where E = E]]]) simp_all
  next
    assume "rollback_only s"
    then show ?thesis by (intro wp_mono [OF keepsD [OF put_rollback]]) simp_all
  qed
  have run: "wp m (\<lambda>_ s'. settled E (db s') \<or> rollback_only s') (\<lambda>_ s'. settled E (db s') \<or> rollback_only s') s"
    if "settled E (db s)" for s
    using op that by (auto simp: sound_call_def rests_def elim!: wp_mono)
  have guarded: "sound_call E (transaction
       (bindE (get_idempotent meth path k h) (\<lambda>cached. case cached of
          Some (status, response) \<Rightarrow> returnE (Inr (dict_set ''idempotent_replay'' (JBool True) response))
        | None \<Rightarrow>
            bindE (catchE (bindE m (\<lambda>response. returnE (Inr response)))
              (\<lambda>e. if error_code e = Some ''evidence_gate_failed'' then returnE (Inl e) else raiseE e))
            (\<lambda>r. case r of
                Inl e \<Rightarrow> returnE (Inl e)
              | Inr response \<Rightarrow>
                  thenE (put_idempotent E meth path k h 200 (cache response)) (returnE (Inr response))))))" for k h
  proof (rule sound_transaction, goal_cases)
    case J: (1 s)
    have fresh: "wp (bindE (catchE (bindE m (\<lambda>response. returnE (Inr response)))
              (\<lambda>e. if error_code e = Some ''evidence_gate_failed'' then returnE (Inl e) else raiseE e))
            (\<lambda>r. case r of
                Inl e \<Rightarrow> returnE (Inl e)
              | Inr response \<Rightarrow>
                  thenE (put_idempotent E meth path k h 200 (cache response)) (returnE (Inr response))))
         (\<lambda>_ s'. settled E (db s') \<or> rollback_only s') (\<lambda>_ _. True) s"
      unfolding wp_bind wp_catch wp_return_fun
      by (rule wp_mono [OF run [OF J]])
        (auto simp: wp_if wp_return wp_raise wp_then wp_return_fun intro!: put)
    show ?case
      unfolding wp_bind get_idempotent_def wp_query wp_case_option wp_case_prod wp_if wp_raise wp_return
      by (auto simp: J option.case_eq_if split: option.split intro: fresh [unfolded wp_bind])
  qed
  show ?thesis
    unfolding run_idempotent_def Let_def lift
    by (auto simp: op split: option.split intro!: sound_bind_lift guarded)
qed

lemma sound_result:
  assumes "sound_call E m" and "settled E (db s)" and "depth s = 0"
  shows "settled E (db (snd (m s))) \<and> depth (snd (m s)) = 0"
proof -
  from assms have "wp m (\<lambda>_. rests E s) (\<lambda>_. rests E s) s" by (simp add: sound_call_def)
  then have "rests E s (snd (m s))" by (simp add: wp_def split: prod.splits sum.splits)
  with assms(3) show ?thesis by (simp add: rests_def)
qed

lemma step_settled:
  "service_step E s s' \<Longrightarrow> settled E (db s) \<and> depth s = 0 \<Longrightarrow> settled E (db s') \<and> depth s' = 0"
  by (elim service_stepE)
    (auto simp: sound_result [OF call_sound] sound_result [OF idempotent_sound [OF call_sound]]
      sound_result [OF ensure_sound])

lemma reachable_settled: "service_reachable E s \<Longrightarrow> settled E (db s) \<and> depth s = 0"
  unfolding service_reachable_def
proof (induction rule: rtranclp_induct)
  case base
  show ?case
    by (simp add: fresh_session_def empty_db_def settled_def core_inv_def fun_eq_iff credit_def consumed_def
        approvals_of_def entries_def stream_def)
next
  case (step s s')
  from step_settled [OF step(2,3)] show ?case .
qed

lemma bump_simps [simp]:
  "t_id (bump t now) = t_id t" "t_generation (bump t now) = t_generation t" "t_stage (bump t now) = t_stage t"
  by (simp_all add: bump_def)

subsection \<open>The automatic run ends\<close>

definition rank :: "stage \<Rightarrow> nat" where
  "rank st = length forward_path - the (index_of st forward_path)"

lemma rank_next: "next_forward_stage a = Some b \<Longrightarrow> rank a = Suc (rank b)"
  by (cases a) (auto simp: next_forward_stage_def forward_path_def rank_def)

lemma rank_bounds: "0 < rank a \<and> rank a \<le> 13"
  by (cases a) (simp_all add: forward_path_def rank_def)

lemma autorun_loop_bound:
  assumes "settled E (db s)"
    and "\<And>t. dict_get (tasks (db s)) tid = Some t \<Longrightarrow> rank (t_stage t) \<le> n \<and> rank (t_stage t) \<le> m"
    and "0 < n" and "0 < m"
  shows "autorun_loop n E tid token done s = autorun_loop m E tid token done s"
  using assms
proof (induction n arbitrary: m token "done" s)
  case (Suc n)
  from Suc.prems(4) obtain m' where m: "m = Suc m'" by (cases m) auto
  show ?case
  proof (cases "dict_get (tasks (db s)) tid")
    case None
    then show ?thesis by (simp add: m get_task_def bindE_def query_def getsE_def raiseE_def)
  next
    case (Some t)
    note row = Some
    have inv: "task_inv E (db s) t" "t_id t = tid"
      using Suc.prems(1) core_taskD [of E "db s" tid t] row by (simp_all add: settled_def)
    have "loaded (db s) t" using row inv by (simp add: loaded_def)
    note step = transition_wp [OF Suc.prems(1) inv(1) this]
    have same: "autorun_loop n E tid token' done' s' = autorun_loop m' E tid token' done' s'"
      if "transition_step E t destination token s = (Inr (t', j), s')"
        "next_forward_stage (t_stage t) = Some destination" for destination t' j s' token' done'
    proof -
      from wp_result [OF step that(1)] inv(2) have s': "settled E (db s')" "dict_get (tasks (db s')) tid = Some t'"
        "t_stage t' = destination"
        by (auto simp: same_task_def)
      with rank_next [OF that(2)] Suc.prems(2) [OF row] m rank_bounds [of destination] show ?thesis
        by (intro Suc.IH) auto
    qed
    show ?thesis
      using row
      by (auto simp: m get_task_def bindE_def catchE_def query_def getsE_def returnE_def raiseE_def same
          split: option.split prod.split sum.split)
  qed
qed simp


end
