(* ===== verification/ServiceRun.thy ===== *)
theory ServiceRun
  imports ServiceCalls JsonRoundtrip
begin

text \<open>
  The demo runs to its end. On a fresh control plane, with clocks, random identifiers and hashes
  that do what they are for, the four calls of the demo (reset, run, approve, run) all return, the
  first run pauses for the human approval and the second completes the task. The calls are followed
  stage by stage with an invariant that says what has been recorded so far.
\<close>

subsection \<open>The environment\<close>

definition fair_env :: "api_env \<Rightarrow> bool" where
  "fair_env E \<longleftrightarrow> inj (uuid_hex E)
     \<and> (\<forall>m n. clock E m < clock E n + micros 900)
     \<and> (\<forall>v w. audit_event_digest E v = audit_event_digest E w \<longrightarrow> v_id v = v_id w)
     \<and> (\<forall>x. sha256 E x \<noteq> []) \<and> hmac_secret E = None"

subsection \<open>Fresh identifiers\<close>

text \<open>Every identifier in the tables was drawn before.\<close>

definition drawn :: "api_env \<Rightarrow> string \<Rightarrow> nat \<Rightarrow> string \<Rightarrow> bool" where
  "drawn E p d x \<longleftrightarrow> (\<exists>n < d. x = p @ uuid_hex E n)"

lemma drawn_mono: "drawn E p d x \<Longrightarrow> d \<le> d' \<Longrightarrow> drawn E p d' x"
  by (force simp: drawn_def)

lemma drawn_new: "drawn E p (Suc d) (p @ uuid_hex E d)"
  by (auto simp: drawn_def)

lemma uuid_eq: "fair_env E \<Longrightarrow> uuid_hex E m = uuid_hex E n \<longleftrightarrow> m = n"
  by (auto simp: fair_env_def dest: injD)

lemma not_drawn: "fair_env E \<Longrightarrow> \<not> drawn E p d (p @ uuid_hex E d)"
  by (force simp: drawn_def fair_env_def inj_def)

lemmas drawn_ids = drawn_new drawn_new [where p = "''evt_''", simplified]
  drawn_new [where p = "''evd_''", simplified] drawn_new [where p = "''memcand_''", simplified]
  drawn_new [where p = "''mem_''", simplified]

definition fresh :: "api_env \<Rightarrow> session \<Rightarrow> bool" where
  "fresh E s \<longleftrightarrow>
     (\<forall>v \<in> set (events (db s)). drawn E ''evt_'' (draws s) (v_id v)
        \<and> v_event_hash v = audit_event_digest E v)
     \<and> (\<forall>r \<in> set (evidence (db s)). drawn E ''evd_'' (draws s) (e_id r))
     \<and> (\<forall>c \<in> set (candidates (db s)). drawn E ''memcand_'' (draws s) (mc_id c))
     \<and> (\<forall>m \<in> set (memories (db s)). drawn E ''mem_'' (draws s) (mr_id m)) \<and> \<not> rollback_only s"

lemma fresh_mono:
  "fresh E s \<Longrightarrow> db s' = db s \<Longrightarrow> draws s \<le> draws s' \<Longrightarrow> ticks s \<le> ticks s' \<Longrightarrow>
     rollback_only s' = rollback_only s \<Longrightarrow> fresh E s'"
  unfolding fresh_def by (auto intro: drawn_mono)

lemma hash_unused:
  assumes fair: "fair_env E" and fr: "fresh E s" and v: "v_id v = ''evt_'' @ uuid_hex E (draws s)"
    and w: "w \<in> set (events (db s))"
  shows "v_event_hash w \<noteq> audit_event_digest E v"
proof
  assume eq: "v_event_hash w = audit_event_digest E v"
  from fr w have t: "drawn E ''evt_'' (draws s) (v_id w)" "v_event_hash w = audit_event_digest E w"
    by (simp_all add: fresh_def)
  from eq t(2) have "audit_event_digest E w = audit_event_digest E v" by simp
  with fair have "v_id w = v_id v" unfolding fair_env_def by blast
  with t(1) v not_drawn [OF fair, of "''evt_''" "draws s"] show False by simp
qed

lemma event_returns:
  assumes fair: "fair_env E" and fr: "fresh E s"
  shows "wp (append_audit_event E tid gen event_type actor stage payload)
     (\<lambda>_ s'. fresh E s' \<and> (\<exists>v. db s' = db s\<lparr>events := events (db s) @ [v]\<rparr>) \<and> draws s \<le> draws s')
     (\<lambda>_ _. False) s"
proof -
  let ?v0 = "\<lparr>v_sequence = next_sequence (db s), v_id = ''evt_'' @ uuid_hex E (draws s), v_task_id = tid,
    v_generation = gen, v_event_type = event_type, v_actor = actor, v_stage = stage, v_payload = payload,
    v_previous_hash = stream_head (db s) tid gen, v_event_hash = [], v_created_at = clock E (ticks s)\<rparr>"
  define v where "v = ?v0\<lparr>v_event_hash := audit_event_digest E ?v0\<rparr>"
  define s' where "s' = s\<lparr>ticks := Suc (ticks s), draws := Suc (draws s), db := db s\<lparr>events := events (db s) @ [v]\<rparr>\<rparr>"
  have v: "v_id v = ''evt_'' @ uuid_hex E (draws s)"
    "v_event_hash v = audit_event_digest E ?v0"
    by (simp_all add: v_def)
  have d: "audit_event_digest E v = audit_event_digest E ?v0" unfolding v_def by (rule audit_digest_hash)
  have "v_id v \<noteq> v_id w" if "w \<in> set (events (db s))" for w
    using fr that not_drawn [OF fair, of "''evt_''" "draws s"] v(1) by (auto simp: fresh_def)
  moreover have "v_event_hash v \<noteq> v_event_hash w" if "w \<in> set (events (db s))" for w
    using hash_unused [OF fair fr v(1) that] v(2) d by metis
  ultimately have run: "append_audit_event E tid gen event_type actor stage payload s = (Inr v, s')"
    by (auto simp: append_audit_event_def bindE_def thenE_def utc_now_def uuid4_hex_def query_def getsE_def
        update_db_def modifyE_def returnE_def Let_def s'_def v_def)
  have "fresh E s'"
    using fr v d drawn_ids by (auto simp: fresh_def s'_def intro: drawn_mono)
  with run show ?thesis by (auto simp: wp_def s'_def)
qed


subsection \<open>What the demo records\<close>

definition team :: "string list" where
  "team = [''architect-agent'', ''evaluation-agent'', ''runtime-agent'', ''scout-agent'']"

definition good_record :: "api_env \<Rightarrow> evidence_record \<Rightarrow> bool" where
  "good_record E r \<longleftrightarrow> digest_ok E r \<and> (e_kind r = METRIC \<longrightarrow> raw_metric r)
     \<and> (e_kind r = REVIEW \<longrightarrow> e_producer_id r = ''reviewer-agent''
          \<and> (\<forall>ps. set ps \<subseteq> set team \<longrightarrow> independent_review ps r (map JStr team))
          \<and> reviewed_producers r = Inr (map JStr team))
     \<and> (e_kind r \<noteq> REVIEW \<longrightarrow> e_producer_id r \<in> set team)"

lemma good_review_scan:
  "set ps \<subseteq> set team \<Longrightarrow> \<forall>r \<in> set rs. e_kind r = REVIEW \<and> good_record E r \<Longrightarrow>
     review_scan ps rs = Inr (map (\<lambda>_. ''reviewer-agent'') rs)"
  by (induction rs) (auto simp: good_record_def)

lemma good_gate:
  assumes good: "\<forall>r \<in> set rs. good_record E r" and kinds: "\<forall>k. \<exists>r \<in> set rs. e_kind r = k"
  shows "\<exists>g. evidence_gate E now rs = Inr g \<and> gr_status g = PASS
    \<and> gr_independent_reviewer g = Some ''reviewer-agent''"
proof -
  let ?reviews = "filter (\<lambda>r. e_kind r = REVIEW) rs"
  have ps: "set (producers rs) \<subseteq> set team"
    using good by (auto simp: producers_def good_record_def)
  have scan: "review_scan (producers rs) ?reviews = Inr (map (\<lambda>_. ''reviewer-agent'') ?reviews)"
    by (rule good_review_scan [OF ps]) (use good in auto)
  from kinds obtain r where r: "r \<in> set rs" "e_kind r = REVIEW" by blast
  then have ne: "?reviews \<noteq> []" by (auto simp: filter_empty_conv)
  then have last: "last (map (\<lambda>_. ''reviewer-agent'') ?reviews) = ''reviewer-agent''" by (simp add: last_map)
  from kinds obtain m where m: "m \<in> set rs" "e_kind m = METRIC" by blast
  with good have "raw_metric m" by (simp add: good_record_def)
  with m have raw: "\<exists>r \<in> set rs. e_kind r = METRIC \<and> raw_metric r" by blast
  have dig: "\<forall>r \<in> set rs. digest_ok E r" using good by (simp add: good_record_def)
  obtain g where g: "evidence_gate E now rs = Inr g"
    by (simp add: evidence_gate_def scan Let_def)
  have rev: "gr_independent_reviewer g = Some ''reviewer-agent''"
    using g ne last by (auto simp: evidence_gate_def scan Let_def)
  have "gr_status g = PASS"
    using gate_status_iff [OF g] kinds raw dig rev by (simp add: missing_none)
  with g rev show ?thesis by blast
qed

text \<open>The demo task is in its row, its evidence so far is good and has the kinds \<open>K\<close>, and there is
  a memory once \<open>mem\<close> says so.\<close>

definition live :: "api_env \<Rightarrow> bool \<Rightarrow> evidence_kind set \<Rightarrow> (string \<times> approval_record) list \<Rightarrow> task_record \<Rightarrow> session \<Rightarrow> bool" where
  "live E mem K A t s \<longleftrightarrow> fresh E s \<and> (mem \<longrightarrow> memories (db s) \<noteq> []) \<and> dict_get (tasks (db s)) demo_task_id = Some t \<and> t_id t = demo_task_id
     \<and> t_synthetic_demo t \<and> t_scenario t = Happy_Path \<and> approvals (db s) = A
     \<and> (\<forall>r \<in> set (evidence_of E (db s) demo_task_id (t_generation t)). good_record E r)
     \<and> (\<forall>k \<in> K. \<exists>r \<in> set (evidence_of E (db s) demo_task_id (t_generation t)). e_kind r = k)"

lemma evidence_of_events [simp]: "evidence_of E (d\<lparr>events := vs\<rparr>) = evidence_of E d"
  by (intro ext) (simp add: evidence_of_def)

lemma live_event:
  "fair_env E \<Longrightarrow> live E mem K A t s \<Longrightarrow>
     wp (append_audit_event E tid gen event_type actor stage payload) (\<lambda>_ s'. live E mem K A t s') (\<lambda>_ _. False) s"
  by (rule wp_mono [OF event_returns]) (auto simp: live_def)

lemma live_record:
  assumes fair: "fair_env E" and live: "live E mem K A t s" and same: "t_id t' = t_id t" "t_generation t' = t_generation t"
    and good: "\<And>i syn c. good_record E \<lparr>e_id = i, e_task_id = t_id t, e_generation = t_generation t, e_kind = kind,
      e_producer_id = producer, e_artifact_digest = json_sha E (JObj payload), e_payload = payload,
      e_synthetic = syn, e_created_at = c\<rparr>"
  shows "wp (record_evidence E t' kind producer payload) (\<lambda>_ s'. live E mem (insert kind K) A t s') (\<lambda>_ _. False) s"
proof -
  define r where "r = \<lparr>e_id = ''evd_'' @ uuid_hex E (draws s), e_task_id = t_id t, e_generation = t_generation t, e_kind = kind,
      e_producer_id = producer, e_artifact_digest = json_sha E (JObj payload), e_payload = payload,
      e_synthetic = t_synthetic_demo t', e_created_at = clock E (ticks s)\<rparr>"
  have r: "good_record E r" "e_id r = ''evd_'' @ uuid_hex E (draws s)" "e_kind r = kind"
    "e_task_id r = t_id t" "e_generation r = t_generation t"
    using good by (simp_all add: r_def)
  have fr: "fresh E s" using live by (simp add: live_def)
  have new: "e_id r \<noteq> e_id x" if "x \<in> set (evidence (db s))" for x
    using fr that not_drawn [OF fair, of "''evd_''" "draws s"] r(2) by (auto simp: fresh_def)
  let ?s = "s\<lparr>draws := Suc (draws s), ticks := Suc (ticks s), db := db s\<lparr>evidence := evidence (db s) @ [r]\<rparr>\<rparr>"
  have "fresh E ?s"
    using fr r drawn_ids by (auto simp: fresh_def intro: drawn_mono)
  then have live': "live E mem (insert kind K) A t ?s"
    using live r by (auto simp: live_def evidence_of_def)
  note live'' = live' [unfolded r_def, simplified]
  from new have new': "e_id r \<notin> e_id ` set (evidence (db s))" by auto
  show ?thesis
    using new' [unfolded r_def, simplified] same
    by (simp add: record_evidence_def add_evidence_def wp_simps wp_return_fun Let_def
        wp_mono [OF live_event [OF fair live'']])
qed


subsection \<open>Entering the stages\<close>

lemmas good_simps = good_record_def digest_ok_def json_sha_def raw_metric_def independent_review_def
  reviewed_producers_def get_truthy_def team_def

definition enters :: "api_env \<Rightarrow> bool \<Rightarrow> task_record \<Rightarrow> task_record op \<Rightarrow> session \<Rightarrow> evidence_kind set
    \<Rightarrow> (string \<times> approval_record) list \<Rightarrow> task_record \<Rightarrow> bool" where
  "enters E mem t m s K A t' \<longleftrightarrow> wp m (\<lambda>x s'. live E mem K A t s' \<and> entered t' x \<and> t_gate_result x = t_gate_result t') (\<lambda>_ _. False) s"

lemma enters_record:
  assumes "wp m (\<lambda>_ s'. live E mem K A t s') (\<lambda>_ _. False) s"
  shows "enters E mem t (keep_task t' m) s K A t'"
  unfolding enters_def keep_task_def wp_then wp_return
  by (rule wp_mono [OF assms]) simp_all

lemma enter_simple_returns:
  assumes fair: "fair_env E" and live: "live E mem K A t s" and same: "t_id t' = t_id t" "t_generation t' = t_generation t"
  shows "wp (enter_context E t') (\<lambda>_ s'. live E mem (insert DATASET_MANIFEST K) A t s') (\<lambda>_ _. False) s"
    "wp (enter_plan E t') (\<lambda>_ s'. live E mem (insert CONFIG K) A t s') (\<lambda>_ _. False) s"
    "wp (enter_verify E t') (\<lambda>_ s'. live E mem (insert REVIEW K) A t s') (\<lambda>_ _. False) s"
  unfolding enter_context_def enter_plan_def enter_verify_def wp_then wp_return
  by (rule live_record [OF fair live same], fastforce simp: good_simps)+

lemma enter_observe_returns:
  assumes fair: "fair_env E" and live: "live E mem K A t s" and same: "t_id t' = t_id t" "t_generation t' = t_generation t"
    and sc: "t_scenario t' = Happy_Path"
  shows "wp (enter_observe E t') (\<lambda>_ s'. live E mem (K \<union> {LOG, TRACE}) A t s') (\<lambda>_ _. False) s"
proof -
  have 1: "wp (record_evidence E t' LOG ''runtime-agent'' p) (\<lambda>_ s'. live E mem (insert LOG K) A t s') (\<lambda>_ _. False) s" for p
    by (rule live_record [OF fair live same]) (simp add: good_simps)
  have 2: "wp (record_evidence E t' TRACE ''runtime-agent'' p) (\<lambda>_ s'. live E mem (insert TRACE (insert LOG K)) A t s')
      (\<lambda>_ _. False) s'" if "live E mem (insert LOG K) A t s'" for p s'
    by (rule live_record [OF fair that same]) (simp add: good_simps)
  show ?thesis
    using sc unfolding enter_observe_def wp_then wp_return_fun
    by (auto intro!: wp_mono [OF 1] wp_mono [OF 2] simp: wp_if wp_then wp_return_fun insert_commute)
qed

lemma enter_review_returns:
  assumes fair: "fair_env E" and live: "live E mem K A t s" and same: "t_id t' = t_id t" "t_generation t' = t_generation t"
    and K: "CONFIG \<in> K"
  shows "wp (enter_plan_review E t') (\<lambda>_ s'. live E mem K A t s') (\<lambda>_ _. False) s"
proof -
  have "filter (\<lambda>r. e_kind r = CONFIG) (evidence_of E (db s) (t_id t) (t_generation t)) \<noteq> []"
    using live K by (auto simp: live_def filter_empty_conv)
  with same show ?thesis
    by (simp add: enter_plan_review_def list_evidence_def wp_bind wp_query Let_def wp_if wp_then wp_return_fun
        live_event [OF fair live])
qed

lemma evaluation_returns:
  assumes "baseline \<noteq> []" and "length baseline = length candidate" and "100 \<le> iterations"
  shows "\<exists>r. evaluate_paired_metric E metric baseline candidate dir th seed iterations cl = Inr r"
proof -
  obtain ds where ds: "paired_bootstrap_delta E baseline candidate seed iterations = Inr ds" "ds \<noteq> []"
    using assms by (simp add: paired_bootstrap_delta_def validate_samples_def Let_def)
  then have "sort ds \<noteq> []" by (metis set_empty set_sort)
  then have "\<exists>x. percentile E (sort ds) p = Inr x" for p by (simp add: percentile_def Let_def)
  with ds(1) show ?thesis
    by (simp add: evaluate_paired_metric_def Let_def) (metis (no_types, lifting) case_prod_conv sum.case(2))
qed

lemma demo_evaluation_returns:
  "\<exists>r. demo_evaluation E ''FPS'' d th = Inr r" "\<exists>r. demo_evaluation E ''MPJPE'' d th = Inr r"
  unfolding demo_evaluation_def by (simp_all add: demo_samples_def floats_def evaluation_returns)

lemma enter_evaluate_returns:
  assumes fair: "fair_env E" and live: "live E mem K A t s" and same: "t_id t' = t_id t" "t_generation t' = t_generation t"
  shows "enters E mem t (enter_evaluate E t') s (insert METRIC K) A t'"
proof -
  obtain fps mpjpe where "demo_evaluation E ''FPS'' Higher_Better (lit E 10) = Inr fps"
    "demo_evaluation E ''MPJPE'' Lower_Better (lit E (5 / 100)) = Inr mpjpe"
    using demo_evaluation_returns by metis
  moreover have "wp (record_evidence E t' METRIC ''evaluation-agent''
        [(''evaluator'', JStr ''paired_bootstrap/v1''), (''deterministic'', JBool True),
         (''summary_only'', JBool False), (''raw_samples'', raw_samples_json (demo_samples E)),
         (''results'', JList (map evaluation_json [fps, mpjpe])), (''synthetic'', JBool True),
         (''notice'', JStr synthetic_notice)]) (\<lambda>_ s'. live E mem (insert METRIC K) A t s') (\<lambda>_ _. False) s"
    by (rule live_record [OF fair live same]) (simp add: good_simps raw_samples_json_def demo_samples_def)
  ultimately show ?thesis
    by (auto simp: enters_def enter_evaluate_def wp_bind wp_lift wp_then wp_return_fun entered_def same_task_def
        elim!: wp_mono)
qed

lemma first_digest_returns:
  assumes "live E mem K A t s" and "k \<in> K"
  shows "\<exists>x. first_digest k (evidence_of E (db s) (t_id t) (t_generation t)) = Inr x"
  using assms by (auto simp: live_def first_digest_def find_None_iff split: option.split)

lemma enter_execute_returns:
  assumes fair: "fair_env E" and live: "live E mem K A t s" and same: "t_id t' = t_id t" "t_generation t' = t_generation t"
    and K: "CONFIG \<in> K" "DATASET_MANIFEST \<in> K"
  shows "enters E mem t (enter_execute E t') s (insert CODE K) A t'"
proof -
  have 1: "wp (record_evidence E t' CODE ''runtime-agent'' p) (\<lambda>_ s'. live E mem (insert CODE K) A t s') (\<lambda>_ _. False) s" for p
    by (rule live_record [OF fair live same]) (simp add: good_simps)
  have 2: "wp (append_audit_event E tid gen et actor st p) (\<lambda>_ s'. live E mem (insert CODE K) A t s') (\<lambda>_ _. False) s'"
    if "live E mem (insert CODE K) A t s'" for tid gen et actor st p s'
    by (rule live_event [OF fair that])
  have 3: "\<exists>x y. first_digest CONFIG (evidence_of E (db s') (t_id t) (t_generation t)) = Inr x
      \<and> first_digest DATASET_MANIFEST (evidence_of E (db s') (t_id t) (t_generation t)) = Inr y"
    if "live E mem (insert CODE K) A t s'" for s'
    using first_digest_returns [OF that] K by blast
  show ?thesis
    unfolding enters_def enter_execute_def Let_def wp_bind list_evidence_def wp_query wp_lift wp_then wp_return_fun
    by (rule wp_mono [OF 1], frule 3) (auto simp: same entered_def same_task_def intro!: wp_mono [OF 2])
qed


text \<open>The approval that the demo asks for, and, with a token, its grant.\<close>

definition asked :: "api_env \<Rightarrow> task_record \<Rightarrow> string option \<Rightarrow> approval_record \<Rightarrow> bool" where
  "asked E t token a \<longleftrightarrow> scope_matches a (t_id t) (t_generation t) (k_scope (demo_contract E t))
       (k_action (demo_contract E t)) (k_digest (demo_contract E t))
     \<and> a_used_at a = None \<and> (\<forall>n. clock E n < a_expires_at a)
     \<and> (case token of None \<Rightarrow> a_status a = PENDING
          | Some x \<Rightarrow> a_status a = APPROVED \<and> x \<noteq> [] \<and> a_token_hash a = Some (text_sha256 (crypto.truncate E) x))"

lemma fresh_draws: "fresh E s \<Longrightarrow> fresh E (s\<lparr>draws := Suc (draws s), ticks := Suc (ticks s)\<rparr>)" for s :: session
  by (rule fresh_mono [of E s]) simp_all

lemma enter_approval_returns:
  assumes fair: "fair_env E" and live: "live E mem K [] t s" and same: "same_task t t'"
  shows "wp (enter_approval E t') (\<lambda>_ s'. \<exists>a. live E mem K [(a_id a, a)] t s' \<and> asked E t None a) (\<lambda>_ _. False) s"
proof -
  have k: "contract_of E t' = Inr (demo_contract E t)"
    using live same_task_contract [OF same, of E] by (simp add: live_def contract_of_def)
  have ttl: "k_ttl_seconds (demo_contract E t) = 900" "k_rollback_point (demo_contract E t) = Some gpu_rollback_point"
    by (simp_all add: demo_contract_def Let_def)
  have "gpu_rollback_point \<noteq> []" by (simp add: gpu_rollback_point_def)
  then obtain a where a: "build_approval (''apr_'' @ uuid_hex E (draws s)) (t_id t') (t_generation t') (fst (approval_risk t'))
        (k_scope (demo_contract E t)) (k_action (demo_contract E t)) (k_digest (demo_contract E t))
        (k_config_sha256 (demo_contract E t)) (k_action_payload (demo_contract E t))
        (Some gpu_rollback_point) (clock E (ticks s)) 900 = Inr a" "asked E t None a" "a_token_hash a = None"
    using same fair by (auto simp: build_approval_def asked_def scope_matches_def same_task_def fair_env_def)
  let ?s = "s\<lparr>draws := Suc (draws s), ticks := Suc (ticks s), db := db s\<lparr>approvals := [(a_id a, a)]\<rparr>\<rparr>"
  have "fresh E ?s"
    using fresh_draws [of E s] live by (simp add: live_def fresh_def)
  then have "live E mem K [(a_id a, a)] t ?s"
    using live by (simp add: live_def evidence_of_def)
  note live' = this
  have event: "wp (append_audit_event E tid gen et actor st p)
      (\<lambda>_ s'. \<exists>a. live E mem K [(a_id a, a)] t s' \<and> asked E t None a) (\<lambda>_ _. False) ?s" for tid gen et actor st p
    by (rule wp_mono [OF live_event [OF fair live']]) (use a(2) in auto)
  have "approvals (db s) = []" using live by (simp add: live_def)
  with a(1,3) event show ?thesis
    by (simp add: enter_approval_def k ttl add_approval_def token_hash_taken_def wp_bind wp_lift
        wp_clock wp_then wp_query wp_if wp_update_db wp_return_fun)
qed

lemma consume_returns:
  assumes fair: "fair_env E" and live: "live E mem K [(a_id a, a)] t s" and asked: "asked E t (Some x) a"
  shows "wp (consume_token E t (Some x)) (\<lambda>_ s'. \<exists>A. live E mem K A t s') (\<lambda>_ _. False) s"
proof -
  have k: "contract_of E t = Inr (demo_contract E t)" using live by (simp add: live_def contract_of_def)
  have ap: "approvals (db s) = [(a_id a, a)]" using live by (simp add: live_def)
  have sha: "text_sha256 (crypto.truncate E) y \<noteq> []" for y
    using fair by (simp add: fair_env_def text_sha256_def crypto.truncate_def)
  have valid: "validate_approval_token E a (Some x) (t_id t) (t_generation t) (k_scope (demo_contract E t))
      (k_action (demo_contract E t)) (k_digest (demo_contract E t)) now = Inr ()"
    if "now = clock E n" for now n
    using asked that sha by (simp add: asked_def validate_approval_token_def scope_matches_def not_le)
  have mine: "approvals_of (db s) (t_id t) (t_generation t) = [a]"
    using asked ap by (simp add: approvals_of_def asked_def scope_matches_def)
  let ?b = "consume_approval a (clock E (Suc (ticks s)))"
  let ?s = "s\<lparr>ticks := Suc (Suc (ticks s)), db := db s\<lparr>approvals := dict_set (a_id a) ?b (approvals (db s))\<rparr>\<rparr>"
  have "fresh E (s\<lparr>ticks := Suc (Suc (ticks s))\<rparr>)"
    by (rule fresh_mono [of E s]) (use live in \<open>simp_all add: live_def\<close>)
  then have "fresh E ?s" by (simp add: fresh_def)
  then have "live E mem K (dict_set (a_id a) ?b (approvals (db s))) t ?s"
    using live by (simp add: live_def evidence_of_def)
  note live' = this
  have event: "wp (append_audit_event E tid gen et actor st p) (\<lambda>_ s'. \<exists>A. live E mem K A t s') (\<lambda>_ _. False) ?s"
    for tid gen et actor st p
    by (rule wp_mono [OF live_event [OF fair live']]) auto
  show ?thesis
    using mine ap event
    by (simp add: consume_token_def latest_approval_def k valid [OF refl] save_approval_def token_hash_taken_def wp_bind
        wp_lift wp_clock wp_then wp_query wp_if wp_update_db wp_return_fun Let_def wp_case_option wp_case_prod)
qed


lemma gate_returns:
  assumes fair: "fair_env E" and live: "live E mem K A t s" and K: "\<forall>k. k \<in> K" and same: "t_id t' = t_id t" "t_generation t' = t_generation t"
  shows "wp (gate_or_block E t') (\<lambda>x s'. live E mem K A t s' \<and> entered t' x \<and> gr_status (t_gate_result x) = PASS
     \<and> gr_independent_reviewer (t_gate_result x) = Some ''reviewer-agent'') (\<lambda>_ _. False) s"
proof -
  have good: "\<forall>r \<in> set (evidence_of E (db s) (t_id t) (t_generation t)). good_record E r"
    "\<forall>k. \<exists>r \<in> set (evidence_of E (db s) (t_id t) (t_generation t)). e_kind r = k"
    using live K by (auto simp: live_def)
  from good_gate [OF this] obtain g where
    g: "evidence_gate E (clock E (ticks s)) (evidence_of E (db s) (t_id t) (t_generation t)) = Inr g"
      "gr_status g = PASS" "gr_independent_reviewer g = Some ''reviewer-agent''" by blast
  have "live E mem K A t (s\<lparr>ticks := Suc (ticks s)\<rparr>)"
    using live fresh_mono [of E s "s\<lparr>ticks := Suc (ticks s)\<rparr>"] by (simp add: live_def)
  from live_event [OF fair this]
  have event: "wp (append_audit_event E tid gen et actor st p)
      (\<lambda>_ s'. live E mem K A t s' \<and> entered t' (t'\<lparr>t_gate_result := g\<rparr>)) (\<lambda>_ _. False) (s\<lparr>ticks := Suc (ticks s)\<rparr>)"
    for tid gen et actor st p
    by (rule wp_mono) (simp_all add: entered_def same_task_def)
  show ?thesis
    using g same event
    by (simp add: gate_or_block_def refresh_gate_def list_evidence_def wp_bind wp_lift wp_clock wp_then wp_query wp_if
        wp_return_fun)
qed

lemma live_same_db:
  fixes s s' :: session
  assumes "live E mem K A t s" and "db s' = db s" and "draws s \<le> draws s'" and "ticks s \<le> ticks s'"
    and "rollback_only s' = rollback_only s"
  shows "live E mem K A t s'"
  using assms fresh_mono [of E s s'] by (simp add: live_def)

lemma propose_returns:
  assumes fair: "fair_env E" and live: "live E mem K A t s"
    and new: "mc_id c \<notin> mc_id ` set (candidates (db s))" "drawn E ''memcand_'' (draws s) (mc_id c)"
  shows "wp (propose_candidate E t' c) (\<lambda>_ s'. live E mem K A t s' \<and> candidates (db s') = candidates (db s) @ [c]
    \<and> draws s \<le> draws s') (\<lambda>_ _. False) s"
proof -
  let ?s = "s\<lparr>db := db s\<lparr>candidates := candidates (db s) @ [c]\<rparr>\<rparr>"
  have l: "live E mem K A t ?s" using live new by (auto simp: live_def fresh_def evidence_of_def)
  have event: "wp (append_audit_event E tid gen et actor st p)
      (\<lambda>_ s'. live E mem K A t s' \<and> candidates (db s') = candidates (db s) @ [c] \<and> draws s \<le> draws s') (\<lambda>_ _. False) ?s"
    for tid gen et actor st p
    by (rule wp_mono [OF event_returns [OF fair, of ?s]]) (use l in \<open>auto simp: live_def\<close>)
  show ?thesis
    using new(1) event by (simp add: propose_candidate_def add_memory_candidate_def wp_bind wp_then wp_query wp_if
      wp_update_db wp_return_fun)
qed


lemma validate_returns:
  assumes fair: "fair_env E" and live: "live E mem K A t s"
  shows "wp (validate_candidate E t' c) (\<lambda>_ s'. live E True K A t s') (\<lambda>_ _. False) s"
proof -
  let ?m = "\<lparr>mr_id = ''mem_'' @ uuid_hex E (draws s), mr_task_id = mc_task_id c, mr_generation = mc_generation c,
           mr_memory_type = mc_memory_type c, mr_statement = mc_statement c,
           mr_component = mc_component c, mr_evidence_digest = mc_evidence_digest c,
           mr_review_id = mc_review_id c, mr_validated = True, mr_candidate_id = Some (mc_id c),
           mr_validated_by = Some ''memory-validator'', mr_created_at = clock E (ticks s)\<rparr>"
  let ?s = "s\<lparr>draws := Suc (draws s), ticks := Suc (ticks s), db := db s\<lparr>memories := memories (db s) @ [?m]\<rparr>\<rparr>"
  have "mr_id ?m \<noteq> mr_id x" if "x \<in> set (memories (db s))" for x
    using live that not_drawn [OF fair, of "''mem_''" "draws s"] by (auto simp: live_def fresh_def)
  then have new: "mr_id ?m \<notin> mr_id ` set (memories (db s))" by auto
  have "fresh E ?s"
    using live drawn_ids by (auto simp: live_def fresh_def intro: drawn_mono)
  then have "live E True K A t ?s" using live by (simp add: live_def evidence_of_def)
  from live_event [OF fair this] new show ?thesis
    by (simp add: validate_candidate_def add_memory_def Let_def wp_bind wp_clock wp_then wp_query wp_if
      wp_update_db wp_return_fun)
qed

lemma memory_returns:
  assumes fair: "fair_env E" and live: "live E mem K A t s" and same: "t_id t' = t_id t" "t_generation t' = t_generation t"
    and gate: "gr_status (t_gate_result t') = PASS" "gr_independent_reviewer (t_gate_result t') = Some ''reviewer-agent''"
  shows "wp (enter_memory E t') (\<lambda>_ s'. live E True K A t s') (\<lambda>_ _. False) s"
proof -
  have two: "wp (forE [c1, c2] (propose_candidate E t')) (\<lambda>_ s'. live E mem K A t s') (\<lambda>_ _. False) s'"
    if c: "mc_id c1 = ''memcand_'' @ uuid_hex E (draws s)" "mc_id c2 = ''memcand_'' @ uuid_hex E (Suc (draws s))"
      and s': "db s' = db s" "draws s' = Suc (Suc (draws s))" "ticks s \<le> ticks s'"
        "rollback_only s' = rollback_only s" for c1 c2 s'
  proof -
    have l: "live E mem K A t s'" by (rule live_same_db [OF live]) (use s' in simp_all)
    have old: "drawn E ''memcand_'' (draws s) (mc_id x)" if "x \<in> set (candidates (db s))" for x
      using live that by (simp add: live_def fresh_def)
    have n1: "mc_id c1 \<notin> mc_id ` set (candidates (db s'))"
      using old not_drawn [OF fair, of "''memcand_''" "draws s"] c s' by auto
    have d1: "drawn E ''memcand_'' (draws s') (mc_id c1)"
      unfolding drawn_def using c s' by (intro exI [of _ "draws s"]) simp
    have ne: "mc_id c2 \<noteq> mc_id c1" using c uuid_eq [OF fair] by simp
    have n2: "mc_id c2 \<notin> mc_id ` set (candidates (db s') @ [c1])"
      using old not_drawn [OF fair, of "''memcand_''" "Suc (draws s)"] c s' ne
        drawn_mono [of E "''memcand_''" "draws s" _ "Suc (draws s)"] by auto
    have d2: "drawn E ''memcand_'' (draws s'') (mc_id c2)" if "draws s' \<le> draws s''" for s'' :: session
      unfolding drawn_def using that c s' by (intro exI [of _ "Suc (draws s)"]) simp
    show ?thesis
      unfolding forE.simps wp_then wp_return
      by (rule wp_mono [OF propose_returns [OF fair l n1 d1]], rule wp_mono [OF propose_returns [OF fair]])
        (use n2 d2 in auto)
  qed
  have validate: "wp (forE [c1, c2] (validate_candidate E t')) (\<lambda>_ s'. live E True K A t s') (\<lambda>_ _. False) s'"
    if "live E mem K A t s'" for c1 c2 s'
    unfolding forE.simps wp_then wp_return
    by (rule wp_mono [OF validate_returns [OF fair that]], rule wp_mono [OF validate_returns [OF fair]]) auto
  have req: "require_validated_memory (t_gate_result t') ''reviewer-agent'' = Inr ()"
    using gate by (simp add: require_validated_memory_def)
  show ?thesis
    using gate
    by (auto simp del: forE.simps simp: enter_memory_def Let_def wp_bind list_evidence_def wp_query new_candidate_def
        wp_clock wp_return_fun wp_then wp_lift req intro!: wp_mono [OF two] validate)
qed


subsection \<open>The transitions of the demo\<close>

fun kinds_at :: "stage \<Rightarrow> evidence_kind set" where
  "kinds_at INTAKE = {}"
| "kinds_at CONTEXT = {DATASET_MANIFEST}"
| "kinds_at EXECUTE = {DATASET_MANIFEST, CONFIG, CODE}"
| "kinds_at OBSERVE = {DATASET_MANIFEST, CONFIG, CODE, LOG, TRACE}"
| "kinds_at EVALUATE = {DATASET_MANIFEST, CONFIG, CODE, LOG, TRACE, METRIC}"
| "kinds_at PLAN = {DATASET_MANIFEST, CONFIG}"
| "kinds_at PLAN_REVIEW = {DATASET_MANIFEST, CONFIG}"
| "kinds_at APPROVAL = {DATASET_MANIFEST, CONFIG}"
| "kinds_at _ = UNIV"

lemma all_kinds: "UNIV = insert REVIEW {DATASET_MANIFEST, CONFIG, CODE, LOG, TRACE, METRIC}"
  by (auto, metis evidence_kind.exhaust)

text \<open>Where the demo stands, with the token that grants the approval once it is granted.\<close>

definition stands :: "api_env \<Rightarrow> string option \<Rightarrow> task_record \<Rightarrow> session \<Rightarrow> bool" where
  "stands E token t s \<longleftrightarrow> (\<exists>A. live E (t_stage t \<in> {MEMORY_SKILL, COMPLETED}) (kinds_at (t_stage t)) A t s
     \<and> (t_stage t \<in> {INTAKE, CONTEXT, PLAN, PLAN_REVIEW} \<longrightarrow> A = [])
     \<and> (t_stage t = APPROVAL \<longrightarrow> (\<exists>a. A = [(a_id a, a)] \<and> asked E t token a))
     \<and> (decided (t_stage t) \<longrightarrow> gr_status (t_gate_result t) = PASS
          \<and> gr_independent_reviewer (t_gate_result t) = Some ''reviewer-agent''))"

lemma save_returns:
  assumes live: "live E mem K A t s" and same: "entered t x \<or> same_task t x \<and> t_version x = t_version t"
  shows "wp (save_bumped E x) (\<lambda>y s'. live E mem K A y s' \<and> (\<exists>now. y = bump x now)) (\<lambda>_ _. False) s"
proof -
  have x: "t_id x = t_id t" "t_generation x = t_generation t" "t_version x = t_version t"
    "t_synthetic_demo x = t_synthetic_demo t" "t_scenario x = t_scenario t"
    using same by (auto simp: entered_def same_task_def)
  let ?y = "bump x (clock E (ticks s))"
  let ?s = "s\<lparr>ticks := Suc (ticks s), db := db s\<lparr>tasks := dict_set (t_id x) ?y (tasks (db s))\<rparr>\<rparr>"
  have "fresh E (s\<lparr>ticks := Suc (ticks s)\<rparr>)"
    by (rule fresh_mono [of E s]) (use live in \<open>simp_all add: live_def\<close>)
  then have "live E mem K A ?y ?s"
    using live x by (simp add: live_def fresh_def evidence_of_def bump_def dict_get_set)
  then show ?thesis
    using live x by (auto simp: live_def save_bumped_def save_task_def wp_simps bump_def)
qed

lemma finish_returns:
  assumes fair: "fair_env E" and live: "live E mem K A t s" and same: "same_task t x \<and> t_version x = t_version t"
  shows "wp (bindE (save_bumped E x) (\<lambda>t4.
       thenE (append_audit_event E (t_id t4) (t_generation t4) et actor st (p t4)) (returnE (t4, j))))
     (\<lambda>(t', _) s'. live E mem K A t' s' \<and> (\<exists>now. t' = bump x now)) (\<lambda>_ _. False) s"
  unfolding wp_bind wp_then wp_return_fun
  by (rule wp_mono [OF save_returns [OF live]])
    (use same in \<open>auto intro!: wp_mono [OF live_event [OF fair]]\<close>)


lemma asked_same: "same_task t t' \<Longrightarrow> asked E t' token a \<longleftrightarrow> asked E t token a"
  by (simp add: asked_def same_task_def demo_contract_def Let_def)

definition arrives :: "api_env \<Rightarrow> task_record \<Rightarrow> stage \<Rightarrow> task_record \<Rightarrow> session \<Rightarrow> bool" where
  "arrives E t d x s \<longleftrightarrow> same_task t x \<and> t_version x = t_version t \<and> t_stage x = d
     \<and> (\<exists>A. live E (d \<in> {MEMORY_SKILL, COMPLETED}) (kinds_at d) A t s
       \<and> (d \<in> {INTAKE, CONTEXT, PLAN, PLAN_REVIEW} \<longrightarrow> A = [])
       \<and> (d = APPROVAL \<longrightarrow> (\<exists>a. A = [(a_id a, a)] \<and> asked E t None a))
       \<and> (decided d \<longrightarrow> gr_status (t_gate_result x) = PASS
            \<and> gr_independent_reviewer (t_gate_result x) = Some ''reviewer-agent''))"

lemma arrives_saved:
  assumes "arrives E t d x s" and "fair_env E"
  shows "wp (bindE (save_bumped E x) (\<lambda>t4.
       thenE (append_audit_event E (t_id t4) (t_generation t4) et actor st (p t4)) (returnE (t4, j))))
     (\<lambda>(t', _) s'. stands E None t' s' \<and> t_stage t' = d) (\<lambda>_ _. False) s"
proof -
  from assms(1) obtain A where A: "live E (d \<in> {MEMORY_SKILL, COMPLETED}) (kinds_at d) A t s"
    "d \<in> {INTAKE, CONTEXT, PLAN, PLAN_REVIEW} \<longrightarrow> A = []"
    "d = APPROVAL \<longrightarrow> (\<exists>a. A = [(a_id a, a)] \<and> asked E t None a)"
    and x: "same_task t x \<and> t_version x = t_version t" "t_stage x = d"
    "decided d \<longrightarrow> gr_status (t_gate_result x) = PASS
            \<and> gr_independent_reviewer (t_gate_result x) = Some ''reviewer-agent''"
    unfolding arrives_def by blast
  have same: "same_task t (bump x now)" for now using x by (simp add: same_task_def bump_def)
  have gate: "t_gate_result (bump x now) = t_gate_result x" for now by (simp add: bump_def)
  show ?thesis
    by (rule wp_mono [OF finish_returns [OF assms(2) A(1) x(1)]])
      (use A(2,3) x(2,3) in \<open>auto simp: stands_def gate asked_same [OF same]\<close>)
qed

lemma enter_returns:
  assumes fair: "fair_env E" and live: "live E (t_stage t \<in> {MEMORY_SKILL, COMPLETED}) (kinds_at (t_stage t)) A t s"
    and pre: "t_stage t \<in> {INTAKE, CONTEXT, PLAN, PLAN_REVIEW} \<longrightarrow> A = []"
    and nx: "next_forward_stage (t_stage t) = Some d"
    and t1: "entered t t1" and gate: "decided d \<Longrightarrow> gr_status (t_gate_result t1) = PASS
            \<and> gr_independent_reviewer (t_gate_result t1) = Some ''reviewer-agent''"
  shows "wp (enter_stage E (moved t1 d actor) d actor) (arrives E t d) (\<lambda>_ _. False) s"
proof -
  let ?t = "moved t1 d actor"
  have t: "t_id ?t = t_id t" "t_generation ?t = t_generation t" "t_scenario ?t = Happy_Path" "t_synthetic_demo ?t"
    "same_task t ?t" "t_version ?t = t_version t" "t_stage ?t = d"
    using t1 live by (auto simp: live_def entered_def same_task_def moved_def)
  have keep: "wp (keep_task ?t m) (arrives E t d) (\<lambda>_ _. False) s"
    if "wp m (\<lambda>_ s'. \<exists>A. live E (d \<in> {MEMORY_SKILL, COMPLETED}) (kinds_at d) A t s'
       \<and> (d \<in> {INTAKE, CONTEXT, PLAN, PLAN_REVIEW} \<longrightarrow> A = [])
       \<and> (d = APPROVAL \<longrightarrow> (\<exists>a. A = [(a_id a, a)] \<and> asked E t None a))) (\<lambda>_ _. False) s" for m
    unfolding keep_task_def wp_then wp_return
    by (rule wp_mono [OF that]) (use t gate in \<open>auto simp: arrives_def\<close>)
  have step: "wp (enter_stage E ?t d actor) (arrives E t d) (\<lambda>_ _. False) s" if "enters E False t (enter_stage E ?t d actor) s (kinds_at d) A ?t"
    "d \<in> {EXECUTE, EVALUATE}"
    using that(1) unfolding enters_def
    by (rule wp_mono) (use t that(2) same_task_trans [OF t(5)] in \<open>auto simp: arrives_def entered_def decided_def\<close>)
  show ?thesis
  proof (cases "t_stage t")
    case INTAKE
    with nx have d: "d = CONTEXT" by (simp add: next_forward_stage_def forward_path_def)
    have "wp (keep_task ?t (enter_context E ?t)) (arrives E t d) (\<lambda>_ _. False) s"
      by (rule keep, rule wp_mono [OF enter_simple_returns(1) [OF fair live t(1,2)]])
        (use INTAKE d pre in auto)
    with t d show ?thesis by (simp add: enter_stage_def)
  next
    case CONTEXT
    with nx have d: "d = PLAN" by (simp add: next_forward_stage_def forward_path_def)
    have "wp (keep_task ?t (enter_plan E ?t)) (arrives E t d) (\<lambda>_ _. False) s"
      by (rule keep, rule wp_mono [OF enter_simple_returns(2) [OF fair live t(1,2)]])
        (use CONTEXT d pre in \<open>auto simp: insert_commute\<close>)
    with t d show ?thesis by (simp add: enter_stage_def)
  next
    case PLAN
    with nx have d: "d = PLAN_REVIEW" by (simp add: next_forward_stage_def forward_path_def)
    have "wp (keep_task ?t (enter_plan_review E ?t)) (arrives E t d) (\<lambda>_ _. False) s"
      by (rule keep, rule wp_mono [OF enter_review_returns [OF fair live t(1,2)]])
        (use PLAN d pre in auto)
    with t d show ?thesis by (simp add: enter_stage_def)
  next
    case PLAN_REVIEW
    with nx have d: "d = APPROVAL" by (simp add: next_forward_stage_def forward_path_def)
    have live': "live E False {DATASET_MANIFEST, CONFIG} [] t s" using live pre PLAN_REVIEW by simp
    have "wp (keep_task ?t (enter_approval E ?t)) (arrives E t d) (\<lambda>_ _. False) s"
      by (rule keep, rule wp_mono [OF enter_approval_returns [OF fair live' t(5)]]) (use d in auto)
    with t d show ?thesis by (simp add: enter_stage_def)
  next
    case APPROVAL
    with nx have d: "d = EXECUTE" by (simp add: next_forward_stage_def forward_path_def)
    have "enters E False t (enter_execute E ?t) s (insert CODE {DATASET_MANIFEST, CONFIG}) A ?t"
      by (rule enter_execute_returns [OF fair _ t(1,2)]) (use live APPROVAL in simp_all)
    then have "enters E False t (enter_stage E ?t d actor) s (kinds_at d) A ?t"
      using t d by (simp add: enter_stage_def insert_commute)
    with step d show ?thesis by simp
  next
    case EXECUTE
    with nx have d: "d = OBSERVE" by (simp add: next_forward_stage_def forward_path_def)
    have "wp (keep_task ?t (enter_observe E ?t)) (arrives E t d) (\<lambda>_ _. False) s"
      by (rule keep, rule wp_mono [OF enter_observe_returns [OF fair live t(1,2,3)]])
        (use EXECUTE d in \<open>auto simp: insert_commute\<close>)
    with t d show ?thesis by (simp add: enter_stage_def)
  next
    case OBSERVE
    with nx have d: "d = EVALUATE" by (simp add: next_forward_stage_def forward_path_def)
    have "enters E False t (enter_evaluate E ?t) s (insert METRIC (kinds_at OBSERVE)) A ?t"
      by (rule enter_evaluate_returns [OF fair _ t(1,2)]) (use live OBSERVE in simp_all)
    then have "enters E False t (enter_stage E ?t d actor) s (kinds_at d) A ?t"
      using t d by (simp add: enter_stage_def insert_commute)
    with step d show ?thesis by simp
  next
    case EVALUATE
    with nx have d: "d = VERIFY" by (simp add: next_forward_stage_def forward_path_def)
    have "wp (keep_task ?t (enter_verify E ?t)) (arrives E t d) (\<lambda>_ _. False) s"
      by (rule keep, rule wp_mono [OF enter_simple_returns(3) [OF fair live t(1,2)]])
        (use EVALUATE d all_kinds in auto)
    with t d show ?thesis by (simp add: enter_stage_def)
  next
    case VERIFY
    with nx have d: "d = DECIDE" by (simp add: next_forward_stage_def forward_path_def)
    have "wp (enter_decide E ?t actor) (arrives E t d) (\<lambda>_ _. False) s"
      unfolding enter_decide_def Let_def wp_then wp_return
      by (rule wp_mono [OF live_event [OF fair live]])
        (use VERIFY t gate d in \<open>auto simp: arrives_def same_task_def decided_def\<close>)
    with t d show ?thesis by (simp add: enter_stage_def)
  next
    case DECIDE
    with nx have d: "d = ARCHIVE" by (simp add: next_forward_stage_def forward_path_def)
    with t live DECIDE gate show ?thesis
      by (auto simp: enter_stage_def wp_return arrives_def decided_def)
  next
    case ARCHIVE
    with nx have d: "d = MEMORY_SKILL" by (simp add: next_forward_stage_def forward_path_def)
    have "wp (keep_task ?t (enter_memory E ?t)) (arrives E t d) (\<lambda>_ _. False) s"
      by (rule keep, rule wp_mono [OF memory_returns [OF fair live t(1,2)]])
        (use ARCHIVE d gate in \<open>auto simp: decided_def\<close>)
    with t d show ?thesis by (simp add: enter_stage_def)
  next
    case MEMORY_SKILL
    with nx have d: "d = COMPLETED" by (simp add: next_forward_stage_def forward_path_def)
    with t live MEMORY_SKILL gate show ?thesis
      by (auto simp: enter_stage_def wp_return arrives_def decided_def)
  next
    case COMPLETED
    with nx next_forward_None [of COMPLETED] show ?thesis by simp
  qed
qed


lemma transition_returns:
  assumes fair: "fair_env E" and st: "stands E granted t s" and nx: "next_forward_stage (t_stage t) = Some d"
    and token: "t_stage t = APPROVAL \<longrightarrow> token = granted \<and> granted \<noteq> None"
  shows "wp (transition_step E t d token) (\<lambda>(t', _) s'. stands E None t' s' \<and> t_stage t' = d) (\<lambda>_ _. False) s"
proof -
  let ?mem = "t_stage t \<in> {MEMORY_SKILL, COMPLETED}"
  let ?pre = "t_stage t \<in> {INTAKE, CONTEXT, PLAN, PLAN_REVIEW}"
  from st obtain A where live: "live E ?mem (kinds_at (t_stage t)) A t s" and pre: "?pre \<longrightarrow> A = []"
    and ap: "t_stage t = APPROVAL \<longrightarrow> (\<exists>a. A = [(a_id a, a)] \<and> asked E t granted a)"
    and gate: "decided (t_stage t) \<longrightarrow> gr_status (t_gate_result t) = PASS
          \<and> gr_independent_reviewer (t_gate_result t) = Some ''reviewer-agent''"
    unfolding stands_def by blast
  have v: "validate_transition (t_stage t) d = Inr d" using next_forward_moves [OF nx] by simp
  have demo: "validate_live_transition E t source target = returnE ()" for source target
    using live by (simp add: live_def validate_live_transition_def)
  have tok: "wp (if t_stage t = APPROVAL \<and> d = EXECUTE then consume_token E t token else returnE ())
     (\<lambda>_ s'. \<exists>A. live E ?mem (kinds_at (t_stage t)) A t s' \<and> (?pre \<longrightarrow> A = [])) (\<lambda>_ _. False) s"
  proof (cases "t_stage t = APPROVAL")
    case True
    with ap token obtain a x where "A = [(a_id a, a)]" "asked E t (Some x) a" "token = Some x" by auto
    with consume_returns [OF fair, of ?mem "kinds_at (t_stage t)" a t s x] live have
      "wp (consume_token E t token) (\<lambda>_ s'. \<exists>A. live E ?mem (kinds_at (t_stage t)) A t s') (\<lambda>_ _. False) s" by simp
    with True live pre show ?thesis by (auto simp: wp_return)
  qed (use live pre in \<open>auto simp: wp_return\<close>)
  have passed: "wp (if t_stage t = VERIFY \<and> d = DECIDE then gate_or_block E t else returnE t)
     (\<lambda>t1 s'. live E ?mem (kinds_at (t_stage t)) A' t s' \<and> entered t t1
        \<and> (decided d \<longrightarrow> gr_status (t_gate_result t1) = PASS
             \<and> gr_independent_reviewer (t_gate_result t1) = Some ''reviewer-agent'')) (\<lambda>_ _. False) s'"
    if l: "live E ?mem (kinds_at (t_stage t)) A' t s'" for A' s'
  proof (cases "t_stage t = VERIFY \<and> d = DECIDE")
    case True
    then have "wp (gate_or_block E t) (\<lambda>x s'. live E ?mem (kinds_at (t_stage t)) A' t s' \<and> entered t x
       \<and> gr_status (t_gate_result x) = PASS \<and> gr_independent_reviewer (t_gate_result x) = Some ''reviewer-agent'')
       (\<lambda>_ _. False) s'"
      by (intro gate_returns [OF fair l]) simp_all
    with True show ?thesis by (auto elim!: wp_mono)
  next
    case False
    with moves_decided [OF next_forward_moves [OF nx]] gate l show ?thesis by (auto simp: wp_return)
  qed
  show ?thesis
    unfolding transition_step_def Let_def wp_then wp_bind wp_lift v sum.case moved_fold demo wp_return
  proof (rule wp_mono [OF tok], goal_cases)
    case (1 u s1)
    then obtain A' where A': "live E ?mem (kinds_at (t_stage t)) A' t s1" "?pre \<longrightarrow> A' = []" by blast
    show ?case
    proof (rule wp_mono [OF passed [OF A'(1)]], goal_cases)
      case (1 t1 s2)
      show ?case
        by (rule wp_mono [OF enter_returns [OF fair _ A'(2) nx]])
          (use 1 in \<open>auto simp: wp_return_fun
            intro!: arrives_saved [OF _ fair, unfolded wp_bind wp_then wp_return_fun prod.case]\<close>)
    qed
  qed
qed


subsection \<open>The calls of the demo\<close>

lemma view_returns: "wp (task_view E full t) (\<lambda>_ s'. s' = s) (\<lambda>_ _. False) s"
  by (simp add: task_view_def latest_approval_def list_evidence_def list_memory_candidates_def list_memories_def
      wp_simps Let_def)

lemma stands_row: "stands E token t s \<Longrightarrow> get_task demo_task_id s = (Inr t, s)"
  by (auto simp: stands_def live_def get_task_def bindE_def query_def getsE_def returnE_def)

text \<open>One turn of the loop.\<close>

lemma autorun_turn:
  assumes fair: "fair_env E" and st: "stands E granted t s" and nx: "next_forward_stage (t_stage t) = Some d"
    and token: "t_stage t = APPROVAL \<longrightarrow> token = granted \<and> granted \<noteq> None \<and> granted \<noteq> Some []"
    and rest: "\<And>t' s' token' done'. stands E None t' s' \<Longrightarrow> t_stage t' = d \<Longrightarrow> (token' = token \<or> d = EXECUTE) \<Longrightarrow>
      wp (autorun_loop n E demo_task_id token' done') Q (\<lambda>_ _. False) s'"
  shows "wp (autorun_loop (Suc n) E demo_task_id token done) Q (\<lambda>_ _. False) s"
proof -
  have row: "wp (get_task demo_task_id) R X s = R t s" for R X
    using stands_row [OF st] by (simp add: wp_def)
  have ne: "t_stage t \<noteq> COMPLETED" using nx next_forward_None [of COMPLETED] by auto
  have turn: "wp (transition_step E t d token) (\<lambda>(t', _) s'. stands E None t' s' \<and> t_stage t' = d) (\<lambda>_ _. False) s"
    by (rule transition_returns [OF fair st nx]) (use token in auto)
  have g: "\<not> (t_stage t = APPROVAL \<and> (token = None \<or> token = Some []))" using token by auto
  show ?thesis
    unfolding autorun_loop.simps wp_bind row if_not_P [OF ne] if_not_P [OF g] nx option.case wp_catch
    by (rule wp_mono [OF turn]) (auto simp: wp_return_fun intro!: rest)
qed

text \<open>The run up to the approval.\<close>

lemma autorun_pauses:
  assumes fair: "fair_env E"
  shows "stands E None t s \<Longrightarrow> rank (t_stage t) \<le> n \<Longrightarrow> \<not> executed (t_stage t) \<Longrightarrow>
     wp (autorun_loop n E demo_task_id None done)
       (\<lambda>r s'. (\<exists>t'. stands E None t' s' \<and> t_stage t' = APPROVAL)
          \<and> dict_get r ''paused_reason'' = Some (JStr ''human_approval_required'')) (\<lambda>_ _. False) s"
proof (induction n arbitrary: t s "done")
  case 0
  then show ?case using rank_bounds [of "t_stage t"] by simp
next
  case (Suc n)
  show ?case
  proof (cases "t_stage t = APPROVAL")
    case True
    have "wp (get_task demo_task_id) R X s = R t s" for R X
      using stands_row [OF Suc.prems(1)] by (simp add: wp_def)
    with True Suc.prems(1) show ?thesis
      unfolding autorun_loop.simps wp_bind
      by (auto simp: wp_if wp_bind wp_return_fun autorun_result_def intro!: wp_mono [OF view_returns])
  next
    case False
    with Suc.prems(3) obtain d where d: "next_forward_stage (t_stage t) = Some d" "\<not> executed d"
      by (cases "t_stage t") (simp_all add: next_forward_stage_def forward_path_def executed_def)
    show ?thesis
      by (rule autorun_turn [OF fair Suc.prems(1) d(1)])
        (use False d rank_next [OF d(1)] Suc.prems(2) in \<open>auto intro: Suc.IH simp: executed_def\<close>)
  qed
qed

text \<open>The run from the granted approval.\<close>

lemma autorun_completes:
  assumes fair: "fair_env E"
  shows "stands E granted t s \<Longrightarrow> rank (t_stage t) \<le> n \<Longrightarrow>
     (t_stage t = APPROVAL \<longrightarrow> token = granted \<and> granted \<noteq> None \<and> granted \<noteq> Some []) \<Longrightarrow>
     t_stage t = APPROVAL \<or> executed (t_stage t) \<Longrightarrow>
     wp (autorun_loop n E demo_task_id token done)
       (\<lambda>r s'. (\<exists>t'. stands E None t' s' \<and> t_stage t' = COMPLETED)
          \<and> dict_get r ''status'' = Some (JStr ''completed'')) (\<lambda>_ _. False) s"
proof (induction n arbitrary: t s "done" token granted)
  case 0
  then show ?case using rank_bounds [of "t_stage t"] by simp
next
  case (Suc n)
  show ?case
  proof (cases "t_stage t = COMPLETED")
    case True
    have "wp (get_task demo_task_id) R X s = R t s" for R X
      using stands_row [OF Suc.prems(1)] by (simp add: wp_def)
    moreover have "stands E None t s" using True Suc.prems(1) by (simp add: stands_def)
    ultimately show ?thesis
      unfolding autorun_loop.simps wp_bind using True
      by (auto simp: wp_if wp_bind wp_return_fun autorun_result_def intro!: wp_mono [OF view_returns])
  next
    case False
    with Suc.prems(4) obtain d where d: "next_forward_stage (t_stage t) = Some d" "executed d"
      by (cases "t_stage t") (simp_all add: next_forward_stage_def forward_path_def executed_def)
    show ?thesis
      by (rule autorun_turn [OF fair Suc.prems(1) d(1) Suc.prems(3)])
        (use d rank_next [OF d(1)] Suc.prems(2) in \<open>auto intro!: Suc.IH simp: executed_def\<close>)
  qed
qed


text \<open>The session inside a transaction.\<close>

definition inside :: "session \<Rightarrow> session" where
  "inside s = (if 0 < depth s then s\<lparr>depth := depth s + 1\<rparr> else s\<lparr>depth := 1, rollback_only := False\<rparr>)"

lemma transaction_returns:
  assumes "wp body (\<lambda>a s'. \<not> rollback_only s' \<and> Q a (s'\<lparr>depth := depth s\<rparr>)) (\<lambda>_ _. False) (inside s)"
  shows "wp (transaction body) (\<lambda>a s'. depth s' = depth s \<and> Q a s') (\<lambda>_ _. False) s"
  using assms by (auto simp: wp_def transaction_def inside_def split: prod.splits sum.splits if_splits)

lemma stands_depth [simp]:
  "stands E token t (s\<lparr>depth := n\<rparr>) = stands E token t s" for s :: session
  by (simp add: stands_def live_def fresh_def)

lemma stands_inside: "stands E token t s \<Longrightarrow> stands E token t (inside s)"
  by (simp add: inside_def stands_def live_def fresh_def)

lemma stands_clean: "stands E token t s \<Longrightarrow> \<not> rollback_only s"
  by (auto simp: stands_def live_def fresh_def)

definition started :: "api_env \<Rightarrow> session \<Rightarrow> bool" where
  "started E s \<longleftrightarrow> (\<exists>t. live E False {} [] t s \<and> t_stage t = INTAKE)"

lemma started_fresh:
  "t_id t = demo_task_id \<Longrightarrow> t_synthetic_demo t \<Longrightarrow> t_scenario t = Happy_Path \<Longrightarrow> t_stage t = INTAKE \<Longrightarrow>
     started E \<lparr>db = empty_db\<lparr>tasks := dict_set demo_task_id t (tasks empty_db)\<rparr>, depth = n, rollback_only = False,
       ticks = k, draws = m\<rparr>"
  unfolding started_def by (intro exI [of _ t]) (simp add: live_def fresh_def empty_db_def evidence_of_def)

lemma started_event:
  "fair_env E \<Longrightarrow> started E s \<Longrightarrow>
     wp (append_audit_event E tid gen et actor st p) (\<lambda>_. started E) (\<lambda>_ _. False) s"
  unfolding started_def by (auto intro: wp_mono [OF live_event])

lemma reset_returns:
  assumes fair: "fair_env E" and empty: "db s = empty_db" "\<not> rollback_only s"
  shows "wp (reset_demo E Happy_Path) (\<lambda>_ s'. depth s' = depth s \<and> (\<exists>t. stands E None t s' \<and> t_stage t = INTAKE))
    (\<lambda>_ _. False) s"
  unfolding reset_demo_def new_generation_def
proof (rule transaction_returns, goal_cases)
  case 1
  have view: "wp (bindE (task_view E True t) (\<lambda>v. returnE (f v)))
      (\<lambda>_ s'. \<not> rollback_only s' \<and> (\<exists>t. stands E None t s' \<and> t_stage t = INTAKE)) (\<lambda>_ _. False) s"
    if "started E s" for s t and f :: "json \<Rightarrow> (string \<times> json) list"
    using that unfolding wp_bind wp_return_fun
    by (intro wp_mono [OF view_returns]) (auto simp: started_def stands_def live_def fresh_def decided_def)
  have "db (inside s) = empty_db" "\<not> rollback_only (inside s)" using empty by (simp_all add: inside_def)
  then obtain n k m where "inside s = \<lparr>db = empty_db, depth = n, rollback_only = False, ticks = k, draws = m\<rparr>"
    by (cases "inside s") simp
  then show ?case
    by (simp add: wp_bind wp_then wp_clock wp_return_fun wp_update_db Let_def upsert_seed_task_def)
      (rule wp_mono [OF started_event [OF fair started_fresh]],
       simp_all add: wp_then [abs_def] wp_mono [OF started_event [OF fair]] view)
qed

lemma decide_returns:
  assumes fair: "fair_env E" and st: "stands E None t s" and stage: "t_stage t = APPROVAL"
  shows "\<exists>a. dict_get (approvals (db s)) (a_id a) = Some a
    \<and> wp (decide_approval_op E (a_id a) ''approved'' approver (a_action_digest a))
        (\<lambda>r s'. depth s' = depth s \<and> (\<exists>token. dict_get r ''approval_token'' = Some (JStr token) \<and> token \<noteq> []
           \<and> stands E (Some token) t s')) (\<lambda>_ _. False) s"
proof -
  let ?in = "inside s"
  from stands_inside [OF st] stage obtain a where
    live: "live E False {DATASET_MANIFEST, CONFIG} [(a_id a, a)] t ?in" and asked: "asked E t None a"
    by (auto simp: stands_def)
  define token where "token = ''egoap_'' @ a_id a @ ''_'' @ token_urlsafe E (draws ?in)"
  define b where "b = a\<lparr>a_approver := Some approver, a_decided_at := Some (clock E (ticks ?in)), a_status := APPROVED,
    a_token_hash := Some (text_sha256 (crypto.truncate E) token)\<rparr>"
  have dec: "decide_approval E a ''approved'' approver (a_action_digest a) (clock E (ticks ?in)) (token_urlsafe E (draws ?in))
      = Inr (b, Some token)"
    using asked fair by (simp add: decide_approval_def asked_def not_le [symmetric] fair_env_def b_def token_def)
  have b: "a_id b = a_id a" "a_task_id a = t_id t" "a_generation a = t_generation t"
    using asked by (simp_all add: b_def asked_def scope_matches_def)
  have ne: "token \<noteq> []" by (simp add: token_def)
  have granted: "asked E t (Some token) b"
    using asked ne by (auto simp: asked_def b_def scope_matches_def)
  have row: "dict_get (tasks (db ?in)) (t_id t) = Some t" "t_id t = demo_task_id" "approvals (db ?in) = [(a_id a, a)]"
    using live by (simp_all add: live_def)
  let ?out = "?in\<lparr>ticks := Suc (ticks ?in), draws := Suc (draws ?in),
    db := db ?in\<lparr>approvals := dict_set (a_id b) b (approvals (db ?in))\<rparr>\<rparr>"
  have fr: "fresh E ?in" using live by (simp add: live_def)
  have "fresh E ?out"
    using fresh_mono [OF fr, of "?in\<lparr>ticks := Suc (ticks ?in), draws := Suc (draws ?in)\<rparr>"] by (simp add: fresh_def)
  moreover have tab: "dict_set (a_id b) b (approvals (db ?in)) = [(a_id b, b)]" using row b by simp
  ultimately have live': "live E False {DATASET_MANIFEST, CONFIG} [(a_id b, b)] t ?out"
    unfolding tab using live by (simp add: live_def evidence_of_def)
  have event: "wp (append_audit_event E tid gen et actor sg p) (\<lambda>_ s'. \<not> rollback_only s' \<and> stands E (Some token) t s')
      (\<lambda>_ _. False) ?out" for tid gen et actor sg p
    by (rule wp_mono [OF live_event [OF fair live']])
      (use granted stage in \<open>auto simp: stands_def decided_def live_def [of E False _ _ t] fresh_def\<close>)
  have "wp (decide_approval_op E (a_id a) ''approved'' approver (a_action_digest a))
        (\<lambda>r s'. depth s' = depth s \<and> (\<exists>token. dict_get r ''approval_token'' = Some (JStr token) \<and> token \<noteq> []
           \<and> stands E (Some token) t s')) (\<lambda>_ _. False) s"
    unfolding decide_approval_op_def
    by (rule transaction_returns)
      (use row b ne event in \<open>simp add: get_approval_def get_task_def save_approval_def token_hash_taken_def dec opt_json_def
        wp_bind wp_then wp_clock wp_query wp_if wp_case_option wp_return wp_return_fun wp_update_db wp_raise\<close>)
  moreover have "dict_get (approvals (db s)) (a_id a) = Some a" using row by (simp add: inside_def split: if_splits)
  ultimately show ?thesis by blast
qed

lemma autorun_call:
  assumes st: "stands E granted t s"
    and loop: "wp (autorun_loop 20 E demo_task_id token []) (\<lambda>r s'. (\<exists>t'. stands E None t' s' \<and> R t') \<and> P r)
      (\<lambda>_ _. False) (inside s)"
  shows "wp (autorun E demo_task_id token) (\<lambda>r s'. depth s' = depth s \<and> (\<exists>t'. stands E None t' s' \<and> R t') \<and> P r) (\<lambda>_ _. False) s"
proof -
  have row: "wp (get_task demo_task_id) Q X (inside s) = Q t (inside s)" for Q X
    using stands_row [OF stands_inside [OF st]] by (simp add: wp_def)
  have demo: "t_synthetic_demo t" using st by (auto simp: stands_def live_def)
  show ?thesis
    unfolding autorun_def
    by (rule transaction_returns [where Q = "\<lambda>r s'. (\<exists>t'. stands E None t' s' \<and> R t') \<and> P r"],
        simp add: wp_bind row demo wp_if, rule wp_mono [OF loop]) (auto dest: stands_clean)
qed

lemma wp_returns: "wp m Q (\<lambda>_ _. False) s \<Longrightarrow> \<exists>a s'. m s = (Inr a, s') \<and> Q a s'"
  by (auto simp: wp_def split: prod.splits sum.splits)

lemma service_direct: "service_reachable E s \<Longrightarrow> run_call E c s = (r, s') \<Longrightarrow> service_reachable E s'"
  using direct [of E s c] by (auto simp: service_reachable_def)

lemma demo_trace:
  assumes fair: "fair_env E"
  obtains r1 s1 r2 s2 t2 a r3 s3 token r4 s4 t4 where
    "run_call E (Reset Happy_Path) fresh_session = (Inr r1, s1)"
    "run_call E (Autorun demo_task_id None) s1 = (Inr r2, s2)"
    "dict_get r2 ''paused_reason'' = Some (JStr ''human_approval_required'')"
    "stands E None t2 s2" "t_stage t2 = APPROVAL" "dict_get (approvals (db s2)) (a_id a) = Some a"
    "run_call E (Decide (a_id a) ''approved'' approver (a_action_digest a)) s2 = (Inr r3, s3)"
    "dict_get r3 ''approval_token'' = Some (JStr token)"
    "run_call E (Autorun demo_task_id (Some token)) s3 = (Inr r4, s4)"
    "dict_get r4 ''status'' = Some (JStr ''completed'')" "stands E None t4 s4" "t_stage t4 = COMPLETED"
proof -
  from wp_returns [OF reset_returns [OF fair, of fresh_session]] obtain r1 s1 t1 where
    1: "reset_demo E Happy_Path fresh_session = (Inr r1, s1)" "stands E None t1 s1" "t_stage t1 = INTAKE"
    by (auto simp: fresh_session_def)
  have r20: "rank st \<le> 20" for st using rank_bounds [of st] by simp
  have "wp (autorun E demo_task_id None) (\<lambda>r s'. depth s' = depth s1 \<and> (\<exists>t'. stands E None t' s' \<and> t_stage t' = APPROVAL)
      \<and> dict_get r ''paused_reason'' = Some (JStr ''human_approval_required'')) (\<lambda>_ _. False) s1"
    by (rule autorun_call [OF 1(2)], rule autorun_pauses [OF fair stands_inside [OF 1(2)] r20])
      (use 1(3) in \<open>simp add: executed_def\<close>)
  from wp_returns [OF this] obtain r2 s2 t2 where
    2: "autorun E demo_task_id None s1 = (Inr r2, s2)" "stands E None t2 s2" "t_stage t2 = APPROVAL"
      "dict_get r2 ''paused_reason'' = Some (JStr ''human_approval_required'')" by blast
  from decide_returns [OF fair 2(2,3), of approver] obtain a where
    a: "dict_get (approvals (db s2)) (a_id a) = Some a"
      "wp (decide_approval_op E (a_id a) ''approved'' approver (a_action_digest a))
        (\<lambda>r s'. depth s' = depth s2 \<and> (\<exists>token. dict_get r ''approval_token'' = Some (JStr token) \<and> token \<noteq> []
           \<and> stands E (Some token) t2 s')) (\<lambda>_ _. False) s2" by blast
  from wp_returns [OF a(2)] obtain r3 s3 token where
    3: "decide_approval_op E (a_id a) ''approved'' approver (a_action_digest a) s2 = (Inr r3, s3)"
      "dict_get r3 ''approval_token'' = Some (JStr token)" "token \<noteq> []" "stands E (Some token) t2 s3" by blast
  have "wp (autorun E demo_task_id (Some token)) (\<lambda>r s'. depth s' = depth s3 \<and> (\<exists>t'. stands E None t' s' \<and> t_stage t' = COMPLETED)
      \<and> dict_get r ''status'' = Some (JStr ''completed'')) (\<lambda>_ _. False) s3"
    by (rule autorun_call [OF 3(4)], rule autorun_completes [OF fair stands_inside [OF 3(4)] r20])
      (use 2(3) 3(3) in auto)
  from wp_returns [OF this] obtain r4 s4 t4 where
    4: "autorun E demo_task_id (Some token) s3 = (Inr r4, s4)" "stands E None t4 s4" "t_stage t4 = COMPLETED"
      "dict_get r4 ''status'' = Some (JStr ''completed'')" by blast
  show ?thesis
    by (rule that [of r1 s1 r2 s2 t2 a r3 s3 token r4 s4 t4]) (use 1 2 a 3 4 in simp_all)
qed

lemma demo_run:
  assumes fair: "fair_env E"
  shows "\<exists>r1 s1 r2 s2 a r3 s3 token r4 s4 t.
      run_call E (Reset Happy_Path) fresh_session = (Inr r1, s1)
    \<and> run_call E (Autorun demo_task_id None) s1 = (Inr r2, s2)
    \<and> dict_get r2 ''paused_reason'' = Some (JStr ''human_approval_required'')
    \<and> dict_get (approvals (db s2)) (a_id a) = Some a
    \<and> run_call E (Decide (a_id a) ''approved'' approver (a_action_digest a)) s2 = (Inr r3, s3)
    \<and> dict_get r3 ''approval_token'' = Some (JStr token)
    \<and> run_call E (Autorun demo_task_id (Some token)) s3 = (Inr r4, s4)
    \<and> dict_get r4 ''status'' = Some (JStr ''completed'')
    \<and> service_reachable E s4 \<and> dict_get (tasks (db s4)) demo_task_id = Some t \<and> t_stage t = COMPLETED
    \<and> memories (db s4) \<noteq> []"
proof (rule demo_trace [OF fair, of approver], goal_cases)
  case (1 r1 s1 r2 s2 t2 a r3 s3 token r4 s4 t4)
  have "service_reachable E fresh_session" by (simp add: service_reachable_def)
  from service_direct [OF service_direct [OF service_direct [OF service_direct [OF this 1(1)] 1(2)] 1(7)] 1(9)]
  have "service_reachable E s4" .
  moreover have "dict_get (tasks (db s4)) demo_task_id = Some t4" "memories (db s4) \<noteq> []"
    using 1(11,12) by (auto simp: stands_def live_def)
  ultimately show ?case using 1 by blast
qed

subsection \<open>An environment\<close>

text \<open>
  A fair environment: identifiers are numerals, the clock stands still, and the hash of an event is
  the identifier it carries, read back from its canonical bytes.
\<close>

fun skip_fields :: "nat list \<Rightarrow> string \<Rightarrow> string" where
  "skip_fields [] s = []"
| "skip_fields [n] s = (case read_string (length s) (drop n s) of None \<Rightarrow> [] | Some (x, r) \<Rightarrow> x)"
| "skip_fields (n # ns) s = (case read_string (length s) (drop n s) of None \<Rightarrow> [] | Some (x, r) \<Rightarrow> skip_fields ns r)"

definition trial_env :: api_env where
  "trial_env = \<lparr>sha256 = (\<lambda>s. CHR ''h'' # skip_fields [10, 15, 15, 15, 7] s), hmac256 = (\<lambda>k m. m),
     repr_float = (\<lambda>r. ''0.0''), read_float = (\<lambda>s. None), iso_time = dec_int, dump_time = dec_int,
     clock = (\<lambda>n. 0), uuid_hex = dec, token_urlsafe = dec, fl = (\<lambda>r. r), round6 = (\<lambda>r. r),
     randrange = (\<lambda>seed k n. k mod n), hmac_secret = None, gpu_config_bytes = ''config''\<rparr>"

lemma dec_eq: "dec m = dec n \<longleftrightarrow> m = n"
  by (metis nat_of_dec)

lemma skip_quoted:
  assumes "n = Suc (length pre)"
  shows "skip_fields [n] (pre @ quote_str x @ r) = x"
    "skip_fields (n # m # ns) (pre @ quote_str x @ r) = skip_fields (m # ns) r"
proof -
  have "drop n (pre @ quote_str x @ r) = concat (map escape_char x) @ char_of (34 :: nat) # r"
    using assms by (simp add: quote_str_def)
  moreover have "length x < length (pre @ quote_str x @ r)"
    using escape_length [of x] by (simp add: quote_str_def)
  ultimately have "read_string (length (pre @ quote_str x @ r)) (drop n (pre @ quote_str x @ r)) = Some (x, r)"
    by (simp only: read_string_quote)
  then show "skip_fields [n] (pre @ quote_str x @ r) = x"
    "skip_fields (n # m # ns) (pre @ quote_str x @ r) = skip_fields (m # ns) r"
    by (simp_all del: drop_append length_append append_assoc)
qed

lemma event_bytes:
  "\<exists>r. canonical_bytes C (hash_payload E v) = (''{'' @ quote_str ''actor'' @ '':'') @ quote_str (v_actor v)
     @ ('','' @ quote_str ''created_at'' @ '':'') @ quote_str (iso_time E (v_created_at v))
     @ ('','' @ quote_str ''event_type'' @ '':'') @ quote_str (v_event_type v)
     @ ('','' @ quote_str ''generation'' @ '':'') @ quote_str (v_generation v)
     @ ('','' @ quote_str ''id'' @ '':'') @ quote_str (v_id v) @ r"
proof -
  have "sort_key fst (map (map_prod id (canonical_bytes C)) (case hash_payload E v of JObj kvs \<Rightarrow> kvs)) =
    [(''actor'', quote_str (v_actor v)), (''created_at'', quote_str (iso_time E (v_created_at v))),
     (''event_type'', quote_str (v_event_type v)), (''generation'', quote_str (v_generation v)),
     (''id'', quote_str (v_id v)), (''payload'', canonical_bytes C (JObj (v_payload v))),
     (''previous_hash'', quote_str (v_previous_hash v)),
     (''stage'', canonical_bytes C (opt_json (JStr \<circ> stage_value) (v_stage v))),
     (''task_id'', quote_str (v_task_id v))]"
    by (simp add: hash_payload_def)
  then show ?thesis
    by (simp add: hash_payload_def field_str_def)
qed

lemma trial_digest: "audit_event_digest trial_env v = CHR ''h'' # v_id v"
proof -
  obtain r where r: "canonical_bytes (crypto.truncate trial_env) (hash_payload trial_env v) = (''{'' @ quote_str ''actor'' @ '':'') @ quote_str (v_actor v)
     @ ('','' @ quote_str ''created_at'' @ '':'') @ quote_str (iso_time trial_env (v_created_at v))
     @ ('','' @ quote_str ''event_type'' @ '':'') @ quote_str (v_event_type v)
     @ ('','' @ quote_str ''generation'' @ '':'') @ quote_str (v_generation v)
     @ ('','' @ quote_str ''id'' @ '':'') @ quote_str (v_id v) @ r"
    using event_bytes by blast
  have len: "10 = Suc (length (''{'' @ quote_str ''actor'' @ '':''))"
    "15 = Suc (length ('','' @ quote_str ''created_at'' @ '':''))"
    "15 = Suc (length ('','' @ quote_str ''event_type'' @ '':''))"
    "15 = Suc (length ('','' @ quote_str ''generation'' @ '':''))"
    "7 = Suc (length ('','' @ quote_str ''id'' @ '':''))"
    by (simp_all add: quote_str_def escape_char_def)
  show ?thesis
    unfolding audit_event_digest_def plain_sha256_def r
    using skip_quoted [OF len(1)] skip_quoted [OF len(2)] skip_quoted [OF len(3)] skip_quoted [OF len(4)] skip_quoted [OF len(5)]
    by (simp only: trial_env_def crypto.truncate_def crypto.simps)
qed

lemma trial_fair: "fair_env trial_env"
  by (auto simp: fair_env_def trial_digest inj_def) (auto simp: trial_env_def dec_eq micros_def)

end
