(* ===== verification/ServiceAudit.thy ===== *)
theory ServiceAudit
  imports Changes Interfaces
begin

text \<open>
  The audit log of the service. Two invariants in the sense of \<open>change_invariant\<close>: the log is
  numbered and every task's stream is a hash chain, and no ledger ever loses or rewrites a row.
  The verification that the API offers is compared with the chain it is meant to check.
\<close>

subsection \<open>The chain\<close>

lemma event_without_hash:
  "v\<lparr>v_event_hash := []\<rparr> = w\<lparr>v_event_hash := []\<rparr> \<Longrightarrow> v_event_hash v = v_event_hash w \<Longrightarrow> v = (w :: audit_event)"
  by (cases v; cases w) simp

interpretation audit: hash_chain v_previous_hash v_event_hash "\<lambda>v. v\<lparr>v_event_hash := []\<rparr>"
    "audit_event_digest E" for E
  by unfold_locales (rule event_without_hash)

lemma digest_previous [simp]:
  "v_previous_hash v = p \<Longrightarrow> v\<lparr>v_previous_hash := p\<rparr> = v" for v :: audit_event
  by (cases v) simp

lemma verify_from_chain: "verify_from E p vs \<longleftrightarrow> audit.chain E p vs"
  by (induction vs arbitrary: p) auto

definition audit_ok :: "api_env \<Rightarrow> control_db \<Rightarrow> bool" where
  "audit_ok E d \<longleftrightarrow> (\<forall>i < length (events d). v_sequence (events d ! i) = int i + 1)
     \<and> distinct (map v_id (events d)) \<and> distinct (map v_event_hash (events d))
     \<and> (\<forall>tid gen. audit.chain E zero_digest (stream d tid gen))"

lemma stream_add:
  "stream (d\<lparr>events := events d @ [v]\<rparr>) tid gen =
     stream d tid gen @ (if v_task_id v = tid \<and> v_generation v = gen then [v] else [])"
  by (simp add: stream_def)

lemma stream_head_chain: "stream_head d tid gen = audit.head zero_digest (stream d tid gen)"
  by (simp add: stream_head_def audit.head_def Let_def)

lemma audit_ok_add:
  assumes ok: "audit_ok E d" and fits: "event_fits E d v"
  shows "audit_ok E (d\<lparr>events := events d @ [v]\<rparr>)"
proof -
  have num: "v_sequence v = int (length (events d)) + 1"
    using ok fits by (cases "events d" rule: rev_cases)
      (auto simp: audit_ok_def event_fits_def next_sequence_def nth_append)
  have "audit.chain E zero_digest (stream (d\<lparr>events := events d @ [v]\<rparr>) tid gen)" for tid gen
    using ok fits
    by (auto simp: stream_add audit.chain_snoc audit_ok_def event_fits_def stream_head_chain)
  then show ?thesis
    using ok fits num by (auto simp: audit_ok_def event_fits_def nth_append less_Suc_eq)
qed

interpretation audit_log: change_invariant E "audit_ok E" for E
proof
  fix d c
  assume "audit_ok E d" and "change_ok E c d"
  then show "audit_ok E (apply_change c d)"
    by (cases c) (auto simp: audit_ok_add, auto simp: audit_ok_def stream_def)
qed

subsection \<open>Ledgers only grow\<close>

definition grows :: "control_db \<Rightarrow> control_db \<Rightarrow> bool" where
  "grows d d' \<longleftrightarrow> (\<exists>vs. events d' = events d @ vs) \<and> (\<exists>rs. evidence d' = evidence d @ rs)
     \<and> (\<exists>cs. candidates d' = candidates d @ cs) \<and> (\<exists>ms. memories d' = memories d @ ms)
     \<and> (\<exists>qs. closures d' = closures d @ qs)
     \<and> (\<forall>k x. dict_get (idempotency d) k = Some x \<longrightarrow> dict_get (idempotency d') k = Some x)
     \<and> set (keys (tasks d)) \<subseteq> set (keys (tasks d')) \<and> set (keys (approvals d)) \<subseteq> set (keys (approvals d'))"

lemma grows_refl [simp]: "grows d d"
  by (simp add: grows_def)

interpretation ledgers: change_invariant E "grows d0" for E d0
proof
  fix d c
  assume g: "grows d0 d" and ok: "change_ok E c d"
  have key: "dict_get (idempotency d @ [(k, x)]) k' = Some y"
    if "dict_get (idempotency d) k' = Some y" for k k' x y
    using that by (simp add: map_add_Some_iff)
  from g ok show "grows d0 (apply_change c d)"
    by (cases c) (auto simp: grows_def key set_keys_dict_set simp del: set_map)
qed

lemma audit_numbered: "audit_ok E d \<Longrightarrow> v \<in> set (events d) \<Longrightarrow> 0 < v_sequence v"
  by (auto simp: audit_ok_def in_set_conv_nth)

lemma audit_stream_positive: "audit_ok E d \<Longrightarrow> filter (\<lambda>v. 0 < v_sequence v) (stream d tid gen) = stream d tid gen"
  by (auto simp: stream_def intro!: filter_cong dest: audit_numbered)

lemma chain_take: "audit.chain E p vs \<Longrightarrow> audit.chain E p (take n vs)"
proof (induction vs arbitrary: p n)
  case (Cons v vs)
  then show ?case by (cases n) auto
qed simp

end
