(* ===== verification/ServiceProps.thy ===== *)
theory ServiceProps
  imports ServiceRun ServiceAudit
begin

text \<open>
  What the control plane guarantees in every state that its calls can reach: approvals, evidence,
  memories; what a call that raises leaves behind; what an idempotent request promises.
\<close>

subsection \<open>Approvals\<close>

text \<open>C14. A task is in \<open>EXECUTE\<close> or any later stage only if a human approval of exactly its action
  contract was consumed, unexpired: there is a stored approval of the same task and generation, with the
  scope, the action and the action digest of the contract as it stands, that an approver granted before it
  expired and that was used. The transition reads the clock twice, once to check the token
  (\<open>validate_approval_token\<close>) and next for the time of use (\<open>consume_approval\<close>): the approval had not expired
  at the reading right before the recorded time of use.\<close>

theorem execution_is_approved:
  assumes "service_reachable E s" and "dict_get (tasks (db s)) tid = Some t"
    and "t_stage t \<in> {EXECUTE, OBSERVE, EVALUATE, VERIFY, DECIDE, ARCHIVE, MEMORY_SKILL, COMPLETED}"
  shows "\<exists>k a. contract_of E t = Inr k \<and> dict_get (approvals (db s)) (a_id a) = Some a
    \<and> a_task_id a = tid \<and> a_generation a = t_generation t \<and> a_status a = CONSUMED
    \<and> a_scope a = k_scope k \<and> a_action a = k_action k \<and> a_action_digest a = k_digest k
    \<and> (\<exists>approver decided_at n. a_approver a = Some approver \<and> a_decided_at a = Some decided_at
         \<and> decided_at < a_expires_at a
         \<and> a_used_at a = Some (clock E (Suc n)) \<and> clock E n < a_expires_at a)
    \<and> (a_risk_level a = R3 \<longrightarrow> a_rollback_point a \<noteq> None)"
proof -
  have core: "core_inv E (db s)" using reachable_settled [OF assms(1)] by (simp add: settled_def)
  from core_taskD [OF core assms(2)] assms(3) have "t_id t = tid" "paid E (db s) t"
    by (auto simp: task_inv_def executed_def)
  then obtain k a where ka: "contract_of E t = Inr k" "dict_get (approvals (db s)) (a_id a) = Some a"
    "a_task_id a = tid" "a_generation a = t_generation t" "a_status a = CONSUMED"
    "a_scope a = k_scope k" "a_action a = k_action k" "a_action_digest a = k_digest k"
    by (auto simp: paid_def)
  moreover from core_approvalD [OF core ka(2)] have "approval_inv E a" by simp
  ultimately show ?thesis by (auto simp: approval_inv_def split: option.splits)
qed

text \<open>An approval pays for one entry into execution and no entry is free: for every task and
  generation, the audit log records as many transitions into \<open>EXECUTE\<close> as there are consumed
  approvals of that generation.\<close>

theorem entries_match_approvals:
  assumes "service_reachable E s"
  shows "length (filter (\<lambda>v. v_event_type v = ''state.transitioned'' \<and> v_stage v = Some EXECUTE) (stream (db s) tid gen))
    = length (filter (\<lambda>a. a_status a = CONSUMED) (approvals_of (db s) tid gen))"
proof -
  have "credit (db s) tid gen = 0" using reachable_settled [OF assms] by (simp add: settled_def)
  then show ?thesis by (simp add: credit_def consumed_def entries_def entry_def [abs_def])
qed

text \<open>C15. Every stored approval is in a consistent state: it is decided exactly when it names an
  approver, used exactly when it is consumed, carries a token hash exactly when it was granted, was
  decided before it expired, and names a rollback point when its risk is \<open>R3\<close>. In particular no
  approval is ever stored as expired: \<open>decide_approval\<close> saves an expired approval and raises inside the
  same transaction, which rolls the change back.\<close>

theorem approvals_consistent:
  assumes "service_reachable E s" and "dict_get (approvals (db s)) aid = Some a"
  shows "a_id a = aid \<and> a_status a \<noteq> EXPIRED
    \<and> (a_status a = PENDING \<longleftrightarrow> a_decided_at a = None) \<and> (a_decided_at a = None \<longleftrightarrow> a_approver a = None)
    \<and> (a_status a = CONSUMED \<longleftrightarrow> a_used_at a \<noteq> None)
    \<and> (a_status a \<in> {APPROVED, CONSUMED} \<longleftrightarrow> a_token_hash a \<noteq> None)
    \<and> (\<forall>x. a_decided_at a = Some x \<longrightarrow> x < a_expires_at a)
    \<and> (a_risk_level a = R3 \<longrightarrow> a_rollback_point a \<noteq> None)"
proof -
  have core: "core_inv E (db s)" using reachable_settled [OF assms(1)] by (simp add: settled_def)
  from core_approvalD [OF core assms(2)] show ?thesis by (auto simp: approval_inv_def)
qed

subsection \<open>Evidence and memory\<close>

text \<open>C16. A task is decided only on complete evidence: in \<open>DECIDE\<close> and later its gate result is a pass,
  its stored evidence has every required kind, every artifact digest matches its payload, a metric is
  deterministic and refers to raw values, and a passing review comes from a reviewer who produced none of
  the other evidence and covered every producer; the decision is the one that the evaluation implies.\<close>

theorem decision_is_proven:
  assumes "service_reachable E s" and "dict_get (tasks (db s)) tid = Some t"
    and "t_stage t \<in> {DECIDE, ARCHIVE, MEMORY_SKILL, COMPLETED}"
  shows "gr_status (t_gate_result t) = PASS
    \<and> (\<exists>reviewer. gr_independent_reviewer (t_gate_result t) = Some reviewer
         \<and> complete_evidence E (evidence_of E (db s) tid (t_generation t)) reviewer)
    \<and> t_decision t = Some (decision_of (t_latest_evaluation t))"
proof -
  have core: "core_inv E (db s)" using reachable_settled [OF assms(1)] by (simp add: settled_def)
  from core_taskD [OF core assms(2)] assms(3) show ?thesis
    by (auto simp: task_inv_def proven_def decided_def)
qed

text \<open>Every memory in the store was promoted from a stored candidate with the same statement,
  evidence digest and review, and its review identifier names the producer of a stored review of the same
  task and generation: no memory enters without one.\<close>

theorem memories_reviewed:
  assumes "service_reachable E s" and "m \<in> set (memories (db s))"
  shows "mr_validated m \<and> mr_review_id m \<noteq> []
    \<and> (\<exists>c \<in> set (candidates (db s)). mr_candidate_id m = Some (mc_id c) \<and> mc_task_id c = mr_task_id m
         \<and> mc_generation c = mr_generation m \<and> mc_statement c = mr_statement m
         \<and> mc_evidence_digest c = mr_evidence_digest m \<and> mc_review_id c = mr_review_id m)
    \<and> (\<exists>r \<in> set (evidence (db s)). e_task_id r = mr_task_id m \<and> e_generation r = mr_generation m
         \<and> e_kind r = REVIEW \<and> e_producer_id r = mr_review_id m)"
proof -
  have core: "core_inv E (db s)" using reachable_settled [OF assms(1)] by (simp add: settled_def)
  from core_memoryD [OF core assms(2)] show ?thesis by (simp add: memory_inv_def)
qed


subsection \<open>Errors\<close>

lemma transaction_raises: "depth s = 0 \<Longrightarrow> transaction m s = (Inl e, s') \<Longrightarrow> db s' = db s"
  by (auto simp: transaction_def split: prod.splits sum.splits if_splits)

lemma transaction_then_lift_raises:
  assumes "depth s = 0" and "bindE (transaction m) (\<lambda>r. liftE (g r)) s = (Inl e, s')"
  shows "db s' = db s \<or> (\<exists>r. transaction m s = (Inr r, s') \<and> g r = Inl e)"
  using assms transaction_raises [of s m]
  by (auto simp: bindE_def liftE_def split: prod.splits sum.splits)

lemma transaction_result:
  assumes "transaction m s = (Inr a, s')"
  shows "\<exists>s0 s1. db s0 = db s \<and> m s0 = (Inr a, s1) \<and> db s' = db s1"
proof -
  let ?in = "if 0 < depth s then s\<lparr>depth := depth s + 1\<rparr> else s\<lparr>depth := 1, rollback_only := False\<rparr>"
  from assms obtain s1 where "m ?in = (Inr a, s1)" "db s' = db s1"
    by (auto simp: transaction_def split: prod.splits sum.splits if_splits)
  moreover have "db ?in = db s" by simp
  ultimately show ?thesis by blast
qed

lemma lift_outcome: "(case r of Inl e \<Rightarrow> raiseE e | Inr x \<Rightarrow> returnE x) = liftE r"
  by (cases r) (simp_all add: raiseE_def returnE_def liftE_def)

lemma enter_stage_errors:
  "wp (enter_stage E t target actor) (\<lambda>_ _. True) (\<lambda>e _. e \<noteq> gate_failed) s"
proof -
  note ev = wp_mono [OF event_errors] wp_mono [OF record_evidence_errors]
  have contract: "contract_of E t \<noteq> Inl gate_failed" for t
    by (simp add: contract_of_def gate_failed_def split: option.split)
  have build: "build_approval aid tid gen risk scope action digest config payload rollback now ttl \<noteq> Inl gate_failed"
    for aid tid gen risk scope action digest config payload rollback now ttl
    by (simp add: build_approval_def gate_failed_def)
  have approval: "wp (enter_approval E t) (\<lambda>_ _. True) (\<lambda>e _. e \<noteq> gate_failed) s" for t s
    unfolding enter_approval_def add_approval_def wp_bind wp_lift wp_clock wp_then wp_query wp_if wp_raise
      wp_update_db wp_return
    using contract [of t] build by (auto simp: gate_failed_def intro!: ev split: sum.split)
  have demo: "wp (enter_context E t) (\<lambda>_ _. True) (\<lambda>e _. e \<noteq> gate_failed) s"
    "wp (enter_plan E t) (\<lambda>_ _. True) (\<lambda>e _. e \<noteq> gate_failed) s"
    "wp (enter_plan_review E t) (\<lambda>_ _. True) (\<lambda>e _. e \<noteq> gate_failed) s"
    "wp (enter_observe E t) (\<lambda>_ _. True) (\<lambda>e _. e \<noteq> gate_failed) s"
    "wp (enter_verify E t) (\<lambda>_ _. True) (\<lambda>e _. e \<noteq> gate_failed) s"
    "wp (enter_decide E t actor) (\<lambda>_ _. True) (\<lambda>e _. e \<noteq> gate_failed) s" for t s
    unfolding enter_context_def enter_plan_def enter_plan_review_def enter_observe_def enter_verify_def
      enter_decide_def list_evidence_def wp_bind wp_then wp_query Let_def wp_if wp_raise wp_return
    by (auto simp: wp_return_fun wp_then wp_if gate_failed_def [symmetric] intro!: ev)
      (simp_all add: gate_failed_def)
  have "demo_evaluation E name dir th \<noteq> Inl gate_failed" for name dir th
    by (auto simp: demo_evaluation_def evaluate_paired_metric_def paired_bootstrap_delta_def validate_samples_def
        percentile_def gate_failed_def Let_def split: option.splits sum.splits if_splits prod.splits)
  then have evaluate: "wp (enter_evaluate E t) (\<lambda>_ _. True) (\<lambda>e _. e \<noteq> gate_failed) s" for t s
    unfolding enter_evaluate_def wp_bind wp_lift wp_then wp_return
    by (auto intro!: ev split: sum.split)
  have execute: "wp (enter_execute E t) (\<lambda>_ _. True) (\<lambda>e _. e \<noteq> gate_failed) s" for t s
    by (rule wp_mono [OF enter_execute_result]) simp_all
  have keep: "wp (keep_task t m) (\<lambda>_ _. True) (\<lambda>e _. e \<noteq> gate_failed) s"
    if "\<And>s. wp m (\<lambda>_ _. True) (\<lambda>e _. e \<noteq> gate_failed) s" for t m s
    unfolding keep_task_def wp_then wp_return by (rule wp_mono [OF that]) simp_all
  show ?thesis
    unfolding enter_stage_def wp_if wp_return
    by (simp add: keep approval demo evaluate execute enter_memory_errors)
qed

text \<open>What a failed gate commits: the gate result in the row of the task, and its event.\<close>

definition blocked :: "task_record \<Rightarrow> control_db \<Rightarrow> control_db \<Rightarrow> bool" where
  "blocked t d d' \<longleftrightarrow> t_stage t = VERIFY
     \<and> (\<exists>g now. gr_status g = FAIL \<and> tasks d' = dict_set (t_id t) (bump (t\<lparr>t_gate_result := g\<rparr>) now) (tasks d))
     \<and> (\<exists>v. v_event_type v = ''evidence.gate.failed'' \<and> v_task_id v = t_id t \<and> events d' = events d @ [v])
     \<and> approvals d' = approvals d \<and> evidence d' = evidence d \<and> candidates d' = candidates d
     \<and> memories d' = memories d \<and> idempotency d' = idempotency d \<and> closures d' = closures d"

lemma gate_fail: "evidence_gate E now rs = Inr g \<Longrightarrow> gr_status g \<noteq> PASS \<Longrightarrow> gr_status g = FAIL"
  by (auto simp: evidence_gate_def Let_def split: sum.splits if_splits)

lemma gate_or_block_errors:
  assumes "t_stage t = VERIFY"
  shows "wp (gate_or_block E t) (\<lambda>_ _. True) (\<lambda>e s'. e = gate_failed \<longrightarrow> db s' = db s \<or> blocked t (db s) (db s')) s"
proof -
  have save: "wp (save_bumped E (t\<lparr>t_gate_result := g\<rparr>)) (\<lambda>_ s'. blocked t (db s) (db s'))
      (\<lambda>e _. e \<noteq> gate_failed) s'"
    if "evidence_gate E now rs = Inr g" "gr_status g \<noteq> PASS" "db s' = db s\<lparr>events := events (db s) @ [v]\<rparr>"
      "v_event_type v = ''evidence.gate.failed''" "v_task_id v = t_id t" for g now rs s' v
    using assms that gate_fail [OF that(1,2)] unfolding save_bumped_def save_task_def wp_simps wp_return_fun
    by (auto simp: gate_failed_def blocked_def split: option.split)
  show ?thesis
    unfolding gate_or_block_def refresh_gate_def list_evidence_def wp_bind wp_query wp_clock wp_lift wp_then wp_return
    by (auto split: sum.split intro!: wp_mono [OF append_wp] wp_mono [OF save]
        simp: wp_if wp_then wp_return wp_raise_fun gate_failed_def [symmetric])
qed

lemma consume_errors:
  "wp (consume_token E t token) (\<lambda>_ _. True) (\<lambda>e s'. db s' = db s \<or> e \<noteq> gate_failed) s"
  unfolding consume_token_def latest_approval_def save_approval_def Let_def wp_simps wp_return_fun
  by (auto intro!: wp_mono [OF event_errors] split: option.split sum.split)

lemma transition_errors:
  "wp (transition_step E t target token) (\<lambda>_ _. True)
     (\<lambda>e s'. e = gate_failed \<longrightarrow> db s' = db s \<or> blocked t (db s) (db s')) s"
proof (cases "moves (t_stage t) target")
  case False
  then have v: "validate_transition (t_stage t) target = Inl (ConflictError ''illegal_transition'')" by simp
  show ?thesis
    unfolding transition_step_def Let_def wp_then wp_lift v sum.case by (simp add: gate_failed_def)
next
  case m: True
  then have v: "validate_transition (t_stage t) target = Inr target" by simp
  have finish: "wp (save_bumped E t3) (\<lambda>t4. wp (append_audit_event E (t_id t4) (t_generation t4) et actor st (p t4))
      (\<lambda>_ _. True) X) X s"
    if X: "\<And>e s'. e \<noteq> gate_failed \<Longrightarrow> X e s'" for t3 et actor st p s X
    unfolding save_bumped_def save_task_def wp_simps wp_return_fun
    by (auto intro!: X wp_mono [OF event_errors] simp: gate_failed_def split: option.split)
  have tail: "wp (enter_stage E t2 target actor) (\<lambda>t3. wp (save_bumped E t3) (\<lambda>t4.
        wp (append_audit_event E (t_id t4) (t_generation t4) et actor st (p t4)) (\<lambda>_ _. True) X) X) X s"
    if X: "\<And>e s'. e \<noteq> gate_failed \<Longrightarrow> X e s'" for t2 target actor et st p s X
    by (rule wp_mono [OF enter_stage_errors]) (auto intro: finish X)
  show ?thesis
    unfolding transition_step_def Let_def wp_then wp_bind wp_lift v sum.case
  proof (rule wp_mono [OF keepsD [OF validate_live_reads [of "db s"] refl]], goal_cases)
    case (1 u s1)
    then have same: "db s1 = db s" .
    have token: "wp (consume_token E t token) (\<lambda>_. Q) (\<lambda>e s'. e = gate_failed \<longrightarrow> db s' = db s \<or> blocked t (db s) (db s')) s1"
      if "\<And>s'. Q s'" for Q
      by (rule wp_mono [OF consume_errors]) (auto simp: same that)
    have gate: "wp (gate_or_block E t) Q (\<lambda>e s'. e = gate_failed \<longrightarrow> db s' = db s \<or> blocked t (db s) (db s')) s1"
      if "t_stage t = VERIFY" "\<And>t' s'. Q t' s'" for Q
      by (rule wp_mono [OF gate_or_block_errors [OF that(1), of E s1, unfolded same]]) (auto simp: that)
    show ?case
      unfolding wp_if wp_return wp_return_fun
      by (auto intro!: token gate tail)
  qed simp
qed

text \<open>C17. A call that raises leaves the database exactly as it found it. The one exception is an
  \<open>advance\<close> stopped by the evidence gate: it commits the failed gate result in the row of the task, whose
  stage stays \<open>VERIFY\<close>, and the event that reports it, and nothing else.\<close>

theorem raising_call_rolls_back:
  assumes "run_call E c s = (Inl e, s')" and "depth s = 0"
  shows "db s' = db s \<or> e = gate_failed \<and> (\<exists>tid target token t. c = Advance tid target token
    \<and> dict_get (tasks (db s)) tid = Some t \<and> blocked t (db s) (db s'))"
proof (cases c)
  case (Advance tid target token)
  define body where "body = bindE (get_task tid) (\<lambda>t.
    case (case target of Some s \<Rightarrow> Some s | None \<Rightarrow> next_forward_stage (t_stage t)) of
      None \<Rightarrow> raiseE (ConflictError ''terminal_task'')
    | Some destination \<Rightarrow>
        catchE
          (bindE (transition_step E t destination token) (\<lambda>(t', j).
           bindE (task_view E True t') (\<lambda>v. returnE (Inr [(''transition'', j), (''task'', v)]))))
          (\<lambda>e. if e = gate_failed then returnE (Inl e) else raiseE e))"
  have body: "wp body (\<lambda>r s'. \<forall>e. r = Inl e \<longrightarrow> e = gate_failed \<and> (db s' = db s0
      \<or> (\<exists>t. dict_get (tasks (db s0)) tid = Some t \<and> blocked t (db s0) (db s')))) (\<lambda>_ _. True) s0" for s0
  proof -
    have "wp (catchE
          (bindE (transition_step E t destination token) (\<lambda>(t', j).
           bindE (task_view E True t') (\<lambda>v. returnE (Inr [(''transition'', j), (''task'', v)]))))
          (\<lambda>e. if e = gate_failed then returnE (Inl e) else raiseE e))
        (\<lambda>r s'. \<forall>e. r = Inl e \<longrightarrow> e = gate_failed \<and> (db s' = db s0 \<or> blocked t (db s0) (db s'))) (\<lambda>_ _. True) s0"
      for t destination
      unfolding wp_catch wp_bind
      by (rule wp_mono [OF transition_errors]) (auto simp: task_view_def Let_def wp_simps wp_return_fun latest_approval_def
        list_evidence_def list_memory_candidates_def list_memories_def)
    then show ?thesis
      unfolding body_def get_task_def wp_bind wp_query
      by (auto simp: wp_case_option wp_raise wp_return elim!: wp_mono split: option.split)
  qed
  from Advance assms have run: "bindE (transaction body) liftE s = (Inl e, s')"
    by (simp add: advance_def body_def lift_outcome)
  from transaction_then_lift_raises [OF assms(2), of body "\<lambda>r. r"] run
  have "db s' = db s \<or> transaction body s = (Inr (Inl e), s')" by auto
  then show ?thesis
  proof
    assume "transaction body s = (Inr (Inl e), s')"
    from transaction_result [OF this] obtain s0 s1 where
      "db s0 = db s" "body s0 = (Inr (Inl e), s1)" "db s' = db s1" by blast
    with wp_result [OF body] Advance show ?thesis by fastforce
  qed simp
next
  case (AppendClosure tenant project digest bytes key)
  with assms show ?thesis
    by (auto simp: append_decision_closure_def bindE_def thenE_def liftE_def raiseE_def returnE_def
        split: prod.splits sum.splits option.splits dest: transaction_raises)
qed (use assms in \<open>auto simp: reset_demo_def create_live_task_def autorun_def ingest_live_evidence_def
  finalize_live_task_def decide_approval_op_def dest: transaction_raises\<close>)


subsection \<open>Idempotent requests\<close>

interpretation answers: call_invariant E "\<lambda>d. idempotency d = I" for E I
proof
  show "idempotency (apply_change c d) = I" if "idempotency d = I" "no_answer c" for c d
    using that by (cases c) simp_all
qed

definition stored_answer :: "control_db \<Rightarrow> string \<Rightarrow> string \<Rightarrow> string \<Rightarrow> (string \<times> (string \<times> json) list \<times> int) option" where
  "stored_answer d meth path key = dict_get (idempotency d) (meth, path, key)"

text \<open>A request whose key has an answer does not run its operation.\<close>

lemma replay_answer:
  assumes "stored_answer (db s) meth path k = Some (h, stored, status)" and "k \<noteq> []" and "depth s = 0"
  shows "run_idempotent E meth path (Some k) body m cache s =
    (if h = json_sha E (JObj body) then (Inr (dict_set ''idempotent_replay'' (JBool True) stored), s\<lparr>rollback_only := False\<rparr>)
     else (Inl (ConflictError ''idempotency_key_conflict''), s\<lparr>rollback_only := False\<rparr>))"
  using assms
  by (simp add: stored_answer_def run_idempotent_def transaction_def get_idempotent_def bindE_def query_def getsE_def
      returnE_def raiseE_def Let_def)

lemma first_answer:
  assumes run: "run_idempotent E meth path (Some k) body (run_call E c) cache s = (Inr response, s')"
    and new: "stored_answer (db s) meth path k = None" and k: "k \<noteq> []"
  shows "stored_answer (db s') meth path k = Some (json_sha E (JObj body), cache response, 200)"
proof -
  let ?h = "json_sha E (JObj body)" and ?key = "(meth, path, k)"
  have call: "wp (run_call E c) (\<lambda>_ s'. idempotency (db s') = idempotency (db s1)) (\<lambda>_ s'. idempotency (db s') = idempotency (db s1)) s1"
    for s1
    by (rule keepsD [OF answers.call_keeps]) simp
  define body' where "body' = bindE (get_idempotent meth path k ?h) (\<lambda>cached. case cached of
          Some (status, response) \<Rightarrow> returnE (Inr (dict_set ''idempotent_replay'' (JBool True) response))
        | None \<Rightarrow>
            bindE (catchE (bindE (run_call E c) (\<lambda>response. returnE (Inr response)))
              (\<lambda>e. if error_code e = Some ''evidence_gate_failed'' then returnE (Inl e) else raiseE e))
            (\<lambda>r. case r of
                Inl e \<Rightarrow> returnE (Inl e)
              | Inr response \<Rightarrow>
                  thenE (put_idempotent E meth path k ?h 200 (cache response)) (returnE (Inr response))))"
  have "wp body' (\<lambda>r s'. \<forall>response. r = Inr response \<longrightarrow>
      stored_answer (db s') meth path k = Some (?h, cache response, 200)) (\<lambda>_ _. True) s1"
    if "db s1 = db s" for s1
    using new that unfolding body'_def get_idempotent_def wp_bind wp_query
    by (auto simp: stored_answer_def wp_simps wp_return_fun put_idempotent_def that map_add_def
        intro!: wp_mono [OF call] split: option.splits)
  note body = this
  from run k have "bindE (transaction body') liftE s = (Inr response, s')"
    unfolding run_idempotent_def body'_def Let_def lift_outcome by simp
  then have "transaction body' s = (Inr (Inr response), s')"
    by (auto simp: bindE_def liftE_def split: prod.splits sum.splits)
  from transaction_result [OF this] obtain s0 s1 where "db s0 = db s" "body' s0 = (Inr (Inr response), s1)" "db s' = db s1"
    by blast
  with wp_result [OF body] show ?thesis by fastforce
qed


lemma reachable_step: "service_reachable E s \<Longrightarrow> (service_step E)\<^sup>*\<^sup>* s s' \<Longrightarrow> service_reachable E s'"
  by (simp add: service_reachable_def)

text \<open>C18. An answered idempotency key stays answered: once a call behind a key has returned, then after
  any further calls a request with the same key and the same body returns the recorded answer, marked as a
  replay, without running its operation and without touching the database, and a request with the same key
  and a body of another digest is refused as a conflict.\<close>

theorem idempotent_replay:
  assumes "service_reachable E s"
    and "run_idempotent E meth path (Some k) body (run_call E c) cache s = (Inr response, s1)"
    and "stored_answer (db s) meth path k = None" and "k \<noteq> []"
    and "(service_step E)\<^sup>*\<^sup>* s1 s2"
  shows "run_idempotent E meth path (Some k) body' m cache' s2 =
    (if json_sha E (JObj body) = json_sha E (JObj body')
     then (Inr (dict_set ''idempotent_replay'' (JBool True) (cache response)), s2\<lparr>rollback_only := False\<rparr>)
     else (Inl (ConflictError ''idempotency_key_conflict''), s2\<lparr>rollback_only := False\<rparr>))"
proof -
  from assms(2) have "service_step E s s1"
    using idempotent [of E s meth path "Some k" body c cache] by simp
  with assms(1,5) have "service_reachable E s2"
    by (meson converse_rtranclp_into_rtranclp reachable_step)
  then have "depth s2 = 0" using reachable_settled by simp
  moreover have "stored_answer (db s2) meth path k = Some (json_sha E (JObj body), cache response, 200)"
    using first_answer [OF assms(2,3,4)] ledgers.steps_keep [OF assms(5), of "db s1"]
    by (simp add: stored_answer_def grows_def)
  ultimately show ?thesis using assms(4) by (simp add: replay_answer)
qed

text \<open>The one-time approval token is never written to the database: the answer recorded for a decision
  behind an idempotency key has a null token in place of the one that was returned, and is otherwise the
  answer given.\<close>

theorem approval_token_not_recorded:
  assumes "run_idempotent E meth path (Some k) body (run_call E (Decide aid decision approver expected))
      redact_approval_replay s = (Inr response, s')"
    and "stored_answer (db s) meth path k = None" and "k \<noteq> []"
  shows "\<exists>stored. stored_answer (db s') meth path k = Some (json_sha E (JObj body), stored, 200)
    \<and> dict_get stored ''approval_token'' = Some JNull
    \<and> (\<forall>field. field \<notin> {''approval_token'', ''token_notice''} \<longrightarrow> dict_get stored field = dict_get response field)"
  using first_answer [OF assms] by (auto simp: redact_approval_replay_def dict_simps)

subsection \<open>The automatic run\<close>

text \<open>C19. The automatic run of the demo always ends by itself: its bound of twenty iterations is never
  what stops it, since with any bound of at least thirteen the call has the same result and leaves the
  same state.\<close>

theorem autorun_terminates:
  assumes "service_reachable E s" and "13 \<le> n"
  shows "autorun E tid token s = transaction
     (bindE (get_task tid) (\<lambda>t.
      if \<not> t_synthetic_demo t then raiseE (PolicyError ''live_autorun_forbidden'')
      else autorun_loop n E tid token [])) s"
proof -
  have bound: "autorun_loop 20 E tid token [] s0 = autorun_loop n E tid token [] s0" if "settled E (db s0)" for s0
    using rank_bounds assms(2) by (intro autorun_loop_bound [OF that]) (simp_all add: le_trans [of _ 13])
  have "bindE (get_task tid) (\<lambda>t.
      if \<not> t_synthetic_demo t then raiseE (PolicyError ''live_autorun_forbidden'')
      else autorun_loop 20 E tid token []) s0 = bindE (get_task tid) (\<lambda>t.
      if \<not> t_synthetic_demo t then raiseE (PolicyError ''live_autorun_forbidden'')
      else autorun_loop n E tid token []) s0" if "settled E (db s0)" for s0
    using bound [OF that]
    by (auto simp: get_task_def bindE_def query_def getsE_def returnE_def raiseE_def split: option.split)
  with reachable_settled [OF assms(1)] show ?thesis
    by (simp add: autorun_def transaction_def)
qed


subsection \<open>The audit log\<close>

text \<open>C21. In every state the service can reach, however its calls succeeded, failed, were replayed or
  rolled back, the events of the log are numbered from one without a gap, no identifier and no hash
  occurs twice, every task's stream is a hash chain from the zero digest, and the verification that the
  API offers reports every stream as valid.\<close>

theorem audit_log_sound:
  assumes "service_reachable E s"
  shows "(\<forall>i < length (events (db s)). v_sequence (events (db s) ! i) = int i + 1)
    \<and> distinct (map v_id (events (db s))) \<and> distinct (map v_event_hash (events (db s)))
    \<and> (\<forall>tid gen. verify_from E zero_digest (stream (db s) tid gen) \<and> verify_event_chain E tid gen (db s))"
proof -
  have "audit_ok E empty_db" by (simp add: audit_ok_def empty_db_def stream_def)
  with assms have ok: "audit_ok E (db s)" by (rule audit_log.reachable_keeps)
  then have "verify_event_chain E tid gen (db s)" for tid gen
    using chain_take [of E zero_digest "stream (db s) tid gen"]
    by (simp add: verify_event_chain_def list_events_def verify_from_chain audit_stream_positive) (simp add: audit_ok_def)
  with ok show ?thesis by (auto simp: audit_ok_def verify_from_chain)
qed

text \<open>No sequence of calls, from any state, removes or rewrites an audit event, an evidence record, a
  memory candidate, a memory or a decision closure, or changes the stored answer of an idempotency key:
  every ledger afterwards is the old one with rows appended, and no task or approval disappears.\<close>

theorem ledgers_append_only:
  assumes "(service_step E)\<^sup>*\<^sup>* s s'"
  shows "(\<exists>vs. events (db s') = events (db s) @ vs) \<and> (\<exists>rs. evidence (db s') = evidence (db s) @ rs)
    \<and> (\<exists>cs. candidates (db s') = candidates (db s) @ cs) \<and> (\<exists>ms. memories (db s') = memories (db s) @ ms)
    \<and> (\<exists>qs. closures (db s') = closures (db s) @ qs)
    \<and> (\<forall>k x. dict_get (idempotency (db s)) k = Some x \<longrightarrow> dict_get (idempotency (db s')) k = Some x)
    \<and> set (keys (tasks (db s))) \<subseteq> set (keys (tasks (db s')))
    \<and> set (keys (approvals (db s))) \<subseteq> set (keys (approvals (db s')))"
  using ledgers.steps_keep [OF assms, of "db s"] by (simp add: grows_def)

text \<open>The verification offered by the API looks at the first thousand events of a stream only: once a
  stream has a thousand events that verify, any event whatever can follow them in the table and the
  stream is still reported as valid, also when the whole stream is no chain.\<close>

theorem audit_verification_window:
  assumes "length vs = 1000" and "verify_from E zero_digest vs"
    and "\<forall>v \<in> set (vs @ ws). v_task_id v = tid \<and> v_generation v = gen \<and> 0 < v_sequence v"
    and "events d = vs @ ws"
  shows "verify_event_chain E tid gen d
    \<and> (ws \<noteq> [] \<and> v_previous_hash (hd ws) \<noteq> v_event_hash (last vs) \<longrightarrow>
         \<not> verify_from E zero_digest (stream d tid gen))"
proof -
  have all: "stream d tid gen = vs @ ws" "filter (\<lambda>v. 0 < v_sequence v) (vs @ ws) = vs @ ws"
    using assms(3,4) by (simp_all add: stream_def filter_id_conv)
  have "\<not> audit.chain E p (us @ ws)"
    if "us \<noteq> []" "ws \<noteq> []" "v_previous_hash (hd ws) \<noteq> v_event_hash (last us)" for p us
    using that
  proof (induction us arbitrary: p)
    case (Cons u us)
    then show ?case by (cases us; cases ws) auto
  qed simp
  moreover have "vs \<noteq> []" using assms(1) by auto
  ultimately show ?thesis
    using assms(1,2) all by (simp add: verify_event_chain_def list_events_def verify_from_chain)
qed

end
