(* ===== verification/ServiceInstances.thy ===== *)
theory ServiceInstances
  imports ServiceProps
begin

text \<open>
  The guarantees of the control plane at work: each of them is applied to the run of the demo in the
  environment \<open>trial_env\<close>, so that its hypotheses hold there.
\<close>

subsection \<open>The end of the demo\<close>

lemma demo_end:
  "\<exists>s t. service_reachable trial_env s \<and> dict_get (tasks (db s)) demo_task_id = Some t
     \<and> t_stage t = COMPLETED \<and> memories (db s) \<noteq> []"
  using demo_run [OF trial_fair] by blast

lemma execution_is_approved_witness:
  "\<exists>s t k a. service_reachable trial_env s \<and> dict_get (tasks (db s)) demo_task_id = Some t
     \<and> contract_of trial_env t = Inr k \<and> dict_get (approvals (db s)) (a_id a) = Some a
     \<and> a_status a = CONSUMED \<and> a_action_digest a = k_digest k"
proof -
  obtain s t where s: "service_reachable trial_env s" "dict_get (tasks (db s)) demo_task_id = Some t"
    "t_stage t = COMPLETED" using demo_end by blast
  with execution_is_approved [OF s(1,2)] show ?thesis by auto
qed

lemma entries_match_approvals_witness:
  "\<exists>s t. service_reachable trial_env s \<and> dict_get (tasks (db s)) demo_task_id = Some t
     \<and> length (filter (\<lambda>v. v_event_type v = ''state.transitioned'' \<and> v_stage v = Some EXECUTE)
           (stream (db s) demo_task_id (t_generation t)))
       = length (filter (\<lambda>a. a_status a = CONSUMED) (approvals_of (db s) demo_task_id (t_generation t)))"
  using demo_end entries_match_approvals by blast

lemma approvals_consistent_witness:
  "\<exists>s aid a. service_reachable trial_env s \<and> dict_get (approvals (db s)) aid = Some a
     \<and> a_id a = aid \<and> a_status a \<noteq> EXPIRED"
proof -
  obtain s t where s: "service_reachable trial_env s" "dict_get (tasks (db s)) demo_task_id = Some t"
    "t_stage t = COMPLETED" using demo_end by blast
  have "core_inv trial_env (db s)" using reachable_settled [OF s(1)] by (simp add: settled_def)
  from core_taskD [OF this s(2)] s(3) obtain a where "dict_get (approvals (db s)) (a_id a) = Some a"
    by (auto simp: task_inv_def paid_def executed_def)
  with approvals_consistent [OF s(1) this] s(1) show ?thesis by blast
qed

lemma decision_is_proven_witness:
  "\<exists>s t. service_reachable trial_env s \<and> dict_get (tasks (db s)) demo_task_id = Some t
     \<and> gr_status (t_gate_result t) = PASS \<and> t_decision t = Some (decision_of (t_latest_evaluation t))"
proof -
  obtain s t where s: "service_reachable trial_env s" "dict_get (tasks (db s)) demo_task_id = Some t"
    "t_stage t = COMPLETED" using demo_end by blast
  with decision_is_proven [OF s(1,2)] show ?thesis by auto
qed

lemma memories_reviewed_witness:
  "\<exists>s m. service_reachable trial_env s \<and> m \<in> set (memories (db s)) \<and> mr_validated m \<and> mr_review_id m \<noteq> []"
proof -
  obtain s where s: "service_reachable trial_env s" "memories (db s) \<noteq> []" using demo_end by blast
  then obtain m where "m \<in> set (memories (db s))" by (cases "memories (db s)") auto
  with memories_reviewed [OF s(1) this] s(1) show ?thesis by blast
qed

lemma raising_call_rolls_back_witness:
  "\<exists>e s'. run_call trial_env (Advance ''missing'' None None) fresh_session = (Inl e, s')
     \<and> e \<noteq> gate_failed \<and> db s' = empty_db"
proof -
  obtain e s' where run: "run_call trial_env (Advance ''missing'' None None) fresh_session = (Inl e, s')"
    and e: "e \<noteq> gate_failed"
    by (simp add: advance_def transaction_def get_task_def bindE_def query_def getsE_def returnE_def raiseE_def
        fresh_session_def empty_db_def gate_failed_def)
  from raising_call_rolls_back [OF run] e have "db s' = db fresh_session" by (simp add: fresh_session_def)
  with run e show ?thesis by (simp add: fresh_session_def)
qed

lemma autorun_terminates_witness:
  "\<exists>s t. service_reachable trial_env s \<and> dict_get (tasks (db s)) demo_task_id = Some t
     \<and> autorun trial_env demo_task_id None s = transaction
       (bindE (get_task demo_task_id) (\<lambda>t.
        if \<not> t_synthetic_demo t then raiseE (PolicyError ''live_autorun_forbidden'')
        else autorun_loop 13 trial_env demo_task_id None [])) s"
  using demo_end autorun_terminates [of trial_env _ 13 demo_task_id None] by fast


lemma audit_log_sound_witness:
  "\<exists>s t. service_reachable trial_env s \<and> dict_get (tasks (db s)) demo_task_id = Some t
     \<and> distinct (map v_event_hash (events (db s)))
     \<and> verify_event_chain trial_env demo_task_id (t_generation t) (db s)"
  using demo_end audit_log_sound by blast

lemma ledgers_append_only_witness:
  "\<exists>s. (service_step trial_env)\<^sup>*\<^sup>* fresh_session s \<and> memories (db s) \<noteq> []
     \<and> (\<exists>ms. memories (db s) = memories (db fresh_session) @ ms)"
proof -
  obtain s where s: "(service_step trial_env)\<^sup>*\<^sup>* fresh_session s" "memories (db s) \<noteq> []"
    using demo_end by (auto simp: service_reachable_def)
  with ledgers_append_only [OF s(1)] show ?thesis by blast
qed

subsection \<open>Answered requests\<close>

text \<open>A call that returns on the session inside a transaction also returns behind a new key.\<close>

lemma idempotent_returns:
  assumes call: "wp (run_call E c) (\<lambda>r s'. \<not> rollback_only s' \<and> Q r) (\<lambda>_ _. False) (inside s)"
    and new: "stored_answer (db s) meth path k = None" and k: "k \<noteq> []"
  shows "\<exists>r s'. run_idempotent E meth path (Some k) body (run_call E c) cache s = (Inr r, s') \<and> Q r"
proof -
  have same: "idempotency (db (inside s)) = idempotency (db s)" by (simp add: inside_def)
  have kept: "wp (run_call E c) (\<lambda>_ s'. idempotency (db s') = idempotency (db s))
      (\<lambda>_ s'. idempotency (db s') = idempotency (db s)) (inside s)"
    by (rule keepsD [OF answers.call_keeps]) (simp add: same)
  have stored: "wp (put_idempotent E meth path k h 200 x) (\<lambda>_ s''. rollback_only s'' = rollback_only s')
      (\<lambda>_ _. False) s'" if "idempotency (db s') = idempotency (db s)" for h x s'
    using new that by (simp add: put_idempotent_def stored_answer_def wp_simps wp_return_fun wp_clock wp_query wp_update_db)
  have none: "dict_get (idempotency (db (inside s))) (meth, path, k) = None"
    using new by (simp add: stored_answer_def same)
  define body' where "body' = bindE (get_idempotent meth path k (json_sha E (JObj body))) (\<lambda>cached. case cached of
          Some (status, response) \<Rightarrow> returnE (Inr (dict_set ''idempotent_replay'' (JBool True) response))
        | None \<Rightarrow>
            bindE (catchE (bindE (run_call E c) (\<lambda>response. returnE (Inr response)))
              (\<lambda>e. if error_code e = Some ''evidence_gate_failed'' then returnE (Inl e) else raiseE e))
            (\<lambda>r. case r of
                Inl e \<Rightarrow> returnE (Inl e)
              | Inr response \<Rightarrow>
                  thenE (put_idempotent E meth path k (json_sha E (JObj body)) 200 (cache response))
                    (returnE (Inr response))))"
  have "wp (transaction body') (\<lambda>r s'. depth s' = depth s \<and> (\<exists>x. r = Inr x \<and> Q x)) (\<lambda>_ _. False) s"
  proof (rule transaction_returns, goal_cases)
    case 1
    show ?case
      unfolding body'_def
      by (simp add: none get_idempotent_def wp_bind wp_query wp_return wp_return_fun wp_catch)
        (rule wp_mono [OF wp_conj [OF call kept]], auto simp: wp_then wp_return wp_return_fun intro!: wp_mono [OF stored])
  qed
  then obtain x s' where "transaction body' s = (Inr (Inr x), s')" "Q x"
    by (auto simp: wp_def split: prod.splits sum.splits)
  then have "bindE (transaction body') liftE s = (Inr x, s')" "Q x"
    by (simp_all add: bindE_def liftE_def returnE_def)
  then show ?thesis
    using k unfolding run_idempotent_def body'_def Let_def lift_outcome by auto
qed

lemma reset_answered:
  "\<exists>r s'. run_idempotent trial_env ''POST'' ''/reset'' (Some ''key-0001'') body
     (run_call trial_env (Reset Happy_Path)) cache fresh_session = (Inr r, s')"
proof -
  have "wp (run_call trial_env (Reset Happy_Path)) (\<lambda>_ s'. \<not> rollback_only s' \<and> True) (\<lambda>_ _. False) (inside fresh_session)"
    unfolding run_call.simps
    by (rule wp_mono [OF reset_returns [OF trial_fair]])
      (auto simp: inside_def fresh_session_def dest: stands_clean)
  from idempotent_returns [OF this, of "''POST''" "''/reset''" "''key-0001''"] show ?thesis
    by (auto simp: stored_answer_def fresh_session_def empty_db_def)
qed

lemma idempotent_replay_witness:
  "\<exists>r s1. run_idempotent trial_env ''POST'' ''/reset'' (Some ''key-0001'') []
      (run_call trial_env (Reset Happy_Path)) (\<lambda>r. r) fresh_session = (Inr r, s1)
    \<and> run_idempotent trial_env ''POST'' ''/reset'' (Some ''key-0001'') []
      (run_call trial_env (Reset Happy_Path)) (\<lambda>r. r) s1
        = (Inr (dict_set ''idempotent_replay'' (JBool True) r), s1\<lparr>rollback_only := False\<rparr>)"
proof -
  obtain r s1 where run: "run_idempotent trial_env ''POST'' ''/reset'' (Some ''key-0001'') []
      (run_call trial_env (Reset Happy_Path)) (\<lambda>r. r) fresh_session = (Inr r, s1)"
    using reset_answered by blast
  have "service_reachable trial_env fresh_session"
    "stored_answer (db fresh_session) ''POST'' ''/reset'' ''key-0001'' = None"
    by (simp_all add: service_reachable_def stored_answer_def fresh_session_def empty_db_def)
  from idempotent_replay [OF this(1) run this(2), of s1 "[]"] run show ?thesis by auto
qed

lemma approval_token_not_recorded_witness:
  "\<exists>s aid digest r s'. run_idempotent trial_env ''POST'' ''/decide'' (Some ''key-0001'') []
      (run_call trial_env (Decide aid ''approved'' ''pi'' digest)) redact_approval_replay s = (Inr r, s')
    \<and> (\<exists>token. dict_get r ''approval_token'' = Some (JStr token) \<and> token \<noteq> [])
    \<and> (\<exists>stored. stored_answer (db s') ''POST'' ''/decide'' ''key-0001'' = Some (json_sha trial_env (JObj []), stored, 200)
         \<and> dict_get stored ''approval_token'' = Some JNull)"
proof -
  obtain r1 s1 r2 s2 t2 where runs: "run_call trial_env (Reset Happy_Path) fresh_session = (Inr r1, s1)"
    "run_call trial_env (Autorun demo_task_id None) s1 = (Inr r2, s2)" "stands trial_env None t2 s2" "t_stage t2 = APPROVAL"
    using demo_trace [OF trial_fair] by metis
  have kept: "idempotency (db s') = I" if "run_call trial_env c s = (r, s')" "idempotency (db s) = I" for c s r s' I
    using keeps_snd [OF answers.call_keeps [of I trial_env c], of s] that by simp
  have none: "stored_answer (db s2) ''POST'' ''/decide'' ''key-0001'' = None"
    using kept [OF runs(2) kept [OF runs(1), of "[]"]] by (simp add: stored_answer_def fresh_session_def empty_db_def)
  from decide_returns [OF trial_fair stands_inside [OF runs(3)] runs(4), of "''pi''"] obtain a :: approval_record where
    "wp (decide_approval_op trial_env (a_id a) ''approved'' ''pi'' (a_action_digest a))
      (\<lambda>r s'. depth s' = depth (inside s2) \<and> (\<exists>token. dict_get r ''approval_token'' = Some (JStr token) \<and> token \<noteq> []
           \<and> stands trial_env (Some token) t2 s')) (\<lambda>_ _. False) (inside s2)" by blast
  then have "wp (run_call trial_env (Decide (a_id a) ''approved'' ''pi'' (a_action_digest a)))
      (\<lambda>r s'. \<not> rollback_only s' \<and> (\<exists>token. dict_get r ''approval_token'' = Some (JStr token) \<and> token \<noteq> []))
      (\<lambda>_ _. False) (inside s2)"
    unfolding run_call.simps by (rule wp_mono) (auto dest: stands_clean)
  from idempotent_returns [OF this none, of "[]" redact_approval_replay] obtain r s' token where
    run: "run_idempotent trial_env ''POST'' ''/decide'' (Some ''key-0001'') []
      (run_call trial_env (Decide (a_id a) ''approved'' ''pi'' (a_action_digest a))) redact_approval_replay s2 = (Inr r, s')"
    "dict_get r ''approval_token'' = Some (JStr token)" "token \<noteq> []" by blast
  from approval_token_not_recorded [OF run(1) none] obtain stored where
    "stored_answer (db s') ''POST'' ''/decide'' ''key-0001'' = Some (json_sha trial_env (JObj []), stored, 200)"
    "dict_get stored ''approval_token'' = Some JNull" by auto
  with run show ?thesis by (intro exI conjI)
qed

subsection \<open>A long audit stream\<close>

fun sample_stream :: "nat \<Rightarrow> int \<Rightarrow> string \<Rightarrow> audit_event list" where
  "sample_stream 0 q previous = []"
| "sample_stream (Suc n) q previous =
     (let v = \<lparr>v_sequence = q, v_id = ''evt_'' @ dec_int q, v_task_id = ''task'', v_generation = ''gen'',
            v_event_type = ''note'', v_actor = ''system'', v_stage = None, v_payload = [],
            v_previous_hash = previous, v_event_hash = [], v_created_at = 0\<rparr>;
          h = audit_event_digest trial_env v in
      v\<lparr>v_event_hash := h\<rparr> # sample_stream n (q + 1) h)"

lemma length_sample [simp]: "length (sample_stream n q p) = n"
  by (induction n arbitrary: q p) (simp_all add: Let_def)

lemma sample_verifies: "verify_from trial_env p (sample_stream n q p)"
  by (induction n arbitrary: q p) (simp_all add: Let_def audit_event_digest_def hash_payload_def)

lemma sample_scope: "v \<in> set (sample_stream n q p) \<Longrightarrow> 0 < q \<Longrightarrow>
    v_task_id v = ''task'' \<and> v_generation v = ''gen'' \<and> 0 < v_sequence v"
  by (induction n arbitrary: q p) (auto simp: Let_def)

lemma audit_verification_window_witness:
  "\<exists>d. length (events d) = 1001 \<and> verify_event_chain trial_env ''task'' ''gen'' d
     \<and> \<not> verify_from trial_env zero_digest (stream d ''task'' ''gen'')"
proof -
  obtain vs where vs: "length vs = 1000" "verify_from trial_env zero_digest vs"
    "\<forall>v \<in> set vs. v_task_id v = ''task'' \<and> v_generation v = ''gen'' \<and> 0 < v_sequence v"
    using sample_verifies sample_scope [of _ 1000 1 zero_digest] length_sample zero_less_one by metis
  then have "last vs \<in> set vs" by (intro last_in_set) auto
  define w where "w = (last vs)\<lparr>v_previous_hash := CHR ''x'' # v_event_hash (last vs)\<rparr>"
  define d where "d = empty_db\<lparr>events := vs @ [w]\<rparr>"
  have "\<forall>v \<in> set (vs @ [w]). v_task_id v = ''task'' \<and> v_generation v = ''gen'' \<and> 0 < v_sequence v"
    "v_previous_hash w \<noteq> v_event_hash (last vs)"
    using vs(3) \<open>last vs \<in> set vs\<close> by (auto simp: w_def)
  with audit_verification_window [OF vs(1,2) this(1), of d] vs(1) show ?thesis
    by (intro exI [of _ d]) (simp add: d_def)
qed

end
