(* ===== verification/ModelFields.thy ===== *)
theory ModelFields
  imports JsonRoundtrip JsonRead
begin

text \<open>
  What the strict models have in common: the patterns of identifiers and texts, optional and literal
  fields, and reading the fields of an object whose keys are sorted.
\<close>

subsection \<open>Patterns and fields\<close>

definition alnum :: "char \<Rightarrow> bool" where
  "alnum c \<longleftrightarrow> is_digit c \<or> (65 \<le> byte c \<and> byte c \<le> 90) \<or> (97 \<le> byte c \<and> byte c \<le> 122)"

definition spelled :: "(char \<Rightarrow> bool) \<Rightarrow> (char \<Rightarrow> bool) \<Rightarrow> nat \<Rightarrow> nat \<Rightarrow> string \<Rightarrow> bool" where
  "spelled first rest lo hi s \<longleftrightarrow>
     lo \<le> length s \<and> length s \<le> hi \<and> s \<noteq> [] \<and> first (hd s) \<and> list_all rest (tl s)"

definition text_ok :: "nat \<Rightarrow> nat \<Rightarrow> string \<Rightarrow> bool" where
  "text_ok lo hi s \<longleftrightarrow> lo \<le> str_len s \<and> str_len s \<le> hi"

definition in_range :: "int \<Rightarrow> int \<Rightarrow> int \<Rightarrow> bool" where
  "in_range lo hi i \<longleftrightarrow> lo \<le> i \<and> i \<le> hi"

text \<open>An optional field: absent and null both mean \<open>None\<close>.\<close>

definition optional_field :: "(string \<times> json) list \<Rightarrow> string \<Rightarrow> (json \<Rightarrow> 'a option) \<Rightarrow> 'a option option" where
  "optional_field kvs k f = (case dict_get kvs k of None \<Rightarrow> Some None | Some JNull \<Rightarrow> Some None
     | Some j \<Rightarrow> map_option Some (f j))"

text \<open>A field with a literal value, with that value as its default.\<close>

definition literal_field :: "(string \<times> json) list \<Rightarrow> string \<Rightarrow> string \<Rightarrow> unit option" where
  "literal_field kvs k v = (case dict_get kvs k of None \<Rightarrow> Some () | Some j \<Rightarrow> need (j = JStr v))"

lemma list_all_map_id: "list_all id (map f xs) \<longleftrightarrow> (\<forall>x \<in> set xs. f x)"
  by (induction xs) auto

lemma list_all_map_snd: "list_all snd (map (map_prod id f) kvs) \<longleftrightarrow> (\<forall>kv \<in> set kvs. f (snd kv))"
  by (induction kvs) auto

lemma keys_sort: "map fst (sort_key fst kvs) = sort (map fst kvs)"
  by (rule properties_for_sort [symmetric]) (simp_all only: mset_map mset_sort sorted_sort_key)

lemma sort_key_sorted: "sorted (map f xs) \<Longrightarrow> sort_key f xs = xs"
  by (induction xs) (simp_all add: insort_is_Cons)

lemma sorted_json_idem: "sorted_json (sorted_json j) = sorted_json j"
proof (induction j)
  case (JList xs)
  then show ?case by simp
next
  case (JObj kvs)
  then have "map (map_prod id sorted_json) (map (map_prod id sorted_json) kvs) = map (map_prod id sorted_json) kvs"
    by (force simp: snds_snd)
  moreover have "sort_key fst (sort_key fst (map (map_prod id sorted_json) kvs)) = sort_key fst (map (map_prod id sorted_json) kvs)"
    by (rule sort_key_sorted) simp
  ultimately show ?case by (simp only: sorted_json.simps sort_map_values [symmetric])
qed simp_all

subsection \<open>Reading a field of a sorted object\<close>

definition sorted_members :: "(string \<times> json) list \<Rightarrow> (string \<times> json) list" where
  "sorted_members kvs = sort_key fst (map (map_prod id sorted_json) kvs)"

lemma sorted_obj: "sorted_json (JObj kvs) = JObj (sorted_members kvs)"
  by (simp add: sorted_members_def)

lemma dict_get_map_snd: "dict_get (map (map_prod id f) kvs) k = map_option f (dict_get kvs k)"
  by (induction kvs) auto

lemma dict_get_sort: "distinct (keys kvs) \<Longrightarrow> dict_get (sort_key fst kvs) k = dict_get kvs k"
  using map_of_inject_set [of "sort_key fst kvs" kvs] by (simp add: keys_sort)

lemma dict_get_sorted: "distinct (keys kvs) \<Longrightarrow> dict_get (sorted_members kvs) k = map_option sorted_json (dict_get kvs k)"
  by (simp add: sorted_members_def dict_get_sort dict_get_map_snd comp_def)

lemma keys_sorted: "set (keys (sorted_members kvs)) = set (keys kvs)"
  by (simp add: sorted_members_def keys_sort comp_def)

lemma field_sorted: "distinct (keys kvs) \<Longrightarrow> field (sorted_members kvs) k f = Option.bind (map_option sorted_json (dict_get kvs k)) f"
  by (simp add: field_def dict_get_sorted)

lemma as_obj_sorted: "set (keys kvs) \<subseteq> set ks \<Longrightarrow> as_obj ks (sorted_json (JObj kvs)) = Some (sorted_members kvs)"
  by (simp only: as_obj_def sorted_obj json.case keys_sorted if_True)

lemma as_obj_members: "set (keys kvs) \<subseteq> set ks \<Longrightarrow> as_obj ks (JObj (sorted_members kvs)) = Some (sorted_members kvs)"
  by (simp only: as_obj_def json.case keys_sorted if_True)

lemma optional_back:
  assumes "dict_get kvs k = Some (opt_json js b)" and "distinct (keys kvs)"
    and "\<And>x. b = Some x \<Longrightarrow> f (sorted_json (js x)) = Some x" and "\<And>x. sorted_json (js x) \<noteq> JNull"
  shows "optional_field (sorted_members kvs) k f = Some b"
proof (cases b)
  case None
  with assms(1,2) show ?thesis by (simp add: optional_field_def dict_get_sorted opt_json_def)
next
  case (Some x)
  with assms(1,2) have "dict_get (sorted_members kvs) k = Some (sorted_json (js x))"
    by (simp add: dict_get_sorted opt_json_def)
  moreover from assms(3) [OF Some] have "f (sorted_json (js x)) = Some x" .
  ultimately show ?thesis
    using assms(4) [of x] Some by (cases "sorted_json (js x)") (simp_all add: optional_field_def)
qed

lemma optional_str_back:
  "dict_get kvs k = Some (opt_json JStr b) \<Longrightarrow> distinct (keys kvs) \<Longrightarrow>
     optional_field (sorted_members kvs) k as_str = Some b"
  by (rule optional_back [of _ _ JStr]) (simp_all add: as_str_def)

lemmas reads_simps = field_sorted dict_get_sorted as_obj_sorted as_str_def as_int_def as_dict_def need_def
  literal_field_def optional_field_def default_dict_def Let_def

lemma all_some_map: "(\<And>x. x \<in> set xs \<Longrightarrow> f (g x) = Some (h x)) \<Longrightarrow> all_some f (map g xs) = Some (map h xs)"
  by (induction xs) auto

lemma list_back: "(\<And>x. x \<in> set xs \<Longrightarrow> f (sorted_json (g x)) = Some x) \<Longrightarrow> as_list f (sorted_json (JList (map g xs))) = Some xs"
  by (simp add: as_list_def all_some_map [where h = id, simplified] comp_def)

lemma strings_back: "as_list as_str (sorted_json (JList (map JStr xs))) = Some xs"
  by (rule list_back) (simp add: as_str_def)

end
