(* ===== verification/RxpCanonical.thy ===== *)
theory RxpCanonical
  imports ModelFields
begin

text \<open>
  Canonical serialization, domain-separated digests and timestamps of the RXP protocol
  (\<open>protocols/rxp/canonical.py\<close>, and \<open>parse_utc\<close> of \<open>protocols/rxp/grants.py\<close>).

  Unicode normalisation (\<open>unicodedata.normalize("NFC", s)\<close>, a table of the Unicode standard) is the
  parameter \<open>nfc\<close> of the environment, next to SHA-256 and HMAC. Integers are Python's and bounded
  by the check of the source.
\<close>

record rxp_env = crypto +
  nfc :: "string \<Rightarrow> string"

text \<open>An \<open>RXPError\<close> with its code, or the built-in exception that escapes.\<close>

datatype rxp_error =
    RXPError string
  | RxpValueError string
  | RxpTypeError string

subsection \<open>Canonical form\<close>

fun normalise :: "rxp_env \<Rightarrow> json \<Rightarrow> rxp_error + json"
  and normalise_items :: "rxp_env \<Rightarrow> json list \<Rightarrow> rxp_error + json list"
  and normalise_members :: "rxp_env \<Rightarrow> (string \<times> json) list \<Rightarrow> (string \<times> json) list \<Rightarrow> rxp_error + (string \<times> json) list"
where
  "normalise E JNull = Inr JNull"
| "normalise E (JBool b) = Inr (JBool b)"
| "normalise E (JInt i) =
     (if - (2 ^ 63) \<le> i \<and> i < 2 ^ 63 then Inr (JInt i)
      else Inl (RxpValueError ''RXP canonical integers must fit signed 64-bit range''))"
| "normalise E (JFloat r) = Inl (RxpTypeError ''RXP canonical form forbids binary floating point'')"
| "normalise E (JStr s) = Inr (JStr (nfc E s))"
| "normalise E (JList xs) =
     (case normalise_items E xs of Inl e \<Rightarrow> Inl e | Inr ys \<Rightarrow> Inr (JList ys))"
| "normalise E (JObj kvs) =
     (case normalise_members E [] kvs of Inl e \<Rightarrow> Inl e | Inr d \<Rightarrow> Inr (JObj d))"
| "normalise_items E [] = Inr []"
| "normalise_items E (x # xs) =
     (case normalise E x of Inl e \<Rightarrow> Inl e
      | Inr y \<Rightarrow> (case normalise_items E xs of Inl e \<Rightarrow> Inl e | Inr ys \<Rightarrow> Inr (y # ys)))"
| "normalise_members E d [] = Inr d"
| "normalise_members E d ((k, v) # kvs) =
     (if nfc E k \<in> set (keys d) then
        Inl (RxpValueError ''RXP canonical object contains NFC-colliding keys'')
      else (case normalise E v of Inl e \<Rightarrow> Inl e
        | Inr w \<Rightarrow> normalise_members E (d @ [(nfc E k, w)]) kvs))"

definition rxp_bytes :: "rxp_env \<Rightarrow> json \<Rightarrow> rxp_error + string" where
  "rxp_bytes E v =
     (case normalise E v of Inl e \<Rightarrow> Inl e | Inr w \<Rightarrow> Inr (canonical_bytes (crypto.truncate E) w))"

text \<open>\<open>json.loads(canonical_bytes(value))\<close>: the normalised value with its keys sorted
  (the round trip of \<open>JsonRoundtrip\<close>).\<close>

definition canonical_value :: "rxp_env \<Rightarrow> json \<Rightarrow> rxp_error + json" where
  "canonical_value E v = (case normalise E v of Inl e \<Rightarrow> Inl e | Inr w \<Rightarrow> Inr (sorted_json w))"

subsection \<open>Digests\<close>

definition nul :: string where
  "nul = [char_of (0 :: nat)]"

definition document_domain :: string where
  "document_domain = ''RXP/1/document'' @ nul"

definition ledger_entry_domain :: string where
  "ledger_entry_domain = ''RXP/1/ledger-entry'' @ nul"

definition ledger_root_domain :: string where
  "ledger_root_domain = ''RXP/1/ledger-root'' @ nul"

definition merkle_leaf_domain :: string where
  "merkle_leaf_domain = ''RXP/1/merkle-leaf'' @ nul"

definition merkle_node_domain :: string where
  "merkle_node_domain = ''RXP/1/merkle-node'' @ nul"

definition merkle_empty_root :: "rxp_env \<Rightarrow> string" where
  "merkle_empty_root E = ''sha256:'' @ sha256 E ''RXP/1/merkle/empty''"

definition genesis_root :: "rxp_env \<Rightarrow> string" where
  "genesis_root E = ''sha256:'' @ sha256 E ''RXP/1/ledger/genesis''"

definition tagged_digest :: "rxp_env \<Rightarrow> string \<Rightarrow> string \<Rightarrow> string" where
  "tagged_digest E domain payload = ''sha256:'' @ sha256 E (domain @ payload)"

definition digest_document :: "rxp_env \<Rightarrow> json \<Rightarrow> rxp_error + string" where
  "digest_document E v =
     (case rxp_bytes E v of Inl e \<Rightarrow> Inl e | Inr b \<Rightarrow> Inr (tagged_digest E document_domain b))"

definition digest_ledger_entry :: "rxp_env \<Rightarrow> json \<Rightarrow> rxp_error + string" where
  "digest_ledger_entry E v =
     (case rxp_bytes E v of Inl e \<Rightarrow> Inl e | Inr b \<Rightarrow> Inr (tagged_digest E ledger_entry_domain b))"

text \<open>\<open>digest_hex\<close>: the 32 bytes that a textual digest spells.\<close>

fun hex_bytes :: "string \<Rightarrow> string" where
  "hex_bytes (a # b # s) =
     (case (hex_value a, hex_value b) of
        (Some h, Some l) \<Rightarrow> char_of (16 * h + l) # hex_bytes s
      | _ \<Rightarrow> [])"
| "hex_bytes s = []"

definition rxp_digest :: "string \<Rightarrow> bool" where
  "rxp_digest s \<longleftrightarrow> take 7 s = ''sha256:'' \<and> is_sha256_digest (drop 7 s)"

definition digest_hex :: "string \<Rightarrow> rxp_error + string" where
  "digest_hex s =
     (if \<not> rxp_digest s then Inl (RxpValueError ''expected sha256:<64 lowercase hex> digest'')
      else Inr (hex_bytes (drop 7 s)))"

definition extend_ledger_root :: "rxp_env \<Rightarrow> string \<Rightarrow> string \<Rightarrow> rxp_error + string" where
  "extend_ledger_root E previous_root entry_digest =
     (case digest_hex previous_root of Inl e \<Rightarrow> Inl e
      | Inr previous \<Rightarrow> (case digest_hex entry_digest of Inl e \<Rightarrow> Inl e
         | Inr entry \<Rightarrow> Inr (tagged_digest E ledger_root_domain (previous @ entry))))"

subsection \<open>The commitment to a set of digests\<close>

text \<open>A digest just computed is well formed, so \<open>digest_hex\<close> of it is its bytes.\<close>

definition merkle_leaf :: "rxp_env \<Rightarrow> string \<Rightarrow> string" where
  "merkle_leaf E item = hex_bytes (sha256 E (merkle_leaf_domain @ hex_bytes (drop 7 item)))"

definition merkle_node :: "rxp_env \<Rightarrow> string \<Rightarrow> string \<Rightarrow> string" where
  "merkle_node E a b = hex_bytes (sha256 E (merkle_node_domain @ a @ b))"

fun merkle_level :: "rxp_env \<Rightarrow> string list \<Rightarrow> string list" where
  "merkle_level E (a # b # xs) = merkle_node E a b # merkle_level E xs"
| "merkle_level E [a] = [merkle_node E a a]"
| "merkle_level E [] = []"

lemma length_merkle_level: "length (merkle_level E xs) = (length xs + 1) div 2"
  by (induction E xs rule: merkle_level.induct) auto

function merkle_top :: "rxp_env \<Rightarrow> string list \<Rightarrow> string" where
  "merkle_top E xs = (if length xs \<le> 1 then hd xs else merkle_top E (merkle_level E xs))"
  by auto
termination
  by (relation "measure (length \<circ> snd)") (auto simp: length_merkle_level)

declare merkle_top.simps [simp del]

definition hex_of_byte :: "char \<Rightarrow> string" where
  "hex_of_byte c = [hex_char (byte c div 16), hex_char (byte c mod 16)]"

definition merkle_root :: "rxp_env \<Rightarrow> string list \<Rightarrow> rxp_error + string" where
  "merkle_root E digests =
     (if digests = [] then Inr (merkle_empty_root E)
      else if \<not> distinct digests then
        Inl (RxpValueError ''RXP Merkle sets cannot contain duplicate digests'')
      else if \<not> list_all rxp_digest digests then
        Inl (RxpValueError ''expected sha256:<64 lowercase hex> digest'')
      else Inr (''sha256:'' @ concat (map hex_of_byte (merkle_top E (map (merkle_leaf E) (sort digests))))))"

subsection \<open>Timestamps\<close>

text \<open>
  \<open>parse_utc\<close>: \<open>strptime(value, "%Y-%m-%dT%H:%M:%SZ")\<close> of a string of the pattern \<open>UTC_PATTERN\<close>, in
  seconds since the epoch; an impossible date or time raises. The digits are ASCII.
\<close>

definition utc_pattern :: "string \<Rightarrow> bool" where
  "utc_pattern s \<longleftrightarrow> length s = 20 \<and>
     (\<forall>i \<in> {0, 1, 2, 3, 5, 6, 8, 9, 11, 12, 14, 15, 17, 18}. is_digit (s ! i)) \<and>
     s ! 4 = CHR ''-'' \<and> s ! 7 = CHR ''-'' \<and> s ! 10 = CHR ''T'' \<and> s ! 13 = CHR '':'' \<and>
     s ! 16 = CHR '':'' \<and> s ! 19 = CHR ''Z''"

definition digits_at :: "string \<Rightarrow> nat \<Rightarrow> nat \<Rightarrow> int" where
  "digits_at s i n = int (nat_of_digits (take n (drop i s)))"

definition leap_year :: "int \<Rightarrow> bool" where
  "leap_year y \<longleftrightarrow> y mod 4 = 0 \<and> (y mod 100 \<noteq> 0 \<or> y mod 400 = 0)"

definition days_in_month :: "int \<Rightarrow> int \<Rightarrow> int" where
  "days_in_month y m =
     (if m = 2 then (if leap_year y then 29 else 28) else if m \<in> {4, 6, 9, 11} then 30 else 31)"

text \<open>The days before a date, counted from the first of January of the year 1.\<close>

definition days_before :: "int \<Rightarrow> int \<Rightarrow> int \<Rightarrow> int" where
  "days_before y m d =
     (let p = y - 1 in 365 * p + p div 4 - p div 100 + p div 400)
     + sum_list (map (days_in_month y) [1..m - 1]) + (d - 1)"

definition parse_utc :: "string \<Rightarrow> rxp_error + int" where
  "parse_utc s =
     (let y = digits_at s 0 4; m = digits_at s 5 2; d = digits_at s 8 2;
          hh = digits_at s 11 2; mi = digits_at s 14 2; ss = digits_at s 17 2 in
      if utc_pattern s \<and> 1 \<le> y \<and> 1 \<le> m \<and> m \<le> 12 \<and> 1 \<le> d \<and> d \<le> days_in_month y m
         \<and> hh \<le> 23 \<and> mi \<le> 59 \<and> ss \<le> 59
      then Inr (86400 * (days_before y m d - days_before 1970 1 1) + 3600 * hh + 60 * mi + ss)
      else Inl (RXPError ''timestamp_invalid''))"

end
