(* ===== verification/RxpModels.thy ===== *)
theory RxpModels
  imports RxpCanonical
begin

text \<open>
  The documents of the RXP protocol (\<open>protocols/rxp/models.py\<close>): matrix plan, intent, grant, receipt,
  evidence, gate assessment, decision and ledger. A strict Pydantic model is a record; its validators
  are the predicate \<open>..._ok\<close>, which every instance satisfies; \<open>model_dump(mode="json")\<close> is the function
  \<open>..._json\<close> and \<open>model_validate_json\<close> the function \<open>read_...\<close>. Fields with a literal value
  (\<open>rxp_version\<close>, \<open>kind\<close>, \<open>algorithm\<close>, \<open>selection_rule\<close>) appear in the JSON only; string literals
  with several values are strings that the predicate restricts. A dictionary is an association list
  in insertion order.
\<close>

subsection \<open>Patterns\<close>

definition id_ok :: "string \<Rightarrow> bool" where
  "id_ok s \<longleftrightarrow> spelled alnum (\<lambda>c. alnum c \<or> c \<in> set ''._:/-'') 1 160 s"

definition nonce_ok :: "string \<Rightarrow> bool" where
  "nonce_ok s \<longleftrightarrow> spelled (\<lambda>c. alnum c \<or> c \<in> set ''_-'') (\<lambda>c. alnum c \<or> c \<in> set ''_-'') 16 128 s"

definition max_int64 :: int where
  "max_int64 = 2 ^ 63 - 1"

text \<open>\<open>_validate_json_object\<close>: the value has a canonical form.\<close>

definition json_object_ok :: "rxp_env \<Rightarrow> (string \<times> json) list \<Rightarrow> bool" where
  "json_object_ok E kvs \<longleftrightarrow> (case rxp_bytes E (JObj kvs) of Inl _ \<Rightarrow> False | Inr _ \<Rightarrow> True)"

subsection \<open>Enumerations\<close>

datatype level = D0_UNVERIFIED | D1_INPUTS_BOUND | D2_SEEDED_ENV_BOUND | D3_BYTE_REPLAY_VERIFIED

fun level_rank :: "level \<Rightarrow> int" where
  "level_rank D0_UNVERIFIED = 0"
| "level_rank D1_INPUTS_BOUND = 1"
| "level_rank D2_SEEDED_ENV_BOUND = 2"
| "level_rank D3_BYTE_REPLAY_VERIFIED = 3"

fun level_value :: "level \<Rightarrow> string" where
  "level_value D0_UNVERIFIED = ''D0_UNVERIFIED''"
| "level_value D1_INPUTS_BOUND = ''D1_INPUTS_BOUND''"
| "level_value D2_SEEDED_ENV_BOUND = ''D2_SEEDED_ENV_BOUND''"
| "level_value D3_BYTE_REPLAY_VERIFIED = ''D3_BYTE_REPLAY_VERIFIED''"

definition level_of :: "json \<Rightarrow> level option" where
  "level_of j = List.find (\<lambda>l. j = JStr (level_value l))
     [D0_UNVERIFIED, D1_INPUTS_BOUND, D2_SEEDED_ENV_BOUND, D3_BYTE_REPLAY_VERIFIED]"

datatype cell_state = INTENT_RECORDED | GRANTED | RECEIPT_RECORDED | EVIDENCE_READY | DECIDED

subsection \<open>Resources, artifacts, manifests\<close>

record resource_request =
  rq_gpu_count :: int
  rq_wall_time_seconds :: int
  rq_gpu_time_seconds :: int
  rq_artifact_bytes :: int

record resource_bounds =
  rb_gpu_count :: int
  rb_wall_time_seconds :: int
  rb_gpu_time_seconds :: int
  rb_artifact_bytes :: int

record resource_usage =
  ru_gpu_count :: int
  ru_wall_time_seconds :: int
  ru_gpu_time_seconds :: int
  ru_artifact_bytes :: int

definition request_ok :: "resource_request \<Rightarrow> bool" where
  "request_ok r \<longleftrightarrow> in_range 0 1024 (rq_gpu_count r) \<and> in_range 1 31536000 (rq_wall_time_seconds r)
     \<and> in_range 0 32292864000 (rq_gpu_time_seconds r) \<and> in_range 0 max_int64 (rq_artifact_bytes r)
     \<and> rq_gpu_time_seconds r \<le> rq_gpu_count r * rq_wall_time_seconds r"

definition bounds_ok :: "resource_bounds \<Rightarrow> bool" where
  "bounds_ok b \<longleftrightarrow> in_range 0 1024 (rb_gpu_count b) \<and> in_range 1 31536000 (rb_wall_time_seconds b)
     \<and> in_range 0 32292864000 (rb_gpu_time_seconds b) \<and> in_range 0 max_int64 (rb_artifact_bytes b)"

definition usage_ok :: "resource_usage \<Rightarrow> bool" where
  "usage_ok u \<longleftrightarrow> in_range 0 1024 (ru_gpu_count u) \<and> in_range 0 31536000 (ru_wall_time_seconds u)
     \<and> in_range 0 32292864000 (ru_gpu_time_seconds u) \<and> in_range 0 max_int64 (ru_artifact_bytes u)
     \<and> ru_gpu_time_seconds u \<le> ru_gpu_count u * ru_wall_time_seconds u"

definition bounds_contain :: "resource_bounds \<Rightarrow> resource_request \<Rightarrow> bool" where
  "bounds_contain b r \<longleftrightarrow> rq_gpu_count r \<le> rb_gpu_count b \<and> rq_wall_time_seconds r \<le> rb_wall_time_seconds b
     \<and> rq_gpu_time_seconds r \<le> rb_gpu_time_seconds b \<and> rq_artifact_bytes r \<le> rb_artifact_bytes b"

definition request_json :: "resource_request \<Rightarrow> json" where
  "request_json r = JObj [(''gpu_count'', JInt (rq_gpu_count r)), (''wall_time_seconds'', JInt (rq_wall_time_seconds r)),
     (''gpu_time_seconds'', JInt (rq_gpu_time_seconds r)), (''artifact_bytes'', JInt (rq_artifact_bytes r))]"

definition read_request :: "json \<Rightarrow> resource_request option" where
  "read_request j = do {
     kvs \<leftarrow> as_obj [''gpu_count'', ''wall_time_seconds'', ''gpu_time_seconds'', ''artifact_bytes''] j;
     g \<leftarrow> field kvs ''gpu_count'' as_int;
     w \<leftarrow> field kvs ''wall_time_seconds'' as_int;
     t \<leftarrow> field kvs ''gpu_time_seconds'' as_int;
     a \<leftarrow> field kvs ''artifact_bytes'' as_int;
     let r = \<lparr>rq_gpu_count = g, rq_wall_time_seconds = w, rq_gpu_time_seconds = t, rq_artifact_bytes = a\<rparr>;
     need (request_ok r);
     Some r }"

definition bounds_json :: "resource_bounds \<Rightarrow> json" where
  "bounds_json r = JObj [(''max_gpu_count'', JInt (rb_gpu_count r)),
     (''max_wall_time_seconds'', JInt (rb_wall_time_seconds r)),
     (''max_gpu_time_seconds'', JInt (rb_gpu_time_seconds r)), (''max_artifact_bytes'', JInt (rb_artifact_bytes r))]"

definition read_bounds :: "json \<Rightarrow> resource_bounds option" where
  "read_bounds j = do {
     kvs \<leftarrow> as_obj [''max_gpu_count'', ''max_wall_time_seconds'', ''max_gpu_time_seconds'', ''max_artifact_bytes''] j;
     g \<leftarrow> field kvs ''max_gpu_count'' as_int;
     w \<leftarrow> field kvs ''max_wall_time_seconds'' as_int;
     t \<leftarrow> field kvs ''max_gpu_time_seconds'' as_int;
     a \<leftarrow> field kvs ''max_artifact_bytes'' as_int;
     let r = \<lparr>rb_gpu_count = g, rb_wall_time_seconds = w, rb_gpu_time_seconds = t, rb_artifact_bytes = a\<rparr>;
     need (bounds_ok r);
     Some r }"

definition usage_json :: "resource_usage \<Rightarrow> json" where
  "usage_json r = JObj [(''gpu_count'', JInt (ru_gpu_count r)), (''wall_time_seconds'', JInt (ru_wall_time_seconds r)),
     (''gpu_time_seconds'', JInt (ru_gpu_time_seconds r)), (''artifact_bytes'', JInt (ru_artifact_bytes r))]"

definition read_usage :: "json \<Rightarrow> resource_usage option" where
  "read_usage j = do {
     kvs \<leftarrow> as_obj [''gpu_count'', ''wall_time_seconds'', ''gpu_time_seconds'', ''artifact_bytes''] j;
     g \<leftarrow> field kvs ''gpu_count'' as_int;
     w \<leftarrow> field kvs ''wall_time_seconds'' as_int;
     t \<leftarrow> field kvs ''gpu_time_seconds'' as_int;
     a \<leftarrow> field kvs ''artifact_bytes'' as_int;
     let r = \<lparr>ru_gpu_count = g, ru_wall_time_seconds = w, ru_gpu_time_seconds = t, ru_artifact_bytes = a\<rparr>;
     need (usage_ok r);
     Some r }"

record rxp_manifest =
  xm_git_commit :: string
  xm_config_sha256 :: string
  xm_dataset_manifest_sha256 :: string
  xm_environment_lock_sha256 :: string
  xm_base_model_sha256 :: string
  xm_seed :: int

definition rxp_manifest_ok :: "rxp_manifest \<Rightarrow> bool" where
  "rxp_manifest_ok m \<longleftrightarrow> spelled is_lower_hex is_lower_hex 7 64 (xm_git_commit m) \<and> rxp_digest (xm_config_sha256 m)
     \<and> rxp_digest (xm_dataset_manifest_sha256 m) \<and> rxp_digest (xm_environment_lock_sha256 m)
     \<and> rxp_digest (xm_base_model_sha256 m) \<and> in_range 0 max_int64 (xm_seed m)"

definition rxp_manifest_json :: "rxp_manifest \<Rightarrow> json" where
  "rxp_manifest_json m = JObj [(''git_commit'', JStr (xm_git_commit m)), (''config_sha256'', JStr (xm_config_sha256 m)),
     (''dataset_manifest_sha256'', JStr (xm_dataset_manifest_sha256 m)),
     (''environment_lock_sha256'', JStr (xm_environment_lock_sha256 m)),
     (''base_model_sha256'', JStr (xm_base_model_sha256 m)), (''seed'', JInt (xm_seed m))]"

definition read_rxp_manifest :: "json \<Rightarrow> rxp_manifest option" where
  "read_rxp_manifest j = do {
     kvs \<leftarrow> as_obj [''git_commit'', ''config_sha256'', ''dataset_manifest_sha256'', ''environment_lock_sha256'',
       ''base_model_sha256'', ''seed''] j;
     g \<leftarrow> field kvs ''git_commit'' as_str;
     c \<leftarrow> field kvs ''config_sha256'' as_str;
     d \<leftarrow> field kvs ''dataset_manifest_sha256'' as_str;
     e \<leftarrow> field kvs ''environment_lock_sha256'' as_str;
     b \<leftarrow> field kvs ''base_model_sha256'' as_str;
     s \<leftarrow> field kvs ''seed'' as_int;
     let m = \<lparr>xm_git_commit = g, xm_config_sha256 = c, xm_dataset_manifest_sha256 = d,
       xm_environment_lock_sha256 = e, xm_base_model_sha256 = b, xm_seed = s\<rparr>;
     need (rxp_manifest_ok m);
     Some m }"

record artifact =
  xf_uri :: string
  xf_media_type :: string
  xf_sha256 :: string
  xf_bytes :: int

definition artifact_ok :: "artifact \<Rightarrow> bool" where
  "artifact_ok a \<longleftrightarrow> text_ok 1 2048 (xf_uri a) \<and> text_ok 1 255 (xf_media_type a) \<and> rxp_digest (xf_sha256 a)
     \<and> in_range 0 max_int64 (xf_bytes a)"

definition artifact_json :: "artifact \<Rightarrow> json" where
  "artifact_json a = JObj [(''uri'', JStr (xf_uri a)), (''media_type'', JStr (xf_media_type a)),
     (''sha256'', JStr (xf_sha256 a)), (''bytes'', JInt (xf_bytes a))]"

definition read_artifact :: "json \<Rightarrow> artifact option" where
  "read_artifact j = do {
     kvs \<leftarrow> as_obj [''uri'', ''media_type'', ''sha256'', ''bytes''] j;
     u \<leftarrow> field kvs ''uri'' as_str;
     m \<leftarrow> field kvs ''media_type'' as_str;
     s \<leftarrow> field kvs ''sha256'' as_str;
     b \<leftarrow> field kvs ''bytes'' as_int;
     let a = \<lparr>xf_uri = u, xf_media_type = m, xf_sha256 = s, xf_bytes = b\<rparr>;
     need (artifact_ok a);
     Some a }"

record legacy_binding =
  xl_jti :: string
  xl_action_digest :: string
  xl_config_sha256 :: string
  xl_token_sha256 :: string

definition legacy_ok :: "legacy_binding \<Rightarrow> bool" where
  "legacy_ok b \<longleftrightarrow> nonce_ok (xl_jti b) \<and> is_sha256_digest (xl_action_digest b)
     \<and> is_sha256_digest (xl_config_sha256 b) \<and> is_sha256_digest (xl_token_sha256 b)"

definition legacy_json :: "legacy_binding \<Rightarrow> json" where
  "legacy_json b = JObj [(''jti'', JStr (xl_jti b)), (''action_digest'', JStr (xl_action_digest b)),
     (''config_sha256'', JStr (xl_config_sha256 b)), (''token_sha256'', JStr (xl_token_sha256 b))]"

definition read_legacy :: "json \<Rightarrow> legacy_binding option" where
  "read_legacy j = do {
     kvs \<leftarrow> as_obj [''jti'', ''action_digest'', ''config_sha256'', ''token_sha256''] j;
     i \<leftarrow> field kvs ''jti'' as_str;
     a \<leftarrow> field kvs ''action_digest'' as_str;
     c \<leftarrow> field kvs ''config_sha256'' as_str;
     t \<leftarrow> field kvs ''token_sha256'' as_str;
     let b = \<lparr>xl_jti = i, xl_action_digest = a, xl_config_sha256 = c, xl_token_sha256 = t\<rparr>;
     need (legacy_ok b);
     Some b }"

end
