(* ===== verification/RxpDocuments.thy ===== *)
theory RxpDocuments
  imports RxpModels
begin

text \<open>
  The six documents that a matrix ledger records (\<open>protocols/rxp/models.py\<close>), in the order in which a
  cell of the matrix collects them.
\<close>

subsection \<open>Matrix plan\<close>

datatype scalar = SStr string | SInt int | SBool bool

fun scalar_json :: "scalar \<Rightarrow> json" where
  "scalar_json (SStr s) = JStr s"
| "scalar_json (SInt i) = JInt i"
| "scalar_json (SBool b) = JBool b"

fun read_scalar :: "json \<Rightarrow> scalar option" where
  "read_scalar (JStr s) = Some (SStr s)"
| "read_scalar (JInt i) = Some (SInt i)"
| "read_scalar (JBool b) = Some (SBool b)"
| "read_scalar j = None"

type_synonym coordinates = "(string \<times> scalar) list"

definition coordinates_json :: "coordinates \<Rightarrow> json" where
  "coordinates_json c = JObj (map (map_prod id scalar_json) c)"

definition read_coordinates :: "json \<Rightarrow> coordinates option" where
  "read_coordinates j = Option.bind (as_dict j)
     (all_some (\<lambda>(k, v). map_option (Pair k) (read_scalar v)))"

text \<open>Equality of Python dictionaries of scalars: the order of the keys does not matter, and
  \<open>True == 1\<close>, \<open>False == 0\<close>.\<close>

fun scalar_number :: "scalar \<Rightarrow> int option" where
  "scalar_number (SStr s) = None"
| "scalar_number (SInt i) = Some i"
| "scalar_number (SBool b) = Some (if b then 1 else 0)"

definition scalar_eq :: "scalar \<Rightarrow> scalar \<Rightarrow> bool" where
  "scalar_eq a b \<longleftrightarrow> a = b \<or> (scalar_number a \<noteq> None \<and> scalar_number a = scalar_number b)"

definition coordinates_eq :: "coordinates \<Rightarrow> coordinates \<Rightarrow> bool" where
  "coordinates_eq a b \<longleftrightarrow> length a = length b \<and>
     (\<forall>(k, v) \<in> set a. case dict_get b k of None \<Rightarrow> False | Some w \<Rightarrow> scalar_eq v w)"

record matrix_axis =
  xa_name :: string
  xa_values :: "scalar list"

record cell_definition =
  xy_cell_id :: string
  xy_coordinates :: coordinates

record matrix_plan =
  xp_matrix_id :: string
  xp_name :: string
  xp_frozen_by :: string
  xp_frozen_at :: string
  xp_axes :: "matrix_axis list"
  xp_cells :: "cell_definition list"

definition axis_json :: "matrix_axis \<Rightarrow> json" where
  "axis_json a = JObj [(''name'', JStr (xa_name a)), (''values'', JList (map scalar_json (xa_values a)))]"

definition cell_definition_json :: "cell_definition \<Rightarrow> json" where
  "cell_definition_json c = JObj [(''cell_id'', JStr (xy_cell_id c)), (''coordinates'', coordinates_json (xy_coordinates c))]"

definition plan_json :: "matrix_plan \<Rightarrow> json" where
  "plan_json p = JObj [(''rxp_version'', JStr ''1.0''), (''kind'', JStr ''MatrixPlan''),
     (''matrix_id'', JStr (xp_matrix_id p)), (''name'', JStr (xp_name p)), (''frozen_by'', JStr (xp_frozen_by p)),
     (''frozen_at'', JStr (xp_frozen_at p)), (''axes'', JList (map axis_json (xp_axes p))),
     (''cells'', JList (map cell_definition_json (xp_cells p))), (''selection_rule'', JStr ''CARTESIAN_COMPLETE'')]"

definition axis_name_ok :: "string \<Rightarrow> bool" where
  "axis_name_ok s \<longleftrightarrow> spelled (\<lambda>c. alnum c \<and> \<not> is_digit c) (\<lambda>c. alnum c \<or> c \<in> set ''_.-'') 1 64 s"

text \<open>The canonical bytes of a value, where it has them.\<close>

definition bytes_of :: "rxp_env \<Rightarrow> json \<Rightarrow> string option" where
  "bytes_of E v = (case rxp_bytes E v of Inl _ \<Rightarrow> None | Inr b \<Rightarrow> Some b)"

definition axis_ok :: "rxp_env \<Rightarrow> matrix_axis \<Rightarrow> bool" where
  "axis_ok E a \<longleftrightarrow> axis_name_ok (xa_name a) \<and> in_range 1 256 (int (length (xa_values a)))
     \<and> None \<notin> set (map (bytes_of E \<circ> scalar_json) (xa_values a))
     \<and> distinct (map (bytes_of E \<circ> scalar_json) (xa_values a))"

text \<open>\<open>cells_are_the_complete_cartesian_space\<close>.\<close>

definition cartesian_complete :: "rxp_env \<Rightarrow> matrix_axis list \<Rightarrow> cell_definition list \<Rightarrow> bool" where
  "cartesian_complete E axes cells \<longleftrightarrow>
     (let names = map xa_name axes;
          actual = map (bytes_of E \<circ> coordinates_json \<circ> xy_coordinates) cells;
          expected = map (\<lambda>vs. bytes_of E (coordinates_json (zip names vs))) (product_lists (map xa_values axes)) in
      sorted names \<and> distinct names \<and> sorted (map xy_cell_id cells) \<and> distinct (map xy_cell_id cells)
      \<and> (\<forall>n \<le> length axes. prod_list (map (length \<circ> xa_values) (take n axes)) \<le> 10000)
      \<and> (\<forall>c \<in> set cells. set (keys (xy_coordinates c)) = set names)
      \<and> None \<notin> set actual \<and> distinct actual \<and> set actual = set expected)"

definition plan_ok :: "rxp_env \<Rightarrow> matrix_plan \<Rightarrow> bool" where
  "plan_ok E p \<longleftrightarrow> id_ok (xp_matrix_id p) \<and> text_ok 1 160 (xp_name p) \<and> id_ok (xp_frozen_by p)
     \<and> utc_pattern (xp_frozen_at p)
     \<and> in_range 1 16 (int (length (xp_axes p))) \<and> in_range 1 10000 (int (length (xp_cells p)))
     \<and> list_all (axis_ok E) (xp_axes p)
     \<and> list_all (\<lambda>c. id_ok (xy_cell_id c) \<and> distinct (keys (xy_coordinates c))) (xp_cells p)
     \<and> cartesian_complete E (xp_axes p) (xp_cells p)"

definition read_axis :: "json \<Rightarrow> matrix_axis option" where
  "read_axis j = do {
     kvs \<leftarrow> as_obj [''name'', ''values''] j;
     n \<leftarrow> field kvs ''name'' as_str;
     vs \<leftarrow> field kvs ''values'' (as_list read_scalar);
     Some \<lparr>xa_name = n, xa_values = vs\<rparr> }"

definition read_cell_definition :: "json \<Rightarrow> cell_definition option" where
  "read_cell_definition j = do {
     kvs \<leftarrow> as_obj [''cell_id'', ''coordinates''] j;
     c \<leftarrow> field kvs ''cell_id'' as_str;
     v \<leftarrow> field kvs ''coordinates'' read_coordinates;
     Some \<lparr>xy_cell_id = c, xy_coordinates = v\<rparr> }"

definition read_plan :: "rxp_env \<Rightarrow> json \<Rightarrow> matrix_plan option" where
  "read_plan E j = do {
     kvs \<leftarrow> as_obj [''rxp_version'', ''kind'', ''matrix_id'', ''name'', ''frozen_by'', ''frozen_at'', ''axes'', ''cells'',
       ''selection_rule''] j;
     literal_field kvs ''rxp_version'' ''1.0'';
     literal_field kvs ''kind'' ''MatrixPlan'';
     m \<leftarrow> field kvs ''matrix_id'' as_str;
     n \<leftarrow> field kvs ''name'' as_str;
     b \<leftarrow> field kvs ''frozen_by'' as_str;
     t \<leftarrow> field kvs ''frozen_at'' as_str;
     axes \<leftarrow> field kvs ''axes'' (as_list read_axis);
     cells \<leftarrow> field kvs ''cells'' (as_list read_cell_definition);
     literal_field kvs ''selection_rule'' ''CARTESIAN_COMPLETE'';
     let p = \<lparr>xp_matrix_id = m, xp_name = n, xp_frozen_by = b, xp_frozen_at = t, xp_axes = axes, xp_cells = cells\<rparr>;
     need (plan_ok E p);
     Some p }"

subsection \<open>Intent\<close>

record intent =
  xi_intent_id :: string
  xi_matrix_id :: string
  xi_cell_id :: string
  xi_coordinates :: coordinates
  xi_actor_id :: string
  xi_created_at :: string
  xi_action :: string
  xi_scope :: string
  xi_action_payload :: "(string \<times> json) list"
  xi_action_payload_digest :: string
  xi_run_manifest :: rxp_manifest
  xi_requested_resources :: resource_request
  xi_required_determinism :: level
  xi_approval_v1_binding :: "legacy_binding option"
  xi_extensions :: "(string \<times> json) list"

definition intent_json :: "intent \<Rightarrow> json" where
  "intent_json i = JObj [(''rxp_version'', JStr ''1.0''), (''kind'', JStr ''Intent''),
     (''intent_id'', JStr (xi_intent_id i)), (''matrix_id'', JStr (xi_matrix_id i)),
     (''cell_id'', JStr (xi_cell_id i)), (''coordinates'', coordinates_json (xi_coordinates i)),
     (''actor_id'', JStr (xi_actor_id i)), (''created_at'', JStr (xi_created_at i)),
     (''action'', JStr (xi_action i)), (''scope'', JStr (xi_scope i)),
     (''action_payload'', JObj (xi_action_payload i)),
     (''action_payload_digest'', JStr (xi_action_payload_digest i)),
     (''run_manifest'', rxp_manifest_json (xi_run_manifest i)),
     (''requested_resources'', request_json (xi_requested_resources i)),
     (''required_determinism'', JStr (level_value (xi_required_determinism i))),
     (''approval_v1_binding'', opt_json legacy_json (xi_approval_v1_binding i)),
     (''extensions'', JObj (xi_extensions i))]"

definition intent_ok :: "rxp_env \<Rightarrow> intent \<Rightarrow> bool" where
  "intent_ok E i \<longleftrightarrow> id_ok (xi_intent_id i) \<and> id_ok (xi_matrix_id i) \<and> id_ok (xi_cell_id i)
     \<and> distinct (keys (xi_coordinates i)) \<and> id_ok (xi_actor_id i) \<and> utc_pattern (xi_created_at i)
     \<and> text_ok 1 128 (xi_action i) \<and> text_ok 1 512 (xi_scope i)
     \<and> json_object_ok E (xi_action_payload i) \<and> json_object_ok E (xi_extensions i)
     \<and> rxp_digest (xi_action_payload_digest i)
     \<and> digest_document E (JObj (xi_action_payload i)) = Inr (xi_action_payload_digest i)
     \<and> rxp_manifest_ok (xi_run_manifest i) \<and> request_ok (xi_requested_resources i)
     \<and> pred_option legacy_ok (xi_approval_v1_binding i)"

definition read_intent :: "rxp_env \<Rightarrow> json \<Rightarrow> intent option" where
  "read_intent E j = do {
     kvs \<leftarrow> as_obj [''rxp_version'', ''kind'', ''intent_id'', ''matrix_id'', ''cell_id'', ''coordinates'', ''actor_id'',
       ''created_at'', ''action'', ''scope'', ''action_payload'', ''action_payload_digest'', ''run_manifest'',
       ''requested_resources'', ''required_determinism'', ''approval_v1_binding'', ''extensions''] j;
     literal_field kvs ''rxp_version'' ''1.0'';
     literal_field kvs ''kind'' ''Intent'';
     i \<leftarrow> field kvs ''intent_id'' as_str;
     m \<leftarrow> field kvs ''matrix_id'' as_str;
     c \<leftarrow> field kvs ''cell_id'' as_str;
     co \<leftarrow> field kvs ''coordinates'' read_coordinates;
     ac \<leftarrow> field kvs ''actor_id'' as_str;
     t \<leftarrow> field kvs ''created_at'' as_str;
     a \<leftarrow> field kvs ''action'' as_str;
     s \<leftarrow> field kvs ''scope'' as_str;
     pl \<leftarrow> field kvs ''action_payload'' as_dict;
     pd \<leftarrow> field kvs ''action_payload_digest'' as_str;
     rm \<leftarrow> field kvs ''run_manifest'' read_rxp_manifest;
     rr \<leftarrow> field kvs ''requested_resources'' read_request;
     d \<leftarrow> field kvs ''required_determinism'' level_of;
     l \<leftarrow> optional_field kvs ''approval_v1_binding'' read_legacy;
     x \<leftarrow> default_dict kvs ''extensions'';
     let n = \<lparr>xi_intent_id = i, xi_matrix_id = m, xi_cell_id = c, xi_coordinates = co, xi_actor_id = ac,
       xi_created_at = t, xi_action = a, xi_scope = s, xi_action_payload = pl, xi_action_payload_digest = pd,
       xi_run_manifest = rm, xi_requested_resources = rr, xi_required_determinism = d,
       xi_approval_v1_binding = l, xi_extensions = x\<rparr>;
     need (intent_ok E n);
     Some n }"

subsection \<open>Grant\<close>

record grant_claims =
  xg_grant_id :: string
  xg_issuer_id :: string
  xg_intent_id :: string
  xg_intent_digest :: string
  xg_matrix_id :: string
  xg_cell_id :: string
  xg_action :: string
  xg_scope :: string
  xg_action_payload_digest :: string
  xg_bounds :: resource_bounds
  xg_minimum_determinism :: level
  xg_issued_at :: string
  xg_expires_at :: string
  xg_nonce :: string
  xg_legacy_approval_v1 :: "legacy_binding option"

record grant =
  gr_key_id :: string
  gr_claims :: grant_claims
  gr_signature :: string

definition claims_json :: "grant_claims \<Rightarrow> json" where
  "claims_json c = JObj [(''grant_id'', JStr (xg_grant_id c)), (''issuer_id'', JStr (xg_issuer_id c)),
     (''intent_id'', JStr (xg_intent_id c)), (''intent_digest'', JStr (xg_intent_digest c)),
     (''matrix_id'', JStr (xg_matrix_id c)), (''cell_id'', JStr (xg_cell_id c)),
     (''action'', JStr (xg_action c)), (''scope'', JStr (xg_scope c)),
     (''action_payload_digest'', JStr (xg_action_payload_digest c)), (''bounds'', bounds_json (xg_bounds c)),
     (''minimum_determinism'', JStr (level_value (xg_minimum_determinism c))),
     (''issued_at'', JStr (xg_issued_at c)), (''expires_at'', JStr (xg_expires_at c)),
     (''nonce'', JStr (xg_nonce c)), (''legacy_approval_v1'', opt_json legacy_json (xg_legacy_approval_v1 c))]"

definition grant_json :: "grant \<Rightarrow> json" where
  "grant_json g = JObj [(''rxp_version'', JStr ''1.0''), (''kind'', JStr ''Grant''), (''algorithm'', JStr ''HMAC-SHA256''),
     (''key_id'', JStr (gr_key_id g)), (''claims'', claims_json (gr_claims g)), (''signature'', JStr (gr_signature g))]"

definition claims_ok :: "grant_claims \<Rightarrow> bool" where
  "claims_ok c \<longleftrightarrow> id_ok (xg_grant_id c) \<and> id_ok (xg_issuer_id c) \<and> id_ok (xg_intent_id c)
     \<and> rxp_digest (xg_intent_digest c) \<and> id_ok (xg_matrix_id c) \<and> id_ok (xg_cell_id c)
     \<and> text_ok 1 128 (xg_action c) \<and> text_ok 1 512 (xg_scope c) \<and> rxp_digest (xg_action_payload_digest c)
     \<and> bounds_ok (xg_bounds c) \<and> utc_pattern (xg_issued_at c) \<and> utc_pattern (xg_expires_at c)
     \<and> nonce_ok (xg_nonce c) \<and> pred_option legacy_ok (xg_legacy_approval_v1 c)"

definition grant_ok :: "grant \<Rightarrow> bool" where
  "grant_ok g \<longleftrightarrow> id_ok (gr_key_id g) \<and> claims_ok (gr_claims g)
     \<and> take 12 (gr_signature g) = ''hmac-sha256:'' \<and> is_sha256_digest (drop 12 (gr_signature g))"

definition read_claims :: "json \<Rightarrow> grant_claims option" where
  "read_claims j = do {
     kvs \<leftarrow> as_obj [''grant_id'', ''issuer_id'', ''intent_id'', ''intent_digest'', ''matrix_id'', ''cell_id'', ''action'',
       ''scope'', ''action_payload_digest'', ''bounds'', ''minimum_determinism'', ''issued_at'', ''expires_at'', ''nonce'',
       ''legacy_approval_v1''] j;
     g \<leftarrow> field kvs ''grant_id'' as_str;
     i \<leftarrow> field kvs ''issuer_id'' as_str;
     n \<leftarrow> field kvs ''intent_id'' as_str;
     nd \<leftarrow> field kvs ''intent_digest'' as_str;
     m \<leftarrow> field kvs ''matrix_id'' as_str;
     c \<leftarrow> field kvs ''cell_id'' as_str;
     a \<leftarrow> field kvs ''action'' as_str;
     s \<leftarrow> field kvs ''scope'' as_str;
     pd \<leftarrow> field kvs ''action_payload_digest'' as_str;
     b \<leftarrow> field kvs ''bounds'' read_bounds;
     d \<leftarrow> field kvs ''minimum_determinism'' level_of;
     t \<leftarrow> field kvs ''issued_at'' as_str;
     e \<leftarrow> field kvs ''expires_at'' as_str;
     no \<leftarrow> field kvs ''nonce'' as_str;
     l \<leftarrow> optional_field kvs ''legacy_approval_v1'' read_legacy;
     let r = \<lparr>xg_grant_id = g, xg_issuer_id = i, xg_intent_id = n, xg_intent_digest = nd, xg_matrix_id = m,
       xg_cell_id = c, xg_action = a, xg_scope = s, xg_action_payload_digest = pd, xg_bounds = b,
       xg_minimum_determinism = d, xg_issued_at = t, xg_expires_at = e, xg_nonce = no, xg_legacy_approval_v1 = l\<rparr>;
     need (claims_ok r);
     Some r }"

definition read_grant :: "json \<Rightarrow> grant option" where
  "read_grant j = do {
     kvs \<leftarrow> as_obj [''rxp_version'', ''kind'', ''algorithm'', ''key_id'', ''claims'', ''signature''] j;
     literal_field kvs ''rxp_version'' ''1.0'';
     literal_field kvs ''kind'' ''Grant'';
     literal_field kvs ''algorithm'' ''HMAC-SHA256'';
     k \<leftarrow> field kvs ''key_id'' as_str;
     c \<leftarrow> field kvs ''claims'' read_claims;
     s \<leftarrow> field kvs ''signature'' as_str;
     let g = \<lparr>gr_key_id = k, gr_claims = c, gr_signature = s\<rparr>;
     need (grant_ok g);
     Some g }"

subsection \<open>Receipt\<close>

record rxp_receipt =
  xc_receipt_id :: string
  xc_matrix_id :: string
  xc_cell_id :: string
  xc_intent_digest :: string
  xc_grant_digest :: string
  xc_grant_id :: string
  xc_executor_id :: string
  xc_started_at :: string
  xc_completed_at :: string
  xc_outcome :: string
  xc_output :: artifact
  xc_usage :: resource_usage
  xc_determinism_level :: level
  xc_replay_count :: int
  xc_replay_digest :: "string option"
  xc_metadata :: "(string \<times> json) list"

definition rxp_receipt_json :: "rxp_receipt \<Rightarrow> json" where
  "rxp_receipt_json r = JObj [(''rxp_version'', JStr ''1.0''), (''kind'', JStr ''Receipt''),
     (''receipt_id'', JStr (xc_receipt_id r)), (''matrix_id'', JStr (xc_matrix_id r)), (''cell_id'', JStr (xc_cell_id r)),
     (''intent_digest'', JStr (xc_intent_digest r)), (''grant_digest'', JStr (xc_grant_digest r)),
     (''grant_id'', JStr (xc_grant_id r)), (''executor_id'', JStr (xc_executor_id r)),
     (''started_at'', JStr (xc_started_at r)), (''completed_at'', JStr (xc_completed_at r)),
     (''outcome'', JStr (xc_outcome r)), (''output'', artifact_json (xc_output r)), (''usage'', usage_json (xc_usage r)),
     (''determinism_level'', JStr (level_value (xc_determinism_level r))), (''replay_count'', JInt (xc_replay_count r)),
     (''replay_digest'', opt_json JStr (xc_replay_digest r)), (''metadata'', JObj (xc_metadata r))]"

definition rxp_receipt_ok :: "rxp_env \<Rightarrow> rxp_receipt \<Rightarrow> bool" where
  "rxp_receipt_ok E r \<longleftrightarrow> id_ok (xc_receipt_id r) \<and> id_ok (xc_matrix_id r) \<and> id_ok (xc_cell_id r)
     \<and> rxp_digest (xc_intent_digest r) \<and> rxp_digest (xc_grant_digest r) \<and> id_ok (xc_grant_id r)
     \<and> id_ok (xc_executor_id r) \<and> utc_pattern (xc_started_at r) \<and> utc_pattern (xc_completed_at r)
     \<and> xc_outcome r \<in> {''SUCCEEDED'', ''FAILED''} \<and> artifact_ok (xc_output r) \<and> usage_ok (xc_usage r)
     \<and> in_range 1 1000000 (xc_replay_count r) \<and> pred_option rxp_digest (xc_replay_digest r)
     \<and> json_object_ok E (xc_metadata r)
     \<and> (xc_determinism_level r = D3_BYTE_REPLAY_VERIFIED \<longrightarrow>
          2 \<le> xc_replay_count r \<and> xc_replay_digest r = Some (xf_sha256 (xc_output r)))"

definition read_rxp_receipt :: "rxp_env \<Rightarrow> json \<Rightarrow> rxp_receipt option" where
  "read_rxp_receipt E j = do {
     kvs \<leftarrow> as_obj [''rxp_version'', ''kind'', ''receipt_id'', ''matrix_id'', ''cell_id'', ''intent_digest'', ''grant_digest'',
       ''grant_id'', ''executor_id'', ''started_at'', ''completed_at'', ''outcome'', ''output'', ''usage'',
       ''determinism_level'', ''replay_count'', ''replay_digest'', ''metadata''] j;
     literal_field kvs ''rxp_version'' ''1.0'';
     literal_field kvs ''kind'' ''Receipt'';
     i \<leftarrow> field kvs ''receipt_id'' as_str;
     m \<leftarrow> field kvs ''matrix_id'' as_str;
     c \<leftarrow> field kvs ''cell_id'' as_str;
     nd \<leftarrow> field kvs ''intent_digest'' as_str;
     gd \<leftarrow> field kvs ''grant_digest'' as_str;
     g \<leftarrow> field kvs ''grant_id'' as_str;
     x \<leftarrow> field kvs ''executor_id'' as_str;
     s \<leftarrow> field kvs ''started_at'' as_str;
     t \<leftarrow> field kvs ''completed_at'' as_str;
     oc \<leftarrow> field kvs ''outcome'' as_str;
     out \<leftarrow> field kvs ''output'' read_artifact;
     u \<leftarrow> field kvs ''usage'' read_usage;
     d \<leftarrow> field kvs ''determinism_level'' level_of;
     n \<leftarrow> field kvs ''replay_count'' as_int;
     rd \<leftarrow> optional_field kvs ''replay_digest'' as_str;
     md \<leftarrow> default_dict kvs ''metadata'';
     let r = \<lparr>xc_receipt_id = i, xc_matrix_id = m, xc_cell_id = c, xc_intent_digest = nd, xc_grant_digest = gd,
       xc_grant_id = g, xc_executor_id = x, xc_started_at = s, xc_completed_at = t, xc_outcome = oc,
       xc_output = out, xc_usage = u, xc_determinism_level = d, xc_replay_count = n, xc_replay_digest = rd,
       xc_metadata = md\<rparr>;
     need (rxp_receipt_ok E r);
     Some r }"

subsection \<open>Evidence\<close>

record rxp_evidence =
  xe_evidence_id :: string
  xe_matrix_id :: string
  xe_cell_id :: string
  xe_receipt_digest :: string
  xe_evidence_type :: string
  xe_producer_id :: string
  xe_artifact :: artifact
  xe_claims :: "(string \<times> json) list"
  xe_observed_at :: string

definition required_evidence_types :: "string list" where
  "required_evidence_types =
     [''code'', ''config'', ''dataset_manifest'', ''log'', ''metric'', ''trace'', ''review'']"

definition rxp_evidence_json :: "rxp_evidence \<Rightarrow> json" where
  "rxp_evidence_json e = JObj [(''rxp_version'', JStr ''1.0''), (''kind'', JStr ''Evidence''),
     (''evidence_id'', JStr (xe_evidence_id e)), (''matrix_id'', JStr (xe_matrix_id e)), (''cell_id'', JStr (xe_cell_id e)),
     (''receipt_digest'', JStr (xe_receipt_digest e)), (''evidence_type'', JStr (xe_evidence_type e)),
     (''producer_id'', JStr (xe_producer_id e)), (''artifact'', artifact_json (xe_artifact e)),
     (''claims'', JObj (xe_claims e)), (''observed_at'', JStr (xe_observed_at e))]"

definition rxp_evidence_ok :: "rxp_env \<Rightarrow> rxp_evidence \<Rightarrow> bool" where
  "rxp_evidence_ok E e \<longleftrightarrow> id_ok (xe_evidence_id e) \<and> id_ok (xe_matrix_id e) \<and> id_ok (xe_cell_id e)
     \<and> rxp_digest (xe_receipt_digest e) \<and> xe_evidence_type e \<in> set required_evidence_types
     \<and> id_ok (xe_producer_id e) \<and> artifact_ok (xe_artifact e) \<and> json_object_ok E (xe_claims e)
     \<and> utc_pattern (xe_observed_at e)"

definition read_rxp_evidence :: "rxp_env \<Rightarrow> json \<Rightarrow> rxp_evidence option" where
  "read_rxp_evidence E j = do {
     kvs \<leftarrow> as_obj [''rxp_version'', ''kind'', ''evidence_id'', ''matrix_id'', ''cell_id'', ''receipt_digest'',
       ''evidence_type'', ''producer_id'', ''artifact'', ''claims'', ''observed_at''] j;
     literal_field kvs ''rxp_version'' ''1.0'';
     literal_field kvs ''kind'' ''Evidence'';
     i \<leftarrow> field kvs ''evidence_id'' as_str;
     m \<leftarrow> field kvs ''matrix_id'' as_str;
     c \<leftarrow> field kvs ''cell_id'' as_str;
     rd \<leftarrow> field kvs ''receipt_digest'' as_str;
     t \<leftarrow> field kvs ''evidence_type'' as_str;
     p \<leftarrow> field kvs ''producer_id'' as_str;
     a \<leftarrow> field kvs ''artifact'' read_artifact;
     cl \<leftarrow> default_dict kvs ''claims'';
     o1 \<leftarrow> field kvs ''observed_at'' as_str;
     let e = \<lparr>xe_evidence_id = i, xe_matrix_id = m, xe_cell_id = c, xe_receipt_digest = rd, xe_evidence_type = t,
       xe_producer_id = p, xe_artifact = a, xe_claims = cl, xe_observed_at = o1\<rparr>;
     need (rxp_evidence_ok E e);
     Some e }"

subsection \<open>Gate assessment and decision\<close>

record gate_assessment =
  ga_status :: string
  ga_required_types :: "string list"
  ga_present_types :: "string list"
  ga_missing_types :: "string list"
  ga_evidence_digests :: "string list"
  ga_evidence_root :: string
  ga_independent_reviewer :: "string option"
  ga_reasons :: "string list"

definition strings_json :: "string list \<Rightarrow> json" where
  "strings_json xs = JList (map JStr xs)"

definition assessment_json :: "gate_assessment \<Rightarrow> json" where
  "assessment_json g = JObj [(''status'', JStr (ga_status g)), (''required_types'', strings_json (ga_required_types g)),
     (''present_types'', strings_json (ga_present_types g)), (''missing_types'', strings_json (ga_missing_types g)),
     (''evidence_digests'', strings_json (ga_evidence_digests g)), (''evidence_root'', JStr (ga_evidence_root g)),
     (''independent_reviewer'', opt_json JStr (ga_independent_reviewer g)), (''reasons'', strings_json (ga_reasons g))]"

definition assessment_ok :: "gate_assessment \<Rightarrow> bool" where
  "assessment_ok g \<longleftrightarrow> ga_status g \<in> {''PASS'', ''FAIL''} \<and> rxp_digest (ga_evidence_root g)
     \<and> list_all rxp_digest (ga_evidence_digests g)"

definition read_assessment :: "json \<Rightarrow> gate_assessment option" where
  "read_assessment j = do {
     kvs \<leftarrow> as_obj [''status'', ''required_types'', ''present_types'', ''missing_types'', ''evidence_digests'',
       ''evidence_root'', ''independent_reviewer'', ''reasons''] j;
     s \<leftarrow> field kvs ''status'' as_str;
     r \<leftarrow> field kvs ''required_types'' (as_list as_str);
     p \<leftarrow> field kvs ''present_types'' (as_list as_str);
     m \<leftarrow> field kvs ''missing_types'' (as_list as_str);
     d \<leftarrow> field kvs ''evidence_digests'' (as_list as_str);
     t \<leftarrow> field kvs ''evidence_root'' as_str;
     i \<leftarrow> optional_field kvs ''independent_reviewer'' as_str;
     q \<leftarrow> (case dict_get kvs ''reasons'' of None \<Rightarrow> Some [] | Some v \<Rightarrow> as_list as_str v);
     let g = \<lparr>ga_status = s, ga_required_types = r, ga_present_types = p, ga_missing_types = m,
       ga_evidence_digests = d, ga_evidence_root = t, ga_independent_reviewer = i, ga_reasons = q\<rparr>;
     need (assessment_ok g);
     Some g }"

record rxp_decision =
  xd_decision_id :: string
  xd_matrix_id :: string
  xd_cell_id :: string
  xd_intent_digest :: string
  xd_receipt_digest :: string
  xd_evidence_digests :: "string list"
  xd_evidence_root :: string
  xd_gate :: gate_assessment
  xd_verdict :: string
  xd_determinism_level :: level
  xd_decided_by :: string
  xd_decided_at :: string
  xd_rationale_code :: string

definition rxp_decision_json :: "rxp_decision \<Rightarrow> json" where
  "rxp_decision_json d = JObj [(''rxp_version'', JStr ''1.0''), (''kind'', JStr ''Decision''),
     (''decision_id'', JStr (xd_decision_id d)), (''matrix_id'', JStr (xd_matrix_id d)),
     (''cell_id'', JStr (xd_cell_id d)), (''intent_digest'', JStr (xd_intent_digest d)),
     (''receipt_digest'', JStr (xd_receipt_digest d)), (''evidence_digests'', strings_json (xd_evidence_digests d)),
     (''evidence_root'', JStr (xd_evidence_root d)), (''gate'', assessment_json (xd_gate d)),
     (''verdict'', JStr (xd_verdict d)), (''determinism_level'', JStr (level_value (xd_determinism_level d))),
     (''decided_by'', JStr (xd_decided_by d)), (''decided_at'', JStr (xd_decided_at d)),
     (''rationale_code'', JStr (xd_rationale_code d))]"

definition upper :: "char \<Rightarrow> bool" where
  "upper c \<longleftrightarrow> 65 \<le> byte c \<and> byte c \<le> 90"

definition rxp_decision_ok :: "rxp_decision \<Rightarrow> bool" where
  "rxp_decision_ok d \<longleftrightarrow> id_ok (xd_decision_id d) \<and> id_ok (xd_matrix_id d) \<and> id_ok (xd_cell_id d)
     \<and> rxp_digest (xd_intent_digest d) \<and> rxp_digest (xd_receipt_digest d) \<and> rxp_digest (xd_evidence_root d)
     \<and> assessment_ok (xd_gate d) \<and> xd_verdict d \<in> {''KEEP'', ''REJECT'', ''INCONCLUSIVE''}
     \<and> id_ok (xd_decided_by d) \<and> utc_pattern (xd_decided_at d)
     \<and> spelled upper (\<lambda>c. upper c \<or> is_digit c \<or> c = CHR ''_'') 2 64 (xd_rationale_code d)
     \<and> sorted (xd_evidence_digests d) \<and> xd_evidence_digests d = ga_evidence_digests (xd_gate d)
     \<and> xd_evidence_root d = ga_evidence_root (xd_gate d) \<and> ga_status (xd_gate d) = ''PASS''"

definition read_rxp_decision :: "json \<Rightarrow> rxp_decision option" where
  "read_rxp_decision j = do {
     kvs \<leftarrow> as_obj [''rxp_version'', ''kind'', ''decision_id'', ''matrix_id'', ''cell_id'', ''intent_digest'',
       ''receipt_digest'', ''evidence_digests'', ''evidence_root'', ''gate'', ''verdict'', ''determinism_level'',
       ''decided_by'', ''decided_at'', ''rationale_code''] j;
     literal_field kvs ''rxp_version'' ''1.0'';
     literal_field kvs ''kind'' ''Decision'';
     i \<leftarrow> field kvs ''decision_id'' as_str;
     m \<leftarrow> field kvs ''matrix_id'' as_str;
     c \<leftarrow> field kvs ''cell_id'' as_str;
     nd \<leftarrow> field kvs ''intent_digest'' as_str;
     rd \<leftarrow> field kvs ''receipt_digest'' as_str;
     ed \<leftarrow> field kvs ''evidence_digests'' (as_list as_str);
     er \<leftarrow> field kvs ''evidence_root'' as_str;
     g \<leftarrow> field kvs ''gate'' read_assessment;
     v \<leftarrow> field kvs ''verdict'' as_str;
     l \<leftarrow> field kvs ''determinism_level'' level_of;
     b \<leftarrow> field kvs ''decided_by'' as_str;
     t \<leftarrow> field kvs ''decided_at'' as_str;
     r \<leftarrow> field kvs ''rationale_code'' as_str;
     let d = \<lparr>xd_decision_id = i, xd_matrix_id = m, xd_cell_id = c, xd_intent_digest = nd,
       xd_receipt_digest = rd, xd_evidence_digests = ed, xd_evidence_root = er, xd_gate = g, xd_verdict = v,
       xd_determinism_level = l, xd_decided_by = b, xd_decided_at = t, xd_rationale_code = r\<rparr>;
     need (rxp_decision_ok d);
     Some d }"

subsection \<open>Documents\<close>

datatype document =
    PlanDoc matrix_plan
  | IntentDoc intent
  | GrantDoc grant
  | ReceiptDoc rxp_receipt
  | EvidenceDoc rxp_evidence
  | DecisionDoc rxp_decision

fun document_json :: "document \<Rightarrow> json" where
  "document_json (PlanDoc p) = plan_json p"
| "document_json (IntentDoc i) = intent_json i"
| "document_json (GrantDoc g) = grant_json g"
| "document_json (ReceiptDoc r) = rxp_receipt_json r"
| "document_json (EvidenceDoc e) = rxp_evidence_json e"
| "document_json (DecisionDoc d) = rxp_decision_json d"

fun document_ok :: "rxp_env \<Rightarrow> document \<Rightarrow> bool" where
  "document_ok E (PlanDoc p) = plan_ok E p"
| "document_ok E (IntentDoc i) = intent_ok E i"
| "document_ok E (GrantDoc g) = grant_ok g"
| "document_ok E (ReceiptDoc r) = rxp_receipt_ok E r"
| "document_ok E (EvidenceDoc e) = rxp_evidence_ok E e"
| "document_ok E (DecisionDoc d) = rxp_decision_ok d"

fun document_kind :: "document \<Rightarrow> string" where
  "document_kind (PlanDoc p) = ''MatrixPlan''"
| "document_kind (IntentDoc i) = ''Intent''"
| "document_kind (GrantDoc g) = ''Grant''"
| "document_kind (ReceiptDoc r) = ''Receipt''"
| "document_kind (EvidenceDoc e) = ''Evidence''"
| "document_kind (DecisionDoc d) = ''Decision''"

text \<open>\<open>_document_cell_id\<close>.\<close>

fun document_cell_id :: "document \<Rightarrow> string" where
  "document_cell_id (PlanDoc p) = ''matrix''"
| "document_cell_id (IntentDoc i) = xi_cell_id i"
| "document_cell_id (GrantDoc g) = xg_cell_id (gr_claims g)"
| "document_cell_id (ReceiptDoc r) = xc_cell_id r"
| "document_cell_id (EvidenceDoc e) = xe_cell_id e"
| "document_cell_id (DecisionDoc d) = xd_cell_id d"

fun document_matrix_id :: "document \<Rightarrow> string" where
  "document_matrix_id (PlanDoc p) = xp_matrix_id p"
| "document_matrix_id (IntentDoc i) = xi_matrix_id i"
| "document_matrix_id (GrantDoc g) = xg_matrix_id (gr_claims g)"
| "document_matrix_id (ReceiptDoc r) = xc_matrix_id r"
| "document_matrix_id (EvidenceDoc e) = xe_matrix_id e"
| "document_matrix_id (DecisionDoc d) = xd_matrix_id d"

text \<open>\<open>_KIND_MODEL\<close> and the model's \<open>model_validate_json\<close>.\<close>

definition read_document :: "rxp_env \<Rightarrow> string \<Rightarrow> json \<Rightarrow> document option" where
  "read_document E kind j =
     (if kind = ''MatrixPlan'' then map_option PlanDoc (read_plan E j)
      else if kind = ''Intent'' then map_option IntentDoc (read_intent E j)
      else if kind = ''Grant'' then map_option GrantDoc (read_grant j)
      else if kind = ''Receipt'' then map_option ReceiptDoc (read_rxp_receipt E j)
      else if kind = ''Evidence'' then map_option EvidenceDoc (read_rxp_evidence E j)
      else if kind = ''Decision'' then map_option DecisionDoc (read_rxp_decision j) else None)"

text \<open>\<open>_parse_model\<close>: the canonical bytes of the value are read back as the model.\<close>

definition parse_model :: "rxp_env \<Rightarrow> string \<Rightarrow> json \<Rightarrow> rxp_error + document" where
  "parse_model E kind v = (case canonical_value E v of Inl e \<Rightarrow> Inl e
     | Inr j \<Rightarrow> (case read_document E kind j of None \<Rightarrow> Inl (RXPError ''document_invalid'') | Some d \<Rightarrow> Inr d))"

end
