(* ===== verification/RxpGrants.thy ===== *)
theory RxpGrants
  imports RxpDocuments
begin

text \<open>
  The evidence gate (\<open>protocols/rxp/evidence.py\<close>) and the signed, expiring, single-use grants
  (\<open>protocols/rxp/grants.py\<close>) of the RXP protocol. A check that only raises is a function to
  \<open>rxp_error + unit\<close>. The replay registries are the two implementations of one protocol, stated
  as the locale \<open>replay_registry\<close>.
\<close>

subsection \<open>The evidence gate\<close>

text \<open>\<open>tuple(sorted({...}))\<close>.\<close>

definition sorted_set :: "string list \<Rightarrow> string list" where
  "sorted_set xs = sort (remdups xs)"

definition string_set :: "json option \<Rightarrow> string list" where
  "string_set j = (case j of Some (JList xs) \<Rightarrow> (case all_some as_str xs of None \<Rightarrow> [] | Some ss \<Rightarrow> ss) | _ \<Rightarrow> [])"

definition metric_valid :: "rxp_evidence \<Rightarrow> bool" where
  "metric_valid e \<longleftrightarrow> dict_get (xe_claims e) ''deterministic'' = Some (JBool True)
     \<and> dict_get (xe_claims e) ''summary_only'' = Some (JBool False)
     \<and> (case dict_get (xe_claims e) ''raw_data_digest'' of Some (JStr s) \<Rightarrow> rxp_digest s | _ \<Rightarrow> False)"

definition gate_producers :: "rxp_evidence list \<Rightarrow> string list" where
  "gate_producers es = map xe_producer_id (filter (\<lambda>e. xe_evidence_type e \<noteq> ''review'') es)"

definition review_passes :: "string list \<Rightarrow> rxp_evidence \<Rightarrow> bool" where
  "review_passes ps r \<longleftrightarrow>
     (let reviewed = string_set (dict_get (xe_claims r) ''reviewed_producers'') in
      dict_get (xe_claims r) ''reviewer_id'' = Some (JStr (xe_producer_id r))
      \<and> dict_get (xe_claims r) ''independent'' = Some (JBool True)
      \<and> dict_get (xe_claims r) ''verdict'' = Some (JStr ''PASS'')
      \<and> xe_producer_id r \<notin> set ps \<and> reviewed \<noteq> [] \<and> set ps \<subseteq> set reviewed)"

definition gate_reviewer :: "rxp_evidence list \<Rightarrow> string option" where
  "gate_reviewer es = map_option xe_producer_id
     (List.find (review_passes (gate_producers es)) (filter (\<lambda>e. xe_evidence_type e = ''review'') es))"

definition gate_missing :: "rxp_evidence list \<Rightarrow> string list" where
  "gate_missing es = sort (filter (\<lambda>t. t \<notin> set (map xe_evidence_type es)) required_evidence_types)"

definition gate_reasons :: "rxp_evidence list \<Rightarrow> string list" where
  "gate_reasons es =
     (let metrics = filter (\<lambda>e. xe_evidence_type e = ''metric'') es in
      (if gate_missing es \<noteq> [] then [''missing required evidence: '' @ join '', '' (gate_missing es)] else [])
      @ (if 1 < length (remdups (map xe_receipt_digest es)) then [''evidence spans multiple receipts''] else [])
      @ (if \<not> distinct (map xe_evidence_id es) then [''duplicate evidence_id''] else [])
      @ (if metrics \<noteq> [] \<and> \<not> list_ex metric_valid metrics
         then [''metric evidence requires deterministic raw data''] else [])
      @ (if ''review'' \<in> set (map xe_evidence_type es) \<and> (gate_reviewer es = None \<or> gate_reviewer es = Some [])
         then [''independent PASS review must cover all non-review producers''] else []))"

text \<open>The digests of some documents, in order; the first that fails decides the error.\<close>

fun digest_all :: "rxp_env \<Rightarrow> json list \<Rightarrow> rxp_error + string list" where
  "digest_all E [] = Inr []"
| "digest_all E (v # vs) =
     (case digest_document E v of Inl e \<Rightarrow> Inl e
      | Inr d \<Rightarrow> (case digest_all E vs of Inl e \<Rightarrow> Inl e | Inr ds \<Rightarrow> Inr (d # ds)))"

definition rxp_evidence_gate :: "rxp_env \<Rightarrow> rxp_evidence list \<Rightarrow> rxp_error + gate_assessment" where
  "rxp_evidence_gate E es =
     (case digest_all E (map rxp_evidence_json es) of Inl e \<Rightarrow> Inl e
      | Inr ds \<Rightarrow> (case merkle_root E (sort ds) of Inl e \<Rightarrow> Inl e
         | Inr set_root \<Rightarrow> Inr \<lparr>ga_status = (if gate_reasons es \<noteq> [] then ''FAIL'' else ''PASS''),
             ga_required_types = required_evidence_types, ga_present_types = sorted_set (map xe_evidence_type es),
             ga_missing_types = gate_missing es, ga_evidence_digests = sort ds, ga_evidence_root = set_root,
             ga_independent_reviewer = gate_reviewer es, ga_reasons = gate_reasons es\<rparr>))"

subsection \<open>Replay registries\<close>

text \<open>
  \<open>consume\<close> answers \<open>True\<close> exactly once for every key, and a key that was refused as malformed or
  already seen changes nothing.
\<close>

locale replay_registry =
  fixes consume :: "string \<Rightarrow> string \<Rightarrow> 'r \<Rightarrow> (rxp_error + bool) \<times> 'r"
    and used :: "'r \<Rightarrow> (string \<times> string) set"
  assumes consume_true: "consume n i r = (Inr True, r') \<Longrightarrow> (n, i) \<notin> used r \<and> used r' = insert (n, i) (used r)"
    and consume_other: "consume n i r = (x, r') \<Longrightarrow> x \<noteq> Inr True \<Longrightarrow> r' = r"

type_synonym registry = "(string \<times> string) list"

definition memory_consume :: "string \<Rightarrow> string \<Rightarrow> registry \<Rightarrow> (rxp_error + bool) \<times> registry" where
  "memory_consume namespace identifier r =
     (if (namespace, identifier) \<in> set r then (Inr False, r) else (Inr True, r @ [(namespace, identifier)]))"

definition sqlite_consume :: "string \<Rightarrow> string \<Rightarrow> registry \<Rightarrow> (rxp_error + bool) \<times> registry" where
  "sqlite_consume namespace identifier r =
     (if namespace = [] \<or> identifier = [] \<or> 128 < str_len namespace \<or> 256 < str_len identifier
      then (Inl (RXPError ''replay_key_invalid''), r)
      else if (namespace, identifier) \<in> set r then (Inr False, r)
      else (Inr True, r @ [(namespace, identifier)]))"

interpretation memory_registry: replay_registry memory_consume set
  by unfold_locales (auto simp: memory_consume_def split: if_splits)

interpretation sqlite_registry: replay_registry sqlite_consume set
  by unfold_locales (auto simp: sqlite_consume_def split: if_splits)

subsection \<open>Signing and verifying grants\<close>

record grant_signer =
  gs_secret :: string
  gs_key_id :: string

definition max_grant_ttl :: int where
  "max_grant_ttl = 3600"

definition clock_skew :: int where
  "clock_skew = 30"

definition make_signer :: "string \<Rightarrow> string \<Rightarrow> rxp_error + grant_signer" where
  "make_signer secret key_id =
     (if length secret < 32 then Inl (RXPError ''grant_key_too_short'')
      else Inr \<lparr>gs_secret = secret, gs_key_id = key_id\<rparr>)"

definition grant_signature_domain :: string where
  "grant_signature_domain = ''RXP/1/grant-signature'' @ nul"

definition protected_json :: "grant_signer \<Rightarrow> grant_claims \<Rightarrow> json" where
  "protected_json s c = JObj [(''algorithm'', JStr ''HMAC-SHA256''), (''claims'', claims_json c),
     (''key_id'', JStr (gs_key_id s))]"

definition claims_signature :: "rxp_env \<Rightarrow> grant_signer \<Rightarrow> grant_claims \<Rightarrow> rxp_error + string" where
  "claims_signature E s c = (case rxp_bytes E (protected_json s c) of Inl e \<Rightarrow> Inl e
     | Inr b \<Rightarrow> Inr (''hmac-sha256:'' @ hmac256 E (gs_secret s) (grant_signature_domain @ b)))"

definition validate_window :: "string \<Rightarrow> string \<Rightarrow> rxp_error + unit" where
  "validate_window issued_at expires_at =
     (case parse_utc issued_at of Inl e \<Rightarrow> Inl e | Inr issued \<Rightarrow>
      (case parse_utc expires_at of Inl e \<Rightarrow> Inl e | Inr expires \<Rightarrow>
        let ttl = expires - issued in
        if \<not> (1 \<le> ttl \<and> ttl \<le> max_grant_ttl) then Inl (RXPError ''grant_ttl_invalid'') else Inr ()))"

text \<open>The fields of the claims that must repeat the intent.\<close>

definition claims_match :: "grant_claims \<Rightarrow> intent \<Rightarrow> string \<Rightarrow> bool" where
  "claims_match c i digest \<longleftrightarrow> xg_intent_id c = xi_intent_id i \<and> xg_intent_digest c = digest
     \<and> xg_matrix_id c = xi_matrix_id i \<and> xg_cell_id c = xi_cell_id i \<and> xg_action c = xi_action i
     \<and> xg_scope c = xi_scope i \<and> xg_action_payload_digest c = xi_action_payload_digest i"

definition issue_grant ::
  "rxp_env \<Rightarrow> grant_signer \<Rightarrow> intent \<Rightarrow> string \<Rightarrow> string \<Rightarrow> resource_bounds \<Rightarrow> level \<Rightarrow> string \<Rightarrow> string \<Rightarrow> string
     \<Rightarrow> legacy_binding option \<Rightarrow> rxp_error + grant" where
  "issue_grant E s i grant_id issuer_id bounds minimum issued_at expires_at nonce legacy =
     (if \<not> bounds_contain bounds (xi_requested_resources i) then Inl (RXPError ''grant_bounds_too_narrow'')
      else if level_rank minimum < level_rank (xi_required_determinism i) then
        Inl (RXPError ''grant_determinism_too_weak'')
      else (case validate_window issued_at expires_at of Inl e \<Rightarrow> Inl e | Inr _ \<Rightarrow>
        if legacy \<noteq> xi_approval_v1_binding i then Inl (RXPError ''legacy_binding_mismatch'')
        else (case digest_document E (intent_json i) of Inl e \<Rightarrow> Inl e | Inr digest \<Rightarrow>
          let c = \<lparr>xg_grant_id = grant_id, xg_issuer_id = issuer_id, xg_intent_id = xi_intent_id i,
                xg_intent_digest = digest, xg_matrix_id = xi_matrix_id i, xg_cell_id = xi_cell_id i,
                xg_action = xi_action i, xg_scope = xi_scope i,
                xg_action_payload_digest = xi_action_payload_digest i, xg_bounds = bounds,
                xg_minimum_determinism = minimum, xg_issued_at = issued_at, xg_expires_at = expires_at,
                xg_nonce = nonce, xg_legacy_approval_v1 = legacy\<rparr> in
          if \<not> claims_ok c then Inl (RxpValueError ''GrantClaims'')
          else (case claims_signature E s c of Inl e \<Rightarrow> Inl e | Inr signature \<Rightarrow>
            let g = \<lparr>gr_key_id = gs_key_id s, gr_claims = c, gr_signature = signature\<rparr> in
            if \<not> grant_ok g then Inl (RxpValueError ''Grant'') else Inr g))))"

definition verify_grant :: "rxp_env \<Rightarrow> grant_signer \<Rightarrow> grant \<Rightarrow> intent \<Rightarrow> string \<Rightarrow> rxp_error + unit" where
  "verify_grant E s g i checked_at =
     (if gr_key_id g \<noteq> gs_key_id s then Inl (RXPError ''grant_key_unknown'')
      else (case claims_signature E s (gr_claims g) of Inl e \<Rightarrow> Inl e | Inr signature \<Rightarrow>
        if gr_signature g \<noteq> signature then Inl (RXPError ''grant_signature_invalid'')
        else (case digest_document E (intent_json i) of Inl e \<Rightarrow> Inl e | Inr digest \<Rightarrow>
          let c = gr_claims g in
          if \<not> claims_match c i digest then Inl (RXPError ''grant_scope_mismatch'')
          else if xg_legacy_approval_v1 c \<noteq> xi_approval_v1_binding i then Inl (RXPError ''legacy_binding_mismatch'')
          else if \<not> bounds_contain (xg_bounds c) (xi_requested_resources i) then
            Inl (RXPError ''grant_bounds_exceeded'')
          else if level_rank (xg_minimum_determinism c) < level_rank (xi_required_determinism i) then
            Inl (RXPError ''grant_determinism_too_weak'')
          else (case validate_window (xg_issued_at c) (xg_expires_at c) of Inl e \<Rightarrow> Inl e | Inr _ \<Rightarrow>
            (case parse_utc checked_at of Inl e \<Rightarrow> Inl e | Inr moment \<Rightarrow>
            (case parse_utc (xg_issued_at c) of Inl e \<Rightarrow> Inl e | Inr issued \<Rightarrow>
            (case parse_utc (xg_expires_at c) of Inl e \<Rightarrow> Inl e | Inr expires \<Rightarrow>
              if moment + clock_skew < issued then Inl (RXPError ''grant_not_yet_valid'')
              else if expires \<le> moment then Inl (RXPError ''grant_expired'') else Inr ())))))))"

text \<open>
  \<open>migrate_consumed_approval_v1\<close>: a grant from the claims of a consumed approval token. The claims are
  a dictionary; \<open>format_utc\<close> is \<open>strftime\<close> of an epoch, \<open>None\<close> where it is out of range.
\<close>

definition legacy_required :: "string list" where
  "legacy_required = [''jti'', ''action'', ''scope'', ''action_digest'', ''config_sha256'', ''issued_at'', ''expires_at'']"

definition legacy_epoch :: "(int \<Rightarrow> string option) \<Rightarrow> json option \<Rightarrow> rxp_error + string" where
  "legacy_epoch format_utc v = (case v of
       Some (JInt i) \<Rightarrow> if i < 0 then Inl (RXPError ''legacy_claims_invalid'')
         else (case format_utc i of None \<Rightarrow> Inl (RXPError ''legacy_claims_invalid'') | Some s \<Rightarrow> Inr s)
     | _ \<Rightarrow> Inl (RXPError ''legacy_claims_invalid''))"

definition binding_of :: "(string \<times> json) list \<Rightarrow> string \<Rightarrow> legacy_binding option" where
  "binding_of claims token_sha256 = read_legacy (JObj
     [(''jti'', case_option JNull id (dict_get claims ''jti'')),
      (''action_digest'', case_option JNull id (dict_get claims ''action_digest'')),
      (''config_sha256'', case_option JNull id (dict_get claims ''config_sha256'')), (''token_sha256'', JStr token_sha256)])"

definition strip_tag :: "string \<Rightarrow> string" where
  "strip_tag s = (if take 7 s = ''sha256:'' then drop 7 s else s)"

definition migrate_approval ::
  "rxp_env \<Rightarrow> (int \<Rightarrow> string option) \<Rightarrow> (string \<Rightarrow> string \<Rightarrow> 'r \<Rightarrow> (rxp_error + bool) \<times> 'r) \<Rightarrow> grant_signer \<Rightarrow> intent
     \<Rightarrow> (string \<times> json) list \<Rightarrow> string \<Rightarrow> string \<Rightarrow> string \<Rightarrow> resource_bounds \<Rightarrow> level \<Rightarrow> string
     \<Rightarrow> ('r, rxp_error, grant) prog" where
  "migrate_approval E format_utc consume s i claims token_sha256 grant_id issuer_id bounds minimum nonce =
     (if \<not> set legacy_required \<subseteq> set (keys claims) then raiseE (RXPError ''legacy_claims_invalid'')
      else (case binding_of claims token_sha256 of None \<Rightarrow> raiseE (RXPError ''legacy_claims_invalid'')
       | Some b \<Rightarrow>
         if xi_approval_v1_binding i \<noteq> Some b then raiseE (RXPError ''legacy_binding_mismatch'')
         else if dict_get claims ''action'' \<noteq> Some (JStr (xi_action i))
             \<or> dict_get claims ''scope'' \<noteq> Some (JStr (xi_scope i)) then raiseE (RXPError ''legacy_scope_mismatch'')
         else if xl_config_sha256 b \<noteq> strip_tag (xm_config_sha256 (xi_run_manifest i)) then
           raiseE (RXPError ''legacy_config_mismatch'')
         else
           bindE (liftE (legacy_epoch format_utc (dict_get claims ''issued_at''))) (\<lambda>issued.
           bindE (liftE (legacy_epoch format_utc (dict_get claims ''expires_at''))) (\<lambda>expires.
           bindE (liftE (issue_grant E s i grant_id issuer_id bounds minimum issued expires nonce (Some b))) (\<lambda>g.
           bindE (consume ''approval-token-v1-migration'' (xl_jti b)) (\<lambda>fresh.
           if \<not> fresh then raiseE (RXPError ''legacy_approval_replayed'') else returnE g))))))"

end
