(* ===== verification/RxpLedger.thy ===== *)
theory RxpLedger
  imports RxpGrants
begin

text \<open>
  The append-only matrix ledger of the RXP protocol (\<open>MatrixLedger\<close> in \<open>protocols/rxp/ledger.py\<close>): the
  frozen plan, the chained entries and the state machine of every cell. A method is an operation on
  the ledger; \<open>record_receipt\<close> also has the replay registry in its state. The lock serialises the
  methods, so several threads are a sequence of operations.
\<close>

subsection \<open>Entries\<close>

record ledger_entry_core =
  lc_sequence :: int
  lc_event_type :: string
  lc_matrix_id :: string
  lc_cell_id :: string
  lc_document_kind :: string
  lc_document_digest :: string
  lc_document :: json
  lc_causal_parents :: "string list"
  lc_previous_root :: string
  lc_recorded_at :: string

record ledger_entry = ledger_entry_core +
  le_entry_digest :: string
  le_root :: string

definition core_json :: "ledger_entry_core \<Rightarrow> json" where
  "core_json c = JObj [(''sequence'', JInt (lc_sequence c)), (''event_type'', JStr (lc_event_type c)),
     (''matrix_id'', JStr (lc_matrix_id c)), (''cell_id'', JStr (lc_cell_id c)),
     (''document_kind'', JStr (lc_document_kind c)), (''document_digest'', JStr (lc_document_digest c)),
     (''document'', lc_document c), (''causal_parents'', strings_json (lc_causal_parents c)),
     (''previous_root'', JStr (lc_previous_root c)), (''recorded_at'', JStr (lc_recorded_at c))]"

definition core_ok :: "rxp_env \<Rightarrow> ledger_entry_core \<Rightarrow> bool" where
  "core_ok E c \<longleftrightarrow> 1 \<le> lc_sequence c
     \<and> lc_event_type c \<in> {''MATRIX_FROZEN'', ''INTENT_RECORDED'', ''GRANT_RECORDED'', ''RECEIPT_RECORDED'',
          ''EVIDENCE_RECORDED'', ''DECISION_RECORDED''}
     \<and> id_ok (lc_matrix_id c) \<and> id_ok (lc_cell_id c)
     \<and> lc_document_kind c \<in> {''MatrixPlan'', ''Intent'', ''Grant'', ''Receipt'', ''Evidence'', ''Decision''}
     \<and> rxp_digest (lc_document_digest c)
     \<and> (case lc_document c of JObj kvs \<Rightarrow> json_object_ok E kvs | _ \<Rightarrow> False)
     \<and> list_all rxp_digest (lc_causal_parents c) \<and> rxp_digest (lc_previous_root c)
     \<and> utc_pattern (lc_recorded_at c)"

definition entry_ok :: "rxp_env \<Rightarrow> ledger_entry \<Rightarrow> bool" where
  "entry_ok E e \<longleftrightarrow> core_ok E (ledger_entry_core.truncate e) \<and> rxp_digest (le_entry_digest e) \<and> rxp_digest (le_root e)"

definition seal_entry :: "ledger_entry_core \<Rightarrow> string \<Rightarrow> string \<Rightarrow> ledger_entry" where
  "seal_entry c digest new_root = ledger_entry_core.extend c (ledger_entry.fields digest new_root)"

subsection \<open>Cells and ledgers\<close>

record rxp_cell =
  cl_intent :: intent
  cl_intent_digest :: string
  cl_state :: cell_state
  cl_grant :: "grant option"
  cl_grant_digest :: "string option"
  cl_receipt :: "rxp_receipt option"
  cl_receipt_digest :: "string option"
  cl_evidence :: "rxp_evidence list"
  cl_evidence_digests :: "string list"
  cl_decision :: "rxp_decision option"
  cl_decision_digest :: "string option"

definition new_cell :: "intent \<Rightarrow> string \<Rightarrow> rxp_cell" where
  "new_cell i digest = \<lparr>cl_intent = i, cl_intent_digest = digest, cl_state = INTENT_RECORDED, cl_grant = None,
     cl_grant_digest = None, cl_receipt = None, cl_receipt_digest = None, cl_evidence = [],
     cl_evidence_digests = [], cl_decision = None, cl_decision_digest = None\<rparr>"

record cell_snapshot =
  sn_cell_id :: string
  sn_state :: cell_state
  sn_intent_digest :: string
  sn_grant_digest :: "string option"
  sn_receipt_digest :: "string option"
  sn_evidence_digests :: "string list"
  sn_decision_digest :: "string option"
  sn_determinism_level :: level

definition snapshot_cell :: "rxp_cell \<Rightarrow> cell_snapshot" where
  "snapshot_cell c = \<lparr>sn_cell_id = xi_cell_id (cl_intent c), sn_state = cl_state c,
     sn_intent_digest = cl_intent_digest c, sn_grant_digest = cl_grant_digest c,
     sn_receipt_digest = cl_receipt_digest c, sn_evidence_digests = sort (cl_evidence_digests c),
     sn_decision_digest = cl_decision_digest c,
     sn_determinism_level = (case cl_receipt c of None \<Rightarrow> D0_UNVERIFIED | Some r \<Rightarrow> xc_determinism_level r)\<rparr>"

record matrix_ledger =
  ml_matrix_id :: string
  ml_plan :: matrix_plan
  ml_plan_digest :: string
  ml_expected :: "(string \<times> cell_definition) list"
  ml_entries :: "ledger_entry list"
  ml_cells :: "(string \<times> rxp_cell) list"
  ml_root :: string
  ml_grant_ids :: "string list"
  ml_intent_ids :: "string list"

type_synonym 'a ledger_op = "(matrix_ledger, rxp_error, 'a) prog"

subsection \<open>Appending an entry\<close>

definition check_append_time :: "matrix_ledger \<Rightarrow> string \<Rightarrow> rxp_error + unit" where
  "check_append_time L recorded_at =
     (if ml_entries L = [] then Inr ()
      else bindR (parse_utc recorded_at) (\<lambda>now.
        bindR (parse_utc (lc_recorded_at (last (ml_entries L)))) (\<lambda>before.
        if now < before then Inl (RXPError ''ledger_time_regression'') else Inr ())))"

text \<open>The next entry, with every digest and check that building it takes.\<close>

definition next_entry ::
  "rxp_env \<Rightarrow> matrix_ledger \<Rightarrow> string \<Rightarrow> document \<Rightarrow> string list \<Rightarrow> string \<Rightarrow> rxp_error + ledger_entry" where
  "next_entry E L event_type doc parents recorded_at =
     bindR (check_append_time L recorded_at) (\<lambda>_.
     bindR (canonical_value E (document_json doc)) (\<lambda>value.
     bindR (digest_document E (document_json doc)) (\<lambda>digest.
     let c = \<lparr>lc_sequence = int (length (ml_entries L)) + 1, lc_event_type = event_type,
           lc_matrix_id = ml_matrix_id L, lc_cell_id = document_cell_id doc,
           lc_document_kind = document_kind doc, lc_document_digest = digest, lc_document = value,
           lc_causal_parents = parents, lc_previous_root = ml_root L, lc_recorded_at = recorded_at\<rparr> in
     if \<not> core_ok E c then Inl (RxpValueError ''LedgerEntryCore'')
     else bindR (digest_ledger_entry E (core_json c)) (\<lambda>entry_digest.
       bindR (extend_ledger_root E (ml_root L) entry_digest) (\<lambda>new_root.
       let e = seal_entry c entry_digest new_root in
       if \<not> entry_ok E e then Inl (RxpValueError ''LedgerEntry'') else Inr e)))))"

definition append_document :: "rxp_env \<Rightarrow> string \<Rightarrow> document \<Rightarrow> string list \<Rightarrow> string \<Rightarrow> unit ledger_op" where
  "append_document E event_type doc parents recorded_at = (\<lambda>L.
     case next_entry E L event_type doc parents recorded_at of
       Inl e \<Rightarrow> (Inl e, L)
     | Inr e \<Rightarrow> (Inr (), L\<lparr>ml_entries := ml_entries L @ [e], ml_root := le_root e\<rparr>))"

definition empty_ledger :: "rxp_env \<Rightarrow> matrix_plan \<Rightarrow> string \<Rightarrow> matrix_ledger" where
  "empty_ledger E p digest = \<lparr>ml_matrix_id = xp_matrix_id p, ml_plan = p, ml_plan_digest = digest,
     ml_expected = map (\<lambda>c. (xy_cell_id c, c)) (xp_cells p), ml_entries = [], ml_cells = [],
     ml_root = genesis_root E, ml_grant_ids = [], ml_intent_ids = []\<rparr>"

definition new_matrix_ledger :: "rxp_env \<Rightarrow> matrix_plan \<Rightarrow> rxp_error + matrix_ledger" where
  "new_matrix_ledger E p = bindR (digest_document E (plan_json p)) (\<lambda>digest.
     case append_document E ''MATRIX_FROZEN'' (PlanDoc p) [] (xp_frozen_at p) (empty_ledger E p digest) of
       (Inl e, L) \<Rightarrow> Inl e
     | (Inr u, L) \<Rightarrow> Inr L)"

subsection \<open>Recording documents\<close>

definition require_matrix :: "string \<Rightarrow> unit ledger_op" where
  "require_matrix m = bindE (getsE ml_matrix_id) (\<lambda>own. raise_if (m \<noteq> own) (RXPError ''matrix_mismatch''))"

definition require_cell :: "string \<Rightarrow> rxp_cell ledger_op" where
  "require_cell c = bindE (getsE (\<lambda>L. dict_get (ml_cells L) c)) (\<lambda>x. case x of
     None \<Rightarrow> raiseE (RXPError ''cell_unknown'') | Some cell \<Rightarrow> returnE cell)"

definition require_state :: "rxp_cell \<Rightarrow> cell_state \<Rightarrow> unit ledger_op" where
  "require_state c expected = raise_if (cl_state c \<noteq> expected) (RXPError ''cell_state_invalid'')"

definition put_cell :: "string \<Rightarrow> rxp_cell \<Rightarrow> unit ledger_op" where
  "put_cell k c = modifyE (\<lambda>L. L\<lparr>ml_cells := dict_set k c (ml_cells L)\<rparr>)"

definition record_intent :: "rxp_env \<Rightarrow> intent \<Rightarrow> string ledger_op" where
  "record_intent E i =
     thenE (require_matrix (xi_matrix_id i))
     (bindE (getsE (\<lambda>L. L)) (\<lambda>L. case dict_get (ml_expected L) (xi_cell_id i) of
        None \<Rightarrow> raiseE (RXPError ''cell_not_declared'')
      | Some d \<Rightarrow>
         thenE (liftE (checked
           [(\<not> coordinates_eq (xi_coordinates i) (xy_coordinates d), RXPError ''cell_coordinates_mismatch''),
            (xi_cell_id i \<in> set (keys (ml_cells L)), RXPError ''cell_already_exists''),
            (xi_intent_id i \<in> set (ml_intent_ids L), RXPError ''intent_replayed'')] ()))
         (bindE (liftE (digest_document E (intent_json i))) (\<lambda>digest.
         thenE (append_document E ''INTENT_RECORDED'' (IntentDoc i) [] (xi_created_at i))
         (thenE (put_cell (xi_cell_id i) (new_cell i digest))
         (thenE (modifyE (\<lambda>L. L\<lparr>ml_intent_ids := ml_intent_ids L @ [xi_intent_id i]\<rparr>))
         (returnE digest)))))))"

definition record_grant :: "rxp_env \<Rightarrow> grant \<Rightarrow> grant_signer \<Rightarrow> string \<Rightarrow> string ledger_op" where
  "record_grant E g verifier accepted_at =
     (let k = xg_cell_id (gr_claims g); grant_id = xg_grant_id (gr_claims g) in
      thenE (require_matrix (xg_matrix_id (gr_claims g)))
      (bindE (require_cell k) (\<lambda>c.
      thenE (require_state c INTENT_RECORDED)
      (bindE (getsE ml_grant_ids) (\<lambda>ids.
      thenE (raise_if (grant_id \<in> set ids) (RXPError ''grant_id_replayed''))
      (thenE (liftE (verify_grant E verifier g (cl_intent c) accepted_at))
      (bindE (liftE (digest_document E (grant_json g))) (\<lambda>digest.
      thenE (append_document E ''GRANT_RECORDED'' (GrantDoc g) [cl_intent_digest c] accepted_at)
      (thenE (put_cell k (c\<lparr>cl_grant := Some g, cl_grant_digest := Some digest, cl_state := GRANTED\<rparr>))
      (thenE (modifyE (\<lambda>L. L\<lparr>ml_grant_ids := ml_grant_ids L @ [grant_id]\<rparr>))
      (returnE digest)))))))))))"

text \<open>The usage of a receipt against the bounds of the grant: the fields that exceed them.\<close>

definition exceeded_fields :: "rxp_receipt \<Rightarrow> resource_bounds \<Rightarrow> string list" where
  "exceeded_fields r b =
     (let u = xc_usage r in
      (if rb_gpu_count b < ru_gpu_count u then [''gpu_count''] else [])
      @ (if rb_wall_time_seconds b < ru_wall_time_seconds u then [''wall_time_seconds''] else [])
      @ (if rb_gpu_time_seconds b < ru_gpu_time_seconds u then [''gpu_time_seconds''] else [])
      @ (if rb_artifact_bytes b < ru_artifact_bytes u then [''artifact_bytes''] else [])
      @ (if xf_bytes (xc_output r) \<noteq> ru_artifact_bytes u then [''output.bytes''] else []))"

definition validate_receipt :: "rxp_receipt \<Rightarrow> grant \<Rightarrow> intent \<Rightarrow> rxp_error + unit" where
  "validate_receipt r g i =
     bindR (parse_utc (xc_started_at r)) (\<lambda>started.
     bindR (parse_utc (xc_completed_at r)) (\<lambda>completed.
     bindR (parse_utc (xg_issued_at (gr_claims g))) (\<lambda>issued.
     bindR (parse_utc (xg_expires_at (gr_claims g))) (\<lambda>expires.
     checked
       [(completed < started, RXPError ''receipt_time_invalid''),
        (started + clock_skew < issued, RXPError ''grant_not_yet_valid''),
        (expires \<le> started, RXPError ''grant_expired''),
        (exceeded_fields r (xg_bounds (gr_claims g)) \<noteq> [], RXPError ''grant_bounds_exceeded''),
        (level_rank (xc_determinism_level r) < level_rank (xg_minimum_determinism (gr_claims g)),
         RXPError ''receipt_determinism_too_weak''),
        (level_rank (xc_determinism_level r) < level_rank (xi_required_determinism i),
         RXPError ''receipt_determinism_too_weak'')] ()))))"

text \<open>Everything that \<open>record_receipt\<close> checks before it consumes the grant.\<close>

definition receipt_checks :: "rxp_env \<Rightarrow> rxp_receipt \<Rightarrow> (rxp_cell \<times> grant \<times> string) ledger_op" where
  "receipt_checks E r =
     thenE (require_matrix (xc_matrix_id r))
     (bindE (require_cell (xc_cell_id r)) (\<lambda>c.
     thenE (require_state c GRANTED)
     (case (cl_grant c, cl_grant_digest c) of
        (Some g, Some grant_digest) \<Rightarrow>
          thenE (raise_if (xc_intent_digest r \<noteq> cl_intent_digest c \<or> xc_grant_digest r \<noteq> grant_digest
             \<or> xc_grant_id r \<noteq> xg_grant_id (gr_claims g)) (RXPError ''receipt_causality_mismatch''))
          (thenE (liftE (validate_receipt r g (cl_intent c)))
          (bindE (getsE (\<lambda>L. L)) (\<lambda>L.
          thenE (liftE (check_append_time L (xc_completed_at r)))
          (thenE (liftE (rxp_bytes E (rxp_receipt_json r))) (returnE (c, g, grant_digest))))))
      | _ \<Rightarrow> raiseE (RXPError ''ledger_corrupt''))))"

definition store_receipt :: "rxp_env \<Rightarrow> rxp_receipt \<Rightarrow> rxp_cell \<Rightarrow> string \<Rightarrow> string ledger_op" where
  "store_receipt E r c grant_digest =
     bindE (liftE (digest_document E (rxp_receipt_json r))) (\<lambda>digest.
     thenE (append_document E ''RECEIPT_RECORDED'' (ReceiptDoc r) [cl_intent_digest c, grant_digest] (xc_completed_at r))
     (thenE (put_cell (xc_cell_id r) (c\<lparr>cl_receipt := Some r, cl_receipt_digest := Some digest,
        cl_state := RECEIPT_RECORDED\<rparr>))
     (returnE digest)))"

text \<open>An operation on the ledger, and one on the registry, as operations on both.\<close>

definition with_ledger :: "'a ledger_op \<Rightarrow> (matrix_ledger \<times> 'r, rxp_error, 'a) prog" where
  "with_ledger m = (\<lambda>(L, R). case m L of (x, L') \<Rightarrow> (x, (L', R)))"

definition with_registry :: "('r, rxp_error, 'a) prog \<Rightarrow> (matrix_ledger \<times> 'r, rxp_error, 'a) prog" where
  "with_registry m = (\<lambda>(L, R). case m R of (x, R') \<Rightarrow> (x, (L, R')))"

definition record_receipt ::
  "rxp_env \<Rightarrow> (string \<Rightarrow> string \<Rightarrow> 'r \<Rightarrow> (rxp_error + bool) \<times> 'r) \<Rightarrow> rxp_receipt
     \<Rightarrow> (matrix_ledger \<times> 'r, rxp_error, string) prog" where
  "record_receipt E consume r =
     bindE (with_ledger (receipt_checks E r)) (\<lambda>(c, g, grant_digest).
     bindE (with_registry (consume ''rxp-grant'' (xg_grant_id (gr_claims g)))) (\<lambda>fresh_grant.
     thenE (raise_if (\<not> fresh_grant) (RXPError ''grant_replayed''))
     (with_ledger (store_receipt E r c grant_digest))))"

definition record_evidence_document :: "rxp_env \<Rightarrow> rxp_evidence \<Rightarrow> string ledger_op" where
  "record_evidence_document E e =
     thenE (require_matrix (xe_matrix_id e))
     (bindE (require_cell (xe_cell_id e)) (\<lambda>c.
     thenE (raise_if (cl_state c \<notin> {RECEIPT_RECORDED, EVIDENCE_READY}) (RXPError ''cell_state_invalid''))
     (case cl_receipt_digest c of
        None \<Rightarrow> raiseE (RXPError ''evidence_causality_mismatch'')
      | Some receipt_digest \<Rightarrow>
         thenE (liftE (checked
           [(xe_receipt_digest e \<noteq> receipt_digest, RXPError ''evidence_causality_mismatch''),
            (xe_evidence_id e \<in> xe_evidence_id ` set (cl_evidence c), RXPError ''evidence_replayed'')] ()))
         (bindE (liftE (digest_document E (rxp_evidence_json e))) (\<lambda>digest.
         thenE (raise_if (digest \<in> set (cl_evidence_digests c)) (RXPError ''evidence_replayed''))
         (thenE (append_document E ''EVIDENCE_RECORDED'' (EvidenceDoc e) [receipt_digest] (xe_observed_at e))
         (let c' = c\<lparr>cl_evidence := cl_evidence c @ [e], cl_evidence_digests := cl_evidence_digests c @ [digest]\<rparr> in
          thenE (put_cell (xe_cell_id e) c')
          (bindE (liftE (rxp_evidence_gate E (cl_evidence c'))) (\<lambda>g.
          thenE (if ga_status g = ''PASS'' then put_cell (xe_cell_id e) (c'\<lparr>cl_state := EVIDENCE_READY\<rparr>)
                 else returnE ())
          (returnE digest))))))))))"

definition assess_evidence :: "rxp_env \<Rightarrow> string \<Rightarrow> gate_assessment ledger_op" where
  "assess_evidence E k = bindE (require_cell k) (\<lambda>c. liftE (rxp_evidence_gate E (cl_evidence c)))"

definition record_decision :: "rxp_env \<Rightarrow> rxp_decision \<Rightarrow> string ledger_op" where
  "record_decision E d =
     thenE (require_matrix (xd_matrix_id d))
     (bindE (require_cell (xd_cell_id d)) (\<lambda>c.
     thenE (require_state c EVIDENCE_READY)
     (case (cl_receipt c, cl_receipt_digest c) of
        (Some r, Some receipt_digest) \<Rightarrow>
          thenE (raise_if (xc_outcome r \<noteq> ''SUCCEEDED'') (RXPError ''receipt_failed''))
          (bindE (liftE (rxp_evidence_gate E (cl_evidence c))) (\<lambda>gate.
          thenE (liftE (checked
            [(xd_gate d \<noteq> gate, RXPError ''decision_gate_mismatch''),
             (xd_intent_digest d \<noteq> cl_intent_digest c \<or> xd_receipt_digest d \<noteq> receipt_digest
                \<or> sort (cl_evidence_digests c) \<noteq> xd_evidence_digests d
                \<or> xd_determinism_level d \<noteq> xc_determinism_level r, RXPError ''decision_causality_mismatch''),
             (level_rank (xd_determinism_level d) < level_rank (xi_required_determinism (cl_intent c)),
              RXPError ''decision_determinism_too_weak'')] ()))
          (bindE (liftE (digest_document E (rxp_decision_json d))) (\<lambda>digest.
          thenE (append_document E ''DECISION_RECORDED'' (DecisionDoc d)
             ([cl_intent_digest c, receipt_digest] @ sort (cl_evidence_digests c)) (xd_decided_at d))
          (thenE (put_cell (xd_cell_id d) (c\<lparr>cl_decision := Some d, cl_decision_digest := Some digest,
             cl_state := DECIDED\<rparr>))
          (returnE digest))))))
      | _ \<Rightarrow> raiseE (RXPError ''ledger_corrupt''))))"

subsection \<open>Snapshots\<close>

record ledger_document =
  ld_matrix_id :: string
  ld_matrix_plan_digest :: string
  ld_expected_cell_count :: int
  ld_decided_cell_count :: int
  ld_missing_decisions :: "string list"
  ld_completeness :: string
  ld_entry_count :: int
  ld_root :: string
  ld_entries :: "ledger_entry list"
  ld_cells :: "cell_snapshot list"

definition decided_cells :: "(string \<times> rxp_cell) list \<Rightarrow> string list" where
  "decided_cells cells = map fst (filter (\<lambda>(k, c). cl_state c = DECIDED) cells)"

definition sorted_snapshots :: "(string \<times> rxp_cell) list \<Rightarrow> cell_snapshot list" where
  "sorted_snapshots cells = map (snapshot_cell \<circ> snd) (sort_key fst cells)"

definition snapshot_ledger :: "matrix_ledger \<Rightarrow> ledger_document" where
  "snapshot_ledger L =
     (let missing = sort (filter (\<lambda>k. k \<notin> set (decided_cells (ml_cells L))) (keys (ml_expected L))) in
      \<lparr>ld_matrix_id = ml_matrix_id L, ld_matrix_plan_digest = ml_plan_digest L,
        ld_expected_cell_count = int (length (ml_expected L)),
        ld_decided_cell_count = int (length (decided_cells (ml_cells L))), ld_missing_decisions = missing,
        ld_completeness = (if missing = [] then ''COMPLETE'' else ''INCOMPLETE''),
        ld_entry_count = int (length (ml_entries L)), ld_root = ml_root L, ld_entries = ml_entries L,
        ld_cells = sorted_snapshots (ml_cells L)\<rparr>)"

definition snapshot_ok :: "cell_snapshot \<Rightarrow> bool" where
  "snapshot_ok s \<longleftrightarrow> id_ok (sn_cell_id s) \<and> rxp_digest (sn_intent_digest s)
     \<and> pred_option rxp_digest (sn_grant_digest s) \<and> pred_option rxp_digest (sn_receipt_digest s)
     \<and> pred_option rxp_digest (sn_decision_digest s)"

definition ledger_document_ok :: "rxp_env \<Rightarrow> ledger_document \<Rightarrow> bool" where
  "ledger_document_ok E d \<longleftrightarrow> id_ok (ld_matrix_id d) \<and> rxp_digest (ld_matrix_plan_digest d)
     \<and> in_range 1 10000 (ld_expected_cell_count d) \<and> in_range 0 10000 (ld_decided_cell_count d)
     \<and> rxp_digest (ld_root d) \<and> list_all (entry_ok E) (ld_entries d) \<and> list_all snapshot_ok (ld_cells d)
     \<and> ld_entry_count d = int (length (ld_entries d)) \<and> sorted (map sn_cell_id (ld_cells d))
     \<and> ld_decided_cell_count d + int (length (ld_missing_decisions d)) = ld_expected_cell_count d
     \<and> sorted (ld_missing_decisions d)
     \<and> ld_completeness d = (if ld_missing_decisions d = [] then ''COMPLETE'' else ''INCOMPLETE'')"

end
