(* ===== verification/RxpVerify.thy ===== *)
theory RxpVerify
  imports RxpLedger
begin

text \<open>
  The offline verifier of a ledger document (\<open>verify_ledger_document\<close>, \<open>_verify_transition\<close>,
  \<open>_verify_recorded_at\<close> and \<open>verify_grant_signatures\<close> in \<open>protocols/rxp/ledger.py\<close>), on a document that
  Pydantic has read (\<open>ledger_document_ok\<close>). The loop over the entries threads the record
  \<open>verify_state\<close>, which holds the local variables of the function.
\<close>

record verify_state =
  vs_root :: string
  vs_cells :: "(string \<times> rxp_cell) list"
  vs_plan :: "matrix_plan option"
  vs_seen_digests :: "string list"
  vs_intent_ids :: "string list"
  vs_grant_ids :: "string list"
  vs_time :: "int option"

definition verify_start :: "rxp_env \<Rightarrow> verify_state" where
  "verify_start E = \<lparr>vs_root = genesis_root E, vs_cells = [], vs_plan = None, vs_seen_digests = [],
     vs_intent_ids = [], vs_grant_ids = [], vs_time = None\<rparr>"

subsection \<open>Transitions of a cell\<close>

definition transition_invalid :: rxp_error where
  "transition_invalid = RXPError ''transition_invalid''"

definition verify_intent_entry ::
  "(string \<times> rxp_cell) list \<Rightarrow> ledger_entry \<Rightarrow> intent \<Rightarrow> matrix_plan \<Rightarrow> rxp_error + (string \<times> rxp_cell) list" where
  "verify_intent_entry cells e i p =
     (let k = lc_cell_id e in
      checked
        [(lc_event_type e \<noteq> ''INTENT_RECORDED'' \<or> lc_causal_parents e \<noteq> [] \<or> k \<in> set (keys cells), transition_invalid),
         ((case dict_get (map (\<lambda>c. (xy_cell_id c, c)) (xp_cells p)) k of
             None \<Rightarrow> True
           | Some d \<Rightarrow> \<not> coordinates_eq (xi_coordinates i) (xy_coordinates d)), RXPError ''cell_coordinates_mismatch'')]
        (dict_set k (new_cell i (lc_document_digest e)) cells))"

definition verify_grant_entry :: "rxp_cell \<Rightarrow> ledger_entry \<Rightarrow> grant \<Rightarrow> rxp_error + rxp_cell" where
  "verify_grant_entry c e g =
     checked
       [(cl_state c \<noteq> INTENT_RECORDED \<or> lc_event_type e \<noteq> ''GRANT_RECORDED'', transition_invalid),
        (lc_causal_parents e \<noteq> [cl_intent_digest c], RXPError ''causal_parent_mismatch''),
        (\<not> claims_match (gr_claims g) (cl_intent c) (cl_intent_digest c)
           \<or> \<not> bounds_contain (xg_bounds (gr_claims g)) (xi_requested_resources (cl_intent c)),
         RXPError ''grant_scope_mismatch'')]
       (c\<lparr>cl_grant := Some g, cl_grant_digest := Some (lc_document_digest e), cl_state := GRANTED\<rparr>)"

definition verify_receipt_entry :: "rxp_cell \<Rightarrow> ledger_entry \<Rightarrow> rxp_receipt \<Rightarrow> rxp_error + rxp_cell" where
  "verify_receipt_entry c e r =
     (if cl_state c \<noteq> GRANTED \<or> lc_event_type e \<noteq> ''RECEIPT_RECORDED'' then Inl transition_invalid
      else (case (cl_grant c, cl_grant_digest c) of
          (Some g, Some grant_digest) \<Rightarrow>
            bindR (checked
              [(lc_causal_parents e \<noteq> [cl_intent_digest c, grant_digest], RXPError ''causal_parent_mismatch''),
               (xc_intent_digest r \<noteq> cl_intent_digest c \<or> xc_grant_digest r \<noteq> grant_digest
                  \<or> xc_grant_id r \<noteq> xg_grant_id (gr_claims g), RXPError ''receipt_causality_mismatch'')] ()) (\<lambda>_.
            bindR (validate_receipt r g (cl_intent c)) (\<lambda>_.
            Inr (c\<lparr>cl_receipt := Some r, cl_receipt_digest := Some (lc_document_digest e),
              cl_state := RECEIPT_RECORDED\<rparr>)))
        | _ \<Rightarrow> Inl (RXPError ''ledger_corrupt'')))"

definition verify_evidence_entry :: "rxp_env \<Rightarrow> rxp_cell \<Rightarrow> ledger_entry \<Rightarrow> rxp_evidence \<Rightarrow> rxp_error + rxp_cell" where
  "verify_evidence_entry E c e v =
     bindR (checked
       [(cl_state c \<notin> {RECEIPT_RECORDED, EVIDENCE_READY}, transition_invalid),
        (cl_receipt_digest c \<noteq> Some (xe_receipt_digest v) \<or> lc_causal_parents e \<noteq> [xe_receipt_digest v],
         RXPError ''evidence_causality_mismatch''),
        (xe_evidence_id v \<in> xe_evidence_id ` set (cl_evidence c), RXPError ''evidence_replayed'')] ()) (\<lambda>_.
     let c' = c\<lparr>cl_evidence := cl_evidence c @ [v], cl_evidence_digests := cl_evidence_digests c @ [lc_document_digest e]\<rparr> in
     bindR (rxp_evidence_gate E (cl_evidence c')) (\<lambda>g.
     Inr (if ga_status g = ''PASS'' then c'\<lparr>cl_state := EVIDENCE_READY\<rparr> else c')))"

definition verify_decision_entry :: "rxp_env \<Rightarrow> rxp_cell \<Rightarrow> ledger_entry \<Rightarrow> rxp_decision \<Rightarrow> rxp_error + rxp_cell" where
  "verify_decision_entry E c e d =
     (if cl_state c \<noteq> EVIDENCE_READY \<or> lc_event_type e \<noteq> ''DECISION_RECORDED'' then Inl transition_invalid
      else (case (cl_receipt c, cl_receipt_digest c) of
          (Some r, Some receipt_digest) \<Rightarrow>
            bindR (rxp_evidence_gate E (cl_evidence c)) (\<lambda>gate.
            checked
              [(lc_causal_parents e \<noteq> [cl_intent_digest c, receipt_digest] @ sort (cl_evidence_digests c)
                  \<or> xd_gate d \<noteq> gate, RXPError ''decision_gate_mismatch''),
               (xd_intent_digest d \<noteq> cl_intent_digest c \<or> xd_receipt_digest d \<noteq> receipt_digest
                  \<or> xd_evidence_digests d \<noteq> sort (cl_evidence_digests c)
                  \<or> xd_determinism_level d \<noteq> xc_determinism_level r, RXPError ''decision_causality_mismatch''),
               (xc_outcome r \<noteq> ''SUCCEEDED'', RXPError ''receipt_failed'')]
              (c\<lparr>cl_decision := Some d, cl_decision_digest := Some (lc_document_digest e), cl_state := DECIDED\<rparr>))
        | _ \<Rightarrow> Inl (RXPError ''ledger_corrupt'')))"

text \<open>\<open>_verify_transition\<close>.\<close>

definition verify_transition ::
  "rxp_env \<Rightarrow> (string \<times> rxp_cell) list \<Rightarrow> ledger_entry \<Rightarrow> document \<Rightarrow> matrix_plan
     \<Rightarrow> rxp_error + (string \<times> rxp_cell) list" where
  "verify_transition E cells e doc p =
     (case doc of
        IntentDoc i \<Rightarrow> verify_intent_entry cells e i p
      | _ \<Rightarrow>
         (case dict_get cells (lc_cell_id e) of
            None \<Rightarrow> Inl transition_invalid
          | Some c \<Rightarrow>
             bindR (case doc of
                 GrantDoc g \<Rightarrow> verify_grant_entry c e g
               | ReceiptDoc r \<Rightarrow> verify_receipt_entry c e r
               | EvidenceDoc v \<Rightarrow> verify_evidence_entry E c e v
               | DecisionDoc d \<Rightarrow> verify_decision_entry E c e d
               | _ \<Rightarrow> Inl (RXPError ''document_kind_unknown'')) (\<lambda>c'.
             Inr (dict_set (lc_cell_id e) c' cells))))"

text \<open>\<open>_verify_recorded_at\<close>: the time that the document itself names, or the window of a grant.\<close>

definition verify_recorded_at :: "ledger_entry \<Rightarrow> document \<Rightarrow> rxp_error + unit" where
  "verify_recorded_at e doc =
     (let same = (\<lambda>expected. if lc_recorded_at e \<noteq> expected then Inl (RXPError ''recorded_at_mismatch'') else Inr ()) in
      case doc of
        PlanDoc p \<Rightarrow> same (xp_frozen_at p)
      | IntentDoc i \<Rightarrow> same (xi_created_at i)
      | ReceiptDoc r \<Rightarrow> same (xc_completed_at r)
      | EvidenceDoc v \<Rightarrow> same (xe_observed_at v)
      | DecisionDoc d \<Rightarrow> same (xd_decided_at d)
      | GrantDoc g \<Rightarrow>
          bindR (parse_utc (lc_recorded_at e)) (\<lambda>recorded.
          bindR (parse_utc (xg_issued_at (gr_claims g))) (\<lambda>issued.
          bindR (parse_utc (xg_expires_at (gr_claims g))) (\<lambda>expires.
          if recorded + clock_skew < issued \<or> expires \<le> recorded
          then Inl (RXPError ''grant_record_time_invalid'') else Inr ()))))"

subsection \<open>The loop over the entries\<close>

definition seen_ids :: "verify_state \<Rightarrow> document \<Rightarrow> rxp_error + verify_state" where
  "seen_ids st doc =
     (case doc of
        IntentDoc i \<Rightarrow>
          if xi_intent_id i \<in> set (vs_intent_ids st) then Inl (RXPError ''intent_replayed'')
          else Inr (st\<lparr>vs_intent_ids := vs_intent_ids st @ [xi_intent_id i]\<rparr>)
      | GrantDoc g \<Rightarrow>
          if xg_grant_id (gr_claims g) \<in> set (vs_grant_ids st) then Inl (RXPError ''grant_id_replayed'')
          else Inr (st\<lparr>vs_grant_ids := vs_grant_ids st @ [xg_grant_id (gr_claims g)]\<rparr>)
      | _ \<Rightarrow> Inr st)"

definition verify_step ::
  "rxp_env \<Rightarrow> verify_state \<Rightarrow> string \<Rightarrow> int \<Rightarrow> ledger_entry \<Rightarrow> document \<Rightarrow> rxp_error + verify_state" where
  "verify_step E st matrix_id n e doc =
     (case doc of
        PlanDoc p \<Rightarrow>
          checked [(n \<noteq> 1 \<or> vs_plan st \<noteq> None \<or> lc_event_type e \<noteq> ''MATRIX_FROZEN'' \<or> lc_cell_id e \<noteq> ''matrix''
            \<or> lc_causal_parents e \<noteq> [] \<or> xp_matrix_id p \<noteq> matrix_id, transition_invalid)] (st\<lparr>vs_plan := Some p\<rparr>)
      | _ \<Rightarrow>
         (case vs_plan st of
            None \<Rightarrow> Inl transition_invalid
          | Some p \<Rightarrow> bindR (verify_transition E (vs_cells st) e doc p) (\<lambda>cells. Inr (st\<lparr>vs_cells := cells\<rparr>))))"

definition verify_entry ::
  "rxp_env \<Rightarrow> string \<Rightarrow> int \<Rightarrow> ledger_entry \<Rightarrow> verify_state \<Rightarrow> rxp_error + verify_state" where
  "verify_entry E matrix_id n e st =
     bindR (checked
       [(lc_sequence e \<noteq> n, RXPError ''ledger_sequence_invalid''),
        (lc_matrix_id e \<noteq> matrix_id \<or> lc_previous_root e \<noteq> vs_root st, RXPError ''ledger_chain_invalid'')] ()) (\<lambda>_.
     bindR (parse_model E (lc_document_kind e) (lc_document e)) (\<lambda>doc.
     bindR (checked
       [(document_cell_id doc \<noteq> lc_cell_id e, RXPError ''document_cell_mismatch''),
        (document_matrix_id doc \<noteq> lc_matrix_id e, RXPError ''document_matrix_mismatch'')] ()) (\<lambda>_.
     bindR (parse_utc (lc_recorded_at e)) (\<lambda>now.
     bindR (checked
       [((case vs_time st of None \<Rightarrow> False | Some before \<Rightarrow> now < before), RXPError ''ledger_time_regression'')] ()) (\<lambda>_.
     bindR (digest_document E (document_json doc)) (\<lambda>digest.
     bindR (checked
       [(digest \<noteq> lc_document_digest e, RXPError ''document_digest_mismatch''),
        (lc_document_digest e \<in> set (vs_seen_digests st), RXPError ''document_replayed'')] ()) (\<lambda>_.
     bindR (seen_ids (st\<lparr>vs_time := Some now\<rparr>) doc) (\<lambda>st1.
     bindR (digest_ledger_entry E (core_json (ledger_entry_core.truncate e))) (\<lambda>computed.
     bindR (checked [(computed \<noteq> le_entry_digest e, RXPError ''entry_digest_mismatch'')] ()) (\<lambda>_.
     bindR (extend_ledger_root E (vs_root st) computed) (\<lambda>new_root.
     bindR (checked
       [(new_root \<noteq> le_root e, RXPError ''ledger_root_mismatch''),
        (\<not> set (lc_causal_parents e) \<subseteq> set (vs_seen_digests st), RXPError ''causal_parent_missing'')] ()) (\<lambda>_.
     bindR (verify_step E (st1\<lparr>vs_root := new_root\<rparr>) matrix_id n e doc) (\<lambda>st2.
     bindR (verify_recorded_at e doc) (\<lambda>_.
     Inr (st2\<lparr>vs_seen_digests := vs_seen_digests st2 @ [lc_document_digest e]\<rparr>)))))))))))))))"

fun verify_entries ::
  "rxp_env \<Rightarrow> string \<Rightarrow> int \<Rightarrow> ledger_entry list \<Rightarrow> verify_state \<Rightarrow> rxp_error + verify_state" where
  "verify_entries E matrix_id n [] st = Inr st"
| "verify_entries E matrix_id n (e # es) st =
     bindR (verify_entry E matrix_id n e st) (\<lambda>st'. verify_entries E matrix_id (n + 1) es st')"

definition verify_ledger_document :: "rxp_env \<Rightarrow> ledger_document \<Rightarrow> rxp_error + unit" where
  "verify_ledger_document E d =
     bindR (verify_entries E (ld_matrix_id d) 1 (ld_entries d) (verify_start E)) (\<lambda>st.
     case vs_plan st of
       None \<Rightarrow> Inl (RXPError ''matrix_plan_missing'')
     | Some p \<Rightarrow>
        bindR (digest_document E (plan_json p)) (\<lambda>digest.
        let decided = remdups (decided_cells (vs_cells st)); plan_cells = remdups (map xy_cell_id (xp_cells p));
            missing = sort (filter (\<lambda>k. k \<notin> set decided) plan_cells) in
        checked
          [(vs_root st \<noteq> ld_root d \<or> sorted_snapshots (vs_cells st) \<noteq> ld_cells d
             \<or> digest \<noteq> ld_matrix_plan_digest d \<or> ld_expected_cell_count d \<noteq> int (length plan_cells)
             \<or> ld_decided_cell_count d \<noteq> int (length decided) \<or> ld_missing_decisions d \<noteq> missing,
            RXPError ''ledger_snapshot_mismatch'')] ()))"

subsection \<open>Grant signatures\<close>

fun verify_grant_signatures ::
  "rxp_env \<Rightarrow> grant_signer \<Rightarrow> (string \<times> intent) list \<Rightarrow> ledger_entry list \<Rightarrow> rxp_error + unit" where
  "verify_grant_signatures E s intents [] = Inr ()"
| "verify_grant_signatures E s intents (e # es) =
     (if lc_document_kind e = ''Intent'' then
        bindR (parse_model E ''Intent'' (lc_document e)) (\<lambda>doc. case doc of
          IntentDoc i \<Rightarrow> verify_grant_signatures E s (dict_set (lc_cell_id e) i intents) es
        | _ \<Rightarrow> Inl (RXPError ''document_invalid''))
      else if lc_document_kind e = ''Grant'' then
        bindR (parse_model E ''Grant'' (lc_document e)) (\<lambda>doc. case doc of
          GrantDoc g \<Rightarrow>
            (case dict_get intents (lc_cell_id e) of
               None \<Rightarrow> Inl (RXPError ''causal_parent_missing'')
             | Some i \<Rightarrow> bindR (verify_grant E s g i (xg_issued_at (gr_claims g)))
                 (\<lambda>_. verify_grant_signatures E s intents es))
        | _ \<Rightarrow> Inl (RXPError ''document_invalid''))
      else verify_grant_signatures E s intents es)"

end
