(* ===== verification/RxpCanon.thy ===== *)
theory RxpCanon
  imports RxpVerify
begin

text \<open>
  Writing a document into an entry and reading it back. The entry stores the normalised document with
  sorted keys; what the verifier reads is the document whose free-form dictionaries have sorted keys,
  and every check gives the same answer on it.
\<close>

subsection \<open>Values in canonical form\<close>

text \<open>Values that normalisation leaves alone: their text is in normal form C and valid UTF-8, their integers
  fit 64 bits, they have no floats and no key twice.\<close>

primrec plain_json :: "rxp_env \<Rightarrow> json \<Rightarrow> bool" where
  "plain_json E JNull = True"
| "plain_json E (JBool b) = True"
| "plain_json E (JInt i) = (- (2 ^ 63) \<le> i \<and> i < 2 ^ 63)"
| "plain_json E (JFloat r) = False"
| "plain_json E (JStr s) = (nfc E s = s \<and> utf8_valid s)"
| "plain_json E (JList xs) = list_all id (map (plain_json E) xs)"
| "plain_json E (JObj kvs) = (distinct (map fst kvs) \<and> list_all (\<lambda>kv. nfc E (fst kv) = fst kv \<and> utf8_valid (fst kv)) kvs \<and>
     list_all snd (map (map_prod id (plain_json E)) kvs))"

lemma stable_normalises:
  "plain_json E j \<Longrightarrow> normalise E j = Inr j"
  "\<forall>x \<in> set xs. plain_json E x \<Longrightarrow> normalise_items E xs = Inr xs"
  "distinct (map fst (d @ kvs)) \<Longrightarrow> \<forall>kv \<in> set kvs. nfc E (fst kv) = fst kv \<and> plain_json E (snd kv) \<Longrightarrow>
     normalise_members E d kvs = Inr (d @ kvs)"
  by (induction E j and E xs and E d kvs rule: normalise_normalise_items_normalise_members.induct)
    (auto simp: list_all_map_id list_all_map_snd list_all_iff)

lemma stable_float_free: "plain_json E j \<Longrightarrow> float_free j"
proof (induction j)
  case (JList xs)
  then show ?case by (auto simp: list_all_map_id)
next
  case (JObj kvs)
  then show ?case by (force simp: list_all_map_snd list_all_iff snds_snd)
qed simp_all

lemma stable_sorted: "plain_json E j \<Longrightarrow> plain_json E (sorted_json j)"
proof (induction j)
  case (JList xs)
  then show ?case by (auto simp: list_all_map_id)
next
  case (JObj kvs)
  have "distinct (map fst (sort_key fst (map (map_prod id sorted_json) kvs)))"
    using JObj.prems by (simp add: keys_sort comp_def)
  with JObj show ?case
    by (force simp: list_all_map_snd list_all_iff snds_snd)
qed simp_all

lemma stable_bytes: "plain_json E j \<Longrightarrow> rxp_bytes E j = Inr (canonical_bytes (crypto.truncate E) j)"
  by (simp add: rxp_bytes_def stable_normalises)

lemma stable_value: "plain_json E j \<Longrightarrow> canonical_value E j = Inr (sorted_json j)"
  by (simp add: canonical_value_def stable_normalises)

text \<open>Two values with the same sorted form have the same bytes and digests.\<close>

lemma same_bytes:
  assumes "plain_json E j" "plain_json E k" "sorted_json j = sorted_json k"
  shows "rxp_bytes E j = rxp_bytes E k"
proof -
  have "canonical_bytes C j = canonical_bytes C k" for C
    by (subst (1 2) canonical_sorted [symmetric]) (simp only: assms(3))
  then show ?thesis by (simp only: stable_bytes [OF assms(1)] stable_bytes [OF assms(2)])
qed

lemma same_digest: "plain_json E j \<Longrightarrow> plain_json E k \<Longrightarrow> sorted_json j = sorted_json k \<Longrightarrow>
    digest_document E j = digest_document E k"
  by (simp only: digest_document_def same_bytes [of E j k])

subsection \<open>Reading a field of a sorted object\<close>

lemma read_request_back: "request_ok r \<Longrightarrow> read_request (sorted_json (request_json r)) = Some r"
  by (cases r) (simp add: read_request_def request_json_def reads_simps del: sorted_json.simps(7))


lemma read_bounds_back: "bounds_ok r \<Longrightarrow> read_bounds (sorted_json (bounds_json r)) = Some r"
  by (cases r) (simp add: read_bounds_def bounds_json_def reads_simps del: sorted_json.simps(7))

lemma read_usage_back: "usage_ok r \<Longrightarrow> read_usage (sorted_json (usage_json r)) = Some r"
  by (cases r) (simp add: read_usage_def usage_json_def reads_simps del: sorted_json.simps(7))

lemma read_manifest_back: "rxp_manifest_ok m \<Longrightarrow> read_rxp_manifest (sorted_json (rxp_manifest_json m)) = Some m"
  by (cases m) (simp add: read_rxp_manifest_def rxp_manifest_json_def reads_simps del: sorted_json.simps(7))

lemma read_artifact_back: "artifact_ok a \<Longrightarrow> read_artifact (sorted_json (artifact_json a)) = Some a"
  by (cases a) (simp add: read_artifact_def artifact_json_def reads_simps del: sorted_json.simps(7))

lemma read_legacy_back: "legacy_ok a \<Longrightarrow> read_legacy (sorted_json (legacy_json a)) = Some a"
  by (cases a) (simp add: read_legacy_def legacy_json_def reads_simps del: sorted_json.simps(7))

lemma level_of_value: "level_of (JStr (level_value l)) = Some l"
  by (cases l) (simp_all add: level_of_def)

lemma legacy_not_null: "sorted_json (legacy_json x) \<noteq> JNull"
  by (simp add: legacy_json_def)

lemma optional_legacy_back:
  "dict_get kvs k = Some (opt_json legacy_json b) \<Longrightarrow> distinct (keys kvs) \<Longrightarrow> pred_option legacy_ok b \<Longrightarrow>
     optional_field (sorted_members kvs) k read_legacy = Some b"
  by (rule optional_back [of _ _ legacy_json]) (simp_all add: read_legacy_back legacy_not_null)

lemmas document_simps = field_sorted as_obj_sorted as_obj_members literal_field_def dict_get_sorted as_str_def as_int_def as_dict_def need_def
  Let_def optional_legacy_back optional_str_back level_of_value read_bounds_back read_request_back read_manifest_back
  read_usage_back read_artifact_back

lemma read_claims_back: "claims_ok c \<Longrightarrow> read_claims (sorted_json (claims_json c)) = Some c"
  by (cases c) (simp add: read_claims_def claims_json_def document_simps claims_ok_def del: sorted_json.simps(7))

lemma read_grant_back: "grant_ok g \<Longrightarrow> read_grant (sorted_json (grant_json g)) = Some g"
  by (cases g) (simp add: read_grant_def grant_json_def document_simps read_claims_back grant_ok_def del: sorted_json.simps(7))

subsection \<open>The documents that are read back\<close>

definition canon_coordinates :: "coordinates \<Rightarrow> coordinates" where
  "canon_coordinates c = sort_key fst c"

definition canon_plan :: "matrix_plan \<Rightarrow> matrix_plan" where
  "canon_plan p = p\<lparr>xp_cells := map (\<lambda>c. c\<lparr>xy_coordinates := canon_coordinates (xy_coordinates c)\<rparr>) (xp_cells p)\<rparr>"

definition canon_intent :: "intent \<Rightarrow> intent" where
  "canon_intent i = i\<lparr>xi_coordinates := canon_coordinates (xi_coordinates i),
     xi_action_payload := sorted_members (xi_action_payload i), xi_extensions := sorted_members (xi_extensions i)\<rparr>"

definition canon_receipt :: "rxp_receipt \<Rightarrow> rxp_receipt" where
  "canon_receipt r = r\<lparr>xc_metadata := sorted_members (xc_metadata r)\<rparr>"

definition canon_evidence :: "rxp_evidence \<Rightarrow> rxp_evidence" where
  "canon_evidence e = e\<lparr>xe_claims := sorted_members (xe_claims e)\<rparr>"

fun canon_document :: "document \<Rightarrow> document" where
  "canon_document (PlanDoc p) = PlanDoc (canon_plan p)"
| "canon_document (IntentDoc i) = IntentDoc (canon_intent i)"
| "canon_document (GrantDoc g) = GrantDoc g"
| "canon_document (ReceiptDoc r) = ReceiptDoc (canon_receipt r)"
| "canon_document (EvidenceDoc e) = EvidenceDoc (canon_evidence e)"
| "canon_document (DecisionDoc d) = DecisionDoc d"

lemma sorted_scalar [simp]: "sorted_json (scalar_json x) = scalar_json x"
  by (cases x) simp_all

lemma canon_coordinates_json: "coordinates_json (canon_coordinates c) = sorted_json (coordinates_json c)"
proof -
  have "map (map_prod id sorted_json) (map (map_prod id scalar_json) c) = map (map_prod id scalar_json) c"
    by (auto simp: map_idI)
  then show ?thesis
    by (simp only: coordinates_json_def canon_coordinates_def sorted_json.simps sort_map_values)
qed

lemma read_scalar_json: "read_scalar (scalar_json x) = Some x"
  by (cases x) simp_all

lemma read_coordinates_json: "read_coordinates (coordinates_json c) = Some c"
proof -
  have "all_some (\<lambda>(k, v). map_option (Pair k) (read_scalar v)) (map (map_prod id scalar_json) c) = Some c"
    by (induction c) (auto simp: read_scalar_json)
  then show ?thesis by (simp add: read_coordinates_def coordinates_json_def as_dict_def)
qed

lemma read_coordinates_back: "read_coordinates (sorted_json (coordinates_json c)) = Some (canon_coordinates c)"
  by (simp add: canon_coordinates_json [symmetric] read_coordinates_json)

lemma read_strings_back: "as_list as_str (sorted_json (strings_json xs)) = Some xs"
  by (simp add: as_list_def strings_json_def as_str_def all_some_map [where h = id, simplified] comp_def)

lemma read_dict_back: "as_dict (sorted_json (JObj kvs)) = Some (sorted_members kvs)"
  by (simp add: as_dict_def sorted_obj del: sorted_json.simps)

lemma read_intent_back:
  "intent_ok E (canon_intent i) \<Longrightarrow> read_intent E (sorted_json (intent_json i)) = Some (canon_intent i)"
  by (cases i) (simp add: read_intent_def intent_json_def document_simps canon_intent_def read_coordinates_back
    default_dict_def sorted_obj intent_ok_def del: sorted_json.simps(7))

lemma read_receipt_back:
  "rxp_receipt_ok E (canon_receipt r) \<Longrightarrow> read_rxp_receipt E (sorted_json (rxp_receipt_json r)) = Some (canon_receipt r)"
  by (cases r) (simp add: read_rxp_receipt_def rxp_receipt_json_def document_simps canon_receipt_def default_dict_def
    sorted_obj rxp_receipt_ok_def del: sorted_json.simps(7))

lemma read_evidence_back:
  "rxp_evidence_ok E (canon_evidence e) \<Longrightarrow> read_rxp_evidence E (sorted_json (rxp_evidence_json e)) = Some (canon_evidence e)"
  by (cases e) (simp add: read_rxp_evidence_def rxp_evidence_json_def document_simps canon_evidence_def default_dict_def
    sorted_obj rxp_evidence_ok_def del: sorted_json.simps(7))

lemma read_assessment_back: "assessment_ok g \<Longrightarrow> read_assessment (sorted_json (assessment_json g)) = Some g"
  by (cases g) (simp add: read_assessment_def assessment_json_def document_simps read_strings_back
    assessment_ok_def del: sorted_json.simps(7))

lemma read_decision_back: "rxp_decision_ok d \<Longrightarrow> read_rxp_decision (sorted_json (rxp_decision_json d)) = Some d"
  by (cases d) (simp add: read_rxp_decision_def rxp_decision_json_def document_simps read_strings_back
    read_assessment_back rxp_decision_ok_def del: sorted_json.simps(7))

lemma read_axis_back: "read_axis (sorted_json (axis_json a)) = Some a"
  by (cases a) (simp add: read_axis_def axis_json_def document_simps as_list_def all_some_map [where h = id, simplified]
    read_scalar_json all_some_map [of _ read_scalar scalar_json id, simplified] comp_def del: sorted_json.simps(7))

lemma read_cell_definition_back:
  "read_cell_definition (sorted_json (cell_definition_json c)) = Some (c\<lparr>xy_coordinates := canon_coordinates (xy_coordinates c)\<rparr>)"
  by (cases c) (simp add: read_cell_definition_def cell_definition_json_def document_simps read_coordinates_back
    del: sorted_json.simps(7))

lemma read_axes_back: "all_some read_axis (map (\<lambda>x. sorted_json (axis_json x)) xs) = Some xs"
  using all_some_map [of xs read_axis "\<lambda>x. sorted_json (axis_json x)" id] by (simp add: read_axis_back)

lemma read_cells_back: "all_some read_cell_definition (map (\<lambda>x. sorted_json (cell_definition_json x)) xs) =
    Some (map (\<lambda>c. c\<lparr>xy_coordinates := canon_coordinates (xy_coordinates c)\<rparr>) xs)"
  by (rule all_some_map) (rule read_cell_definition_back)

lemma read_plan_back: "plan_ok E (canon_plan p) \<Longrightarrow> read_plan E (sorted_json (plan_json p)) = Some (canon_plan p)"
  by (cases p) (simp add: read_plan_def plan_json_def document_simps canon_plan_def as_list_def comp_def
    read_axes_back read_cells_back plan_ok_def del: sorted_json.simps(7))

subsection \<open>The documents read back are the ones written\<close>

lemma stable_sorted_iff: "plain_json E (sorted_json j) \<longleftrightarrow> plain_json E j"
proof (induction j)
  case (JList xs)
  then show ?case by (auto simp: list_all_map_id)
next
  case (JObj kvs)
  have "distinct (map fst (sort_key fst (map (map_prod id sorted_json) kvs))) \<longleftrightarrow> distinct (map fst kvs)"
    by (simp add: keys_sort comp_def)
  with JObj show ?case
    by (force simp: list_all_map_snd list_all_iff snds_snd)
qed simp_all

lemma sorted_members_idem: "sorted_json (JObj (sorted_members kvs)) = sorted_json (JObj kvs)"
  using sorted_json_idem [of "JObj kvs"] by (simp only: sorted_obj)

lemma sorted_obj_cong: "map (map_prod id sorted_json) kvs = map (map_prod id sorted_json) kvs' \<Longrightarrow>
    sorted_json (JObj kvs) = sorted_json (JObj kvs')"
  by (simp only: sorted_json.simps)

lemmas canon_json_simps = sorted_members_idem canon_coordinates_json sorted_json_idem

lemma canon_sorted: "sorted_json (document_json (canon_document d)) = sorted_json (document_json d)"
proof (cases d)
  case (PlanDoc p)
  have "sorted_json (cell_definition_json (c\<lparr>xy_coordinates := canon_coordinates (xy_coordinates c)\<rparr>))
      = sorted_json (cell_definition_json c)" for c
    unfolding cell_definition_json_def
    by (rule sorted_obj_cong) (simp add: canon_json_simps del: sorted_json.simps(7))
  then show ?thesis
    unfolding PlanDoc canon_document.simps document_json.simps plan_json_def
    by (intro sorted_obj_cong) (simp add: canon_plan_def comp_def del: sorted_json.simps(7))
next
  case (IntentDoc i)
  then show ?thesis
    unfolding IntentDoc canon_document.simps document_json.simps intent_json_def
    by (intro sorted_obj_cong) (simp add: canon_intent_def canon_json_simps del: sorted_json.simps(7))
next
  case (ReceiptDoc r)
  then show ?thesis
    unfolding ReceiptDoc canon_document.simps document_json.simps rxp_receipt_json_def
    by (intro sorted_obj_cong) (simp add: canon_receipt_def canon_json_simps del: sorted_json.simps(7))
next
  case (EvidenceDoc e)
  then show ?thesis
    unfolding EvidenceDoc canon_document.simps document_json.simps rxp_evidence_json_def
    by (intro sorted_obj_cong) (simp add: canon_evidence_def canon_json_simps del: sorted_json.simps(7))
qed simp_all

lemma canon_stable: "plain_json E (document_json d) \<Longrightarrow> plain_json E (document_json (canon_document d))"
  using stable_sorted_iff [of E "document_json (canon_document d)"] stable_sorted_iff [of E "document_json d"]
  by (simp only: canon_sorted)

lemma canon_digest: "plain_json E (document_json d) \<Longrightarrow>
    digest_document E (document_json (canon_document d)) = digest_document E (document_json d)"
  by (rule same_digest) (simp_all only: canon_stable canon_sorted)

lemma stable_object_ok: "plain_json E (JObj kvs) \<Longrightarrow> json_object_ok E (sorted_members kvs)"
  using stable_sorted [of E "JObj kvs"] by (simp add: json_object_ok_def stable_bytes sorted_obj del: sorted_json.simps plain_json.simps)

lemma stable_object_digest:
  assumes "plain_json E (JObj kvs)"
  shows "digest_document E (JObj (sorted_members kvs)) = digest_document E (JObj kvs)"
proof (rule same_digest [OF _ assms sorted_members_idem])
  show "plain_json E (JObj (sorted_members kvs))" using stable_sorted [OF assms] by (simp only: sorted_obj)
qed

lemma stable_coordinates_bytes: "plain_json E (coordinates_json c) \<Longrightarrow>
    bytes_of E (coordinates_json (canon_coordinates c)) = bytes_of E (coordinates_json c)"
  using same_bytes [of E "coordinates_json (canon_coordinates c)" "coordinates_json c"]
  by (simp add: bytes_of_def canon_coordinates_json stable_sorted sorted_json_idem)

lemma keys_canon_coordinates: "keys (canon_coordinates c) = sort (keys c)"
  by (simp add: canon_coordinates_def keys_sort)

lemma set_canon_coordinates: "set (canon_coordinates c) = set c"
  by (simp add: canon_coordinates_def)

lemma canon_plan_ok: assumes "plan_ok E p" "plain_json E (plan_json p)" shows "plan_ok E (canon_plan p)"
proof -
  have st: "plain_json E (coordinates_json (xy_coordinates c))" if "c \<in> set (xp_cells p)" for c
    using assms(2) that by (auto simp: plan_json_def list_all_map_id cell_definition_json_def)
  have actual: "map (bytes_of E \<circ> coordinates_json \<circ> xy_coordinates) (xp_cells (canon_plan p))
      = map (bytes_of E \<circ> coordinates_json \<circ> xy_coordinates) (xp_cells p)"
    using st by (auto simp: canon_plan_def stable_coordinates_bytes)
  have same: "xp_axes (canon_plan p) = xp_axes p" "map xy_cell_id (xp_cells (canon_plan p)) = map xy_cell_id (xp_cells p)"
    by (simp_all add: canon_plan_def comp_def)
  have "cartesian_complete E (xp_axes p) (xp_cells p)" using assms(1) by (simp add: plan_ok_def)
  then have "cartesian_complete E (xp_axes (canon_plan p)) (xp_cells (canon_plan p))"
    unfolding cartesian_complete_def Let_def actual same
    by (auto simp: canon_plan_def set_canon_coordinates)
  then show ?thesis
    using assms(1) by (auto simp: plan_ok_def canon_plan_def list_all_iff keys_canon_coordinates)
qed

lemma canon_ok: "document_ok E d \<Longrightarrow> plain_json E (document_json d) \<Longrightarrow> document_ok E (canon_document d)"
proof (cases d)
  case (IntentDoc i)
  assume "document_ok E d" "plain_json E (document_json d)"
  moreover from this(2) have "plain_json E (JObj (xi_action_payload i))" "plain_json E (JObj (xi_extensions i))"
    unfolding IntentDoc by (simp_all add: intent_json_def)
  ultimately show ?thesis
    by (simp add: IntentDoc canon_intent_def intent_ok_def keys_canon_coordinates stable_object_ok stable_object_digest)
next
  case (ReceiptDoc r)
  assume "document_ok E d" "plain_json E (document_json d)"
  moreover from this(2) have "plain_json E (JObj (xc_metadata r))"
    unfolding ReceiptDoc by (simp add: rxp_receipt_json_def)
  ultimately show ?thesis by (simp add: ReceiptDoc canon_receipt_def rxp_receipt_ok_def stable_object_ok)
next
  case (EvidenceDoc e)
  assume "document_ok E d" "plain_json E (document_json d)"
  moreover from this(2) have "plain_json E (JObj (xe_claims e))"
    unfolding EvidenceDoc by (simp add: rxp_evidence_json_def)
  ultimately show ?thesis by (simp add: EvidenceDoc canon_evidence_def rxp_evidence_ok_def stable_object_ok)
qed (auto simp: canon_plan_ok)

definition plain_document :: "rxp_env \<Rightarrow> document \<Rightarrow> bool" where
  "plain_document E d \<longleftrightarrow> document_ok E d \<and> plain_json E (document_json d)"

lemma read_document_back:
  assumes "plain_document E d"
  shows "read_document E (document_kind d) (sorted_json (document_json d)) = Some (canon_document d)"
proof -
  have "document_ok E (canon_document d)" using assms canon_ok by (simp add: plain_document_def)
  then show ?thesis
    by (cases d) (simp_all add: read_document_def read_plan_back read_intent_back read_grant_back read_receipt_back
      read_evidence_back read_decision_back)
qed

lemma parse_back:
  assumes "plain_document E d" and "canonical_value E (document_json d) = Inr v"
  shows "parse_model E (document_kind d) v = Inr (canon_document d)"
proof -
  have p: "plain_json E (document_json d)" using assms(1) by (simp add: plain_document_def)
  then have "v = sorted_json (document_json d)" using assms(2) by (simp add: stable_value)
  then have "canonical_value E v = Inr (sorted_json (document_json d))"
    using p by (simp add: stable_value stable_sorted sorted_json_idem)
  then show ?thesis by (simp add: parse_model_def read_document_back [OF assms(1)])
qed

subsection \<open>Checks on the documents read back\<close>

lemma canon_evidence_simps [simp]:
  "xe_evidence_id (canon_evidence e) = xe_evidence_id e" "xe_matrix_id (canon_evidence e) = xe_matrix_id e"
  "xe_cell_id (canon_evidence e) = xe_cell_id e" "xe_receipt_digest (canon_evidence e) = xe_receipt_digest e"
  "xe_evidence_type (canon_evidence e) = xe_evidence_type e" "xe_producer_id (canon_evidence e) = xe_producer_id e"
  "xe_artifact (canon_evidence e) = xe_artifact e" "xe_observed_at (canon_evidence e) = xe_observed_at e"
  by (simp_all add: canon_evidence_def)

lemma sorted_json_eq_simps:
  "sorted_json j = JBool b \<longleftrightarrow> j = JBool b" "sorted_json j = JStr s \<longleftrightarrow> j = JStr s"
  by (cases j; simp)+

lemma claim_sorted:
  assumes "plain_json E (rxp_evidence_json e)"
  shows "dict_get (xe_claims (canon_evidence e)) k = map_option sorted_json (dict_get (xe_claims e) k)"
  using assms by (auto simp: canon_evidence_def rxp_evidence_json_def intro!: dict_get_sorted)

lemma canon_metric:
  assumes "plain_json E (rxp_evidence_json e)"
  shows "metric_valid (canon_evidence e) = metric_valid e"
proof -
  have "(case map_option sorted_json x of Some (JStr s) \<Rightarrow> rxp_digest s | _ \<Rightarrow> False) =
      (case x of Some (JStr s) \<Rightarrow> rxp_digest s | _ \<Rightarrow> False)" for x
    by (cases x) (auto split: json.split simp: sorted_json_eq_simps)
  then show ?thesis by (auto simp: metric_valid_def claim_sorted [OF assms] sorted_json_eq_simps)
qed

lemma canon_string_set: "string_set (map_option sorted_json x) = string_set x"
proof -
  have "as_str (sorted_json y) = as_str y" for y by (cases y) (simp_all add: as_str_def)
  then have "all_some as_str (map sorted_json xs) = all_some as_str xs" for xs by (induction xs) auto
  then show ?thesis by (auto simp: string_set_def split: option.split json.split)
qed

lemma canon_review:
  assumes "plain_json E (rxp_evidence_json e)"
  shows "review_passes ps (canon_evidence e) = review_passes ps e"
  by (auto simp: review_passes_def Let_def claim_sorted [OF assms] sorted_json_eq_simps canon_string_set)

lemma canon_gate_reasons:
  assumes "\<And>e. e \<in> set es \<Longrightarrow> plain_json E (rxp_evidence_json e)"
  shows "gate_producers (map canon_evidence es) = gate_producers es"
    and "gate_missing (map canon_evidence es) = gate_missing es"
    and "gate_reviewer (map canon_evidence es) = gate_reviewer es"
    and "gate_reasons (map canon_evidence es) = gate_reasons es"
proof -
  have filtered: "filter (\<lambda>e. P (xe_evidence_type e)) (map canon_evidence es) = map canon_evidence (filter (\<lambda>e. P (xe_evidence_type e)) es)" for P
    by (simp add: filter_map comp_def)
  show producers: "gate_producers (map canon_evidence es) = gate_producers es"
    by (simp add: gate_producers_def filter_map comp_def)
  show missing: "gate_missing (map canon_evidence es) = gate_missing es"
    by (simp add: gate_missing_def image_image)
  have review: "review_passes ps (canon_evidence e) = review_passes ps e" if "e \<in> set es" for ps e
    using canon_review assms that by blast
  have metric: "metric_valid (canon_evidence e) = metric_valid e" if "e \<in> set es" for e
    using canon_metric assms that by blast
  have found: "map_option xe_producer_id (List.find (review_passes ps) (map canon_evidence xs)) =
      map_option xe_producer_id (List.find (review_passes ps) xs)" if "set xs \<subseteq> set es" for xs ps
    using that by (induction xs) (auto simp: review)
  show reviewer: "gate_reviewer (map canon_evidence es) = gate_reviewer es"
    using found [of "filter (\<lambda>e. xe_evidence_type e = ''review'') es"]
    by (simp add: gate_reviewer_def producers filtered [of "\<lambda>t. t = ''review''"])
  have metrics: "list_ex metric_valid (map canon_evidence xs) = list_ex metric_valid xs" if "set xs \<subseteq> set es" for xs
    using that by (induction xs) (auto simp: metric)
  show "gate_reasons (map canon_evidence es) = gate_reasons es"
    using metrics [of "filter (\<lambda>e. xe_evidence_type e = ''metric'') es"]
    by (simp add: gate_reasons_def missing reviewer Let_def comp_def image_image filtered [of "\<lambda>t. t = ''metric''"])
qed

lemma canon_gate:
  assumes "\<And>e. e \<in> set es \<Longrightarrow> plain_json E (rxp_evidence_json e)"
  shows "rxp_evidence_gate E (map canon_evidence es) = rxp_evidence_gate E es"
proof -
  have "digest_all E (map rxp_evidence_json (map canon_evidence xs)) = digest_all E (map rxp_evidence_json xs)"
    if "set xs \<subseteq> set es" for xs
    using that
  proof (induction xs)
    case (Cons e xs)
    with assms have "plain_json E (document_json (EvidenceDoc e))" by simp
    from canon_digest [OF this] Cons show ?case by (simp split: sum.split)
  qed simp
  then have digests: "digest_all E (map rxp_evidence_json (map canon_evidence es)) = digest_all E (map rxp_evidence_json es)" by blast
  have types: "map xe_evidence_type (map canon_evidence es) = map xe_evidence_type es" by simp
  show ?thesis by (simp only: rxp_evidence_gate_def canon_gate_reasons [OF assms] digests types)
qed

lemma coordinates_lookup:
  assumes "distinct (keys b)"
  shows "coordinates_eq (canon_coordinates a) (canon_coordinates b) = coordinates_eq a b"
  using assms by (simp add: coordinates_eq_def canon_coordinates_def dict_get_sort)

lemma canon_receipt_simps [simp]:
  "xc_cell_id (canon_receipt r) = xc_cell_id r" "xc_matrix_id (canon_receipt r) = xc_matrix_id r"
  "xc_intent_digest (canon_receipt r) = xc_intent_digest r" "xc_grant_digest (canon_receipt r) = xc_grant_digest r"
  "xc_grant_id (canon_receipt r) = xc_grant_id r" "xc_started_at (canon_receipt r) = xc_started_at r"
  "xc_completed_at (canon_receipt r) = xc_completed_at r" "xc_outcome (canon_receipt r) = xc_outcome r"
  "xc_output (canon_receipt r) = xc_output r" "xc_usage (canon_receipt r) = xc_usage r"
  "xc_determinism_level (canon_receipt r) = xc_determinism_level r"
  by (simp_all add: canon_receipt_def)

lemma canon_intent_simps [simp]:
  "xi_intent_id (canon_intent i) = xi_intent_id i" "xi_matrix_id (canon_intent i) = xi_matrix_id i"
  "xi_cell_id (canon_intent i) = xi_cell_id i" "xi_action (canon_intent i) = xi_action i"
  "xi_scope (canon_intent i) = xi_scope i" "xi_action_payload_digest (canon_intent i) = xi_action_payload_digest i"
  "xi_requested_resources (canon_intent i) = xi_requested_resources i" "xi_created_at (canon_intent i) = xi_created_at i"
  "xi_required_determinism (canon_intent i) = xi_required_determinism i"
  "xi_coordinates (canon_intent i) = canon_coordinates (xi_coordinates i)"
  by (simp_all add: canon_intent_def)

lemma canon_validate [simp]: "validate_receipt (canon_receipt r) g (canon_intent i) = validate_receipt r g i"
  by (simp add: validate_receipt_def exceeded_fields_def)

lemma canon_claims [simp]: "claims_match c (canon_intent i) digest = claims_match c i digest"
  by (simp add: claims_match_def)

lemma canon_ids [simp]:
  "document_kind (canon_document d) = document_kind d" "document_cell_id (canon_document d) = document_cell_id d"
  "document_matrix_id (canon_document d) = document_matrix_id d"
  by (cases d; simp add: canon_plan_def)+

text \<open>Two documents with the same canonical form are read back as the same document.\<close>

lemma kind_field: "\<exists>kvs. document_json d = JObj kvs \<and> distinct (keys kvs) \<and> dict_get kvs ''kind'' = Some (JStr (document_kind d))"
  by (cases d) (simp_all add: plan_json_def intent_json_def grant_json_def rxp_receipt_json_def rxp_evidence_json_def rxp_decision_json_def)

lemma same_kind: assumes "sorted_json (document_json d) = sorted_json (document_json d')" shows "document_kind d = document_kind d'"
proof -
  from kind_field [of d] obtain kvs where d: "document_json d = JObj kvs" "distinct (keys kvs)"
      and k: "dict_get kvs ''kind'' = Some (JStr (document_kind d))" by blast
  from kind_field [of d'] obtain kvs' where d': "document_json d' = JObj kvs'" "distinct (keys kvs')"
      and k': "dict_get kvs' ''kind'' = Some (JStr (document_kind d'))" by blast
  have "sorted_members kvs = sorted_members kvs'"
    using assms unfolding d(1) d'(1) sorted_obj by (rule json.inject [THEN iffD1])
  then show ?thesis
    using dict_get_sorted [OF d(2), of "''kind''"] dict_get_sorted [OF d'(2), of "''kind''"]
    unfolding k k' by (simp only: option.map sorted_json.simps option.inject json.inject)
qed

lemma same_document:
  assumes "plain_document E d" "plain_document E d'" "sorted_json (document_json d) = sorted_json (document_json d')"
  shows "canon_document d = canon_document d'"
  using read_document_back [OF assms(1)] read_document_back [OF assms(2)] assms(3) same_kind [OF assms(3)] by simp

end
