(* ===== verification/RxpSim.thy ===== *)
theory RxpSim
  imports RxpCanon
begin

text \<open>
  The simulation between a matrix ledger and its offline verifier: after the entries of a ledger the
  variables of the verifier are the ledger's own fields, with every document as it is read back.
\<close>

subsection \<open>The digests computed are well formed\<close>

text \<open>The contract of SHA-256 that the protocol relies on: a digest is 64 lower-case hexadecimal digits.\<close>

definition sha_digests :: "rxp_env \<Rightarrow> bool" where
  "sha_digests E \<longleftrightarrow> (\<forall>x. is_sha256_digest (sha256 E x))"

lemma tagged_digest_ok: "sha_digests E \<Longrightarrow> rxp_digest (tagged_digest E d x)"
  by (simp add: sha_digests_def rxp_digest_def tagged_digest_def)

lemma digest_document_ok: "sha_digests E \<Longrightarrow> digest_document E v = Inr d \<Longrightarrow> rxp_digest d"
  by (auto simp: digest_document_def tagged_digest_ok split: sum.splits)

lemma digest_all_ok: "sha_digests E \<Longrightarrow> digest_all E vs = Inr ds \<Longrightarrow> list_all rxp_digest ds"
  by (induction vs arbitrary: ds) (auto simp: digest_document_ok split: sum.splits)

lemma digest_all_snoc:
  "digest_all E vs = Inr ds \<Longrightarrow> digest_document E v = Inr d \<Longrightarrow> digest_all E (vs @ [v]) = Inr (ds @ [d])"
  by (induction vs arbitrary: ds) (auto split: sum.splits)

text \<open>The gate over distinct digests never raises.\<close>

lemma rxp_gate_returns:
  assumes "sha_digests E" "digest_all E (map rxp_evidence_json es) = Inr ds" "distinct ds"
  shows "\<exists>g. rxp_evidence_gate E es = Inr g"
proof -
  have "list_all rxp_digest (sort ds)" using digest_all_ok [OF assms(1,2)] by (simp add: list_all_iff)
  then have "\<exists>r. merkle_root E (sort ds) = Inr r" using assms(3) by (simp add: merkle_root_def)
  then show ?thesis using assms(2) by (auto simp: rxp_evidence_gate_def)
qed

subsection \<open>Cells and ledgers read back\<close>

definition canon_cell :: "rxp_cell \<Rightarrow> rxp_cell" where
  "canon_cell c = c\<lparr>cl_intent := canon_intent (cl_intent c), cl_receipt := map_option canon_receipt (cl_receipt c),
     cl_evidence := map canon_evidence (cl_evidence c)\<rparr>"

definition canon_cells :: "(string \<times> rxp_cell) list \<Rightarrow> (string \<times> rxp_cell) list" where
  "canon_cells cells = map (map_prod id canon_cell) cells"

lemma canon_cell_simps [simp]:
  "cl_intent (canon_cell c) = canon_intent (cl_intent c)" "cl_intent_digest (canon_cell c) = cl_intent_digest c"
  "cl_state (canon_cell c) = cl_state c" "cl_grant (canon_cell c) = cl_grant c"
  "cl_grant_digest (canon_cell c) = cl_grant_digest c" "cl_receipt (canon_cell c) = map_option canon_receipt (cl_receipt c)"
  "cl_receipt_digest (canon_cell c) = cl_receipt_digest c" "cl_evidence (canon_cell c) = map canon_evidence (cl_evidence c)"
  "cl_evidence_digests (canon_cell c) = cl_evidence_digests c" "cl_decision (canon_cell c) = cl_decision c"
  "cl_decision_digest (canon_cell c) = cl_decision_digest c"
  by (simp_all add: canon_cell_def)

lemma canon_cells_get: "dict_get (canon_cells cs) k = map_option canon_cell (dict_get cs k)"
  by (simp add: canon_cells_def dict_get_map_snd)

lemma canon_cells_keys: "keys (canon_cells cs) = keys cs"
  by (simp add: canon_cells_def)

lemma canon_cells_set: "dict_set k (canon_cell c) (canon_cells cs) = canon_cells (dict_set k c cs)"
  by (induction cs) (auto simp: canon_cells_def)

lemma canon_snapshot: "snapshot_cell (canon_cell c) = snapshot_cell c"
  by (simp add: snapshot_cell_def split: option.split)

lemma canon_cells_snapshots: "sorted_snapshots (canon_cells cs) = sorted_snapshots cs"
proof -
  have "sort_key fst (canon_cells cs) = map (map_prod id canon_cell) (sort_key fst cs)"
    unfolding canon_cells_def by (rule sort_map_values)
  then show ?thesis by (simp add: sorted_snapshots_def comp_def canon_snapshot)
qed

lemma canon_cells_decided: "decided_cells (canon_cells cs) = decided_cells cs"
  by (induction cs) (auto simp: decided_cells_def canon_cells_def)

subsection \<open>What a ledger knows of its documents\<close>

definition seen_digests :: "matrix_ledger \<Rightarrow> string list" where
  "seen_digests L = map lc_document_digest (ml_entries L)"

text \<open>A cell whose state, documents and digests belong together.\<close>

definition cell_wf :: "rxp_env \<Rightarrow> matrix_ledger \<Rightarrow> string \<Rightarrow> rxp_cell \<Rightarrow> bool" where
  "cell_wf E L k c \<longleftrightarrow> k = xi_cell_id (cl_intent c) \<and> xi_matrix_id (cl_intent c) = ml_matrix_id L
     \<and> digest_document E (intent_json (cl_intent c)) = Inr (cl_intent_digest c)
     \<and> cl_intent_digest c \<in> set (seen_digests L)
     \<and> (cl_state c = INTENT_RECORDED \<longleftrightarrow> cl_grant c = None)
     \<and> (cl_state c \<in> {INTENT_RECORDED, GRANTED} \<longleftrightarrow> cl_receipt c = None)
     \<and> (cl_state c = DECIDED \<longleftrightarrow> cl_decision c \<noteq> None)
     \<and> (cl_grant c = None \<longleftrightarrow> cl_grant_digest c = None) \<and> (cl_receipt c = None \<longleftrightarrow> cl_receipt_digest c = None)
     \<and> (cl_decision c = None \<longleftrightarrow> cl_decision_digest c = None)
     \<and> set_option (cl_grant_digest c) \<subseteq> set (seen_digests L) \<and> set_option (cl_receipt_digest c) \<subseteq> set (seen_digests L)
     \<and> set (cl_evidence_digests c) \<subseteq> set (seen_digests L) \<and> set_option (cl_decision_digest c) \<subseteq> set (seen_digests L)
     \<and> list_all (\<lambda>e. plain_document E (EvidenceDoc e)) (cl_evidence c)
     \<and> digest_all E (map rxp_evidence_json (cl_evidence c)) = Inr (cl_evidence_digests c)
     \<and> distinct (cl_evidence_digests c)"

text \<open>The documents that a ledger has recorded, read off its cells.\<close>

fun known :: "matrix_ledger \<Rightarrow> document \<Rightarrow> bool" where
  "known L (PlanDoc p) = True"
| "known L (IntentDoc i) = (xi_cell_id i \<in> set (keys (ml_cells L)))"
| "known L (GrantDoc g) = (\<exists>c. dict_get (ml_cells L) (xg_cell_id (gr_claims g)) = Some c \<and> cl_grant c \<noteq> None)"
| "known L (ReceiptDoc r) = (\<exists>c. dict_get (ml_cells L) (xc_cell_id r) = Some c \<and> cl_receipt c \<noteq> None)"
| "known L (EvidenceDoc v) = (\<exists>c. dict_get (ml_cells L) (xe_cell_id v) = Some c
     \<and> xe_evidence_id v \<in> xe_evidence_id ` set (cl_evidence c))"
| "known L (DecisionDoc d) = (\<exists>c. dict_get (ml_cells L) (xd_cell_id d) = Some c \<and> cl_decision c \<noteq> None)"

definition entry_known :: "rxp_env \<Rightarrow> matrix_ledger \<Rightarrow> ledger_entry \<Rightarrow> bool" where
  "entry_known E L e \<longleftrightarrow> (\<exists>d. plain_document E d \<and> lc_document e = sorted_json (document_json d) \<and> known L d)"

definition ledger_wf :: "rxp_env \<Rightarrow> matrix_ledger \<Rightarrow> bool" where
  "ledger_wf E L \<longleftrightarrow> plain_document E (PlanDoc (ml_plan L)) \<and> ml_matrix_id L = xp_matrix_id (ml_plan L)
     \<and> digest_document E (plan_json (ml_plan L)) = Inr (ml_plan_digest L)
     \<and> ml_expected L = map (\<lambda>c. (xy_cell_id c, c)) (xp_cells (ml_plan L))
     \<and> ml_entries L \<noteq> [] \<and> rxp_digest (ml_root L) \<and> distinct (keys (ml_cells L))
     \<and> list_all (entry_ok E) (ml_entries L) \<and> set (keys (ml_cells L)) \<subseteq> set (keys (ml_expected L))
     \<and> (\<forall>e \<in> set (ml_entries L). entry_known E L e)
     \<and> (\<forall>k c. dict_get (ml_cells L) k = Some c \<longrightarrow> cell_wf E L k c)"

text \<open>Two entries with different documents and one digest: a collision of SHA-256 on two documents.\<close>

definition digest_collision :: "ledger_entry list \<Rightarrow> bool" where
  "digest_collision es \<longleftrightarrow> (\<exists>a \<in> set es. \<exists>b \<in> set es. lc_document a \<noteq> lc_document b \<and> lc_document_digest a = lc_document_digest b)"

definition sim :: "matrix_ledger \<Rightarrow> verify_state \<Rightarrow> bool" where
  "sim L st \<longleftrightarrow> vs_root st = ml_root L \<and> vs_cells st = canon_cells (ml_cells L) \<and> vs_plan st = Some (canon_plan (ml_plan L))
     \<and> vs_seen_digests st = seen_digests L \<and> vs_intent_ids st = ml_intent_ids L \<and> vs_grant_ids st = ml_grant_ids L
     \<and> (\<exists>t. parse_utc (lc_recorded_at (last (ml_entries L))) = Inr t \<and> vs_time st = Some t)"

definition verified_or_collision :: "rxp_env \<Rightarrow> matrix_ledger \<Rightarrow> bool" where
  "verified_or_collision E L \<longleftrightarrow> digest_collision (ml_entries L) \<or>
     (\<exists>st. verify_entries E (ml_matrix_id L) 1 (ml_entries L) (verify_start E) = Inr st \<and> sim L st)"

lemma verify_entries_snoc:
  "verify_entries E m n es st = Inr st1 \<Longrightarrow> verify_entry E m (n + int (length es)) e st1 = Inr st2 \<Longrightarrow>
     verify_entries E m n (es @ [e]) st = Inr st2"
  by (induction es arbitrary: n st) (auto simp: algebra_simps)

subsection \<open>One appended entry\<close>

lemma next_entry_fields:
  assumes "next_entry E L ev doc parents t = Inr e"
  shows "lc_sequence e = int (length (ml_entries L)) + 1" "lc_event_type e = ev" "lc_matrix_id e = ml_matrix_id L"
    "lc_cell_id e = document_cell_id doc" "lc_document_kind e = document_kind doc"
    "digest_document E (document_json doc) = Inr (lc_document_digest e)"
    "canonical_value E (document_json doc) = Inr (lc_document e)" "lc_causal_parents e = parents"
    "lc_previous_root e = ml_root L" "lc_recorded_at e = t" "check_append_time L t = Inr ()"
    "digest_ledger_entry E (core_json (ledger_entry_core.truncate e)) = Inr (le_entry_digest e)"
    "extend_ledger_root E (ml_root L) (le_entry_digest e) = Inr (le_root e)" "entry_ok E e"
  using assms
  by (auto simp: next_entry_def Let_def seal_entry_def ledger_entry_core.defs ledger_entry.defs split: if_splits)

lemma recorded_entries_ok:
  assumes "next_entry E L ev doc parents t = Inr e" "ml_entries L \<noteq> []"
    and "parse_utc (lc_recorded_at (last (ml_entries L))) = Inr before"
  shows "\<exists>now. parse_utc t = Inr now \<and> \<not> now < before"
  using next_entry_fields(11) [OF assms(1)] assms(2,3) by (auto simp: check_append_time_def split: if_splits)

lemma append_verifies:
  assumes entry: "next_entry E L ev doc parents t = Inr e" and plain: "plain_document E doc"
    and nonempty: "ml_entries L \<noteq> []" and sim: "sim L st"
    and own: "document_matrix_id doc = ml_matrix_id L" and new: "lc_document_digest e \<notin> set (seen_digests L)"
    and parents: "set parents \<subseteq> set (seen_digests L)"
    and ids: "seen_ids (st\<lparr>vs_time := Some now\<rparr>) (canon_document doc) = Inr st1" and now: "parse_utc t = Inr now"
    and step: "verify_step E (st1\<lparr>vs_root := le_root e\<rparr>) (ml_matrix_id L) (int (length (ml_entries L)) + 1) e (canon_document doc) = Inr st2"
    and time: "verify_recorded_at e (canon_document doc) = Inr ()"
  shows "verify_entry E (ml_matrix_id L) (int (length (ml_entries L)) + 1) e st =
    Inr (st2\<lparr>vs_seen_digests := vs_seen_digests st2 @ [lc_document_digest e]\<rparr>)"
proof -
  note f = next_entry_fields [OF entry]
  from sim obtain before where b: "parse_utc (lc_recorded_at (last (ml_entries L))) = Inr before" "vs_time st = Some before"
    by (auto simp: sim_def)
  from recorded_entries_ok [OF entry nonempty b(1)] now have order: "\<not> now < before" by simp
  have parse: "parse_model E (lc_document_kind e) (lc_document e) = Inr (canon_document doc)"
    using parse_back [OF plain f(7)] f(5) by simp
  have digest: "digest_document E (document_json (canon_document doc)) = Inr (lc_document_digest e)"
    using canon_digest plain f(6) by (simp add: plain_document_def)
  show ?thesis
    unfolding verify_entry_def
    using sim own new parents ids step time order parse digest b now f(1-5,8-13)
    by (simp add: sim_def)
qed

subsection \<open>A ledger with one entry and one cell more\<close>

definition grown :: "matrix_ledger \<Rightarrow> ledger_entry \<Rightarrow> string \<Rightarrow> rxp_cell \<Rightarrow> matrix_ledger \<Rightarrow> bool" where
  "grown L e k c M \<longleftrightarrow> ml_matrix_id M = ml_matrix_id L \<and> ml_plan M = ml_plan L \<and> ml_plan_digest M = ml_plan_digest L
     \<and> ml_expected M = ml_expected L \<and> ml_entries M = ml_entries L @ [e] \<and> ml_root M = le_root e
     \<and> ml_cells M = dict_set k c (ml_cells L)"

definition cell_extends :: "rxp_cell option \<Rightarrow> rxp_cell \<Rightarrow> bool" where
  "cell_extends old c \<longleftrightarrow> (\<forall>b. old = Some b \<longrightarrow> (cl_grant b \<noteq> None \<longrightarrow> cl_grant c \<noteq> None)
     \<and> (cl_receipt b \<noteq> None \<longrightarrow> cl_receipt c \<noteq> None) \<and> (cl_decision b \<noteq> None \<longrightarrow> cl_decision c \<noteq> None)
     \<and> set (cl_evidence b) \<subseteq> set (cl_evidence c))"

lemma image_keys_dict_set: "fst ` set (dict_set k v d) = insert k (fst ` set d)"
  using set_keys_dict_set [of k v d] by simp

lemma known_grown:
  assumes "grown L e k c M" "cell_extends (dict_get (ml_cells L) k) c" "known L d"
  shows "known M d"
  using assms by (cases d) (auto simp: grown_def cell_extends_def dict_get_set image_keys_dict_set)

lemma cell_wf_grown:
  assumes "grown L e k c M" "cell_wf E L k' b"
  shows "cell_wf E M k' b"
  using assms by (auto simp: grown_def cell_wf_def seen_digests_def)

lemma ledger_wf_grown:
  assumes wf: "ledger_wf E L" and grown: "grown L e k c M" and entry: "next_entry E L ev doc parents t = Inr e"
    and plain: "plain_document E doc" and cell: "cell_wf E M k c" and k: "k \<in> set (keys (ml_expected L))"
    and old: "cell_extends (dict_get (ml_cells L) k) c" and doc: "known M doc"
  shows "ledger_wf E M"
proof -
  note f = next_entry_fields [OF entry]
  have stable: "plain_json E (document_json doc)" using plain by (simp add: plain_document_def)
  then have "lc_document e = sorted_json (document_json doc)" using f(7) by (simp add: stable_value)
  then have e: "entry_known E M e" using plain doc by (auto simp: entry_known_def)
  have es: "entry_known E M a" if "a \<in> set (ml_entries L)" for a
    using wf that known_grown [OF grown old] unfolding ledger_wf_def entry_known_def by blast
  have cs: "cell_wf E M k' b" if "dict_get (ml_cells M) k' = Some b" for k' b
    using that cell cell_wf_grown [OF grown] wf grown
    by (auto simp: grown_def dict_get_set ledger_wf_def simp del: map_of_eq_Some_iff split: if_splits)
  have "ml_expected L = map (\<lambda>c. (xy_cell_id c, c)) (xp_cells (ml_plan L))" "set (keys (ml_cells L)) \<subseteq> set (keys (ml_expected L))"
    using wf unfolding ledger_wf_def by blast+
  then have "fst ` set (ml_cells L) \<subseteq> xy_cell_id ` set (xp_cells (ml_plan L))" by (simp add: image_image)
  then show ?thesis
    using wf grown e es cs k f(14)
    unfolding ledger_wf_def grown_def
    by (simp add: distinct_keys_dict_set image_keys_dict_set entry_ok_def)
qed

fun intent_ids_of :: "document \<Rightarrow> string list" where
  "intent_ids_of (IntentDoc i) = [xi_intent_id i]"
| "intent_ids_of d = []"

fun grant_ids_of :: "document \<Rightarrow> string list" where
  "grant_ids_of (GrantDoc g) = [xg_grant_id (gr_claims g)]"
| "grant_ids_of d = []"

lemma known_canon: "known L (canon_document d) = known L d"
  by (cases d) auto

lemma new_document_differs:
  assumes "plain_document E d" "plain_document E d'" "known L d'" "\<not> known L d"
  shows "sorted_json (document_json d) \<noteq> sorted_json (document_json d')"
  using same_document [OF assms(1,2)] known_canon [of L d] known_canon [of L d'] assms(3,4) by auto

lemma verified_grown:
  assumes wf: "ledger_wf E L" and voc: "verified_or_collision E L" and grown: "grown L e k c M"
    and entry: "next_entry E L ev doc parents t = Inr e" and plain: "plain_document E doc"
    and own: "document_matrix_id doc = ml_matrix_id L" and new: "\<not> known L doc"
    and parents: "set parents \<subseteq> set (seen_digests L)"
    and ids: "ml_intent_ids M = ml_intent_ids L @ intent_ids_of doc" "ml_grant_ids M = ml_grant_ids L @ grant_ids_of doc"
      "set (intent_ids_of doc) \<inter> set (ml_intent_ids L) = {}" "set (grant_ids_of doc) \<inter> set (ml_grant_ids L) = {}"
    and step: "verify_transition E (canon_cells (ml_cells L)) e (canon_document doc) (canon_plan (ml_plan L)) = Inr (canon_cells (ml_cells M))"
    and time: "verify_recorded_at e (canon_document doc) = Inr ()"
  shows "verified_or_collision E M"
proof (cases "digest_collision (ml_entries M)")
  case True
  then show ?thesis by (simp add: verified_or_collision_def)
next
  case False
  note f = next_entry_fields [OF entry]
  have es: "ml_entries M = ml_entries L @ [e]" using grown by (simp add: grown_def)
  have nonempty: "ml_entries L \<noteq> []" using wf by (simp add: ledger_wf_def)
  from False es have "\<not> digest_collision (ml_entries L)" by (auto simp: digest_collision_def)
  with voc obtain st where run: "verify_entries E (ml_matrix_id L) 1 (ml_entries L) (verify_start E) = Inr st"
      and sim: "sim L st" by (auto simp: verified_or_collision_def)
  have "lc_document a \<noteq> lc_document e" if a: "a \<in> set (ml_entries L)" for a
  proof -
    from wf a obtain d where "plain_document E d" "lc_document a = sorted_json (document_json d)" "known L d"
      by (auto simp: ledger_wf_def entry_known_def)
    moreover have "lc_document e = sorted_json (document_json doc)"
      using f(7) plain by (simp add: plain_document_def stable_value)
    ultimately show ?thesis using new_document_differs [OF plain _ _ new, of d] by simp
  qed
  with False es have fresh: "lc_document_digest e \<notin> set (seen_digests L)"
    by (auto simp: digest_collision_def seen_digests_def)
  from sim obtain before where "parse_utc (lc_recorded_at (last (ml_entries L))) = Inr before" by (auto simp: sim_def)
  from recorded_entries_ok [OF entry nonempty this] obtain now where now: "parse_utc t = Inr now" by blast
  define st1 where "st1 = st\<lparr>vs_time := Some now, vs_intent_ids := ml_intent_ids M, vs_grant_ids := ml_grant_ids M\<rparr>"
  have seen: "seen_ids (st\<lparr>vs_time := Some now\<rparr>) (canon_document doc) = Inr st1"
    using sim ids by (cases doc) (auto simp: seen_ids_def st1_def sim_def)
  have "canon_document doc \<noteq> PlanDoc p" for p
    using new by (cases doc) auto
  then have "verify_step E (st1\<lparr>vs_root := le_root e\<rparr>) (ml_matrix_id L) (int (length (ml_entries L)) + 1) e (canon_document doc)
      = Inr (st1\<lparr>vs_root := le_root e, vs_cells := canon_cells (ml_cells M)\<rparr>)"
    using sim step by (auto simp: verify_step_def sim_def st1_def split: document.split)
  from append_verifies [OF entry plain nonempty sim own fresh parents seen now this time]
  have one: "verify_entry E (ml_matrix_id L) (1 + int (length (ml_entries L))) e st =
      Inr (st1\<lparr>vs_root := le_root e, vs_cells := canon_cells (ml_cells M),
        vs_seen_digests := vs_seen_digests st @ [lc_document_digest e]\<rparr>)"
    by (simp add: st1_def algebra_simps)
  have "verify_entries E (ml_matrix_id M) 1 (ml_entries M) (verify_start E) = Inr (st1\<lparr>vs_root := le_root e,
      vs_cells := canon_cells (ml_cells M), vs_seen_digests := vs_seen_digests st @ [lc_document_digest e]\<rparr>)"
    using verify_entries_snoc [OF run one] grown es by (simp add: grown_def)
  moreover have "sim M (st1\<lparr>vs_root := le_root e,
      vs_cells := canon_cells (ml_cells M), vs_seen_digests := vs_seen_digests st @ [lc_document_digest e]\<rparr>)"
    using sim grown now f(10) by (simp add: sim_def grown_def st1_def seen_digests_def)
  ultimately show ?thesis by (auto simp: verified_or_collision_def)
qed

end
