(* ===== verification/RxpInv.thy ===== *)
theory RxpInv
  imports RxpSim
begin

text \<open>
  Every operation of a matrix ledger keeps the invariant that its entries replay, in the verifier, to the
  ledger itself; an operation that raises leaves the ledger as it was. Then the reachable ledgers and the
  verification of their snapshots.
\<close>

subsection \<open>The operations\<close>

definition ledger_inv :: "rxp_env \<Rightarrow> matrix_ledger \<Rightarrow> bool" where
  "ledger_inv E L \<longleftrightarrow> ledger_wf E L \<and> verified_or_collision E L"

lemma wp_append: "wp (append_document E ev doc ps t) Q Er L =
    (case next_entry E L ev doc ps t of Inl e \<Rightarrow> Er e L
     | Inr e \<Rightarrow> Q () (L\<lparr>ml_entries := ml_entries L @ [e], ml_root := le_root e\<rparr>))"
  by (simp add: wp_def append_document_def split: sum.split)

lemma cell_wf_cong: "ml_matrix_id M = ml_matrix_id L \<Longrightarrow> ml_entries M = ml_entries L \<Longrightarrow> cell_wf E M k c = cell_wf E L k c"
  by (simp add: cell_wf_def seen_digests_def)

text \<open>What holds when an operation appended an entry and changed one cell.\<close>

lemma ledger_inv_grown:
  assumes "ledger_inv E L" "grown L e k c M" "next_entry E L ev doc parents t = Inr e" "plain_document E doc"
    "document_matrix_id doc = ml_matrix_id L" "\<not> known L doc" "known M doc"
    "set parents \<subseteq> set (seen_digests L)" "cell_wf E M k c" "k \<in> set (keys (ml_expected L))"
    "cell_extends (dict_get (ml_cells L) k) c"
    "ml_intent_ids M = ml_intent_ids L @ intent_ids_of doc" "ml_grant_ids M = ml_grant_ids L @ grant_ids_of doc"
    "set (intent_ids_of doc) \<inter> set (ml_intent_ids L) = {}" "set (grant_ids_of doc) \<inter> set (ml_grant_ids L) = {}"
    "verify_transition E (canon_cells (ml_cells L)) e (canon_document doc) (canon_plan (ml_plan L)) = Inr (canon_cells (ml_cells M))"
    "verify_recorded_at e (canon_document doc) = Inr ()"
  shows "ledger_inv E M"
  using assms ledger_wf_grown [of E L e k c M ev doc parents t] verified_grown [of E L e k c M ev doc parents t]
  by (simp add: ledger_inv_def)

lemma known_cell:
  assumes "ledger_inv E L" "dict_get (ml_cells L) k = Some c"
  shows "cell_wf E L k c" "k \<in> set (keys (ml_expected L))"
  using assms dict_get_keys [OF assms(2)] unfolding ledger_inv_def ledger_wf_def by blast+

lemma declared_cell:
  assumes "ledger_inv E L" "dict_get (ml_expected L) k = Some d"
  shows "dict_get (map (\<lambda>c. (xy_cell_id c, c)) (xp_cells (canon_plan (ml_plan L)))) k
    = Some (d\<lparr>xy_coordinates := canon_coordinates (xy_coordinates d)\<rparr>)"
    and "distinct (keys (xy_coordinates d))"
proof -
  have expected: "ml_expected L = map (\<lambda>c. (xy_cell_id c, c)) (xp_cells (ml_plan L))"
    and "plan_ok E (ml_plan L)"
    using assms(1) by (simp_all add: ledger_inv_def ledger_wf_def plain_document_def)
  then have ok: "list_all (\<lambda>c. distinct (keys (xy_coordinates c))) (xp_cells (ml_plan L))"
    by (simp add: plan_ok_def list_all_iff)
  have "dict_get (map (\<lambda>c. (xy_cell_id c, c)) (map (\<lambda>c. c\<lparr>xy_coordinates := canon_coordinates (xy_coordinates c)\<rparr>) ds)) k
      = map_option (\<lambda>c. c\<lparr>xy_coordinates := canon_coordinates (xy_coordinates c)\<rparr>) (dict_get (map (\<lambda>c. (xy_cell_id c, c)) ds) k)" for ds :: "cell_definition list"
    by (induction ds) simp_all
  then show "dict_get (map (\<lambda>c. (xy_cell_id c, c)) (xp_cells (canon_plan (ml_plan L)))) k
      = Some (d\<lparr>xy_coordinates := canon_coordinates (xy_coordinates d)\<rparr>)"
    using assms(2) by (simp add: canon_plan_def expected del: map_map)
  show "distinct (keys (xy_coordinates d))"
    using map_of_SomeD [OF assms(2)] ok by (auto simp: expected list_all_iff)
qed

lemma new_cell_canon: "canon_cell (new_cell i digest) = new_cell (canon_intent i) digest"
  by (simp add: new_cell_def canon_cell_def)

lemma intent_recorded:
  assumes inv: "ledger_inv E L" and plain: "plain_document E (IntentDoc i)" and m: "xi_matrix_id i = ml_matrix_id L"
    and d: "dict_get (ml_expected L) (xi_cell_id i) = Some d" and co: "coordinates_eq (xi_coordinates i) (xy_coordinates d)"
    and k: "xi_cell_id i \<notin> fst ` set (ml_cells L)" and new: "xi_intent_id i \<notin> set (ml_intent_ids L)"
    and digest: "digest_document E (intent_json i) = Inr digest"
    and entry: "next_entry E L ''INTENT_RECORDED'' (IntentDoc i) [] (xi_created_at i) = Inr e"
    and M: "M = L\<lparr>ml_entries := ml_entries L @ [e], ml_root := le_root e,
      ml_cells := dict_set (xi_cell_id i) (new_cell i digest) (ml_cells L), ml_intent_ids := ml_intent_ids L @ [xi_intent_id i]\<rparr>"
  shows "ledger_inv E M"
proof (rule ledger_inv_grown [OF inv _ entry plain])
  note f = next_entry_fields [OF entry]
  have e: "lc_document_digest e = digest" using f(6) digest by simp
  show "grown L e (xi_cell_id i) (new_cell i digest) M" by (simp add: M grown_def)
  show "cell_wf E M (xi_cell_id i) (new_cell i digest)"
    using m digest e by (simp add: cell_wf_def new_cell_def M seen_digests_def)
  show "xi_cell_id i \<in> set (keys (ml_expected L))" by (rule dict_get_keys [OF d])
  show "known M (IntentDoc i)" by (simp add: M image_keys_dict_set)
  show "\<not> known L (IntentDoc i)" using k by simp
  show "cell_extends (dict_get (ml_cells L) (xi_cell_id i)) (new_cell i digest)"
    using k by (simp add: cell_extends_def dict_get_None [THEN iffD2])
  have "coordinates_eq (canon_coordinates (xi_coordinates i)) (canon_coordinates (xy_coordinates d))"
    using co declared_cell(2) [OF inv d] by (simp add: coordinates_lookup)
  then show "verify_transition E (canon_cells (ml_cells L)) e (canon_document (IntentDoc i)) (canon_plan (ml_plan L)) =
      Inr (canon_cells (ml_cells M))"
    using f e k declared_cell(1) [OF inv d]
    by (simp add: verify_transition_def verify_intent_entry_def canon_cells_keys [simplified] M
      new_cell_canon [symmetric] canon_cells_set)
  show "verify_recorded_at e (canon_document (IntentDoc i)) = Inr ()"
    using f by (simp add: verify_recorded_at_def)
qed (use m new in \<open>simp_all add: M\<close>)

lemma record_intent_inv:
  assumes "ledger_inv E L" "plain_document E (IntentDoc i)"
  shows "wp (record_intent E i) (\<lambda>_. ledger_inv E) (\<lambda>_ L'. L' = L) L"
  using assms
  by (simp add: record_intent_def require_matrix_def put_cell_def wp_simps wp_append checked_def
      split: option.split sum.split) (blast intro: intent_recorded [OF _ _ _ _ _ _ _ _ _ refl])

lemma verify_grant_facts:
  assumes "verify_grant E s g i t = Inr ()"
  obtains digest moment issued expires where
    "digest_document E (intent_json i) = Inr digest" "claims_match (gr_claims g) i digest"
    "bounds_contain (xg_bounds (gr_claims g)) (xi_requested_resources i)"
    "parse_utc t = Inr moment" "parse_utc (xg_issued_at (gr_claims g)) = Inr issued"
    "parse_utc (xg_expires_at (gr_claims g)) = Inr expires"
    "\<not> moment + clock_skew < issued" "\<not> expires \<le> moment"
  using assms by (auto simp: verify_grant_def Let_def split: if_splits sum.splits)

lemma grant_recorded:
  assumes inv: "ledger_inv E L" and plain: "plain_document E (GrantDoc g)" and m: "xg_matrix_id (gr_claims g) = ml_matrix_id L"
    and c: "dict_get (ml_cells L) (xg_cell_id (gr_claims g)) = Some c" and state: "cl_state c = INTENT_RECORDED"
    and new: "xg_grant_id (gr_claims g) \<notin> set (ml_grant_ids L)" and ok: "verify_grant E s g (cl_intent c) t = Inr ()"
    and digest: "digest_document E (grant_json g) = Inr digest"
    and entry: "next_entry E L ''GRANT_RECORDED'' (GrantDoc g) [cl_intent_digest c] t = Inr e"
    and M: "M = L\<lparr>ml_entries := ml_entries L @ [e], ml_root := le_root e,
      ml_cells := dict_set (xg_cell_id (gr_claims g)) (c\<lparr>cl_grant := Some g, cl_grant_digest := Some digest, cl_state := GRANTED\<rparr>) (ml_cells L),
      ml_grant_ids := ml_grant_ids L @ [xg_grant_id (gr_claims g)]\<rparr>"
  shows "ledger_inv E M"
proof (rule ledger_inv_grown [OF inv _ entry plain])
  note f = next_entry_fields [OF entry]
  note wf = known_cell [OF inv c]
  let ?c = "c\<lparr>cl_grant := Some g, cl_grant_digest := Some digest, cl_state := GRANTED\<rparr>"
  have e: "lc_document_digest e = digest" using f(6) digest by simp
  have none: "cl_grant c = None" "cl_receipt c = None" "cl_decision c = None"
    using wf(1) state by (simp_all add: cell_wf_def)
  show "grown L e (xg_cell_id (gr_claims g)) ?c M" by (simp add: M grown_def)
  show "cell_wf E M (xg_cell_id (gr_claims g)) ?c"
    using wf(1) e none by (auto simp: cell_wf_def M seen_digests_def)
  show "xg_cell_id (gr_claims g) \<in> set (keys (ml_expected L))" by (rule wf(2))
  show "known M (GrantDoc g)" by (simp add: M dict_get_set)
  show "\<not> known L (GrantDoc g)" using none c by simp
  show "cell_extends (dict_get (ml_cells L) (xg_cell_id (gr_claims g))) ?c"
    using c none by (simp add: cell_extends_def)
  from ok obtain digest' moment issued expires where v: "digest_document E (intent_json (cl_intent c)) = Inr digest'"
      "claims_match (gr_claims g) (cl_intent c) digest'" "bounds_contain (xg_bounds (gr_claims g)) (xi_requested_resources (cl_intent c))"
      "parse_utc t = Inr moment" "parse_utc (xg_issued_at (gr_claims g)) = Inr issued"
      "parse_utc (xg_expires_at (gr_claims g)) = Inr expires" "\<not> moment + clock_skew < issued" "\<not> expires \<le> moment"
    by (rule verify_grant_facts)
  have same: "digest' = cl_intent_digest c" using v(1) wf(1) by (simp add: cell_wf_def)
  have "verify_grant_entry (canon_cell c) e g = Inr (canon_cell ?c)"
    using v(2,3) f e state by (simp add: verify_grant_entry_def same checked_def canon_cell_def)
  then show "verify_transition E (canon_cells (ml_cells L)) e (canon_document (GrantDoc g)) (canon_plan (ml_plan L)) =
      Inr (canon_cells (ml_cells M))"
    using f c by (simp add: verify_transition_def canon_cells_get canon_cells_set M)
  show "verify_recorded_at e (canon_document (GrantDoc g)) = Inr ()"
    using f v(4-8) by (simp add: verify_recorded_at_def)
  show "set [cl_intent_digest c] \<subseteq> set (seen_digests L)" using wf(1) by (simp add: cell_wf_def)
qed (use m new in \<open>simp_all add: M\<close>)

lemma record_grant_inv:
  assumes "ledger_inv E L" "plain_document E (GrantDoc g)"
  shows "wp (record_grant E g s t) (\<lambda>_. ledger_inv E) (\<lambda>_ L'. L' = L) L"
  using assms
  by (simp add: record_grant_def require_matrix_def require_cell_def require_state_def put_cell_def wp_simps wp_append Let_def
      split: option.split sum.split) (blast intro: grant_recorded [OF _ _ _ _ _ _ _ _ _ refl])

lemma receipt_recorded:
  assumes inv: "ledger_inv E L" and plain: "plain_document E (ReceiptDoc r)" and m: "xc_matrix_id r = ml_matrix_id L"
    and c: "dict_get (ml_cells L) (xc_cell_id r) = Some c" and state: "cl_state c = GRANTED"
    and g: "cl_grant c = Some g" "cl_grant_digest c = Some gd"
    and causal: "xc_intent_digest r = cl_intent_digest c" "xc_grant_digest r = gd" "xc_grant_id r = xg_grant_id (gr_claims g)"
    and ok: "validate_receipt r g (cl_intent c) = Inr ()"
    and digest: "digest_document E (rxp_receipt_json r) = Inr digest"
    and entry: "next_entry E L ''RECEIPT_RECORDED'' (ReceiptDoc r) [cl_intent_digest c, gd] (xc_completed_at r) = Inr e"
    and M: "M = L\<lparr>ml_entries := ml_entries L @ [e], ml_root := le_root e,
      ml_cells := dict_set (xc_cell_id r) (c\<lparr>cl_receipt := Some r, cl_receipt_digest := Some digest, cl_state := RECEIPT_RECORDED\<rparr>) (ml_cells L)\<rparr>"
  shows "ledger_inv E M"
proof (rule ledger_inv_grown [OF inv _ entry plain])
  note f = next_entry_fields [OF entry]
  note wf = known_cell [OF inv c]
  let ?c = "c\<lparr>cl_receipt := Some r, cl_receipt_digest := Some digest, cl_state := RECEIPT_RECORDED\<rparr>"
  have e: "lc_document_digest e = digest" using f(6) digest by simp
  have none: "cl_receipt c = None" "cl_decision c = None"
    using wf(1) state by (simp_all add: cell_wf_def)
  show "grown L e (xc_cell_id r) ?c M" by (simp add: M grown_def)
  show "cell_wf E M (xc_cell_id r) ?c"
    using wf(1) e none state by (auto simp: cell_wf_def M seen_digests_def)
  show "xc_cell_id r \<in> set (keys (ml_expected L))" by (rule wf(2))
  show "known M (ReceiptDoc r)" by (simp add: M dict_get_set)
  show "\<not> known L (ReceiptDoc r)" using none c by simp
  show "cell_extends (dict_get (ml_cells L) (xc_cell_id r)) ?c"
    using c none by (simp add: cell_extends_def)
  have "verify_receipt_entry (canon_cell c) e (canon_receipt r) = Inr (canon_cell ?c)"
    using f e state g causal ok by (simp add: verify_receipt_entry_def canon_cell_def)
  then show "verify_transition E (canon_cells (ml_cells L)) e (canon_document (ReceiptDoc r)) (canon_plan (ml_plan L)) =
      Inr (canon_cells (ml_cells M))"
    using f c by (simp add: verify_transition_def canon_cells_get canon_cells_set M)
  show "verify_recorded_at e (canon_document (ReceiptDoc r)) = Inr ()"
    using f by (simp add: verify_recorded_at_def)
  show "set [cl_intent_digest c, gd] \<subseteq> set (seen_digests L)" using wf(1) g by (simp add: cell_wf_def)
qed (use m in \<open>simp_all add: M\<close>)

lemma evidence_recorded:
  assumes sha: "sha_digests E" and inv: "ledger_inv E L" and plain: "plain_document E (EvidenceDoc v)"
    and m: "xe_matrix_id v = ml_matrix_id L"
    and c: "dict_get (ml_cells L) (xe_cell_id v) = Some c" and state: "cl_state c = RECEIPT_RECORDED \<or> cl_state c = EVIDENCE_READY"
    and rd: "cl_receipt_digest c = Some (xe_receipt_digest v)"
    and new: "xe_evidence_id v \<notin> xe_evidence_id ` set (cl_evidence c)"
    and digest: "digest_document E (rxp_evidence_json v) = Inr digest" and fresh: "digest \<notin> set (cl_evidence_digests c)"
    and entry: "next_entry E L ''EVIDENCE_RECORDED'' (EvidenceDoc v) [xe_receipt_digest v] (xe_observed_at v) = Inr e"
    and gate: "rxp_evidence_gate E (cl_evidence c @ [v]) = Inr g"
    and M: "M = L\<lparr>ml_entries := ml_entries L @ [e], ml_root := le_root e, ml_cells := dict_set (xe_cell_id v) b (ml_cells L)\<rparr>"
    and b: "b = (let c' = c\<lparr>cl_evidence := cl_evidence c @ [v], cl_evidence_digests := cl_evidence_digests c @ [digest]\<rparr> in
        if ga_status g = ''PASS'' then c'\<lparr>cl_state := EVIDENCE_READY\<rparr> else c')"
  shows "ledger_inv E M"
proof (rule ledger_inv_grown [OF inv _ entry plain])
  note f = next_entry_fields [OF entry]
  note wf = known_cell [OF inv c]
  have e: "lc_document_digest e = digest" using f(6) digest by simp
  have digests: "digest_all E (map rxp_evidence_json (cl_evidence c)) = Inr (cl_evidence_digests c)"
    using wf(1) by (simp add: cell_wf_def)
  show "grown L e (xe_cell_id v) b M" by (simp add: M grown_def)
  show "cell_wf E M (xe_cell_id v) b"
    using wf(1) e state fresh plain digest_all_snoc [OF digests digest]
    by (cases "ga_status g = ''PASS''"; elim disjE; simp add: b Let_def cell_wf_def M seen_digests_def; blast)
  show "xe_cell_id v \<in> set (keys (ml_expected L))" by (rule wf(2))
  show "known M (EvidenceDoc v)" by (simp add: M b Let_def dict_get_set)
  show "\<not> known L (EvidenceDoc v)" using new c by simp
  show "cell_extends (dict_get (ml_cells L) (xe_cell_id v)) b"
    using c by (auto simp: b Let_def cell_extends_def)
  have "plain_json E (rxp_evidence_json x)" if "x \<in> set (cl_evidence c @ [v])" for x
    using that wf(1) plain by (auto simp: cell_wf_def list_all_iff plain_document_def)
  from canon_gate [of "cl_evidence c @ [v]", OF this] gate have gate': "rxp_evidence_gate E (map canon_evidence (cl_evidence c) @ [canon_evidence v]) = Inr g"
    by simp
  have "verify_evidence_entry E (canon_cell c) e (canon_evidence v) = Inr (canon_cell b)"
    using f(8) e state rd gate' new
    by (simp add: verify_evidence_entry_def Let_def image_image b canon_cell_def)
  then show "verify_transition E (canon_cells (ml_cells L)) e (canon_document (EvidenceDoc v)) (canon_plan (ml_plan L)) =
      Inr (canon_cells (ml_cells M))"
    using f c by (simp add: verify_transition_def canon_cells_get canon_cells_set M)
  show "verify_recorded_at e (canon_document (EvidenceDoc v)) = Inr ()"
    using f by (simp add: verify_recorded_at_def)
  show "set [xe_receipt_digest v] \<subseteq> set (seen_digests L)" using wf(1) rd by (simp add: cell_wf_def)
qed (use m in \<open>simp_all add: M\<close>)

lemma decision_recorded:
  assumes inv: "ledger_inv E L" and plain: "plain_document E (DecisionDoc d)" and m: "xd_matrix_id d = ml_matrix_id L"
    and c: "dict_get (ml_cells L) (xd_cell_id d) = Some c" and state: "cl_state c = EVIDENCE_READY"
    and r: "cl_receipt c = Some r" "cl_receipt_digest c = Some rd" and out: "xc_outcome r = ''SUCCEEDED''"
    and gate: "rxp_evidence_gate E (cl_evidence c) = Inr (xd_gate d)"
    and causal: "xd_intent_digest d = cl_intent_digest c" "xd_receipt_digest d = rd"
      "xd_evidence_digests d = sort (cl_evidence_digests c)" "xd_determinism_level d = xc_determinism_level r"
    and digest: "digest_document E (rxp_decision_json d) = Inr digest"
    and entry: "next_entry E L ''DECISION_RECORDED'' (DecisionDoc d) ([cl_intent_digest c, rd] @ sort (cl_evidence_digests c))
      (xd_decided_at d) = Inr e"
    and M: "M = L\<lparr>ml_entries := ml_entries L @ [e], ml_root := le_root e,
      ml_cells := dict_set (xd_cell_id d) (c\<lparr>cl_decision := Some d, cl_decision_digest := Some digest, cl_state := DECIDED\<rparr>) (ml_cells L)\<rparr>"
  shows "ledger_inv E M"
proof (rule ledger_inv_grown [OF inv _ entry plain])
  note f = next_entry_fields [OF entry]
  note wf = known_cell [OF inv c]
  let ?c = "c\<lparr>cl_decision := Some d, cl_decision_digest := Some digest, cl_state := DECIDED\<rparr>"
  have e: "lc_document_digest e = digest" using f(6) digest by simp
  have none: "cl_decision c = None" using wf(1) state by (simp add: cell_wf_def)
  show "grown L e (xd_cell_id d) ?c M" by (simp add: M grown_def)
  show "cell_wf E M (xd_cell_id d) ?c"
    using wf(1) e none state by (auto simp: cell_wf_def M seen_digests_def)
  show "xd_cell_id d \<in> set (keys (ml_expected L))" by (rule wf(2))
  show "known M (DecisionDoc d)" by (simp add: M dict_get_set)
  show "\<not> known L (DecisionDoc d)" using none c by simp
  show "cell_extends (dict_get (ml_cells L) (xd_cell_id d)) ?c"
    using c none by (simp add: cell_extends_def)
  have "plain_json E (rxp_evidence_json x)" if "x \<in> set (cl_evidence c)" for x
    using that wf(1) by (auto simp: cell_wf_def list_all_iff plain_document_def)
  from canon_gate [of "cl_evidence c", OF this] gate have gate': "rxp_evidence_gate E (map canon_evidence (cl_evidence c)) = Inr (xd_gate d)"
    by simp
  have "verify_decision_entry E (canon_cell c) e d = Inr (canon_cell ?c)"
    using f e state r causal out gate' by (simp add: verify_decision_entry_def checked_def canon_cell_def)
  then show "verify_transition E (canon_cells (ml_cells L)) e (canon_document (DecisionDoc d)) (canon_plan (ml_plan L)) =
      Inr (canon_cells (ml_cells M))"
    using f c by (simp add: verify_transition_def canon_cells_get canon_cells_set M)
  show "verify_recorded_at e (canon_document (DecisionDoc d)) = Inr ()"
    using f by (simp add: verify_recorded_at_def)
  show "set ([cl_intent_digest c, rd] @ sort (cl_evidence_digests c)) \<subseteq> set (seen_digests L)"
    using wf(1) r by (simp add: cell_wf_def)
qed (use m in \<open>simp_all add: M\<close>)

lemma store_receipt_inv:
  assumes "ledger_inv E L" "plain_document E (ReceiptDoc r)"
  shows "wp (receipt_checks E r) (\<lambda>(c, g, gd) L'. L' = L \<and> wp (store_receipt E r c gd) (\<lambda>_. ledger_inv E) (\<lambda>_ L'. L' = L) L)
    (\<lambda>_ L'. L' = L) L"
  using assms
  by (simp add: receipt_checks_def store_receipt_def require_matrix_def require_cell_def require_state_def put_cell_def wp_simps wp_append
      split: option.split sum.split) (blast intro: receipt_recorded [OF _ _ _ _ _ _ _ _ _ _ _ _ _ refl])

lemma record_decision_inv:
  assumes "ledger_inv E L" "plain_document E (DecisionDoc d)"
  shows "wp (record_decision E d) (\<lambda>_. ledger_inv E) (\<lambda>_ L'. L' = L) L"
  using assms
  by (simp add: record_decision_def require_matrix_def require_cell_def require_state_def put_cell_def wp_simps wp_append checked_def
      split: option.split sum.split)
    (intro allI impI conjI; simp?; rule decision_recorded [OF _ _ _ _ _ _ _ _ _ _ _ _ _ _ _ refl]; (assumption | simp)+)

text \<open>The gate over the evidence of a cell and one document more never raises.\<close>

lemma next_gate_returns:
  assumes "sha_digests E" "ledger_inv E L" "dict_get (ml_cells L) k = Some c"
    "digest_document E (rxp_evidence_json v) = Inr digest" "digest \<notin> set (cl_evidence_digests c)"
  shows "rxp_evidence_gate E (cl_evidence c @ [v]) \<noteq> Inl x"
proof -
  have wf: "cell_wf E L k c" by (rule known_cell [OF assms(2,3)])
  then have "digest_all E (map rxp_evidence_json (cl_evidence c @ [v])) = Inr (cl_evidence_digests c @ [digest])"
    using digest_all_snoc assms(4) by (simp add: cell_wf_def)
  moreover have "distinct (cl_evidence_digests c @ [digest])" using wf assms(5) by (simp add: cell_wf_def)
  ultimately have "\<exists>g. rxp_evidence_gate E (cl_evidence c @ [v]) = Inr g" by (rule rxp_gate_returns [OF assms(1)])
  then show ?thesis by auto
qed

lemma record_evidence_inv:
  assumes "sha_digests E" "ledger_inv E L" "plain_document E (EvidenceDoc v)"
  shows "wp (record_evidence_document E v) (\<lambda>_. ledger_inv E) (\<lambda>_ L'. L' = L) L"
  using assms
  by (simp add: record_evidence_document_def require_matrix_def require_cell_def put_cell_def wp_simps wp_append checked_def Let_def
      split: option.split sum.split)
    (intro allI impI conjI; (simp add: next_gate_returns)?;
     (rule evidence_recorded [OF _ _ _ _ _ _ _ _ _ _ _ _ refl], (assumption | simp)+)?)

end
