(* ===== verification/RxpRun.thy ===== *)
theory RxpRun
  imports RxpInv
begin

text \<open>
  The reachable ledgers: the first entry, the calls that follow it in any order and with any outcome, and the
  invariant and the verification of the snapshot in every one of them.
\<close>

subsection \<open>The first entry\<close>

lemma first_entry_verifies:
  assumes sha: "sha_digests E" and plain: "plain_document E (PlanDoc p)"
    and entry: "next_entry E (empty_ledger E p d) ''MATRIX_FROZEN'' (PlanDoc p) [] (xp_frozen_at p) = Inr e"
    and time: "parse_utc (xp_frozen_at p) = Inr t"
  shows "verify_entries E (xp_matrix_id p) 1 [e] (verify_start E) =
    Inr \<lparr>vs_root = le_root e, vs_cells = [], vs_plan = Some (canon_plan p), vs_seen_digests = [lc_document_digest e],
      vs_intent_ids = [], vs_grant_ids = [], vs_time = Some t\<rparr>"
proof -
  note f = next_entry_fields [OF entry]
  have parse: "parse_model E (lc_document_kind e) (lc_document e) = Inr (PlanDoc (canon_plan p))"
    using parse_back [OF plain f(7)] f(5) by simp
  have digest: "digest_document E (plan_json (canon_plan p)) = Inr (lc_document_digest e)"
    using canon_digest [of E "PlanDoc p"] plain f(6) by (simp add: plain_document_def)
  show ?thesis
    using f(1-5,8-13) parse digest time
    by (simp add: verify_entry_def verify_start_def seen_ids_def verify_step_def verify_recorded_at_def empty_ledger_def
      canon_plan_def checked_def)
qed

lemma new_matrix_inv:
  assumes sha: "sha_digests E" and plain: "plain_document E (PlanDoc p)"
    and new: "new_matrix_ledger E p = Inr L" and time: "parse_utc (xp_frozen_at p) = Inr t"
  shows "ledger_inv E L"
proof -
  from new obtain d e where d: "digest_document E (plan_json p) = Inr d"
      and entry: "next_entry E (empty_ledger E p d) ''MATRIX_FROZEN'' (PlanDoc p) [] (xp_frozen_at p) = Inr e"
      and L: "L = (empty_ledger E p d)\<lparr>ml_entries := [e], ml_root := le_root e\<rparr>"
  proof (cases "digest_document E (plan_json p)")
    case (Inr d)
    with new that show ?thesis
      by (cases "next_entry E (empty_ledger E p d) ''MATRIX_FROZEN'' (PlanDoc p) [] (xp_frozen_at p)")
        (auto simp: new_matrix_ledger_def append_document_def empty_ledger_def)
  qed (simp add: new_matrix_ledger_def)
  note f = next_entry_fields [OF entry]
  have "lc_document e = sorted_json (plan_json p)"
    using f(7) plain by (simp add: plain_document_def stable_value)
  then have "entry_known E L e" using plain by (auto simp: entry_known_def intro!: exI [of _ "PlanDoc p"])
  then have "ledger_wf E L"
    using plain d f(14) by (simp add: ledger_wf_def L empty_ledger_def entry_ok_def)
  moreover have "verified_or_collision E L"
    using first_entry_verifies [OF sha plain entry time] time f(10)
    by (simp add: verified_or_collision_def L empty_ledger_def sim_def canon_cells_def seen_digests_def)
  ultimately show ?thesis by (simp add: ledger_inv_def)
qed

subsection \<open>Reachable ledgers\<close>

datatype rxp_call =
    RecordIntent intent
  | RecordGrant grant grant_signer string
  | RecordReceipt rxp_receipt
  | RecordEvidence rxp_evidence
  | RecordDecision rxp_decision

fun call_document :: "rxp_call \<Rightarrow> document" where
  "call_document (RecordIntent i) = IntentDoc i"
| "call_document (RecordGrant g s t) = GrantDoc g"
| "call_document (RecordReceipt r) = ReceiptDoc r"
| "call_document (RecordEvidence e) = EvidenceDoc e"
| "call_document (RecordDecision d) = DecisionDoc d"

type_synonym 'r consumer = "string \<Rightarrow> string \<Rightarrow> 'r \<Rightarrow> (rxp_error + bool) \<times> 'r"

fun rxp_run :: "rxp_env \<Rightarrow> 'r consumer \<Rightarrow> rxp_call \<Rightarrow> (matrix_ledger \<times> 'r, rxp_error, string) prog" where
  "rxp_run E consume (RecordIntent i) = with_ledger (record_intent E i)"
| "rxp_run E consume (RecordGrant g s t) = with_ledger (record_grant E g s t)"
| "rxp_run E consume (RecordReceipt r) = record_receipt E consume r"
| "rxp_run E consume (RecordEvidence e) = with_ledger (record_evidence_document E e)"
| "rxp_run E consume (RecordDecision d) = with_ledger (record_decision E d)"

text \<open>
  A run from a frozen plan: the calls made on the ledger, in order and whatever their outcome. The registry is
  shared, so others may change it between two calls.
\<close>

inductive ledger_run :: "rxp_env \<Rightarrow> 'r consumer \<Rightarrow> matrix_plan \<Rightarrow> rxp_call list \<Rightarrow> matrix_ledger \<times> 'r \<Rightarrow> bool"
  for E consume p where
  run_frozen: "new_matrix_ledger E p = Inr L \<Longrightarrow> ledger_run E consume p [] (L, R)"
| run_called: "ledger_run E consume p calls (L, R) \<Longrightarrow> rxp_run E consume call (L, R) = (x, (M, R')) \<Longrightarrow>
     ledger_run E consume p (calls @ [call]) (M, R')"
| run_others: "ledger_run E consume p calls (L, R) \<Longrightarrow> ledger_run E consume p calls (L, R')"

text \<open>
  The runs on plain documents: instances of the models whose texts are valid UTF-8 and do not change under NFC, with
  distinct keys, 64-bit integers and no floats, and a plan whose \<open>frozen_at\<close> is a date. The code accepts more. A text that NFC makes
  longer can pass the length check of the model and fail it when the canonical document is read back (an action of 128
  times U+0958), and \<open>frozen_at\<close> is checked by a pattern only, so that 2026-02-30T00:00:00Z is frozen and
  raises when the verifier reads it.
\<close>

inductive ledger_reachable :: "rxp_env \<Rightarrow> 'r consumer \<Rightarrow> matrix_ledger \<times> 'r \<Rightarrow> bool" for E consume where
  frozen: "new_matrix_ledger E p = Inr L \<Longrightarrow> plain_document E (PlanDoc p) \<Longrightarrow> parse_utc (xp_frozen_at p) = Inr t \<Longrightarrow>
     ledger_reachable E consume (L, R)"
| called: "ledger_reachable E consume (L, R) \<Longrightarrow> plain_document E (call_document call) \<Longrightarrow>
     rxp_run E consume call (L, R) = (x, (M, R')) \<Longrightarrow> ledger_reachable E consume (M, R')"
| others: "ledger_reachable E consume (L, R) \<Longrightarrow> ledger_reachable E consume (L, R')"

lemma run_reachable:
  assumes "ledger_run E consume p calls s" and "plain_document E (PlanDoc p)" and "parse_utc (xp_frozen_at p) = Inr t"
    and "\<forall>call \<in> set calls. plain_document E (call_document call)"
  shows "ledger_reachable E consume s"
  using assms by induction (auto intro: ledger_reachable.intros)

lemma reachable_run:
  assumes "ledger_reachable E consume s"
  shows "\<exists>p calls t. ledger_run E consume p calls s \<and> plain_document E (PlanDoc p) \<and> parse_utc (xp_frozen_at p) = Inr t
    \<and> (\<forall>call \<in> set calls. plain_document E (call_document call))"
  using assms
proof induction
  case (frozen p L t R)
  then show ?case using run_frozen by fastforce
next
  case (called L R call x M R')
  then obtain p calls t where run: "ledger_run E consume p calls (L, R)" "plain_document E (PlanDoc p)"
    "parse_utc (xp_frozen_at p) = Inr t" "\<forall>call \<in> set calls. plain_document E (call_document call)" by blast
  with called.hyps show ?case
    using run_called [OF run(1) called.hyps(3)] by (intro exI [of _ p] exI [of _ "calls @ [call]"]) auto
next
  case (others L R R')
  from others.IH show ?case by (elim exE conjE) (blast intro: run_others)
qed

lemma wp_with_ledger: "wp (with_ledger m) Q Er (L, R) = wp m (\<lambda>a L'. Q a (L', R)) (\<lambda>e L'. Er e (L', R)) L"
  by (simp add: wp_def with_ledger_def split: prod.split sum.split)

lemma wp_with_registry: "wp (with_registry m) Q Er (L, R) = wp m (\<lambda>a R'. Q a (L, R')) (\<lambda>e R'. Er e (L, R')) R"
  by (simp add: wp_def with_registry_def split: prod.split sum.split)

lemma wp_always: "(\<And>a s'. Q a s') \<Longrightarrow> (\<And>e s'. Er e s') \<Longrightarrow> wp m Q Er s"
  by (simp add: wp_def split: prod.split sum.split)

lemma record_receipt_inv:
  assumes "ledger_inv E L" "plain_document E (ReceiptDoc r)"
  shows "wp (record_receipt E consume r) (\<lambda>_ (L', R'). ledger_inv E L') (\<lambda>_ (L', R'). L' = L) (L, R)"
proof -
  have "wp (receipt_checks E r) (\<lambda>x L'. wp (case x of (c, g, gd) \<Rightarrow>
      bindE (with_registry (consume ''rxp-grant'' (xg_grant_id (gr_claims g)))) (\<lambda>fresh_grant.
      thenE (raise_if (\<not> fresh_grant) (RXPError ''grant_replayed'')) (with_ledger (store_receipt E r c gd))))
      (\<lambda>_ (L', R'). ledger_inv E L') (\<lambda>_ (L', R'). L' = L) (L', R)) (\<lambda>_ L'. L' = L) L"
    by (rule wp_mono [OF store_receipt_inv [OF assms]])
      (auto simp: wp_simps wp_with_ledger wp_with_registry intro!: wp_always)
  then show ?thesis by (simp add: record_receipt_def wp_simps wp_with_ledger)
qed

lemma rxp_run_inv:
  assumes sha: "sha_digests E" and inv: "ledger_inv E L" and plain: "plain_document E (call_document call)"
  shows "wp (rxp_run E consume call) (\<lambda>_ (L', R'). ledger_inv E L') (\<lambda>_ (L', R'). L' = L) (L, R)"
  using plain record_intent_inv [OF inv] record_grant_inv [OF inv] record_receipt_inv [OF inv]
    record_evidence_inv [OF sha inv] record_decision_inv [OF inv]
  by (cases call) (simp_all add: wp_with_ledger)

lemma reachable_inv:
  assumes sha: "sha_digests E"
  shows "ledger_reachable E consume s \<Longrightarrow> ledger_inv E (fst s)"
proof (induction rule: ledger_reachable.induct)
  case (called L R call x M R')
  then have "wp (rxp_run E consume call) (\<lambda>_ (L', R'). ledger_inv E L') (\<lambda>_ (L', R'). L' = L) (L, R)"
    using rxp_run_inv [OF sha] by simp
  then show ?case
    using called.hyps called.IH by (cases x) (auto dest: wp_result wp_error)
qed (use new_matrix_inv [OF sha] in \<open>auto\<close>)

subsection \<open>Snapshots\<close>

lemma snapshot_verifies:
  assumes wf: "ledger_wf E L" and run: "verify_entries E (ml_matrix_id L) 1 (ml_entries L) (verify_start E) = Inr st"
    and sim: "sim L st"
  shows "verify_ledger_document E (snapshot_ledger L) = Inr ()"
proof -
  have plan: "plain_document E (PlanDoc (ml_plan L))" and expected: "ml_expected L = map (\<lambda>c. (xy_cell_id c, c)) (xp_cells (ml_plan L))"
    and digest: "digest_document E (plan_json (ml_plan L)) = Inr (ml_plan_digest L)" and cells: "distinct (keys (ml_cells L))"
    using wf by (simp_all add: ledger_wf_def)
  have keys: "keys (ml_expected L) = map xy_cell_id (xp_cells (ml_plan L))" by (simp add: expected comp_def)
  have distinct: "distinct (map xy_cell_id (xp_cells (ml_plan L)))"
    using plan by (simp add: plain_document_def plan_ok_def cartesian_complete_def Let_def)
  have canon: "map xy_cell_id (xp_cells (canon_plan (ml_plan L))) = map xy_cell_id (xp_cells (ml_plan L))"
    by (simp add: canon_plan_def comp_def)
  have "distinct (decided_cells (ml_cells L))"
    using cells by (simp add: decided_cells_def distinct_map_filter)
  moreover have "digest_document E (plan_json (canon_plan (ml_plan L))) = Inr (ml_plan_digest L)"
    using canon_digest [of E "PlanDoc (ml_plan L)"] plan digest by (simp add: plain_document_def)
  ultimately show ?thesis
    using run sim distinct
    by (simp add: verify_ledger_document_def snapshot_ledger_def Let_def sim_def canon keys canon_cells_snapshots
      canon_cells_decided distinct_remdups_id expected comp_def)
qed

end
