(* ===== verification/RxpTyped.thy ===== *)
theory RxpTyped
  imports RxpRun
begin

text \<open>Snapshots of reachable ledgers satisfy the validators of their model; what a verified ledger proves of its cells.\<close>

subsection \<open>Snapshots are valid documents\<close>

lemma sorted_sort_map: "sorted (map fst (sort_key fst xs))"
  by simp

lemma decided_keys: "set (decided_cells cells) \<subseteq> set (keys cells)"
  by (auto simp: decided_cells_def)

lemma missing_count:
  assumes "distinct xs" "set ys \<subseteq> set xs" "distinct ys"
  shows "length ys + length (filter (\<lambda>k. k \<notin> set ys) xs) = length xs"
proof -
  have "length (filter (\<lambda>k. k \<in> set ys) xs) = card (set ys)"
  proof -
    have "set (filter (\<lambda>k. k \<in> set ys) xs) = set ys" using assms(2) by auto
    then show ?thesis by (metis assms(1) distinct_card distinct_filter)
  qed
  then show ?thesis using sum_length_filter_compl [of "\<lambda>k. k \<in> set ys" xs] assms(3) by (simp add: distinct_card)
qed

lemma seen_digest_ok: "ledger_wf E L \<Longrightarrow> d \<in> set (seen_digests L) \<Longrightarrow> rxp_digest d"
  by (auto simp: ledger_wf_def seen_digests_def list_all_iff entry_ok_def core_ok_def ledger_entry_core.defs)

lemma snapshot_cell_ok:
  assumes wf: "ledger_wf E L" and kc: "(k, c) \<in> set (ml_cells L)"
  shows "snapshot_ok (snapshot_cell c)" "sn_cell_id (snapshot_cell c) = k"
proof -
  have "dict_get (ml_cells L) k = Some c" using wf kc by (simp add: ledger_wf_def)
  then have cell: "cell_wf E L k c" using wf by (simp add: ledger_wf_def)
  then show id: "sn_cell_id (snapshot_cell c) = k" by (simp add: snapshot_cell_def cell_wf_def)
  have "k \<in> set (keys (ml_expected L))" using wf kc unfolding ledger_wf_def by force
  moreover have "ml_expected L = map (\<lambda>c. (xy_cell_id c, c)) (xp_cells (ml_plan L))" "plan_ok E (ml_plan L)"
    using wf by (simp_all add: ledger_wf_def plain_document_def)
  ultimately have "id_ok k" by (auto simp: plan_ok_def list_all_iff)
  with id cell seen_digest_ok [OF wf] show "snapshot_ok (snapshot_cell c)"
    by (cases "cl_grant_digest c"; cases "cl_receipt_digest c"; cases "cl_decision_digest c")
      (auto simp: snapshot_ok_def snapshot_cell_def cell_wf_def)
qed

lemma snapshot_typed:
  assumes sha: "sha_digests E" and wf: "ledger_wf E L"
  shows "ledger_document_ok E (snapshot_ledger L)"
proof -
  let ?ids = "map xy_cell_id (xp_cells (ml_plan L))"
  have plan: "plan_ok E (ml_plan L)" and expected: "ml_expected L = map (\<lambda>c. (xy_cell_id c, c)) (xp_cells (ml_plan L))"
    and digest: "digest_document E (plan_json (ml_plan L)) = Inr (ml_plan_digest L)" and cells: "distinct (keys (ml_cells L))"
    and sub: "set (keys (ml_cells L)) \<subseteq> set (keys (ml_expected L))"
    using wf unfolding ledger_wf_def plain_document_def document_ok.simps document_json.simps by blast+
  have keys: "keys (ml_expected L) = ?ids" by (simp add: expected comp_def)
  have ids: "distinct ?ids" using plan by (simp add: plan_ok_def cartesian_complete_def Let_def)
  have decided: "distinct (decided_cells (ml_cells L))" using cells by (simp add: decided_cells_def distinct_map_filter)
  have count: "length (decided_cells (ml_cells L)) + length (filter (\<lambda>k. k \<notin> set (decided_cells (ml_cells L))) ?ids) = length ?ids"
  proof (rule missing_count [OF ids _ decided])
    show "set (decided_cells (ml_cells L)) \<subseteq> set ?ids" using decided_keys [of "ml_cells L"] sub unfolding keys by (rule subset_trans)
  qed
  have counted: "int (length (decided_cells (ml_cells L))) + int (length (filter (\<lambda>k. k \<notin> set (decided_cells (ml_cells L))) ?ids)) = int (length ?ids)"
    using count by linarith
  have le: "length (decided_cells (ml_cells L)) \<le> length ?ids" using count by simp
  have plan_digest: "rxp_digest (ml_plan_digest L)" by (rule digest_document_ok [OF sha digest])
  have "map sn_cell_id (sorted_snapshots (ml_cells L)) = map fst (sort_key fst (ml_cells L))"
    using snapshot_cell_ok(2) [OF wf] by (auto simp: sorted_snapshots_def)
  then have order: "sorted (map sn_cell_id (sorted_snapshots (ml_cells L)))" by simp
  have snaps: "list_all snapshot_ok (sorted_snapshots (ml_cells L))"
    using snapshot_cell_ok(1) [OF wf] by (auto simp: sorted_snapshots_def list_all_iff)
  show ?thesis
    using wf plan plan_digest order snaps counted le
    by (simp add: ledger_document_ok_def snapshot_ledger_def Let_def ledger_wf_def plan_ok_def in_range_def keys expected comp_def)
qed

subsection \<open>What the verifier has checked of a cell\<close>

text \<open>The usage of a receipt lies within the signed bounds, it ran inside the window of the grant and its
  determinism level is the one demanded.\<close>

definition within_grant :: "rxp_receipt \<Rightarrow> grant \<Rightarrow> intent \<Rightarrow> bool" where
  "within_grant r g i \<longleftrightarrow>
     ru_gpu_count (xc_usage r) \<le> rb_gpu_count (xg_bounds (gr_claims g))
     \<and> ru_wall_time_seconds (xc_usage r) \<le> rb_wall_time_seconds (xg_bounds (gr_claims g))
     \<and> ru_gpu_time_seconds (xc_usage r) \<le> rb_gpu_time_seconds (xg_bounds (gr_claims g))
     \<and> ru_artifact_bytes (xc_usage r) \<le> rb_artifact_bytes (xg_bounds (gr_claims g))
     \<and> xf_bytes (xc_output r) = ru_artifact_bytes (xc_usage r)
     \<and> level_rank (xg_minimum_determinism (gr_claims g)) \<le> level_rank (xc_determinism_level r)
     \<and> level_rank (xi_required_determinism i) \<le> level_rank (xc_determinism_level r)
     \<and> (\<exists>started completed issued expires.
          parse_utc (xc_started_at r) = Inr started \<and> parse_utc (xc_completed_at r) = Inr completed
          \<and> parse_utc (xg_issued_at (gr_claims g)) = Inr issued \<and> parse_utc (xg_expires_at (gr_claims g)) = Inr expires
          \<and> issued - clock_skew \<le> started \<and> started < expires \<and> started \<le> completed)"

lemma validate_within: "validate_receipt r g i = Inr () \<longleftrightarrow> within_grant r g i"
  by (auto simp: validate_receipt_def within_grant_def exceeded_fields_def Let_def split: if_splits)

end
