(* ===== verification/RxpSound.thy ===== *)
theory RxpSound
  imports RxpTyped
begin

text \<open>
  Soundness of the offline verifier on its own: whoever accepts a ledger document knows, of every cell in
  it, that its documents are recorded entries that bind each other by digest and passed every check.
\<close>

definition recorded :: "rxp_env \<Rightarrow> ledger_entry list \<Rightarrow> document \<Rightarrow> string \<Rightarrow> bool" where
  "recorded E es doc digest \<longleftrightarrow> digest_document E (document_json doc) = Inr digest
     \<and> (\<exists>e \<in> set es. lc_document_digest e = digest \<and> parse_model E (document_kind doc) (lc_document e) = Inr doc)"

definition declared :: "matrix_plan \<Rightarrow> intent \<Rightarrow> bool" where
  "declared p i \<longleftrightarrow> (\<exists>d \<in> set (xp_cells p). xy_cell_id d = xi_cell_id i \<and> coordinates_eq (xi_coordinates i) (xy_coordinates d))"

definition grant_checked :: "rxp_env \<Rightarrow> ledger_entry list \<Rightarrow> rxp_cell \<Rightarrow> grant \<Rightarrow> bool" where
  "grant_checked E es c g \<longleftrightarrow> (\<exists>digest. cl_grant_digest c = Some digest \<and> recorded E es (GrantDoc g) digest)
     \<and> claims_match (gr_claims g) (cl_intent c) (cl_intent_digest c)
     \<and> bounds_contain (xg_bounds (gr_claims g)) (xi_requested_resources (cl_intent c))"

definition receipt_checked :: "rxp_env \<Rightarrow> ledger_entry list \<Rightarrow> rxp_cell \<Rightarrow> rxp_receipt \<Rightarrow> bool" where
  "receipt_checked E es c r \<longleftrightarrow> (\<exists>digest. cl_receipt_digest c = Some digest \<and> recorded E es (ReceiptDoc r) digest)
     \<and> (\<exists>g. cl_grant c = Some g \<and> cl_grant_digest c = Some (xc_grant_digest r)
          \<and> xc_grant_id r = xg_grant_id (gr_claims g) \<and> within_grant r g (cl_intent c))
     \<and> xc_intent_digest r = cl_intent_digest c"

definition decision_checked :: "rxp_env \<Rightarrow> ledger_entry list \<Rightarrow> rxp_cell \<Rightarrow> rxp_decision \<Rightarrow> bool" where
  "decision_checked E es c d \<longleftrightarrow> (\<exists>digest. cl_decision_digest c = Some digest \<and> recorded E es (DecisionDoc d) digest)
     \<and> (\<exists>r. cl_receipt c = Some r \<and> xc_outcome r = ''SUCCEEDED'' \<and> xd_determinism_level d = xc_determinism_level r)
     \<and> cl_receipt_digest c = Some (xd_receipt_digest d) \<and> xd_intent_digest d = cl_intent_digest c
     \<and> xd_evidence_digests d = sort (cl_evidence_digests c)
     \<and> rxp_evidence_gate E (cl_evidence c) = Inr (xd_gate d) \<and> ga_status (xd_gate d) = ''PASS''"

definition cell_checked :: "rxp_env \<Rightarrow> ledger_entry list \<Rightarrow> matrix_plan \<Rightarrow> string \<Rightarrow> rxp_cell \<Rightarrow> bool" where
  "cell_checked E es p k c \<longleftrightarrow> k = xi_cell_id (cl_intent c) \<and> declared p (cl_intent c)
     \<and> recorded E es (IntentDoc (cl_intent c)) (cl_intent_digest c)
     \<and> (\<forall>g. cl_grant c = Some g \<longrightarrow> grant_checked E es c g)
     \<and> (\<forall>r. cl_receipt c = Some r \<longrightarrow> receipt_checked E es c r)
     \<and> (\<forall>d. cl_decision c = Some d \<longrightarrow> decision_checked E es c d)
     \<and> digest_all E (map rxp_evidence_json (cl_evidence c)) = Inr (cl_evidence_digests c)
     \<and> list_all2 (\<lambda>v digest. recorded E es (EvidenceDoc v) digest \<and> cl_receipt_digest c = Some (xe_receipt_digest v) \<and> xe_cell_id v = k)
         (cl_evidence c) (cl_evidence_digests c)
     \<and> (cl_state c = INTENT_RECORDED \<longrightarrow> cl_grant c = None) \<and> (cl_state c \<in> {INTENT_RECORDED, GRANTED} \<longrightarrow> cl_receipt c = None)
     \<and> (cl_receipt c = None \<longleftrightarrow> cl_receipt_digest c = None)
     \<and> (cl_receipt c = None \<longrightarrow> cl_evidence c = [])
     \<and> (cl_state c = DECIDED \<longleftrightarrow> cl_decision c \<noteq> None)"

lemma recorded_more: "recorded E es doc d \<Longrightarrow> recorded E (es @ fs) doc d"
  by (auto simp: recorded_def)

lemma grant_checked_more: "grant_checked E es c g \<Longrightarrow> grant_checked E (es @ fs) c g"
  unfolding grant_checked_def by (blast intro: recorded_more)

lemma receipt_checked_more: "receipt_checked E es c r \<Longrightarrow> receipt_checked E (es @ fs) c r"
  unfolding receipt_checked_def by (blast intro: recorded_more)

lemma decision_checked_more: "decision_checked E es c d \<Longrightarrow> decision_checked E (es @ fs) c d"
  unfolding decision_checked_def by (blast intro: recorded_more)

lemma cell_checked_more:
  assumes "cell_checked E es p k c"
  shows "cell_checked E (es @ fs) p k c"
proof -
  let ?P = "\<lambda>gs v digest. recorded E gs (EvidenceDoc v) digest \<and> cl_receipt_digest c = Some (xe_receipt_digest v) \<and> xe_cell_id v = k"
  have "list_all2 (?P es) (cl_evidence c) (cl_evidence_digests c)" using assms unfolding cell_checked_def by blast
  then have "list_all2 (?P (es @ fs)) (cl_evidence c) (cl_evidence_digests c)"
    by (rule list_all2_mono) (simp add: recorded_more)
  then show ?thesis
    using assms unfolding cell_checked_def
    by (blast intro: grant_checked_more receipt_checked_more decision_checked_more recorded_more)
qed

subsection \<open>One verified entry\<close>

lemma need_SomeE: "Option.bind (need b) f = Some d \<Longrightarrow> (b \<Longrightarrow> f () = Some d \<Longrightarrow> thesis) \<Longrightarrow> thesis"
  by (simp add: need_def split: if_splits)

lemma bind_dropE: "Option.bind m f = Some b \<Longrightarrow> (\<And>a. f a = Some b \<Longrightarrow> thesis) \<Longrightarrow> thesis"
  by (cases m) simp_all

lemma decision_read: assumes "read_rxp_decision j = Some d" shows "rxp_decision_ok d"
  using assms unfolding read_rxp_decision_def Let_def
  by - ((erule need_SomeE | erule bind_dropE)+, simp only: option.inject)

lemma parse_facts:
  assumes "parse_model E kind v = Inr doc"
  shows "document_kind doc = kind" "doc = DecisionDoc d \<Longrightarrow> ga_status (xd_gate d) = ''PASS''"
  using assms
  by (auto simp: parse_model_def read_document_def rxp_decision_ok_def dest!: decision_read split: sum.splits option.splits if_splits)

lemma verify_entry_facts:
  assumes "verify_entry E m n e st = Inr st'"
  obtains doc st1 st2 where "parse_model E (lc_document_kind e) (lc_document e) = Inr doc"
    "document_cell_id doc = lc_cell_id e" "digest_document E (document_json doc) = Inr (lc_document_digest e)"
    "vs_cells st1 = vs_cells st" "vs_plan st1 = vs_plan st" "verify_step E st1 m n e doc = Inr st2"
    "st' = st2\<lparr>vs_seen_digests := vs_seen_digests st2 @ [lc_document_digest e]\<rparr>"
proof -
  from assms obtain doc now st1 new_root st2 where "parse_model E (lc_document_kind e) (lc_document e) = Inr doc"
      "document_cell_id doc = lc_cell_id e" "digest_document E (document_json doc) = Inr (lc_document_digest e)"
      "seen_ids (st\<lparr>vs_time := Some now\<rparr>) doc = Inr st1" "verify_step E (st1\<lparr>vs_root := new_root\<rparr>) m n e doc = Inr st2"
      "st' = st2\<lparr>vs_seen_digests := vs_seen_digests st2 @ [lc_document_digest e]\<rparr>"
    by (auto simp: verify_entry_def)
  moreover from this(4) have "vs_cells st1 = vs_cells st" "vs_plan st1 = vs_plan st"
    by (auto simp: seen_ids_def split: document.splits if_splits)
  ultimately show ?thesis using that [of doc "st1\<lparr>vs_root := new_root\<rparr>" st2] by simp
qed

definition cells_checked :: "rxp_env \<Rightarrow> ledger_entry list \<Rightarrow> verify_state \<Rightarrow> bool" where
  "cells_checked E es st \<longleftrightarrow> (case vs_plan st of None \<Rightarrow> vs_cells st = []
     | Some p \<Rightarrow> \<forall>(k, c) \<in> set (vs_cells st). cell_checked E es p k c)"

lemma transition_checked:
  assumes cells: "\<forall>(k, c) \<in> set cells. cell_checked E es p k c"
    and parse: "parse_model E (lc_document_kind e) (lc_document e) = Inr doc" and cell: "document_cell_id doc = lc_cell_id e"
    and digest: "digest_document E (document_json doc) = Inr (lc_document_digest e)"
    and run: "verify_transition E cells e doc p = Inr cells'"
  shows "\<forall>(k, c) \<in> set cells'. cell_checked E (es @ [e]) p k c"
proof -
  let ?k = "lc_cell_id e"
  have rec: "recorded E (es @ [e]) doc (lc_document_digest e)"
    using parse digest parse_facts(1) [OF parse] by (simp add: recorded_def)
  have old: "cell_checked E (es @ [e]) p k c" if "(k, c) \<in> set cells" for k c
    using cells that cell_checked_more by blast
  have set: ?thesis if "cells' = dict_set ?k c' cells" "cell_checked E (es @ [e]) p ?k c'" for c'
    using that old set_dict_set [of ?k c' cells] by auto
  show ?thesis
  proof (cases doc)
    case (IntentDoc i)
    have c: "cell_checked E (es @ [e]) p ?k (new_cell i (lc_document_digest e))"
      if "dict_get (map (\<lambda>c. (xy_cell_id c, c)) (xp_cells p)) ?k = Some d" "coordinates_eq (xi_coordinates i) (xy_coordinates d)" for d
      using that rec cell map_of_SomeD [OF that(1)] unfolding IntentDoc
      by (auto simp: cell_checked_def new_cell_def declared_def)
    show ?thesis
      using run c by (intro set [of "new_cell i (lc_document_digest e)"])
        (auto simp: IntentDoc verify_transition_def verify_intent_entry_def Let_def split: option.splits)
  next
    case (GrantDoc g)
    from run obtain c where c: "dict_get cells ?k = Some c" and v: "cl_state c = INTENT_RECORDED"
        "claims_match (gr_claims g) (cl_intent c) (cl_intent_digest c)"
        "bounds_contain (xg_bounds (gr_claims g)) (xi_requested_resources (cl_intent c))"
      and c': "cells' = dict_set ?k (c\<lparr>cl_grant := Some g, cl_grant_digest := Some (lc_document_digest e), cl_state := GRANTED\<rparr>) cells"
      by (auto simp: GrantDoc verify_transition_def verify_grant_entry_def split: option.splits)
    show ?thesis
      by (rule set [OF c']) (use old [OF map_of_SomeD [OF c]] v rec in \<open>auto simp: GrantDoc cell_checked_def grant_checked_def\<close>)
  next
    case (ReceiptDoc r)
    from run obtain c g gd where c: "dict_get cells ?k = Some c" and v: "cl_state c = GRANTED" "cl_grant c = Some g"
        "cl_grant_digest c = Some gd" "xc_intent_digest r = cl_intent_digest c" "xc_grant_digest r = gd"
        "xc_grant_id r = xg_grant_id (gr_claims g)" "validate_receipt r g (cl_intent c) = Inr ()"
      and c': "cells' = dict_set ?k (c\<lparr>cl_receipt := Some r, cl_receipt_digest := Some (lc_document_digest e), cl_state := RECEIPT_RECORDED\<rparr>) cells"
      by (auto simp: ReceiptDoc verify_transition_def verify_receipt_entry_def split: option.splits if_splits)
    show ?thesis
      by (rule set [OF c']) (use old [OF map_of_SomeD [OF c]] v rec in
        \<open>auto simp: ReceiptDoc cell_checked_def receipt_checked_def grant_checked_def validate_within\<close>)
  next
    case (EvidenceDoc v)
    from run obtain c b where c: "dict_get cells ?k = Some c"
        and state: "cl_state c = RECEIPT_RECORDED \<or> cl_state c = EVIDENCE_READY"
        and rd: "cl_receipt_digest c = Some (xe_receipt_digest v)" and c': "cells' = dict_set ?k b cells"
        and b: "b = c\<lparr>cl_evidence := cl_evidence c @ [v], cl_evidence_digests := cl_evidence_digests c @ [lc_document_digest e]\<rparr>
          \<or> b = c\<lparr>cl_evidence := cl_evidence c @ [v], cl_evidence_digests := cl_evidence_digests c @ [lc_document_digest e],
            cl_state := EVIDENCE_READY\<rparr>"
      by (auto simp: EvidenceDoc verify_transition_def verify_evidence_entry_def Let_def split: option.splits if_splits)
    have o1: "cell_checked E (es @ [e]) p ?k c" by (rule old [OF map_of_SomeD [OF c]])
    have "digest_all E (map rxp_evidence_json (cl_evidence c) @ [rxp_evidence_json v]) = Inr (cl_evidence_digests c @ [lc_document_digest e])"
      using o1 digest EvidenceDoc by (intro digest_all_snoc) (simp_all add: cell_checked_def)
    moreover have "grant_checked E (es @ [e]) b g = grant_checked E (es @ [e]) c g"
        "receipt_checked E (es @ [e]) b r = receipt_checked E (es @ [e]) c r" for g r
      using b by (auto simp: grant_checked_def receipt_checked_def)
    moreover have "list_all2 (\<lambda>v digest. recorded E (es @ [e]) (EvidenceDoc v) digest \<and> cl_receipt_digest c = Some (xe_receipt_digest v)
        \<and> xe_cell_id v = ?k) (cl_evidence c @ [v]) (cl_evidence_digests c @ [lc_document_digest e])"
      using o1 rd rec cell EvidenceDoc by (auto simp: cell_checked_def intro!: list_all2_appendI)
    moreover have "cl_decision c = None" "cl_receipt c \<noteq> None" using o1 state rd by (auto simp: cell_checked_def)
    ultimately have "cell_checked E (es @ [e]) p ?k b"
      using o1 state b unfolding cell_checked_def by (elim disjE) simp_all
    then show ?thesis by (rule set [OF c'])
  next
    case (DecisionDoc d)
    from run obtain c r rd where c: "dict_get cells ?k = Some c" and v: "cl_state c = EVIDENCE_READY" "cl_receipt c = Some r"
        "cl_receipt_digest c = Some rd" "rxp_evidence_gate E (cl_evidence c) = Inr (xd_gate d)" "xd_intent_digest d = cl_intent_digest c"
        "xd_receipt_digest d = rd" "xd_evidence_digests d = sort (cl_evidence_digests c)"
        "xd_determinism_level d = xc_determinism_level r" "xc_outcome r = ''SUCCEEDED''"
      and c': "cells' = dict_set ?k (c\<lparr>cl_decision := Some d, cl_decision_digest := Some (lc_document_digest e), cl_state := DECIDED\<rparr>) cells"
      by (auto simp: DecisionDoc verify_transition_def verify_decision_entry_def split: option.splits if_splits)
    show ?thesis
      by (rule set [OF c']) (use old [OF map_of_SomeD [OF c]] v rec parse_facts(2) [OF parse DecisionDoc] in
        \<open>auto simp: DecisionDoc cell_checked_def receipt_checked_def grant_checked_def decision_checked_def\<close>)
  qed (use run in \<open>auto simp: verify_transition_def split: option.splits\<close>)
qed

lemma entry_checked:
  assumes "cells_checked E es st" "verify_entry E m n e st = Inr st'"
  shows "cells_checked E (es @ [e]) st'"
  using assms(2)
proof (rule verify_entry_facts)
  fix doc st1 st2
  assume f: "parse_model E (lc_document_kind e) (lc_document e) = Inr doc"
    "document_cell_id doc = lc_cell_id e" "digest_document E (document_json doc) = Inr (lc_document_digest e)"
    and st1: "vs_cells st1 = vs_cells st" "vs_plan st1 = vs_plan st" and step: "verify_step E st1 m n e doc = Inr st2"
    and st': "st' = st2\<lparr>vs_seen_digests := vs_seen_digests st2 @ [lc_document_digest e]\<rparr>"
  show "cells_checked E (es @ [e]) st'"
  proof (cases "\<exists>p. doc = PlanDoc p")
    case True
    with step st1 assms(1) st' show ?thesis by (auto simp: verify_step_def cells_checked_def)
  next
    case False
    with step obtain p cells' where p: "vs_plan st1 = Some p" and run: "verify_transition E (vs_cells st1) e doc p = Inr cells'"
        and st2: "st2 = st1\<lparr>vs_cells := cells'\<rparr>"
      by (cases doc) (auto simp: verify_step_def split: option.splits)
    from p st1 assms(1) have "\<forall>(k, c) \<in> set (vs_cells st1). cell_checked E es p k c" by (simp add: cells_checked_def)
    from transition_checked [OF this f run] p st1 show ?thesis by (simp add: cells_checked_def st' st2)
  qed
qed

lemma entries_checked:
  "verify_entries E m n es st = Inr st' \<Longrightarrow> cells_checked E pre st \<Longrightarrow> cells_checked E (pre @ es) st'"
proof (induction es arbitrary: n st pre)
  case (Cons e es)
  from Cons.prems(1) obtain st1 where "verify_entry E m n e st = Inr st1" "verify_entries E m (n + 1) es st1 = Inr st'"
    by auto
  with Cons.IH [of "n + 1" st1 "pre @ [e]"] entry_checked [OF Cons.prems(2)] show ?case by simp
qed simp

text \<open>The cells of an accepted document.\<close>

lemma verified_cell:
  assumes "verify_ledger_document E d = Inr ()" "s \<in> set (ld_cells d)"
  obtains p c where "cell_checked E (ld_entries d) p (sn_cell_id s) c" "s = snapshot_cell c"
    "digest_document E (plan_json p) = Inr (ld_matrix_plan_digest d)"
proof -
  from assms(1) obtain st p where run: "verify_entries E (ld_matrix_id d) 1 (ld_entries d) (verify_start E) = Inr st"
      and p: "vs_plan st = Some p" "digest_document E (plan_json p) = Inr (ld_matrix_plan_digest d)"
      and cells: "sorted_snapshots (vs_cells st) = ld_cells d"
    by (auto simp: verify_ledger_document_def Let_def split: option.splits)
  have "cells_checked E (ld_entries d) st"
    using entries_checked [OF run, of "[]"] by (simp add: cells_checked_def verify_start_def)
  moreover from assms(2) cells obtain k c where "(k, c) \<in> set (vs_cells st)" "s = snapshot_cell c"
    by (auto simp flip: cells simp: sorted_snapshots_def)
  ultimately have "cell_checked E (ld_entries d) p k c" "s = snapshot_cell c" using p by (auto simp: cells_checked_def)
  moreover from this(1) have "sn_cell_id (snapshot_cell c) = k" by (simp add: cell_checked_def snapshot_cell_def)
  ultimately show ?thesis using that p(2) by blast
qed

end
