(* ===== verification/RxpTotal.thy ===== *)
theory RxpTotal
  imports RxpSound
begin

text \<open>
  Appending an entry does not fail once its time is checked: what \<open>record_receipt\<close> relies on when it
  consumes the grant before it appends the receipt.
\<close>

text \<open>The contract of Unicode normalisation that the protocol relies on: ASCII text is in normal form.\<close>

definition nfc_keeps_ascii :: "rxp_env \<Rightarrow> bool" where
  "nfc_keeps_ascii E \<longleftrightarrow> (\<forall>s. list_all (\<lambda>c. byte c < 128) s \<longrightarrow> nfc E s = s)"

lemma core_normalises:
  assumes nfc: "nfc_keeps_ascii E" and doc: "plain_json E (lc_document c)"
    and n: "0 \<le> lc_sequence c" "lc_sequence c < 2 ^ 63"
  shows "\<exists>d. digest_ledger_entry E (core_json c) = Inr d"
proof -
  have keys: "nfc E ''sequence'' = ''sequence''" "nfc E ''event_type'' = ''event_type''" "nfc E ''matrix_id'' = ''matrix_id''"
    "nfc E ''cell_id'' = ''cell_id''" "nfc E ''document_kind'' = ''document_kind''" "nfc E ''document_digest'' = ''document_digest''"
    "nfc E ''document'' = ''document''" "nfc E ''causal_parents'' = ''causal_parents''" "nfc E ''previous_root'' = ''previous_root''"
    "nfc E ''recorded_at'' = ''recorded_at''"
    using nfc by (simp_all add: nfc_keeps_ascii_def)
  have items: "normalise_items E (map JStr xs) = Inr (map JStr (map (nfc E) xs))" for xs
    by (induction xs) simp_all
  have "- (2 ^ 63) \<le> lc_sequence c" using n(1) by simp
  then have "\<exists>w. normalise E (core_json c) = Inr w"
    using n(2) stable_normalises(1) [OF doc] by (simp add: core_json_def strings_json_def items keys)
  then show ?thesis by (auto simp: digest_ledger_entry_def rxp_bytes_def)
qed

lemma document_object: "\<exists>kvs. sorted_json (document_json doc) = JObj kvs"
  using kind_field [of doc] by (metis sorted_obj)

lemma document_ids: "document_ok E doc \<Longrightarrow> id_ok (document_cell_id doc)"
proof -
  have "id_ok ''matrix''" by code_simp
  then show "document_ok E doc \<Longrightarrow> ?thesis"
    by (cases doc) (simp_all add: intent_ok_def grant_ok_def claims_ok_def rxp_receipt_ok_def rxp_evidence_ok_def rxp_decision_ok_def)
qed

fun event_of :: "document \<Rightarrow> string" where
  "event_of (PlanDoc p) = ''MATRIX_FROZEN''"
| "event_of (IntentDoc i) = ''INTENT_RECORDED''"
| "event_of (GrantDoc g) = ''GRANT_RECORDED''"
| "event_of (ReceiptDoc r) = ''RECEIPT_RECORDED''"
| "event_of (EvidenceDoc v) = ''EVIDENCE_RECORDED''"
| "event_of (DecisionDoc d) = ''DECISION_RECORDED''"

lemma next_entry_total:
  assumes sha: "sha_digests E" and nfc: "nfc_keeps_ascii E" and plain: "plain_document E doc"
    and matrix: "id_ok (ml_matrix_id L)" and start: "rxp_digest (ml_root L)" and few: "int (length (ml_entries L)) + 1 < 2 ^ 63"
    and parents: "list_all rxp_digest parents" and t: "utc_pattern t" and time: "check_append_time L t = Inr ()"
  shows "\<exists>e. next_entry E L (event_of doc) doc parents t = Inr e"
proof -
  have stable: "plain_json E (document_json doc)" using plain by (simp add: plain_document_def)
  then obtain d where d: "digest_document E (document_json doc) = Inr d" by (simp add: digest_document_def stable_bytes)
  define c where "c = \<lparr>lc_sequence = int (length (ml_entries L)) + 1, lc_event_type = event_of doc,
           lc_matrix_id = ml_matrix_id L, lc_cell_id = document_cell_id doc,
           lc_document_kind = document_kind doc, lc_document_digest = d, lc_document = sorted_json (document_json doc),
           lc_causal_parents = parents, lc_previous_root = ml_root L, lc_recorded_at = t\<rparr>"
  obtain kvs where kvs: "sorted_json (document_json doc) = JObj kvs" using document_object by blast
  have "plain_json E (JObj kvs)" using stable_sorted [OF stable] by (simp only: kvs)
  then have "json_object_ok E kvs" by (simp add: json_object_ok_def stable_bytes del: plain_json.simps)
  then have ok: "core_ok E c"
    using digest_document_ok [OF sha d] document_ids [of E doc] plain matrix start parents t kvs
    by (cases doc) (simp_all add: core_ok_def c_def plain_document_def)
  obtain entry_digest where ed: "digest_ledger_entry E (core_json c) = Inr entry_digest"
    using core_normalises [OF nfc, of c] stable_sorted [OF stable] few by (auto simp: c_def)
  have digest: "rxp_digest entry_digest"
    using ed tagged_digest_ok [OF sha] by (auto simp: digest_ledger_entry_def split: sum.splits)
  then obtain new_root where root: "extend_ledger_root E (ml_root L) entry_digest = Inr new_root" "rxp_digest new_root"
    using start tagged_digest_ok [OF sha] by (auto simp: extend_ledger_root_def digest_hex_def)
  have "entry_ok E (seal_entry c entry_digest new_root)"
    using ok digest root(2) by (cases c) (simp add: entry_ok_def seal_entry_def ledger_entry_core.defs ledger_entry.defs)
  then have "next_entry E L (event_of doc) doc parents t = Inr (seal_entry c entry_digest new_root)"
    using time d ok ed root(1) stable_value [OF stable] by (simp add: next_entry_def Let_def c_def)
  then show ?thesis by blast
qed

lemma ledger_append_total:
  assumes "sha_digests E" "nfc_keeps_ascii E" and wf: "ledger_wf E L" and "plain_document E doc"
    and "int (length (ml_entries L)) + 1 < 2 ^ 63" and parents: "set parents \<subseteq> set (seen_digests L)"
    and "utc_pattern t" "check_append_time L t = Inr ()"
  shows "\<exists>e. next_entry E L (event_of doc) doc parents t = Inr e"
proof (rule next_entry_total)
  show "list_all rxp_digest parents" using parents seen_digest_ok [OF wf] by (auto simp: list_all_iff)
  show "id_ok (ml_matrix_id L)" "rxp_digest (ml_root L)"
    using wf by (simp_all add: ledger_wf_def plain_document_def plan_ok_def)
qed (use assms in auto)

subsection \<open>A receipt that is refused leaves the ledger and the grant alone\<close>

lemma store_receipt_returns:
  assumes sha: "sha_digests E" and nfc: "nfc_keeps_ascii E" and inv: "ledger_inv E L" and plain: "plain_document E (ReceiptDoc r)"
    and few: "int (length (ml_entries L)) + 1 < 2 ^ 63"
  shows "wp (receipt_checks E r) (\<lambda>(c, g, gd) L'. L' = L \<and> xg_grant_id (gr_claims g) = xc_grant_id r \<and> (\<exists>d M. store_receipt E r c gd L = (Inr d, M))) (\<lambda>_ L'. L' = L) L"
proof -
  have wf: "ledger_wf E L" using inv by (simp add: ledger_inv_def)
  obtain d where d: "digest_document E (rxp_receipt_json r) = Inr d"
    using plain by (auto simp: plain_document_def digest_document_def stable_bytes)
  have t: "utc_pattern (xc_completed_at r)" using plain by (simp add: plain_document_def rxp_receipt_ok_def)
  have "\<exists>e. next_entry E L ''RECEIPT_RECORDED'' (ReceiptDoc r) [cl_intent_digest c, gd] (xc_completed_at r) = Inr e"
    if c: "dict_get (ml_cells L) (xc_cell_id r) = Some c" "cl_grant_digest c = Some gd"
      and time: "check_append_time L (xc_completed_at r) = Inr ()" for c gd
  proof -
    have "set [cl_intent_digest c, gd] \<subseteq> set (seen_digests L)"
      using known_cell(1) [OF inv c(1)] c(2) by (simp add: cell_wf_def)
    from ledger_append_total [OF sha nfc wf plain few this t time] show ?thesis by simp
  qed
  then have "\<exists>d M. store_receipt E r c gd L = (Inr d, M)"
    if "dict_get (ml_cells L) (xc_cell_id r) = Some c" "cl_grant_digest c = Some gd" "check_append_time L (xc_completed_at r) = Inr ()"
    for c gd
    using that d by (fastforce simp: store_receipt_def bindE_def thenE_def liftE_def append_document_def put_cell_def modifyE_def returnE_def)
  then show ?thesis
    by (simp add: receipt_checks_def require_matrix_def require_cell_def require_state_def wp_simps split: option.split sum.split)
qed

lemma receipt_checks_pure:
  "wp (receipt_checks E r) (\<lambda>(c, g, gd) L'. L' = L \<and> xg_grant_id (gr_claims g) = xc_grant_id r) (\<lambda>_ L'. L' = L) L"
  by (simp add: receipt_checks_def require_matrix_def require_cell_def require_state_def wp_simps split: option.split sum.split)

text \<open>The four ways a receipt can end.\<close>

lemma record_receipt_cases:
  assumes "record_receipt E consume r (L, R) = (x, (M, R'))"
  obtains (checked) e where "receipt_checks E r L = (Inl e, L)" "x = Inl e" "M = L" "R' = R"
  | (registry) c g gd y where "receipt_checks E r L = (Inr (c, g, gd), L)" "xg_grant_id (gr_claims g) = xc_grant_id r"
      "consume ''rxp-grant'' (xc_grant_id r) R = (y, R')" "y \<noteq> Inr True" "\<exists>e. x = Inl e" "M = L"
  | (stored) c g gd where "receipt_checks E r L = (Inr (c, g, gd), L)" "xg_grant_id (gr_claims g) = xc_grant_id r"
      "consume ''rxp-grant'' (xc_grant_id r) R = (Inr True, R')" "store_receipt E r c gd L = (x, M)"
proof (cases "receipt_checks E r L")
  case (Pair y L')
  show ?thesis
  proof (cases y)
    case (Inl e)
    then have "receipt_checks E r L = (Inl e, L)" using wp_error [OF receipt_checks_pure] Pair by simp
    with assms show ?thesis
      by (intro checked [of e]) (auto simp: record_receipt_def bindE_def with_ledger_def)
  next
    case (Inr z)
    then obtain c g gd where z: "z = (c, g, gd)" by (cases z) auto
    from wp_result [OF receipt_checks_pure Pair [unfolded Inr]] z
    have L': "L' = L" and g: "xg_grant_id (gr_claims g) = xc_grant_id r" by simp_all
    have ok: "receipt_checks E r L = (Inr (c, g, gd), L)" using Pair Inr z L' by simp
    obtain y R1 where consume: "consume ''rxp-grant'' (xc_grant_id r) R = (y, R1)" by fastforce
    show ?thesis
    proof (cases "y = Inr True")
      case True
      with assms ok g consume show ?thesis
        by (intro stored [of c g gd])
          (auto simp: record_receipt_def bindE_def with_ledger_def with_registry_def raise_if_def thenE_def returnE_def split: prod.splits)
    next
      case False
      with assms ok g consume show ?thesis
        by (intro registry [of c g gd y])
          (auto simp: record_receipt_def bindE_def with_ledger_def with_registry_def raise_if_def thenE_def raiseE_def split: sum.splits if_splits)
    qed
  qed
qed

text \<open>What the protocol draws from a replay registry.\<close>

context replay_registry
begin

lemma receipt_refused:
  assumes "sha_digests E" "nfc_keeps_ascii E" "ledger_inv E L" "plain_document E (ReceiptDoc r)"
    "int (length (ml_entries L)) + 1 < 2 ^ 63" and run: "record_receipt E consume r (L, R) = (Inl e, s)"
  shows "s = (L, R)"
proof -
  obtain M R' where s: "s = (M, R')" by (cases s)
  from run [unfolded s] show ?thesis
  proof (cases rule: record_receipt_cases)
    case (registry c g gd y)
    with consume_other [OF registry(3,4)] s show ?thesis by simp
  next
    case (stored c g gd)
    with wp_result [OF store_receipt_returns [OF assms(1-5)] stored(1)] show ?thesis by auto
  qed (simp add: s)
qed

lemma receipt_consumes:
  assumes "record_receipt E consume r (L, R) = (Inr d, (M, R'))"
  shows "(''rxp-grant'', xc_grant_id r) \<notin> used R" "used R' = insert (''rxp-grant'', xc_grant_id r) (used R)"
  using assms by (cases rule: record_receipt_cases; use consume_true in auto)+

text \<open>A used identifier stays used, whatever is called on whichever ledger.\<close>

lemma receipt_grows:
  assumes "record_receipt E consume r (L, R) = (x, (M, R'))"
  shows "used R \<subseteq> used R'"
  using assms
proof (cases rule: record_receipt_cases)
  case (registry c g gd y)
  with consume_other [OF registry(3,4)] show ?thesis by simp
next
  case (stored c g gd)
  with consume_true [OF stored(3)] show ?thesis by auto
qed simp

lemma run_grows: "used R \<subseteq> used (snd (snd (rxp_run E consume call (L, R))))"
proof (cases call)
  case (RecordReceipt r)
  obtain x M R' where "record_receipt E consume r (L, R) = (x, (M, R'))" by (metis surj_pair)
  with receipt_grows [OF this] RecordReceipt show ?thesis by simp
qed (auto simp: with_ledger_def split: prod.split)

lemma later_grows: "used R \<subseteq> used (fold (\<lambda>(L, call) R. snd (snd (rxp_run E consume call (L, R)))) calls R)"
proof (induction calls arbitrary: R)
  case (Cons a calls)
  obtain L call where a: "a = (L, call)" by (cases a)
  from run_grows [of R E call L] Cons.IH [of "snd (snd (rxp_run E consume call (L, R)))"] show ?case
    unfolding a by auto
qed simp

lemma used_refused:
  assumes "(''rxp-grant'', xc_grant_id r) \<in> used R" "record_receipt E consume r (L, R) = (x, s)"
  shows "\<exists>e. x = Inl e" "s = (L, R)"
proof -
  obtain M R' where s: "s = (M, R')" by (cases s)
  have "(\<exists>e. x = Inl e) \<and> M = L \<and> R' = R"
    using assms(2) [unfolded s]
  proof (cases rule: record_receipt_cases)
    case (registry c g gd y)
    with consume_other [OF registry(3,4)] show ?thesis by simp
  next
    case (stored c g gd)
    with consume_true [OF stored(3)] assms(1) show ?thesis by simp
  qed simp
  then show "\<exists>e. x = Inl e" "s = (L, R)" using s by simp_all
qed

end

end
