(* ===== verification/RxpDemo.thy ===== *)
theory RxpDemo
  imports RxpTotal
begin

text \<open>
  An honest run of a matrix with one cell, from the frozen plan to the decision: the concrete ledger at
  which the properties are applied. The hash numbers the documents of the run and maps everything else to zero.
\<close>

subsection \<open>A hash that tells the documents of the run apart\<close>

definition demo_hex :: "nat \<Rightarrow> string" where
  "demo_hex n = replicate 63 (CHR ''0'') @ [hex_char n]"

definition dg :: "nat \<Rightarrow> string" where
  "dg n = ''sha256:'' @ demo_hex n"

primrec position :: "'a \<Rightarrow> 'a list \<Rightarrow> nat" where
  "position x [] = 0"
| "position x (y # ys) = (if x = y then length ys + 1 else position x ys)"

definition document_input :: "document \<Rightarrow> string" where
  "document_input d = document_domain @ canonical_bytes constant_hash (document_json d)"

definition numbering_env :: "document list \<Rightarrow> rxp_env" where
  "numbering_env ds = \<lparr>sha256 = (\<lambda>x. demo_hex (position x (map document_input ds))), hmac256 = (\<lambda>k m. demo_hex 0),
     repr_float = (\<lambda>r. ''0.0''), read_float = (\<lambda>s. None), nfc = (\<lambda>s. s)\<rparr>"

lemma position_le: "position x ys \<le> length ys"
  by (induction ys) auto

lemma position_none: "x \<notin> set ys \<Longrightarrow> position x ys = 0"
  by (induction ys) auto

lemma position_map: "(\<And>y. y \<in> set ys \<Longrightarrow> f x = f y \<Longrightarrow> x = y) \<Longrightarrow> position (f x) (map f ys) = position x ys"
proof (induction ys)
  case (Cons a ys)
  then have "position (f x) (map f ys) = position x ys" by simp
  moreover have "f x = f a \<longleftrightarrow> x = a" using Cons.prems [of a] by auto
  ultimately show ?case by simp
qed simp

lemma demo_hex_ok: "n < 16 \<Longrightarrow> is_sha256_digest (demo_hex n)"
  by (auto simp: is_sha256_digest_def demo_hex_def list_all_iff hex_char_def is_lower_hex_def Let_def)

lemma dg_ok: "n < 16 \<Longrightarrow> rxp_digest (dg n)"
  by (simp add: rxp_digest_def dg_def demo_hex_ok)

lemma utf8_hex: "is_sha256_digest s \<Longrightarrow> utf8_valid s"
  by (rule utf8_ascii) (auto simp: is_sha256_digest_def is_lower_hex_def list_all_iff Let_def)

lemma dg_utf8: "n < 16 \<Longrightarrow> utf8_valid (dg n)"
  unfolding dg_def by (rule utf8_append [OF _ utf8_hex [OF demo_hex_ok]]) simp_all

lemma byte_hex: "n < 16 \<Longrightarrow> byte (hex_char n) = (if n < 10 then 48 + n else 87 + n)"
  by (simp add: hex_char_def take_bit_nat_eq_self)

lemma hex_char_le: "m < 16 \<Longrightarrow> n < 16 \<Longrightarrow> hex_char m \<le> hex_char n \<longleftrightarrow> m \<le> n"
  by (simp add: less_eq_char_def byte_hex)

lemma prefix_le: "(xs @ ys \<le> xs @ zs) = (ys \<le> zs)" for ys zs :: string
  by (induction xs) simp_all

lemma dg_le: "m < 16 \<Longrightarrow> n < 16 \<Longrightarrow> dg m \<le> dg n \<longleftrightarrow> m \<le> n"
proof -
  assume n: "m < 16" "n < 16"
  have "dg m \<le> dg n \<longleftrightarrow> [hex_char m] \<le> [hex_char n]" unfolding dg_def demo_hex_def by (simp only: prefix_le)
  also have "\<dots> \<longleftrightarrow> hex_char m \<le> hex_char n" by (auto simp: order_le_less)
  finally show ?thesis using hex_char_le [OF n] by simp
qed

lemma dg_eq: "m < 16 \<Longrightarrow> n < 16 \<Longrightarrow> dg m = dg n \<longleftrightarrow> m = n"
  by (metis dg_le order_antisym order_refl)

lemma numbering_sha: "length ds < 16 \<Longrightarrow> sha_digests (numbering_env ds)"
  using position_le [of _ "map document_input ds"] le_less_trans
  by (fastforce simp: sha_digests_def numbering_env_def intro: demo_hex_ok)

lemma numbering_nfc: "nfc_keeps_ascii (numbering_env ds)"
  by (simp add: nfc_keeps_ascii_def numbering_env_def)

subsection \<open>The documents of the run\<close>

definition demo_plan :: matrix_plan where
  "demo_plan = \<lparr>xp_matrix_id = ''m'', xp_name = ''n'', xp_frozen_by = ''a'', xp_frozen_at = ''2026-01-01T00:00:00Z'',
     xp_axes = [\<lparr>xa_name = ''x'', xa_values = [SInt 1]\<rparr>], xp_cells = [\<lparr>xy_cell_id = ''c'', xy_coordinates = [(''x'', SInt 1)]\<rparr>]\<rparr>"

definition demo_intent :: intent where
  "demo_intent = \<lparr>xi_intent_id = ''i'', xi_matrix_id = ''m'', xi_cell_id = ''c'', xi_coordinates = [(''x'', SInt 1)],
     xi_actor_id = ''a'', xi_created_at = ''2026-01-01T00:00:01Z'', xi_action = ''run'', xi_scope = ''s'', xi_action_payload = [],
     xi_action_payload_digest = dg 0,
     xi_run_manifest = \<lparr>xm_git_commit = ''abcdef0'', xm_config_sha256 = dg 0, xm_dataset_manifest_sha256 = dg 0,
       xm_environment_lock_sha256 = dg 0, xm_base_model_sha256 = dg 0, xm_seed = 0\<rparr>,
     xi_requested_resources = \<lparr>rq_gpu_count = 1, rq_wall_time_seconds = 60, rq_gpu_time_seconds = 60, rq_artifact_bytes = 9\<rparr>,
     xi_required_determinism = D1_INPUTS_BOUND, xi_approval_v1_binding = None, xi_extensions = []\<rparr>"

definition demo_grant :: grant where
  "demo_grant = \<lparr>gr_key_id = ''k'', gr_claims = \<lparr>xg_grant_id = ''g'', xg_issuer_id = ''b'', xg_intent_id = ''i'',
     xg_intent_digest = dg 2, xg_matrix_id = ''m'', xg_cell_id = ''c'', xg_action = ''run'', xg_scope = ''s'',
     xg_action_payload_digest = dg 0,
     xg_bounds = \<lparr>rb_gpu_count = 1, rb_wall_time_seconds = 60, rb_gpu_time_seconds = 60, rb_artifact_bytes = 9\<rparr>,
     xg_minimum_determinism = D1_INPUTS_BOUND, xg_issued_at = ''2026-01-01T00:00:02Z'',
     xg_expires_at = ''2026-01-01T00:10:00Z'', xg_nonce = ''nonce-nonce-nonce'', xg_legacy_approval_v1 = None\<rparr>,
     gr_signature = ''hmac-sha256:'' @ demo_hex 0\<rparr>"

definition demo_signer :: grant_signer where
  "demo_signer = \<lparr>gs_secret = replicate 32 (CHR ''k''), gs_key_id = ''k''\<rparr>"

definition demo_artifact :: artifact where
  "demo_artifact = \<lparr>xf_uri = ''u'', xf_media_type = ''t'', xf_sha256 = dg 0, xf_bytes = 9\<rparr>"

definition demo_receipt :: rxp_receipt where
  "demo_receipt = \<lparr>xc_receipt_id = ''r'', xc_matrix_id = ''m'', xc_cell_id = ''c'', xc_intent_digest = dg 2,
     xc_grant_digest = dg 3, xc_grant_id = ''g'', xc_executor_id = ''x'', xc_started_at = ''2026-01-01T00:00:03Z'',
     xc_completed_at = ''2026-01-01T00:00:04Z'', xc_outcome = ''SUCCEEDED'', xc_output = demo_artifact,
     xc_usage = \<lparr>ru_gpu_count = 1, ru_wall_time_seconds = 1, ru_gpu_time_seconds = 1, ru_artifact_bytes = 9\<rparr>,
     xc_determinism_level = D1_INPUTS_BOUND, xc_replay_count = 1, xc_replay_digest = None, xc_metadata = []\<rparr>"

definition demo_evidence :: "string \<Rightarrow> string \<Rightarrow> (string \<times> json) list \<Rightarrow> rxp_evidence" where
  "demo_evidence kind producer claims = \<lparr>xe_evidence_id = kind, xe_matrix_id = ''m'', xe_cell_id = ''c'', xe_receipt_digest = dg 4,
     xe_evidence_type = kind, xe_producer_id = producer, xe_artifact = demo_artifact, xe_claims = claims,
     xe_observed_at = ''2026-01-01T00:00:05Z''\<rparr>"

definition demo_evidences :: "rxp_evidence list" where
  "demo_evidences =
     [demo_evidence ''code'' ''p'' [], demo_evidence ''config'' ''p'' [], demo_evidence ''dataset_manifest'' ''p'' [],
      demo_evidence ''log'' ''p'' [],
      demo_evidence ''metric'' ''p'' [(''deterministic'', JBool True), (''summary_only'', JBool False), (''raw_data_digest'', JStr (dg 0))],
      demo_evidence ''trace'' ''p'' [],
      demo_evidence ''review'' ''v'' [(''reviewer_id'', JStr ''v''), (''independent'', JBool True), (''verdict'', JStr ''PASS''),
        (''reviewed_producers'', JList [JStr ''p''])]]"

definition demo_digests :: "string list" where
  "demo_digests = [dg 5, dg 6, dg 7, dg 8, dg 9, dg 10, dg 11]"

definition demo_gate :: gate_assessment where
  "demo_gate = \<lparr>ga_status = ''PASS'', ga_required_types = required_evidence_types,
     ga_present_types = sorted_set required_evidence_types, ga_missing_types = [], ga_evidence_digests = demo_digests,
     ga_evidence_root = dg 0, ga_independent_reviewer = Some ''v'', ga_reasons = []\<rparr>"

definition demo_decision :: rxp_decision where
  "demo_decision = \<lparr>xd_decision_id = ''d'', xd_matrix_id = ''m'', xd_cell_id = ''c'', xd_intent_digest = dg 2,
     xd_receipt_digest = dg 4, xd_evidence_digests = demo_digests, xd_evidence_root = dg 0, xd_gate = demo_gate,
     xd_verdict = ''KEEP'', xd_determinism_level = D1_INPUTS_BOUND, xd_decided_by = ''a'',
     xd_decided_at = ''2026-01-01T00:00:06Z'', xd_rationale_code = ''OK''\<rparr>"

text \<open>The documents that the hash numbers: the plan is 1, the intent 2, the grant 3, the receipt 4, the evidence 5 to 11.\<close>

definition demo_documents :: "document list" where
  "demo_documents = rev (map EvidenceDoc demo_evidences) @ [ReceiptDoc demo_receipt, GrantDoc demo_grant, IntentDoc demo_intent, PlanDoc demo_plan]"

definition demo_rxp :: rxp_env where
  "demo_rxp = numbering_env demo_documents"

lemma demo_rxp_simps: "nfc demo_rxp s = s" "hmac256 demo_rxp k t = demo_hex 0"
  "crypto.truncate demo_rxp = crypto.truncate (numbering_env demo_documents)"
  by (simp_all add: demo_rxp_def numbering_env_def)

subsection \<open>They are plain\<close>

lemmas plain_simps = demo_rxp_simps dg_utf8 strings_json_def opt_json_def list_all_map_id

lemma short_utf8: "list_all (\<lambda>c. byte c < 128) s \<Longrightarrow> utf8_valid s"
  by (rule utf8_ascii)

lemma demo_plain_plan: "plain_json demo_rxp (plan_json demo_plan)"
  by (simp add: plan_json_def demo_plan_def plain_simps axis_json_def cell_definition_json_def coordinates_json_def)

lemma demo_plain_intent: "plain_json demo_rxp (intent_json demo_intent)"
  by (simp add: intent_json_def demo_intent_def plain_simps coordinates_json_def rxp_manifest_json_def request_json_def)

lemma signature_utf8: "utf8_valid (''hmac-sha256:'' @ demo_hex 0)"
  by (rule utf8_append [OF _ utf8_hex [OF demo_hex_ok]]) simp_all

lemma demo_plain_grant: "plain_json demo_rxp (grant_json demo_grant)"
  using signature_utf8 by (simp add: grant_json_def demo_grant_def plain_simps claims_json_def bounds_json_def)

lemma demo_plain_receipt: "plain_json demo_rxp (rxp_receipt_json demo_receipt)"
  by (simp add: rxp_receipt_json_def demo_receipt_def plain_simps artifact_json_def demo_artifact_def usage_json_def)

lemma demo_plain_evidence: "v \<in> set demo_evidences \<Longrightarrow> plain_json demo_rxp (rxp_evidence_json v)"
  by (auto simp: rxp_evidence_json_def demo_evidences_def demo_evidence_def plain_simps artifact_json_def demo_artifact_def)

lemma demo_plain_decision: "plain_json demo_rxp (rxp_decision_json demo_decision)"
  by (simp add: rxp_decision_json_def demo_decision_def plain_simps assessment_json_def demo_gate_def demo_digests_def
    sorted_set_def required_evidence_types_def)

subsection \<open>Their digests\<close>

lemma bytes_float_free: "float_free j \<Longrightarrow> canonical_bytes C j = canonical_bytes C' j"
proof (induction j)
  case (JList xs)
  then have "map (canonical_bytes C) xs = map (canonical_bytes C') xs" by (simp add: list_all_map_id)
  then show ?case by (simp only: canonical_bytes.simps)
next
  case (JObj kvs)
  then have "map (map_prod id (canonical_bytes C)) kvs = map (map_prod id (canonical_bytes C')) kvs"
    by (force simp: snds_snd list_all_iff)
  then show ?case by (simp only: canonical_bytes.simps)
qed simp_all

fun document_key :: "document \<Rightarrow> string \<times> string" where
  "document_key (EvidenceDoc v) = (''Evidence'', xe_evidence_id v)"
| "document_key d = (document_kind d, [])"

lemma key_canon: "document_key (canon_document d) = document_key d"
  by (cases d) simp_all

lemma same_input_key:
  assumes "plain_document E d" "plain_document E d'" "document_input d = document_input d'"
  shows "document_key d = document_key d'"
proof -
  have "sorted_json (document_json d) = sorted_json (document_json d')"
    using assms stable_float_free by (intro canonical_injective [of _ _ constant_hash]) (auto simp: plain_document_def document_input_def)
  from same_document [OF assms(1,2) this] show ?thesis using key_canon by metis
qed

lemma numbering_digest:
  assumes "plain_document (numbering_env ds) d" "\<forall>d' \<in> set ds. plain_document (numbering_env ds) d' \<and> (document_key d = document_key d' \<longrightarrow> d = d')"
  shows "digest_document (numbering_env ds) (document_json d) = Inr (dg (position d ds))"
proof -
  have p: "plain_json (numbering_env ds) (document_json d)" using assms(1) by (simp add: plain_document_def)
  have "position (document_input d) (map document_input ds) = position d ds"
    using assms same_input_key by (intro position_map) blast
  moreover have "document_domain @ canonical_bytes C (document_json d) = document_input d" for C
    using bytes_float_free [OF stable_float_free [OF p]] by (simp add: document_input_def)
  ultimately show ?thesis
    by (simp add: digest_document_def stable_bytes [OF p] tagged_digest_def) (simp add: numbering_env_def dg_def)
qed

text \<open>What is not the input of a document hashes to zero.\<close>

lemma numbering_zero: "x \<notin> document_input ` set ds \<Longrightarrow> sha256 (numbering_env ds) x = demo_hex 0"
  by (simp add: numbering_env_def position_none)

lemma other_domain:
  "merkle_leaf_domain @ x \<notin> document_input ` D" "merkle_node_domain @ x \<notin> document_input ` D"
  by (auto simp: document_input_def merkle_leaf_domain_def merkle_node_domain_def document_domain_def)

lemma empty_object_digest: "\<forall>d \<in> set ds. plain_json (numbering_env ds) (document_json d) \<Longrightarrow> digest_document (numbering_env ds) (JObj []) = Inr (dg 0)"
proof -
  assume plain: "\<forall>d \<in> set ds. plain_json (numbering_env ds) (document_json d)"
  let ?x = "document_domain @ canonical_bytes (crypto.truncate (numbering_env ds)) (JObj [])"
  have "document_input d \<noteq> ?x" if d: "d \<in> set ds" for d
  proof
    assume "document_input d = ?x"
    moreover have f: "float_free (document_json d)" using plain d stable_float_free by blast
    ultimately have "sorted_json (document_json d) = sorted_json (JObj [])"
      using bytes_float_free [of "JObj []"] by (intro canonical_injective [of _ _ constant_hash]) (auto simp: document_input_def)
    moreover obtain kvs where kvs: "document_json d = JObj kvs" "dict_get kvs ''kind'' = Some (JStr (document_kind d))"
      using kind_field by blast
    ultimately have "sorted_members kvs = []" unfolding kvs sorted_obj by (simp add: sorted_members_def)
    then show False using keys_sorted [of kvs] kvs(2) by simp
  qed
  then have "?x \<notin> document_input ` set ds" by (metis imageE)
  then have "sha256 (numbering_env ds) ?x = demo_hex 0" by (rule numbering_zero)
  moreover have "plain_json (numbering_env ds) (JObj [])" by simp
  ultimately show ?thesis by (simp add: digest_document_def stable_bytes tagged_digest_def dg_def del: canonical_bytes.simps)
qed

subsection \<open>They are valid\<close>

lemmas ok_simps = in_range_def dg_ok max_int64_def

lemma demo_patterns:
  "id_ok ''m''" "id_ok ''n''" "id_ok ''a''" "id_ok ''c''" "id_ok ''i''" "id_ok ''g''" "id_ok ''b''" "id_ok ''k''" "id_ok ''r''" "id_ok ''x''"
  "id_ok ''p''" "id_ok ''v''" "id_ok ''d''" "list_all id_ok required_evidence_types" "nonce_ok ''nonce-nonce-nonce''"
  "axis_name_ok ''x''" "spelled is_lower_hex is_lower_hex 7 64 ''abcdef0''"
  "spelled upper (\<lambda>c. upper c \<or> is_digit c \<or> c = CHR ''_'') 2 64 ''OK''"
  by code_simp+

lemma demo_times:
  "utc_pattern ''2026-01-01T00:00:00Z''" "utc_pattern ''2026-01-01T00:00:01Z''" "utc_pattern ''2026-01-01T00:00:02Z''"
  "utc_pattern ''2026-01-01T00:00:03Z''" "utc_pattern ''2026-01-01T00:00:04Z''" "utc_pattern ''2026-01-01T00:00:05Z''"
  "utc_pattern ''2026-01-01T00:00:06Z''" "utc_pattern ''2026-01-01T00:10:00Z''"
  by code_simp+

lemma demo_parsed:
  "parse_utc ''2026-01-01T00:00:00Z'' = Inr 1767225600" "parse_utc ''2026-01-01T00:00:01Z'' = Inr 1767225601"
  "parse_utc ''2026-01-01T00:00:02Z'' = Inr 1767225602" "parse_utc ''2026-01-01T00:00:03Z'' = Inr 1767225603"
  "parse_utc ''2026-01-01T00:00:04Z'' = Inr 1767225604" "parse_utc ''2026-01-01T00:00:05Z'' = Inr 1767225605"
  "parse_utc ''2026-01-01T00:00:06Z'' = Inr 1767225606" "parse_utc ''2026-01-01T00:10:00Z'' = Inr 1767226200"
  by code_simp+

lemma demo_text: "text_ok 1 160 ''n''" "text_ok 1 128 ''run''" "text_ok 1 512 ''s''" "text_ok 1 2048 ''u''" "text_ok 1 255 ''t''"
  by code_simp+

lemma demo_plan_ok: "plan_ok demo_rxp demo_plan"
proof -
  have "cartesian_complete demo_rxp (xp_axes demo_plan) (xp_cells demo_plan)"
    by (simp add: cartesian_complete_def demo_plan_def Let_def bytes_of_def rxp_bytes_def coordinates_json_def demo_rxp_simps le_Suc_eq)
  moreover have "axis_ok demo_rxp \<lparr>xa_name = ''x'', xa_values = [SInt 1]\<rparr>"
    using demo_patterns by (simp add: axis_ok_def bytes_of_def rxp_bytes_def in_range_def)
  ultimately show ?thesis
    using demo_patterns demo_times demo_text by (simp add: plan_ok_def in_range_def demo_plan_def)
qed

lemma demo_object_ok: "plain_json E (JObj kvs) \<Longrightarrow> json_object_ok E kvs"
  by (simp add: json_object_ok_def stable_bytes del: plain_json.simps)

lemma demo_grant_ok: "grant_ok demo_grant"
  using demo_patterns demo_times demo_text
  by (simp add: grant_ok_def claims_ok_def demo_grant_def ok_simps bounds_ok_def demo_hex_ok)

lemma demo_artifact_ok: "artifact_ok demo_artifact"
  using demo_text by (simp add: artifact_ok_def demo_artifact_def ok_simps)

lemma demo_receipt_ok: "rxp_receipt_ok demo_rxp demo_receipt"
  using demo_patterns demo_times demo_artifact_ok
  by (simp add: rxp_receipt_ok_def demo_receipt_def ok_simps usage_ok_def demo_object_ok)

lemma demo_evidence_ok: "v \<in> set demo_evidences \<Longrightarrow> rxp_evidence_ok demo_rxp v"
  using demo_patterns demo_times demo_artifact_ok
  by (auto simp: rxp_evidence_ok_def demo_evidences_def demo_evidence_def ok_simps required_evidence_types_def plain_simps intro!: demo_object_ok)

lemma demo_decision_ok: "rxp_decision_ok demo_decision"
  using demo_patterns demo_times
  by (simp add: rxp_decision_ok_def demo_decision_def demo_gate_def demo_digests_def assessment_ok_def ok_simps dg_le)

lemma demo_documents_plain_json: "\<forall>d \<in> set demo_documents. plain_json demo_rxp (document_json d)"
  by (auto simp: demo_documents_def demo_plain_plan demo_plain_intent demo_plain_grant demo_plain_receipt demo_plain_evidence)

lemma demo_intent_ok: "intent_ok demo_rxp demo_intent"
proof -
  have "digest_document demo_rxp (JObj []) = Inr (dg 0)"
    using empty_object_digest demo_documents_plain_json by (simp only: demo_rxp_def)
  then show ?thesis
    using demo_patterns demo_times demo_text
    by (simp add: intent_ok_def demo_intent_def ok_simps rxp_manifest_ok_def request_ok_def demo_object_ok)
qed

lemma demo_documents_plain: "\<forall>d \<in> set demo_documents. plain_document demo_rxp d"
  using demo_documents_plain_json
  by (auto simp: demo_documents_def plain_document_def demo_plan_ok demo_intent_ok demo_grant_ok demo_receipt_ok demo_evidence_ok)

lemma demo_decision_plain: "plain_document demo_rxp (DecisionDoc demo_decision)"
  by (simp add: plain_document_def demo_plain_decision demo_decision_ok)

lemma demo_keys: "distinct (map document_key (DecisionDoc demo_decision # demo_documents))"
  by (simp add: demo_documents_def demo_evidences_def demo_evidence_def)

lemma rxp_demo_digest:
  assumes "d \<in> set (DecisionDoc demo_decision # demo_documents)"
  shows "digest_document demo_rxp (document_json d) = Inr (dg (position d demo_documents))"
  unfolding demo_rxp_def
proof (rule numbering_digest; unfold demo_rxp_def [symmetric])
  show "plain_document demo_rxp d" using assms demo_documents_plain demo_decision_plain by auto
  show "\<forall>d' \<in> set demo_documents. plain_document demo_rxp d' \<and> (document_key d = document_key d' \<longrightarrow> d = d')"
    using demo_documents_plain assms inj_onD [OF demo_keys [unfolded distinct_map, THEN conjunct2]] by auto
qed

lemma demo_positions:
  "position (PlanDoc demo_plan) demo_documents = 1" "position (IntentDoc demo_intent) demo_documents = 2"
  "position (GrantDoc demo_grant) demo_documents = 3" "position (ReceiptDoc demo_receipt) demo_documents = 4"
  "map (\<lambda>v. position (EvidenceDoc v) demo_documents) demo_evidences = [5, 6, 7, 8, 9, 10, 11]"
  "position (DecisionDoc demo_decision) demo_documents = 0"
  by (simp_all add: demo_documents_def demo_evidences_def demo_evidence_def)

end
