(* ===== verification/RxpDemoRun.thy ===== *)
theory RxpDemoRun
  imports RxpDemo
begin

text \<open>The honest run: every document is accepted, and the ledger that it leaves is complete.\<close>

definition demo_at :: "matrix_ledger \<Rightarrow> int \<Rightarrow> string list \<Rightarrow> (string \<times> rxp_cell) list \<Rightarrow> string list \<Rightarrow> string list \<Rightarrow> bool" where
  "demo_at L t ds cells ids gs \<longleftrightarrow> ledger_inv demo_rxp L \<and> ml_plan L = demo_plan \<and> seen_digests L = ds \<and> ml_cells L = cells
     \<and> parse_utc (lc_recorded_at (last (ml_entries L))) = Inr t \<and> ml_intent_ids L = ids \<and> ml_grant_ids L = gs"

lemma demo_sha: "sha_digests demo_rxp" "nfc_keeps_ascii demo_rxp"
  unfolding demo_rxp_def by (rule numbering_sha, simp add: demo_documents_def demo_evidences_def) (rule numbering_nfc)

lemma demo_at_facts:
  assumes "demo_at L t ds cells ids gs"
  shows "ledger_inv demo_rxp L" "ml_matrix_id L = ''m''" "ml_entries L \<noteq> []" "length (ml_entries L) = length ds"
    "ml_expected L = [(''c'', \<lparr>xy_cell_id = ''c'', xy_coordinates = [(''x'', SInt 1)]\<rparr>)]" "ml_cells L = cells" "ml_intent_ids L = ids"
    "ml_grant_ids L = gs" "seen_digests L = ds"
proof -
  have wf: "ledger_wf demo_rxp L" and ds: "seen_digests L = ds" and p: "ml_plan L = demo_plan"
    using assms by (simp_all add: demo_at_def ledger_inv_def)
  from wf p show "ml_matrix_id L = ''m''" "ml_entries L \<noteq> []"
      "ml_expected L = [(''c'', \<lparr>xy_cell_id = ''c'', xy_coordinates = [(''x'', SInt 1)]\<rparr>)]"
    by (simp_all add: ledger_wf_def demo_plan_def)
  show "length (ml_entries L) = length ds" by (simp add: ds [symmetric] seen_digests_def)
qed (use assms in \<open>simp_all add: demo_at_def\<close>)

lemma demo_next:
  assumes at: "demo_at L t ds cells ids gs" and doc: "doc \<in> set (DecisionDoc demo_decision # demo_documents)" and few: "length ds < 100"
    and parents: "set parents \<subseteq> set ds" and s: "utc_pattern s" "parse_utc s = Inr u" "t \<le> u"
  obtains e where "next_entry demo_rxp L (event_of doc) doc parents s = Inr e"
    "lc_document_digest e = dg (position doc demo_documents)" "lc_recorded_at e = s" "check_append_time L s = Inr ()"
proof -
  note f = demo_at_facts [OF at]
  have time: "check_append_time L s = Inr ()" using at s by (simp add: check_append_time_def demo_at_def)
  have "plain_document demo_rxp doc" using doc demo_documents_plain demo_decision_plain by auto
  then obtain e where e: "next_entry demo_rxp L (event_of doc) doc parents s = Inr e"
    using ledger_append_total [of demo_rxp L doc parents s] demo_sha f few parents s(1) time by (auto simp: ledger_inv_def)
  moreover have "lc_document_digest e = dg (position doc demo_documents)"
    using next_entry_fields(6) [OF e] rxp_demo_digest [OF doc] by simp
  ultimately show ?thesis using that next_entry_fields(10) [OF e] time by blast
qed

text \<open>A ledger after a call that appended a document.\<close>

lemma demo_after:
  assumes "demo_at L t ds cells ids gs" "ledger_inv demo_rxp M" "ml_plan M = ml_plan L" "ml_entries M = ml_entries L @ [e]"
    "parse_utc (lc_recorded_at e) = Inr u"
  shows "demo_at M u (ds @ [lc_document_digest e]) (ml_cells M) (ml_intent_ids M) (ml_grant_ids M)"
  using assms by (simp add: demo_at_def seen_digests_def)

lemma demo_frozen: "\<exists>L. new_matrix_ledger demo_rxp demo_plan = Inr L \<and> demo_at L 1767225600 [dg 1] [] [] []"
proof -
  have plain: "plain_document demo_rxp (PlanDoc demo_plan)" using demo_documents_plain by (simp add: demo_documents_def)
  have d: "digest_document demo_rxp (plan_json demo_plan) = Inr (dg 1)"
    using rxp_demo_digest [of "PlanDoc demo_plan"] demo_positions(1) by (simp add: demo_documents_def)
  have "\<exists>e. next_entry demo_rxp (empty_ledger demo_rxp demo_plan (dg 1)) (event_of (PlanDoc demo_plan)) (PlanDoc demo_plan) [] (xp_frozen_at demo_plan) = Inr e"
  proof (rule next_entry_total [OF demo_sha plain])
    show "rxp_digest (ml_root (empty_ledger demo_rxp demo_plan (dg 1)))"
      using demo_sha by (simp add: empty_ledger_def genesis_root_def rxp_digest_def sha_digests_def)
  qed (use demo_patterns demo_times in \<open>simp_all add: empty_ledger_def demo_plan_def check_append_time_def\<close>)
  then obtain e where e: "next_entry demo_rxp (empty_ledger demo_rxp demo_plan (dg 1)) ''MATRIX_FROZEN'' (PlanDoc demo_plan) [] (xp_frozen_at demo_plan) = Inr e"
    by auto
  let ?L = "(empty_ledger demo_rxp demo_plan (dg 1))\<lparr>ml_entries := [e], ml_root := le_root e\<rparr>"
  have new: "new_matrix_ledger demo_rxp demo_plan = Inr ?L"
  proof -
    have "append_document demo_rxp ''MATRIX_FROZEN'' (PlanDoc demo_plan) [] (xp_frozen_at demo_plan) (empty_ledger demo_rxp demo_plan (dg 1))
        = (Inr (), ?L)"
      unfolding append_document_def e by (simp add: empty_ledger_def)
    then show ?thesis unfolding new_matrix_ledger_def d bindR_return by simp
  qed
  have t: "parse_utc (xp_frozen_at demo_plan) = Inr 1767225600" using demo_parsed by (simp add: demo_plan_def)
  have "lc_document_digest e = dg 1" using next_entry_fields(6) [OF e] d by simp
  then have "demo_at ?L 1767225600 [dg 1] [] [] []"
    using new_matrix_inv [OF demo_sha(1) plain new t] next_entry_fields(10) [OF e] t
    by (simp add: demo_at_def empty_ledger_def seen_digests_def)
  with new show ?thesis by blast
qed

abbreviation demo_cell_1 :: rxp_cell where
  "demo_cell_1 \<equiv> new_cell demo_intent (dg 2)"

lemma demo_intent_call:
  assumes at: "demo_at L 1767225600 [dg 1] [] [] []"
  shows "\<exists>d M. record_intent demo_rxp demo_intent L = (Inr d, M) \<and> demo_at M 1767225601 [dg 1, dg 2] [(''c'', demo_cell_1)] [''i''] []"
proof -
  note f = demo_at_facts [OF at]
  have doc: "IntentDoc demo_intent \<in> set demo_documents" by (simp add: demo_documents_def)
  have digest: "digest_document demo_rxp (intent_json demo_intent) = Inr (dg 2)"
    using rxp_demo_digest [of "IntentDoc demo_intent"] demo_positions(2) doc by simp
  obtain e where e: "next_entry demo_rxp L (event_of (IntentDoc demo_intent)) (IntentDoc demo_intent) [] ''2026-01-01T00:00:01Z'' = Inr e"
      "lc_document_digest e = dg (position (IntentDoc demo_intent) demo_documents)" "lc_recorded_at e = ''2026-01-01T00:00:01Z''"
    by (rule demo_next [OF at, of "IntentDoc demo_intent" "[]" "''2026-01-01T00:00:01Z''" 1767225601])
      (use doc demo_times demo_parsed in auto)
  let ?M = "L\<lparr>ml_entries := ml_entries L @ [e], ml_root := le_root e, ml_cells := [(''c'', demo_cell_1)], ml_intent_ids := [''i'']\<rparr>"
  have fields: "xi_matrix_id demo_intent = ''m''" "xi_cell_id demo_intent = ''c''" "xi_coordinates demo_intent = [(''x'', SInt 1)]"
      "xi_intent_id demo_intent = ''i''" "xi_created_at demo_intent = ''2026-01-01T00:00:01Z''"
    by (simp_all add: demo_intent_def)
  have run: "record_intent demo_rxp demo_intent L = (Inr (dg 2), ?M)"
    using f e digest
    by (simp add: record_intent_def fields require_matrix_def bindE_def thenE_def getsE_def raise_if_def returnE_def liftE_def
      checked_def coordinates_eq_def scalar_eq_def append_document_def put_cell_def modifyE_def)
  have "ledger_inv demo_rxp ?M"
    using wp_result [OF record_intent_inv [OF f(1)] run] demo_documents_plain doc by blast
  from demo_after [OF at this, of e 1767225601] e demo_positions(2) demo_parsed(2) f run show ?thesis by simp
qed

lemmas run_simps = bindE_def thenE_def getsE_def raise_if_def returnE_def liftE_def checked_def modifyE_def append_document_def
  put_cell_def require_matrix_def require_cell_def require_state_def

abbreviation demo_cell_2 :: rxp_cell where
  "demo_cell_2 \<equiv> demo_cell_1\<lparr>cl_grant := Some demo_grant, cl_grant_digest := Some (dg 3), cl_state := GRANTED\<rparr>"

lemma demo_verify_grant: "verify_grant demo_rxp demo_signer demo_grant demo_intent ''2026-01-01T00:00:02Z'' = Inr ()"
proof -
  have "plain_json demo_rxp (protected_json demo_signer (gr_claims demo_grant))"
    using demo_plain_grant by (simp add: protected_json_def demo_signer_def grant_json_def demo_rxp_simps)
  then have "claims_signature demo_rxp demo_signer (gr_claims demo_grant) = Inr (''hmac-sha256:'' @ demo_hex 0)"
    by (simp add: claims_signature_def stable_bytes demo_rxp_simps)
  moreover have "digest_document demo_rxp (intent_json demo_intent) = Inr (dg 2)"
    using rxp_demo_digest [of "IntentDoc demo_intent"] demo_positions(2) by (simp add: demo_documents_def)
  ultimately show ?thesis
    by (simp add: verify_grant_def Let_def)
      (simp add: demo_grant_def demo_signer_def demo_intent_def claims_match_def bounds_contain_def validate_window_def demo_parsed
        max_grant_ttl_def clock_skew_def)
qed

lemma demo_grant_call:
  assumes at: "demo_at L 1767225601 [dg 1, dg 2] [(''c'', demo_cell_1)] [''i''] []"
  shows "\<exists>d M. record_grant demo_rxp demo_grant demo_signer ''2026-01-01T00:00:02Z'' L = (Inr d, M)
    \<and> demo_at M 1767225602 [dg 1, dg 2, dg 3] [(''c'', demo_cell_2)] [''i''] [''g'']"
proof -
  note f = demo_at_facts [OF at]
  have doc: "GrantDoc demo_grant \<in> set demo_documents" by (simp add: demo_documents_def)
  have digest: "digest_document demo_rxp (grant_json demo_grant) = Inr (dg 3)"
    using rxp_demo_digest [of "GrantDoc demo_grant"] demo_positions(3) doc by simp
  obtain e where e: "next_entry demo_rxp L (event_of (GrantDoc demo_grant)) (GrantDoc demo_grant) [dg 2] ''2026-01-01T00:00:02Z'' = Inr e"
      "lc_document_digest e = dg (position (GrantDoc demo_grant) demo_documents)" "lc_recorded_at e = ''2026-01-01T00:00:02Z''"
    by (rule demo_next [OF at, of "GrantDoc demo_grant" "[dg 2]" "''2026-01-01T00:00:02Z''" 1767225602])
      (use doc demo_times demo_parsed in auto)
  let ?M = "L\<lparr>ml_entries := ml_entries L @ [e], ml_root := le_root e, ml_cells := [(''c'', demo_cell_2)], ml_grant_ids := [''g'']\<rparr>"
  have fields: "xg_matrix_id (gr_claims demo_grant) = ''m''" "xg_cell_id (gr_claims demo_grant) = ''c''" "xg_grant_id (gr_claims demo_grant) = ''g''"
    by (simp_all add: demo_grant_def)
  have run: "record_grant demo_rxp demo_grant demo_signer ''2026-01-01T00:00:02Z'' L = (Inr (dg 3), ?M)"
    using f e digest demo_verify_grant
    by (simp add: record_grant_def fields run_simps new_cell_def Let_def)
  have "ledger_inv demo_rxp ?M"
    using wp_result [OF record_grant_inv [OF f(1)] run] demo_documents_plain doc by blast
  from demo_after [OF at this, of e 1767225602] e demo_positions(3) demo_parsed(3) f run show ?thesis by simp
qed

abbreviation demo_cell_3 :: rxp_cell where
  "demo_cell_3 \<equiv> demo_cell_2\<lparr>cl_receipt := Some demo_receipt, cl_receipt_digest := Some (dg 4), cl_state := RECEIPT_RECORDED\<rparr>"

lemma demo_validate: "validate_receipt demo_receipt demo_grant demo_intent = Inr ()"
  by (simp add: validate_receipt_def demo_receipt_def demo_grant_def demo_intent_def demo_parsed clock_skew_def checked_def
    exceeded_fields_def demo_artifact_def)

lemma demo_receipt_call:
  assumes at: "demo_at L 1767225602 [dg 1, dg 2, dg 3] [(''c'', demo_cell_2)] [''i''] [''g'']"
  shows "\<exists>d M. record_receipt demo_rxp sqlite_consume demo_receipt (L, []) = (Inr d, (M, [(''rxp-grant'', ''g'')]))
    \<and> demo_at M 1767225604 [dg 1, dg 2, dg 3, dg 4] [(''c'', demo_cell_3)] [''i''] [''g'']"
proof -
  note f = demo_at_facts [OF at]
  have doc: "ReceiptDoc demo_receipt \<in> set demo_documents" by (simp add: demo_documents_def)
  then have plain: "plain_document demo_rxp (ReceiptDoc demo_receipt)" using demo_documents_plain by blast
  have digest: "digest_document demo_rxp (rxp_receipt_json demo_receipt) = Inr (dg 4)"
    using rxp_demo_digest [of "ReceiptDoc demo_receipt"] demo_positions(4) doc by simp
  obtain e where e: "next_entry demo_rxp L (event_of (ReceiptDoc demo_receipt)) (ReceiptDoc demo_receipt) [dg 2, dg 3] ''2026-01-01T00:00:04Z'' = Inr e"
      "lc_document_digest e = dg (position (ReceiptDoc demo_receipt) demo_documents)" "lc_recorded_at e = ''2026-01-01T00:00:04Z''"
      "check_append_time L ''2026-01-01T00:00:04Z'' = Inr ()"
    by (rule demo_next [OF at, of "ReceiptDoc demo_receipt" "[dg 2, dg 3]" "''2026-01-01T00:00:04Z''" 1767225604])
      (use doc demo_times demo_parsed in auto)
  let ?M = "L\<lparr>ml_entries := ml_entries L @ [e], ml_root := le_root e, ml_cells := [(''c'', demo_cell_3)]\<rparr>"
  have fields: "xc_matrix_id demo_receipt = ''m''" "xc_cell_id demo_receipt = ''c''" "xc_intent_digest demo_receipt = dg 2"
      "xc_grant_digest demo_receipt = dg 3" "xc_grant_id demo_receipt = ''g''" "xc_completed_at demo_receipt = ''2026-01-01T00:00:04Z''"
      "xg_grant_id (gr_claims demo_grant) = ''g''"
    by (simp_all add: demo_receipt_def demo_grant_def)
  have bytes: "\<exists>b. rxp_bytes demo_rxp (rxp_receipt_json demo_receipt) = Inr b" using demo_plain_receipt by (simp add: stable_bytes)
  have consume: "sqlite_consume ''rxp-grant'' ''g'' [] = (Inr True, [(''rxp-grant'', ''g'')])" by code_simp
  have run: "record_receipt demo_rxp sqlite_consume demo_receipt (L, []) = (Inr (dg 4), (?M, [(''rxp-grant'', ''g'')]))"
    using f e digest bytes demo_validate
    by (auto simp: record_receipt_def receipt_checks_def store_receipt_def with_ledger_def with_registry_def fields run_simps new_cell_def consume)
  have "ledger_inv demo_rxp ?M"
    using wp_result [OF record_receipt_inv [OF f(1) plain] run] by simp
  from demo_after [OF at this, of e 1767225604] e demo_positions(4) demo_parsed(5) f run show ?thesis by simp
qed

subsection \<open>Evidence and its gate\<close>

lemma digest_all_map: "(\<And>v. v \<in> set vs \<Longrightarrow> digest_document E (f v) = Inr (h v)) \<Longrightarrow> digest_all E (map f vs) = Inr (map h vs)"
  by (induction vs) simp_all

lemma demo_digests_map: "demo_digests = map (\<lambda>v. dg (position (EvidenceDoc v) demo_documents)) demo_evidences"
  using arg_cong [OF demo_positions(5), of "map dg"] by (simp add: demo_digests_def comp_def)

lemma demo_evidence_digest: "v \<in> set demo_evidences \<Longrightarrow> digest_document demo_rxp (rxp_evidence_json v) = Inr (dg (position (EvidenceDoc v) demo_documents))"
  using rxp_demo_digest [of "EvidenceDoc v"] by (simp add: demo_documents_def)

lemma demo_digest_all: "digest_all demo_rxp (map rxp_evidence_json (take n demo_evidences)) = Inr (take n demo_digests)"
  unfolding demo_digests_map take_map
  by (rule digest_all_map) (use set_take_subset demo_evidence_digest in fastforce)

lemma demo_digests_distinct: "distinct demo_digests" "sorted demo_digests"
  by (simp_all add: demo_digests_def dg_eq dg_le)

lemma demo_merkle: "merkle_root demo_rxp demo_digests = Inr (dg 0)"
proof -
  let ?z = "hex_bytes (demo_hex 0)"
  have leaf: "merkle_leaf demo_rxp d = ?z" for d
    unfolding merkle_leaf_def demo_rxp_def by (simp add: numbering_zero other_domain)
  have node: "merkle_node demo_rxp a b = ?z" for a b
    unfolding merkle_node_def demo_rxp_def by (simp add: numbering_zero other_domain)
  have "length demo_digests = 7" by (simp add: demo_digests_def)
  then have "merkle_top demo_rxp (map (merkle_leaf demo_rxp) demo_digests) = ?z"
    by (simp add: demo_digests_def leaf node merkle_top.simps)
  moreover have "''sha256:'' @ concat (map hex_of_byte ?z) = dg 0" by code_simp
  ultimately show ?thesis
    using demo_digests_distinct by (simp add: merkle_root_def sort_key_id_if_sorted) (simp add: demo_digests_def dg_ok)
qed

lemma demo_gate_passes: "rxp_evidence_gate demo_rxp demo_evidences = Inr demo_gate"
proof -
  have metric: "metric_valid (demo_evidence ''metric'' ''p'' [(''deterministic'', JBool True), (''summary_only'', JBool False),
      (''raw_data_digest'', JStr (dg 0))])"
    by (simp add: metric_valid_def demo_evidence_def dg_ok)
  have reviewer: "gate_reviewer demo_evidences = Some ''v''"
    by (simp add: gate_reviewer_def demo_evidences_def demo_evidence_def review_passes_def gate_producers_def string_set_def as_str_def)
  have missing: "gate_missing demo_evidences = []"
    by (simp add: gate_missing_def demo_evidences_def demo_evidence_def required_evidence_types_def)
  have "gate_reasons demo_evidences = []"
    using metric reviewer missing by (simp add: gate_reasons_def Let_def) (simp add: demo_evidences_def demo_evidence_def)
  moreover have "sorted_set (map xe_evidence_type demo_evidences) = sorted_set required_evidence_types"
    by (simp add: demo_evidences_def demo_evidence_def required_evidence_types_def)
  moreover have "digest_all demo_rxp (map rxp_evidence_json demo_evidences) = Inr demo_digests"
    using demo_digest_all [of 7] by (simp add: demo_evidences_def demo_digests_def)
  ultimately show ?thesis
    using reviewer missing demo_merkle demo_digests_distinct
    by (simp add: rxp_evidence_gate_def demo_gate_def sort_key_id_if_sorted)
qed

definition demo_cell_4 :: "nat \<Rightarrow> cell_state \<Rightarrow> rxp_cell" where
  "demo_cell_4 n st = demo_cell_3\<lparr>cl_evidence := take n demo_evidences, cl_evidence_digests := take n demo_digests, cl_state := st\<rparr>"

abbreviation demo_seen :: "nat \<Rightarrow> string list" where
  "demo_seen n \<equiv> [dg 1, dg 2, dg 3, dg 4] @ take n demo_digests"

lemma demo_evidence_call:
  assumes at: "demo_at L t (demo_seen n) [(''c'', demo_cell_4 n st)] [''i''] [''g'']" and n: "n < 7" and t: "t \<le> 1767225605"
    and st: "st = RECEIPT_RECORDED \<or> st = EVIDENCE_READY"
  shows "\<exists>d M st'. record_evidence_document demo_rxp (demo_evidences ! n) L = (Inr d, M) \<and> (st' = RECEIPT_RECORDED \<or> st' = EVIDENCE_READY)
    \<and> (n = 6 \<longrightarrow> st' = EVIDENCE_READY) \<and> demo_at M 1767225605 (demo_seen (Suc n)) [(''c'', demo_cell_4 (Suc n) st')] [''i''] [''g'']"
proof -
  let ?v = "demo_evidences ! n"
  note f = demo_at_facts [OF at]
  have len: "length demo_evidences = 7" "length demo_digests = 7" by (simp_all add: demo_evidences_def demo_digests_def)
  have v: "?v \<in> set demo_evidences" using n len by simp
  then have doc: "EvidenceDoc ?v \<in> set demo_documents" by (simp add: demo_documents_def)
  have plain: "plain_document demo_rxp (EvidenceDoc ?v)" using demo_documents_plain doc by blast
  have dn: "demo_digests ! n = dg (position (EvidenceDoc ?v) demo_documents)" using n len by (simp add: demo_digests_map)
  have digest: "digest_document demo_rxp (rxp_evidence_json ?v) = Inr (demo_digests ! n)" using demo_evidence_digest [OF v] dn by simp
  have next_take: "take (Suc n) demo_evidences = take n demo_evidences @ [?v]" "take (Suc n) demo_digests = take n demo_digests @ [demo_digests ! n]"
    using n len by (simp_all add: take_Suc_conv_app_nth)
  have fields: "xe_matrix_id ?v = ''m''" "xe_cell_id ?v = ''c''" "xe_receipt_digest ?v = dg 4" "xe_observed_at ?v = ''2026-01-01T00:00:05Z''"
    using v by (auto simp: demo_evidences_def demo_evidence_def)
  have "distinct (map xe_evidence_id demo_evidences)" by (simp add: demo_evidences_def demo_evidence_def)
  then have "distinct (map xe_evidence_id (take (Suc n) demo_evidences))" by (simp add: take_map [symmetric] distinct_take)
  then have new: "xe_evidence_id ?v \<notin> xe_evidence_id ` set (take n demo_evidences)" by (simp add: next_take)
  have "distinct (take (Suc n) demo_digests)" using demo_digests_distinct(1) by (rule distinct_take)
  then have fresh: "demo_digests ! n \<notin> set (take n demo_digests)" "distinct (take (Suc n) demo_digests)" by (simp_all add: next_take)
  obtain g where g: "rxp_evidence_gate demo_rxp (take (Suc n) demo_evidences) = Inr g"
    using rxp_gate_returns [OF demo_sha(1) demo_digest_all fresh(2)] by blast
  have pass: "ga_status g = ''PASS''" if "n = 6"
  proof -
    have "g = demo_gate" using g demo_gate_passes that len by simp
    then show ?thesis by (simp add: demo_gate_def)
  qed
  obtain e where e: "next_entry demo_rxp L (event_of (EvidenceDoc ?v)) (EvidenceDoc ?v) [dg 4] ''2026-01-01T00:00:05Z'' = Inr e"
      "lc_document_digest e = dg (position (EvidenceDoc ?v) demo_documents)" "lc_recorded_at e = ''2026-01-01T00:00:05Z''"
    by (rule demo_next [OF at, of "EvidenceDoc ?v" "[dg 4]" "''2026-01-01T00:00:05Z''" 1767225605])
      (use doc demo_times demo_parsed t len in auto)
  define st' where "st' = (if ga_status g = ''PASS'' then EVIDENCE_READY else st)"
  let ?M = "L\<lparr>ml_entries := ml_entries L @ [e], ml_root := le_root e, ml_cells := [(''c'', demo_cell_4 (Suc n) st')]\<rparr>"
  have cell: "cl_receipt_digest (demo_cell_4 n st) = Some (dg 4)" "cl_evidence (demo_cell_4 n st) = take n demo_evidences"
      "cl_evidence_digests (demo_cell_4 n st) = take n demo_digests" "cl_state (demo_cell_4 n st) = st"
    by (simp_all add: demo_cell_4_def new_cell_def)
  have run: "record_evidence_document demo_rxp ?v L = (Inr (demo_digests ! n), ?M)"
    using f e digest st g new fresh(1) next_take
    by (auto simp: record_evidence_document_def fields cell run_simps Let_def st'_def) (simp_all add: demo_cell_4_def next_take)
  have "ledger_inv demo_rxp ?M"
    using wp_result [OF record_evidence_inv [OF demo_sha(1) f(1) plain] run] by simp
  from demo_after [OF at this, of e 1767225605] e dn demo_parsed(6) f next_take
  have "demo_at ?M 1767225605 (demo_seen (Suc n)) [(''c'', demo_cell_4 (Suc n) st')] [''i''] [''g'']" by simp
  with run st pass show ?thesis by (auto simp: st'_def)
qed

subsection \<open>The whole run\<close>

definition demo_cell_5 :: rxp_cell where
  "demo_cell_5 = (demo_cell_4 7 EVIDENCE_READY)\<lparr>cl_decision := Some demo_decision, cl_decision_digest := Some (dg 0), cl_state := DECIDED\<rparr>"

lemma demo_decision_call:
  assumes at: "demo_at L 1767225605 (demo_seen 7) [(''c'', demo_cell_4 7 EVIDENCE_READY)] [''i''] [''g'']"
  shows "\<exists>d M. record_decision demo_rxp demo_decision L = (Inr d, M)
    \<and> demo_at M 1767225606 (demo_seen 7 @ [dg 0]) [(''c'', demo_cell_5)] [''i''] [''g'']"
proof -
  note f = demo_at_facts [OF at]
  have len: "length demo_evidences = 7" "length demo_digests = 7" by (simp_all add: demo_evidences_def demo_digests_def)
  have digest: "digest_document demo_rxp (rxp_decision_json demo_decision) = Inr (dg 0)"
    using rxp_demo_digest [of "DecisionDoc demo_decision"] demo_positions(6) by simp
  have sorted: "sort demo_digests = demo_digests" using demo_digests_distinct(2) by (rule sort_key_id_if_sorted [of "\<lambda>x. x", simplified])
  obtain e where e: "next_entry demo_rxp L (event_of (DecisionDoc demo_decision)) (DecisionDoc demo_decision)
        (dg 2 # dg 4 # demo_digests) ''2026-01-01T00:00:06Z'' = Inr e"
      "lc_document_digest e = dg (position (DecisionDoc demo_decision) demo_documents)" "lc_recorded_at e = ''2026-01-01T00:00:06Z''"
    by (rule demo_next [OF at, of "DecisionDoc demo_decision" "dg 2 # dg 4 # demo_digests" "''2026-01-01T00:00:06Z''" 1767225606])
      (use demo_times demo_parsed len in auto)
  let ?M = "L\<lparr>ml_entries := ml_entries L @ [e], ml_root := le_root e, ml_cells := [(''c'', demo_cell_5)]\<rparr>"
  have fields: "xd_matrix_id demo_decision = ''m''" "xd_cell_id demo_decision = ''c''" "xd_gate demo_decision = demo_gate"
      "xd_intent_digest demo_decision = dg 2" "xd_receipt_digest demo_decision = dg 4" "xd_evidence_digests demo_decision = demo_digests"
      "xd_determinism_level demo_decision = D1_INPUTS_BOUND" "xd_decided_at demo_decision = ''2026-01-01T00:00:06Z''"
      "xc_outcome demo_receipt = ''SUCCEEDED''" "xc_determinism_level demo_receipt = D1_INPUTS_BOUND"
      "xi_required_determinism demo_intent = D1_INPUTS_BOUND"
    by (simp_all add: demo_decision_def demo_receipt_def demo_intent_def)
  have cell: "cl_receipt (demo_cell_4 7 EVIDENCE_READY) = Some demo_receipt" "cl_receipt_digest (demo_cell_4 7 EVIDENCE_READY) = Some (dg 4)"
      "cl_evidence (demo_cell_4 7 EVIDENCE_READY) = demo_evidences" "cl_evidence_digests (demo_cell_4 7 EVIDENCE_READY) = demo_digests"
      "cl_state (demo_cell_4 7 EVIDENCE_READY) = EVIDENCE_READY" "cl_intent (demo_cell_4 7 EVIDENCE_READY) = demo_intent"
      "cl_intent_digest (demo_cell_4 7 EVIDENCE_READY) = dg 2"
    using len by (simp_all add: demo_cell_4_def new_cell_def)
  have run: "record_decision demo_rxp demo_decision L = (Inr (dg 0), ?M)"
    using f e digest demo_gate_passes sorted
    by (simp add: record_decision_def fields cell run_simps) (simp add: demo_cell_5_def)
  have "ledger_inv demo_rxp ?M"
    using wp_result [OF record_decision_inv [OF f(1) demo_decision_plain] run] by simp
  from demo_after [OF at this, of e 1767225606] e demo_positions(6) demo_parsed(7) f run show ?thesis by simp
qed

abbreviation demo_reached :: "matrix_ledger \<Rightarrow> registry \<Rightarrow> bool" where
  "demo_reached L R \<equiv> ledger_reachable demo_rxp sqlite_consume (L, R)"

lemma demo_call:
  assumes "demo_reached L R" "rxp_run demo_rxp sqlite_consume call (L, R) = (x, (M, R'))"
    and "call_document call \<in> set (DecisionDoc demo_decision # demo_documents)"
  shows "demo_reached M R'"
  by (rule ledger_reachable.called [OF assms(1) _ assms(2)]) (use assms(3) demo_documents_plain demo_decision_plain in auto)

lemma demo_granted: "\<exists>L. demo_reached L [] \<and> demo_at L 1767225602 [dg 1, dg 2, dg 3] [(''c'', demo_cell_2)] [''i''] [''g'']"
proof -
  have docs: "PlanDoc demo_plan \<in> set demo_documents" "IntentDoc demo_intent \<in> set demo_documents"
      "GrantDoc demo_grant \<in> set demo_documents"
    by (simp_all add: demo_documents_def)
  obtain A where A: "new_matrix_ledger demo_rxp demo_plan = Inr A" "demo_at A 1767225600 [dg 1] [] [] []" using demo_frozen by blast
  have "parse_utc (xp_frozen_at demo_plan) = Inr 1767225600" using demo_parsed by (simp add: demo_plan_def)
  with A(1) docs demo_documents_plain have r: "demo_reached A []" by (blast intro: ledger_reachable.frozen)
  obtain d B where B: "record_intent demo_rxp demo_intent A = (Inr d, B)" "demo_at B 1767225601 [dg 1, dg 2] [(''c'', demo_cell_1)] [''i''] []"
    using demo_intent_call [OF A(2)] by blast
  have r: "demo_reached B []"
    by (rule demo_call [OF r, of "RecordIntent demo_intent"]) (use B docs in \<open>simp_all add: with_ledger_def\<close>)
  obtain d C where C: "record_grant demo_rxp demo_grant demo_signer ''2026-01-01T00:00:02Z'' B = (Inr d, C)"
      "demo_at C 1767225602 [dg 1, dg 2, dg 3] [(''c'', demo_cell_2)] [''i''] [''g'']"
    using demo_grant_call [OF B(2)] by blast
  have r: "demo_reached C []"
    by (rule demo_call [OF r, of "RecordGrant demo_grant demo_signer ''2026-01-01T00:00:02Z''"]) (use C docs in \<open>simp_all add: with_ledger_def\<close>)
  with C(2) show ?thesis by blast
qed

lemma rxp_demo_received: "\<exists>L. demo_reached L [(''rxp-grant'', ''g'')] \<and> demo_at L 1767225604 (demo_seen 0) [(''c'', demo_cell_4 0 RECEIPT_RECORDED)] [''i''] [''g'']"
proof -
  obtain C where r: "demo_reached C []" and C: "demo_at C 1767225602 [dg 1, dg 2, dg 3] [(''c'', demo_cell_2)] [''i''] [''g'']"
    using demo_granted by blast
  obtain d D where D: "record_receipt demo_rxp sqlite_consume demo_receipt (C, []) = (Inr d, (D, [(''rxp-grant'', ''g'')]))"
      "demo_at D 1767225604 [dg 1, dg 2, dg 3, dg 4] [(''c'', demo_cell_3)] [''i''] [''g'']"
    using demo_receipt_call [OF C] by blast
  have "demo_reached D [(''rxp-grant'', ''g'')]"
    by (rule demo_call [OF r, of "RecordReceipt demo_receipt"]) (use D in \<open>simp_all add: demo_documents_def\<close>)
  moreover have "demo_cell_4 0 RECEIPT_RECORDED = demo_cell_3" by (simp add: demo_cell_4_def new_cell_def)
  ultimately show ?thesis using D(2) by auto
qed

lemma demo_evidenced:
  "n \<le> 7 \<Longrightarrow> \<exists>L t st. demo_reached L [(''rxp-grant'', ''g'')] \<and> t \<le> 1767225605 \<and> (st = RECEIPT_RECORDED \<or> st = EVIDENCE_READY)
     \<and> (n = 7 \<longrightarrow> st = EVIDENCE_READY \<and> t = 1767225605) \<and> demo_at L t (demo_seen n) [(''c'', demo_cell_4 n st)] [''i''] [''g'']"
proof (induction n)
  case 0
  from rxp_demo_received obtain L where "demo_reached L [(''rxp-grant'', ''g'')]"
      "demo_at L 1767225604 (demo_seen 0) [(''c'', demo_cell_4 0 RECEIPT_RECORDED)] [''i''] [''g'']" by blast
  then show ?case by (intro exI [of _ L] exI [of _ 1767225604] exI [of _ RECEIPT_RECORDED]) simp
next
  case (Suc n)
  then obtain L t st where r: "demo_reached L [(''rxp-grant'', ''g'')]" and t: "t \<le> 1767225605"
      and st: "st = RECEIPT_RECORDED \<or> st = EVIDENCE_READY"
      and at: "demo_at L t (demo_seen n) [(''c'', demo_cell_4 n st)] [''i''] [''g'']" by auto
  have n: "n < 7" using Suc.prems by simp
  from demo_evidence_call [OF at n t st] obtain d M st' where
      run: "record_evidence_document demo_rxp (demo_evidences ! n) L = (Inr d, M)"
      and st': "st' = RECEIPT_RECORDED \<or> st' = EVIDENCE_READY" "n = 6 \<longrightarrow> st' = EVIDENCE_READY"
      and at': "demo_at M 1767225605 (demo_seen (Suc n)) [(''c'', demo_cell_4 (Suc n) st')] [''i''] [''g'']" by blast
  have "demo_evidences ! n \<in> set demo_evidences" using n by (intro nth_mem) (simp add: demo_evidences_def)
  then have "EvidenceDoc (demo_evidences ! n) \<in> set demo_documents" by (simp add: demo_documents_def)
  then have "demo_reached M [(''rxp-grant'', ''g'')]"
    by (intro demo_call [OF r, of "RecordEvidence (demo_evidences ! n)"]) (use run in \<open>simp_all add: with_ledger_def\<close>)
  with st' at' show ?case by (intro exI [of _ M] exI [of _ 1767225605] exI [of _ st']) auto
qed

lemma rxp_demo_run:
  "\<exists>L. demo_reached L [(''rxp-grant'', ''g'')] \<and> demo_at L 1767225606 (demo_seen 7 @ [dg 0]) [(''c'', demo_cell_5)] [''i''] [''g'']"
proof -
  from demo_evidenced [of 7] obtain L where r: "demo_reached L [(''rxp-grant'', ''g'')]"
      and at: "demo_at L 1767225605 (demo_seen 7) [(''c'', demo_cell_4 7 EVIDENCE_READY)] [''i''] [''g'']" by auto
  from demo_decision_call [OF at] obtain d M where M: "record_decision demo_rxp demo_decision L = (Inr d, M)"
      "demo_at M 1767225606 (demo_seen 7 @ [dg 0]) [(''c'', demo_cell_5)] [''i''] [''g'']" by blast
  have "demo_reached M [(''rxp-grant'', ''g'')]"
    by (rule demo_call [OF r, of "RecordDecision demo_decision"]) (use M in \<open>simp_all add: with_ledger_def\<close>)
  with M(2) show ?thesis by blast
qed

text \<open>The ledger of the run verifies: no two of its documents share a digest.\<close>

lemma demo_verifies:
  assumes at: "demo_at L t ds cells ids gs" and "distinct ds"
  shows "verify_ledger_document demo_rxp (snapshot_ledger L) = Inr ()"
proof -
  have inv: "ledger_wf demo_rxp L" "verified_or_collision demo_rxp L" using at by (simp_all add: demo_at_def ledger_inv_def)
  have "distinct (map lc_document_digest (ml_entries L))" using at assms(2) by (simp add: demo_at_def seen_digests_def)
  then have "\<not> digest_collision (ml_entries L)" by (auto simp: digest_collision_def distinct_map inj_on_def)
  with inv(2) obtain st where "verify_entries demo_rxp (ml_matrix_id L) 1 (ml_entries L) (verify_start demo_rxp) = Inr st" "sim L st"
    by (auto simp: verified_or_collision_def)
  then show ?thesis by (rule snapshot_verifies [OF inv(1)])
qed

lemma demo_seen_distinct: "distinct (demo_seen 7 @ [dg 0])"
  by (simp add: demo_digests_def dg_eq)

lemma demo_snapshot:
  assumes "demo_at L t ds [(''c'', demo_cell_5)] ids gs"
  shows "snapshot_cell demo_cell_5 \<in> set (ld_cells (snapshot_ledger L))" "sn_state (snapshot_cell demo_cell_5) = DECIDED"
    "sn_receipt_digest (snapshot_cell demo_cell_5) = Some (dg 4)"
  using demo_at_facts(6) [OF assms]
  by (simp_all add: snapshot_ledger_def Let_def sorted_snapshots_def snapshot_cell_def demo_cell_5_def demo_cell_4_def)

end
