(* ===== verification/RxpProps.thy ===== *)
theory RxpProps
  imports RxpDemoRun
begin

text \<open>
  The properties of the RXP protocol: the online ledger and its offline verifier agree, snapshots are valid
  documents, an accepted document proves its decisions and the usage of its receipts, a grant is consumed
  once, and a call that raises changes nothing. Each is applied to the honest run of \<open>RxpDemoRun\<close>.
\<close>

text \<open>C22. The offline verifier accepts the snapshot of every ledger that the online state machine reaches, from a plan
  frozen at a real date, by any calls on plain documents, failing calls included, whatever others do to the shared
  registry: replaying the entries rebuilds the cells, the root and the summary. The only other possibility is that
  SHA-256 gave two different recorded documents one digest. A document is plain when it satisfies the validators of its
  model and its texts are valid UTF-8 and already in NFC, with distinct keys, 64-bit integers and no floats. The
  online code checks neither NFC nor the date, and both are needed: a plan frozen at 2026-02-30T00:00:00Z is accepted
  and makes the verifier raise, and an intent whose action is 128 times U+0958 is accepted and refused offline, because
  NFC doubles its length.\<close>

theorem rxp_ledger_verifies:
  assumes "sha_digests E" and "ledger_run E consume p calls (L, R)"
    and "plain_document E (PlanDoc p)" and "\<forall>call \<in> set calls. plain_document E (call_document call)"
    and "parse_utc (xp_frozen_at p) = Inr t"
  shows "verify_ledger_document E (snapshot_ledger L) = Inr () \<or>
    (\<exists>a \<in> set (ml_entries L). \<exists>b \<in> set (ml_entries L).
       lc_document a \<noteq> lc_document b \<and> lc_document_digest a = lc_document_digest b)"
proof -
  have inv: "ledger_wf E L" "verified_or_collision E L"
    using reachable_inv [OF assms(1) run_reachable [OF assms(2,3,5,4)]] by (simp_all add: ledger_inv_def)
  then show ?thesis
    using snapshot_verifies [OF inv(1)] unfolding verified_or_collision_def digest_collision_def by blast
qed

lemma rxp_ledger_verifies_witness:
  "\<exists>L. demo_reached L [(''rxp-grant'', ''g'')] \<and> ld_completeness (snapshot_ledger L) = ''COMPLETE''
     \<and> distinct (map lc_document_digest (ml_entries L)) \<and> verify_ledger_document demo_rxp (snapshot_ledger L) = Inr ()"
proof -
  from rxp_demo_run obtain L where L: "demo_reached L [(''rxp-grant'', ''g'')]"
      "demo_at L 1767225606 (demo_seen 7 @ [dg 0]) [(''c'', demo_cell_5)] [''i''] [''g'']" by blast
  have distinct: "distinct (map lc_document_digest (ml_entries L))"
    using demo_at_facts(9) [OF L(2)] demo_seen_distinct by (simp add: seen_digests_def)
  have "ld_completeness (snapshot_ledger L) = ''COMPLETE''"
    using demo_at_facts(5,6) [OF L(2)] by (simp add: snapshot_ledger_def Let_def decided_cells_def demo_cell_5_def)
  moreover obtain p calls t where run: "ledger_run demo_rxp sqlite_consume p calls (L, [(''rxp-grant'', ''g'')])"
    "plain_document demo_rxp (PlanDoc p)" "\<forall>call \<in> set calls. plain_document demo_rxp (call_document call)"
    "parse_utc (xp_frozen_at p) = Inr t" using reachable_run [OF L(1)] by blast
  moreover have "verify_ledger_document demo_rxp (snapshot_ledger L) = Inr ()"
    using rxp_ledger_verifies [OF demo_sha(1) run] distinct by (auto simp: distinct_map inj_on_def)
  ultimately show ?thesis using L(1) distinct by blast
qed

text \<open>C23. The snapshot of every ledger reachable by calls on plain documents (as in C22) satisfies the validators of its own model: identifiers, digests and
  timestamps are well formed in every entry and cell, the counts lie in their ranges and add up, and the cells and the
  missing decisions are sorted.\<close>

theorem rxp_snapshot_typed:
  assumes "sha_digests E" "ledger_reachable E consume (L, R)"
  shows "ledger_document_ok E (snapshot_ledger L)"
  using reachable_inv [OF assms] snapshot_typed [OF assms(1)] by (simp add: ledger_inv_def)

lemma rxp_snapshot_typed_witness:
  "\<exists>L. demo_reached L [(''rxp-grant'', ''g'')] \<and> length (ml_entries L) = 12 \<and> ledger_document_ok demo_rxp (snapshot_ledger L)"
proof -
  from rxp_demo_run obtain L where L: "demo_reached L [(''rxp-grant'', ''g'')]"
      "demo_at L 1767225606 (demo_seen 7 @ [dg 0]) [(''c'', demo_cell_5)] [''i''] [''g'']" by blast
  have "length (ml_entries L) = 12" using demo_at_facts(4) [OF L(2)] by (simp add: demo_digests_def)
  then show ?thesis using L(1) rxp_snapshot_typed [OF demo_sha(1) L(1)] by blast
qed

subsection \<open>What an accepted document proves\<close>

lemma gate_pass:
  assumes "rxp_evidence_gate E es = Inr g" "ga_status g = ''PASS''"
  shows "set required_evidence_types \<subseteq> xe_evidence_type ` set es"
    and "\<exists>v \<in> set es. xe_evidence_type v = ''review'' \<and> review_passes (gate_producers es) v"
proof -
  have none: "gate_reasons es = []" using assms by (auto simp: rxp_evidence_gate_def split: sum.splits if_splits)
  then have missing: "gate_missing es = []" by (auto simp: gate_reasons_def Let_def split: if_splits)
  then have "filter (\<lambda>t. t \<notin> set (map xe_evidence_type es)) required_evidence_types = []"
    unfolding gate_missing_def by (metis set_empty set_sort)
  then show types: "set required_evidence_types \<subseteq> xe_evidence_type ` set es" by (auto simp: filter_empty_conv)
  then have "''review'' \<in> xe_evidence_type ` set es" by (auto simp: required_evidence_types_def)
  then have "gate_reviewer es \<noteq> None" using none by (auto simp: gate_reasons_def Let_def split: if_splits)
  then obtain v where "List.find (review_passes (gate_producers es)) (filter (\<lambda>e. xe_evidence_type e = ''review'') es) = Some v"
    by (auto simp: gate_reviewer_def)
  then have "v \<in> set (filter (\<lambda>e. xe_evidence_type e = ''review'') es) \<and> review_passes (gate_producers es) v"
    unfolding find_Some_iff by (metis nth_mem)
  then show "\<exists>v \<in> set es. xe_evidence_type v = ''review'' \<and> review_passes (gate_producers es) v" by auto
qed

lemma reviewer_independent:
  assumes "review_passes (gate_producers es) v" "e \<in> set es" "xe_evidence_type e \<noteq> ''review''"
  shows "xe_producer_id e \<noteq> xe_producer_id v"
proof -
  have "xe_producer_id e \<in> set (gate_producers es)" using assms(2,3) by (simp add: gate_producers_def)
  then show ?thesis using assms(1) by (auto simp: review_passes_def Let_def)
qed

text \<open>C24. Whoever accepts a ledger document offline knows of every cell that it reports as decided: the frozen plan
  declares the cell; its intent, grant, receipt, evidence and decision are entries of the ledger with the digests of the
  snapshot; the grant repeats the intent and covers its request; the receipt is of a successful execution under that grant;
  the decision embeds the recomputed gate over exactly the recorded evidence, that gate passes, all seven required types
  are there, and a review by somebody who produced none of the other evidence is among them.\<close>

theorem rxp_verified_decision:
  assumes "verify_ledger_document E d = Inr ()" "s \<in> set (ld_cells d)" "sn_state s = DECIDED"
  shows "\<exists>p i g r es dec gd rd dd.
    digest_document E (plan_json p) = Inr (ld_matrix_plan_digest d) \<and> declared p i \<and> xi_cell_id i = sn_cell_id s
    \<and> recorded E (ld_entries d) (IntentDoc i) (sn_intent_digest s)
    \<and> sn_grant_digest s = Some gd \<and> recorded E (ld_entries d) (GrantDoc g) gd
    \<and> claims_match (gr_claims g) i (sn_intent_digest s) \<and> bounds_contain (xg_bounds (gr_claims g)) (xi_requested_resources i)
    \<and> sn_receipt_digest s = Some rd \<and> recorded E (ld_entries d) (ReceiptDoc r) rd \<and> xc_outcome r = ''SUCCEEDED''
    \<and> xc_intent_digest r = sn_intent_digest s \<and> xc_grant_digest r = gd \<and> xc_grant_id r = xg_grant_id (gr_claims g)
    \<and> sn_decision_digest s = Some dd \<and> recorded E (ld_entries d) (DecisionDoc dec) dd
    \<and> xd_intent_digest dec = sn_intent_digest s \<and> xd_receipt_digest dec = rd \<and> xd_evidence_digests dec = sn_evidence_digests s
    \<and> (\<forall>v \<in> set es. xe_receipt_digest v = rd \<and> (\<exists>ed \<in> set (sn_evidence_digests s). recorded E (ld_entries d) (EvidenceDoc v) ed))
    \<and> rxp_evidence_gate E es = Inr (xd_gate dec) \<and> ga_status (xd_gate dec) = ''PASS''
    \<and> set required_evidence_types \<subseteq> xe_evidence_type ` set es
    \<and> (\<exists>v \<in> set es. xe_evidence_type v = ''review'' \<and>
         (\<forall>e \<in> set es. xe_evidence_type e \<noteq> ''review'' \<longrightarrow> xe_producer_id e \<noteq> xe_producer_id v))"
proof -
  obtain p c where c: "cell_checked E (ld_entries d) p (sn_cell_id s) c" and s: "s = snapshot_cell c"
      and p: "digest_document E (plan_json p) = Inr (ld_matrix_plan_digest d)"
    by (rule verified_cell [OF assms(1,2)])
  have "cl_state c = DECIDED" using assms(3) by (simp add: s snapshot_cell_def)
  with c obtain dec where dec: "cl_decision c = Some dec" "decision_checked E (ld_entries d) c dec"
    by (auto simp: cell_checked_def)
  then obtain r where r: "cl_receipt c = Some r" "xc_outcome r = ''SUCCEEDED''" by (auto simp: decision_checked_def)
  with c have rc: "receipt_checked E (ld_entries d) c r" by (simp add: cell_checked_def)
  then obtain g where g: "cl_grant c = Some g" "cl_grant_digest c = Some (xc_grant_digest r)" "xc_grant_id r = xg_grant_id (gr_claims g)"
    by (auto simp: receipt_checked_def)
  with c have gc: "grant_checked E (ld_entries d) c g" by (simp add: cell_checked_def)
  have es: "\<forall>v \<in> set (cl_evidence c). xe_receipt_digest v = xd_receipt_digest dec
      \<and> (\<exists>ed \<in> set (sn_evidence_digests s). recorded E (ld_entries d) (EvidenceDoc v) ed)"
    using c dec(2) by (fastforce simp: cell_checked_def decision_checked_def s snapshot_cell_def list_all2_conv_all_nth in_set_conv_nth)
  from dec(2) have gate: "rxp_evidence_gate E (cl_evidence c) = Inr (xd_gate dec)" "ga_status (xd_gate dec) = ''PASS''"
    by (simp_all add: decision_checked_def)
  show ?thesis
    using c dec r rc g gc es gate gate_pass [OF gate] reviewer_independent p
    unfolding cell_checked_def decision_checked_def receipt_checked_def grant_checked_def
    by (intro exI [of _ p] exI [of _ "cl_intent c"] exI [of _ g] exI [of _ r] exI [of _ "cl_evidence c"] exI [of _ dec]
      exI [of _ "xc_grant_digest r"] exI [of _ "xd_receipt_digest dec"] exI [of _ "the (cl_decision_digest c)"])
      (auto simp: s snapshot_cell_def)
qed

text \<open>An accepted snapshot with a decided cell, for the properties of accepted documents.\<close>

lemma demo_accepted:
  obtains L where "verify_ledger_document demo_rxp (snapshot_ledger L) = Inr ()"
    "snapshot_cell demo_cell_5 \<in> set (ld_cells (snapshot_ledger L))"
proof -
  from rxp_demo_run obtain L where L: "demo_at L 1767225606 (demo_seen 7 @ [dg 0]) [(''c'', demo_cell_5)] [''i''] [''g'']" by blast
  show ?thesis by (rule that [OF demo_verifies [OF L demo_seen_distinct] demo_snapshot(1) [OF L]])
qed

lemma demo_decided: "sn_state (snapshot_cell demo_cell_5) = DECIDED" "sn_receipt_digest (snapshot_cell demo_cell_5) = Some (dg 4)"
  by (simp_all add: snapshot_cell_def demo_cell_5_def demo_cell_4_def new_cell_def)

lemma rxp_verified_decision_witness:
  "\<exists>L es (dec :: rxp_decision). snapshot_cell demo_cell_5 \<in> set (ld_cells (snapshot_ledger L)) \<and> verify_ledger_document demo_rxp (snapshot_ledger L) = Inr ()
     \<and> rxp_evidence_gate demo_rxp es = Inr (xd_gate dec) \<and> ga_status (xd_gate dec) = ''PASS''
     \<and> set required_evidence_types \<subseteq> xe_evidence_type ` set es"
proof -
  obtain L where L: "verify_ledger_document demo_rxp (snapshot_ledger L) = Inr ()"
      "snapshot_cell demo_cell_5 \<in> set (ld_cells (snapshot_ledger L))" by (rule demo_accepted)
  from rxp_verified_decision [OF L demo_decided(1)] L show ?thesis by (elim exE conjE) (intro exI conjI, assumption+)
qed

text \<open>In an accepted ledger document every receipt stayed within its grant: the usage it reports does not exceed the
  granted bounds of GPUs, wall time, GPU time and artifact bytes, its output has exactly the bytes accounted for, it
  started inside the window of the grant (up to the clock skew of 30 seconds before it) and not after it completed, and the
  determinism level that the snapshot shows is at least the one granted and the one the intent demanded.\<close>

theorem rxp_verified_usage:
  assumes "verify_ledger_document E d = Inr ()" "s \<in> set (ld_cells d)" "sn_receipt_digest s = Some rd"
  shows "\<exists>i g r started completed issued expires.
    recorded E (ld_entries d) (IntentDoc i) (sn_intent_digest s) \<and> recorded E (ld_entries d) (GrantDoc g) (xc_grant_digest r)
    \<and> recorded E (ld_entries d) (ReceiptDoc r) rd
    \<and> ru_gpu_count (xc_usage r) \<le> rb_gpu_count (xg_bounds (gr_claims g))
    \<and> ru_wall_time_seconds (xc_usage r) \<le> rb_wall_time_seconds (xg_bounds (gr_claims g))
    \<and> ru_gpu_time_seconds (xc_usage r) \<le> rb_gpu_time_seconds (xg_bounds (gr_claims g))
    \<and> ru_artifact_bytes (xc_usage r) \<le> rb_artifact_bytes (xg_bounds (gr_claims g))
    \<and> xf_bytes (xc_output r) = ru_artifact_bytes (xc_usage r)
    \<and> parse_utc (xc_started_at r) = Inr started \<and> parse_utc (xc_completed_at r) = Inr completed
    \<and> parse_utc (xg_issued_at (gr_claims g)) = Inr issued \<and> parse_utc (xg_expires_at (gr_claims g)) = Inr expires
    \<and> issued - 30 \<le> started \<and> started < expires \<and> started \<le> completed
    \<and> sn_determinism_level s = xc_determinism_level r
    \<and> level_rank (xg_minimum_determinism (gr_claims g)) \<le> level_rank (sn_determinism_level s)
    \<and> level_rank (xi_required_determinism i) \<le> level_rank (sn_determinism_level s)"
proof -
  obtain p c where c: "cell_checked E (ld_entries d) p (sn_cell_id s) c" and s: "s = snapshot_cell c"
    by (rule verified_cell [OF assms(1,2)])
  from c assms(3) obtain r where r: "cl_receipt c = Some r" by (auto simp: cell_checked_def s snapshot_cell_def)
  with c have rc: "receipt_checked E (ld_entries d) c r" by (simp add: cell_checked_def)
  then obtain g where g: "cl_grant c = Some g" "cl_grant_digest c = Some (xc_grant_digest r)" "within_grant r g (cl_intent c)"
    by (auto simp: receipt_checked_def)
  with c have gc: "grant_checked E (ld_entries d) c g" by (simp add: cell_checked_def)
  have docs: "recorded E (ld_entries d) (IntentDoc (cl_intent c)) (sn_intent_digest s)"
      "recorded E (ld_entries d) (GrantDoc g) (xc_grant_digest r)" "recorded E (ld_entries d) (ReceiptDoc r) rd"
      "sn_determinism_level s = xc_determinism_level r"
    using c rc gc g r assms(3) by (auto simp: cell_checked_def receipt_checked_def grant_checked_def s snapshot_cell_def)
  from g(3) obtain started completed issued expires where "parse_utc (xc_started_at r) = Inr started"
      "parse_utc (xc_completed_at r) = Inr completed" "parse_utc (xg_issued_at (gr_claims g)) = Inr issued"
      "parse_utc (xg_expires_at (gr_claims g)) = Inr expires" "issued - 30 \<le> started" "started < expires" "started \<le> completed"
    by (auto simp: within_grant_def clock_skew_def)
  with g(3) docs show ?thesis
    unfolding within_grant_def
    by (intro exI [of _ "cl_intent c"] exI [of _ g] exI [of _ r] exI [of _ started] exI [of _ completed] exI [of _ issued] exI [of _ expires]) simp
qed

lemma rxp_verified_usage_witness:
  "\<exists>L (g :: grant) (r :: rxp_receipt). snapshot_cell demo_cell_5 \<in> set (ld_cells (snapshot_ledger L))
     \<and> recorded demo_rxp (ld_entries (snapshot_ledger L)) (ReceiptDoc r) (dg 4)
     \<and> ru_gpu_time_seconds (xc_usage r) \<le> rb_gpu_time_seconds (xg_bounds (gr_claims g))"
proof -
  obtain L where L: "verify_ledger_document demo_rxp (snapshot_ledger L) = Inr ()"
      "snapshot_cell demo_cell_5 \<in> set (ld_cells (snapshot_ledger L))" by (rule demo_accepted)
  from rxp_verified_usage [OF L demo_decided(2)] L show ?thesis by (elim exE conjE) (intro exI conjI, assumption+)
qed

subsection \<open>Grants are consumed once\<close>

text \<open>The registry after some calls on whichever ledgers.\<close>

definition registry_after :: "rxp_env \<Rightarrow> 'r consumer \<Rightarrow> (matrix_ledger \<times> rxp_call) list \<Rightarrow> 'r \<Rightarrow> 'r" where
  "registry_after E consume calls R = fold (\<lambda>(L, call) R. snd (snd (rxp_run E consume call (L, R)))) calls R"

text \<open>C25. A grant pays for one receipt: once a receipt is recorded, every later receipt of the same grant is refused, in
  this or in any other ledger that shares the durable registry, whatever calls happened between, and the refusal
  changes neither that ledger nor the registry.\<close>

theorem rxp_grant_single_use:
  assumes "record_receipt E sqlite_consume r (L, R) = (Inr d, (M, R'))"
    and "record_receipt E sqlite_consume r' (L', registry_after E sqlite_consume calls R') = (x, s)"
    and "xc_grant_id r' = xc_grant_id r"
  shows "(\<exists>e. x = Inl e) \<and> s = (L', registry_after E sqlite_consume calls R')"
proof -
  have "(''rxp-grant'', xc_grant_id r) \<in> set R'" using sqlite_registry.receipt_consumes(2) [OF assms(1)] by simp
  then have "(''rxp-grant'', xc_grant_id r') \<in> set (registry_after E sqlite_consume calls R')"
    using sqlite_registry.later_grows [of R' E calls] assms(3) by (auto simp: registry_after_def)
  from sqlite_registry.used_refused [OF this assms(2)] show ?thesis by blast
qed

lemma rxp_grant_single_use_witness:
  "\<exists>L M. (\<exists>d. record_receipt demo_rxp sqlite_consume demo_receipt (L, []) = (Inr d, (M, [(''rxp-grant'', ''g'')])))
     \<and> (\<exists>e. record_receipt demo_rxp sqlite_consume demo_receipt (L, [(''rxp-grant'', ''g'')]) = (Inl e, (L, [(''rxp-grant'', ''g'')])))"
proof -
  obtain L where L: "demo_at L 1767225602 [dg 1, dg 2, dg 3] [(''c'', demo_cell_2)] [''i''] [''g'']" using demo_granted by blast
  obtain d M where M: "record_receipt demo_rxp sqlite_consume demo_receipt (L, []) = (Inr d, (M, [(''rxp-grant'', ''g'')]))"
    using demo_receipt_call [OF L] by blast
  obtain x s where again: "record_receipt demo_rxp sqlite_consume demo_receipt
      (L, registry_after demo_rxp sqlite_consume [] [(''rxp-grant'', ''g'')]) = (x, s)" by (metis prod.collapse)
  from rxp_grant_single_use [OF M again refl] again M show ?thesis by (auto simp: registry_after_def)
qed

text \<open>C26. A call that raises, on a ledger reachable by calls on plain documents (as in C22), changes nothing: neither the ledger nor the registry, so a receipt that
  is refused never burns its grant. For a receipt this rests on the order of the source: everything that can fail is
  checked before the grant is consumed, and appending the entry after it cannot fail (below 2 to the 63 entries).\<close>

theorem rxp_call_refused:
  assumes "sha_digests E" "nfc_keeps_ascii E" "ledger_reachable E sqlite_consume (L, R)" "plain_document E (call_document call)"
    and "int (length (ml_entries L)) + 1 < 2 ^ 63" and run: "rxp_run E sqlite_consume call (L, R') = (Inl e, s)"
  shows "s = (L, R')"
proof -
  have inv: "ledger_inv E L" using reachable_inv [OF assms(1,3)] by simp
  show ?thesis
  proof (cases call)
    case (RecordReceipt r)
    with assms sqlite_registry.receipt_refused [OF assms(1,2) inv _ assms(5)] show ?thesis by simp
  qed (use wp_error [OF rxp_run_inv [OF assms(1) inv assms(4)] run] run in \<open>auto simp: with_ledger_def split: prod.splits\<close>)
qed

lemma rxp_call_refused_witness:
  "\<exists>L s. demo_reached L [(''rxp-grant'', ''g'')]
     \<and> rxp_run demo_rxp sqlite_consume (RecordReceipt demo_receipt) (L, []) = (Inl (RXPError ''cell_state_invalid''), s) \<and> s = (L, [])"
proof -
  from rxp_demo_run obtain L where L: "demo_reached L [(''rxp-grant'', ''g'')]"
      "demo_at L 1767225606 (demo_seen 7 @ [dg 0]) [(''c'', demo_cell_5)] [''i''] [''g'']" by blast
  note f = demo_at_facts [OF L(2)]
  have fields: "xc_matrix_id demo_receipt = ''m''" "xc_cell_id demo_receipt = ''c''" "cl_state demo_cell_5 = DECIDED"
    by (simp_all add: demo_receipt_def demo_cell_5_def)
  have "fst (rxp_run demo_rxp sqlite_consume (RecordReceipt demo_receipt) (L, [])) = Inl (RXPError ''cell_state_invalid'')"
    using f by (simp add: record_receipt_def receipt_checks_def with_ledger_def fields run_simps raiseE_def)
  then obtain s where s: "rxp_run demo_rxp sqlite_consume (RecordReceipt demo_receipt) (L, []) = (Inl (RXPError ''cell_state_invalid''), s)"
    by (metis prod.collapse)
  have "plain_document demo_rxp (call_document (RecordReceipt demo_receipt))"
    using demo_documents_plain by (simp add: demo_documents_def)
  from rxp_call_refused [OF demo_sha L(1) this _ s] f(4) L(1) s show ?thesis by (auto simp: demo_digests_def)
qed

end
