(* ===== verification/MemoryModels.thy ===== *)
theory MemoryModels
  imports ModelFields Domain
begin

text \<open>
  The records of the trusted memory (\<open>apps/api/trusted_memory/models.py\<close>, and the proposals and fact
  cores of \<open>benchmarks/secure_memory/models.py\<close> that they carry). A strict model is a record, its
  validators are the predicate \<open>..._ok\<close> that every instance satisfies, its canonical JSON is \<open>..._json\<close>,
  and \<open>read_...\<close> is \<open>model_validate_json\<close> on a parsed value. Fields with one literal value appear in the
  JSON only. \<open>reject_authority_fields\<close> refuses inputs with keys that no model has, which closed models
  refuse anyway. Lax coercions (digits in a string for an integer) do not occur in bytes that
  \<open>canonical_bytes\<close> wrote, and are not modelled.
\<close>

subsection \<open>Enumerations\<close>

datatype memory_origin = LOCAL_TRUSTED | ATTESTED_EXTERNAL | ORIGIN_UNVERIFIED | SYNTHETIC | ORIGIN_REVOKED

fun origin_value :: "memory_origin \<Rightarrow> string" where
  "origin_value LOCAL_TRUSTED = ''LOCAL_TRUSTED''"
| "origin_value ATTESTED_EXTERNAL = ''ATTESTED_EXTERNAL''"
| "origin_value ORIGIN_UNVERIFIED = ''ORIGIN_UNVERIFIED''"
| "origin_value SYNTHETIC = ''SYNTHETIC''"
| "origin_value ORIGIN_REVOKED = ''REVOKED''"

datatype memory_state = Candidate | Validated | Rejected | Quarantined | Conflicted | Expired | Revoked | Superseded

fun memory_state_value :: "memory_state \<Rightarrow> string" where
  "memory_state_value Candidate = ''CANDIDATE''"
| "memory_state_value Validated = ''VALIDATED''"
| "memory_state_value Rejected = ''REJECTED''"
| "memory_state_value Quarantined = ''QUARANTINED''"
| "memory_state_value Conflicted = ''CONFLICTED''"
| "memory_state_value Expired = ''EXPIRED''"
| "memory_state_value Revoked = ''REVOKED''"
| "memory_state_value Superseded = ''SUPERSEDED''"

datatype decision_outcome = KEEP | DROP | INCONCLUSIVE

fun outcome_value :: "decision_outcome \<Rightarrow> string" where
  "outcome_value KEEP = ''KEEP''"
| "outcome_value DROP = ''DROP''"
| "outcome_value INCONCLUSIVE = ''INCONCLUSIVE''"

definition read_enum :: "('a \<Rightarrow> string) \<Rightarrow> 'a list \<Rightarrow> json \<Rightarrow> 'a option" where
  "read_enum value_of members j = List.find (\<lambda>x. j = JStr (value_of x)) members"

definition read_memory_origin :: "json \<Rightarrow> memory_origin option" where
  "read_memory_origin = read_enum origin_value
     [LOCAL_TRUSTED, ATTESTED_EXTERNAL, ORIGIN_UNVERIFIED, SYNTHETIC, ORIGIN_REVOKED]"

definition read_memory_state :: "json \<Rightarrow> memory_state option" where
  "read_memory_state = read_enum memory_state_value
     [Candidate, Validated, Rejected, Quarantined, Conflicted, Expired, Revoked, Superseded]"

definition read_decision_outcome :: "json \<Rightarrow> decision_outcome option" where
  "read_decision_outcome = read_enum outcome_value [KEEP, DROP, INCONCLUSIVE]"

subsection \<open>Patterns\<close>

definition stable_id :: "string \<Rightarrow> bool" where
  "stable_id s \<longleftrightarrow> spelled alnum (\<lambda>c. alnum c \<or> c \<in> set ''._:/-'') 1 200 s"

definition version_id :: "string \<Rightarrow> bool" where
  "version_id s \<longleftrightarrow> text_ok 1 120 s"

definition reason_code :: "string \<Rightarrow> bool" where
  "reason_code s \<longleftrightarrow> spelled alnum (\<lambda>c. alnum c \<or> c \<in> set ''._:-'') 1 160 s"

definition sorted_unique :: "'a::linorder list \<Rightarrow> bool" where
  "sorted_unique xs \<longleftrightarrow> sort xs = xs \<and> distinct xs"

definition opt_ok :: "('a \<Rightarrow> bool) \<Rightarrow> 'a option \<Rightarrow> bool" where
  "opt_ok p x = (case x of None \<Rightarrow> True | Some a \<Rightarrow> p a)"

subsection \<open>Base64\<close>

text \<open>
  \<open>base64.b64encode\<close> and \<open>base64.b64decode(value, validate=True)\<close>: the alphabet, then at most two
  padding characters; a padding that completes no group is an error, one after a complete group is ignored.
\<close>

definition b64_digit :: "nat \<Rightarrow> char" where
  "b64_digit n = (if n < 26 then char_of (65 + n) else if n < 52 then char_of (71 + n)
     else if n < 62 then char_of (n - 4) else if n = 62 then CHR ''+'' else CHR ''/'')"

definition b64_value :: "char \<Rightarrow> nat option" where
  "b64_value c = (let n = byte c in
     if 65 \<le> n \<and> n \<le> 90 then Some (n - 65) else if 97 \<le> n \<and> n \<le> 122 then Some (n - 71)
     else if 48 \<le> n \<and> n \<le> 57 then Some (n + 4) else if c = CHR ''+'' then Some 62
     else if c = CHR ''/'' then Some 63 else None)"

fun b64_encode :: "string \<Rightarrow> string" where
  "b64_encode [] = []"
| "b64_encode [a] = (let n = byte a * 16 in [b64_digit (n div 64), b64_digit (n mod 64), CHR ''='', CHR ''=''])"
| "b64_encode [a, b] = (let n = (byte a * 256 + byte b) * 4 in
     [b64_digit (n div 4096), b64_digit (n div 64 mod 64), b64_digit (n mod 64), CHR ''=''])"
| "b64_encode (a # b # c # s) = (let n = byte a * 65536 + byte b * 256 + byte c in
     [b64_digit (n div 262144), b64_digit (n div 4096 mod 64), b64_digit (n div 64 mod 64), b64_digit (n mod 64)]
     @ b64_encode s)"

fun b64_groups :: "nat list \<Rightarrow> nat \<Rightarrow> string option" where
  "b64_groups [] pads = Some []"
| "b64_groups [w] pads = None"
| "b64_groups [w, x] pads = (if pads < 2 then None else Some [char_of (w * 4 + x div 16)])"
| "b64_groups [w, x, y] pads = (if pads < 1 then None
     else Some [char_of (w * 4 + x div 16), char_of (x mod 16 * 16 + y div 4)])"
| "b64_groups (w # x # y # z # vs) pads = map_option
     (\<lambda>s. [char_of (w * 4 + x div 16), char_of (x mod 16 * 16 + y div 4), char_of (y mod 4 * 64 + z)] @ s)
     (b64_groups vs pads)"

definition b64_decode :: "string \<Rightarrow> string option" where
  "b64_decode s = (let ds = takeWhile (\<lambda>c. b64_value c \<noteq> None) s; ps = dropWhile (\<lambda>c. b64_value c \<noteq> None) s in
     if ps \<in> {[], ''='', ''==''} then b64_groups (map (\<lambda>c. the (b64_value c)) ds) (length ps) else None)"

definition utf8_base64_ok :: "string \<Rightarrow> bool" where
  "utf8_base64_ok s \<longleftrightarrow> s \<noteq> [] \<and> (case b64_decode s of None \<Rightarrow> False
     | Some d \<Rightarrow> utf8_valid d \<and> b64_encode d = s)"

subsection \<open>Scopes, sources, fact cores\<close>

record memory_scope =
  sc_tenant_id :: string
  sc_project_id :: string
  sc_component :: string
  sc_version :: string

definition memory_scope_ok :: "memory_scope \<Rightarrow> bool" where
  "memory_scope_ok s \<longleftrightarrow> stable_id (sc_tenant_id s) \<and> stable_id (sc_project_id s) \<and> stable_id (sc_component s)
     \<and> version_id (sc_version s)"

definition memory_scope_json :: "memory_scope \<Rightarrow> json" where
  "memory_scope_json s = JObj [(''tenant_id'', JStr (sc_tenant_id s)), (''project_id'', JStr (sc_project_id s)),
     (''component'', JStr (sc_component s)), (''version'', JStr (sc_version s))]"

definition read_memory_scope :: "json \<Rightarrow> memory_scope option" where
  "read_memory_scope j = do {
     kvs \<leftarrow> as_obj [''tenant_id'', ''project_id'', ''component'', ''version''] j;
     x0 \<leftarrow> field kvs ''tenant_id'' as_str;
     x1 \<leftarrow> field kvs ''project_id'' as_str;
     x2 \<leftarrow> field kvs ''component'' as_str;
     x3 \<leftarrow> field kvs ''version'' as_str;
     let m = \<lparr>sc_tenant_id = x0, sc_project_id = x1, sc_component = x2, sc_version = x3\<rparr>;
     need (memory_scope_ok m);
     Some m }"

record fact_scope =
  fs_tenant_id :: "string option"
  fs_project_id :: string
  fs_component :: string
  fs_version :: "string option"
  fs_problem_id :: "string option"

definition fact_scope_ok :: "fact_scope \<Rightarrow> bool" where
  "fact_scope_ok s \<longleftrightarrow> fs_project_id s \<noteq> [] \<and> fs_component s \<noteq> []"

definition fact_scope_json :: "fact_scope \<Rightarrow> json" where
  "fact_scope_json s = JObj [(''tenant_id'', opt_json JStr (fs_tenant_id s)), (''project_id'', JStr (fs_project_id s)),
     (''component'', JStr (fs_component s)), (''version'', opt_json JStr (fs_version s)),
     (''problem_id'', opt_json JStr (fs_problem_id s))]"

definition read_fact_scope :: "json \<Rightarrow> fact_scope option" where
  "read_fact_scope j = do {
     kvs \<leftarrow> as_obj [''tenant_id'', ''project_id'', ''component'', ''version'', ''problem_id''] j;
     x0 \<leftarrow> optional_field kvs ''tenant_id'' as_str;
     x1 \<leftarrow> field kvs ''project_id'' as_str;
     x2 \<leftarrow> field kvs ''component'' as_str;
     x3 \<leftarrow> optional_field kvs ''version'' as_str;
     x4 \<leftarrow> optional_field kvs ''problem_id'' as_str;
     let m = \<lparr>fs_tenant_id = x0, fs_project_id = x1, fs_component = x2, fs_version = x3,
       fs_problem_id = x4\<rparr>;
     need (fact_scope_ok m);
     Some m }"

definition fact_scope_matches :: "memory_scope \<Rightarrow> fact_scope \<Rightarrow> bool" where
  "fact_scope_matches s f \<longleftrightarrow> fs_tenant_id f = Some (sc_tenant_id s) \<and> fs_project_id f = sc_project_id s
     \<and> fs_component f = sc_component s \<and> fs_version f = Some (sc_version s)"

record source_ref =
  sr_kind :: string
  sr_identifier :: string

definition source_ref_ok :: "source_ref \<Rightarrow> bool" where
  "source_ref_ok r \<longleftrightarrow> sr_kind r \<noteq> [] \<and> sr_identifier r \<noteq> []"

definition source_ref_json :: "source_ref \<Rightarrow> json" where
  "source_ref_json r = JObj [(''kind'', JStr (sr_kind r)), (''identifier'', JStr (sr_identifier r))]"

definition read_source_ref :: "json \<Rightarrow> source_ref option" where
  "read_source_ref j = do {
     kvs \<leftarrow> as_obj [''kind'', ''identifier''] j;
     x0 \<leftarrow> field kvs ''kind'' as_str;
     x1 \<leftarrow> field kvs ''identifier'' as_str;
     let m = \<lparr>sr_kind = x0, sr_identifier = x1\<rparr>;
     need (source_ref_ok m);
     Some m }"

text \<open>\<open>_sorted_unique_models\<close>: sorted by their canonical bytes, none twice.\<close>

definition sources_ok :: "crypto \<Rightarrow> source_ref list \<Rightarrow> bool" where
  "sources_ok C rs \<longleftrightarrow> list_all source_ref_ok rs \<and> sorted_unique (map (\<lambda>r. canonical_bytes C (source_ref_json r)) rs)"

record candidate_proposal =
  cp_proposal_id :: string
  cp_task_id :: string
  cp_generation :: int
  cp_claimed_fact_id :: "string option"
  cp_statement_utf8_base64 :: string
  cp_memory_type :: memory_type
  cp_component :: string
  cp_outcome_claim :: decision_outcome
  cp_applicability_scope :: fact_scope
  cp_source_refs :: "source_ref list"
  cp_support_digest_claims :: "string list"

definition proposal_json :: "candidate_proposal \<Rightarrow> json" where
  "proposal_json p = JObj [(''schema_version'', JStr ''secure-memory-candidate/v1''), (''proposal_id'', JStr (cp_proposal_id p)),
     (''task_id'', JStr (cp_task_id p)), (''generation'', JInt (cp_generation p)),
     (''claimed_fact_id'', opt_json JStr (cp_claimed_fact_id p)),
     (''statement_utf8_base64'', JStr (cp_statement_utf8_base64 p)),
     (''memory_type'', JStr (memory_type_value (cp_memory_type p))), (''component'', JStr (cp_component p)),
     (''outcome_claim'', JStr (outcome_value (cp_outcome_claim p))),
     (''applicability_scope'', fact_scope_json (cp_applicability_scope p)),
     (''source_refs'', JList (map source_ref_json (cp_source_refs p))),
     (''support_digest_claims'', JList (map JStr (cp_support_digest_claims p)))]"

definition proposal_ok :: "crypto \<Rightarrow> candidate_proposal \<Rightarrow> bool" where
  "proposal_ok C p \<longleftrightarrow> cp_proposal_id p \<noteq> [] \<and> cp_task_id p \<noteq> [] \<and> 1 \<le> cp_generation p
     \<and> utf8_base64_ok (cp_statement_utf8_base64 p) \<and> cp_component p \<noteq> [] \<and> fact_scope_ok (cp_applicability_scope p)
     \<and> sources_ok C (cp_source_refs p) \<and> list_all is_sha256_digest (cp_support_digest_claims p)
     \<and> sorted_unique (cp_support_digest_claims p) \<and> float_free (proposal_json p)"

record fact_core =
  fc_fact_id :: string
  fc_fact_kind :: string
  fc_statement_utf8_base64 :: string
  fc_outcome :: decision_outcome
  fc_applicability_scope :: fact_scope
  fc_source_refs :: "source_ref list"
  fc_support_digests :: "string list"

definition fact_core_json :: "fact_core \<Rightarrow> json" where
  "fact_core_json c = JObj [(''schema_version'', JStr ''secure-memory-trusted-fact/v1''), (''fact_id'', JStr (fc_fact_id c)),
     (''fact_kind'', JStr (fc_fact_kind c)), (''statement_utf8_base64'', JStr (fc_statement_utf8_base64 c)),
     (''outcome'', JStr (outcome_value (fc_outcome c))),
     (''applicability_scope'', fact_scope_json (fc_applicability_scope c)),
     (''source_refs'', JList (map source_ref_json (fc_source_refs c))),
     (''support_digests'', JList (map JStr (fc_support_digests c)))]"

definition fact_core_ok :: "crypto \<Rightarrow> fact_core \<Rightarrow> bool" where
  "fact_core_ok C c \<longleftrightarrow> fc_fact_id c \<noteq> [] \<and> fc_fact_kind c \<noteq> [] \<and> utf8_base64_ok (fc_statement_utf8_base64 c)
     \<and> fact_scope_ok (fc_applicability_scope c) \<and> sources_ok C (fc_source_refs c)
     \<and> list_all is_sha256_digest (fc_support_digests c) \<and> sorted_unique (fc_support_digests c)
     \<and> float_free (fact_core_json c)"

definition read_fact_core :: "crypto \<Rightarrow> json \<Rightarrow> fact_core option" where
  "read_fact_core C j = do {
     kvs \<leftarrow> as_obj [''schema_version'', ''fact_id'', ''fact_kind'', ''statement_utf8_base64'', ''outcome'',
       ''applicability_scope'', ''source_refs'', ''support_digests''] j;
     field kvs ''schema_version'' (\<lambda>j. need (j = JStr ''secure-memory-trusted-fact/v1''));
     x1 \<leftarrow> field kvs ''fact_id'' as_str;
     x2 \<leftarrow> field kvs ''fact_kind'' as_str;
     x3 \<leftarrow> field kvs ''statement_utf8_base64'' as_str;
     x4 \<leftarrow> field kvs ''outcome'' read_decision_outcome;
     x5 \<leftarrow> field kvs ''applicability_scope'' read_fact_scope;
     x6 \<leftarrow> field kvs ''source_refs'' (as_list read_source_ref);
     x7 \<leftarrow> field kvs ''support_digests'' (as_list as_str);
     let m = \<lparr>fc_fact_id = x1, fc_fact_kind = x2, fc_statement_utf8_base64 = x3, fc_outcome = x4,
       fc_applicability_scope = x5, fc_source_refs = x6, fc_support_digests = x7\<rparr>;
     need (fact_core_ok C m);
     Some m }"

subsection \<open>Provenance\<close>

record fact_provenance =
  pv_scope :: memory_scope
  pv_task_id :: string
  pv_generation :: int
  pv_task_version :: int
  pv_decision_id :: string
  pv_decision_digest :: string
  pv_decision_closure_digest :: string
  pv_origin :: memory_origin
  pv_evaluator_id :: "string option"
  pv_evaluator_result_digest :: "string option"
  pv_external_attestation_digest :: "string option"
  pv_verified_fact_digests :: "string list"
  pv_evidence_ids :: "string list"
  pv_evidence_digests :: "string list"
  pv_policy_version :: string
  pv_rule_version :: string

definition provenance_json :: "fact_provenance \<Rightarrow> json" where
  "provenance_json p = JObj [(''schema_version'', JStr ''egoagentos-fact-provenance/v1''), (''scope'', memory_scope_json (pv_scope p)),
     (''task_id'', JStr (pv_task_id p)), (''generation'', JInt (pv_generation p)),
     (''task_version'', JInt (pv_task_version p)), (''decision_id'', JStr (pv_decision_id p)),
     (''decision_digest'', JStr (pv_decision_digest p)),
     (''decision_closure_digest'', JStr (pv_decision_closure_digest p)),
     (''origin'', JStr (origin_value (pv_origin p))), (''evaluator_id'', opt_json JStr (pv_evaluator_id p)),
     (''evaluator_result_digest'', opt_json JStr (pv_evaluator_result_digest p)),
     (''external_attestation_digest'', opt_json JStr (pv_external_attestation_digest p)),
     (''verified_fact_digests'', JList (map JStr (pv_verified_fact_digests p))),
     (''evidence_ids'', JList (map JStr (pv_evidence_ids p))),
     (''evidence_digests'', JList (map JStr (pv_evidence_digests p))),
     (''policy_version'', JStr (pv_policy_version p)), (''rule_version'', JStr (pv_rule_version p))]"

definition origin_bound :: "fact_provenance \<Rightarrow> bool" where
  "origin_bound p \<longleftrightarrow> (case pv_origin p of
       LOCAL_TRUSTED \<Rightarrow> pv_evaluator_id p \<noteq> None \<and> pv_evaluator_result_digest p \<noteq> None
         \<and> pv_external_attestation_digest p = None
     | ATTESTED_EXTERNAL \<Rightarrow> pv_external_attestation_digest p \<noteq> None \<and> pv_evaluator_id p = None
         \<and> pv_evaluator_result_digest p = None
     | _ \<Rightarrow> False)"

definition provenance_ok :: "fact_provenance \<Rightarrow> bool" where
  "provenance_ok p \<longleftrightarrow> memory_scope_ok (pv_scope p) \<and> stable_id (pv_task_id p) \<and> 1 \<le> pv_generation p
     \<and> 1 \<le> pv_task_version p \<and> stable_id (pv_decision_id p) \<and> is_sha256_digest (pv_decision_digest p)
     \<and> is_sha256_digest (pv_decision_closure_digest p) \<and> opt_ok stable_id (pv_evaluator_id p)
     \<and> opt_ok is_sha256_digest (pv_evaluator_result_digest p)
     \<and> opt_ok is_sha256_digest (pv_external_attestation_digest p)
     \<and> pv_verified_fact_digests p \<noteq> [] \<and> list_all is_sha256_digest (pv_verified_fact_digests p)
     \<and> sorted_unique (pv_verified_fact_digests p)
     \<and> pv_evidence_ids p \<noteq> [] \<and> list_all stable_id (pv_evidence_ids p) \<and> sorted_unique (pv_evidence_ids p)
     \<and> pv_evidence_digests p \<noteq> [] \<and> list_all is_sha256_digest (pv_evidence_digests p)
     \<and> sorted_unique (pv_evidence_digests p) \<and> version_id (pv_policy_version p) \<and> version_id (pv_rule_version p)
     \<and> length (pv_evidence_ids p) = length (pv_evidence_digests p) \<and> origin_bound p
     \<and> float_free (provenance_json p)"

definition read_provenance :: "json \<Rightarrow> fact_provenance option" where
  "read_provenance j = do {
     kvs \<leftarrow> as_obj [''schema_version'', ''scope'', ''task_id'', ''generation'', ''task_version'', ''decision_id'',
       ''decision_digest'', ''decision_closure_digest'', ''origin'', ''evaluator_id'',
       ''evaluator_result_digest'', ''external_attestation_digest'', ''verified_fact_digests'',
       ''evidence_ids'', ''evidence_digests'', ''policy_version'', ''rule_version''] j;
     field kvs ''schema_version'' (\<lambda>j. need (j = JStr ''egoagentos-fact-provenance/v1''));
     x1 \<leftarrow> field kvs ''scope'' read_memory_scope;
     x2 \<leftarrow> field kvs ''task_id'' as_str;
     x3 \<leftarrow> field kvs ''generation'' as_int;
     x4 \<leftarrow> field kvs ''task_version'' as_int;
     x5 \<leftarrow> field kvs ''decision_id'' as_str;
     x6 \<leftarrow> field kvs ''decision_digest'' as_str;
     x7 \<leftarrow> field kvs ''decision_closure_digest'' as_str;
     x8 \<leftarrow> field kvs ''origin'' read_memory_origin;
     x9 \<leftarrow> field kvs ''evaluator_id'' as_opt_str;
     x10 \<leftarrow> field kvs ''evaluator_result_digest'' as_opt_str;
     x11 \<leftarrow> field kvs ''external_attestation_digest'' as_opt_str;
     x12 \<leftarrow> field kvs ''verified_fact_digests'' (as_list as_str);
     x13 \<leftarrow> field kvs ''evidence_ids'' (as_list as_str);
     x14 \<leftarrow> field kvs ''evidence_digests'' (as_list as_str);
     x15 \<leftarrow> field kvs ''policy_version'' as_str;
     x16 \<leftarrow> field kvs ''rule_version'' as_str;
     let m = \<lparr>pv_scope = x1, pv_task_id = x2, pv_generation = x3, pv_task_version = x4,
       pv_decision_id = x5, pv_decision_digest = x6, pv_decision_closure_digest = x7,
       pv_origin = x8, pv_evaluator_id = x9, pv_evaluator_result_digest = x10,
       pv_external_attestation_digest = x11, pv_verified_fact_digests = x12, pv_evidence_ids = x13,
       pv_evidence_digests = x14, pv_policy_version = x15, pv_rule_version = x16\<rparr>;
     need (provenance_ok m);
     Some m }"

subsection \<open>Candidates and trusted facts\<close>

record candidate_fact =
  cf_candidate_id :: string
  cf_lineage_id :: string
  cf_revision :: int
  cf_scope :: memory_scope
  cf_outcome :: decision_outcome
  cf_origin :: memory_origin
  cf_state :: memory_state
  cf_proposal :: candidate_proposal
  cf_proposal_digest :: string

definition candidate_fact_json :: "candidate_fact \<Rightarrow> json" where
  "candidate_fact_json c = JObj [(''schema_version'', JStr ''egoagentos-memory-candidate/v1''),
     (''candidate_id'', JStr (cf_candidate_id c)), (''lineage_id'', JStr (cf_lineage_id c)),
     (''revision'', JInt (cf_revision c)), (''scope'', memory_scope_json (cf_scope c)),
     (''outcome'', JStr (outcome_value (cf_outcome c))), (''origin'', JStr (origin_value (cf_origin c))),
     (''state'', JStr (memory_state_value (cf_state c))), (''proposal'', proposal_json (cf_proposal c)),
     (''proposal_digest'', JStr (cf_proposal_digest c))]"

definition candidate_fact_ok :: "crypto \<Rightarrow> candidate_fact \<Rightarrow> bool" where
  "candidate_fact_ok C c \<longleftrightarrow> stable_id (cf_candidate_id c) \<and> stable_id (cf_lineage_id c) \<and> 1 \<le> cf_revision c
     \<and> memory_scope_ok (cf_scope c) \<and> proposal_ok C (cf_proposal c) \<and> is_sha256_digest (cf_proposal_digest c)
     \<and> cf_state c = Candidate \<and> cf_origin c \<in> {ORIGIN_UNVERIFIED, SYNTHETIC}
     \<and> cf_candidate_id c = cp_proposal_id (cf_proposal c)
     \<and> fact_scope_matches (cf_scope c) (cp_applicability_scope (cf_proposal c))
     \<and> cp_component (cf_proposal c) = sc_component (cf_scope c)
     \<and> cf_outcome c = cp_outcome_claim (cf_proposal c)
     \<and> cf_proposal_digest c = domain_digest C ''candidate-proposal'' (proposal_json (cf_proposal c))
     \<and> float_free (candidate_fact_json c)"

record trusted_fact =
  tf_revision_id :: string
  tf_lineage_id :: string
  tf_revision :: int
  tf_scope :: memory_scope
  tf_outcome :: decision_outcome
  tf_origin :: memory_origin
  tf_state :: memory_state
  tf_core :: fact_core
  tf_trusted_fact_digest :: string
  tf_provenance :: fact_provenance
  tf_record_digest :: string

definition trusted_fact_json :: "trusted_fact \<Rightarrow> json" where
  "trusted_fact_json f = JObj [(''schema_version'', JStr ''egoagentos-trusted-memory-fact/v1''),
     (''revision_id'', JStr (tf_revision_id f)), (''lineage_id'', JStr (tf_lineage_id f)),
     (''revision'', JInt (tf_revision f)), (''scope'', memory_scope_json (tf_scope f)),
     (''outcome'', JStr (outcome_value (tf_outcome f))), (''origin'', JStr (origin_value (tf_origin f))),
     (''state'', JStr (memory_state_value (tf_state f))), (''core'', fact_core_json (tf_core f)),
     (''trusted_fact_digest'', JStr (tf_trusted_fact_digest f)),
     (''provenance'', provenance_json (tf_provenance f)), (''record_digest'', JStr (tf_record_digest f))]"

text \<open>The dump without \<open>record_digest\<close>, which the digest covers.\<close>

definition trusted_fact_body :: "trusted_fact \<Rightarrow> json" where
  "trusted_fact_body f = (case trusted_fact_json f of JObj kvs \<Rightarrow> JObj (butlast kvs) | j \<Rightarrow> j)"

definition trusted_origin :: "memory_origin \<Rightarrow> bool" where
  "trusted_origin m \<longleftrightarrow> m \<in> {LOCAL_TRUSTED, ATTESTED_EXTERNAL}"

definition trusted_fact_ok :: "crypto \<Rightarrow> trusted_fact \<Rightarrow> bool" where
  "trusted_fact_ok C f \<longleftrightarrow> stable_id (tf_revision_id f) \<and> stable_id (tf_lineage_id f) \<and> 1 \<le> tf_revision f
     \<and> memory_scope_ok (tf_scope f) \<and> fact_core_ok C (tf_core f) \<and> is_sha256_digest (tf_trusted_fact_digest f)
     \<and> provenance_ok (tf_provenance f) \<and> is_sha256_digest (tf_record_digest f)
     \<and> tf_state f = Validated \<and> trusted_origin (tf_origin f) \<and> tf_origin f = pv_origin (tf_provenance f)
     \<and> tf_scope f = pv_scope (tf_provenance f) \<and> fact_scope_matches (tf_scope f) (fc_applicability_scope (tf_core f))
     \<and> tf_outcome f = fc_outcome (tf_core f)
     \<and> tf_trusted_fact_digest f = domain_digest C ''trusted-fact'' (fact_core_json (tf_core f))
     \<and> tf_trusted_fact_digest f \<in> set (pv_verified_fact_digests (tf_provenance f))
     \<and> tf_record_digest f = domain_digest C ''trusted-memory-fact-record'' (trusted_fact_body f)
     \<and> float_free (trusted_fact_json f)"

definition read_trusted_fact :: "crypto \<Rightarrow> json \<Rightarrow> trusted_fact option" where
  "read_trusted_fact C j = do {
     kvs \<leftarrow> as_obj [''schema_version'', ''revision_id'', ''lineage_id'', ''revision'', ''scope'', ''outcome'',
       ''origin'', ''state'', ''core'', ''trusted_fact_digest'', ''provenance'', ''record_digest''] j;
     field kvs ''schema_version'' (\<lambda>j. need (j = JStr ''egoagentos-trusted-memory-fact/v1''));
     x1 \<leftarrow> field kvs ''revision_id'' as_str;
     x2 \<leftarrow> field kvs ''lineage_id'' as_str;
     x3 \<leftarrow> field kvs ''revision'' as_int;
     x4 \<leftarrow> field kvs ''scope'' read_memory_scope;
     x5 \<leftarrow> field kvs ''outcome'' read_decision_outcome;
     x6 \<leftarrow> field kvs ''origin'' read_memory_origin;
     x7 \<leftarrow> field kvs ''state'' read_memory_state;
     x8 \<leftarrow> field kvs ''core'' (read_fact_core C);
     x9 \<leftarrow> field kvs ''trusted_fact_digest'' as_str;
     x10 \<leftarrow> field kvs ''provenance'' read_provenance;
     x11 \<leftarrow> field kvs ''record_digest'' as_str;
     let m = \<lparr>tf_revision_id = x1, tf_lineage_id = x2, tf_revision = x3, tf_scope = x4, tf_outcome = x5,
       tf_origin = x6, tf_state = x7, tf_core = x8, tf_trusted_fact_digest = x9,
       tf_provenance = x10, tf_record_digest = x11\<rparr>;
     need (trusted_fact_ok C m);
     Some m }"

subsection \<open>Lifecycle transitions\<close>

definition lifecycle_edges :: "(memory_state \<times> memory_state) list" where
  "lifecycle_edges = [(Candidate, Validated), (Candidate, Rejected), (Candidate, Quarantined),
     (Candidate, Conflicted), (Candidate, Expired), (Candidate, Revoked), (Validated, Superseded),
     (Validated, Conflicted), (Validated, Expired), (Validated, Revoked)]"

record transition_core =
  lt_transition_id :: string
  lt_scope :: memory_scope
  lt_lineage_id :: string
  lt_fact_digest :: string
  lt_from_revision :: int
  lt_to_revision :: int
  lt_from_state :: memory_state
  lt_to_state :: memory_state
  lt_actor_id :: string
  lt_reason_code :: string
  lt_decision_closure_digest :: "string option"

definition transition_core_json :: "transition_core \<Rightarrow> json" where
  "transition_core_json t = JObj [(''schema_version'', JStr ''egoagentos-memory-lifecycle-transition/v1''),
     (''transition_id'', JStr (lt_transition_id t)), (''scope'', memory_scope_json (lt_scope t)),
     (''lineage_id'', JStr (lt_lineage_id t)), (''fact_digest'', JStr (lt_fact_digest t)),
     (''from_revision'', JInt (lt_from_revision t)), (''to_revision'', JInt (lt_to_revision t)),
     (''from_state'', JStr (memory_state_value (lt_from_state t))),
     (''to_state'', JStr (memory_state_value (lt_to_state t))), (''actor_role'', JStr ''validator''),
     (''actor_id'', JStr (lt_actor_id t)), (''reason_code'', JStr (lt_reason_code t)),
     (''decision_closure_digest'', opt_json JStr (lt_decision_closure_digest t))]"

definition transition_core_ok :: "transition_core \<Rightarrow> bool" where
  "transition_core_ok t \<longleftrightarrow> stable_id (lt_transition_id t) \<and> memory_scope_ok (lt_scope t) \<and> stable_id (lt_lineage_id t)
     \<and> is_sha256_digest (lt_fact_digest t) \<and> 1 \<le> lt_from_revision t \<and> 2 \<le> lt_to_revision t
     \<and> stable_id (lt_actor_id t) \<and> reason_code (lt_reason_code t) \<and> opt_ok is_sha256_digest (lt_decision_closure_digest t)
     \<and> lt_to_revision t = lt_from_revision t + 1 \<and> (lt_from_state t, lt_to_state t) \<in> set lifecycle_edges
     \<and> (lt_to_state t = Validated \<longrightarrow> lt_decision_closure_digest t \<noteq> None) \<and> float_free (transition_core_json t)"

record lifecycle_transition =
  lf_core :: transition_core
  lf_transition_digest :: string

definition lifecycle_json :: "lifecycle_transition \<Rightarrow> json" where
  "lifecycle_json t = JObj [(''core'', transition_core_json (lf_core t)), (''transition_digest'', JStr (lf_transition_digest t))]"

definition lifecycle_ok :: "crypto \<Rightarrow> lifecycle_transition \<Rightarrow> bool" where
  "lifecycle_ok C t \<longleftrightarrow> transition_core_ok (lf_core t) \<and> is_sha256_digest (lf_transition_digest t)
     \<and> lf_transition_digest t = domain_digest C ''trusted-memory-lifecycle-transition'' (transition_core_json (lf_core t))"

subsection \<open>Conflicts\<close>

record conflict_member =
  cm_scope :: memory_scope
  cm_lineage_id :: string
  cm_revision_id :: string
  cm_revision :: int
  cm_fact_digest :: string

definition conflict_member_json :: "conflict_member \<Rightarrow> json" where
  "conflict_member_json m = JObj [(''scope'', memory_scope_json (cm_scope m)), (''lineage_id'', JStr (cm_lineage_id m)),
     (''revision_id'', JStr (cm_revision_id m)), (''revision'', JInt (cm_revision m)),
     (''fact_digest'', JStr (cm_fact_digest m))]"

definition conflict_member_ok :: "conflict_member \<Rightarrow> bool" where
  "conflict_member_ok m \<longleftrightarrow> memory_scope_ok (cm_scope m) \<and> stable_id (cm_lineage_id m) \<and> stable_id (cm_revision_id m)
     \<and> 1 \<le> cm_revision m \<and> is_sha256_digest (cm_fact_digest m)"

record conflict_group =
  cg_conflict_group_id :: string
  cg_scope :: memory_scope
  cg_members :: "conflict_member list"
  cg_reason_code :: string
  cg_decision_closure_digests :: "string list"

definition conflict_group_json :: "conflict_group \<Rightarrow> json" where
  "conflict_group_json g = JObj [(''schema_version'', JStr ''egoagentos-memory-conflict-group/v1''),
     (''conflict_group_id'', JStr (cg_conflict_group_id g)), (''scope'', memory_scope_json (cg_scope g)),
     (''members'', JList (map conflict_member_json (cg_members g))), (''reason_code'', JStr (cg_reason_code g)),
     (''decision_closure_digests'', JList (map JStr (cg_decision_closure_digests g)))]"

definition conflict_group_ok :: "crypto \<Rightarrow> conflict_group \<Rightarrow> bool" where
  "conflict_group_ok C g \<longleftrightarrow> stable_id (cg_conflict_group_id g) \<and> memory_scope_ok (cg_scope g)
     \<and> 2 \<le> length (cg_members g) \<and> list_all conflict_member_ok (cg_members g) \<and> reason_code (cg_reason_code g)
     \<and> cg_decision_closure_digests g \<noteq> [] \<and> list_all is_sha256_digest (cg_decision_closure_digests g)
     \<and> sorted_unique (cg_decision_closure_digests g)
     \<and> sorted_unique (map (\<lambda>m. canonical_bytes C (conflict_member_json m)) (cg_members g))
     \<and> list_all (\<lambda>m. cm_scope m = cg_scope g) (cg_members g)
     \<and> distinct (map cm_revision_id (cg_members g)) \<and> distinct (map cm_fact_digest (cg_members g))
     \<and> float_free (conflict_group_json g)"

record conflict_record =
  cr_group :: conflict_group
  cr_conflict_digest :: string

definition conflict_json :: "conflict_record \<Rightarrow> json" where
  "conflict_json c = JObj [(''group'', conflict_group_json (cr_group c)), (''conflict_digest'', JStr (cr_conflict_digest c))]"

definition conflict_ok :: "crypto \<Rightarrow> conflict_record \<Rightarrow> bool" where
  "conflict_ok C c \<longleftrightarrow> conflict_group_ok C (cr_group c) \<and> is_sha256_digest (cr_conflict_digest c)
     \<and> cr_conflict_digest c = domain_digest C ''trusted-memory-conflict'' (conflict_group_json (cr_group c))"

subsection \<open>Supersessions\<close>

record supersession_core =
  su_supersession_id :: string
  su_scope :: memory_scope
  su_lineage_id :: string
  su_superseded_revision_id :: string
  su_superseded_revision :: int
  su_superseding_revision_id :: string
  su_superseding_revision :: int
  su_prior_revision_ids :: "string list"
  su_decision_closure_digest :: string
  su_reason_code :: string

definition supersession_core_json :: "supersession_core \<Rightarrow> json" where
  "supersession_core_json u = JObj [(''schema_version'', JStr ''egoagentos-memory-supersession/v1''),
     (''supersession_id'', JStr (su_supersession_id u)), (''scope'', memory_scope_json (su_scope u)),
     (''lineage_id'', JStr (su_lineage_id u)), (''superseded_revision_id'', JStr (su_superseded_revision_id u)),
     (''superseded_revision'', JInt (su_superseded_revision u)),
     (''superseding_revision_id'', JStr (su_superseding_revision_id u)),
     (''superseding_revision'', JInt (su_superseding_revision u)),
     (''prior_revision_ids'', JList (map JStr (su_prior_revision_ids u))),
     (''decision_closure_digest'', JStr (su_decision_closure_digest u)),
     (''reason_code'', JStr (su_reason_code u))]"

definition supersession_core_ok :: "supersession_core \<Rightarrow> bool" where
  "supersession_core_ok u \<longleftrightarrow> stable_id (su_supersession_id u) \<and> memory_scope_ok (su_scope u) \<and> stable_id (su_lineage_id u)
     \<and> stable_id (su_superseded_revision_id u) \<and> 1 \<le> su_superseded_revision u \<and> stable_id (su_superseding_revision_id u)
     \<and> 2 \<le> su_superseding_revision u \<and> list_all stable_id (su_prior_revision_ids u)
     \<and> sorted_unique (su_prior_revision_ids u) \<and> is_sha256_digest (su_decision_closure_digest u)
     \<and> reason_code (su_reason_code u) \<and> su_superseded_revision_id u \<noteq> su_superseding_revision_id u
     \<and> su_superseding_revision u = su_superseded_revision u + 1
     \<and> su_superseding_revision_id u \<notin> set (su_prior_revision_ids u)
     \<and> su_superseded_revision_id u \<notin> set (su_prior_revision_ids u) \<and> float_free (supersession_core_json u)"

record supersession_record =
  sp_core :: supersession_core
  sp_supersession_digest :: string

definition supersession_json :: "supersession_record \<Rightarrow> json" where
  "supersession_json s = JObj [(''core'', supersession_core_json (sp_core s)), (''supersession_digest'', JStr (sp_supersession_digest s))]"

definition supersession_ok :: "crypto \<Rightarrow> supersession_record \<Rightarrow> bool" where
  "supersession_ok C s \<longleftrightarrow> supersession_core_ok (sp_core s) \<and> is_sha256_digest (sp_supersession_digest s)
     \<and> sp_supersession_digest s = domain_digest C ''trusted-memory-supersession'' (supersession_core_json (sp_core s))"

subsection \<open>Revocations\<close>

record revocation_core =
  rv_revocation_id :: string
  rv_scope :: memory_scope
  rv_lineage_id :: string
  rv_revision_id :: string
  rv_revision :: int
  rv_expected_revision :: int
  rv_fact_digest :: string
  rv_decision_closure_digest :: string
  rv_invalidating_evidence_ids :: "string list"
  rv_invalidating_evidence_digests :: "string list"
  rv_reason_code :: string

definition revocation_core_json :: "revocation_core \<Rightarrow> json" where
  "revocation_core_json r = JObj [(''schema_version'', JStr ''egoagentos-memory-revocation/v1''),
     (''revocation_id'', JStr (rv_revocation_id r)), (''scope'', memory_scope_json (rv_scope r)),
     (''lineage_id'', JStr (rv_lineage_id r)), (''revision_id'', JStr (rv_revision_id r)),
     (''revision'', JInt (rv_revision r)), (''expected_revision'', JInt (rv_expected_revision r)),
     (''fact_digest'', JStr (rv_fact_digest r)),
     (''decision_closure_digest'', JStr (rv_decision_closure_digest r)),
     (''invalidating_evidence_ids'', JList (map JStr (rv_invalidating_evidence_ids r))),
     (''invalidating_evidence_digests'', JList (map JStr (rv_invalidating_evidence_digests r))),
     (''reason_code'', JStr (rv_reason_code r))]"

definition revocation_core_ok :: "revocation_core \<Rightarrow> bool" where
  "revocation_core_ok r \<longleftrightarrow> stable_id (rv_revocation_id r) \<and> memory_scope_ok (rv_scope r) \<and> stable_id (rv_lineage_id r)
     \<and> stable_id (rv_revision_id r) \<and> 1 \<le> rv_revision r \<and> 1 \<le> rv_expected_revision r
     \<and> is_sha256_digest (rv_fact_digest r) \<and> is_sha256_digest (rv_decision_closure_digest r)
     \<and> rv_invalidating_evidence_ids r \<noteq> [] \<and> list_all stable_id (rv_invalidating_evidence_ids r)
     \<and> sorted_unique (rv_invalidating_evidence_ids r)
     \<and> rv_invalidating_evidence_digests r \<noteq> [] \<and> list_all is_sha256_digest (rv_invalidating_evidence_digests r)
     \<and> sorted_unique (rv_invalidating_evidence_digests r) \<and> reason_code (rv_reason_code r)
     \<and> rv_expected_revision r = rv_revision r
     \<and> length (rv_invalidating_evidence_ids r) = length (rv_invalidating_evidence_digests r)
     \<and> float_free (revocation_core_json r)"

record revocation_record =
  rr_core :: revocation_core
  rr_revocation_digest :: string

definition revocation_json :: "revocation_record \<Rightarrow> json" where
  "revocation_json r = JObj [(''core'', revocation_core_json (rr_core r)), (''revocation_digest'', JStr (rr_revocation_digest r))]"

definition revocation_ok :: "crypto \<Rightarrow> revocation_record \<Rightarrow> bool" where
  "revocation_ok C r \<longleftrightarrow> revocation_core_ok (rr_core r) \<and> is_sha256_digest (rr_revocation_digest r)
     \<and> rr_revocation_digest r = domain_digest C ''trusted-memory-revocation'' (revocation_core_json (rr_core r))"

subsection \<open>What a stream can hold\<close>

datatype memory_entry =
    CandidateEntry candidate_fact
  | FactEntry trusted_fact
  | LifecycleEntry lifecycle_transition
  | ConflictEntry conflict_record
  | SupersessionEntry supersession_record
  | RevocationEntry revocation_record

fun entry_json :: "memory_entry \<Rightarrow> json" where
  "entry_json (CandidateEntry c) = candidate_fact_json c"
| "entry_json (FactEntry f) = trusted_fact_json f"
| "entry_json (LifecycleEntry t) = lifecycle_json t"
| "entry_json (ConflictEntry c) = conflict_json c"
| "entry_json (SupersessionEntry s) = supersession_json s"
| "entry_json (RevocationEntry r) = revocation_json r"

fun memory_entry_ok :: "crypto \<Rightarrow> memory_entry \<Rightarrow> bool" where
  "memory_entry_ok C (CandidateEntry c) = candidate_fact_ok C c"
| "memory_entry_ok C (FactEntry f) = trusted_fact_ok C f"
| "memory_entry_ok C (LifecycleEntry t) = lifecycle_ok C t"
| "memory_entry_ok C (ConflictEntry c) = conflict_ok C c"
| "memory_entry_ok C (SupersessionEntry s) = supersession_ok C s"
| "memory_entry_ok C (RevocationEntry r) = revocation_ok C r"

subsection \<open>Views of legacy memories\<close>

text \<open>\<open>LegacyMemoryView.from_memory_record\<close>: a view is a candidate of unverified origin, whatever the old flag says.\<close>

record legacy_view =
  lv_legacy_memory_id :: string
  lv_task_id :: string
  lv_generation :: string
  lv_memory_type :: memory_type
  lv_statement :: string
  lv_scope :: memory_scope
  lv_evidence_digest :: string
  lv_review_id :: string
  lv_legacy_validated :: bool

definition legacy_view_json :: "legacy_view \<Rightarrow> json" where
  "legacy_view_json v = JObj [(''schema_version'', JStr ''egoagentos-legacy-memory-view/v1''),
     (''legacy_memory_id'', JStr (lv_legacy_memory_id v)), (''task_id'', JStr (lv_task_id v)),
     (''generation'', JStr (lv_generation v)), (''memory_type'', JStr (memory_type_value (lv_memory_type v))),
     (''statement'', JStr (lv_statement v)), (''scope'', memory_scope_json (lv_scope v)),
     (''evidence_digest'', JStr (lv_evidence_digest v)), (''review_id'', JStr (lv_review_id v)),
     (''legacy_validated'', JBool (lv_legacy_validated v)), (''origin'', JStr ''ORIGIN_UNVERIFIED''),
     (''state'', JStr ''CANDIDATE'')]"

definition legacy_view_ok :: "legacy_view \<Rightarrow> bool" where
  "legacy_view_ok v \<longleftrightarrow> stable_id (lv_legacy_memory_id v) \<and> stable_id (lv_task_id v) \<and> stable_id (lv_generation v)
     \<and> text_ok 1 4096 (lv_statement v) \<and> memory_scope_ok (lv_scope v) \<and> is_sha256_digest (lv_evidence_digest v)
     \<and> stable_id (lv_review_id v) \<and> float_free (legacy_view_json v)"

definition legacy_view_of :: "string \<Rightarrow> string \<Rightarrow> string \<Rightarrow> memory_record \<Rightarrow> api_error + legacy_view" where
  "legacy_view_of tenant project ver m =
     (let v = \<lparr>lv_legacy_memory_id = mr_id m, lv_task_id = mr_task_id m, lv_generation = mr_generation m,
        lv_memory_type = mr_memory_type m, lv_statement = mr_statement m,
        lv_scope = \<lparr>sc_tenant_id = tenant, sc_project_id = project, sc_component = mr_component m, sc_version = ver\<rparr>,
        lv_evidence_digest = mr_evidence_digest m, lv_review_id = mr_review_id m, lv_legacy_validated = mr_validated m\<rparr>
      in checked [(\<not> legacy_view_ok v, ValueError ''LegacyMemoryView'')] v)"

end
