(* ===== verification/MemoryStore.thy ===== *)
theory MemoryStore
  imports MemoryModels Store
begin

text \<open>
  The trusted-memory streams of the SQLite store (\<open>apps/api/store.py\<close> and \<open>apps/api/store_contract.py\<close>):
  an append-only history per lineage, chained by hashes, with the current projection of the lineage, the
  links to decision closures and the outbox. The tables are the record \<open>memory_tables\<close>, next to the database
  of \<open>Store\<close> in the session; the operations of \<open>Store\<close> run in it unchanged (\<open>store_op\<close>).

  The triggers that refuse updates and deletions leave appending as the only change of the history, the
  closure links and the outbox. The two guards of the current projection are checked before a row is
  inserted or updated. A revision never exceeds the number of facts of its lineage, so the range of SQLite
  integers is not reached.
\<close>

subsection \<open>Tables\<close>

text \<open>Tenant, project and lineage: the primary key of a stream.\<close>

type_synonym lineage = "string \<times> string \<times> string"

record memory_event =
  me_lineage :: lineage
  me_sequence :: int
  me_event_type :: string
  me_record_bytes :: string
  me_record_sha256 :: string
  me_previous_hash :: string
  me_event_hash :: string

record history_row = memory_event +
  me_idempotency_key :: string

record current_row =
  cu_revision_id :: string
  cu_revision :: int
  cu_fact_digest :: string
  cu_state :: memory_state
  cu_eligible :: bool
  cu_fact_bytes :: string
  cu_fact_event_hash :: string
  cu_projection_event_hash :: string

record outbox_row =
  ob_event_hash :: string
  ob_lineage :: lineage
  ob_sequence :: int
  ob_payload :: json

record memory_tables =
  streams :: "(lineage \<times> (int \<times> string)) list"
  history :: "history_row list"
  current :: "(lineage \<times> current_row) list"
  closure_links :: "(lineage \<times> string \<times> string) list"
  outbox :: "outbox_row list"

definition empty_tables :: memory_tables where
  "empty_tables = \<lparr>streams = [], history = [], current = [], closure_links = [], outbox = []\<rparr>"

record memory_session = session +
  mem :: memory_tables

type_synonym 'a memory_op = "(memory_session, api_error, 'a) prog"

definition fresh_memory_session :: memory_session where
  "fresh_memory_session = session.extend fresh_session \<lparr>mem = empty_tables\<rparr>"

text \<open>An operation on the other tables of the database.\<close>

definition store_op :: "'a op \<Rightarrow> 'a memory_op" where
  "store_op m = (\<lambda>s. case m (session.truncate s) of (r, t) \<Rightarrow> (r, session.extend t \<lparr>mem = mem s\<rparr>))"

definition select :: "(memory_tables \<Rightarrow> 'a) \<Rightarrow> 'a memory_op" where
  "select f = getsE (\<lambda>s. f (mem s))"

definition execute :: "(memory_tables \<Rightarrow> memory_tables) \<Rightarrow> unit memory_op" where
  "execute f = modifyE (\<lambda>s. s\<lparr>mem := f (mem s)\<rparr>)"

text \<open>\<open>SQLiteStore.transaction\<close>, with these tables restored as well.\<close>

definition memory_transaction :: "'a memory_op \<Rightarrow> 'a memory_op" where
  "memory_transaction body = (\<lambda>s.
     if 0 < depth s then
       (case body (s\<lparr>depth := depth s + 1\<rparr>) of
          (Inl e, s') \<Rightarrow> (Inl e, s'\<lparr>depth := depth s, rollback_only := True\<rparr>)
        | (Inr a, s') \<Rightarrow> (Inr a, s'\<lparr>depth := depth s\<rparr>))
     else
       (case body (s\<lparr>depth := 1, rollback_only := False\<rparr>) of
          (Inl e, s') \<Rightarrow> (Inl e, s'\<lparr>db := db s, mem := mem s, depth := 0, rollback_only := False\<rparr>)
        | (Inr a, s') \<Rightarrow>
            (if rollback_only s' then
               (Inl (RuntimeError ''nested database mutation failed; transaction rolled back''),
                s'\<lparr>db := db s, mem := mem s, depth := 0, rollback_only := False\<rparr>)
             else (Inr a, s'\<lparr>depth := 0\<rparr>))))"

subsection \<open>Events\<close>

fun entry_type :: "memory_entry \<Rightarrow> string" where
  "entry_type (CandidateEntry c) = ''candidate''"
| "entry_type (FactEntry f) = ''trusted_fact''"
| "entry_type (LifecycleEntry t) = ''lifecycle''"
| "entry_type (ConflictEntry c) = ''conflict''"
| "entry_type (SupersessionEntry s) = ''supersession''"
| "entry_type (RevocationEntry r) = ''revocation''"

definition event_body_json :: "lineage \<Rightarrow> int \<Rightarrow> string \<Rightarrow> string \<Rightarrow> string \<Rightarrow> json" where
  "event_body_json k seq event_type record_sha256 previous = (case k of (tenant, project, lid) \<Rightarrow>
     JObj [(''tenant_id'', JStr tenant), (''project_id'', JStr project), (''lineage_id'', JStr lid),
       (''sequence'', JInt seq), (''event_type'', JStr event_type), (''record_sha256'', JStr record_sha256),
       (''previous_hash'', JStr previous)])"

definition memory_event_hash :: "crypto \<Rightarrow> lineage \<Rightarrow> int \<Rightarrow> string \<Rightarrow> string \<Rightarrow> string \<Rightarrow> string" where
  "memory_event_hash C k seq event_type record_sha256 previous =
     domain_digest C ''trusted-memory-history-event'' (event_body_json k seq event_type record_sha256 previous)"

definition stream_rows :: "memory_tables \<Rightarrow> lineage \<Rightarrow> history_row list" where
  "stream_rows M k = filter (\<lambda>h. me_lineage h = k) (history M)"

subsection \<open>What an entry says about its scope\<close>

fun entry_scope :: "memory_entry \<Rightarrow> memory_scope" where
  "entry_scope (CandidateEntry c) = cf_scope c"
| "entry_scope (FactEntry f) = tf_scope f"
| "entry_scope (LifecycleEntry t) = lt_scope (lf_core t)"
| "entry_scope (ConflictEntry c) = cg_scope (cr_group c)"
| "entry_scope (SupersessionEntry s) = su_scope (sp_core s)"
| "entry_scope (RevocationEntry r) = rv_scope (rr_core r)"

fun entry_in_lineage :: "memory_entry \<Rightarrow> string \<Rightarrow> bool" where
  "entry_in_lineage (CandidateEntry c) lid = (cf_lineage_id c = lid)"
| "entry_in_lineage (FactEntry f) lid = (tf_lineage_id f = lid)"
| "entry_in_lineage (LifecycleEntry t) lid = (lt_lineage_id (lf_core t) = lid)"
| "entry_in_lineage (ConflictEntry c) lid = list_ex (\<lambda>m. cm_lineage_id m = lid) (cg_members (cr_group c))"
| "entry_in_lineage (SupersessionEntry s) lid = (su_lineage_id (sp_core s) = lid)"
| "entry_in_lineage (RevocationEntry r) lid = (rv_lineage_id (rr_core r) = lid)"

fun entry_closures :: "memory_entry \<Rightarrow> string list" where
  "entry_closures (CandidateEntry c) = []"
| "entry_closures (FactEntry f) = [pv_decision_closure_digest (tf_provenance f)]"
| "entry_closures (LifecycleEntry t) = (case lt_decision_closure_digest (lf_core t) of None \<Rightarrow> [] | Some d \<Rightarrow> [d])"
| "entry_closures (ConflictEntry c) = cg_decision_closure_digests (cr_group c)"
| "entry_closures (SupersessionEntry s) = [su_decision_closure_digest (sp_core s)]"
| "entry_closures (RevocationEntry r) = [rv_decision_closure_digest (rr_core r)]"

fun is_candidate :: "memory_entry \<Rightarrow> bool" where
  "is_candidate (CandidateEntry c) = True"
| "is_candidate e = False"

definition append_guards :: "lineage \<Rightarrow> memory_entry \<Rightarrow> string \<Rightarrow> string option \<Rightarrow> (bool \<times> api_error) list" where
  "append_guards k e key expected = (case k of (tenant, project, lid) \<Rightarrow>
     [(sc_tenant_id (entry_scope e) \<noteq> tenant \<or> sc_project_id (entry_scope e) \<noteq> project \<or> \<not> entry_in_lineage e lid,
       ValueError ''trusted-memory append scope does not match record scope''),
      (key = [], ValueError ''trusted-memory idempotency_key must not be empty''),
      (is_candidate e \<and> expected \<noteq> None, ConflictError ''trusted_memory_candidate_promotion'')])"

subsection \<open>The compare-and-swap on the current projection\<close>

fun projection_matches :: "lineage \<Rightarrow> memory_entry \<Rightarrow> current_row \<Rightarrow> bool" where
  "projection_matches k (LifecycleEntry t) c = (lt_fact_digest (lf_core t) = cu_fact_digest c
     \<and> lt_from_revision (lf_core t) = cu_revision c \<and> lt_from_state (lf_core t) = cu_state c)"
| "projection_matches k (ConflictEntry g) c = list_ex (\<lambda>m. cm_lineage_id m = snd (snd k)
     \<and> cm_revision_id m = cu_revision_id c \<and> cm_revision m = cu_revision c \<and> cm_fact_digest m = cu_fact_digest c)
     (cg_members (cr_group g))"
| "projection_matches k (SupersessionEntry s) c = (su_superseded_revision_id (sp_core s) = cu_revision_id c
     \<and> su_superseded_revision (sp_core s) = cu_revision c)"
| "projection_matches k (RevocationEntry r) c = (rv_revision_id (rr_core r) = cu_revision_id c
     \<and> rv_revision (rr_core r) = cu_revision c \<and> rv_expected_revision (rr_core r) = cu_revision c
     \<and> rv_fact_digest (rr_core r) = cu_fact_digest c)"
| "projection_matches k _ c = True"

definition check_projection :: "lineage \<Rightarrow> memory_entry \<Rightarrow> string option \<Rightarrow> current_row option \<Rightarrow> unit memory_op" where
  "check_projection k e expected cur =
     (let conflict = ConflictError ''trusted_memory_projection_conflict'' in case e of
        FactEntry f \<Rightarrow> (case cur of
           None \<Rightarrow> raise_if (expected \<noteq> None \<or> tf_revision f \<noteq> 1) conflict
         | Some c \<Rightarrow> raise_if (expected \<noteq> Some (cu_projection_event_hash c) \<or> tf_revision f \<noteq> cu_revision c + 1) conflict)
      | CandidateEntry _ \<Rightarrow> returnE ()
      | _ \<Rightarrow> (case cur of
           None \<Rightarrow> raiseE conflict
         | Some c \<Rightarrow> thenE (raise_if (expected \<noteq> Some (cu_projection_event_hash c)) conflict)
             (raise_if (\<not> projection_matches k e c) conflict)))"

subsection \<open>The writes of an append\<close>

text \<open>\<open>CHECK\<close>, \<open>UNIQUE\<close> and primary-key constraints of the history.\<close>

definition history_row_ok :: "memory_tables \<Rightarrow> history_row \<Rightarrow> bool" where
  "history_row_ok M h \<longleftrightarrow> 0 < me_sequence h \<and> length (me_record_sha256 h) = 64 \<and> length (me_previous_hash h) = 64
     \<and> length (me_event_hash h) = 64 \<and> me_event_hash h \<notin> me_event_hash ` set (history M)
     \<and> list_all (\<lambda>g. me_lineage g = me_lineage h \<longrightarrow>
          me_sequence g \<noteq> me_sequence h \<and> me_idempotency_key g \<noteq> me_idempotency_key h) (history M)"

definition insert_history :: "history_row \<Rightarrow> unit memory_op" where
  "insert_history h = bindE (select (\<lambda>M. history_row_ok M h)) (\<lambda>ok.
     if ok then execute (\<lambda>M. M\<lparr>history := history M @ [h]\<rparr>) else raiseE (IntegrityError ''trusted_memory_history''))"

definition upsert_stream :: "lineage \<Rightarrow> int \<Rightarrow> string \<Rightarrow> unit memory_op" where
  "upsert_stream k seq tip = thenE (raise_if (seq < 0 \<or> length tip \<noteq> 64) (IntegrityError ''trusted_memory_streams''))
     (execute (\<lambda>M. M\<lparr>streams := dict_set k (seq, tip) (streams M)\<rparr>))"

definition insert_closure_link :: "lineage \<Rightarrow> string \<Rightarrow> string \<Rightarrow> unit memory_op" where
  "insert_closure_link k event_hash digest =
     bindE (select (\<lambda>M. length digest = 64 \<and> (k, event_hash, digest) \<notin> set (closure_links M))) (\<lambda>ok.
       if ok then execute (\<lambda>M. M\<lparr>closure_links := closure_links M @ [(k, event_hash, digest)]\<rparr>)
       else raiseE (IntegrityError ''trusted_memory_closures''))"

text \<open>The guard triggers: the event is in the history and is the head of its stream.\<close>

definition is_latest_event :: "memory_tables \<Rightarrow> lineage \<Rightarrow> string \<Rightarrow> bool" where
  "is_latest_event M k event_hash \<longleftrightarrow> list_ex (\<lambda>h. me_lineage h = k \<and> me_event_hash h = event_hash
     \<and> dict_get (streams M) k = Some (me_sequence h, event_hash)) (history M)"

definition current_row_ok :: "current_row \<Rightarrow> bool" where
  "current_row_ok c \<longleftrightarrow> 0 < cu_revision c \<and> length (cu_fact_digest c) = 64 \<and> length (cu_fact_event_hash c) = 64
     \<and> length (cu_projection_event_hash c) = 64"

definition insert_current :: "lineage \<Rightarrow> current_row \<Rightarrow> unit memory_op" where
  "insert_current k c =
     bindE (select (\<lambda>M. current_row_ok c \<and> dict_get (current M) k = None \<and> is_latest_event M k (cu_projection_event_hash c)))
       (\<lambda>ok. if ok then execute (\<lambda>M. M\<lparr>current := current M @ [(k, c)]\<rparr>)
         else raiseE (IntegrityError ''trusted_memory_current''))"

text \<open>\<open>UPDATE ... WHERE ... AND projection_event_hash=?\<close>, with the conflict when no row was updated.\<close>

definition update_current :: "lineage \<Rightarrow> string option \<Rightarrow> (current_row \<Rightarrow> current_row) \<Rightarrow> unit memory_op" where
  "update_current k expected change = bindE (select (\<lambda>M. (dict_get (current M) k, M))) (\<lambda>(row, M). case row of
       None \<Rightarrow> raiseE (ConflictError ''trusted_memory_projection_conflict'')
     | Some c \<Rightarrow>
        if expected \<noteq> Some (cu_projection_event_hash c) then raiseE (ConflictError ''trusted_memory_projection_conflict'')
        else if cu_projection_event_hash (change c) = cu_projection_event_hash c \<or> \<not> current_row_ok (change c)
          \<or> \<not> is_latest_event M k (cu_projection_event_hash (change c))
        then raiseE (IntegrityError ''trusted_memory_current'')
        else execute (\<lambda>M. M\<lparr>current := dict_set k (change c) (current M)\<rparr>))"

definition fact_row :: "trusted_fact \<Rightarrow> string \<Rightarrow> string \<Rightarrow> current_row" where
  "fact_row f bytes event_hash = \<lparr>cu_revision_id = tf_revision_id f, cu_revision = tf_revision f,
     cu_fact_digest = tf_trusted_fact_digest f, cu_state = tf_state f, cu_eligible = True, cu_fact_bytes = bytes,
     cu_fact_event_hash = event_hash, cu_projection_event_hash = event_hash\<rparr>"

fun projected_state :: "memory_entry \<Rightarrow> memory_state" where
  "projected_state (LifecycleEntry t) = lt_to_state (lf_core t)"
| "projected_state (ConflictEntry c) = Conflicted"
| "projected_state (SupersessionEntry s) = Superseded"
| "projected_state _ = Revoked"

definition move_row :: "memory_state \<Rightarrow> string \<Rightarrow> current_row \<Rightarrow> current_row" where
  "move_row st event_hash c = c\<lparr>cu_state := st, cu_eligible := (st = Validated), cu_projection_event_hash := event_hash\<rparr>"

definition write_current :: "lineage \<Rightarrow> memory_entry \<Rightarrow> string \<Rightarrow> string \<Rightarrow> string option \<Rightarrow> current_row option \<Rightarrow> unit memory_op" where
  "write_current k e bytes event_hash expected cur = (case e of
       FactEntry f \<Rightarrow> (case cur of
          None \<Rightarrow> insert_current k (fact_row f bytes event_hash)
        | Some _ \<Rightarrow> update_current k expected (\<lambda>_. fact_row f bytes event_hash))
     | CandidateEntry _ \<Rightarrow> returnE ()
     | _ \<Rightarrow> update_current k expected (move_row (projected_state e) event_hash))"

definition outbox_payload :: "lineage \<Rightarrow> memory_event \<Rightarrow> json" where
  "outbox_payload k v = (case k of (tenant, project, lid) \<Rightarrow> JObj
     [(''event_hash'', JStr (me_event_hash v)), (''event_type'', JStr (me_event_type v)), (''lineage_id'', JStr lid),
      (''project_id'', JStr project), (''record_sha256'', JStr (me_record_sha256 v)), (''sequence'', JInt (me_sequence v)),
      (''stream_root'', JStr (me_event_hash v)), (''tenant_id'', JStr tenant)])"

definition insert_outbox :: "outbox_row \<Rightarrow> unit memory_op" where
  "insert_outbox r = bindE (select (\<lambda>M. ob_event_hash r \<notin> ob_event_hash ` set (outbox M) \<and> 0 < ob_sequence r)) (\<lambda>ok.
     if ok then execute (\<lambda>M. M\<lparr>outbox := outbox M @ [r]\<rparr>) else raiseE (IntegrityError ''trusted_memory_outbox''))"

subsection \<open>Appending\<close>

definition make_memory_event :: "crypto \<Rightarrow> lineage \<Rightarrow> int \<Rightarrow> string \<Rightarrow> memory_entry \<Rightarrow> memory_event" where
  "make_memory_event C k seq previous e =
     (let bytes = canonical_bytes C (entry_json e); record_sha256 = sha256 C bytes in
      \<lparr>me_lineage = k, me_sequence = seq, me_event_type = entry_type e, me_record_bytes = bytes,
       me_record_sha256 = record_sha256, me_previous_hash = previous,
       me_event_hash = memory_event_hash C k seq (entry_type e) record_sha256 previous\<rparr>)"

definition next_event :: "crypto \<Rightarrow> memory_tables \<Rightarrow> lineage \<Rightarrow> memory_entry \<Rightarrow> memory_event" where
  "next_event C M k e = (case dict_get (streams M) k of
       None \<Rightarrow> make_memory_event C k 1 zero_digest e
     | Some (n, tip) \<Rightarrow> make_memory_event C k (n + 1) tip e)"

definition write_event ::
  "lineage \<Rightarrow> memory_entry \<Rightarrow> string \<Rightarrow> string option \<Rightarrow> current_row option \<Rightarrow> memory_event \<Rightarrow> memory_event memory_op" where
  "write_event k e key expected cur v =
     thenE (insert_history (memory_event.extend v \<lparr>me_idempotency_key = key\<rparr>))
    (thenE (upsert_stream k (me_sequence v) (me_event_hash v))
    (thenE (forE (entry_closures e) (insert_closure_link k (me_event_hash v)))
    (thenE (write_current k e (me_record_bytes v) (me_event_hash v) expected cur)
    (thenE (insert_outbox \<lparr>ob_event_hash = me_event_hash v, ob_lineage = k, ob_sequence = me_sequence v,
              ob_payload = outbox_payload k v\<rparr>)
       (returnE v)))))"

definition append_memory_event :: "crypto \<Rightarrow> lineage \<Rightarrow> memory_entry \<Rightarrow> string \<Rightarrow> string option \<Rightarrow> memory_event memory_op" where
  "append_memory_event C k e key expected =
     bindE (select (\<lambda>M. List.find (\<lambda>h. me_idempotency_key h = key) (stream_rows M k))) (\<lambda>existing. case existing of
       Some h \<Rightarrow>
         if me_record_bytes h \<noteq> canonical_bytes C (entry_json e)
         then raiseE (ConflictError ''trusted_memory_idempotency_conflict'')
         else returnE (memory_event.truncate h)
     | None \<Rightarrow>
        bindE (select (\<lambda>M. dict_get (current M) k)) (\<lambda>cur.
        thenE (check_projection k e expected cur)
        (bindE (select (\<lambda>M. next_event C M k e)) (\<lambda>v. write_event k e key expected cur v))))"

definition append_memory_record ::
  "crypto \<Rightarrow> lineage \<Rightarrow> memory_entry \<Rightarrow> string \<Rightarrow> string option \<Rightarrow> memory_event memory_op" where
  "append_memory_record C k e key expected =
     thenE (liftE (checked (append_guards k e key expected) ()))
       (memory_transaction (append_memory_event C k e key expected))"

subsection \<open>Reading\<close>

definition get_memory_event :: "lineage \<Rightarrow> string \<Rightarrow> memory_event memory_op" where
  "get_memory_event k event_hash =
     bindE (select (\<lambda>M. List.find (\<lambda>h. me_event_hash h = event_hash) (stream_rows M k))) (\<lambda>row. case row of
        None \<Rightarrow> raiseE (NotFoundError ''trusted_memory_event'' event_hash)
      | Some h \<Rightarrow> returnE (memory_event.truncate h))"

definition list_memory_history :: "lineage \<Rightarrow> int \<Rightarrow> nat \<Rightarrow> memory_tables \<Rightarrow> memory_event list" where
  "list_memory_history k after limit M = map memory_event.truncate
     (take limit (sort_key me_sequence (filter (\<lambda>h. after < me_sequence h) (stream_rows M k))))"

definition get_current_fact :: "lineage \<Rightarrow> memory_tables \<Rightarrow> current_row option" where
  "get_current_fact k M = (case dict_get (current M) k of None \<Rightarrow> None
     | Some c \<Rightarrow> if cu_eligible c then Some c else None)"

definition get_stream_root :: "lineage \<Rightarrow> memory_tables \<Rightarrow> string" where
  "get_stream_root k M = (case dict_get (streams M) k of None \<Rightarrow> zero_digest | Some (n, tip) \<Rightarrow> tip)"

definition list_legacy_views ::
  "api_env \<Rightarrow> string \<Rightarrow> string \<Rightarrow> string \<Rightarrow> string \<Rightarrow> string \<Rightarrow> legacy_view list memory_op" where
  "list_legacy_views E task gen tenant project ver = bindE (store_op (list_memories E task gen)) (\<lambda>ms.
     case those (map (\<lambda>m. case legacy_view_of tenant project ver m of Inl _ \<Rightarrow> None | Inr v \<Rightarrow> Some v) ms) of
       None \<Rightarrow> raiseE (ValueError ''LegacyMemoryView'')
     | Some vs \<Rightarrow> returnE vs)"

subsection \<open>Verifying a stream\<close>

text \<open>One batch: the sequence and hash after it, or \<open>None\<close> where the source returns \<open>False\<close>.\<close>

fun verify_batch :: "crypto \<Rightarrow> lineage \<Rightarrow> memory_event list \<Rightarrow> int \<times> string \<Rightarrow> (int \<times> string) option" where
  "verify_batch C k [] (seen, previous) = Some (seen, previous)"
| "verify_batch C k (v # vs) (seen, previous) =
     (if me_sequence v \<noteq> seen + 1 \<or> sha256 C (me_record_bytes v) \<noteq> me_record_sha256 v
        \<or> me_previous_hash v \<noteq> previous
        \<or> me_event_hash v \<noteq> memory_event_hash C k (me_sequence v) (me_event_type v) (me_record_sha256 v) previous
      then None else verify_batch C k vs (me_sequence v, me_event_hash v))"

text \<open>
  \<open>while True\<close>: batches of at most 1000 events until one is empty. A batch that verifies raises the last
  sequence, so fewer rows are left.
\<close>

definition rows_after :: "memory_tables \<Rightarrow> lineage \<Rightarrow> int \<Rightarrow> nat" where
  "rows_after M k n = length (filter (\<lambda>h. n < me_sequence h) (stream_rows M k))"

lemma verify_batch_last: "verify_batch C k vs p = Some q \<Longrightarrow> vs \<noteq> [] \<Longrightarrow> fst q = me_sequence (last vs)"
  by (induction C k vs p arbitrary: q rule: verify_batch.induct) (auto split: if_splits)

lemma verify_batch_mono: "verify_batch C k vs p = Some q \<Longrightarrow> fst q = fst p + int (length vs)"
  by (induction C k vs p arbitrary: q rule: verify_batch.induct) (auto split: if_splits)

lemma list_memory_history_rows:
  "v \<in> set (list_memory_history k n l M) \<Longrightarrow> \<exists>h \<in> set (stream_rows M k). n < me_sequence h \<and> v = memory_event.truncate h"
  by (auto simp: list_memory_history_def dest!: in_set_takeD)

function verify_batches :: "crypto \<Rightarrow> lineage \<Rightarrow> memory_tables \<Rightarrow> int \<times> string \<Rightarrow> (int \<times> string) option" where
  "verify_batches C k M p =
     (let vs = list_memory_history k (fst p) 1000 M in
      if vs = [] then Some p
      else (case verify_batch C k vs p of None \<Rightarrow> None | Some q \<Rightarrow> verify_batches C k M q))"
  by pat_completeness auto

termination
proof (relation "measure (\<lambda>(C, k, M, p). rows_after M k (fst p))")
  fix C k M p vs q
  assume vs: "vs = list_memory_history k (fst p) 1000 M" "vs \<noteq> []" and q: "verify_batch C k vs p = Some q"
  from verify_batch_last [OF q vs(2)] vs obtain h where h: "h \<in> set (stream_rows M k)" "fst p < me_sequence h" "fst q = me_sequence h"
    using list_memory_history_rows [of "last vs" k "fst p" 1000 M] by (auto simp: memory_event.truncate_def)
  have less: "fst p < fst q" using h by simp
  have "length (filter (\<lambda>h. fst q < me_sequence h) (stream_rows M k)) < length (filter (\<lambda>h. fst p < me_sequence h) (stream_rows M k))"
  proof -
    have "filter (\<lambda>h. fst q < me_sequence h) (filter (\<lambda>h. fst p < me_sequence h) (stream_rows M k)) =
        filter (\<lambda>h. fst q < me_sequence h) (stream_rows M k)"
      using less by (auto simp: filter_filter intro!: filter_cong)
    moreover have "length (filter (\<lambda>h. fst q < me_sequence h) (filter (\<lambda>h. fst p < me_sequence h) (stream_rows M k)))
        < length (filter (\<lambda>h. fst p < me_sequence h) (stream_rows M k))"
      by (rule length_filter_less [of h]) (use h in auto)
    ultimately show ?thesis by simp
  qed
  then show "((C, k, M, q), (C, k, M, p)) \<in> measure (\<lambda>(C, k, M, p). rows_after M k (fst p))"
    by (simp add: rows_after_def)
qed simp

declare verify_batches.simps [simp del]

definition verify_memory_stream :: "crypto \<Rightarrow> lineage \<Rightarrow> memory_tables \<Rightarrow> bool" where
  "verify_memory_stream C k M = (case verify_batches C k M (0, zero_digest) of
       None \<Rightarrow> False
     | Some (n, tip) \<Rightarrow> (case dict_get (streams M) k of
          None \<Rightarrow> n = 0 \<and> tip = zero_digest
        | Some (m, r) \<Rightarrow> m = n \<and> r = tip))"

end
