(* ===== verification/MemoryInv.thy ===== *)
theory MemoryInv
  imports MemoryStore Interfaces
begin

text \<open>
  The abstract history of one lineage as a state machine, and the invariant that the tables of the store
  implement it: the rows of the lineage are the events of the machine, the current projection is its state.
\<close>

subsection \<open>The abstract stream\<close>

text \<open>What an entry does to the projection of its lineage.\<close>

fun project :: "memory_event \<Rightarrow> memory_entry \<Rightarrow> current_row option \<Rightarrow> current_row option" where
  "project v (FactEntry f) c = Some (fact_row f (me_record_bytes v) (me_event_hash v))"
| "project v (CandidateEntry x) c = c"
| "project v e c = map_option (move_row (projected_state e) (me_event_hash v)) c"

text \<open>When an entry may follow: revisions count up, and everything else names the current fact.\<close>

fun legal :: "lineage \<Rightarrow> memory_entry \<Rightarrow> current_row option \<Rightarrow> bool" where
  "legal k (FactEntry f) c = (tf_revision f = (case c of None \<Rightarrow> 1 | Some r \<Rightarrow> cu_revision r + 1))"
| "legal k (CandidateEntry x) c = True"
| "legal k e c = (\<exists>r. c = Some r \<and> projection_matches k e r)"

definition belongs :: "lineage \<Rightarrow> memory_entry \<Rightarrow> bool" where
  "belongs k e \<longleftrightarrow> sc_tenant_id (entry_scope e) = fst k \<and> sc_project_id (entry_scope e) = fst (snd k)
     \<and> entry_in_lineage e (snd (snd k))"

definition tip_of :: "(memory_event \<times> memory_entry) list \<Rightarrow> string" where
  "tip_of lg = (if lg = [] then zero_digest else me_event_hash (fst (last lg)))"

inductive stream_log :: "crypto \<Rightarrow> lineage \<Rightarrow> (memory_event \<times> memory_entry) list \<Rightarrow> current_row option \<Rightarrow> bool"
  for C :: crypto and k :: lineage where
  Empty: "stream_log C k [] None"
| Append: "stream_log C k lg c \<Longrightarrow> memory_entry_ok C e \<Longrightarrow> belongs k e \<Longrightarrow> legal k e c \<Longrightarrow>
    v = make_memory_event C k (int (length lg) + 1) (tip_of lg) e \<Longrightarrow> stream_log C k (lg @ [(v, e)]) (project v e c)"

subsection \<open>What holds of every stream\<close>

definition memory_event_digest :: "crypto \<Rightarrow> memory_event \<Rightarrow> string" where
  "memory_event_digest C v = memory_event_hash C (me_lineage v) (me_sequence v) (me_event_type v) (me_record_sha256 v)
     (me_previous_hash v)"

definition event_body :: "memory_event \<Rightarrow> memory_event" where
  "event_body v = v\<lparr>me_event_hash := []\<rparr>"

interpretation memory_chain: numbered_hash_chain me_previous_hash me_event_hash event_body "memory_event_digest C" me_sequence for C
proof unfold_locales
  fix u v :: memory_event
  show "u = v" if "event_body u = event_body v" "me_event_hash u = me_event_hash v"
    using that by (cases u; cases v) (simp add: event_body_def)
  show "me_sequence u = me_sequence v" if "event_body u = event_body v"
    using that by (cases u; cases v) (simp add: event_body_def)
qed

lemma made_event_fields [simp]:
  "me_lineage (make_memory_event C k n p e) = k" "me_sequence (make_memory_event C k n p e) = n"
  "me_event_type (make_memory_event C k n p e) = entry_type e" "me_previous_hash (make_memory_event C k n p e) = p"
  "me_record_bytes (make_memory_event C k n p e) = canonical_bytes C (entry_json e)"
  "me_record_sha256 (make_memory_event C k n p e) = sha256 C (canonical_bytes C (entry_json e))"
  by (simp_all add: make_memory_event_def Let_def)

lemma made_event_hash:
  "me_event_hash (make_memory_event C k n p e) = memory_event_digest C (event_body (make_memory_event C k n p e))"
  by (simp add: make_memory_event_def memory_event_digest_def event_body_def Let_def)

lemma stream_log_events:
  assumes "stream_log C k lg c"
  shows "memory_chain.chain C zero_digest (map fst lg)" "memory_chain.numbered (map fst lg)"
    "\<forall>(v, e) \<in> set lg. memory_entry_ok C e \<and> belongs k e \<and> me_lineage v = k \<and> me_event_type v = entry_type e
       \<and> me_record_bytes v = canonical_bytes C (entry_json e) \<and> me_record_sha256 v = sha256 C (me_record_bytes v)"
  using assms
proof (induction rule: stream_log.induct)
  case Empty
  case 1 show ?case by simp
  case 2 show ?case by (simp add: memory_chain.numbered_def)
  case 3 show ?case by simp
next
  case (Append lg c e v)
  have tip: "memory_chain.head zero_digest (map fst lg) = tip_of lg"
    by (simp add: memory_chain.head_def tip_of_def last_map)
  case 1 show ?case using Append by (simp add: memory_chain.chain_snoc tip made_event_hash)
  case 2 show ?case using Append by (simp add: memory_chain.numbered_def nth_append)
  case 3 show ?case using Append by auto
qed

text \<open>The state of the projection is never \<open>CANDIDATE\<close>, so no lifecycle transition can validate.\<close>

lemma transition_target: "(a, b) \<in> set lifecycle_edges \<Longrightarrow> a \<noteq> Candidate \<Longrightarrow> b \<noteq> Candidate \<and> b \<noteq> Validated"
  by (auto simp: lifecycle_edges_def)

definition facts_in :: "(memory_event \<times> memory_entry) list \<Rightarrow> trusted_fact list" where
  "facts_in lg = concat (map (\<lambda>(v, e). case e of FactEntry f \<Rightarrow> [f] | _ \<Rightarrow> []) lg)"

lemma facts_in_simps [simp]:
  "facts_in [] = []" "facts_in (lg @ [(v, FactEntry f)]) = facts_in lg @ [f]"
  "facts_in (lg @ [(v, CandidateEntry x)]) = facts_in lg" "facts_in (lg @ [(v, LifecycleEntry t)]) = facts_in lg"
  "facts_in (lg @ [(v, ConflictEntry g)]) = facts_in lg" "facts_in (lg @ [(v, SupersessionEntry s)]) = facts_in lg"
  "facts_in (lg @ [(v, RevocationEntry r)]) = facts_in lg"
  by (simp_all add: facts_in_def)

definition settled_by :: "(memory_event \<times> memory_entry) list \<Rightarrow> memory_event \<Rightarrow> trusted_fact \<Rightarrow> bool" where
  "settled_by lg v f \<longleftrightarrow> (\<exists>us ws. lg = us @ (v, FactEntry f) # ws \<and> list_all (is_candidate \<circ> snd) ws)"

lemma settled_snoc:
  "settled_by lg v f \<Longrightarrow> settled_by (lg @ [(u, CandidateEntry x)]) v f"
  "settled_by (lg @ [(v, FactEntry f)]) v f"
proof -
  assume "settled_by lg v f"
  then obtain us ws where "lg = us @ (v, FactEntry f) # ws" "list_all (is_candidate \<circ> snd) ws" by (auto simp: settled_by_def)
  then show "settled_by (lg @ [(u, CandidateEntry x)]) v f"
    unfolding settled_by_def by (intro exI [of _ us] exI [of _ "ws @ [(u, CandidateEntry x)]"]) simp
next
  show "settled_by (lg @ [(v, FactEntry f)]) v f"
    unfolding settled_by_def by (intro exI [of _ lg] exI [of _ "[]"]) simp
qed

text \<open>The revisions count from one.\<close>

definition counting :: "trusted_fact list \<Rightarrow> bool" where
  "counting fs \<longleftrightarrow> map tf_revision fs = map int [1..<length fs + 1]"

lemma counting_simps [simp]:
  "counting []" "counting (fs @ [f]) \<longleftrightarrow> counting fs \<and> tf_revision f = int (length fs) + 1"
  by (auto simp: counting_def)

text \<open>
  The projection of a stream: no fact, no row; otherwise it shows the last fact, its revision is the number
  of facts, and it is eligible exactly while only candidates have followed that fact.
\<close>

definition projection_spec :: "crypto \<Rightarrow> (memory_event \<times> memory_entry) list \<Rightarrow> current_row \<Rightarrow> bool" where
  "projection_spec C lg c \<longleftrightarrow> cu_state c \<noteq> Candidate \<and> cu_revision c = int (length (facts_in lg))
     \<and> counting (facts_in lg)
     \<and> facts_in lg \<noteq> [] \<and> cu_revision_id c = tf_revision_id (last (facts_in lg))
     \<and> cu_fact_digest c = tf_trusted_fact_digest (last (facts_in lg))
     \<and> cu_fact_bytes c = canonical_bytes C (trusted_fact_json (last (facts_in lg)))
     \<and> (cu_eligible c \<longleftrightarrow> cu_state c = Validated)
     \<and> (cu_eligible c \<longrightarrow> (\<exists>v. settled_by lg v (last (facts_in lg)) \<and> cu_fact_event_hash c = me_event_hash v
          \<and> cu_projection_event_hash c = me_event_hash v))
     \<and> (\<exists>v e. (v, e) \<in> set lg \<and> cu_projection_event_hash c = me_event_hash v)"

lemma move_row_fields [simp]:
  "cu_revision_id (move_row st h c) = cu_revision_id c" "cu_revision (move_row st h c) = cu_revision c"
  "cu_fact_digest (move_row st h c) = cu_fact_digest c" "cu_state (move_row st h c) = st"
  "cu_eligible (move_row st h c) \<longleftrightarrow> st = Validated" "cu_fact_bytes (move_row st h c) = cu_fact_bytes c"
  "cu_fact_event_hash (move_row st h c) = cu_fact_event_hash c" "cu_projection_event_hash (move_row st h c) = h"
  by (simp_all add: move_row_def)

lemma move_spec:
  assumes "projection_spec C lg c" "st \<noteq> Candidate" "st \<noteq> Validated" "facts_in (lg @ [(v, e)]) = facts_in lg"
  shows "projection_spec C (lg @ [(v, e)]) (move_row st (me_event_hash v) c)"
  using assms by (auto simp: projection_spec_def)

lemma stream_log_projection:
  assumes "stream_log C k lg c"
  shows "case c of None \<Rightarrow> facts_in lg = [] | Some r \<Rightarrow> projection_spec C lg r"
  using assms
proof (induction rule: stream_log.induct)
  case (Append lg c e v)
  show ?case
  proof (cases e)
    case (CandidateEntry x)
    with Append.IH show ?thesis
      by (auto simp: projection_spec_def dest: settled_snoc(1) split: option.splits)
  next
    case (FactEntry f)
    have rev: "tf_revision f = int (length (facts_in lg)) + 1" "counting (facts_in lg)"
      using Append.IH Append.hyps(4) FactEntry by (auto simp: projection_spec_def split: option.splits)
    have "tf_state f = Validated" using Append.hyps(2) FactEntry by (simp add: trusted_fact_ok_def)
    with rev show ?thesis
      using FactEntry Append.hyps(5) settled_snoc(2) by (auto simp: projection_spec_def fact_row_def)
  next
    case (LifecycleEntry t)
    with Append.hyps(4) obtain r where r: "c = Some r" "lt_from_state (lf_core t) = cu_state r" by auto
    then have spec: "projection_spec C lg r" using Append.IH by simp
    have "(lt_from_state (lf_core t), lt_to_state (lf_core t)) \<in> set lifecycle_edges"
      using Append.hyps(2) LifecycleEntry by (simp add: lifecycle_ok_def transition_core_ok_def)
    then have "lt_to_state (lf_core t) \<noteq> Candidate" "lt_to_state (lf_core t) \<noteq> Validated"
      using transition_target spec r(2) by (auto simp: projection_spec_def)
    then show ?thesis using LifecycleEntry r(1) move_spec [OF spec] by simp
  next
    case (ConflictEntry g)
    with Append show ?thesis by (auto intro!: move_spec)
  next
    case (SupersessionEntry s)
    with Append show ?thesis by (auto intro!: move_spec)
  next
    case (RevocationEntry s)
    with Append show ?thesis by (auto intro!: move_spec)
  qed
qed simp

end
