(* ===== verification/MemoryAdmission.thy ===== *)
theory MemoryAdmission
  imports ModelFields
begin

text \<open>
  What text may enter trusted persistence: the scanner (\<open>substrate/scanner.py\<close>), the admission gate
  (\<open>substrate/admission.py\<close>) and the evaluator channel (\<open>substrate/evaluator_channel.py\<close>) of the
  secure-memory benchmark.

  The environment holds what comes from outside the source: the signature verifier (\<open>None\<close> where it raises),
  the Unicode tables (\<open>casefold\<close> and the control characters), the matches of the regular expressions
  of the scanner, the digest of its rules, and Pydantic's conversion of a value to an integer.
\<close>

record ingress_env = crypto +
  casefold :: "string \<Rightarrow> string"
  has_control :: "string \<Rightarrow> bool"
  credential_match :: "string \<Rightarrow> bool"
  authority_match :: "string \<Rightarrow> bool"
  scanner_digest :: string
  signature_valid :: "string \<Rightarrow> string \<Rightarrow> string \<Rightarrow> string \<Rightarrow> bool option"
  lax_int :: "json \<Rightarrow> int option"

datatype ingress_error =
    ChannelRejected string
  | IngressValueError string

subsection \<open>The scanner\<close>

definition authority_parts :: "string list" where
  "authority_parts = [''approval'', ''authority'', ''capability'', ''decision'', ''evaluator'', ''gate'', ''issuer'',
     ''key'', ''origin'', ''promotion'', ''signature'', ''trusted'', ''validated'']"

text \<open>The parts of a key: the runs of letters and digits of its case-folded form.\<close>

fun alnum_runs :: "string \<Rightarrow> string \<Rightarrow> string list" where
  "alnum_runs part [] = [part]"
| "alnum_runs part (c # s) =
     (if (97 \<le> byte c \<and> byte c \<le> 122) \<or> is_digit c then alnum_runs (part @ [c]) s else part # alnum_runs [] s)"

definition authority_key :: "ingress_env \<Rightarrow> string \<Rightarrow> bool" where
  "authority_key E k \<longleftrightarrow> list_ex (\<lambda>p. p \<in> set authority_parts) (alnum_runs [] (casefold E k))"

text \<open>
  \<open>_has_authority_key\<close>: keys are searched in dictionaries, in their values and in dictionaries that are direct
  items of a list value.
\<close>

fun has_authority_key :: "ingress_env \<Rightarrow> json \<Rightarrow> bool"
  and members_authority :: "ingress_env \<Rightarrow> (string \<times> json) list \<Rightarrow> bool"
  and items_authority :: "ingress_env \<Rightarrow> json list \<Rightarrow> bool"
where
  "has_authority_key E (JObj kvs) = members_authority E kvs"
| "has_authority_key E j = False"
| "members_authority E [] = False"
| "members_authority E ((k, v) # kvs) \<longleftrightarrow> authority_key E k \<or> has_authority_key E v
     \<or> (case v of JList xs \<Rightarrow> items_authority E xs | _ \<Rightarrow> False) \<or> members_authority E kvs"
| "items_authority E [] = False"
| "items_authority E (x # xs) \<longleftrightarrow> has_authority_key E x \<or> items_authority E xs"

fun texts_of :: "json \<Rightarrow> string list"
  and member_texts :: "(string \<times> json) list \<Rightarrow> string list"
  and item_texts :: "json list \<Rightarrow> string list"
where
  "texts_of (JStr s) = [s]"
| "texts_of (JObj kvs) = member_texts kvs"
| "texts_of (JList xs) = item_texts xs"
| "texts_of j = []"
| "member_texts [] = []"
| "member_texts ((k, v) # kvs) = k # texts_of v @ member_texts kvs"
| "item_texts [] = []"
| "item_texts (x # xs) = texts_of x @ item_texts xs"

definition text_reasons :: "ingress_env \<Rightarrow> string \<Rightarrow> string list" where
  "text_reasons E s =
     (if char_of (0 :: nat) \<in> set s then [''NUL_BYTE''] else if has_control E s then [''CONTROL_CHARACTER''] else [])
     @ (if credential_match E s then [''CREDENTIAL_PATTERN''] else [])
     @ (if authority_match E s then [''PROMPT_AUTHORITY_CLAIM''] else [])"

definition text_shape :: "json \<Rightarrow> bool" where
  "text_shape j \<longleftrightarrow> (case j of
       JObj kvs \<Rightarrow> set (keys kvs) = {''schema_version'', ''text''}
         \<and> dict_get kvs ''schema_version'' = Some (JStr ''secure-memory-ingress-text/v1'')
         \<and> (case dict_get kvs ''text'' of Some (JStr s) \<Rightarrow> s \<noteq> [] | _ \<Rightarrow> False)
     | _ \<Rightarrow> False)"

definition set_sorted :: "string list \<Rightarrow> string list" where
  "set_sorted xs = sort (remdups xs)"

text \<open>The reason codes of \<open>ContentScanner.scan\<close>; no reason means admitted.\<close>

definition scan :: "ingress_env \<Rightarrow> string \<Rightarrow> string list" where
  "scan E raw = set_sorted
     (if raw = [] \<or> length raw > 65536 then [''SIZE_INVALID'']
      else (if char_of (0 :: nat) \<in> set raw then [''NUL_BYTE''] else []) @
        (if \<not> utf8_valid raw then [''UTF8_INVALID'']
         else (case parse_json_bytes (crypto.truncate E) raw of
            None \<Rightarrow> [''JSON_SHAPE_INVALID'']
          | Some j \<Rightarrow> (if canonical_bytes (crypto.truncate E) j \<noteq> raw then [''NON_CANONICAL_JSON''] else [])
              @ (if text_shape j then [] else [''JSON_SHAPE_INVALID''])
              @ (if has_authority_key E j then [''AUTHORITY_FIELD''] else [])
              @ concat (map (text_reasons E) (texts_of j)))))"

subsection \<open>The admission gate\<close>

datatype declared_origin = From_MODEL | From_MATRIX | From_WORKSPACE | From_EVALUATOR | From_MEMORY | From_BUNDLE

fun declared_value :: "declared_origin \<Rightarrow> string" where
  "declared_value From_MODEL = ''MODEL''" | "declared_value From_MATRIX = ''MATRIX''"
| "declared_value From_WORKSPACE = ''WORKSPACE''" | "declared_value From_EVALUATOR = ''EVALUATOR''"
| "declared_value From_MEMORY = ''MEMORY''" | "declared_value From_BUNDLE = ''BUNDLE''"

datatype ingress_channel = MODEL_OUTPUT | MATRIX_MESSAGE | WORKSPACE_OUTPUT | EVALUATOR_OUTPUT | MEMORY_TEXT | BUNDLE_TEXT

fun ingress_value :: "ingress_channel \<Rightarrow> string" where
  "ingress_value MODEL_OUTPUT = ''MODEL_OUTPUT''" | "ingress_value MATRIX_MESSAGE = ''MATRIX_MESSAGE''"
| "ingress_value WORKSPACE_OUTPUT = ''WORKSPACE_OUTPUT''" | "ingress_value EVALUATOR_OUTPUT = ''EVALUATOR_OUTPUT''"
| "ingress_value MEMORY_TEXT = ''MEMORY_TEXT''" | "ingress_value BUNDLE_TEXT = ''BUNDLE_TEXT''"

fun expected_channel :: "declared_origin \<Rightarrow> ingress_channel" where
  "expected_channel From_MODEL = MODEL_OUTPUT" | "expected_channel From_MATRIX = MATRIX_MESSAGE"
| "expected_channel From_WORKSPACE = WORKSPACE_OUTPUT" | "expected_channel From_EVALUATOR = EVALUATOR_OUTPUT"
| "expected_channel From_MEMORY = MEMORY_TEXT" | "expected_channel From_BUNDLE = BUNDLE_TEXT"

text \<open>
  A receipt. Its trust label has one value and \<open>promotion_authorized\<close> must be false: the validators admit
  nothing else, so the two are constants of the JSON. \<open>ad_admitted\<close> is the status.
\<close>

record admission_receipt =
  ad_admitted :: bool
  ad_origin :: declared_origin
  ad_channel :: ingress_channel
  ad_campaign_id :: string
  ad_task_id :: string
  ad_generation :: int
  ad_sequence :: int
  ad_content_sha256 :: "string option"
  ad_reason_codes :: "string list"
  ad_rule_version :: string
  ad_scanner_sha256 :: string
  ad_receipt_sha256 :: string

definition admission_members :: "admission_receipt \<Rightarrow> (string \<times> json) list" where
  "admission_members r = [(''schema_version'', JStr ''secure-memory-admission-receipt/v1''),
     (''status'', JStr (if ad_admitted r then ''ADMITTED'' else ''QUARANTINED'')),
     (''trust_label'', JStr ''ORIGIN_UNVERIFIED''), (''promotion_authorized'', JBool False),
     (''declared_origin'', JStr (declared_value (ad_origin r))), (''channel'', JStr (ingress_value (ad_channel r))),
     (''campaign_id'', JStr (ad_campaign_id r)), (''task_id'', JStr (ad_task_id r)),
     (''generation'', JInt (ad_generation r)), (''sequence'', JInt (ad_sequence r)),
     (''content_sha256'', opt_json JStr (ad_content_sha256 r)),
     (''reason_codes'', JList (map JStr (ad_reason_codes r))), (''rule_version'', JStr (ad_rule_version r)),
     (''scanner_sha256'', JStr (ad_scanner_sha256 r))]"

definition admission_json :: "admission_receipt \<Rightarrow> json" where
  "admission_json r = JObj (admission_members r @ [(''receipt_sha256'', JStr (ad_receipt_sha256 r))])"

definition admission_digest :: "crypto \<Rightarrow> admission_receipt \<Rightarrow> string" where
  "admission_digest C r = domain_digest C ''secure-memory-admission-receipt'' (JObj (admission_members r))"

definition admission_ok :: "crypto \<Rightarrow> admission_receipt \<Rightarrow> bool" where
  "admission_ok C r \<longleftrightarrow> text_ok 1 200 (ad_campaign_id r) \<and> text_ok 1 200 (ad_task_id r) \<and> 1 \<le> ad_generation r
     \<and> 1 \<le> ad_sequence r \<and> pred_option is_sha256_digest (ad_content_sha256 r)
     \<and> ad_reason_codes r = set_sorted (ad_reason_codes r) \<and> is_sha256_digest (ad_scanner_sha256 r)
     \<and> is_sha256_digest (ad_receipt_sha256 r) \<and> (ad_admitted r \<longleftrightarrow> ad_content_sha256 r \<noteq> None)
     \<and> ad_receipt_sha256 r = admission_digest C r \<and> float_free (admission_json r)"

definition bound_id :: "string \<Rightarrow> bool" where
  "bound_id s \<longleftrightarrow> spelled alnum (\<lambda>c. alnum c \<or> c \<in> set ''._:/-'') 1 200 s"

definition admit_text ::
  "ingress_env \<Rightarrow> string \<Rightarrow> declared_origin \<Rightarrow> ingress_channel \<Rightarrow> string \<Rightarrow> string \<Rightarrow> int \<Rightarrow> int \<Rightarrow> string \<Rightarrow> ingress_error + admission_receipt" where
  "admit_text E raw origin channel campaign task generation seq content_sha256 =
     bindR (checked
       [(\<not> bound_id campaign \<or> \<not> bound_id task, IngressValueError ''campaign_id and task_id must be bounded stable identifiers''),
        (generation < 1, IngressValueError ''generation must be positive''),
        (seq < 1, IngressValueError ''sequence must be positive''),
        (\<not> is_sha256_digest content_sha256, IngressValueError ''expected a lowercase 64-character SHA-256 digest'')] ())
     (\<lambda>_. let actual = sha256 E raw;
           codes = set_sorted (scan E raw @ (if actual \<noteq> content_sha256 then [''CONTENT_DIGEST_MISMATCH''] else [])
              @ (if expected_channel origin \<noteq> channel then [''ORIGIN_CHANNEL_MISMATCH''] else []));
           core = \<lparr>ad_admitted = (codes = []), ad_origin = origin, ad_channel = channel, ad_campaign_id = campaign,
              ad_task_id = task, ad_generation = generation, ad_sequence = seq,
              ad_content_sha256 = (if codes = [] then Some actual else None), ad_reason_codes = codes,
              ad_rule_version = ''secure-memory-ingress-scanner/1'', ad_scanner_sha256 = scanner_digest E,
              ad_receipt_sha256 = []\<rparr>;
           r = core\<lparr>ad_receipt_sha256 := admission_digest (crypto.truncate E) core\<rparr> in
        checked [(\<not> admission_ok (crypto.truncate E) r, IngressValueError ''AdmissionReceipt'')] r)"

subsection \<open>The evaluator channel\<close>

record evaluator_envelope =
  ee_issuer_id :: string
  ee_key_id :: string
  ee_campaign_id :: string
  ee_task_id :: string
  ee_generation :: int
  ee_sequence :: int
  ee_idempotency_key :: string
  ee_payload_sha256 :: string
  ee_payload :: "(string \<times> json) list"
  ee_signature :: string

definition evaluator_core_json :: "evaluator_envelope \<Rightarrow> json" where
  "evaluator_core_json e = JObj [(''schema_version'', JStr ''secure-memory-evaluator-envelope/v1''),
     (''issuer_id'', JStr (ee_issuer_id e)), (''key_id'', JStr (ee_key_id e)),
     (''campaign_id'', JStr (ee_campaign_id e)), (''task_id'', JStr (ee_task_id e)),
     (''generation'', JInt (ee_generation e)), (''sequence'', JInt (ee_sequence e)),
     (''idempotency_key'', JStr (ee_idempotency_key e)), (''payload_sha256'', JStr (ee_payload_sha256 e)),
     (''payload'', JObj (ee_payload e))]"

definition evaluator_envelope_ok :: "evaluator_envelope \<Rightarrow> bool" where
  "evaluator_envelope_ok e \<longleftrightarrow> list_all (text_ok 1 200) [ee_issuer_id e, ee_key_id e, ee_campaign_id e, ee_task_id e,
       ee_idempotency_key e] \<and> 1 \<le> ee_generation e \<and> 1 \<le> ee_sequence e \<and> is_sha256_digest (ee_payload_sha256 e)
     \<and> text_ok 1 4096 (ee_signature e)"

definition read_evaluator_envelope :: "ingress_env \<Rightarrow> json \<Rightarrow> evaluator_envelope option" where
  "read_evaluator_envelope E j = do {
     kvs \<leftarrow> as_obj [''schema_version'', ''issuer_id'', ''key_id'', ''campaign_id'', ''task_id'', ''generation'', ''sequence'',
       ''idempotency_key'', ''payload_sha256'', ''payload'', ''signature''] j;
     field kvs ''schema_version'' (\<lambda>j. need (j = JStr ''secure-memory-evaluator-envelope/v1''));
     i \<leftarrow> field kvs ''issuer_id'' as_str;
     k \<leftarrow> field kvs ''key_id'' as_str;
     c \<leftarrow> field kvs ''campaign_id'' as_str;
     t \<leftarrow> field kvs ''task_id'' as_str;
     g \<leftarrow> field kvs ''generation'' (lax_int E);
     n \<leftarrow> field kvs ''sequence'' (lax_int E);
     d \<leftarrow> field kvs ''idempotency_key'' as_str;
     h \<leftarrow> field kvs ''payload_sha256'' as_str;
     p \<leftarrow> field kvs ''payload'' as_dict;
     s \<leftarrow> field kvs ''signature'' as_str;
     let e = \<lparr>ee_issuer_id = i, ee_key_id = k, ee_campaign_id = c, ee_task_id = t, ee_generation = g, ee_sequence = n,
       ee_idempotency_key = d, ee_payload_sha256 = h, ee_payload = p, ee_signature = s\<rparr>;
     need (evaluator_envelope_ok e);
     Some e }"

text \<open>As for admission receipts, the label and the two flags are constants of every valid receipt.\<close>

record source_receipt =
  er_issuer_id :: string
  er_key_id :: string
  er_campaign_id :: string
  er_task_id :: string
  er_generation :: int
  er_sequence :: int
  er_idempotency_key :: string
  er_envelope_sha256 :: "string option"
  er_admission :: admission_receipt
  er_receipt_sha256 :: string

definition source_receipt_members :: "source_receipt \<Rightarrow> (string \<times> json) list" where
  "source_receipt_members r = [(''schema_version'', JStr ''secure-memory-evaluator-source-receipt/v1''),
     (''issuer_id'', JStr (er_issuer_id r)), (''key_id'', JStr (er_key_id r)),
     (''campaign_id'', JStr (er_campaign_id r)), (''task_id'', JStr (er_task_id r)),
     (''generation'', JInt (er_generation r)), (''sequence'', JInt (er_sequence r)),
     (''idempotency_key'', JStr (er_idempotency_key r)), (''source_verified'', JBool True),
     (''trust_label'', JStr ''ORIGIN_UNVERIFIED''), (''promotion_authorized'', JBool False),
     (''envelope_sha256'', opt_json JStr (er_envelope_sha256 r)), (''admission'', admission_json (er_admission r))]"

definition source_receipt_digest :: "crypto \<Rightarrow> source_receipt \<Rightarrow> string" where
  "source_receipt_digest C r = domain_digest C ''secure-memory-evaluator-source-receipt'' (JObj (source_receipt_members r))"

definition source_receipt_ok :: "crypto \<Rightarrow> source_receipt \<Rightarrow> bool" where
  "source_receipt_ok C r \<longleftrightarrow> pred_option is_sha256_digest (er_envelope_sha256 r) \<and> admission_ok C (er_admission r)
     \<and> is_sha256_digest (er_receipt_sha256 r) \<and> er_receipt_sha256 r = source_receipt_digest C r
     \<and> float_free (JObj (source_receipt_members r))"

record evaluator_channel =
  ev_issuer_id :: string
  ev_key_id :: string
  ev_campaign_id :: string
  ev_task_id :: string
  ev_generation :: int
  ev_head :: int
  ev_idempotency :: "(string \<times> (string option \<times> source_receipt)) list"
  ev_sequences :: "(int \<times> string) list"

definition new_evaluator_channel :: "string \<Rightarrow> string \<Rightarrow> string \<Rightarrow> string \<Rightarrow> int \<Rightarrow> ingress_error + evaluator_channel" where
  "new_evaluator_channel issuer key campaign task generation = checked
     [(issuer = [] \<or> key = [] \<or> campaign = [] \<or> task = [], IngressValueError ''evaluator channel scope values must be non-empty''),
      (generation < 1, IngressValueError ''evaluator channel generation must be positive'')]
     \<lparr>ev_issuer_id = issuer, ev_key_id = key, ev_campaign_id = campaign, ev_task_id = task, ev_generation = generation,
      ev_head = 0, ev_idempotency = [], ev_sequences = []\<rparr>"

definition decode_evaluator :: "ingress_env \<Rightarrow> string \<Rightarrow> ingress_error + evaluator_envelope" where
  "decode_evaluator E frame =
     (if frame = [] \<or> length frame > 131072 then Inl (ChannelRejected ''envelope_size_invalid'')
      else (case parse_json_bytes (crypto.truncate E) frame of
         None \<Rightarrow> Inl (ChannelRejected ''envelope_invalid'')
       | Some j \<Rightarrow> if canonical_bytes (crypto.truncate E) j \<noteq> frame then Inl (ChannelRejected ''envelope_invalid'')
           else (case read_evaluator_envelope E j of None \<Rightarrow> Inl (ChannelRejected ''envelope_invalid'') | Some e \<Rightarrow> Inr e)))"

definition evaluator_guards :: "ingress_env \<Rightarrow> evaluator_channel \<Rightarrow> evaluator_envelope \<Rightarrow> string \<Rightarrow> (bool \<times> ingress_error) list" where
  "evaluator_guards E c e expected_key =
     [(ee_issuer_id e \<noteq> ev_issuer_id c, ChannelRejected ''issuer_mismatch''),
      (ee_key_id e \<noteq> ev_key_id c, ChannelRejected ''key_mismatch''),
      (ee_campaign_id e \<noteq> ev_campaign_id c, ChannelRejected ''campaign_mismatch''),
      (ee_task_id e \<noteq> ev_task_id c, ChannelRejected ''task_mismatch''),
      (ee_generation e \<noteq> ev_generation c, ChannelRejected ''generation_mismatch''),
      (expected_key = [] \<or> ee_idempotency_key e \<noteq> expected_key, ChannelRejected ''idempotency_mismatch''),
      (sha256 E (canonical_bytes (crypto.truncate E) (JObj (ee_payload e))) \<noteq> ee_payload_sha256 e,
       ChannelRejected ''payload_digest_mismatch''),
      (signature_valid E (canonical_bytes (crypto.truncate E) (evaluator_core_json e)) (ee_signature e) (ee_issuer_id e)
         (ee_key_id e) \<noteq> Some True, ChannelRejected ''signature_invalid'')]"

definition make_source_receipt :: "ingress_env \<Rightarrow> evaluator_envelope \<Rightarrow> string \<Rightarrow> admission_receipt \<Rightarrow> source_receipt" where
  "make_source_receipt E e frame_sha256 a =
     (let core = \<lparr>er_issuer_id = ee_issuer_id e, er_key_id = ee_key_id e, er_campaign_id = ee_campaign_id e,
        er_task_id = ee_task_id e, er_generation = ee_generation e, er_sequence = ee_sequence e,
        er_idempotency_key = ee_idempotency_key e,
        er_envelope_sha256 = (if ad_content_sha256 a \<noteq> None then Some frame_sha256 else None),
        er_admission = a, er_receipt_sha256 = []\<rparr> in
      core\<lparr>er_receipt_sha256 := source_receipt_digest (crypto.truncate E) core\<rparr>)"

text \<open>The critical section: a repeated frame gets its receipt back, a fresh one must be the next in sequence.\<close>

definition accept_envelope :: "ingress_env \<Rightarrow> string \<Rightarrow> evaluator_envelope \<Rightarrow> (evaluator_channel, ingress_error, source_receipt) prog" where
  "accept_envelope E frame_sha256 e = bindE (getsE id) (\<lambda>c.
     case dict_get (ev_idempotency c) (ee_idempotency_key e) of
       Some (prior, receipt) \<Rightarrow>
         if prior = Some frame_sha256 then returnE receipt else raiseE (ChannelRejected ''idempotency_conflict'')
     | None \<Rightarrow>
         thenE (raise_if (dict_get (ev_sequences c) (ee_sequence e) \<noteq> None) (ChannelRejected ''sequence_reuse''))
        (thenE (raise_if (ee_sequence e \<noteq> ev_head c + 1) (ChannelRejected ''sequence_out_of_order''))
        (bindE (liftE (admit_text E (canonical_bytes (crypto.truncate E) (JObj (ee_payload e))) From_EVALUATOR EVALUATOR_OUTPUT
             (ee_campaign_id e) (ee_task_id e) (ee_generation e) (ee_sequence e) (ee_payload_sha256 e))) (\<lambda>a.
           let r = make_source_receipt E e frame_sha256 a in
           thenE (raise_if (\<not> source_receipt_ok (crypto.truncate E) r) (IngressValueError ''EvaluatorSourceReceipt''))
          (thenE (modifyE (\<lambda>c. c\<lparr>ev_idempotency := dict_set (ee_idempotency_key e) (er_envelope_sha256 r, r) (ev_idempotency c),
               ev_sequences := dict_set (ee_sequence e) (er_receipt_sha256 r) (ev_sequences c), ev_head := ee_sequence e\<rparr>))
             (returnE r))))))"

definition receive_evaluator :: "ingress_env \<Rightarrow> string \<Rightarrow> string \<Rightarrow> (evaluator_channel, ingress_error, source_receipt) prog" where
  "receive_evaluator E frame expected_key =
     bindE (liftE (decode_evaluator E frame)) (\<lambda>e. bindE (getsE id) (\<lambda>c.
       thenE (liftE (checked (evaluator_guards E c e expected_key) ())) (accept_envelope E (sha256 E frame) e)))"

end
