(* ===== verification/MemoryClosure.thy ===== *)
theory MemoryClosure
  imports MemoryStore MemoryAdmission
begin

text \<open>
  Decision closures (\<open>apps/api/trusted_memory/closure.py\<close>), the finalizer that records a closure and its
  facts in one transaction (\<open>apps/api/internal_finalizer.py\<close>), and the builders of lifecycle records
  (\<open>apps/api/trusted_memory/lifecycle.py\<close>). A model that cannot be built raises \<open>ValueError\<close>, as
  \<open>ClosureRejected\<close> and \<open>FinalizationRejected\<close> do.
\<close>

subsection \<open>Inputs of a closure\<close>

record evidence_binding =
  eb_evidence_id :: string
  eb_evidence_digest :: string

definition binding_json :: "evidence_binding \<Rightarrow> json" where
  "binding_json b = JObj [(''evidence_id'', JStr (eb_evidence_id b)), (''evidence_digest'', JStr (eb_evidence_digest b))]"

definition evidence_binding_ok :: "evidence_binding \<Rightarrow> bool" where
  "evidence_binding_ok b \<longleftrightarrow> text_ok 1 200 (eb_evidence_id b) \<and> is_sha256_digest (eb_evidence_digest b) \<and> float_free (binding_json b)"

record terminal_decision =
  td_tenant_id :: string
  td_project_id :: string
  td_task_id :: string
  td_generation :: int
  td_task_version :: int
  td_decision_id :: string
  td_outcome :: decision_outcome
  td_terminal :: bool
  td_authority_source :: string
  td_decision_digest :: string

definition terminal_core_json :: "terminal_decision \<Rightarrow> json" where
  "terminal_core_json t = JObj [(''schema_version'', JStr ''egoagentos-terminal-decision/v1''),
     (''tenant_id'', JStr (td_tenant_id t)), (''project_id'', JStr (td_project_id t)), (''task_id'', JStr (td_task_id t)),
     (''generation'', JInt (td_generation t)), (''task_version'', JInt (td_task_version t)),
     (''decision_id'', JStr (td_decision_id t)), (''outcome'', JStr (outcome_value (td_outcome t))),
     (''terminal'', JBool (td_terminal t)), (''authority_source'', JStr (td_authority_source t))]"

definition terminal_decision_ok :: "crypto \<Rightarrow> terminal_decision \<Rightarrow> bool" where
  "terminal_decision_ok C t \<longleftrightarrow> list_all (text_ok 1 200) [td_tenant_id t, td_project_id t, td_task_id t, td_decision_id t]
     \<and> 1 \<le> td_generation t \<and> 1 \<le> td_task_version t
     \<and> td_authority_source t \<in> {''CONTROL'', ''MODEL'', ''WORKER'', ''MATRIX'', ''REVIEWER''}
     \<and> is_sha256_digest (td_decision_digest t)
     \<and> td_decision_digest t = domain_digest C ''trusted-memory-terminal-decision'' (terminal_core_json t)
     \<and> float_free (terminal_core_json t)"

record evaluator_result =
  ev_evaluator_id :: string
  ev_source_receipt :: source_receipt
  ev_result_digest :: string
  ev_signature_verified :: bool
  ev_verified_fact_digests :: "string list"

definition evaluator_result_ok :: "crypto \<Rightarrow> evaluator_result \<Rightarrow> bool" where
  "evaluator_result_ok C r \<longleftrightarrow> text_ok 1 200 (ev_evaluator_id r) \<and> source_receipt_ok C (ev_source_receipt r)
     \<and> is_sha256_digest (ev_result_digest r) \<and> ev_verified_fact_digests r \<noteq> []
     \<and> list_all is_sha256_digest (ev_verified_fact_digests r) \<and> sorted_unique (ev_verified_fact_digests r)"

subsection \<open>Decision closures\<close>

record closure_core =
  cc_closure_id :: string
  cc_tenant_id :: string
  cc_project_id :: string
  cc_task_id :: string
  cc_generation :: int
  cc_task_version :: int
  cc_decision_id :: string
  cc_decision_digest :: string
  cc_decision_outcome :: decision_outcome
  cc_evaluator_id :: string
  cc_source_receipt_digest :: string
  cc_result_digest :: string
  cc_verified_fact_digests :: "string list"
  cc_evidence_ids :: "string list"
  cc_evidence_digests :: "string list"
  cc_bindings_digest :: string
  cc_admission_digests :: "string list"
  cc_policy_version :: string
  cc_rule_version :: string
  cc_memory_watermark :: int

definition closure_core_json :: "closure_core \<Rightarrow> json" where
  "closure_core_json c = JObj [(''schema_version'', JStr ''egoagentos-decision-closure/v1''),
     (''closure_id'', JStr (cc_closure_id c)), (''tenant_id'', JStr (cc_tenant_id c)),
     (''project_id'', JStr (cc_project_id c)), (''task_id'', JStr (cc_task_id c)),
     (''generation'', JInt (cc_generation c)), (''task_version'', JInt (cc_task_version c)),
     (''decision_id'', JStr (cc_decision_id c)), (''decision_digest'', JStr (cc_decision_digest c)),
     (''decision_outcome'', JStr (outcome_value (cc_decision_outcome c))), (''evaluator_id'', JStr (cc_evaluator_id c)),
     (''evaluator_source_receipt_digest'', JStr (cc_source_receipt_digest c)),
     (''evaluator_result_digest'', JStr (cc_result_digest c)),
     (''verified_fact_digests'', JList (map JStr (cc_verified_fact_digests c))),
     (''evidence_ids'', JList (map JStr (cc_evidence_ids c))), (''evidence_digests'', JList (map JStr (cc_evidence_digests c))),
     (''evidence_bindings_digest'', JStr (cc_bindings_digest c)),
     (''admission_receipt_digests'', JList (map JStr (cc_admission_digests c))),
     (''policy_version'', JStr (cc_policy_version c)), (''rule_version'', JStr (cc_rule_version c)),
     (''memory_watermark'', JInt (cc_memory_watermark c))]"

definition closure_core_ok :: "closure_core \<Rightarrow> bool" where
  "closure_core_ok c \<longleftrightarrow> list_all (text_ok 1 200) [cc_closure_id c, cc_tenant_id c, cc_project_id c, cc_task_id c,
       cc_decision_id c, cc_evaluator_id c] \<and> 1 \<le> cc_generation c \<and> 1 \<le> cc_task_version c
     \<and> list_all is_sha256_digest [cc_decision_digest c, cc_source_receipt_digest c, cc_result_digest c, cc_bindings_digest c]
     \<and> cc_verified_fact_digests c \<noteq> [] \<and> list_all is_sha256_digest (cc_verified_fact_digests c)
     \<and> sorted_unique (cc_verified_fact_digests c) \<and> cc_evidence_ids c \<noteq> [] \<and> sorted_unique (cc_evidence_ids c)
     \<and> cc_evidence_digests c \<noteq> [] \<and> list_all is_sha256_digest (cc_evidence_digests c)
     \<and> sorted_unique (cc_evidence_digests c) \<and> cc_admission_digests c \<noteq> []
     \<and> list_all is_sha256_digest (cc_admission_digests c) \<and> sorted_unique (cc_admission_digests c)
     \<and> text_ok 1 120 (cc_policy_version c) \<and> text_ok 1 120 (cc_rule_version c) \<and> 0 \<le> cc_memory_watermark c
     \<and> length (cc_evidence_ids c) = length (cc_evidence_digests c) \<and> float_free (closure_core_json c)"

record decision_closure =
  dc_core :: closure_core
  dc_digest :: string

definition decision_closure_json :: "decision_closure \<Rightarrow> json" where
  "decision_closure_json c = JObj [(''core'', closure_core_json (dc_core c)), (''closure_digest'', JStr (dc_digest c))]"

text \<open>Sorting by the pair of identifier and digest: by digest, then stably by identifier.\<close>

definition sort_bindings :: "evidence_binding list \<Rightarrow> evidence_binding list" where
  "sort_bindings bs = sort_key eb_evidence_id (sort_key eb_evidence_digest bs)"

definition closure_guards ::
  "terminal_decision \<Rightarrow> evaluator_result \<Rightarrow> evidence_binding list \<Rightarrow> admission_receipt list \<Rightarrow> (bool \<times> api_error) list" where
  "closure_guards t r bs rs = (let source = ev_source_receipt r in
     [(td_authority_source t \<noteq> ''CONTROL'', ValueError ''control_authority_required''),
      (\<not> td_terminal t, ValueError ''terminal_decision_required''),
      (\<not> ev_signature_verified r, ValueError ''evaluator_signature_not_verified''),
      (\<not> ad_admitted (er_admission source), ValueError ''evaluator_source_not_admitted''),
      (er_envelope_sha256 source = None \<or> Some (ev_result_digest r) \<noteq> er_envelope_sha256 source,
       ValueError ''evaluator_result_digest_mismatch''),
      (er_task_id source \<noteq> td_task_id t \<or> er_generation source \<noteq> td_generation t, ValueError ''evaluator_scope_mismatch''),
      (rs = [] \<or> \<not> list_all ad_admitted rs, ValueError ''admission_receipt_not_admitted''),
      (\<not> list_all (\<lambda>a. ad_task_id a = td_task_id t \<and> ad_generation a = td_generation t) rs, ValueError ''admission_scope_mismatch''),
      (bs = [], ValueError ''evidence_required''),
      (\<not> distinct (map eb_evidence_id (sort_bindings bs)) \<or> \<not> distinct (sort (map eb_evidence_digest (sort_bindings bs))),
       ValueError ''duplicate_evidence'')])"

definition closure_identity :: "crypto \<Rightarrow> terminal_decision \<Rightarrow> evaluator_result \<Rightarrow> string" where
  "closure_identity C t r = domain_digest C ''trusted-memory-decision-closure-id''
     (JObj [(''decision_digest'', JStr (td_decision_digest t)), (''evaluator_result_digest'', JStr (ev_result_digest r)),
        (''source_receipt_digest'', JStr (er_receipt_sha256 (ev_source_receipt r)))])"

definition closure_core_of ::
  "crypto \<Rightarrow> terminal_decision \<Rightarrow> evaluator_result \<Rightarrow> evidence_binding list \<Rightarrow> admission_receipt list \<Rightarrow> string \<Rightarrow> string \<Rightarrow> int \<Rightarrow> closure_core" where
  "closure_core_of C t r bs rs policy rule watermark =
     \<lparr>cc_closure_id = ''closure-'' @ take 32 (closure_identity C t r), cc_tenant_id = td_tenant_id t,
      cc_project_id = td_project_id t, cc_task_id = td_task_id t, cc_generation = td_generation t,
      cc_task_version = td_task_version t, cc_decision_id = td_decision_id t, cc_decision_digest = td_decision_digest t,
      cc_decision_outcome = td_outcome t, cc_evaluator_id = ev_evaluator_id r,
      cc_source_receipt_digest = er_receipt_sha256 (ev_source_receipt r), cc_result_digest = ev_result_digest r,
      cc_verified_fact_digests = ev_verified_fact_digests r, cc_evidence_ids = map eb_evidence_id (sort_bindings bs),
      cc_evidence_digests = sort (map eb_evidence_digest (sort_bindings bs)),
      cc_bindings_digest = domain_digest C ''trusted-memory-evidence-bindings'' (JList (map binding_json (sort_bindings bs))),
      cc_admission_digests = sort (map ad_receipt_sha256 rs), cc_policy_version = policy, cc_rule_version = rule,
      cc_memory_watermark = watermark\<rparr>"

definition build_decision_closure ::
  "crypto \<Rightarrow> terminal_decision \<Rightarrow> evaluator_result \<Rightarrow> evidence_binding list \<Rightarrow> admission_receipt list \<Rightarrow> string \<Rightarrow> string \<Rightarrow> int
     \<Rightarrow> api_error + decision_closure" where
  "build_decision_closure C t r bs rs policy rule watermark =
     bindR (checked (closure_guards t r bs rs) ()) (\<lambda>_.
       let core = closure_core_of C t r bs rs policy rule watermark in
       checked [(\<not> closure_core_ok core, ValueError ''DecisionClosureCore'')]
         \<lparr>dc_core = core, dc_digest = domain_digest C ''trusted-memory-decision-closure'' (closure_core_json core)\<rparr>)"

subsection \<open>The finalizer\<close>

record fact_input =
  fi_revision_id :: string
  fi_lineage_id :: string
  fi_revision :: int
  fi_core :: fact_core
  fi_expected :: "string option"

record finalization_request =
  fr_decision :: terminal_decision
  fr_result :: evaluator_result
  fr_facts :: "fact_input list"
  fr_evidence :: "evidence_binding list"
  fr_admissions :: "admission_receipt list"
  fr_policy_version :: string
  fr_rule_version :: string
  fr_memory_watermark :: int

definition finalization_request_ok :: "crypto \<Rightarrow> finalization_request \<Rightarrow> bool" where
  "finalization_request_ok C q \<longleftrightarrow> terminal_decision_ok C (fr_decision q) \<and> evaluator_result_ok C (fr_result q)
     \<and> fr_facts q \<noteq> [] \<and> list_all (\<lambda>i. text_ok 1 200 (fi_revision_id i) \<and> text_ok 1 200 (fi_lineage_id i)
          \<and> 1 \<le> fi_revision i \<and> fact_core_ok C (fi_core i)) (fr_facts q)
     \<and> fr_evidence q \<noteq> [] \<and> list_all evidence_binding_ok (fr_evidence q)
     \<and> fr_admissions q \<noteq> [] \<and> list_all (admission_ok C) (fr_admissions q)
     \<and> text_ok 1 120 (fr_policy_version q) \<and> text_ok 1 120 (fr_rule_version q) \<and> 0 \<le> fr_memory_watermark q"

definition sort_inputs :: "fact_input list \<Rightarrow> fact_input list" where
  "sort_inputs fs = sort_key fi_lineage_id (sort_key fi_revision_id fs)"

definition evidence_map :: "evidence_binding list \<Rightarrow> (string \<times> string) list" where
  "evidence_map bs = fold (\<lambda>b. dict_set (eb_evidence_id b) (eb_evidence_digest b)) bs []"

definition fact_guards :: "decision_closure \<Rightarrow> (string \<times> string) list \<Rightarrow> fact_core \<Rightarrow> (bool \<times> api_error) list" where
  "fact_guards c m f = (let scope = fc_applicability_scope f; core = dc_core c in
     [(fs_tenant_id scope \<noteq> Some (cc_tenant_id core) \<or> fs_project_id scope \<noteq> cc_project_id core, ValueError ''fact_scope_mismatch''),
      (fs_version scope = None, ValueError ''fact_version_required''),
      (fc_outcome f \<noteq> cc_decision_outcome core, ValueError ''fact_outcome_mismatch''),
      (\<not> list_all (\<lambda>s. sr_identifier s \<in> set (keys m)) (fc_source_refs f), ValueError ''fact_source_evidence_mismatch''),
      (\<not> list_all (\<lambda>d. d \<in> snd ` set m) (fc_support_digests f), ValueError ''fact_support_digest_mismatch'')])"

definition provenance_of :: "decision_closure \<Rightarrow> memory_scope \<Rightarrow> fact_provenance" where
  "provenance_of c scope = (let core = dc_core c in
     \<lparr>pv_scope = scope, pv_task_id = cc_task_id core, pv_generation = cc_generation core,
      pv_task_version = cc_task_version core, pv_decision_id = cc_decision_id core,
      pv_decision_digest = cc_decision_digest core, pv_decision_closure_digest = dc_digest c, pv_origin = LOCAL_TRUSTED,
      pv_evaluator_id = Some (cc_evaluator_id core), pv_evaluator_result_digest = Some (cc_result_digest core),
      pv_external_attestation_digest = None, pv_verified_fact_digests = cc_verified_fact_digests core,
      pv_evidence_ids = cc_evidence_ids core, pv_evidence_digests = cc_evidence_digests core,
      pv_policy_version = cc_policy_version core, pv_rule_version = cc_rule_version core\<rparr>)"

definition fact_of :: "crypto \<Rightarrow> decision_closure \<Rightarrow> fact_input \<Rightarrow> trusted_fact" where
  "fact_of C c i = (let core = fi_core i; s = fc_applicability_scope core;
       scope = \<lparr>sc_tenant_id = the (fs_tenant_id s), sc_project_id = fs_project_id s, sc_component = fs_component s,
         sc_version = the (fs_version s)\<rparr>;
       f = \<lparr>tf_revision_id = fi_revision_id i, tf_lineage_id = fi_lineage_id i, tf_revision = fi_revision i, tf_scope = scope,
         tf_outcome = fc_outcome core, tf_origin = LOCAL_TRUSTED, tf_state = Validated, tf_core = core,
         tf_trusted_fact_digest = domain_digest C ''trusted-fact'' (fact_core_json core),
         tf_provenance = provenance_of c scope, tf_record_digest = []\<rparr> in
     f\<lparr>tf_record_digest := domain_digest C ''trusted-memory-fact-record'' (trusted_fact_body f)\<rparr>)"

definition build_fact :: "crypto \<Rightarrow> decision_closure \<Rightarrow> (string \<times> string) list \<Rightarrow> fact_input \<Rightarrow> api_error + trusted_fact" where
  "build_fact C c m i = bindR (checked (fact_guards c m (fi_core i)) ()) (\<lambda>_.
     checked [(\<not> trusted_fact_ok C (fact_of C c i), ValueError ''TrustedFact'')] (fact_of C c i))"

fun build_each :: "('a \<Rightarrow> 'e + 'b) \<Rightarrow> 'a list \<Rightarrow> 'e + 'b list" where
  "build_each f [] = Inr []"
| "build_each f (x # xs) = bindR (f x) (\<lambda>y. bindR (build_each f xs) (\<lambda>ys. Inr (y # ys)))"

definition build_facts :: "crypto \<Rightarrow> finalization_request \<Rightarrow> decision_closure \<Rightarrow> api_error + trusted_fact list" where
  "build_facts C q c = (let inputs = sort_inputs (fr_facts q); m = evidence_map (fr_evidence q) in
     bindR (checked
       [(sort (map (\<lambda>i. domain_digest C ''trusted-fact'' (fact_core_json (fi_core i))) inputs) \<noteq> cc_verified_fact_digests (dc_core c),
         ValueError ''facts_not_exactly_named_by_evaluator_result''),
        (length m \<noteq> length (fr_evidence q), ValueError ''duplicate_evidence_id'')] ())
     (\<lambda>_. build_each (build_fact C c m) inputs))"

definition fact_lineage :: "trusted_fact \<Rightarrow> lineage" where
  "fact_lineage f = (sc_tenant_id (tf_scope f), sc_project_id (tf_scope f), tf_lineage_id f)"

fun append_facts :: "crypto \<Rightarrow> string \<Rightarrow> (fact_input \<times> trusted_fact) list \<Rightarrow> memory_event list memory_op" where
  "append_facts C key [] = returnE []"
| "append_facts C key ((i, f) # fs) =
     bindE (append_memory_record C (fact_lineage f) (FactEntry f) (key @ '':fact:'' @ tf_lineage_id f) (fi_expected i)) (\<lambda>v.
     bindE (append_facts C key fs) (\<lambda>vs. returnE (v # vs)))"

definition record_closure :: "api_env \<Rightarrow> string \<Rightarrow> decision_closure \<Rightarrow> closure_row memory_op" where
  "record_closure E key c = store_op (append_decision_closure E (cc_tenant_id (dc_core c)) (cc_project_id (dc_core c))
     (dc_digest c) (canonical_bytes (crypto.truncate E) (decision_closure_json c)) (key @ '':closure''))"

definition finalize_memory ::
  "api_env \<Rightarrow> finalization_request \<Rightarrow> string \<Rightarrow> (decision_closure \<times> trusted_fact list \<times> memory_event list) memory_op" where
  "finalize_memory E q key = (let C = crypto.truncate E in
     thenE (raise_if (key = []) (ValueError ''finalization idempotency key must not be empty''))
    (bindE (liftE (build_decision_closure C (fr_decision q) (fr_result q) (fr_evidence q) (fr_admissions q)
         (fr_policy_version q) (fr_rule_version q) (fr_memory_watermark q))) (\<lambda>c.
     bindE (liftE (build_facts C q c)) (\<lambda>fs.
     bindE (memory_transaction (thenE (record_closure E key c) (append_facts C key (zip (sort_inputs (fr_facts q)) fs)))) (\<lambda>vs.
       returnE (c, fs, vs))))))"

subsection \<open>Lifecycle records\<close>

definition build_conflict :: "crypto \<Rightarrow> trusted_fact list \<Rightarrow> string \<Rightarrow> string \<Rightarrow> api_error + conflict_record" where
  "build_conflict C fs group_id reason =
     bindR (checked [(length fs < 2, ValueError ''a conflict requires at least two facts''),
        (\<not> list_all (\<lambda>f. tf_scope f = tf_scope (hd fs)) fs, ValueError ''conflict facts must have the same exact scope'')] ())
     (\<lambda>_. let g = \<lparr>cg_conflict_group_id = group_id, cg_scope = tf_scope (hd fs),
            cg_members = sort_key (\<lambda>m. canonical_bytes C (conflict_member_json m))
              (map (\<lambda>f. \<lparr>cm_scope = tf_scope f, cm_lineage_id = tf_lineage_id f, cm_revision_id = tf_revision_id f,
                 cm_revision = tf_revision f, cm_fact_digest = tf_trusted_fact_digest f\<rparr>) fs),
            cg_reason_code = reason,
            cg_decision_closure_digests = set_sorted (map (\<lambda>f. pv_decision_closure_digest (tf_provenance f)) fs)\<rparr>;
          c = \<lparr>cr_group = g, cr_conflict_digest = domain_digest C ''trusted-memory-conflict'' (conflict_group_json g)\<rparr> in
        checked [(\<not> conflict_ok C c, ValueError ''ConflictGroup'')] c)"

definition build_supersession ::
  "crypto \<Rightarrow> trusted_fact \<Rightarrow> string \<Rightarrow> int \<Rightarrow> string list \<Rightarrow> string \<Rightarrow> string \<Rightarrow> string \<Rightarrow> api_error + supersession_record" where
  "build_supersession C cur revision_id revision prior closure_digest supersession_id reason =
     (let u = \<lparr>su_supersession_id = supersession_id, su_scope = tf_scope cur, su_lineage_id = tf_lineage_id cur,
          su_superseded_revision_id = tf_revision_id cur, su_superseded_revision = tf_revision cur,
          su_superseding_revision_id = revision_id, su_superseding_revision = revision, su_prior_revision_ids = prior,
          su_decision_closure_digest = closure_digest, su_reason_code = reason\<rparr>;
        s = \<lparr>sp_core = u, sp_supersession_digest = domain_digest C ''trusted-memory-supersession'' (supersession_core_json u)\<rparr> in
      checked [(\<not> supersession_ok C s, ValueError ''SupersessionRecordCore'')] s)"

definition build_revocation ::
  "crypto \<Rightarrow> trusted_fact \<Rightarrow> string list \<Rightarrow> string list \<Rightarrow> string \<Rightarrow> string \<Rightarrow> string \<Rightarrow> api_error + revocation_record" where
  "build_revocation C cur ids digests closure_digest revocation_id reason =
     (let v = \<lparr>rv_revocation_id = revocation_id, rv_scope = tf_scope cur, rv_lineage_id = tf_lineage_id cur,
          rv_revision_id = tf_revision_id cur, rv_revision = tf_revision cur, rv_expected_revision = tf_revision cur,
          rv_fact_digest = tf_trusted_fact_digest cur, rv_decision_closure_digest = closure_digest,
          rv_invalidating_evidence_ids = ids, rv_invalidating_evidence_digests = digests, rv_reason_code = reason\<rparr>;
        r = \<lparr>rr_core = v, rr_revocation_digest = domain_digest C ''trusted-memory-revocation'' (revocation_core_json v)\<rparr> in
      checked [(\<not> revocation_ok C r, ValueError ''RevocationRecordCore'')] r)"

text \<open>\<open>TrustedLifecycleService\<close>: each method appends to the lineage that its record names.\<close>

definition scope_lineage :: "memory_scope \<Rightarrow> string \<Rightarrow> lineage" where
  "scope_lineage s lid = (sc_tenant_id s, sc_project_id s, lid)"

definition record_conflict :: "crypto \<Rightarrow> string \<Rightarrow> conflict_record \<Rightarrow> string \<Rightarrow> string \<Rightarrow> memory_event memory_op" where
  "record_conflict C lid c expected key =
     append_memory_record C (scope_lineage (cg_scope (cr_group c)) lid) (ConflictEntry c) key (Some expected)"

definition supersede :: "crypto \<Rightarrow> supersession_record \<Rightarrow> string \<Rightarrow> string \<Rightarrow> memory_event memory_op" where
  "supersede C s expected key =
     append_memory_record C (scope_lineage (su_scope (sp_core s)) (su_lineage_id (sp_core s))) (SupersessionEntry s) key (Some expected)"

definition revoke :: "crypto \<Rightarrow> revocation_record \<Rightarrow> string \<Rightarrow> string \<Rightarrow> memory_event memory_op" where
  "revoke C r expected key =
     append_memory_record C (scope_lineage (rv_scope (rr_core r)) (rv_lineage_id (rr_core r))) (RevocationEntry r) key (Some expected)"

end
