(* ===== verification/MemoryRun.thy ===== *)
theory MemoryRun
  imports MemoryInv MemoryClosure
begin

text \<open>
  The tables implement the abstract streams: every successful append is one step of its lineage, a failed one
  is rolled back, and nothing else touches these tables. The reachable sessions and what holds in them.
\<close>

subsection \<open>The statements of an append\<close>

lemma wp_select [wp_simps]: "wp (select f) Q E s = Q (f (mem s)) s"
  by (simp add: select_def wp_gets)

lemma wp_execute [wp_simps]: "wp (execute f) Q E s = Q () (s\<lparr>mem := f (mem s)\<rparr>)"
  by (simp add: execute_def wp_modify)

lemma wp_check_projection:
  "wp (check_projection k e expected c)
     (\<lambda>_ s'. s' = s \<and> legal k e c \<and> (is_candidate e \<or> expected = map_option cu_projection_event_hash c)) (\<lambda>_ _. True) s"
  by (cases e; cases c) (auto simp: check_projection_def Let_def wp_simps)

lemma wp_closure_link:
  "wp (insert_closure_link k h d)
     (\<lambda>_ s'. s' = s\<lparr>mem := (mem s)\<lparr>closure_links := closure_links (mem s) @ [(k, h, d)]\<rparr>\<rparr>) (\<lambda>_ _. True) s"
  by (simp add: insert_closure_link_def wp_simps)

lemma wp_closure_links:
  "wp (forE ds (insert_closure_link k h))
     (\<lambda>_ s'. s' = s\<lparr>mem := (mem s)\<lparr>closure_links := closure_links (mem s) @ map (\<lambda>d. (k, h, d)) ds\<rparr>\<rparr>) (\<lambda>_ _. True) s"
proof (induction ds arbitrary: s)
  case Nil
  then show ?case by (simp add: wp_simps)
next
  case (Cons d ds)
  have "wp (insert_closure_link k h d) (\<lambda>_. wp (forE ds (insert_closure_link k h))
      (\<lambda>_ s'. s' = s\<lparr>mem := (mem s)\<lparr>closure_links := closure_links (mem s) @ map (\<lambda>d. (k, h, d)) (d # ds)\<rparr>\<rparr>) (\<lambda>_ _. True))
      (\<lambda>_ _. True) s"
  proof (rule wp_mono [OF wp_closure_link])
    fix a s' assume s': "s' = s\<lparr>mem := (mem s)\<lparr>closure_links := closure_links (mem s) @ [(k, h, d)]\<rparr>\<rparr>"
    show "wp (forE ds (insert_closure_link k h))
      (\<lambda>_ s'. s' = s\<lparr>mem := (mem s)\<lparr>closure_links := closure_links (mem s) @ map (\<lambda>d. (k, h, d)) (d # ds)\<rparr>\<rparr>) (\<lambda>_ _. True) s'"
      by (rule wp_mono [OF Cons.IH]) (simp_all add: s')
  qed simp
  then show ?case by (simp add: wp_then)
qed

definition sets_current :: "lineage \<Rightarrow> current_row option \<Rightarrow> memory_session \<Rightarrow> memory_session \<Rightarrow> bool" where
  "sets_current k c s s' \<longleftrightarrow> (\<exists>cs. s' = s\<lparr>mem := (mem s)\<lparr>current := cs\<rparr>\<rparr>
     \<and> dict_get cs = (dict_get (current (mem s)))(k := c)
     \<and> (distinct (keys (current (mem s))) \<longrightarrow> distinct (keys cs)))"

lemma sets_currentI:
  "dict_get cs = (dict_get (current (mem s)))(k := c) \<Longrightarrow> (distinct (keys (current (mem s))) \<Longrightarrow> distinct (keys cs)) \<Longrightarrow>
    sets_current k c s (s\<lparr>mem := (mem s)\<lparr>current := cs\<rparr>\<rparr>)"
  by (auto simp: sets_current_def)

lemma insert_new:
  assumes "dict_get d k = None"
  shows "dict_get (d @ [(k, r)]) = (dict_get d)(k \<mapsto> r)" "distinct (keys d) \<Longrightarrow> distinct (keys (d @ [(k, r)]))"
proof -
  show "dict_get (d @ [(k, r)]) = (dict_get d)(k \<mapsto> r)"
    using assms by (auto simp: fun_eq_iff map_add_def split: option.splits)
  show "distinct (keys d) \<Longrightarrow> distinct (keys (d @ [(k, r)]))"
    using assms unfolding dict_get_None by simp
qed

lemma wp_insert_current: "wp (insert_current k r) (\<lambda>_. sets_current k (Some r) s) (\<lambda>_ _. True) s"
  using insert_new [of "current (mem s)" k r]
  by (auto simp: insert_current_def wp_simps simp del: map_of_append intro!: sets_currentI)

lemma wp_update_current:
  "dict_get (current (mem s)) k = Some r \<Longrightarrow> wp (update_current k expected f) (\<lambda>_. sets_current k (Some (f r)) s) (\<lambda>_ _. True) s"
  by (auto simp: update_current_def wp_simps dict_get_set_fun distinct_keys_dict_set intro!: sets_currentI)

definition appends :: "crypto \<Rightarrow> lineage \<Rightarrow> memory_entry \<Rightarrow> string \<Rightarrow> memory_tables \<Rightarrow> memory_tables \<Rightarrow> bool" where
  "appends C k e key M M' \<longleftrightarrow> (let v = next_event C M k e in
     history M' = history M @ [memory_event.extend v \<lparr>me_idempotency_key = key\<rparr>]
     \<and> dict_get (streams M') = (dict_get (streams M))(k \<mapsto> (me_sequence v, me_event_hash v))
     \<and> dict_get (current M') = (dict_get (current M))(k := project v e (dict_get (current M) k))
     \<and> (distinct (keys (current M)) \<longrightarrow> distinct (keys (current M')))
     \<and> closure_links M' = closure_links M @ map (\<lambda>d. (k, me_event_hash v, d)) (entry_closures e)
     \<and> outbox M' = outbox M @ [\<lparr>ob_event_hash = me_event_hash v, ob_lineage = k, ob_sequence = me_sequence v,
          ob_payload = outbox_payload k v\<rparr>])"

lemma wp_write_current:
  assumes c: "dict_get (current (mem s)) k = c" and legal: "legal k e c"
  shows "wp (write_current k e (me_record_bytes v) (me_event_hash v) expected c)
     (\<lambda>_. sets_current k (project v e c) s) (\<lambda>_ _. True) s"
proof (cases "is_candidate e")
  case True
  then obtain x where "e = CandidateEntry x" by (cases e) auto
  moreover have "sets_current k c s s"
    using sets_currentI [of "current (mem s)" s k c] c by (simp add: fun_upd_idem)
  ultimately show ?thesis by (simp add: write_current_def wp_simps)
next
  case False
  show ?thesis
  proof (cases c)
    case None
    with legal False obtain f where "e = FactEntry f" by (cases e) auto
    then show ?thesis using None wp_insert_current by (simp add: write_current_def)
  next
    case (Some r)
    then have "dict_get (current (mem s)) k = Some r" using c by simp
    from wp_update_current [OF this] show ?thesis
      by (cases e) (use False Some in \<open>auto simp: write_current_def\<close>)
  qed
qed

text \<open>An append either finds the key and returns the recorded event, or is one step of the stream.\<close>

definition recorded_event :: "crypto \<Rightarrow> lineage \<Rightarrow> memory_entry \<Rightarrow> string \<Rightarrow> memory_tables \<Rightarrow> memory_event \<Rightarrow> bool" where
  "recorded_event C k e key M v \<longleftrightarrow> (\<exists>h. List.find (\<lambda>h. me_idempotency_key h = key) (stream_rows M k) = Some h
     \<and> me_record_bytes h = canonical_bytes C (entry_json e) \<and> v = memory_event.truncate h)"

definition steps_stream ::
  "crypto \<Rightarrow> lineage \<Rightarrow> memory_entry \<Rightarrow> string \<Rightarrow> string option \<Rightarrow> memory_tables \<Rightarrow> memory_tables \<Rightarrow> bool" where
  "steps_stream C k e key expected M M' \<longleftrightarrow> List.find (\<lambda>h. me_idempotency_key h = key) (stream_rows M k) = None
     \<and> legal k e (dict_get (current M) k) \<and> appends C k e key M M'
     \<and> (is_candidate e \<or> expected = map_option cu_projection_event_hash (dict_get (current M) k))"

text \<open>The equations of sequencing, for a precondition that has no state yet.\<close>

lemma wp_sequence:
  "wp (thenE m n) Q E = wp m (\<lambda>_. wp n Q E) E" "wp (returnE a) Q E = Q a"
  "wp (bindE m f) Q E = wp m (\<lambda>a. wp (f a) Q E) E"
  by (simp_all add: fun_eq_iff wp_simps)

lemma wp_write_event:
  assumes legal: "legal k e (dict_get (current (mem s)) k)" and v: "v = next_event C (mem s) k e"
  shows "wp (write_event k e key expected (dict_get (current (mem s)) k) v)
     (\<lambda>u s'. u = v \<and> appends C k e key (mem s) (mem s') \<and> s' = s\<lparr>mem := mem s'\<rparr>) (\<lambda>_ _. True) s"
proof -
  let ?c = "dict_get (current (mem s)) k"
  let ?row = "memory_event.extend v \<lparr>me_idempotency_key = key\<rparr>"
  let ?box = "\<lparr>ob_event_hash = me_event_hash v, ob_lineage = k, ob_sequence = me_sequence v, ob_payload = outbox_payload k v\<rparr>"
  let ?s2 = "s\<lparr>mem := (mem s)\<lparr>history := history (mem s) @ [?row],
      streams := dict_set k (me_sequence v, me_event_hash v) (streams (mem s))\<rparr>\<rparr>"
  let ?s3 = "?s2\<lparr>mem := (mem ?s2)\<lparr>closure_links := closure_links (mem s) @ map (\<lambda>d. (k, me_event_hash v, d)) (entry_closures e)\<rparr>\<rparr>"
  let ?Q = "\<lambda>u s'. u = v \<and> appends C k e key (mem s) (mem s') \<and> s' = s\<lparr>mem := mem s'\<rparr>"
  have last: "wp (insert_outbox ?box) (\<lambda>_. ?Q v) (\<lambda>_ _. True) s4" if "sets_current k (project v e ?c) ?s3 s4" for s4
    using that v
    by (auto simp: insert_outbox_def wp_simps sets_current_def appends_def Let_def dict_get_set_fun)
  have row: "wp (write_current k e (me_record_bytes v) (me_event_hash v) expected ?c)
      (\<lambda>_. wp (insert_outbox ?box) (\<lambda>_. ?Q v) (\<lambda>_ _. True)) (\<lambda>_ _. True) ?s3"
    by (rule wp_mono [OF wp_write_current [of ?s3 k ?c e v expected]]) (use legal last in simp_all)
  have "wp (forE (entry_closures e) (insert_closure_link k (me_event_hash v)))
      (\<lambda>_. wp (write_current k e (me_record_bytes v) (me_event_hash v) expected ?c)
        (\<lambda>_. wp (insert_outbox ?box) (\<lambda>_. ?Q v) (\<lambda>_ _. True)) (\<lambda>_ _. True)) (\<lambda>_ _. True) ?s2"
    by (rule wp_mono [OF wp_closure_links]) (use row in simp_all)
  then show ?thesis
    by (simp add: write_event_def wp_sequence) (simp add: wp_simps insert_history_def upsert_stream_def)
qed

lemma wp_append_event:
  "wp (append_memory_event C k e key expected)
     (\<lambda>v s'. s' = s \<and> recorded_event C k e key (mem s) v
        \<or> v = next_event C (mem s) k e \<and> steps_stream C k e key expected (mem s) (mem s') \<and> s' = s\<lparr>mem := mem s'\<rparr>)
     (\<lambda>_ _. True) s"
proof (cases "List.find (\<lambda>h. me_idempotency_key h = key) (stream_rows (mem s) k)")
  case (Some h)
  then show ?thesis by (simp add: append_memory_event_def wp_simps recorded_event_def)
next
  case None
  let ?c = "dict_get (current (mem s)) k" and ?v = "next_event C (mem s) k e"
  let ?Q = "\<lambda>v s'. v = ?v \<and> steps_stream C k e key expected (mem s) (mem s') \<and> s' = s\<lparr>mem := mem s'\<rparr>"
  have "wp (check_projection k e expected ?c) (\<lambda>_. wp (bindE (select (\<lambda>M. next_event C M k e))
      (\<lambda>v. write_event k e key expected ?c v)) ?Q (\<lambda>_ _. True)) (\<lambda>_ _. True) s"
  proof (rule wp_mono [OF wp_check_projection])
    fix a s' assume checked: "s' = s \<and> legal k e ?c \<and> (is_candidate e \<or> expected = map_option cu_projection_event_hash ?c)"
    then have "legal k e ?c" by simp
    from wp_write_event [OF this refl, where C = C and key = key and expected = expected] checked None
    show "wp (bindE (select (\<lambda>M. next_event C M k e)) (\<lambda>v. write_event k e key expected ?c v)) ?Q (\<lambda>_ _. True) s'"
      by (auto simp: wp_simps steps_stream_def elim!: wp_mono)
  qed simp
  then have "wp (append_memory_event C k e key expected) ?Q (\<lambda>_ _. True) s"
    using None by (simp add: append_memory_event_def wp_simps)
  then show ?thesis by (rule wp_mono) simp_all
qed

subsection \<open>The tables implement the streams\<close>

definition implements :: "crypto \<Rightarrow> memory_tables \<Rightarrow> lineage \<Rightarrow> (memory_event \<times> memory_entry) list \<Rightarrow> bool" where
  "implements C M k lg \<longleftrightarrow> stream_log C k lg (dict_get (current M) k)
     \<and> map memory_event.truncate (stream_rows M k) = map fst lg
     \<and> dict_get (streams M) k = (if lg = [] then None else Some (int (length lg), tip_of lg))"

definition tables_ok :: "crypto \<Rightarrow> memory_tables \<Rightarrow> bool" where
  "tables_ok C M \<longleftrightarrow> (\<forall>k. \<exists>lg. implements C M k lg) \<and> distinct (keys (current M))"

definition memory_grows :: "memory_tables \<Rightarrow> memory_tables \<Rightarrow> bool" where
  "memory_grows M M' \<longleftrightarrow> (\<exists>hs. history M' = history M @ hs) \<and> (\<exists>cs. closure_links M' = closure_links M @ cs)
     \<and> (\<exists>os. outbox M' = outbox M @ os)"

lemma memory_grows_refl [simp]: "memory_grows M M"
  by (simp add: memory_grows_def)

lemma memory_grows_trans: "memory_grows M N \<Longrightarrow> memory_grows N P \<Longrightarrow> memory_grows M P"
  by (auto simp: memory_grows_def)

lemma truncate_extend: "memory_event.truncate (memory_event.extend v m) = v"
  by (cases v) (simp add: memory_event.truncate_def memory_event.extend_def)

lemma extend_fields: "me_lineage (memory_event.extend v m) = me_lineage v"
  by (simp add: memory_event.extend_def)

lemma next_event_implements:
  assumes "implements C M k lg"
  shows "next_event C M k e = make_memory_event C k (int (length lg) + 1) (tip_of lg) e"
  using assms by (simp add: implements_def next_event_def tip_of_def)

lemma appends_implements:
  assumes impl: "implements C M k lg" and e: "memory_entry_ok C e" "belongs k e" and step: "appends C k e key M M'"
    and legal: "legal k e (dict_get (current M) k)"
  shows "implements C M' k (lg @ [(next_event C M k e, e)])"
proof -
  let ?v = "next_event C M k e"
  have v: "?v = make_memory_event C k (int (length lg) + 1) (tip_of lg) e" by (rule next_event_implements [OF impl])
  have "stream_log C k (lg @ [(?v, e)]) (project ?v e (dict_get (current M) k))"
    by (rule stream_log.Append [OF _ e legal v]) (use impl in \<open>simp add: implements_def\<close>)
  moreover have "stream_rows M' k = stream_rows M k @ [memory_event.extend ?v \<lparr>me_idempotency_key = key\<rparr>]"
    using step v by (simp add: appends_def Let_def stream_rows_def extend_fields)
  ultimately show ?thesis
    using impl step v by (simp add: implements_def appends_def Let_def truncate_extend tip_of_def)
qed

lemma appends_other:
  assumes "implements C M k' lg" and "appends C k e key M M'" and "k' \<noteq> k"
  shows "implements C M' k' lg"
proof -
  have "me_lineage (next_event C M k e) = k" by (simp add: next_event_def split: option.splits)
  then have "stream_rows M' k' = stream_rows M k'"
    using assms(2,3) by (simp add: appends_def Let_def stream_rows_def extend_fields)
  with assms show ?thesis by (simp add: implements_def appends_def Let_def)
qed

lemma steps_tables_ok:
  assumes "tables_ok C M" "memory_entry_ok C e" "belongs k e" "steps_stream C k e key expected M M'"
  shows "tables_ok C M'"
  unfolding tables_ok_def
proof (intro conjI allI)
  show "distinct (keys (current M'))"
    using assms(1,4) by (auto simp: tables_ok_def steps_stream_def appends_def Let_def)
next
  fix k'
  from assms(4) have step: "appends C k e key M M'" "legal k e (dict_get (current M) k)" by (simp_all add: steps_stream_def)
  from assms(1) obtain lg where lg: "implements C M k' lg" unfolding tables_ok_def by blast
  show "\<exists>lg. implements C M' k' lg"
  proof (cases "k' = k")
    case True
    with appends_implements [OF _ assms(2,3) step] lg show ?thesis by blast
  next
    case False
    with appends_other [OF lg step(1)] show ?thesis by blast
  qed
qed

lemma appends_grows: "appends C k e key M M' \<Longrightarrow> memory_grows M M'"
  by (simp add: appends_def memory_grows_def Let_def)

subsection \<open>Transactions\<close>

text \<open>A transaction keeps what its body establishes of the tables, or leaves them as they were.\<close>

lemma wp_memory_transaction:
  assumes "\<And>d r. wp body (\<lambda>a s'. P a (mem s')) (\<lambda>_ _. True) (s\<lparr>depth := d, rollback_only := r\<rparr>)"
    and "\<And>d. wp body (\<lambda>a s'. P a (mem s')) (\<lambda>_ _. True) (s\<lparr>depth := d\<rparr>)"
  shows "wp (memory_transaction body) (\<lambda>a s'. P a (mem s') \<and> (depth s = 0 \<longrightarrow> depth s' = 0))
     (\<lambda>_ s'. depth s = 0 \<longrightarrow> mem s' = mem s \<and> db s' = db s \<and> depth s' = 0) s"
  using assms(1) [where d = 1 and r = False] assms(2) [where d = "depth s + 1"]
  unfolding memory_transaction_def wp_def
  by (auto split: prod.splits sum.splits)

text \<open>What a successful append did.\<close>

definition appended :: "crypto \<Rightarrow> lineage \<Rightarrow> memory_entry \<Rightarrow> string \<Rightarrow> string option \<Rightarrow> memory_tables \<Rightarrow> memory_event \<Rightarrow> memory_tables \<Rightarrow> bool" where
  "appended C k e key expected M v M' \<longleftrightarrow> M' = M \<and> recorded_event C k e key M v
     \<or> v = next_event C M k e \<and> steps_stream C k e key expected M M'"

lemma append_guards_belong: "checked (append_guards k e key expected) () = Inr () \<Longrightarrow> belongs k e"
  by (cases k) (auto simp: append_guards_def belongs_def)

lemma wp_append_record:
  "wp (append_memory_record C k e key expected)
     (\<lambda>v s'. belongs k e \<and> appended C k e key expected (mem s) v (mem s') \<and> (depth s = 0 \<longrightarrow> depth s' = 0))
     (\<lambda>_ s'. depth s = 0 \<longrightarrow> mem s' = mem s \<and> db s' = db s \<and> depth s' = 0) s"
proof -
  have body: "wp (append_memory_event C k e key expected) (\<lambda>v s'. appended C k e key expected (mem s) v (mem s')) (\<lambda>_ _. True) t"
    if "mem t = mem s" for t
    by (rule wp_mono [OF wp_append_event]) (auto simp: appended_def that)
  have "wp (memory_transaction (append_memory_event C k e key expected))
     (\<lambda>v s'. appended C k e key expected (mem s) v (mem s') \<and> (depth s = 0 \<longrightarrow> depth s' = 0))
     (\<lambda>_ s'. depth s = 0 \<longrightarrow> mem s' = mem s \<and> db s' = db s \<and> depth s' = 0) s"
    by (rule wp_memory_transaction) (rule body, simp)+
  with append_guards_belong [of k e key expected] show ?thesis
    by (cases "checked (append_guards k e key expected) ()")
      (auto simp: append_memory_record_def wp_simps simp del: checked_Inr elim!: wp_mono)
qed

lemma appended_tables:
  assumes "tables_ok C M" "memory_entry_ok C e" "belongs k e" "appended C k e key expected M v M'"
  shows "tables_ok C M' \<and> memory_grows M M'"
proof -
  from assms(4) consider "M' = M" | "steps_stream C k e key expected M M'" by (auto simp: appended_def)
  then show ?thesis
  proof cases
    case 2
    then have "memory_grows M M'" using appends_grows [of C k e key M M'] by (simp add: steps_stream_def)
    with steps_tables_ok [OF assms(1-3) 2] show ?thesis by simp
  qed (simp add: assms(1))
qed

lemma wp_append_tables:
  assumes "tables_ok C (mem s)" "memory_entry_ok C e"
  shows "wp (append_memory_record C k e key expected)
     (\<lambda>_ s'. tables_ok C (mem s') \<and> memory_grows (mem s) (mem s') \<and> (depth s = 0 \<longrightarrow> depth s' = 0))
     (\<lambda>_ s'. depth s = 0 \<longrightarrow> mem s' = mem s \<and> depth s' = 0) s"
proof (rule wp_mono [OF wp_append_record])
  fix v s' assume *: "belongs k e \<and> appended C k e key expected (mem s) v (mem s') \<and> (depth s = 0 \<longrightarrow> depth s' = 0)"
  then show "tables_ok C (mem s') \<and> memory_grows (mem s) (mem s') \<and> (depth s = 0 \<longrightarrow> depth s' = 0)"
    using appended_tables [OF assms] by blast
qed simp

subsection \<open>The finalizer\<close>

lemma wp_store_op: "wp (store_op m) (\<lambda>_ s'. mem s' = mem s) (\<lambda>_ s'. mem s' = mem s) s"
  by (auto simp: wp_def store_op_def session.extend_def session.truncate_def split: prod.splits sum.splits)

lemma wp_append_facts:
  assumes "tables_ok C (mem s)" "\<forall>(i, f) \<in> set ifs. trusted_fact_ok C f"
  shows "wp (append_facts C key ifs) (\<lambda>_ s'. tables_ok C (mem s') \<and> memory_grows (mem s) (mem s')) (\<lambda>_ _. True) s"
  using assms
proof (induction ifs arbitrary: s)
  case Nil
  then show ?case by (simp add: wp_simps)
next
  case (Cons x ifs)
  obtain i f where x: "x = (i, f)" by force
  have "wp (append_memory_record C (fact_lineage f) (FactEntry f) (key @ '':fact:'' @ tf_lineage_id f) (fi_expected i))
      (\<lambda>_. wp (append_facts C key ifs) (\<lambda>_ s'. tables_ok C (mem s') \<and> memory_grows (mem s) (mem s')) (\<lambda>_ _. True)) (\<lambda>_ _. True) s"
  proof (rule wp_mono [OF wp_append_tables [OF Cons.prems(1)]])
    show "memory_entry_ok C (FactEntry f)" using Cons.prems(2) x by simp
    fix v and s' :: memory_session assume *: "tables_ok C (mem s') \<and> memory_grows (mem s) (mem s') \<and> (depth s = 0 \<longrightarrow> depth s' = 0)"
    then have "wp (append_facts C key ifs) (\<lambda>_ t. tables_ok C (mem t) \<and> memory_grows (mem s') (mem t)) (\<lambda>_ _. True) s'"
      by (intro Cons.IH) (use Cons.prems(2) in auto)
    then show "wp (append_facts C key ifs) (\<lambda>_ t. tables_ok C (mem t) \<and> memory_grows (mem s) (mem t)) (\<lambda>_ _. True) s'"
      by (rule wp_mono) (use * memory_grows_trans in auto)
  qed simp
  then show ?case by (simp add: x wp_sequence)
qed

lemma build_each_all: "build_each f xs = Inr ys \<Longrightarrow> list_all2 (\<lambda>x y. f x = Inr y) xs ys"
  by (induction xs arbitrary: ys) auto

lemma build_facts_ok:
  assumes "build_facts C q c = Inr fs"
  shows "list_all2 (\<lambda>i f. f = fact_of C c i \<and> trusted_fact_ok C f) (sort_inputs (fr_facts q)) fs"
  using assms
  by (auto simp: build_facts_def build_fact_def Let_def dest!: build_each_all elim!: list_all2_mono)

lemma wp_finalize:
  assumes "tables_ok (crypto.truncate E) (mem s)"
  shows "wp (finalize_memory E q key)
     (\<lambda>_ s'. tables_ok (crypto.truncate E) (mem s') \<and> memory_grows (mem s) (mem s') \<and> (depth s = 0 \<longrightarrow> depth s' = 0))
     (\<lambda>_ s'. depth s = 0 \<longrightarrow> mem s' = mem s \<and> db s' = db s \<and> depth s' = 0) s"
proof -
  let ?C = "crypto.truncate E" and ?P = "\<lambda>M. tables_ok (crypto.truncate E) M \<and> memory_grows (mem s) M"
  have body: "wp (thenE (record_closure E key c) (append_facts ?C key (zip (sort_inputs (fr_facts q)) fs))) (\<lambda>_ s'. ?P (mem s')) (\<lambda>_ _. True) t"
    if "build_facts ?C q c = Inr fs" "mem t = mem s" for c fs t
  proof -
    have "\<forall>(i, f) \<in> set (zip (sort_inputs (fr_facts q)) fs). trusted_fact_ok ?C f"
      using build_facts_ok [OF that(1)] by (auto simp: list_all2_iff)
    then have "wp (append_facts ?C key (zip (sort_inputs (fr_facts q)) fs)) (\<lambda>_ s'. ?P (mem s')) (\<lambda>_ _. True) u"
      if "mem u = mem s" for u
      using wp_append_facts [of ?C u] assms that by simp
    then have "wp (record_closure E key c) (\<lambda>_. wp (append_facts ?C key (zip (sort_inputs (fr_facts q)) fs)) (\<lambda>_ s'. ?P (mem s')) (\<lambda>_ _. True))
        (\<lambda>_ _. True) t"
      unfolding record_closure_def by (intro wp_mono [OF wp_store_op]) (simp_all add: \<open>mem t = mem s\<close>)
    then show ?thesis by (simp add: wp_simps)
  qed
  have "wp (memory_transaction (thenE (record_closure E key c) (append_facts ?C key (zip (sort_inputs (fr_facts q)) fs))))
     (\<lambda>_ s'. ?P (mem s') \<and> (depth s = 0 \<longrightarrow> depth s' = 0))
     (\<lambda>_ s'. depth s = 0 \<longrightarrow> mem s' = mem s \<and> db s' = db s \<and> depth s' = 0) s"
    if "build_facts ?C q c = Inr fs" for c fs
    by (rule wp_memory_transaction) (rule body [OF that], simp)+
  note run = this
  show ?thesis
  proof (cases "key = []")
    case False
    show ?thesis
    proof (cases "build_decision_closure ?C (fr_decision q) (fr_result q) (fr_evidence q) (fr_admissions q)
         (fr_policy_version q) (fr_rule_version q) (fr_memory_watermark q)")
      case (Inr c)
      show ?thesis
      proof (cases "build_facts ?C q c")
        case (Inr fs)
        from wp_mono [OF run [OF this]] show ?thesis
          using False \<open>build_decision_closure _ _ _ _ _ _ _ _ = Inr c\<close> Inr
          by (simp add: finalize_memory_def Let_def wp_simps)
      qed (use False Inr in \<open>simp add: finalize_memory_def Let_def wp_simps\<close>)
    qed (use False in \<open>simp add: finalize_memory_def Let_def wp_simps\<close>)
  qed (simp add: finalize_memory_def Let_def wp_simps)
qed

subsection \<open>Reachable sessions\<close>

text \<open>Any appends of valid records, finalizations and operations on the other tables of the database.\<close>

inductive memory_step :: "api_env \<Rightarrow> memory_session \<Rightarrow> memory_session \<Rightarrow> bool" for E :: api_env where
  Append: "memory_entry_ok (crypto.truncate E) e \<Longrightarrow>
    append_memory_record (crypto.truncate E) k e key expected s = (r, s') \<Longrightarrow> memory_step E s s'"
| Finalize: "finalize_memory E q key s = (r, s') \<Longrightarrow> memory_step E s s'"
| Control: "store_op (m :: unit op) s = (r, s') \<Longrightarrow> depth s' = 0 \<Longrightarrow> memory_step E s s'"

definition memory_reachable :: "api_env \<Rightarrow> memory_session \<Rightarrow> bool" where
  "memory_reachable E s \<longleftrightarrow> (memory_step E)\<^sup>*\<^sup>* fresh_memory_session s"

lemma memory_step_keeps:
  assumes "memory_step E s s'" "tables_ok (crypto.truncate E) (mem s)" "depth s = 0"
  shows "tables_ok (crypto.truncate E) (mem s') \<and> memory_grows (mem s) (mem s') \<and> depth s' = 0"
  using assms(1)
proof cases
  case (Append e k key expected r)
  with wp_append_tables [OF assms(2) Append(1), of k key expected] show ?thesis
    using assms(2,3) by (cases r) (auto simp: wp_def)
next
  case (Finalize q key r)
  with wp_finalize [OF assms(2), of q key] show ?thesis
    using assms(2,3) by (cases r) (auto simp: wp_def)
next
  case (Control m r)
  with wp_store_op [of m s] show ?thesis
    using assms(2) by (cases r) (auto simp: wp_def)
qed

lemma fresh_memory: "mem fresh_memory_session = empty_tables" "depth fresh_memory_session = 0"
  by (simp_all add: fresh_memory_session_def session.extend_def fresh_session_def)

lemma memory_steps_keep:
  assumes "(memory_step E)\<^sup>*\<^sup>* s s'" "tables_ok (crypto.truncate E) (mem s)" "depth s = 0"
  shows "tables_ok (crypto.truncate E) (mem s') \<and> memory_grows (mem s) (mem s') \<and> depth s' = 0"
  using assms by (induction rule: rtranclp_induct) (auto dest: memory_step_keeps intro: memory_grows_trans)

lemma empty_ok: "tables_ok C empty_tables"
  by (auto simp: tables_ok_def implements_def empty_tables_def stream_rows_def intro!: exI [of _ "[]"] stream_log.Empty)

lemma memory_reachable_ok:
  assumes "memory_reachable E s"
  shows "tables_ok (crypto.truncate E) (mem s)" "depth s = 0"
  using memory_steps_keep [of E fresh_memory_session s] assms empty_ok fresh_memory
  by (simp_all add: memory_reachable_def)

end
