(* ===== verification/MemoryVerify.thy ===== *)
theory MemoryVerify
  imports MemoryRun
begin

text \<open>
  \<open>verify_trusted_memory_stream\<close>: it accepts every stream that the store writes, and what it accepts is a
  numbered hash chain, so that the root of a stream fixes its whole history.
\<close>

subsection \<open>The batches of a stream\<close>

context hash_chain
begin

lemma chain_append: "chain p (es @ fs) \<longleftrightarrow> chain p es \<and> chain (head p es) fs"
  by (induction es arbitrary: p) (auto simp: head_def)

lemma head_append: "head p (es @ fs) = head (head p es) fs"
  by (simp add: head_def)

end

text \<open>What a single event of a stream satisfies by itself.\<close>

definition event_fine :: "crypto \<Rightarrow> lineage \<Rightarrow> memory_event \<Rightarrow> bool" where
  "event_fine C k v \<longleftrightarrow> me_lineage v = k \<and> me_record_sha256 v = sha256 C (me_record_bytes v)"

definition stream_fine :: "crypto \<Rightarrow> lineage \<Rightarrow> memory_event list \<Rightarrow> bool" where
  "stream_fine C k vs \<longleftrightarrow> memory_chain.chain C zero_digest vs \<and> memory_chain.numbered vs \<and> list_all (event_fine C k) vs"

lemma event_digest: "me_lineage v = k \<Longrightarrow> memory_event_digest C (event_body v) =
    memory_event_hash C k (me_sequence v) (me_event_type v) (me_record_sha256 v) (me_previous_hash v)"
  by (simp add: memory_event_digest_def event_body_def)

definition numbered_from :: "int \<Rightarrow> memory_event list \<Rightarrow> bool" where
  "numbered_from n vs \<longleftrightarrow> (\<forall>i < length vs. me_sequence (vs ! i) = n + int i + 1)"

lemma numbered_from_Cons: "numbered_from n (v # vs) \<longleftrightarrow> me_sequence v = n + 1 \<and> numbered_from (n + 1) vs"
  by (auto simp: numbered_from_def All_less_Suc2 algebra_simps)

lemma verify_batch_Cons:
  assumes "me_lineage v = k"
  shows "verify_batch C k (v # vs) (n, p) =
    (if event_fine C k v \<and> me_sequence v = n + 1 \<and> me_previous_hash v = p \<and> me_event_hash v = memory_event_digest C (event_body v)
     then verify_batch C k vs (n + 1, me_event_hash v) else None)"
proof -
  have "event_fine C k v \<longleftrightarrow> sha256 C (me_record_bytes v) = me_record_sha256 v" using assms by (auto simp: event_fine_def)
  then show ?thesis using event_digest [OF assms, of C] by simp
qed

lemma verify_batch_iff:
  assumes "list_all (\<lambda>v. me_lineage v = k) vs"
  shows "verify_batch C k vs (n, p) =
    (if memory_chain.chain C p vs \<and> list_all (event_fine C k) vs \<and> numbered_from n vs
     then Some (n + int (length vs), memory_chain.head p vs) else None)"
  using assms
proof (induction vs arbitrary: n p)
  case Nil
  then show ?case by (simp add: memory_chain.head_def numbered_from_def)
next
  case (Cons v vs)
  then have k: "me_lineage v = k" and IH: "verify_batch C k vs (n + 1, me_event_hash v) =
      (if memory_chain.chain C (me_event_hash v) vs \<and> list_all (event_fine C k) vs \<and> numbered_from (n + 1) vs
       then Some (n + 1 + int (length vs), memory_chain.head (me_event_hash v) vs) else None)" by simp_all
  have tip: "memory_chain.head p (v # vs) = memory_chain.head (me_event_hash v) vs"
    by (simp add: memory_chain.head_def)
  show ?case
    unfolding verify_batch_Cons [OF k] IH tip by (auto simp: numbered_from_Cons)
qed

lemma numbered_from_append:
  "numbered_from n (us @ vs) \<longleftrightarrow> numbered_from n us \<and> numbered_from (n + int (length us)) vs"
proof (induction us arbitrary: n)
  case Nil
  then show ?case by (simp add: numbered_from_def)
next
  case (Cons u us)
  then show ?case by (simp add: numbered_from_Cons algebra_simps)
qed

lemma numbered_from_mem: "numbered_from n vs \<Longrightarrow> v \<in> set vs \<Longrightarrow> me_sequence v \<le> n + int (length vs)"
  by (auto simp: numbered_from_def in_set_conv_nth)

text \<open>The events of a stream, in the order of their numbers; the primary key makes the numbers distinct.\<close>

definition listed :: "memory_tables \<Rightarrow> lineage \<Rightarrow> memory_event list" where
  "listed M k = map memory_event.truncate (sort_key me_sequence (stream_rows M k))"

definition keyed :: "memory_tables \<Rightarrow> lineage \<Rightarrow> bool" where
  "keyed M k \<longleftrightarrow> distinct (map me_sequence (stream_rows M k)) \<and> list_all (\<lambda>h. 0 < me_sequence h) (stream_rows M k)"

lemma truncate_fields [simp]:
  "me_sequence (memory_event.truncate h) = me_sequence h" "me_lineage (memory_event.truncate h) = me_lineage h"
  by (simp_all add: memory_event.truncate_def)

lemma list_history: "list_memory_history k n l M = take l (filter (\<lambda>v. n < me_sequence v) (listed M k))"
  by (simp add: list_memory_history_def listed_def filter_map comp_def take_map filter_sort)

lemma listed_increasing: "keyed M k \<Longrightarrow> sorted_wrt (<) (map me_sequence (listed M k))"
  by (simp add: keyed_def listed_def strict_sorted_iff comp_def distinct_map)

lemma listed_lineage: "list_all (\<lambda>v. me_lineage v = k) (listed M k)"
  by (simp add: listed_def stream_rows_def list_all_iff)

lemma after_batch:
  assumes incr: "sorted_wrt (<) (map me_sequence L)" and R: "filter (\<lambda>v. n < me_sequence v) L = us @ vs"
    and us: "numbered_from n us" "us \<noteq> []"
  shows "filter (\<lambda>v. n + int (length us) < me_sequence v) L = vs"
proof -
  have "sorted_wrt (<) (map me_sequence (us @ vs))"
    using incr by (simp only: R [symmetric] sorted_wrt_map) (rule sorted_wrt_filter)
  then have later: "me_sequence u < me_sequence v" if "u \<in> set us" "v \<in> set vs" for u v
    using that by (simp add: sorted_wrt_append)
  obtain u where u: "u \<in> set us" "me_sequence u = n + int (length us)"
    using us by (intro that [of "last us"]) (auto simp: numbered_from_def last_conv_nth of_nat_diff Suc_le_eq)
  have "filter (\<lambda>v. n + int (length us) < me_sequence v) L = filter (\<lambda>v. n + int (length us) < me_sequence v) (us @ vs)"
    unfolding R [symmetric] filter_filter by (rule filter_cong) auto
  also have "\<dots> = vs"
    using numbered_from_mem [OF us(1)] later [OF u(1)] u(2)
    by (auto simp: filter_empty_conv filter_id_conv not_less intro!: append_eq_conv_conj [THEN iffD2])
  finally show ?thesis .
qed

subsection \<open>What verification decides\<close>

lemma verify_batches_iff:
  assumes incr: "sorted_wrt (<) (map me_sequence (listed M k))"
    and R: "filter (\<lambda>v. n < me_sequence v) (listed M k) = R"
  shows "verify_batches C k M (n, p) =
    (if memory_chain.chain C p R \<and> list_all (event_fine C k) R \<and> numbered_from n R
     then Some (n + int (length R), memory_chain.head p R) else None)"
  using R
proof (induction "length R" arbitrary: n p R rule: less_induct)
  case less
  define us vs where "us = take 1000 R" and "vs = drop 1000 R"
  then have split: "R = us @ vs" by simp
  have read: "list_memory_history k n 1000 M = us" by (simp add: list_history less.prems us_def)
  show ?case
  proof (cases "R = []")
    case True
    then show ?thesis using read
      by (subst verify_batches.simps) (simp add: us_def numbered_from_def memory_chain.head_def)
  next
    case False
    then have us: "us \<noteq> []" by (simp add: us_def)
    have "set R \<subseteq> set (listed M k)" unfolding less.prems [symmetric] by simp
    then have "list_all (\<lambda>v. me_lineage v = k) us"
      using listed_lineage [of k M] split by (auto simp: list_all_iff)
    note batch = verify_batch_iff [OF this, of C n p]
    show ?thesis
    proof (cases "memory_chain.chain C p us \<and> list_all (event_fine C k) us \<and> numbered_from n us")
      case True
      then have "filter (\<lambda>v. n + int (length us) < me_sequence v) (listed M k) = vs"
        using after_batch [OF incr] less.prems split us by simp
      moreover have "length vs < length R" using us split by simp
      ultimately have "verify_batches C k M (n + int (length us), memory_chain.head p us) =
          (if memory_chain.chain C (memory_chain.head p us) vs \<and> list_all (event_fine C k) vs \<and> numbered_from (n + int (length us)) vs
           then Some (n + int (length us) + int (length vs), memory_chain.head (memory_chain.head p us) vs) else None)"
        by (intro less.hyps) auto
      with True batch read us show ?thesis
        by (subst verify_batches.simps)
          (simp add: split memory_chain.chain_append memory_chain.head_append numbered_from_append)
    next
      case no: False
      then have "\<not> (memory_chain.chain C p R \<and> list_all (event_fine C k) R \<and> numbered_from n R)"
        by (auto simp: split memory_chain.chain_append numbered_from_append)
      moreover from no have "verify_batch C k us (n, p) = None" by (simp only: batch if_False)
      ultimately show ?thesis using read us
        by (subst verify_batches.simps) (simp only: fst_conv Let_def option.case if_False)
    qed
  qed
qed

lemma verify_stream_iff:
  assumes "keyed M k"
  shows "verify_memory_stream C k M \<longleftrightarrow> stream_fine C k (listed M k) \<and>
    (case dict_get (streams M) k of None \<Rightarrow> listed M k = []
     | Some (n, tip) \<Rightarrow> n = int (length (listed M k)) \<and> tip = memory_chain.head zero_digest (listed M k))"
proof -
  have "filter (\<lambda>v. 0 < me_sequence v) (listed M k) = listed M k"
    using assms by (auto simp: keyed_def listed_def list_all_iff filter_id_conv)
  note batches = verify_batches_iff [OF listed_increasing [OF assms] this, of C zero_digest]
  have "numbered_from 0 vs \<longleftrightarrow> memory_chain.numbered vs" for vs
    by (simp add: numbered_from_def memory_chain.numbered_def)
  then show ?thesis
    by (auto simp: verify_memory_stream_def batches stream_fine_def memory_chain.head_def split: option.splits)
qed

subsection \<open>Written streams\<close>

lemma implements_listed:
  assumes "implements C M k lg"
  shows "keyed M k" "listed M k = map fst lg" "stream_fine C k (listed M k)"
proof -
  from assms have rows: "map memory_event.truncate (stream_rows M k) = map fst lg"
    and "stream_log C k lg (dict_get (current M) k)" by (simp_all add: implements_def)
  note events = stream_log_events [OF this(2)]
  from rows have seq: "map me_sequence (stream_rows M k) = map me_sequence (map fst lg)"
    by (metis (no_types, lifting) list.map_comp comp_apply map_eq_conv truncate_fields(1))
  have nth: "map me_sequence (map fst lg) = map int [1..<length lg + 1]"
    using events(2) by (intro nth_equalityI) (simp_all add: memory_chain.numbered_def del: upt_Suc)
  show keyed: "keyed M k"
    unfolding keyed_def
  proof
    show "distinct (map me_sequence (stream_rows M k))" unfolding seq nth by (simp add: distinct_map del: upt_Suc)
    have "\<forall>n \<in> set (map me_sequence (stream_rows M k)). 0 < n" unfolding seq nth by auto
    then show "list_all (\<lambda>h. 0 < me_sequence h) (stream_rows M k)" by (simp add: list_all_iff)
  qed
  have "sorted (map me_sequence (stream_rows M k))" unfolding seq nth by (simp add: sorted_map del: upt_Suc)
  then show listed: "listed M k = map fst lg" using rows by (simp add: listed_def sort_key_id_if_sorted)
  show "stream_fine C k (listed M k)"
    unfolding listed stream_fine_def using events by (auto simp: list_all_iff event_fine_def)
qed

lemma stream_accepted:
  assumes "implements C M k lg"
  shows "verify_memory_stream C k M"
  using implements_listed [OF assms] assms
  by (auto simp: verify_stream_iff implements_def memory_chain.head_def tip_of_def last_map)

text \<open>The root of an accepted stream fixes its events, or SHA-256 gave two contents one digest.\<close>

definition sha_collision :: "crypto \<Rightarrow> memory_event \<Rightarrow> memory_event \<Rightarrow> bool" where
  "sha_collision C u v \<longleftrightarrow> (me_record_bytes u \<noteq> me_record_bytes v \<and> sha256 C (me_record_bytes u) = sha256 C (me_record_bytes v))
     \<or> (let body = \<lambda>w. event_body_json (me_lineage w) (me_sequence w) (me_event_type w) (me_record_sha256 w) (me_previous_hash w) in
        body u \<noteq> body v \<and> domain_digest C ''trusted-memory-history-event'' (body u)
          = domain_digest C ''trusted-memory-history-event'' (body v))"

lemma chain_collision:
  assumes "event_fine C k u" "event_fine C k v" "event_body u \<noteq> event_body v"
    and "memory_event_digest C (event_body u) = memory_event_digest C (event_body v)"
  shows "sha_collision C u v"
proof (rule ccontr)
  assume no: "\<not> sha_collision C u v"
  then have "me_sequence u = me_sequence v" "me_event_type u = me_event_type v" "me_record_sha256 u = me_record_sha256 v"
    "me_previous_hash u = me_previous_hash v"
    using assms(1,2,4)
    by (auto simp: sha_collision_def Let_def memory_event_digest_def memory_event_hash_def event_body_def event_body_json_def
      event_fine_def split: prod.splits)
  moreover from this have "me_record_bytes u = me_record_bytes v"
    using no assms(1,2) by (auto simp: sha_collision_def event_fine_def)
  ultimately have "event_body u = event_body v"
    using assms(1,2) by (cases u; cases v) (simp add: event_body_def event_fine_def)
  with assms(3) show False by simp
qed

lemma same_root_same_stream:
  assumes "stream_fine C k us" "stream_fine C k vs" "length us = length vs"
    and "memory_chain.head zero_digest us = memory_chain.head zero_digest vs"
  shows "us = vs \<or> (\<exists>u \<in> set us. \<exists>v \<in> set vs. sha_collision C u v)"
proof -
  have "us = vs \<or> memory_chain.collision C us vs"
    using assms by (intro memory_chain.same_head_same_chain [of C zero_digest]) (simp_all add: stream_fine_def)
  moreover have "\<exists>u \<in> set us. \<exists>v \<in> set vs. sha_collision C u v" if "memory_chain.collision C us vs"
    using that chain_collision [of C k] assms(1,2)
    by (fastforce simp: memory_chain.collision_def stream_fine_def list_all_iff)
  ultimately show ?thesis by blast
qed

end
