(* ===== verification/MemoryRetrieval.thy ===== *)
theory MemoryRetrieval
  imports MemoryStore
begin

text \<open>
  Reading the trusted memory: exact retrieval (\<open>trusted_memory/retrieval.py\<close>, \<open>trusted_memory/service.py\<close>),
  byte-budgeted evidence capsules (\<open>trusted_memory/capsule.py\<close>) and the project-level source of the focus
  service (\<open>trusted_memory/focus_contracts.py\<close>, \<open>trusted_memory/focus_service.py\<close>).

  \<open>model_json\<close> is the JSON parser inside Pydantic, which \<open>model_validate_json\<close> applies to stored bytes.
  A model that cannot be built raises \<open>ValueError\<close>.
\<close>

record reader_env = crypto +
  model_json :: "string \<Rightarrow> json option"

definition load_fact :: "reader_env \<Rightarrow> string \<Rightarrow> trusted_fact option" where
  "load_fact E bytes = Option.bind (model_json E bytes) (read_trusted_fact (crypto.truncate E))"

definition sorted_values :: "('a \<Rightarrow> string) \<Rightarrow> 'a list \<Rightarrow> bool" where
  "sorted_values value_of xs \<longleftrightarrow> sorted_unique (map value_of xs)"

subsection \<open>Exact retrieval\<close>

record retrieval_query =
  rq_tenant_id :: string
  rq_project_id :: string
  rq_component :: string
  rq_version :: string
  rq_outcomes :: "decision_outcome list"
  rq_origins :: "memory_origin list"

definition retrieval_query_ok :: "retrieval_query \<Rightarrow> bool" where
  "retrieval_query_ok q \<longleftrightarrow> list_all (text_ok 1 200) [rq_tenant_id q, rq_project_id q, rq_component q]
     \<and> text_ok 1 120 (rq_version q) \<and> rq_outcomes q \<noteq> [] \<and> rq_origins q \<noteq> []
     \<and> sorted_values outcome_value (rq_outcomes q) \<and> sorted_values origin_value (rq_origins q)"

definition retrieval_query_json :: "retrieval_query \<Rightarrow> json" where
  "retrieval_query_json q = JObj [(''tenant_id'', JStr (rq_tenant_id q)), (''project_id'', JStr (rq_project_id q)),
     (''component'', JStr (rq_component q)), (''version'', JStr (rq_version q)),
     (''outcomes'', JList (map (JStr \<circ> outcome_value) (rq_outcomes q))),
     (''origins'', JList (map (JStr \<circ> origin_value) (rq_origins q)))]"

record retrieval_item =
  ri_revision_id :: string
  ri_lineage_id :: string
  ri_fact_digest :: string
  ri_statement :: string
  ri_outcome :: decision_outcome
  ri_origin :: memory_origin
  ri_evidence_ids :: "string list"
  ri_evidence_digests :: "string list"
  ri_closure_digest :: string
  ri_provenance_digest :: string

definition retrieval_item_json :: "retrieval_item \<Rightarrow> json" where
  "retrieval_item_json i = JObj [(''revision_id'', JStr (ri_revision_id i)), (''lineage_id'', JStr (ri_lineage_id i)),
     (''fact_digest'', JStr (ri_fact_digest i)), (''statement'', JStr (ri_statement i)),
     (''outcome'', JStr (outcome_value (ri_outcome i))), (''origin'', JStr (origin_value (ri_origin i))),
     (''evidence_ids'', JList (map JStr (ri_evidence_ids i))), (''evidence_digests'', JList (map JStr (ri_evidence_digests i))),
     (''closure_digest'', JStr (ri_closure_digest i)), (''provenance_digest'', JStr (ri_provenance_digest i))]"

record retrieval_result =
  rs_query :: retrieval_query
  rs_items :: "retrieval_item list"
  rs_digest :: string

definition retrieval_core_json :: "retrieval_query \<Rightarrow> retrieval_item list \<Rightarrow> json" where
  "retrieval_core_json q is = JObj [(''schema_version'', JStr ''egoagentos-retrieval-result/v1''),
     (''query'', retrieval_query_json q), (''items'', JList (map retrieval_item_json is))]"

definition provenance_digest :: "crypto \<Rightarrow> trusted_fact \<Rightarrow> string" where
  "provenance_digest C f = domain_digest C ''trusted-memory-fact-provenance'' (provenance_json (tf_provenance f))"

text \<open>The statement of a valid fact decodes, because the validator of the core has decoded it.\<close>

definition fact_statement :: "trusted_fact \<Rightarrow> string" where
  "fact_statement f = (case b64_decode (fc_statement_utf8_base64 (tf_core f)) of None \<Rightarrow> [] | Some s \<Rightarrow> s)"

definition item_of :: "crypto \<Rightarrow> trusted_fact \<Rightarrow> retrieval_item" where
  "item_of C f = \<lparr>ri_revision_id = tf_revision_id f, ri_lineage_id = tf_lineage_id f, ri_fact_digest = tf_trusted_fact_digest f,
     ri_statement = fact_statement f, ri_outcome = tf_outcome f, ri_origin = tf_origin f,
     ri_evidence_ids = pv_evidence_ids (tf_provenance f), ri_evidence_digests = pv_evidence_digests (tf_provenance f),
     ri_closure_digest = pv_decision_closure_digest (tf_provenance f), ri_provenance_digest = provenance_digest C f\<rparr>"

datatype stored_memory = StoredFact trusted_fact | StoredView legacy_view

fun matches_query :: "retrieval_query \<Rightarrow> stored_memory \<Rightarrow> trusted_fact list" where
  "matches_query q (StoredView v) = []"
| "matches_query q (StoredFact f) =
     (if tf_state f \<noteq> Validated then []
      else if \<not> trusted_origin (tf_origin f) then []
      else if sc_tenant_id (tf_scope f) \<noteq> rq_tenant_id q \<or> sc_project_id (tf_scope f) \<noteq> rq_project_id q
        \<or> sc_component (tf_scope f) \<noteq> rq_component q \<or> sc_version (tf_scope f) \<noteq> rq_version q
        \<or> tf_outcome f \<notin> set (rq_outcomes q) \<or> tf_origin f \<notin> set (rq_origins q) then []
      else [f])"

definition retrieve_exact :: "crypto \<Rightarrow> stored_memory list \<Rightarrow> retrieval_query \<Rightarrow> retrieval_result" where
  "retrieve_exact C records q =
     (let is = map (item_of C) (sort_key tf_revision_id (concat (map (matches_query q) records))) in
      \<lparr>rs_query = q, rs_items = is, rs_digest = domain_digest C ''trusted-memory-retrieval'' (retrieval_core_json q is)\<rparr>)"

text \<open>\<open>TrustedMemoryService.retrieve\<close>: the current eligible facts of the lineages asked for.\<close>

fun load_lineages :: "reader_env \<Rightarrow> memory_tables \<Rightarrow> retrieval_query \<Rightarrow> string list \<Rightarrow> api_error + stored_memory list" where
  "load_lineages E M q [] = Inr []"
| "load_lineages E M q (l # ls) =
     (case get_current_fact (rq_tenant_id q, rq_project_id q, l) M of
        None \<Rightarrow> load_lineages E M q ls
      | Some c \<Rightarrow> (case load_fact E (cu_fact_bytes c) of
           None \<Rightarrow> Inl (ValueError ''TrustedFact'')
         | Some f \<Rightarrow> bindR (load_lineages E M q ls) (\<lambda>fs. Inr (StoredFact f # fs))))"

definition retrieve_memories :: "reader_env \<Rightarrow> string list \<Rightarrow> retrieval_query \<Rightarrow> memory_tables \<Rightarrow> api_error + retrieval_result" where
  "retrieve_memories E lineages q M =
     bindR (load_lineages E M q (sort (remdups lineages))) (\<lambda>fs. Inr (retrieve_exact (crypto.truncate E) fs q))"

subsection \<open>Evidence capsules\<close>

record capsule_item =
  ci_revision_id :: string
  ci_fact_digest :: string
  ci_statement :: string
  ci_evidence_ids :: "string list"
  ci_evidence_digests :: "string list"
  ci_closure_digest :: string
  ci_provenance_digest :: string

definition capsule_item_json :: "capsule_item \<Rightarrow> json" where
  "capsule_item_json i = JObj [(''revision_id'', JStr (ci_revision_id i)), (''fact_digest'', JStr (ci_fact_digest i)),
     (''statement'', JStr (ci_statement i)), (''evidence_ids'', JList (map JStr (ci_evidence_ids i))),
     (''evidence_digests'', JList (map JStr (ci_evidence_digests i))), (''closure_digest'', JStr (ci_closure_digest i)),
     (''provenance_digest'', JStr (ci_provenance_digest i))]"

definition capsule_item_of :: "retrieval_item \<Rightarrow> capsule_item" where
  "capsule_item_of i = \<lparr>ci_revision_id = ri_revision_id i, ci_fact_digest = ri_fact_digest i, ci_statement = ri_statement i,
     ci_evidence_ids = ri_evidence_ids i, ci_evidence_digests = ri_evidence_digests i,
     ci_closure_digest = ri_closure_digest i, ci_provenance_digest = ri_provenance_digest i\<rparr>"

record evidence_capsule =
  ec_retrieval_digest :: string
  ec_items :: "capsule_item list"
  ec_truncated :: bool
  ec_root_digest :: string

definition capsule_members :: "string \<Rightarrow> capsule_item list \<Rightarrow> bool \<Rightarrow> (string \<times> json) list" where
  "capsule_members digest is truncated = [(''schema_version'', JStr ''egoagentos-evidence-capsule/v1''),
     (''retrieval_digest'', JStr digest), (''items'', JList (map capsule_item_json is)), (''truncated'', JBool truncated)]"

definition capsule_json :: "evidence_capsule \<Rightarrow> json" where
  "capsule_json c = JObj (capsule_members (ec_retrieval_digest c) (ec_items c) (ec_truncated c)
     @ [(''root_digest'', JStr (ec_root_digest c))])"

definition capsule_root :: "crypto \<Rightarrow> evidence_capsule \<Rightarrow> string" where
  "capsule_root C c = domain_digest C ''trusted-memory-evidence-capsule''
     (JObj (capsule_members (ec_retrieval_digest c) (ec_items c) (ec_truncated c)))"

definition make_capsule :: "crypto \<Rightarrow> capsule_item list \<Rightarrow> retrieval_result \<Rightarrow> evidence_capsule" where
  "make_capsule C is r = (let c = \<lparr>ec_retrieval_digest = rs_digest r, ec_items = is,
       ec_truncated = (length is < length (rs_items r)), ec_root_digest = []\<rparr> in c\<lparr>ec_root_digest := capsule_root C c\<rparr>)"

definition capsule_size :: "crypto \<Rightarrow> evidence_capsule \<Rightarrow> nat" where
  "capsule_size C c = length (canonical_bytes C (capsule_json c))"

fun fill_capsule :: "crypto \<Rightarrow> retrieval_result \<Rightarrow> int \<Rightarrow> capsule_item list \<Rightarrow> retrieval_item list \<Rightarrow> capsule_item list" where
  "fill_capsule C r max_bytes selected [] = selected"
| "fill_capsule C r max_bytes selected (i # is) =
     (if int (capsule_size C (make_capsule C (selected @ [capsule_item_of i]) r)) > max_bytes then selected
      else fill_capsule C r max_bytes (selected @ [capsule_item_of i]) is)"

definition build_evidence_capsule :: "crypto \<Rightarrow> retrieval_result \<Rightarrow> int \<Rightarrow> int \<Rightarrow> api_error + evidence_capsule" where
  "build_evidence_capsule C r max_bytes max_items =
     bindR (checked
       [(max_bytes < 256, ValueError ''max_bytes must be at least 256''),
        (max_items < 0, ValueError ''max_items must be non-negative''),
        (int (capsule_size C (make_capsule C [] r)) > max_bytes, ValueError ''max_bytes cannot hold an empty capsule'')] ())
     (\<lambda>_. Inr (make_capsule C (fill_capsule C r max_bytes [] (take (nat max_items) (rs_items r))) r))"

subsection \<open>Focus sources\<close>

record evidence_commitment =
  fo_closure_digest :: string
  fo_evidence_ids :: "string list"
  fo_evidence_digests :: "string list"
  fo_commitment :: string

definition commitment_members :: "string \<Rightarrow> string list \<Rightarrow> string list \<Rightarrow> (string \<times> json) list" where
  "commitment_members closure ids digests = [(''schema_version'', JStr ''egoagentos-focus-evidence-commitment/v1''),
     (''association'', JStr ''UNPAIRED_SETS_BOUND_BY_DECISION_CLOSURE''), (''decision_closure_digest'', JStr closure),
     (''evidence_ids'', JList (map JStr ids)), (''evidence_digests'', JList (map JStr digests))]"

definition commitment_digest :: "crypto \<Rightarrow> string \<Rightarrow> string list \<Rightarrow> string list \<Rightarrow> string" where
  "commitment_digest C closure ids digests =
     domain_digest C ''trusted-memory-focus-evidence-commitment'' (JObj (commitment_members closure ids digests))"

definition commitment_json :: "evidence_commitment \<Rightarrow> json" where
  "commitment_json c = JObj (commitment_members (fo_closure_digest c) (fo_evidence_ids c) (fo_evidence_digests c)
     @ [(''commitment_sha256'', JStr (fo_commitment c))])"

definition commitment_ok :: "crypto \<Rightarrow> evidence_commitment \<Rightarrow> bool" where
  "commitment_ok C c \<longleftrightarrow> is_sha256_digest (fo_closure_digest c) \<and> fo_evidence_ids c \<noteq> [] \<and> fo_evidence_digests c \<noteq> []
     \<and> list_all (text_ok 1 200) (fo_evidence_ids c) \<and> sorted_unique (fo_evidence_ids c)
     \<and> list_all is_sha256_digest (fo_evidence_digests c) \<and> sorted_unique (fo_evidence_digests c)
     \<and> is_sha256_digest (fo_commitment c) \<and> length (fo_evidence_ids c) = length (fo_evidence_digests c)
     \<and> fo_commitment c = commitment_digest C (fo_closure_digest c) (fo_evidence_ids c) (fo_evidence_digests c)
     \<and> float_free (commitment_json c)"

definition build_commitment :: "crypto \<Rightarrow> string list \<Rightarrow> string list \<Rightarrow> string \<Rightarrow> api_error + evidence_commitment" where
  "build_commitment C ids digests closure =
     (let c = \<lparr>fo_closure_digest = closure, fo_evidence_ids = sort ids, fo_evidence_digests = sort digests,
          fo_commitment = commitment_digest C closure (sort ids) (sort digests)\<rparr> in
      checked [(\<not> commitment_ok C c, ValueError ''FocusEvidenceCommitment'')] c)"

record focus_query =
  fq_tenant_id :: string
  fq_project_id :: string
  fq_outcomes :: "decision_outcome list"
  fq_origins :: "memory_origin list"
  fq_max_items :: int
  fq_scan_limit :: int

text \<open>\<open>normalize_filters\<close>: sorted by value, without repetitions.\<close>

definition normal_filter :: "('a \<Rightarrow> string) \<Rightarrow> 'a list \<Rightarrow> 'a list" where
  "normal_filter value_of xs = sort_key value_of (remdups xs)"

definition focus_query_ok :: "focus_query \<Rightarrow> bool" where
  "focus_query_ok q \<longleftrightarrow> text_ok 1 200 (fq_tenant_id q) \<and> text_ok 1 200 (fq_project_id q) \<and> fq_outcomes q \<noteq> []
     \<and> fq_origins q \<noteq> [] \<and> in_range 1 256 (fq_max_items q) \<and> in_range 1 5000 (fq_scan_limit q)
     \<and> fq_outcomes q = normal_filter outcome_value (fq_outcomes q) \<and> fq_origins q = normal_filter origin_value (fq_origins q)
     \<and> list_all trusted_origin (fq_origins q) \<and> utf8_valid (fq_tenant_id q) \<and> utf8_valid (fq_project_id q)"

definition focus_query_json :: "focus_query \<Rightarrow> json" where
  "focus_query_json q = JObj [(''tenant_id'', JStr (fq_tenant_id q)), (''project_id'', JStr (fq_project_id q)),
     (''outcomes'', JList (map (JStr \<circ> outcome_value) (fq_outcomes q))),
     (''origins'', JList (map (JStr \<circ> origin_value) (fq_origins q))), (''max_items'', JInt (fq_max_items q)),
     (''scan_limit'', JInt (fq_scan_limit q))]"

record focus_fact =
  ff_fact_sha256 :: string
  ff_tenant_id :: string
  ff_project_id :: string
  ff_lineage_id :: string
  ff_revision_id :: string
  ff_revision :: int
  ff_fact_kind :: string
  ff_statement :: string
  ff_component :: string
  ff_version :: string
  ff_outcome :: decision_outcome
  ff_origin :: memory_origin
  ff_commitment :: evidence_commitment
  ff_provenance_sha256 :: string
  ff_projection_event_hash :: string

definition focus_fact_json :: "focus_fact \<Rightarrow> json" where
  "focus_fact_json f = JObj [(''fact_sha256'', JStr (ff_fact_sha256 f)), (''tenant_id'', JStr (ff_tenant_id f)),
     (''project_id'', JStr (ff_project_id f)), (''lineage_id'', JStr (ff_lineage_id f)),
     (''revision_id'', JStr (ff_revision_id f)), (''revision'', JInt (ff_revision f)), (''fact_kind'', JStr (ff_fact_kind f)),
     (''statement'', JStr (ff_statement f)), (''component'', JStr (ff_component f)), (''version'', JStr (ff_version f)),
     (''outcome'', JStr (outcome_value (ff_outcome f))), (''origin'', JStr (origin_value (ff_origin f))),
     (''evidence_commitment'', commitment_json (ff_commitment f)), (''provenance_sha256'', JStr (ff_provenance_sha256 f)),
     (''projection_event_hash'', JStr (ff_projection_event_hash f))]"

definition focus_fact_ok :: "crypto \<Rightarrow> focus_fact \<Rightarrow> bool" where
  "focus_fact_ok C f \<longleftrightarrow> is_sha256_digest (ff_fact_sha256 f)
     \<and> list_all (text_ok 1 200) [ff_tenant_id f, ff_project_id f, ff_lineage_id f, ff_revision_id f, ff_component f]
     \<and> 1 \<le> ff_revision f \<and> text_ok 1 160 (ff_fact_kind f) \<and> text_ok 1 4096 (ff_statement f) \<and> text_ok 1 120 (ff_version f)
     \<and> commitment_ok C (ff_commitment f) \<and> is_sha256_digest (ff_provenance_sha256 f)
     \<and> is_sha256_digest (ff_projection_event_hash f) \<and> trusted_origin (ff_origin f)
     \<and> char_of (0 :: nat) \<notin> set (ff_statement f) \<and> float_free (focus_fact_json f)"

record focus_source =
  fs_query :: focus_query
  fs_facts :: "focus_fact list"
  fs_scanned_count :: int
  fs_matching_count :: int
  fs_truncated_by_scan_limit :: bool
  fs_truncated_by_max_items :: bool
  fs_snapshot_root :: string
  fs_source_sha256 :: string

text \<open>Ordered by fact digest, then lineage.\<close>

definition sort_facts :: "focus_fact list \<Rightarrow> focus_fact list" where
  "sort_facts fs = sort_key ff_fact_sha256 (sort_key ff_lineage_id fs)"

definition focus_core_json :: "focus_source \<Rightarrow> json" where
  "focus_core_json s = JObj [(''schema_version'', JStr ''egoagentos-trusted-memory-focus-source/v1''),
     (''query'', focus_query_json (fs_query s)), (''facts'', JList (map focus_fact_json (fs_facts s))),
     (''scanned_count'', JInt (fs_scanned_count s)), (''matching_count'', JInt (fs_matching_count s)),
     (''truncated_by_scan_limit'', JBool (fs_truncated_by_scan_limit s)),
     (''truncated_by_max_items'', JBool (fs_truncated_by_max_items s)), (''memory_snapshot_root'', JStr (fs_snapshot_root s))]"

definition focus_source_ok :: "crypto \<Rightarrow> focus_source \<Rightarrow> bool" where
  "focus_source_ok C s \<longleftrightarrow> focus_query_ok (fs_query s) \<and> list_all (focus_fact_ok C) (fs_facts s)
     \<and> 0 \<le> fs_scanned_count s \<and> 0 \<le> fs_matching_count s \<and> is_sha256_digest (fs_snapshot_root s)
     \<and> is_sha256_digest (fs_source_sha256 s) \<and> fs_matching_count s \<le> fs_scanned_count s
     \<and> int (length (fs_facts s)) \<le> fs_matching_count s
     \<and> (fs_truncated_by_max_items s \<longleftrightarrow> int (length (fs_facts s)) < fs_matching_count s)
     \<and> fs_facts s = sort_facts (fs_facts s)
     \<and> distinct (map ff_fact_sha256 (fs_facts s)) \<and> distinct (map ff_lineage_id (fs_facts s))
     \<and> list_all (\<lambda>f. ff_tenant_id f = fq_tenant_id (fs_query s) \<and> ff_project_id f = fq_project_id (fs_query s)
          \<and> ff_outcome f \<in> set (fq_outcomes (fs_query s)) \<and> ff_origin f \<in> set (fq_origins (fs_query s))) (fs_facts s)
     \<and> fs_source_sha256 s = domain_digest C ''trusted-memory-focus-source'' (focus_core_json s)
     \<and> float_free (focus_core_json s)"

definition snapshot_root :: "crypto \<Rightarrow> focus_fact list \<Rightarrow> string" where
  "snapshot_root C fs = domain_digest C ''trusted-memory-focus-snapshot''
     (JList (map (\<lambda>f. JList [JStr (ff_lineage_id f), JInt (ff_revision f), JStr (ff_fact_sha256 f),
        JStr (ff_projection_event_hash f)]) fs))"

definition focus_source_guards :: "focus_query \<Rightarrow> focus_fact list \<Rightarrow> int \<Rightarrow> int \<Rightarrow> (bool \<times> api_error) list" where
  "focus_source_guards q fs scanned matching =
     [(\<not> distinct (map ff_fact_sha256 fs), ValueError ''focus source contains duplicate fact digests''),
      (\<not> distinct (map ff_lineage_id fs), ValueError ''focus source contains duplicate lineages''),
      (\<not> list_all (\<lambda>f. ff_tenant_id f = fq_tenant_id q \<and> ff_project_id f = fq_project_id q) fs,
       ValueError ''focus source fact scope does not match query''),
      (\<not> list_all (\<lambda>f. ff_outcome f \<in> set (fq_outcomes q) \<and> ff_origin f \<in> set (fq_origins q)) fs,
       ValueError ''focus source fact is outside the query filters''),
      (matching < int (length fs), ValueError ''matching_count cannot be smaller than supplied facts''),
      (scanned < matching, ValueError ''scanned_count cannot be smaller than matching_count'')]"

definition build_focus_source :: "crypto \<Rightarrow> focus_query \<Rightarrow> focus_fact list \<Rightarrow> int \<Rightarrow> bool \<Rightarrow> int \<Rightarrow> api_error + focus_source" where
  "build_focus_source C q facts scanned truncated matching =
     (let ordered = sort_facts facts; selected = take (nat (fq_max_items q)) ordered in
      bindR (checked (focus_source_guards q ordered scanned matching) ()) (\<lambda>_.
        let s = \<lparr>fs_query = q, fs_facts = selected, fs_scanned_count = scanned, fs_matching_count = matching,
              fs_truncated_by_scan_limit = truncated, fs_truncated_by_max_items = (int (length selected) < matching),
              fs_snapshot_root = snapshot_root C ordered, fs_source_sha256 = []\<rparr>;
            s' = s\<lparr>fs_source_sha256 := domain_digest C ''trusted-memory-focus-source'' (focus_core_json s)\<rparr> in
        checked [(\<not> focus_source_ok C s', ValueError ''TrustedMemoryFocusSource'')] s'))"

subsection \<open>The focus service\<close>

text \<open>\<open>WHERE tenant_id=? AND project_id=? AND eligible=1 ORDER BY lineage_id\<close>.\<close>

definition eligible_rows :: "memory_tables \<Rightarrow> string \<Rightarrow> string \<Rightarrow> (lineage \<times> current_row) list" where
  "eligible_rows M tenant project = sort_key (\<lambda>(k, c). snd (snd k))
     (filter (\<lambda>(k, c). fst k = tenant \<and> fst (snd k) = project \<and> cu_eligible c) (current M))"

definition scan_current :: "string \<Rightarrow> focus_query \<Rightarrow> memory_tables \<Rightarrow> api_error + (lineage \<times> current_row) list \<times> bool" where
  "scan_current tenant q M =
     bindR (checked [(fq_tenant_id q \<noteq> tenant, ControlPlaneError ''trusted_memory_tenant_forbidden'')] ()) (\<lambda>_.
       let limit = nat (fq_scan_limit q); rows = take (limit + 1) (eligible_rows M (fq_tenant_id q) (fq_project_id q)) in
       Inr (take limit rows, limit < length rows))"

definition projection_row_matches :: "lineage \<Rightarrow> current_row \<Rightarrow> trusted_fact \<Rightarrow> bool" where
  "projection_row_matches k c f \<longleftrightarrow> k = (sc_tenant_id (tf_scope f), sc_project_id (tf_scope f), tf_lineage_id f)
     \<and> cu_revision_id c = tf_revision_id f \<and> cu_revision c = tf_revision f \<and> cu_fact_digest c = tf_trusted_fact_digest f
     \<and> cu_state c = tf_state f \<and> cu_eligible c"

definition focus_fact_of :: "crypto \<Rightarrow> current_row \<Rightarrow> trusted_fact \<Rightarrow> api_error + focus_fact" where
  "focus_fact_of C c f =
     bindR (build_commitment C (pv_evidence_ids (tf_provenance f)) (pv_evidence_digests (tf_provenance f))
        (pv_decision_closure_digest (tf_provenance f))) (\<lambda>commitment.
     let x = \<lparr>ff_fact_sha256 = tf_trusted_fact_digest f, ff_tenant_id = sc_tenant_id (tf_scope f),
          ff_project_id = sc_project_id (tf_scope f), ff_lineage_id = tf_lineage_id f, ff_revision_id = tf_revision_id f,
          ff_revision = tf_revision f, ff_fact_kind = fc_fact_kind (tf_core f), ff_statement = fact_statement f,
          ff_component = sc_component (tf_scope f), ff_version = sc_version (tf_scope f), ff_outcome = tf_outcome f,
          ff_origin = tf_origin f, ff_commitment = commitment, ff_provenance_sha256 = provenance_digest C f,
          ff_projection_event_hash = cu_projection_event_hash c\<rparr> in
     checked [(\<not> focus_fact_ok C x, ValueError ''TrustedFocusFact'')] x)"

definition focus_row :: "reader_env \<Rightarrow> focus_query \<Rightarrow> lineage \<times> current_row \<Rightarrow> api_error + focus_fact list" where
  "focus_row E q row = (case row of (k, c) \<Rightarrow>
     (case load_fact E (cu_fact_bytes c) of
        None \<Rightarrow> Inl (ControlPlaneError ''trusted_memory_projection_invalid'')
      | Some f \<Rightarrow>
         if \<not> projection_row_matches k c f \<or> tf_state f \<noteq> Validated \<or> \<not> trusted_origin (tf_origin f)
           \<or> sc_tenant_id (tf_scope f) \<noteq> fq_tenant_id q \<or> sc_project_id (tf_scope f) \<noteq> fq_project_id q
         then Inl (ControlPlaneError ''trusted_memory_projection_invalid'')
         else if tf_outcome f \<notin> set (fq_outcomes q) \<or> tf_origin f \<notin> set (fq_origins q) then Inr []
         else (case focus_fact_of (crypto.truncate E) c f of
            Inl e \<Rightarrow> Inl (ControlPlaneError ''trusted_memory_projection_invalid'')
          | Inr x \<Rightarrow> Inr [x])))"

fun focus_rows :: "reader_env \<Rightarrow> focus_query \<Rightarrow> (lineage \<times> current_row) list \<Rightarrow> api_error + focus_fact list" where
  "focus_rows E q [] = Inr []"
| "focus_rows E q (r # rs) = bindR (focus_row E q r) (\<lambda>xs. bindR (focus_rows E q rs) (\<lambda>ys. Inr (xs @ ys)))"

definition fetch_focus :: "reader_env \<Rightarrow> string \<Rightarrow> focus_query \<Rightarrow> memory_tables \<Rightarrow> api_error + focus_source" where
  "fetch_focus E tenant q M =
     bindR (scan_current tenant q M) (\<lambda>(rows, truncated). bindR (focus_rows E q rows) (\<lambda>facts.
       build_focus_source (crypto.truncate E) q facts (int (length rows)) truncated (int (length facts))))"

definition valid_service_token :: "string \<Rightarrow> bool" where
  "valid_service_token token \<longleftrightarrow> token = [] \<or> 32 \<le> length token"

text \<open>\<open>hmac.compare_digest\<close> raises \<open>TypeError\<close> on text that is not ASCII.\<close>

definition ascii :: "string \<Rightarrow> bool" where
  "ascii s \<longleftrightarrow> list_all (\<lambda>c. byte c < 128) s"

definition authorize_focus :: "string \<Rightarrow> string \<Rightarrow> api_error + unit" where
  "authorize_focus expected authorization =
     (let supplied = drop (length ''Bearer '') authorization in
      checked [(expected = [], ControlPlaneError ''trusted_memory_service_not_configured''),
        (take (length ''Bearer '') authorization \<noteq> ''Bearer '', ControlPlaneError ''trusted_memory_service_unauthorized''),
        (supplied = [], ControlPlaneError ''trusted_memory_service_unauthorized''),
        (\<not> ascii supplied \<or> \<not> ascii expected, TypeError ''comparing strings with non-ASCII characters is not supported''),
        (supplied \<noteq> expected, ControlPlaneError ''trusted_memory_service_unauthorized'')] ())"

end
