(* ===== verification/MemoryReadBack.thy ===== *)
theory MemoryReadBack
  imports MemoryRetrieval
begin

text \<open>
  A trusted fact is read back from the bytes that were written: \<open>model_validate_json\<close> of its canonical bytes
  is the fact, whenever the JSON parser of Pydantic reads canonical JSON.
\<close>

definition parses_canonical :: "reader_env \<Rightarrow> bool" where
  "parses_canonical E \<longleftrightarrow> (\<forall>v. float_free v \<longrightarrow> model_json E (canonical_bytes (crypto.truncate E) v) = Some (sorted_json v))"

lemma opt_str_back: "as_opt_str (sorted_json (opt_json JStr x)) = Some x"
  by (cases x) (simp_all add: as_opt_str_def opt_json_def)

lemma origin_back: "read_memory_origin (JStr (origin_value x)) = Some x"
  by (cases x) (simp_all add: read_memory_origin_def read_enum_def)

lemma state_back: "read_memory_state (JStr (memory_state_value x)) = Some x"
  by (cases x) (simp_all add: read_memory_state_def read_enum_def)

lemma outcome_back: "read_decision_outcome (JStr (outcome_value x)) = Some x"
  by (cases x) (simp_all add: read_decision_outcome_def read_enum_def)

lemmas back_simps = field_sorted as_obj_sorted dict_get_sorted as_str_def as_int_def need_def Let_def
  strings_back opt_str_back optional_str_back origin_back state_back outcome_back

lemma read_memory_scope_back: "memory_scope_ok s \<Longrightarrow> read_memory_scope (sorted_json (memory_scope_json s)) = Some s"
  by (cases s) (simp add: read_memory_scope_def memory_scope_json_def back_simps del: sorted_json.simps(7))

lemma read_fact_scope_back: "fact_scope_ok s \<Longrightarrow> read_fact_scope (sorted_json (fact_scope_json s)) = Some s"
  by (cases s) (simp add: read_fact_scope_def fact_scope_json_def back_simps del: sorted_json.simps(7))

lemma read_source_ref_back: "source_ref_ok s \<Longrightarrow> read_source_ref (sorted_json (source_ref_json s)) = Some s"
  by (cases s) (simp add: read_source_ref_def source_ref_json_def back_simps del: sorted_json.simps(7))

lemma sources_back: "list_all source_ref_ok rs \<Longrightarrow> as_list read_source_ref (sorted_json (JList (map source_ref_json rs))) = Some rs"
  by (rule list_back) (simp add: read_source_ref_back list_all_iff)

lemma read_fact_core_back: "fact_core_ok C c \<Longrightarrow> read_fact_core C (sorted_json (fact_core_json c)) = Some c"
proof -
  assume ok: "fact_core_ok C c"
  then have "fact_scope_ok (fc_applicability_scope c)" "list_all source_ref_ok (fc_source_refs c)"
    by (simp_all add: fact_core_ok_def sources_ok_def)
  with ok show ?thesis
    by (cases c) (simp add: read_fact_core_def fact_core_json_def back_simps read_fact_scope_back sources_back
      del: sorted_json.simps(6,7))
qed

lemma read_provenance_back: "provenance_ok p \<Longrightarrow> read_provenance (sorted_json (provenance_json p)) = Some p"
proof -
  assume ok: "provenance_ok p"
  then have "memory_scope_ok (pv_scope p)" by (simp add: provenance_ok_def)
  with ok show ?thesis
    by (cases p) (simp add: read_provenance_def provenance_json_def back_simps read_memory_scope_back del: sorted_json.simps(6,7))
qed

lemma read_trusted_fact_back: "trusted_fact_ok C f \<Longrightarrow> read_trusted_fact C (sorted_json (trusted_fact_json f)) = Some f"
proof -
  assume ok: "trusted_fact_ok C f"
  then have "memory_scope_ok (tf_scope f)" "fact_core_ok C (tf_core f)" "provenance_ok (tf_provenance f)"
    unfolding trusted_fact_ok_def by blast+
  with ok show ?thesis
    by (cases f) (simp add: read_trusted_fact_def trusted_fact_json_def back_simps read_memory_scope_back read_fact_core_back
      read_provenance_back del: sorted_json.simps(6,7))
qed

lemma load_fact_back:
  assumes "parses_canonical E" "trusted_fact_ok (crypto.truncate E) f"
  shows "load_fact E (canonical_bytes (crypto.truncate E) (trusted_fact_json f)) = Some f"
  using assms read_trusted_fact_back [OF assms(2)]
  by (simp add: load_fact_def parses_canonical_def trusted_fact_ok_def)

end
