(* ===== verification/MemoryReads.thy ===== *)
theory MemoryReads
  imports MemoryVerify MemoryReadBack
begin

text \<open>
  What the readers of the trusted memory return: the fact of a lineage is current exactly while only candidates
  have followed it in the history, and retrieval and the focus source hand out such facts only.
\<close>

subsection \<open>The current fact of a lineage\<close>

lemma settled_snoc_iff: "settled_by (lg @ [(v, e)]) u f \<longleftrightarrow>
    (case e of CandidateEntry x \<Rightarrow> settled_by lg u f | FactEntry g \<Rightarrow> u = v \<and> f = g | _ \<Rightarrow> False)"
proof -
  have "settled_by (lg @ [(v, e)]) u f \<longleftrightarrow> e = FactEntry f \<and> u = v \<or> is_candidate e \<and> settled_by lg u f"
  proof
    assume "settled_by (lg @ [(v, e)]) u f"
    then obtain us ws where ws: "lg @ [(v, e)] = us @ (u, FactEntry f) # ws" "list_all (is_candidate \<circ> snd) ws"
      by (auto simp: settled_by_def)
    then show "e = FactEntry f \<and> u = v \<or> is_candidate e \<and> settled_by lg u f"
      by (cases ws rule: rev_cases) (auto simp: settled_by_def)
  next
    assume "e = FactEntry f \<and> u = v \<or> is_candidate e \<and> settled_by lg u f"
    then show "settled_by (lg @ [(v, e)]) u f"
      by (cases e) (auto intro: settled_snoc)
  qed
  then show ?thesis by (cases e) auto
qed

lemma settled_mem: "settled_by lg v f \<Longrightarrow> (v, FactEntry f) \<in> set lg"
  by (auto simp: settled_by_def)

lemma settled_current:
  assumes "stream_log C k lg c" "settled_by lg v f"
  shows "\<exists>r. c = Some r \<and> cu_eligible r \<and> r = fact_row f (me_record_bytes v) (me_event_hash v)"
  using assms
proof (induction rule: stream_log.induct)
  case Empty
  then show ?case by (simp add: settled_by_def)
next
  case (Append lg c e u)
  then show ?case
    by (cases e) (auto simp: settled_snoc_iff fact_row_def)
qed

text \<open>
  The table reading of it: the lineage has a row with the canonical bytes of the fact, and every later row is a
  candidate, so no newer revision, conflict, supersession, revocation or transition has been recorded.
\<close>

definition undisturbed :: "crypto \<Rightarrow> memory_tables \<Rightarrow> lineage \<Rightarrow> trusted_fact \<Rightarrow> bool" where
  "undisturbed C M k f \<longleftrightarrow> trusted_fact_ok C f \<and> belongs k (FactEntry f) \<and>
     (\<exists>us h ws. stream_rows M k = us @ h # ws \<and> me_event_type h = ''trusted_fact''
        \<and> me_record_bytes h = canonical_bytes C (trusted_fact_json f)
        \<and> list_all (\<lambda>w. me_event_type w = ''candidate'') ws)"

lemma fact_bytes_inj:
  assumes "trusted_fact_ok C f" "trusted_fact_ok C g"
    "canonical_bytes C (trusted_fact_json f) = canonical_bytes C (trusted_fact_json g)"
  shows "f = g"
proof -
  have "float_free (trusted_fact_json f)" "float_free (trusted_fact_json g)"
    using assms(1,2) by (simp_all add: trusted_fact_ok_def)
  from canonical_injective [OF this assms(3)] have "Some f = Some g"
    using read_trusted_fact_back [OF assms(1)] read_trusted_fact_back [OF assms(2)] by (simp only:)
  then show ?thesis by simp
qed

lemma truncate_more [simp]:
  "me_event_type (memory_event.truncate h) = me_event_type h" "me_record_bytes (memory_event.truncate h) = me_record_bytes h"
  "me_event_hash (memory_event.truncate h) = me_event_hash h"
  by (simp_all add: memory_event.truncate_def)

lemma entry_type_fact: "entry_type e = ''trusted_fact'' \<longleftrightarrow> (\<exists>f. e = FactEntry f)"
  and entry_type_candidate: "entry_type e = ''candidate'' \<longleftrightarrow> is_candidate e"
  by (cases e; simp)+

lemma undisturbed_settled:
  assumes impl: "implements C M k lg"
  shows "undisturbed C M k f \<longleftrightarrow> (\<exists>v. settled_by lg v f)"
proof
  have rows: "map memory_event.truncate (stream_rows M k) = map fst lg" and stream: "stream_log C k lg (dict_get (current M) k)"
    using impl by (simp_all add: implements_def)
  note events = stream_log_events(3) [OF stream]
  {
    assume "undisturbed C M k f"
    then obtain us h ws where f: "trusted_fact_ok C f" and split: "stream_rows M k = us @ h # ws" and h: "me_event_type h = ''trusted_fact''"
      "me_record_bytes h = canonical_bytes C (trusted_fact_json f)" and ws: "list_all (\<lambda>w. me_event_type w = ''candidate'') ws"
      by (auto simp: undisturbed_def)
    from rows obtain us' v e ws' where lg: "lg = us' @ (v, e) # ws'" "v = memory_event.truncate h" "map fst ws' = map memory_event.truncate ws"
      by (auto simp: split append_eq_map_conv Cons_eq_map_conv)
    from events lg h have "entry_type e = ''trusted_fact''" "memory_entry_ok C e"
      "canonical_bytes C (entry_json e) = canonical_bytes C (trusted_fact_json f)" by auto
    with fact_bytes_inj [OF _ f] have "e = FactEntry f" by (auto simp: entry_type_fact)
    moreover have "list_all (is_candidate \<circ> snd) ws'"
    proof -
      have "list_all (\<lambda>v. me_event_type v = ''candidate'') (map fst ws')" using ws by (simp add: lg(3) list_all_iff)
      moreover have "\<forall>x \<in> set ws'. me_event_type (fst x) = entry_type (snd x)" using events by (auto simp: lg(1))
      ultimately show ?thesis by (simp add: list_all_iff entry_type_candidate [symmetric])
    qed
    ultimately show "\<exists>v. settled_by lg v f" using lg(1) by (auto simp: settled_by_def)
  }
  assume "\<exists>v. settled_by lg v f"
  then obtain us v ws where lg: "lg = us @ (v, FactEntry f) # ws" "list_all (is_candidate \<circ> snd) ws"
    by (auto simp: settled_by_def)
  from rows obtain us' h ws' where split: "stream_rows M k = us' @ h # ws'" "v = memory_event.truncate h" "map memory_event.truncate ws' = map fst ws"
    by (auto simp: lg(1) map_eq_append_conv map_eq_Cons_conv)
  have "\<forall>x \<in> set ws. me_event_type (fst x) = entry_type (snd x)" using events by (auto simp: lg(1))
  then have "list_all (\<lambda>w. me_event_type w = ''candidate'') (map fst ws)"
    using lg(2) by (simp add: list_all_iff entry_type_candidate)
  then have "list_all (\<lambda>w. me_event_type w = ''candidate'') ws'" by (simp add: split(3) [symmetric] list_all_iff)
  moreover have "trusted_fact_ok C f" "belongs k (FactEntry f)" "me_event_type h = ''trusted_fact''"
    "me_record_bytes h = canonical_bytes C (trusted_fact_json f)"
    using events by (auto simp: lg(1) split(2))
  ultimately show "undisturbed C M k f" using split(1) by (auto simp: undisturbed_def)
qed

lemma current_undisturbed:
  assumes impl: "implements C M k lg"
  shows "undisturbed C M k f \<longleftrightarrow> trusted_fact_ok C f \<and>
    (\<exists>c. get_current_fact k M = Some c \<and> cu_fact_bytes c = canonical_bytes C (trusted_fact_json f))"
proof -
  have stream: "stream_log C k lg (dict_get (current M) k)" using impl by (simp add: implements_def)
  note events = stream_log_events(3) [OF stream]
  have "\<exists>c. get_current_fact k M = Some c \<and> cu_fact_bytes c = canonical_bytes C (trusted_fact_json f)" "trusted_fact_ok C f"
    if "settled_by lg v f" for v
  proof -
    from settled_mem [OF that] have "me_record_bytes v = canonical_bytes C (trusted_fact_json f)" "trusted_fact_ok C f" using events by auto
    with settled_current [OF stream that]
    show "\<exists>c. get_current_fact k M = Some c \<and> cu_fact_bytes c = canonical_bytes C (trusted_fact_json f)" "trusted_fact_ok C f"
      by (auto simp: get_current_fact_def fact_row_def)
  qed
  moreover have "\<exists>v. settled_by lg v f" if ok: "trusted_fact_ok C f" and c: "get_current_fact k M = Some c"
    "cu_fact_bytes c = canonical_bytes C (trusted_fact_json f)" for c
  proof -
    have "dict_get (current M) k = Some c" "cu_eligible c"
      using c(1) by (auto simp: get_current_fact_def split: option.splits if_splits)
    with stream_log_projection [OF stream] have spec: "projection_spec C lg c" by simp
    with \<open>cu_eligible c\<close> obtain v where v: "settled_by lg v (last (facts_in lg))"
      "cu_fact_bytes c = canonical_bytes C (trusted_fact_json (last (facts_in lg)))" by (auto simp: projection_spec_def)
    from settled_mem [OF v(1)] have "trusted_fact_ok C (last (facts_in lg))" using events by auto
    with fact_bytes_inj [OF ok this] v c(2) show ?thesis by auto
  qed
  ultimately show ?thesis using undisturbed_settled [OF impl] by blast
qed

text \<open>What is read from an eligible row.\<close>

lemma load_current:
  assumes parse: "parses_canonical E" and impl: "implements (crypto.truncate E) M k lg" and c: "get_current_fact k M = Some c"
  shows "\<exists>f. load_fact E (cu_fact_bytes c) = Some f \<and> undisturbed (crypto.truncate E) M k f"
proof -
  let ?C = "crypto.truncate E"
  have stream: "stream_log ?C k lg (dict_get (current M) k)" using impl by (simp add: implements_def)
  have "dict_get (current M) k = Some c" "cu_eligible c"
    using c by (auto simp: get_current_fact_def split: option.splits if_splits)
  with stream_log_projection [OF stream] have "projection_spec ?C lg c" by simp
  with \<open>cu_eligible c\<close> obtain v where v: "settled_by lg v (last (facts_in lg))"
    "cu_fact_bytes c = canonical_bytes ?C (trusted_fact_json (last (facts_in lg)))" by (auto simp: projection_spec_def)
  then have "undisturbed ?C M k (last (facts_in lg))" using undisturbed_settled [OF impl] by blast
  then show ?thesis using load_fact_back [OF parse] v(2) by (auto simp: undisturbed_def)
qed

subsection \<open>Retrieval\<close>

definition current_fact :: "reader_env \<Rightarrow> memory_tables \<Rightarrow> lineage \<Rightarrow> trusted_fact option" where
  "current_fact E M k = Option.bind (get_current_fact k M) (\<lambda>c. load_fact E (cu_fact_bytes c))"

lemma current_fact_iff:
  assumes "parses_canonical E" "implements (crypto.truncate E) M k lg"
  shows "current_fact E M k = Some f \<longleftrightarrow> undisturbed (crypto.truncate E) M k f"
proof
  assume "current_fact E M k = Some f"
  then obtain c where "get_current_fact k M = Some c" "load_fact E (cu_fact_bytes c) = Some f"
    by (auto simp: current_fact_def bind_eq_Some_conv)
  with load_current [OF assms] show "undisturbed (crypto.truncate E) M k f" by auto
next
  assume "undisturbed (crypto.truncate E) M k f"
  then obtain c where "trusted_fact_ok (crypto.truncate E) f" "get_current_fact k M = Some c"
    "cu_fact_bytes c = canonical_bytes (crypto.truncate E) (trusted_fact_json f)"
    using current_undisturbed [OF assms(2)] by auto
  with load_fact_back [OF assms(1)] show "current_fact E M k = Some f" by (simp add: current_fact_def)
qed

lemma tables_lineage: "tables_ok C M \<Longrightarrow> \<exists>lg. implements C M k lg"
  unfolding tables_ok_def by blast

lemma load_lineages_facts:
  assumes "parses_canonical E" "tables_ok (crypto.truncate E) M"
  shows "load_lineages E M q ls = Inr (map StoredFact
     (List.map_filter (\<lambda>l. current_fact E M (rq_tenant_id q, rq_project_id q, l)) ls))"
proof (induction ls)
  case Nil
  then show ?case by simp
next
  case (Cons l ls)
  let ?k = "(rq_tenant_id q, rq_project_id q, l)"
  from tables_lineage [OF assms(2)] obtain lg where lg: "implements (crypto.truncate E) M ?k lg" ..
  show ?case
  proof (cases "get_current_fact ?k M")
    case None
    with Cons show ?thesis by (simp add: current_fact_def List.map_filter_def)
  next
    case (Some c)
    with load_current [OF assms(1) lg] obtain f where "load_fact E (cu_fact_bytes c) = Some f" by blast
    with Some Cons show ?thesis by (simp add: current_fact_def List.map_filter_def)
  qed
qed

lemma set_map_filter: "y \<in> set (List.map_filter f xs) \<longleftrightarrow> (\<exists>x \<in> set xs. f x = Some y)"
  by (induction xs) (auto simp: List.map_filter_def)

definition answers :: "retrieval_query \<Rightarrow> trusted_fact \<Rightarrow> bool" where
  "answers q f \<longleftrightarrow> sc_component (tf_scope f) = rq_component q \<and> sc_version (tf_scope f) = rq_version q
     \<and> tf_outcome f \<in> set (rq_outcomes q) \<and> tf_origin f \<in> set (rq_origins q)"

lemma matches_answers:
  assumes "undisturbed C M (rq_tenant_id q, rq_project_id q, l) f"
  shows "matches_query q (StoredFact f) = (if answers q f then [f] else [])"
  using assms by (auto simp: undisturbed_def belongs_def answers_def trusted_fact_ok_def)

lemma retrieved_items:
  assumes "parses_canonical E" "tables_ok (crypto.truncate E) M"
  shows "\<exists>r. retrieve_memories E ls q M = Inr r \<and> set (rs_items r) = {item_of (crypto.truncate E) f | l f. l \<in> set ls
     \<and> undisturbed (crypto.truncate E) M (rq_tenant_id q, rq_project_id q, l) f \<and> answers q f}"
proof -
  let ?at = "\<lambda>l. current_fact E M (rq_tenant_id q, rq_project_id q, l)"
  have at: "?at l = Some f \<longleftrightarrow> undisturbed (crypto.truncate E) M (rq_tenant_id q, rq_project_id q, l) f" for l f
    using tables_lineage [OF assms(2)] current_fact_iff [OF assms(1)] by blast
  let ?fs = "List.map_filter ?at (sort (remdups ls))"
  have fs: "set ?fs = {f. \<exists>l \<in> set ls. ?at l = Some f}" by (auto simp: set_map_filter)
  have "set (concat (map (matches_query q) (map StoredFact ?fs))) = {f. \<exists>l \<in> set ls. ?at l = Some f \<and> answers q f}"
  proof -
    have "set (matches_query q (StoredFact f)) = {f. answers q f} \<inter> {f}" if "?at l = Some f" for l f
      unfolding matches_answers [OF at [THEN iffD1, OF that]] by auto
    then show ?thesis using fs by (auto simp del: matches_query.simps)
  qed
  then have "item_of (crypto.truncate E) ` set (concat (map (matches_query q) (map StoredFact ?fs)))
      = {item_of (crypto.truncate E) f | l f. l \<in> set ls \<and> ?at l = Some f \<and> answers q f}" by auto
  then show ?thesis
    unfolding at by (simp add: retrieve_memories_def load_lineages_facts [OF assms] retrieve_exact_def Let_def)
qed

subsection \<open>The focus source\<close>

definition selects :: "focus_query \<Rightarrow> trusted_fact \<Rightarrow> bool" where
  "selects q f \<longleftrightarrow> tf_outcome f \<in> set (fq_outcomes q) \<and> tf_origin f \<in> set (fq_origins q)"

definition shows_fact :: "crypto \<Rightarrow> trusted_fact \<Rightarrow> focus_fact \<Rightarrow> bool" where
  "shows_fact C f x \<longleftrightarrow> ff_fact_sha256 x = tf_trusted_fact_digest f \<and> ff_lineage_id x = tf_lineage_id f
     \<and> ff_revision_id x = tf_revision_id f \<and> ff_revision x = tf_revision f \<and> ff_statement x = fact_statement f
     \<and> ff_outcome x = tf_outcome f \<and> ff_origin x = tf_origin f \<and> ff_provenance_sha256 x = provenance_digest C f
     \<and> fo_closure_digest (ff_commitment x) = pv_decision_closure_digest (tf_provenance f)"

lemma focus_fact_shows: "focus_fact_of C c f = Inr x \<Longrightarrow> shows_fact C f x"
  by (auto simp: focus_fact_of_def shows_fact_def build_commitment_def Let_def)

lemma eligible_row_current:
  assumes "distinct (keys (current M))"
  shows "(k, c) \<in> set (eligible_rows M tid pid) \<longleftrightarrow>
    get_current_fact k M = Some c \<and> fst k = tid \<and> fst (snd k) = pid"
proof -
  have "(k, c) \<in> set (current M) \<longleftrightarrow> dict_get (current M) k = Some c" using assms by simp
  then have "(k, c) \<in> set (eligible_rows M tid pid) \<longleftrightarrow>
      dict_get (current M) k = Some c \<and> fst k = tid \<and> fst (snd k) = pid \<and> cu_eligible c"
    by (auto simp: eligible_rows_def)
  then show ?thesis by (auto simp: get_current_fact_def split: option.splits)
qed

lemma focus_rows_set:
  assumes "focus_rows E q rs = Inr xs"
  shows "x \<in> set xs \<longleftrightarrow> (\<exists>r \<in> set rs. \<exists>ys. focus_row E q r = Inr ys \<and> x \<in> set ys)"
    and "r \<in> set rs \<Longrightarrow> \<exists>ys. focus_row E q r = Inr ys"
  using assms by (induction rs arbitrary: xs) auto

text \<open>A row that is read without an error shows its current fact, or the filters leave it out.\<close>

lemma focus_row_fact:
  assumes parse: "parses_canonical E" and tables: "tables_ok (crypto.truncate E) M"
    and row: "get_current_fact k M = Some c" and read: "focus_row E q (k, c) = Inr ys"
  shows "\<exists>f. undisturbed (crypto.truncate E) M k f \<and> k = (fq_tenant_id q, fq_project_id q, tf_lineage_id f)
    \<and> (if selects q f then \<exists>x. ys = [x] \<and> shows_fact (crypto.truncate E) f x else ys = [])"
proof -
  from tables_lineage [OF tables] obtain lg where "implements (crypto.truncate E) M k lg" ..
  from load_current [OF parse this row] obtain f where f: "load_fact E (cu_fact_bytes c) = Some f"
    "undisturbed (crypto.truncate E) M k f" by blast
  with read have k: "k = (fq_tenant_id q, fq_project_id q, tf_lineage_id f)"
    by (auto simp: focus_row_def projection_row_matches_def split: if_splits)
  moreover have "if selects q f then \<exists>x. ys = [x] \<and> shows_fact (crypto.truncate E) f x else ys = []"
    using read f(1) focus_fact_shows [of "crypto.truncate E" c f]
    by (auto simp: focus_row_def selects_def split: if_splits sum.splits)
  ultimately show ?thesis using f(2) by blast
qed

lemma build_source_facts:
  assumes "build_focus_source C q fs scanned truncated matching = Inr s"
  shows "focus_source_ok C s" "fs_query s = q" "fs_facts s = take (nat (fq_max_items q)) (sort_facts fs)"
    "fs_truncated_by_scan_limit s = truncated" "fs_scanned_count s = scanned" "fs_matching_count s = matching"
  using assms by (auto simp: build_focus_source_def Let_def)

lemma sort_facts_set [simp]: "set (sort_facts fs) = set fs" "length (sort_facts fs) = length fs"
  by (simp_all add: sort_facts_def)

lemma focus_facts:
  assumes parse: "parses_canonical E" and tables: "tables_ok (crypto.truncate E) M"
    and fetch: "fetch_focus E tenant q M = Inr s" and x: "x \<in> set (fs_facts s)"
  shows "\<exists>f. undisturbed (crypto.truncate E) M (fq_tenant_id q, fq_project_id q, tf_lineage_id f) f \<and> selects q f
    \<and> shows_fact (crypto.truncate E) f x"
proof -
  from fetch obtain rows t fs where rows: "scan_current tenant q M = Inr (rows, t)" "focus_rows E q rows = Inr fs"
    "build_focus_source (crypto.truncate E) q fs (int (length rows)) t (int (length fs)) = Inr s"
    by (auto simp: fetch_focus_def)
  have "x \<in> set fs" using x by (auto simp: build_source_facts(3) [OF rows(3)] dest: in_set_takeD)
  with focus_rows_set(1) [OF rows(2)] obtain k c ys where row: "(k, c) \<in> set rows" "focus_row E q (k, c) = Inr ys" "x \<in> set ys"
    by auto
  have "(k, c) \<in> set (eligible_rows M (fq_tenant_id q) (fq_project_id q))"
    using rows(1) row(1) by (auto simp: scan_current_def Let_def dest!: in_set_takeD)
  then have "get_current_fact k M = Some c" using eligible_row_current tables by (auto simp: tables_ok_def)
  from focus_row_fact [OF parse tables this row(2)] row(3) show ?thesis by (auto split: if_splits)
qed

lemma focus_complete:
  assumes parse: "parses_canonical E" and tables: "tables_ok (crypto.truncate E) M"
    and fetch: "fetch_focus E tenant q M = Inr s"
    and whole: "\<not> fs_truncated_by_scan_limit s" "\<not> fs_truncated_by_max_items s"
    and f: "undisturbed (crypto.truncate E) M (fq_tenant_id q, fq_project_id q, l) f" "selects q f"
  shows "\<exists>x \<in> set (fs_facts s). shows_fact (crypto.truncate E) f x"
proof -
  let ?k = "(fq_tenant_id q, fq_project_id q, l)"
  from fetch obtain rows t fs where rows: "scan_current tenant q M = Inr (rows, t)" "focus_rows E q rows = Inr fs"
    "build_focus_source (crypto.truncate E) q fs (int (length rows)) t (int (length fs)) = Inr s"
    by (auto simp: fetch_focus_def)
  note built = build_source_facts [OF rows(3)]
  from tables_lineage [OF tables] obtain lg where lg: "implements (crypto.truncate E) M ?k lg" ..
  from current_undisturbed [OF lg] f(1) obtain c where c: "get_current_fact ?k M = Some c"
    "cu_fact_bytes c = canonical_bytes (crypto.truncate E) (trusted_fact_json f)" by blast
  have "rows = eligible_rows M (fq_tenant_id q) (fq_project_id q)"
    using rows(1) whole(1) built(4) by (auto simp: scan_current_def Let_def)
  then have row: "(?k, c) \<in> set rows"
    using eligible_row_current [of M ?k c] c(1) tables by (simp add: tables_ok_def)
  from focus_rows_set(2) [OF rows(2) this] obtain ys where ys: "focus_row E q (?k, c) = Inr ys" ..
  from focus_row_fact [OF parse tables c(1) ys] obtain g where g: "undisturbed (crypto.truncate E) M ?k g"
    "if selects q g then \<exists>x. ys = [x] \<and> shows_fact (crypto.truncate E) g x else ys = []" by blast
  from current_undisturbed [OF lg] g(1) obtain c' where c': "get_current_fact ?k M = Some c'"
    "cu_fact_bytes c' = canonical_bytes (crypto.truncate E) (trusted_fact_json g)" by blast
  then have "canonical_bytes (crypto.truncate E) (trusted_fact_json g) = canonical_bytes (crypto.truncate E) (trusted_fact_json f)"
    using c by (simp only: option.inject)
  then have "g = f" using g(1) f(1) unfolding undisturbed_def by (intro fact_bytes_inj) blast+
  with g(2) f(2) obtain x where x: "ys = [x]" "shows_fact (crypto.truncate E) f x" by auto
  then have "x \<in> set ys" by simp
  with row ys have "x \<in> set fs" unfolding focus_rows_set(1) [OF rows(2)] by blast
  moreover have "int (length (fs_facts s)) = int (length fs)"
    using built(1,6) whole(2) by (auto simp: focus_source_ok_def)
  then have "length (take (nat (fq_max_items q)) (sort_facts fs)) = length (sort_facts fs)" by (simp add: built(3))
  then have "fs_facts s = sort_facts fs" unfolding built(3) by (simp add: min_def split: if_splits)
  ultimately show ?thesis using x(2) by auto
qed

lemma focus_bounds:
  assumes "fetch_focus E tenant q M = Inr s"
  shows "fq_tenant_id q = tenant" "length (fs_facts s) \<le> nat (fq_max_items q)" "fs_scanned_count s \<le> int (nat (fq_scan_limit q))"
    "fs_query s = q" "focus_source_ok (crypto.truncate E) s"
proof -
  from assms obtain rows t fs where rows: "scan_current tenant q M = Inr (rows, t)" "focus_rows E q rows = Inr fs"
    "build_focus_source (crypto.truncate E) q fs (int (length rows)) t (int (length fs)) = Inr s"
    by (auto simp: fetch_focus_def)
  note built = build_source_facts [OF rows(3)]
  show "fq_tenant_id q = tenant" "fs_scanned_count s \<le> int (nat (fq_scan_limit q))"
    using rows(1) built(5) by (auto simp: scan_current_def Let_def)
  show "length (fs_facts s) \<le> nat (fq_max_items q)" "fs_query s = q" "focus_source_ok (crypto.truncate E) s"
    using built by simp_all
qed

subsection \<open>Evidence capsules\<close>

lemma make_capsule_fields [simp]:
  "ec_items (make_capsule C is r) = is" "ec_retrieval_digest (make_capsule C is r) = rs_digest r"
  "ec_truncated (make_capsule C is r) \<longleftrightarrow> length is < length (rs_items r)"
  "ec_root_digest (make_capsule C is r) = capsule_root C (make_capsule C is r)"
  by (simp_all add: make_capsule_def capsule_root_def Let_def)

text \<open>The loop takes the longest prefix whose capsules fit, one item after the other.\<close>

lemma fill_capsule_prefix:
  assumes "int (capsule_size C (make_capsule C selected r)) \<le> max_bytes"
  shows "\<exists>n \<le> length is. fill_capsule C r max_bytes selected is = selected @ map capsule_item_of (take n is)
    \<and> int (capsule_size C (make_capsule C (selected @ map capsule_item_of (take n is)) r)) \<le> max_bytes
    \<and> (n < length is \<longrightarrow> max_bytes < int (capsule_size C (make_capsule C (selected @ map capsule_item_of (take (Suc n) is)) r)))"
  using assms
proof (induction "is" arbitrary: selected)
  case Nil
  then show ?case by simp
next
  case (Cons i "is")
  let ?next = "selected @ [capsule_item_of i]"
  show ?case
  proof (cases "int (capsule_size C (make_capsule C ?next r)) > max_bytes")
    case True
    then show ?thesis using Cons.prems by (intro exI [of _ 0]) simp
  next
    case False
    with Cons.IH [of ?next] obtain n where "n \<le> length is"
      "fill_capsule C r max_bytes ?next is = ?next @ map capsule_item_of (take n is)"
      "int (capsule_size C (make_capsule C (?next @ map capsule_item_of (take n is)) r)) \<le> max_bytes"
      "n < length is \<longrightarrow> max_bytes < int (capsule_size C (make_capsule C (?next @ map capsule_item_of (take (Suc n) is)) r))"
      by auto
    with False show ?thesis by (intro exI [of _ "Suc n"]) simp
  qed
qed

end
