(* ===== verification/MemoryFinal.thy ===== *)
theory MemoryFinal
  imports MemoryRun
begin

text \<open>
  What an append records under its key, and what a finalization that returns has established: the closure it is
  bound to, the facts the evaluator named, and one event for each of them.
\<close>

subsection \<open>Recorded events\<close>

lemma find_append: "List.find p xs = Some x \<Longrightarrow> List.find p (xs @ ys) = Some x"
  by (induction xs) (auto split: if_splits)

lemma grown_rows: "memory_grows M M' \<Longrightarrow> \<exists>hs. stream_rows M' k = stream_rows M k @ hs"
  by (auto simp: memory_grows_def stream_rows_def)

lemma find_none_append: "List.find p xs = None \<Longrightarrow> p x \<Longrightarrow> List.find p (xs @ [x]) = Some x"
  by (induction xs) (auto split: if_splits)

text \<open>After an append the key finds the event.\<close>

lemma appended_recorded:
  assumes "appended C k e key expected M v M'"
  shows "recorded_event C k e key M' v"
proof -
  consider "M' = M" "recorded_event C k e key M v" | "v = next_event C M k e" "steps_stream C k e key expected M M'"
    using assms by (auto simp: appended_def)
  then show ?thesis
  proof cases
    case 2
    let ?h = "memory_event.extend v \<lparr>me_idempotency_key = key\<rparr>"
    from 2 have none: "List.find (\<lambda>h. me_idempotency_key h = key) (stream_rows M k) = None"
      and "history M' = history M @ [?h]" by (simp_all add: steps_stream_def appends_def Let_def)
    moreover have v: "me_lineage v = k" "me_record_bytes v = canonical_bytes C (entry_json e)"
      by (simp_all add: 2 next_event_def split: option.splits)
    ultimately have "stream_rows M' k = stream_rows M k @ [?h]" by (simp add: stream_rows_def extend_fields)
    moreover have "me_idempotency_key ?h = key" "me_record_bytes ?h = canonical_bytes C (entry_json e)"
      using v(2) by (simp_all add: memory_event.extend_def)
    ultimately show ?thesis
      using find_none_append [OF none] by (auto simp: recorded_event_def truncate_extend)
  qed simp
qed

lemma recorded_later: "recorded_event C k e key M v \<Longrightarrow> memory_grows M M' \<Longrightarrow> recorded_event C k e key M' v"
  using grown_rows [of M M' k] by (auto simp: recorded_event_def find_append)

subsection \<open>The other tables\<close>

lemma wp_transaction_tables:
  assumes "\<And>d r. wp body (\<lambda>a s'. P a (mem s') (db s')) (\<lambda>_ _. True) (s\<lparr>depth := d, rollback_only := r\<rparr>)"
    and "\<And>d. wp body (\<lambda>a s'. P a (mem s') (db s')) (\<lambda>_ _. True) (s\<lparr>depth := d\<rparr>)"
  shows "wp (memory_transaction body) (\<lambda>a s'. P a (mem s') (db s')) (\<lambda>_ _. True) s"
  using assms(1) [where d = 1 and r = False] assms(2) [where d = "depth s + 1"]
  unfolding memory_transaction_def wp_def
  by (auto split: prod.splits sum.splits)

lemma wp_append_db:
  "wp (append_memory_record C k e key expected) (\<lambda>_ s'. db s' = db s) (\<lambda>_ _. True) s"
proof -
  have same: "db t = db s" if "t = u\<lparr>mem := M\<rparr>" "db u = db s" for t u :: memory_session and M
    using that by simp
  have "wp (append_memory_event C k e key expected) (\<lambda>_ s'. db s' = db s) (\<lambda>_ _. True) t" if "db t = db s" for t
    by (rule wp_mono [OF wp_append_event]) (use that same in blast)+
  then have "wp (memory_transaction (append_memory_event C k e key expected)) (\<lambda>_ s'. db s' = db s) (\<lambda>_ _. True) s"
    by (intro wp_transaction_tables [where P = "\<lambda>_ _ d. d = db s"]) simp_all
  then show ?thesis by (simp add: append_memory_record_def wp_simps split: sum.splits)
qed

definition records :: "crypto \<Rightarrow> string \<Rightarrow> trusted_fact \<Rightarrow> memory_tables \<Rightarrow> memory_event \<Rightarrow> bool" where
  "records C key f M v \<longleftrightarrow> recorded_event C (fact_lineage f) (FactEntry f) (key @ '':fact:'' @ tf_lineage_id f) M v"

lemma records_later: "records C key f M v \<Longrightarrow> memory_grows M M' \<Longrightarrow> records C key f M' v"
  unfolding records_def by (rule recorded_later)

lemma appended_memory_grows: "appended C k e key expected M v M' \<Longrightarrow> memory_grows M M'"
  using appends_grows [of C k e key M M'] by (auto simp: appended_def steps_stream_def)

lemma wp_append_facts_records:
  "wp (append_facts C key ifs) (\<lambda>vs s'. list_all2 (\<lambda>(i, f) v. records C key f (mem s') v) ifs vs
     \<and> memory_grows (mem s) (mem s') \<and> db s' = db s) (\<lambda>_ _. True) s"
proof (induction ifs arbitrary: s)
  case Nil
  then show ?case by (simp add: wp_simps)
next
  case (Cons x ifs)
  obtain i f where x: "x = (i, f)" by force
  let ?k = "fact_lineage f" and ?key = "key @ '':fact:'' @ tf_lineage_id f"
  let ?Q = "\<lambda>vs s'. list_all2 (\<lambda>(i, f) v. records C key f (mem s') v) (x # ifs) vs \<and> memory_grows (mem s) (mem s') \<and> db s' = db s"
  have "wp (append_memory_record C ?k (FactEntry f) ?key (fi_expected i))
      (\<lambda>v s'. records C key f (mem s') v \<and> memory_grows (mem s) (mem s') \<and> db s' = db s) (\<lambda>_ _. True) s"
    by (rule wp_mono [OF wp_conj [OF wp_append_record wp_append_db]])
      (auto simp: records_def dest: appended_recorded appended_memory_grows)
  then have "wp (append_memory_record C ?k (FactEntry f) ?key (fi_expected i))
      (\<lambda>v. wp (append_facts C key ifs) (\<lambda>vs. ?Q (v # vs)) (\<lambda>_ _. True)) (\<lambda>_ _. True) s"
  proof (rule wp_mono)
    fix v and s' :: memory_session assume *: "records C key f (mem s') v \<and> memory_grows (mem s) (mem s') \<and> db s' = db s"
    show "wp (append_facts C key ifs) (\<lambda>vs. ?Q (v # vs)) (\<lambda>_ _. True) s'"
      by (rule wp_mono [OF Cons.IH]) (use * in \<open>auto simp: x intro: records_later memory_grows_trans\<close>)
  qed simp
  then show ?case by (simp add: x wp_sequence)
qed

text \<open>The closure row that the decision closure leaves in the database.\<close>

lemma find_memD: "List.find p xs = Some x \<Longrightarrow> x \<in> set xs \<and> p x"
  by (induction xs) (auto split: if_splits)

definition closure_stored :: "crypto \<Rightarrow> decision_closure \<Rightarrow> control_db \<Rightarrow> bool" where
  "closure_stored C c d \<longleftrightarrow> (\<exists>r \<in> set (closures d). dc_tenant_id r = cc_tenant_id (dc_core c)
     \<and> dc_project_id r = cc_project_id (dc_core c) \<and> dc_closure_digest r = dc_digest c
     \<and> dc_closure_bytes r = canonical_bytes C (decision_closure_json c))"

lemma wp_store_closure:
  "wp (store_closure E row) (\<lambda>_ s'. \<exists>r \<in> set (closures (db s')). dc_tenant_id r = dc_tenant_id row
     \<and> dc_project_id r = dc_project_id row \<and> dc_closure_digest r = dc_closure_digest row
     \<and> dc_closure_bytes r = dc_closure_bytes row) (\<lambda>_ _. True) s"
  by (auto simp: store_closure_def query_def update_db_def wp_simps same_closure_scope_def
    dest!: find_memD split: option.splits)

lemma wp_store_op_db: "wp m (\<lambda>_ t. P (db t)) (\<lambda>_ _. True) (session.truncate s) \<Longrightarrow> wp (store_op m) (\<lambda>_ s'. P (db s')) (\<lambda>_ _. True) s"
  by (auto simp: wp_def store_op_def session.extend_def split: prod.splits sum.splits)

lemma wp_plain_transaction:
  assumes "\<And>d r. wp body (\<lambda>_ t. P (db t)) (\<lambda>_ _. True) (s\<lparr>depth := d, rollback_only := r\<rparr>)"
    and "\<And>d. wp body (\<lambda>_ t. P (db t)) (\<lambda>_ _. True) (s\<lparr>depth := d\<rparr>)"
  shows "wp (transaction body) (\<lambda>_ t. P (db t)) (\<lambda>_ _. True) s"
  using assms(1) [where d = 1 and r = False] assms(2) [where d = "depth s + 1"]
  unfolding transaction_def wp_def by (auto split: prod.splits sum.splits)

lemma wp_record_closure:
  "wp (record_closure E key c) (\<lambda>_ s'. closure_stored (crypto.truncate E) c (db s')) (\<lambda>_ _. True) s"
proof -
  let ?row = "\<lparr>dc_tenant_id = cc_tenant_id (dc_core c), dc_project_id = cc_project_id (dc_core c), dc_closure_digest = dc_digest c,
     dc_closure_bytes = canonical_bytes (crypto.truncate E) (decision_closure_json c),
     dc_closure_bytes_sha256 = sha256 E (canonical_bytes (crypto.truncate E) (decision_closure_json c)),
     dc_idempotency_key = key @ '':closure''\<rparr>"
  have "wp (store_closure E ?row) (\<lambda>_ t. closure_stored (crypto.truncate E) c (db t)) (\<lambda>_ _. True) t" for t
    using wp_store_closure [of E ?row t] by (simp add: closure_stored_def)
  then have "wp (transaction (store_closure E ?row)) (\<lambda>_ t. closure_stored (crypto.truncate E) c (db t)) (\<lambda>_ _. True) t" for t
    by (intro wp_plain_transaction)
  then show ?thesis
    unfolding record_closure_def append_decision_closure_def
    by (intro wp_store_op_db) (auto simp: wp_simps split: sum.splits option.splits)
qed

subsection \<open>A finalization that returns\<close>

lemma wp_finalize_returns:
  "wp (finalize_memory E q key)
     (\<lambda>(c, fs, vs) s'. build_decision_closure (crypto.truncate E) (fr_decision q) (fr_result q) (fr_evidence q) (fr_admissions q)
          (fr_policy_version q) (fr_rule_version q) (fr_memory_watermark q) = Inr c
        \<and> build_facts (crypto.truncate E) q c = Inr fs
        \<and> list_all2 (\<lambda>f v. records (crypto.truncate E) key f (mem s') v) fs vs
        \<and> closure_stored (crypto.truncate E) c (db s')) (\<lambda>_ _. True) s"
proof -
  let ?C = "crypto.truncate E"
  let ?inputs = "sort_inputs (fr_facts q)"
  have run: "wp (memory_transaction (thenE (record_closure E key c) (append_facts ?C key (zip ?inputs fs))))
      (\<lambda>vs s'. list_all2 (\<lambda>f v. records ?C key f (mem s') v) fs vs \<and> closure_stored ?C c (db s')) (\<lambda>_ _. True) s"
    if "build_facts ?C q c = Inr fs" for c fs
  proof -
    have len: "length ?inputs = length fs" using build_facts_ok [OF that] by (rule list_all2_lengthD)
    have facts: "wp (append_facts ?C key (zip ?inputs fs))
        (\<lambda>vs s'. list_all2 (\<lambda>f v. records ?C key f (mem s') v) fs vs \<and> closure_stored ?C c (db s')) (\<lambda>_ _. True) t"
      if "closure_stored ?C c (db t)" for t
      by (rule wp_mono [OF wp_append_facts_records]) (use that len in \<open>auto simp: list_all2_conv_all_nth\<close>)
    have "wp (thenE (record_closure E key c) (append_facts ?C key (zip ?inputs fs)))
        (\<lambda>vs s'. list_all2 (\<lambda>f v. records ?C key f (mem s') v) fs vs \<and> closure_stored ?C c (db s')) (\<lambda>_ _. True) t" for t
      unfolding wp_then by (rule wp_mono [OF wp_record_closure]) (use facts in simp_all)
    then show ?thesis
      by (intro wp_transaction_tables [where P = "\<lambda>vs M d. list_all2 (\<lambda>f v. records ?C key f M v) fs vs \<and> closure_stored ?C c d"])
  qed
  show ?thesis
    unfolding finalize_memory_def Let_def
    by (auto simp: wp_simps split: sum.splits intro: wp_mono [OF run])
qed

text \<open>What the checks before the transaction guarantee.\<close>

lemma closure_checked:
  assumes "build_decision_closure C t r bs rs policy rule watermark = Inr c"
  shows "td_authority_source t = ''CONTROL''" "td_terminal t" "ev_signature_verified r"
    "ad_admitted (er_admission (ev_source_receipt r))" "er_envelope_sha256 (ev_source_receipt r) = Some (ev_result_digest r)"
    "er_task_id (ev_source_receipt r) = td_task_id t \<and> er_generation (ev_source_receipt r) = td_generation t"
    "list_all (\<lambda>a. ad_admitted a \<and> ad_task_id a = td_task_id t \<and> ad_generation a = td_generation t) rs"
    "dc_core c = closure_core_of C t r bs rs policy rule watermark"
    "dc_digest c = domain_digest C ''trusted-memory-decision-closure'' (closure_core_json (dc_core c))"
  using assms by (auto simp: build_decision_closure_def closure_guards_def Let_def list_all_iff)

lemma evidence_map_keys: "set (keys (evidence_map bs)) = eb_evidence_id ` set bs"
proof -
  have "set (keys (fold (\<lambda>b. dict_set (eb_evidence_id b) (eb_evidence_digest b)) bs d)) = set (keys d) \<union> eb_evidence_id ` set bs" for d
    by (induction bs arbitrary: d) (simp_all add: set_keys_dict_set del: set_map)
  from this [of "[]"] show ?thesis unfolding evidence_map_def by simp
qed

lemma fact_of_fields:
  "tf_provenance (fact_of C c i) = provenance_of c (tf_scope (fact_of C c i))"
  "tf_outcome (fact_of C c i) = fc_outcome (fi_core i)" "tf_core (fact_of C c i) = fi_core i"
  "tf_trusted_fact_digest (fact_of C c i) = domain_digest C ''trusted-fact'' (fact_core_json (fi_core i))"
  "sc_tenant_id (tf_scope (fact_of C c i)) = the (fs_tenant_id (fc_applicability_scope (fi_core i)))"
  "sc_project_id (tf_scope (fact_of C c i)) = fs_project_id (fc_applicability_scope (fi_core i))"
  by (simp_all add: fact_of_def Let_def)

lemma facts_checked:
  assumes "build_facts C q c = Inr fs"
  shows "sort (map tf_trusted_fact_digest fs) = cc_verified_fact_digests (dc_core c)"
    "f \<in> set fs \<Longrightarrow> trusted_fact_ok C f \<and> tf_provenance f = provenance_of c (tf_scope f)
      \<and> sc_tenant_id (tf_scope f) = cc_tenant_id (dc_core c) \<and> sc_project_id (tf_scope f) = cc_project_id (dc_core c)
      \<and> tf_outcome f = cc_decision_outcome (dc_core c)
      \<and> sr_identifier ` set (fc_source_refs (tf_core f)) \<subseteq> eb_evidence_id ` set (fr_evidence q)"
proof -
  let ?inputs = "sort_inputs (fr_facts q)" and ?m = "evidence_map (fr_evidence q)"
  from assms have digests: "sort (map (\<lambda>i. domain_digest C ''trusted-fact'' (fact_core_json (fi_core i))) ?inputs) = cc_verified_fact_digests (dc_core c)"
    and each: "list_all2 (\<lambda>i f. build_fact C c ?m i = Inr f) ?inputs fs"
    by (auto simp: build_facts_def Let_def dest: build_each_all)
  from each have fs: "fs = map (fact_of C c) ?inputs"
    by (induction rule: list_all2_induct) (auto simp: build_fact_def)
  show "sort (map tf_trusted_fact_digest fs) = cc_verified_fact_digests (dc_core c)"
    using digests by (simp add: fs comp_def fact_of_fields)
  assume "f \<in> set fs"
  then obtain i where "build_fact C c ?m i = Inr f"
    using each by (auto simp: list_all2_conv_all_nth in_set_conv_nth)
  then have f: "f = fact_of C c i" "trusted_fact_ok C f" and guards: "checked (fact_guards c ?m (fi_core i)) () = Inr ()"
    by (auto simp: build_fact_def)
  from guards have "fs_tenant_id (fc_applicability_scope (fi_core i)) = Some (cc_tenant_id (dc_core c))"
    "fs_project_id (fc_applicability_scope (fi_core i)) = cc_project_id (dc_core c)"
    "fc_outcome (fi_core i) = cc_decision_outcome (dc_core c)"
    "\<forall>r \<in> set (fc_source_refs (fi_core i)). sr_identifier r \<in> set (keys ?m)"
    by (simp_all add: fact_guards_def Let_def list_all_iff)
  with f show "trusted_fact_ok C f \<and> tf_provenance f = provenance_of c (tf_scope f)
      \<and> sc_tenant_id (tf_scope f) = cc_tenant_id (dc_core c) \<and> sc_project_id (tf_scope f) = cc_project_id (dc_core c)
      \<and> tf_outcome f = cc_decision_outcome (dc_core c)
      \<and> sr_identifier ` set (fc_source_refs (tf_core f)) \<subseteq> eb_evidence_id ` set (fr_evidence q)"
    unfolding evidence_map_keys by (auto simp: fact_of_fields)
qed

end
