(* ===== verification/MemoryDemo.thy ===== *)
theory MemoryDemo
  imports MemoryVerify MemoryReadBack
begin

text \<open>
  One trusted fact, appended to an empty store: the concrete session of the witnesses. The hash maps everything
  to one digest, the strictest choice for the uniqueness constraints of the tables.
\<close>

definition sample_env :: api_env where
  "sample_env = crypto.extend constant_hash \<lparr>iso_time = (\<lambda>t. []), dump_time = (\<lambda>t. []), clock = (\<lambda>n. 0), uuid_hex = (\<lambda>n. []),
     token_urlsafe = (\<lambda>n. []), fl = (\<lambda>r. r), round6 = (\<lambda>r. r), randrange = (\<lambda>s k n. 0), hmac_secret = None,
     gpu_config_bytes = []\<rparr>"

definition sample_scope :: memory_scope where
  "sample_scope = \<lparr>sc_tenant_id = ''t'', sc_project_id = ''p'', sc_component = ''c'', sc_version = ''1''\<rparr>"

definition sample_core :: fact_core where
  "sample_core = \<lparr>fc_fact_id = ''f'', fc_fact_kind = ''metric'', fc_statement_utf8_base64 = ''b2s='', fc_outcome = KEEP,
     fc_applicability_scope = \<lparr>fs_tenant_id = Some ''t'', fs_project_id = ''p'', fs_component = ''c'', fs_version = Some ''1'',
       fs_problem_id = None\<rparr>,
     fc_source_refs = [\<lparr>sr_kind = ''run'', sr_identifier = ''e''\<rparr>], fc_support_digests = [zero_digest]\<rparr>"

definition sample_provenance :: fact_provenance where
  "sample_provenance = \<lparr>pv_scope = sample_scope, pv_task_id = ''task'', pv_generation = 1, pv_task_version = 1, pv_decision_id = ''d'',
     pv_decision_digest = zero_digest, pv_decision_closure_digest = zero_digest, pv_origin = LOCAL_TRUSTED,
     pv_evaluator_id = Some ''ev'', pv_evaluator_result_digest = Some zero_digest, pv_external_attestation_digest = None,
     pv_verified_fact_digests = [zero_digest], pv_evidence_ids = [''e''], pv_evidence_digests = [zero_digest],
     pv_policy_version = ''1'', pv_rule_version = ''1''\<rparr>"

definition sample_fact :: trusted_fact where
  "sample_fact = \<lparr>tf_revision_id = ''r1'', tf_lineage_id = ''l'', tf_revision = 1, tf_scope = sample_scope, tf_outcome = KEEP,
     tf_origin = LOCAL_TRUSTED, tf_state = Validated, tf_core = sample_core, tf_trusted_fact_digest = zero_digest,
     tf_provenance = sample_provenance, tf_record_digest = zero_digest\<rparr>"

definition sample_lineage :: lineage where
  "sample_lineage = (''t'', ''p'', ''l'')"

definition sample_event :: memory_event where
  "sample_event = make_memory_event constant_hash sample_lineage 1 zero_digest (FactEntry sample_fact)"

definition sample_tables :: memory_tables where
  "sample_tables = \<lparr>streams = [(sample_lineage, (1, zero_digest))],
     history = [memory_event.extend sample_event \<lparr>me_idempotency_key = ''key''\<rparr>],
     current = [(sample_lineage, fact_row sample_fact (me_record_bytes sample_event) zero_digest)],
     closure_links = [(sample_lineage, zero_digest, zero_digest)],
     outbox = [\<lparr>ob_event_hash = zero_digest, ob_lineage = sample_lineage, ob_sequence = 1,
       ob_payload = outbox_payload sample_lineage sample_event\<rparr>]\<rparr>"

definition sample_session :: memory_session where
  "sample_session = fresh_memory_session\<lparr>mem := sample_tables\<rparr>"

lemma sample_crypto [simp]: "crypto.truncate sample_env = constant_hash"
  by (simp add: sample_env_def crypto.extend_def crypto.truncate_def constant_hash_def)

lemma sample_statement: "b64_decode ''b2s='' = Some ''ok''" "utf8_base64_ok ''b2s=''"
  by (simp_all add: b64_decode_def b64_value_def utf8_base64_ok_def b64_digit_def Let_def char_of_eq_iff
    take_bit_eq_mod)

lemma zero_utf8: "utf8_valid zero_digest"
  by (simp add: zero_digest_def numeral_eq_Suc)

lemma sample_scope_ok: "memory_scope_ok sample_scope"
  by (simp add: sample_scope_def memory_scope_ok_def stable_id_def version_id_def spelled_def text_ok_def alnum_def str_len_def)

lemma sample_core_ok: "fact_core_ok constant_hash sample_core"
  by (simp add: fact_core_ok_def sample_core_def sample_statement fact_scope_ok_def sources_ok_def source_ref_ok_def
    sorted_unique_def zero_hex fact_core_json_def source_ref_json_def fact_scope_json_def opt_json_def
    zero_utf8)

lemma sample_provenance_ok: "provenance_ok sample_provenance"
  using sample_scope_ok
  by (simp add: provenance_ok_def sample_provenance_def stable_id_def version_id_def spelled_def text_ok_def
    alnum_def str_len_def opt_ok_def zero_hex sorted_unique_def origin_bound_def provenance_json_def memory_scope_json_def
    opt_json_def zero_utf8 sample_scope_def)

lemma sample_fact_ok: "trusted_fact_ok constant_hash sample_fact"
proof -
  have float: "float_free (fact_core_json sample_core)" "float_free (provenance_json sample_provenance)"
    using sample_core_ok sample_provenance_ok by (simp_all add: fact_core_ok_def provenance_ok_def)
  have bound: "pv_origin sample_provenance = LOCAL_TRUSTED" "pv_scope sample_provenance = sample_scope" "fc_outcome sample_core = KEEP"
    "pv_verified_fact_digests sample_provenance = [zero_digest]"
    "fact_scope_matches sample_scope (fc_applicability_scope sample_core)" "float_free (memory_scope_json sample_scope)"
    by (simp_all add: sample_provenance_def sample_core_def sample_scope_def fact_scope_matches_def memory_scope_json_def)
  then show ?thesis
    using float sample_scope_ok sample_core_ok sample_provenance_ok
    by (simp add: trusted_fact_ok_def sample_fact_def zero_hex zero_utf8 stable_id_def spelled_def alnum_def is_digit_def
      trusted_origin_def trusted_fact_json_def)
qed

lemma sample_hashes: "me_event_hash sample_event = zero_digest" "me_record_sha256 sample_event = zero_digest"
  "me_previous_hash sample_event = zero_digest" "me_sequence sample_event = 1" "me_lineage sample_event = sample_lineage"
  by (simp_all add: sample_event_def make_memory_event_def memory_event_hash_def Let_def)

lemma sample_fields [simp]: "tf_lineage_id sample_fact = ''l''" "tf_revision sample_fact = 1" "tf_scope sample_fact = sample_scope"
  "tf_provenance sample_fact = sample_provenance" "pv_decision_closure_digest sample_provenance = zero_digest"
  "sc_tenant_id sample_scope = ''t''" "sc_project_id sample_scope = ''p''" "tf_trusted_fact_digest sample_fact = zero_digest"
  by (simp_all add: sample_fact_def sample_scope_def sample_provenance_def)

lemma fresh_memory_fields [simp]: "mem fresh_memory_session = empty_tables" "depth fresh_memory_session = 0"
  "streams empty_tables = []" "history empty_tables = []" "current empty_tables = []" "closure_links empty_tables = []"
  "outbox empty_tables = []"
  by (simp_all add: fresh_memory empty_tables_def)

lemma zero_length [simp]: "length zero_digest = 64"
  by (simp add: zero_digest_def)

lemma sample_next: "next_event constant_hash empty_tables sample_lineage (FactEntry sample_fact) = sample_event"
  by (simp add: next_event_def sample_event_def)

lemmas run_defs = thenE_def bindE_def liftE_def returnE_def raise_if_def getsE_def modifyE_def select_def execute_def
  memory_transaction_def append_memory_record_def append_memory_event_def append_guards_def checked_def check_projection_def
  write_event_def insert_history_def upsert_stream_def insert_closure_link_def write_current_def insert_current_def insert_outbox_def

lemmas row_defs = history_row_ok_def current_row_ok_def is_latest_event_def fact_row_def stream_rows_def memory_event.defs

lemma sample_event_parts:
  "sample_event = \<lparr>me_lineage = sample_lineage, me_sequence = 1, me_event_type = ''trusted_fact'',
     me_record_bytes = canonical_bytes constant_hash (trusted_fact_json sample_fact), me_record_sha256 = zero_digest,
     me_previous_hash = zero_digest, me_event_hash = zero_digest\<rparr>"
  by (simp add: sample_event_def make_memory_event_def memory_event_hash_def Let_def)

lemma fresh_memory_record: "fresh_memory_session\<lparr>rollback_only := False, mem := M, depth := 0\<rparr> = fresh_memory_session\<lparr>mem := M\<rparr>"
  by (simp add: fresh_memory_session_def session.defs fresh_session_def)

lemma sample_append:
  "append_memory_record constant_hash sample_lineage (FactEntry sample_fact) ''key'' None fresh_memory_session
    = (Inr sample_event, sample_session)"
  using sample_next fresh_memory_record
  by (simp add: run_defs row_defs sample_session_def sample_tables_def sample_event_parts sample_lineage_def empty_tables_def)

lemma sample_step: "memory_step sample_env fresh_memory_session sample_session"
proof -
  have "memory_entry_ok (crypto.truncate sample_env) (FactEntry sample_fact)" by (simp add: sample_fact_ok)
  moreover have "append_memory_record (crypto.truncate sample_env) sample_lineage (FactEntry sample_fact) ''key'' None
      fresh_memory_session = (Inr sample_event, sample_session)" using sample_append by simp
  ultimately show ?thesis by (rule memory_step.Append)
qed

lemma sample_reachable: "memory_reachable sample_env sample_session"
  using sample_step by (simp add: memory_reachable_def)

text \<open>A reader whose JSON parser is the one of the source.\<close>

definition sample_reader :: reader_env where
  "sample_reader = crypto.extend constant_hash \<lparr>model_json = parse_json_bytes constant_hash\<rparr>"

lemma sample_reader_crypto [simp]: "crypto.truncate sample_reader = constant_hash"
  by (simp add: sample_reader_def crypto.extend_def crypto.truncate_def constant_hash_def)

lemma sample_reader_parses: "parses_canonical sample_reader"
  by (simp add: parses_canonical_def parse_canonical) (simp add: sample_reader_def crypto.extend_def parse_canonical)

end
