(* ===== verification/MemoryFinalDemo.thy ===== *)
theory MemoryFinalDemo
  imports MemoryFinal MemoryDemo
begin

text \<open>A finalization that records the sample fact: one verified evaluator result, one evidence item, one admission.\<close>

definition sample_admission :: admission_receipt where
  "sample_admission = \<lparr>ad_admitted = True, ad_origin = From_EVALUATOR, ad_channel = EVALUATOR_OUTPUT, ad_campaign_id = ''camp'',
     ad_task_id = ''task'', ad_generation = 1, ad_sequence = 1, ad_content_sha256 = Some zero_digest, ad_reason_codes = [],
     ad_rule_version = ''1'', ad_scanner_sha256 = zero_digest, ad_receipt_sha256 = zero_digest\<rparr>"

definition sample_source_receipt :: source_receipt where
  "sample_source_receipt = \<lparr>er_issuer_id = ''ev'', er_key_id = ''key'', er_campaign_id = ''camp'', er_task_id = ''task'', er_generation = 1,
     er_sequence = 1, er_idempotency_key = ''idem'', er_envelope_sha256 = Some zero_digest, er_admission = sample_admission,
     er_receipt_sha256 = zero_digest\<rparr>"

definition sample_request :: finalization_request where
  "sample_request = \<lparr>fr_decision = \<lparr>td_tenant_id = ''t'', td_project_id = ''p'', td_task_id = ''task'', td_generation = 1,
       td_task_version = 1, td_decision_id = ''d'', td_outcome = KEEP, td_terminal = True, td_authority_source = ''CONTROL'',
       td_decision_digest = zero_digest\<rparr>,
     fr_result = \<lparr>ev_evaluator_id = ''ev'', ev_source_receipt = sample_source_receipt, ev_result_digest = zero_digest,
       ev_signature_verified = True, ev_verified_fact_digests = [zero_digest]\<rparr>,
     fr_facts = [\<lparr>fi_revision_id = ''r1'', fi_lineage_id = ''l'', fi_revision = 1, fi_core = sample_core, fi_expected = None\<rparr>],
     fr_evidence = [\<lparr>eb_evidence_id = ''e'', eb_evidence_digest = zero_digest\<rparr>], fr_admissions = [sample_admission],
     fr_policy_version = ''1'', fr_rule_version = ''1'', fr_memory_watermark = 0\<rparr>"

definition sample_closure :: decision_closure where
  "sample_closure = \<lparr>dc_core = closure_core_of constant_hash (fr_decision sample_request) (fr_result sample_request)
     (fr_evidence sample_request) (fr_admissions sample_request) ''1'' ''1'' 0, dc_digest = zero_digest\<rparr>"

lemma sample_closure_fields: "dc_core sample_closure = \<lparr>cc_closure_id = ''closure-'' @ take 32 zero_digest, cc_tenant_id = ''t'',
      cc_project_id = ''p'', cc_task_id = ''task'', cc_generation = 1, cc_task_version = 1, cc_decision_id = ''d'',
      cc_decision_digest = zero_digest, cc_decision_outcome = KEEP, cc_evaluator_id = ''ev'', cc_source_receipt_digest = zero_digest,
      cc_result_digest = zero_digest, cc_verified_fact_digests = [zero_digest], cc_evidence_ids = [''e''],
      cc_evidence_digests = [zero_digest], cc_bindings_digest = zero_digest, cc_admission_digests = [zero_digest],
      cc_policy_version = ''1'', cc_rule_version = ''1'', cc_memory_watermark = 0\<rparr>"
  by (simp add: sample_closure_def closure_core_of_def closure_identity_def sort_bindings_def sample_request_def
    sample_source_receipt_def sample_admission_def)

lemma sample_closure_id: "take 32 zero_digest = ''00000000000000000000000000000000''"
  by (simp add: zero_digest_def numeral_eq_Suc)

lemma sample_closure_float: "float_free (closure_core_json (dc_core sample_closure))"
  by (simp add: sample_closure_fields sample_closure_id closure_core_json_def zero_utf8)

lemma sample_closure_core_ok: "closure_core_ok (dc_core sample_closure)"
  using sample_closure_float zero_hex
  by (simp add: closure_core_ok_def sample_closure_fields sample_closure_id text_ok_def str_len_def sorted_unique_def)

lemma sample_closure_built: "build_decision_closure constant_hash (fr_decision sample_request) (fr_result sample_request)
    (fr_evidence sample_request) (fr_admissions sample_request) (fr_policy_version sample_request) (fr_rule_version sample_request)
    (fr_memory_watermark sample_request) = Inr sample_closure"
proof -
  have "closure_core_of constant_hash (fr_decision sample_request) (fr_result sample_request) (fr_evidence sample_request)
      (fr_admissions sample_request) (fr_policy_version sample_request) (fr_rule_version sample_request)
      (fr_memory_watermark sample_request) = dc_core sample_closure"
    by (simp add: sample_closure_def sample_request_def)
  then show ?thesis using sample_closure_core_ok
    by (simp add: build_decision_closure_def Let_def)
      (simp add: closure_guards_def sort_bindings_def sample_request_def sample_source_receipt_def sample_admission_def
        sample_closure_def Let_def)
qed

lemma sample_fact_built: "build_facts constant_hash sample_request sample_closure = Inr [sample_fact]"
proof -
  have "fact_of constant_hash sample_closure \<lparr>fi_revision_id = ''r1'', fi_lineage_id = ''l'', fi_revision = 1, fi_core = sample_core,
      fi_expected = None\<rparr> = sample_fact"
    by (simp add: fact_of_def sample_fact_def sample_core_def sample_scope_def sample_provenance_def provenance_of_def
      sample_closure_fields Let_def) (simp add: sample_closure_def)
  then show ?thesis using sample_fact_ok
    by (simp add: build_facts_def sort_inputs_def build_fact_def fact_guards_def evidence_map_def sample_closure_fields
      sample_request_def Let_def) (simp add: sample_core_def)
qed

lemma sample_closure_check: "closure_check sample_env zero_digest (canonical_bytes constant_hash (decision_closure_json sample_closure)) = None"
proof -
  have "float_free (decision_closure_json sample_closure)"
    using sample_closure_float by (simp add: decision_closure_json_def zero_utf8 sample_closure_def)
  note parse_canonical [OF this, of constant_hash]
  moreover have "sorted_json (decision_closure_json sample_closure) =
      JObj [(''closure_digest'', JStr zero_digest), (''core'', sorted_json (closure_core_json (dc_core sample_closure)))]"
    by (simp add: decision_closure_json_def sample_closure_def)
  ultimately show ?thesis
    using canonical_sorted [of constant_hash "decision_closure_json sample_closure"]
    by (simp add: closure_check_def closure_core_json_def Let_def)
qed

lemma sample_record_closure:
  assumes "depth s = 1" "closures (db s) = []"
  shows "\<exists>r d. record_closure sample_env ''key'' sample_closure s = (Inr r, s\<lparr>db := d\<rparr>)"
proof -
  have "canonical_bytes constant_hash (decision_closure_json sample_closure) \<noteq> []"
    by (simp add: decision_closure_json_def)
  moreover have "dc_digest sample_closure = zero_digest" by (simp add: sample_closure_def)
  ultimately show ?thesis
    using assms zero_hex sample_closure_check
    by (cases s) (simp add: record_closure_def store_op_def append_decision_closure_def store_closure_def transaction_def query_def
      update_db_def run_defs session.extend_def session.truncate_def sample_closure_fields)
qed

lemma sample_append_nested:
  assumes "depth s = 1" "mem s = empty_tables" "key \<noteq> []"
  shows "\<exists>M. append_memory_record constant_hash sample_lineage (FactEntry sample_fact) key None s = (Inr sample_event, s\<lparr>mem := M\<rparr>)"
  using assms sample_next
  by (cases s) (simp add: run_defs row_defs sample_event_parts sample_lineage_def empty_tables_def)

lemma sample_finalization:
  "\<exists>vs s. finalize_memory sample_env sample_request ''key'' fresh_memory_session = (Inr (sample_closure, [sample_fact], vs), s)"
proof -
  let ?s = "fresh_memory_session\<lparr>depth := 1, rollback_only := False\<rparr>"
  have fresh: "closures (db ?s) = []" "mem ?s = empty_tables"
    by (simp_all add: fresh_memory_session_def session.extend_def fresh_session_def empty_db_def)
  from sample_record_closure [of ?s] fresh obtain r d where r: "record_closure sample_env ''key'' sample_closure ?s = (Inr r, ?s\<lparr>db := d\<rparr>)"
    by auto
  have "fact_lineage sample_fact = sample_lineage" by (simp add: fact_lineage_def sample_lineage_def)
  with sample_append_nested [of "?s\<lparr>db := d\<rparr>" "''key'' @ '':fact:'' @ ''l''"] fresh
  obtain M where "append_memory_record constant_hash (fact_lineage sample_fact) (FactEntry sample_fact) ''key:fact:l'' None (?s\<lparr>db := d\<rparr>)
      = (Inr sample_event, ?s\<lparr>db := d, mem := M\<rparr>)" by auto
  moreover obtain i where "sort_inputs (fr_facts sample_request) = [i]" "fi_expected i = None"
    by (simp add: sort_inputs_def sample_request_def)
  ultimately show ?thesis
    using r sample_closure_built sample_fact_built
    by (simp add: finalize_memory_def thenE_def bindE_def liftE_def returnE_def raise_if_def memory_transaction_def Let_def)
qed

end
