(* ===== verification/MemoryProps.thy ===== *)
theory MemoryProps
  imports MemoryReads MemoryFinalDemo
begin

text \<open>
  The guarantees of the trusted memory, over every session that appends, finalizations and the other operations
  of the database can reach.
\<close>

subsection \<open>Streams\<close>

text \<open>C29. Every stream of every reachable session passes \<open>verify_trusted_memory_stream\<close>: the numbers run from one
  without a gap, each event carries the hash of its predecessor and of its record, and the stored root is the hash
  of the last event, however many batches of a thousand the stream has.
\<close>

theorem memory_streams_verify:
  assumes "memory_reachable A s"
  shows "verify_memory_stream (crypto.truncate A) k (mem s)"
  using tables_lineage [OF memory_reachable_ok(1) [OF assms], of k] stream_accepted by blast

theorem memory_streams_verify_witness:
  "verify_memory_stream constant_hash sample_lineage sample_tables \<and> stream_rows sample_tables sample_lineage \<noteq> []"
  using memory_streams_verify [OF sample_reachable, of sample_lineage]
  by (simp add: sample_session_def) (simp add: sample_tables_def stream_rows_def memory_event.defs sample_event_parts)

text \<open>C30. The root of a verified stream fixes its history. Two databases in which the same lineage verifies with the same
  stored number and root list the same events, byte for byte, or two of the listed events are a SHA-256 collision.
  The hypotheses are the verification itself and the primary key of the history table.
\<close>

theorem memory_root_fixes_history:
  assumes "keyed M k" and "keyed M' k"
    and "verify_memory_stream C k M" and "verify_memory_stream C k M'"
    and "dict_get (streams M) k = dict_get (streams M') k"
  shows "listed M k = listed M' k \<or> (\<exists>u \<in> set (listed M k). \<exists>v \<in> set (listed M' k). sha_collision C u v)"
proof (cases "dict_get (streams M) k")
  case None
  with assms show ?thesis by (simp add: verify_stream_iff)
next
  case (Some r)
  obtain n tip where "r = (n, tip)" by force
  with Some assms show ?thesis
    by (intro same_root_same_stream [of C k]) (simp_all add: verify_stream_iff)
qed

theorem memory_root_fixes_history_witness:
  "listed sample_tables sample_lineage = listed sample_tables sample_lineage
    \<or> (\<exists>u \<in> set (listed sample_tables sample_lineage). \<exists>v \<in> set (listed sample_tables sample_lineage). sha_collision constant_hash u v)"
proof -
  from tables_lineage [OF memory_reachable_ok(1) [OF sample_reachable], of sample_lineage]
  obtain lg where "implements constant_hash sample_tables sample_lineage lg" by (auto simp: sample_session_def)
  then have "keyed sample_tables sample_lineage" "verify_memory_stream constant_hash sample_lineage sample_tables"
    by (rule implements_listed, rule stream_accepted)
  from memory_root_fixes_history [OF this(1) this(1) this(2) this(2) refl] show ?thesis .
qed

text \<open>C28. The tables refine the abstract stream. In every reachable session the history of a lineage is a run of the
  machine \<open>stream_log\<close>, whose steps are the legal records in order, and the current projection is the state the
  machine ends in: absent without a fact, and otherwise the last fact, with its revision equal to the number of
  facts, never a candidate, and eligible exactly in state \<open>VALIDATED\<close>, which is only while nothing but candidates
  followed that fact.
\<close>

theorem memory_projection_refines:
  assumes "memory_reachable A s"
  shows "\<exists>lg. stream_log (crypto.truncate A) k lg (dict_get (current (mem s)) k)
    \<and> map memory_event.truncate (stream_rows (mem s) k) = map fst lg
    \<and> get_stream_root k (mem s) = tip_of lg
    \<and> (case dict_get (current (mem s)) k of None \<Rightarrow> facts_in lg = []
       | Some c \<Rightarrow> projection_spec (crypto.truncate A) lg c)"
proof -
  from tables_lineage [OF memory_reachable_ok(1) [OF assms], of k]
  obtain lg where lg: "implements (crypto.truncate A) (mem s) k lg" ..
  then have "stream_log (crypto.truncate A) k lg (dict_get (current (mem s)) k)" by (simp add: implements_def)
  with stream_log_projection [OF this] lg show ?thesis
    by (intro exI [of _ lg]) (auto simp: implements_def get_stream_root_def tip_of_def)
qed

theorem memory_projection_refines_witness:
  "\<exists>lg c. stream_log constant_hash sample_lineage lg (Some c) \<and> projection_spec constant_hash lg c
    \<and> map memory_event.truncate (stream_rows sample_tables sample_lineage) = map fst lg \<and> cu_revision c = 1 \<and> cu_eligible c"
proof -
  have "dict_get (current sample_tables) sample_lineage = Some (fact_row sample_fact (me_record_bytes sample_event) zero_digest)"
    by (simp add: sample_tables_def)
  moreover have "cu_revision (fact_row sample_fact (me_record_bytes sample_event) zero_digest) = 1"
    "cu_eligible (fact_row sample_fact (me_record_bytes sample_event) zero_digest)" by (simp_all add: fact_row_def)
  ultimately show ?thesis
    using memory_projection_refines [OF sample_reachable, of sample_lineage] by (fastforce simp: sample_session_def)
qed

subsection \<open>Appending\<close>

text \<open>An append under a recorded key does not touch the tables.\<close>

lemma recorded_append:
  assumes rec: "recorded_event C k e key (mem s) v" and depth: "depth s = 0"
    and guards: "checked (append_guards k e' key expected) () = Inr ()"
  shows "\<exists>s'. append_memory_record C k e' key expected s =
      ((if canonical_bytes C (entry_json e') = canonical_bytes C (entry_json e) then Inr v
        else Inl (ConflictError ''trusted_memory_idempotency_conflict'')), s') \<and> mem s' = mem s \<and> db s' = db s \<and> depth s' = 0"
  using rec depth guards
  by (auto simp: recorded_event_def append_memory_record_def memory_transaction_def append_memory_event_def thenE_def bindE_def
    liftE_def select_def getsE_def raiseE_def returnE_def simp del: checked_Inr)

text \<open>C31. Appending is idempotent by key. Once an append has returned an event, repeating it returns the same event, and
  a record with other bytes under the same key of that lineage is refused, whatever was appended, finalized or
  written to the database in between; neither changes a table.
\<close>

theorem memory_append_idempotent:
  assumes reach: "memory_reachable A s" and e: "memory_entry_ok (crypto.truncate A) e"
    and first: "append_memory_record (crypto.truncate A) k e key expected s = (Inr v, s1)"
    and later: "(memory_step A)\<^sup>*\<^sup>* s1 s2"
    and guards: "checked (append_guards k e' key expected') () = Inr ()"
  shows "\<exists>s3. append_memory_record (crypto.truncate A) k e' key expected' s2 =
      ((if canonical_bytes (crypto.truncate A) (entry_json e') = canonical_bytes (crypto.truncate A) (entry_json e) then Inr v
        else Inl (ConflictError ''trusted_memory_idempotency_conflict'')), s3) \<and> mem s3 = mem s2 \<and> db s3 = db s2"
proof -
  note s = memory_reachable_ok [OF reach]
  have "memory_step A s s1" using e first by (rule memory_step.Append)
  then have "tables_ok (crypto.truncate A) (mem s1)" "depth s1 = 0" using memory_step_keeps s by blast+
  with memory_steps_keep [OF later] have grows: "memory_grows (mem s1) (mem s2)" "depth s2 = 0" by simp_all
  from wp_result [OF wp_append_record first] have "recorded_event (crypto.truncate A) k e key (mem s1) v"
    using appended_recorded by blast
  from recorded_append [OF recorded_later [OF this grows(1)] grows(2) guards] show ?thesis by blast
qed

theorem memory_append_idempotent_witness:
  "\<exists>s. append_memory_record constant_hash sample_lineage (FactEntry sample_fact) ''key'' None sample_session = (Inr sample_event, s)
    \<and> mem s = mem sample_session"
proof -
  have reach: "memory_reachable sample_env fresh_memory_session" by (simp add: memory_reachable_def)
  have ok: "memory_entry_ok (crypto.truncate sample_env) (FactEntry sample_fact)" by (simp add: sample_fact_ok)
  have first: "append_memory_record (crypto.truncate sample_env) sample_lineage (FactEntry sample_fact) ''key'' None
      fresh_memory_session = (Inr sample_event, sample_session)" using sample_append by simp
  have guards: "checked (append_guards sample_lineage (FactEntry sample_fact) ''key'' None) () = Inr ()"
    by (simp add: append_guards_def sample_lineage_def)
  from memory_append_idempotent [OF reach ok first rtranclp.rtrancl_refl guards] show ?thesis by auto
qed

text \<open>Nothing removes or rewrites an event, a link to a decision closure or an outbox message: in every later session
  the three tables begin with what they held, and each event that could be fetched by its hash is still there.
\<close>

theorem memory_append_only:
  assumes "memory_reachable A s" and "(memory_step A)\<^sup>*\<^sup>* s s'"
  shows "memory_grows (mem s) (mem s')
    \<and> (get_memory_event k h s = (Inr v, s) \<longrightarrow> get_memory_event k h s' = (Inr v, s'))"
proof -
  have grows: "memory_grows (mem s) (mem s')"
    using memory_steps_keep [OF assms(2)] memory_reachable_ok [OF assms(1)] by simp
  moreover have "get_memory_event k h s' = (Inr v, s')" if "get_memory_event k h s = (Inr v, s)"
  proof -
    from that obtain r where r: "List.find (\<lambda>r. me_event_hash r = h) (stream_rows (mem s) k) = Some r" "v = memory_event.truncate r"
      by (auto simp: get_memory_event_def bindE_def select_def getsE_def raiseE_def returnE_def split: option.splits)
    from grown_rows [OF grows] obtain hs where "stream_rows (mem s') k = stream_rows (mem s) k @ hs" by blast
    with find_append [OF r(1)] r(2) show ?thesis
      by (simp add: get_memory_event_def bindE_def select_def getsE_def returnE_def)
  qed
  ultimately show ?thesis by blast
qed

theorem memory_append_only_witness:
  "memory_grows empty_tables sample_tables"
proof -
  have "memory_reachable sample_env fresh_memory_session" by (simp add: memory_reachable_def)
  from memory_append_only [OF this r_into_rtranclp, OF sample_step] show ?thesis by (simp add: sample_session_def)
qed

text \<open>An append or a finalization that raises changes nothing: the streams, the history, the current projections, the
  links, the outbox and the rest of the database are as they were, wherever in the call the error arose.
\<close>

theorem memory_call_refused:
  assumes "memory_reachable A s"
    and "append_memory_record (crypto.truncate A) k e key expected s = (Inl x, s') \<or> finalize_memory A q key s = (Inl x, s')"
  shows "mem s' = mem s \<and> db s' = db s"
proof -
  note s = memory_reachable_ok [OF assms(1)]
  from assms(2) show ?thesis
  proof
    assume "append_memory_record (crypto.truncate A) k e key expected s = (Inl x, s')"
    from wp_error [OF wp_append_record this] s(2) show ?thesis by simp
  next
    assume "finalize_memory A q key s = (Inl x, s')"
    from wp_error [OF wp_finalize [OF s(1)] this] s(2) show ?thesis by simp
  qed
qed

theorem memory_call_refused_witness:
  "\<exists>x s'. append_memory_record constant_hash sample_lineage (FactEntry sample_fact) ''other'' None sample_session = (Inl x, s')
    \<and> mem s' = sample_tables"
proof -
  obtain r s' where run: "append_memory_record constant_hash sample_lineage (FactEntry sample_fact) ''other'' None sample_session = (r, s')"
    by force
  have "\<exists>x. r = Inl x"
    using run by (auto simp: run_defs raiseE_def row_defs sample_session_def sample_tables_def sample_lineage_def sample_event_parts)
  then obtain x where "r = Inl x" ..
  with run memory_call_refused [OF sample_reachable, of sample_lineage "FactEntry sample_fact" "''other''" None x s']
  show ?thesis by (auto simp: sample_session_def)
qed

subsection \<open>Finalization\<close>

text \<open>C27. A finalization binds what it records to an independent verdict. When \<open>finalize_terminal\<close> returns, the decision is a
  terminal one of the control authority, the evaluator's result carries a verified signature, came through an
  admitted frame that holds these very bytes and belongs to the task and generation of the decision, as does
  every admission receipt; the facts are exactly those whose digests the evaluator verified. Each of them has the
  provenance of the closure, its tenant, project and outcome, and cites only evidence of the request; the history has
  its event under its key, and the closure is stored as its canonical bytes.
\<close>

theorem finalization_binds:
  assumes "finalize_memory A q key s = (Inr (c, fs, vs), s')"
  shows "td_authority_source (fr_decision q) = ''CONTROL'' \<and> td_terminal (fr_decision q)
    \<and> ev_signature_verified (fr_result q) \<and> ad_admitted (er_admission (ev_source_receipt (fr_result q)))
    \<and> er_envelope_sha256 (ev_source_receipt (fr_result q)) = Some (ev_result_digest (fr_result q))
    \<and> er_task_id (ev_source_receipt (fr_result q)) = td_task_id (fr_decision q)
    \<and> er_generation (ev_source_receipt (fr_result q)) = td_generation (fr_decision q)
    \<and> (\<forall>a \<in> set (fr_admissions q). ad_admitted a \<and> ad_task_id a = td_task_id (fr_decision q)
        \<and> ad_generation a = td_generation (fr_decision q))
    \<and> sort (map tf_trusted_fact_digest fs) = ev_verified_fact_digests (fr_result q)
    \<and> (\<forall>f \<in> set fs. trusted_fact_ok (crypto.truncate A) f \<and> tf_provenance f = provenance_of c (tf_scope f)
        \<and> sc_tenant_id (tf_scope f) = td_tenant_id (fr_decision q) \<and> sc_project_id (tf_scope f) = td_project_id (fr_decision q)
        \<and> tf_outcome f = td_outcome (fr_decision q)
        \<and> sr_identifier ` set (fc_source_refs (tf_core f)) \<subseteq> eb_evidence_id ` set (fr_evidence q))
    \<and> list_all2 (\<lambda>f v. records (crypto.truncate A) key f (mem s') v) fs vs
    \<and> closure_stored (crypto.truncate A) c (db s')"
proof -
  from wp_result [OF wp_finalize_returns assms]
  have closure: "build_decision_closure (crypto.truncate A) (fr_decision q) (fr_result q) (fr_evidence q) (fr_admissions q)
      (fr_policy_version q) (fr_rule_version q) (fr_memory_watermark q) = Inr c"
    and facts: "build_facts (crypto.truncate A) q c = Inr fs"
    and stored: "list_all2 (\<lambda>f v. records (crypto.truncate A) key f (mem s') v) fs vs"
      "closure_stored (crypto.truncate A) c (db s')" by simp_all
  note checked = closure_checked [OF closure]
  have core: "cc_verified_fact_digests (dc_core c) = ev_verified_fact_digests (fr_result q)"
    "cc_tenant_id (dc_core c) = td_tenant_id (fr_decision q)" "cc_project_id (dc_core c) = td_project_id (fr_decision q)"
    "cc_decision_outcome (dc_core c) = td_outcome (fr_decision q)"
    unfolding checked(8) by (simp_all add: closure_core_of_def)
  have each: "\<forall>f \<in> set fs. trusted_fact_ok (crypto.truncate A) f \<and> tf_provenance f = provenance_of c (tf_scope f)
      \<and> sc_tenant_id (tf_scope f) = td_tenant_id (fr_decision q) \<and> sc_project_id (tf_scope f) = td_project_id (fr_decision q)
      \<and> tf_outcome f = td_outcome (fr_decision q)
      \<and> sr_identifier ` set (fc_source_refs (tf_core f)) \<subseteq> eb_evidence_id ` set (fr_evidence q)"
    using facts_checked(2) [OF facts] unfolding core by (rule ballI)
  have digests: "sort (map tf_trusted_fact_digest fs) = ev_verified_fact_digests (fr_result q)"
    using facts_checked(1) [OF facts] unfolding core .
  have admissions: "\<forall>a \<in> set (fr_admissions q). ad_admitted a \<and> ad_task_id a = td_task_id (fr_decision q)
      \<and> ad_generation a = td_generation (fr_decision q)"
    using checked(7) by (simp add: list_all_iff)
  show ?thesis
    by (intro conjI checked(1-5) checked(6) [THEN conjunct1] checked(6) [THEN conjunct2] admissions digests each stored)
qed

theorem finalization_binds_witness:
  "\<exists>vs s. finalize_memory sample_env sample_request ''key'' fresh_memory_session = (Inr (sample_closure, [sample_fact], vs), s)
    \<and> closure_stored constant_hash sample_closure (db s)
    \<and> list_all2 (\<lambda>f v. records constant_hash ''key'' f (mem s) v) [sample_fact] vs"
proof -
  obtain vs s where "finalize_memory sample_env sample_request ''key'' fresh_memory_session = (Inr (sample_closure, [sample_fact], vs), s)"
    using sample_finalization by blast
  with finalization_binds [OF this] show ?thesis by auto
qed

subsection \<open>Reading\<close>

text \<open>C32. Retrieval is exact. In every reachable session \<open>TrustedMemoryService.retrieve\<close> returns a result, and its items
  are the facts of the lineages asked for whose canonical bytes are in the history of the lineage with nothing but
  candidates after them, and that match the component, version, outcomes and origins of the query: no revoked,
  superseded, conflicted or expired fact is returned and no other is left out. \<open>parses_canonical\<close> is the documented
  behaviour of the JSON parser of Pydantic on the canonical bytes that the store wrote.
\<close>

theorem memory_retrieval_exact:
  assumes "memory_reachable A s" and "parses_canonical E" and "crypto.truncate E = crypto.truncate A"
  shows "\<exists>r. retrieve_memories E ls q (mem s) = Inr r \<and> set (rs_items r) = {item_of (crypto.truncate A) f | l f. l \<in> set ls
    \<and> undisturbed (crypto.truncate A) (mem s) (rq_tenant_id q, rq_project_id q, l) f \<and> answers q f}"
  using retrieved_items [of E "mem s" ls q] memory_reachable_ok(1) [OF assms(1)] assms(2,3) by simp

definition sample_query :: retrieval_query where
  "sample_query = \<lparr>rq_tenant_id = ''t'', rq_project_id = ''p'', rq_component = ''c'', rq_version = ''1'', rq_outcomes = [KEEP],
     rq_origins = [LOCAL_TRUSTED]\<rparr>"

lemma sample_undisturbed: "undisturbed constant_hash sample_tables sample_lineage sample_fact"
  unfolding undisturbed_def
  by (intro conjI sample_fact_ok exI [of _ "[]"] exI [of _ "memory_event.extend sample_event \<lparr>me_idempotency_key = ''key''\<rparr>"])
    (simp_all add: belongs_def sample_lineage_def sample_tables_def stream_rows_def memory_event.defs sample_event_parts)

theorem memory_retrieval_exact_witness:
  "\<exists>r. retrieve_memories sample_reader [''l''] sample_query sample_tables = Inr r \<and> item_of constant_hash sample_fact \<in> set (rs_items r)"
proof -
  have "answers sample_query sample_fact"
    by (simp add: answers_def sample_query_def sample_fact_def sample_scope_def)
  then have "item_of constant_hash sample_fact \<in> {item_of constant_hash f | l f. l \<in> set [''l'']
      \<and> undisturbed constant_hash sample_tables (rq_tenant_id sample_query, rq_project_id sample_query, l) f \<and> answers sample_query f}"
    using sample_undisturbed by (auto simp: sample_lineage_def sample_query_def)
  with memory_retrieval_exact [OF sample_reachable sample_reader_parses, of "[''l'']" sample_query]
  show ?thesis by (auto simp: sample_session_def)
qed

text \<open>C33. The focus source of a project is sound and, unless it says that it was cut, complete. It answers only for the
  tenant of the service, holds at most \<open>max_items\<close> facts of at most \<open>scan_limit\<close> scanned rows, satisfies every validator of
  the wire model, and each of its facts shows a fact of that tenant and project with nothing but candidates after it,
  inside the filters. If neither truncation flag is set, every such fact of the project is in it.
\<close>

theorem memory_focus_exact:
  assumes "memory_reachable A s" and "parses_canonical E" and "crypto.truncate E = crypto.truncate A"
    and "fetch_focus E tenant q (mem s) = Inr src"
  shows "fq_tenant_id q = tenant \<and> length (fs_facts src) \<le> nat (fq_max_items q) \<and> fs_scanned_count src \<le> int (nat (fq_scan_limit q))
    \<and> focus_source_ok (crypto.truncate A) src
    \<and> (\<forall>x \<in> set (fs_facts src). \<exists>f. shows_fact (crypto.truncate A) f x \<and> selects q f
        \<and> undisturbed (crypto.truncate A) (mem s) (fq_tenant_id q, fq_project_id q, tf_lineage_id f) f)
    \<and> (\<not> fs_truncated_by_scan_limit src \<and> \<not> fs_truncated_by_max_items src \<longrightarrow>
        (\<forall>l f. undisturbed (crypto.truncate A) (mem s) (fq_tenant_id q, fq_project_id q, l) f \<and> selects q f \<longrightarrow>
          (\<exists>x \<in> set (fs_facts src). shows_fact (crypto.truncate A) f x)))"
proof -
  have tables: "tables_ok (crypto.truncate E) (mem s)" using memory_reachable_ok(1) [OF assms(1)] assms(3) by simp
  from focus_facts [OF assms(2) tables assms(4)] focus_complete [OF assms(2) tables assms(4)] focus_bounds [OF assms(4)]
  show ?thesis unfolding assms(3) by blast
qed

definition sample_focus :: focus_query where
  "sample_focus = \<lparr>fq_tenant_id = ''t'', fq_project_id = ''p'', fq_outcomes = [KEEP], fq_origins = [LOCAL_TRUSTED], fq_max_items = 1,
     fq_scan_limit = 1\<rparr>"

definition sample_focus_fact :: focus_fact where
  "sample_focus_fact = \<lparr>ff_fact_sha256 = zero_digest, ff_tenant_id = ''t'', ff_project_id = ''p'', ff_lineage_id = ''l'',
     ff_revision_id = ''r1'', ff_revision = 1, ff_fact_kind = ''metric'', ff_statement = ''ok'', ff_component = ''c'',
     ff_version = ''1'', ff_outcome = KEEP, ff_origin = LOCAL_TRUSTED,
     ff_commitment = \<lparr>fo_closure_digest = zero_digest, fo_evidence_ids = [''e''], fo_evidence_digests = [zero_digest],
       fo_commitment = zero_digest\<rparr>, ff_provenance_sha256 = zero_digest, ff_projection_event_hash = zero_digest\<rparr>"

lemma sample_focus_fact_ok: "focus_fact_ok constant_hash sample_focus_fact"
  using zero_hex by (simp add: focus_fact_ok_def sample_focus_fact_def text_ok_def str_len_def commitment_ok_def commitment_digest_def
    sorted_unique_def commitment_json_def commitment_members_def zero_utf8 trusted_origin_def focus_fact_json_def
    char_of_eq_iff take_bit_eq_mod)

lemma sample_focus_row:
  "focus_row sample_reader sample_focus (sample_lineage, fact_row sample_fact (me_record_bytes sample_event) zero_digest)
    = Inr [sample_focus_fact]"
proof -
  have load: "load_fact sample_reader (me_record_bytes sample_event) = Some sample_fact"
    using load_fact_back [OF sample_reader_parses, of sample_fact] sample_fact_ok by (simp add: sample_event_parts)
  have commitment: "build_commitment constant_hash [''e''] [zero_digest] zero_digest =
      Inr \<lparr>fo_closure_digest = zero_digest, fo_evidence_ids = [''e''], fo_evidence_digests = [zero_digest], fo_commitment = zero_digest\<rparr>"
    using zero_hex by (simp add: build_commitment_def commitment_ok_def commitment_digest_def text_ok_def str_len_def
      sorted_unique_def commitment_json_def commitment_members_def zero_utf8 Let_def)
  have "focus_fact_of constant_hash (fact_row sample_fact (me_record_bytes sample_event) zero_digest) sample_fact
      = Inr sample_focus_fact"
    using commitment sample_statement sample_focus_fact_ok
    by (simp add: focus_fact_of_def sample_focus_fact_def fact_statement_def sample_fact_def sample_provenance_def sample_core_def
      sample_scope_def provenance_digest_def fact_row_def Let_def)
  with load show ?thesis
    by (simp add: focus_row_def fact_row_def projection_row_matches_def sample_lineage_def sample_focus_def)
      (simp add: sample_fact_def trusted_origin_def)
qed

lemma sample_scan: "scan_current ''t'' sample_focus sample_tables
    = Inr ([(sample_lineage, fact_row sample_fact (me_record_bytes sample_event) zero_digest)], False)"
  by (simp add: scan_current_def eligible_rows_def sample_focus_def sample_tables_def sample_lineage_def checked_def Let_def)
    (simp add: fact_row_def)

lemma sample_source: "\<exists>src. build_focus_source constant_hash sample_focus [sample_focus_fact] 1 False 1 = Inr src
    \<and> fs_facts src = [sample_focus_fact]"
proof -
  have parts: "ff_lineage_id sample_focus_fact = ''l''" "ff_tenant_id sample_focus_fact = ''t''" "ff_project_id sample_focus_fact = ''p''"
    "ff_outcome sample_focus_fact = KEEP" "ff_origin sample_focus_fact = LOCAL_TRUSTED"
    by (simp_all add: sample_focus_fact_def)
  have "focus_query_ok sample_focus"
    by (simp add: focus_query_ok_def sample_focus_def text_ok_def str_len_def in_range_def normal_filter_def trusted_origin_def)
  then show ?thesis
    using sample_focus_fact_ok zero_hex parts
    by (simp add: build_focus_source_def focus_source_guards_def focus_source_ok_def snapshot_root_def sort_facts_def Let_def
      focus_core_json_def sample_focus_def focus_query_json_def focus_fact_ok_def zero_utf8)
qed

theorem memory_focus_exact_witness:
  "\<exists>src. fetch_focus sample_reader ''t'' sample_focus sample_tables = Inr src \<and> fs_facts src = [sample_focus_fact]
    \<and> (\<exists>f. shows_fact constant_hash f sample_focus_fact \<and> undisturbed constant_hash sample_tables (''t'', ''p'', tf_lineage_id f) f)"
proof -
  have "\<exists>src. fetch_focus sample_reader ''t'' sample_focus sample_tables = Inr src \<and> fs_facts src = [sample_focus_fact]"
    using sample_focus_row sample_source by (simp add: fetch_focus_def sample_scan)
  then obtain src where src: "fetch_focus sample_reader ''t'' sample_focus sample_tables = Inr src"
    "fs_facts src = [sample_focus_fact]" by blast
  with memory_focus_exact [OF sample_reachable sample_reader_parses, of "''t''" sample_focus src]
  show ?thesis by (auto simp: sample_session_def sample_focus_def)
qed

text \<open>C34. An evidence capsule keeps its byte budget. Whenever \<open>build_evidence_capsule\<close> returns, the canonical bytes of the
  capsule are at most \<open>max_bytes\<close> long, its items are the first items of the retrieval in order and at most \<open>max_items\<close>,
  it is bound to the retrieval and to its own root, \<open>truncated\<close> says whether an item is missing, and if the item count
  is not the reason, the next item would have burst the budget.
\<close>

theorem capsule_bounded:
  assumes "build_evidence_capsule C r max_bytes max_items = Inr c"
  shows "int (capsule_size C c) \<le> max_bytes \<and> int (length (ec_items c)) \<le> max_items
    \<and> ec_items c = map capsule_item_of (take (length (ec_items c)) (rs_items r))
    \<and> ec_retrieval_digest c = rs_digest r \<and> ec_root_digest c = capsule_root C c
    \<and> (ec_truncated c \<longleftrightarrow> length (ec_items c) < length (rs_items r))
    \<and> (ec_truncated c \<and> int (length (ec_items c)) < max_items \<longrightarrow>
        max_bytes < int (capsule_size C (make_capsule C (map capsule_item_of (take (Suc (length (ec_items c))) (rs_items r))) r)))"
proof -
  let ?is = "take (nat max_items) (rs_items r)"
  from assms have ok: "0 \<le> max_items" "int (capsule_size C (make_capsule C [] r)) \<le> max_bytes"
    and c: "c = make_capsule C (fill_capsule C r max_bytes [] ?is) r"
    by (auto simp: build_evidence_capsule_def)
  from fill_capsule_prefix [OF ok(2), of ?is, unfolded append_Nil] obtain n where n: "n \<le> length ?is"
    "fill_capsule C r max_bytes [] ?is = map capsule_item_of (take n ?is)"
    "int (capsule_size C (make_capsule C (map capsule_item_of (take n ?is)) r)) \<le> max_bytes"
    "n < length ?is \<longrightarrow> max_bytes < int (capsule_size C (make_capsule C (map capsule_item_of (take (Suc n) ?is)) r))"
    by blast
  have bound: "n \<le> length (rs_items r)" "n \<le> nat max_items" using n(1) by simp_all
  then have items: "ec_items c = map capsule_item_of (take n (rs_items r))" "length (ec_items c) = n"
    by (simp_all add: c n(2) take_take min_absorb1)
  have size: "int (capsule_size C c) \<le> max_bytes" using n(3) by (simp add: c n(2))
  have more: "max_bytes < int (capsule_size C (make_capsule C (map capsule_item_of (take (Suc n) (rs_items r))) r))"
    if "n < length (rs_items r)" "int n < max_items"
  proof -
    have "take (Suc n) ?is = take (Suc n) (rs_items r)" "n < length ?is" using that by (simp_all add: take_take min_absorb1)
    with n(4) show ?thesis by simp
  qed
  have "ec_truncated c \<longleftrightarrow> length (ec_items c) < length (rs_items r)" "ec_retrieval_digest c = rs_digest r"
    "ec_root_digest c = capsule_root C c" unfolding c by simp_all
  then show ?thesis using items size more bound ok(1) by simp
qed

definition sample_result :: retrieval_result where
  "sample_result = retrieve_exact constant_hash [StoredFact sample_fact] sample_query"

theorem capsule_bounded_witness:
  "\<exists>c. build_evidence_capsule constant_hash sample_result
      (256 + int (capsule_size constant_hash (make_capsule constant_hash [] sample_result))) 1 = Inr c
    \<and> int (capsule_size constant_hash c) \<le> 256 + int (capsule_size constant_hash (make_capsule constant_hash [] sample_result))"
proof -
  obtain c where "build_evidence_capsule constant_hash sample_result
      (256 + int (capsule_size constant_hash (make_capsule constant_hash [] sample_result))) 1 = Inr c"
    by (auto simp: build_evidence_capsule_def)
  with capsule_bounded [OF this] show ?thesis by blast
qed

end
