(* ===== verification/ResearchModels.thy ===== *)
theory ResearchModels
  imports ModelFields
begin

text \<open>
  The contracts of the research input ladder: \<open>apps/api/research_os/models.py\<close>. A text is the list of its UTF-8
  bytes, as everywhere; what Python does by code point (\<open>strip\<close>, \<open>\s+\<close>, slices, \<open>len\<close>) goes through \<open>chars_of\<close>.
\<close>

subsection \<open>Texts by code point\<close>

function chars_of :: "string \<Rightarrow> string list" where
  "chars_of [] = []"
| "chars_of (c # s) = (c # takeWhile cont_byte s) # chars_of (dropWhile cont_byte s)"
  by pat_completeness auto

termination chars_of
  by (relation "measure length") (simp_all add: le_imp_less_Suc length_dropWhile_le)

text \<open>The characters for which \<open>str.isspace\<close> holds.\<close>

definition spaces :: "string list" where
  "spaces = map utf8_encode ([9..<14] @ [28..<33] @ [133, 160, 5760] @ [8192..<8203] @ [8232, 8233, 8239, 8287, 12288])"

definition space :: "string \<Rightarrow> bool" where
  "space c \<longleftrightarrow> c \<in> set spaces"

definition strip_end :: "string \<Rightarrow> string" where
  "strip_end s = concat (rev (dropWhile space (rev (chars_of s))))"

definition strip :: "string \<Rightarrow> string" where
  "strip s = concat (rev (dropWhile space (rev (dropWhile space (chars_of s)))))"

definition str_take :: "nat \<Rightarrow> string \<Rightarrow> string" where
  "str_take n s = concat (take n (chars_of s))"

text \<open>
  \<open>re.sub(r"[^...]+", "-", s)\<close> and \<open>s.strip("...")\<close> for a set of ASCII characters, where the bytes of a character outside
  ASCII are all outside the set.
\<close>

function dash_runs :: "(char \<Rightarrow> bool) \<Rightarrow> string \<Rightarrow> string" where
  "dash_runs ok [] = []"
| "dash_runs ok (c # s) = (if ok c then c # dash_runs ok s else CHR ''-'' # dash_runs ok (dropWhile (\<lambda>x. \<not> ok x) s))"
  by pat_completeness auto

termination dash_runs
  by (relation "measure (length \<circ> snd)") (simp_all add: le_imp_less_Suc length_dropWhile_le)

definition strip_bytes :: "(char \<Rightarrow> bool) \<Rightarrow> string \<Rightarrow> string" where
  "strip_bytes ok s = rev (dropWhile ok (rev (dropWhile ok s)))"

text \<open>Python's \<open>a or b\<close> on optional texts, and the truth value of one.\<close>

definition truthy_text :: "string option \<Rightarrow> bool" where
  "truthy_text s = (case s of None \<Rightarrow> False | Some t \<Rightarrow> t \<noteq> [])"

definition or_else :: "string option \<Rightarrow> string option \<Rightarrow> string option" where
  "or_else a b = (if truthy_text a then a else b)"

subsection \<open>Enumerations\<close>

datatype input_tier = DETAILED | FUZZY | BASELINE_ONLY

fun tier_value :: "input_tier \<Rightarrow> string" where
  "tier_value DETAILED = ''detailed_proposal''"
| "tier_value FUZZY = ''fuzzy_idea''"
| "tier_value BASELINE_ONLY = ''baseline_only''"

datatype truth_class = LIVE | LIVE_LOCAL | SYNTHETIC_FIXTURE | NOT_RUN | NOT_CONFIGURED | UNVERIFIED

fun truth_value :: "truth_class \<Rightarrow> string" where
  "truth_value LIVE = ''LIVE''"
| "truth_value LIVE_LOCAL = ''LIVE_LOCAL''"
| "truth_value SYNTHETIC_FIXTURE = ''SYNTHETIC_FIXTURE''"
| "truth_value NOT_RUN = ''NOT_RUN''"
| "truth_value NOT_CONFIGURED = ''NOT_CONFIGURED''"
| "truth_value UNVERIFIED = ''UNVERIFIED''"

subsection \<open>Proposals\<close>

datatype module_spec = Module (mod_name: string) (mod_kind: string) (mod_hypothesis: string) (mod_runnable: bool)
  (mod_parameters: "(string \<times> json) list") (mod_children: "module_spec list")

primrec module_ok :: "module_spec \<Rightarrow> bool" where
  "module_ok (Module name kind hypothesis runnable parameters children) \<longleftrightarrow>
     text_ok 1 120 name \<and> text_ok 1 40 kind \<and> list_all id (map module_ok children)"

primrec module_json :: "module_spec \<Rightarrow> json" where
  "module_json (Module name kind hypothesis runnable parameters children) = JObj
     [(''name'', JStr name), (''kind'', JStr kind), (''hypothesis'', JStr hypothesis), (''runnable'', JBool runnable),
      (''parameters'', JObj parameters), (''children'', JList (map module_json children))]"

record research_input =
  ri_title :: string
  ri_objective :: string
  ri_baseline :: string
  ri_proposal :: "string option"
  ri_idea :: "string option"
  ri_branches :: "string list"
  ri_core_code :: "string option"
  ri_hierarchy :: "module_spec list"
  ri_metrics :: "string list"
  ri_folds :: "int list"
  ri_seeds :: "int list"
  ri_requested_tier :: "input_tier option"
  ri_source_repository :: "string option"

definition opt_text_ok :: "nat \<Rightarrow> string option \<Rightarrow> bool" where
  "opt_text_ok hi s = (case s of None \<Rightarrow> True | Some t \<Rightarrow> str_len t \<le> hi)"

definition cleaned :: "string list \<Rightarrow> string list" where
  "cleaned xs = filter (\<lambda>s. s \<noteq> []) (map strip xs)"

definition unique_integers :: "int list \<Rightarrow> bool" where
  "unique_integers xs \<longleftrightarrow> xs \<noteq> [] \<and> distinct xs"

text \<open>The limits on the number of branches and metrics come before the cleaning, the check of uniqueness after it.\<close>

definition validate_input :: "research_input \<Rightarrow> research_input option" where
  "validate_input v =
     (if text_ok 1 160 (ri_title v) \<and> text_ok 1 12000 (ri_objective v) \<and> text_ok 1 40000 (ri_baseline v)
       \<and> opt_text_ok 80000 (ri_proposal v) \<and> opt_text_ok 30000 (ri_idea v) \<and> opt_text_ok 60000 (ri_core_code v)
       \<and> opt_text_ok 500 (ri_source_repository v) \<and> list_all module_ok (ri_hierarchy v)
       \<and> length (ri_branches v) \<le> 64 \<and> length (ri_metrics v) \<le> 64
       \<and> distinct (cleaned (ri_branches v)) \<and> distinct (cleaned (ri_metrics v))
       \<and> unique_integers (ri_folds v) \<and> unique_integers (ri_seeds v)
      then Some (v\<lparr>ri_branches := cleaned (ri_branches v), ri_metrics := cleaned (ri_metrics v)\<rparr>) else None)"

subsection \<open>Resource plans\<close>

record resource_plan =
  rp_matrix_cells :: int
  rp_folds :: int
  rp_cpu_hours :: rat
  rp_gpu_hours :: rat
  rp_cpu_per_cell :: int
  rp_gpu_per_cell :: rat
  rp_row_shards :: int
  rp_checkpoint_minutes :: "int option"
  rp_resume_supported :: bool
  rp_shared_cache :: bool
  rp_recomputes_data :: bool
  rp_concurrent_cells :: int
  rp_global_barrier :: bool
  rp_validation_coupled :: bool
  rp_partition_key :: string
  rp_human_approved :: bool

definition resource_plan_ok :: "resource_plan \<Rightarrow> bool" where
  "resource_plan_ok p \<longleftrightarrow> 1 \<le> rp_matrix_cells p \<and> 1 \<le> rp_folds p \<and> 0 \<le> rp_cpu_hours p \<and> 0 \<le> rp_gpu_hours p
     \<and> 1 \<le> rp_cpu_per_cell p \<and> 0 \<le> rp_gpu_per_cell p \<and> 1 \<le> rp_row_shards p
     \<and> (case rp_checkpoint_minutes p of None \<Rightarrow> True | Some m \<Rightarrow> 1 \<le> m) \<and> 1 \<le> rp_concurrent_cells p
     \<and> str_len (rp_partition_key p) \<le> 200"

definition resource_plan_json :: "resource_plan \<Rightarrow> json" where
  "resource_plan_json p = JObj
     [(''matrix_cells'', JInt (rp_matrix_cells p)), (''folds'', JInt (rp_folds p)),
      (''estimated_cpu_hours'', JFloat (rp_cpu_hours p)), (''estimated_gpu_hours'', JFloat (rp_gpu_hours p)),
      (''cpu_per_cell'', JInt (rp_cpu_per_cell p)), (''gpu_per_cell'', JFloat (rp_gpu_per_cell p)),
      (''row_shards'', JInt (rp_row_shards p)), (''checkpoint_interval_minutes'', opt_json JInt (rp_checkpoint_minutes p)),
      (''resume_supported'', JBool (rp_resume_supported p)), (''shared_dataset_cache'', JBool (rp_shared_cache p)),
      (''recomputes_fold_invariant_data'', JBool (rp_recomputes_data p)), (''concurrent_cells'', JInt (rp_concurrent_cells p)),
      (''global_phase_barrier'', JBool (rp_global_barrier p)),
      (''validation_coupled_to_compute'', JBool (rp_validation_coupled p)),
      (''output_partition_key'', JStr (rp_partition_key p)), (''human_approved'', JBool (rp_human_approved p))]"

subsection \<open>Stage commits\<close>

record focus_message =
  fm_role :: string
  fm_content :: string

definition focus_message_ok :: "focus_message \<Rightarrow> bool" where
  "focus_message_ok m \<longleftrightarrow> fm_role m \<in> {''system'', ''user'', ''assistant'', ''tool''} \<and> text_ok 1 50000 (fm_content m)"

definition focus_message_json :: "focus_message \<Rightarrow> json" where
  "focus_message_json m = JObj [(''role'', JStr (fm_role m)), (''content'', JStr (fm_content m))]"

record stage_commit =
  sc_team_id :: string
  sc_user_id :: string
  sc_session_id :: string
  sc_task :: string
  sc_stage_id :: string
  sc_messages :: "focus_message list"
  sc_decisions :: "string list"
  sc_evidence :: "string list"
  sc_blockers :: "string list"
  sc_next_actions :: "string list"
  sc_validated_facts :: "string list"

definition stage_commit_members :: "stage_commit \<Rightarrow> (string \<times> json) list" where
  "stage_commit_members b =
     [(''team_id'', JStr (sc_team_id b)), (''user_id'', JStr (sc_user_id b)), (''session_id'', JStr (sc_session_id b)),
      (''task_id'', JStr (sc_task b)), (''stage_id'', JStr (sc_stage_id b)),
      (''messages'', JList (map focus_message_json (sc_messages b))), (''decisions'', JList (map JStr (sc_decisions b))),
      (''evidence'', JList (map JStr (sc_evidence b))), (''blockers'', JList (map JStr (sc_blockers b))),
      (''next_actions'', JList (map JStr (sc_next_actions b))),
      (''validated_facts'', JList (map JStr (sc_validated_facts b)))]"

text \<open>\<open>float_free\<close>: the texts are texts, that is, valid UTF-8.\<close>

definition stage_commit_ok :: "stage_commit \<Rightarrow> bool" where
  "stage_commit_ok b \<longleftrightarrow> text_ok 1 120 (sc_team_id b) \<and> text_ok 1 120 (sc_user_id b) \<and> text_ok 1 160 (sc_session_id b)
     \<and> text_ok 1 160 (sc_task b) \<and> text_ok 1 160 (sc_stage_id b)
     \<and> 1 \<le> length (sc_messages b) \<and> length (sc_messages b) \<le> 100 \<and> list_all focus_message_ok (sc_messages b)
     \<and> length (sc_decisions b) \<le> 40 \<and> length (sc_evidence b) \<le> 80 \<and> length (sc_blockers b) \<le> 40
     \<and> length (sc_next_actions b) \<le> 40 \<and> length (sc_validated_facts b) \<le> 80
     \<and> float_free (JObj (stage_commit_members b))
     \<and> (sc_decisions b \<noteq> [] \<or> sc_evidence b \<noteq> [] \<or> sc_blockers b \<noteq> [] \<or> sc_next_actions b \<noteq> [])"

subsection \<open>Lemmas\<close>

lemma concat_chars: "concat (chars_of s) = s"
  by (induction s rule: chars_of.induct) simp_all

lemma chars_nonempty: "c \<in> set (chars_of s) \<Longrightarrow> c \<noteq> []"
  by (induction s rule: chars_of.induct) auto

end
