(* ===== verification/ResearchLadder.thy ===== *)
theory ResearchLadder
  imports ResearchModels
begin

text \<open>
  The research compiler: \<open>apps/api/research_os/ladder.py\<close> normalises a proposal, numbers its modules in one tree and
  crosses the runnable nodes with the folds and seeds. \<open>resource_reviewer.py\<close> reviews the resources of a plan and
  \<open>service.py\<close> puts the two together. A float is the rational it denotes, and the sum of two floats goes through
  the rounding \<open>round_double\<close>.
\<close>

record research_env = crypto +
  round_double :: "rat \<Rightarrow> rat"

definition ladder_sha256 :: "crypto \<Rightarrow> json \<Rightarrow> string" where
  "ladder_sha256 C v = sha256 C (canonical_bytes C v)"

subsection \<open>Normalisation\<close>

definition classify_input :: "research_input \<Rightarrow> input_tier" where
  "classify_input v = (case ri_requested_tier v of Some t \<Rightarrow> t
     | None \<Rightarrow>
        if truthy_text (ri_proposal v) \<and> (ri_hierarchy v \<noteq> [] \<or> ri_branches v \<noteq> [] \<or> truthy_text (ri_core_code v)) then DETAILED
        else if truthy_text (ri_idea v) \<or> truthy_text (ri_proposal v) then FUZZY else BASELINE_ONLY)"

text \<open>\<open>%0<w>d\<close>.\<close>

definition pad :: "nat \<Rightarrow> nat \<Rightarrow> string" where
  "pad w n = replicate (w - length (dec n)) (CHR ''0'') @ dec n"

definition visual_variants :: "string list" where
  "visual_variants = [''MoViNet temporal encoder'', ''MobileNet image encoder'', ''RTMW pose encoder'']"

definition constraint_variants :: "string list" where
  "constraint_variants = map (\<lambda>i. ''C'' @ pad 2 i @ '' falsifiable constraint'') [1..<11]"

definition prior_variants :: "string list" where
  "prior_variants = [''kinematic prior'', ''camera geometry prior'', ''temporal smoothness prior'']"

definition factor_variant :: "nat \<Rightarrow> string \<Rightarrow> module_spec" where
  "factor_variant stage name = Module name ''variant'' (''Changing only '' @ name @ '' in stage '' @ dec stage
     @ '' produces a measurable delta against the frozen baseline.'') True [] []"

definition factor_group :: "nat \<Rightarrow> string \<times> string list \<Rightarrow> module_spec" where
  "factor_group stage nv = Module (fst nv) ''factor'' (''Stage '' @ dec stage @ '' '' @ fst nv @ '' factor'') False []
     (map (factor_variant stage) (snd nv))"

definition default_stage :: "nat \<times> string \<Rightarrow> module_spec" where
  "default_stage nl = Module (''Stage '' @ dec (fst nl) @ '': '' @ snd nl) ''stage'' [] False []
     (map (factor_group (fst nl)) [(''V'', visual_variants), (''C'', constraint_variants), (''P'', prior_variants)])"

definition default_hierarchy :: "module_spec list" where
  "default_hierarchy = map default_stage
     [(1, ''observation and local representation''), (2, ''global inference and dynamics'')]"

definition branch_group :: "string list \<Rightarrow> module_spec" where
  "branch_group branches = Module ''User improvement branches'' ''branch_group'' [] False []
     (map (\<lambda>b. Module b ''variant'' ''User-specified branch must beat the frozen baseline.'' True [] []) branches)"

record proposal =
  np_tier :: input_tier
  np_method :: string
  np_claim :: truth_class
  np_title :: string
  np_objective :: string
  np_baseline :: string
  np_proposal :: string
  np_core_code :: "string option"
  np_source_repository :: "string option"
  np_metrics :: "string list"
  np_hierarchy :: "module_spec list"

text \<open>What \<open>%s\<close> prints for an optional text.\<close>

definition shown :: "string option \<Rightarrow> string" where
  "shown s = (case s of None \<Rightarrow> ''None'' | Some t \<Rightarrow> t)"

definition proposal_text :: "research_input \<Rightarrow> input_tier \<Rightarrow> string" where
  "proposal_text v tier = (case tier of
       DETAILED \<Rightarrow> if truthy_text (ri_proposal v) then the (ri_proposal v) else if truthy_text (ri_idea v) then the (ri_idea v)
         else ri_objective v
     | FUZZY \<Rightarrow> ''Convert the idea into a falsifiable ablation program. Freeze the baseline, vary one '' @
         ''factor per cell, preserve fold assignments, declare primary metrics before execution, '' @
         ''and require independent verification before KEEP. Idea: '' @ shown (or_else (ri_idea v) (ri_proposal v))
     | BASELINE_ONLY \<Rightarrow> ''Reproduce the supplied baseline first. Generate factorized V/C/P alternatives, include '' @
         ''identity and shuffled controls, predeclare stop criteria, and admit improvements only '' @
         ''when held-out evidence passes the gate.'')"

definition proposal_method :: "input_tier \<Rightarrow> string" where
  "proposal_method tier = (case tier of DETAILED \<Rightarrow> ''user_specified'' | FUZZY \<Rightarrow> ''deterministic_falsification_template''
     | BASELINE_ONLY \<Rightarrow> ''deterministic_baseline_expansion'')"

definition default_metrics :: "string list" where
  "default_metrics = [''primary_metric'', ''variance_across_folds'', ''runtime_seconds'', ''peak_memory_bytes'']"

definition normalized :: "research_input \<Rightarrow> proposal" where
  "normalized v = (let tier = classify_input v;
       hierarchy = (if ri_hierarchy v = [] then default_hierarchy else ri_hierarchy v) in
     \<lparr>np_tier = tier, np_method = proposal_method tier,
      np_claim = (if tier = DETAILED then LIVE_LOCAL else SYNTHETIC_FIXTURE),
      np_title = ri_title v, np_objective = ri_objective v, np_baseline = ri_baseline v,
      np_proposal = proposal_text v tier, np_core_code = ri_core_code v,
      np_source_repository = ri_source_repository v,
      np_metrics = (if ri_metrics v = [] then default_metrics else ri_metrics v),
      np_hierarchy = (if ri_branches v = [] then hierarchy else hierarchy @ [branch_group (ri_branches v)])\<rparr>)"

text \<open>A branch becomes the name of a module, which has at most 120 characters: a longer one raises.\<close>

definition normalize_proposal :: "research_input \<Rightarrow> proposal option" where
  "normalize_proposal v = (if ri_branches v = [] \<or> module_ok (branch_group (ri_branches v)) then Some (normalized v) else None)"

definition normalized_json :: "proposal \<Rightarrow> json" where
  "normalized_json p = JObj
     [(''tier'', JStr (tier_value (np_tier p))),
      (''normalization'', JObj [(''method'', JStr (np_method p)), (''truth_class'', JStr (truth_value (np_claim p))),
        (''model_call'', JStr ''NOT_RUN'')]),
      (''title'', JStr (np_title p)), (''objective'', JStr (np_objective p)), (''baseline'', JStr (np_baseline p)),
      (''proposal'', JStr (np_proposal p)), (''core_code'', opt_json JStr (np_core_code p)),
      (''source_repository'', opt_json JStr (np_source_repository p)),
      (''metrics'', JList (map JStr (np_metrics p))), (''hierarchy'', JList (map module_json (np_hierarchy p)))]"

subsection \<open>The tree\<close>

datatype tree_node = Node (node_id: string) (node_name: string) (node_kind: string) (node_hypothesis: string)
  (node_runnable: bool) (node_parameters: "(string \<times> json) list") (node_path: "string list")
  (node_children: "tree_node list")

text \<open>
  \<open>value.lower()\<close> as far as the slug sees it: beside the capital letters of ASCII only U+0130 and U+212A have an ASCII
  letter in their lower case, and every other character ends up outside \<open>[a-z0-9]\<close> anyway.
\<close>

definition lower_one :: "string \<Rightarrow> string" where
  "lower_one c = (if c = utf8_encode 304 then ''i'' @ utf8_encode 775 else if c = utf8_encode 8490 then ''k''
     else map (\<lambda>x. if 65 \<le> byte x \<and> byte x \<le> 90 then char_of (byte x + 32) else x) c)"

definition slug_char :: "char \<Rightarrow> bool" where
  "slug_char c \<longleftrightarrow> is_digit c \<or> (97 \<le> byte c \<and> byte c \<le> 122)"

definition slug :: "string \<Rightarrow> string" where
  "slug s = (let n = strip_bytes (\<lambda>c. c = CHR ''-'') (dash_runs slug_char (concat (map lower_one (chars_of s)))) in
     if take 48 n = [] then ''node'' else take 48 n)"

definition make_node_id :: "nat \<Rightarrow> string \<Rightarrow> string" where
  "make_node_id n name = ''n'' @ pad 3 n @ ''-'' @ slug name"

text \<open>\<open>visit\<close> with the counter it closes over passed along.\<close>

fun visit :: "nat \<Rightarrow> string list \<Rightarrow> module_spec \<Rightarrow> tree_node \<times> nat"
  and visit_all :: "nat \<Rightarrow> string list \<Rightarrow> module_spec list \<Rightarrow> tree_node list \<times> nat" where
  "visit n path (Module name kind hypothesis runnable parameters children) =
     (let current_path = path @ [name]; (nodes, m) = visit_all (Suc n) current_path children in
      (Node (make_node_id (Suc n) name) name kind hypothesis runnable parameters current_path nodes, m))"
| "visit_all n path [] = ([], n)"
| "visit_all n path (x # xs) = (let (t, m) = visit n path x; (ts, k) = visit_all m path xs in (t # ts, k))"

definition baseline_module :: module_spec where
  "baseline_module = Module ''Frozen baseline reproduction'' ''baseline''
     ''The existing result is reproducible before any improvement is tested.'' True [(''frozen'', JBool True)] []"

definition root_module :: "proposal \<Rightarrow> module_spec" where
  "root_module p = Module (np_title p) ''research_goal'' (np_objective p) False [] (baseline_module # np_hierarchy p)"

primrec node_members :: "tree_node \<Rightarrow> (string \<times> json) list" where
  "node_members (Node i name kind hypothesis runnable parameters path children) =
     [(''node_id'', JStr i), (''name'', JStr name), (''kind'', JStr kind), (''hypothesis'', JStr hypothesis),
      (''runnable'', JBool runnable), (''parameters'', JObj parameters), (''path'', JList (map JStr path)),
      (''children'', JList (map JObj (map node_members children)))]"

definition build_tree :: "crypto \<Rightarrow> proposal \<Rightarrow> tree_node \<times> string" where
  "build_tree C p = (let tree = fst (visit 0 [] (root_module p)) in (tree, ladder_sha256 C (JObj (node_members tree))))"

definition tree_json :: "tree_node \<times> string \<Rightarrow> json" where
  "tree_json t = JObj (node_members (fst t) @ [(''tree_sha256'', JStr (snd t))])"

subsection \<open>The matrix\<close>

primrec runnable_nodes :: "tree_node \<Rightarrow> tree_node list" where
  "runnable_nodes (Node i name kind hypothesis runnable parameters path children) =
     (if runnable then [Node i name kind hypothesis runnable parameters path children] else [])
       @ concat (map runnable_nodes children)"

record experiment_cell =
  xc_cell_id :: string
  xc_tree_node_id :: string
  xc_tree_path :: "string list"
  xc_fold :: int
  xc_seed :: int
  xc_parameters :: "(string \<times> json) list"
  xc_metrics :: "string list"
  xc_intent_token :: string

definition cell_members :: "tree_node \<Rightarrow> int \<Rightarrow> int \<Rightarrow> string list \<Rightarrow> (string \<times> json) list" where
  "cell_members node k seed metrics =
     [(''tree_node_id'', JStr (node_id node)), (''tree_path'', JList (map JStr (node_path node))), (''fold'', JInt k),
      (''seed'', JInt seed), (''parameters'', JObj (node_parameters node)), (''metrics'', JList (map JStr metrics))]"

definition make_cell :: "crypto \<Rightarrow> string list \<Rightarrow> tree_node \<Rightarrow> int \<Rightarrow> int \<Rightarrow> experiment_cell" where
  "make_cell C metrics node k seed = (let digest = ladder_sha256 C (JObj (cell_members node k seed metrics)) in
     \<lparr>xc_cell_id = ''exp_'' @ take 16 digest, xc_tree_node_id = node_id node, xc_tree_path = node_path node, xc_fold = k,
      xc_seed = seed, xc_parameters = node_parameters node, xc_metrics = metrics,
      xc_intent_token = ''rxpi_'' @ take 24 digest\<rparr>)"

definition experiment_cell_json :: "experiment_cell \<Rightarrow> json" where
  "experiment_cell_json c = JObj
     [(''cell_id'', JStr (xc_cell_id c)), (''tree_node_id'', JStr (xc_tree_node_id c)),
      (''tree_path'', JList (map JStr (xc_tree_path c))), (''fold'', JInt (xc_fold c)), (''seed'', JInt (xc_seed c)),
      (''parameters'', JObj (xc_parameters c)), (''metrics'', JList (map JStr (xc_metrics c))),
      (''intent_token'', JStr (xc_intent_token c)), (''status'', JStr ''PLANNED'')]"

record experiment_matrix =
  xm_tree_sha256 :: string
  xm_cells :: "experiment_cell list"
  xm_sha256 :: string
  xm_cell_count :: int

definition matrix_members :: "string \<Rightarrow> experiment_cell list \<Rightarrow> (string \<times> json) list" where
  "matrix_members tree_sha cells =
     [(''schema_version'', JStr ''egoagentos-experiment-matrix/v1''), (''tree_sha256'', JStr tree_sha),
      (''cells'', JList (map experiment_cell_json cells))]"

definition build_matrix :: "crypto \<Rightarrow> tree_node \<times> string \<Rightarrow> int list \<Rightarrow> int list \<Rightarrow> string list \<Rightarrow> experiment_matrix" where
  "build_matrix C tree folds seeds metrics =
     (let cells = concat (map (\<lambda>node. concat (map (\<lambda>k. map (make_cell C metrics node k) (sort seeds)) (sort folds)))
        (runnable_nodes (fst tree))) in
      \<lparr>xm_tree_sha256 = snd tree, xm_cells = cells, xm_sha256 = ladder_sha256 C (JObj (matrix_members (snd tree) cells)),
       xm_cell_count = int (length cells)\<rparr>)"

definition matrix_json :: "experiment_matrix \<Rightarrow> json" where
  "matrix_json m = JObj (matrix_members (xm_tree_sha256 m) (xm_cells m)
     @ [(''matrix_sha256'', JStr (xm_sha256 m)), (''cell_count'', JInt (xm_cell_count m))])"

record compiled_research =
  co_proposal :: proposal
  co_tree :: "tree_node \<times> string"
  co_matrix :: experiment_matrix
  co_sha256 :: string

definition compile_proposal :: "crypto \<Rightarrow> research_input \<Rightarrow> proposal \<Rightarrow> compiled_research" where
  "compile_proposal C v p = (let tree = build_tree C p;
       matrix = build_matrix C tree (ri_folds v) (ri_seeds v) (np_metrics p) in
     \<lparr>co_proposal = p, co_tree = tree, co_matrix = matrix,
      co_sha256 = ladder_sha256 C (JObj [(''normalized_proposal'', normalized_json p), (''tree'', tree_json tree),
        (''matrix'', matrix_json matrix)])\<rparr>)"

definition compile_research_input :: "crypto \<Rightarrow> research_input \<Rightarrow> compiled_research option" where
  "compile_research_input C v = map_option (compile_proposal C v) (normalize_proposal v)"

subsection \<open>The resource review\<close>

record review_finding =
  rf_code :: string
  rf_message :: string
  rf_remediation :: string

definition finding :: "string \<Rightarrow> string \<Rightarrow> string \<Rightarrow> review_finding" where
  "finding code message remediation = \<lparr>rf_code = code, rf_message = message, rf_remediation = remediation\<rparr>"

definition finding_json :: "review_finding \<Rightarrow> json" where
  "finding_json f = JObj [(''severity'', JStr ''VETO''), (''code'', JStr (rf_code f)), (''message'', JStr (rf_message f)),
     (''remediation'', JStr (rf_remediation f))]"

fun mentions :: "string \<Rightarrow> string \<Rightarrow> bool" where
  "mentions t [] \<longleftrightarrow> t = []"
| "mentions t (c # s) \<longleftrightarrow> take (length t) (c # s) = t \<or> mentions t s"

definition resource_vetoes :: "research_env \<Rightarrow> resource_plan \<Rightarrow> int option \<Rightarrow> int option \<Rightarrow> review_finding list" where
  "resource_vetoes E p expected_cells expected_folds = map snd (filter fst
     [(expected_cells \<noteq> None \<and> Some (rp_matrix_cells p) \<noteq> expected_cells, finding ''MATRIX_CARDINALITY_MISMATCH''
        ''The resource declaration does not match the compiled experiment matrix.''
        ''Set matrix_cells to the compiler-produced cell_count before approval.''),
      (expected_folds \<noteq> None \<and> Some (rp_folds p) \<noteq> expected_folds, finding ''FOLD_CARDINALITY_MISMATCH''
        ''The resource declaration does not match the compiled fold set.''
        ''Set folds to the number of unique compiler input folds before approval.''),
      (rp_recomputes_data p \<or> \<not> rp_shared_cache p, finding ''FOLD_INVARIANT_RECOMPUTE''
        ''Fold-invariant data is copied or recomputed inside fold jobs.''
        ''Materialize it once by content digest and mount a read-only shared cache.''),
      (rp_cpu_per_cell p = 1 \<and> rp_cpu_hours p \<ge> 8, finding ''CELL_GRAIN_TOO_COARSE''
        ''A long matrix cell is pinned to one CPU and cannot saturate the host.''
        ''Shard rows deterministically and merge them in stable row-key order.''),
      (rp_matrix_cells p \<ge> 4 \<and> rp_row_shards p < 2 \<and> rp_cpu_hours p \<ge> 4, finding ''NO_ROW_SHARDS''
        ''The plan has several expensive cells but no intra-cell row sharding.''
        ''Declare row_shards >= 2 with exclusive output partitions.''),
      (round_double E (rp_cpu_hours p + rp_gpu_hours p) \<ge> 2 \<and> (\<not> rp_resume_supported p \<or> rp_checkpoint_minutes p = None),
        finding ''NO_CHECKPOINT_RESUME''
        ''A material compute plan has no bounded checkpoint/resume contract.''
        ''Checkpoint deterministic state and declare a restart interval.''),
      (\<not> list_all (\<lambda>key. mentions key (rp_partition_key p)) [''cell_id'', ''row_shard''], finding ''OUTPUT_COLLISION_RISK''
        ''Output keys do not isolate both matrix cells and row shards.''
        ''Use a write-once cell_id/row_shard partition and one atomic merger.''),
      (rp_global_barrier p \<and> rp_matrix_cells p > rp_concurrent_cells p, finding ''UNNECESSARY_GLOBAL_BARRIER''
        ''A global phase barrier stalls independent cells.''
        ''Use dependency edges per cell and release ready successors independently.''),
      (rp_validation_coupled p, finding ''VALIDATION_COMPUTE_COUPLED''
        ''Validation shares the mutable compute job and cannot independently replay it.''
        ''Freeze raw outputs first; run validation as a separate read-only job.''),
      (rp_concurrent_cells p = 1 \<and> rp_matrix_cells p \<ge> 8, finding ''LOW_PARALLEL_UTILIZATION''
        ''Independent matrix cells are serialized despite available parallel structure.''
        ''Schedule a bounded worker pool and preserve deterministic merge order.'')])"

record resource_review =
  rv_decision :: string
  rv_findings :: "review_finding list"
  rv_approval_observed :: bool
  rv_can_override :: bool
  rv_expected_cells :: "int option"
  rv_expected_folds :: "int option"
  rv_plan :: resource_plan
  rv_sha256 :: string
  rv_gate :: string

definition review_core_json :: "review_finding list \<Rightarrow> resource_plan \<Rightarrow> int option \<Rightarrow> int option \<Rightarrow> json" where
  "review_core_json vetoes p expected_cells expected_folds = JObj
     [(''reviewer_id'', JStr ''resource-reviewer/external-v1''), (''policy_version'', JStr ''resource-efficiency-policy/1''),
      (''decision'', JStr (if vetoes = [] then ''PASS'' else ''VETO'')), (''findings'', JList (map finding_json vetoes)),
      (''human_approval_observed'', JBool (rp_human_approved p)), (''human_approval_can_override'', JBool False),
      (''compiled_expectation'', JObj [(''matrix_cells'', opt_json JInt expected_cells), (''folds'', opt_json JInt expected_folds)]),
      (''plan'', resource_plan_json p)]"

definition review_resources :: "research_env \<Rightarrow> resource_plan \<Rightarrow> int option \<Rightarrow> int option \<Rightarrow> resource_review" where
  "review_resources E p expected_cells expected_folds =
     (let vetoes = resource_vetoes E p expected_cells expected_folds in
      \<lparr>rv_decision = (if vetoes = [] then ''PASS'' else ''VETO''), rv_findings = vetoes,
       rv_approval_observed = rp_human_approved p, rv_can_override = False,
       rv_expected_cells = expected_cells, rv_expected_folds = expected_folds, rv_plan = p,
       rv_sha256 = ladder_sha256 (crypto.truncate E) (review_core_json vetoes p expected_cells expected_folds),
       rv_gate = (if vetoes = [] then ''ALLOW_APPROVAL_GATE'' else ''BLOCK_EXECUTION'')\<rparr>)"

subsection \<open>Compiling with a plan\<close>

text \<open>\<open>ResearchOSService.compile\<close>: without a plan the review is not run and the gate stays closed.\<close>

definition compile_research ::
  "research_env \<Rightarrow> research_input \<Rightarrow> resource_plan option \<Rightarrow> (compiled_research \<times> resource_review option) option" where
  "compile_research E v plan = (case compile_research_input (crypto.truncate E) v of None \<Rightarrow> None
     | Some result \<Rightarrow> Some (result, map_option (\<lambda>p. review_resources E p (Some (xm_cell_count (co_matrix result)))
        (Some (int (card (set (ri_folds v)))))) plan))"

definition execution_gate :: "resource_review option \<Rightarrow> string" where
  "execution_gate r = (case r of None \<Rightarrow> ''BLOCK_EXECUTION'' | Some r \<Rightarrow> rv_gate r)"

end
