(* ===== verification/ResearchProps.thy ===== *)
theory ResearchProps
  imports ResearchLadder
begin

text \<open>
  What the research compiler guarantees: the tree is the proposal with a number and a path at every node, the matrix
  crosses its runnable nodes with the folds and the seeds, and only a plan for exactly this matrix passes the review.
\<close>

subsection \<open>Node identifiers\<close>

lemma zeros_value: "nat_of_digits (replicate k (CHR ''0'') @ s) = nat_of_digits s"
  by (induction k) (simp_all add: nat_of_digits_def digit_value_def)

lemma pad_value: "nat_of_digits (pad w n) = n"
  by (simp add: pad_def zeros_value nat_of_dec)

lemma pad_digits: "list_all is_digit (pad w n)"
  using dec_digits [of n] by (auto simp: pad_def list_all_iff is_digit_def set_replicate_conv_if)

lemma make_node_id_number:
  assumes "make_node_id n a = make_node_id m b"
  shows "n = m"
proof -
  have "takeWhile is_digit (pad 3 k @ ''-'' @ s) = pad 3 k" for k s
    using pad_digits [of 3 k] by (simp add: takeWhile_append2 list_all_iff is_digit_def)
  moreover have "pad 3 n @ ''-'' @ slug a = pad 3 m @ ''-'' @ slug b" using assms by (simp add: make_node_id_def)
  ultimately have "pad 3 n = pad 3 m" by metis
  then have "nat_of_digits (pad 3 n) = nat_of_digits (pad 3 m)" by (rule arg_cong)
  then show ?thesis by (simp only: pad_value)
qed

subsection \<open>The tree\<close>

primrec preorder :: "tree_node \<Rightarrow> tree_node list" where
  "preorder (Node i name kind hypothesis runnable parameters path children) =
     Node i name kind hypothesis runnable parameters path children # concat (map preorder children)"

text \<open>The proposal of a tree, and the path that ends in each node.\<close>

primrec forget :: "tree_node \<Rightarrow> module_spec" where
  "forget (Node i name kind hypothesis runnable parameters path children) =
     Module name kind hypothesis runnable parameters (map forget children)"

primrec rooted :: "tree_node \<Rightarrow> string list \<Rightarrow> bool" where
  "rooted (Node i name kind hypothesis runnable parameters path children) =
     (\<lambda>above. path = above @ [name] \<and> list_all (\<lambda>f. f path) (map rooted children))"

fun labelled :: "nat \<Rightarrow> tree_node list \<Rightarrow> bool" where
  "labelled n [] \<longleftrightarrow> True"
| "labelled n (t # ts) \<longleftrightarrow> node_id t = make_node_id (Suc n) (node_name t) \<and> labelled (Suc n) ts"

lemma labelled_append: "labelled n (ts @ us) \<longleftrightarrow> labelled n ts \<and> labelled (n + length ts) us"
  by (induction ts arbitrary: n) simp_all

lemma labelled_above: "labelled n ts \<Longrightarrow> t \<in> set ts \<Longrightarrow> \<exists>k > n. node_id t = make_node_id k (node_name t)"
  by (induction ts arbitrary: n) (auto intro: Suc_lessD)

lemma labelled_distinct: "labelled n ts \<Longrightarrow> distinct (map node_id ts)"
proof (induction ts arbitrary: n)
  case (Cons t ts)
  have "node_id t \<noteq> node_id u" if "u \<in> set ts" for u
  proof
    assume same: "node_id t = node_id u"
    from Cons.prems that labelled_above [of "Suc n" ts u]
    obtain k where "Suc n < k" "node_id u = make_node_id k (node_name u)" by auto
    with Cons.prems same make_node_id_number [of "Suc n" "node_name t" k "node_name u"] show False by simp
  qed
  with Cons show ?case by force
qed simp

definition visited :: "nat \<Rightarrow> string list \<Rightarrow> module_spec list \<Rightarrow> tree_node list \<times> nat \<Rightarrow> bool" where
  "visited n path xs r \<longleftrightarrow> map forget (fst r) = xs \<and> (\<forall>t \<in> set (fst r). rooted t path)
     \<and> snd r = n + length (concat (map preorder (fst r))) \<and> labelled n (concat (map preorder (fst r)))"

lemma visit_visited:
  shows "visited n path [x] ([fst (visit n path x)], snd (visit n path x))"
    and "visited n path xs (visit_all n path xs)"
proof (induction n path x and n path xs rule: visit_visit_all.induct)
  case (1 n path name kind hypothesis runnable parameters children)
  obtain ts m where run: "visit_all (Suc n) (path @ [name]) children = (ts, m)" by force
  with 1 [OF refl] show ?case by (simp add: visited_def list_all_iff)
next
  case (2 n path)
  then show ?case by (simp add: visited_def)
next
  case (3 n path x xs)
  obtain t m ts k where run: "visit n path x = (t, m)" "visit_all m path xs = (ts, k)" by force
  with 3 have "visited n path [x] ([t], m)" "visited m path xs (ts, k)" by simp_all
  with run show ?case by (auto simp: visited_def labelled_append)
qed

lemma tree_visited: "visited 0 [] [root_module p] ([fst (build_tree C p)], length (preorder (fst (build_tree C p))))"
proof -
  have "visited 0 [] [root_module p] ([fst (visit 0 [] (root_module p))], snd (visit 0 [] (root_module p)))"
    by (rule visit_visited(1))
  then show ?thesis by (simp add: visited_def build_tree_def Let_def)
qed

text \<open>C37. The research tree is the proposal itself. Erasing the identifiers and paths from \<open>build_tree\<close> gives back the root
  module: the goal, over the frozen baseline, over the hierarchy. The nodes are numbered from one in preorder, no
  two have the same identifier, and the path of each is the path of its parent and its own name.\<close>

theorem research_tree_faithful:
  "forget (fst (build_tree C p)) = root_module p \<and> rooted (fst (build_tree C p)) []
    \<and> labelled 0 (preorder (fst (build_tree C p))) \<and> distinct (map node_id (preorder (fst (build_tree C p))))"
  using tree_visited [of p C] labelled_distinct [of 0 "preorder (fst (build_tree C p))"] by (simp add: visited_def)

subsection \<open>The matrix\<close>

lemma runnable_preorder: "runnable_nodes t = filter node_runnable (preorder t)"
  by (induction t) (simp add: filter_concat comp_def cong: map_cong)

lemma baseline_runnable:
  assumes "forget t = root_module p"
  shows "\<exists>u \<in> set (runnable_nodes t). node_name u = ''Frozen baseline reproduction''"
proof -
  obtain i name kind hypothesis runnable parameters path children
    where t: "t = Node i name kind hypothesis runnable parameters path children" by (cases t)
  with assms obtain u us where u: "children = u # us" "forget u = baseline_module" by (auto simp: root_module_def)
  then have "node_runnable u" "node_name u = ''Frozen baseline reproduction''" "u \<in> set (preorder u)"
    by (cases u; simp add: baseline_module_def)+
  with t u(1) show ?thesis by (auto simp: runnable_preorder)
qed

definition cell_key :: "experiment_cell \<Rightarrow> string \<times> int \<times> int" where
  "cell_key c = (xc_tree_node_id c, xc_fold c, xc_seed c)"

definition cell_shows :: "tree_node \<Rightarrow> string list \<Rightarrow> experiment_cell \<Rightarrow> bool" where
  "cell_shows t metrics c \<longleftrightarrow> xc_tree_node_id c = node_id t \<and> xc_tree_path c = node_path t \<and> xc_parameters c = node_parameters t
     \<and> xc_metrics c = metrics"

lemma make_cell_fields: "cell_key (make_cell C ms t k s) = (node_id t, k, s)" "cell_shows t ms (make_cell C ms t k s)"
  by (simp_all add: cell_key_def cell_shows_def make_cell_def Let_def)

lemma product_concat: "concat (map (\<lambda>x. map (Pair x) ys) xs) = List.product xs ys"
  by (induction xs) simp_all

lemma matrix_keys:
  "map cell_key (xm_cells (build_matrix C t folds seeds ms)) =
     List.product (map node_id (runnable_nodes (fst t))) (List.product (sort folds) (sort seeds))"
proof -
  have "map cell_key (xm_cells (build_matrix C t folds seeds ms)) =
      concat (map (\<lambda>node. map (Pair (node_id node)) (concat (map (\<lambda>k. map (Pair k) (sort seeds)) (sort folds)))) (runnable_nodes (fst t)))"
    by (simp add: build_matrix_def Let_def map_concat comp_def make_cell_fields)
  then show ?thesis using product_concat [of "List.product (sort folds) (sort seeds)" "map node_id (runnable_nodes (fst t))"]
    by (simp add: product_concat comp_def)
qed

lemma matrix_cells_show:
  "c \<in> set (xm_cells (build_matrix C t folds seeds ms)) \<Longrightarrow> \<exists>u \<in> set (runnable_nodes (fst t)). cell_shows u ms c"
  using make_cell_fields(2) by (fastforce simp: build_matrix_def Let_def)

lemma compiledD:
  assumes "compile_research_input C v = Some c"
  shows "co_proposal c = normalized v" "co_tree c = build_tree C (normalized v)"
    "co_matrix c = build_matrix C (build_tree C (normalized v)) (ri_folds v) (ri_seeds v) (np_metrics (normalized v))"
  using assms by (auto simp: compile_research_input_def compile_proposal_def normalize_proposal_def Let_def split: if_splits)

lemma validated_unique: "validate_input raw = Some v \<Longrightarrow> unique_integers (ri_folds v) \<and> unique_integers (ri_seeds v)"
  by (auto simp: validate_input_def split: if_splits)

lemma matrix_count:
  assumes "compile_research_input C v = Some c"
  shows "xm_cell_count (co_matrix c) = int (length (runnable_nodes (fst (co_tree c))) * (length (ri_folds v) * length (ri_seeds v)))"
proof -
  have "length (xm_cells (co_matrix c)) = length (map cell_key (xm_cells (co_matrix c)))" by simp
  then have "length (xm_cells (co_matrix c)) = length (runnable_nodes (fst (co_tree c))) * (length (ri_folds v) * length (ri_seeds v))"
    unfolding compiledD [OF assms] matrix_keys by (simp add: length_product)
  moreover have "xm_cell_count (co_matrix c) = int (length (xm_cells (co_matrix c)))"
    by (simp add: compiledD [OF assms] build_matrix_def Let_def)
  ultimately show ?thesis by simp
qed

text \<open>C36. The matrix is complete and free of repetitions. When a validated input compiles, the cells are, in order, the
  product of the runnable nodes in preorder, the sorted folds and the sorted seeds; no two have the same node, fold and
  seed, and each carries the path and the parameters of its node and all metrics. The cell count is the product of the
  three numbers, and it is never zero, because the frozen baseline is always a runnable node.\<close>

theorem research_matrix_complete:
  fixes C :: crypto and c :: compiled_research
  assumes "validate_input raw = Some v" and "compile_research_input C v = Some c"
  defines "nodes \<equiv> filter node_runnable (preorder (fst (co_tree c)))"
  shows "map cell_key (xm_cells (co_matrix c)) = List.product (map node_id nodes) (List.product (sort (ri_folds v)) (sort (ri_seeds v)))
    \<and> distinct (map cell_key (xm_cells (co_matrix c)))
    \<and> (\<forall>x \<in> set (xm_cells (co_matrix c)). \<exists>t \<in> set nodes. cell_shows t (np_metrics (co_proposal c)) x)
    \<and> xm_cell_count (co_matrix c) = int (length nodes * (length (ri_folds v) * length (ri_seeds v)))
    \<and> 1 \<le> xm_cell_count (co_matrix c)
    \<and> (\<exists>t \<in> set nodes. node_name t = ''Frozen baseline reproduction'')"
proof -
  let ?tree = "fst (build_tree C (normalized v))"
  note parts = compiledD [OF assms(2)]
  have nodes: "nodes = runnable_nodes ?tree" by (simp add: nodes_def parts runnable_preorder)
  have keys: "map cell_key (xm_cells (co_matrix c)) = List.product (map node_id nodes) (List.product (sort (ri_folds v)) (sort (ri_seeds v)))"
    unfolding nodes parts by (rule matrix_keys)
  have unique: "unique_integers (ri_folds v)" "unique_integers (ri_seeds v)" using validated_unique [OF assms(1)] by simp_all
  have tree: "forget ?tree = root_module (normalized v)" "distinct (map node_id (preorder ?tree))"
    using tree_visited [of "normalized v" C] labelled_distinct [of 0 "preorder ?tree"] by (simp_all add: visited_def)
  have base: "\<exists>t \<in> set nodes. node_name t = ''Frozen baseline reproduction''"
    unfolding nodes using baseline_runnable [OF tree(1)] .
  have distinct: "distinct (map cell_key (xm_cells (co_matrix c)))"
    unfolding keys using unique tree(2)
    by (intro distinct_product) (simp_all add: unique_integers_def nodes runnable_preorder distinct_map_filter)
  have shows_node: "\<exists>t \<in> set nodes. cell_shows t (np_metrics (co_proposal c)) x" if "x \<in> set (xm_cells (co_matrix c))" for x
    using that matrix_cells_show unfolding nodes parts by simp
  have count: "xm_cell_count (co_matrix c) = int (length nodes * (length (ri_folds v) * length (ri_seeds v)))"
    using matrix_count [OF assms(2)] by (simp only: nodes parts)
  have "length nodes * (length (ri_folds v) * length (ri_seeds v)) \<noteq> 0"
    using base unique by (auto simp: unique_integers_def)
  then have "1 \<le> xm_cell_count (co_matrix c)" unfolding count by linarith
  then show ?thesis by (intro conjI ballI keys distinct shows_node count base)
qed

definition sample_input :: research_input where
  "sample_input = \<lparr>ri_title = ''t'', ri_objective = ''o'', ri_baseline = ''b'', ri_proposal = None, ri_idea = None, ri_branches = [],
     ri_core_code = None, ri_hierarchy = [Module ''a'' ''module'' [] True [] []], ri_metrics = [], ri_folds = [1, 0],
     ri_seeds = [17], ri_requested_tier = None, ri_source_repository = None\<rparr>"

lemma sample_input_valid: "validate_input sample_input = Some sample_input"
  by (simp add: validate_input_def sample_input_def text_ok_def str_len_def opt_text_ok_def cleaned_def unique_integers_def)

lemma sample_compiled:
  "\<exists>c. compile_research_input C sample_input = Some c \<and> length (filter node_runnable (preorder (fst (co_tree c)))) = 2"
  by (simp add: compile_research_input_def normalize_proposal_def compile_proposal_def build_tree_def normalized_def root_module_def
    baseline_module_def sample_input_def Let_def)

theorem research_matrix_complete_witness:
  "\<exists>c. compile_research_input constant_hash sample_input = Some c \<and> xm_cell_count (co_matrix c) = 4"
proof -
  from sample_compiled obtain c where c: "compile_research_input constant_hash sample_input = Some c"
    "length (filter node_runnable (preorder (fst (co_tree c)))) = 2" by blast
  with research_matrix_complete [OF sample_input_valid c(1)] show ?thesis by (simp add: sample_input_def)
qed

text \<open>The compiler fails only on a branch whose text is too long to name a module.\<close>

lemma compiles_iff:
  "compile_research_input C v = None \<longleftrightarrow> (\<exists>b \<in> set (ri_branches v). \<not> text_ok 1 120 b)"
proof -
  have names: "text_ok (Suc 0) 40 ''variant''" "text_ok (Suc 0) 40 ''branch_group''" "text_ok (Suc 0) 120 ''User improvement branches''"
    by (simp_all add: text_ok_def str_len_def)
  show ?thesis
    by (auto simp: compile_research_input_def normalize_proposal_def branch_group_def names list_all_iff)
qed

subsection \<open>The review\<close>

lemma vetoes_unapproved: "resource_vetoes E (p\<lparr>rp_human_approved := b\<rparr>) = resource_vetoes E p"
  by (rule ext)+ (simp add: resource_vetoes_def)

lemma no_vetoes_iff:
  "resource_vetoes E p (Some n) (Some k) = [] \<longleftrightarrow> rp_matrix_cells p = n \<and> rp_folds p = k
    \<and> \<not> rp_recomputes_data p \<and> rp_shared_cache p \<and> (rp_cpu_hours p \<ge> 8 \<longrightarrow> rp_cpu_per_cell p \<noteq> 1)
    \<and> (n \<ge> 4 \<and> rp_cpu_hours p \<ge> 4 \<longrightarrow> 2 \<le> rp_row_shards p)
    \<and> (round_double E (rp_cpu_hours p + rp_gpu_hours p) \<ge> 2 \<longrightarrow> rp_resume_supported p \<and> rp_checkpoint_minutes p \<noteq> None)
    \<and> mentions ''cell_id'' (rp_partition_key p) \<and> mentions ''row_shard'' (rp_partition_key p)
    \<and> (rp_global_barrier p \<longrightarrow> n \<le> rp_concurrent_cells p) \<and> \<not> rp_validation_coupled p
    \<and> (n \<ge> 8 \<longrightarrow> rp_concurrent_cells p \<noteq> 1)"
  by (auto simp: resource_vetoes_def filter_empty_conv)

text \<open>C35. The compiler opens the gate only for a plan of exactly the compiled matrix. The gate of a compiled input is open
  if and only if there is a plan that declares the number of cells that the matrix has and the number of its folds
  and keeps every rule of the resource policy; without a plan it is closed. Whether a human approved the plan makes no
  difference: with the flag set or cleared the gate is the same.\<close>

theorem resource_gate_exact:
  fixes E :: research_env and c :: compiled_research
  assumes "validate_input raw = Some v" and "compile_research E v plan = Some (c, review)"
  defines "n \<equiv> int (length (runnable_nodes (fst (co_tree c))) * (length (ri_folds v) * length (ri_seeds v)))"
  shows "(execution_gate review = ''ALLOW_APPROVAL_GATE'' \<longleftrightarrow>
      (\<exists>p. plan = Some p \<and> rp_matrix_cells p = n \<and> rp_folds p = int (length (ri_folds v))
        \<and> \<not> rp_recomputes_data p \<and> rp_shared_cache p \<and> (rp_cpu_hours p \<ge> 8 \<longrightarrow> rp_cpu_per_cell p \<noteq> 1)
        \<and> (n \<ge> 4 \<and> rp_cpu_hours p \<ge> 4 \<longrightarrow> 2 \<le> rp_row_shards p)
        \<and> (round_double E (rp_cpu_hours p + rp_gpu_hours p) \<ge> 2 \<longrightarrow> rp_resume_supported p \<and> rp_checkpoint_minutes p \<noteq> None)
        \<and> mentions ''cell_id'' (rp_partition_key p) \<and> mentions ''row_shard'' (rp_partition_key p)
        \<and> (rp_global_barrier p \<longrightarrow> n \<le> rp_concurrent_cells p) \<and> \<not> rp_validation_coupled p
        \<and> (n \<ge> 8 \<longrightarrow> rp_concurrent_cells p \<noteq> 1)))
    \<and> (\<forall>b. \<exists>review'. compile_research E v (map_option (\<lambda>p. p\<lparr>rp_human_approved := b\<rparr>) plan) = Some (c, review')
        \<and> execution_gate review' = execution_gate review)"
proof -
  from assms(2) have compiled: "compile_research_input (crypto.truncate E) v = Some c"
    by (auto simp: compile_research_def split: option.splits)
  have cells: "xm_cell_count (co_matrix c) = n" unfolding n_def by (rule matrix_count [OF compiled])
  have folds: "int (card (set (ri_folds v))) = int (length (ri_folds v))"
    using validated_unique [OF assms(1)] by (simp add: unique_integers_def distinct_card)
  have run: "compile_research E v q = Some (c, map_option (\<lambda>p. review_resources E p (Some n) (Some (int (length (ri_folds v))))) q)" for q
    by (simp add: compile_research_def compiled cells folds)
  with assms(2) have review: "review = map_option (\<lambda>p. review_resources E p (Some n) (Some (int (length (ri_folds v))))) plan" by simp
  have gate: "execution_gate (Some (review_resources E p (Some n) (Some (int (length (ri_folds v)))))) =
      (if resource_vetoes E p (Some n) (Some (int (length (ri_folds v)))) = [] then ''ALLOW_APPROVAL_GATE'' else ''BLOCK_EXECUTION'')" for p
    by (simp add: review_resources_def execution_gate_def Let_def)
  show ?thesis
  proof (cases plan)
    case None
    then show ?thesis by (simp add: review run execution_gate_def)
  next
    case (Some p)
    show ?thesis unfolding review run Some option.map gate vetoes_unapproved by (simp add: no_vetoes_iff gate vetoes_unapproved)
  qed
qed

definition sample_research_env :: research_env where
  "sample_research_env = crypto.extend constant_hash \<lparr>round_double = (\<lambda>x. x)\<rparr>"

definition sample_plan :: resource_plan where
  "sample_plan = \<lparr>rp_matrix_cells = 4, rp_folds = 2, rp_cpu_hours = 8, rp_gpu_hours = 0, rp_cpu_per_cell = 4, rp_gpu_per_cell = 0,
     rp_row_shards = 2, rp_checkpoint_minutes = Some 20, rp_resume_supported = True, rp_shared_cache = True,
     rp_recomputes_data = False, rp_concurrent_cells = 4, rp_global_barrier = False, rp_validation_coupled = False,
     rp_partition_key = ''cell_id/row_shard'', rp_human_approved = False\<rparr>"

theorem resource_gate_exact_witness:
  "\<exists>c r s. compile_research sample_research_env sample_input (Some sample_plan) = Some (c, r) \<and> execution_gate r = ''ALLOW_APPROVAL_GATE''
    \<and> compile_research sample_research_env sample_input (Some (sample_plan\<lparr>rp_matrix_cells := 5\<rparr>)) = Some (c, s)
    \<and> execution_gate s \<noteq> ''ALLOW_APPROVAL_GATE''"
proof -
  let ?E = sample_research_env and ?bad = "sample_plan\<lparr>rp_matrix_cells := 5\<rparr>"
  from sample_compiled obtain c where c: "compile_research_input (crypto.truncate ?E) sample_input = Some c"
    "length (runnable_nodes (fst (co_tree c))) = 2" by (auto simp: runnable_preorder)
  then obtain r s where runs: "compile_research ?E sample_input (Some sample_plan) = Some (c, r)"
    "compile_research ?E sample_input (Some ?bad) = Some (c, s)" by (simp add: compile_research_def)
  have parts: "length (ri_folds sample_input) = 2" "length (ri_seeds sample_input) = 1" by (simp_all add: sample_input_def)
  have "execution_gate r = ''ALLOW_APPROVAL_GATE''"
    using resource_gate_exact [OF sample_input_valid runs(1)] by (simp add: c(2) parts sample_plan_def)
  moreover have "execution_gate s \<noteq> ''ALLOW_APPROVAL_GATE''"
    using resource_gate_exact [OF sample_input_valid runs(2)] by (simp add: c(2) parts sample_plan_def)
  ultimately show ?thesis using runs by blast
qed

end
