(* ===== verification/FocusMemory.thy ===== *)
theory FocusMemory
  imports ResearchLadder Domain
begin

text \<open>
  The private memory of each agent: \<open>apps/api/research_os/agent_memory.py\<close>, with the commit of a stage in
  \<open>service.py\<close> and the client of the remote memory in \<open>tencent_memory.py\<close>. \<open>focus_memory\<close> has a field per table of
  the agent's SQLite file, whose rows are in the order of their primary key, and the text of \<open>FOCUS.md\<close>. The directory
  names key the memories of all agents. SQLite and the file system are assumed to succeed, the remote service is a
  parameter.
\<close>

subsection \<open>Texts\<close>

definition newline :: char where
  "newline = char_of (10 :: nat)"

text \<open>\<open>re.sub(r"\s+", " ", value)\<close>.\<close>

function blank_runs :: "string list \<Rightarrow> string list" where
  "blank_runs [] = []"
| "blank_runs (c # cs) = (if space c then '' '' # blank_runs (dropWhile space cs) else c # blank_runs cs)"
  by pat_completeness auto

termination blank_runs
  by (relation "measure length") (simp_all add: le_imp_less_Suc length_dropWhile_le)

definition focus_items :: "string list \<Rightarrow> string list" where
  "focus_items values = take 8 (map (\<lambda>v. str_take 500 (strip (concat (blank_runs (chars_of v)))))
     (filter (\<lambda>v. strip v \<noteq> []) values))"

text \<open>\<open>text[:n]\<close>, where a negative bound counts from the end.\<close>

definition slice_to :: "int \<Rightarrow> string \<Rightarrow> string" where
  "slice_to n s = str_take (if 0 \<le> n then nat n else nat (int (str_len s) + n)) s"

definition agent_char :: "char \<Rightarrow> bool" where
  "agent_char c \<longleftrightarrow> alnum c \<or> c \<in> {CHR ''_'', CHR ''.'', CHR ''-''}"

definition safe_agent_dir :: "crypto \<Rightarrow> string \<Rightarrow> string" where
  "safe_agent_dir C agent = (let n = take 64 (strip_bytes (\<lambda>c. c \<in> {CHR ''.'', CHR ''-''}) (dash_runs agent_char agent)) in
     (if n = [] then ''agent'' else n) @ ''-'' @ take 8 (ladder_sha256 C (JStr agent)))"

subsection \<open>Tables\<close>

record commit_row =
  cr_sequence :: int
  cr_team_id :: string
  cr_user_id :: string
  cr_session_id :: string
  cr_task_id :: string
  cr_stage_id :: string
  cr_created_at :: string
  cr_payload_json :: string
  cr_payload_sha256 :: string
  cr_previous_sha256 :: string
  cr_receipt_sha256 :: string

record conversation_row =
  cv_sequence :: int
  cv_message_index :: int
  cv_role :: string
  cv_content :: string

record snapshot_row =
  sn_sequence :: int
  sn_markdown :: string
  sn_markdown_sha256 :: string
  sn_source_receipt :: string

record focus_memory =
  stage_commits :: "commit_row list"
  conversation :: "conversation_row list"
  focus_snapshots :: "snapshot_row list"
  focus_file :: "string option"

definition empty_focus :: focus_memory where
  "empty_focus = \<lparr>stage_commits = [], conversation = [], focus_snapshots = [], focus_file = None\<rparr>"

subsection \<open>The focus text\<close>

definition read_facts :: "crypto \<Rightarrow> commit_row \<Rightarrow> api_error + string list" where
  "read_facts C r = (case parse_json_bytes C (cr_payload_json r) of
       Some (JObj kvs) \<Rightarrow> (case dict_get kvs ''validated_facts'' of None \<Rightarrow> Inr []
         | Some j \<Rightarrow> (case as_list as_str j of Some fs \<Rightarrow> Inr fs | None \<Rightarrow> Inl (TypeError ''validated_facts'')))
     | _ \<Rightarrow> Inl (ValueError ''payload_json''))"

fun read_all :: "crypto \<Rightarrow> commit_row list \<Rightarrow> api_error + string list" where
  "read_all C [] = Inr []"
| "read_all C (r # rs) = bindR (read_facts C r) (\<lambda>fs. bindR (read_all C rs) (\<lambda>gs. Inr (fs @ gs)))"

definition take_last :: "nat \<Rightarrow> 'a list \<Rightarrow> 'a list" where
  "take_last n xs = drop (length xs - n) xs"

definition add_new :: "string list \<Rightarrow> string list \<Rightarrow> string list" where
  "add_new fs known = fold (\<lambda>f acc. if f \<in> set acc then acc else acc @ [f]) fs known"

definition prior_facts :: "crypto \<Rightarrow> commit_row list \<Rightarrow> api_error + string list" where
  "prior_facts C rows = bindR (read_all C (take_last 8 rows)) (\<lambda>fs. Inr (take_last 12 (add_new fs [])))"

definition focus_section :: "string \<times> string list \<Rightarrow> string list" where
  "focus_section tv = [[], ''## '' @ fst tv, []]
     @ (let items = focus_items (snd tv) in if items = [] then [''- None''] else map (\<lambda>i. ''- '' @ i) items)"

definition focus_lines :: "string \<Rightarrow> int \<Rightarrow> stage_commit \<Rightarrow> string \<Rightarrow> string list \<Rightarrow> string list" where
  "focus_lines agent n b receipt facts =
     [''# Agent Focus'', [], ''> Auto-generated compact projection. SQLite is the local source of truth.'', [],
      ''- Agent: `'' @ agent @ ''`'', ''- Task: `'' @ sc_task b @ ''`'', ''- Session: `'' @ sc_session_id b @ ''`'',
      ''- Last stage: `'' @ sc_stage_id b @ ''`'', ''- Commit sequence: `'' @ dec_int n @ ''`'', ''- Receipt: `'' @ receipt @ ''`'']
     @ concat (map focus_section [(''Validated facts'', facts), (''Decisions'', sc_decisions b), (''Evidence'', sc_evidence b),
       (''Blockers'', sc_blockers b), (''Next actions'', sc_next_actions b)])"

definition cut_focus :: "int \<Rightarrow> string \<Rightarrow> string" where
  "cut_focus max_chars markdown =
     (if max_chars < int (str_len markdown)
      then strip_end (slice_to (max_chars - 18) markdown) @ newline # newline # ''[focus truncated]'' @ [newline] else markdown)"

definition render_focus :: "int \<Rightarrow> string \<Rightarrow> int \<Rightarrow> stage_commit \<Rightarrow> string \<Rightarrow> string list \<Rightarrow> string" where
  "render_focus max_chars agent n b receipt facts =
     cut_focus max_chars (strip (join [newline] (focus_lines agent n b receipt facts)) @ [newline])"

subsection \<open>Commits\<close>

definition payload_of :: "string \<Rightarrow> string \<Rightarrow> stage_commit \<Rightarrow> json" where
  "payload_of agent now b = JObj (stage_commit_members b @ [(''agent_id'', JStr agent), (''committed_at'', JStr now)])"

definition receipt_core :: "string \<Rightarrow> string \<Rightarrow> string \<Rightarrow> string \<Rightarrow> string \<Rightarrow> string \<Rightarrow> string \<Rightarrow> json" where
  "receipt_core agent team session task stage payload_sha previous = JObj
     [(''agent_id'', JStr agent), (''team_id'', JStr team), (''session_id'', JStr session), (''task_id'', JStr task),
      (''stage_id'', JStr stage), (''payload_sha256'', JStr payload_sha), (''previous_sha256'', JStr previous)]"

definition last_receipt :: "focus_memory \<Rightarrow> string" where
  "last_receipt M = (if stage_commits M = [] then zero_digest else cr_receipt_sha256 (List.last (stage_commits M)))"

definition next_commit_sequence :: "focus_memory \<Rightarrow> int" where
  "next_commit_sequence M = (if stage_commits M = [] then 1 else cr_sequence (List.last (stage_commits M)) + 1)"

definition make_commit :: "crypto \<Rightarrow> string \<Rightarrow> string \<Rightarrow> stage_commit \<Rightarrow> focus_memory \<Rightarrow> commit_row" where
  "make_commit C agent now b M = (let payload = payload_of agent now b; payload_sha = ladder_sha256 C payload in
     \<lparr>cr_sequence = next_commit_sequence M, cr_team_id = sc_team_id b, cr_user_id = sc_user_id b,
      cr_session_id = sc_session_id b, cr_task_id = sc_task b, cr_stage_id = sc_stage_id b, cr_created_at = now,
      cr_payload_json = json_text '' '' C payload, cr_payload_sha256 = payload_sha, cr_previous_sha256 = last_receipt M,
      cr_receipt_sha256 = ladder_sha256 C (receipt_core agent (sc_team_id b) (sc_session_id b) (sc_task b) (sc_stage_id b)
        payload_sha (last_receipt M))\<rparr>)"

definition conversation_rows :: "int \<Rightarrow> focus_message list \<Rightarrow> conversation_row list" where
  "conversation_rows n ms = map (\<lambda>(i, m). \<lparr>cv_sequence = n, cv_message_index = int i, cv_role = fm_role m,
     cv_content = fm_content m\<rparr>) (zip [0..<length ms] ms)"

record compact_receipt =
  cp_agent_id :: string
  cp_sequence :: int
  cp_stage_id :: string
  cp_payload_sha256 :: string
  cp_previous_sha256 :: string
  cp_receipt_sha256 :: string
  cp_markdown_sha256 :: string
  cp_raw_context_chars :: int
  cp_focus_chars :: int

text \<open>
  One transaction: the unique receipt may be refused, and the facts are read back with the new row in place. What
  raises rolls the database back; \<open>FOCUS.md\<close> is replaced after the commit.
\<close>

definition commit_focus ::
  "crypto \<Rightarrow> int \<Rightarrow> string \<Rightarrow> string \<Rightarrow> stage_commit \<Rightarrow> focus_memory \<Rightarrow> (api_error + compact_receipt) \<times> focus_memory" where
  "commit_focus C max_chars agent now b M =
     (let r = make_commit C agent now b M; n = cr_sequence r in
      if cr_receipt_sha256 r \<in> set (map cr_receipt_sha256 (stage_commits M)) then (Inl (IntegrityError ''receipt_sha256''), M)
      else (case prior_facts C (stage_commits M @ [r]) of
          Inl e \<Rightarrow> (Inl e, M)
        | Inr facts \<Rightarrow>
            let markdown = render_focus max_chars agent n b (cr_receipt_sha256 r) facts;
                markdown_sha = ladder_sha256 C (JStr markdown) in
            (Inr \<lparr>cp_agent_id = agent, cp_sequence = n, cp_stage_id = sc_stage_id b,
               cp_payload_sha256 = cr_payload_sha256 r, cp_previous_sha256 = cr_previous_sha256 r,
               cp_receipt_sha256 = cr_receipt_sha256 r, cp_markdown_sha256 = markdown_sha,
               cp_raw_context_chars = sum_list (map (\<lambda>m. int (str_len (fm_content m))) (sc_messages b)),
               cp_focus_chars = int (str_len markdown)\<rparr>,
             M\<lparr>stage_commits := stage_commits M @ [r], conversation := conversation M @ conversation_rows n (sc_messages b),
               focus_snapshots := focus_snapshots M @ [\<lparr>sn_sequence = n, sn_markdown = markdown,
                 sn_markdown_sha256 = markdown_sha, sn_source_receipt = cr_receipt_sha256 r\<rparr>],
               focus_file := Some markdown\<rparr>)))"

definition read_focus :: "focus_memory \<Rightarrow> (commit_row \<times> snapshot_row) option" where
  "read_focus M = (let rows = concat (map (\<lambda>s. map (Pair s) (filter (\<lambda>f. sn_sequence f = cr_sequence s) (focus_snapshots M)))
       (stage_commits M)) in if rows = [] then None else Some (List.last rows))"

subsection \<open>All agents\<close>

type_synonym agent_memories = "(string \<times> focus_memory) list"

definition focus_limit :: int where
  "focus_limit = 6000"

definition memory_of :: "crypto \<Rightarrow> string \<Rightarrow> agent_memories \<Rightarrow> focus_memory" where
  "memory_of C agent R = (case dict_get R (safe_agent_dir C agent) of None \<Rightarrow> empty_focus | Some M \<Rightarrow> M)"

definition commit_agent ::
  "crypto \<Rightarrow> string \<Rightarrow> string \<Rightarrow> stage_commit \<Rightarrow> agent_memories \<Rightarrow> (api_error + compact_receipt) \<times> agent_memories" where
  "commit_agent C agent now b R = (let (r, M) = commit_focus C focus_limit agent now b (memory_of C agent R) in
     (r, dict_set (safe_agent_dir C agent) M R))"

record remote_memory =
  rm_configured :: bool
  rm_space_id :: string
  rm_post :: "string \<Rightarrow> json \<Rightarrow> api_error + json"

definition post_remote :: "remote_memory \<Rightarrow> string \<Rightarrow> json \<Rightarrow> api_error + json" where
  "post_remote T path body = (if \<not> rm_configured T then Inl (RuntimeError ''TencentDB Agent Memory endpoint is not configured'')
     else rm_post T path body)"

definition isolation_members :: "remote_memory \<Rightarrow> string \<Rightarrow> stage_commit \<Rightarrow> (string \<times> json) list" where
  "isolation_members T agent b =
     [(''team_id'', JStr (sc_team_id b)), (''agent_id'', JStr agent), (''user_id'', JStr (sc_user_id b)),
      (''session_id'', JStr (sc_session_id b)), (''task_id'', JStr (sc_task b)), (''space_id'', JStr (rm_space_id T))]"

definition commit_and_compact :: "remote_memory \<Rightarrow> string \<Rightarrow> stage_commit \<Rightarrow> api_error + json \<times> json" where
  "commit_and_compact T agent b =
     bindR (post_remote T ''/v3/skill/conversation/add''
       (JObj (isolation_members T agent b @ [(''messages'', JList (map focus_message_json (sc_messages b)))]))) (\<lambda>added.
     bindR (post_remote T ''/v3/skill/conversation/force-archive''
       (JObj (isolation_members T agent b @ [(''reason'', JStr (''EgoAgentOS stage complete: '' @ sc_stage_id b))]))) (\<lambda>archived.
     Inr (added, archived)))"

definition commit_stage ::
  "crypto \<Rightarrow> remote_memory \<Rightarrow> string \<Rightarrow> string \<Rightarrow> bool option \<Rightarrow> stage_commit \<Rightarrow> agent_memories
     \<Rightarrow> (api_error + compact_receipt \<times> (json \<times> json) option) \<times> agent_memories" where
  "commit_stage C T agent now sync b R =
     (let (r, R') = commit_agent C agent now b R in case r of
        Inl e \<Rightarrow> (Inl e, R')
      | Inr local \<Rightarrow>
         if (case sync of None \<Rightarrow> rm_configured T | Some wanted \<Rightarrow> wanted) then
           (case commit_and_compact T agent b of
              Inl e \<Rightarrow> (Inl e, R')
            | Inr remote \<Rightarrow> (Inr (local, Some remote), R'))
         else (Inr (local, None), R'))"

end
