(* ===== verification/FocusProps.thy ===== *)
theory FocusProps
  imports FocusMemory Interfaces
begin

text \<open>
  What the private memories guarantee: every commit extends the agent's own receipt chain and its focus text, the
  facts of the last stages come back from the database, and agents do not share a memory.
\<close>

subsection \<open>Lengths of texts\<close>

lemma str_len_append: "str_len (s @ t) = str_len s + str_len t"
  by (simp add: str_len_def)

lemma cont_not_counted: "list_all cont_byte s \<Longrightarrow> str_len s = 0"
  by (auto simp: str_len_def list_all_iff cont_byte_def Let_def filter_empty_conv)

lemma char_len: "c \<in> set (chars_of s) \<Longrightarrow> str_len c \<le> 1"
proof (induction s rule: chars_of.induct)
  case (2 c s)
  have "str_len (takeWhile cont_byte s) = 0" by (rule cont_not_counted) (auto simp: list_all_iff dest: set_takeWhileD)
  moreover have "str_len [c] \<le> 1" by (simp add: str_len_def)
  ultimately have "str_len (c # takeWhile cont_byte s) \<le> 1" using str_len_append [of "[c]" "takeWhile cont_byte s"] by simp
  with 2 show ?case by auto
qed simp

lemma str_len_concat: "\<forall>c \<in> set cs. str_len c \<le> 1 \<Longrightarrow> str_len (concat cs) \<le> length cs"
  by (induction cs) (auto simp: str_len_append str_len_def [of "[]"])

lemma str_len_take: "str_len (str_take n s) \<le> n"
proof -
  have "str_len (concat (take n (chars_of s))) \<le> length (take n (chars_of s))"
    by (rule str_len_concat) (blast dest: in_set_takeD char_len)
  then show ?thesis by (simp add: str_take_def)
qed

lemma strip_end_prefix: "\<exists>t. s = strip_end s @ t"
proof -
  let ?r = "rev (chars_of s)"
  have "rev ?r = rev (dropWhile space ?r) @ rev (takeWhile space ?r)"
    unfolding rev_append [symmetric] by simp
  then have "concat (chars_of s) = strip_end s @ concat (rev (takeWhile space ?r))"
    by (simp add: strip_end_def flip: concat_append)
  then show ?thesis unfolding concat_chars by blast
qed

lemma str_len_strip_end: "str_len (strip_end s) \<le> str_len s"
  using strip_end_prefix [of s] str_len_append by (metis le_add1)

lemma cut_length:
  assumes "18 \<le> m"
  shows "int (str_len (cut_focus m s)) \<le> m + 2"
proof -
  let ?cut = "strip_end (slice_to (m - 18) s)"
  have "str_len ?cut \<le> nat (m - 18)"
    using str_len_strip_end [of "slice_to (m - 18) s"] str_len_take [of "nat (m - 18)" s] assms by (simp add: slice_to_def)
  moreover have "str_len (newline # newline # ''[focus truncated]'' @ [newline]) = 20" by (simp add: str_len_def newline_def)
  ultimately have "int (str_len (?cut @ newline # newline # ''[focus truncated]'' @ [newline])) \<le> m + 2"
    using assms by (simp only: str_len_append)
  then show ?thesis by (auto simp: cut_focus_def)
qed

text \<open>C40. For a limit \<open>max_focus_chars\<close> of at least eighteen (the program uses 6000) the focus text is bounded, but not
  by the limit: the notice of a cut text is twenty characters long where the code makes room for eighteen, so that the
  text has up to two characters more than \<open>max_focus_chars\<close>. A text within the limit is kept as it is.\<close>

theorem focus_text_bounded:
  assumes "18 \<le> max_chars"
  shows "int (str_len (render_focus max_chars agent n b receipt facts)) \<le> max_chars + 2
    \<and> (int (str_len (strip (join [newline] (focus_lines agent n b receipt facts)) @ [newline])) \<le> max_chars \<longrightarrow>
        render_focus max_chars agent n b receipt facts = strip (join [newline] (focus_lines agent n b receipt facts)) @ [newline])"
  unfolding render_focus_def using cut_length [OF assms] by (auto simp: cut_focus_def)

lemma ascii_chars: "list_all (\<lambda>c. \<not> cont_byte c) s \<Longrightarrow> chars_of s = map (\<lambda>c. [c]) s"
proof (induction s)
  case (Cons c s)
  have "takeWhile cont_byte s = [] \<and> dropWhile cont_byte s = s" using Cons.prems by (cases s) simp_all
  with Cons show ?case by simp
qed simp

definition sample_commit :: stage_commit where
  "sample_commit = \<lparr>sc_team_id = ''t'', sc_user_id = ''u'', sc_session_id = ''s'', sc_task = ''k'', sc_stage_id = ''PLAN'',
     sc_messages = [\<lparr>fm_role = ''user'', fm_content = ''go''\<rparr>], sc_decisions = [''d''], sc_evidence = [], sc_blockers = [],
     sc_next_actions = [], sc_validated_facts = [''f'', ''g'']\<rparr>"

lemma space_ascii: "space [c] \<longleftrightarrow> byte c \<in> {9, 10, 11, 12, 13, 28, 29, 30, 31, 32}"
proof -
  have "[c] = utf8_encode n \<longleftrightarrow> n < 128 \<and> byte c = n" for n
    by (auto simp: utf8_encode_def)
  then have "space [c] \<longleftrightarrow> (\<exists>n \<in> set ([9..<14] @ [28..<33] @ [133, 160, 5760] @ [8192..<8203] @ [8232, 8233, 8239, 8287, 12288]). n < 128 \<and> byte c = n)"
    unfolding space_def spaces_def by (simp only: set_map image_iff)
  also have "\<dots> \<longleftrightarrow> byte c \<in> {9, 10, 11, 12, 13, 28, 29, 30, 31, 32}" by auto
  finally show ?thesis .
qed

lemma ascii_plain: "list_all (\<lambda>c. byte c < 128) s \<Longrightarrow> chars_of s = map (\<lambda>c. [c]) s"
  by (rule ascii_chars) (auto simp: list_all_iff cont_byte_def)

lemma take_ascii: "list_all (\<lambda>c. byte c < 128) s \<Longrightarrow> str_take n s = take n s"
  by (simp add: str_take_def ascii_plain take_map)

lemma strip_ascii:
  assumes "list_all (\<lambda>c. byte c < 128) s" and "s \<noteq> []" and "\<not> space [hd s]" and "\<not> space [List.last s]"
  shows "strip s = s" "strip_end s = s"
proof -
  from assms have "dropWhile space (map (\<lambda>c. [c]) s) = map (\<lambda>c. [c]) s" by (cases s) simp_all
  moreover from assms have "dropWhile space (rev (map (\<lambda>c. [c]) s)) = rev (map (\<lambda>c. [c]) s)"
    by (cases s rule: rev_cases) simp_all
  ultimately show "strip s = s" "strip_end s = s" using ascii_plain [OF assms(1)] by (simp_all add: strip_def strip_end_def)
qed

lemma item_ascii: "\<not> space [c] \<Longrightarrow> byte c < 128 \<Longrightarrow> focus_items [[c]] = [[c]]"
  using strip_ascii(1) [of "[c]"] take_ascii [of "[c]" 500] by (simp add: focus_items_def ascii_plain)

theorem focus_text_bounded_witness:
  "int (str_len (render_focus 40 ''a'' 1 sample_commit ''r'' [''f''])) = 42 \<and> int (str_len (render_focus 40 ''a'' 1 sample_commit ''r'' [''f''])) \<le> 40 + 2"
proof -
  let ?t = "join [newline] (focus_lines ''a'' 1 sample_commit ''r'' [''f''])"
  have items: "focus_items [''f''] = [''f'']" "focus_items [''d''] = [''d'']" "focus_items [] = []"
    by (simp_all add: item_ascii space_ascii) (simp add: focus_items_def)
  have t: "list_all (\<lambda>c. byte c < 128) ?t" "take 22 ?t = ''# Agent Focus'' @ newline # newline # ''> Auto-''" "length ?t > 100" "\<not> space [List.last ?t]"
    "\<not> space [hd ?t]"
    by (simp_all add: focus_lines_def focus_section_def sample_commit_def items newline_def space_ascii dec_int_def dec.simps digit_char_def)
  then have "?t \<noteq> []" by force
  note stripped = strip_ascii(1) [OF t(1) this t(5) t(4)]
  have all: "list_all (\<lambda>c. byte c < 128) (?t @ [newline])" using t(1) by (simp add: newline_def)
  then have long: "str_len (?t @ [newline]) > 40" using t(3) by (simp add: str_len_def list_all_iff filter_True)
  let ?p = "''# Agent Focus'' @ newline # newline # ''> Auto-''"
  have "str_take 22 (?t @ [newline]) = ?p" using take_ascii [OF all, of 22] t(2,3) by simp
  moreover have "strip_end ?p = ?p" by (rule strip_ascii(2)) (simp_all add: newline_def space_ascii)
  ultimately have "cut_focus 40 (?t @ [newline]) = ?p @ newline # newline # ''[focus truncated]'' @ [newline]"
    using long by (simp add: cut_focus_def slice_to_def)
  then have "str_len (render_focus 40 ''a'' 1 sample_commit ''r'' [''f'']) = 42"
    unfolding render_focus_def stripped by (simp add: str_len_def newline_def)
  then show ?thesis using focus_text_bounded [of 40 "''a''" 1 sample_commit "''r''" "[''f'']"] by simp
qed

end
