(* ===== verification/FocusRun.thy ===== *)
theory FocusRun
  imports FocusProps
begin

text \<open>
  Runs of commits: the receipt chain of an agent, the facts of its last stages, and what keeps the memories of the
  agents apart.
\<close>

subsection \<open>Runs\<close>

text \<open>\<open>focus_run C m agent bs M\<close>: the commits of the stages \<open>bs\<close> succeeded, in this order, and left the memory \<open>M\<close>.\<close>

inductive focus_run :: "crypto \<Rightarrow> int \<Rightarrow> string \<Rightarrow> stage_commit list \<Rightarrow> focus_memory \<Rightarrow> bool" for C m agent where
  Fresh: "focus_run C m agent [] empty_focus"
| Commit: "focus_run C m agent bs M \<Longrightarrow> stage_commit_ok b \<Longrightarrow> utf8_valid now \<Longrightarrow>
    commit_focus C m agent now b M = (Inr r, M') \<Longrightarrow> focus_run C m agent (bs @ [b]) M'"

text \<open>The receipts as a hash chain: each covers the agent, the stage, the digest of the payload and its predecessor.\<close>

type_synonym receipt_link = "(string \<times> string \<times> string \<times> string \<times> string \<times> string) \<times> string"

definition link_of :: "commit_row \<Rightarrow> receipt_link" where
  "link_of r = ((cr_team_id r, cr_session_id r, cr_task_id r, cr_stage_id r, cr_payload_sha256 r, cr_previous_sha256 r),
     cr_receipt_sha256 r)"

definition link_previous :: "receipt_link \<Rightarrow> string" where
  "link_previous l = (case l of ((team, session, task, stage, payload, previous), receipt) \<Rightarrow> previous)"

definition link_digest :: "crypto \<Rightarrow> string \<Rightarrow> string \<times> string \<times> string \<times> string \<times> string \<times> string \<Rightarrow> string" where
  "link_digest C agent b = (case b of (team, session, task, stage, payload, previous) \<Rightarrow>
     ladder_sha256 C (receipt_core agent team session task stage payload previous))"

interpretation receipt_chain: hash_chain link_previous snd fst "link_digest C agent" for C agent
  by unfold_locales (simp add: prod_eq_iff)

definition records_stage :: "crypto \<Rightarrow> string \<Rightarrow> stage_commit \<Rightarrow> commit_row \<Rightarrow> bool" where
  "records_stage C agent b r \<longleftrightarrow> cr_team_id r = sc_team_id b \<and> cr_user_id r = sc_user_id b \<and> cr_session_id r = sc_session_id b
     \<and> cr_task_id r = sc_task b \<and> cr_stage_id r = sc_stage_id b
     \<and> cr_payload_json r = json_text '' '' C (payload_of agent (cr_created_at r) b)
     \<and> cr_payload_sha256 r = ladder_sha256 C (payload_of agent (cr_created_at r) b) \<and> utf8_valid (cr_created_at r)"

definition shows_stage :: "crypto \<Rightarrow> commit_row \<Rightarrow> snapshot_row \<Rightarrow> bool" where
  "shows_stage C r f \<longleftrightarrow> sn_sequence f = cr_sequence r \<and> sn_source_receipt f = cr_receipt_sha256 r
     \<and> sn_markdown_sha256 f = ladder_sha256 C (JStr (sn_markdown f))"

definition focus_ok :: "crypto \<Rightarrow> string \<Rightarrow> stage_commit list \<Rightarrow> focus_memory \<Rightarrow> bool" where
  "focus_ok C agent bs M \<longleftrightarrow> list_all2 (records_stage C agent) bs (stage_commits M)
     \<and> map cr_sequence (stage_commits M) = map int [1..<Suc (length bs)]
     \<and> receipt_chain.chain C agent zero_digest (map link_of (stage_commits M))
     \<and> distinct (map cr_receipt_sha256 (stage_commits M))
     \<and> list_all2 (shows_stage C) (stage_commits M) (focus_snapshots M)
     \<and> focus_file M = (if bs = [] then None else Some (sn_markdown (List.last (focus_snapshots M))))"

subsection \<open>The facts read back\<close>

text \<open>The agent's name is a text too.\<close>

lemma payload_plain:
  assumes "stage_commit_ok b" and "utf8_valid agent" and "utf8_valid now"
  shows "float_free (payload_of agent now b)"
  using assms by (simp add: stage_commit_ok_def payload_of_def stage_commit_members_def)

lemma read_facts_back:
  assumes "stage_commit_ok b" and "utf8_valid agent" and "records_stage C agent b r"
  shows "read_facts C r = Inr (sc_validated_facts b)"
proof -
  from assms have plain: "float_free (payload_of agent (cr_created_at r) b)"
    by (intro payload_plain) (simp_all add: records_stage_def)
  let ?kvs = "stage_commit_members b @ [(''agent_id'', JStr agent), (''committed_at'', JStr (cr_created_at r))]"
  have "parse_json_bytes C (cr_payload_json r) = Some (JObj (sorted_members ?kvs))"
    using spaced.parse_text [OF plain] assms(3) by (simp add: records_stage_def payload_of_def sorted_members_def)
  moreover have "dict_get (sorted_members ?kvs) ''validated_facts'' = Some (sorted_json (JList (map JStr (sc_validated_facts b))))"
    by (simp add: dict_get_sorted stage_commit_members_def)
  ultimately show ?thesis
    using strings_back [of "sc_validated_facts b"] by (simp add: read_facts_def)
qed

lemma read_all_back:
  assumes "list_all2 (records_stage C agent) bs rs" and "list_all stage_commit_ok bs" and "utf8_valid agent"
  shows "read_all C rs = Inr (concat (map sc_validated_facts bs))"
  using assms by (induction rule: list_all2_induct) (simp_all add: read_facts_back)

text \<open>
  What the focus is to show, said without the code's loop: each fact of the last eight stages once, at the place of
  its first mention among them, and of that list the last twelve.
\<close>

definition first_mentions :: "'a list \<Rightarrow> 'a list" where
  "first_mentions xs = rev (remdups (rev xs))"

definition recent_facts :: "stage_commit list \<Rightarrow> string list" where
  "recent_facts bs =
     (let facts = first_mentions (concat (map sc_validated_facts (drop (length bs - 8) bs)))
      in drop (length facts - 12) facts)"

lemma add_new_first_mentions: "add_new fs [] = first_mentions fs"
proof (induction fs rule: rev_induct)
  case Nil
  show ?case by (simp add: add_new_def first_mentions_def)
next
  case (snoc f fs)
  have "add_new (fs @ [f]) [] = (if f \<in> set (add_new fs []) then add_new fs [] else add_new fs [] @ [f])"
    by (simp add: add_new_def)
  with snoc show ?case by (simp add: first_mentions_def)
qed

lemma take_last_all2: "list_all2 P xs ys \<Longrightarrow> list_all2 P (take_last n xs) (take_last n ys)"
  using list_all2_lengthD [of P xs ys] by (simp add: take_last_def)

lemma prior_facts_back:
  assumes "list_all2 (records_stage C agent) bs rs" and "list_all stage_commit_ok bs" and "utf8_valid agent"
  shows "prior_facts C rs = Inr (recent_facts bs)"
proof -
  have "list_all stage_commit_ok (take_last 8 bs)"
    using assms(2) by (auto simp: take_last_def list_all_iff dest: in_set_dropD)
  from read_all_back [OF take_last_all2 [OF assms(1)] this assms(3)] show ?thesis
    by (simp add: prior_facts_def recent_facts_def Let_def add_new_first_mentions) (simp add: take_last_def)
qed

subsection \<open>One commit\<close>

lemma new_commit:
  fixes C :: crypto and m :: int
  assumes "focus_ok C agent bs M" and "list_all stage_commit_ok bs" and "stage_commit_ok b" and "utf8_valid agent" and "utf8_valid now"
  defines "r \<equiv> make_commit C agent now b M"
  defines "markdown \<equiv> render_focus m agent (int (length bs) + 1) b (cr_receipt_sha256 r) (recent_facts (bs @ [b]))"
  shows "records_stage C agent b r" and "cr_sequence r = int (length bs) + 1"
    and "commit_focus C m agent now b M =
      (if cr_receipt_sha256 r \<in> set (map cr_receipt_sha256 (stage_commits M)) then (Inl (IntegrityError ''receipt_sha256''), M)
       else (Inr \<lparr>cp_agent_id = agent, cp_sequence = cr_sequence r, cp_stage_id = sc_stage_id b,
               cp_payload_sha256 = cr_payload_sha256 r, cp_previous_sha256 = cr_previous_sha256 r,
               cp_receipt_sha256 = cr_receipt_sha256 r, cp_markdown_sha256 = ladder_sha256 C (JStr markdown),
               cp_raw_context_chars = sum_list (map (\<lambda>m. int (str_len (fm_content m))) (sc_messages b)),
               cp_focus_chars = int (str_len markdown)\<rparr>,
             M\<lparr>stage_commits := stage_commits M @ [r],
               conversation := conversation M @ conversation_rows (cr_sequence r) (sc_messages b),
               focus_snapshots := focus_snapshots M @ [\<lparr>sn_sequence = cr_sequence r, sn_markdown = markdown,
                 sn_markdown_sha256 = ladder_sha256 C (JStr markdown), sn_source_receipt = cr_receipt_sha256 r\<rparr>],
               focus_file := Some markdown\<rparr>))"
proof -
  have len: "length (stage_commits M) = length bs" using assms(1) by (auto simp: focus_ok_def dest: list_all2_lengthD)
  show recorded: "records_stage C agent b r"
    using assms(5) by (simp add: records_stage_def r_def make_commit_def Let_def)
  have "next_commit_sequence M = int (length bs) + 1"
  proof (cases "bs = []")
    case False
    with len have ne: "stage_commits M \<noteq> []" by auto
    then have "cr_sequence (List.last (stage_commits M)) = List.last (map cr_sequence (stage_commits M))" by (simp add: last_map)
    also have "\<dots> = int (length bs)"
    proof -
      have "Suc 0 \<le> length bs" using False by (cases bs) simp_all
      then show ?thesis using assms(1) by (simp add: focus_ok_def)
    qed
    finally show ?thesis using ne by (simp add: next_commit_sequence_def)
  qed (use len in \<open>simp add: next_commit_sequence_def\<close>)
  then show seq: "cr_sequence r = int (length bs) + 1" by (simp add: r_def make_commit_def Let_def)
  have "prior_facts C (stage_commits M @ [r]) = Inr (recent_facts (bs @ [b]))"
    by (rule prior_facts_back) (use assms(1-4) recorded in \<open>simp_all add: focus_ok_def list_all2_appendI\<close>)
  then show "commit_focus C m agent now b M =
      (if cr_receipt_sha256 r \<in> set (map cr_receipt_sha256 (stage_commits M)) then (Inl (IntegrityError ''receipt_sha256''), M)
       else (Inr \<lparr>cp_agent_id = agent, cp_sequence = cr_sequence r, cp_stage_id = sc_stage_id b,
               cp_payload_sha256 = cr_payload_sha256 r, cp_previous_sha256 = cr_previous_sha256 r,
               cp_receipt_sha256 = cr_receipt_sha256 r, cp_markdown_sha256 = ladder_sha256 C (JStr markdown),
               cp_raw_context_chars = sum_list (map (\<lambda>m. int (str_len (fm_content m))) (sc_messages b)),
               cp_focus_chars = int (str_len markdown)\<rparr>,
             M\<lparr>stage_commits := stage_commits M @ [r],
               conversation := conversation M @ conversation_rows (cr_sequence r) (sc_messages b),
               focus_snapshots := focus_snapshots M @ [\<lparr>sn_sequence = cr_sequence r, sn_markdown = markdown,
                 sn_markdown_sha256 = ladder_sha256 C (JStr markdown), sn_source_receipt = cr_receipt_sha256 r\<rparr>],
               focus_file := Some markdown\<rparr>))"
    using seq by (simp add: commit_focus_def Let_def r_def [symmetric] markdown_def)
qed

lemma head_links: "receipt_chain.head zero_digest (map link_of (stage_commits M)) = last_receipt M"
  by (simp add: receipt_chain.head_def last_receipt_def last_map link_of_def)

lemma link_make_commit:
  "link_previous (link_of (make_commit C agent now b M)) = last_receipt M"
  "snd (link_of (make_commit C agent now b M)) = link_digest C agent (fst (link_of (make_commit C agent now b M)))"
  by (simp_all add: link_previous_def link_digest_def link_of_def make_commit_def Let_def)

lemma focus_run_ok:
  assumes "focus_run C m agent bs M" and "utf8_valid agent"
  shows "focus_ok C agent bs M \<and> list_all stage_commit_ok bs"
  using assms(1)
proof induction
  case Fresh
  then show ?case by (simp add: focus_ok_def empty_focus_def)
next
  case (Commit bs M b now r M')
  from Commit.IH have ok: "focus_ok C agent bs M" "list_all stage_commit_ok bs" by simp_all
  note new = new_commit [OF ok Commit.hyps(2) assms(2) Commit.hyps(3)]
  let ?r = "make_commit C agent now b M"
  from new(3) Commit.hyps(4) have fresh: "cr_receipt_sha256 ?r \<notin> set (map cr_receipt_sha256 (stage_commits M))"
    by (auto split: if_splits)
  let ?markdown = "render_focus m agent (int (length bs) + 1) b (cr_receipt_sha256 ?r) (recent_facts (bs @ [b]))"
  define f where "f = \<lparr>sn_sequence = cr_sequence ?r, sn_markdown = ?markdown,
    sn_markdown_sha256 = ladder_sha256 C (JStr ?markdown), sn_source_receipt = cr_receipt_sha256 ?r\<rparr>"
  from new(3) [of m] Commit.hyps(4) fresh have "M' = M\<lparr>stage_commits := stage_commits M @ [?r],
      conversation := conversation M @ conversation_rows (cr_sequence ?r) (sc_messages b),
      focus_snapshots := focus_snapshots M @ [f], focus_file := Some ?markdown\<rparr>" by (simp add: f_def)
  then have M': "stage_commits M' = stage_commits M @ [?r]" "focus_snapshots M' = focus_snapshots M @ [f]"
    "shows_stage C ?r f" "focus_file M' = Some (sn_markdown f)" by (simp_all add: shows_stage_def f_def)
  have "map cr_sequence (stage_commits M') = map int [1..<Suc (length (bs @ [b]))]"
    using ok(1) new(2) by (simp add: M'(1) focus_ok_def)
  moreover have "receipt_chain.chain C agent zero_digest (map link_of (stage_commits M'))"
    using ok(1) by (simp add: M'(1) focus_ok_def receipt_chain.chain_snoc head_links link_make_commit)
  moreover have "list_all2 (records_stage C agent) (bs @ [b]) (stage_commits M')"
    using ok(1) new(1) by (simp add: M'(1) focus_ok_def list_all2_appendI)
  moreover have "list_all2 (shows_stage C) (stage_commits M') (focus_snapshots M')"
    using ok(1) M'(3) by (simp add: M'(1,2) focus_ok_def list_all2_appendI)
  ultimately show ?case
    using ok fresh Commit.hyps(2) M' by (simp add: focus_ok_def)
qed

subsection \<open>The memory of one agent\<close>

lemma shown_sequences: "list_all2 (shows_stage C) rs fs \<Longrightarrow> map sn_sequence fs = map cr_sequence rs"
  by (induction rule: list_all2_induct) (simp_all add: shows_stage_def)

lemma absent_sequence:
  assumes "list_all2 (shows_stage C) rs fs" and "n \<notin> set (map cr_sequence rs)"
  shows "filter (\<lambda>f. sn_sequence f = n) fs = []"
  using assms(2) unfolding shown_sequences [OF assms(1), symmetric] by (auto simp: filter_empty_conv)

lemma read_rows:
  assumes "list_all2 (shows_stage C) rs fs" and "distinct (map cr_sequence (us @ rs))" and "list_all2 (shows_stage C) us gs"
  shows "concat (map (\<lambda>s. map (Pair s) (filter (\<lambda>f. sn_sequence f = cr_sequence s) (gs @ fs))) rs) = zip rs fs"
  using assms
proof (induction arbitrary: us gs rule: list_all2_induct)
  case (Cons r rs f fs)
  have none: "filter (\<lambda>g. sn_sequence g = cr_sequence r) gs = []" "filter (\<lambda>g. sn_sequence g = cr_sequence r) fs = []"
    using Cons.prems(1) absent_sequence [OF Cons.prems(2), of "cr_sequence r"] absent_sequence [OF Cons.hyps(2), of "cr_sequence r"]
    by simp_all
  have "concat (map (\<lambda>s. map (Pair s) (filter (\<lambda>f. sn_sequence f = cr_sequence s) ((gs @ [f]) @ fs))) rs) = zip rs fs"
    by (rule Cons.IH [of "us @ [r]"]) (use Cons.prems Cons.hyps in \<open>simp_all add: list_all2_appendI\<close>)
  then show ?case using none Cons.hyps(1) by (simp add: shows_stage_def)
qed simp

lemma read_focus_latest:
  assumes "focus_ok C agent bs M"
  shows "read_focus M = (if bs = [] then None else Some (List.last (stage_commits M), List.last (focus_snapshots M)))"
proof -
  from assms have rows: "list_all2 (shows_stage C) (stage_commits M) (focus_snapshots M)"
    and seq: "map cr_sequence (stage_commits M) = map int [1..<Suc (length bs)]"
    and len: "length bs = length (stage_commits M)" by (auto simp: focus_ok_def dest: list_all2_lengthD)
  have "distinct (map cr_sequence ([] @ stage_commits M))" unfolding append_Nil seq by (simp add: distinct_map inj_on_def del: upt_Suc)
  from read_rows [OF rows this list_all2_Nil [THEN iffD2], of "[]"]
  have "read_focus M = (if zip (stage_commits M) (focus_snapshots M) = [] then None else Some (List.last (zip (stage_commits M) (focus_snapshots M))))"
    by (simp add: read_focus_def Let_def)
  moreover have "length (stage_commits M) = length (focus_snapshots M)" using rows by (rule list_all2_lengthD)
  ultimately show ?thesis using len by (cases "bs = []") (auto simp: last_zip)
qed

text \<open>The private memory of an agent is a receipt chain. After any commits the rows are numbered from one, in the order
  of the stages, each holds the payload of its stage with its digest, and each receipt covers the agent, the stage, the
  payload and the receipt before it; no receipt occurs twice. Every commit has one focus text, bound to its receipt, and
  both \<open>FOCUS.md\<close> and \<open>read\<close> show the latest one.\<close>

theorem focus_memory_sound:
  assumes "focus_run C m agent bs M" and "utf8_valid agent"
  shows "list_all2 (records_stage C agent) bs (stage_commits M)
    \<and> map cr_sequence (stage_commits M) = map int [1..<Suc (length bs)]
    \<and> receipt_chain.chain C agent zero_digest (map link_of (stage_commits M))
    \<and> distinct (map cr_receipt_sha256 (stage_commits M))
    \<and> list_all2 (shows_stage C) (stage_commits M) (focus_snapshots M)
    \<and> focus_file M = (if bs = [] then None else Some (sn_markdown (List.last (focus_snapshots M))))
    \<and> read_focus M = (if bs = [] then None else Some (List.last (stage_commits M), List.last (focus_snapshots M)))"
  using focus_run_ok [OF assms] read_focus_latest [of C agent bs M] by (simp add: focus_ok_def)

lemma sample_commit_ok: "stage_commit_ok sample_commit"
  by (simp add: stage_commit_ok_def sample_commit_def stage_commit_members_def text_ok_def str_len_def focus_message_ok_def
    focus_message_json_def)

lemma sample_run: "\<exists>r M. commit_focus constant_hash focus_limit ''a'' ''now'' sample_commit empty_focus = (Inr r, M)
    \<and> focus_run constant_hash focus_limit ''a'' [sample_commit] M"
proof -
  have ok: "focus_ok constant_hash ''a'' [] empty_focus" by (simp add: focus_ok_def empty_focus_def)
  have "\<exists>r M. commit_focus constant_hash focus_limit ''a'' ''now'' sample_commit empty_focus = (Inr r, M)"
    using new_commit(3) [OF ok _ sample_commit_ok, of "''now''" focus_limit] by (simp add: empty_focus_def)
  moreover have "utf8_valid ''now''" by simp
  ultimately show ?thesis using Commit [OF Fresh sample_commit_ok] by fastforce
qed

theorem focus_memory_sound_witness:
  "\<exists>M. focus_run constant_hash focus_limit ''a'' [sample_commit] M \<and> map cr_sequence (stage_commits M) = [1]
    \<and> read_focus M \<noteq> None"
proof -
  from sample_run obtain M where "focus_run constant_hash focus_limit ''a'' [sample_commit] M" by blast
  with focus_memory_sound [OF this] show ?thesis by (intro exI [of _ M]) simp
qed

subsection \<open>What a commit does\<close>

context hash_chain
begin

lemma chain_nth: "chain p es \<Longrightarrow> i < length es \<Longrightarrow> prev (es ! i) = (if i = 0 then p else own (es ! (i - 1)))"
  by (induction es arbitrary: p i) (auto simp: nth_Cons split: nat.splits)

lemma chain_own: "chain p es \<Longrightarrow> e \<in> set es \<Longrightarrow> own e = digest (body e)"
  by (induction es arbitrary: p) auto

text \<open>A new entry with the hash of an old one is a collision, unless some hash is the one that the chain starts from.\<close>

lemma repeated_own:
  assumes "chain p (es @ [e])" and "distinct (map own es)" and "own e \<in> set (map own es)"
  shows "(\<exists>f \<in> set es. body f \<noteq> body e \<and> digest (body f) = digest (body e)) \<or> p \<in> set (map own es)"
proof -
  from assms(3) obtain i where i: "i < length es" "own (es ! i) = own e" by (auto simp: in_set_conv_nth)
  from assms(1) have chain: "chain p es" "prev e = head p es" "own e = digest (body e)" by (simp_all add: chain_snoc)
  then have digests: "digest (body (es ! i)) = digest (body e)" using chain_own [OF chain(1), of "es ! i"] i by simp
  show ?thesis
  proof (cases "body (es ! i) = body e")
    case False
    with digests i(1) show ?thesis by (meson nth_mem)
  next
    case True
    with i(2) have "es ! i = e" by (intro body_own_inj)
    then have "own (last es) = (if i = 0 then p else own (es ! (i - 1)))"
      using chain(2) chain_nth [OF chain(1) i(1)] i(1) by (auto simp: head_def split: if_splits)
    moreover have "last es = es ! (length es - 1)" using i(1) by (intro last_conv_nth) auto
    moreover have "own (es ! (length es - 1)) \<noteq> own (es ! (i - 1))" if "i \<noteq> 0"
      using that i(1) nth_eq_iff_index_eq [OF assms(2), of "length es - 1" "i - 1"] by simp
    ultimately have "p = own (es ! (length es - 1))" by (auto split: if_splits)
    then show ?thesis using i(1) by simp
  qed
qed

end




subsection \<open>All agents\<close>

text \<open>
  \<open>agents_run C H R\<close>: requests of any agents, each with any remote memory behind it, left the memories \<open>R\<close>, and \<open>H\<close> lists
  the stages that were committed.
\<close>

inductive agents_run :: "crypto \<Rightarrow> (string \<times> stage_commit) list \<Rightarrow> agent_memories \<Rightarrow> bool" for C where
  No_agent: "agents_run C [] []"
| Stage: "agents_run C H R \<Longrightarrow> stage_commit_ok b \<Longrightarrow> utf8_valid agent \<Longrightarrow> utf8_valid now \<Longrightarrow>
    commit_stage C T agent now sync b R = (r, R') \<Longrightarrow>
    H' = (case fst (commit_agent C agent now b R) of Inl e \<Rightarrow> H | Inr c \<Rightarrow> H @ [(agent, b)]) \<Longrightarrow> agents_run C H' R'"

text \<open>Whatever the remote memory answers, the local commit stands.\<close>

lemma commit_stage_local: "snd (commit_stage C T agent now sync b R) = snd (commit_agent C agent now b R)"
  by (auto simp: commit_stage_def split: prod.splits sum.splits option.splits)

lemma commit_agent_memory:
  assumes "commit_agent C agent now b R = (r, R')"
  shows "commit_focus C focus_limit agent now b (memory_of C agent R) = (r, memory_of C agent R')"
    "safe_agent_dir C a \<noteq> safe_agent_dir C agent \<Longrightarrow> memory_of C a R' = memory_of C a R"
  using assms by (auto simp: commit_agent_def memory_of_def dict_get_set split: prod.splits)

lemma commit_focus_error: "commit_focus C m agent now b M = (Inl e, M') \<Longrightarrow> M' = M"
  by (auto simp: commit_focus_def Let_def split: if_splits sum.splits)

lemma same_directory:
  assumes "\<And>s. length (sha256 C s) = 64" and "safe_agent_dir C a = safe_agent_dir C b"
  shows "take 8 (ladder_sha256 C (JStr a)) = take 8 (ladder_sha256 C (JStr b))"
proof -
  have "\<exists>n. safe_agent_dir C x = n @ ''-'' @ take 8 (ladder_sha256 C (JStr x))" for x
    by (simp add: safe_agent_dir_def Let_def)
  then obtain n k where dirs: "safe_agent_dir C a = n @ ''-'' @ take 8 (ladder_sha256 C (JStr a))"
    "safe_agent_dir C b = k @ ''-'' @ take 8 (ladder_sha256 C (JStr b))" by blast
  have "length (''-'' @ take 8 (ladder_sha256 C (JStr a))) = length (''-'' @ take 8 (ladder_sha256 C (JStr b)))"
    using assms(1) by (simp add: ladder_sha256_def)
  from append_eq_append_conv [OF disjI2, OF this, of n k] dirs assms(2) show ?thesis by simp
qed

text \<open>C39. Agents do not share a memory. The memory of an agent is what its own committed stages, in order, leave in a
  fresh one, whatever other agents committed in between and whatever the remote memory answered; otherwise another
  agent has committed whose name agrees with it in the first eight digits of its SHA-256 digest, because only
  these digits tell two agents with the same readable name apart.\<close>

theorem agents_isolated:
  assumes "agents_run C H R" and "\<And>s. length (sha256 C s) = 64"
  shows "focus_run C focus_limit a (map snd (filter (\<lambda>h. fst h = a) H)) (memory_of C a R)
    \<or> (\<exists>b \<in> fst ` set H. b \<noteq> a \<and> take 8 (ladder_sha256 C (JStr b)) = take 8 (ladder_sha256 C (JStr a)))"
  using assms(1)
proof induction
  case No_agent
  then show ?case by (simp add: memory_of_def focus_run.Fresh)
next
  case (Stage H R b agent now T sync r R' H')
  obtain c R'' where run: "commit_agent C agent now b R = (c, R'')" by force
  then have R': "R'' = R'" using commit_stage_local [of C T agent now sync b R] Stage.hyps(5) by simp
  note local = commit_agent_memory [OF run [unfolded R']]
  show ?case
  proof (cases c)
    case (Inl e)
    with local(1) have "memory_of C agent R' = memory_of C agent R" by (auto dest: commit_focus_error)
    then have "memory_of C a R' = memory_of C a R"
      using local(2) [of a] by (cases "safe_agent_dir C a = safe_agent_dir C agent") (simp_all add: memory_of_def)
    with Stage.IH Inl show ?thesis by (simp add: Stage.hyps(6) run)
  next
    case (Inr x)
    then have H': "H' = H @ [(agent, b)]" by (simp add: Stage.hyps(6) run)
    consider "a = agent" | "a \<noteq> agent" "safe_agent_dir C a \<noteq> safe_agent_dir C agent"
      | "a \<noteq> agent" "safe_agent_dir C agent = safe_agent_dir C a" by fastforce
    then show ?thesis
    proof cases
      case 1
      from Stage.IH show ?thesis
      proof
        assume "focus_run C focus_limit a (map snd (filter (\<lambda>h. fst h = a) H)) (memory_of C a R)"
        from focus_run.Commit [OF this [unfolded 1] Stage.hyps(2,4) local(1) [unfolded Inr]]
        show ?thesis by (simp add: H' 1)
      qed (simp add: H')
    next
      case 2
      with Stage.IH local(2) show ?thesis by (auto simp: H')
    next
      case 3
      from same_directory [OF assms(2) this(2)] this(1) show ?thesis by (intro disjI2 bexI [of _ agent]) (simp_all add: H')
    qed
  qed
qed

theorem agents_isolated_witness:
  "\<exists>H R. agents_run constant_hash H R \<and> map fst H = [''a'']
    \<and> focus_run constant_hash focus_limit ''a'' [sample_commit] (memory_of constant_hash ''a'' R)"
proof -
  let ?T = "\<lparr>rm_configured = False, rm_space_id = [], rm_post = (\<lambda>p b. Inl (RuntimeError ''closed''))\<rparr>"
  obtain c M where focus: "commit_focus constant_hash focus_limit ''a'' ''now'' sample_commit empty_focus = (Inr c, M)"
    using sample_run by blast
  then have commit: "commit_agent constant_hash ''a'' ''now'' sample_commit [] = (Inr c, [(safe_agent_dir constant_hash ''a'', M)])"
    by (simp add: commit_agent_def memory_of_def)
  obtain r R where stage: "commit_stage constant_hash ?T ''a'' ''now'' None sample_commit [] = (r, R)" by force
  have texts: "utf8_valid ''a''" "utf8_valid ''now''" by simp_all
  have run: "agents_run constant_hash [(''a'', sample_commit)] R"
    by (rule Stage [OF No_agent sample_commit_ok texts stage]) (simp add: commit)
  have "length (sha256 constant_hash s) = 64" for s by (simp add: zero_digest_def)
  from agents_isolated [OF run this, of "''a''"] run show ?thesis by (intro exI [of _ "[(''a'', sample_commit)]"] exI [of _ R]) simp
qed

end
