(* ===== verification/Spec2Isabelle.thy ===== *)
theory Spec2Isabelle
  imports BudgetSpec BrokerSpec JsonRoundtrip ChannelProps ServiceInstances RxpProps MemoryProps ResearchProps FocusRun
begin

text \<open>
  A verification library for the EgoAgentOS infrastructure: the control plane that drives research tasks
  through approvals and evidence, its trusted memory, the RXP execution protocol and the measured substrate of the
  secure-memory benchmark. The program is Python; every definition is a translation of a function, class or table of the source.

  \<^bold>\<open>The program and its parts.\<close>

  \<^item> The control plane (\<open>apps/api\<close>) keeps tasks, approvals, evidence, memories and an audit log in SQLite. The
    service moves a task through the stages of a lifecycle; entering \<open>EXECUTE\<close> consumes an unexpired human approval
    of exactly the action contract, entering \<open>DECIDE\<close> passes the evidence gate, finishing writes a reviewed memory.
    HTTP requests that change something are idempotent by key.
  \<^item> The trusted memory (\<open>apps/api/trusted_memory\<close>, \<open>internal_finalizer.py\<close> and the streams of \<open>store.py\<close>) turns a terminal
    decision and a signed, admitted evaluator result into a decision closure and facts, appends them to one
    hash-chained stream per lineage with a current projection, and answers retrievals, capsules and focus queries from
    the facts that nothing has revoked, superseded or put in conflict.
  \<^item> The research OS (\<open>apps/api/research_os\<close>) compiles a research input into a tree and a matrix of experiments, reviews the
    resources of a plan for it, and keeps a private memory with a receipt chain and a focus text for every agent.
  \<^item> The RXP protocol (\<open>protocols/rxp\<close>) records the execution of a frozen matrix of experiments in an append-only
    ledger of intents, signed grants, receipts, evidence and decisions. An offline verifier replays a snapshot.
  \<^item> The substrate (\<open>benchmarks/secure_memory\<close>): a budget ledger that reserves, settles and retains provider calls
    under fixed campaign caps; a broker that sends only what the ledger has reserved; an authenticated channel
    that numbers the frames of a run and answers a repeated frame with its recorded receipt; canonical JSON and
    domain-separated digests under all of them.

  \<^bold>\<open>Theories and the code they model.\<close>

  \<^item> \<open>Prelude\<close>: the state and exception monad of the models (\<open>bindE\<close>, \<open>raiseE\<close>, \<open>wp\<close>), association lists as
    Python dictionaries, bounded strings, collections of lemmas. \<open>Interfaces\<close>: event-sourced objects and hash chains
    as locales. \<open>Canonical\<close>, \<open>JsonParse\<close>, \<open>JsonRoundtrip\<close>: \<open>canonical.py\<close>, rendering, strict parsing, the round
    trip and the binding of digests. \<open>JsonRead\<close>: reading a Pydantic model from a JSON value.
  \<^item> \<open>SecureModels\<close>, \<open>Budget\<close>, \<open>BudgetReplay\<close>: \<open>substrate/budget.py\<close>. The record \<open>ledger\<close> holds the fields of
    \<open>BudgetLedger\<close>; \<open>reserve\<close>, \<open>reserve_retry\<close>, \<open>mark_dispatched\<close>, \<open>settle\<close>, \<open>retain\<close> and \<open>replay\<close> are its methods.
    \<open>BudgetInv\<close> shows that every operation is the replay of the one event that it appends; \<open>BudgetSpec\<close> has the
    caps, the life cycle of a ticket, the accounting, exact replay and tamper evidence.
  \<^item> \<open>Broker\<close>, \<open>BrokerSpec\<close>: \<open>substrate/broker.py\<close>, the capability authority and both attempts of \<open>dispatch\<close> over
    the ledger and a transport. A call is sent only on a dispatched reservation, which ends settled or retained unless the
    transport fails with a kind that the ledger does not accept; a frozen capability is final.
  \<^item> \<open>Channel\<close>, \<open>ChannelSpec\<close>, \<open>ChannelProps\<close>: \<open>substrate/channel.py\<close>, the frame codec, the MAC, the durable receipt
    store with its claim windows. Concurrent callers are the interleaved steps of \<open>channel_step\<close>. \<open>encode\<close> does not
    bound the frame, so its receiver admits what is within \<open>max_frame_bytes\<close> and refuses the rest.
  \<^item> \<open>Domain\<close>, \<open>StateMachine\<close>, \<open>Policy\<close>, \<open>Evidence\<close>, \<open>Store\<close>, \<open>Service\<close>: \<open>models.py\<close>, \<open>state_machine.py\<close>, \<open>policy.py\<close>,
    \<open>evidence.py\<close> with \<open>memory.py\<close> and \<open>evaluator.py\<close>, \<open>store.py\<close> and \<open>service.py\<close> with the idempotency wrapper of
    \<open>main.py\<close>. \<open>control_db\<close> has one field per table; a transaction restores it when its body raises.
  \<^item> \<open>Changes\<close> states once what a call can do to the database: guarded single-row changes. The locales
    \<open>guarded_changes\<close>, \<open>stage_entry\<close>, \<open>call_invariant\<close> and \<open>change_invariant\<close> carry an invariant from the changes
    to every reachable state. \<open>ServiceAudit\<close> instantiates them with the audit log and with growth of the tables,
    \<open>ServiceInv\<close>, \<open>ServiceSteps\<close>, \<open>ServiceMoves\<close> and \<open>ServiceCalls\<close> with the invariant of tasks, approvals and
    memories. \<open>ServiceProps\<close> reads the guarantees off; \<open>ServiceRun\<close> follows the demo to its end and
    \<open>ServiceInstances\<close> applies the guarantees to that run.
  \<^item> \<open>ModelFields\<close>, \<open>MemoryModels\<close>, \<open>MemoryStore\<close>, \<open>MemoryAdmission\<close>, \<open>MemoryClosure\<close>, \<open>MemoryRetrieval\<close>: the wire models of
    \<open>trusted_memory/models.py\<close> with their validators and readers; the tables and the append of \<open>store.py\<close> with nested
    transactions (\<open>memory_tables\<close>, \<open>append_memory_record\<close>), stream verification; \<open>scanner.py\<close>, \<open>admission.py\<close> and
    \<open>evaluator_channel.py\<close>; \<open>closure.py\<close>, \<open>lifecycle.py\<close> and \<open>finalize_memory\<close> for the internal finalizer; \<open>retrieval.py\<close>,
    \<open>capsule.py\<close> and the focus service.
  \<^item> \<open>MemoryReadBack\<close> shows that a fact reads back from the bytes the store wrote. \<open>MemoryInv\<close> states the abstract machine
    of records of one lineage, \<open>MemoryRun\<close> that the tables refine it in every session that appends, finalizations and
    other database calls reach. \<open>MemoryVerify\<close> characterises the verification of a stream, \<open>MemoryReads\<close> what the readers
    return, \<open>MemoryFinal\<close> what a finalization establishes. \<open>MemoryDemo\<close> and \<open>MemoryFinalDemo\<close> append and finalize one
    fact; \<open>MemoryProps\<close> states the properties.
  \<^item> \<open>RxpCanonical\<close>, \<open>RxpModels\<close>, \<open>RxpDocuments\<close>, \<open>RxpGrants\<close>, \<open>RxpLedger\<close>, \<open>RxpVerify\<close>: \<open>canonical.py\<close>, \<open>models.py\<close>,
    \<open>grants.py\<close>, \<open>evidence.py\<close> and \<open>ledger.py\<close> of the protocol. \<open>matrix_ledger\<close> holds the fields of \<open>MatrixLedger\<close>,
    \<open>verify_state\<close> the variables of \<open>verify_ledger_document\<close>; the replay registry is the locale \<open>replay_registry\<close>
    with the in-memory and the SQLite registry as interpretations.
  \<^item> \<open>RxpCanon\<close> and \<open>RxpSim\<close> relate the online ledger to the variables of the verifier, \<open>RxpInv\<close> and \<open>RxpRun\<close> carry the
    relation through every operation. The relation is shown for calls on plain documents (\<open>plain_document\<close>: texts in NFC
    and valid UTF-8, distinct keys, 64-bit integers, no floats) and a plan frozen at a real date, which the code does not
    enforce; \<open>RxpRun\<close> says what goes wrong without. \<open>RxpTyped\<close> shows the snapshot valid, \<open>RxpSound\<close> reads off what an accepted
    document proves, \<open>RxpTotal\<close> that appending cannot fail after the grant is consumed. \<open>RxpDemo\<close> and \<open>RxpDemoRun\<close>
    run one cell from its plan to its decision; \<open>RxpProps\<close> states the properties.

  \<^item> \<open>ResearchModels\<close>, \<open>ResearchLadder\<close>, \<open>FocusMemory\<close>: \<open>models.py\<close>; \<open>ladder.py\<close>, \<open>resource_reviewer.py\<close> and the compilation in
    \<open>service.py\<close>; \<open>agent_memory.py\<close>, \<open>tencent_memory.py\<close> and \<open>commit_stage\<close>. \<open>ResearchProps\<close> shows that the tree is the proposal
    with a number at every node, that the matrix is the full product, and when the gate opens; \<open>FocusProps\<close> bounds the
    focus text; \<open>FocusRun\<close> has the receipt chain of an agent, the facts that come back (of the last eight stages, each at
    its first mention, the last twelve), and the isolation of agents.

  \<^bold>\<open>How the code is represented.\<close> Methods that raise return \<open>error + result\<close> beside the state they leave, so that
  what is left behind by an error is visible. Dictionaries are association lists in insertion order. Integers
  are unbounded, as in Python, with the bounds of the validators and of SQLite written out. Times are seconds
  in the RXP protocol and microseconds in the control plane. Loops of the source are structural recursion; the automatic run has
  the bound of twenty steps that the source has, and \<open>autorun_terminates\<close> shows that the bound is never what
  stops it. Threads are interleavings of atomic steps, one per critical section of the source.

  \<^bold>\<open>Parameters.\<close> SHA-256, HMAC, signature verification, random tokens, clocks, Unicode normalisation, the parsing of
  dates by \<open>datetime\<close>, the provider transport, the scanner and the numerics of the evaluator are fields of environment records
  (\<open>crypto\<close>, \<open>broker_env\<close>, \<open>api_env\<close>, \<open>rxp_env\<close>, \<open>ingress_env\<close>, \<open>research_env\<close>), and so is the JSON parser of Pydantic in \<open>reader_env\<close>. Where a property needs collision freedom of SHA-256 its conclusion
  names the alternative, a collision between two values at hand; the hypotheses on the others state their documented
  format and are instantiated in the witnesses.

  \<^bold>\<open>Not modelled.\<close> The AgentTeams bridge, expert runs and the benchmark runner: they project, forward and measure what the
  modelled parts decide, over HTTP services, files and processes. The PostgreSQL store is a second driver of
  the operations modelled on SQLite. Routes, middleware, sockets, subprocesses, MCP servers, packaging and
  deployment are input and output. Error messages and details beside the error codes are dropped.
\<close>

end
